(* ===== verification/JsPrelude.thy ===== *)
theory JsPrelude
  imports Complex_Main "HOL-Library.Multiset"
begin

text \<open>
  The JavaScript values and the part of the language and its standard library that the console
  uses: numbers, strings, arrays and plain objects, the coercions \<open>Number(v)\<close>, \<open>String(v)\<close> and
  truthiness, the operators \<open>||\<close> and \<open>??\<close>, property reads, object spread, and the stable
  \<open>Array.prototype.sort\<close>. Every other theory is written over these definitions.

  Idealisations. A finite double is an exact rational: rounding of double arithmetic, the sign of
  zero and overflow to infinity are not modelled. A string is a list of code units below 256
  (Latin-1), on which trimming, case mapping and splitting are exact; a literal of the source
  outside that range (an arrow, a dash) is written as its UTF-8 bytes and only ever occurs in
  output. Plain objects are association lists in insertion order and have no prototype chain.
\<close>

section \<open>Hint collections\<close>

named_theorems js_simps \<open>evaluation of coercions, property reads and string operations\<close>

section \<open>Characters and strings\<close>

abbreviation code_unit :: "char \<Rightarrow> int" where
  "code_unit c \<equiv> of_char c"

definition is_js_space :: "char \<Rightarrow> bool" where
  "is_js_space c \<longleftrightarrow> (let n = code_unit c in (9 \<le> n \<and> n \<le> 13) \<or> n = 32 \<or> n = 160)"

definition js_trim :: "string \<Rightarrow> string" where
  "js_trim s = rev (dropWhile is_js_space (rev (dropWhile is_js_space s)))"

definition char_lower :: "char \<Rightarrow> char" where
  "char_lower c = (let n = code_unit c in
     if (65 \<le> n \<and> n \<le> 90) \<or> (192 \<le> n \<and> n \<le> 222 \<and> n \<noteq> 215) then char_of (n + 32) else c)"

definition js_lower :: "string \<Rightarrow> string" where
  "js_lower s = map char_lower s"

fun starts_with :: "string \<Rightarrow> string \<Rightarrow> bool" where
  "starts_with [] s = True"
| "starts_with (x # xs) [] = False"
| "starts_with (x # xs) (y # ys) = (x = y \<and> starts_with xs ys)"

fun js_includes :: "string \<Rightarrow> string \<Rightarrow> bool" where
  "js_includes p [] = (p = [])"
| "js_includes p (c # cs) = (starts_with p (c # cs) \<or> js_includes p cs)"

text \<open>\<open>s.split(/[seps]/)\<close>: cut at every character of the class; adjacent cuts give empty pieces.\<close>

fun js_split :: "(char \<Rightarrow> bool) \<Rightarrow> string \<Rightarrow> string list" where
  "js_split p [] = [[]]"
| "js_split p (c # cs) =
     (if p c then [] # js_split p cs
      else (case js_split p cs of [] \<Rightarrow> [[c]] | w # ws \<Rightarrow> (c # w) # ws))"

fun js_join :: "string \<Rightarrow> string list \<Rightarrow> string" where
  "js_join sep [] = []"
| "js_join sep [x] = x"
| "js_join sep (x # y # zs) = x @ sep @ js_join sep (y # zs)"

text \<open>\<open>s.indexOf(c)\<close> for a one-character needle, as an option.\<close>

fun index_of_char :: "char \<Rightarrow> string \<Rightarrow> nat option" where
  "index_of_char c [] = None"
| "index_of_char c (x # xs) = (if x = c then Some 0 else map_option Suc (index_of_char c xs))"

section \<open>Numbers\<close>

datatype jsnum = Fin rat | PInf | NInf | NaN

fun is_finite :: "jsnum \<Rightarrow> bool" where
  "is_finite (Fin q) = True"
| "is_finite _ = False"

fun num_neg :: "jsnum \<Rightarrow> jsnum" where
  "num_neg (Fin a) = Fin (- a)"
| "num_neg PInf = NInf"
| "num_neg NInf = PInf"
| "num_neg NaN = NaN"

fun num_add :: "jsnum \<Rightarrow> jsnum \<Rightarrow> jsnum" where
  "num_add (Fin a) (Fin b) = Fin (a + b)"
| "num_add NaN _ = NaN"
| "num_add _ NaN = NaN"
| "num_add PInf NInf = NaN"
| "num_add NInf PInf = NaN"
| "num_add PInf _ = PInf"
| "num_add _ PInf = PInf"
| "num_add NInf _ = NInf"
| "num_add _ NInf = NInf"

definition num_sub :: "jsnum \<Rightarrow> jsnum \<Rightarrow> jsnum" where
  "num_sub a b = num_add a (num_neg b)"

fun num_sgn :: "jsnum \<Rightarrow> rat" where
  "num_sgn (Fin a) = sgn a"
| "num_sgn PInf = 1"
| "num_sgn NInf = -1"
| "num_sgn NaN = 0"

definition inf_of_sgn :: "rat \<Rightarrow> jsnum" where
  "inf_of_sgn s = (if s = 0 then NaN else if s < 0 then NInf else PInf)"

fun num_mul :: "jsnum \<Rightarrow> jsnum \<Rightarrow> jsnum" where
  "num_mul (Fin a) (Fin b) = Fin (a * b)"
| "num_mul NaN _ = NaN"
| "num_mul _ NaN = NaN"
| "num_mul a b = inf_of_sgn (num_sgn a * num_sgn b)"

fun num_div :: "jsnum \<Rightarrow> jsnum \<Rightarrow> jsnum" where
  "num_div (Fin a) (Fin b) = (if b = 0 then inf_of_sgn (sgn a) else Fin (a / b))"
| "num_div NaN _ = NaN"
| "num_div _ NaN = NaN"
| "num_div (Fin a) _ = Fin 0"
| "num_div a (Fin b) = (if b = 0 then a else inf_of_sgn (num_sgn a * sgn b))"
| "num_div _ _ = NaN"

fun num_lt :: "jsnum \<Rightarrow> jsnum \<Rightarrow> bool" where
  "num_lt (Fin a) (Fin b) = (a < b)"
| "num_lt NaN _ = False"
| "num_lt _ NaN = False"
| "num_lt NInf b = (b \<noteq> NInf)"
| "num_lt a PInf = (a \<noteq> PInf)"
| "num_lt _ _ = False"

text \<open>\<open>a <= b\<close>, \<open>a === b\<close> on numbers: every comparison with NaN is false.\<close>

definition num_eq :: "jsnum \<Rightarrow> jsnum \<Rightarrow> bool" where
  "num_eq a b \<longleftrightarrow> a = b \<and> a \<noteq> NaN"

definition num_le :: "jsnum \<Rightarrow> jsnum \<Rightarrow> bool" where
  "num_le a b \<longleftrightarrow> num_lt a b \<or> num_eq a b"

definition num_max :: "jsnum \<Rightarrow> jsnum \<Rightarrow> jsnum" where
  "num_max a b = (if a = NaN \<or> b = NaN then NaN else if num_lt a b then b else a)"

definition num_min :: "jsnum \<Rightarrow> jsnum \<Rightarrow> jsnum" where
  "num_min a b = (if a = NaN \<or> b = NaN then NaN else if num_lt b a then b else a)"

definition num_truthy :: "jsnum \<Rightarrow> bool" where
  "num_truthy n \<longleftrightarrow> n \<noteq> NaN \<and> n \<noteq> Fin 0"

text \<open>\<open>Math.floor\<close>, \<open>Math.ceil\<close>, \<open>Math.round\<close> (half rounds up).\<close>

fun num_floor :: "jsnum \<Rightarrow> jsnum" where
  "num_floor (Fin q) = Fin (of_int \<lfloor>q\<rfloor>)"
| "num_floor n = n"

fun num_ceil :: "jsnum \<Rightarrow> jsnum" where
  "num_ceil (Fin q) = Fin (of_int \<lceil>q\<rceil>)"
| "num_ceil n = n"

fun num_round :: "jsnum \<Rightarrow> jsnum" where
  "num_round (Fin q) = Fin (of_int \<lfloor>q + 1 / 2\<rfloor>)"
| "num_round n = n"

subsection \<open>Parsing: \<open>Number(string)\<close>\<close>

definition is_digit :: "char \<Rightarrow> bool" where
  "is_digit c \<longleftrightarrow> 48 \<le> code_unit c \<and> code_unit c \<le> 57"

definition digit_val :: "char \<Rightarrow> int" where
  "digit_val c = (let n = code_unit c in
     if 48 \<le> n \<and> n \<le> 57 then n - 48
     else if 97 \<le> n \<and> n \<le> 122 then n - 87
     else if 65 \<le> n \<and> n \<le> 90 then n - 55 else 36)"

definition digits_val :: "int \<Rightarrow> string \<Rightarrow> int" where
  "digits_val base s = foldl (\<lambda>acc c. base * acc + digit_val c) 0 s"

definition all_digits :: "int \<Rightarrow> string \<Rightarrow> bool" where
  "all_digits base s \<longleftrightarrow> s \<noteq> [] \<and> (\<forall>c \<in> set s. digit_val c < base)"

text \<open>An exponent part \<open>e[+-]digits\<close>, or nothing.\<close>

definition parse_exp :: "string \<Rightarrow> int option" where
  "parse_exp s = (case s of [] \<Rightarrow> Some 0
     | c # r \<Rightarrow>
        if c = CHR ''e'' \<or> c = CHR ''E'' then
          (let neg = starts_with ''-'' r; body = (if neg \<or> starts_with ''+'' r then tl r else r)
           in if all_digits 10 body
              then Some (if neg then - digits_val 10 body else digits_val 10 body)
              else None)
        else None)"

definition rat_pow10 :: "int \<Rightarrow> rat" where
  "rat_pow10 e = (if e < 0 then 1 / 10 ^ nat (- e) else 10 ^ nat e)"

text \<open>An unsigned decimal literal: \<open>12\<close>, \<open>12.\<close>, \<open>.5\<close>, \<open>1.5e3\<close>, \<open>Infinity\<close>.\<close>

definition parse_udec :: "string \<Rightarrow> jsnum" where
  "parse_udec s =
     (if s = ''Infinity'' then PInf else
      let ip = takeWhile is_digit s; r1 = dropWhile is_digit s;
          dot = starts_with ''.'' r1; r2 = (if dot then tl r1 else r1);
          fp = (if dot then takeWhile is_digit r2 else []);
          r3 = (if dot then dropWhile is_digit r2 else r2)
      in if ip = [] \<and> fp = [] then NaN
         else (case parse_exp r3 of None \<Rightarrow> NaN
               | Some e \<Rightarrow> Fin (of_int (digits_val 10 (ip @ fp))
                                * rat_pow10 (e - int (length fp)))))"

definition str_to_num :: "string \<Rightarrow> jsnum" where
  "str_to_num s =
     (let t = js_trim s; p = js_lower (take 2 t); d = drop 2 t in
      if t = [] then Fin 0
      else if p = ''0x'' then (if all_digits 16 d then Fin (of_int (digits_val 16 d)) else NaN)
      else if p = ''0o'' then (if all_digits 8 d then Fin (of_int (digits_val 8 d)) else NaN)
      else if p = ''0b'' then (if all_digits 2 d then Fin (of_int (digits_val 2 d)) else NaN)
      else if starts_with ''-'' t then num_neg (parse_udec (tl t))
      else if starts_with ''+'' t then parse_udec (tl t)
      else parse_udec t)"

subsection \<open>Printing: \<open>String(number)\<close>\<close>

definition digit_char :: "int \<Rightarrow> char" where
  "digit_char d = char_of (48 + d)"

function nat_to_str :: "int \<Rightarrow> string" where
  "nat_to_str n = (if n < 10 then [digit_char n] else nat_to_str (n div 10) @ [digit_char (n mod 10)])"
  by pat_completeness auto
termination
  by (relation "measure nat") auto

declare nat_to_str.simps [simp del]

text \<open>The decimal digits of a fraction below one, until it is used up, at most \<open>fuel\<close> of them.\<close>

fun frac_digits :: "nat \<Rightarrow> rat \<Rightarrow> string" where
  "frac_digits 0 q = []"
| "frac_digits (Suc fuel) q =
     (if q = 0 then [] else
      let d = \<lfloor>10 * q\<rfloor> in digit_char d # frac_digits fuel (10 * q - of_int d))"

text \<open>
  Exact for integers and for decimals of up to 17 fraction digits; the exponent notation JavaScript
  uses from \<open>1e21\<close> on and below \<open>1e-6\<close> is not produced.
\<close>

fun num_to_str :: "jsnum \<Rightarrow> string" where
  "num_to_str NaN = ''NaN''"
| "num_to_str PInf = ''Infinity''"
| "num_to_str NInf = ''-Infinity''"
| "num_to_str (Fin q) =
     (let a = \<bar>q\<bar>; i = \<lfloor>a\<rfloor>; f = a - of_int i in
      (if q < 0 then ''-'' else []) @ nat_to_str i @
      (if f = 0 then [] else ''.'' @ frac_digits 17 f))"

section \<open>Values\<close>

datatype jsval =
    Undef
  | Null
  | Bool bool
  | Num jsnum
  | Str string
  | Arr "jsval list"
  | Obj "(string \<times> jsval) list"

abbreviation jnum :: "rat \<Rightarrow> jsval" where
  "jnum q \<equiv> Num (Fin q)"

fun truthy :: "jsval \<Rightarrow> bool" where
  "truthy Undef = False"
| "truthy Null = False"
| "truthy (Bool b) = b"
| "truthy (Num n) = num_truthy n"
| "truthy (Str s) = (s \<noteq> [])"
| "truthy (Arr xs) = True"
| "truthy (Obj kvs) = True"

fun nullish :: "jsval \<Rightarrow> bool" where
  "nullish Undef = True"
| "nullish Null = True"
| "nullish _ = False"

text \<open>\<open>v && typeof v === "object"\<close>: an array or an object.\<close>

fun is_object :: "jsval \<Rightarrow> bool" where
  "is_object (Arr xs) = True"
| "is_object (Obj kvs) = True"
| "is_object _ = False"

fun is_array :: "jsval \<Rightarrow> bool" where
  "is_array (Arr xs) = True"
| "is_array _ = False"

text \<open>\<open>Array.isArray(v) ? v : []\<close>.\<close>

fun arr_or_empty :: "jsval \<Rightarrow> jsval list" where
  "arr_or_empty (Arr xs) = xs"
| "arr_or_empty _ = []"

text \<open>The operators \<open>a || b\<close> and \<open>a ?? b\<close>.\<close>

definition jor :: "jsval \<Rightarrow> jsval \<Rightarrow> jsval" where
  "jor a b = (if truthy a then a else b)"

definition jcoalesce :: "jsval \<Rightarrow> jsval \<Rightarrow> jsval" where
  "jcoalesce a b = (if nullish a then b else a)"

fun to_str :: "jsval \<Rightarrow> string" where
  "to_str Undef = ''undefined''"
| "to_str Null = ''null''"
| "to_str (Bool b) = (if b then ''true'' else ''false'')"
| "to_str (Num n) = num_to_str n"
| "to_str (Str s) = s"
| "to_str (Arr xs) = js_join '','' (map (\<lambda>x. if nullish x then [] else to_str x) xs)"
| "to_str (Obj kvs) = ''[object Object]''"

fun to_num :: "jsval \<Rightarrow> jsnum" where
  "to_num Undef = NaN"
| "to_num Null = Fin 0"
| "to_num (Bool b) = Fin (if b then 1 else 0)"
| "to_num (Num n) = n"
| "to_num (Str s) = str_to_num s"
| "to_num (Arr xs) = str_to_num (to_str (Arr xs))"
| "to_num (Obj kvs) = NaN"

text \<open>The idioms \<open>String(v || "")\<close>, \<open>String(v || "").trim()\<close> and \<open>Number(v || 0)\<close>.\<close>

definition str_or_empty :: "jsval \<Rightarrow> string" where
  "str_or_empty v = to_str (jor v (Str []))"

definition trimmed :: "jsval \<Rightarrow> string" where
  "trimmed v = js_trim (str_or_empty v)"

definition num_or_zero :: "jsval \<Rightarrow> jsnum" where
  "num_or_zero v = to_num (jor v (jnum 0))"

text \<open>\<open>Number(v) || d\<close> on numbers.\<close>

definition num_or :: "jsnum \<Rightarrow> jsnum \<Rightarrow> jsnum" where
  "num_or n d = (if num_truthy n then n else d)"

text \<open>\<open>===\<close> on primitives; two distinct arrays or objects are never identified by the code modelled.\<close>

fun strict_eq :: "jsval \<Rightarrow> jsval \<Rightarrow> bool" where
  "strict_eq (Num a) (Num b) = num_eq a b"
| "strict_eq a b = (a = b)"

section \<open>Objects\<close>

fun lookup :: "string \<Rightarrow> (string \<times> jsval) list \<Rightarrow> jsval" where
  "lookup k [] = Undef"
| "lookup k ((k', v) # kvs) = (if k = k' then v else lookup k kvs)"

text \<open>\<open>v?.k\<close>: undefined on every value that is not an object with that property.\<close>

fun get :: "jsval \<Rightarrow> string \<Rightarrow> jsval" where
  "get (Obj kvs) k = lookup k kvs"
| "get (Arr xs) k = (if k = ''length'' then jnum (of_nat (length xs)) else Undef)"
| "get (Str s) k = (if k = ''length'' then jnum (of_nat (length s)) else Undef)"
| "get _ k = Undef"

fun has_own :: "string \<Rightarrow> (string \<times> 'a) list \<Rightarrow> bool" where
  "has_own k [] = False"
| "has_own k ((k', v) # kvs) = (k = k' \<or> has_own k kvs)"

text \<open>Assignment \<open>o[k] = v\<close> keeps the position of an existing property.\<close>

fun set_prop :: "string \<Rightarrow> 'a \<Rightarrow> (string \<times> 'a) list \<Rightarrow> (string \<times> 'a) list" where
  "set_prop k v [] = [(k, v)]"
| "set_prop k v ((k', v') # kvs) =
     (if k = k' then (k, v) # kvs else (k', v') # set_prop k v kvs)"

fun del_prop :: "string \<Rightarrow> (string \<times> 'a) list \<Rightarrow> (string \<times> 'a) list" where
  "del_prop k [] = []"
| "del_prop k ((k', v') # kvs) = (if k = k' then del_prop k kvs else (k', v') # del_prop k kvs)"

definition obj_set :: "string \<Rightarrow> jsval \<Rightarrow> jsval \<Rightarrow> jsval" where
  "obj_set k v ob = (case ob of Obj kvs \<Rightarrow> Obj (set_prop k v kvs) | _ \<Rightarrow> ob)"

definition obj_fields :: "jsval \<Rightarrow> (string \<times> jsval) list" where
  "obj_fields v = (case v of Obj kvs \<Rightarrow> kvs | _ \<Rightarrow> [])"

text \<open>\<open>{...a, ...b}\<close> on objects.\<close>

definition spread :: "(string \<times> 'a) list \<Rightarrow> (string \<times> 'a) list \<Rightarrow> (string \<times> 'a) list" where
  "spread a b = foldl (\<lambda>acc (k, v). set_prop k v acc) a b"

text \<open>
  \<open>Object.entries\<close> lists array-index keys first, in numeric order, then the others in insertion
  order.
\<close>

definition is_array_index :: "string \<Rightarrow> bool" where
  "is_array_index k \<longleftrightarrow> all_digits 10 k \<and> (k = ''0'' \<or> hd k \<noteq> CHR ''0'')
     \<and> digits_val 10 k < 4294967295"

section \<open>Stable sorting\<close>

text \<open>
  \<open>xs.sort(cmp)\<close> is stable; \<open>le x y\<close> is \<open>cmp(x, y) <= 0\<close>. For a consistent comparator every stable
  sort returns this list.
\<close>

fun insert_by :: "('a \<Rightarrow> 'a \<Rightarrow> bool) \<Rightarrow> 'a \<Rightarrow> 'a list \<Rightarrow> 'a list" where
  "insert_by le x [] = [x]"
| "insert_by le x (y # ys) = (if le x y then x # y # ys else y # insert_by le x ys)"

fun js_sort :: "('a \<Rightarrow> 'a \<Rightarrow> bool) \<Rightarrow> 'a list \<Rightarrow> 'a list" where
  "js_sort le [] = []"
| "js_sort le (x # xs) = insert_by le x (js_sort le xs)"

definition own_entries :: "(string \<times> 'a) list \<Rightarrow> (string \<times> 'a) list" where
  "own_entries kvs =
     js_sort (\<lambda>a b. digits_val 10 (fst a) \<le> digits_val 10 (fst b))
       (filter (\<lambda>kv. is_array_index (fst kv)) kvs)
     @ filter (\<lambda>kv. \<not> is_array_index (fst kv)) kvs"

definition js_entries :: "jsval \<Rightarrow> (string \<times> jsval) list" where
  "js_entries v = (case v of
      Obj kvs \<Rightarrow> own_entries kvs
    | Arr xs \<Rightarrow> map (\<lambda>(i, x). (nat_to_str (int i), x)) (enumerate 0 xs)
    | _ \<Rightarrow> [])"

end
