(* ===== verification/JsFacts.thy ===== *)
theory JsFacts
  imports JsPrelude
begin

text \<open>
  Facts about the JavaScript library of \<open>JsPrelude\<close> that the components share: property reads after
  writes, trimming and case folding, first-occurrence filtering, and the contract of the stable sort
  (a locale over the comparator, with its permutation, order and stability lemmas).
\<close>

section \<open>Property reads and writes\<close>

lemma lookup_set_prop [simp]: "lookup k (set_prop k' v kvs) = (if k = k' then v else lookup k kvs)"
  by (induction kvs) auto

lemma lookup_del_prop [simp]: "lookup k (del_prop k' kvs) = (if k = k' then Undef else lookup k kvs)"
  by (induction kvs) auto

lemma has_own_set_prop [simp]: "has_own k (set_prop k' v kvs) = (k = k' \<or> has_own k kvs)"
  by (induction kvs) (auto split: if_splits)

lemma has_own_iff: "has_own k kvs \<longleftrightarrow> k \<in> fst ` set kvs"
  by (induction kvs) auto

lemma map_of_set_prop [simp]: "map_of (set_prop k v kvs) = (map_of kvs)(k \<mapsto> v)"
  by (induction kvs) (auto simp: fun_eq_iff)

lemma keys_set_prop: "fst ` set (set_prop k v kvs) = insert k (fst ` set kvs)"
  by (rule set_eqI) (use has_own_set_prop [of _ k v kvs] in \<open>simp add: has_own_iff\<close>)

lemma distinct_set_prop: "distinct (map fst kvs) \<Longrightarrow> distinct (map fst (set_prop k v kvs))"
proof (induction kvs)
  case (Cons a kvs)
  have "fst a \<notin> fst ` set (set_prop k v kvs)" if "k \<noteq> fst a"
    using that Cons.prems keys_set_prop [of k v kvs] by auto
  with Cons show ?case by (cases a) auto
qed simp

lemma map_of_foldl_set_prop:
  "map_of (foldl (\<lambda>acc (k, v). set_prop k v acc) a b) = map_of a ++ map_of (rev b)"
  by (induction b arbitrary: a) (auto simp: fun_eq_iff map_add_def split: option.splits)

lemma map_of_spread: "map_of (spread a b) = map_of a ++ map_of (rev b)"
  by (simp add: spread_def map_of_foldl_set_prop)

lemma lookup_map_of: "lookup k kvs = (case map_of kvs k of None \<Rightarrow> Undef | Some v \<Rightarrow> v)"
  by (induction kvs) auto

section \<open>Strings\<close>

lemma js_trim_Nil [simp]: "js_trim [] = []"
  by (simp add: js_trim_def)

text \<open>Cutting a suffix keeps the first character, so trimming both ends leaves nothing to trim.\<close>

lemma dropWhile_cut_suffix:
  assumes "dropWhile P s = s"
  shows "dropWhile P (rev (dropWhile P (rev s))) = rev (dropWhile P (rev s))"
proof (cases "rev (dropWhile P (rev s))")
  case (Cons y ys)
  have "s = rev (takeWhile P (rev s) @ dropWhile P (rev s))" by simp
  also have "\<dots> = y # (ys @ rev (takeWhile P (rev s)))"
    using Cons by (simp only: rev_append append_Cons)
  finally have "hd s = y" "s \<noteq> []" by (metis list.sel(1), metis list.distinct(1))
  with assms have "\<not> P y" by (metis dropWhile_eq_self_iff)
  with Cons show ?thesis by simp
next
  case Nil
  then show ?thesis by (simp only: dropWhile.simps)
qed

lemma js_trim_idem [simp]: "js_trim (js_trim s) = js_trim s"
  by (simp add: js_trim_def dropWhile_cut_suffix dropWhile_idem)

lemma js_lower_Nil [simp]: "js_lower [] = []" and js_lower_eq_Nil [simp]: "js_lower s = [] \<longleftrightarrow> s = []"
  by (simp_all add: js_lower_def)

lemma length_js_lower [simp]: "length (js_lower s) = length s"
  by (simp add: js_lower_def)

lemma code_unit_char_of: "code_unit (char_of n) = n mod 256"
  by (rule of_char_of)

lemma char_lower_idem [simp]: "char_lower (char_lower c) = char_lower c"
  by (auto simp: char_lower_def Let_def code_unit_char_of)

lemma js_lower_idem [simp]: "js_lower (js_lower s) = js_lower s"
  by (simp add: js_lower_def)

lemma str_or_empty_Str [simp]: "str_or_empty (Str s) = s"
  by (simp add: str_or_empty_def jor_def)

lemma trimmed_Str [simp]: "trimmed (Str s) = js_trim s"
  by (simp add: trimmed_def)

lemma trimmed_idem [simp]: "js_trim (trimmed v) = trimmed v"
  by (simp add: trimmed_def)

lemma js_split_ne [simp]: "js_split p s \<noteq> []"
  by (induction s) (auto split: list.split)

lemma js_split_Cons:
  "\<not> p c \<Longrightarrow> js_split p (c # s) = (c # hd (js_split p s)) # tl (js_split p s)"
  using js_split_ne [of p s] by (auto split: list.split)

lemma js_split_plain: "\<forall>c \<in> set s. \<not> p c \<Longrightarrow> js_split p s = [s]"
  by (induction s) auto

lemma js_split_at: "\<forall>c \<in> set a. \<not> p c \<Longrightarrow> p x \<Longrightarrow> js_split p (a @ x # b) = a # js_split p b"
  by (induction a) auto

lemma js_trim_space: "is_js_space c \<Longrightarrow> js_trim (c # s) = js_trim s"
  by (simp add: js_trim_def)

lemma space_is_space: "is_js_space (CHR '' '')"
  by (simp add: is_js_space_def)

section \<open>First occurrences\<close>

text \<open>The loop \<open>if (seen.has(key)) continue; seen.add(key); out.push(x)\<close> over a list.\<close>

fun first_by :: "('a \<Rightarrow> 'k) \<Rightarrow> 'k list \<Rightarrow> 'a list \<Rightarrow> 'a list" where
  "first_by key seen [] = []"
| "first_by key seen (x # xs) =
     (if key x \<in> set seen then first_by key seen xs
      else x # first_by key (key x # seen) xs)"

lemma first_by_keys:
  "key ` set (first_by key seen xs) = key ` set xs - set seen"
  by (induction xs arbitrary: seen) auto

lemma set_first_by_id: "set (first_by (\<lambda>i. i) seen xs) = set xs - set seen"
  using first_by_keys [of "\<lambda>i. i" seen xs] by simp

lemma first_by_distinct: "distinct (map key (first_by key seen xs))"
proof (induction xs arbitrary: seen)
  case (Cons x xs)
  have "key x \<notin> key ` set (first_by key (key x # seen) xs)" by (simp add: first_by_keys)
  with Cons show ?case by auto
qed simp

lemma first_by_subset: "set (first_by key seen xs) \<subseteq> set xs"
proof (induction xs arbitrary: seen)
  case (Cons x xs)
  from Cons [of seen] Cons [of "key x # seen"] show ?case by auto
qed simp

lemma first_by_id:
  "distinct (map key xs) \<Longrightarrow> key ` set xs \<inter> set seen = {} \<Longrightarrow> first_by key seen xs = xs"
proof (induction xs arbitrary: seen)
  case (Cons x xs)
  from Cons.prems have "first_by key (key x # seen) xs = xs" by (intro Cons.IH) auto
  with Cons.prems show ?case by auto
qed simp

lemma first_by_idem: "first_by key [] (first_by key seen xs) = first_by key seen xs"
  by (rule first_by_id) (simp_all add: first_by_distinct)

text \<open>What is kept for a key is its earliest entry.\<close>

lemma first_by_find:
  "k \<notin> set seen \<Longrightarrow> find (\<lambda>x. key x = k) (first_by key seen xs) = find (\<lambda>x. key x = k) xs"
  by (induction xs arbitrary: seen) auto

lemma first_by_cong:
  "set seen = set seen' \<Longrightarrow> first_by key seen xs = first_by key seen' xs"
proof (induction xs arbitrary: seen seen')
  case (Cons x xs)
  have "first_by key (key x # seen) xs = first_by key (key x # seen') xs"
    by (rule Cons.IH) (simp add: Cons.prems)
  then show ?case using Cons.IH [OF Cons.prems] Cons.prems by simp
qed simp

lemma find_Some_in: "find P xs = Some x \<Longrightarrow> x \<in> set xs \<and> P x"
  by (induction xs) (auto split: if_splits)

section \<open>The stable sort\<close>

lemma mset_insert_by [simp]: "mset (insert_by le x ys) = {#x#} + mset ys"
  by (induction ys) auto

lemma mset_js_sort [simp]: "mset (js_sort le xs) = mset xs"
  by (induction xs) auto

lemma set_js_sort [simp]: "set (js_sort le xs) = set xs"
  by (metis mset_js_sort set_mset_mset)

lemma length_js_sort [simp]: "length (js_sort le xs) = length xs"
  by (metis mset_js_sort size_mset)

lemma set_insert_by [simp]: "set (insert_by le x ys) = insert x (set ys)"
  by (induction ys) auto

text \<open>
  The contract of a comparator \<open>cmp\<close> with \<open>le x y\<close> for \<open>cmp(x, y) <= 0\<close> on the entries that are
  sorted (those satisfying \<open>ok\<close>: a comparator over numbers is consistent only away from NaN).
\<close>

locale comparator =
  fixes ok :: "'a \<Rightarrow> bool" and le :: "'a \<Rightarrow> 'a \<Rightarrow> bool"
  assumes le_total: "ok x \<Longrightarrow> ok y \<Longrightarrow> le x y \<or> le y x"
    and le_trans: "ok x \<Longrightarrow> ok y \<Longrightarrow> ok z \<Longrightarrow> le x y \<Longrightarrow> le y z \<Longrightarrow> le x z"
begin

lemma sorted_insert_by:
  "ok x \<Longrightarrow> \<forall>y \<in> set ys. ok y \<Longrightarrow> sorted_wrt le ys \<Longrightarrow> sorted_wrt le (insert_by le x ys)"
proof (induction ys)
  case (Cons y ys)
  show ?case
  proof (cases "le x y")
    case True
    with Cons.prems show ?thesis by (auto intro: le_trans [of x y])
  next
    case False
    with Cons.prems le_total [of x y] have "le y x" by auto
    with Cons False show ?thesis by auto
  qed
qed simp

lemma sorted_js_sort: "\<forall>x \<in> set xs. ok x \<Longrightarrow> sorted_wrt le (js_sort le xs)"
  by (induction xs) (auto intro: sorted_insert_by)

text \<open>Entries that compare equal keep their order.\<close>

lemma filter_insert_by:
  "ok x \<Longrightarrow> ok z \<Longrightarrow> \<forall>y \<in> set ys. ok y \<Longrightarrow> le x z \<Longrightarrow> le z x \<Longrightarrow>
   filter (\<lambda>y. le y z \<and> le z y) (insert_by le x ys) = x # filter (\<lambda>y. le y z \<and> le z y) ys"
proof (induction ys)
  case (Cons y ys)
  have "\<not> (le y z \<and> le z y)" if "\<not> le x y"
    using that Cons.prems le_trans [of x z y] by auto
  with Cons show ?case by auto
qed simp

lemma filter_insert_by_other:
  "\<not> (le x z \<and> le z x) \<Longrightarrow>
   filter (\<lambda>y. le y z \<and> le z y) (insert_by le x ys) = filter (\<lambda>y. le y z \<and> le z y) ys"
  by (induction ys) auto

lemma js_sort_stable:
  "ok z \<Longrightarrow> \<forall>x \<in> set xs. ok x \<Longrightarrow>
   filter (\<lambda>y. le y z \<and> le z y) (js_sort le xs) = filter (\<lambda>y. le y z \<and> le z y) xs"
proof (induction xs)
  case (Cons x xs)
  then have ih: "filter (\<lambda>y. le y z \<and> le z y) (js_sort le xs) = filter (\<lambda>y. le y z \<and> le z y) xs"
    by simp
  show ?case
  proof (cases "le x z \<and> le z x")
    case True
    with Cons.prems ih show ?thesis by (simp add: filter_insert_by)
  next
    case False
    then show ?thesis using ih by (auto simp: filter_insert_by_other)
  qed
qed simp

end

lemma insert_by_hd: "\<forall>y \<in> set ys. le x y \<Longrightarrow> insert_by le x ys = x # ys"
  by (cases ys) auto

lemma js_sort_id: "sorted_wrt le xs \<Longrightarrow> js_sort le xs = xs"
  by (induction xs) (auto simp: insert_by_hd)

text \<open>Numbers that are finite are ordered like the rationals.\<close>

lemma is_finite_iff: "is_finite n \<longleftrightarrow> (\<exists>q. n = Fin q)"
  by (cases n) auto

lemma num_le_Fin [simp]: "num_le (Fin a) (Fin b) \<longleftrightarrow> a \<le> b"
  by (auto simp: num_le_def num_eq_def)

lemma num_eq_Fin [simp]: "num_eq (Fin a) (Fin b) \<longleftrightarrow> a = b"
  by (simp add: num_eq_def)

lemma num_max_Fin [simp]: "num_max (Fin a) (Fin b) = Fin (max a b)"
  by (simp add: num_max_def max_def)

lemma num_min_Fin [simp]: "num_min (Fin a) (Fin b) = Fin (min a b)"
  by (simp add: num_min_def min_def)

lemma num_sub_Fin [simp]: "num_sub (Fin a) (Fin b) = Fin (a - b)"
  by (simp add: num_sub_def)

lemma num_truthy_Fin [simp]: "num_truthy (Fin a) \<longleftrightarrow> a \<noteq> 0"
  by (simp add: num_truthy_def)

lemma starts_with_iff: "starts_with p s \<longleftrightarrow> (\<exists>q. s = p @ q)"
  by (induction p s rule: starts_with.induct) auto

end
