(* ===== verification/Contracts.thy ===== *)
theory Contracts
  imports JsFacts
begin

text \<open>
  The interfaces several components share, as locales. \<open>exclusive_guard\<close> is a table of in-flight
  operations: at most one live handle per key. It is provided by the action registry
  (\<open>operation-guard.mjs\<close>) and by the pending list of the optimistic store
  (\<open>optimistic-config.mjs\<close>). \<open>monotone_acceptor\<close> is a cache that refuses to go back to an older
  snapshot: the optimistic store and the model capability panel provide it.
\<close>

section \<open>At most one operation in flight per key\<close>

definition mutex :: "('h \<rightharpoonup> 'k) \<Rightarrow> bool" where
  "mutex ow \<longleftrightarrow> (\<forall>h h' k. ow h = Some k \<longrightarrow> ow h' = Some k \<longrightarrow> h = h')"

lemma mutex_empty [simp]: "mutex Map.empty"
  by (simp add: mutex_def)

lemma mutex_start: "mutex ow \<Longrightarrow> k \<notin> ran ow \<Longrightarrow> mutex (ow(h \<mapsto> k))"
  by (auto simp: mutex_def ran_def)

lemma mutex_release: "mutex ow \<Longrightarrow> mutex (ow(h := None))"
  by (auto simp: mutex_def)

datatype ('a, 'h) guard_event = Start 'a | Release 'h

text \<open>
  \<open>norm\<close> is the key a raw argument stands for; an argument without a key (\<open>None\<close>) is not guarded.
  \<open>owner s h\<close> is the key of the live handle \<open>h\<close>.
\<close>

locale exclusive_guard =
  fixes inv :: "'s \<Rightarrow> bool"
    and norm :: "'a \<Rightarrow> 'k option"
    and owner :: "'s \<Rightarrow> 'h \<Rightarrow> 'k option"
    and start :: "'a \<Rightarrow> 's \<Rightarrow> 's \<times> 'h option"
    and release :: "'h \<Rightarrow> 's \<Rightarrow> 's"
  assumes inv_mutex: "inv s \<Longrightarrow> mutex (owner s)"
    and start_inv: "inv s \<Longrightarrow> inv (fst (start a s))"
    and release_inv: "inv s \<Longrightarrow> inv (release h s)"
    and start_unguarded: "norm a = None \<Longrightarrow> start a s = (s, None)"
    and start_refused: "inv s \<Longrightarrow> norm a = Some k \<Longrightarrow> k \<in> ran (owner s) \<Longrightarrow> start a s = (s, None)"
    and start_fresh: "inv s \<Longrightarrow> norm a = Some k \<Longrightarrow> k \<notin> ran (owner s) \<Longrightarrow>
          \<exists>h. snd (start a s) = Some h \<and> owner s h = None
              \<and> owner (fst (start a s)) = (owner s)(h \<mapsto> k)"
    and release_owner: "inv s \<Longrightarrow> owner (release h s) = (owner s)(h := None)"
begin

lemma start_Some:
  assumes "inv s" and "snd (start a s) = Some h"
  obtains k where "norm a = Some k" "k \<notin> ran (owner s)" "owner s h = None"
    "owner (fst (start a s)) = (owner s)(h \<mapsto> k)"
proof (cases "norm a")
  case None
  with assms(2) show ?thesis by (simp add: start_unguarded)
next
  case (Some k)
  have free: "k \<notin> ran (owner s)"
    using start_refused [OF assms(1) Some] assms(2) by auto
  from start_fresh [OF assms(1) Some this] assms(2) Some free that show ?thesis by auto
qed

text \<open>While an operation is in flight a second one under its key is refused and changes nothing.\<close>

lemma second_refused:
  assumes "inv s" and "snd (start a s) = Some h" and "norm b = norm a"
  shows "start b (fst (start a s)) = (fst (start a s), None)"
proof -
  obtain k where k: "norm a = Some k" "owner (fst (start a s)) = (owner s)(h \<mapsto> k)"
    using start_Some [OF assms(1,2)] by metis
  show ?thesis
    by (rule start_refused [OF start_inv [OF assms(1)]]) (use assms(3) k in \<open>auto simp: ran_def\<close>)
qed

text \<open>Finishing gives the key back and touches no other operation.\<close>

lemma release_restores:
  assumes "inv s" and "snd (start a s) = Some h"
  shows "owner (release h (fst (start a s))) = owner s"
proof -
  obtain k where "owner s h = None" "owner (fst (start a s)) = (owner s)(h \<mapsto> k)"
    using start_Some [OF assms] by metis
  then show ?thesis
    using release_owner [OF start_inv [OF assms(1)], of h a] by (auto simp: fun_eq_iff)
qed

text \<open>A handle that was finished does nothing when it is finished again.\<close>

lemma release_twice: "inv s \<Longrightarrow> owner (release h (release h s)) = owner (release h s)"
  by (simp add: release_owner release_inv)

lemma run_inv:
  "inv s \<Longrightarrow>
   inv (fold (\<lambda>e s. case e of Start a \<Rightarrow> fst (start a s) | Release h \<Rightarrow> release h s) es s)"
  by (induction es arbitrary: s) (auto simp: start_inv release_inv split: guard_event.split)

text \<open>An operation stays in flight until its own handle is released.\<close>

lemma run_keeps:
  assumes "inv s" and "owner s h = Some k" and "Release h \<notin> set es"
  shows "owner (fold (\<lambda>e s. case e of Start a \<Rightarrow> fst (start a s) | Release h \<Rightarrow> release h s) es s) h = Some k"
  using assms
proof (induction es arbitrary: s)
  case (Cons e es)
  have "owner (fst (start a s)) h = Some k" for a
  proof (cases "snd (start a s)")
    case None
    have "fst (start a s) = s"
    proof (cases "norm a")
      case (Some j)
      have "j \<in> ran (owner s)" using None start_fresh [OF Cons.prems(1) Some] by force
      from start_refused [OF Cons.prems(1) Some this] show ?thesis by simp
    qed (simp add: start_unguarded)
    with Cons.prems show ?thesis by simp
  next
    case (Some h')
    show ?thesis
      by (rule start_Some [OF Cons.prems(1) Some]) (use Cons.prems(2) in auto)
  qed
  moreover have "owner (release h' s) h = Some k" if "h' \<noteq> h" for h'
    using that Cons.prems by (simp add: release_owner)
  ultimately show ?case
    using Cons by (cases e) (auto simp: start_inv release_inv)
qed simp

text \<open>Whatever the interleaving, two live handles never share a key.\<close>

lemma run_mutex:
  "inv s \<Longrightarrow>
   mutex (owner (fold (\<lambda>e s. case e of Start a \<Rightarrow> fst (start a s) | Release h \<Rightarrow> release h s) es s))"
  by (rule inv_mutex) (rule run_inv)

end

section \<open>Caches that never go back\<close>

text \<open>\<open>keeps s\<close> is an invariant of the cache, \<open>fits p\<close> says which payloads the promise is about.\<close>

locale monotone_acceptor =
  fixes newer_eq :: "'m \<Rightarrow> 'm \<Rightarrow> bool"
    and keeps :: "'s \<Rightarrow> bool"
    and fits :: "'p \<Rightarrow> bool"
    and marker :: "'s \<Rightarrow> 'm"
    and accept :: "'p \<Rightarrow> 's \<Rightarrow> 's"
  assumes newer_refl: "newer_eq m m"
    and newer_trans: "newer_eq a b \<Longrightarrow> newer_eq b c \<Longrightarrow> newer_eq a c"
    and accept_keeps: "keeps s \<Longrightarrow> fits p \<Longrightarrow> keeps (accept p s)"
    and accept_newer: "keeps s \<Longrightarrow> fits p \<Longrightarrow> newer_eq (marker s) (marker (accept p s))"
begin

lemma accepts_keeps: "keeps s \<Longrightarrow> \<forall>p \<in> set ps. fits p \<Longrightarrow> keeps (fold accept ps s)"
  by (induction ps arbitrary: s) (auto intro: accept_keeps)

lemma accepts_newer: "keeps s \<Longrightarrow> \<forall>p \<in> set ps. fits p \<Longrightarrow> newer_eq (marker s) (marker (fold accept ps s))"
proof (induction ps arbitrary: s)
  case (Cons p ps)
  then have "newer_eq (marker s) (marker (accept p s))" "newer_eq (marker (accept p s)) (marker (fold accept ps (accept p s)))"
    by (simp_all add: accept_newer accept_keeps)
  then show ?case by (simp add: newer_trans [of _ "marker (accept p s)"])
qed (simp add: newer_refl)

lemma accepts_append_newer:
  "keeps s \<Longrightarrow> \<forall>p \<in> set (ps @ qs). fits p \<Longrightarrow>
   newer_eq (marker (fold accept ps s)) (marker (fold accept (ps @ qs) s))"
  by (simp add: accepts_newer accepts_keeps)

end

end
