(* ===== verification/OperationGuard.thy ===== *)
theory OperationGuard
  imports Contracts
begin

text \<open>
  \<open>dashboard_src/src/operation-guard.mjs\<close>. \<open>InFlightActionRegistry\<close> refuses to start a UI action
  whose key is in flight; \<open>ConfigRefreshCoordinator\<close> tells a background refresh whether the
  configuration changed under it. The closures the two classes return are handles: a number, with
  the closure's \<open>active\<close> flag and captured key kept in the state.
\<close>

section \<open>InFlightActionRegistry\<close>

record action_registry =
  reg_keys :: "string set"
  reg_active :: "nat \<rightharpoonup> string"
  reg_next :: nat

definition reg_init :: action_registry where
  "reg_init = \<lparr>reg_keys = {}, reg_active = Map.empty, reg_next = 0\<rparr>"

text \<open>\<open>begin\<close> returns a function that does nothing, \<open>null\<close>, or a live finisher.\<close>

datatype begin_result = NoopFinisher | Refused | Finisher nat

definition reg_begin :: "jsval \<Rightarrow> action_registry \<Rightarrow> action_registry \<times> begin_result" where
  "reg_begin key r =
     (let normalized = trimmed key in
      if normalized = [] then (r, NoopFinisher)
      else if normalized \<in> reg_keys r then (r, Refused)
      else (r\<lparr>reg_keys := insert normalized (reg_keys r),
              reg_active := (reg_active r)(reg_next r \<mapsto> normalized),
              reg_next := Suc (reg_next r)\<rparr>,
            Finisher (reg_next r)))"

definition reg_finish :: "nat \<Rightarrow> action_registry \<Rightarrow> action_registry" where
  "reg_finish h r =
     (case reg_active r h of
        None \<Rightarrow> r
      | Some normalized \<Rightarrow>
          r\<lparr>reg_active := (reg_active r)(h := None), reg_keys := reg_keys r - {normalized}\<rparr>)"

definition reg_has :: "jsval \<Rightarrow> action_registry \<Rightarrow> bool" where
  "reg_has key r \<longleftrightarrow> trimmed key \<in> reg_keys r"

text \<open>\<open>clear\<close> empties the key set; finishers handed out before it stay active.\<close>

definition reg_clear :: "action_registry \<Rightarrow> action_registry" where
  "reg_clear r = r\<lparr>reg_keys := {}\<rparr>"

text \<open>Calling the value \<open>begin\<close> returned.\<close>

fun run_finisher :: "begin_result \<Rightarrow> action_registry \<Rightarrow> action_registry" where
  "run_finisher (Finisher h) r = reg_finish h r"
| "run_finisher _ r = r"

subsection \<open>Invariant\<close>

text \<open>The key set is exactly the keys of the live finishers, one finisher per key.\<close>

definition reg_inv :: "action_registry \<Rightarrow> bool" where
  "reg_inv r \<longleftrightarrow> reg_keys r = ran (reg_active r) \<and> mutex (reg_active r)
     \<and> (\<forall>h \<in> dom (reg_active r). h < reg_next r) \<and> [] \<notin> reg_keys r"

lemma reg_inv_init: "reg_inv reg_init"
  by (simp add: reg_inv_def reg_init_def)

lemma fresh_handle: "reg_inv r \<Longrightarrow> reg_active r (reg_next r) = None"
  by (auto simp: reg_inv_def)

lemma reg_begin_inv: "reg_inv r \<Longrightarrow> reg_inv (fst (reg_begin key r))"
  using fresh_handle [of r]
  by (auto simp: reg_begin_def reg_inv_def Let_def mutex_start less_Suc_eq)

lemma ran_minus_mutex: "mutex m \<Longrightarrow> m h = Some k \<Longrightarrow> ran (m(h := None)) = ran m - {k}"
  by (auto simp: mutex_def ran_def) (metis option.inject)

lemma reg_finish_inv: "reg_inv r \<Longrightarrow> reg_inv (reg_finish h r)"
  by (auto simp: reg_finish_def reg_inv_def mutex_release ran_minus_mutex split: option.split)

lemma reg_finish_active: "reg_active (reg_finish h r) = (reg_active r)(h := None)"
  by (auto simp: reg_finish_def fun_eq_iff split: option.split)


subsection \<open>The registry is an exclusive guard\<close>

definition reg_norm :: "jsval \<Rightarrow> string option" where
  "reg_norm key = (if trimmed key = [] then None else Some (trimmed key))"

definition reg_start :: "jsval \<Rightarrow> action_registry \<Rightarrow> action_registry \<times> nat option" where
  "reg_start key r = (case reg_begin key r of
     (r', Finisher h) \<Rightarrow> (r', Some h) | (r', _) \<Rightarrow> (r', None))"

lemma fst_reg_start: "fst (reg_start key r) = fst (reg_begin key r)"
  by (auto simp: reg_start_def split: prod.split begin_result.split)

interpretation registry: exclusive_guard reg_inv reg_norm reg_active reg_start reg_finish
proof (unfold_locales, goal_cases)
  case (1 s)
  then show ?case by (simp add: reg_inv_def)
next
  case (2 s a)
  then show ?case by (simp add: fst_reg_start reg_begin_inv)
next
  case (3 s h)
  then show ?case by (rule reg_finish_inv)
next
  case (4 a s)
  then show ?case by (auto simp: reg_norm_def reg_start_def reg_begin_def split: if_splits)
next
  case (5 s a k)
  then show ?case
    by (auto simp: reg_norm_def reg_start_def reg_begin_def reg_inv_def split: if_splits)
next
  case (6 s a k)
  then show ?case
    using fresh_handle [of s]
    by (auto simp: reg_norm_def reg_start_def reg_begin_def reg_inv_def Let_def split: if_splits)
next
  case (7 s h)
  show ?case by (rule reg_finish_active)
qed

subsection \<open>Running an exclusive action\<close>

text \<open>
  \<open>runExclusiveUiAction\<close> of \<open>app.js\<close>. The awaited operation is a transformer of the registry (what
  other handlers did to it meanwhile) and an outcome: \<open>Inl\<close> the error it threw, \<open>Inr\<close> its result.
  A refused action does not run the operation; its second component says that a notice is shown.
\<close>

datatype 'r exclusive_outcome = Skipped bool | Ran "jsval + 'r"

definition runExclusiveUiAction ::
  "jsval \<Rightarrow> (action_registry \<Rightarrow> action_registry \<times> (jsval + 'r)) \<Rightarrow> jsval \<Rightarrow> action_registry
     \<Rightarrow> action_registry \<times> 'r exclusive_outcome" where
  "runExclusiveUiAction key operation duplicateNotice r =
     (case reg_begin key r of
        (r', Refused) \<Rightarrow> (r', Skipped (truthy duplicateNotice))
      | (r', finish) \<Rightarrow>
          (let (r'', result) = operation r' in (run_finisher finish r'', Ran result)))"

text \<open>The operations of other handlers: begins and finishes of their own keys.\<close>

definition reg_run :: "(jsval, nat) guard_event list \<Rightarrow> action_registry \<Rightarrow> action_registry" where
  "reg_run es r =
     fold (\<lambda>e s. case e of Start a \<Rightarrow> fst (reg_start a s) | Release h \<Rightarrow> reg_finish h s) es r"

lemma reg_run_inv: "reg_inv r \<Longrightarrow> reg_inv (reg_run es r)"
  unfolding reg_run_def by (rule registry.run_inv)

lemma reg_begin_Refused:
  "snd (reg_begin key r) = Refused \<longleftrightarrow> trimmed key \<noteq> [] \<and> trimmed key \<in> reg_keys r"
  by (auto simp: reg_begin_def Let_def)

lemma runExclusiveUiAction_inv:
  assumes "reg_inv r" and "\<And>r. reg_inv r \<Longrightarrow> reg_inv (fst (operation r))"
  shows "reg_inv (fst (runExclusiveUiAction key operation n r))"
proof -
  obtain r' b where b: "reg_begin key r = (r', b)" by fastforce
  have "reg_inv r'" using reg_begin_inv [OF assms(1), of key] b by simp
  then show ?thesis
    using assms(2) [of r'] by (cases b) (auto simp: runExclusiveUiAction_def b reg_finish_inv
      split: prod.split)
qed

section \<open>ConfigRefreshCoordinator\<close>

record coordinator =
  interactionVersion :: int
  mutationDepth :: int
  scopes :: "nat set"
  nextScope :: nat

definition coord_init :: coordinator where
  "coord_init = \<lparr>interactionVersion = 0, mutationDepth = 0, scopes = {}, nextScope = 0\<rparr>"

definition markInteraction :: "coordinator \<Rightarrow> coordinator" where
  "markInteraction c = c\<lparr>interactionVersion := interactionVersion c + 1\<rparr>"

record coord_snapshot =
  snapVersion :: jsval
  snapDepth :: jsval

definition snapshot :: "coordinator \<Rightarrow> coord_snapshot" where
  "snapshot c = \<lparr>snapVersion = jnum (of_int (interactionVersion c)),
                 snapDepth = jnum (of_int (mutationDepth c))\<rparr>"

text \<open>\<open>beginMutation\<close> returns the scope's handle; \<open>finish\<close> of a finished scope does nothing.\<close>

definition beginMutation :: "coordinator \<Rightarrow> coordinator \<times> nat" where
  "beginMutation c =
     (let c1 = markInteraction (c\<lparr>mutationDepth := mutationDepth c + 1\<rparr>)
      in (c1\<lparr>scopes := insert (nextScope c) (scopes c), nextScope := Suc (nextScope c)\<rparr>,
          nextScope c))"

definition finishMutation :: "nat \<Rightarrow> coordinator \<Rightarrow> coordinator" where
  "finishMutation h c =
     (if h \<notin> scopes c then c
      else markInteraction (c\<lparr>scopes := scopes c - {h},
                              mutationDepth := max 0 (mutationDepth c - 1)\<rparr>))"

definition shouldDefer :: "coord_snapshot option \<Rightarrow> bool \<Rightarrow> coordinator \<Rightarrow> bool" where
  "shouldDefer snap hasProtectedInput c =
     (if hasProtectedInput then True
      else if 0 < mutationDepth c then True
      else (case snap of None \<Rightarrow> False
            | Some s \<Rightarrow> \<not> num_eq (to_num (snapVersion s)) (Fin (of_int (interactionVersion c)))))"

inductive coord_step :: "coordinator \<Rightarrow> coordinator \<Rightarrow> bool" where
  interaction: "coord_step c (markInteraction c)"
| mutation_begins: "coord_step c (fst (beginMutation c))"
| mutation_ends: "h \<in> scopes c \<Longrightarrow> coord_step c (finishMutation h c)"

inductive_cases coord_stepE: "coord_step c c'"

definition coord_inv :: "coordinator \<Rightarrow> bool" where
  "coord_inv c \<longleftrightarrow> finite (scopes c) \<and> mutationDepth c = int (card (scopes c))
     \<and> (\<forall>h \<in> scopes c. h < nextScope c)"

lemma coord_inv_init: "coord_inv coord_init"
  by (simp add: coord_inv_def coord_init_def)

lemma beginMutation_inv: "coord_inv c \<Longrightarrow> coord_inv (fst (beginMutation c))"
proof -
  assume i: "coord_inv c"
  then have "nextScope c \<notin> scopes c" by (auto simp: coord_inv_def)
  with i show ?thesis
    by (auto simp: coord_inv_def beginMutation_def Let_def markInteraction_def less_Suc_eq)
qed

lemma finishMutation_inv: "coord_inv c \<Longrightarrow> coord_inv (finishMutation h c)"
  by (auto simp: coord_inv_def finishMutation_def markInteraction_def card_Diff_singleton
      of_nat_diff Suc_leI card_gt_0_iff)

lemma coord_step_inv: "coord_step c c' \<Longrightarrow> coord_inv c \<Longrightarrow> coord_inv c'"
  by (erule coord_stepE) (auto simp: beginMutation_inv finishMutation_inv,
      auto simp: coord_inv_def markInteraction_def)

lemma coord_step_version: "coord_step c c' \<Longrightarrow> interactionVersion c' = interactionVersion c + 1"
  by (erule coord_stepE)
    (auto simp: markInteraction_def beginMutation_def finishMutation_def Let_def)

lemma coord_steps_inv: "coord_step\<^sup>*\<^sup>* c c' \<Longrightarrow> coord_inv c \<Longrightarrow> coord_inv c'"
  by (induction rule: rtranclp_induct) (auto intro: coord_step_inv)

lemma coord_steps_version:
  "coord_step\<^sup>*\<^sup>* c c' \<Longrightarrow> interactionVersion c \<le> interactionVersion c' \<and>
     (interactionVersion c' = interactionVersion c \<longrightarrow> c' = c)"
  by (induction rule: rtranclp_induct) (auto dest: coord_step_version)

lemma coord_depth_pos: "coord_inv c \<Longrightarrow> 0 < mutationDepth c \<longleftrightarrow> scopes c \<noteq> {}"
  by (auto simp: coord_inv_def card_gt_0_iff)

section \<open>Properties\<close>

lemma reg_run_mutex: "reg_inv r \<Longrightarrow> mutex (reg_active (reg_run es r))"
  unfolding reg_run_def by (rule registry.run_mutex)

lemma reg_run_active:
  "reg_inv r \<Longrightarrow> reg_active r h = Some k \<Longrightarrow> Release h \<notin> set es \<Longrightarrow> reg_active (reg_run es r) h = Some k"
  unfolding reg_run_def by (rule registry.run_keeps)

lemma reg_finish_keys: "reg_active r h = Some k \<Longrightarrow> reg_keys (reg_finish h r) = reg_keys r - {k}"
  by (simp add: reg_finish_def)

text \<open>C15. However begins and finishes of UI actions interleave, no two live finishers guard the same
key, and the set of keys in flight is exactly the set the live finishers guard.\<close>

theorem registry_mutual_exclusion:
  "mutex (reg_active (reg_run es reg_init))
   \<and> reg_keys (reg_run es reg_init) = ran (reg_active (reg_run es reg_init))"
  using reg_run_mutex [OF reg_inv_init] reg_run_inv [OF reg_inv_init, of es]
  by (simp add: reg_inv_def)

text \<open>An exclusive UI action holds its key for the whole run of its operation, so that the same
action is refused meanwhile, and gives the key back when the operation ends, by a result or by a thrown
error, whatever other actions began and finished in between.\<close>

lemma exclusive_action_holds_and_releases:
  assumes "reg_inv r" and "trimmed key \<noteq> []" and "trimmed key \<notin> reg_keys r"
    and "Release (reg_next r) \<notin> set es"
    and "\<And>r. operation r = (reg_run es r, outcome)"
  shows "snd (reg_begin key (reg_run es (fst (reg_begin key r)))) = Refused
    \<and> snd (runExclusiveUiAction key operation n r) = Ran outcome
    \<and> \<not> reg_has key (fst (runExclusiveUiAction key operation n r))"
proof -
  let ?r1 = "fst (reg_begin key r)"
  have b: "reg_begin key r = (?r1, Finisher (reg_next r))"
    and act: "reg_active ?r1 (reg_next r) = Some (trimmed key)"
    using assms(2,3) by (simp_all add: reg_begin_def Let_def)
  have i: "reg_inv ?r1" by (rule reg_begin_inv [OF assms(1)])
  have held: "reg_active (reg_run es ?r1) (reg_next r) = Some (trimmed key)"
    by (rule reg_run_active [OF i act assms(4)])
  have "trimmed key \<in> reg_keys (reg_run es ?r1)"
    using held reg_run_inv [OF i, of es] by (auto simp: reg_inv_def ran_def)
  then have "snd (reg_begin key (reg_run es ?r1)) = Refused"
    using assms(2) by (simp add: reg_begin_Refused)
  moreover have "runExclusiveUiAction key operation n r = (reg_finish (reg_next r) (reg_run es ?r1), Ran outcome)"
    by (subst runExclusiveUiAction_def, subst b) (simp add: assms(5))
  ultimately show ?thesis
    by (simp add: reg_has_def reg_finish_keys [OF held])
qed

text \<open>Clearing the registry (as logging out does) while an action is in flight breaks the exclusion:
the old action's finisher then frees the key of an action begun after the clear, and a third one may
start beside it.\<close>

lemma clear_lets_stale_finisher_release:
  "\<exists>r1 r3 r5. reg_begin (Str ''save'') reg_init = (r1, Finisher 0)
     \<and> reg_begin (Str ''save'') (reg_clear r1) = (r3, Finisher 1)
     \<and> reg_begin (Str ''save'') (reg_finish 0 r3) = (r5, Finisher 2)
     \<and> reg_active r5 1 = Some ''save'' \<and> reg_active r5 2 = Some ''save''"
proof -
  have t: "js_trim ''save'' = ''save''" by (simp add: js_trim_def is_js_space_def)
  show ?thesis
    by (simp add: reg_begin_def reg_init_def reg_clear_def reg_finish_def t Let_def)
qed

text \<open>C16. A refresh that took its snapshot in a reachable state and returns in a later one is applied
(not deferred) exactly when no input is protected at that moment and nothing happened to the configuration in
between: no interaction, no mutation begun or finished, and none open.\<close>

theorem refresh_applied_iff_unchanged:
  assumes "coord_step\<^sup>*\<^sup>* coord_init c" and "coord_step\<^sup>*\<^sup>* c c'"
  shows "\<not> shouldDefer (Some (snapshot c)) protected_input c' \<longleftrightarrow> \<not> protected_input \<and> c' = c \<and> scopes c = {}"
proof -
  have i: "coord_inv c'"
    by (rule coord_steps_inv [OF assms(2) coord_steps_inv [OF assms(1) coord_inv_init]])
  have v: "interactionVersion c' = interactionVersion c \<longleftrightarrow> c' = c"
    using coord_steps_version [OF assms(2)] by auto
  have "\<not> shouldDefer (Some (snapshot c)) protected_input c'
      \<longleftrightarrow> \<not> protected_input \<and> scopes c' = {} \<and> interactionVersion c' = interactionVersion c"
    using coord_depth_pos [OF i] by (auto simp: shouldDefer_def snapshot_def)
  then show ?thesis unfolding v by blast
qed

theorem refresh_applied_iff_unchanged_witness:
  "shouldDefer (Some (snapshot coord_init)) False (markInteraction coord_init)
   \<and> \<not> shouldDefer (Some (snapshot coord_init)) False coord_init
   \<and> shouldDefer (Some (snapshot coord_init)) True coord_init"
proof -
  have s: "coord_step\<^sup>*\<^sup>* coord_init (markInteraction coord_init)"
    by (rule r_into_rtranclp) (rule coord_step.interaction)
  show ?thesis
    using refresh_applied_iff_unchanged [OF rtranclp.rtrancl_refl s, of False]
      refresh_applied_iff_unchanged [OF rtranclp.rtrancl_refl rtranclp.rtrancl_refl, of False]
      refresh_applied_iff_unchanged [OF rtranclp.rtrancl_refl rtranclp.rtrancl_refl, of True]
    by (simp add: markInteraction_def coord_init_def)
qed

end
