(* ===== verification/OptimisticConfig.thy ===== *)
theory OptimisticConfig
  imports Contracts
begin

text \<open>
  \<open>dashboard_src/src/optimistic-config.mjs\<close>: the configuration the console shows is the last
  confirmed server configuration with the settled and the pending mutations applied on top. A
  mutation's \<open>apply\<close>, which edits a clone in place, is a function from the clone to its edited
  value. \<open>structuredClone\<close> is the identity on values.
\<close>

section \<open>Clones and markers\<close>

definition cloneConfig :: "jsval \<Rightarrow> jsval" where
  "cloneConfig config = (if is_object config then config else Obj [])"

record config_marker =
  mk_revision :: rat
  mk_epoch :: rat

fun finite_or :: "jsnum \<Rightarrow> rat \<Rightarrow> rat" where
  "finite_or (Fin q) d = q"
| "finite_or _ d = d"

definition configMarker :: "jsval \<Rightarrow> config_marker" where
  "configMarker config =
     \<lparr>mk_revision = finite_or (to_num (get config ''revision'')) (-1),
      mk_epoch = finite_or (to_num (get config ''revision_epoch_ms'')) (-1)\<rparr>"

section \<open>Pending keys and providers\<close>

text \<open>The reduce that finds the next free key index; \<open>keys.length\<close> is its seed.\<close>

definition key_index :: "jsval \<Rightarrow> nat \<Rightarrow> jsnum" where
  "key_index entry i = to_num (if is_object entry then get entry ''index'' else jnum (of_nat i))"

fun next_index :: "jsval list \<Rightarrow> nat \<Rightarrow> rat \<Rightarrow> rat" where
  "next_index [] i highest = highest"
| "next_index (entry # rest) i highest =
     next_index rest (Suc i)
       (case key_index entry i of Fin q \<Rightarrow> max highest (q + 1) | _ \<Rightarrow> highest)"

definition pending_key :: "rat \<Rightarrow> jsval \<Rightarrow> jsval" where
  "pending_key nextIndex metadata =
     Obj ([(''index'', jnum nextIndex), (''key_id'', Str ''pending''),
           (''masked'', Str ''pending''), (''pending'', Bool True)]
          @ (if truthy (get metadata ''proxy'') then [(''proxy'', get metadata ''proxy'')] else [])
          @ (if is_object (get metadata ''models'')
             then [(''models'', cloneConfig (get metadata ''models''))] else []))"

definition append_key :: "jsval \<Rightarrow> jsval \<Rightarrow> jsval" where
  "append_key metadata providerConfig =
     (let keys = arr_or_empty (get providerConfig ''keys'') in
      obj_set ''keys''
        (Arr (keys @ [pending_key (next_index keys 0 (of_nat (length keys))) metadata]))
        providerConfig)"

definition appendPendingKey :: "jsval \<Rightarrow> string \<Rightarrow> jsval \<Rightarrow> jsval" where
  "appendPendingKey config provider metadata =
     (let providers = get config ''providers''; providerConfig = get providers provider in
      if \<not> truthy providerConfig then config
      else obj_set ''providers'' (obj_set provider (append_key metadata providerConfig) providers)
             config)"

definition key_metadata :: "jsval \<Rightarrow> jsval" where
  "key_metadata entry =
     (if is_object entry
      then Obj [(''proxy'', get entry ''proxy''), (''models'', get entry ''models'')] else Obj [])"

definition appendPendingProvider :: "jsval \<Rightarrow> jsval \<Rightarrow> jsval" where
  "appendPendingProvider config payload =
     (let name = trimmed (get payload ''name'') in
      if name = [] then config else
      let providers = (if is_object (get config ''providers'') then get config ''providers'' else Obj []);
          provider0 = Obj (del_prop ''name'' (obj_fields (cloneConfig payload)));
          submittedKeys = arr_or_empty (get provider0 ''keys'');
          provider = obj_set ''pending'' (Bool True) (obj_set ''keys'' (Arr []) provider0);
          config1 = obj_set ''providers'' (obj_set name provider providers) config
      in foldl (\<lambda>c entry. appendPendingKey c name (key_metadata entry)) config1 submittedKeys)"

section \<open>OptimisticConfigStore\<close>

record mutation =
  mut_id :: nat
  resourceKey :: string
  mut_apply :: "jsval \<Rightarrow> jsval"

record opt_store =
  confirmed :: jsval
  pending :: "mutation list"
  settled :: "mutation list"
  nextId :: nat
  store_revision :: rat
  store_epoch :: rat

definition store_new :: "jsval \<Rightarrow> opt_store" where
  "store_new config =
     \<lparr>confirmed = cloneConfig config, pending = [], settled = [], nextId = 1,
      store_revision = mk_revision (configMarker config),
      store_epoch = mk_epoch (configMarker config)\<rparr>"

definition confirmedConfig :: "opt_store \<Rightarrow> jsval" where
  "confirmedConfig st = cloneConfig (confirmed st)"

definition apply_all :: "mutation list \<Rightarrow> jsval \<Rightarrow> jsval" where
  "apply_all ms config = fold mut_apply ms config"

definition store_config :: "opt_store \<Rightarrow> jsval" where
  "store_config st = apply_all (pending st) (apply_all (settled st) (cloneConfig (confirmed st)))"

definition acceptConfirmed :: "jsval \<Rightarrow> opt_store \<Rightarrow> opt_store" where
  "acceptConfirmed config st =
     (let incoming = configMarker config; rev = mk_revision incoming; ep = mk_epoch incoming in
      if 0 \<le> ep \<and> 0 \<le> store_epoch st \<and> ep < store_epoch st then st else
      let newEpoch = (0 \<le> ep \<and> (store_epoch st < 0 \<or> store_epoch st < ep)) in
      if \<not> newEpoch \<and> 0 \<le> store_revision st \<and> rev < 0 then st
      else if \<not> newEpoch \<and> 0 \<le> rev \<and> 0 \<le> store_revision st \<and> rev < store_revision st then st
      else
        (let st1 = st\<lparr>confirmed := cloneConfig config\<rparr> in
         if 0 \<le> rev
         then st1\<lparr>store_revision := rev,
                  store_epoch := (if 0 \<le> ep then ep else store_epoch st1),
                  settled := []\<rparr>
         else if pending st1 = [] then st1\<lparr>settled := []\<rparr>
         else st1))"

text \<open>\<open>confirm\<close> returns \<open>null\<close> (here \<open>None\<close>) when the mutation is not pending.\<close>

definition store_confirm :: "nat \<Rightarrow> jsval \<Rightarrow> opt_store \<Rightarrow> opt_store \<times> jsval option" where
  "store_confirm i config st =
     (case find (\<lambda>m. mut_id m = i) (pending st) of
        None \<Rightarrow> (st, None)
      | Some completed \<Rightarrow>
          (let st1 = st\<lparr>pending := filter (\<lambda>m. mut_id m \<noteq> i) (pending st)\<rparr>;
               incoming = configMarker config; rev = mk_revision incoming; ep = mk_epoch incoming;
               epochIsOlder = (0 \<le> ep \<and> 0 \<le> store_epoch st \<and> ep < store_epoch st);
               epochIsNewer = (0 \<le> ep \<and> (store_epoch st < 0 \<or> store_epoch st < ep))
           in if 0 \<le> rev
              then (let st2 = (if \<not> epochIsOlder
                                 \<and> (epochIsNewer \<or> store_revision st < 0 \<or> store_revision st \<le> rev)
                               then st1\<lparr>confirmed := cloneConfig config, store_revision := rev,
                                        store_epoch := (if 0 \<le> ep then ep else store_epoch st)\<rparr>
                               else st1);
                        st3 = st2\<lparr>settled := []\<rparr>
                    in (st3, Some (store_config st3)))
              else (let st2 = st1\<lparr>settled := settled st1 @ [completed],
                                  confirmed := cloneConfig config\<rparr>
                    in (st2, Some (store_config st2)))))"

definition store_reject :: "nat \<Rightarrow> opt_store \<Rightarrow> opt_store" where
  "store_reject i st = st\<lparr>pending := filter (\<lambda>m. mut_id m \<noteq> i) (pending st)\<rparr>"

definition store_clear :: "opt_store \<Rightarrow> opt_store" where
  "store_clear st = st\<lparr>confirmed := Obj [], pending := [], settled := [],
                       store_revision := -1, store_epoch := -1\<rparr>"

text \<open>\<open>begin\<close> refuses (\<open>null\<close>) while the resource has a pending mutation.\<close>

definition store_begin :: "jsval \<Rightarrow> (jsval \<Rightarrow> jsval) \<Rightarrow> opt_store \<Rightarrow> opt_store \<times> mutation option" where
  "store_begin key f st =
     (let k = str_or_empty key in
      if \<exists>m \<in> set (pending st). resourceKey m = k then (st, None)
      else (let m = \<lparr>mut_id = nextId st, resourceKey = k, mut_apply = f\<rparr>
            in (st\<lparr>nextId := Suc (nextId st), pending := pending st @ [m]\<rparr>, Some m)))"

subsection \<open>Invariant\<close>

definition store_inv :: "opt_store \<Rightarrow> bool" where
  "store_inv st \<longleftrightarrow> distinct (map mut_id (pending st)) \<and> distinct (map resourceKey (pending st))
     \<and> (\<forall>m \<in> set (pending st). mut_id m < nextId st)"

lemma store_new_inv: "store_inv (store_new config)"
  by (simp add: store_inv_def store_new_def)

lemma distinct_map_filter_Cons: "distinct (map f xs) \<Longrightarrow> distinct (map f (filter P xs))"
  by (rule distinct_map_filter)

lemma store_begin_inv: "store_inv st \<Longrightarrow> store_inv (fst (store_begin key f st))"
  by (fastforce simp: store_inv_def store_begin_def Let_def)

lemma store_reject_inv: "store_inv st \<Longrightarrow> store_inv (store_reject i st)"
  by (auto simp: store_inv_def store_reject_def distinct_map_filter)

lemma acceptConfirmed_pending: "pending (acceptConfirmed c st) = pending st"
  by (simp add: acceptConfirmed_def Let_def)

lemma acceptConfirmed_inv: "store_inv st \<Longrightarrow> store_inv (acceptConfirmed c st)"
  by (simp add: store_inv_def acceptConfirmed_def Let_def)

lemma store_confirm_pending:
  "pending (fst (store_confirm i c st)) = filter (\<lambda>m. mut_id m \<noteq> i) (pending st)"
  by (auto simp: store_confirm_def Let_def find_None_iff filter_id_conv split: option.split)

lemma store_confirm_nextId: "nextId (fst (store_confirm i c st)) = nextId st"
  by (auto simp: store_confirm_def Let_def split: option.split)

lemma store_confirm_inv: "store_inv st \<Longrightarrow> store_inv (fst (store_confirm i c st))"
  by (auto simp: store_inv_def store_confirm_pending store_confirm_nextId distinct_map_filter)

lemma store_clear_inv: "store_inv st \<Longrightarrow> store_inv (store_clear st)"
  by (simp add: store_inv_def store_clear_def)

lemmas store_inv_intros =
  store_new_inv store_begin_inv store_reject_inv acceptConfirmed_inv store_confirm_inv store_clear_inv

subsection \<open>The pending list is an exclusive guard\<close>

definition store_owner :: "opt_store \<Rightarrow> nat \<Rightarrow> string option" where
  "store_owner st i = map_of (map (\<lambda>m. (mut_id m, resourceKey m)) (pending st)) i"

definition store_start :: "(jsval \<times> (jsval \<Rightarrow> jsval)) \<Rightarrow> opt_store \<Rightarrow> opt_store \<times> nat option" where
  "store_start = (\<lambda>(key, f) st. map_prod id (map_option mut_id) (store_begin key f st))"

lemma map_of_filter_ids:
  "map_of (map (\<lambda>m. (mut_id m, resourceKey m)) (filter (\<lambda>m. mut_id m \<noteq> i) ms))
     = (map_of (map (\<lambda>m. (mut_id m, resourceKey m)) ms))(i := None)"
  by (induction ms) (auto simp: fun_eq_iff)

lemma store_owner_Some:
  "store_inv st \<Longrightarrow>
   store_owner st i = Some k \<longleftrightarrow> (\<exists>m \<in> set (pending st). mut_id m = i \<and> resourceKey m = k)"
  by (force simp: store_owner_def store_inv_def map_of_eq_Some_iff o_def)

lemma store_owner_ran:
  "store_inv st \<Longrightarrow> k \<in> ran (store_owner st) \<longleftrightarrow> (\<exists>m \<in> set (pending st). resourceKey m = k)"
  by (auto simp: ran_def store_owner_Some)

lemma store_owner_mutex: "store_inv st \<Longrightarrow> mutex (store_owner st)"
  by (auto simp: mutex_def store_owner_Some store_inv_def distinct_map inj_on_def)

lemma store_owner_fresh: "store_inv st \<Longrightarrow> store_owner st (nextId st) = None"
  by (rule not_Some_eq [THEN iffD1]) (auto simp: store_owner_Some, auto simp: store_inv_def)

lemma store_owner_append:
  "store_inv st \<Longrightarrow> mut_id m = nextId st \<Longrightarrow>
   map_of (map (\<lambda>m. (mut_id m, resourceKey m)) (pending st @ [m]))
     = (store_owner st)(nextId st \<mapsto> resourceKey m)"
  using store_owner_fresh [of st]
  by (auto simp: store_owner_def fun_eq_iff map_add_def split: option.split)

interpretation pending_guard:
  exclusive_guard store_inv "\<lambda>(key, f). Some (str_or_empty key)" store_owner store_start store_reject
proof (unfold_locales, goal_cases)
  case (1 s)
  then show ?case by (rule store_owner_mutex)
next
  case (2 s a)
  then show ?case by (cases a) (simp add: store_start_def store_begin_inv)
next
  case (3 s h)
  then show ?case by (rule store_reject_inv)
next
  case (4 a s)
  then show ?case by (simp split: prod.splits)
next
  case (5 s a k)
  then show ?case
    by (auto simp: store_owner_ran store_start_def store_begin_def split: prod.splits)
next
  case (6 s a k)
  then show ?case
    using store_owner_append [of s "\<lparr>mut_id = nextId s, resourceKey = k, mut_apply = snd a\<rparr>"]
      store_owner_fresh [of s]
    by (auto simp: store_owner_ran store_start_def store_begin_def Let_def store_owner_def
        split: prod.splits)
next
  case (7 s h)
  show ?case
    by (simp add: store_owner_def store_reject_def map_of_filter_ids fun_eq_iff)
qed

subsection \<open>The confirmed snapshot never goes back\<close>

text \<open>
  Markers are compared by process epoch first, then by revision. The marker is that of the confirmed
  configuration itself; the store keeps a copy of it beside (\<open>#revisionEpoch\<close>, \<open>#revision\<close>), which is faithful
  as long as every configuration the server sends carries both numbers.
\<close>

definition marker_le :: "rat \<times> rat \<Rightarrow> rat \<times> rat \<Rightarrow> bool" where
  "marker_le a b \<longleftrightarrow> fst a < fst b \<or> (fst a = fst b \<and> snd a \<le> snd b)"

definition marker_of :: "jsval \<Rightarrow> rat \<times> rat" where
  "marker_of config = (mk_epoch (configMarker config), mk_revision (configMarker config))"

definition confirmed_marker :: "opt_store \<Rightarrow> rat \<times> rat" where
  "confirmed_marker st = marker_of (confirmed st)"

definition marker_faithful :: "opt_store \<Rightarrow> bool" where
  "marker_faithful st \<longleftrightarrow> confirmed_marker st = (store_epoch st, store_revision st)"

definition versioned :: "jsval \<Rightarrow> bool" where
  "versioned config \<longleftrightarrow> 0 \<le> mk_epoch (configMarker config) \<and> 0 \<le> mk_revision (configMarker config)"

lemma marker_le_refl [simp]: "marker_le a a"
  by (simp add: marker_le_def)

lemma marker_of_clone [simp]: "marker_of (cloneConfig c) = marker_of c"
  by (cases c) (simp_all add: marker_of_def configMarker_def cloneConfig_def)

lemma store_new_faithful: "marker_faithful (store_new c)"
  by (simp add: marker_faithful_def confirmed_marker_def store_new_def) (simp add: marker_of_def)

lemma acceptConfirmed_marker:
  assumes "marker_faithful st" and "versioned c"
  shows "marker_faithful (acceptConfirmed c st) \<and> marker_le (confirmed_marker st) (confirmed_marker (acceptConfirmed c st))"
  using assms
  by (auto simp: acceptConfirmed_def marker_le_def marker_faithful_def confirmed_marker_def versioned_def Let_def)
    (auto simp: marker_of_def)

lemma store_confirm_marker:
  assumes "marker_faithful st" and "versioned c"
  shows "marker_faithful (fst (store_confirm i c st))
    \<and> marker_le (confirmed_marker st) (confirmed_marker (fst (store_confirm i c st)))"
  using assms
  by (auto simp: store_confirm_def marker_le_def marker_faithful_def confirmed_marker_def versioned_def Let_def
      split: option.split) (auto simp: marker_of_def)

text \<open>Everything that happens to the store, in any order.\<close>

datatype store_event =
    Begin jsval "jsval \<Rightarrow> jsval"
  | Confirm nat jsval
  | Reject nat
  | Accept jsval
  | Clear

fun store_step :: "store_event \<Rightarrow> opt_store \<Rightarrow> opt_store" where
  "store_step (Begin key f) st = fst (store_begin key f st)"
| "store_step (Confirm i c) st = fst (store_confirm i c st)"
| "store_step (Reject i) st = store_reject i st"
| "store_step (Accept c) st = acceptConfirmed c st"
| "store_step Clear st = store_clear st"

lemma store_step_inv: "store_inv st \<Longrightarrow> store_inv (store_step e st)"
  by (cases e) (simp_all add: store_inv_intros)

lemma store_run_inv: "store_inv st \<Longrightarrow> store_inv (fold store_step es st)"
  by (induction es arbitrary: st) (simp_all add: store_step_inv)

text \<open>The events of a session in which every configuration of the server carries its epoch and revision.\<close>

fun session_event :: "store_event \<Rightarrow> bool" where
  "session_event (Confirm i c) = versioned c"
| "session_event (Accept c) = versioned c"
| "session_event Clear = False"
| "session_event _ = True"

lemma session_marker:
  assumes "marker_faithful st" and "session_event e"
  shows "marker_faithful (store_step e st) \<and> marker_le (confirmed_marker st) (confirmed_marker (store_step e st))"
proof (cases e)
  case (Begin key f)
  have "confirmed_marker (store_step e st) = confirmed_marker st" "store_epoch (store_step e st) = store_epoch st"
    "store_revision (store_step e st) = store_revision st"
    by (simp_all add: Begin store_begin_def confirmed_marker_def Let_def)
  then show ?thesis using assms(1) by (simp add: marker_faithful_def)
next
  case (Reject i)
  then show ?thesis using assms(1) by (simp add: marker_faithful_def confirmed_marker_def store_reject_def)
qed (use assms acceptConfirmed_marker store_confirm_marker in auto)

interpretation store_mono: monotone_acceptor marker_le marker_faithful session_event confirmed_marker store_step
proof (unfold_locales, goal_cases)
  case (2 a b c)
  then show ?case by (auto simp: marker_le_def)
qed (simp_all add: session_marker)

subsection \<open>What the console shows\<close>

lemma apply_all_append: "apply_all (xs @ ys) c = apply_all ys (apply_all xs c)"
  by (simp add: apply_all_def)

lemma store_begin_config:
  "snd (store_begin key f st) = Some m \<Longrightarrow>
   store_config (fst (store_begin key f st)) = f (store_config st)"
  by (auto simp: store_begin_def Let_def store_config_def apply_all_append apply_all_def
      split: if_splits)

lemma filter_other_ids:
  "\<forall>m \<in> set ms. mut_id m < n \<Longrightarrow> filter (\<lambda>m. mut_id m \<noteq> n) ms = ms"
  by (auto simp: filter_id_conv)

lemma store_begin_reject:
  assumes "store_inv st" and "snd (store_begin key f st) = Some m"
  shows "store_config (store_reject (mut_id m) (fst (store_begin key f st))) = store_config st
     \<and> pending (store_reject (mut_id m) (fst (store_begin key f st))) = pending st"
  using assms
  by (auto simp: store_begin_def store_reject_def Let_def store_config_def store_inv_def
      filter_other_ids split: if_splits)

section \<open>Properties\<close>

text \<open>C12. In every reachable store each resource has at most one pending edit and the ids of the pending edits are
distinct. A second edit of a resource is refused while the first is pending, and the refusal changes nothing in
the store; an edit of a free resource is put behind the others under an id that none of them has, and
changes nothing else.\<close>

theorem one_pending_per_resource:
  "let st = fold store_step es (store_new c0); ms = pending st in
     distinct (map resourceKey ms) \<and> distinct (map mut_id ms)
     \<and> (if str_or_empty key \<in> resourceKey ` set ms then store_begin key f st = (st, None)
        else \<exists>m. store_begin key f st = (st\<lparr>pending := ms @ [m], nextId := Suc (mut_id m)\<rparr>, Some m)
               \<and> mut_id m \<notin> mut_id ` set ms \<and> resourceKey m = str_or_empty key \<and> mut_apply m = f)"
proof -
  define st where "st = fold store_step es (store_new c0)"
  have inv: "store_inv st" unfolding st_def by (rule store_run_inv [OF store_new_inv])
  then have "nextId st \<notin> mut_id ` set (pending st)" by (auto simp: store_inv_def)
  then show ?thesis
    using inv by (auto simp: store_inv_def store_begin_def Let_def image_iff eq_commute [of "str_or_empty key"]
        simp flip: st_def)
qed

text \<open>Beginning a mutation shows its edit at once, on top of everything shown before; rejecting it
restores exactly the configuration and the pending edits from before the begin.\<close>

lemma optimistic_begin_then_reject:
  assumes "store_inv st" and "snd (store_begin key f st) = Some m"
  shows "store_config (fst (store_begin key f st)) = f (store_config st)
    \<and> store_config (store_reject (mut_id m) (fst (store_begin key f st))) = store_config st
    \<and> pending (store_reject (mut_id m) (fst (store_begin key f st))) = pending st"
  using store_begin_config [OF assms(2)] store_begin_reject [OF assms] by blast

text \<open>
  The test of \<open>confirm\<close>, as an order: process epochs are compared when both sides have one, a new epoch
  wins, and without an epoch the revisions decide.
\<close>

definition not_older :: "opt_store \<Rightarrow> config_marker \<Rightarrow> bool" where
  "not_older st mk \<longleftrightarrow>
     (if 0 \<le> mk_epoch mk
      then store_epoch st < 0 \<or> marker_le (store_epoch st, store_revision st) (mk_epoch mk, mk_revision mk)
      else store_revision st \<le> mk_revision mk)"

text \<open>C13. What a reply to a pending edit does. The edit is no longer pending. A reply with a revision that is not
older than what the store has is confirmed, and the page shows it with the other pending edits, and only those,
applied in their order; an older one is ignored, and the page shows what was confirmed before with the other
pending edits. A reply without a revision is confirmed too, but the edit it answers, like the earlier ones it
answered, is applied on top of it once more, before the pending ones.\<close>

theorem confirm_rebases_pending:
  assumes "store_inv st" and "m \<in> set (pending st)"
  shows "let others = filter (\<lambda>m'. m' \<noteq> m) (pending st); mk = configMarker c;
             (st', shown) = store_confirm (mut_id m) c st in
      shown = Some (store_config st') \<and> pending st' = others
    \<and> (if mk_revision mk < 0
       then confirmed st' = cloneConfig c
         \<and> shown = Some (apply_all others (mut_apply m (apply_all (settled st) (cloneConfig c))))
       else if not_older st mk
       then confirmed st' = cloneConfig c \<and> shown = Some (apply_all others (cloneConfig c))
       else confirmed st' = confirmed st \<and> shown = Some (apply_all others (cloneConfig (confirmed st))))"
proof -
  have "\<forall>m' \<in> set (pending st). mut_id m' = mut_id m \<longrightarrow> m' = m"
    using assms by (auto simp: store_inv_def distinct_map inj_on_def)
  note same = this
  have f: "find (\<lambda>m'. mut_id m' = mut_id m) (pending st) = Some m"
  proof (cases "find (\<lambda>m'. mut_id m' = mut_id m) (pending st)")
    case None
    then show ?thesis using assms(2) by (auto simp: find_None_iff)
  next
    case (Some m')
    then show ?thesis using find_Some_in [OF Some] same by simp
  qed
  have o: "filter (\<lambda>m'. mut_id m' \<noteq> mut_id m) (pending st) = filter (\<lambda>m'. m' \<noteq> m) (pending st)"
    using same by (intro filter_cong) auto
  have clone: "cloneConfig (cloneConfig c) = cloneConfig c" by (simp add: cloneConfig_def)
  have older: "not_older st (configMarker c) \<longleftrightarrow>
      \<not> (0 \<le> mk_epoch (configMarker c) \<and> 0 \<le> store_epoch st \<and> mk_epoch (configMarker c) < store_epoch st)
      \<and> ((0 \<le> mk_epoch (configMarker c) \<and> (store_epoch st < 0 \<or> store_epoch st < mk_epoch (configMarker c)))
           \<or> store_revision st < 0 \<or> store_revision st \<le> mk_revision (configMarker c))"
    if "0 \<le> mk_revision (configMarker c)"
    using that by (auto simp: not_older_def marker_le_def)
  consider (none) "mk_revision (configMarker c) < 0"
    | (new) "0 \<le> mk_revision (configMarker c)" "not_older st (configMarker c)"
    | (old) "0 \<le> mk_revision (configMarker c)" "\<not> not_older st (configMarker c)"
    by linarith
  then show ?thesis
  proof cases
    case none
    then show ?thesis by (simp add: store_confirm_def f o Let_def store_config_def apply_all_def clone)
  next
    case new
    show ?thesis unfolding store_confirm_def Let_def f option.case older [OF new(1), symmetric] o
      using new by (simp add: store_config_def apply_all_def clone)
  next
    case old
    show ?thesis unfolding store_confirm_def Let_def f option.case older [OF old(1), symmetric] o
      using old by (simp add: store_config_def apply_all_def)
  qed
qed

definition edited_store :: opt_store where
  "edited_store = fst (store_begin (Str ''a'') (obj_set ''x'' (Bool True)) (store_new (Obj [(''revision'', jnum 3)])))"

theorem confirm_rebases_pending_witness:
  "snd (store_confirm 1 (Obj [(''revision'', jnum 4)]) edited_store) = Some (Obj [(''revision'', jnum 4)])
   \<and> snd (store_confirm 1 (Obj []) edited_store) = Some (Obj [(''x'', Bool True)])"
proof -
  have inv: "store_inv edited_store" by (simp add: edited_store_def store_begin_inv store_new_inv)
  obtain m where m: "m \<in> set (pending edited_store)" "pending edited_store = [m]" "mut_id m = 1"
      "mut_apply m = obj_set ''x'' (Bool True)" "settled edited_store = []"
      "store_epoch edited_store = -1" "store_revision edited_store = 3"
    by (simp add: edited_store_def store_begin_def store_new_def configMarker_def Let_def)
  show ?thesis
    using confirm_rebases_pending [OF inv m(1), of "Obj [(''revision'', jnum 4)]"]
      confirm_rebases_pending [OF inv m(1), of "Obj []"]
    by (auto simp: m Let_def split_beta configMarker_def not_older_def apply_all_def cloneConfig_def obj_set_def)
qed

text \<open>C14. Whatever order edits, polls and replies come in, the configuration the store holds as confirmed never goes
back: its own marker (process epoch, then revision) does not decrease, as long as every configuration the server
sends carries both numbers, as the proxy's do, and the operator stays logged in.\<close>

theorem confirmed_never_goes_back:
  assumes "\<forall>e \<in> set (es @ es'). session_event e"
  shows "marker_le (marker_of (confirmed (fold store_step es (store_new c0))))
      (marker_of (confirmed (fold store_step (es @ es') (store_new c0))))"
  using store_mono.accepts_append_newer [OF store_new_faithful assms]
  by (simp add: confirmed_marker_def)

definition stamped :: "rat \<Rightarrow> rat \<Rightarrow> jsval" where
  "stamped epoch revision = Obj [(''revision'', jnum revision), (''revision_epoch_ms'', jnum epoch)]"

theorem confirmed_never_goes_back_witness:
  "marker_le (marker_of (confirmed (fold store_step [Accept (stamped 30 1)] (store_new (Obj [])))))
     (marker_of (confirmed (fold store_step ([Accept (stamped 30 1)] @ [Accept (stamped 20 9)]) (store_new (Obj [])))))"
  by (rule confirmed_never_goes_back) (simp add: versioned_def configMarker_def stamped_def)

text \<open>Without a revision the promise fails: a poll of a newer process replaces the configuration and is not
remembered, so a poll of an older one replaces it in turn.\<close>

lemma unversioned_poll_goes_back:
  "confirmed (fold store_step [Accept (Obj [(''revision_epoch_ms'', jnum 30)]), Accept (Obj [(''revision_epoch_ms'', jnum 20)])]
      (store_new (Obj []))) = Obj [(''revision_epoch_ms'', jnum 20)]"
  by (simp add: acceptConfirmed_def store_new_def configMarker_def cloneConfig_def Let_def)

section \<open>An edit that is given up\<close>

text \<open>
  The events that may happen while the edit \<open>i\<close> is pending: everything but its own end, logging out, and a poll
  without a revision (which would keep the settled edits only because \<open>i\<close> is pending).
\<close>

fun meanwhile :: "nat \<Rightarrow> store_event \<Rightarrow> bool" where
  "meanwhile i (Begin key f) = True"
| "meanwhile i (Confirm j c) = (j \<noteq> i)"
| "meanwhile i (Reject j) = (j \<noteq> i)"
| "meanwhile i (Accept c) = (0 \<le> mk_revision (configMarker c))"
| "meanwhile i Clear = False"

text \<open>The same events as they would have gone without the edit: only the refused edits of its resource are missing.\<close>

fun edits_resource :: "string \<Rightarrow> store_event \<Rightarrow> bool" where
  "edits_resource k (Begin key f) = (str_or_empty key = k)"
| "edits_resource k _ = False"

definition without_edit :: "string \<Rightarrow> store_event list \<Rightarrow> opt_store \<Rightarrow> opt_store" where
  "without_edit k es st = fold store_step (filter (\<lambda>e. \<not> edits_resource k e) es) (st\<lparr>nextId := Suc (nextId st)\<rparr>)"

lemma find_filter_other: "(\<And>x. P x \<Longrightarrow> Q x) \<Longrightarrow> find P (filter Q xs) = find P xs"
  by (induction xs) auto

lemma filter_swap: "filter P (filter Q xs) = filter Q (filter P xs)"
  by (simp add: conj_commute)

lemma meanwhile_step:
  assumes "store_inv st" and "m \<in> set (pending st)" and "meanwhile (mut_id m) e"
  shows "m \<in> set (pending (store_step e st))
    \<and> store_reject (mut_id m) (store_step e st)
      = (if edits_resource (resourceKey m) e then store_reject (mut_id m) st else store_step e (store_reject (mut_id m) st))"
proof (cases e)
  case (Begin key f)
  have others: "(\<exists>x \<in> set (pending st). mut_id x \<noteq> mut_id m \<and> resourceKey x = str_or_empty key)
      \<longleftrightarrow> (\<exists>x \<in> set (pending st). resourceKey x = str_or_empty key)" if "str_or_empty key \<noteq> resourceKey m"
  proof -
    have "mut_id x \<noteq> mut_id m" if "x \<in> set (pending st)" "resourceKey x = str_or_empty key" for x
      using assms(1,2) that \<open>str_or_empty key \<noteq> resourceKey m\<close> by (auto simp: store_inv_def distinct_map inj_on_def)
    then show ?thesis by blast
  qed
  have "mut_id m \<noteq> nextId st" using assms(1,2) by (auto simp: store_inv_def)
  then show ?thesis
    using assms(2) others by (auto simp: Begin store_begin_def store_reject_def Let_def)
next
  case (Confirm j c)
  then have j: "j \<noteq> mut_id m" using assms(3) by simp
  have "find (\<lambda>x. mut_id x = j) (filter (\<lambda>x. mut_id x \<noteq> mut_id m) (pending st)) = find (\<lambda>x. mut_id x = j) (pending st)"
    using j by (intro find_filter_other) auto
  then show ?thesis
    using assms(2) j by (simp add: Confirm store_confirm_pending)
      (auto simp: store_confirm_def store_reject_def Let_def conj_commute split: option.split)
next
  case (Reject j)
  then show ?thesis using assms(2,3) by (auto simp: store_reject_def conj_commute)
next
  case (Accept c)
  then show ?thesis
    using assms(2,3) by (auto simp: acceptConfirmed_pending) (auto simp: acceptConfirmed_def store_reject_def Let_def)
next
  case Clear
  then show ?thesis using assms(3) by simp
qed

text \<open>Giving an edit up after any such events leaves the store it would be had the edit never begun.\<close>

lemma reject_leaves_no_trace:
  assumes "store_inv st" and "snd (store_begin key f st) = Some m" and "\<forall>e \<in> set es. meanwhile (mut_id m) e"
  shows "store_reject (mut_id m) (fold store_step es (fst (store_begin key f st))) = without_edit (resourceKey m) es st"
proof -
  let ?k = "resourceKey m"
  have run: "store_reject (mut_id m) (fold store_step es u)
      = fold store_step (filter (\<lambda>e. \<not> edits_resource ?k e) es) (store_reject (mut_id m) u)"
    if "store_inv u" "m \<in> set (pending u)" "\<forall>e \<in> set es. meanwhile (mut_id m) e" for u
    using that
  proof (induction es arbitrary: u)
    case (Cons e es)
    then show ?case using meanwhile_step [of u m e] store_step_inv [of u e] by simp
  qed simp
  have "m \<in> set (pending (fst (store_begin key f st)))"
    and "store_reject (mut_id m) (fst (store_begin key f st)) = st\<lparr>nextId := Suc (nextId st)\<rparr>"
    using assms(1,2) by (auto simp: store_begin_def store_reject_def Let_def store_inv_def filter_other_ids split: if_splits)
  then show ?thesis
    using run [OF store_begin_inv [OF assms(1)] _ assms(3)] by (simp add: without_edit_def)
qed

lemma store_begin_key: "snd (store_begin key f st) = Some m \<Longrightarrow> resourceKey m = str_or_empty key"
  by (auto simp: store_begin_def Let_def split: if_splits)

section \<open>Keys\<close>

lemma next_index_ge: "highest \<le> next_index keys i highest"
  by (induction keys i highest rule: next_index.induct) (auto split: jsnum.splits)

lemma next_index_above:
  "j < length keys \<Longrightarrow> key_index (keys ! j) (i + j) = Fin q \<Longrightarrow> q < next_index keys i highest"
proof (induction keys i highest arbitrary: j rule: next_index.induct)
  case (2 entry rest i highest)
  show ?case
  proof (cases j)
    case 0
    have "q < max highest (q + 1)" by simp
    also have "\<dots> \<le> next_index (entry # rest) i highest"
      using 2(3) 0 by (simp add: next_index_ge)
    finally show ?thesis .
  next
    case (Suc k)
    with 2 show ?thesis by auto
  qed
qed simp

text \<open>A pending key is appended behind the provider's keys with an index above every index already
in use, so that it cannot be mistaken for one of them.\<close>

lemma pending_key_index_fresh:
  assumes "arr_or_empty (get providerConfig ''keys'') = keys" and "providerConfig = Obj kvs"
    and "j < length keys" and "key_index (keys ! j) j = Fin q"
  shows "\<exists>entry n. get (append_key metadata providerConfig) ''keys'' = Arr (keys @ [entry])
    \<and> get entry ''index'' = jnum n \<and> q < n \<and> of_nat (length keys) \<le> n"
  using next_index_above [of j keys 0 q "of_nat (length keys)"] assms
    next_index_ge [of "of_nat (length keys)" keys 0]
  by (simp add: append_key_def obj_set_def pending_key_def Let_def)

end
