(* ===== verification/Pagination.thy ===== *)
theory Pagination
  imports JsFacts
begin

text \<open>
  Paging of the console's lists: \<open>panel-pagination.mjs\<close>, \<open>request-pagination.mjs\<close>, and from
  \<open>app.js\<close> the slice \<open>paginate\<close> computes and the click handler of the request table. Page numbers in
  the state are zero-based. The page sizes are those of \<open>constants.js\<close>.
\<close>

section \<open>Page sizes\<close>

definition REQUEST_PAGE_SIZE :: rat where "REQUEST_PAGE_SIZE = 10"
definition PROVIDERS_PAGE_SIZE :: rat where "PROVIDERS_PAGE_SIZE = 8"
definition PROVIDER_MODEL_MAP_PAGE_SIZE :: rat where "PROVIDER_MODEL_MAP_PAGE_SIZE = 6"

section \<open>Panels: \<open>changePanelPage\<close>\<close>

datatype direction = Prev | Next | OtherDirection

text \<open>
  The state object's paging entries; the returned flag says whether a page changed. \<open>state\<close> is the
  list of own properties, \<open>None\<close> for a missing state object.
\<close>

definition changePanelPage ::
  "(string \<times> jsval) list option \<Rightarrow> string \<Rightarrow> direction \<Rightarrow> (string \<times> jsval) list option \<times> bool" where
  "changePanelPage state pageKey direction =
     (case state of None \<Rightarrow> (None, False)
      | Some st \<Rightarrow>
          if \<not> has_own pageKey st then (Some st, False) else
          (let current = num_max (Fin 0) (num_or_zero (lookup pageKey st));
               next1 = (if direction = Prev then num_max (Fin 0) (num_sub current (Fin 1)) else current);
               next2 = (if direction = Next then num_add current (Fin 1) else next1)
           in if num_eq next2 current then (Some st, False)
              else (Some (set_prop pageKey (Num next2) st), True)))"

text \<open>What a click on a pager button passes on: the key and one of the two directions, or nothing.\<close>

definition panelClick :: "bool \<Rightarrow> jsval \<Rightarrow> jsval \<Rightarrow> (string \<times> direction) option" where
  "panelClick disabled listPageKey listPage =
     (let pageKey = str_or_empty listPageKey; dir = str_or_empty listPage in
      if disabled then None
      else if pageKey = [] \<or> (dir \<noteq> ''prev'' \<and> dir \<noteq> ''next'') then None
      else Some (pageKey, if dir = ''prev'' then Prev else Next))"

section \<open>Requests\<close>

definition num_or_d :: "jsval \<Rightarrow> rat \<Rightarrow> jsnum" where
  "num_or_d v d = num_or (to_num v) (Fin d)"

definition requestPageTarget :: "jsval \<Rightarrow> jsval \<Rightarrow> direction \<Rightarrow> bool \<Rightarrow> jsnum" where
  "requestPageTarget currentPage totalPages direction is_pending =
     (let current = num_max (Fin 0) (num_or_d currentPage 0);
          lastPage = num_max (Fin 0) (num_sub (num_or_d totalPages 1) (Fin 1))
      in if is_pending then current
         else if direction = Prev then num_max (Fin 0) (num_sub current (Fin 1))
         else if direction = Next then num_min lastPage (num_add current (Fin 1))
         else current)"

definition requestPayloadMatchesPage :: "jsval \<Rightarrow> jsval \<Rightarrow> jsval \<Rightarrow> bool" where
  "requestPayloadMatchesPage payload page pageSize =
     (if payload = Undef then True
      else if \<not> is_object payload then False
      else if \<not> has_own ''offset'' (obj_fields payload) then True
      else (let off = to_num (get payload ''offset'');
                size = num_max (Fin 1) (num_or_d pageSize 1)
            in is_finite off \<and> num_eq off (num_mul (num_max (Fin 0) (num_or_d page 0)) size)))"

definition requestNavigationPayloadMatchesPage :: "jsval \<Rightarrow> jsval \<Rightarrow> jsval \<Rightarrow> bool" where
  "requestNavigationPayloadMatchesPage payload page pageSize \<longleftrightarrow>
     payload \<noteq> Undef \<and> requestPayloadMatchesPage payload page pageSize"

text \<open>
  The click handler of the request pager: it ignores clicks while a navigation is under way or when
  the target is the page already shown; otherwise it moves \<open>state.requestsPage\<close>, records the
  navigation and asks for the page's data.
\<close>

record request_nav =
  requestsPage :: jsval
  navigation :: "(jsnum \<times> jsnum) option"
  forceRequestsFetch :: bool

definition requestPagerClick ::
  "direction \<Rightarrow> bool \<Rightarrow> jsval \<Rightarrow> jsval \<Rightarrow> request_nav \<Rightarrow> request_nav" where
  "requestPagerClick direction disabled requestsTotal totalPages s =
     (if disabled \<or> navigation s \<noteq> None then s else
      (let currentPage = num_max (Fin 0) (num_or_d (requestsPage s) 0);
           currentTotal = num_or_zero requestsTotal;
           availablePages =
             (if num_lt (Fin 0) currentTotal
              then Num (num_max (Fin 1) (num_ceil (num_div currentTotal (Fin REQUEST_PAGE_SIZE))))
              else totalPages);
           targetPage = requestPageTarget (Num currentPage) availablePages direction False
       in if num_eq targetPage currentPage then s
          else s\<lparr>requestsPage := Num targetPage, navigation := Some (currentPage, targetPage),
                 forceRequestsFetch := True\<rparr>))"

section \<open>Slicing a list: \<open>paginate\<close>\<close>

record 'a page_view =
  pv_items :: "'a list"
  pv_total :: int
  pv_totalPages :: int
  pv_currentPage :: int
  pv_start :: int
  pv_end :: int

text \<open>
  \<open>pageSize\<close> is one of the positive constants and the stored page a finite integer, as every writer
  of \<open>state\<close> leaves it; the result also gives the page number written back.
\<close>

definition paginate :: "'a list \<Rightarrow> int \<Rightarrow> nat \<Rightarrow> 'a page_view \<times> int" where
  "paginate xs statePage pageSize =
     (let total = int (length xs); ps = int pageSize;
          totalPages = max 1 (\<lceil>of_int total / of_int ps :: rat\<rceil>);
          current = max 0 (min statePage (totalPages - 1));
          start = (if total \<noteq> 0 then current * ps else 0);
          stop = min total (start + ps)
      in (\<lparr>pv_items = take (nat (stop - start)) (drop (nat start) xs), pv_total = total,
           pv_totalPages = totalPages, pv_currentPage = current + 1,
           pv_start = (if total \<noteq> 0 then start + 1 else 0), pv_end = stop\<rparr>, current))"

section \<open>Lemmas\<close>

lemma num_or_Fin [simp]: "num_or (Fin q) (Fin d) = Fin (if q \<noteq> 0 then q else d)"
  by (simp add: num_or_def)

lemma num_or_cases: "num_or n (Fin d) = Fin d \<or> (num_or n (Fin d) = n \<and> num_truthy n)"
  by (simp add: num_or_def)

text \<open>A page number the state may hold: a natural number.\<close>

definition page_num :: "jsnum \<Rightarrow> bool" where
  "page_num n \<longleftrightarrow> (\<exists>k :: nat. n = Fin (of_nat k))"

lemma page_num_Fin: "page_num (Fin q) \<longleftrightarrow> (\<exists>k :: nat. q = of_nat k)"
  by (simp add: page_num_def)

lemma requestPageTarget_Fin:
  "requestPageTarget (jnum (of_nat c)) (jnum (of_nat n)) d b =
     (let lastp = max 1 n - 1 in
      if b then Fin (of_nat c) else case d of Prev \<Rightarrow> Fin (of_nat (c - 1))
        | Next \<Rightarrow> Fin (of_nat (min lastp (c + 1))) | OtherDirection \<Rightarrow> Fin (of_nat c))"
proof -
  have p: "max (0 :: rat) (of_nat c - 1) = of_nat (c - 1)"
    by (cases c) auto
  show ?thesis
    by (cases d; cases n)
      (simp_all add: requestPageTarget_def num_or_d_def p Let_def max_def of_nat_min add.commute)
qed

lemma ceil_pages_ge: "0 < ps \<Longrightarrow> (n :: int) \<le> \<lceil>of_int n / of_int ps :: rat\<rceil> * ps"
proof -
  assume ps: "0 < ps"
  have "of_int n / of_int ps \<le> (of_int \<lceil>of_int n / of_int ps :: rat\<rceil> :: rat)"
    by (rule le_of_int_ceiling)
  with ps have "(of_int n :: rat) \<le> of_int (\<lceil>of_int n / of_int ps :: rat\<rceil> * ps)"
    by (simp only: of_int_mult pos_divide_le_eq of_int_0_less_iff)
  then show ?thesis by (simp only: of_int_le_iff)
qed

lemma ceil_pages_less: "0 < ps \<Longrightarrow> (\<lceil>of_int n / of_int ps :: rat\<rceil> - 1) * ps < (n :: int)"
proof -
  assume ps: "0 < ps"
  have "(of_int (\<lceil>of_int n / of_int ps :: rat\<rceil> - 1) :: rat) < of_int n / of_int ps"
    using ceiling_correct [of "of_int n / of_int ps :: rat"] by simp
  with ps have "(of_int ((\<lceil>of_int n / of_int ps :: rat\<rceil> - 1) * ps) :: rat) < of_int n"
    by (simp add: pos_less_divide_eq)
  then show ?thesis by (simp only: of_int_less_iff)
qed

text \<open>The slice of a non-empty list is the page the view reports, and never empty.\<close>

lemma window_take:
  "take (nat (min (int (length xs)) (int a + int n) - int a)) (drop a xs) = take n (drop a xs)"
proof (cases "a + n \<le> length xs")
  case True
  then have "min (int (length xs)) (int a + int n) - int a = int n" by simp
  then show ?thesis by simp
next
  case False
  then have "min (int (length xs)) (int a + int n) - int a = int (length xs) - int a" by simp
  then show ?thesis using False by (simp add: nat_diff_distrib')
qed

lemma last_page_start:
  assumes "0 < n" and "0 < ps"
  defines "tp \<equiv> max 1 \<lceil>of_int n / of_int ps :: rat\<rceil>"
  shows "max 0 (min p (tp - 1)) * ps < n"
proof -
  have "max 0 (min p (tp - 1)) \<le> max 0 (\<lceil>of_int n / of_int ps :: rat\<rceil> - 1)"
    by (simp add: tp_def)
  then have "max 0 (min p (tp - 1)) * ps \<le> max 0 (\<lceil>of_int n / of_int ps :: rat\<rceil> - 1) * ps"
    using assms(2) by (intro mult_right_mono) simp_all
  also have "\<dots> < n" using ceil_pages_less [OF assms(2), of n] assms(1) by (simp add: max_def)
  finally show ?thesis .
qed

lemma paginate_window:
  fixes p :: int and xs :: "'a list"
  assumes "0 < pageSize" and "xs \<noteq> []"
  defines "v \<equiv> fst (paginate xs p pageSize)"
  shows "pv_items v = take pageSize (drop (nat (pv_currentPage v - 1) * pageSize) xs)
     \<and> pv_items v \<noteq> []"
proof -
  define cur where "cur = max 0 (min p (max 1 \<lceil>of_int (int (length xs)) / of_int (int pageSize) :: rat\<rceil> - 1))"
  define a where "a = nat cur * pageSize"
  have ia: "int a = cur * int pageSize" by (simp add: a_def cur_def)
  have "cur * int pageSize < int (length xs)"
    unfolding cur_def by (rule last_page_start) (use assms in auto)
  then have lt: "a < length xs" using ia by simp
  have c: "pv_currentPage v - 1 = cur"
    by (simp only: v_def paginate_def Let_def fst_conv page_view.select_convs cur_def
        add_diff_cancel_right')
  have "pv_items v = (let s = (pv_currentPage v - 1) * int pageSize
      in take (nat (min (int (length xs)) (s + int pageSize) - s)) (drop (nat s) xs))"
    by (simp only: v_def paginate_def Let_def fst_conv page_view.select_convs add_diff_cancel_right'
        of_nat_eq_0_iff length_0_conv assms(2) if_True simp_thms)
  then have "pv_items v = take (nat (min (int (length xs)) (int a + int pageSize) - int a)) (drop a xs)"
    by (simp only: c Let_def nat_int flip: ia)
  then have "pv_items v = take pageSize (drop a xs)" by (simp only: window_take)
  with lt assms(1) c show ?thesis by (simp add: a_def)
qed

end
