(* ===== verification/KeyModels.thy ===== *)
theory KeyModels
  imports JsFacts
begin

text \<open>
  Provider keys. \<open>key-models.mjs\<close> parses the per-key model mapping the operator types
  (\<open>name=upstream\<close> entries separated by newlines, commas or semicolons); \<open>provider-key-view.mjs\<close>
  joins the configured keys of a provider with the runtime's view of them.
\<close>

section \<open>\<open>key-models.mjs\<close>\<close>

definition is_key_separator :: "char \<Rightarrow> bool" where
  "is_key_separator c \<longleftrightarrow> c = CHR 0x0A \<or> c = CHR '','' \<or> c = CHR '';''"

definition key_model_items :: "jsval \<Rightarrow> string list" where
  "key_model_items value =
     filter (\<lambda>s. s \<noteq> []) (map js_trim (js_split is_key_separator (str_or_empty value)))"

definition key_model_entry :: "string \<Rightarrow> string \<times> string" where
  "key_model_entry item =
     (case index_of_char (CHR ''='') item of
        Some i \<Rightarrow> (js_trim (take i item), js_trim (drop (Suc i) item))
      | None \<Rightarrow> (js_trim item, js_trim item))"

definition parseKeyModelsText :: "jsval \<Rightarrow> (string \<times> string) list" where
  "parseKeyModelsText value =
     foldl (\<lambda>result item.
         let (canonical, raw) = key_model_entry item in
         if canonical \<noteq> [] \<and> raw \<noteq> [] then set_prop canonical raw result else result)
       [] (key_model_items value)"

definition keyModelsPatchValue :: "jsval \<Rightarrow> (string \<times> string) list option" where
  "keyModelsPatchValue value =
     (let models = parseKeyModelsText value in if models \<noteq> [] then Some models else None)"

text \<open>\<open>keyModelsText\<close> of \<open>app.js\<close> prints the mapping back into the text box.\<close>

definition keyModelsText :: "jsval \<Rightarrow> string" where
  "keyModelsText models =
     (case models of
        Arr xs \<Rightarrow> js_join '', '' (map (\<lambda>x. if nullish x then [] else to_str x) xs)
      | Obj kvs \<Rightarrow> js_join '', '' (map (\<lambda>(canonical, raw). canonical @ ''='' @ to_str raw) (own_entries kvs))
      | _ \<Rightarrow> [])"

subsection \<open>Printing and parsing\<close>

text \<open>A name the text box can carry: trimmed, non-empty and free of separators.\<close>

definition plain_name :: "string \<Rightarrow> bool" where
  "plain_name s \<longleftrightarrow> s \<noteq> [] \<and> js_trim s = s \<and> (\<forall>c \<in> set s. \<not> is_key_separator c)"

definition printable_models :: "(string \<times> string) list \<Rightarrow> bool" where
  "printable_models ms \<longleftrightarrow> distinct (map fst ms)
     \<and> (\<forall>(k, v) \<in> set ms. plain_name k \<and> plain_name v \<and> CHR ''='' \<notin> set k)"

lemma split_join_trim:
  "xs \<noteq> [] \<Longrightarrow> \<forall>s \<in> set xs. \<forall>c \<in> set s. \<not> is_key_separator c \<Longrightarrow>
   map js_trim (js_split is_key_separator (js_join '', '' xs)) = map js_trim xs"
proof (induction xs rule: induct_list012)
  case (3 x y zs)
  let ?rest = "js_join '', '' (y # zs)"
  have sp: "js_split is_key_separator (CHR '' '' # ?rest)
      = (CHR '' '' # hd (js_split is_key_separator ?rest)) # tl (js_split is_key_separator ?rest)"
    by (rule js_split_Cons) (simp add: is_key_separator_def)
  have "js_split is_key_separator (x @ CHR '','' # CHR '' '' # ?rest)
      = x # js_split is_key_separator (CHR '' '' # ?rest)"
    using 3 by (intro js_split_at) (auto simp: is_key_separator_def)
  then have "map js_trim (js_split is_key_separator (js_join '', '' (x # y # zs)))
      = js_trim x # js_trim (hd (js_split is_key_separator ?rest))
          # map js_trim (tl (js_split is_key_separator ?rest))"
    by (simp add: sp js_trim_space space_is_space del: js_split.simps)
  also have "\<dots> = js_trim x # map js_trim (js_split is_key_separator ?rest)"
    using js_split_ne [of is_key_separator ?rest]
    by (cases "js_split is_key_separator ?rest") simp_all
  also have "\<dots> = map js_trim (x # y # zs)"
    using 3 by simp
  finally show ?case .
qed (simp_all add: js_split_plain)

lemma index_of_char_entry: "c \<notin> set k \<Longrightarrow> index_of_char c (k @ c # v) = Some (length k)"
  by (induction k) auto

lemma js_trim_entry:
  "plain_name k \<Longrightarrow> plain_name v \<Longrightarrow> js_trim (k @ ''='' @ v) = k @ ''='' @ v"
proof -
  assume k: "plain_name k" and v: "plain_name v"
  have hd: "\<not> is_js_space (hd s)" and last: "\<not> is_js_space (last s)" if "plain_name s" for s
  proof -
    have t: "rev (dropWhile is_js_space (rev (dropWhile is_js_space s))) = s" and ne: "s \<noteq> []"
      using that by (simp_all add: plain_name_def js_trim_def)
    have "length (dropWhile is_js_space s) \<ge> length s"
      by (metis t length_rev length_dropWhile_le)
    then have d: "dropWhile is_js_space s = s"
      by (metis dropWhile_eq_drop drop_0 length_dropWhile_le le_antisym length_drop
          takeWhile_dropWhile_id append_eq_conv_conj self_append_conv2 length_append add_cancel_right_left length_0_conv)
    then show "\<not> is_js_space (hd s)" using ne by (metis dropWhile_eq_self_iff)
    from d t have "dropWhile is_js_space (rev s) = rev s" by (metis rev_swap)
    then show "\<not> is_js_space (last s)" using ne
      by (metis dropWhile_eq_self_iff hd_rev rev_is_Nil_conv)
  qed
  have "dropWhile is_js_space (k @ ''='' @ v) = k @ ''='' @ v"
    using hd [OF k] k by (subst dropWhile_eq_self_iff) (auto simp: plain_name_def)
  moreover have "dropWhile is_js_space (rev (k @ ''='' @ v)) = rev (k @ ''='' @ v)"
    using last [OF v] v by (subst dropWhile_eq_self_iff) (auto simp: plain_name_def hd_append hd_rev)
  ultimately show ?thesis by (simp only: js_trim_def rev_rev_ident)
qed

lemma key_model_entry_print:
  assumes "plain_name k" "plain_name v" "CHR ''='' \<notin> set k"
  shows "key_model_entry (k @ ''='' @ v) = (k, v)"
  using assms index_of_char_entry [of "CHR ''=''" k v]
  by (simp add: key_model_entry_def plain_name_def)

lemma foldl_set_prop_append:
  "distinct (map fst (acc @ ms)) \<Longrightarrow>
   foldl (\<lambda>r (k, v). set_prop k v r) acc ms = acc @ ms"
proof (induction ms arbitrary: acc)
  case (Cons m ms)
  have "set_prop (fst m) (snd m) acc = acc @ [m]"
    using Cons.prems by (induction acc) auto
  with Cons show ?case by (auto simp: case_prod_beta)
qed simp

lemma printable_entry:
  assumes "printable_models ms" and "m \<in> set ms"
  defines "p \<equiv> (\<lambda>(k, v). k @ ''='' @ v) m"
  shows "js_trim p = p" "p \<noteq> []" "\<forall>c \<in> set p. \<not> is_key_separator c" "key_model_entry p = m"
    "fst m \<noteq> []" "snd m \<noteq> []"
proof -
  obtain k v where m: "m = (k, v)" by (cases m)
  have kv: "plain_name k" "plain_name v" "CHR ''='' \<notin> set k"
    using assms(1,2) by (auto simp: printable_models_def m)
  show "js_trim p = p"
    unfolding p_def m prod.case by (rule js_trim_entry [OF kv(1,2)])
  show "key_model_entry p = m"
    unfolding p_def m prod.case by (rule key_model_entry_print [OF kv])
  show "p \<noteq> []" "fst m \<noteq> []" "snd m \<noteq> []"
    using kv by (simp_all add: p_def m plain_name_def)
  have "\<not> is_key_separator (CHR ''='')" by (simp add: is_key_separator_def)
  with kv show "\<forall>c \<in> set p. \<not> is_key_separator c"
    unfolding p_def m by (auto simp: plain_name_def)
qed

lemma parse_printed_items:
  assumes "printable_models ms"
  shows "parseKeyModelsText (Str (js_join '', '' (map (\<lambda>(k, v). k @ ''='' @ v) ms))) = ms"
proof (cases "ms = []")
  case True
  then show ?thesis
    by (simp add: parseKeyModelsText_def key_model_items_def)
next
  case False
  let ?print = "\<lambda>(k, v). k @ ''='' @ v"
  have each: "js_trim (?print m) = ?print m" "?print m \<noteq> []"
    "\<forall>c \<in> set (?print m). \<not> is_key_separator c" "key_model_entry (?print m) = m"
    "fst m \<noteq> []" "snd m \<noteq> []" if "m \<in> set ms" for m
    by (rule printable_entry [OF assms that])+
  have "key_model_items (Str (js_join '', '' (map ?print ms)))
      = filter (\<lambda>s. s \<noteq> []) (map js_trim (map ?print ms))"
    using False each(3)
    by (simp add: key_model_items_def split_join_trim)
  also have "\<dots> = map ?print ms"
    using each(1,2) by (simp add: filter_id_conv cong: map_cong)
  finally have items: "key_model_items (Str (js_join '', '' (map ?print ms))) = map ?print ms" .
  have "foldl (\<lambda>r i. let (c, w) = key_model_entry i in if c \<noteq> [] \<and> w \<noteq> [] then set_prop c w r else r)
          acc (map ?print xs) = foldl (\<lambda>r (k, v). set_prop k v r) acc xs"
    if "set xs \<subseteq> set ms" for acc xs
    using that each by (induction xs arbitrary: acc) (auto simp: case_prod_beta Let_def)
  from this [of ms "[]"] show ?thesis
    unfolding parseKeyModelsText_def items
    using assms foldl_set_prop_append [of "[]" ms] by (simp add: printable_models_def)
qed

section \<open>\<open>provider-key-view.mjs\<close>\<close>

definition stable_text :: "string \<Rightarrow> jsval \<Rightarrow> string" where
  "stable_text field key =
     (let value = trimmed (get key field) in if value = [] \<or> value = ''pending'' then [] else value)"

definition stableIdentity :: "jsval \<Rightarrow> string" where
  "stableIdentity key = stable_text ''key_id'' key"

definition stableMasked :: "jsval \<Rightarrow> string" where
  "stableMasked key = stable_text ''masked'' key"

text \<open>The runtime keys with their positions; a position is consumed by the key it was matched to.\<close>

definition first_free :: "(jsval \<Rightarrow> nat \<Rightarrow> bool) \<Rightarrow> nat set \<Rightarrow> jsval list \<Rightarrow> (nat \<times> jsval) option" where
  "first_free p consumed runtime =
     find (\<lambda>(position, key). position \<notin> consumed \<and> p key position) (enumerate 0 runtime)"

definition findRuntime :: "jsval list \<Rightarrow> jsval \<Rightarrow> nat \<Rightarrow> nat set \<Rightarrow> (nat \<times> jsval) option" where
  "findRuntime runtime configured configPosition consumed =
     (let configuredId = stableIdentity configured; configuredMasked = stableMasked configured;
          m1 = (if configuredId \<noteq> []
                then first_free (\<lambda>key _. stableIdentity key = configuredId) consumed runtime else None);
          m2 = (if m1 = None \<and> configuredMasked \<noteq> []
                then first_free (\<lambda>key _. stableMasked key = configuredMasked) consumed runtime else m1)
      in if m2 = None \<and> configuredId = [] \<and> configuredMasked = [] \<and> \<not> truthy (get configured ''pending'')
         then (let configuredIndex = to_num (jcoalesce (get configured ''index'') (jnum (of_nat configPosition)))
               in first_free (\<lambda>key position.
                    num_eq (to_num (jcoalesce (get key ''index'') (jnum (of_nat position)))) configuredIndex)
                    consumed runtime)
         else m2)"

definition merged_key :: "jsval \<Rightarrow> jsval \<Rightarrow> nat \<Rightarrow> jsval" where
  "merged_key runtimeMatch configured configPosition =
     Obj (spread (spread (obj_fields runtimeMatch) (obj_fields configured))
       [(''index'', Num (to_num (jcoalesce (get configured ''index'') (jnum (of_nat configPosition))))),
        (''key_id'', jcoalesce (jcoalesce (get configured ''key_id'') (get runtimeMatch ''key_id'')) (Str [])),
        (''masked'', jcoalesce (jcoalesce (get configured ''masked'') (get runtimeMatch ''masked'')) (Str [])),
        (''proxy'', jcoalesce (jcoalesce (get configured ''proxy'') (get runtimeMatch ''proxy'')) (Str []))])"

text \<open>
  The \<open>flatMap\<close> over the configured keys, which threads the consumed positions. Each output entry
  is paired with the runtime position it was joined to, so that the lemmas can speak of the matching.
\<close>

fun merge_keys :: "jsval list \<Rightarrow> jsval list \<Rightarrow> nat \<Rightarrow> nat set \<Rightarrow> (jsval \<times> nat option) list" where
  "merge_keys runtime [] i consumed = []"
| "merge_keys runtime (configured # rest) i consumed =
     (if \<not> truthy configured \<or> truthy (get configured ''pending_delete'')
      then merge_keys runtime rest (Suc i) consumed
      else (case findRuntime runtime configured i consumed of
              None \<Rightarrow> (Obj (obj_fields configured), None) # merge_keys runtime rest (Suc i) consumed
            | Some (position, key) \<Rightarrow>
                (if truthy key then merged_key key configured i else Obj (obj_fields configured),
                 Some position)
                # merge_keys runtime rest (Suc i) (insert position consumed)))"

definition mergedProviderKeys :: "jsval \<Rightarrow> jsval \<Rightarrow> jsval list" where
  "mergedProviderKeys runtimeKeys configKeys =
     (let runtime = arr_or_empty runtimeKeys in
      case configKeys of
        Arr cs \<Rightarrow> map fst (merge_keys runtime cs 0 {})
      | _ \<Rightarrow> map (\<lambda>key. Obj (obj_fields key)) runtime)"

subsection \<open>The matching\<close>

lemma first_free_Some:
  "first_free p consumed runtime = Some (i, key) \<Longrightarrow>
   i \<notin> consumed \<and> i < length runtime \<and> runtime ! i = key \<and> p key i"
  by (auto simp: first_free_def find_Some_iff nth_enumerate_eq)

lemma findRuntime_Some:
  assumes "findRuntime runtime configured n consumed = Some (i, key)"
  shows "i \<notin> consumed \<and> i < length runtime \<and> runtime ! i = key"
  using assms first_free_Some by (auto simp: findRuntime_def Let_def split: if_splits; blast)

lemma merge_keys_positions:
  "set (List.map_filter snd (merge_keys runtime cs n consumed)) \<inter> consumed = {}
   \<and> distinct (List.map_filter snd (merge_keys runtime cs n consumed))
   \<and> set (List.map_filter snd (merge_keys runtime cs n consumed)) \<subseteq> {..<length runtime}"
proof (induction cs arbitrary: n consumed)
  case (Cons c cs)
  show ?case
  proof (cases "findRuntime runtime c n consumed")
    case None
    then show ?thesis using Cons by (simp add: List.map_filter_simps)
  next
    case (Some m)
    obtain i key where m: "m = (i, key)" by (cases m)
    show ?thesis
      using Cons [of "Suc n" "insert i consumed"] Cons [of "Suc n" consumed]
        findRuntime_Some [OF Some [unfolded m]] Some m
      by (auto simp: List.map_filter_simps)
  qed
qed (simp add: List.map_filter_simps)

lemma merge_keys_length:
  "length (merge_keys runtime cs n consumed)
     = length (filter (\<lambda>c. truthy c \<and> \<not> truthy (get c ''pending_delete'')) cs)"
  by (induction cs arbitrary: n consumed) (auto split: option.split)

end
