(* ===== verification/ProviderModels.thy ===== *)
theory ProviderModels
  imports JsFacts
begin

text \<open>
  \<open>dashboard_src/src/provider-model-config.mjs\<close>: static model declarations, variant groups, the
  merged client-id catalogue of a provider, and the write plans of the editors. A JavaScript \<open>Set\<close>
  or \<open>Map\<close> whose iteration order matters is a list in insertion order.
\<close>

section \<open>Model ids\<close>

definition modelId :: "jsval \<Rightarrow> string" where
  "modelId v =
     (if is_object v
      then js_trim (to_str (jor (jor (jor (get v ''id'') (get v ''model'')) (get v ''raw_model'')) (Str [])))
      else trimmed v)"

text \<open>The local helper \<open>key\<close>: the case-insensitive identity of an id.\<close>

definition ckey :: "string \<Rightarrow> string" where
  "ckey s = js_lower (js_trim s)"

definition vkey :: "jsval \<Rightarrow> string" where
  "vkey v = js_lower (trimmed v)"

section \<open>Static models\<close>

fun normalize_loop :: "string list \<Rightarrow> string list \<Rightarrow> jsval list \<Rightarrow> string list" where
  "normalize_loop seen models [] = models"
| "normalize_loop seen models (entry # rest) =
     (let i = modelId entry in
      if i = [] \<or> i \<in> set seen then normalize_loop seen models rest
      else normalize_loop (i # seen) (models @ [i]) rest)"

definition normalizeStaticModelIds :: "jsval \<Rightarrow> string list" where
  "normalizeStaticModelIds entries = normalize_loop [] [] (arr_or_empty entries)"

definition mergeStaticModelIds :: "jsval \<Rightarrow> jsval \<Rightarrow> string list" where
  "mergeStaticModelIds existing rawAdditions =
     (let additions = filter (\<lambda>s. s \<noteq> [])
            (map js_trim (js_split (\<lambda>c. c = CHR '','') (str_or_empty rawAdditions)))
      in normalizeStaticModelIds
           (Arr (map Str (normalizeStaticModelIds existing) @ map Str additions)))"

section \<open>Variant groups\<close>

record variant =
  v_model :: string
  v_priority :: rat

definition finite_or_zero :: "jsnum \<Rightarrow> rat" where
  "finite_or_zero n = (case n of Fin q \<Rightarrow> q | _ \<Rightarrow> 0)"

fun variant_loop :: "string list \<Rightarrow> variant list \<Rightarrow> jsval list \<Rightarrow> variant list" where
  "variant_loop seen variants [] = variants"
| "variant_loop seen variants (entry # rest) =
     (let model = modelId entry in
      if model = [] \<or> model \<in> set seen then variant_loop seen variants rest
      else (let rawPriority = (if is_object entry then num_or_zero (get entry ''priority'') else Fin 0)
            in variant_loop (model # seen)
                 (variants @ [\<lparr>v_model = model, v_priority = finite_or_zero rawPriority\<rparr>]) rest))"

definition normalizeVariantEntries :: "jsval \<Rightarrow> variant list" where
  "normalizeVariantEntries entries = variant_loop [] [] (arr_or_empty entries)"

text \<open>Entries with their position, ordered by priority descending, then position.\<close>

definition variant_le :: "variant \<times> nat \<Rightarrow> variant \<times> nat \<Rightarrow> bool" where
  "variant_le a b \<longleftrightarrow>
     (let d = v_priority (fst b) - v_priority (fst a) in
      if d \<noteq> 0 then d \<le> 0 else snd a \<le> snd b)"

definition group_entry :: "jsval \<Rightarrow> nat \<Rightarrow> (variant \<times> nat) option" where
  "group_entry entry index =
     (let model = modelId entry in
      if model = [] then None else
      let rawPriority = (if is_object entry
            then to_num (jcoalesce (get entry ''priority'') (jnum 0)) else Fin 0)
      in Some (\<lparr>v_model = model, v_priority = finite_or_zero rawPriority\<rparr>, index))"

definition group_variants :: "jsval \<Rightarrow> variant list" where
  "group_variants rawVariants =
     (let ordered = js_sort variant_le
            (List.map_filter (\<lambda>(index, entry). group_entry entry index)
               (enumerate 0 (arr_or_empty rawVariants)))
      in map fst (first_by (\<lambda>e. v_model (fst e)) [] ordered))"

record variant_group =
  vg_id :: string
  vg_key :: string
  vg_variants :: "variant list"

record variant_groups =
  vg_entries :: "variant_group list"
  vg_byKey :: "(string \<times> variant_group) list"

fun by_key :: "(string \<times> variant_group) list \<Rightarrow> variant_group list \<Rightarrow> (string \<times> variant_group) list" where
  "by_key acc [] = acc"
| "by_key acc (entry # rest) =
     by_key (if has_own (vg_key entry) acc then acc else acc @ [(vg_key entry, entry)]) rest"

definition normalizeVariantGroups :: "jsval \<Rightarrow> variant_groups" where
  "normalizeVariantGroups rawGroups =
     (let entries = List.map_filter (\<lambda>(canonical, rawVariants).
            let i = js_trim canonical in
            if i = [] \<or> nullish rawVariants then None
            else Some \<lparr>vg_id = i, vg_key = js_lower i, vg_variants = group_variants rawVariants\<rparr>)
          (js_entries rawGroups)
      in \<lparr>vg_entries = entries, vg_byKey = by_key [] entries\<rparr>)"

text \<open>The arrow of the label, in UTF-8.\<close>

definition arrow :: string where
  "arrow = [CHR '' '', CHR 0xE2, CHR 0x86, CHR 0x92, CHR '' '']"

definition variantChainLabel :: "jsval \<Rightarrow> jsval \<Rightarrow> string" where
  "variantChainLabel i variants =
     (let head = trimmed i;
          tail = List.map_filter (\<lambda>variant.
              let model = trimmed (get variant ''model'') in
              if model = [] then None
              else Some (model @ '' ('' @ num_to_str (num_or (to_num (get variant ''priority'')) (Fin 0)) @ '')''))
            (arr_or_empty variants)
      in js_join arrow ((if head \<noteq> [] then [head] else []) @ tail))"

definition sortVariantMembers :: "variant list \<Rightarrow> variant list" where
  "sortVariantMembers entries = map fst (js_sort variant_le (map prod.swap (enumerate 0 entries)))"

section \<open>Write plans\<close>

record clash =
  clash_id :: string
  clash_source :: string

record group_write =
  w_model :: string
  w_variants :: "variant list"

record group_plan =
  gp_id :: string
  gp_nextId :: string
  gp_renamed :: bool
  gp_clash :: "clash option"
  gp_members :: "variant list"
  gp_writes :: "group_write list"

text \<open>\<open>entry?.id ?? entry\<close>.\<close>

definition taken_id :: "jsval \<Rightarrow> jsval" where
  "taken_id entry = jcoalesce (get entry ''id'') entry"

definition planVariantGroupSave ::
  "jsval \<Rightarrow> jsval \<Rightarrow> jsval \<Rightarrow> jsval list \<Rightarrow> group_plan" where
  "planVariantGroupSave canonical nextModel variants taken =
     (let i = trimmed canonical in
      if i = []
      then \<lparr>gp_id = [], gp_nextId = [], gp_renamed = False, gp_clash = None, gp_members = [], gp_writes = []\<rparr>
      else
      let nextId = (if trimmed nextModel \<noteq> [] then trimmed nextModel else i);
          members = sortVariantMembers (normalizeVariantEntries variants);
          renamed = (ckey nextId \<noteq> ckey i);
          collision = (if renamed
             then find (\<lambda>entry. let value = vkey (taken_id entry) in value = ckey nextId \<and> value \<noteq> ckey i) taken
             else None)
      in \<lparr>gp_id = i, gp_nextId = nextId, gp_renamed = renamed,
          gp_clash = map_option (\<lambda>c. \<lparr>clash_id = js_trim (to_str (taken_id c)),
                                      clash_source = str_or_empty (get c ''source'')\<rparr>) collision,
          gp_members = members,
          gp_writes = \<lparr>w_model = nextId, w_variants = members\<rparr>
                      # (if renamed then [\<lparr>w_model = i, w_variants = []\<rparr>] else [])\<rparr>)"

record static_plan =
  sp_models :: "string list"
  sp_renamed :: bool
  sp_removed :: bool
  sp_clash :: "clash option"

fun find_index :: "('a \<Rightarrow> bool) \<Rightarrow> 'a list \<Rightarrow> nat option" where
  "find_index p [] = None"
| "find_index p (x # xs) = (if p x then Some 0 else map_option Suc (find_index p xs))"

definition planStaticModelSave :: "jsval \<Rightarrow> jsval \<Rightarrow> jsval \<Rightarrow> bool \<Rightarrow> static_plan" where
  "planStaticModelSave existing model nextModel remove =
     (let models = normalizeStaticModelIds existing; currentKey = vkey model in
      case find_index (\<lambda>entry. js_lower entry = currentKey) models of
        None \<Rightarrow> \<lparr>sp_models = models, sp_renamed = False, sp_removed = False, sp_clash = None\<rparr>
      | Some index \<Rightarrow>
          if remove
          then \<lparr>sp_models = take index models @ drop (Suc index) models, sp_renamed = False,
                sp_removed = True, sp_clash = None\<rparr>
          else
          (let nextId = (if trimmed nextModel \<noteq> [] then trimmed nextModel else models ! index);
               nextKey = js_lower nextId;
               renamed = (nextKey \<noteq> currentKey);
               has_clash = (renamed \<and> (\<exists>e \<in> set (take index models @ drop (Suc index) models).
                                      js_lower e = nextKey))
           in \<lparr>sp_models = (if renamed \<and> \<not> has_clash then models[index := nextId] else models),
               sp_renamed = (renamed \<and> \<not> has_clash), sp_removed = False,
               sp_clash = (if has_clash then Some \<lparr>clash_id = nextId, clash_source = ''static''\<rparr>
                           else None)\<rparr>))"

section \<open>Catalogue items\<close>

definition providerModelSourceId :: "jsval \<Rightarrow> string" where
  "providerModelSourceId item = js_trim (to_str (jor (jor (get item ''raw'') (get item ''label'')) (Str [])))"

definition providerModelMappingOldId :: "jsval \<Rightarrow> string" where
  "providerModelMappingOldId item = (if truthy (get item ''manual'') then trimmed (get item ''label'') else [])"

text \<open>
  The accumulator of \<open>mergeProviderModelCatalogItems\<close>: the items and the pairs already seen.
  \<open>localeCompare\<close> is the host's collation and a parameter (\<open>lc a b\<close> for a non-positive result).
\<close>

type_synonym catalog_acc = "jsval list \<times> string list"

definition push_item :: "jsval \<Rightarrow> catalog_acc \<Rightarrow> catalog_acc" where
  "push_item item acc =
     (let label = js_trim (to_str (jor (jor (get item ''label'') (get item ''raw'')) (Str [])));
          raw = trimmed (get item ''raw'');
          pair = ckey label @ [CHR 0x0A] @ ckey raw in
      if label = [] then acc
      else if pair \<in> set (snd acc) then acc
      else (fst acc @ [Obj (spread (obj_fields item) [(''label'', Str label), (''raw'', Str raw)])],
            pair # snd acc))"

definition configured_item :: "string \<times> jsval \<Rightarrow> jsval" where
  "configured_item e =
     (let label = js_trim (if fst e \<noteq> [] then fst e else to_str (snd e)); rawModel = trimmed (snd e) in
      Obj [(''label'', Str label), (''raw'', Str rawModel),
           (''title'', Str (if rawModel \<noteq> label then label @ '' maps to '' @ rawModel else label)),
           (''manual'', Bool True)])"

definition configured_entries :: "(string \<Rightarrow> string \<Rightarrow> bool) \<Rightarrow> jsval \<Rightarrow> (string \<times> jsval) list" where
  "configured_entries lc configuredMap =
     js_sort (\<lambda>a b. lc (fst a) (fst b))
       (filter (\<lambda>e. trimmed (snd e) \<noteq> []) (js_entries configuredMap))"

definition mergeProviderModelCatalogItems ::
  "(string \<Rightarrow> string \<Rightarrow> bool) \<Rightarrow> jsval \<Rightarrow> jsval \<Rightarrow> jsval list" where
  "mergeProviderModelCatalogItems lc discoveredItems configuredMap =
     (let entries = configured_entries lc configuredMap;
          claimed = map (\<lambda>e. vkey (snd e)) entries;
          acc1 = foldl (\<lambda>acc e. push_item (configured_item e) acc) ([], []) entries;
          acc2 = foldl (\<lambda>acc item.
                   if ckey (providerModelSourceId item) \<in> set claimed then acc
                   else push_item (Obj (spread (obj_fields item) [(''manual'', Bool False)])) acc)
                 acc1 (arr_or_empty discoveredItems)
      in fst acc2)"

section \<open>The merged catalogue\<close>

datatype catalog_warning =
    VariantShadowsManualMap string
  | VariantShadowsDiscovered string
  | SameNameStatic
  | SharedUpstream string "string list"
  | CaseOnlyDuplicate "string list"
  | StaleUpstreamDisabled nat nat "string list"
  | EmptyVariantGroup

record catalog_row =
  r_id :: string
  r_key :: string
  r_spellings :: "string list"
  r_variants :: "variant list"
  r_raws :: "string list"
  r_refs :: "string list"
  r_warnings :: "catalog_warning list"
  r_item :: jsval
  r_manualItem :: jsval
  r_discoveredItem :: jsval
  r_variant :: bool
  r_renamed :: bool
  r_discovered :: bool
  r_static :: bool
  r_raw :: string
  r_mainSource :: string
  r_sources :: "string list"

definition new_row :: "string \<Rightarrow> catalog_row" where
  "new_row i = \<lparr>r_id = i, r_key = js_lower i, r_spellings = [], r_variants = [], r_raws = [],
     r_refs = [], r_warnings = [], r_item = Null, r_manualItem = Null, r_discoveredItem = Null,
     r_variant = False, r_renamed = False, r_discovered = False, r_static = False,
     r_raw = [], r_mainSource = [], r_sources = []\<rparr>"

definition remember :: "string \<Rightarrow> string list \<Rightarrow> string list" where
  "remember value xs = (if value \<noteq> [] \<and> value \<notin> set xs then xs @ [value] else xs)"

text \<open>The three maps of the merge: rows by key, owners of a member, renames onto a target.\<close>

record catalog_state =
  cs_rows :: "(string \<times> catalog_row) list"
  cs_owners :: "(string \<times> string list) list"
  cs_targets :: "(string \<times> string list) list"

fun ids_of :: "string \<Rightarrow> (string \<times> string list) list \<Rightarrow> string list" where
  "ids_of k [] = []"
| "ids_of k ((k', v) # kvs) = (if k = k' then v else ids_of k kvs)"

definition remember_in :: "string \<Rightarrow> string \<Rightarrow> (string \<times> string list) list \<Rightarrow> (string \<times> string list) list" where
  "remember_in k i m = set_prop k (remember i (ids_of k m)) m"

definition upd_row :: "string \<Rightarrow> (catalog_row \<Rightarrow> catalog_row) \<Rightarrow> catalog_state \<Rightarrow> catalog_state" where
  "upd_row k f s = s\<lparr>cs_rows := map (\<lambda>(k', r). (k', if k' = k then f r else r)) (cs_rows s)\<rparr>"

text \<open>\<open>declare\<close>: the row of an id, created on first sight; the key is returned, \<open>None\<close> for no id.\<close>

definition declare_row :: "string \<Rightarrow> catalog_state \<Rightarrow> catalog_state \<times> string option" where
  "declare_row value s =
     (let i = js_trim value in
      if i = [] then (s, None) else
      let rowKey = js_lower i;
          s1 = (if has_own rowKey (cs_rows s) then s
                else s\<lparr>cs_rows := cs_rows s @ [(rowKey, new_row i)]\<rparr>)
      in (upd_row rowKey (\<lambda>r. r\<lparr>r_spellings := remember i (r_spellings r)\<rparr>) s1, Some rowKey))"

definition row_id :: "string \<Rightarrow> catalog_state \<Rightarrow> string" where
  "row_id k s = (case map_of (cs_rows s) k of None \<Rightarrow> [] | Some r \<Rightarrow> r_id r)"

definition add_group :: "variant_group \<Rightarrow> catalog_state \<Rightarrow> catalog_state" where
  "add_group grp s =
     (case declare_row (vg_id grp) s of
        (s1, None) \<Rightarrow> s1
      | (s1, Some k) \<Rightarrow>
          (let variants = map (\<lambda>v. v\<lparr>v_model := js_trim (v_model v)\<rparr>)
                 (filter (\<lambda>v. v_model v \<noteq> []) (vg_variants grp));
               s2 = upd_row k (\<lambda>r. r\<lparr>r_variant := True, r_variants := variants\<rparr>) s1
           in foldl (\<lambda>s v. let memberKey = ckey (v_model v) in
                if memberKey = [] then s
                else s\<lparr>cs_owners := remember_in memberKey (row_id k s) (cs_owners s)\<rparr>)
              s2 variants))"

definition add_item :: "jsval \<Rightarrow> catalog_state \<Rightarrow> catalog_state" where
  "add_item item s =
     (case declare_row (str_or_empty (jor (get item ''label'') (get item ''raw''))) s of
        (s1, None) \<Rightarrow> s1
      | (s1, Some k) \<Rightarrow>
          (let raw = providerModelSourceId item;
               s2 = (if truthy (get item ''manual'')
                 then
                   (let t1 = upd_row k (\<lambda>r. r\<lparr>r_renamed := True,
                          r_manualItem := jor (r_manualItem r) item,
                          r_raws := remember raw (r_raws r)\<rparr>) s1;
                        targetKey = ckey raw
                    in if targetKey \<noteq> [] \<and> targetKey \<noteq> k
                       then t1\<lparr>cs_targets := remember_in targetKey (row_id k t1) (cs_targets t1)\<rparr>
                       else t1)
                 else upd_row k (\<lambda>r. r\<lparr>r_discovered := True,
                          r_discoveredItem := jor (r_discoveredItem r) item,
                          r_raws := remember (if raw \<noteq> [] then raw else r_id r) (r_raws r)\<rparr>) s1)
           in upd_row k (\<lambda>r. r\<lparr>r_item := jor (r_manualItem r) (r_discoveredItem r)\<rparr>) s2))"

definition CATALOG_SOURCE_ORDER :: "string list" where
  "CATALOG_SOURCE_ORDER = [''variant'', ''renamed'', ''static'', ''discovered'']"

definition row_source :: "catalog_row \<Rightarrow> string \<Rightarrow> bool" where
  "row_source r source =
     (if source = ''variant'' then r_variant r else if source = ''renamed'' then r_renamed r
      else if source = ''static'' then r_static r else if source = ''discovered'' then r_discovered r
      else False)"

text \<open>The other client ids that send an upstream id: owners and rename targets of its key.\<close>

definition sharing_ids :: "catalog_state \<Rightarrow> catalog_row \<Rightarrow> string \<Rightarrow> string list" where
  "sharing_ids s r memberKey =
     foldl (\<lambda>others i. if ckey i \<noteq> r_key r then remember i others else others) []
       (ids_of memberKey (cs_owners s) @ ids_of memberKey (cs_targets s))"

definition row_warnings :: "catalog_state \<Rightarrow> string set \<Rightarrow> string set \<Rightarrow> catalog_row \<Rightarrow> catalog_warning list" where
  "row_warnings s staticKeys disabled r =
     (if r_variant r \<and> r_renamed r
      then [VariantShadowsManualMap (case r_raws r of [] \<Rightarrow> [] | x # _ \<Rightarrow> x)] else [])
     @ (if r_variant r \<and> r_discovered r
        then [VariantShadowsDiscovered (providerModelSourceId (r_discoveredItem r))] else [])
     @ (if r_variant r \<and> r_key r \<in> staticKeys then [SameNameStatic] else [])
     @ (if r_variant r
        then List.map_filter (\<lambda>v. let others = sharing_ids s r (ckey (v_model v)) in
               if others \<noteq> [] then Some (SharedUpstream (v_model v) others) else None) (r_variants r)
        else if r_renamed r \<and> r_raw r \<noteq> []
        then (let others = sharing_ids s r (ckey (r_raw r)) in
              if others \<noteq> [] then [SharedUpstream (r_raw r) others] else [])
        else [])
     @ (if 1 < length (r_spellings r) then [CaseOnlyDuplicate (r_spellings r)] else [])
     @ (if r_variant r
        then (let off = filter (\<lambda>v. ckey (v_model v) \<in> disabled) (r_variants r) in
              (if off \<noteq> [] then [StaleUpstreamDisabled (length off) (length (r_variants r)) (map v_model off)]
               else [])
              @ (if r_variants r = [] then [EmptyVariantGroup] else []))
        else [])"

definition finish_row :: "catalog_state \<Rightarrow> string set \<Rightarrow> string set \<Rightarrow> catalog_row \<Rightarrow> catalog_row" where
  "finish_row s staticKeys disabled r =
     (let r1 = r\<lparr>r_static := (r_key r \<in> staticKeys \<or> (\<exists>raw \<in> set (r_raws r). ckey raw \<in> staticKeys)),
                 r_raw := (case r_raws r of [] \<Rightarrow> [] | x # _ \<Rightarrow> x),
                 r_refs := filter (\<lambda>i. ckey i \<noteq> r_key r) (ids_of (r_key r) (cs_owners s))\<rparr>;
          r2 = r1\<lparr>r_mainSource := (if r_variant r1 then ''variant'' else if r_renamed r1 then ''renamed''
                                   else if r_static r1 then ''static'' else ''discovered''),
                  r_sources := filter (row_source r1) CATALOG_SOURCE_ORDER\<rparr>
      in r2\<lparr>r_warnings := row_warnings s staticKeys disabled r2\<rparr>)"

definition row_rank :: "catalog_row \<Rightarrow> nat" where
  "row_rank r = (if r_variant r then 0 else if r_static r then 1 else 2)"

definition catalog_build :: "jsval \<Rightarrow> string list \<Rightarrow> variant_group list \<Rightarrow> catalog_state" where
  "catalog_build items staticList groups =
     (let s0 = \<lparr>cs_rows = [], cs_owners = [], cs_targets = []\<rparr>;
          s1 = foldl (\<lambda>s g. add_group g s) s0 groups;
          s2 = foldl (\<lambda>s it. add_item it s) s1 (arr_or_empty items)
      in foldl (\<lambda>s i. fst (declare_row i s)) s2 staticList)"

definition static_list :: "jsval \<Rightarrow> string list" where
  "static_list staticIds = filter (\<lambda>i. i \<noteq> []) (map modelId (arr_or_empty staticIds))"

definition planCatalogEntries ::
  "jsval \<Rightarrow> jsval \<Rightarrow> variant_groups option \<Rightarrow> jsval list \<Rightarrow> catalog_row list" where
  "planCatalogEntries items staticIds variantGroups disabledKeys =
     (let groups = (case variantGroups of None \<Rightarrow> [] | Some g \<Rightarrow> vg_entries g);
          staticList = static_list staticIds;
          staticKeys = set (map ckey staticList);
          disabled = set (map vkey disabledKeys);
          s = catalog_build items staticList groups
      in js_sort (\<lambda>a b. row_rank a \<le> row_rank b)
           (map (\<lambda>(k, r). finish_row s staticKeys disabled r) (cs_rows s)))"

end
