(* ===== verification/ProviderModelFacts.thy ===== *)
theory ProviderModelFacts
  imports ProviderModels
begin

text \<open>
  What the model editors of \<open>provider-model-config.mjs\<close> guarantee: normal forms of model lists, the
  priority order of a variant group, the write plans and the merged catalogue.
\<close>

section \<open>Static models\<close>

lemma normalize_loop_first_by:
  "normalize_loop seen models xs =
     models @ first_by (\<lambda>i. i) seen (filter (\<lambda>i. i \<noteq> []) (map modelId xs))"
  by (induction xs arbitrary: seen models) (auto simp: Let_def)

lemma normalizeStaticModelIds_alt:
  "normalizeStaticModelIds v =
     first_by (\<lambda>i. i) [] (filter (\<lambda>i. i \<noteq> []) (map modelId (arr_or_empty v)))"
  by (simp add: normalizeStaticModelIds_def normalize_loop_first_by)

lemma modelId_trimmed: "js_trim (modelId v) = modelId v"
  by (simp add: modelId_def)

lemma modelId_Str: "modelId (Str s) = js_trim s"
  by (simp add: modelId_def)

lemma distinct_normalize: "distinct (normalizeStaticModelIds v)"
  using first_by_distinct [of "\<lambda>i. i"] by (simp add: normalizeStaticModelIds_alt)

lemma set_normalize: "set (normalizeStaticModelIds v) = modelId ` set (arr_or_empty v) - {[]}"
  by (auto simp: normalizeStaticModelIds_alt set_first_by_id)

lemma normalize_trimmed: "i \<in> set (normalizeStaticModelIds v) \<Longrightarrow> js_trim i = i \<and> i \<noteq> []"
  by (auto simp: set_normalize modelId_trimmed)

lemma normalize_Strs:
  assumes "distinct xs" and "\<forall>x \<in> set xs. js_trim x = x \<and> x \<noteq> []"
  shows "normalizeStaticModelIds (Arr (map Str xs)) = xs"
proof -
  have "map modelId (map Str xs) = xs"
    using assms(2) by (simp add: modelId_Str o_def map_idI)
  moreover have "filter (\<lambda>i. i \<noteq> []) xs = xs"
    using assms(2) by (simp add: filter_id_conv)
  ultimately show ?thesis
    using assms(1) by (simp add: normalizeStaticModelIds_alt first_by_id)
qed

section \<open>Variant groups\<close>

interpretation variant_order: comparator "\<lambda>_. True" variant_le
  by unfold_locales (auto simp: variant_le_def Let_def split: if_splits)

interpretation rank_order: comparator "\<lambda>_. True" "\<lambda>a b. row_rank a \<le> row_rank b"
  by unfold_locales auto

lemma variant_le_priority: "variant_le a b \<Longrightarrow> v_priority (fst b) \<le> v_priority (fst a)"
  by (auto simp: variant_le_def Let_def split: if_splits)

lemma sorted_wrt_first_by: "sorted_wrt P xs \<Longrightarrow> sorted_wrt P (first_by key seen xs)"
  by (induction xs arbitrary: seen) (use first_by_subset in \<open>fastforce+\<close>)

text \<open>In a list sorted by a relation, the first entry of a key is below every entry of that key.\<close>

lemma first_by_minimal:
  "sorted_wrt P xs \<Longrightarrow> y \<in> set (first_by key seen xs) \<Longrightarrow> x \<in> set xs \<Longrightarrow> key x = key y
     \<Longrightarrow> x = y \<or> P y x"
proof (induction xs arbitrary: seen)
  case (Cons z zs)
  show ?case
  proof (cases "key z \<in> set seen")
    case True
    then have "key y \<notin> set seen \<or> False"
      using Cons.prems(2) first_by_keys [of key seen "z # zs"] by auto
    with True Cons.prems have "x \<in> set zs" by auto
    with True Cons show ?thesis by simp
  next
    case False
    show ?thesis
    proof (cases "y = z")
      case True
      with Cons.prems show ?thesis by auto
    next
      case neq: False
      with False Cons.prems have y: "y \<in> set (first_by key (key z # seen) zs)" by simp
      then have "key y \<noteq> key z" using first_by_keys [of key "key z # seen" zs] by auto
      with Cons.prems have "x \<in> set zs" by auto
      with Cons.IH [OF _ y] Cons.prems show ?thesis by auto
    qed
  qed
qed simp

definition group_entries :: "jsval \<Rightarrow> (variant \<times> nat) list" where
  "group_entries raw =
     List.map_filter (\<lambda>(index, entry). group_entry entry index) (enumerate 0 (arr_or_empty raw))"

lemma group_variants_alt:
  "group_variants raw =
     map fst (first_by (\<lambda>e. v_model (fst e)) [] (js_sort variant_le (group_entries raw)))"
  by (simp add: group_variants_def group_entries_def Let_def)

lemma group_variants_sorted: "sorted_wrt (\<lambda>a b. v_priority b \<le> v_priority a) (group_variants raw)"
proof -
  have "sorted_wrt variant_le (first_by (\<lambda>e. v_model (fst e)) [] (js_sort variant_le (group_entries raw)))"
    by (intro sorted_wrt_first_by variant_order.sorted_js_sort) simp
  then show ?thesis
    unfolding group_variants_alt sorted_wrt_map
    by (rule sorted_wrt_mono_rel [rotated]) (rule variant_le_priority)
qed

lemma group_variants_distinct: "distinct (map v_model (group_variants raw))"
  using first_by_distinct [of "\<lambda>e. v_model (fst e)" "[]"]
  by (simp add: group_variants_alt o_def)

lemma group_variants_models:
  "v_model ` set (group_variants raw) = (\<lambda>e. v_model (fst e)) ` set (group_entries raw)"
  using first_by_keys [of "\<lambda>e. v_model (fst e)" "[]" "js_sort variant_le (group_entries raw)"]
  by (simp add: group_variants_alt image_image)

lemma group_variants_max:
  assumes "v \<in> set (group_variants raw)" and "e \<in> set (group_entries raw)"
    and "v_model (fst e) = v_model v"
  shows "v_priority (fst e) \<le> v_priority v"
proof -
  obtain f where f: "f \<in> set (first_by (\<lambda>e. v_model (fst e)) [] (js_sort variant_le (group_entries raw)))"
    and v: "v = fst f"
    using assms(1) by (auto simp: group_variants_alt)
  have "e = f \<or> variant_le f e"
    by (rule first_by_minimal [OF variant_order.sorted_js_sort f])
      (use assms v in auto)
  then show ?thesis using v variant_le_priority [of f e] by auto
qed

section \<open>Write plans\<close>

text \<open>
  What the backend does with a plan: a non-empty list is stored under the client id, an emptied
  group is dropped. A failure leaves a prefix of the writes.
\<close>

definition backend_write :: "group_write \<Rightarrow> (string \<rightharpoonup> variant list) \<Rightarrow> (string \<rightharpoonup> variant list)" where
  "backend_write w m = (if w_variants w = [] then m(w_model w := None) else m(w_model w \<mapsto> w_variants w))"

definition backend_run :: "group_write list \<Rightarrow> (string \<rightharpoonup> variant list) \<Rightarrow> (string \<rightharpoonup> variant list)" where
  "backend_run ws m = fold backend_write ws m"

lemma plan_writes:
  fixes nextModel variants :: jsval and taken :: "jsval list"
  assumes "trimmed canonical \<noteq> []"
  defines "p \<equiv> planVariantGroupSave canonical nextModel variants taken"
  shows "gp_id p = trimmed canonical"
    and "gp_nextId p = (if trimmed nextModel \<noteq> [] then trimmed nextModel else trimmed canonical)"
    and "gp_renamed p \<longleftrightarrow> ckey (gp_nextId p) \<noteq> ckey (gp_id p)"
    and "gp_writes p = \<lparr>w_model = gp_nextId p, w_variants = gp_members p\<rparr>
           # (if gp_renamed p then [\<lparr>w_model = gp_id p, w_variants = []\<rparr>] else [])"
    and "gp_members p = sortVariantMembers (normalizeVariantEntries variants)"
  using assms(1) by (simp_all add: p_def planVariantGroupSave_def Let_def)

lemma mset_sortVariantMembers: "mset (sortVariantMembers vs) = mset vs"
proof -
  have "mset (sortVariantMembers vs) = mset (map fst (map prod.swap (enumerate 0 vs)))"
    by (simp only: sortVariantMembers_def mset_map mset_js_sort)
  also have "map fst (map prod.swap (enumerate 0 vs)) = map snd (enumerate 0 vs)"
    by (simp only: map_map o_def fst_swap cong: map_cong)
  finally show ?thesis by (simp only: map_snd_enumerate)
qed

lemma sortVariantMembers_sorted:
  "sorted_wrt (\<lambda>a b. v_priority b \<le> v_priority a) (sortVariantMembers vs)"
  unfolding sortVariantMembers_def sorted_wrt_map
  by (rule sorted_wrt_mono_rel [rotated, OF variant_order.sorted_js_sort])
    (auto intro: variant_le_priority)

lemma variant_loop_first_by:
  "variant_loop seen variants xs =
     variants @ map (\<lambda>e. \<lparr>v_model = modelId e,
                       v_priority = finite_or_zero (if is_object e then num_or_zero (get e ''priority'') else Fin 0)\<rparr>)
       (first_by modelId seen (filter (\<lambda>e. modelId e \<noteq> []) xs))"
  by (induction xs arbitrary: seen variants) (auto simp: Let_def)

lemma distinct_variant_models: "distinct (map v_model (normalizeVariantEntries v))"
  using first_by_distinct [of modelId "[]"]
  by (simp add: normalizeVariantEntries_def variant_loop_first_by o_def)

lemma find_index_Some: "find_index p xs = Some i \<Longrightarrow> i < length xs \<and> p (xs ! i)"
  by (induction xs arbitrary: i) (auto split: if_splits)

lemma distinct_list_update_fresh:
  "distinct xs \<Longrightarrow> i < length xs \<Longrightarrow> x \<notin> set (take i xs @ drop (Suc i) xs) \<Longrightarrow> distinct (xs[i := x])"
  by (subst upd_conv_take_nth_drop) (auto dest: distinct_take distinct_drop set_take_disj_set_drop_if_distinct
    [of xs i "Suc i"])

lemma distinct_remove_nth: "distinct xs \<Longrightarrow> distinct (take i xs @ drop (Suc i) xs)"
  using set_take_disj_set_drop_if_distinct [of xs i "Suc i"] by auto

section \<open>The merged catalogue\<close>

definition row_keys :: "catalog_state \<Rightarrow> string list" where
  "row_keys s = map fst (cs_rows s)"

text \<open>Row keys are distinct and every row carries its own key.\<close>

definition row_ok :: "string \<Rightarrow> catalog_row \<Rightarrow> bool" where
  "row_ok k r \<longleftrightarrow> r_key r = k \<and> js_lower (r_id r) = k \<and> js_trim (r_id r) = r_id r \<and> r_id r \<noteq> []"

definition rows_inv :: "catalog_state \<Rightarrow> bool" where
  "rows_inv s \<longleftrightarrow> distinct (row_keys s) \<and> (\<forall>(k, r) \<in> set (cs_rows s). row_ok k r)"

lemma row_keys_upd [simp]: "row_keys (upd_row k f s) = row_keys s"
  by (simp add: row_keys_def upd_row_def o_def case_prod_beta)

lemma row_ok_new: "js_trim v \<noteq> [] \<Longrightarrow> row_ok (js_lower (js_trim v)) (new_row (js_trim v))"
  by (simp add: row_ok_def new_row_def)

lemma row_ok_upd: "r_key (f r) = r_key r \<and> r_id (f r) = r_id r \<Longrightarrow> row_ok k (f r) = row_ok k r"
  by (simp add: row_ok_def)

lemma row_ok_id: "row_ok k r \<Longrightarrow> r_key r = k \<and> ckey (r_id r) = k \<and> r_id r \<noteq> []"
  by (simp add: row_ok_def ckey_def)

lemma rows_inv_upd:
  "rows_inv s \<Longrightarrow> (\<And>r. r_key (f r) = r_key r \<and> r_id (f r) = r_id r) \<Longrightarrow> rows_inv (upd_row k f s)"
  by (auto simp: rows_inv_def) (auto simp: upd_row_def row_ok_upd [where f = f])

lemma row_keys_maps [simp]:
  "row_keys (s\<lparr>cs_owners := a\<rparr>) = row_keys s" "row_keys (s\<lparr>cs_targets := b\<rparr>) = row_keys s"
  "rows_inv (s\<lparr>cs_owners := a\<rparr>) = rows_inv s" "rows_inv (s\<lparr>cs_targets := b\<rparr>) = rows_inv s"
  by (simp_all add: row_keys_def rows_inv_def)

lemma declare_row_keys:
  "row_keys (fst (declare_row v s)) =
     (if ckey v = [] \<or> ckey v \<in> set (row_keys s) then row_keys s else row_keys s @ [ckey v])"
  by (auto simp: declare_row_def ckey_def Let_def has_own_iff row_keys_def upd_row_def o_def case_prod_beta)

lemma declare_row_inv: "rows_inv s \<Longrightarrow> rows_inv (fst (declare_row v s))"
proof -
  assume i: "rows_inv s"
  have "rows_inv (s\<lparr>cs_rows := cs_rows s @ [(js_lower (js_trim v), new_row (js_trim v))]\<rparr>)"
    if "\<not> has_own (js_lower (js_trim v)) (cs_rows s)" and "js_trim v \<noteq> []"
    using i that row_ok_new by (auto simp: rows_inv_def row_keys_def has_own_iff)
  with i show ?thesis
    by (auto simp: declare_row_def Let_def intro!: rows_inv_upd)
qed

lemma declare_row_key: "snd (declare_row v s) = (if ckey v = [] then None else Some (ckey v))"
  by (simp add: declare_row_def ckey_def Let_def)

lemma foldl_rows:
  "(\<And>s x. row_keys (f s x) = row_keys s) \<Longrightarrow> (\<And>s x. rows_inv s \<Longrightarrow> rows_inv (f s x)) \<Longrightarrow>
   row_keys (foldl f s xs) = row_keys s \<and> (rows_inv s \<longrightarrow> rows_inv (foldl f s xs))"
  by (induction xs arbitrary: s) auto

lemma add_group_rows:
  "row_keys (add_group g s) = row_keys (fst (declare_row (vg_id g) s))
   \<and> (rows_inv s \<longrightarrow> rows_inv (add_group g s))"
proof -
  obtain s1 k where d: "declare_row (vg_id g) s = (s1, k)" by fastforce
  have "rows_inv s \<longrightarrow> rows_inv s1" using declare_row_inv [of s "vg_id g"] d by simp
  moreover
  have f: "row_keys (foldl (\<lambda>s v. let memberKey = ckey (v_model v) in if memberKey = [] then s
        else s\<lparr>cs_owners := remember_in memberKey (row_id k' s) (cs_owners s)\<rparr>) t vs) = row_keys t
      \<and> (rows_inv t \<longrightarrow> rows_inv (foldl (\<lambda>s v. let memberKey = ckey (v_model v) in if memberKey = [] then s
        else s\<lparr>cs_owners := remember_in memberKey (row_id k' s) (cs_owners s)\<rparr>) t vs))" for t vs k'
    by (rule foldl_rows) (auto simp: Let_def)
  ultimately show ?thesis
    by (cases k) (auto simp: add_group_def d Let_def f [unfolded Let_def] intro!: rows_inv_upd
        f [unfolded Let_def, THEN conjunct2, rule_format])
qed

lemma add_item_rows:
  "row_keys (add_item it s) =
     row_keys (fst (declare_row (str_or_empty (jor (get it ''label'') (get it ''raw''))) s))
   \<and> (rows_inv s \<longrightarrow> rows_inv (add_item it s))"
proof -
  obtain s1 k where d: "declare_row (str_or_empty (jor (get it ''label'') (get it ''raw''))) s = (s1, k)"
    by fastforce
  have "rows_inv s \<longrightarrow> rows_inv s1"
    using declare_row_inv [of s "str_or_empty (jor (get it ''label'') (get it ''raw''))"] d by simp
  then show ?thesis
    by (cases k) (auto simp: add_item_def d Let_def intro!: rows_inv_upd)
qed

definition item_client_id :: "jsval \<Rightarrow> string" where
  "item_client_id it = str_or_empty (jor (get it ''label'') (get it ''raw''))"

definition extend_keys :: "string list \<Rightarrow> string \<Rightarrow> string list" where
  "extend_keys ks i = (if ckey i = [] \<or> ckey i \<in> set ks then ks else ks @ [ckey i])"

lemma set_extend_keys: "set (foldl extend_keys ks xs) = set ks \<union> (ckey ` set xs - {[]})"
  by (induction xs arbitrary: ks) (auto simp: extend_keys_def)

lemma foldl_row_keys:
  assumes "\<And>s x. row_keys (f s x) = row_keys (fst (declare_row (g x) s))"
    and "\<And>s x. rows_inv s \<Longrightarrow> rows_inv (f s x)"
  shows "row_keys (foldl f s xs) = foldl extend_keys (row_keys s) (map g xs)
     \<and> (rows_inv s \<longrightarrow> rows_inv (foldl f s xs))"
  using assms by (induction xs arbitrary: s) (auto simp: declare_row_keys extend_keys_def)

lemma catalog_build_rows:
  "row_keys (catalog_build items staticList groups) =
     foldl extend_keys [] (map vg_id groups @ map item_client_id (arr_or_empty items) @ staticList)
   \<and> rows_inv (catalog_build items staticList groups)"
proof -
  let ?s0 = "\<lparr>cs_rows = [], cs_owners = [], cs_targets = []\<rparr> :: catalog_state"
  let ?s1 = "foldl (\<lambda>s g. add_group g s) ?s0 groups"
  let ?s2 = "foldl (\<lambda>s it. add_item it s) ?s1 (arr_or_empty items)"
  have g: "row_keys ?s1 = foldl extend_keys (row_keys ?s0) (map vg_id groups) \<and> (rows_inv ?s0 \<longrightarrow> rows_inv ?s1)"
    by (rule foldl_row_keys) (use add_group_rows in blast)+
  have i: "row_keys ?s2 = foldl extend_keys (row_keys ?s1) (map item_client_id (arr_or_empty items))
      \<and> (rows_inv ?s1 \<longrightarrow> rows_inv ?s2)"
    by (rule foldl_row_keys) (use add_item_rows in \<open>auto simp: item_client_id_def\<close>)
  have d: "row_keys (foldl (\<lambda>s i. fst (declare_row i s)) ?s2 staticList)
        = foldl extend_keys (row_keys ?s2) (map (\<lambda>i. i) staticList)
      \<and> (rows_inv ?s2 \<longrightarrow> rows_inv (foldl (\<lambda>s i. fst (declare_row i s)) ?s2 staticList))"
    by (rule foldl_row_keys) (simp_all add: declare_row_inv)
  have "rows_inv ?s0" "row_keys ?s0 = []" by (simp_all add: rows_inv_def row_keys_def)
  with g i d show ?thesis by (simp add: catalog_build_def Let_def)
qed

lemma finish_row_fields [simp]:
  "r_key (finish_row s st d r) = r_key r" "r_id (finish_row s st d r) = r_id r"
  by (simp_all add: finish_row_def Let_def)

lemma rows_inv_keys: "rows_inv s \<Longrightarrow> map (\<lambda>(k, r). r_key r) (cs_rows s) = row_keys s"
  by (auto simp: rows_inv_def row_keys_def dest!: row_ok_id)

lemma planCatalog_keys:
  "mset (map r_key (planCatalogEntries items staticIds vgs disabledKeys)) =
     mset (row_keys (catalog_build items (static_list staticIds)
       (case vgs of None \<Rightarrow> [] | Some g \<Rightarrow> vg_entries g)))"
proof -
  let ?s = "catalog_build items (static_list staticIds) (case vgs of None \<Rightarrow> [] | Some g \<Rightarrow> vg_entries g)"
  let ?fin = "\<lambda>(k, r). finish_row ?s (set (map ckey (static_list staticIds))) (set (map vkey disabledKeys)) r"
  have "mset (map r_key (planCatalogEntries items staticIds vgs disabledKeys))
      = mset (map r_key (map ?fin (cs_rows ?s)))"
    by (simp only: planCatalogEntries_def Let_def mset_map mset_js_sort)
  also have "map r_key (map ?fin (cs_rows ?s)) = map (\<lambda>(k, r). r_key r) (cs_rows ?s)"
    by (simp add: case_prod_beta)
  also have "\<dots> = row_keys ?s"
    using catalog_build_rows by (intro rows_inv_keys) blast
  finally show ?thesis .
qed

text \<open>A row of the catalogue is known by its id, in whatever case.\<close>

lemma planCatalog_row_id:
  assumes "row \<in> set (planCatalogEntries items staticIds vgs disabledKeys)"
  shows "ckey (r_id row) = r_key row \<and> r_id row \<noteq> []"
proof -
  define s where "s = catalog_build items (static_list staticIds) (case vgs of None \<Rightarrow> [] | Some g \<Rightarrow> vg_entries g)"
  have "rows_inv s" unfolding s_def using catalog_build_rows by blast
  moreover obtain k r where "(k, r) \<in> set (cs_rows s)" "r_id row = r_id r" "r_key row = r_key r"
    using assms unfolding planCatalogEntries_def Let_def s_def [symmetric] by auto
  ultimately show ?thesis using row_ok_id [of k r] by (auto simp: rows_inv_def)
qed

lemma planCatalog_distinct: "distinct (map r_key (planCatalogEntries items staticIds vgs disabledKeys))"
proof -
  note b = catalog_build_rows [of items "static_list staticIds" "case vgs of None \<Rightarrow> [] | Some g \<Rightarrow> vg_entries g"]
  show ?thesis using b planCatalog_keys [of items staticIds vgs disabledKeys] by (metis mset_eq_imp_distinct_iff rows_inv_def)
qed

section \<open>Properties\<close>

text \<open>normalizeStaticModelIds returns a list without duplicates of exactly the non-empty, trimmed
ids of its entries, and normalizing that list again changes nothing.\<close>

lemma static_models_normal_form:
  "distinct (normalizeStaticModelIds v)
   \<and> set (normalizeStaticModelIds v) = modelId ` set (arr_or_empty v) - {[]}
   \<and> normalizeStaticModelIds (Arr (map Str (normalizeStaticModelIds v))) = normalizeStaticModelIds v"
proof (intro conjI)
  show "normalizeStaticModelIds (Arr (map Str (normalizeStaticModelIds v))) = normalizeStaticModelIds v"
    by (rule normalize_Strs) (auto simp: distinct_normalize dest: normalize_trimmed)
qed (rule distinct_normalize, rule set_normalize)

text \<open>The members of a variant group come out in priority order, highest first, each upstream
model once, no model lost, and when a model is listed several times the kept entry has the highest
of its priorities.\<close>

lemma variant_group_resolution_order:
  "sorted_wrt (\<lambda>a b. v_priority b \<le> v_priority a) (group_variants raw)
   \<and> distinct (map v_model (group_variants raw))
   \<and> v_model ` set (group_variants raw) = (\<lambda>e. v_model (fst e)) ` set (group_entries raw)
   \<and> (\<forall>v \<in> set (group_variants raw). \<forall>e \<in> set (group_entries raw).
        v_model (fst e) = v_model v \<longrightarrow> v_priority (fst e) \<le> v_priority v)"
  using group_variants_max
  by (simp add: group_variants_sorted group_variants_distinct group_variants_models)

text \<open>C24. Executing any prefix of the writes planned for a variant group edit (a failure may stop after
the first) never loses the group: before the first write nothing changed, and from then on the edited
members are stored under the new client id. After all of them a renamed group is gone from its old id
and no third id was touched.\<close>

theorem variant_group_save_never_loses:
  fixes nextModel :: jsval and taken :: "jsval list"
  assumes "trimmed canonical \<noteq> []" and "normalizeVariantEntries variants \<noteq> []"
  defines "p \<equiv> planVariantGroupSave canonical nextModel variants taken"
  shows "(n = 0 \<longrightarrow> backend_run (take n (gp_writes p)) m = m)
    \<and> (0 < n \<longrightarrow> backend_run (take n (gp_writes p)) m (gp_nextId p) = Some (gp_members p))
    \<and> (gp_renamed p \<longrightarrow> backend_run (gp_writes p) m (gp_id p) = None)
    \<and> (\<forall>k. k \<noteq> gp_id p \<longrightarrow> k \<noteq> gp_nextId p \<longrightarrow> backend_run (take n (gp_writes p)) m k = m k)"
proof -
  note p = plan_writes [OF assms(1), of nextModel variants taken, folded p_def]
  have "mset (gp_members p) = mset (normalizeVariantEntries variants)"
    by (simp only: p(5) mset_sortVariantMembers)
  then have ne: "gp_members p \<noteq> []" using assms(2) by auto
  have dist: "gp_nextId p \<noteq> gp_id p" if "gp_renamed p" using that p(3) by auto
  have "take n (gp_writes p) = [] \<or> take n (gp_writes p) = [hd (gp_writes p)]
      \<or> take n (gp_writes p) = gp_writes p"
    unfolding p(4) by (cases n; cases "n - 1") (auto simp: take_Cons')
  moreover have "0 < n \<longrightarrow> take n (gp_writes p) \<noteq> []" unfolding p(4) by simp
  ultimately show ?thesis
    using ne dist unfolding p(4)
    by (cases "gp_renamed p") (auto simp: backend_run_def backend_write_def)
qed

theorem variant_group_save_never_loses_witness:
  "backend_run (take 1 (gp_writes (planVariantGroupSave (Str ''old'') (Str ''new'') (Arr [Str ''m'']) [])))
     (\<lambda>k. None) ''new'' = Some [\<lparr>v_model = ''m'', v_priority = 0\<rparr>]"
proof -
  have h: "trimmed (Str ''old'') \<noteq> []" "normalizeVariantEntries (Arr [Str ''m'']) \<noteq> []"
    by (code_simp, code_simp)
  have "gp_nextId (planVariantGroupSave (Str ''old'') (Str ''new'') (Arr [Str ''m'']) []) = ''new''"
    "gp_members (planVariantGroupSave (Str ''old'') (Str ''new'') (Arr [Str ''m'']) [])
       = [\<lparr>v_model = ''m'', v_priority = 0\<rparr>]"
    by (code_simp, code_simp)
  then show ?thesis
    using variant_group_save_never_loses [OF h, of 1 "Str ''new''" "[]" "\<lambda>k. None"] by simp
qed

text \<open>A static declaration edit never duplicates an id: the resulting list is duplicate-free, a
rename keeps its length and reports a clash exactly when it was refused, a clash or an unknown entry
leaves the normalized list as it was, and a removal shortens it by one.\<close>

lemma static_model_save_no_duplicates:
  fixes existing model nextModel :: jsval and rm :: bool
  defines "p \<equiv> planStaticModelSave existing model nextModel rm"
  shows "distinct (sp_models p)
    \<and> length (sp_models p) + (if sp_removed p then 1 else 0) = length (normalizeStaticModelIds existing)
    \<and> (sp_clash p \<noteq> None \<longrightarrow> sp_models p = normalizeStaticModelIds existing \<and> \<not> sp_renamed p)
    \<and> (\<not> sp_renamed p \<and> \<not> sp_removed p \<longrightarrow> sp_models p = normalizeStaticModelIds existing)"
proof (cases "find_index (\<lambda>entry. js_lower entry = vkey model) (normalizeStaticModelIds existing)")
  case None
  then show ?thesis by (simp add: p_def planStaticModelSave_def Let_def distinct_normalize)
next
  case (Some i)
  define ms where "ms = normalizeStaticModelIds existing"
  define x where "x = (if trimmed nextModel \<noteq> [] then trimmed nextModel else ms ! i)"
  have d: "distinct ms" by (simp add: ms_def distinct_normalize)
  have i: "i < length ms" using find_index_Some [OF Some] by (simp add: ms_def)
  have rem: "length (take i ms @ drop (Suc i) ms) + 1 = length ms" using i by simp
  have fresh: "distinct (ms[i := x])"
    if "\<not> (\<exists>e \<in> set (take i ms @ drop (Suc i) ms). js_lower e = js_lower x)"
    using that i d by (intro distinct_list_update_fresh) auto
  let ?clash = "js_lower x \<noteq> vkey model
      \<and> (\<exists>e \<in> set (take i ms @ drop (Suc i) ms). js_lower e = js_lower x)"
  have p: "p = (if rm
      then \<lparr>sp_models = take i ms @ drop (Suc i) ms, sp_renamed = False, sp_removed = True, sp_clash = None\<rparr>
      else \<lparr>sp_models = (if js_lower x \<noteq> vkey model \<and> \<not> ?clash then ms[i := x] else ms),
            sp_renamed = (js_lower x \<noteq> vkey model \<and> \<not> ?clash), sp_removed = False,
            sp_clash = (if ?clash then Some \<lparr>clash_id = x, clash_source = ''static''\<rparr> else None)\<rparr>)"
    by (simp only: p_def planStaticModelSave_def Let_def Some option.case x_def ms_def)
  show ?thesis
  proof (cases rm)
    case True
    then show ?thesis
      using rem distinct_remove_nth [OF d, of i] unfolding p ms_def [symmetric] by simp
  next
    case False
    then show ?thesis using d fresh unfolding p ms_def [symmetric] by (cases ?clash) auto
  qed
qed


text \<open>The merged catalogue has exactly one row per client id, compared case-insensitively: its row
keys are distinct and are the keys of the variant groups, of the discovered and renamed items and of
the static declarations. Variant groups lead, static declarations follow, everything else comes last.\<close>

lemma catalog_one_row_per_id:
  fixes vgs :: "variant_groups option" and items staticIds :: jsval and disabledKeys :: "jsval list"
  defines "rows \<equiv> planCatalogEntries items staticIds vgs disabledKeys"
    and "groups \<equiv> (case vgs of None \<Rightarrow> [] | Some g \<Rightarrow> vg_entries g)"
  shows "distinct (map r_key rows)
    \<and> set (map r_key rows) = (ckey ` (vg_id ` set groups \<union> item_client_id ` set (arr_or_empty items)
                                      \<union> set (static_list staticIds))) - {[]}
    \<and> sorted_wrt (\<lambda>a b. row_rank a \<le> row_rank b) rows"
proof -
  note b = catalog_build_rows [of items "static_list staticIds" groups]
  have m: "mset (map r_key rows) = mset (row_keys (catalog_build items (static_list staticIds) groups))"
    unfolding rows_def groups_def by (rule planCatalog_keys)
  have "distinct (map r_key rows)"
    using b m by (metis mset_eq_imp_distinct_iff rows_inv_def)
  moreover have "set (map r_key rows) = (ckey ` (vg_id ` set groups \<union> item_client_id ` set (arr_or_empty items)
      \<union> set (static_list staticIds))) - {[]}"
  proof -
    have "set (map r_key rows) = set (row_keys (catalog_build items (static_list staticIds) groups))"
      by (rule mset_eq_setD [OF m])
    also have "\<dots> = ckey ` set (map vg_id groups @ map item_client_id (arr_or_empty items)
        @ static_list staticIds) - {[]}"
      by (simp only: b [THEN conjunct1] set_extend_keys list.set(1) Un_empty_left)
    finally show ?thesis by (simp only: set_append set_map Un_assoc)
  qed
  moreover have "sorted_wrt (\<lambda>a b. row_rank a \<le> row_rank b) rows"
    unfolding rows_def planCatalogEntries_def Let_def by (rule rank_order.sorted_js_sort) simp
  ultimately show ?thesis by blast
qed

text \<open>Two variant groups whose ids differ only by case share a catalogue row: the row keeps the
first group's id, while its members are those of the last group, although the lookup by key, which the
editor uses, resolves to the first group's members.\<close>

lemma catalog_case_duplicate_mixes_groups:
  "\<exists>gs r g. gs = normalizeVariantGroups (Obj [(''GPT'', Arr [Str ''m1'']), (''gpt'', Arr [Str ''m2''])])
     \<and> planCatalogEntries (Arr []) (Arr []) (Some gs) [] = [r] \<and> map_of (vg_byKey gs) (r_key r) = Some g
     \<and> r_id r = vg_id g \<and> map v_model (vg_variants g) = [''m1''] \<and> map v_model (r_variants r) = [''m2'']"
proof -
  let ?gs = "normalizeVariantGroups (Obj [(''GPT'', Arr [Str ''m1'']), (''gpt'', Arr [Str ''m2''])])"
  have len: "length (planCatalogEntries (Arr []) (Arr []) (Some ?gs) []) = Suc 0"
    and key: "map_of (vg_byKey ?gs) (r_key (hd (planCatalogEntries (Arr []) (Arr []) (Some ?gs) []))) = Some (hd (vg_entries ?gs))"
    and rid: "r_id (hd (planCatalogEntries (Arr []) (Arr []) (Some ?gs) [])) = vg_id (hd (vg_entries ?gs))"
    and first: "map v_model (vg_variants (hd (vg_entries ?gs))) = [''m1'']"
    and last: "map v_model (r_variants (hd (planCatalogEntries (Arr []) (Arr []) (Some ?gs) []))) = [''m2'']"
    by (code_simp, code_simp, code_simp, code_simp, code_simp)
  from len obtain r where r: "planCatalogEntries (Arr []) (Arr []) (Some ?gs) [] = [r]"
    unfolding length_Suc_conv length_0_conv by blast
  show ?thesis
    by (rule exI [of _ ?gs], rule exI [of _ r], rule exI [of _ "hd (vg_entries ?gs)"], intro conjI refl r first)
      (rule key [unfolded r list.sel], rule rid [unfolded r list.sel], rule last [unfolded r list.sel])
qed

end
