(* ===== verification/ProviderSort.thy ===== *)
theory ProviderSort
  imports Contracts
begin

text \<open>
  Ordering and freshness decisions of the console: \<open>provider-sort.mjs\<close> orders the provider cards,
  \<open>model-capability-order.mjs\<close> decides whether a capability snapshot may replace the shown one,
  \<open>traffic-chart-scale.mjs\<close> and \<open>provider-activity-window.mjs\<close> bound what the charts draw.
\<close>

section \<open>\<open>provider-sort.mjs\<close>\<close>

definition STATUS_ORDER :: "string \<Rightarrow> nat option" where
  "STATUS_ORDER k =
     (if k = ''normal'' then Some 0 else if k = ''degraded'' then Some 1
      else if k = ''cooldown'' then Some 2 else if k = ''unavailable'' then Some 3
      else if k = ''disabled'' then Some 4 else None)"

definition providerSortGroup :: "jsval \<Rightarrow> nat" where
  "providerSortGroup view =
     (let usableKeys = num_or_zero (get (get view ''keyStats'') ''usable'');
          disabled = strict_eq (get (get view ''runtimeState'') ''id'') (Str ''disabled'')
      in if \<not> disabled \<and> num_lt (Fin 0) usableKeys then 0 else 1)"

definition status_rank :: "jsval \<Rightarrow> nat" where
  "status_rank view =
     (case get (get view ''runtimeState'') ''id'' of
        Undef \<Rightarrow> 99
      | v \<Rightarrow> (case STATUS_ORDER (to_str v) of None \<Rightarrow> 99 | Some n \<Rightarrow> n))"

definition view_priority :: "jsval \<Rightarrow> jsnum" where
  "view_priority view = num_or_zero (get view ''priority'')"

definition view_name :: "jsval \<Rightarrow> string" where
  "view_name view = str_or_empty (get view ''name'')"

text \<open>
  The comparator's result as an integer sign; \<open>lc\<close> is the host's \<open>localeCompare\<close>, a parameter.
  A difference of priorities that is not a number is \<open>!== 0\<close> and is returned as such; \<open>sort\<close> treats
  a NaN result as equal.
\<close>

definition num_cmp_sign :: "jsnum \<Rightarrow> int" where
  "num_cmp_sign d = (if num_lt d (Fin 0) then -1 else if num_lt (Fin 0) d then 1 else 0)"

definition compareProviderViews :: "(string \<Rightarrow> string \<Rightarrow> int) \<Rightarrow> jsval \<Rightarrow> jsval \<Rightarrow> int" where
  "compareProviderViews lc a b =
     (let groupDelta = int (providerSortGroup a) - int (providerSortGroup b) in
      if groupDelta \<noteq> 0 then groupDelta
      else if providerSortGroup a = 0 then
        (let priorityDelta = num_sub (view_priority b) (view_priority a) in
         if \<not> num_eq priorityDelta (Fin 0) then num_cmp_sign priorityDelta
         else lc (view_name a) (view_name b))
      else
        (let aStatus = status_rank a; bStatus = status_rank b in
         if aStatus \<noteq> bStatus then int aStatus - int bStatus
         else (let priorityDelta = num_sub (view_priority b) (view_priority a) in
               if \<not> num_eq priorityDelta (Fin 0) then num_cmp_sign priorityDelta
               else lc (view_name a) (view_name b))))"

definition view_le :: "(string \<Rightarrow> string \<Rightarrow> int) \<Rightarrow> jsval \<Rightarrow> jsval \<Rightarrow> bool" where
  "view_le lc a b \<longleftrightarrow> compareProviderViews lc a b \<le> 0"

definition sort_provider_views :: "(string \<Rightarrow> string \<Rightarrow> int) \<Rightarrow> jsval list \<Rightarrow> jsval list" where
  "sort_provider_views lc views = js_sort (view_le lc) views"

text \<open>What \<open>localeCompare\<close> documents: the sign of a total preorder on strings.\<close>

definition collation :: "(string \<Rightarrow> string \<Rightarrow> int) \<Rightarrow> bool" where
  "collation lc \<longleftrightarrow> (\<forall>x y. lc x y \<le> 0 \<or> lc y x \<le> 0)
     \<and> (\<forall>x y z. lc x y \<le> 0 \<longrightarrow> lc y z \<le> 0 \<longrightarrow> lc x z \<le> 0)"

definition code_unit_compare :: "string \<Rightarrow> string \<Rightarrow> int" where
  "code_unit_compare x y =
     (let a = map code_unit x; b = map code_unit y in
      if a = b then 0 else if (a, b) \<in> lexord {(m, n). m < n} then -1 else 1)"

text \<open>The comparator written as a lexicographic order on group, status, priority and name.\<close>

definition view_rank :: "jsval \<Rightarrow> nat" where
  "view_rank v = (if providerSortGroup v = 0 then 0 else Suc (status_rank v))"

definition finite_priority :: "jsval \<Rightarrow> bool" where
  "finite_priority v \<longleftrightarrow> is_finite (view_priority v)"

lemma group_cases: "providerSortGroup v = 0 \<or> providerSortGroup v = 1"
  by (simp add: providerSortGroup_def Let_def)

lemma view_le_lex:
  assumes "view_priority a = Fin p" and "view_priority b = Fin q"
  shows "view_le lc a b \<longleftrightarrow> view_rank a < view_rank b
     \<or> (view_rank a = view_rank b \<and> (q < p \<or> (p = q \<and> lc (view_name a) (view_name b) \<le> 0)))"
proof (cases "providerSortGroup a = providerSortGroup b")
  case False
  then have "providerSortGroup a = 0 \<and> providerSortGroup b = 1 \<or> providerSortGroup a = 1 \<and> providerSortGroup b = 0"
    using group_cases [of a] group_cases [of b] by auto
  then show ?thesis by (auto simp: view_le_def compareProviderViews_def view_rank_def)
next
  case True
  have cmp: "(if q - p \<noteq> 0 then num_cmp_sign (Fin (q - p)) else lc (view_name a) (view_name b)) \<le> 0
      \<longleftrightarrow> q < p \<or> (p = q \<and> lc (view_name a) (view_name b) \<le> 0)"
    by (simp add: num_cmp_sign_def)
  show ?thesis
  proof (cases "providerSortGroup b = 0")
    case g0: True
    with True cmp show ?thesis
      by (simp add: view_le_def compareProviderViews_def view_rank_def assms)
  next
    case False
    with True cmp show ?thesis
      by (cases "status_rank a = status_rank b")
        (simp_all add: view_le_def compareProviderViews_def view_rank_def assms, linarith)
  qed
qed

lemma view_order_total:
  assumes "collation lc" "finite_priority a" "finite_priority b"
  shows "view_le lc a b \<or> view_le lc b a"
proof -
  obtain p q where "view_priority a = Fin p" "view_priority b = Fin q"
    using assms(2,3) by (auto simp: finite_priority_def is_finite_iff)
  note n = this
  have "lc (view_name a) (view_name b) \<le> 0 \<or> lc (view_name b) (view_name a) \<le> 0"
    using assms(1) unfolding collation_def by blast
  then show ?thesis
    unfolding view_le_lex [OF n] view_le_lex [OF n(2,1)]
    by (metis linorder_cases)
qed

lemma view_order_trans:
  assumes "collation lc" "finite_priority a" "finite_priority b" "finite_priority c"
    and ab: "view_le lc a b" and bc: "view_le lc b c"
  shows "view_le lc a c"
proof -
  obtain p q r where n: "view_priority a = Fin p" "view_priority b = Fin q" "view_priority c = Fin r"
    using assms(2-4) by (auto simp: finite_priority_def is_finite_iff)
  have t: "lc x y \<le> 0 \<Longrightarrow> lc y z \<le> 0 \<Longrightarrow> lc x z \<le> 0" for x y z
    using assms(1) unfolding collation_def by blast
  show ?thesis
    using ab bc t [of "view_name a" "view_name b" "view_name c"]
    unfolding view_le_lex [OF n(1,2)] view_le_lex [OF n(2,3)] view_le_lex [OF n(1,3)] by auto
qed

text \<open>A collation as the sort's comparator: interpreted on code-unit order below.\<close>

lemma lexord_int_total: "(a, b) \<in> lexord {(m :: int, n). m < n} \<or> a = b \<or> (b, a) \<in> lexord {(m, n). m < n}"
  by (rule lexord_linear) auto

lemma lexord_int_trans:
  "(a, b) \<in> lexord {(m :: int, n). m < n} \<Longrightarrow> (b, c) \<in> lexord {(m, n). m < n} \<Longrightarrow> (a, c) \<in> lexord {(m, n). m < n}"
  by (erule lexord_trans) (auto simp: trans_def)

lemma collation_code_units: "collation code_unit_compare"
  unfolding collation_def
proof (intro conjI allI impI)
  show "code_unit_compare x y \<le> 0 \<or> code_unit_compare y x \<le> 0" for x y
    using lexord_int_total [of "map code_unit x" "map code_unit y"]
    by (auto simp: code_unit_compare_def Let_def)
  show "code_unit_compare x z \<le> 0" if "code_unit_compare x y \<le> 0" "code_unit_compare y z \<le> 0" for x y z
    using that lexord_int_trans [of "map code_unit x" "map code_unit y" "map code_unit z"]
    by (auto simp: code_unit_compare_def Let_def split: if_splits)
qed

lemma view_comparator: "collation lc \<Longrightarrow> comparator finite_priority (view_le lc)"
  by (rule comparator.intro) (rule view_order_total, assumption+, rule view_order_trans, assumption+)

interpretation code_unit_views: comparator finite_priority "view_le code_unit_compare"
  by (rule view_comparator) (rule collation_code_units)

text \<open>With finite priorities and a consistent collation the provider cards come out as a
permutation of the views in which every usable provider precedes every unusable one, and inside the
usable group higher priorities come first.\<close>

lemma provider_cards_ordered:
  assumes "collation lc" and "\<forall>v \<in> set views. finite_priority v"
  shows "mset (sort_provider_views lc views) = mset views
    \<and> sorted_wrt (\<lambda>a b. providerSortGroup a \<le> providerSortGroup b
         \<and> (providerSortGroup a = 0 \<longrightarrow> providerSortGroup b = 0 \<longrightarrow>
              num_le (view_priority b) (view_priority a)))
        (sort_provider_views lc views)"
proof -
  have s: "sorted_wrt (view_le lc) (sort_provider_views lc views)"
    unfolding sort_provider_views_def
    by (rule comparator.sorted_js_sort [OF view_comparator [OF assms(1)] assms(2)])
  have weaken: "providerSortGroup a \<le> providerSortGroup b
      \<and> (providerSortGroup a = 0 \<longrightarrow> providerSortGroup b = 0 \<longrightarrow> num_le (view_priority b) (view_priority a))"
    if ab: "a \<in> set views" "b \<in> set views" "view_le lc a b" for a b
  proof -
    obtain p q where n: "view_priority a = Fin p" "view_priority b = Fin q"
      using assms(2) [rule_format, OF ab(1)] assms(2) [rule_format, OF ab(2)]
      unfolding finite_priority_def is_finite_iff by blast
    have r: "view_rank a \<le> view_rank b" "view_rank a = view_rank b \<Longrightarrow> q \<le> p"
      using ab(3) unfolding view_le_lex [OF n] by linarith+
    then show ?thesis
      using group_cases [of a] group_cases [of b] by (auto simp: view_rank_def n split: if_splits)
  qed
  show ?thesis
  proof
    show "mset (sort_provider_views lc views) = mset views" by (simp add: sort_provider_views_def)
    have "set (sort_provider_views lc views) = set views" by (simp add: sort_provider_views_def)
    then show "sorted_wrt (\<lambda>a b. providerSortGroup a \<le> providerSortGroup b
         \<and> (providerSortGroup a = 0 \<longrightarrow> providerSortGroup b = 0 \<longrightarrow>
              num_le (view_priority b) (view_priority a))) (sort_provider_views lc views)"
      by (intro sorted_wrt_mono_rel [OF _ s] weaken) auto
  qed
qed

definition sample_view :: "string \<Rightarrow> rat \<Rightarrow> rat \<Rightarrow> jsval" where
  "sample_view name usable priority =
     Obj [(''name'', Str name), (''priority'', jnum priority), (''keyStats'', Obj [(''usable'', jnum usable)])]"

section \<open>\<open>model-capability-order.mjs\<close>\<close>

definition finiteNumber :: "jsval \<Rightarrow> rat \<Rightarrow> rat" where
  "finiteNumber value fallback = (case to_num value of Fin q \<Rightarrow> q | _ \<Rightarrow> fallback)"

definition providerTimestampMs :: "jsval \<Rightarrow> rat" where
  "providerTimestampMs snap =
     (let providers = get snap ''providers'' in
      if \<not> is_object providers then 0
      else foldl (\<lambda>latest e. max latest (finiteNumber (get (snd e) ''fetched_at'') 0 * 1000)) 0
             (js_entries providers))"

record capability_marker =
  cm_timestamp :: rat
  cm_version :: rat

definition modelCapabilitySnapshotMarker :: "jsval \<Rightarrow> capability_marker" where
  "modelCapabilitySnapshotMarker snap =
     (if \<not> is_object snap then \<lparr>cm_timestamp = 0, cm_version = -1\<rparr>
      else \<lparr>cm_timestamp = (let e = finiteNumber (get snap ''models_epoch_ms'') 0 in
                             if e \<noteq> 0 then e else providerTimestampMs snap),
            cm_version = finiteNumber (get snap ''models_version'') (-1)\<rparr>)"

definition shouldAcceptModelCapabilitySnapshot :: "jsval \<Rightarrow> jsval \<Rightarrow> bool" where
  "shouldAcceptModelCapabilitySnapshot current incoming =
     (if \<not> is_object incoming then False
      else if \<not> is_object current then True
      else (let previous = modelCapabilitySnapshotMarker current;
                next = modelCapabilitySnapshotMarker incoming in
            if cm_timestamp previous < cm_timestamp next then True
            else if cm_timestamp next < cm_timestamp previous then False
            else if 0 \<le> cm_version next \<and> 0 \<le> cm_version previous
            then cm_version previous \<le> cm_version next
            else True))"

text \<open>\<open>acceptModelCapabilities\<close> keeps the shown snapshot or replaces it by the incoming one.\<close>

definition accept_capabilities :: "jsval \<Rightarrow> jsval \<Rightarrow> jsval" where
  "accept_capabilities incoming current =
     (if shouldAcceptModelCapabilitySnapshot current incoming then incoming else current)"

definition shown_timestamp :: "jsval \<Rightarrow> rat option" where
  "shown_timestamp snap =
     (if is_object snap then Some (cm_timestamp (modelCapabilitySnapshotMarker snap)) else None)"

fun timestamp_le :: "rat option \<Rightarrow> rat option \<Rightarrow> bool" where
  "timestamp_le None _ = True"
| "timestamp_le (Some a) None = False"
| "timestamp_le (Some a) (Some b) = (a \<le> b)"

interpretation capabilities: monotone_acceptor timestamp_le "\<lambda>_. True" "\<lambda>_. True" shown_timestamp accept_capabilities
proof (unfold_locales, goal_cases)
  case (1 m)
  show ?case by (cases m) auto
next
  case (2 a b c)
  then show ?case by (cases a; cases b; cases c) auto
next
  case (4 s p)
  show ?case
    by (auto simp: accept_capabilities_def shouldAcceptModelCapabilitySnapshot_def shown_timestamp_def Let_def)
qed simp

text \<open>Whatever order capability responses arrive in, the model panel never goes back to a snapshot
of an older epoch, it stays on a snapshot it has accepted against responses that are not objects, and
between two versioned snapshots of the same epoch it never accepts the lower version.\<close>

lemma capability_panel_monotone:
  "timestamp_le (shown_timestamp (fold accept_capabilities ps s))
       (shown_timestamp (fold accept_capabilities (ps @ qs) s))
   \<and> accept_capabilities Null s = s
   \<and> \<not> shouldAcceptModelCapabilitySnapshot
         (Obj [(''models_epoch_ms'', jnum e), (''models_version'', jnum (of_nat (Suc (v + d))))])
         (Obj [(''models_epoch_ms'', jnum e), (''models_version'', jnum (of_nat v))])"
proof -
  have "timestamp_le (shown_timestamp (fold accept_capabilities ps s))
       (shown_timestamp (fold accept_capabilities (ps @ qs) s))"
    by (rule capabilities.accepts_append_newer) simp_all
  then show ?thesis
    by (simp add: accept_capabilities_def shouldAcceptModelCapabilitySnapshot_def
        modelCapabilitySnapshotMarker_def finiteNumber_def providerTimestampMs_def Let_def)
qed

section \<open>Charts\<close>

definition PROVIDER_CALL_BAR_SLOTS :: nat where "PROVIDER_CALL_BAR_SLOTS = 40"

definition recentProviderActivityEvents :: "jsval \<Rightarrow> jsval list" where
  "recentProviderActivityEvents events =
     (let xs = arr_or_empty events in drop (length xs - PROVIDER_CALL_BAR_SLOTS) xs)"

text \<open>
  \<open>Math.floor(Math.log10(raw))\<close> for \<open>raw >= 1\<close>: the exponent of the largest power of ten below it,
  found by counting; the source's logarithm is a double, which is exact away from powers of ten.
\<close>

function floor_log10 :: "rat \<Rightarrow> nat" where
  "floor_log10 q = (if q < 10 then 0 else Suc (floor_log10 (q / 10)))"
  by pat_completeness auto
termination
proof (relation "measure (\<lambda>q. nat \<lceil>q\<rceil>)")
  fix q :: rat
  assume "\<not> q < 10"
  then have q: "10 \<le> q" by simp
  have "\<lceil>q / 10\<rceil> \<le> \<lceil>q - 1\<rceil>" by (rule ceiling_mono) (use q in simp)
  then have "\<lceil>q / 10\<rceil> < \<lceil>q\<rceil>" by simp
  moreover have "0 < \<lceil>q\<rceil>" using q by simp
  ultimately show "(q / 10, q) \<in> measure (\<lambda>q. nat \<lceil>q\<rceil>)" by simp
qed simp

declare floor_log10.simps [simp del]

definition niceChartMax :: "rat \<Rightarrow> rat" where
  "niceChartMax value =
     (let raw = max 1 (if value \<noteq> 0 then value else 1);
          magnitude = 10 ^ floor_log10 raw;
          normalized = raw / magnitude;
          step = (if normalized \<le> 1 then 1 else if normalized \<le> 2 then 2 else if normalized \<le> 3 then 3
                  else if normalized \<le> 5 then 5 else 10)
      in step * magnitude)"

text \<open>\<open>Number.EPSILON\<close>.\<close>

definition EPSILON :: rat where "EPSILON = 1 / 2 ^ 52"

definition chart_values :: "jsval \<Rightarrow> rat list" where
  "chart_values values =
     map (\<lambda>v. case num_or_zero v of Fin q \<Rightarrow> q | _ \<Rightarrow> 0) (arr_or_empty values)"

definition chartScaleMax :: "jsval \<Rightarrow> rat \<Rightarrow> bool \<Rightarrow> rat \<Rightarrow> rat" where
  "chartScaleMax values fallback nice padding =
     (let observed = foldl max 0 (chart_values values);
          maximum = (if 0 < observed then observed * padding else max fallback EPSILON)
      in if nice then niceChartMax maximum else maximum)"

definition positiveChartPoints :: "jsval \<Rightarrow> jsval list" where
  "positiveChartPoints points =
     filter (\<lambda>p. num_lt (Fin 0) (num_or_zero (get p ''value''))) (arr_or_empty points)"

subsection \<open>Lemmas and properties\<close>

lemma floor_log10_bounds: "1 \<le> q \<Longrightarrow> 10 ^ floor_log10 q \<le> q \<and> q < 10 * 10 ^ floor_log10 q"
proof (induction q rule: floor_log10.induct)
  case (1 q)
  show ?case
  proof (cases "q < 10")
    case True
    with 1 show ?thesis by (simp add: floor_log10.simps [of q])
  next
    case False
    with 1 have "10 ^ floor_log10 (q / 10) \<le> q / 10 \<and> q / 10 < 10 * 10 ^ floor_log10 (q / 10)" by simp
    with False show ?thesis by (simp add: floor_log10.simps [of q])
  qed
qed

lemma foldl_max_ge: "(x :: rat) \<in> set xs \<or> x = a \<Longrightarrow> x \<le> foldl max a xs"
proof (induction xs arbitrary: a x)
  case (Cons y ys)
  have "max a y \<le> foldl max (max a y) ys" by (rule Cons.IH) simp
  with Cons show ?case by auto
qed simp

lemma niceChartMax_ge: "v \<le> niceChartMax v"
proof -
  define raw where "raw = max 1 (if v \<noteq> 0 then v else 1)"
  define mag :: rat where "mag = 10 ^ floor_log10 raw"
  have raw: "1 \<le> raw" "v \<le> raw" by (auto simp: raw_def)
  have mag: "0 < mag" "raw < 10 * mag" using floor_log10_bounds [OF raw(1)] by (auto simp: mag_def)
  have "niceChartMax v = (if raw / mag \<le> 1 then 1 else if raw / mag \<le> 2 then 2 else if raw / mag \<le> 3 then 3
      else if raw / mag \<le> 5 then 5 else 10) * mag"
    by (simp only: niceChartMax_def Let_def raw_def mag_def)
  then have "raw \<le> niceChartMax v"
    using mag by (auto simp: pos_divide_le_eq split: if_splits)
  with raw(2) show ?thesis by simp
qed

text \<open>The top of a chart's scale covers every value drawn under it when the padding does not
shrink, with or without rounding to a nice number, and it is positive, so the division by it is safe.\<close>

lemma chart_scale_covers:
  assumes "1 \<le> padding" and "v \<in> set (chart_values values)"
  shows "v \<le> chartScaleMax values fallback nice padding \<and> 0 < chartScaleMax values fallback nice padding"
proof -
  define obs where "obs = foldl max 0 (chart_values values)"
  have v: "v \<le> obs" and o: "0 \<le> obs"
    unfolding obs_def by (rule foldl_max_ge, simp add: assms(2), rule foldl_max_ge, simp)
  define m where "m = (if 0 < obs then obs * padding else max fallback EPSILON)"
  have "obs \<le> obs * padding" using assms(1) o by (simp add: mult_le_cancel_left1)
  then have "v \<le> m" and pos: "0 < m"
    using v o by (auto simp: m_def EPSILON_def)
  moreover have "chartScaleMax values fallback nice padding = (if nice then niceChartMax m else m)"
    by (simp only: chartScaleMax_def Let_def m_def obs_def)
  ultimately show ?thesis using niceChartMax_ge [of m] by auto
qed


text \<open>The activity strip of a provider shows the most recent calls and at most forty of them: a
suffix of the event list that is everything when there are no more than forty.\<close>

lemma recent_activity_window:
  "\<exists>older. arr_or_empty events = older @ recentProviderActivityEvents events
     \<and> length (recentProviderActivityEvents events) = min 40 (length (arr_or_empty events))"
proof -
  have "arr_or_empty events
      = take (length (arr_or_empty events) - 40) (arr_or_empty events) @ recentProviderActivityEvents events"
    by (simp add: recentProviderActivityEvents_def PROVIDER_CALL_BAR_SLOTS_def Let_def)
  then show ?thesis
    by (intro exI conjI) (assumption, simp add: recentProviderActivityEvents_def PROVIDER_CALL_BAR_SLOTS_def Let_def)
qed

end
