(* ===== verification/RoutingTrace.thy ===== *)
theory RoutingTrace
  imports JsFacts
begin

text \<open>
  \<open>dashboard_src/src/routing-trace-view.mjs\<close>: the routing diagnostics of a request are grouped for
  display. Events are untyped objects from the server; a group carries the events it merged.
\<close>

section \<open>Groups\<close>

definition CANDIDATE_FILTER_CODES :: "string set" where
  "CANDIDATE_FILTER_CODES = {''compatibility_circuit'', ''duplicate_candidate'', ''key_cooldown'',
     ''key_disabled'', ''model_unsupported_by_key'', ''provider_cooldown''}"

definition is_filter_code :: "jsval \<Rightarrow> bool" where
  "is_filter_code v = (case v of Str s \<Rightarrow> s \<in> CANDIDATE_FILTER_CODES | _ \<Rightarrow> False)"

definition has_code :: "string \<Rightarrow> jsval \<Rightarrow> bool" where
  "has_code c event \<longleftrightarrow> get event ''code'' = Str c"

definition normalizedEvent :: "jsval \<Rightarrow> jsval" where
  "normalizedEvent event = (if is_object event then event else Obj [])"

datatype group_kind = FormatEvaluation | CandidateFilter | SingleEvent

definition groupKind :: "jsval \<Rightarrow> group_kind" where
  "groupKind event =
     (if get event ''stage'' = Str ''format_compatibility'' then FormatEvaluation
      else if get event ''stage'' = Str ''routing'' \<and> is_filter_code (get event ''code'')
      then CandidateFilter
      else SingleEvent)"

record trace_group =
  g_kind :: group_kind
  g_stage :: jsval
  g_code :: jsval
  g_event :: jsval
  g_events :: "jsval list"
  g_rawIndexes :: "nat list"

text \<open>\<open>[...new Set(xs.filter(Boolean))]\<close>.\<close>

definition unique_truthy :: "jsval list \<Rightarrow> jsval list" where
  "unique_truthy xs = first_by (\<lambda>v. v) [] (filter truthy xs)"

record trace_step = trace_group +
  eventCount :: nat
  codes :: "jsval list"
  formats :: "jsval list"
  providers :: "jsval list"
  eligibleFormats :: "jsval list"
  blockedFormats :: "jsval list"
  mappedCount :: nat
  droppedCount :: nat

text \<open>
  \<open>summarizeGroup\<close>. The last four fields exist only on format evaluations; elsewhere they are the
  empty values their readers treat as absent.
\<close>

definition summarizeGroup :: "trace_group \<Rightarrow> trace_step" where
  "summarizeGroup g =
     (let events = g_events g; fmt = (g_kind g = FormatEvaluation) in
      trace_group.extend g
        \<lparr>eventCount = length events,
         codes = unique_truthy (map (\<lambda>e. get e ''code'') events),
         formats = unique_truthy (map (\<lambda>e. jor (get e ''target_format'') (get e ''upstream_format'')) events),
         providers = unique_truthy (map (\<lambda>e. get e ''provider'') events),
         eligibleFormats = (if fmt then unique_truthy
            (map (\<lambda>e. get e ''target_format'') (filter (has_code ''format_eligible'') events)) else []),
         blockedFormats = (if fmt then unique_truthy
            (map (\<lambda>e. get e ''target_format'') (filter (has_code ''format_blocked_by_parameter'') events))
            else []),
         mappedCount = (if fmt then length (filter (has_code ''format_parameter_mapped'') events) else 0),
         droppedCount = (if fmt then length (filter (has_code ''format_hint_dropped'') events) else 0)\<rparr>)"

text \<open>One turn of the loop of \<open>groupRoutingTrace\<close>: extend the last group or push a new one.\<close>

definition push_event :: "trace_group list \<Rightarrow> nat \<times> jsval \<Rightarrow> trace_group list" where
  "push_event groups ie =
     (let rawIndex = fst ie; event = snd ie; kind = groupKind event in
      if kind \<noteq> SingleEvent \<and> groups \<noteq> [] \<and> g_kind (last groups) = kind
      then butlast groups @ [(last groups)\<lparr>g_events := g_events (last groups) @ [event],
                                g_rawIndexes := g_rawIndexes (last groups) @ [rawIndex]\<rparr>]
      else groups @ [\<lparr>g_kind = kind, g_stage = jor (get event ''stage'') (Str ''routing''),
                      g_code = jor (get event ''code'') (Str ''unknown''), g_event = event,
                      g_events = [event], g_rawIndexes = [rawIndex]\<rparr>])"

definition raw_groups :: "jsval list \<Rightarrow> trace_group list" where
  "raw_groups trace = foldl push_event [] (enumerate 0 trace)"

definition groupRoutingTrace :: "jsval \<Rightarrow> trace_step list" where
  "groupRoutingTrace rawTrace = map summarizeGroup (raw_groups (map normalizedEvent (arr_or_empty rawTrace)))"

section \<open>Tone, identity and the format summary\<close>

datatype tone = Neutral | Ok | Warn | Bad

text \<open>A step is a group (\<open>Inl\<close>) or a plain event (\<open>Inr\<close>); \<open>None\<close> is a missing step.\<close>

definition code_tone :: "jsval \<Rightarrow> tone" where
  "code_tone v =
     (let code = str_or_empty v in
      if code = ''selected'' \<or> code = ''attempt_succeeded'' then Ok
      else if code = ''attempt_failed'' \<or> code = ''no_candidate'' \<or> code = ''format_blocked_by_parameter'' then Bad
      else if code \<in> CANDIDATE_FILTER_CODES \<or> code = ''format_hint_dropped'' then Warn
      else Neutral)"

definition routingTraceTone :: "trace_step option \<Rightarrow> tone" where
  "routingTraceTone step =
     (case step of None \<Rightarrow> Neutral
      | Some s \<Rightarrow>
          (case g_kind s of
             FormatEvaluation \<Rightarrow>
               if eligibleFormats s \<noteq> []
               then (if blockedFormats s \<noteq> [] \<or> droppedCount s \<noteq> 0 then Warn else Ok)
               else if blockedFormats s \<noteq> [] then Bad else Neutral
           | CandidateFilter \<Rightarrow> Warn
           | SingleEvent \<Rightarrow> code_tone (g_code s)))"

definition routingTraceIdentity :: "jsval \<Rightarrow> jsval list" where
  "routingTraceIdentity event =
     (let item = normalizedEvent event in
      filter truthy
        [get item ''provider'',
         jor (get item ''key_masked'') (get item ''key_id''),
         jor (get item ''provider_model'') (get item ''canonical_model''),
         jor (get item ''target_format'') (get item ''upstream_format'')])"

datatype format_mode = Converted | Blocked | Native | Unrestricted

record format_summary =
  fs_mode :: format_mode
  fs_sourceFormat :: string
  fs_targetFormat :: string
  fs_path :: "string list"
  fs_blocked :: "(jsval \<times> string list) list"
  fs_transformations :: "(jsval \<times> jsval \<times> jsval) list"
  fs_droppedHints :: "(jsval \<times> jsval) list"

text \<open>The map from a blocked format to the fields that blocked it, both in insertion order.\<close>

fun fields_of :: "jsval \<Rightarrow> (jsval \<times> string list) list \<Rightarrow> string list" where
  "fields_of k [] = []"
| "fields_of k ((k', v) # kvs) = (if k = k' then v else fields_of k kvs)"

fun put_fields :: "jsval \<Rightarrow> string list \<Rightarrow> (jsval \<times> string list) list \<Rightarrow> (jsval \<times> string list) list" where
  "put_fields k v [] = [(k, v)]"
| "put_fields k v ((k', v') # kvs) = (if k = k' then (k, v) # kvs else (k', v') # put_fields k v kvs)"

definition block_event :: "(jsval \<times> string list) list \<Rightarrow> jsval \<Rightarrow> (jsval \<times> string list) list" where
  "block_event m event =
     (if \<not> has_code ''format_blocked_by_parameter'' event \<or> \<not> truthy (get event ''target_format'') then m
      else (let fmt = get event ''target_format''; fields = fields_of fmt m;
                field = to_str (get event ''field'')
            in put_fields fmt
                 (if truthy (get event ''field'') \<and> field \<notin> set fields then fields @ [field] else fields) m))"

definition summarizeFormatTraceStep :: "jsval list \<Rightarrow> jsval \<Rightarrow> jsval \<Rightarrow> format_summary" where
  "summarizeFormatTraceStep events clientFormat finalFormat =
     (let sourceFormat = str_or_empty clientFormat;
          hasFinalFormat = truthy finalFormat;
          targetFormat = to_str (jor (jor finalFormat (Str sourceFormat)) (Str []));
          blocked = foldl block_event [] events;
          selectedEvents = filter (\<lambda>e. targetFormat = [] \<or> get e ''target_format'' = Str targetFormat) events;
          transformations = map (\<lambda>e. (jor (get e ''field'') (Str []), jor (get e ''target'') (Str []),
                                       jor (get e ''action'') (Str [])))
             (filter (has_code ''format_parameter_mapped'') selectedEvents);
          droppedHints = map (\<lambda>e. (jor (get e ''field'') (Str []), jor (get e ''action'') (Str [])))
             (filter (has_code ''format_hint_dropped'') selectedEvents);
          converted = (sourceFormat \<noteq> [] \<and> targetFormat \<noteq> [] \<and> sourceFormat \<noteq> targetFormat)
      in \<lparr>fs_mode = (if converted then Converted else if blocked \<noteq> [] then Blocked
                     else if hasFinalFormat \<and> sourceFormat \<noteq> [] then Native else Unrestricted),
          fs_sourceFormat = sourceFormat, fs_targetFormat = targetFormat,
          fs_path = filter (\<lambda>s. s \<noteq> []) [sourceFormat, if converted then targetFormat else []],
          fs_blocked = blocked, fs_transformations = transformations, fs_droppedHints = droppedHints\<rparr>)"

section \<open>The grouping\<close>

text \<open>Every group holds events of its own kind, and an unmergeable event is alone.\<close>

definition group_ok :: "trace_group \<Rightarrow> bool" where
  "group_ok g \<longleftrightarrow> g_events g \<noteq> [] \<and> length (g_events g) = length (g_rawIndexes g)
     \<and> list_all (\<lambda>e. groupKind e = g_kind g) (g_events g)
     \<and> (g_kind g = SingleEvent \<longrightarrow> length (g_events g) = 1)"

definition mergeable :: "trace_group \<Rightarrow> trace_group \<Rightarrow> bool" where
  "mergeable g h \<longleftrightarrow> g_kind g = g_kind h \<and> g_kind h \<noteq> SingleEvent"

fun no_mergeable :: "trace_group list \<Rightarrow> bool" where
  "no_mergeable (g # h # gs) = (\<not> mergeable g h \<and> no_mergeable (h # gs))"
| "no_mergeable _ = True"

lemma no_mergeable_snoc:
  "no_mergeable (gs @ [g]) \<longleftrightarrow> no_mergeable gs \<and> (gs \<noteq> [] \<longrightarrow> \<not> mergeable (last gs) g)"
  by (induction gs rule: no_mergeable.induct) auto

lemma no_mergeable_snoc2:
  "no_mergeable (gs @ [g, h]) \<longleftrightarrow> no_mergeable (gs @ [g]) \<and> \<not> mergeable g h"
  using no_mergeable_snoc [of "gs @ [g]" h] by simp

lemma push_event_content:
  "concat (map g_events (push_event groups ie)) = concat (map g_events groups) @ [snd ie]
   \<and> concat (map g_rawIndexes (push_event groups ie)) = concat (map g_rawIndexes groups) @ [fst ie]"
  by (cases groups rule: rev_cases) (auto simp: push_event_def Let_def)

lemma push_event_ok: "list_all group_ok groups \<Longrightarrow> list_all group_ok (push_event groups ie)"
  by (cases groups rule: rev_cases) (auto simp: push_event_def Let_def group_ok_def)

lemma push_event_separated: "no_mergeable groups \<Longrightarrow> no_mergeable (push_event groups ie)"
  by (cases groups rule: rev_cases)
    (auto simp: push_event_def Let_def no_mergeable_snoc no_mergeable_snoc2 mergeable_def split: if_splits)

lemma foldl_push_event:
  "concat (map g_events (foldl push_event groups ies)) = concat (map g_events groups) @ map snd ies
   \<and> concat (map g_rawIndexes (foldl push_event groups ies)) = concat (map g_rawIndexes groups) @ map fst ies
   \<and> (list_all group_ok groups \<longrightarrow> list_all group_ok (foldl push_event groups ies))
   \<and> (no_mergeable groups \<longrightarrow> no_mergeable (foldl push_event groups ies))"
  by (induction ies arbitrary: groups)
    (auto simp: push_event_content push_event_ok push_event_separated)

lemma summarizeGroup_truncate: "trace_group.truncate (summarizeGroup g) = g"
  by (simp add: summarizeGroup_def Let_def trace_group.defs)

lemma truncate_groups:
  "map trace_group.truncate (groupRoutingTrace raw) = raw_groups (map normalizedEvent (arr_or_empty raw))"
  by (simp add: groupRoutingTrace_def o_def summarizeGroup_truncate)

text \<open>Grouping a routing trace neither loses, duplicates nor reorders an event: the events of the
groups, read in order, are the normalized trace and their raw indexes are its positions. Every group
is of one kind, an event that is not a format check or a candidate rejection stands alone, and no two
neighbouring groups could have been merged.\<close>

lemma grouping_preserves_trace:
  fixes raw :: jsval
  defines "gs \<equiv> map trace_group.truncate (groupRoutingTrace raw)"
  shows "concat (map g_events gs) = map normalizedEvent (arr_or_empty raw)
    \<and> concat (map g_rawIndexes gs) = [0..<length (arr_or_empty raw)]
    \<and> list_all group_ok gs \<and> no_mergeable gs"
proof -
  let ?es = "enumerate 0 (map normalizedEvent (arr_or_empty raw))"
  have "concat (map g_events gs) = map snd ?es" "concat (map g_rawIndexes gs) = map fst ?es"
    "list_all group_ok gs" "no_mergeable gs"
    using foldl_push_event [of "[]" ?es]
    unfolding gs_def truncate_groups raw_groups_def by simp_all
  then show ?thesis by (simp add: enumerate_eq_zip)
qed

text \<open>The tone of a group of candidate rejections is a warning, and the tone of a format evaluation
is good exactly when some format is eligible and nothing was blocked or dropped, and bad exactly when
formats were blocked and none is eligible.\<close>

lemma format_evaluation_tone:
  assumes "g_kind s = FormatEvaluation"
  shows "(routingTraceTone (Some s) = Ok \<longleftrightarrow>
            eligibleFormats s \<noteq> [] \<and> blockedFormats s = [] \<and> droppedCount s = 0)
    \<and> (routingTraceTone (Some s) = Bad \<longleftrightarrow> eligibleFormats s = [] \<and> blockedFormats s \<noteq> [])
    \<and> routingTraceTone (Some (s\<lparr>g_kind := CandidateFilter\<rparr>)) = Warn"
  using assms by (simp add: routingTraceTone_def)


lemma fields_put: "fields_of k (put_fields k' v m) = (if k = k' then v else fields_of k m)"
  by (induction m) auto

lemma keys_put: "fst ` set (put_fields k v m) = insert k (fst ` set m)"
proof (induction m)
  case (Cons a m)
  then show ?case by (cases a; cases "k = fst a") (simp_all add: insert_commute)
qed simp

lemma block_event_keys:
  "fst ` set (foldl block_event m events) = fst ` set m
     \<union> {get e ''target_format'' | e. e \<in> set events \<and> has_code ''format_blocked_by_parameter'' e
                                     \<and> truthy (get e ''target_format'')}"
proof (induction events arbitrary: m)
  case (Cons e es)
  then show ?case by (auto simp: block_event_def keys_put Let_def)
qed simp

text \<open>The summary of a format step lists as blocked exactly the target formats some event blocked,
and it reports a conversion exactly when client and target format are both known and differ, in which
case the displayed path is the two of them.\<close>

lemma format_summary_sound:
  fixes events :: "jsval list" and client final :: jsval
  defines "s \<equiv> summarizeFormatTraceStep events client final"
  shows "fst ` set (fs_blocked s) =
      {get e ''target_format'' | e. e \<in> set events \<and> has_code ''format_blocked_by_parameter'' e
                                    \<and> truthy (get e ''target_format'')}
    \<and> (fs_mode s = Converted \<longleftrightarrow>
         fs_sourceFormat s \<noteq> [] \<and> fs_targetFormat s \<noteq> [] \<and> fs_sourceFormat s \<noteq> fs_targetFormat s)
    \<and> (fs_mode s = Converted \<longrightarrow> fs_path s = [fs_sourceFormat s, fs_targetFormat s])"
  using block_event_keys [of "[]" events]
  by (auto simp: s_def summarizeFormatTraceStep_def Let_def)

end
