(* ===== verification/Html.thy ===== *)
theory Html
  imports JsFacts
begin

text \<open>
  The text layer of the console: HTML escaping (\<open>escapeHtml\<close>), the icon table (\<open>iconSvg\<close>) and the
  markup of a string, i.e. the characters that can open a tag, close one or leave an attribute
  value.

  A renderer of the source is a template literal; its model is the same text as an append of
  literals and the interpolated expressions, \<open>nl k\<close> being a line feed and \<open>k\<close> spaces. The markup
  lemmas let \<open>simp\<close> compute the markup of a template piece by piece: data that went through
  \<open>escapeHtml\<close> contributes none.
\<close>

section \<open>Template pieces\<close>

definition nl :: "nat \<Rightarrow> string" where
  "nl k = CHR 0x0A # replicate k (CHR '' '')"

text \<open>\<open>s.replace(/c/g, r)\<close> for a one-character pattern.\<close>

definition replace_char :: "char \<Rightarrow> string \<Rightarrow> string \<Rightarrow> string" where
  "replace_char c r s = concat (map (\<lambda>x. if x = c then r else [x]) s)"

section \<open>Escaping\<close>

definition escape_text :: "string \<Rightarrow> string" where
  "escape_text s =
     replace_char (CHR 0x27) ''&#39;''
       (replace_char (CHR 0x22) ''&quot;''
         (replace_char (CHR ''>'') ''&gt;''
           (replace_char (CHR ''<'') ''&lt;''
             (replace_char (CHR ''&'') ''&amp;'' s))))"

definition escapeHtml :: "jsval \<Rightarrow> string" where
  "escapeHtml v = escape_text (to_str (jcoalesce v (Str [])))"

abbreviation esc :: "string \<Rightarrow> string" where
  "esc s \<equiv> escapeHtml (Str s)"

definition is_regexp_special :: "char \<Rightarrow> bool" where
  "is_regexp_special c \<longleftrightarrow> c \<in> set ''.*+?^${}()|[]'' \<or> c = CHR 0x5C"

definition escapeRegExp :: "jsval \<Rightarrow> string" where
  "escapeRegExp v =
     concat (map (\<lambda>c. if is_regexp_special c then [CHR 0x5C, c] else [c]) (to_str v))"

section \<open>The one-pass reading of the escaper\<close>

definition escape_char :: "char \<Rightarrow> string" where
  "escape_char c =
     (if c = CHR ''&'' then ''&amp;'' else if c = CHR ''<'' then ''&lt;''
      else if c = CHR ''>'' then ''&gt;'' else if c = CHR 0x22 then ''&quot;''
      else if c = CHR 0x27 then ''&#39;'' else [c])"

text \<open>The characters with a meaning in HTML text or in a quoted attribute value.\<close>

definition is_markup :: "char \<Rightarrow> bool" where
  "is_markup c \<longleftrightarrow> c = CHR ''<'' \<or> c = CHR ''>'' \<or> c = CHR 0x22 \<or> c = CHR 0x27"

definition markup :: "string \<Rightarrow> string" where
  "markup s = filter is_markup s"

text \<open>The HTML reader's view of the five entities the escaper writes.\<close>

definition read_entity :: "string \<Rightarrow> (char \<times> string) option" where
  "read_entity s =
     (if starts_with ''&amp;'' s then Some (CHR ''&'', drop 5 s)
      else if starts_with ''&lt;'' s then Some (CHR ''<'', drop 4 s)
      else if starts_with ''&gt;'' s then Some (CHR ''>'', drop 4 s)
      else if starts_with ''&quot;'' s then Some (CHR 0x22, drop 6 s)
      else if starts_with ''&#39;'' s then Some (CHR 0x27, drop 5 s)
      else None)"

fun unescape_fuel :: "nat \<Rightarrow> string \<Rightarrow> string" where
  "unescape_fuel 0 s = []"
| "unescape_fuel (Suc n) [] = []"
| "unescape_fuel (Suc n) (c # s) =
     (case read_entity (c # s) of
        Some (d, rest) \<Rightarrow> d # unescape_fuel n rest
      | None \<Rightarrow> c # unescape_fuel n s)"

text \<open>Every step consumes a character, so the length of the text is enough fuel.\<close>

definition unescape :: "string \<Rightarrow> string" where
  "unescape s = unescape_fuel (length s) s"

lemma replace_char_Nil [simp]: "replace_char c r [] = []"
  by (simp add: replace_char_def)

lemma replace_char_append [simp]:
  "replace_char c r (s @ u) = replace_char c r s @ replace_char c r u"
  by (simp add: replace_char_def)

lemma escape_text_append [simp]: "escape_text (s @ u) = escape_text s @ escape_text u"
  by (simp add: escape_text_def)

lemma escape_text_Nil [simp]: "escape_text [] = []"
  by (simp add: escape_text_def)

lemma escape_text_single: "escape_text [c] = escape_char c"
  by (simp add: escape_text_def escape_char_def replace_char_def)

lemma escape_text_Cons: "escape_text (c # s) = escape_char c @ escape_text s"
  using escape_text_append [of "[c]" s] by (simp add: escape_text_single)

lemma escape_text_one_pass: "escape_text s = concat (map escape_char s)"
  by (induction s) (simp_all add: escape_text_Cons)

lemma markup_append [simp]: "markup (s @ u) = markup s @ markup u"
  by (simp add: markup_def)

lemma markup_Nil [simp]: "markup [] = []"
  by (simp add: markup_def)

lemma markup_Cons: "markup (c # s) = (if is_markup c then c # markup s else markup s)"
  by (simp add: markup_def)

lemma markup_escape_char [simp]: "markup (escape_char c) = []"
  by (auto simp: escape_char_def markup_def is_markup_def)

lemma markup_escape_text [simp]: "markup (escape_text s) = []"
  by (induction s) (simp_all add: escape_text_Cons)

lemma markup_escapeHtml [simp]: "markup (escapeHtml v) = []"
  by (simp add: escapeHtml_def)

lemma markup_nl [simp]: "markup (nl k) = []"
  by (simp add: nl_def markup_def is_markup_def)

lemma markup_concat: "markup (concat xss) = concat (map markup xss)"
  by (induction xss) auto

lemma markup_js_join: "markup (js_join sep xs) = js_join (markup sep) (map markup xs)"
  by (induction sep xs rule: js_join.induct) auto

lemma read_entity_escape:
  "escape_char c = [c] \<or> read_entity (escape_char c @ s) = Some (c, s)"
  by (auto simp: escape_char_def read_entity_def)

lemma read_entity_plain: "escape_char c = [c] \<Longrightarrow> read_entity (c # s) = None"
  by (auto simp: escape_char_def read_entity_def split: if_splits)

lemma escape_char_length: "0 < length (escape_char c)"
  by (simp add: escape_char_def)

lemma unescape_fuel_escape:
  "length (escape_text s) \<le> n \<Longrightarrow> unescape_fuel n (escape_text s) = s"
proof (induction s arbitrary: n)
  case Nil
  then show ?case by (cases n) auto
next
  case (Cons c s)
  obtain d w where dw: "escape_char c @ escape_text s = d # w"
    using escape_char_length [of c] by (cases "escape_char c") auto
  obtain m where m: "n = Suc m" "length (escape_text s) \<le> m"
  proof (cases n)
    case (Suc m)
    with Cons.prems escape_char_length [of c] that show ?thesis
      by (simp only: escape_text_Cons length_append)
  next
    case 0
    with Cons.prems escape_char_length [of c] show ?thesis by (simp add: escape_text_Cons)
  qed
  show ?case
  proof (cases "escape_char c = [c]")
    case True
    then show ?thesis
      using Cons.IH [OF m(2)] m(1) by (simp add: escape_text_Cons read_entity_plain)
  next
    case False
    then have "read_entity (d # w) = Some (c, escape_text s)"
      using read_entity_escape [of c "escape_text s"] dw by simp
    then show ?thesis
      using Cons.IH [OF m(2)] m(1) dw by (simp add: escape_text_Cons)
  qed
qed

text \<open>
  C40. Escaping loses nothing: an HTML reader that decodes the five entities gets back exactly the
  value's text, whatever it contains (including text that already looks like an entity).
\<close>

theorem escapeHtml_round_trip: "unescape (escapeHtml v) = to_str (jcoalesce v (Str []))"
  by (simp add: escapeHtml_def unescape_def unescape_fuel_escape)

section \<open>Icons\<close>

definition icon_table :: "(string \<times> string) list" where
  "icon_table = [
    (''info'', (''<circle cx=\"12\" cy=\"12\" r=\"9\"></circle><path d=\"M12 10v6\"></path><path'' @
       '' d=\"M12 7.5h.01\"></path>'')),
    (''x'', (''<path d=\"M6 6l12 12\"></path><path d=\"M18 6L6 18\"></path>'')),
    (''power'', (''<path d=\"M12 3v8\"></path><path d=\"M17.7 6.3a8 8 0 1 1-11.4 0\"></path>'')),
    (''power-off'', (''<path d=\"M12 3v4\"></path><path d=\"M6.3 6.3a8 8 0 0 0 11.4'' @
       '' 11.4\"></path><path d=\"M18.7 13.8a8 8 0 0 0-2.4-7.5\"></path><path d=\"M4'' @
       '' 4l16 16\"></path>'')),
    (''rotate'', (''<path d=\"M20 11a8 8 0 1 0-2.3 5.7\"></path><path d=\"M20 4v7h-7\"></path>'')),
    (''rotate-reset'', (''<g transform=\"scale(.0234375)\"><path fill=\"currentColor\" d=\"M895.701333'' @
       '' 391.424h-172.629333a39.850667 39.850667 0 1 1 0-79.701333h69.333333a344.490667'' @
       '' 344.490667 0 0 0-281.813333-146.048 345.258667 345.258667 0 1 0 345.301333'' @
       '' 345.258666 39.850667 39.850667 0 1 1 79.658667 0c0 234.666667-190.293333'' @
       '' 424.96-424.96 424.96-234.666667 0-424.96-190.293333-424.96-424.96 0-234.666667'' @
       '' 190.293333-424.96 424.96-424.96a423.765333 423.765333 0 0 1 345.301333'' @
       '' 177.834667V192.213333a39.850667 39.850667 0 1 1 79.658667'' @
       '' 0V351.573333a39.850667 39.850667 0 0 1-39.850667 39.850667z\"></path></g>'')),
    (''trash'', (''<path d=\"M4 7h16\"></path><path d=\"M10 11v6\"></path><path d=\"M14'' @
       '' 11v6\"></path><path d=\"M6 7l1 14h10l1-14\"></path><path d=\"M9'' @
       '' 7V4h6v3\"></path>'')),
    (''check'', (''<path d=\"M5 12l4 4L19 6\"></path>'')),
    (''check-circle'', (''<circle cx=\"12\" cy=\"12\" r=\"10\"></circle><path d=\"m9 12 2 2 4-4\"></path>'')),
    (''key'', (''<circle cx=\"7.5\" cy=\"12.5\" r=\"3.5\"></circle><path d=\"M11'' @
       '' 12.5h9\"></path><path d=\"M16 12.5v3\"></path><path d=\"M19 12.5v2\"></path>'')),
    (''key-round'', (''<path d=\"M2.586 17.414A2 2 0 0 0 2 18.828V21a1 1 0 0 0 1 1h3a1 1 0 0 0'' @
       '' 1-1v-1a1 1 0 0 1 1-1h1a1 1 0 0 0 1-1v-1a1 1 0 0 1 1-1h.172a2 2 0 0 0'' @
       '' 1.414-.586l.814-.814a6.5 6.5 0 1 0-4-4z\"></path><circle cx=\"16.5\"'' @
       '' cy=\"7.5\" r=\".5\" fill=\"currentColor\"></circle>'')),
    (''activity'', (''<path d=\"M3 12h4l3-7 4 14 3-7h4\"></path>'')),
    (''radar'', (''<path d=\"M12 12l6-6\"></path><circle cx=\"12\" cy=\"12\"'' @
       '' r=\"2\"></circle><path d=\"M20 12a8 8 0 1 1-2.3-5.7\"></path><path d=\"M16.2'' @
       '' 8.2a6 6 0 1 1-8.4 0\"></path>'')),
    (''alert'', (''<path d=\"M12 3 2.8 20h18.4L12 3z\"></path><path d=\"M12 9v5\"></path><path'' @
       '' d=\"M12 17h.01\"></path>'')),
    (''gauge'', (''<path d=\"M4 14a8 8 0 1 1 16 0\"></path><path d=\"M12 14l4-4\"></path><path'' @
       '' d=\"M7 14h.01\"></path><path d=\"M17 14h.01\"></path>'')),
    (''layers'', (''<path d=\"M12.83 2.18a2 2 0 0 0-1.66 0L2.6 6.08a1 1 0 0 0 0 1.83l8.58 3.91a2 2'' @
       '' 0 0 0 1.66 0l8.58-3.9a1 1 0 0 0 0-1.83z\"></path><path d=\"M2 12a1 1 0 0 0'' @
       '' .58.91l8.6 3.91a2 2 0 0 0 1.65 0l8.58-3.9A1 1 0 0 0 22 12\"></path><path'' @
       '' d=\"M2 17a1 1 0 0 0 .58.91l8.6 3.91a2 2 0 0 0 1.65 0l8.58-3.9A1 1 0 0 0 22'' @
       '' 17\"></path>'')),
    (''server'', (''<rect width=\"20\" height=\"8\" x=\"2\" y=\"2\" rx=\"2\" ry=\"2\"></rect><rect'' @
       '' width=\"20\" height=\"8\" x=\"2\" y=\"14\" rx=\"2\" ry=\"2\"></rect><line'' @
       '' x1=\"6\" x2=\"6.01\" y1=\"6\" y2=\"6\"></line><line x1=\"6\" x2=\"6.01\"'' @
       '' y1=\"18\" y2=\"18\"></line>'')),
    (''arrow-left'', (''<path d=\"M19 12H5\"></path><path d=\"M12 19l-7-7 7-7\"></path>'')),
    (''arrow-right'', (''<path d=\"M5 12h14\"></path><path d=\"M12 5l7 7-7 7\"></path>'')),
    (''arrow-up'', (''<path d=\"M12 19V5\"></path><path d=\"M5 12l7-7 7 7\"></path>'')),
    (''arrow-down'', (''<path d=\"M12 5v14\"></path><path d=\"M19 12l-7 7-7-7\"></path>'')),
    (''arrow-up-right'', (''<path d=\"M7 17 17 7\"></path><path d=\"M9 7h8v8\"></path>'')),
    (''arrow-right-left'', (''<path d=\"M8 3 4 7l4 4\"></path><path d=\"M4 7h16\"></path><path d=\"m16 21'' @
       '' 4-4-4-4\"></path><path d=\"M20 17H4\"></path>'')),
    (''git-branch'', (''<line x1=\"6\" x2=\"6\" y1=\"3\" y2=\"15\"></line><circle cx=\"18\" cy=\"6\"'' @
       '' r=\"3\"></circle><circle cx=\"6\" cy=\"18\" r=\"3\"></circle><path d=\"M18 9a9'' @
       '' 9 0 0 1-9 9\"></path>'')),
    (''boxes'', (''<path d=\"M4 7l8-4 8 4-8 4-8-4z\"></path><path d=\"M4 7v10l8 4'' @
       '' 8-4V7\"></path><path d=\"M12 11v10\"></path>'')),
    (''chevron-right'', (''<path d=\"M9 18l6-6-6-6\"></path>'')),
    (''clock'', (''<circle cx=\"12\" cy=\"12\" r=\"9\"></circle><path d=\"M12 7v5l3 2\"></path>'')),
    (''dollar'', (''<circle cx=\"12\" cy=\"12\" r=\"9\"></circle><path d=\"M16'' @
       '' 8.5c-.8-1-2-1.5-3.5-1.5-2 0-3.5 1-3.5 2.5s1.2 2.2 3.5 2.7 3.5 1.2 3.5 2.8-1.5'' @
       '' 2.5-3.7 2.5c-1.7 0-3-.6-3.8-1.7\"></path><path d=\"M12 5v14\"></path>'')),
    (''filter'', (''<path d=\"M4 5h16l-6 7v5l-4 2v-7L4 5z\"></path>'')),
    (''pencil'', (''<path d=\"M4 20h4l10.5-10.5a2.8 2.8 0 0 0-4-4L4 16v4z\"></path><path d=\"M13.5'' @
       '' 6.5l4 4\"></path>'')),
    (''search'', (''<circle cx=\"11\" cy=\"11\" r=\"7\"></circle><path d=\"M20 20l-4-4\"></path>'')),
    (''eye'', (''<path d=\"M2.5 12s3.5-6 9.5-6 9.5 6 9.5 6-3.5 6-9.5'' @
       '' 6-9.5-6-9.5-6z\"></path><circle cx=\"12\" cy=\"12\" r=\"3\"></circle>'')),
    (''copy'', (''<rect width=\"14\" height=\"14\" x=\"8\" y=\"8\" rx=\"2\"></rect><path d=\"M4'' @
       '' 16c-1.1 0-2-.9-2-2V4c0-1.1.9-2 2-2h10c1.1 0 2 .9 2 2\"></path>'')),
    (''eye-off'', (''<path d=\"M3 3l18 18\"></path><path d=\"M10.6 10.6A3 3 0 0 0 13.4'' @
       '' 13.4\"></path><path d=\"M7.4 7.4C4.3 9 2.5 12 2.5 12s3.5 6 9.5 6c1.5 0 2.8-.4'' @
       '' 4-1\"></path><path d=\"M10 6.2A10.6 10.6 0 0 1 12 6c6 0 9.5 6 9.5 6a16 16 0 0'' @
       '' 1-2.6 3.2\"></path>'')),
    (''save'', (''<path d=\"M5 3h12l2 2v16H5z\"></path><path d=\"M8 3v6h8V3\"></path><path d=\"M8'' @
       '' 21v-7h8v7\"></path>'')),
    (''undo'', (''<path d=\"M9 7H4v5\"></path><path d=\"M4 12a8 8 0 1 0 2.3-5.7L4 7\"></path>'')),
    (''rotate-ccw'', (''<path d=\"M3 12a9 9 0 1 0 9-9 9.75 9.75 0 0 0-6.74 2.74L3 8\"></path><path'' @
       '' d=\"M3 3v5h5\"></path>'')),
    (''plus'', (''<path d=\"M12 5v14\"></path><path d=\"M5 12h14\"></path>'')),
    (''settings'', (''<path d=\"M12.22 2h-.44a2 2 0 0 0-2 2v.18a2 2 0 0 1-1 1.73l-.43.25a2 2 0 0 1-2'' @
       '' 0l-.15-.08a2 2 0 0 0-2.73.73l-.22.38a2 2 0 0 0 .73 2.73l.15.1a2 2 0 0 1 1'' @
       '' 1.72v.51a2 2 0 0 1-1 1.74l-.15.09a2 2 0 0 0-.73 2.73l.22.38a2 2 0 0 0'' @
       '' 2.73.73l.15-.08a2 2 0 0 1 2 0l.43.25a2 2 0 0 1 1 1.73V20a2 2 0 0 0 2 2h.44a2 2'' @
       '' 0 0 0 2-2v-.18a2 2 0 0 1 1-1.73l.43-.25a2 2 0 0 1 2 0l.15.08a2 2 0 0 0'' @
       '' 2.73-.73l.22-.39a2 2 0 0 0-.73-2.73l-.15-.08a2 2 0 0 1-1-1.74v-.5a2 2 0 0 1'' @
       '' 1-1.74l.15-.09a2 2 0 0 0 .73-2.73l-.22-.38a2 2 0 0 0-2.73-.73l-.15.08a2 2 0 0'' @
       '' 1-2 0l-.43-.25a2 2 0 0 1-1-1.73V4a2 2 0 0 0-2-2z\"></path><circle cx=\"12\"'' @
       '' cy=\"12\" r=\"3\"></circle>'')),
    (''dot'', (''<circle cx=\"12\" cy=\"12\" r=\"2\"></circle>'')),
    (''bolt'', (''<path d=\"M13 2 4 14h6l-1 8 9-12h-6l1-8z\"></path>'')),
    (''zap'', (''<path d=\"M4 14a1 1 0 0 1-.78-1.63l9.9-10.2a.5.5 0 0 1 .86.46l-1.92 6.02A1 1 0'' @
       '' 0 0 13 10h7a1 1 0 0 1 .78 1.63l-9.9 10.2a.5.5 0 0 1-.86-.46l1.92-6.02A1 1 0 0'' @
       '' 0 11 14z\"></path>'')),
    (''message'', (''<path d=\"M5 19l3-3h9a3 3 0 0 0 3-3V7a3 3 0 0 0-3-3H7a3 3 0 0 0-3 3v6a3 3 0 0 0'' @
       '' 3 3\"></path><path d=\"M8 9h8\"></path><path d=\"M8 12h5\"></path>'')),
    (''shield'', (''<path d=\"M12 2 4 5v6c0 5 3.5 9 8 11 4.5-2 8-6 8-11V5l-8-3z\"></path>'')),
    (''grid'', (''<rect x=\"3\" y=\"3\" width=\"7.5\" height=\"7.5\" rx=\"1.6\"></rect><rect'' @
       '' x=\"13.5\" y=\"3\" width=\"7.5\" height=\"7.5\" rx=\"1.6\"></rect><rect'' @
       '' x=\"3\" y=\"13.5\" width=\"7.5\" height=\"7.5\" rx=\"1.6\"></rect><rect'' @
       '' x=\"13.5\" y=\"13.5\" width=\"7.5\" height=\"7.5\" rx=\"1.6\"></rect>'')),
    (''list'', (''<path d=\"M8 6h13\"></path><path d=\"M8 12h13\"></path><path d=\"M8'' @
       '' 18h13\"></path><path d=\"M3.5 6h.01\"></path><path d=\"M3.5'' @
       '' 12h.01\"></path><path d=\"M3.5 18h.01\"></path>'')),
    (''brain'', (''<path d=\"M9.5 4.5A3 3 0 0 0 4 6v1.2A3 3 0 0 0 3 12a3 3 0 0 0 1.5 4.8V18a3 3 0'' @
       '' 0 0 5.5 1.6V4.8\"></path><path d=\"M14.5 4.5A3 3 0 0 1 20 6v1.2a3 3 0 0 1 1'' @
       '' 4.8 3 3 0 0 1-1.5 4.8V18a3 3 0 0 1-5.5 1.6V4.8\"></path><path d=\"M8 9h2M14'' @
       '' 9h2M8 15h2M14 15h2\"></path>''))]"

definition dot_icon :: string where
  "dot_icon = (''<circle cx=\"12\" cy=\"12\" r=\"2\"></circle>'')"

text \<open>\<open>icons[name] || icons.dot\<close>.\<close>

definition iconSvg :: "string \<Rightarrow> string" where
  "iconSvg name =
     (''<svg class=\"icon-svg\" viewBox=\"0 0 24 24\" aria-hidden=\"true\"'' @
        '' focusable=\"false\">'' @
        (case map_of icon_table name of Some body \<Rightarrow> body | None \<Rightarrow> dot_icon) @
        ''</svg>'')"

definition refreshSpinner :: string where
  "refreshSpinner = (''<span class=\"refresh-spinner\" aria-hidden=\"true\">'' @ iconSvg ''rotate'' @ ''</span>'')"

text \<open>\<open>actionIcon\<close>: the first matching word of the label picks the icon.\<close>

definition actionIcon :: "string \<Rightarrow> string" where
  "actionIcon label =
     (let t = js_lower label in
      if js_includes ''delete'' t then ''trash''
      else if js_includes ''disable'' t then ''power-off''
      else if js_includes ''enable'' t then ''power''
      else if js_includes ''clear'' t then ''rotate''
      else if js_includes ''refresh'' t then ''rotate''
      else if js_includes ''edit'' t then ''pencil''
      else if js_includes ''config'' t then ''settings''
      else if js_includes ''save'' t then ''check''
      else if js_includes ''detail'' t then ''info''
      else ''dot'')"

definition actionButton :: "string \<Rightarrow> string \<Rightarrow> string \<Rightarrow> bool \<Rightarrow> string" where
  "actionButton label path tone iconOnly =
     (let classes = (''button '' @ (if tone = [] then ''secondary'' else tone) @
        (if iconOnly then '' icon-action'' else []));
          content = (if iconOnly then iconSvg (actionIcon label) else esc label)
      in (''<button class=\"'' @ classes @ ''\" type=\"button\" data-action-path=\"'' @ esc path @
         ''\" title=\"'' @ esc label @ ''\" aria-label=\"'' @ esc label @ ''\">'' @ content @
         ''</button>''))"

end
