(* ===== verification/BrandIcons.thy ===== *)
theory BrandIcons
  imports Html
begin

text \<open>
  \<open>model-brand-icons.js\<close>: the brand of a model or provider name, by the first matching rule, and
  the image element for it. A regular expression of the source is a predicate on the lower-cased
  name (every rule has the \<open>i\<close> flag). The one alternative written in Chinese characters cannot match
  the Latin-1 names of this development and is left out.
\<close>

section \<open>Pattern pieces\<close>

text \<open>Some position of the text satisfies \<open>P previous rest\<close>.\<close>

fun any_at :: "(char option \<Rightarrow> string \<Rightarrow> bool) \<Rightarrow> char option \<Rightarrow> string \<Rightarrow> bool" where
  "any_at P prev [] = P prev []"
| "any_at P prev (c # cs) = (P prev (c # cs) \<or> any_at P (Some c) cs)"

definition word_char :: "char \<Rightarrow> bool" where
  "word_char c \<longleftrightarrow> (let n = code_unit c in
     (48 \<le> n \<and> n \<le> 57) \<or> (65 \<le> n \<and> n \<le> 90) \<or> (97 \<le> n \<and> n \<le> 122) \<or> n = 95)"

definition is_word :: "char option \<Rightarrow> bool" where
  "is_word prev \<longleftrightarrow> (case prev of None \<Rightarrow> False | Some c \<Rightarrow> word_char c)"

definition next_word :: "string \<Rightarrow> bool" where
  "next_word s \<longleftrightarrow> (case s of [] \<Rightarrow> False | c # _ \<Rightarrow> word_char c)"

text \<open>\<open>\\b\<close> before the rest \<open>s\<close>.\<close>

definition boundary :: "char option \<Rightarrow> string \<Rightarrow> bool" where
  "boundary prev s \<longleftrightarrow> is_word prev \<noteq> next_word s"

definition one_of :: "string list \<Rightarrow> string \<Rightarrow> bool" where
  "one_of words s \<longleftrightarrow> (\<exists>w \<in> set words. js_includes w s)"

text \<open>\<open>/\\b(w1|w2|...)/\<close> and \<open>/\\b(w1|w2|...)\\b/\<close>.\<close>

definition word_start :: "string list \<Rightarrow> string \<Rightarrow> bool" where
  "word_start words s \<longleftrightarrow>
     any_at (\<lambda>p r. boundary p r \<and> (\<exists>w \<in> set words. starts_with w r)) None s"

definition last_or :: "string \<Rightarrow> char option" where
  "last_or w = (if w = [] then None else Some (last w))"

definition whole_word :: "string list \<Rightarrow> string \<Rightarrow> bool" where
  "whole_word words s \<longleftrightarrow>
     any_at (\<lambda>p r. boundary p r
       \<and> (\<exists>w \<in> set words. starts_with w r \<and> boundary (last_or w) (drop (length w) r))) None s"

text \<open>\<open>/(^|[-_/])gpt[-_]/\<close>.\<close>

definition gpt_name :: "string \<Rightarrow> bool" where
  "gpt_name s \<longleftrightarrow>
     any_at (\<lambda>p r. (p = None \<or> p \<in> {Some (CHR ''-''), Some (CHR ''_''), Some (CHR ''/'')})
       \<and> (starts_with ''gpt-'' r \<or> starts_with ''gpt_'' r)) None s"

section \<open>Models\<close>

definition MODEL_ICON_RULES :: "((string \<Rightarrow> bool) \<times> string) list" where
  "MODEL_ICON_RULES = [
     (one_of [''deepseek''], ''deepseek''),
     (word_start [''glm'', ''chatglm''], ''zai''),
     (\<lambda>s. gpt_name s \<or> whole_word [''o1'', ''o3'', ''o4'', ''codex''] s, ''openai''),
     (one_of [''claude'', ''anthropic''], ''claude''),
     (one_of [''gemini'', ''gemma''], ''gemini''),
     (one_of [''grok''], ''grok''),
     (one_of [''qwen'', ''qwq'', ''qvq'', ''tongyi''], ''qwen''),
     (one_of [''llama''], ''meta''),
     (one_of [''mistral'', ''mixtral'', ''codestral'', ''pixtral''], ''mistral''),
     (one_of [''minimax'', ''abab''], ''minimax''),
     (one_of [''kimi'', ''moonshot''], ''moonshot''),
     (\<lambda>s. one_of [''doubao''] s \<or> word_start [''ep-''] s, ''doubao''),
     (one_of [''hunyuan''], ''hunyuan''),
     (one_of [''sonar'', ''pplx'', ''perplexity''], ''perplexity''),
     (one_of [''command'', ''cohere''], ''cohere''),
     (one_of [''jina''], ''jina''),
     (one_of [''baichuan''], ''baichuan''),
     (one_of [''ernie'', ''wenxin''], ''wenxin''),
     (one_of [''internlm'', ''internvl''], ''internlm''),
     (one_of [''seed-'', ''bytedance''], ''bytedance''),
     (one_of [''nova-''], ''nova''),
     (one_of [''mimo-''], ''xiaomimimo'')]"

definition COLOR_ICON_SLUGS :: "string list" where
  "COLOR_ICON_SLUGS = [''deepseek'', ''claude'', ''gemini'', ''qwen'', ''meta'', ''mistral'', ''minimax'',
     ''doubao'', ''hunyuan'', ''perplexity'', ''cohere'', ''baichuan'', ''wenxin'', ''internlm'',
     ''bytedance'', ''nova'']"

definition iconSrc :: "string \<Rightarrow> string \<Rightarrow> string" where
  "iconSrc slug type = ''/-/icons/'' @ slug @ ''.svg?type='' @ type"

text \<open>\<open>RULES.find(([pattern]) => pattern.test(value))?.[1] || ""\<close>.\<close>

definition first_rule :: "((string \<Rightarrow> bool) \<times> string) list \<Rightarrow> string \<Rightarrow> string" where
  "first_rule rules v =
     (case find (\<lambda>(p, slug). p (js_lower v)) rules of None \<Rightarrow> [] | Some (p, slug) \<Rightarrow> slug)"

definition modelBrandSlug :: "jsval \<Rightarrow> string" where
  "modelBrandSlug model =
     (let v = trimmed model in if v = [] then [] else first_rule MODEL_ICON_RULES v)"

definition modelBrandIconMarkup :: "jsval \<Rightarrow> string \<Rightarrow> string" where
  "modelBrandIconMarkup model fallback =
     (let slug = modelBrandSlug model in
      if slug = [] then (''<span class=\"model-brand-mark is-fallback\" aria-hidden=\"true\">'' @ fallback @
         ''</span>'')
      else (let type = (if slug \<in> set COLOR_ICON_SLUGS then ''color'' else ''mono''); src = iconSrc slug type
        in (''<span class=\"model-brand-mark\" aria-hidden=\"true\"><img'' @
           '' class=\"model-brand-icon\" src=\"'' @ src @
           ''\" alt=\"\" loading=\"lazy\" decoding=\"async\" /><span'' @
           '' class=\"model-brand-fallback\">'' @ fallback @ ''</span></span>'')))"

section \<open>Providers\<close>

definition PROVIDER_ICON_ALIASES :: "(string \<times> string) list" where
  "PROVIDER_ICON_ALIASES = [(''openai'', ''openai''), (''anthropic'', ''anthropic''),
     (''claude'', ''anthropic''), (''deepseek'', ''deepseek''), (''google'', ''google''),
     (''gemini'', ''google''), (''groq'', ''groq''), (''nvidia'', ''nvidia''),
     (''openrouter'', ''openrouter''), (''modelscope'', ''modelscope''), (''mistral'', ''mistral''),
     (''moonshot'', ''moonshot''), (''zhipu'', ''zai''), (''bigmodel'', ''zai''), (''zai'', ''zai''),
     (''qwen'', ''qwen''), (''together'', ''together''), (''perplexity'', ''perplexity''),
     (''cohere'', ''cohere''), (''ollama'', ''ollama''), (''opencode'', ''opencode''),
     (''siliconflow'', ''siliconcloud''), (''siliconcloud'', ''siliconcloud''), (''grok'', ''grok''),
     (''xai'', ''xai'')]"

text \<open>\<open>/^xai\\b/\<close>: the word must end there.\<close>

definition xai_name :: "string \<Rightarrow> bool" where
  "xai_name s \<longleftrightarrow> starts_with ''xai'' s \<and> boundary (Some (CHR ''i'')) (drop 3 s)"

definition PROVIDER_ICON_RULES :: "((string \<Rightarrow> bool) \<times> string) list" where
  "PROVIDER_ICON_RULES = [
     (starts_with ''ollama'', ''ollama''),
     (starts_with ''opencode'', ''opencode''),
     (\<lambda>s. starts_with ''grok'' s \<or> xai_name s, ''grok''),
     (one_of [''siliconflow'', ''siliconcloud''], ''siliconcloud'')]"

text \<open>\<open>replace(/[._\\s]+/g, "-")\<close>: every run of separators becomes one dash.\<close>

definition is_name_sep :: "char \<Rightarrow> bool" where
  "is_name_sep c \<longleftrightarrow> c = CHR ''.'' \<or> c = CHR ''_'' \<or> is_js_space c"

fun dash_runs :: "bool \<Rightarrow> string \<Rightarrow> string" where
  "dash_runs inrun [] = []"
| "dash_runs inrun (c # cs) =
     (if is_name_sep c then (if inrun then dash_runs True cs else CHR ''-'' # dash_runs True cs)
      else c # dash_runs False cs)"

definition providerBrandSlug :: "jsval \<Rightarrow> string" where
  "providerBrandSlug provider =
     (let v = trimmed provider in
      if v = [] then [] else
      (let normalized = dash_runs False (js_lower v) in
       case map_of PROVIDER_ICON_ALIASES normalized of Some slug \<Rightarrow> slug
       | None \<Rightarrow>
          (let namespace = takeWhile (\<lambda>c. c \<noteq> CHR ''/'' \<and> c \<noteq> CHR '':'') normalized in
           case map_of PROVIDER_ICON_ALIASES namespace of Some slug \<Rightarrow> slug
           | None \<Rightarrow> first_rule PROVIDER_ICON_RULES v)))"

definition providerBrandIconMarkup :: "jsval \<Rightarrow> string \<Rightarrow> string" where
  "providerBrandIconMarkup provider fallback =
     (let slug = providerBrandSlug provider in
      if slug = [] then (''<span class=\"model-brand-mark provider-brand-mark is-fallback\"'' @
         '' aria-hidden=\"true\">'' @ fallback @ ''</span>'')
      else (let type = (if slug \<in> set COLOR_ICON_SLUGS
                          \<or> slug \<in> set [''google'', ''nvidia'', ''openrouter'', ''modelscope'', ''together'']
                        then ''color'' else ''mono'');
                src = iconSrc slug type
        in (''<span class=\"model-brand-mark provider-brand-mark\" aria-hidden=\"true\"><img'' @
           '' class=\"model-brand-icon\" src=\"'' @ src @
           ''\" alt=\"\" loading=\"lazy\" decoding=\"async\" /><span'' @
           '' class=\"model-brand-fallback\">'' @ fallback @ ''</span></span>'')))"

section \<open>The slugs are constants of the program\<close>

text \<open>
  The comment at the top of the file: a slug goes into a URL without escaping because it always
  comes from the tables.
\<close>

definition slug_ok :: "string \<Rightarrow> bool" where
  "slug_ok s \<longleftrightarrow> list_all (\<lambda>c. 97 \<le> code_unit c \<and> code_unit c \<le> 122) s"

lemma first_rule_slug:
  assumes "list_all (\<lambda>r. slug_ok (snd r)) rules"
  shows "slug_ok (first_rule rules v)"
proof (cases "find (\<lambda>(p, slug). p (js_lower v)) rules")
  case None
  then show ?thesis by (simp add: first_rule_def slug_ok_def)
next
  case (Some r)
  then have "r \<in> set rules" using find_Some_in by fastforce
  with assms Some show ?thesis by (cases r) (auto simp: first_rule_def list_all_iff)
qed

lemma rules_slugs:
  "list_all slug_ok (map snd MODEL_ICON_RULES)" "list_all slug_ok (map snd PROVIDER_ICON_RULES)"
  "list_all slug_ok (map snd PROVIDER_ICON_ALIASES)"
  by code_simp+

lemma alias_slug: "map_of PROVIDER_ICON_ALIASES k = Some slug \<Longrightarrow> slug_ok slug"
  using rules_slugs(3) by (fastforce simp: list_all_iff dest: map_of_SomeD)

text \<open>
  No injection through brand icons (the claim in the file's header comment): whatever the model
  or provider name, the slug that is put unescaped into the icon URL consists of lower-case letters.
\<close>

lemma brand_slugs_are_safe: "slug_ok (modelBrandSlug m) \<and> slug_ok (providerBrandSlug p)"
proof
  show "slug_ok (modelBrandSlug m)"
    using rules_slugs(1)
    by (auto simp: modelBrandSlug_def Let_def slug_ok_def [of "[]"] list_all_iff intro!: first_rule_slug)
  have "slug_ok (first_rule PROVIDER_ICON_RULES v)" for v
    by (rule first_rule_slug) (use rules_slugs(2) in \<open>auto simp: list_all_iff\<close>)
  then show "slug_ok (providerBrandSlug p)"
    by (auto simp: providerBrandSlug_def Let_def slug_ok_def [of "[]"] dest: alias_slug
        split: option.split)
qed

end
