(* ===== verification/MutationUi.thy ===== *)
theory MutationUi
  imports JsFacts
begin

text \<open>
  \<open>mutation-ui.mjs\<close>: while a mutation runs, the controls below its root are disabled and put back when it
  ends. An element is a number; what the functions read of the page (which controls a root holds, which
  element a locator finds now) is part of the state and may change between two calls.
\<close>

section \<open>State\<close>

record busy_ui =
  bu_busy :: "nat set"
  bu_disabled :: "nat \<Rightarrow> bool"
  bu_saved :: "nat \<rightharpoonup> bool"
  bu_controls :: "nat \<Rightarrow> nat set"
  bu_connected :: "nat set"
  bu_locate :: "nat \<Rightarrow> nat option"
  bu_locators :: "nat list"
  bu_handles :: "nat \<rightharpoonup> nat"
  bu_next :: nat

definition liveElementLocator :: "nat option \<Rightarrow> nat option \<Rightarrow> busy_ui \<Rightarrow> nat option" where
  "liveElementLocator initial current s =
     (case initial of Some e \<Rightarrow> if e \<in> bu_connected s then Some e else current | None \<Rightarrow> current)"

section \<open>The setter\<close>

text \<open>\<open>bu_controls r\<close> are the controls below \<open>r\<close>, with \<open>r\<close> itself when it is one.\<close>

definition disable_controls :: "nat set \<Rightarrow> busy_ui \<Rightarrow> busy_ui" where
  "disable_controls cs s =
     s\<lparr>bu_saved := (\<lambda>c. if c \<in> cs \<and> bu_saved s c = None then Some (bu_disabled s c) else bu_saved s c),
       bu_disabled := (\<lambda>c. c \<in> cs \<or> bu_disabled s c)\<rparr>"

definition restore_controls :: "nat set \<Rightarrow> busy_ui \<Rightarrow> busy_ui" where
  "restore_controls cs s =
     s\<lparr>bu_saved := (\<lambda>c. if c \<in> cs then None else bu_saved s c),
       bu_disabled := (\<lambda>c. if c \<in> cs then (case bu_saved s c of Some d \<Rightarrow> d | None \<Rightarrow> bu_disabled s c)
                          else bu_disabled s c)\<rparr>"

definition setMutationBusy :: "nat option \<Rightarrow> bool \<Rightarrow> busy_ui \<Rightarrow> busy_ui" where
  "setMutationBusy target busy s =
     (case target of None \<Rightarrow> s
      | Some r \<Rightarrow>
          (if busy then disable_controls (bu_controls s r) (s\<lparr>bu_busy := insert r (bu_busy s)\<rparr>)
           else restore_controls (bu_controls s r) (s\<lparr>bu_busy := bu_busy s - {r}\<rparr>)))"

section \<open>The tracker\<close>

text \<open>
  \<open>start\<close> with a locator. The finisher it returns is a handle; a handle that is no longer active does
  nothing.
\<close>

definition busy_start :: "nat \<Rightarrow> busy_ui \<Rightarrow> busy_ui \<times> nat" where
  "busy_start loc s =
     (let s1 = s\<lparr>bu_locators := (if loc \<in> set (bu_locators s) then bu_locators s else bu_locators s @ [loc])\<rparr>;
          s2 = setMutationBusy (bu_locate s1 loc) True s1
      in (s2\<lparr>bu_handles := (bu_handles s2)(bu_next s2 \<mapsto> loc), bu_next := Suc (bu_next s2)\<rparr>, bu_next s2))"

text \<open>A locator that is not a function starts nothing, and its finisher does nothing.\<close>

definition tracker_start :: "nat option \<Rightarrow> busy_ui \<Rightarrow> busy_ui \<times> nat option" where
  "tracker_start locator s =
     (case locator of None \<Rightarrow> (s, None) | Some loc \<Rightarrow> map_prod id Some (busy_start loc s))"

definition busy_finish :: "nat \<Rightarrow> busy_ui \<Rightarrow> busy_ui" where
  "busy_finish h s =
     (case bu_handles s h of None \<Rightarrow> s
      | Some loc \<Rightarrow>
          (let s1 = s\<lparr>bu_handles := (bu_handles s)(h := None), bu_locators := removeAll loc (bu_locators s)\<rparr>
           in setMutationBusy (bu_locate s1 loc) False s1))"

definition busy_refresh :: "busy_ui \<Rightarrow> busy_ui" where
  "busy_refresh s = fold (\<lambda>loc s. setMutationBusy (bu_locate s loc) True s) (bu_locators s) s"

section \<open>Facts\<close>

lemma set_busy_page [simp]:
  "bu_controls (setMutationBusy r b s) = bu_controls s" "bu_locate (setMutationBusy r b s) = bu_locate s"
  "bu_handles (setMutationBusy r b s) = bu_handles s" "bu_next (setMutationBusy r b s) = bu_next s"
  "bu_locators (setMutationBusy r b s) = bu_locators s"
  by (simp_all add: setMutationBusy_def disable_controls_def restore_controls_def split: option.split)

text \<open>No control of the root is remembered from an earlier mutation.\<close>

definition idle_root :: "nat \<Rightarrow> busy_ui \<Rightarrow> bool" where
  "idle_root r s \<longleftrightarrow> (\<forall>c \<in> bu_controls s r. bu_saved s c = None)"

text \<open>Making a busy root busy again changes nothing: the saved flags are not overwritten.\<close>

lemma busy_twice: "setMutationBusy r True (setMutationBusy r True s) = setMutationBusy r True s"
  by (auto simp: setMutationBusy_def disable_controls_def fun_eq_iff split: option.split)

lemma busy_disables:
  "c \<in> bu_controls s r \<Longrightarrow> bu_disabled (setMutationBusy (Some r) True s) c"
  by (simp add: setMutationBusy_def disable_controls_def)

lemma start_fields:
  assumes "bu_locate s loc = Some r" and "busy_start loc s = (s1, h)"
  shows "bu_disabled s1 = (\<lambda>c. c \<in> bu_controls s r \<or> bu_disabled s c)"
    and "bu_saved s1 = (\<lambda>c. if c \<in> bu_controls s r \<and> bu_saved s c = None then Some (bu_disabled s c) else bu_saved s c)"
    and "bu_controls s1 = bu_controls s" and "bu_locate s1 = bu_locate s"
    and "bu_handles s1 = (bu_handles s)(h \<mapsto> loc)" and "h = bu_next s" and "bu_next s1 = Suc (bu_next s)"
    and "loc \<in> set (bu_locators s1)"
  using assms by (auto simp: busy_start_def Let_def setMutationBusy_def disable_controls_def)

lemma finish_fields:
  assumes "bu_handles s h = Some loc" and "bu_locate s loc = Some r"
  shows "bu_disabled (busy_finish h s) = (\<lambda>c. if c \<in> bu_controls s r
      then (case bu_saved s c of Some d \<Rightarrow> d | None \<Rightarrow> bu_disabled s c) else bu_disabled s c)"
    and "bu_busy (busy_finish h s) = bu_busy s - {r}" and "bu_locators (busy_finish h s) = removeAll loc (bu_locators s)"
    and "bu_handles (busy_finish h s) = (bu_handles s)(h := None)"
  using assms by (simp_all add: busy_finish_def Let_def setMutationBusy_def restore_controls_def fun_eq_iff
      split: option.split)

text \<open>
  A mutation gives every control back as it found it: starting the busy state of a root and finishing it
  restores the disabled flag of each control (a control that was disabled before stays disabled), in
  between all of them are disabled, and calling the finisher a second time does nothing.
\<close>

lemma busy_restores:
  assumes "bu_locate s loc = Some r" and "idle_root r s" and "busy_start loc s = (s1, h)"
  shows "(\<forall>c \<in> bu_controls s r. bu_disabled s1 c) \<and> bu_disabled (busy_finish h s1) = bu_disabled s
    \<and> r \<notin> bu_busy (busy_finish h s1) \<and> busy_finish h (busy_finish h s1) = busy_finish h s1"
proof -
  note s1 = start_fields [OF assms(1,3)]
  have h: "bu_handles s1 h = Some loc" "bu_locate s1 loc = Some r" using s1(4,5) assms(1) by simp_all
  note fin = finish_fields [OF h]
  have "bu_disabled (busy_finish h s1) = bu_disabled s"
    using assms(2) by (auto simp: fin s1(1-3) idle_root_def fun_eq_iff)
  moreover have "busy_finish h (busy_finish h s1) = busy_finish h s1"
    by (simp add: busy_finish_def [of h "busy_finish h s1"] fin(4))
  ultimately show ?thesis using s1(1) by (simp add: fin(2))
qed

definition sample_ui :: busy_ui where
  "sample_ui = \<lparr>bu_busy = {}, bu_disabled = (\<lambda>c. c = 3), bu_saved = Map.empty, bu_controls = (\<lambda>r. {2, 3}),
     bu_connected = {1}, bu_locate = (\<lambda>_. Some 1), bu_locators = [], bu_handles = Map.empty, bu_next = 0\<rparr>"

text \<open>
  Two mutations on the same root are not told apart: when a second one starts while the first is running
  and the first ends, every control of the root is as it was before both and the root is no longer
  marked busy, although the second mutation is still registered and running; only the next call of
  \<open>refresh\<close> disables the controls again.
\<close>

lemma overlapping_mutations_reenable:
  assumes "bu_locate s l1 = Some r" and "bu_locate s l2 = Some r" and "l1 \<noteq> l2" and "idle_root r s"
    and "busy_start l1 s = (s1, h1)" and "busy_start l2 s1 = (s2, h2)"
  shows "bu_disabled (busy_finish h1 s2) = bu_disabled s \<and> r \<notin> bu_busy (busy_finish h1 s2)
    \<and> l2 \<in> set (bu_locators (busy_finish h1 s2)) \<and> bu_handles (busy_finish h1 s2) h2 = Some l2"
proof -
  note s1 = start_fields [OF assms(1,5)]
  have "bu_locate s1 l2 = Some r" using assms(2) s1(4) by simp
  note s2 = start_fields [OF this assms(6)]
  have h: "bu_handles s2 h1 = Some l1" "bu_locate s2 l1 = Some r" "bu_handles s2 h2 = Some l2"
    using s1(4-7) s2(4-6) assms(1) by simp_all
  note fin = finish_fields [OF h(1,2)]
  have "bu_disabled (busy_finish h1 s2) = bu_disabled s"
    using assms(4) by (auto simp: fin s1(1-3) s2(1-3) idle_root_def fun_eq_iff)
  moreover have "h2 \<noteq> h1" using s1(6,7) s2(6) by simp
  ultimately show ?thesis using assms(3) s2(8) h(3) by (simp add: fin(2-4))
qed

text \<open>\<open>refresh\<close> disables the controls of every registered mutation.\<close>

lemma refresh_step_disabled:
  "bu_disabled s c \<Longrightarrow> bu_disabled (fold (\<lambda>loc s. setMutationBusy (bu_locate s loc) True s) ls s) c"
  by (induction ls arbitrary: s)
     (auto simp: setMutationBusy_def disable_controls_def split: option.split)

lemma refresh_disables:
  assumes "loc \<in> set (bu_locators s)" and "bu_locate s loc = Some r" and "c \<in> bu_controls s r"
  shows "bu_disabled (busy_refresh s) c"
proof -
  have "bu_disabled (fold (\<lambda>loc s. setMutationBusy (bu_locate s loc) True s) ls x) c"
    if "loc \<in> set ls" "bu_locate x = bu_locate s" "bu_controls x = bu_controls s" for ls x
    using that
  proof (induction ls arbitrary: x)
    case (Cons l ls)
    then show ?case
      using busy_disables [of c x r] assms by (cases "l = loc") (auto intro: refresh_step_disabled)
  qed simp
  then show ?thesis using assms(1) by (simp add: busy_refresh_def)
qed

end
