(* ===== verification/ApiClient.thy ===== *)
theory ApiClient
  imports JsFacts
begin

text \<open>
  \<open>api.js\<close>: the admin key in the URL, the requests, the reading of a reply, and the conditional cache of
  \<open>apiGet\<close>. A request is cut at \<open>await fetch\<close> into a start and a finish; the reply is what \<open>fetch\<close> resolves
  with. A rejected \<open>fetch\<close> rejects the call and touches nothing.
\<close>

section \<open>The admin key in the URL\<close>

definition uri_plain :: "char \<Rightarrow> bool" where
  "uri_plain c \<longleftrightarrow> (let n = code_unit c in
     (65 \<le> n \<and> n \<le> 90) \<or> (97 \<le> n \<and> n \<le> 122) \<or> (48 \<le> n \<and> n \<le> 57)
     \<or> n \<in> {45, 95, 46, 33, 126, 42, 39, 40, 41})"

definition hex_upper :: "int \<Rightarrow> char" where
  "hex_upper d = (if d < 10 then char_of (48 + d) else char_of (55 + d))"

definition percent_byte :: "int \<Rightarrow> string" where
  "percent_byte n = [CHR ''%'', hex_upper (n div 16), hex_upper (n mod 16)]"

text \<open>\<open>encodeURIComponent\<close>: the UTF-8 bytes of a character that is not unreserved, in percent notation.\<close>

definition encode_uri_char :: "char \<Rightarrow> string" where
  "encode_uri_char c =
     (let n = code_unit c in
      if uri_plain c then [c]
      else if n < 128 then percent_byte n
      else percent_byte (192 + n div 64) @ percent_byte (128 + n mod 64))"

definition encodeURIComponent :: "string \<Rightarrow> string" where
  "encodeURIComponent s = concat (map encode_uri_char s)"

definition adminQuery :: "string \<Rightarrow> string" where
  "adminQuery adminKey = (if adminKey \<noteq> [] then ''admin_key='' @ encodeURIComponent adminKey else [])"

definition withAdmin :: "string \<Rightarrow> string \<Rightarrow> string" where
  "withAdmin adminKey path =
     (let q = adminQuery adminKey in
      if q = [] then path
      else if js_includes ''?'' path then path @ ''&'' @ q else path @ ''?'' @ q)"

section \<open>Replies\<close>

text \<open>A reply: status, \<open>ETag\<close> header, and the parsed body (\<open>None\<close> when it is not JSON).\<close>

record http_reply =
  hr_status :: nat
  hr_etag :: "string option"
  hr_body :: "jsval option"

definition reply_ok :: "http_reply \<Rightarrow> bool" where
  "reply_ok r \<longleftrightarrow> 200 \<le> hr_status r \<and> hr_status r \<le> 299"

definition readJson :: "http_reply \<Rightarrow> jsval" where
  "readJson r = (case hr_body r of Some v \<Rightarrow> v | None \<Rightarrow> Obj [])"

definition errorMessage :: "jsval \<Rightarrow> nat \<Rightarrow> string" where
  "errorMessage data status =
     (let m = get (get data ''error'') ''message''
      in if truthy m then to_str m else ''HTTP '' @ nat_to_str (int status))"

definition read_reply :: "http_reply \<Rightarrow> string + jsval" where
  "read_reply r = (if reply_ok r then Inr (readJson r) else Inl (errorMessage (readJson r) (hr_status r)))"

section \<open>Requests\<close>

record http_request =
  rq_method :: string
  rq_url :: string
  rq_headers :: "(string \<times> string) list"
  rq_body :: "jsval option"

definition key_header :: "string \<Rightarrow> (string \<times> string) list" where
  "key_header adminKey = (if adminKey \<noteq> [] then [(''X-Admin-Key'', adminKey)] else [])"

type_synonym etag_cache = "string \<rightharpoonup> string \<times> jsval"

record get_flight =
  gf_url :: string
  gf_cached :: "(string \<times> jsval) option"
  gf_cache :: bool

definition apiGet_start :: "string \<Rightarrow> string \<Rightarrow> bool \<Rightarrow> etag_cache \<Rightarrow> get_flight \<times> http_request" where
  "apiGet_start adminKey path use_cache cache =
     (let url = withAdmin adminKey path;
          cached = (if use_cache then cache url else None);
          etag_header = (case cached of
              Some (e, d) \<Rightarrow> if e \<noteq> [] then [(''If-None-Match'', e)] else []
            | None \<Rightarrow> [])
      in (\<lparr>gf_url = url, gf_cached = cached, gf_cache = use_cache\<rparr>,
          \<lparr>rq_method = ''GET'', rq_url = url, rq_headers = key_header adminKey @ etag_header, rq_body = None\<rparr>))"

definition apiGet_finish :: "get_flight \<Rightarrow> http_reply \<Rightarrow> etag_cache \<Rightarrow> (string + jsval) \<times> etag_cache" where
  "apiGet_finish f r cache =
     (if hr_status r = 304 \<and> gf_cached f \<noteq> None then (Inr (snd (the (gf_cached f))), cache)
      else (case read_reply r of
          Inl err \<Rightarrow> (Inl err, cache)
        | Inr data \<Rightarrow>
            (Inr data,
             if gf_cache f then
               (case hr_etag r of
                  Some e \<Rightarrow> if e \<noteq> [] then cache(gf_url f \<mapsto> (e, data)) else cache
                | None \<Rightarrow> cache)
             else cache)))"

text \<open>\<open>apiPost\<close> and \<open>apiPatch\<close> send the body as JSON and read the reply.\<close>

definition send_json :: "string \<Rightarrow> string \<Rightarrow> string \<Rightarrow> jsval \<Rightarrow> http_request" where
  "send_json method adminKey path body =
     \<lparr>rq_method = method, rq_url = withAdmin adminKey path,
      rq_headers = (''Content-Type'', ''application/json'') # key_header adminKey,
      rq_body = Some (jor body (Obj []))\<rparr>"

definition apiPost :: "string \<Rightarrow> string \<Rightarrow> jsval \<Rightarrow> http_request" where
  "apiPost adminKey path body = send_json ''POST'' adminKey path body"

definition apiPatch :: "string \<Rightarrow> string \<Rightarrow> jsval \<Rightarrow> http_request" where
  "apiPatch adminKey path body = send_json ''PATCH'' adminKey path body"

section \<open>The key survives the URL\<close>

definition hex_digit_val :: "char \<Rightarrow> int" where
  "hex_digit_val c = (let n = code_unit c in if n < 65 then n - 48 else n - 55)"

text \<open>What a server does with a query value: percent notation to bytes, UTF-8 to characters.\<close>

fun percent_decode :: "string \<Rightarrow> int list" where
  "percent_decode (c # a # b # s) =
     (if c = CHR ''%'' then (16 * hex_digit_val a + hex_digit_val b) # percent_decode s
      else code_unit c # percent_decode (a # b # s))"
| "percent_decode (c # s) = code_unit c # percent_decode s"
| "percent_decode [] = []"

fun utf8_decode :: "int list \<Rightarrow> string" where
  "utf8_decode (x # y # s) =
     (if x < 128 then char_of x # utf8_decode (y # s)
      else char_of (64 * (x - 192) + (y - 128)) # utf8_decode s)"
| "utf8_decode [x] = [char_of x]"
| "utf8_decode [] = []"

lemma hex_digit_val_upper: "0 \<le> d \<Longrightarrow> d < 16 \<Longrightarrow> hex_digit_val (hex_upper d) = d"
  by (auto simp: hex_digit_val_def hex_upper_def code_unit_char_of Let_def)

lemma percent_decode_byte:
  assumes "0 \<le> n" and "n < 256"
  shows "percent_decode (percent_byte n @ s) = n # percent_decode s"
proof -
  have "hex_digit_val (hex_upper (n div 16)) = n div 16" "hex_digit_val (hex_upper (n mod 16)) = n mod 16"
    using assms by (auto intro: hex_digit_val_upper)
  then show ?thesis by (simp add: percent_byte_def)
qed

lemma percent_decode_plain:
  assumes "c \<noteq> CHR ''%''"
  shows "percent_decode (c # s) = code_unit c # percent_decode s"
proof (cases s)
  case (Cons a t)
  with assms show ?thesis by (cases t) auto
qed simp

lemma code_unit_range: "0 \<le> code_unit c" "code_unit c < 256"
  by (cases c; simp add: of_char_def horner_sum_simps del: of_char_Char)+

text \<open>The bytes of a character.\<close>

definition char_bytes :: "char \<Rightarrow> int list" where
  "char_bytes c = (let n = code_unit c in if n < 128 then [n] else [192 + n div 64, 128 + n mod 64])"

lemma encode_uri_bytes: "percent_decode (encode_uri_char c @ s) = char_bytes c @ percent_decode s"
proof (cases "uri_plain c")
  case True
  then have "c \<noteq> CHR ''%''" "code_unit c < 128" by (auto simp: uri_plain_def Let_def)
  with True show ?thesis by (simp add: encode_uri_char_def char_bytes_def percent_decode_plain Let_def)
next
  case False
  have r: "0 \<le> code_unit c" "code_unit c < 256" by (rule code_unit_range)+
  then have "code_unit c div 64 < 64" "code_unit c mod 64 < 128" "0 \<le> code_unit c div 64" by presburger+
  with False r show ?thesis
    by (simp add: encode_uri_char_def char_bytes_def percent_decode_byte Let_def)
qed

lemma utf8_bytes: "utf8_decode (char_bytes c @ s) = c # utf8_decode s"
proof (cases "code_unit c < 128")
  case True
  then show ?thesis by (cases s) (simp_all add: char_bytes_def)
next
  case False
  have "64 * (code_unit c div 64) + code_unit c mod 64 = code_unit c" by simp
  moreover have "0 \<le> code_unit c div 64" using code_unit_range [of c] by simp
  ultimately show ?thesis using False by (simp add: char_bytes_def Let_def)
qed

lemma decode_encode_uri: "utf8_decode (percent_decode (encodeURIComponent s)) = s"
  by (induction s) (simp_all add: encodeURIComponent_def encode_uri_bytes utf8_bytes)

definition query_separators :: "char set" where
  "query_separators = {CHR ''&'', CHR ''='', CHR ''?'', CHR ''#'', CHR ''+'', CHR '' ''}"

lemma hex_upper_plain: "0 \<le> d \<Longrightarrow> d < 16 \<Longrightarrow> uri_plain (hex_upper d)"
  by (auto simp: uri_plain_def hex_upper_def code_unit_char_of Let_def)

lemma plain_no_separator: "uri_plain c \<Longrightarrow> c \<notin> query_separators"
  by (auto simp: uri_plain_def query_separators_def Let_def)

lemma percent_byte_chars:
  "0 \<le> n \<Longrightarrow> n < 256 \<Longrightarrow> c \<in> set (percent_byte n) \<Longrightarrow> c = CHR ''%'' \<or> uri_plain c"
  by (auto simp: percent_byte_def intro: hex_upper_plain)

lemma encode_uri_chars: "c \<in> set (encodeURIComponent s) \<Longrightarrow> c = CHR ''%'' \<or> uri_plain c"
proof -
  assume "c \<in> set (encodeURIComponent s)"
  then obtain d where d: "c \<in> set (encode_uri_char d)" by (auto simp: encodeURIComponent_def)
  have r: "0 \<le> code_unit d" "code_unit d < 256" by (rule code_unit_range)+
  then have "code_unit d div 64 < 64" "code_unit d mod 64 < 128" "0 \<le> code_unit d div 64" by presburger+
  with d r show ?thesis
    by (auto simp: encode_uri_char_def Let_def split: if_splits dest: percent_byte_chars [rotated 2])
qed

lemma encode_uri_no_separator: "set (encodeURIComponent s) \<inter> query_separators = {}"
  using encode_uri_chars [of _ s] plain_no_separator by (auto simp: query_separators_def)

lemma js_includes_iff: "js_includes [c] s \<longleftrightarrow> c \<in> set s"
  by (induction s) auto

text \<open>
  The admin key reaches the server intact and stays one parameter: whatever characters it has, the URL of
  a request is the path, one separator that continues or opens the query, and \<open>admin_key=\<close> followed by a
  text that holds no query separator and decodes to exactly the key; without a key the path is untouched.
\<close>

lemma admin_key_intact:
  "\<exists>e. withAdmin key path =
       (if key = [] then path
        else path @ (if CHR ''?'' \<in> set path then ''&'' else ''?'') @ ''admin_key='' @ e)
     \<and> set e \<inter> query_separators = {} \<and> utf8_decode (percent_decode e) = key"
  using encode_uri_no_separator [of key] decode_encode_uri [of key]
  by (intro exI [of _ "encodeURIComponent key"]) (simp add: withAdmin_def adminQuery_def js_includes_iff Let_def)

section \<open>The conditional cache returns current data\<close>

text \<open>
  A server that honours \<open>If-None-Match\<close>: it answers 304 when the tag is the current one, else it sends the
  current representation. \<open>aw_seen\<close> is a ghost: every representation it ever had, with its tag.
\<close>

record api_world =
  aw_cache :: etag_cache
  aw_flights :: "(get_flight \<times> http_request) list"
  aw_server :: "string \<Rightarrow> string \<times> jsval"
  aw_seen :: "(string \<times> string \<times> jsval) set"

definition server_answer :: "string \<times> jsval \<Rightarrow> http_request \<Rightarrow> http_reply" where
  "server_answer r rq =
     (if fst r \<noteq> [] \<and> map_of (rq_headers rq) ''If-None-Match'' = Some (fst r)
      then \<lparr>hr_status = 304, hr_etag = Some (fst r), hr_body = None\<rparr>
      else \<lparr>hr_status = 200, hr_etag = (if fst r = [] then None else Some (fst r)), hr_body = Some (snd r)\<rparr>)"

text \<open>
  The steps: the server changes a resource (a tag is never used again for another representation, the law
  of a strong validator), the console starts a request, the server's answer arrives, or an error does.
\<close>

inductive api_step :: "api_world \<Rightarrow> api_world \<Rightarrow> bool" where
  api_update: "(\<forall>d'. e \<noteq> [] \<and> (url, e, d') \<in> aw_seen w \<longrightarrow> d' = d) \<Longrightarrow>
     api_step w (w\<lparr>aw_server := (aw_server w)(url := (e, d)), aw_seen := insert (url, e, d) (aw_seen w)\<rparr>)"
| api_start: "api_step w (w\<lparr>aw_flights := apiGet_start key path c (aw_cache w) # aw_flights w\<rparr>)"
| api_answer: "(f, rq) \<in> set (aw_flights w) \<Longrightarrow>
     api_step w (w\<lparr>aw_flights := remove1 (f, rq) (aw_flights w),
       aw_cache := snd (apiGet_finish f (server_answer (aw_server w (gf_url f)) rq) (aw_cache w))\<rparr>)"
| api_failure: "(f, rq) \<in> set (aw_flights w) \<Longrightarrow> hr_status r \<noteq> 304 \<Longrightarrow> \<not> reply_ok r \<Longrightarrow>
     api_step w (w\<lparr>aw_flights := remove1 (f, rq) (aw_flights w),
       aw_cache := snd (apiGet_finish f r (aw_cache w))\<rparr>)"

inductive api_reachable :: "api_world \<Rightarrow> bool" where
  api_init: "(\<forall>url. (url, server url) \<in> seen) \<Longrightarrow> (\<forall>url e d d'. (url, e, d) \<in> seen \<longrightarrow> (url, e, d') \<in> seen \<longrightarrow> e \<noteq> [] \<longrightarrow> d = d') \<Longrightarrow>
     api_reachable \<lparr>aw_cache = Map.empty, aw_flights = [], aw_server = server, aw_seen = seen\<rparr>"
| api_next: "api_reachable w \<Longrightarrow> api_step w w' \<Longrightarrow> api_reachable w'"

text \<open>What is cached, or carried by a request, is a representation the server had under that tag.\<close>

definition flight_ok :: "(string \<times> string \<times> jsval) set \<Rightarrow> get_flight \<times> http_request \<Rightarrow> bool" where
  "flight_ok seen fr \<longleftrightarrow>
     (case gf_cached (fst fr) of
        None \<Rightarrow> map_of (rq_headers (snd fr)) ''If-None-Match'' = None
      | Some (e, d) \<Rightarrow> e \<noteq> [] \<and> (gf_url (fst fr), e, d) \<in> seen
          \<and> map_of (rq_headers (snd fr)) ''If-None-Match'' = Some e)"

definition cache_ok :: "(string \<times> string \<times> jsval) set \<Rightarrow> etag_cache \<Rightarrow> bool" where
  "cache_ok seen cache \<longleftrightarrow> (\<forall>url e d. cache url = Some (e, d) \<longrightarrow> e \<noteq> [] \<and> (url, e, d) \<in> seen)"

definition tags_ok :: "(string \<times> string \<times> jsval) set \<Rightarrow> bool" where
  "tags_ok seen \<longleftrightarrow> (\<forall>url e d d'. (url, e, d) \<in> seen \<longrightarrow> (url, e, d') \<in> seen \<longrightarrow> e \<noteq> [] \<longrightarrow> d = d')"

definition api_inv :: "api_world \<Rightarrow> bool" where
  "api_inv w \<longleftrightarrow> cache_ok (aw_seen w) (aw_cache w) \<and> (\<forall>fr \<in> set (aw_flights w). flight_ok (aw_seen w) fr)
     \<and> (\<forall>url. (url, aw_server w url) \<in> aw_seen w) \<and> tags_ok (aw_seen w)"

lemma flight_ok_mono: "flight_ok seen fr \<Longrightarrow> seen \<subseteq> seen' \<Longrightarrow> flight_ok seen' fr"
  by (auto simp: flight_ok_def split: option.splits)

lemma cache_ok_mono: "cache_ok seen c \<Longrightarrow> seen \<subseteq> seen' \<Longrightarrow> cache_ok seen' c"
  by (auto simp: cache_ok_def)

lemma start_flight_ok: "cache_ok seen cache \<Longrightarrow> flight_ok seen (apiGet_start key path c cache)"
  by (auto simp: flight_ok_def apiGet_start_def cache_ok_def key_header_def Let_def split: option.splits prod.splits)

lemma failure_keeps_cache: "hr_status r \<noteq> 304 \<Longrightarrow> \<not> reply_ok r \<Longrightarrow> snd (apiGet_finish f r cache) = cache"
  by (simp add: apiGet_finish_def read_reply_def)

lemma answer_cache_ok:
  assumes "cache_ok seen cache" and "(gf_url f, r) \<in> seen"
  shows "cache_ok seen (snd (apiGet_finish f (server_answer r rq) cache))"
  using assms
  by (cases r) (auto simp: cache_ok_def apiGet_finish_def server_answer_def read_reply_def reply_ok_def readJson_def)

lemma api_step_inv: "api_step w w' \<Longrightarrow> api_inv w \<Longrightarrow> api_inv w'"
proof (induction rule: api_step.induct)
  case (api_update e url w d)
  have "tags_ok (insert (url, e, d) (aw_seen w))"
    using api_update by (auto simp: api_inv_def tags_ok_def)
  with api_update show ?case
    by (auto simp: api_inv_def intro: flight_ok_mono cache_ok_mono)
next
  case (api_start w key path c)
  then show ?case by (simp add: api_inv_def start_flight_ok)
next
  case (api_answer f rq w)
  then show ?case
    using set_remove1_subset [of "(f, rq)" "aw_flights w"] by (auto simp: api_inv_def intro: answer_cache_ok)
next
  case (api_failure f rq w r)
  then show ?case
    using set_remove1_subset [of "(f, rq)" "aw_flights w"] by (auto simp: api_inv_def failure_keeps_cache)
qed

lemma api_reachable_inv: "api_reachable w \<Longrightarrow> api_inv w"
  by (induction rule: api_reachable.induct)
     (simp add: api_inv_def cache_ok_def tags_ok_def, rule api_step_inv)

text \<open>The client without a cache: every answer carries the representation.\<close>

definition plain_get :: "string \<times> jsval \<Rightarrow> string + jsval" where
  "plain_get r = read_reply \<lparr>hr_status = 200, hr_etag = None, hr_body = Some (snd r)\<rparr>"

text \<open>
  C21. The conditional cache is invisible: in every state reachable by any interleaving of requests (cached or
  not, with any key), server changes, answers and errors, the answer to a request gives the caller exactly
  what a client without cache gets from the server at that moment, also when the server only says 304. The
  server is assumed to keep the law of strong validators: one tag of a resource, one representation.
\<close>

theorem cache_is_transparent:
  assumes "api_reachable w" and "(f, rq) \<in> set (aw_flights w)"
  shows "fst (apiGet_finish f (server_answer (aw_server w (gf_url f)) rq) (aw_cache w)) = plain_get (aw_server w (gf_url f))"
proof -
  obtain e d where s: "aw_server w (gf_url f) = (e, d)" by fastforce
  have inv: "api_inv w" by (rule api_reachable_inv [OF assms(1)])
  then have ok: "flight_ok (aw_seen w) (f, rq)" "(gf_url f, e, d) \<in> aw_seen w" "tags_ok (aw_seen w)"
    using assms(2) s by (auto simp: api_inv_def, metis)
  show ?thesis
  proof (cases "e \<noteq> [] \<and> map_of (rq_headers rq) ''If-None-Match'' = Some e")
    case True
    then obtain d' where "gf_cached f = Some (e, d')" "(gf_url f, e, d') \<in> aw_seen w"
      using ok(1) by (auto simp: flight_ok_def split: option.splits)
    moreover from this have "d' = d" using ok(2,3) True unfolding tags_ok_def by blast
    ultimately show ?thesis
      using True s by (simp add: server_answer_def apiGet_finish_def plain_get_def read_reply_def reply_ok_def readJson_def)
  next
    case False
    then show ?thesis
      using s by (auto simp: server_answer_def apiGet_finish_def plain_get_def read_reply_def reply_ok_def readJson_def)
  qed
qed

definition sample_server :: "string \<Rightarrow> string \<times> jsval" where
  "sample_server url = (''v1'', Str url)"

theorem cache_is_transparent_witness:
  "let c = [''/x'' \<mapsto> (''v1'', Str ''/x'')]; (f, rq) = apiGet_start [] ''/x'' True c
   in server_answer (sample_server ''/x'') rq = \<lparr>hr_status = 304, hr_etag = Some ''v1'', hr_body = None\<rparr>
     \<and> fst (apiGet_finish f (server_answer (sample_server ''/x'') rq) c) = Inr (Str ''/x'')"
proof -
  define w0 where "w0 = \<lparr>aw_cache = Map.empty, aw_flights = [], aw_server = sample_server,
      aw_seen = {(u, ''v1'', Str u) | u. True}\<rparr>"
  define fr where "fr = apiGet_start [] ''/x'' True Map.empty"
  define w1 where "w1 = w0\<lparr>aw_flights := [fr]\<rparr>"
  define w2 where "w2 = w1\<lparr>aw_flights := [], aw_cache := [''/x'' \<mapsto> (''v1'', Str ''/x'')]\<rparr>"
  define fr2 where "fr2 = apiGet_start [] ''/x'' True [''/x'' \<mapsto> (''v1'', Str ''/x'')]"
  have "api_reachable w0" unfolding w0_def by (rule api_init) (auto simp: sample_server_def)
  moreover have "api_step w0 w1"
    using api_start [of w0 "[]" "''/x''" True] by (simp add: w1_def w0_def fr_def)
  moreover have "api_step w1 w2"
    using api_answer [of "fst fr" "snd fr" w1]
    by (simp add: w2_def w1_def w0_def fr_def apiGet_start_def apiGet_finish_def server_answer_def sample_server_def
        withAdmin_def adminQuery_def key_header_def read_reply_def reply_ok_def readJson_def Let_def)
  moreover have "api_step w2 (w2\<lparr>aw_flights := [fr2]\<rparr>)"
    using api_start [of w2 "[]" "''/x''" True] by (simp add: w2_def w1_def fr2_def)
  ultimately have "api_reachable (w2\<lparr>aw_flights := [fr2]\<rparr>)" by (blast intro: api_next)
  then show ?thesis
    using cache_is_transparent [of "w2\<lparr>aw_flights := [fr2]\<rparr>" "fst fr2" "snd fr2"]
    by (simp add: w2_def w1_def w0_def fr2_def apiGet_start_def server_answer_def sample_server_def withAdmin_def
        adminQuery_def key_header_def plain_get_def read_reply_def reply_ok_def readJson_def Let_def)
qed

end
