(* ===== verification/I18n.thy ===== *)
theory I18n
  imports Html
begin

text \<open>
  The message catalogue of \<open>i18n.js\<close>: lookup with fallback, interpolation of parameters with
  the replacement patterns of \<open>String.prototype.replace\<close>, and the language preference.
\<close>

section \<open>Messages\<close>

text \<open>
  \<open>dict\<close>, \<open>_lang\<close> and the stored preference of \<open>i18n.js\<close>. The dictionary itself is data: an argument.
\<close>

type_synonym messages = "(string \<times> (string \<times> string) list) list"

type_synonym translator = "string \<Rightarrow> (string \<times> jsval) list \<Rightarrow> string"

text \<open>
  The replacement text of \<open>String.prototype.replace\<close>: \<open>$$\<close>, \<open>$&\<close>, \<open>$`\<close> and \<open>$'\<close> are patterns
  (\<open>before\<close>, \<open>found\<close> and \<open>after\<close> the match); \<open>$n\<close> stands for itself, the expression has no group.
\<close>

fun expand_replacement :: "string \<Rightarrow> string \<Rightarrow> string \<Rightarrow> string \<Rightarrow> string" where
  "expand_replacement before found after (a # b # r) =
     (if a = CHR ''$'' \<and> b = CHR ''$'' then CHR ''$'' # expand_replacement before found after r
      else if a = CHR ''$'' \<and> b = CHR ''&'' then found @ expand_replacement before found after r
      else if a = CHR ''$'' \<and> b = CHR 0x60 then before @ expand_replacement before found after r
      else if a = CHR ''$'' \<and> b = CHR 0x27 then after @ expand_replacement before found after r
      else a # expand_replacement before found after (b # r))"
| "expand_replacement before found after r = r"

text \<open>\<open>text.replace(/pat/g, r)\<close>: left to right, never inside text already written.\<close>

function replace_all :: "string \<Rightarrow> string \<Rightarrow> string \<Rightarrow> string \<Rightarrow> string" where
  "replace_all before pat r s =
     (case s of [] \<Rightarrow> []
      | c # cs \<Rightarrow>
         if pat \<noteq> [] \<and> starts_with pat s
         then expand_replacement before pat (drop (length pat) s) r
              @ replace_all (before @ pat) pat r (drop (length pat) s)
         else c # replace_all (before @ [c]) pat r cs)"
  by pat_completeness auto
termination
proof (relation "measure (\<lambda>(before, pat, r, s). length s)", goal_cases)
  case (2 before pat r s c cs)
  then show ?case by (cases pat) auto
qed auto

declare replace_all.simps [simp del]

definition interpolate :: "string \<Rightarrow> (string \<times> jsval) list \<Rightarrow> string" where
  "interpolate text params =
     foldl (\<lambda>acc (k, v). replace_all [] ([CHR 0x7B] @ k @ [CHR 0x7D]) (to_str v) acc)
       text (own_entries params)"

definition t :: "messages \<Rightarrow> string \<Rightarrow> string \<Rightarrow> (string \<times> jsval) list \<Rightarrow> string" where
  "t dict lang key params =
     (case map_of dict key of
        None \<Rightarrow> key
      | Some entry \<Rightarrow>
         let own = (case map_of entry lang of Some s \<Rightarrow> s | None \<Rightarrow> []);
             en = (case map_of entry ''en'' of Some s \<Rightarrow> s | None \<Rightarrow> [])
         in interpolate (if own \<noteq> [] then own else if en \<noteq> [] then en else key) params)"

record i18n_state =
  i18n_lang :: string
  i18n_stored :: "string option"
  i18n_notified :: "string list"

definition i18n_init :: i18n_state where
  "i18n_init = \<lparr>i18n_lang = ''en'', i18n_stored = None, i18n_notified = []\<rparr>"

text \<open>
  \<open>setLang\<close>; \<open>i18n_notified\<close> is the sequence of languages the listeners have been called with.
\<close>

definition setLang :: "string \<Rightarrow> i18n_state \<Rightarrow> i18n_state" where
  "setLang lang s =
     (if lang \<noteq> ''en'' \<and> lang \<noteq> ''zh'' then s
      else if lang = i18n_lang s then s
      else s\<lparr>i18n_lang := lang, i18n_stored := Some lang, i18n_notified := i18n_notified s @ [lang]\<rparr>)"

text \<open>\<open>initLang\<close>: \<open>None\<close> for a storage that throws; \<open>browser\<close> is \<open>navigator.language\<close>.\<close>

definition initLang :: "string option option \<Rightarrow> string \<Rightarrow> i18n_state \<Rightarrow> i18n_state" where
  "initLang storage browser s =
     (case storage of
        None \<Rightarrow> s\<lparr>i18n_lang := ''en''\<rparr>
      | Some saved \<Rightarrow>
         if saved = Some ''en'' \<or> saved = Some ''zh'' then s\<lparr>i18n_lang := the saved\<rparr>
         else s\<lparr>i18n_lang := (if starts_with ''zh'' (js_lower (if browser = [] then ''en'' else browser))
                            then ''zh'' else ''en'')\<rparr>)"

end
