(* ===== verification/Format.thy ===== *)
theory Format
  imports I18n
begin

text \<open>
  The formatting and accounting helpers at the top of \<open>app.js\<close>: numbers with digit grouping,
  percentages, durations, costs, token usage and traffic totals, number lists, the tone of a text
  and keyword highlighting, chips and badges.

  \<open>toLocaleString\<close> is the same for the two locales the console uses (\<open>en-US\<close> and \<open>zh-CN\<close> group by
  three and write a point), so the language is not an argument. Dates are formatted by the
  platform (time zone and calendar), hence by a parameter.
\<close>

section \<open>Numbers as text\<close>

text \<open>\<open>n.toFixed(d)\<close>: the nearest multiple of \<open>10^-d\<close>, a tie going up (away from zero).\<close>

definition scaled_digits :: "nat \<Rightarrow> rat \<Rightarrow> int" where
  "scaled_digits d a = \<lfloor>a * 10 ^ d + 1 / 2\<rfloor>"

fun pad_zeros :: "nat \<Rightarrow> string \<Rightarrow> string" where
  "pad_zeros 0 s = s"
| "pad_zeros (Suc n) s = (if length s < Suc n then CHR ''0'' # pad_zeros n s else s)"

definition frac_text :: "nat \<Rightarrow> int \<Rightarrow> string" where
  "frac_text d m = pad_zeros d (nat_to_str m)"

fun toFixed :: "nat \<Rightarrow> jsnum \<Rightarrow> string" where
  "toFixed d (Fin q) =
     (let m = scaled_digits d \<bar>q\<bar> in
      (if q < 0 then ''-'' else []) @ nat_to_str (m div 10 ^ d)
      @ (if d = 0 then [] else ''.'' @ frac_text d (m mod 10 ^ d)))"
| "toFixed d n = num_to_str n"

text \<open>Thousands separators: commas before every third digit from the right.\<close>

fun group_rev :: "string \<Rightarrow> string" where
  "group_rev (a # b # c # d # r) = a # b # c # CHR '','' # group_rev (d # r)"
| "group_rev r = r"

definition group_digits :: "string \<Rightarrow> string" where
  "group_digits s = rev (group_rev (rev s))"

text \<open>Drop trailing zeros of a fraction, keeping at least \<open>k\<close> digits.\<close>

fun strip_zeros_rev :: "nat \<Rightarrow> string \<Rightarrow> string" where
  "strip_zeros_rev k [] = []"
| "strip_zeros_rev k (c # r) =
     (if c = CHR ''0'' \<and> k \<le> length r then strip_zeros_rev k r else c # r)"

definition frac_between :: "nat \<Rightarrow> nat \<Rightarrow> int \<Rightarrow> string" where
  "frac_between lo hi m = rev (strip_zeros_rev lo (rev (frac_text hi m)))"

text \<open>\<open>toLocaleString(locale, {minimumFractionDigits: lo, maximumFractionDigits: hi})\<close>.\<close>

fun toLocale :: "nat \<Rightarrow> nat \<Rightarrow> jsnum \<Rightarrow> string" where
  "toLocale lo hi (Fin q) =
     (let m = scaled_digits hi \<bar>q\<bar>; f = (if hi = 0 then [] else frac_between lo hi (m mod 10 ^ hi)) in
      (if q < 0 then ''-'' else []) @ group_digits (nat_to_str (m div 10 ^ hi))
      @ (if f = [] then [] else ''.'' @ f))"
| "toLocale lo hi NaN = ''NaN''"
| "toLocale lo hi PInf = ([CHR 0xE2, CHR 0x88, CHR 0x9E])"
| "toLocale lo hi NInf = (''-'' @ [CHR 0xE2, CHR 0x88, CHR 0x9E])"

text \<open>Without options at most three fraction digits are kept.\<close>

definition toLocaleString :: "jsnum \<Rightarrow> string" where
  "toLocaleString n = toLocale 0 3 n"

fun num_abs :: "jsnum \<Rightarrow> jsnum" where
  "num_abs (Fin q) = Fin \<bar>q\<bar>"
| "num_abs NaN = NaN"
| "num_abs _ = PInf"

definition fmtInt :: "jsval \<Rightarrow> string" where
  "fmtInt v = (let n = num_or_zero v in if is_finite n then toLocaleString n else ''0'')"

definition compact_count :: "jsnum \<Rightarrow> rat \<Rightarrow> string \<Rightarrow> string" where
  "compact_count n divisor unit =
     (let scaled = num_div n (Fin divisor)
      in toLocale 0 (if num_lt (num_abs scaled) (Fin 10) then 1 else 0) scaled @ unit)"

definition fmtTokenCount :: "jsval \<Rightarrow> string" where
  "fmtTokenCount v =
     (let n = num_or_zero v; a = num_abs n in
      if \<not> is_finite n then ''0''
      else if num_le (Fin 1000000000000) a then compact_count n 1000000000000 ''T''
      else if num_le (Fin 1000000000) a then compact_count n 1000000000 ''B''
      else if num_le (Fin 1000000) a then compact_count n 1000000 ''M''
      else if num_le (Fin 1000) a then compact_count n 1000 ''K''
      else fmtInt (Num n))"

definition fmtPct :: "jsval \<Rightarrow> string" where
  "fmtPct v = num_to_str (num_div (num_round (num_mul (num_or_zero v) (Fin 1000))) (Fin 10)) @ ''%''"

definition fmtMs :: "jsval \<Rightarrow> string" where
  "fmtMs v = toLocaleString (num_round (num_max (Fin 0) (num_or_zero v))) @ ''ms''"

definition fmtCompactMs :: "jsval \<Rightarrow> string" where
  "fmtCompactMs v =
     (let n = num_max (Fin 0) (num_or_zero v) in
      if num_le (Fin 1000) n then
        (let seconds = num_div n (Fin 1000);
             rounded = (if num_le (Fin 10) seconds then num_round seconds
                        else num_div (num_round (num_mul seconds (Fin 10))) (Fin 10))
         in toLocaleString rounded @ ''s'')
      else num_to_str (num_round n) @ ''ms'')"

definition positive_or_zero :: "jsnum \<Rightarrow> jsnum" where
  "positive_or_zero n = (if is_finite n \<and> num_lt (Fin 0) n then n else Fin 0)"

definition firstByteMsFromRequest :: "jsval \<Rightarrow> jsnum" where
  "firstByteMsFromRequest r = positive_or_zero (num_or_zero (get r ''first_byte_ms''))"

definition firstByteAvgFromBucket :: "jsval \<Rightarrow> jsnum" where
  "firstByteAvgFromBucket b = positive_or_zero (num_or_zero (get b ''first_byte_ms_avg''))"

definition firstByteMaxFromBucket :: "jsval \<Rightarrow> jsnum" where
  "firstByteMaxFromBucket b =
     (let v = num_or_zero (get b ''first_byte_ms_max'')
      in if is_finite v \<and> num_lt (Fin 0) v then v else firstByteAvgFromBucket b)"

definition fmtCost :: "jsval \<Rightarrow> string" where
  "fmtCost v =
     (let n = num_or_zero v in
      if \<not> is_finite n \<or> num_le n (Fin 0) then ''$0''
      else if num_lt n (Fin (1 / 1000000)) then ''<$0.000001''
      else if num_lt n (Fin (1 / 10000)) then ''$'' @ toFixed 6 n
      else ''$'' @ toLocale 2 6 n)"

definition fmtCost3 :: "jsval \<Rightarrow> string" where
  "fmtCost3 v =
     (let n = num_or_zero v in
      if \<not> is_finite n \<or> num_le n (Fin 0) then ''$0''
      else if num_lt n (Fin (1 / 10000)) then fmtCost (Num n)
      else ''$'' @ toLocale 2 3 n)"

definition fmtPricing :: "jsval \<Rightarrow> string" where
  "fmtPricing v = (if v = Null \<or> v = Undef \<or> v = Str [] then ''-'' else fmtCost v)"

text \<open>\<open>Number(value || 0).toFixed(2).replace(/\\.?0+$/, "")\<close>: the trailing zeros and their point.\<close>

definition strip_decimal :: "string \<Rightarrow> string" where
  "strip_decimal s =
     (let r = rev s; z = dropWhile (\<lambda>c. c = CHR ''0'') r in
      if z = r then s
      else (case z of c # z' \<Rightarrow> if c = CHR ''.'' then rev z' else rev z | [] \<Rightarrow> []))"

definition svgNum :: "jsval \<Rightarrow> string" where
  "svgNum v = strip_decimal (toFixed 2 (num_or_zero v))"

section \<open>Costs and proxies\<close>

record cost_state =
  cost_status :: string
  cost_label :: string
  cost_icon :: string
  cost_display :: string

definition cost_labels :: "translator \<Rightarrow> (string \<times> string) list" where
  "cost_labels tr = [(''priced'', tr ''cost.priced'' []), (''estimated'', tr ''cost.estimated'' []),
     (''pending'', tr ''cost.pending'' []), (''unpriced'', tr ''cost.unpriced'' []),
     (''legacy'', tr ''cost.legacy'' [])]"

definition cost_icons :: "(string \<times> string) list" where
  "cost_icons = [(''priced'', ''check''), (''estimated'', ''info''), (''pending'', ''clock''),
     (''unpriced'', ''alert''), (''legacy'', ''info'')]"

text \<open>\<open>table[key] || fallback\<close> for a table of strings.\<close>

definition pick :: "(string \<times> string) list \<Rightarrow> string \<Rightarrow> string \<Rightarrow> string" where
  "pick table key fallback =
     (case map_of table key of Some s \<Rightarrow> if s \<noteq> [] then s else fallback | None \<Rightarrow> fallback)"

definition costState :: "translator \<Rightarrow> jsval \<Rightarrow> cost_state" where
  "costState tr v =
     (let status = to_str (jor (get v ''cost_status'') (Str ''legacy'')) in
      \<lparr>cost_status = status,
       cost_label = pick (cost_labels tr) status status,
       cost_icon = pick cost_icons status ''info'',
       cost_display = (if status = ''pending'' \<or> status = ''unpriced''
                       then the (map_of (cost_labels tr) status)
                       else fmtCost (get v ''cost_usd''))\<rparr>)"

definition renderCost :: "translator \<Rightarrow> jsval \<Rightarrow> bool \<Rightarrow> string" where
  "renderCost tr v terse =
     (let info = costState tr v;
          source = (if truthy (get v ''pricing_source'') then ('' '' @ [CHR 0xB7] @ '' '' @ (to_str (get v ''pricing_source''))) else []);
          tip = cost_label info @ source
      in (''<span class=\"cost-state cost-'' @ (esc (cost_status info)) @ ''\" data-tip=\"'' @
         esc tip @ ''\" tabindex=\"0\" aria-label=\"'' @ esc tip @ ''\">'' @
         (iconSvg (cost_icon info)) @ ''<strong>'' @ (esc (cost_display info)) @ ''</strong>'' @
         (if terse then [] else (''<small>'' @ (esc (cost_label info)) @ ''</small>'')) @
         ''</span>''))"

definition proxyText :: "jsval \<Rightarrow> string" where
  "proxyText v =
     (if \<not> truthy v then []
      else (case v of
          Str s \<Rightarrow> js_trim s
        | Obj kvs \<Rightarrow> js_trim (str_or_empty (jor (get v ''https'') (jor (get v ''http'')
                      (jor (get v ''url'') (get v ''all'')))))
        | _ \<Rightarrow> []))"

definition proxyLabel :: "jsval \<Rightarrow> string \<Rightarrow> string" where
  "proxyLabel v fallback = (let text = proxyText v in if text = [] then fallback else text)"

definition proxyTestButton :: "string \<Rightarrow> string" where
  "proxyTestButton title = (''<button class=\"button secondary icon-action proxy-test-button\"'' @
     '' type=\"button\" data-proxy-test title=\"'' @ esc title @ ''\" aria-label=\"'' @
     esc title @ ''\">'' @ iconSvg ''activity'' @ ''</button>'')"

definition proxyControlInput :: "translator \<Rightarrow> string \<Rightarrow> jsval \<Rightarrow> string \<Rightarrow> string \<Rightarrow> string" where
  "proxyControlInput tr name value placeholder attrs =
     (nl 6 @ ''<div class=\"proxy-control-row\">'' @ nl 8 @
        ''<input class=\"control\" name=\"'' @ esc name @ ''\" value=\"'' @ escapeHtml value @
        ''\" placeholder=\"'' @ esc placeholder @ ''\" '' @ attrs @ '' />'' @ nl 8 @
        (proxyTestButton (tr ''action.test_proxy'' [])) @ nl 6 @ ''</div>'' @ nl 4)"

section \<open>Token usage and traffic totals\<close>

record usage =
  input_tokens :: jsnum
  uncached_input_tokens :: jsnum
  cached_input_tokens :: jsnum
  cache_write_tokens :: jsnum
  output_tokens :: jsnum
  reasoning_tokens :: jsnum
  total_tokens :: jsnum
  cost_usd :: jsnum

text \<open>\<open>Number(a || b || 0)\<close>.\<close>

definition first_num :: "jsval \<Rightarrow> jsval \<Rightarrow> jsnum" where
  "first_num a b = to_num (jor a (jor b (jnum 0)))"

definition usageFrom :: "jsval \<Rightarrow> usage" where
  "usageFrom v =
     (let u = (if is_object (get v ''usage'') then get v ''usage'' else jor v (Obj []));
          inp = first_num (get u ''input_tokens'') (get v ''input_tokens'');
          out = first_num (get u ''output_tokens'') (get v ''output_tokens'');
          tot = first_num (get u ''total_tokens'') (get v ''total_tokens'');
          cached = first_num (get u ''cached_input_tokens'') (get v ''cached_input_tokens'');
          written = first_num (get u ''cache_write_tokens'') (get v ''cache_write_tokens'');
          uncached = to_num (jcoalesce (get u ''uncached_input_tokens'')
                       (jcoalesce (get v ''uncached_input_tokens'')
                         (Num (num_max (Fin 0) (num_sub (num_sub inp cached) written)))));
          reasoning = first_num (get u ''reasoning_tokens'') (get v ''reasoning_tokens'')
      in \<lparr>input_tokens = inp, uncached_input_tokens = uncached, cached_input_tokens = cached,
          cache_write_tokens = written, output_tokens = out, reasoning_tokens = reasoning,
          total_tokens = num_max tot (num_add inp out),
          cost_usd = first_num (get v ''cost_usd'') (get u ''cost_usd'')\<rparr>)"

definition emptyUsageTotal :: usage where
  "emptyUsageTotal = \<lparr>input_tokens = Fin 0, uncached_input_tokens = Fin 0,
     cached_input_tokens = Fin 0, cache_write_tokens = Fin 0, output_tokens = Fin 0,
     reasoning_tokens = Fin 0, total_tokens = Fin 0, cost_usd = Fin 0\<rparr>"

definition usage_plus :: "usage \<Rightarrow> usage \<Rightarrow> usage" where
  "usage_plus a b =
     \<lparr>input_tokens = num_add (input_tokens a) (input_tokens b),
      uncached_input_tokens = num_add (uncached_input_tokens a) (uncached_input_tokens b),
      cached_input_tokens = num_add (cached_input_tokens a) (cached_input_tokens b),
      cache_write_tokens = num_add (cache_write_tokens a) (cache_write_tokens b),
      output_tokens = num_add (output_tokens a) (output_tokens b),
      reasoning_tokens = num_add (reasoning_tokens a) (reasoning_tokens b),
      total_tokens = num_add (total_tokens a) (total_tokens b),
      cost_usd = num_add (cost_usd a) (cost_usd b)\<rparr>"

text \<open>\<open>addUsage(target, source)\<close> writes the target; the model returns it.\<close>

definition addUsage :: "usage \<Rightarrow> jsval \<Rightarrow> usage" where
  "addUsage target source = usage_plus target (usageFrom source)"

definition resolveUsageTotal :: "usage \<Rightarrow> jsval \<Rightarrow> usage" where
  "resolveUsageTotal window counters =
     (if num_lt (Fin 0) (num_or_zero (Num (total_tokens window))) then window
      else usageFrom (jor (get (jor counters (Obj [])) ''usage'') (Obj [])))"

definition timeseriesUsageTotal :: "jsval \<Rightarrow> usage" where
  "timeseriesUsageTotal series =
     foldl (\<lambda>acc bucket. addUsage acc (jor (get bucket ''usage'') (Obj []))) emptyUsageTotal
       (arr_or_empty (get series ''buckets''))"

definition currentUsageTotal :: "jsval \<Rightarrow> jsval \<Rightarrow> usage" where
  "currentUsageTotal series counters =
     resolveUsageTotal (timeseriesUsageTotal series) (jor counters (Obj []))"

record traffic =
  tr_requests :: jsnum
  tr_success :: jsnum
  tr_failed :: jsnum
  tr_attempts :: jsnum
  tr_failedAttempts :: jsnum

definition traffic_zero :: traffic where
  "traffic_zero = \<lparr>tr_requests = Fin 0, tr_success = Fin 0, tr_failed = Fin 0,
     tr_attempts = Fin 0, tr_failedAttempts = Fin 0\<rparr>"

definition add_provider :: "traffic \<Rightarrow> jsval \<Rightarrow> traffic" where
  "add_provider acc p =
     acc\<lparr>tr_attempts := num_add (tr_attempts acc) (num_or_zero (get p ''attempts'')),
         tr_failedAttempts := num_add (tr_failedAttempts acc) (num_or_zero (get p ''failed''))\<rparr>"

definition add_bucket :: "traffic \<Rightarrow> jsval \<Rightarrow> traffic" where
  "add_bucket acc b =
     foldl add_provider
       (acc\<lparr>tr_requests := num_add (tr_requests acc) (num_or_zero (get b ''requests'')),
            tr_success := num_add (tr_success acc) (num_or_zero (get b ''success'')),
            tr_failed := num_add (tr_failed acc) (num_or_zero (get b ''failed''))\<rparr>)
       (map snd (js_entries (jor (get b ''by_provider'') (Obj []))))"

definition timeseriesTrafficTotal :: "jsval \<Rightarrow> traffic" where
  "timeseriesTrafficTotal series =
     foldl add_bucket traffic_zero (arr_or_empty (get series ''buckets''))"

definition currentTrafficTotal :: "jsval \<Rightarrow> jsval \<Rightarrow> traffic" where
  "currentTrafficTotal series counters =
     (let w = timeseriesTrafficTotal series in
      if num_lt (Fin 0) (tr_requests w) \<or> num_lt (Fin 0) (tr_attempts w) then w
      else \<lparr>tr_requests = num_or_zero (get counters ''requests_total''),
            tr_success = num_or_zero (get counters ''requests_success''),
            tr_failed = num_or_zero (get counters ''requests_failed''),
            tr_attempts = num_or_zero (get counters ''attempts_total''),
            tr_failedAttempts = num_or_zero (get counters ''attempts_failed'')\<rparr>)"

text \<open>\<open>fmtDate\<close>: the platform's formatter of a time in milliseconds is the parameter.\<close>

definition fmtDate :: "(jsnum \<Rightarrow> string) \<Rightarrow> jsval \<Rightarrow> string" where
  "fmtDate locale_date ts =
     (let n = num_or_zero ts in
      if \<not> num_truthy n then ''-'' else locale_date (num_mul n (Fin 1000)))"

section \<open>Lists as text\<close>

definition joinList :: "jsval \<Rightarrow> string" where
  "joinList items =
     (let arr = filter truthy (arr_or_empty items) in
      if arr \<noteq> [] then js_join '', '' (map to_str arr) else ''-'')"

definition joinNumberList :: "jsval \<Rightarrow> string" where
  "joinNumberList items =
     js_join '', '' (map num_to_str (filter is_finite (map to_num (arr_or_empty items))))"

definition parseNumberList :: "jsval \<Rightarrow> jsnum list" where
  "parseNumberList v =
     filter is_finite
       (map (\<lambda>item. str_to_num (js_trim item)) (js_split (\<lambda>c. c = CHR '','') (str_or_empty v)))"

end
