(* ===== verification/JsonParse.thy ===== *)
theory JsonParse
  imports JsFacts
begin

text \<open>
  \<open>JSON.parse\<close> of the standard library, on Latin-1 text: a recursive-descent parser that returns the value
  and the rest of the input, and \<open>None\<close> where the library throws a SyntaxError. An escape of a character
  above 255 is kept as its UTF-8 bytes. A parser that succeeds consumes input; the guards on the length
  of a rest make the recursion well-founded and, by \<open>json_value_shorter\<close>, never reject anything.
\<close>

section \<open>Tokens\<close>

definition is_json_space :: "char \<Rightarrow> bool" where
  "is_json_space c \<longleftrightarrow> code_unit c \<in> {32, 9, 10, 13}"

definition skip_space :: "string \<Rightarrow> string" where
  "skip_space s = dropWhile is_json_space s"

definition hex_value :: "char \<Rightarrow> int option" where
  "hex_value c = (let n = code_unit c in
     if 48 \<le> n \<and> n \<le> 57 then Some (n - 48)
     else if 65 \<le> n \<and> n \<le> 70 then Some (n - 55)
     else if 97 \<le> n \<and> n \<le> 102 then Some (n - 87) else None)"

definition hex4 :: "string \<Rightarrow> int option" where
  "hex4 s = (case map hex_value s of
     [Some a, Some b, Some c, Some d] \<Rightarrow> Some (4096 * a + 256 * b + 16 * c + d) | _ \<Rightarrow> None)"

definition code_point :: "int \<Rightarrow> string" where
  "code_point n =
     (if n < 256 then [char_of n]
      else if n < 2048 then [char_of (192 + n div 64), char_of (128 + n mod 64)]
      else [char_of (224 + n div 4096), char_of (128 + n div 64 mod 64), char_of (128 + n mod 64)])"

definition json_escape :: "char \<Rightarrow> char option" where
  "json_escape c = (let n = code_unit c in
     if n = 34 \<or> n = 92 \<or> n = 47 then Some c
     else if n = 98 then Some (char_of (8 :: int)) else if n = 102 then Some (char_of (12 :: int))
     else if n = 110 then Some (char_of (10 :: int)) else if n = 114 then Some (char_of (13 :: int))
     else if n = 116 then Some (char_of (9 :: int)) else None)"

text \<open>An escape, after its backslash: the characters it stands for and the rest.\<close>

definition escape_at :: "string \<Rightarrow> (string \<times> string) option" where
  "escape_at s =
     (case s of
        [] \<Rightarrow> None
      | e # r \<Rightarrow>
          if e = CHR ''u'' then
            (case r of
               a # b # c # d # r' \<Rightarrow> map_option (\<lambda>n. (code_point n, r')) (hex4 [a, b, c, d])
             | _ \<Rightarrow> None)
          else map_option (\<lambda>x. ([x], r)) (json_escape e))"

lemma escape_at_length: "escape_at s = Some (x, r) \<Longrightarrow> length r < length s"
  by (auto simp: escape_at_def split: list.splits if_splits)

text \<open>The rest of a string literal, after its opening quote.\<close>

function string_rest :: "string \<Rightarrow> (string \<times> string) option" where
  "string_rest [] = None"
| "string_rest (c # s) =
     (if c = CHR 0x22 then Some ([], s)
      else if c = CHR 0x5C then
        (case escape_at s of
           None \<Rightarrow> None
         | Some (x, r) \<Rightarrow> map_option (\<lambda>(t, q). (x @ t, q)) (string_rest r))
      else if code_unit c < 32 then None
      else map_option (\<lambda>(t, q). (c # t, q)) (string_rest s))"
  by pat_completeness auto
termination
  by (relation "measure length") (auto dest: escape_at_length)

text \<open>The number at the start of the input: sign, integer part without leading zeros, fraction, exponent.\<close>

definition digits_prefix :: "string \<Rightarrow> string \<times> string" where
  "digits_prefix s = (takeWhile is_digit s, dropWhile is_digit s)"

definition json_number :: "string \<Rightarrow> (jsnum \<times> string) option" where
  "json_number s =
     (let (sign, s1) = (if starts_with ''-'' s then (''-'', tl s) else ([], s));
          (ip, s2) = digits_prefix s1;
          (fp, s3) = (if starts_with ''.'' s2 then (case digits_prefix (tl s2) of (f, q) \<Rightarrow> (CHR ''.'' # f, q)) else ([], s2));
          (ep, s4) =
            (if s3 \<noteq> [] \<and> hd s3 \<in> {CHR ''e'', CHR ''E''} then
               (let (sg, q) = (if tl s3 \<noteq> [] \<and> hd (tl s3) \<in> {CHR ''+'', CHR ''-''} then ([hd (tl s3)], tl (tl s3)) else ([], tl s3));
                    (e, q') = digits_prefix q
                in (CHR ''e'' # sg @ e, q'))
             else ([], s3))
      in if ip = [] \<or> (hd ip = CHR ''0'' \<and> length ip > 1) \<or> fp = ''.'' \<or> (ep \<noteq> [] \<and> \<not> is_digit (last ep)) then None
         else Some (str_to_num (sign @ ip @ fp @ ep), s4))"

section \<open>Values\<close>

definition shorter :: "string \<Rightarrow> ('a \<times> string) option \<Rightarrow> ('a \<times> string) option" where
  "shorter s r = (case r of Some (v, q) \<Rightarrow> if length q < length s then Some (v, q) else None | None \<Rightarrow> None)"

lemma shorter_Some: "shorter s r = Some (v, q) \<Longrightarrow> length q < length s"
  by (auto simp: shorter_def split: option.splits if_splits)

lemma skip_space_length: "length (skip_space s) \<le> length s"
  by (simp add: skip_space_def length_dropWhile_le)

lemma skip_space_Cons: "skip_space s = c # r \<Longrightarrow> length r < length s"
  using skip_space_length [of s] by simp

text \<open>\<open>json_elems\<close> and \<open>json_members\<close> parse a non-empty list of elements or members and its closing bracket.\<close>

function json_value :: "string \<Rightarrow> (jsval \<times> string) option"
  and json_elems :: "string \<Rightarrow> (jsval list \<times> string) option"
  and json_members :: "string \<Rightarrow> ((string \<times> jsval) list \<times> string) option" where
  "json_value s =
     (case skip_space s of
        [] \<Rightarrow> None
      | c # r \<Rightarrow>
          if c = CHR 0x22 then map_option (\<lambda>(t, q). (Str t, q)) (string_rest r)
          else if c = CHR ''['' then
            (if starts_with '']'' (skip_space r) then Some (Arr [], tl (skip_space r))
             else map_option (\<lambda>(xs, q). (Arr xs, q)) (json_elems r))
          else if c = CHR 0x7B then
            (if starts_with [CHR 0x7D] (skip_space r) then Some (Obj [], tl (skip_space r))
             else map_option (\<lambda>(kvs, q). (Obj kvs, q)) (json_members r))
          else if starts_with ''null'' (c # r) then Some (Null, drop 3 r)
          else if starts_with ''true'' (c # r) then Some (Bool True, drop 3 r)
          else if starts_with ''false'' (c # r) then Some (Bool False, drop 4 r)
          else map_option (\<lambda>(n, q). (Num n, q)) (json_number (c # r)))"
| "json_elems s =
     (case shorter s (json_value s) of
        None \<Rightarrow> None
      | Some (v, q) \<Rightarrow>
          (case skip_space q of
             c # r \<Rightarrow>
               if c = CHR '']'' then Some ([v], r)
               else if c = CHR '','' then map_option (\<lambda>(vs, q'). (v # vs, q')) (json_elems r)
               else None
           | [] \<Rightarrow> None))"
| "json_members s =
     (case skip_space s of
        [] \<Rightarrow> None
      | c # r \<Rightarrow>
          if c \<noteq> CHR 0x22 then None
          else (case shorter s (string_rest r) of
              None \<Rightarrow> None
            | Some (k, q) \<Rightarrow>
                (case skip_space q of
                   [] \<Rightarrow> None
                 | d # q1 \<Rightarrow>
                     if d \<noteq> CHR '':'' then None
                     else (case shorter s (json_value q1) of
                         None \<Rightarrow> None
                       | Some (v, q2) \<Rightarrow>
                           (case skip_space q2 of
                              e # q3 \<Rightarrow>
                                if e = CHR 0x7D then Some ([(k, v)], q3)
                                else if e = CHR '','' then map_option (\<lambda>(kvs, q'). ((k, v) # kvs, q')) (json_members q3)
                                else None
                            | [] \<Rightarrow> None)))))"
  by pat_completeness auto
termination
  by (relation "measure (case_sum (\<lambda>s. 2 * length s) (case_sum (\<lambda>s. 2 * length s + 1) (\<lambda>s. 2 * length s + 1)))")
     (auto dest!: skip_space_Cons shorter_Some)

declare json_value.simps [simp del] json_elems.simps [simp del] json_members.simps [simp del]

text \<open>Repeated names of an object: the last value, at the place of the first.\<close>

fun dedupe :: "jsval \<Rightarrow> jsval" where
  "dedupe (Arr xs) = Arr (map dedupe xs)"
| "dedupe (Obj kvs) = Obj (foldl (\<lambda>acc (k, v). set_prop k v acc) [] (map (\<lambda>(k, v). (k, dedupe v)) kvs))"
| "dedupe v = v"

definition json_parse :: "string \<Rightarrow> jsval option" where
  "json_parse s =
     (case json_value s of
        Some (v, q) \<Rightarrow> if skip_space q = [] then Some (dedupe v) else None
      | None \<Rightarrow> None)"

section \<open>A parser that succeeds consumes its input\<close>

lemma string_rest_length: "string_rest s = Some (t, q) \<Longrightarrow> length q < length s"
proof (induction s arbitrary: t q rule: string_rest.induct)
  case (2 c s)
  show ?case
  proof (cases "c = CHR 0x5C")
    case True
    with "2.prems" obtain x r t' where "escape_at s = Some (x, r)" "string_rest r = Some (t', q)"
      by (auto split: option.splits)
    with 2(1) [OF _ True this(1) refl] escape_at_length show ?thesis using True by fastforce
  next
    case False
    with 2 show ?thesis by (fastforce split: if_splits)
  qed
qed simp

lemma digits_prefix_length: "digits_prefix s = (d, q) \<Longrightarrow> length s = length d + length q"
  by (auto simp: digits_prefix_def simp flip: length_append)

lemma json_number_length:
  assumes "json_number s = Some (n, q)"
  shows "length q < length s"
proof -
  obtain sign s1 where 1: "(if starts_with ''-'' s then (''-'', tl s) else ([], s)) = (sign, s1)" by fastforce
  obtain ip s2 where 2: "digits_prefix s1 = (ip, s2)" by fastforce
  obtain fp s3 where 3: "(if starts_with ''.'' s2 then (case digits_prefix (tl s2) of (f, q) \<Rightarrow> (CHR ''.'' # f, q))
      else ([], s2)) = (fp, s3)" by fastforce
  obtain ep s4 where 4: "(if s3 \<noteq> [] \<and> hd s3 \<in> {CHR ''e'', CHR ''E''} then
      (let (sg, q) = (if tl s3 \<noteq> [] \<and> hd (tl s3) \<in> {CHR ''+'', CHR ''-''} then ([hd (tl s3)], tl (tl s3)) else ([], tl s3));
           (e, q') = digits_prefix q in (CHR ''e'' # sg @ e, q')) else ([], s3)) = (ep, s4)" by fastforce
  have "ip \<noteq> []" "q = s4"
    using assms unfolding json_number_def Let_def 1 prod.case 2 3 4 [unfolded Let_def] by (auto split: if_splits)
  moreover have "length s1 \<le> length s" using 1 by (auto split: if_splits)
  moreover have "length s1 = length ip + length s2" by (rule digits_prefix_length [OF 2])
  moreover have "length s3 \<le> length s2"
    using 3 by (auto split: if_splits prod.splits dest: digits_prefix_length)
  moreover have "length s4 \<le> length s3"
    using 4 by (auto simp: Let_def split: if_splits prod.splits dest!: digits_prefix_length)
  ultimately show ?thesis by (cases ip) auto
qed

lemma tl_skip_length: "starts_with [c] (skip_space r) \<Longrightarrow> length (tl (skip_space r)) < length r"
  using skip_space_length [of r] by (cases "skip_space r") auto

lemma json_lengths:
  "json_value s = Some (v, q) \<Longrightarrow> length q < length s"
  "json_elems s = Some (vs, q) \<Longrightarrow> length q < length s"
  "json_members s = Some (kvs, q) \<Longrightarrow> length q < length s"
proof (induction s and s and s arbitrary: v q and vs q and kvs q
    rule: json_value_json_elems_json_members.induct)
  case (1 s)
  obtain c r where cr: "skip_space s = c # r" using "1.prems" by (cases "skip_space s") (simp_all add: json_value.simps)
  have len: "length r < length s" by (rule skip_space_Cons [OF cr])
  note v = "1.prems" [unfolded json_value.simps [of s] cr list.case]
  consider (str) t where "string_rest r = Some (t, q)" | (empty) c where "starts_with [c] (skip_space r)" "q = tl (skip_space r)"
    | (arr) xs where "c \<noteq> CHR 0x22" "c = CHR ''[''" "\<not> starts_with '']'' (skip_space r)" "json_elems r = Some (xs, q)"
    | (obj) kvs where "c \<noteq> CHR 0x22" "c \<noteq> CHR ''[''" "c = CHR 0x7B" "\<not> starts_with [CHR 0x7D] (skip_space r)" "json_members r = Some (kvs, q)"
    | (word) n where "q = drop n r" | (num) n where "json_number (c # r) = Some (n, q)"
    using v by (auto split: if_splits simp del: starts_with.simps)
  then show ?case
  proof cases
    case arr
    with 1(1) [OF cr] len show ?thesis by fastforce
  next
    case obj
    with 1(2) [OF cr] len show ?thesis by fastforce
  next
    case num
    with json_number_length [OF this] cr skip_space_length [of s] show ?thesis by simp
  qed (use len in \<open>auto dest: string_rest_length tl_skip_length\<close>)
next
  case (2 s)
  from "2.prems" obtain v0 q0 where v: "shorter s (json_value s) = Some (v0, q0)"
    by (subst (asm) json_elems.simps) (auto split: option.splits)
  obtain c r where cr: "skip_space q0 = c # r"
    using "2.prems" v by (subst (asm) json_elems.simps) (auto split: list.splits)
  have len: "length r < length s" using shorter_Some [OF v] skip_space_Cons [OF cr] by simp
  show ?case
  proof (cases "c = CHR '']''")
    case False
    with "2.prems" v cr obtain vs' where "c = CHR '',''" "json_elems r = Some (vs', q)"
      by (subst (asm) json_elems.simps) (auto split: if_splits)
    with 2(2) [OF v refl cr False] len show ?thesis by fastforce
  qed (use "2.prems" v cr len in \<open>simp add: json_elems.simps\<close>)
next
  case (3 s)
  from "3.prems" obtain r where r: "skip_space s = CHR 0x22 # r"
    by (subst (asm) json_members.simps) (auto split: list.splits if_splits)
  from "3.prems" r obtain k q0 where k: "shorter s (string_rest r) = Some (k, q0)"
    by (subst (asm) json_members.simps) (auto split: option.splits)
  from "3.prems" r k obtain q1 where q1: "skip_space q0 = CHR '':'' # q1"
    by (subst (asm) json_members.simps) (auto split: list.splits if_splits)
  from "3.prems" r k q1 obtain v q2 where v: "shorter s (json_value q1) = Some (v, q2)"
    by (subst (asm) json_members.simps) (auto split: option.splits)
  from "3.prems" r k q1 v obtain e q3 where q3: "skip_space q2 = e # q3"
    by (subst (asm) json_members.simps) (auto split: list.splits)
  have len: "length q3 < length s" using shorter_Some [OF v] skip_space_Cons [OF q3] by simp
  show ?case
  proof (cases "e = CHR 0x7D")
    case False
    with "3.prems" r k q1 v q3 obtain kvs' where "e = CHR '',''" "json_members q3 = Some (kvs', q)"
      by (subst (asm) json_members.simps) (auto split: if_splits)
    with 3(2) [OF r _ k refl q1 _ v refl q3 False] len show ?thesis by fastforce
  qed (use "3.prems" r k q1 v q3 len in \<open>simp add: json_members.simps\<close>)
qed

text \<open>So the guards of the definition never reject: each parser calls the others on what is left.\<close>

lemma guard_never_rejects:
  "shorter s (json_value s) = json_value s"
  "length q1 < length s \<Longrightarrow> shorter s (json_value q1) = json_value q1"
  using json_lengths(1) by (fastforce simp: shorter_def split: option.split)+

end
