(* ===== verification/Playground.thy ===== *)
theory Playground
  imports Format JsonParse
begin

text \<open>
  The playground of \<open>app.js\<close>: building a request in one of three formats, reading the replies, streamed
  (server-sent events cut anywhere) or whole, the send/stop life cycle, and the rendered messages.

  A message is a JavaScript object; the list of messages holds references to them, so they live in a
  heap and what a running request writes is seen wherever the object is. A stream arrives in chunks of bytes,
  cut anywhere, which the stateful UTF-8 decoder of the browser (\<open>TextDecoder\<close> with \<open>stream: true\<close>) turns into text.
\<close>

section \<open>Numbers of the form\<close>

text \<open>The longest numeric prefix, as \<open>parseFloat\<close> and \<open>parseInt(s, 10)\<close> read it.\<close>

definition cut_sign :: "string \<Rightarrow> bool \<times> string" where
  "cut_sign s = (if starts_with ''-'' s then (True, tl s) else if starts_with ''+'' s then (False, tl s) else (False, s))"

definition parseInt10 :: "string \<Rightarrow> jsnum" where
  "parseInt10 s =
     (let (neg, r) = cut_sign (dropWhile is_js_space s); d = takeWhile is_digit r
      in if d = [] then NaN
         else if neg then num_neg (Fin (of_int (digits_val 10 d))) else Fin (of_int (digits_val 10 d)))"

definition float_exponent :: "string \<Rightarrow> string" where
  "float_exponent s =
     (if s \<noteq> [] \<and> hd s \<in> {CHR ''e'', CHR ''E''} then
        (let q = tl s;
             (sg, r) = (if q \<noteq> [] \<and> hd q \<in> {CHR ''+'', CHR ''-''} then ([hd q], tl q) else ([], q));
             d = takeWhile is_digit r
         in if d = [] then [] else CHR ''e'' # sg @ d)
      else [])"

definition parseFloat :: "string \<Rightarrow> jsnum" where
  "parseFloat s =
     (let (neg, r) = cut_sign (dropWhile is_js_space s);
          ip = takeWhile is_digit r; r1 = dropWhile is_digit r;
          fp = (if starts_with ''.'' r1 then takeWhile is_digit (tl r1) else []);
          r2 = (if starts_with ''.'' r1 then dropWhile is_digit (tl r1) else r1)
      in if starts_with ''Infinity'' r then (if neg then NInf else PInf)
         else if ip = [] \<and> fp = [] then NaN
         else (let n = str_to_num (ip @ (if fp = [] then [] else CHR ''.'' # fp) @ float_exponent r2)
               in if neg then num_neg n else n))"

section \<open>The request\<close>

record pg_form =
  pf_model :: "string option"
  pf_temperature :: "string option"
  pf_maxTokens :: "string option"
  pf_topP :: "string option"
  pf_stream :: "bool option"
  pf_history :: "bool option"
  pf_system :: "string option"

text \<open>\<open>el(id)?.value || d\<close>.\<close>

definition value_or :: "string option \<Rightarrow> string \<Rightarrow> string" where
  "value_or v d = (case v of None \<Rightarrow> d | Some s \<Rightarrow> if s = [] then d else s)"

definition pgEndpoint :: "string \<Rightarrow> string" where
  "pgEndpoint fmt =
     (if fmt = ''anthropic_messages'' then ''/v1/messages''
      else if fmt = ''responses'' then ''/v1/responses'' else ''/v1/chat/completions'')"

definition role_content :: "jsval \<Rightarrow> jsval" where
  "role_content m = Obj [(''role'', get m ''role''), (''content'', get m ''content'')]"

definition plain_message :: "string \<Rightarrow> string \<Rightarrow> jsval" where
  "plain_message role content = Obj [(''role'', Str role), (''content'', Str content)]"

text \<open>\<open>messages\<close> are the objects of \<open>pg.messages\<close> as they are when the body is serialised.\<close>

definition request_messages :: "pg_form \<Rightarrow> jsval list \<Rightarrow> string \<Rightarrow> jsval list" where
  "request_messages form messages userText =
     (let history = (if pf_history form = Some True then messages else []);
          sysPrompt = js_trim (value_or (pf_system form) [])
      in (if sysPrompt \<noteq> [] then [plain_message ''system'' sysPrompt] else []) @ history
         @ [plain_message ''user'' userText])"

definition pgBuildRequest :: "pg_form \<Rightarrow> string \<Rightarrow> jsval list \<Rightarrow> string \<Rightarrow> jsval" where
  "pgBuildRequest form fmt messages userText =
     (let model = Str (value_or (pf_model form) []);
          temperature = Num (parseFloat (value_or (pf_temperature form) ''0.7''));
          maxTokens = Num (parseInt10 (value_or (pf_maxTokens form) ''4096''));
          topP = Num (parseFloat (value_or (pf_topP form) ''1''));
          stream = Bool (pf_stream form \<noteq> Some False);
          sysPrompt = js_trim (value_or (pf_system form) []);
          msgs = request_messages form messages userText
      in if fmt = ''anthropic_messages'' then
           Obj ([(''model'', model),
                 (''messages'', Arr (map role_content (filter (\<lambda>m. get m ''role'' \<noteq> Str ''system'') msgs))),
                 (''max_tokens'', maxTokens), (''temperature'', temperature), (''top_p'', topP), (''stream'', stream)]
                @ (if sysPrompt \<noteq> [] then [(''system'', Str sysPrompt)] else []))
         else if fmt = ''responses'' then
           Obj [(''model'', model), (''input'', Arr (map role_content msgs)), (''max_output_tokens'', maxTokens),
                (''temperature'', temperature), (''top_p'', topP), (''stream'', stream)]
         else
           Obj [(''model'', model), (''messages'', Arr msgs), (''temperature'', temperature),
                (''max_tokens'', maxTokens), (''top_p'', topP), (''stream'', stream)])"

section \<open>Reading replies\<close>

definition pgShortText :: "jsval \<Rightarrow> nat \<Rightarrow> string" where
  "pgShortText v limit =
     (let s = str_or_empty v in if length s > limit then take (limit - 1) s @ ''...'' else s)"

definition first_present :: "string list \<Rightarrow> (string \<times> (bool \<times> string)) list \<Rightarrow> string" where
  "first_present keys kvs =
     (case List.find (\<lambda>k. case map_of kvs k of Some (absent, _) \<Rightarrow> \<not> absent | None \<Rightarrow> False) keys of
        Some k \<Rightarrow> (case map_of kvs k of Some (_, txt) \<Rightarrow> txt | None \<Rightarrow> [])
      | None \<Rightarrow> [])"

fun pgTextFromAny :: "jsval \<Rightarrow> string" where
  "pgTextFromAny Undef = []"
| "pgTextFromAny Null = []"
| "pgTextFromAny (Str s) = s"
| "pgTextFromAny (Num n) = num_to_str n"
| "pgTextFromAny (Bool b) = (if b then ''true'' else ''false'')"
| "pgTextFromAny (Arr xs) = concat (map pgTextFromAny xs)"
| "pgTextFromAny (Obj kvs) =
     first_present [''text'', ''content'', ''summary'', ''thinking'']
       (map (\<lambda>(k, v). (k, nullish v, pgTextFromAny v)) kvs)"

definition pgAppendStreamText :: "jsval \<Rightarrow> jsval \<Rightarrow> string" where
  "pgAppendStreamText current incoming =
     (let base = str_or_empty current; txt = str_or_empty incoming
      in if txt = [] then base else if base = [] then txt
         else if starts_with base txt then txt else base @ txt)"

text \<open>\<open>v?.[0]\<close>.\<close>

definition first_item :: "jsval \<Rightarrow> jsval" where
  "first_item v = (case v of
      Arr (x # _) \<Rightarrow> x | Str (c # _) \<Rightarrow> Str [c] | Obj kvs \<Rightarrow> lookup ''0'' kvs | _ \<Rightarrow> Undef)"

record pg_delta =
  de_content :: jsval
  de_reasoning :: jsval
  de_done :: bool

definition no_delta :: pg_delta where
  "no_delta = \<lparr>de_content = Str [], de_reasoning = Str [], de_done = False\<rparr>"

definition thinking_of :: "jsval \<Rightarrow> string" where
  "thinking_of m = pgTextFromAny (jcoalesce (jcoalesce (get m ''reasoning_content'') (get m ''reasoning'')) (get m ''thinking''))"

definition anthropic_delta :: "jsval \<Rightarrow> pg_delta" where
  "anthropic_delta chunk =
     (let d = get chunk ''delta''; is_delta = (get chunk ''type'' = Str ''content_block_delta'' \<and> truthy d)
      in \<lparr>de_content = (if is_delta \<and> get d ''type'' = Str ''text_delta'' then jor (get d ''text'') (Str []) else Str []),
          de_reasoning = (if is_delta \<and> get d ''type'' = Str ''thinking_delta'' then jor (get d ''thinking'') (Str []) else Str []),
          de_done = (get chunk ''type'' = Str ''message_stop'')\<rparr>)"

definition responses_delta :: "jsval \<Rightarrow> pg_delta" where
  "responses_delta chunk =
     \<lparr>de_content = (if get chunk ''type'' = Str ''response.output_text.delta'' then jor (get chunk ''delta'') (Str []) else Str []),
      de_reasoning = (if get chunk ''type'' \<in> {Str ''response.reasoning_summary_text.delta'',
                           Str ''response.reasoning_summary.delta'', Str ''response.reasoning_text.delta''}
                      then jor (jor (get chunk ''delta'') (get chunk ''text'')) (Str []) else Str []),
      de_done = (get chunk ''type'' = Str ''response.completed'')\<rparr>"

definition chat_delta :: "jsval \<Rightarrow> pg_delta" where
  "chat_delta chunk =
     (let choice = first_item (get chunk ''choices'') in
      if \<not> truthy choice then no_delta
      else \<lparr>de_content = jor (get (get choice ''delta'') ''content'') (Str []),
            de_reasoning = Str (thinking_of (get choice ''delta'')),
            de_done = truthy (get choice ''finish_reason'')\<rparr>)"

definition pgExtractDelta :: "jsval \<Rightarrow> string \<Rightarrow> pg_delta" where
  "pgExtractDelta chunk fmt =
     (if fmt = ''anthropic_messages'' then anthropic_delta chunk
      else if fmt = ''responses'' then responses_delta chunk else chat_delta chunk)"

definition pgExtractContent :: "jsval \<Rightarrow> string \<Rightarrow> jsval" where
  "pgExtractContent chunk fmt =
     (let d = pgExtractDelta chunk fmt in if de_done d then Null else de_content d)"

definition pgExtractReasoning :: "jsval \<Rightarrow> string \<Rightarrow> jsval" where
  "pgExtractReasoning chunk fmt = de_reasoning (pgExtractDelta chunk fmt)"

definition usage_pair :: "jsval \<Rightarrow> string \<Rightarrow> string \<Rightarrow> jsval" where
  "usage_pair u inp outp =
     Obj [(''input_tokens'', jor (get u inp) (jnum 0)), (''output_tokens'', jor (get u outp) (jnum 0))]"

definition pgExtractUsage :: "jsval \<Rightarrow> string \<Rightarrow> jsval" where
  "pgExtractUsage data fmt =
     (let u = get data ''usage''; mu = get (get data ''message'') ''usage''
      in if fmt = ''anthropic_messages'' \<and> truthy u then usage_pair u ''input_tokens'' ''output_tokens''
         else if fmt = ''anthropic_messages'' \<and> truthy mu then usage_pair mu ''input_tokens'' ''output_tokens''
         else if fmt = ''responses'' \<and> truthy u then usage_pair u ''input_tokens'' ''output_tokens''
         else if truthy u then usage_pair u ''prompt_tokens'' ''completion_tokens''
         else Null)"

text \<open>
  The whole replies. Reading a property of a null block raises a TypeError in the source; the model is for
  replies whose blocks are objects, where \<open>get\<close> reads the same.
\<close>

definition texts_of :: "string \<Rightarrow> jsval list \<Rightarrow> string" where
  "texts_of k blocks = concat (map (\<lambda>b. to_str (jor (get b k) (Str []))) blocks)"

definition pgExtractNonStreamContent :: "jsval \<Rightarrow> string \<Rightarrow> jsval" where
  "pgExtractNonStreamContent data fmt =
     (if fmt = ''anthropic_messages'' then
        Str (texts_of ''text'' (filter (\<lambda>b. get b ''type'' = Str ''text'') (arr_or_empty (get data ''content''))))
      else if fmt = ''responses'' then
        jor (get data ''output_text'')
          (Str (concat (map (\<lambda>b. texts_of ''text'' (arr_or_empty (get b ''content'')))
             (filter (\<lambda>b. get b ''type'' = Str ''message'') (arr_or_empty (get data ''output''))))))
      else jor (get (get (first_item (get data ''choices'')) ''message'') ''content'') (Str []))"

definition reasoning_parts :: "jsval \<Rightarrow> string" where
  "reasoning_parts item =
     concat (map pgTextFromAny (arr_or_empty (get item ''summary'')))
     @ (if truthy (get item ''text'') then pgTextFromAny (get item ''text'') else [])
     @ (if truthy (get item ''content'') then pgTextFromAny (get item ''content'') else [])"

definition pgExtractNonStreamReasoning :: "jsval \<Rightarrow> string \<Rightarrow> string" where
  "pgExtractNonStreamReasoning data fmt =
     (if fmt = ''anthropic_messages'' then
        texts_of ''thinking'' (filter (\<lambda>b. get b ''type'' = Str ''thinking'') (arr_or_empty (get data ''content'')))
      else if fmt = ''responses'' then
        concat (map reasoning_parts
          (filter (\<lambda>i. get i ''type'' = Str ''reasoning'') (arr_or_empty (get data ''output''))))
      else thinking_of (jor (get (first_item (get data ''choices'')) ''message'') (Obj [])))"

section \<open>Decoding\<close>

text \<open>
  \<open>TextDecoder\<close>: the UTF-8 decoder of the Encoding standard as a machine over bytes. It holds the code point read
  so far, how many bytes it still needs, and the bounds of the next one; an ill-formed sequence gives U+FFFD and
  the byte that broke it is read again as a first byte; a byte order mark at the start is dropped.
\<close>

record text_decoder =
  td_point :: int
  td_needed :: nat
  td_lower :: int
  td_upper :: int
  td_started :: bool

definition decoder_new :: text_decoder where
  "decoder_new = \<lparr>td_point = 0, td_needed = 0, td_lower = 0x80, td_upper = 0xBF, td_started = False\<rparr>"

definition emit :: "int \<Rightarrow> text_decoder \<Rightarrow> text_decoder \<times> int list" where
  "emit p d = (d\<lparr>td_started := True\<rparr>, if \<not> td_started d \<and> p = 0xFEFF then [] else [p])"

definition decode_lead :: "int \<Rightarrow> text_decoder \<Rightarrow> text_decoder \<times> int list" where
  "decode_lead b d =
     (if b \<le> 0x7F then emit b d
      else if 0xC2 \<le> b \<and> b \<le> 0xDF then (d\<lparr>td_needed := 1, td_point := b mod 32\<rparr>, [])
      else if 0xE0 \<le> b \<and> b \<le> 0xEF
      then (d\<lparr>td_needed := 2, td_point := b mod 16, td_lower := (if b = 0xE0 then 0xA0 else 0x80),
              td_upper := (if b = 0xED then 0x9F else 0xBF)\<rparr>, [])
      else if 0xF0 \<le> b \<and> b \<le> 0xF4
      then (d\<lparr>td_needed := 3, td_point := b mod 8, td_lower := (if b = 0xF0 then 0x90 else 0x80),
              td_upper := (if b = 0xF4 then 0x8F else 0xBF)\<rparr>, [])
      else emit 0xFFFD d)"

definition decode_byte :: "int \<Rightarrow> text_decoder \<Rightarrow> text_decoder \<times> int list" where
  "decode_byte b d =
     (if td_needed d = 0 then decode_lead b d
      else (let d0 = d\<lparr>td_lower := 0x80, td_upper := 0xBF\<rparr>; p = td_point d * 64 + b mod 64 in
        if b < td_lower d \<or> td_upper d < b
        then (let (d1, ps) = emit 0xFFFD (d0\<lparr>td_needed := 0, td_point := 0\<rparr>); (d2, qs) = decode_lead b d1
              in (d2, ps @ qs))
        else if td_needed d = 1 then emit p (d0\<lparr>td_needed := 0, td_point := 0\<rparr>)
        else (d0\<lparr>td_needed := td_needed d - 1, td_point := p\<rparr>, [])))"

text \<open>The strings of this model are Latin-1; how other code points are written in them is the argument \<open>u\<close>.\<close>

definition point_text :: "(int \<Rightarrow> string) \<Rightarrow> int \<Rightarrow> string" where
  "point_text u p = (if p < 256 then [char_of p] else u p)"

fun decode_bytes :: "(int \<Rightarrow> string) \<Rightarrow> int list \<Rightarrow> text_decoder \<Rightarrow> string \<times> text_decoder" where
  "decode_bytes u [] d = ([], d)"
| "decode_bytes u (b # bs) d =
     (let (d1, ps) = decode_byte b d; (txt, d2) = decode_bytes u bs d1
      in (concat (map (point_text u) ps) @ txt, d2))"

section \<open>Streams\<close>

text \<open>A chunk of the body: when it arrives, the format selected then (the code rereads \<open>pg.format\<close>), its bytes.\<close>

record stream_chunk =
  ch_at :: rat
  ch_format :: string
  ch_bytes :: "int list"

record stream_state =
  ss_decoder :: text_decoder
  ss_buffer :: string
  ss_gotFirst :: bool
  ss_firstAt :: "rat option"
  ss_message :: jsval

text \<open>Writing a property of the message object.\<close>

definition set_field :: "string \<Rightarrow> jsval \<Rightarrow> jsval \<Rightarrow> jsval" where
  "set_field k v m = Obj (set_prop k v (obj_fields m))"

definition apply_chunk :: "string \<Rightarrow> jsval \<Rightarrow> jsval \<Rightarrow> jsval" where
  "apply_chunk fmt chunk m =
     (let d = pgExtractDelta chunk fmt;
          m1 = (if truthy (de_content d)
                then set_field ''content'' (Str (pgAppendStreamText (get m ''content'') (de_content d))) m else m);
          m2 = (if truthy (de_reasoning d)
                then set_field ''reasoning'' (Str (pgAppendStreamText (get m1 ''reasoning'') (de_reasoning d))) m1 else m1);
          u = pgExtractUsage chunk fmt;
          m3 = (if truthy u then set_field ''usage'' u m2 else m2)
      in if truthy (get chunk ''provider'') \<and> \<not> truthy (get m3 ''provider'')
         then set_field ''provider'' (get chunk ''provider'') m3 else m3)"

text \<open>The payload of a line: \<open>None\<close> for a blank, a comment, another field, or \<open>[DONE]\<close>.\<close>

definition line_payload :: "string \<Rightarrow> string option" where
  "line_payload line =
     (let s = js_trim line in
      if s = [] \<or> starts_with '':'' s \<or> \<not> starts_with ''data:'' s then None
      else (let payload = js_trim (drop 5 s) in if payload = ''[DONE]'' then None else Some payload))"

text \<open>A payload that is not JSON is skipped; \<open>null\<close> counts as the first event and then raises, which is caught.\<close>

definition stream_line :: "string \<Rightarrow> rat \<Rightarrow> string \<Rightarrow> stream_state \<Rightarrow> stream_state" where
  "stream_line fmt now line st =
     (case line_payload line of None \<Rightarrow> st
      | Some payload \<Rightarrow>
          (case json_parse payload of None \<Rightarrow> st
           | Some chunk \<Rightarrow>
               (let st1 = (if ss_gotFirst st then st else st\<lparr>ss_gotFirst := True, ss_firstAt := Some now\<rparr>)
                in if nullish chunk then st1
                   else st1\<lparr>ss_message := apply_chunk fmt chunk (ss_message st1)\<rparr>)))"

text \<open>One chunk: the complete lines are processed, the rest of the text waits in the buffer.\<close>

definition stream_piece :: "(int \<Rightarrow> string) \<Rightarrow> stream_chunk \<Rightarrow> stream_state \<Rightarrow> stream_state" where
  "stream_piece u c st =
     (let (txt, d) = decode_bytes u (ch_bytes c) (ss_decoder st);
          lines = js_split (\<lambda>c. c = CHR 0x0A) (ss_buffer st @ txt)
      in fold (stream_line (ch_format c) (ch_at c)) (butlast lines) (st\<lparr>ss_decoder := d, ss_buffer := last lines\<rparr>))"

definition stream_start :: "jsval \<Rightarrow> stream_state" where
  "stream_start message =
     \<lparr>ss_decoder = decoder_new, ss_buffer = [], ss_gotFirst = False, ss_firstAt = None, ss_message = message\<rparr>"

definition pgHandleStream :: "(int \<Rightarrow> string) \<Rightarrow> stream_chunk list \<Rightarrow> jsval \<Rightarrow> stream_state" where
  "pgHandleStream u chunks message = fold (stream_piece u) chunks (stream_start message)"

section \<open>Where a request went\<close>

definition copy_if :: "(jsval \<Rightarrow> bool) \<Rightarrow> jsval \<Rightarrow> string \<Rightarrow> jsval \<Rightarrow> jsval" where
  "copy_if ok trace k m = (if ok (get trace k) then set_field k (get trace k) m else m)"

definition pgApplyTraceToMessage :: "jsval \<Rightarrow> jsval \<Rightarrow> jsval" where
  "pgApplyTraceToMessage message trace =
     (if \<not> truthy message \<or> \<not> truthy trace then message
      else fold (\<lambda>(k, ok). copy_if ok trace k)
        [(''requestId'', truthy), (''clientFormat'', truthy), (''provider'', truthy), (''keyIndex'', \<lambda>v. \<not> nullish v),
         (''keyMasked'', truthy), (''upstreamFormat'', truthy), (''providerModel'', truthy), (''routeHeadline'', truthy),
         (''firstByteMs'', \<lambda>v. \<not> nullish v), (''totalMs'', \<lambda>v. \<not> nullish v), (''usage'', truthy)] message)"

text \<open>\<open>headers\<close> is \<open>resp.headers.get\<close>.\<close>

definition header_or_null :: "(string \<Rightarrow> string option) \<Rightarrow> string \<Rightarrow> jsval" where
  "header_or_null headers k = (case headers k of Some s \<Rightarrow> if s = [] then Null else Str s | None \<Rightarrow> Null)"

definition pgExtractRouteHeaders :: "(string \<Rightarrow> string option) \<Rightarrow> jsval" where
  "pgExtractRouteHeaders headers =
     (if \<not> truthy (header_or_null headers ''x-route-provider'') then Null
      else Obj [(''provider'', header_or_null headers ''x-route-provider''), (''keyIndex'', Null),
                (''keyMasked'', header_or_null headers ''x-route-key''),
                (''upstreamFormat'', header_or_null headers ''x-route-format''),
                (''providerModel'', header_or_null headers ''x-route-model''),
                (''attemptNo'', header_or_null headers ''x-route-attempt'')])"

definition final_attempt :: "jsval list \<Rightarrow> jsval" where
  "final_attempt attempts =
     (case List.find (\<lambda>a. str_or_empty (get a ''outcome'') = ''success'') attempts of
        Some a \<Rightarrow> jor a (jor (last attempts) (Obj []))
      | None \<Rightarrow> if attempts = [] then Obj [] else jor (last attempts) (Obj []))"

definition pgRouteTraceFromDetail :: "jsval \<Rightarrow> jsval" where
  "pgRouteTraceFromDetail detail =
     (if \<not> is_object detail then Null
      else (let a = final_attempt (arr_or_empty (get detail ''attempts''));
                s = jor (get detail ''routing_summary'') (Obj []);
                either = (\<lambda>x y. jor (jor x y) (Str []))
            in Obj [(''requestId'', jor (get detail ''request_id'') (Str [])),
                    (''clientFormat'', jor (get detail ''client_format'') (Str [])),
                    (''provider'', either (get a ''provider'') (get s ''final_provider'')),
                    (''keyIndex'', jcoalesce (get a ''key_index'') Null),
                    (''keyMasked'', jor (get a ''key_masked'') (Str [])),
                    (''upstreamFormat'', either (get a ''upstream_format'') (get s ''final_upstream_format'')),
                    (''providerModel'', either (get a ''provider_model'') (get detail ''model'')),
                    (''firstByteMs'', jor (get detail ''first_byte_ms'') Null),
                    (''totalMs'', jor (get detail ''duration_ms'') Null),
                    (''usage'', jor (jor (get detail ''usage'') (get a ''usage'')) Null),
                    (''routeHeadline'', jor (get s ''headline'') (Str []))]))"

text \<open>Three attempts at most; an attempt is what \<open>apiGet\<close> gives (\<open>Inl\<close> when it rejects).\<close>

fun fetch_trace :: "nat \<Rightarrow> (nat \<Rightarrow> string + jsval) \<Rightarrow> nat \<Rightarrow> jsval" where
  "fetch_trace 0 reply attempt = Null"
| "fetch_trace (Suc left) reply attempt =
     (case reply attempt of
        Inr detail \<Rightarrow> pgRouteTraceFromDetail detail
      | Inl _ \<Rightarrow> fetch_trace left reply (Suc attempt))"

definition pgFetchRouteTrace :: "string \<Rightarrow> (nat \<Rightarrow> string + jsval) \<Rightarrow> jsval" where
  "pgFetchRouteTrace requestId reply = (if requestId = [] then Null else fetch_trace 3 reply 0)"

section \<open>Sending\<close>

record pg_state =
  pg_heap :: "nat \<Rightarrow> jsval"
  pg_next :: nat
  pg_messages :: "nat list"
  pg_format :: string
  pg_loading :: bool
  pg_sendHidden :: "bool option"
  pg_stopHidden :: "bool option"
  pg_abort :: bool
  pg_input :: string
  pg_firstByteMs :: "rat option"
  pg_models :: "string list"
  pg_model :: string
  pg_status :: string

definition new_message :: "jsval \<Rightarrow> pg_state \<Rightarrow> pg_state \<times> nat" where
  "new_message m s =
     (s\<lparr>pg_heap := (pg_heap s)(pg_next s := m), pg_next := Suc (pg_next s), pg_messages := pg_messages s @ [pg_next s]\<rparr>,
      pg_next s)"

definition update_message :: "nat \<Rightarrow> (jsval \<Rightarrow> jsval) \<Rightarrow> pg_state \<Rightarrow> pg_state" where
  "update_message i f s = s\<lparr>pg_heap := (pg_heap s)(i := f (pg_heap s i))\<rparr>"

record pg_flight =
  pk_message :: nat
  pk_requestId :: string
  pk_format :: string
  pk_endpoint :: string
  pk_body :: jsval
  pk_text :: string

text \<open>
  \<open>pgSend\<close> up to its \<open>fetch\<close>. A button that is not on the page is \<open>None\<close>. Both messages are in the list when the body is built, and the body is
  serialised when the assistant message already has its request fields.
\<close>

definition pgSend_start :: "pg_form \<Rightarrow> string \<Rightarrow> pg_state \<Rightarrow> pg_state \<times> pg_flight option" where
  "pgSend_start form requestId s =
     (let userText = js_trim (pg_input s) in
      if userText = [] \<or> pg_loading s then (s, None)
      else (let s1 = s\<lparr>pg_input := []\<rparr>;
                (s2, u) = new_message (plain_message ''user'' userText) s1;
                (s3, a) = new_message (Obj [(''role'', Str ''assistant''), (''content'', Str []),
                             (''reasoning'', Str []), (''streaming'', Bool True)]) s2;
                s4 = update_message a (\<lambda>m. set_field ''clientFormat'' (Str (pg_format s))
                       (set_field ''sentText'' (Str userText) (set_field ''requestId'' (Str requestId) m)))
                       (s3\<lparr>pg_loading := True, pg_sendHidden := map_option (\<lambda>_. True) (pg_sendHidden s3),
                         pg_stopHidden := map_option (\<lambda>_. False) (pg_stopHidden s3), pg_abort := True, pg_firstByteMs := None, pg_status := ''pg.sending''\<rparr>)
            in (s4, Some \<lparr>pk_message = a, pk_requestId = requestId, pk_format = pg_format s,
                          pk_endpoint = pgEndpoint (pg_format s),
                          pk_body = pgBuildRequest form (pg_format s) (map (pg_heap s4) (pg_messages s4)) userText,
                          pk_text = userText\<rparr>)))"

text \<open>
  What \<open>fetch\<close> and the body reading end with: an abort, another error, a stream or a whole reply. The headers give the
  route (null when there was no response) and come with the format selected when they arrived; a whole reply
  comes with the format selected when its body had been read, and the trace looked up afterwards is filed under the
  format selected at the end, \<open>pg_format\<close> of the state: \<open>pg.format\<close> is read anew each time.
\<close>

record pg_headers =
  hd_route :: jsval
  hd_format :: string

datatype pg_outcome =
    Aborted pg_headers "stream_chunk list"
  | Failed string pg_headers "stream_chunk list"
  | Streamed "stream_chunk list" pg_headers jsval rat
  | Whole jsval string pg_headers jsval rat

definition stop_text :: string where
  "stop_text = CHR 0x0A # ''[stopped by user]''"

definition done_message :: "pg_flight \<Rightarrow> jsval \<Rightarrow> rat \<Rightarrow> string \<Rightarrow> jsval \<Rightarrow> jsval" where
  "done_message f trace total_ms fmt m =
     (let m1 = set_field ''totalMs'' (Num (Fin total_ms)) (set_field ''streaming'' (Bool False) m)
      in if truthy trace
         then pgApplyTraceToMessage m1 (set_field ''sentText'' (Str (pk_text f))
                (set_field ''clientFormat'' (jor (get trace ''clientFormat'') (Str fmt)) trace))
         else m1)"

definition header_message :: "pg_flight \<Rightarrow> pg_headers \<Rightarrow> jsval \<Rightarrow> jsval" where
  "header_message f hs m =
     (if truthy (hd_route hs)
      then pgApplyTraceToMessage m (set_field ''sentText'' (Str (pk_text f)) (set_field ''clientFormat'' (Str (hd_format hs))
             (set_field ''requestId'' (Str (pk_requestId f)) (hd_route hs))))
      else m)"

definition read_stream :: "(int \<Rightarrow> string) \<Rightarrow> nat \<Rightarrow> stream_chunk list \<Rightarrow> pg_state \<Rightarrow> pg_state" where
  "read_stream u i chunks s =
     (let st = pgHandleStream u chunks (pg_heap s i)
      in update_message i (\<lambda>_. ss_message st)
           (if ss_firstAt st = None then s else s\<lparr>pg_firstByteMs := ss_firstAt st\<rparr>))"

definition pgSend_outcome :: "(int \<Rightarrow> string) \<Rightarrow> pg_flight \<Rightarrow> pg_outcome \<Rightarrow> pg_state \<Rightarrow> pg_state" where
  "pgSend_outcome u f out s =
     (let i = pk_message f in
      case out of
        Aborted hs chunks \<Rightarrow>
          (update_message i (\<lambda>m. set_field ''streaming'' (Bool False)
             (set_field ''content'' (Str (to_str (get m ''content'') @ stop_text)) m))
             (read_stream u i chunks (update_message i (header_message f hs) s)))
             \<lparr>pg_status := ''pg.stopped''\<rparr>
      | Failed err hs chunks \<Rightarrow>
          (update_message i (\<lambda>m. set_field ''streaming'' (Bool False) (set_field ''error'' (Str err) m))
             (read_stream u i chunks (update_message i (header_message f hs) s)))\<lparr>pg_status := ''pg.error''\<rparr>
      | Streamed chunks hs trace total_ms \<Rightarrow>
          (update_message i (done_message f trace total_ms (pg_format s))
             (read_stream u i chunks (update_message i (header_message f hs) s)))\<lparr>pg_status := ''pg.done''\<rparr>
      | Whole data fmt hs trace total_ms \<Rightarrow>
          (update_message i (done_message f trace total_ms (pg_format s))
             (update_message i (\<lambda>m. set_field ''usage'' (pgExtractUsage data fmt)
                (set_field ''reasoning'' (Str (pgExtractNonStreamReasoning data fmt))
                  (set_field ''content'' (pgExtractNonStreamContent data fmt) (header_message f hs m)))) s))
             \<lparr>pg_status := ''pg.done''\<rparr>)"

text \<open>The \<open>finally\<close> block.\<close>

definition pgSend_finish :: "(int \<Rightarrow> string) \<Rightarrow> pg_flight \<Rightarrow> pg_outcome \<Rightarrow> pg_state \<Rightarrow> pg_state" where
  "pgSend_finish u f out s =
     (let s1 = pgSend_outcome u f out s
      in s1\<lparr>pg_loading := False, pg_abort := False,
            pg_sendHidden := map_option (\<lambda>_. False) (pg_sendHidden s1),
            pg_stopHidden := map_option (\<lambda>_. True) (pg_stopHidden s1)\<rparr>)"

definition pgClear :: "pg_state \<Rightarrow> pg_state" where
  "pgClear s = s\<lparr>pg_messages := [], pg_status := ''pg.ready''\<rparr>"

text \<open>\<open>pgStop\<close>: whether an abort signal is sent.\<close>

definition pgStop :: "pg_state \<Rightarrow> bool" where
  "pgStop s = pg_abort s"

section \<open>The model picker\<close>

definition pgPopulateModelSelect :: "pg_state \<Rightarrow> pg_state" where
  "pgPopulateModelSelect s =
     (if pg_model s = [] \<or> pg_model s \<notin> set (pg_models s)
      then s\<lparr>pg_model := (case pg_models s of [] \<Rightarrow> [] | m # _ \<Rightarrow> m)\<rparr> else s)"

definition pgFilterModels :: "jsval \<Rightarrow> string list \<Rightarrow> string list" where
  "pgFilterModels query models =
     (let q = js_trim (js_lower (str_or_empty query)) in
      if q = [] then models else filter (\<lambda>m. js_includes q (js_lower m)) models)"

definition pgModelOptions :: "jsval \<Rightarrow> string \<Rightarrow> string list \<Rightarrow> string" where
  "pgModelOptions query current models =
     (let filtered = pgFilterModels query models in
      if filtered = [] then (''<div class=\"pg-model-empty\">No models found</div>'')
      else concat (map (\<lambda>i. (''<div class=\"pg-model-option'' @ (if i = current then '' selected'' else []) @
         ''\" data-model=\"'' @ escape_text i @ ''\">'' @ escape_text i @ ''</div>'')) filtered))"

section \<open>Rendered messages\<close>

definition pgEsc :: "jsval \<Rightarrow> string" where
  "pgEsc v = escape_text (str_or_empty v)"

definition seconds_text :: "jsval \<Rightarrow> string" where
  "seconds_text v = toFixed 2 (num_div (to_num v) (Fin 1000)) @ ''s''"

definition token_in :: "jsval \<Rightarrow> string" where
  "token_in u = to_str (jor (jor (get u ''input_tokens'') (get u ''prompt_tokens'')) (jnum 0))"

definition token_out :: "jsval \<Rightarrow> string" where
  "token_out u = to_str (jor (jor (get u ''output_tokens'') (get u ''completion_tokens'')) (jnum 0))"

definition pgRenderThinking :: "jsval \<Rightarrow> string" where
  "pgRenderThinking m =
     (if jor (get m ''role'') (Str []) \<noteq> Str ''assistant'' then []
      else (let txt = str_or_empty (get m ''reasoning''); shown = (js_trim txt \<noteq> []);
                isOpen = (shown \<and> truthy (get m ''streaming''))
            in (''<details class=\"pg-thinking\" '' @
               (if shown then (if isOpen then ''open'' else []) else ''hidden'') @ ''>'' @ nl 6 @
               ''<summary>Thinking'' @
               (if txt \<noteq> [] then ('' '' @ [CHR 0xB7] @ '' '' @ (num_to_str (Fin (of_nat (length txt)))) @ '' chars'') else []) @
               ''</summary>'' @ nl 6 @ ''<pre class=\"pg-thinking-text\">'' @ escape_text txt @
               ''</pre>'' @ nl 4 @ ''</details>'')))"

definition meta_parts :: "jsval \<Rightarrow> string list" where
  "meta_parts m =
     [''provider:'' @ pgEsc (get m ''provider'')]
     @ (if truthy (get m ''keyMasked'') then [''key:'' @ pgEsc (get m ''keyMasked'')]
        else if \<not> nullish (get m ''keyIndex'') then [''key:'' @ to_str (get m ''keyIndex'')] else [])
     @ (if truthy (get m ''clientFormat'') then [''client:'' @ pgEsc (get m ''clientFormat'')] else [])
     @ (if truthy (get m ''upstreamFormat'') then [''upstream:'' @ pgEsc (get m ''upstreamFormat'')] else [])
     @ (if \<not> nullish (get m ''firstByteMs'') then [to_str (get m ''firstByteMs'') @ ''ms first byte''] else [])
     @ (if \<not> nullish (get m ''totalMs'') then [seconds_text (get m ''totalMs'') @ '' total''] else [])
     @ (if truthy (get m ''usage'')
        then [token_in (get m ''usage'') @ '' in / '' @ token_out (get m ''usage'') @ '' out''] else [])"

text \<open>\<open>content\<close> is \<open>pgRenderContent(m)\<close>; \<open>String.replace\<close> with a string replaces the first underscore.\<close>

definition replace_first :: "char \<Rightarrow> char \<Rightarrow> string \<Rightarrow> string" where
  "replace_first c d s =
     (let a = takeWhile (\<lambda>x. x \<noteq> c) s in if length a < length s then a @ d # drop (Suc (length a)) s else s)"

definition pgRenderMessage :: "(jsval \<Rightarrow> string) \<Rightarrow> jsval \<Rightarrow> string" where
  "pgRenderMessage content m =
     (let role = to_str (jor (get m ''role'') (Str ''user''));
          body = (if truthy (get m ''error'') then (''<div class=\"pg-message-error\">'' @ (pgEsc (get m ''error'')) @ ''</div>'')
             else if truthy (get m ''streaming'') then (pgRenderThinking m @ ''<div class=\"pg-message-content\">'' @ content m @
                ''<span class=\"pg-stream-cursor\"></span></div>'')
             else (pgRenderThinking m @ ''<div class=\"pg-message-content\">'' @ content m @
                ''</div>''));
          meta = (if truthy (get m ''provider'')
             then (''<div class=\"pg-message-meta\">'' @
                (concat (map (\<lambda>p. (''<span class=\"badge tone-neutral\">'' @ p @ ''</span>'')) (meta_parts m))) @
                ''</div>'')
             else [])
      in (''<div class=\"pg-message '' @ (''pg-role-'' @ role) @ ''\">'' @ nl 6 @
         ''<div class=\"pg-message-head\"><span class=\"pg-message-role\">'' @
         (replace_first (CHR ''_'') (CHR '' '') role) @ ''</span></div>'' @ nl 6 @ body @ meta @
         nl 4 @ ''</div>''))"

definition trace_items :: "jsval \<Rightarrow> (string \<times> string) list" where
  "trace_items tr =
     (if truthy (get tr ''requestId'') then [(''request'', pgShortText (get tr ''requestId'') 18)] else [])
     @ (if truthy (get tr ''provider'') then [(''provider'', pgEsc (get tr ''provider''))] else [])
     @ (if truthy (get tr ''keyMasked'') then [(''key'', pgEsc (get tr ''keyMasked''))]
        else if \<not> nullish (get tr ''keyIndex'') then [(''key'', to_str (get tr ''keyIndex''))] else [])
     @ (if truthy (get tr ''upstreamFormat'') then [(''format'', pgEsc (get tr ''upstreamFormat''))] else [])
     @ (if truthy (get tr ''providerModel'') then [(''upstream model'', pgEsc (get tr ''providerModel''))] else [])
     @ (if \<not> nullish (get tr ''firstByteMs'') then [(''1st byte'', to_str (get tr ''firstByteMs'') @ ''ms'')] else [])
     @ (if \<not> nullish (get tr ''totalMs'') then [(''total'', seconds_text (get tr ''totalMs''))] else [])
     @ (if truthy (get tr ''usage'')
        then [(''tokens'', token_in (get tr ''usage'') @ ''in/'' @ token_out (get tr ''usage'') @ ''out'')] else [])
     @ (if truthy (get tr ''sentText'')
        then [(''sent'', [CHR 0x22] @ pgEsc (Str (pgShortText (get tr ''sentText'') 32)) @ [CHR 0x22])] else [])"

definition pgRenderTrace :: "jsval \<Rightarrow> string option" where
  "pgRenderTrace tr =
     (if \<not> truthy tr then None
      else Some (concat (map (\<lambda>(k, v). (''<div class=\"pg-trace-item\"><span class=\"pg-trace-k\">'' @ k @
         ''</span><span class=\"pg-trace-v\">'' @ v @ ''</span></div>'')) (trace_items tr))))"

end
