(* ===== verification/PlaygroundFacts.thy ===== *)
theory PlaygroundFacts
  imports Playground
begin

text \<open>
  The playground's promises and failures: a stream gives the same message however it is cut, when the text
  of the deltas adds up and when some of it is lost, what is sent along with a message, and that every
  request settles.
\<close>

section \<open>Streams cut anywhere\<close>

lemma js_split_cut:
  "js_split p (a @ b) = butlast (js_split p a) @ js_split p (last (js_split p a) @ b)"
proof (induction a)
  case (Cons c a)
  show ?case
  proof (cases "p c")
    case True
    then show ?thesis using Cons by (simp add: butlast.simps)
  next
    case False
    show ?thesis
    proof (cases "js_split p a")
      case (Cons w ws)
      with False \<open>js_split p (a @ b) = _\<close> show ?thesis
        by (cases ws) (auto split: list.split)
    qed simp
  qed
qed simp

lemma last_piece_plain: "js_split p (last (js_split p s)) = [last (js_split p s)]"
proof (induction s)
  case (Cons c s)
  then show ?case by (cases "js_split p s") (auto split: list.split)
qed simp

text \<open>What one line does to the message, the clock aside: the reference for the incremental reader.\<close>

definition line_effect :: "string \<Rightarrow> string \<Rightarrow> jsval \<Rightarrow> jsval" where
  "line_effect fmt line m =
     (case line_payload line of None \<Rightarrow> m
      | Some payload \<Rightarrow>
          (case json_parse payload of None \<Rightarrow> m
           | Some chunk \<Rightarrow> if nullish chunk then m else apply_chunk fmt chunk m))"

lemma stream_line_message:
  "ss_message (stream_line fmt now line st) = line_effect fmt line (ss_message st)"
  "ss_buffer (stream_line fmt now line st) = ss_buffer st"
  by (simp_all add: stream_line_def line_effect_def Let_def split: option.split)

lemma stream_lines_message:
  "ss_message (fold (stream_line fmt now) ls st) = fold (line_effect fmt) ls (ss_message st)"
  "ss_buffer (fold (stream_line fmt now) ls st) = ss_buffer st"
  by (induction ls arbitrary: st) (simp_all add: stream_line_message)

definition lines_of :: "string \<Rightarrow> string list" where
  "lines_of s = js_split (\<lambda>c. c = CHR 0x0A) s"

lemma decode_append:
  "decode_bytes u (a @ b) d =
     (let (tx, d1) = decode_bytes u a d; (tx', d2) = decode_bytes u b d1 in (tx @ tx', d2))"
  by (induction a arbitrary: d) (simp_all add: Let_def split_beta)

definition line_feeds :: "string \<Rightarrow> nat" where
  "line_feeds tx = length (filter (\<lambda>c. c = CHR 0x0A) tx)"

lemma lines_length: "length (lines_of tx) = Suc (line_feeds tx)"
proof (induction tx)
  case (Cons c tx)
  then show ?case by (cases "js_split (\<lambda>c. c = CHR 0x0A) tx") (auto simp: lines_of_def line_feeds_def)
qed (simp add: lines_of_def line_feeds_def)

lemma line_feeds_append [simp]: "line_feeds (a @ b) = line_feeds a + line_feeds b"
  by (simp add: line_feeds_def)

text \<open>For every line the format selected when the chunk with its line feed arrived.\<close>

fun line_formats :: "(int \<Rightarrow> string) \<Rightarrow> stream_chunk list \<Rightarrow> text_decoder \<Rightarrow> string list" where
  "line_formats u [] d = []"
| "line_formats u (c # cs) d =
     (let (tx, d1) = decode_bytes u (ch_bytes c) d in replicate (line_feeds tx) (ch_format c) @ line_formats u cs d1)"

lemma line_formats_same: "\<forall>c \<in> set cs. ch_format c = fmt \<Longrightarrow> set (line_formats u cs d) \<subseteq> {fmt}"
  by (induction cs arbitrary: d) (force split: prod.split)+

lemma stream_piece_message:
  assumes "decode_bytes u (ch_bytes c) (ss_decoder st) = (tx, d)"
  shows "ss_message (stream_piece u c st) = fold (line_effect (ch_format c)) (butlast (lines_of (ss_buffer st @ tx))) (ss_message st)"
    "ss_buffer (stream_piece u c st) = last (lines_of (ss_buffer st @ tx))" "ss_decoder (stream_piece u c st) = d"
proof -
  have "ss_decoder (fold (stream_line fmt now) ls st') = ss_decoder st'" for fmt now ls st'
    by (induction ls arbitrary: st') (simp_all add: stream_line_def Let_def split: option.split)
  then show "ss_message (stream_piece u c st) = fold (line_effect (ch_format c)) (butlast (lines_of (ss_buffer st @ tx))) (ss_message st)"
    "ss_buffer (stream_piece u c st) = last (lines_of (ss_buffer st @ tx))" "ss_decoder (stream_piece u c st) = d"
    by (simp_all add: stream_piece_def assms Let_def stream_lines_message lines_of_def)
qed

definition line_with :: "string \<times> string \<Rightarrow> jsval \<Rightarrow> jsval" where
  "line_with = (\<lambda>(fmt, line). line_effect fmt line)"

lemma fold_replicate_format: "fold line_with (zip (replicate (length ls) fmt) ls) m = fold (line_effect fmt) ls m"
  by (induction ls arbitrary: m) (simp_all add: line_with_def)

lemma stream_pieces_message:
  assumes "line_feeds (ss_buffer st) = 0"
  shows "let ls = lines_of (ss_buffer st @ fst (decode_bytes u (concat (map ch_bytes cs)) (ss_decoder st))) in
      ss_message (fold (stream_piece u) cs st) = fold line_with (zip (line_formats u cs (ss_decoder st)) (butlast ls)) (ss_message st)
    \<and> ss_buffer (fold (stream_piece u) cs st) = last ls \<and> length (line_formats u cs (ss_decoder st)) = length (butlast ls)"
  using assms
proof (induction cs arbitrary: st)
  case Nil
  then have "length (lines_of (ss_buffer st)) = 1" by (simp add: lines_length)
  moreover have "last (lines_of (ss_buffer st)) = ss_buffer st"
    using Nil js_split_plain [of "ss_buffer st" "\<lambda>c. c = CHR 0x0A"] by (auto simp: lines_of_def line_feeds_def filter_empty_conv)
  ultimately show ?case by (simp add: Let_def)
next
  case (Cons c cs)
  obtain tx d where tx: "decode_bytes u (ch_bytes c) (ss_decoder st) = (tx, d)" by fastforce
  let ?st = "stream_piece u c st" and ?b = "ss_buffer st @ tx"
  let ?r = "fst (decode_bytes u (concat (map ch_bytes cs)) d)"
  note step = stream_piece_message [OF tx]
  have feeds: "length (butlast (lines_of ?b)) = line_feeds tx" using Cons.prems by (simp add: lines_length)
  have "line_feeds (ss_buffer ?st) = 0"
    using lines_length [of "last (lines_of ?b)"] last_piece_plain [of "\<lambda>c. c = CHR 0x0A" ?b] by (simp add: step lines_of_def)
  note ih = Cons.IH [OF this]
  have all: "fst (decode_bytes u (ch_bytes c @ concat (map ch_bytes cs)) (ss_decoder st)) = tx @ ?r"
    by (simp add: decode_append tx split_beta)
  have cut: "lines_of (ss_buffer st @ tx @ ?r) = butlast (lines_of ?b) @ lines_of (last (lines_of ?b) @ ?r)"
    using js_split_cut [of _ ?b ?r] by (simp add: lines_of_def)
  have "lines_of (last (lines_of ?b) @ ?r) \<noteq> []" "length (lines_of (last (lines_of ?b) @ ?r)) = Suc (length (lines_of (last (lines_of ?b) @ ?r)) - 1)"
    by (simp_all add: lines_length) (simp add: lines_of_def)
  then show ?case
    using ih feeds [unfolded length_butlast] fold_replicate_format [of "butlast (lines_of ?b)" "ch_format c" "ss_message st"]
    by (simp add: all cut step butlast_append tx Let_def del: length_butlast) (simp add: lines_length)
qed

text \<open>
  C17. A streamed reply does not depend on how the network cuts it, not even inside a character. The lines that are
  read are the complete lines of the text which all the bytes together decode to, in order, each in the format
  selected when the chunk with its line feed arrived; what waits in the buffer is the text after the last line
  feed (it is dropped when the stream ends). So as long as the format is not switched while the reply streams,
  the message depends on nothing but the bytes.
\<close>

theorem stream_reads_whole_lines:
  "let ls = lines_of (fst (decode_bytes u (concat (map ch_bytes chunks)) decoder_new)); st = pgHandleStream u chunks m in
     ss_message st = fold line_with (zip (line_formats u chunks decoder_new) (butlast ls)) m
     \<and> length (line_formats u chunks decoder_new) = length (butlast ls) \<and> ss_buffer st = last ls
     \<and> ((\<forall>c \<in> set chunks. ch_format c = fmt) \<longrightarrow> ss_message st = fold (line_effect fmt) (butlast ls) m)"
proof -
  let ?ls = "lines_of (fst (decode_bytes u (concat (map ch_bytes chunks)) decoder_new))"
  let ?fs = "line_formats u chunks decoder_new"
  have main: "ss_message (pgHandleStream u chunks m) = fold line_with (zip ?fs (butlast ?ls)) m"
    "ss_buffer (pgHandleStream u chunks m) = last ?ls" "length ?fs = length (butlast ?ls)"
    using stream_pieces_message [of "stream_start m" u chunks]
    by (simp_all add: pgHandleStream_def stream_start_def line_feeds_def Let_def)
  have "fold line_with (zip ?fs (butlast ?ls)) m = fold (line_effect fmt) (butlast ?ls) m" if "\<forall>c \<in> set chunks. ch_format c = fmt"
  proof -
    have "?fs = replicate (length (butlast ?ls)) fmt"
      using line_formats_same [OF that, of u decoder_new] main(3) by (intro replicate_eqI) auto
    then show ?thesis by (simp only: fold_replicate_format)
  qed
  then show ?thesis using main by (simp add: Let_def)
qed

definition cut_reply :: "stream_chunk list" where
  "cut_reply = map (\<lambda>bs. \<lparr>ch_at = 0, ch_format = ''chat_completions'', ch_bytes = bs\<rparr>)
     [map of_char (''data: {\"choices\":[{\"delta\":{\"content\":\"caf'') @ [0xC3], [0xA9] @ map of_char ''\"}}]}'' @ [0x0A]]"

theorem stream_reads_whole_lines_witness:
  "get (ss_message (pgHandleStream (\<lambda>_. []) cut_reply (Obj []))) ''content'' = Str (''caf'' @ [CHR 0xE9])"
proof -
  have same: "\<forall>c \<in> set cut_reply. ch_format c = ''chat_completions''" by (simp add: cut_reply_def)
  have "butlast (lines_of (fst (decode_bytes (\<lambda>_. []) (concat (map ch_bytes cut_reply)) decoder_new)))
      = [''data: {\"choices\":[{\"delta\":{\"content\":\"caf'' @ [CHR 0xE9] @ ''\"}}]}'']" by code_simp
  moreover have "ss_message (pgHandleStream (\<lambda>_. []) cut_reply (Obj [])) = fold (line_effect ''chat_completions'')
      (butlast (lines_of (fst (decode_bytes (\<lambda>_. []) (concat (map ch_bytes cut_reply)) decoder_new)))) (Obj [])"
    using stream_reads_whole_lines [of "\<lambda>_. []" cut_reply "Obj []" "''chat_completions''"] same unfolding Let_def by blast
  ultimately have "ss_message (pgHandleStream (\<lambda>_. []) cut_reply (Obj []))
      = line_effect ''chat_completions'' (''data: {\"choices\":[{\"delta\":{\"content\":\"caf'' @ [CHR 0xE9] @ ''\"}}]}'') (Obj [])"
    by simp
  moreover have "get (line_effect ''chat_completions'' (''data: {\"choices\":[{\"delta\":{\"content\":\"caf'' @ [CHR 0xE9] @ ''\"}}]}'') (Obj []))
      ''content'' = Str (''caf'' @ [CHR 0xE9])" by code_simp
  ultimately show ?thesis by simp
qed

text \<open>A final event without a line feed is lost.\<close>

lemma unterminated_event_lost:
  assumes "line_feeds (fst (decode_bytes u (ch_bytes c) decoder_new)) = 0"
  shows "ss_message (pgHandleStream u [c] m) = m"
proof -
  have "butlast (lines_of (fst (decode_bytes u (ch_bytes c) decoder_new))) = []"
    using assms by (metis butlast_conv_take diff_Suc_1 lines_length take_0)
  then show ?thesis
    using stream_pieces_message [of "stream_start m" u "[c]"]
    by (simp add: pgHandleStream_def stream_start_def line_feeds_def Let_def)
qed

section \<open>Adding up deltas\<close>

abbreviation add_delta :: "string \<Rightarrow> string \<Rightarrow> string" where
  "add_delta acc d \<equiv> pgAppendStreamText (Str acc) (Str d)"

lemma add_delta_eq:
  "add_delta acc d = (if acc \<noteq> [] \<and> d \<noteq> [] \<and> starts_with acc d then d else acc @ d)"
  by (simp add: pgAppendStreamText_def Let_def)

lemma add_deltas_length: "length (foldl add_delta acc ds) \<le> length acc + length (concat ds)"
proof (induction ds arbitrary: acc)
  case (Cons d ds)
  have "length (add_delta acc d) \<le> length acc + length d" by (simp add: add_delta_eq)
  with Cons [of "add_delta acc d"] show ?case by simp
qed simp

lemma add_deltas_exact_iff:
  "foldl add_delta acc ds = acc @ concat ds \<longleftrightarrow>
     (\<forall>i < length ds. acc @ concat (take i ds) = [] \<or> ds ! i = [] \<or> \<not> starts_with (acc @ concat (take i ds)) (ds ! i))"
proof (induction ds arbitrary: acc)
  case (Cons d ds)
  have all: "(\<forall>i < length (d # ds). P i) \<longleftrightarrow> P 0 \<and> (\<forall>i < length ds. P (Suc i))" for P
    by (auto simp: less_Suc_eq_0_disj)
  show ?case
  proof (cases "acc \<noteq> [] \<and> d \<noteq> [] \<and> starts_with acc d")
    case True
    have "length (foldl add_delta (add_delta acc d) ds) \<le> length d + length (concat ds)"
      using add_deltas_length [of "add_delta acc d" ds] True by (simp add: add_delta_eq)
    moreover have "0 < length acc" using True by blast
    ultimately have "length (foldl add_delta (add_delta acc d) ds) < length (acc @ concat (d # ds))"
      by (simp only: length_append concat.simps)
    then have "foldl add_delta acc (d # ds) \<noteq> acc @ concat (d # ds)" by auto
    then show ?thesis using True unfolding all by auto
  next
    case False
    then have "add_delta acc d = acc @ d" by (simp only: add_delta_eq) simp
    with Cons [of "acc @ d"] False show ?thesis unfolding all by auto
  qed
qed simp

text \<open>
  When the text of a streamed answer is complete: the deltas add up to their concatenation exactly when
  none of them (after the first) begins with all the text received before it. A delta that does is taken
  for the whole text so far and replaces it, so the repetition is lost.
\<close>

lemma deltas_add_up_iff:
  "foldl add_delta [] ds = concat ds \<longleftrightarrow>
     (\<forall>i < length ds. concat (take i ds) = [] \<or> ds ! i = [] \<or> \<not> starts_with (concat (take i ds)) (ds ! i))"
  using add_deltas_exact_iff [of "[]" ds] by simp

text \<open>
  The token counts of an Anthropic stream: the last event names only the output tokens, and the usage it
  gives replaces the one of the first event, with zero input tokens.
\<close>

lemma anthropic_usage_loses_input:
  "get (apply_chunk ''anthropic_messages''
      (Obj [(''type'', Str ''message_delta''), (''usage'', Obj [(''output_tokens'', jnum 15)])])
      (apply_chunk ''anthropic_messages''
        (Obj [(''type'', Str ''message_start''), (''message'', Obj [(''usage'', Obj [(''input_tokens'', jnum 25), (''output_tokens'', jnum 1)])])])
        (Obj []))) ''usage''
   = Obj [(''input_tokens'', jnum 0), (''output_tokens'', jnum 15)]"
  by code_simp

section \<open>What is sent\<close>

text \<open>
  With the history switched on, a chat request sends the user's text twice: the messages of the body are
  the earlier messages, then the new user message, then the still empty assistant message with its
  bookkeeping fields, then the user's text again. (The body is built from the list after both messages
  have been added to it.)
\<close>

lemma history_repeats_user_text:
  assumes "\<forall>i \<in> set (pg_messages s). i < pg_next s" and "pf_history form = Some True" and "pf_system form = None"
    and "pg_format s = ''chat_completions''" and "pgSend_start form rid s = (s', Some f)"
  shows "\<exists>a. get (pk_body f) ''messages'' = Arr (map (pg_heap s) (pg_messages s)
        @ [plain_message ''user'' (pk_text f), a, plain_message ''user'' (pk_text f)])
      \<and> get a ''role'' = Str ''assistant'' \<and> get a ''content'' = Str [] \<and> get a ''streaming'' = Bool True"
proof -
  have old: "map ((pg_heap s)(pg_next s := x, Suc (pg_next s) := y)) (pg_messages s) = map (pg_heap s) (pg_messages s)"
    for x y using assms(1) by auto
  show ?thesis
    using assms(2-)
    by (auto simp: pgSend_start_def new_message_def update_message_def pgBuildRequest_def request_messages_def
        value_or_def set_field_def obj_fields_def Let_def old simp del: map_eq_conv split: if_splits)
qed

definition sample_form_pg :: pg_form where
  "sample_form_pg = \<lparr>pf_model = Some ''gpt'', pf_temperature = None, pf_maxTokens = None, pf_topP = None,
     pf_stream = None, pf_history = Some True, pf_system = None\<rparr>"

definition sample_pg :: pg_state where
  "sample_pg = \<lparr>pg_heap = (\<lambda>_. Undef), pg_next = 0, pg_messages = [], pg_format = ''chat_completions'',
     pg_loading = False, pg_sendHidden = Some True, pg_stopHidden = Some False, pg_abort = False, pg_input = ''hi'', pg_firstByteMs = None, pg_models = [],
     pg_model = [], pg_status = []\<rparr>"

section \<open>Requests settle\<close>

lemma update_fields:
  "pg_messages (update_message i g s) = pg_messages s" "j \<noteq> i \<Longrightarrow> pg_heap (update_message i g s) j = pg_heap s j"
  "pg_heap (update_message i g s) i = g (pg_heap s i)"
  by (simp_all add: update_message_def)

lemma read_stream_fields:
  "pg_messages (read_stream u i ps s) = pg_messages s" "j \<noteq> i \<Longrightarrow> pg_heap (read_stream u i ps s) j = pg_heap s j"
  by (simp_all add: read_stream_def update_message_def Let_def)

lemma get_set_field: "get (set_field k v m) k' = (if k' = k then v else lookup k' (obj_fields m))"
  by (simp add: set_field_def)

lemma set_field_obj: "obj_fields (set_field k v m) = set_prop k v (obj_fields m)"
  by (simp add: set_field_def obj_fields_def)

lemma copy_if_streaming:
  "k \<noteq> ''streaming'' \<Longrightarrow> lookup ''streaming'' (obj_fields (copy_if ok trace k m)) = lookup ''streaming'' (obj_fields m)"
  by (simp add: copy_if_def set_field_obj)

lemma trace_keeps_streaming:
  "lookup ''streaming'' (obj_fields (pgApplyTraceToMessage m trace)) = lookup ''streaming'' (obj_fields m)"
  by (simp add: pgApplyTraceToMessage_def copy_if_streaming)

lemma get_obj_fields: "obj_fields m \<noteq> [] \<Longrightarrow> get m k = lookup k (obj_fields m)"
  by (cases m) (simp_all add: obj_fields_def)

lemma done_streaming: "lookup ''streaming'' (obj_fields (done_message f trace total_ms fmt m)) = Bool False"
  by (simp add: done_message_def trace_keeps_streaming set_field_obj Let_def)

lemma outcome_streaming:
  "lookup ''streaming'' (obj_fields (pg_heap (pgSend_outcome u f out s) (pk_message f))) = Bool False"
  by (cases out) (simp_all add: pgSend_outcome_def update_fields done_streaming set_field_obj Let_def)

text \<open>
  C18. Every request of the playground settles: whatever its outcome (stopped, failed before or in the middle of
  the stream, streamed, whole) and whatever the page looked like before, the send button is shown again and the
  stop button hidden, the next message may be sent, nothing is left to abort, the message of the request is no
  longer streaming, and no other message and not the list itself has changed.
\<close>

theorem playground_request_settles:
  "let s' = pgSend_finish u f out s in
     pg_sendHidden s' \<noteq> Some True \<and> pg_stopHidden s' \<noteq> Some False
     \<and> \<not> pg_loading s' \<and> \<not> pgStop s' \<and> get (pg_heap s' (pk_message f)) ''streaming'' = Bool False
     \<and> (\<forall>j. j \<noteq> pk_message f \<longrightarrow> pg_heap s' j = pg_heap s j) \<and> pg_messages s' = pg_messages s"
proof -
  have "obj_fields (pg_heap (pgSend_outcome u f out s) (pk_message f)) \<noteq> []"
    using outcome_streaming [of u f out s] by auto
  moreover have "j \<noteq> pk_message f \<Longrightarrow> pg_heap (pgSend_outcome u f out s) j = pg_heap s j" for j
    by (cases out) (simp_all add: pgSend_outcome_def update_fields read_stream_fields Let_def)
  moreover have "pg_messages (pgSend_outcome u f out s) = pg_messages s"
    by (cases out) (simp_all add: pgSend_outcome_def update_fields read_stream_fields Let_def)
  ultimately show ?thesis
    using outcome_streaming [of u f out s] by (auto simp: pgSend_finish_def pgStop_def get_obj_fields Let_def)
qed

theorem playground_request_settles_witness:
  "let s' = pgSend_finish (\<lambda>_. []) \<lparr>pk_message = 0, pk_requestId = ''r'', pk_format = ''responses'', pk_endpoint = [],
      pk_body = Null, pk_text = []\<rparr> (Failed ''HTTP 502'' \<lparr>hd_route = Null, hd_format = ''responses''\<rparr> []) sample_pg in
   get (pg_heap s' 0) ''streaming'' = Bool False \<and> pg_sendHidden s' \<noteq> Some True"
  using playground_request_settles [of "\<lambda>_. []" "\<lparr>pk_message = 0, pk_requestId = ''r'', pk_format = ''responses'', pk_endpoint = [],
      pk_body = Null, pk_text = []\<rparr>" "Failed ''HTTP 502'' \<lparr>hd_route = Null, hd_format = ''responses''\<rparr> []" sample_pg]
  by (simp add: Let_def)

text \<open>
  Looking up where a request went ends after at most three calls: the result only depends on the first
  three answers, and it is the trace of the first one that is not an error, or null.
\<close>

lemma trace_lookup_bounded:
  "pgFetchRouteTrace rid reply =
     (if rid = [] then Null
      else case List.find (\<lambda>r. \<not> isl r) [reply 0, reply 1, reply 2] of
             Some r \<Rightarrow> pgRouteTraceFromDetail (projr r) | None \<Rightarrow> Null)"
  by (auto simp: pgFetchRouteTrace_def numeral_3_eq_3 numeral_2_eq_2 split: sum.split)

end
