(* ===== verification/Markdown.thy ===== *)
theory Markdown
  imports Playground BrandIcons
begin

text \<open>
  The Markdown renderer of the playground (\<open>pgMarkdown\<close>, \<open>pgRenderContent\<close>): the text is escaped, code is
  taken out and replaced by placeholders, the lines become blocks, the inline marks become tags, and the
  code is put back.

  A global regular expression is a matcher: what it captures at the head of the rest of the text, given
  the character before it, and what is left. \<open>.\<close> stops at a line end; a lazy group stops at the first
  place where the expression can go on.
\<close>

section \<open>Regular expressions\<close>

type_synonym 'a matcher = "char option \<Rightarrow> string \<Rightarrow> ('a \<times> string) option"

text \<open>The text cut into the characters no match covers and the captures of the matches, left to right.\<close>

function tokens :: "'a matcher \<Rightarrow> char option \<Rightarrow> string \<Rightarrow> (char + 'a) list" where
  "tokens m p [] = []"
| "tokens m p (c # s) =
     (case m p (c # s) of
        None \<Rightarrow> Inl c # tokens m (Some c) s
      | Some (x, r) \<Rightarrow>
          (if length r \<le> length s then Inr x # tokens m (Some (last (take (Suc (length s) - length r) (c # s)))) r
           else [Inr x]))"
  by pat_completeness auto
termination
  by (relation "measure (\<lambda>(m, p, s). length s)") auto

definition regex_replace :: "'a matcher \<Rightarrow> ('a \<Rightarrow> string) \<Rightarrow> string \<Rightarrow> string" where
  "regex_replace m f s = concat (map (case_sum (\<lambda>c. [c]) f) (tokens m None s))"

definition captures :: "'a matcher \<Rightarrow> string \<Rightarrow> 'a list" where
  "captures m s = List.map_filter (case_sum (\<lambda>c. None) Some) (tokens m None s)"

text \<open>Each match gets the number of the matches before it.\<close>

fun number_matches :: "nat \<Rightarrow> (char + 'a) list \<Rightarrow> (char + nat) list" where
  "number_matches n [] = []"
| "number_matches n (Inl c # ts) = Inl c # number_matches n ts"
| "number_matches n (Inr x # ts) = Inr n # number_matches (Suc n) ts"

definition line_end :: "char \<Rightarrow> bool" where
  "line_end c \<longleftrightarrow> c = CHR 0x0A \<or> c = CHR 0x0D"

text \<open>The shortest prefix that \<open>close\<close> follows, without a character of \<open>stop\<close>; and the rest behind \<open>close\<close>.\<close>

fun cut_before :: "(char \<Rightarrow> bool) \<Rightarrow> string \<Rightarrow> string \<Rightarrow> (string \<times> string) option" where
  "cut_before stop close [] = (if close = [] then Some ([], []) else None)"
| "cut_before stop close (c # s) =
     (if starts_with close (c # s) then Some ([], drop (length close) (c # s))
      else if stop c then None
      else map_option (\<lambda>(a, r). (c # a, r)) (cut_before stop close s))"

section \<open>Code\<close>

definition fence_body :: "string \<Rightarrow> string \<Rightarrow> ((string \<times> string) \<times> string) option" where
  "fence_body fence s =
     (let lang = takeWhile word_char s; q = dropWhile word_char s in
      if q \<noteq> [] \<and> hd q = CHR 0x0A
      then map_option (\<lambda>(code, r). ((lang, code), r)) (cut_before (\<lambda>c. False) fence (tl q)) else None)"

definition fence_match :: "(string \<times> string) matcher" where
  "fence_match p s =
     (if starts_with ''```'' s then fence_body ''```'' (drop 3 s)
      else if starts_with ''~~~'' s then fence_body ''~~~'' (drop 3 s) else None)"

text \<open>\<open>code.replace(/\n$/, "")\<close>.\<close>

definition drop_last_newline :: "string \<Rightarrow> string" where
  "drop_last_newline s = (if s \<noteq> [] \<and> last s = CHR 0x0A then butlast s else s)"

definition code_block :: "string \<times> string \<Rightarrow> string" where
  "code_block = (\<lambda>(lang, code). (''<pre class=\"pg-md-code\"><code class=\"lang-'' @ (pgEsc (Str lang)) @ ''\">'' @
     drop_last_newline code @ ''</code></pre>''))"

text \<open>\<open>/`([^`]+)`/g\<close>.\<close>

definition inline_match :: "string matcher" where
  "inline_match p s =
     (if s \<noteq> [] \<and> hd s = CHR ''`'' then
        (let code = takeWhile (\<lambda>c. c \<noteq> CHR ''`'') (tl s); q = dropWhile (\<lambda>c. c \<noteq> CHR ''`'') (tl s)
         in if code \<noteq> [] \<and> q \<noteq> [] then Some (code, tl q) else None)
      else None)"

definition inline_code :: "string \<Rightarrow> string" where
  "inline_code code = (''<code class=\"pg-md-inline\">'' @ code @ ''</code>'')"

definition placeholder :: "string \<Rightarrow> nat \<Rightarrow> string" where
  "placeholder name i = [CHR 0x00] @ name @ nat_to_str (int i) @ [CHR 0x00]"

definition take_out :: "'a matcher \<Rightarrow> string \<Rightarrow> string \<Rightarrow> string" where
  "take_out m name s = concat (map (case_sum (\<lambda>c. [c]) (placeholder name)) (number_matches 0 (tokens m None s)))"

definition placeholder_match :: "string \<Rightarrow> nat matcher" where
  "placeholder_match name p s =
     (if starts_with (CHR 0x00 # name) s then
        (let q = drop (Suc (length name)) s; d = takeWhile is_digit q; r = dropWhile is_digit q
         in if d \<noteq> [] \<and> r \<noteq> [] \<and> hd r = CHR 0x00 then Some (nat (digits_val 10 d), tl r) else None)
      else None)"

text \<open>\<open>blocks[+idx] || ""\<close>.\<close>

definition nth_or_empty :: "string list \<Rightarrow> nat \<Rightarrow> string" where
  "nth_or_empty xs i = (if i < length xs then xs ! i else [])"

section \<open>Blocks\<close>

definition is_code_line :: "string \<Rightarrow> bool" where
  "is_code_line line =
     (case placeholder_match ''CODEBLOCK'' None (js_trim line) of Some (i, r) \<Rightarrow> r = [] | None \<Rightarrow> False)"

text \<open>\<open>/^(\s*[-*_]\s*){3,}$/\<close>: blanks and at least three marks.\<close>

definition is_rule :: "string \<Rightarrow> bool" where
  "is_rule line \<longleftrightarrow>
     (\<forall>c \<in> set line. is_js_space c \<or> c \<in> set ''-*_'') \<and> 3 \<le> length (filter (\<lambda>c. c \<in> set ''-*_'') line)"

text \<open>\<open>\s+(.*)$\<close> and \<open>\s?(.*)$\<close> at the head of a text.\<close>

definition spaced_rest :: "string \<Rightarrow> string option" where
  "spaced_rest s =
     (let r = dropWhile is_js_space s in
      if s \<noteq> [] \<and> is_js_space (hd s) \<and> (\<forall>c \<in> set r. \<not> line_end c) then Some r else None)"

definition heading_of :: "string \<Rightarrow> (nat \<times> string) option" where
  "heading_of line =
     (let n = length (takeWhile (\<lambda>c. c = CHR ''#'') line) in
      if 1 \<le> n \<and> n \<le> 4 then map_option (\<lambda>r. (n, r)) (spaced_rest (drop n line)) else None)"

definition quote_of :: "string \<Rightarrow> string option" where
  "quote_of line =
     (if starts_with ''&gt;'' line then
        (let r = drop 4 line; q = (if r \<noteq> [] \<and> is_js_space (hd r) then tl r else r)
         in if \<forall>c \<in> set q. \<not> line_end c then Some q else None)
      else None)"

definition bullet_rest :: "string \<Rightarrow> string option" where
  "bullet_rest line =
     (let s = dropWhile is_js_space line in
      if s \<noteq> [] \<and> hd s \<in> set ''-*+'' then Some (tl s) else None)"

definition number_rest :: "string \<Rightarrow> string option" where
  "number_rest line =
     (let s = dropWhile is_js_space line; r = dropWhile is_digit s in
      if s \<noteq> r \<and> r \<noteq> [] \<and> hd r = CHR ''.'' then Some (tl r) else None)"

definition item_of :: "string \<Rightarrow> (string \<times> string) option" where
  "item_of line =
     (case Option.bind (bullet_rest line) spaced_rest of
        Some x \<Rightarrow> Some (''ul'', x)
      | None \<Rightarrow> map_option (\<lambda>x. (''ol'', x)) (Option.bind (number_rest line) spaced_rest))"

definition spaced :: "string option \<Rightarrow> bool" where
  "spaced r \<longleftrightarrow> (case r of None \<Rightarrow> False | Some s \<Rightarrow> s \<noteq> [] \<and> is_js_space (hd s))"

text \<open>A line that goes on a paragraph.\<close>

definition goes_on :: "string \<Rightarrow> bool" where
  "goes_on line \<longleftrightarrow> js_trim line \<noteq> []
     \<and> \<not> (let n = length (takeWhile (\<lambda>c. c = CHR ''#'') line) in 1 \<le> n \<and> n \<le> 4 \<and> spaced (Some (drop n line)))
     \<and> \<not> spaced (bullet_rest line) \<and> \<not> spaced (number_rest line)
     \<and> \<not> starts_with ''&gt;'' line \<and> \<not> is_rule line \<and> \<not> is_code_line line"

definition close_list :: "string option \<Rightarrow> string list" where
  "close_list l = (case l of None \<Rightarrow> [] | Some tag \<Rightarrow> [(''</'' @ tag @ ''>'')])"

definition close_quote :: "bool \<Rightarrow> string list" where
  "close_quote q = (if q then [(''</blockquote>'')] else [])"

definition open_list :: "string \<Rightarrow> string" where
  "open_list tag = (''<'' @ tag @ '' class=\"pg-md-'' @ tag @ ''\">'')"

definition md_heading :: "nat \<Rightarrow> string \<Rightarrow> string" where
  "md_heading n s = (''<h'' @ (nat_to_str (int n)) @ '' class=\"pg-md-h'' @ (nat_to_str (int n)) @ ''\">'' @
     js_trim s @ ''</h'' @ (nat_to_str (int n)) @ ''>'')"

definition md_paragraph :: "string list \<Rightarrow> string" where
  "md_paragraph ls = (''<p class=\"pg-md-p\">'' @ (js_join (''<br>'') ls) @ ''</p>'')"

text \<open>The loop over the lines: the list that is open, whether a quote is open.\<close>

function md_lines :: "string option \<Rightarrow> bool \<Rightarrow> string list \<Rightarrow> string list" where
  "md_lines l q [] = close_list l @ close_quote q"
| "md_lines l q (x # xs) =
     (if is_code_line x then close_list l @ close_quote q @ [x] @ md_lines None False xs
      else if is_rule x then close_list l @ close_quote q @ [(''<hr class=\"pg-md-hr\">'')] @ md_lines None False xs
      else (case heading_of x of
          Some (n, s) \<Rightarrow> close_list l @ close_quote q @ [md_heading n s] @ md_lines None False xs
        | None \<Rightarrow> (case quote_of x of
            Some s \<Rightarrow> close_list l @ (if q then [] else [(''<blockquote class=\"pg-md-quote\">'')]) @ [s] @ md_lines None True xs
          | None \<Rightarrow> close_quote q @ (case item_of x of
              Some (tag, s) \<Rightarrow> (if l = Some tag then [] else close_list l @ [open_list tag])
                @ [(''<li>'' @ s @ ''</li>'')] @ md_lines (Some tag) False xs
            | None \<Rightarrow> close_list l @
                (if js_trim x = [] then md_lines None False xs
                 else [md_paragraph (x # takeWhile goes_on xs)] @ md_lines None False (dropWhile goes_on xs))))))"
  by pat_completeness auto
termination
  by (relation "measure (\<lambda>(l, q, xs). length xs)") (auto simp: le_imp_less_Suc length_dropWhile_le)

section \<open>Inline marks\<close>

text \<open>\<open>.+?\<close> followed by what \<open>find_end\<close> looks for.\<close>

definition one_or_more :: "(string \<Rightarrow> (string \<times> string) option) \<Rightarrow> string \<Rightarrow> (string \<times> string) option" where
  "one_or_more find_end s =
     (case s of [] \<Rightarrow> None
      | c # r \<Rightarrow> if line_end c then None else map_option (\<lambda>(a, q). (c # a, q)) (find_end r))"

definition pair_match :: "char \<Rightarrow> string matcher" where
  "pair_match d p s = (if starts_with [d, d] s then one_or_more (cut_before line_end [d, d]) (drop 2 s) else None)"

text \<open>Up to a single \<open>d\<close>, one with no other \<open>d\<close> beside it; \<open>p\<close> is the character before.\<close>

fun cut_single :: "char \<Rightarrow> char \<Rightarrow> string \<Rightarrow> (string \<times> string) option" where
  "cut_single d p [] = None"
| "cut_single d p (c # s) =
     (if c = d \<and> p \<noteq> d \<and> (s = [] \<or> hd s \<noteq> d) then Some ([], s)
      else if line_end c then None
      else map_option (\<lambda>(a, r). (c # a, r)) (cut_single d c s))"

definition single_match :: "char \<Rightarrow> string matcher" where
  "single_match d p s =
     (case s of [] \<Rightarrow> None
      | c # r \<Rightarrow> if c = d \<and> p \<noteq> Some d \<and> r \<noteq> [] \<and> hd r \<noteq> d
               then one_or_more (cut_single d (hd r)) r else None)"

text \<open>\<open>/\[([^\]]+)\]\(([^)\s]+)\)/g\<close>.\<close>

definition link_match :: "(string \<times> string) matcher" where
  "link_match p s =
     (if s \<noteq> [] \<and> hd s = CHR ''['' then
        (let label = takeWhile (\<lambda>c. c \<noteq> CHR '']'') (tl s); q = dropWhile (\<lambda>c. c \<noteq> CHR '']'') (tl s);
             r = drop 2 q; ends = (\<lambda>c. c = CHR '')'' \<or> is_js_space c);
             url = takeWhile (\<lambda>c. \<not> ends c) r; z = dropWhile (\<lambda>c. \<not> ends c) r
         in if label \<noteq> [] \<and> starts_with ''](''  q \<and> url \<noteq> [] \<and> z \<noteq> [] \<and> hd z = CHR '')''
            then Some ((label, url), tl z) else None)
      else None)"

definition md_link :: "string \<times> string \<Rightarrow> string" where
  "md_link = (\<lambda>(label, url). (''<a class=\"pg-md-link\" href=\"'' @ url @ ''\" target=\"_blank\" rel=\"noopener\">'' @
     label @ ''</a>''))"

definition wrap_tag :: "string \<Rightarrow> string \<Rightarrow> string" where
  "wrap_tag tag s = (''<'' @ tag @ ''>'' @ s @ ''</'' @ tag @ ''>'')"

definition md_inline :: "string \<Rightarrow> string" where
  "md_inline s =
     regex_replace link_match md_link
       (regex_replace (pair_match (CHR ''~'')) (wrap_tag ''del'')
         (regex_replace (single_match (CHR ''_'')) (wrap_tag ''em'')
           (regex_replace (single_match (CHR ''*'')) (wrap_tag ''em'')
             (regex_replace (pair_match (CHR ''_'')) (wrap_tag ''strong'')
               (regex_replace (pair_match (CHR ''*'')) (wrap_tag ''strong'') s)))))"

definition put_back :: "string \<Rightarrow> string list \<Rightarrow> string \<Rightarrow> string" where
  "put_back name blocks s = regex_replace (placeholder_match name) (nth_or_empty blocks) s"

definition pgMarkdown :: "jsval \<Rightarrow> string" where
  "pgMarkdown src =
     (let s = pgEsc (Str (str_or_empty src));
          codeBlocks = map code_block (captures fence_match s);
          s1 = take_out fence_match ''CODEBLOCK'' s;
          inlineCodes = map inline_code (captures inline_match s1);
          s2 = take_out inline_match ''INLINE'' s1;
          html = js_join [CHR 0x0A] (md_lines None False (js_split (\<lambda>c. c = CHR 0x0A) s2))
      in put_back ''INLINE'' inlineCodes (put_back ''CODEBLOCK'' codeBlocks (md_inline html)))"

definition pgRenderContent :: "jsval \<Rightarrow> string" where
  "pgRenderContent m =
     (let content = jor (get m ''content'') (Str []) in
      if strict_eq (jor (get m ''role'') (Str [])) (Str ''assistant'') \<and> js_trim (to_str content) \<noteq> []
      then pgMarkdown content else pgEsc content)"

end
