(* ===== verification/JsNumText.thy ===== *)
theory JsNumText
  imports JsFacts
begin

text \<open>
  Integers survive printing and parsing: \<open>Number(String(n)) = n\<close>. The lemmas here carry the round
  trips of the comma lists and route strings of the settings forms.
\<close>

section \<open>Digit strings\<close>

definition digit_string :: "string \<Rightarrow> bool" where
  "digit_string s \<longleftrightarrow> s \<noteq> [] \<and> (\<forall>c \<in> set s. is_digit c)"

lemma code_unit_digit_char: "0 \<le> d \<Longrightarrow> d < 10 \<Longrightarrow> code_unit (digit_char d) = 48 + d"
  by (simp add: digit_char_def code_unit_char_of)

lemma is_digit_digit_char: "0 \<le> d \<Longrightarrow> d < 10 \<Longrightarrow> is_digit (digit_char d)"
  by (simp add: is_digit_def code_unit_digit_char)

lemma digit_val_digit_char: "0 \<le> d \<Longrightarrow> d < 10 \<Longrightarrow> digit_val (digit_char d) = d"
  by (simp add: digit_val_def code_unit_digit_char)

lemma digits_val_snoc: "digits_val b (s @ [c]) = b * digits_val b s + digit_val c"
  by (simp add: digits_val_def)

lemma nat_to_str_digits: "0 \<le> n \<Longrightarrow> digit_string (nat_to_str n)"
proof (induction n rule: nat_to_str.induct)
  case (1 n)
  show ?case
  proof (cases "n < 10")
    case True
    with "1.prems" show ?thesis
      by (subst nat_to_str.simps) (simp add: digit_string_def is_digit_digit_char)
  next
    case False
    with 1 have "digit_string (nat_to_str (n div 10))" by simp
    with False "1.prems" show ?thesis
      by (subst nat_to_str.simps) (auto simp: digit_string_def is_digit_digit_char)
  qed
qed

lemma digits_val_nat_to_str: "0 \<le> n \<Longrightarrow> digits_val 10 (nat_to_str n) = n"
proof (induction n rule: nat_to_str.induct)
  case (1 n)
  show ?case
  proof (cases "n < 10")
    case True
    with "1.prems" show ?thesis
      by (subst nat_to_str.simps) (simp add: digits_val_def digit_val_digit_char)
  next
    case False
    with 1 have "digits_val 10 (nat_to_str (n div 10)) = n div 10" by simp
    moreover have "nat_to_str n = nat_to_str (n div 10) @ [digit_char (n mod 10)]"
      using False by (subst nat_to_str.simps) simp
    ultimately show ?thesis by (simp only: digits_val_snoc) (simp add: digit_val_digit_char)
  qed
qed

lemma digit_not_space: "is_digit c \<Longrightarrow> \<not> is_js_space c"
  by (auto simp: is_digit_def is_js_space_def Let_def)

lemma js_trim_no_space: "\<forall>c \<in> set s. \<not> is_js_space c \<Longrightarrow> js_trim s = s"
proof -
  assume "\<forall>c \<in> set s. \<not> is_js_space c"
  then have "dropWhile is_js_space s = s" "dropWhile is_js_space (rev s) = rev s"
    using hd_in_set [of s] hd_in_set [of "rev s"] by (auto simp: dropWhile_eq_self_iff)
  then show ?thesis by (simp add: js_trim_def)
qed

lemma js_trim_space_Cons: "js_trim (CHR '' '' # s) = js_trim s"
  by (simp add: js_trim_space space_is_space)

lemma js_trim_ends:
  assumes "\<not> is_js_space (hd s)" and "\<not> is_js_space (last s)"
  shows "js_trim s = s"
proof -
  have "dropWhile is_js_space s = s" "dropWhile is_js_space (rev s) = rev s"
    using assms by (auto simp: dropWhile_eq_self_iff hd_rev)
  then show ?thesis by (simp add: js_trim_def)
qed

lemma trimmed_hd: "js_trim s = s \<Longrightarrow> s \<noteq> [] \<Longrightarrow> \<not> is_js_space (hd s)"
proof
  assume s: "js_trim s = s" "s \<noteq> []" "is_js_space (hd s)"
  have "length (js_trim s) \<le> length (dropWhile is_js_space s)"
    using length_dropWhile_le [of is_js_space "rev (dropWhile is_js_space s)"] by (simp add: js_trim_def)
  also have "\<dots> < length s"
    using s(2,3) length_dropWhile_le [of is_js_space "tl s"] by (cases s) auto
  finally show False using s(1) by simp
qed

section \<open>Parsing what was printed\<close>

lemma digit_lower: "is_digit c \<Longrightarrow> char_lower c = c"
  by (auto simp: is_digit_def char_lower_def Let_def)

lemma digits_not_prefix:
  "digit_string s \<Longrightarrow> \<not> is_digit x \<Longrightarrow> js_lower (take 2 s) \<noteq> [CHR ''0'', x]"
  by (cases s rule: remdups_adj.cases) (auto simp: digit_string_def js_lower_def digit_lower)

lemma str_to_num_signless:
  assumes "digit_string s"
  shows "parse_udec s = Fin (of_int (digits_val 10 s))"
proof -
  have cut: "takeWhile is_digit s = s" "dropWhile is_digit s = []"
    using assms by (auto simp: digit_string_def)
  have "s \<noteq> []" "s \<noteq> ''Infinity''"
    using assms by (auto simp: digit_string_def is_digit_def)
  then show ?thesis
    unfolding parse_udec_def Let_def cut by (simp add: parse_exp_def rat_pow10_def)
qed

lemma str_to_num_digits:
  assumes "digit_string s"
  shows "str_to_num s = Fin (of_int (digits_val 10 s))"
proof -
  have trim: "js_trim s = s" by (rule js_trim_no_space) (use assms digit_not_space in \<open>auto simp: digit_string_def\<close>)
  have "\<not> starts_with ''-'' s" "\<not> starts_with ''+'' s" "s \<noteq> []"
    using assms by (cases s; auto simp: digit_string_def is_digit_def)+
  moreover have "\<not> is_digit (CHR ''x'')" "\<not> is_digit (CHR ''o'')" "\<not> is_digit (CHR ''b'')"
    by (simp_all add: is_digit_def)
  ultimately show ?thesis
    using digits_not_prefix [OF assms]
    by (simp add: str_to_num_def trim Let_def str_to_num_signless [OF assms])
qed

lemma num_to_str_int:
  "num_to_str (Fin (of_int n)) = (if n < 0 then ''-'' else []) @ nat_to_str \<bar>n\<bar>"
  by (simp add: Let_def flip: of_int_abs)

lemma str_to_num_int: "str_to_num (num_to_str (Fin (of_int n))) = Fin (of_int n)"
proof (cases "n < 0")
  case False
  then have "str_to_num (nat_to_str n) = Fin (of_int n)"
    using str_to_num_digits [OF nat_to_str_digits [of n]] by (simp add: digits_val_nat_to_str)
  with False show ?thesis by (simp only: num_to_str_int) simp
next
  case True
  define s where "s = nat_to_str \<bar>n\<bar>"
  have ds: "digit_string s" by (simp add: s_def nat_to_str_digits)
  have "\<not> is_js_space (CHR ''-'')" by (simp add: is_js_space_def)
  then have trim: "js_trim (CHR ''-'' # s) = CHR ''-'' # s"
    by (intro js_trim_no_space) (use ds digit_not_space in \<open>auto simp: digit_string_def\<close>)
  have "js_lower (take 2 (CHR ''-'' # s)) \<noteq> [CHR ''0'', x]" for x
    by (simp add: js_lower_def char_lower_def)
  then have "str_to_num (CHR ''-'' # s) = num_neg (parse_udec s)"
    by (simp add: str_to_num_def trim Let_def)
  also have "\<dots> = Fin (of_int n)"
    using True str_to_num_signless [OF ds] by (simp add: s_def digits_val_nat_to_str)
  finally show ?thesis using True by (simp only: num_to_str_int s_def) simp
qed

text \<open>The characters of a printed integer: digits and the minus sign.\<close>

lemma num_to_str_int_chars:
  "c \<in> set (num_to_str (Fin (of_int n))) \<Longrightarrow> is_digit c \<or> c = CHR ''-''"
  using nat_to_str_digits [of "\<bar>n\<bar>"]
  by (auto simp only: num_to_str_int digit_string_def set_append split: if_splits)
     (auto simp: digit_string_def)

lemma num_to_str_int_nonempty: "num_to_str (Fin (of_int n)) \<noteq> []"
  using nat_to_str_digits [of "\<bar>n\<bar>"] by (simp only: num_to_str_int digit_string_def) simp

lemma num_to_str_int_no_space: "c \<in> set (num_to_str (Fin (of_int n))) \<Longrightarrow> \<not> is_js_space c"
  using num_to_str_int_chars [of c n] digit_not_space [of c] by (auto simp: is_js_space_def)

lemma num_to_str_int_no:
  "x \<noteq> CHR ''-'' \<Longrightarrow> \<not> is_digit x \<Longrightarrow> x \<notin> set (num_to_str (Fin (of_int n)))"
  using num_to_str_int_chars [of x n] by auto

lemma num_to_str_int_trim: "js_trim (num_to_str (Fin (of_int n))) = num_to_str (Fin (of_int n))"
  by (rule js_trim_no_space) (auto dest: num_to_str_int_no_space simp del: num_to_str.simps)

section \<open>Splitting what was joined\<close>

text \<open>A separator that starts with a cut character leaves its rest in front of every later piece.\<close>

lemma js_split_join:
  assumes "p d" and "\<forall>c \<in> set pad. \<not> p c" and "\<forall>s \<in> set xs. \<forall>c \<in> set s. \<not> p c"
  shows "js_split p (js_join (d # pad) (x # xs)) = js_split p x @ map ((@) pad) xs
    \<or> \<not> (\<forall>c \<in> set x. \<not> p c)"
  using assms(3)
proof (induction xs arbitrary: x)
  case (Cons y ys)
  show ?case
  proof (cases "\<forall>c \<in> set x. \<not> p c")
    case True
    have y: "\<forall>c \<in> set (pad @ y). \<not> p c" using Cons.prems assms(2) by auto
    have "js_join (d # pad) (x # y # ys) = x @ d # pad @ js_join (d # pad) (y # ys)" by simp
    moreover have "pad @ js_join (d # pad) (y # ys) = js_join (d # pad) ((pad @ y) # ys)"
      by (cases ys) auto
    ultimately have "js_split p (js_join (d # pad) (x # y # ys)) = x # js_split p (js_join (d # pad) ((pad @ y) # ys))"
      using True assms(1) by (simp add: js_split_at)
    also have "js_split p (js_join (d # pad) ((pad @ y) # ys)) = js_split p (pad @ y) @ map ((@) pad) ys"
      using Cons.IH [of "pad @ y"] Cons.prems y by simp
    finally show ?thesis using True y by (simp add: js_split_plain)
  qed blast
qed simp

lemma js_split_join_comma:
  assumes "\<forall>s \<in> set (x # xs). CHR '','' \<notin> set s"
  shows "js_split (\<lambda>c. c = CHR '','') (js_join '', '' (x # xs)) = x # map ((#) (CHR '' '')) xs"
proof -
  have "\<forall>c \<in> set x. \<not> c = CHR '',''" using assms by auto
  moreover have "js_split (\<lambda>c. c = CHR '','') x = [x]"
    by (rule js_split_plain) (use assms in auto)
  moreover have "(@) '' '' = (#) (CHR '' '')" by auto
  ultimately show ?thesis
    using js_split_join [of "\<lambda>c. c = CHR '',''" "CHR '',''" "'' ''" xs x] assms by auto
qed

end
