(* ===== verification/MarkdownFacts.thy ===== *)
theory MarkdownFacts
  imports Markdown JsNumText
begin

text \<open>
  What the Markdown renderer lets through. A pass of the renderer is a rewriter of text: the locale
  \<open>tag_rewriter\<close> says what each pass keeps, and it is interpreted on the eight passes behind the blocks.
\<close>

section \<open>Texts whose tags are the renderer's own\<close>

definition md_tags :: "string list" where
  "md_tags =
     [(''<pre class=\"pg-md-code\">''), (''</pre>''), (''<code class=\"lang-''), (''<code class=\"pg-md-inline\">''), (''</code>''),
      (''<h1 class=\"pg-md-h1\">''), (''</h1>''), (''<h2 class=\"pg-md-h2\">''), (''</h2>''), (''<h3 class=\"pg-md-h3\">''), (''</h3>''),
      (''<h4 class=\"pg-md-h4\">''), (''</h4>''), (''<blockquote class=\"pg-md-quote\">''), (''</blockquote>''),
      (''<ul class=\"pg-md-ul\">''), (''</ul>''), (''<ol class=\"pg-md-ol\">''), (''</ol>''), (''<li>''), (''</li>''), (''<hr class=\"pg-md-hr\">''),
      (''<p class=\"pg-md-p\">''), (''</p>''), (''<br>''), (''<strong>''), (''</strong>''), (''<em>''), (''</em>''), (''<del>''), (''</del>''),
      (''<a class=\"pg-md-link\" href=\"''), (''</a>'')]"

text \<open>Wherever an HTML reader finds the start of a tag, one of these follows.\<close>

fun own_tags :: "string \<Rightarrow> bool" where
  "own_tags [] = True"
| "own_tags (c # s) = ((c = CHR ''<'' \<longrightarrow> (\<exists>w \<in> set md_tags. starts_with w (c # s))) \<and> own_tags s)"

lemma own_tags_append: "own_tags a \<Longrightarrow> own_tags b \<Longrightarrow> own_tags (a @ b)"
proof (induction a)
  case (Cons c a)
  have "starts_with w (c # a) \<Longrightarrow> starts_with w ((c # a) @ b)" for w
    by (metis starts_with_iff append.assoc)
  with Cons show ?case by auto
qed simp

lemma own_tags_suffix: "own_tags (a @ b) \<Longrightarrow> own_tags b"
  by (induction a) auto

lemma starts_with_cut: "starts_with w (a @ d # b) \<Longrightarrow> d \<notin> set w \<Longrightarrow> starts_with w a"
  by (induction w a rule: starts_with.induct) auto

definition md_mark :: "char \<Rightarrow> bool" where
  "md_mark c \<longleftrightarrow> c \<in> set [CHR ''*'', CHR ''_'', CHR ''~'', CHR ''['', CHR '']'', CHR ''('', CHR '')'', CHR 0x00]"

lemma marks_outside_tags: "w \<in> set md_tags \<Longrightarrow> c \<in> set w \<Longrightarrow> \<not> md_mark c"
proof -
  have "list_all (\<lambda>w. list_all (\<lambda>c. \<not> md_mark c) w) md_tags" by code_simp
  then show "w \<in> set md_tags \<Longrightarrow> c \<in> set w \<Longrightarrow> \<not> md_mark c"
    by (auto simp: list_all_iff)
qed

lemma own_tags_before: "own_tags (a @ d # b) \<Longrightarrow> md_mark d \<Longrightarrow> own_tags a"
proof (induction a)
  case (Cons c a)
  moreover have "starts_with w (c # a)" if "w \<in> set md_tags" "starts_with w ((c # a) @ d # b)" for w
    using starts_with_cut [OF that(2)] marks_outside_tags [OF that(1)] Cons.prems(2) by blast
  ultimately show ?case by auto
qed simp

lemma own_tags_plain: "CHR ''<'' \<notin> set s \<Longrightarrow> own_tags s"
  by (induction s) auto

lemma own_tags_tag: "w \<in> set md_tags \<Longrightarrow> own_tags w"
proof -
  have "list_all own_tags md_tags" by code_simp
  then show "w \<in> set md_tags \<Longrightarrow> own_tags w" by (simp add: list_all_iff)
qed

lemma own_tags_concat: "\<forall>x \<in> set xs. own_tags x \<Longrightarrow> own_tags (concat xs)"
  by (induction xs) (auto intro: own_tags_append)

lemma own_tags_join: "own_tags sep \<Longrightarrow> \<forall>x \<in> set xs. own_tags x \<Longrightarrow> own_tags (js_join sep xs)"
  by (induction sep xs rule: js_join.induct) (auto intro!: own_tags_append)

section \<open>A pass that keeps them\<close>

locale tag_rewriter =
  fixes m :: "'a matcher" and f :: "'a \<Rightarrow> string"
  assumes starts: "m p (c # s) = Some (x, r) \<Longrightarrow> md_mark c"
    and shorter: "m p (c # s) = Some (x, r) \<Longrightarrow> length r \<le> length s"
    and keeps: "own_tags s \<Longrightarrow> m p s = Some (x, r) \<Longrightarrow> own_tags (f x) \<and> own_tags r"
begin

abbreviation rewrite :: "char option \<Rightarrow> string \<Rightarrow> string" where
  "rewrite p s \<equiv> concat (map (case_sum (\<lambda>c. [c]) f) (tokens m p s))"

lemma rewrite_None: "m p (c # s) = None \<Longrightarrow> rewrite p (c # s) = c # rewrite (Some c) s"
  by simp

lemma rewrite_Some:
  "m p (c # s) = Some (x, r) \<Longrightarrow> rewrite p (c # s) = f x @ rewrite (Some (last (take (Suc (length s) - length r) (c # s)))) r"
  using shorter [of p c s x r] by simp

lemma rewrite_skips: "starts_with w s \<Longrightarrow> \<forall>c \<in> set w. \<not> md_mark c \<Longrightarrow> starts_with w (rewrite p s)"
proof (induction w s arbitrary: p rule: starts_with.induct)
  case (3 x xs y ys)
  then have "m p (y # ys) = None"
    using starts [of p y ys] by (cases "m p (y # ys)") auto
  with 3 show ?case by (simp only: rewrite_None) simp
qed auto

lemma rewrite_own: "own_tags s \<Longrightarrow> own_tags (rewrite p s)"
proof (induction "length s" arbitrary: s p rule: less_induct)
  case less
  show ?case
  proof (cases s)
    case (Cons c u)
    show ?thesis
    proof (cases "m p (c # u)")
      case None
      have "starts_with w (rewrite p (c # u))" if "w \<in> set md_tags" "starts_with w (c # u)" for w
        using rewrite_skips [OF that(2)] marks_outside_tags [OF that(1)] by blast
      moreover have "own_tags (rewrite (Some c) u)"
        using less Cons by simp
      ultimately show ?thesis
        using less.prems Cons None by (simp only: rewrite_None own_tags.simps) blast
    next
      case (Some xr)
      obtain x r where xr: "xr = (x, r)" by force
      have "length r < length s" using shorter [of p c u x r] Some xr Cons by simp
      moreover have "own_tags (f x)" "own_tags r"
        using keeps [of "c # u" p x r] Some xr Cons less.prems by auto
      ultimately show ?thesis
        using less.hyps Some xr Cons by (simp only: rewrite_Some own_tags_append)
    qed
  qed simp
qed

lemma replace_own: "own_tags s \<Longrightarrow> own_tags (regex_replace m f s)"
  unfolding regex_replace_def by (rule rewrite_own)

end

section \<open>What the matchers capture\<close>

lemma cut_before_text: "cut_before stop close s = Some (a, r) \<Longrightarrow> s = a @ close @ r"
  by (induction stop close s arbitrary: a rule: cut_before.induct) (auto simp: starts_with_iff split: if_splits)

lemma one_or_more_text:
  assumes "one_or_more fe s = Some (a, r)" "\<And>u a r. fe u = Some (a, r) \<Longrightarrow> u = a @ close @ r"
  shows "s = a @ close @ r"
  using assms by (fastforce simp: one_or_more_def split: list.splits if_splits)

lemma pair_match_text:
  assumes "pair_match d p s = Some (x, r)" shows "s = [d, d] @ x @ [d, d] @ r"
proof -
  have "one_or_more (cut_before line_end [d, d]) (drop 2 s) = Some (x, r)" and "s = [d, d] @ drop 2 s"
    using assms by (auto simp: pair_match_def starts_with_iff split: if_splits)
  with one_or_more_text [OF this(1) cut_before_text] show ?thesis by simp
qed

lemma cut_single_text: "cut_single d p s = Some (a, r) \<Longrightarrow> s = a @ [d] @ r"
  by (induction d p s arbitrary: a rule: cut_single.induct) (auto split: if_splits)

lemma single_match_text:
  assumes "single_match d p s = Some (x, r)" shows "s = [d] @ x @ [d] @ r"
proof -
  have "one_or_more (cut_single d (hd (tl s))) (tl s) = Some (x, r)" and "s = d # tl s"
    using assms by (auto simp: single_match_def split: list.splits if_splits)
  with one_or_more_text [OF this(1) cut_single_text] show ?thesis by simp
qed

lemma link_match_text:
  assumes "link_match p s = Some ((label, url), r)"
  shows "s = [CHR ''[''] @ label @ [CHR '']'', CHR ''(''] @ url @ [CHR '')''] @ r"
proof -
  define q where "q = dropWhile (\<lambda>c. c \<noteq> CHR '']'') (tl s)"
  define z where "z = dropWhile (\<lambda>c. \<not> (c = CHR '')'' \<or> is_js_space c)) (drop 2 q)"
  have s: "s = CHR ''['' # tl s" and l: "label = takeWhile (\<lambda>c. c \<noteq> CHR '']'') (tl s)"
    and q: "starts_with [CHR '']'', CHR ''(''] q" and z: "z = CHR '')'' # r"
    and u: "url = takeWhile (\<lambda>c. \<not> (c = CHR '')'' \<or> is_js_space c)) (drop 2 q)"
    using assms by (cases s; cases z; auto simp: link_match_def Let_def q_def z_def split: if_splits)+
  have "tl s = label @ q" by (simp add: l q_def)
  moreover have "q = [CHR '']'', CHR ''(''] @ drop 2 q" using q by (auto simp: starts_with_iff)
  moreover have "drop 2 q = url @ z" by (simp add: u z_def)
  ultimately show ?thesis using s z by (metis append.assoc append_Cons append_Nil)
qed

lemma placeholder_match_text:
  assumes "placeholder_match name p s = Some (i, r)" shows "\<exists>u. s = [CHR 0x00] @ u @ r"
proof -
  define q where "q = drop (Suc (length name)) s"
  define z where "z = dropWhile is_digit q"
  have sw: "starts_with (CHR 0x00 # name) s" and z: "z = CHR 0x00 # r"
    using assms by (cases z; auto simp: placeholder_match_def Let_def q_def z_def split: if_splits)+
  have "s = CHR 0x00 # name @ q" using sw by (auto simp: starts_with_iff q_def)
  moreover have "q = takeWhile is_digit q @ z" by (simp add: z_def)
  ultimately show ?thesis using z by (metis append.assoc append_Cons append_Nil)
qed

section \<open>Each pass\<close>

lemma tag_rewriter_between:
  assumes "md_mark d" "md_mark e" "a = d # a'" "b = e # b'"
    and "own_tags (a @ x @ b @ r)"
  shows "own_tags x \<and> own_tags r"
proof -
  have "own_tags (x @ b @ r)" using own_tags_suffix [OF assms(5)] .
  moreover from this have "own_tags r" using own_tags_suffix [of "x @ b" r] by simp
  ultimately show ?thesis using own_tags_before [of x e "b' @ r"] assms by simp
qed

lemma wrap_own:
  assumes "own_tags x" "(''<'' @ tag @ ''>'') \<in> set md_tags" "(''</'' @ tag @ ''>'') \<in> set md_tags"
  shows "own_tags (wrap_tag tag x)"
  using own_tags_append [OF own_tags_tag [OF assms(2)] own_tags_append [OF assms(1) own_tags_tag [OF assms(3)]]]
  by (simp add: wrap_tag_def)

lemma wrapped_tags: "w \<in> {''del'', ''em'', ''strong''} \<Longrightarrow> (''<'' @ w @ ''>'') \<in> set md_tags \<and> (''</'' @ w @ ''>'') \<in> set md_tags"
  by (auto simp: md_tags_def)

lemma pair_rewriter:
  assumes "md_mark d" "tag \<in> {''del'', ''em'', ''strong''}"
  shows "tag_rewriter (pair_match d) (wrap_tag tag)"
proof
  fix p c s x r
  assume m: "pair_match d p (c # s) = Some (x, r)"
  note eq = pair_match_text [OF m]
  show "md_mark c" "length r \<le> length s"
    using eq assms(1) by auto
next
  fix s p x r
  assume o: "own_tags s" and m: "pair_match d p s = Some (x, r)"
  have "own_tags x \<and> own_tags r"
    using tag_rewriter_between [OF assms(1) assms(1)] pair_match_text [OF m] o by (metis append_Cons append_Nil)
  then show "own_tags (wrap_tag tag x) \<and> own_tags r"
    using wrap_own wrapped_tags [OF assms(2)] by blast
qed

lemma single_rewriter:
  assumes "md_mark d" "tag \<in> {''del'', ''em'', ''strong''}"
  shows "tag_rewriter (single_match d) (wrap_tag tag)"
proof
  fix p c s x r
  assume m: "single_match d p (c # s) = Some (x, r)"
  note eq = single_match_text [OF m]
  show "md_mark c" "length r \<le> length s"
    using eq assms(1) by auto
next
  fix s p x r
  assume o: "own_tags s" and m: "single_match d p s = Some (x, r)"
  have "own_tags x \<and> own_tags r"
    using tag_rewriter_between [OF assms(1) assms(1)] single_match_text [OF m] o by (metis append_Cons append_Nil)
  then show "own_tags (wrap_tag tag x) \<and> own_tags r"
    using wrap_own wrapped_tags [OF assms(2)] by blast
qed

lemma md_link_own:
  assumes "own_tags label" "own_tags url" shows "own_tags (md_link (label, url))"
proof -
  have "own_tags (''<a class=\"pg-md-link\" href=\"'')" "own_tags (''</a>'')"
    by (rule own_tags_tag, simp add: md_tags_def)+
  moreover have "own_tags (''\" target=\"_blank\" rel=\"noopener\">'')" by (rule own_tags_plain) simp
  ultimately show ?thesis using assms by (simp only: md_link_def prod.case own_tags_append)
qed

interpretation link: tag_rewriter link_match md_link
proof
  fix p c s x r
  assume m: "link_match p (c # s) = Some (x, r)"
  obtain label url where x: "x = (label, url)" by force
  note eq = link_match_text [OF m [unfolded x]]
  show "md_mark c" "length r \<le> length s"
    using eq by (auto simp: md_mark_def)
next
  fix s p x r
  assume o: "own_tags s" and m: "link_match p s = Some (x, r)"
  obtain label url where x: "x = (label, url)" by force
  note eq = link_match_text [OF m [unfolded x]]
  have "own_tags label \<and> own_tags (url @ [CHR '')''] @ r)"
    using tag_rewriter_between [where a = "[CHR ''['']" and b = "[CHR '']'', CHR ''('']" and x = label and r = "url @ [CHR '')''] @ r"]
      o eq by (simp add: md_mark_def)
  moreover from this have "own_tags url" "own_tags r"
    using own_tags_before [of url "CHR '')''" r] own_tags_suffix [of "url @ [CHR '')'']" r] by (simp_all add: md_mark_def)
  ultimately show "own_tags (md_link x) \<and> own_tags r"
    using md_link_own x by blast
qed

lemma placeholder_rewriter:
  assumes "\<forall>b \<in> set blocks. own_tags b"
  shows "tag_rewriter (placeholder_match name) (nth_or_empty blocks)"
proof
  fix p c s x r
  assume m: "placeholder_match name p (c # s) = Some (x, r)"
  show "md_mark c" "length r \<le> length s"
    using placeholder_match_text [OF m] by (auto simp: md_mark_def)
next
  fix s p x r
  assume "own_tags s" and m: "placeholder_match name p s = Some (x, r)"
  then have "own_tags r"
    using placeholder_match_text [OF m] own_tags_suffix [of "[CHR 0x00] @ _" r] by (metis append.assoc)
  moreover have "own_tags (nth_or_empty blocks x)"
    using assms by (simp add: nth_or_empty_def)
  ultimately show "own_tags (nth_or_empty blocks x) \<and> own_tags r" by simp
qed

interpretation bold_stars: tag_rewriter "pair_match (CHR ''*'')" "wrap_tag ''strong''"
  by (rule pair_rewriter) (simp_all add: md_mark_def)

interpretation bold_bars: tag_rewriter "pair_match (CHR ''_'')" "wrap_tag ''strong''"
  by (rule pair_rewriter) (simp_all add: md_mark_def)

interpretation struck: tag_rewriter "pair_match (CHR ''~'')" "wrap_tag ''del''"
  by (rule pair_rewriter) (simp_all add: md_mark_def)

interpretation star: tag_rewriter "single_match (CHR ''*'')" "wrap_tag ''em''"
  by (rule single_rewriter) (simp_all add: md_mark_def)

interpretation bar: tag_rewriter "single_match (CHR ''_'')" "wrap_tag ''em''"
  by (rule single_rewriter) (simp_all add: md_mark_def)

lemma md_inline_own: "own_tags s \<Longrightarrow> own_tags (md_inline s)"
  unfolding md_inline_def
  by (intro link.replace_own struck.replace_own bar.replace_own star.replace_own bold_bars.replace_own bold_stars.replace_own)

lemma put_back_own: "\<forall>b \<in> set blocks. own_tags b \<Longrightarrow> own_tags s \<Longrightarrow> own_tags (put_back name blocks s)"
  unfolding put_back_def by (rule tag_rewriter.replace_own [OF placeholder_rewriter])

section \<open>The text the blocks are made of\<close>

abbreviation no_tag :: "string \<Rightarrow> bool" where
  "no_tag s \<equiv> CHR ''<'' \<notin> set s"

lemma no_tag_escape: "no_tag (escape_text s)"
proof
  assume "CHR ''<'' \<in> set (escape_text s)"
  then have "CHR ''<'' \<in> set (markup (escape_text s))"
    unfolding markup_def by (simp add: is_markup_def)
  then show False by simp
qed

text \<open>A matcher that captures parts of the text it reads.\<close>

locale part_matcher =
  fixes m :: "'a matcher" and chars :: "'a \<Rightarrow> char set"
  assumes part: "m p s = Some (x, r) \<Longrightarrow> chars x \<subseteq> set s \<and> set r \<subseteq> set s"
begin

lemma tokens_parts: "v \<in> set (tokens m p s) \<Longrightarrow> case_sum (\<lambda>c. {c}) chars v \<subseteq> set s"
proof (induction "length s" arbitrary: s p rule: less_induct)
  case less
  show ?case
  proof (cases s)
    case (Cons c u)
    show ?thesis
    proof (cases "m p s")
      case None
      then have "v = Inl c \<or> v \<in> set (tokens m (Some c) u)" using less.prems Cons by simp
      then show ?thesis using less.hyps [of u "Some c"] Cons by auto
    next
      case (Some xr)
      obtain x r where xr: "xr = (x, r)" by force
      have sub: "chars x \<subseteq> set s" "set r \<subseteq> set s" using part [of p s x r] Some xr by auto
      show ?thesis
      proof (cases "length r \<le> length u")
        case True
        then obtain q where "v = Inr x \<or> v \<in> set (tokens m q r)"
          using less.prems Cons Some xr by (auto split: if_splits)
        then show ?thesis using less.hyps [of r q] True Cons sub by auto
      next
        case False
        then show ?thesis using less.prems Cons Some xr sub by simp
      qed
    qed
  qed (use less.prems in simp)
qed

lemma captures_part: "x \<in> set (captures m s) \<Longrightarrow> chars x \<subseteq> set s"
  using tokens_parts [of _ None s] by (force simp: captures_def List.map_filter_def split: sum.splits)

lemma take_out_no_tag:
  assumes "no_tag s" "no_tag name" shows "no_tag (take_out m name s)"
proof -
  have ph: "no_tag (placeholder name i)" for i
    using assms(2) nat_to_str_digits [of "int i"] by (auto simp: placeholder_def digit_string_def is_digit_def)
  have "no_tag (concat (map (case_sum (\<lambda>c. [c]) (placeholder name)) (number_matches n ts)))"
    if "\<forall>c. Inl c \<in> set ts \<longrightarrow> c \<in> set s" for n and ts :: "(char + 'a) list"
    using that by (induction n ts rule: number_matches.induct) (use assms(1) ph in auto)
  then show ?thesis
    using tokens_parts [of "Inl _" None s] unfolding take_out_def by auto
qed

end

lemma fence_match_part:
  assumes "fence_match p s = Some (x, r)"
  shows "set (fst x) \<union> set (snd x) \<subseteq> set s \<and> set r \<subseteq> set s"
proof -
  obtain fence where b: "fence_body fence (drop 3 s) = Some (x, r)"
    using assms by (auto simp: fence_match_def split: if_splits)
  define q where "q = dropWhile word_char (drop 3 s)"
  obtain code where x: "x = (takeWhile word_char (drop 3 s), code)" and c: "cut_before (\<lambda>c. False) fence (tl q) = Some (code, r)"
    using b by (auto simp: fence_body_def Let_def q_def split: if_splits)
  have "set code \<subseteq> set (tl q)" "set r \<subseteq> set (tl q)" using cut_before_text [OF c] by auto
  moreover have "set (tl q) \<subseteq> set s"
    by (metis q_def drop_Suc drop_0 dropWhile_eq_drop drop_drop set_drop_subset)
  moreover have "set (takeWhile word_char (drop 3 s)) \<subseteq> set s"
    by (meson in_set_dropD set_takeWhileD subsetI)
  ultimately show ?thesis using x by auto
qed

interpretation fence: part_matcher fence_match "\<lambda>(lang, code). set lang \<union> set code"
  by unfold_locales (use fence_match_part in fastforce)

lemma inline_match_part:
  assumes "inline_match p s = Some (x, r)" shows "set x \<subseteq> set s \<and> set r \<subseteq> set s"
proof -
  have "x = takeWhile (\<lambda>c. c \<noteq> CHR ''`'') (tl s)" "r = tl (dropWhile (\<lambda>c. c \<noteq> CHR ''`'') (tl s))"
    using assms by (auto simp: inline_match_def Let_def split: if_splits)
  moreover have "set (tl (dropWhile P (tl s))) \<subseteq> set s" for P
    by (metis drop_Suc drop_0 dropWhile_eq_drop drop_drop set_drop_subset)
  moreover have "set (takeWhile P (tl s)) \<subseteq> set s" for P
    by (metis drop_Suc drop_0 in_set_dropD set_takeWhileD subsetI)
  ultimately show ?thesis by simp
qed

interpretation tick: part_matcher inline_match set
  by unfold_locales (use inline_match_part in blast)

section \<open>Blocks\<close>

lemma in_tl: "c \<in> set (tl s) \<Longrightarrow> c \<in> set s"
  by (cases s) auto

lemma in_trim: "c \<in> set (js_trim s) \<Longrightarrow> c \<in> set s"
  unfolding js_trim_def by (metis set_dropWhileD set_rev)

lemmas in_parts = in_tl in_trim in_set_dropD set_takeWhileD set_dropWhileD

lemma spaced_rest_part: "spaced_rest s = Some r \<Longrightarrow> set r \<subseteq> set s"
  by (auto simp: spaced_rest_def Let_def split: if_splits dest: in_parts)

lemma heading_part:
  assumes "heading_of x = Some (n, r)" shows "n \<in> {1, 2, 3, 4} \<and> set r \<subseteq> set x"
proof -
  define k where "k = length (takeWhile (\<lambda>c. c = CHR ''#'') x)"
  have k: "1 \<le> k" "k \<le> 4" "n = k" "spaced_rest (drop k x) = Some r"
    using assms by (auto simp: heading_of_def k_def Let_def split: if_splits)
  from spaced_rest_part [OF k(4)] k(1-3) show ?thesis by (auto dest: in_parts)
qed

lemma quote_part: "quote_of x = Some r \<Longrightarrow> set r \<subseteq> set x"
  by (auto simp: quote_of_def Let_def split: if_splits dest: in_parts)

lemma item_part:
  assumes "item_of x = Some (tag, r)" shows "tag \<in> {''ul'', ''ol''} \<and> set r \<subseteq> set x"
proof -
  have "bullet_rest x = Some s \<Longrightarrow> set s \<subseteq> set x" "number_rest x = Some s \<Longrightarrow> set s \<subseteq> set x" for s
    by (auto simp: bullet_rest_def number_rest_def Let_def split: if_splits dest!: in_parts)
  then show ?thesis
    using assms spaced_rest_part by (fastforce simp: item_of_def bind_eq_Some_conv split: option.splits)
qed

lemma list_tags: "w \<in> {''ul'', ''ol''} \<Longrightarrow> open_list w \<in> set md_tags \<and> (''</'' @ w @ ''>'') \<in> set md_tags"
  by (auto simp: md_tags_def open_list_def)

lemma close_list_own: "l \<in> {None, Some ''ul'', Some ''ol''} \<Longrightarrow> y \<in> set (close_list l) \<Longrightarrow> own_tags y"
  using own_tags_tag list_tags by (auto simp: close_list_def)

lemma close_quote_own: "y \<in> set (close_quote q) \<Longrightarrow> own_tags y"
  using own_tags_tag [of "(''</blockquote>'')"] by (auto simp: close_quote_def md_tags_def split: if_splits)

lemma between_own:
  "a \<in> set md_tags \<Longrightarrow> b \<in> set md_tags \<Longrightarrow> own_tags s \<Longrightarrow> own_tags (a @ s @ b)"
  by (simp only: own_tags_append own_tags_tag)

lemma heading_own:
  assumes "n \<in> {1, 2, 3, 4}" "no_tag s" shows "own_tags (md_heading n s)"
proof -
  have "own_tags (js_trim s)" using assms(2) in_trim own_tags_plain by blast
  have tags: "(''<h'' @ (nat_to_str (int n)) @ '' class=\"pg-md-h'' @ (nat_to_str (int n)) @ ''\">'') \<in> set md_tags \<and> (''</h'' @ (nat_to_str (int n)) @ ''>'') \<in> set md_tags"
    using assms(1) by (elim insertE emptyE) (simp, code_simp)+
  have "md_heading n s = (''<h'' @ (nat_to_str (int n)) @ '' class=\"pg-md-h'' @ (nat_to_str (int n)) @ ''\">'') @ js_trim s @ (''</h'' @ (nat_to_str (int n)) @ ''>'')"
    by (simp add: md_heading_def)
  with between_own tags \<open>own_tags (js_trim s)\<close> show ?thesis by metis
qed

abbreviation list_state :: "string option \<Rightarrow> bool" where
  "list_state l \<equiv> l \<in> {None, Some ''ul'', Some ''ol''}"

lemma md_lines_step:
  assumes x: "no_tag x" and xs: "\<forall>y \<in> set xs. no_tag y" and l: "list_state l"
  shows "\<exists>pre l' q' ys. md_lines l q (x # xs) = pre @ md_lines l' q' ys \<and> (\<forall>y \<in> set pre. own_tags y)
    \<and> list_state l' \<and> length ys \<le> length xs \<and> set ys \<subseteq> set xs"
proof -
  have closing: "\<forall>y \<in> set (close_list l @ close_quote q). own_tags y"
    using close_list_own [OF l] close_quote_own by auto
  have go: ?thesis if "md_lines l q (x # xs) = pre @ md_lines l' q' ys" "\<forall>y \<in> set pre. own_tags y" "list_state l'"
      "length ys \<le> length xs" "set ys \<subseteq> set xs" for pre l' q' ys
    using that by blast
  consider "is_code_line x" | "\<not> is_code_line x" "is_rule x"
    | n s where "\<not> is_code_line x" "\<not> is_rule x" "heading_of x = Some (n, s)"
    | s where "\<not> is_code_line x" "\<not> is_rule x" "heading_of x = None" "quote_of x = Some s"
    | tag s where "\<not> is_code_line x" "\<not> is_rule x" "heading_of x = None" "quote_of x = None" "item_of x = Some (tag, s)"
    | "\<not> is_code_line x" "\<not> is_rule x" "heading_of x = None" "quote_of x = None" "item_of x = None"
    by (metis option.exhaust surj_pair)
  then show ?thesis
  proof cases
    case 1
    then show ?thesis using closing own_tags_plain [OF x]
      by (intro go [of "close_list l @ close_quote q @ [x]" None False xs]) auto
  next
    case 2
    have "own_tags (''<hr class=\"pg-md-hr\">'')" by (rule own_tags_tag) (simp add: md_tags_def)
    with 2 closing show ?thesis
      by (intro go [of "close_list l @ close_quote q @ [(''<hr class=\"pg-md-hr\">'')]" None False xs]) auto
  next
    case (3 n s)
    have "own_tags (md_heading n s)" using heading_own heading_part [OF 3(3)] x by blast
    with 3 closing show ?thesis
      by (intro go [of "close_list l @ close_quote q @ [md_heading n s]" None False xs]) auto
  next
    case (4 s)
    have "own_tags s" using quote_part [OF 4(4)] x own_tags_plain by blast
    moreover have "own_tags (''<blockquote class=\"pg-md-quote\">'')" by (rule own_tags_tag) (simp add: md_tags_def)
    ultimately show ?thesis using 4 closing
      by (intro go [of "close_list l @ (if q then [] else [(''<blockquote class=\"pg-md-quote\">'')]) @ [s]" None True xs]) auto
  next
    case (5 tag s)
    have tag: "tag \<in> {''ul'', ''ol''}" and "own_tags s" using item_part [OF 5(5)] x own_tags_plain by blast+
    then have "own_tags (open_list tag)" "own_tags (''<li>'' @ s @ ''</li>'')"
      using own_tags_tag list_tags between_own [of "(''<li>'')" "(''</li>'')" s] by (auto simp: md_tags_def)
    with 5 closing tag show ?thesis
      by (intro go [of "close_quote q @ (if l = Some tag then [] else close_list l @ [open_list tag]) @ [(''<li>'' @ s @ ''</li>'')]" "Some tag" False xs]) auto
  next
    case 6
    show ?thesis
    proof (cases "js_trim x = []")
      case True
      with 6 closing show ?thesis by (intro go [of "close_quote q @ close_list l" None False xs]) auto
    next
      case False
      have "\<forall>y \<in> set (x # takeWhile goes_on xs). own_tags y"
        using x xs own_tags_plain by (auto dest: set_takeWhileD)
      then have "own_tags (md_paragraph (x # takeWhile goes_on xs))"
        unfolding md_paragraph_def using between_own [of "(''<p class=\"pg-md-p\">'')" "(''</p>'')"] own_tags_join [of "(''<br>'')"] own_tags_tag [of "(''<br>'')"]
        by (simp add: md_tags_def del: own_tags.simps)
      moreover have "set (dropWhile goes_on xs) \<subseteq> set xs" by (auto dest: set_dropWhileD)
      ultimately show ?thesis using 6 closing False
        by (intro go [of "close_quote q @ close_list l @ [md_paragraph (x # takeWhile goes_on xs)]" None False "dropWhile goes_on xs"])
          (auto simp: length_dropWhile_le)
    qed
  qed
qed

lemma md_lines_own:
  "\<forall>x \<in> set xs. no_tag x \<Longrightarrow> list_state l \<Longrightarrow> y \<in> set (md_lines l q xs) \<Longrightarrow> own_tags y"
proof (induction "length xs" arbitrary: xs l q rule: less_induct)
  case less
  show ?case
  proof (cases xs)
    case Nil
    then show ?thesis using less.prems close_list_own [of l y] close_quote_own [of y q] by auto
  next
    case (Cons x u)
    obtain pre l' q' ys where step: "md_lines l q (x # u) = pre @ md_lines l' q' ys" "\<forall>y \<in> set pre. own_tags y"
        "list_state l'" "length ys \<le> length u" "set ys \<subseteq> set u"
      using md_lines_step [of x u l q] less.prems Cons by auto
    have "y \<in> set pre \<or> y \<in> set (md_lines l' q' ys)" using less.prems(3) Cons step(1) by simp
    moreover have "\<forall>x \<in> set ys. no_tag x" "length ys < length xs" using less.prems(1) Cons step(4,5) by auto
    ultimately show ?thesis using less.hyps [of ys l' q'] step(2,3) by blast
  qed
qed

lemma js_split_part: "x \<in> set (js_split f s) \<Longrightarrow> set x \<subseteq> set s"
proof (induction s arbitrary: x)
  case (Cons c s)
  obtain w ws where "js_split f s = w # ws" by (cases "js_split f s") (use js_split_ne in auto)
  with Cons show ?case by (fastforce split: if_splits)
qed simp

section \<open>The whole text\<close>

lemma code_block_own:
  assumes "no_tag lang" "no_tag code" shows "own_tags (code_block (lang, code))"
proof -
  have "own_tags (''<pre class=\"pg-md-code\"><code class=\"lang-'')" "own_tags (''\">'')" "own_tags (''</code></pre>'')" by code_simp+
  moreover have "own_tags (drop_last_newline code)"
    using assms(2) by (auto simp: drop_last_newline_def dest: in_set_butlastD intro: own_tags_plain)
  moreover have "own_tags (pgEsc (Str lang))" by (simp add: pgEsc_def no_tag_escape own_tags_plain)
  ultimately show ?thesis by (simp only: code_block_def prod.case own_tags_append)
qed

lemma inline_code_own: "no_tag code \<Longrightarrow> own_tags (inline_code code)"
  unfolding inline_code_def by (rule between_own) (simp_all add: md_tags_def own_tags_plain)

text \<open>
  C19. The Markdown renderer makes no tags but its own: whatever the text of a message holds (tags, entities,
  unbalanced marks, placeholders of the renderer, line ends of any kind), at every place of the HTML
  where a tag could begin stands one of the openings the renderer writes itself.
\<close>

theorem markdown_writes_only_its_tags: "own_tags (pgMarkdown src)"
proof -
  define s where "s = pgEsc (Str (str_or_empty src))"
  define s1 where "s1 = take_out fence_match ''CODEBLOCK'' s"
  define s2 where "s2 = take_out inline_match ''INLINE'' s1"
  have s: "no_tag s" by (simp add: s_def pgEsc_def no_tag_escape)
  have s1: "no_tag s1" unfolding s1_def by (rule fence.take_out_no_tag [OF s]) simp
  have s2: "no_tag s2" unfolding s2_def by (rule tick.take_out_no_tag [OF s1]) simp
  have "\<forall>x \<in> set (js_split (\<lambda>c. c = CHR 0x0A) s2). no_tag x"
    using js_split_part s2 by blast
  then have "own_tags (js_join [CHR 0x0A] (md_lines None False (js_split (\<lambda>c. c = CHR 0x0A) s2)))"
    using md_lines_own [of _ None _ False] by (intro own_tags_join) auto
  then have html: "own_tags (md_inline (js_join [CHR 0x0A] (md_lines None False (js_split (\<lambda>c. c = CHR 0x0A) s2))))"
    by (rule md_inline_own)
  have blocks: "\<forall>b \<in> set (map code_block (captures fence_match s)). own_tags b"
    using fence.captures_part [of _ s] s by (auto intro!: code_block_own)
  have codes: "\<forall>b \<in> set (map inline_code (captures inline_match s1)). own_tags b"
    using tick.captures_part [of _ s1] s1 by (auto intro!: inline_code_own)
  show ?thesis
    unfolding pgMarkdown_def Let_def s_def [symmetric] s1_def [symmetric] s2_def [symmetric]
    by (intro put_back_own blocks codes html)
qed

section \<open>Links\<close>

text \<open>A character that means nothing to the renderer: no mark, no markup, no blank.\<close>

definition md_plain :: "char \<Rightarrow> bool" where
  "md_plain c \<longleftrightarrow> \<not> md_mark c \<and> c \<noteq> CHR ''`'' \<and> escape_char c = [c] \<and> \<not> is_js_space c"

definition dirty_chars :: string where
  "dirty_chars = [CHR ''`'', CHR ''~'', CHR ''*'', CHR ''_'', CHR 0x00, CHR 0x0A]"

lemma not_dirty:
  assumes "md_plain c \<or> c \<in> set [CHR ''['', CHR '']'', CHR ''('', CHR '')'']" shows "c \<notin> set dirty_chars"
proof -
  have "list_all (\<lambda>c. \<not> md_plain c \<and> c \<notin> set [CHR ''['', CHR '']'', CHR ''('', CHR '')'']) dirty_chars" by code_simp
  with assms show ?thesis by (auto simp: list_all_iff)
qed

lemma nul_not_plain: "\<not> md_plain (CHR 0x00)"
  by (simp add: md_plain_def md_mark_def)

lemma escape_text_id: "\<forall>c \<in> set s. escape_char c = [c] \<Longrightarrow> escape_text s = s"
  by (induction s) (simp_all add: escape_text_Cons)

lemma tokens_skip:
  assumes "\<forall>c \<in> set a. \<forall>p u. m p (c # u) = None"
  shows "\<exists>q. tokens m p (a @ s) = map Inl a @ tokens m q s"
  using assms by (induction a arbitrary: p) auto

lemma tokens_id: "\<forall>c \<in> set s. \<forall>p u. m p (c # u) = None \<Longrightarrow> tokens m p s = map Inl s"
  using tokens_skip [of s m p "[]"] by auto

lemma regex_replace_id: "\<forall>c \<in> set s. \<forall>p u. m p (c # u) = None \<Longrightarrow> regex_replace m f s = s"
  by (simp add: regex_replace_def tokens_id comp_def)

lemma number_matches_plain: "number_matches n (map Inl s) = map Inl s"
  by (induction s) auto

lemma take_out_id: "\<forall>c \<in> set s. \<forall>p u. m p (c # u) = None \<Longrightarrow> take_out m name s = s"
  by (simp add: take_out_def tokens_id number_matches_plain comp_def)

lemma pair_starts: "c \<noteq> d \<Longrightarrow> pair_match d p (c # u) = None"
  and single_starts: "c \<noteq> d \<Longrightarrow> single_match d p (c # u) = None"
  and link_starts: "c \<noteq> CHR ''['' \<Longrightarrow> link_match p (c # u) = None"
  and inline_starts: "c \<noteq> CHR ''`'' \<Longrightarrow> inline_match p (c # u) = None"
  and fence_starts: "c \<noteq> CHR ''`'' \<Longrightarrow> c \<noteq> CHR ''~'' \<Longrightarrow> fence_match p (c # u) = None"
  and placeholder_starts: "c \<noteq> CHR 0x00 \<Longrightarrow> placeholder_match name p (c # u) = None"
  by (simp_all add: pair_match_def single_match_def link_match_def inline_match_def fence_match_def placeholder_match_def)

lemma placeholder_needs_nul: "CHR 0x00 \<notin> set s \<Longrightarrow> placeholder_match name p s = None"
  by (cases s) (auto simp: placeholder_starts placeholder_match_def)

lemma link_matches:
  assumes "label \<noteq> []" "url \<noteq> []" "CHR '']'' \<notin> set label" "\<forall>c \<in> set url. c \<noteq> CHR '')'' \<and> \<not> is_js_space c"
  shows "link_match p (CHR ''['' # label @ CHR '']'' # CHR ''('' # url @ CHR '')'' # r) = Some ((label, url), r)"
proof -
  have "takeWhile (\<lambda>c. c \<noteq> CHR '']'') (label @ CHR '']'' # u) = label" "dropWhile (\<lambda>c. c \<noteq> CHR '']'') (label @ CHR '']'' # u) = CHR '']'' # u" for u
    using assms(3) by (induction label) auto
  moreover have "takeWhile (\<lambda>c. c \<noteq> CHR '')'' \<and> \<not> is_js_space c) (url @ CHR '')'' # r) = url"
    "dropWhile (\<lambda>c. c \<noteq> CHR '')'' \<and> \<not> is_js_space c) (url @ CHR '')'' # r) = CHR '')'' # r"
    using assms(4) by (induction url) auto
  ultimately show ?thesis using assms(1,2) by (simp add: link_match_def Let_def)
qed

lemma link_line:
  assumes "\<forall>c \<in> set label \<union> set url. md_plain c"
  defines "line \<equiv> CHR ''['' # label @ CHR '']'' # CHR ''('' # url @ [CHR '')'']"
  shows "md_lines None False [line] = [md_paragraph [line]]"
proof -
  have nul: "CHR 0x00 \<notin> set line" using assms(1) by (auto simp: line_def md_plain_def md_mark_def)
  then have "CHR 0x00 \<notin> set (js_trim line)" using in_trim by blast
  then have code: "\<not> is_code_line line" by (simp add: is_code_line_def placeholder_needs_nul)
  have blank: "\<not> is_js_space (CHR ''['')" "\<not> is_js_space (CHR '')'')" "\<not> is_digit (CHR ''['')"
    by (simp_all add: is_js_space_def is_digit_def)
  have "\<not> is_rule line" "heading_of line = None" "quote_of line = None" "bullet_rest line = None" "number_rest line = None"
    using blank by (simp_all add: line_def is_rule_def heading_of_def quote_of_def bullet_rest_def number_rest_def)
  moreover from this have "item_of line = None" by (simp add: item_of_def)
  moreover have "js_trim line \<noteq> []" using blank by (simp add: line_def js_trim_def)
  ultimately show ?thesis using code by (simp add: close_list_def close_quote_def)
qed

text \<open>
  C20. Links are not restricted: for every label and every address of ordinary characters, \<open>[label](address)\<close>
  becomes an anchor whose \<open>href\<close> is the address, whatever its scheme; a reply that holds a
  \<open>javascript:\<close> address puts a link on the page that runs it.
\<close>

theorem link_address_unchecked:
  assumes plain: "\<forall>c \<in> set label \<union> set url. md_plain c" and "label \<noteq> []" "url \<noteq> []"
  shows "pgMarkdown (Str (CHR ''['' # label @ CHR '']'' # CHR ''('' # url @ [CHR '')'']))
    = (''<p class=\"pg-md-p\"><a class=\"pg-md-link\" href=\"'' @ url @
       ''\" target=\"_blank\" rel=\"noopener\">'' @ label @ ''</a></p>'')"
proof -
  define line where "line = CHR ''['' # label @ CHR '']'' # CHR ''('' # url @ [CHR '')'']"
  have chars: "md_plain c \<or> c \<in> set [CHR ''['', CHR '']'', CHR ''('', CHR '')'']" if "c \<in> set line" for c
    using that plain by (auto simp: line_def)
  have "escape_char c = [c]" if "c \<in> set line" for c
    using chars [OF that] by (auto simp: md_plain_def escape_char_def)
  then have esc: "pgEsc (Str line) = line"
    by (simp add: pgEsc_def escape_text_id)
  have clean: "c \<noteq> CHR ''`'' \<and> c \<noteq> CHR ''~'' \<and> c \<noteq> CHR ''*'' \<and> c \<noteq> CHR ''_'' \<and> c \<noteq> CHR 0x00 \<and> c \<noteq> CHR 0x0A"
    if "c \<in> set line" for c
    using not_dirty [OF chars [OF that]] by (simp add: dirty_chars_def)
  define html where "html = md_paragraph [line]"
  have html: "html = (''<p class=\"pg-md-p\">'') @ line @ (''</p>'')" by (simp add: html_def md_paragraph_def)
  have "\<forall>c \<in> set (''<p class=\"pg-md-p\">'') \<union> set (''</p>''). c \<noteq> CHR ''~'' \<and> c \<noteq> CHR ''*'' \<and> c \<noteq> CHR ''_''" by simp
  then have html_chars: "c \<noteq> CHR ''~'' \<and> c \<noteq> CHR ''*'' \<and> c \<noteq> CHR ''_''" if "c \<in> set html" for c
    using that clean unfolding html set_append by blast
  have id: "regex_replace m f html = html" if "\<And>c p u. c \<noteq> CHR ''~'' \<and> c \<noteq> CHR ''*'' \<and> c \<noteq> CHR ''_'' \<Longrightarrow> m p (c # u) = None"
    for m :: "string matcher" and f
    by (intro regex_replace_id ballI allI that html_chars)
  define res where "res = (''<p class=\"pg-md-p\">'') @ md_link (label, url) @ (''</p>'')"
  have link: "regex_replace link_match md_link html = res"
  proof -
    obtain q where q: "tokens link_match None html = map Inl (''<p class=\"pg-md-p\">'') @ tokens link_match q (line @ (''</p>''))"
      using tokens_skip [of "(''<p class=\"pg-md-p\">'')" link_match None "line @ (''</p>'')"] unfolding html by (auto simp: link_starts)
    have "link_match q (line @ (''</p>'')) = Some ((label, url), (''</p>''))"
    proof -
      have "CHR '']'' \<notin> set label" "\<forall>c \<in> set url. c \<noteq> CHR '')'' \<and> \<not> is_js_space c"
        using plain by (auto simp: md_plain_def md_mark_def)
      from link_matches [OF assms(2,3) this, of q "(''</p>'')"] show ?thesis by (simp add: line_def)
    qed
    then obtain q' where "tokens link_match q (line @ (''</p>'')) = Inr (label, url) # tokens link_match q' (''</p>'')"
      by (auto simp: line_def)
    moreover have "tokens link_match q' (''</p>'') = map Inl (''</p>'')" by (rule tokens_id) (simp add: link_starts)
    ultimately show ?thesis by (simp add: regex_replace_def q res_def comp_def)
  qed
  have "md_inline html = res"
    unfolding md_inline_def by (simp add: id pair_starts single_starts link)
  moreover have "put_back name blocks res = res" for name blocks
  proof -
    have "CHR 0x00 \<notin> set url" "CHR 0x00 \<notin> set label"
      using plain nul_not_plain by blast+
    then have "CHR 0x00 \<notin> set res" by (simp add: res_def md_link_def)
    then show ?thesis
      unfolding put_back_def by (intro regex_replace_id ballI allI placeholder_starts) blast
  qed
  moreover have "take_out fence_match name line = line" "take_out inline_match name line = line" for name
    using clean by (intro take_out_id ballI allI fence_starts inline_starts; blast)+
  moreover have "js_split (\<lambda>c. c = CHR 0x0A) line = [line]" using clean by (intro js_split_plain) auto
  moreover have "md_lines None False [line] = [md_paragraph [line]]"
    unfolding line_def by (rule link_line [OF plain])
  ultimately show ?thesis
    unfolding line_def [symmetric] by (simp add: pgMarkdown_def esc html_def [symmetric] del: md_lines.simps) (simp add: res_def md_link_def)
qed

theorem link_address_unchecked_witness:
  "pgMarkdown (Str ''[x](javascript:alert%281%29)'')
    = (''<p class=\"pg-md-p\"><a class=\"pg-md-link\" href=\"javascript:alert%281%29\"'' @
       '' target=\"_blank\" rel=\"noopener\">x</a></p>'')"
  using link_address_unchecked [of "''x''" "''javascript:alert%281%29''"]
  by (simp add: md_plain_def md_mark_def escape_char_def is_js_space_def)

end
