(* ===== verification/Shell.thy ===== *)
theory Shell
  imports OperationGuard OptimisticConfig
begin

text \<open>
  The page shell of \<open>app.js\<close>: which form container must be protected from automatic re-rendering
  (focus and dirty tracking), the toast stack of \<open>setNotice\<close>, and the three screens (access check,
  login, console) with the flow of \<open>openConsoleWithKey\<close>.

  A DOM element is what these functions read of it: its tag, type, flags, and which of the tracked
  selectors \<open>closest\<close> finds.
\<close>

section \<open>Focus and dirty containers\<close>

record elem =
  e_tag :: string
  e_type :: string
  e_safe :: bool
  e_editable :: bool
  e_within :: "string set"

definition is_form_tag :: "string \<Rightarrow> bool" where
  "is_form_tag tag \<longleftrightarrow> tag = ''input'' \<or> tag = ''textarea'' \<or> tag = ''select''"

text \<open>\<open>interactiveElementHasFocus(root)\<close>; \<open>active\<close> is \<open>document.activeElement\<close>.\<close>

definition interactiveElementHasFocus :: "elem option \<Rightarrow> string option \<Rightarrow> bool" where
  "interactiveElementHasFocus active inside =
     (case active of None \<Rightarrow> False
      | Some a \<Rightarrow>
          if inside \<noteq> None \<and> the inside \<notin> e_within a then False
          else if e_safe a then False
          else if is_form_tag (js_lower (e_tag a)) then True
          else if e_editable a then True
          else (case inside of None \<Rightarrow> False | Some r \<Rightarrow> r \<in> e_within a))"

definition trackedFormSelectors :: "string list" where
  "trackedFormSelectors = [''#globalProxyForm'', ''#configProviders'', ''#providerDrawer'',
     ''#modelRoutesPanel'', ''#providersTable'', ''#modelCapabilities'', ''#settingsOpsGrid'',
     ''#settingsPricingCatalog'', ''#keyDrawerBody'']"

record dirty_state =
  ds_dirty :: "string set"
  ds_coord :: coordinator

definition mark :: "dirty_state \<Rightarrow> dirty_state" where
  "mark s = s\<lparr>ds_coord := markInteraction (ds_coord s)\<rparr>"

text \<open>The loop over the tracked selectors: the first container found is flagged.\<close>

definition flag_first :: "elem \<Rightarrow> dirty_state \<Rightarrow> dirty_state" where
  "flag_first e s =
     (case find (\<lambda>sel. sel \<in> e_within e) trackedFormSelectors of
        None \<Rightarrow> s
      | Some sel \<Rightarrow> mark (s\<lparr>ds_dirty := insert sel (ds_dirty s)\<rparr>))"

definition markContainerDirty :: "elem option \<Rightarrow> dirty_state \<Rightarrow> dirty_state" where
  "markContainerDirty target s =
     (case target of None \<Rightarrow> s
      | Some e \<Rightarrow>
          if \<not> is_form_tag (js_lower (e_tag e)) then s
          else if e_type e = ''search'' \<or> e_type e = ''button'' \<or> e_type e = ''submit'' then s
          else if e_safe e then s
          else flag_first e s)"

text \<open>The listener of the \<open>submit\<close> event, as written: it adds the container too.\<close>

definition clearContainerDirtyOnSubmit :: "elem option \<Rightarrow> dirty_state \<Rightarrow> dirty_state" where
  "clearContainerDirtyOnSubmit form s = (case form of None \<Rightarrow> s | Some e \<Rightarrow> flag_first e s)"

definition clearDirty :: "string \<Rightarrow> dirty_state \<Rightarrow> dirty_state" where
  "clearDirty sel s = mark (s\<lparr>ds_dirty := ds_dirty s - {sel}\<rparr>)"

definition clearAllDirty :: "dirty_state \<Rightarrow> dirty_state" where
  "clearAllDirty s = mark (s\<lparr>ds_dirty := {}\<rparr>)"

definition isContainerDirty :: "string \<Rightarrow> dirty_state \<Rightarrow> bool" where
  "isContainerDirty sel s \<longleftrightarrow> sel \<in> ds_dirty s"

definition shouldPreserveContainer :: "elem option \<Rightarrow> string \<Rightarrow> dirty_state \<Rightarrow> bool" where
  "shouldPreserveContainer active sel s \<longleftrightarrow>
     interactiveElementHasFocus active (Some sel) \<or> isContainerDirty sel s"

definition hasProtectedConfigInteraction :: "elem option \<Rightarrow> dirty_state \<Rightarrow> bool" where
  "hasProtectedConfigInteraction active s \<longleftrightarrow>
     0 < mutationDepth (ds_coord s) \<or> (\<exists>sel \<in> set trackedFormSelectors. shouldPreserveContainer active sel s)"

text \<open>An edit of a tracked form protects the configuration until the flag is cleared.\<close>

lemma edit_protects:
  assumes "is_form_tag (js_lower (e_tag e))" and "e_type e \<notin> {''search'', ''button'', ''submit''}"
    and "\<not> e_safe e" and "sel \<in> set trackedFormSelectors" and "sel \<in> e_within e"
  shows "hasProtectedConfigInteraction active (markContainerDirty (Some e) s)"
proof -
  obtain sel' where f: "find (\<lambda>sel. sel \<in> e_within e) trackedFormSelectors = Some sel'"
    using assms(4,5) by (cases "find (\<lambda>sel. sel \<in> e_within e) trackedFormSelectors") (auto simp: find_None_iff)
  then have "sel' \<in> set trackedFormSelectors" using find_Some_in by fastforce
  then show ?thesis
    using assms(1-3) f
    by (auto simp: hasProtectedConfigInteraction_def markContainerDirty_def flag_first_def mark_def
        shouldPreserveContainer_def isContainerDirty_def)
qed

text \<open>
  The dirty flag of a form is not cleared by submitting it: after a submit event from inside a
  tracked container, that container is flagged (even if it was clean before), so the automatic
  refresh keeps skipping it until some other code clears the flag.
\<close>

lemma submit_marks_dirty:
  assumes "find (\<lambda>sel. sel \<in> e_within form) trackedFormSelectors = Some sel"
  shows "isContainerDirty sel (clearContainerDirtyOnSubmit (Some form) s)
    \<and> hasProtectedConfigInteraction active (clearContainerDirtyOnSubmit (Some form) s)"
proof -
  have "sel \<in> set trackedFormSelectors" using assms find_Some_in by fastforce
  then show ?thesis
    using assms
    by (auto simp: clearContainerDirtyOnSubmit_def flag_first_def mark_def isContainerDirty_def
        hasProtectedConfigInteraction_def shouldPreserveContainer_def)
qed

definition sample_form :: elem where
  "sample_form = \<lparr>e_tag = ''FORM'', e_type = [], e_safe = False, e_editable = False,
     e_within = {''#globalProxyForm''}\<rparr>"

text \<open>A checkbox of a tracked form marks it dirty like any other control.\<close>

lemma checkbox_marks_dirty:
  "isContainerDirty ''#configProviders''
     (markContainerDirty (Some (sample_form\<lparr>e_tag := ''INPUT'', e_type := ''checkbox'',
        e_within := {''#configProviders''}\<rparr>)) \<lparr>ds_dirty = {}, ds_coord = coord_init\<rparr>)"
  by code_simp

section \<open>Toasts\<close>

record toast =
  to_key :: string
  to_tone :: string
  to_text :: string
  to_timer :: "jsnum option"
  to_leaving :: bool

text \<open>\<open>byKey\<close> maps a key to its node; the nodes are those still attached to the stack.\<close>

record toasts =
  ts_byKey :: "string \<rightharpoonup> nat"
  ts_nodes :: "nat \<rightharpoonup> toast"
  ts_next :: nat

definition toasts_init :: toasts where
  "toasts_init = \<lparr>ts_byKey = Map.empty, ts_nodes = Map.empty, ts_next = 0\<rparr>"

definition dismissToast :: "nat \<Rightarrow> toasts \<Rightarrow> toasts" where
  "dismissToast n ts =
     (case ts_nodes ts n of None \<Rightarrow> ts
      | Some node \<Rightarrow>
          ts\<lparr>ts_byKey := (if to_key node \<noteq> [] then (ts_byKey ts)(to_key node := None) else ts_byKey ts),
             ts_nodes := (ts_nodes ts)(n \<mapsto> node\<lparr>to_timer := None, to_leaving := True\<rparr>)\<rparr>)"

text \<open>The timeout 220 ms later removes the node, if it is still attached.\<close>

definition removeToast :: "nat \<Rightarrow> toasts \<Rightarrow> toasts" where
  "removeToast n ts = ts\<lparr>ts_nodes := (ts_nodes ts)(n := None)\<rparr>"

definition toastDuration :: "string \<Rightarrow> rat" where
  "toastDuration tone =
     (if tone = ''bad'' then 6500 else if tone = ''warn'' then 5000 else if tone = ''info'' then 4000 else 3200)"

record notice_opts =
  no_key :: string
  no_sticky :: bool
  no_duration :: rat

definition toast_timer :: "string \<Rightarrow> notice_opts \<Rightarrow> jsnum option" where
  "toast_timer tone opts =
     (if no_sticky opts then None
      else Some (Fin (if no_duration opts \<noteq> 0 then no_duration opts else toastDuration tone)))"

definition setNotice :: "string \<Rightarrow> string \<Rightarrow> notice_opts \<Rightarrow> toasts \<Rightarrow> toasts" where
  "setNotice message tone opts ts =
     (let dedupeKey = (if no_key opts \<noteq> [] then no_key opts else ''msg:'' @ tone @ '':'' @ message) in
      if message = [] then
        (case ts_byKey ts (no_key opts) of
           Some n \<Rightarrow> if no_key opts \<noteq> [] then dismissToast n ts else ts
         | None \<Rightarrow> ts)
      else (case ts_byKey ts dedupeKey of
          Some n \<Rightarrow>
            (case ts_nodes ts n of None \<Rightarrow> ts
             | Some node \<Rightarrow> ts\<lparr>ts_nodes := (ts_nodes ts)(n \<mapsto>
                 node\<lparr>to_tone := tone, to_text := message, to_timer := toast_timer tone opts\<rparr>)\<rparr>)
        | None \<Rightarrow>
            ts\<lparr>ts_byKey := (ts_byKey ts)(dedupeKey \<mapsto> ts_next ts),
               ts_nodes := (ts_nodes ts)(ts_next ts \<mapsto>
                 \<lparr>to_key = dedupeKey, to_tone = tone, to_text = message,
                  to_timer = toast_timer tone opts, to_leaving = False\<rparr>),
               ts_next := Suc (ts_next ts)\<rparr>))"

text \<open>What happens to the stack: a notice, a hide timer that fires, a removal.\<close>

inductive toast_step :: "toasts \<Rightarrow> toasts \<Rightarrow> bool" where
  step_notice: "toast_step ts (setNotice message tone opts ts)"
| step_timer: "ts_nodes ts n = Some node \<Longrightarrow> to_timer node \<noteq> None \<Longrightarrow> toast_step ts (dismissToast n ts)"
| step_remove: "ts_nodes ts n = Some node \<Longrightarrow> to_leaving node \<Longrightarrow> toast_step ts (removeToast n ts)"

inductive toasts_reachable :: "toasts \<Rightarrow> bool" where
  reach_init: "toasts_reachable toasts_init"
| reach_step: "toasts_reachable ts \<Longrightarrow> toast_step ts ts' \<Longrightarrow> toasts_reachable ts'"

text \<open>
  The keys and the live nodes correspond one to one, a node that is leaving has no timer, and no
  identifier is used twice.
\<close>

definition toasts_inv :: "toasts \<Rightarrow> bool" where
  "toasts_inv ts \<longleftrightarrow>
     (\<forall>k n. ts_byKey ts k = Some n \<longleftrightarrow> (\<exists>t. ts_nodes ts n = Some t \<and> \<not> to_leaving t \<and> to_key t = k))
     \<and> (\<forall>n t. ts_nodes ts n = Some t \<longrightarrow> to_key t \<noteq> [] \<and> n < ts_next ts \<and> (to_leaving t \<longrightarrow> to_timer t = None))"

lemma inv_live: "toasts_inv ts \<Longrightarrow> ts_nodes ts n = Some t \<Longrightarrow> \<not> to_leaving t \<Longrightarrow> ts_byKey ts (to_key t) = Some n"
  unfolding toasts_inv_def by blast

lemma inv_key: "toasts_inv ts \<Longrightarrow> ts_byKey ts k = Some n \<Longrightarrow>
   \<exists>t. ts_nodes ts n = Some t \<and> \<not> to_leaving t \<and> to_key t = k"
  unfolding toasts_inv_def by blast

lemma inv_node: "toasts_inv ts \<Longrightarrow> ts_nodes ts n = Some t \<Longrightarrow>
   to_key t \<noteq> [] \<and> n < ts_next ts \<and> (to_leaving t \<longrightarrow> to_timer t = None)"
  unfolding toasts_inv_def by blast

lemma dismiss_inv:
  assumes inv: "toasts_inv ts" and t: "ts_nodes ts n = Some t" and live: "\<not> to_leaving t"
  shows "toasts_inv (dismissToast n ts)"
proof -
  have only: "m = n" if "ts_nodes ts m = Some u" "\<not> to_leaving u" "to_key u = to_key t" for m u
    using inv_live [OF inv that(1,2)] inv_live [OF inv t live] that(3) by simp
  have d: "dismissToast n ts = ts\<lparr>ts_byKey := (ts_byKey ts)(to_key t := None),
      ts_nodes := (ts_nodes ts)(n \<mapsto> t\<lparr>to_timer := None, to_leaving := True\<rparr>)\<rparr>"
    using t inv_node [OF inv t] by (simp add: dismissToast_def)
  have keys: "ts_byKey (dismissToast n ts) k = Some m \<longleftrightarrow>
      (\<exists>u. ts_nodes (dismissToast n ts) m = Some u \<and> \<not> to_leaving u \<and> to_key u = k)" for k m
  proof (cases "k = to_key t")
    case True
    then show ?thesis using only by (auto simp: d)
  next
    case False
    then have "m = n \<Longrightarrow> ts_byKey ts k \<noteq> Some n" using inv_key [OF inv, of k n] t by auto
    with False show ?thesis using inv unfolding toasts_inv_def by (auto simp: d)
  qed
  moreover have "ts_nodes (dismissToast n ts) m = Some u \<Longrightarrow>
      to_key u \<noteq> [] \<and> m < ts_next (dismissToast n ts) \<and> (to_leaving u \<longrightarrow> to_timer u = None)" for m u
    using inv_node [OF inv] t by (auto simp: d split: if_splits)
  ultimately show ?thesis unfolding toasts_inv_def by blast
qed

lemma update_inv:
  assumes inv: "toasts_inv ts" and t: "ts_nodes ts n = Some t" and live: "\<not> to_leaving t"
    and u: "to_key u = to_key t" "\<not> to_leaving u"
  shows "toasts_inv (ts\<lparr>ts_nodes := (ts_nodes ts)(n \<mapsto> u)\<rparr>)"
  using inv t live u unfolding toasts_inv_def by auto

lemma fresh_inv:
  assumes inv: "toasts_inv ts" and k: "ts_byKey ts k = None" "k \<noteq> []" "to_key u = k" "\<not> to_leaving u"
  shows "toasts_inv (ts\<lparr>ts_byKey := (ts_byKey ts)(k \<mapsto> ts_next ts),
      ts_nodes := (ts_nodes ts)(ts_next ts \<mapsto> u), ts_next := Suc (ts_next ts)\<rparr>)"
proof -
  have fresh: "ts_nodes ts (ts_next ts) = None"
    using inv_node [OF inv, of "ts_next ts"] by (cases "ts_nodes ts (ts_next ts)") auto
  have none: "ts_nodes ts m = Some v \<Longrightarrow> \<not> to_leaving v \<Longrightarrow> to_key v \<noteq> k" for m v
    using inv_live [OF inv] k(1) by fastforce
  have "\<not> ts_byKey ts j = Some (ts_next ts)" for j
    using inv_key [OF inv, of j "ts_next ts"] fresh by auto
  then show ?thesis
    using inv k none fresh unfolding toasts_inv_def by (auto simp: less_SucI)
qed

lemma remove_inv:
  assumes inv: "toasts_inv ts" and t: "ts_nodes ts n = Some t" "to_leaving t"
  shows "toasts_inv (removeToast n ts)"
  using inv t unfolding toasts_inv_def removeToast_def by auto

lemma notice_inv:
  assumes inv: "toasts_inv ts"
  shows "toasts_inv (setNotice message tone opts ts)"
proof -
  define key where "key = (if no_key opts \<noteq> [] then no_key opts else ''msg:'' @ tone @ '':'' @ message)"
  have key: "key \<noteq> []" by (simp add: key_def)
  have gone: "toasts_inv (dismissToast n ts)" if "ts_byKey ts k = Some n" for k n
    using inv_key [OF inv that] dismiss_inv [OF inv] by blast
  have upd: "toasts_inv (ts\<lparr>ts_nodes := (ts_nodes ts)(n \<mapsto>
      node\<lparr>to_tone := tone, to_text := message, to_timer := x\<rparr>)\<rparr>)"
    if "ts_byKey ts key = Some n" "ts_nodes ts n = Some node" for n node x
    using inv_key [OF inv that(1)] that(2) by (intro update_inv [OF inv that(2)]) auto
  show ?thesis
  proof (cases "message = []")
    case True
    then show ?thesis using inv gone by (auto simp: setNotice_def Let_def split: option.split)
  next
    case False
    show ?thesis
    proof (cases "ts_byKey ts key")
      case None
      with False key show ?thesis
        using fresh_inv [OF inv None key] by (simp add: setNotice_def key_def [symmetric])
    next
      case (Some n)
      with False inv_key [OF inv Some] show ?thesis
        using upd [OF Some] by (auto simp: setNotice_def key_def [symmetric])
    qed
  qed
qed

lemma toasts_reachable_inv: "toasts_reachable ts \<Longrightarrow> toasts_inv ts"
proof (induction rule: toasts_reachable.induct)
  case reach_init
  then show ?case by (simp add: toasts_inv_def toasts_init_def)
next
  case (reach_step ts ts')
  from reach_step.hyps(2) show ?case
  proof (cases rule: toast_step.cases)
    case (step_timer n node)
    then have "\<not> to_leaving node" using inv_node [OF reach_step.IH, of n node] by auto
    with step_timer show ?thesis using dismiss_inv [OF reach_step.IH] by simp
  qed (use notice_inv remove_inv reach_step.IH in auto)
qed

text \<open>The live toasts (attached and not fading out) that carry a key.\<close>

definition live_toasts :: "string \<Rightarrow> toasts \<Rightarrow> nat set" where
  "live_toasts k ts = {n. \<exists>t. ts_nodes ts n = Some t \<and> \<not> to_leaving t \<and> to_key t = k}"

text \<open>
  Notices with the same key never stack: in every reachable state of the toast area, whatever the
  interleaving of notices, hide timers and removals, the live toasts with a key are exactly the one
  the key table holds, or none.
\<close>

lemma one_live_toast_per_key:
  assumes "toasts_reachable ts"
  shows "live_toasts k ts = set_option (ts_byKey ts k)"
proof -
  note inv = toasts_reachable_inv [OF assms]
  have "n \<in> live_toasts k ts \<longleftrightarrow> ts_byKey ts k = Some n" for n
    using inv_live [OF inv, of n] inv_key [OF inv, of k n] by (auto simp: live_toasts_def)
  then show ?thesis by auto
qed

definition sample_opts :: notice_opts where
  "sample_opts = \<lparr>no_key = ''probe'', no_sticky = False, no_duration = 0\<rparr>"

section \<open>Screens\<close>

datatype screen = Checking | Login | Console

text \<open>The visible parts of the page: the three roots, the two body classes and the login form.\<close>

record page =
  pg_visible :: "screen set"
  pg_checking_class :: bool
  pg_login_class :: bool
  pg_timer :: bool
  pg_busy :: bool
  pg_loginLabel :: string
  pg_loginError :: string
  pg_checkingText :: string

definition stopTimer :: "page \<Rightarrow> page" where
  "stopTimer p = p\<lparr>pg_timer := False\<rparr>"

definition setLoginBusy :: "bool \<Rightarrow> string \<Rightarrow> page \<Rightarrow> page" where
  "setLoginBusy busy label p = p\<lparr>pg_busy := busy, pg_loginLabel := label\<rparr>"

definition setLoginError :: "string \<Rightarrow> page \<Rightarrow> page" where
  "setLoginError message p = p\<lparr>pg_loginError := message\<rparr>"

definition hide :: "screen \<Rightarrow> page \<Rightarrow> page" where
  "hide x p = p\<lparr>pg_visible := pg_visible p - {x}\<rparr>"

definition unhide :: "screen \<Rightarrow> page \<Rightarrow> page" where
  "unhide x p = p\<lparr>pg_visible := insert x (pg_visible p)\<rparr>"

definition showAuthChecking :: "string \<Rightarrow> page \<Rightarrow> page" where
  "showAuthChecking message p =
     (unhide Checking (hide Login (hide Console (stopTimer p))))
       \<lparr>pg_checkingText := message, pg_checking_class := True, pg_login_class := False\<rparr>"

definition showLogin :: "string \<Rightarrow> page \<Rightarrow> page" where
  "showLogin message p =
     setLoginError message (setLoginBusy False ''Enter console''
       ((unhide Login (hide Checking (hide Console (stopTimer p))))
         \<lparr>pg_login_class := True, pg_checking_class := False\<rparr>))"

definition showConsole :: "page \<Rightarrow> page" where
  "showConsole p =
     setLoginError []
       ((unhide Console (hide Login (hide Checking p)))\<lparr>pg_login_class := False, pg_checking_class := False\<rparr>)"

text \<open>\<open>isAuthError\<close>: a case-insensitive search for five alternatives.\<close>

definition isAuthError :: "string \<Rightarrow> bool" where
  "isAuthError message \<longleftrightarrow>
     (\<exists>w \<in> set [''admin auth required'', ''http 401'', ''http 403'', ''unauthorized'', ''forbidden''].
        js_includes w (js_lower message))"

record session =
  se_page :: page
  se_adminKey :: string
  se_stored :: "string option"
  se_store :: opt_store
  se_registry :: action_registry
  se_config :: jsval
  se_staticDataState :: string

definition clearStoredAdminKey :: "session \<Rightarrow> session" where
  "clearStoredAdminKey s =
     s\<lparr>se_stored := None, se_store := store_clear (se_store s), se_registry := reg_clear (se_registry s),
       se_config := Null, se_staticDataState := ''idle''\<rparr>"

text \<open>
  The flow of \<open>openConsoleWithKey\<close> up to the first refresh. \<open>reply\<close> is what \<open>/-/admin/status\<close>
  answers to the trimmed key: an error message or a payload.
\<close>

definition openConsoleWithKey ::
  "jsval \<Rightarrow> bool \<Rightarrow> string \<Rightarrow> (string \<Rightarrow> string + jsval) \<Rightarrow> session \<Rightarrow> session" where
  "openConsoleWithKey key persist checkingMessage reply s =
     (let k = trimmed key;
          s1 = s\<lparr>se_page := showAuthChecking checkingMessage (se_page s), se_adminKey := k\<rparr>;
          result = (if k = [] then Inl ''Admin key is required.'' else reply k)
      in case result of
           Inr status \<Rightarrow>
             s1\<lparr>se_staticDataState := (if truthy (se_config s) then ''ready'' else ''loading''),
                se_stored := (if persist then Some k else se_stored s),
                se_page := showConsole (se_page s1)\<rparr>
         | Inl message \<Rightarrow>
             (clearStoredAdminKey s1)\<lparr>se_adminKey := [],
                se_page := showLogin (if isAuthError message
                   then ''Admin key was rejected. Enter the current key to continue.'' else message) (se_page s1)\<rparr>)"

text \<open>
  Opening the console ends on exactly one screen. A rejected or empty key leaves the login screen,
  no key in memory or in storage, no pending configuration edits and no configuration; an accepted
  one leaves the console screen with that key.
\<close>

lemma open_console_screens:
  "let s' = openConsoleWithKey key persist message reply s in
   (if trimmed key \<noteq> [] \<and> isl (reply (trimmed key)) = False
    then pg_visible (se_page s') = {Console} \<and> se_adminKey s' = trimmed key
    else pg_visible (se_page s') = {Login} \<and> se_adminKey s' = [] \<and> se_stored s' = None
         \<and> pending (se_store s') = [] \<and> se_config s' = Null \<and> \<not> pg_timer (se_page s'))"
proof -
  have screens: "pg_visible (showConsole (showAuthChecking m p)) = {Console}"
    "pg_visible (showLogin m' (showAuthChecking m p)) = {Login}"
    "\<not> pg_timer (showLogin m' (showAuthChecking m p))" for m m' p
    by (auto simp: showConsole_def showLogin_def showAuthChecking_def hide_def unhide_def stopTimer_def
        setLoginError_def setLoginBusy_def) (metis screen.exhaust)+
  show ?thesis
    by (cases "reply (trimmed key)")
       (auto simp: openConsoleWithKey_def Let_def screens clearStoredAdminKey_def store_clear_def)
qed

end
