(* ===== verification/ConfigRefresh.thy ===== *)
theory ConfigRefresh
  imports Shell ProviderSort
begin

text \<open>
  How \<open>app.js\<close> changes the data it shows: publishing the effective configuration, optimistic
  configuration actions from click to reply, merging the fields of a mutation's reply, coalescing of
  background refreshes, and the refresh of the static admin data with its single-flight guard.

  An asynchronous function is cut at its \<open>await\<close>: a start, which returns what the function keeps
  across the wait, and a finish, which takes the replies; anything may happen to the state in
  between. Rendering and the callbacks of a caller are entries of a log.
\<close>

section \<open>State\<close>

datatype ui_event = RenderAll | RenderDrawer | Notice string string | Callback string

record refresh_args =
  ra_quiet :: bool
  ra_preserve :: bool
  ra_static :: bool
  ra_domains :: "string list"

record refresh_state =
  rf_adminKey :: string
  rf_hidden :: bool
  rf_view :: string
  rf_drawer :: string
  rf_active :: "elem option"
  rf_dirty :: dirty_state
  rf_store :: opt_store
  rf_staticState :: string
  rf_force :: "string set"
  rf_busy :: "nat set"
  rf_nextBusy :: nat
  rf_log :: "ui_event list"
  rf_bgArgs :: "refresh_args option"
  rf_bgTimer :: bool
  rf_inFlight :: bool
  rf_wanted :: bool
  rf_queued :: bool
  d_config :: jsval
  d_status :: jsval
  d_routing :: jsval
  d_overlay :: jsval
  d_audit :: jsval
  d_diagnostics :: jsval
  d_diagRecords :: jsval
  d_version :: nat
  d_modelsVersion :: nat
  rf_lastModels :: jsval

abbreviation coord_of :: "refresh_state \<Rightarrow> coordinator" where
  "coord_of s \<equiv> ds_coord (rf_dirty s)"

definition set_coord :: "coordinator \<Rightarrow> refresh_state \<Rightarrow> refresh_state" where
  "set_coord c s = s\<lparr>rf_dirty := (rf_dirty s)\<lparr>ds_coord := c\<rparr>\<rparr>"

definition log_event :: "ui_event \<Rightarrow> refresh_state \<Rightarrow> refresh_state" where
  "log_event e s = s\<lparr>rf_log := rf_log s @ [e]\<rparr>"

definition force :: "string list \<Rightarrow> refresh_state \<Rightarrow> refresh_state" where
  "force flags s = s\<lparr>rf_force := rf_force s \<union> set flags\<rparr>"

definition config_flags :: "string list" where
  "config_flags = [''config'', ''modelRoutes'', ''providers'', ''modelCaps'']"

definition policy_flags :: "string list" where
  "policy_flags = [''policy'', ''failurePolicies'']"

section \<open>Accepting payloads\<close>

definition acceptConfirmedConfig :: "jsval \<Rightarrow> refresh_state \<Rightarrow> refresh_state" where
  "acceptConfirmedConfig config s =
     (let st = acceptConfirmed (jor config (Obj [])) (rf_store s)
      in s\<lparr>rf_store := st, d_config := store_config st, rf_staticState := ''ready''\<rparr>)"

definition applyStatusPayload :: "jsval \<Rightarrow> refresh_state \<Rightarrow> refresh_state" where
  "applyStatusPayload status s =
     (let existing = get (d_status s) ''models''; new = (if is_object status then status else Obj [])
      in s\<lparr>d_status := (if truthy existing \<and> \<not> truthy (get new ''models'')
                       then obj_set ''models'' existing new else new)\<rparr>)"

text \<open>\<open>{ ...(data || {}), key: v }\<close>.\<close>

definition with_prop :: "string \<Rightarrow> jsval \<Rightarrow> jsval \<Rightarrow> jsval" where
  "with_prop k v d = Obj (set_prop k v (obj_fields d))"

definition acceptModelCapabilities :: "jsval \<Rightarrow> refresh_state \<Rightarrow> refresh_state \<times> bool" where
  "acceptModelCapabilities caps s =
     (if \<not> shouldAcceptModelCapabilitySnapshot (get (d_status s) ''models'') caps then (s, False)
      else (s\<lparr>d_status := with_prop ''models'' caps (d_status s),
              rf_lastModels := (if get caps ''models_version'' \<noteq> Undef then get caps ''models_version''
                                else rf_lastModels s),
              d_modelsVersion := Suc (d_modelsVersion s)\<rparr>, True))"

definition publishEffectiveConfig :: "jsval \<Rightarrow> bool \<Rightarrow> refresh_state \<Rightarrow> refresh_state" where
  "publishEffectiveConfig config drawer s =
     (let s1 = log_event RenderAll (force (config_flags @ policy_flags)
                 (s\<lparr>d_config := jor config (Obj []), d_version := Suc (d_version s)\<rparr>))
      in if drawer \<and> rf_drawer s1 \<noteq> [] then log_event RenderDrawer s1 else s1)"

section \<open>Optimistic mutations\<close>

definition beginOptimisticConfigMutation ::
  "jsval \<Rightarrow> (jsval \<Rightarrow> jsval) \<Rightarrow> bool \<Rightarrow> refresh_state \<Rightarrow> refresh_state \<times> nat option" where
  "beginOptimisticConfigMutation key apply drawer s =
     (case store_begin key apply (rf_store s) of
        (st, None) \<Rightarrow>
          (log_event (Notice ''This setting is already being saved. Wait for the current request to finish.'' ''warn'')
             (s\<lparr>rf_store := st\<rparr>), None)
      | (st, Some m) \<Rightarrow>
          (publishEffectiveConfig (store_config st) drawer (s\<lparr>rf_store := st\<rparr>), Some (mut_id m)))"

definition confirmOptimisticConfigMutation ::
  "nat \<Rightarrow> jsval \<Rightarrow> bool \<Rightarrow> bool \<Rightarrow> refresh_state \<Rightarrow> refresh_state \<times> bool" where
  "confirmOptimisticConfigMutation i serverConfig render drawer s =
     (if serverConfig = Undef then (s, False)
      else (case store_confirm i serverConfig (rf_store s) of
          (st, None) \<Rightarrow> (s\<lparr>rf_store := st\<rparr>, False)
        | (st, Some effective) \<Rightarrow>
            (if render then publishEffectiveConfig effective drawer (s\<lparr>rf_store := st\<rparr>)
             else s\<lparr>rf_store := st, d_config := effective\<rparr>, True)))"

definition rejectOptimisticConfigMutation :: "nat \<Rightarrow> bool \<Rightarrow> refresh_state \<Rightarrow> refresh_state" where
  "rejectOptimisticConfigMutation i drawer s =
     (let st = store_reject i (rf_store s)
      in publishEffectiveConfig (store_config st) drawer (s\<lparr>rf_store := st\<rparr>))"

section \<open>Merging a reply\<close>

definition present :: "jsval \<Rightarrow> string \<Rightarrow> bool" where
  "present result k \<longleftrightarrow> get result k \<noteq> Undef"

text \<open>Fields of the reply, each with what it changes; the flag says whether anything did.\<close>

definition merge_reply :: "jsval \<Rightarrow> bool \<Rightarrow> refresh_state \<Rightarrow> refresh_state \<times> bool" where
  "merge_reply r skipConfig s =
     (let s1 = (if present r ''config'' \<and> \<not> skipConfig then acceptConfirmedConfig (get r ''config'') s else s);
          s2 = (if present r ''routing'' then s1\<lparr>d_routing := get r ''routing''\<rparr> else s1);
          s3 = (if present r ''status'' then applyStatusPayload (get r ''status'') s2 else s2);
          (s4, caps) = (if present r ''models'' then acceptModelCapabilities (get r ''models'') s3 else (s3, False));
          s5 = (if present r ''router'' then s4\<lparr>d_status := with_prop ''router'' (get r ''router'') (d_status s4)\<rparr> else s4);
          s6 = (if present r ''policy'' then s5\<lparr>d_routing := with_prop ''policy'' (get r ''policy'') (d_routing s5)\<rparr> else s5)
      in (s6, present r ''config'' \<or> present r ''routing'' \<or> present r ''status'' \<or> caps
              \<or> present r ''router'' \<or> present r ''policy''))"

definition reply_flags :: "jsval \<Rightarrow> string list" where
  "reply_flags r =
     (if present r ''config'' then config_flags else [])
     @ (if present r ''routing'' \<or> present r ''policy'' then policy_flags else [])
     @ (if present r ''status'' \<or> present r ''router'' then [''providers''] else [])"

definition applyMutationResult :: "jsval \<Rightarrow> bool \<Rightarrow> bool \<Rightarrow> bool \<Rightarrow> refresh_state \<Rightarrow> refresh_state \<times> bool" where
  "applyMutationResult r render drawer skipConfig s =
     (if rf_adminKey s = [] \<or> \<not> is_object r then (s, False)
      else (let (s1, changed) = merge_reply r skipConfig s in
        if \<not> changed then (s1, False)
        else (let s2 = force (reply_flags r) (s1\<lparr>d_version := Suc (d_version s1)\<rparr>);
                  s3 = (if render then log_event RenderAll s2 else s2)
              in (if drawer then log_event RenderDrawer s3 else s3, True))))"

section \<open>Background refreshes\<close>

definition mergeRefreshArgs :: "refresh_args option \<Rightarrow> refresh_args \<Rightarrow> refresh_args" where
  "mergeRefreshArgs previous new =
     (case previous of None \<Rightarrow> new
      | Some p \<Rightarrow>
          (let prevWantsAll = (ra_static p \<and> ra_domains p = []);
               nextWantsAll = (ra_static new \<and> ra_domains new = [])
           in \<lparr>ra_quiet = (ra_quiet p \<and> ra_quiet new),
               ra_preserve = (ra_preserve p \<or> ra_preserve new),
               ra_static = (ra_static p \<or> ra_static new),
               ra_domains = (if prevWantsAll \<or> nextWantsAll then []
                             else first_by (\<lambda>d. d) [] (ra_domains p @ ra_domains new))\<rparr>))"

definition scheduleBackgroundRefresh :: "refresh_args \<Rightarrow> refresh_state \<Rightarrow> refresh_state" where
  "scheduleBackgroundRefresh args s =
     s\<lparr>rf_bgArgs := Some (mergeRefreshArgs (rf_bgArgs s) args), rf_bgTimer := True\<rparr>"

datatype bg_task = StaticTask bool "string list option" | RuntimeTask

text \<open>The timer's callback; the arguments were stored by the call that armed it.\<close>

definition fireBackgroundRefresh :: "refresh_state \<Rightarrow> refresh_state \<times> bg_task option" where
  "fireBackgroundRefresh s =
     (if \<not> rf_bgTimer s then (s, None)
      else (let args = (case rf_bgArgs s of Some a \<Rightarrow> a
              | None \<Rightarrow> \<lparr>ra_quiet = True, ra_preserve = True, ra_static = False, ra_domains = []\<rparr>)
        in (s\<lparr>rf_bgTimer := False, rf_bgArgs := None\<rparr>,
            Some (if ra_static args
                  then StaticTask (ra_preserve args) (if ra_domains args \<noteq> [] then Some (ra_domains args) else None)
                  else RuntimeTask))))"

definition POST_CONFIG_MUTATION_DOMAINS :: "string list" where
  "POST_CONFIG_MUTATION_DOMAINS =
     [''status'', ''models'', ''routing'', ''overlay'', ''audit'', ''conversionDiagnostics'']"

section \<open>A configuration action\<close>

record action_handle =
  ah_scope :: nat
  ah_mutation :: nat
  ah_busy :: nat

definition begin_busy :: "refresh_state \<Rightarrow> refresh_state \<times> nat" where
  "begin_busy s = (s\<lparr>rf_busy := insert (rf_nextBusy s) (rf_busy s), rf_nextBusy := Suc (rf_nextBusy s)\<rparr>,
                   rf_nextBusy s)"

definition finish_scope :: "nat \<Rightarrow> refresh_state \<Rightarrow> refresh_state" where
  "finish_scope h s = set_coord (finishMutation h (coord_of s)) s"

definition startOptimisticConfigAction ::
  "jsval \<Rightarrow> (jsval \<Rightarrow> jsval) \<Rightarrow> bool \<Rightarrow> refresh_state \<Rightarrow> refresh_state \<times> action_handle option" where
  "startOptimisticConfigAction key apply drawer s =
     (let (c, scope) = beginMutation (coord_of s);
          (s1, m) = beginOptimisticConfigMutation key apply drawer (set_coord c s)
      in case m of
           None \<Rightarrow> (finish_scope scope s1, None)
         | Some i \<Rightarrow> (let (s2, b) = begin_busy s1
                     in (s2, Some \<lparr>ah_scope = scope, ah_mutation = i, ah_busy = b\<rparr>)))"

definition finish_action :: "action_handle \<Rightarrow> refresh_state \<Rightarrow> refresh_state" where
  "finish_action h s =
     (let s1 = finish_scope (ah_scope h) s in s1\<lparr>rf_busy := rf_busy s1 - {ah_busy h}\<rparr>)"

definition post_mutation_args :: refresh_args where
  "post_mutation_args = \<lparr>ra_quiet = True, ra_preserve = True, ra_static = True,
     ra_domains = POST_CONFIG_MUTATION_DOMAINS\<rparr>"

definition action_succeeded :: "jsval \<Rightarrow> bool \<Rightarrow> refresh_state \<Rightarrow> refresh_state" where
  "action_succeeded result drawer s =
     scheduleBackgroundRefresh post_mutation_args
       (log_event (Callback ''onSuccess'')
         (fst (applyMutationResult result True drawer (present result ''config'') s)))"

text \<open>The rest of \<open>runOptimisticConfigAction\<close>: \<open>Inl\<close> for an operation that throws.\<close>

definition finishOptimisticConfigAction ::
  "action_handle \<Rightarrow> string + jsval \<Rightarrow> bool \<Rightarrow> bool \<Rightarrow> refresh_state \<Rightarrow> refresh_state \<times> bool" where
  "finishOptimisticConfigAction h outcome drawer hasOnError s =
     (case outcome of
        Inl err \<Rightarrow>
          (finish_action h (log_event (if hasOnError then Callback ''onError'' else Notice err ''bad'')
             (rejectOptimisticConfigMutation (ah_mutation h) drawer s)), False)
      | Inr result \<Rightarrow>
          (if present result ''config'' then
             (let (s1, ok) = confirmOptimisticConfigMutation (ah_mutation h) (get result ''config'') False drawer s
              in if \<not> ok then (finish_action h s1, False)
                 else (finish_action h (action_succeeded result drawer s1), True))
           else
             (finish_action h (action_succeeded result drawer
                (rejectOptimisticConfigMutation (ah_mutation h) drawer s)), True)))"

section \<open>The static admin data\<close>

definition STATIC_CONFIG_DOMAINS :: "string set" where
  "STATIC_CONFIG_DOMAINS = {''routing'', ''config'', ''overlay''}"

definition static_domains :: "string list" where
  "static_domains = [''status'', ''models'', ''routing'', ''config'', ''overlay'', ''audit'',
     ''conversionDiagnostics'', ''conversionDiagRecords'']"

definition protected_now :: "refresh_state \<Rightarrow> bool" where
  "protected_now s \<longleftrightarrow> hasProtectedConfigInteraction (rf_active s) (rf_dirty s)"

record static_flight =
  sf_snapshot :: coord_snapshot
  sf_selected :: "string list"
  sf_includesConfig :: bool

definition wants :: "string list option \<Rightarrow> string \<Rightarrow> bool" where
  "wants domains d \<longleftrightarrow> (case domains of None \<Rightarrow> True | Some ds \<Rightarrow> d \<in> set ds)"

text \<open>Leaving the function: the guard is released and a request made meanwhile is queued once.\<close>

definition release_static :: "refresh_state \<Rightarrow> refresh_state" where
  "release_static s = s\<lparr>rf_inFlight := False, rf_wanted := False, rf_queued := (rf_queued s \<or> rf_wanted s)\<rparr>"

definition startStaticRefresh ::
  "string list option \<Rightarrow> refresh_state \<Rightarrow> refresh_state \<times> static_flight option" where
  "startStaticRefresh domains s =
     (if rf_adminKey s = [] \<or> rf_hidden s then (s, None)
      else if rf_inFlight s then (s\<lparr>rf_wanted := True\<rparr>, None)
      else (let includesConfig = wants domains ''config'';
                s1 = s\<lparr>rf_inFlight := True,
                       rf_staticState := (if includesConfig \<and> \<not> truthy (d_config s) then ''loading''
                                          else rf_staticState s)\<rparr>;
                protectedAtStart = protected_now s1;
                selected = filter (\<lambda>d. wants domains d \<and> \<not> (protectedAtStart \<and> d \<in> STATIC_CONFIG_DOMAINS))
                             static_domains
            in if selected = [] then (release_static s1, None)
               else (s1, Some \<lparr>sf_snapshot = snapshot (coord_of s1), sf_selected = selected,
                               sf_includesConfig = includesConfig\<rparr>)))"

text \<open>The fulfilled requests; the others are undefined.\<close>

definition static_result :: "static_flight \<Rightarrow> (string \<Rightarrow> jsval option) \<Rightarrow> string \<Rightarrow> jsval" where
  "static_result f replies d =
     (if d \<in> set (sf_selected f) then (case replies d of Some v \<Rightarrow> v | None \<Rightarrow> Undef) else Undef)"

definition put :: "jsval \<Rightarrow> (jsval \<Rightarrow> refresh_state \<Rightarrow> refresh_state) \<Rightarrow> refresh_state \<Rightarrow> refresh_state" where
  "put v f s = (if v = Undef then s else f v s)"

definition apply_static :: "static_flight \<Rightarrow> (string \<Rightarrow> jsval) \<Rightarrow> bool \<Rightarrow> refresh_state \<Rightarrow> refresh_state" where
  "apply_static f r allow s =
     (let s1 = put (r ''status'') applyStatusPayload s;
          s2 = put (r ''models'') (\<lambda>v s. fst (acceptModelCapabilities v s)) s1;
          s3 = (if allow then put (r ''routing'') (\<lambda>v s. s\<lparr>d_routing := v\<rparr>) s2 else s2);
          s4 = (if allow \<and> r ''config'' \<noteq> Undef then acceptConfirmedConfig (r ''config'') s3
                else if sf_includesConfig f \<and> \<not> truthy (d_config s3) then s3\<lparr>rf_staticState := ''error''\<rparr>
                else s3);
          s5 = (if allow then put (r ''overlay'') (\<lambda>v s. s\<lparr>d_overlay := v\<rparr>) s4 else s4);
          s6 = put (r ''audit'') (\<lambda>v s. s\<lparr>d_audit := v\<rparr>) s5;
          s7 = put (r ''conversionDiagnostics'') (\<lambda>v s. s\<lparr>d_diagnostics := v\<rparr>) s6;
          s8 = put (r ''conversionDiagRecords'') (\<lambda>v s. s\<lparr>d_diagRecords := v\<rparr>) s7;
          s9 = s8\<lparr>d_version := Suc (d_version s8)\<rparr>
      in if allow then force (config_flags @ policy_flags) s9 else s9)"

definition finishStaticRefresh ::
  "static_flight \<Rightarrow> (string \<Rightarrow> jsval option) \<Rightarrow> bool \<Rightarrow> refresh_state \<Rightarrow> refresh_state" where
  "finishStaticRefresh f replies preserveNotice s =
     (let allow = (\<not> shouldDefer (Some (sf_snapshot f)) (protected_now s) (coord_of s));
          s1 = apply_static f (static_result f replies) allow s;
          s2 = (if allow \<and> \<not> protected_now s1
                   \<and> (rf_view s1 \<in> {''providers'', ''policy'', ''config''} \<or> rf_drawer s1 \<noteq> [])
                then (let s' = log_event RenderAll s1
                      in if rf_drawer s' \<noteq> [] then log_event RenderDrawer s' else s')
                else s1);
          s3 = (if preserveNotice then s2 else log_event (Notice [] []) s2)
      in release_static s3)"

text \<open>The queued trailing refresh asks for every domain.\<close>

definition runQueuedRefresh :: "refresh_state \<Rightarrow> refresh_state \<times> static_flight option" where
  "runQueuedRefresh s =
     (if rf_queued s then startStaticRefresh None (s\<lparr>rf_queued := False\<rparr>) else (s, None))"

end
