(* ===== verification/RuntimeRefresh.thy ===== *)
theory RuntimeRefresh
  imports ConfigRefresh Pagination
begin

text \<open>
  The runtime poll of \<open>app.js\<close>: the signature that makes an unchanged poll a no-op, the core and view
  parts of \<open>refreshRuntimeData\<close> with its single-flight guard and the request-page navigation that
  may be under way, the re-entrancy guard of \<open>refreshAll\<close>, and the capability follow-up timer. As in
  \<open>ConfigRefresh\<close> an asynchronous function is cut at its awaits; the clock is an argument.
\<close>

section \<open>Signatures\<close>

definition IGNORED_FIELDS :: "string set" where
  "IGNORED_FIELDS = {''uptime_s'', ''idle_seconds'', ''last_run_ago_s'', ''next_probe_in_s'', ''next_run_in_s'',
     ''nearest_recovery_s'', ''computed_at'', ''duration_ms'', ''disabled_remaining_s''}"

definition BUCKETED_FIELDS :: "string set" where
  "BUCKETED_FIELDS = {''cooldown_remaining_s'', ''provider_cooldown_remaining_s''}"

definition bucket :: "jsval \<Rightarrow> jsval" where
  "bucket v = (let n = to_num v in
     if is_finite n then Num (num_ceil (num_div (num_max (Fin 0) n) (Fin 5))) else v)"

text \<open>The replacer, applied to every property on the way down.\<close>

fun replaced :: "string \<Rightarrow> jsval \<Rightarrow> jsval" where
  "replaced k v =
     (if k \<in> IGNORED_FIELDS then Undef
      else if k \<in> BUCKETED_FIELDS \<and> is_finite (to_num v) then bucket v
      else (case v of
          Arr xs \<Rightarrow> Arr (map (\<lambda>x. replaced [] x) xs)
        | Obj kvs \<Rightarrow> Obj (map (\<lambda>(k', x). (k', replaced k' x)) kvs)
        | _ \<Rightarrow> v))"

definition hex_digit :: "int \<Rightarrow> char" where
  "hex_digit d = (if d < 10 then digit_char d else char_of (87 + d))"

definition json_char :: "char \<Rightarrow> string" where
  "json_char c =
     (let n = code_unit c in
      if n = 34 then [CHR 0x5C, CHR 0x22] else if n = 92 then [CHR 0x5C, CHR 0x5C]
      else if n = 8 then [CHR 0x5C, CHR ''b''] else if n = 9 then [CHR 0x5C, CHR ''t'']
      else if n = 10 then [CHR 0x5C, CHR ''n''] else if n = 12 then [CHR 0x5C, CHR ''f'']
      else if n = 13 then [CHR 0x5C, CHR ''r'']
      else if n < 32 then CHR 0x5C # ''u00'' @ [hex_digit (n div 16), hex_digit (n mod 16)]
      else [c])"

definition json_string :: "string \<Rightarrow> string" where
  "json_string s = [CHR 0x22] @ concat (map json_char s) @ [CHR 0x22]"

text \<open>\<open>JSON.stringify\<close>: \<open>None\<close> for a value that is left out (or \<open>null\<close> in an array).\<close>

fun json_text :: "jsval \<Rightarrow> string option" where
  "json_text Undef = None"
| "json_text Null = Some ''null''"
| "json_text (Bool b) = Some (if b then ''true'' else ''false'')"
| "json_text (Num n) = Some (if is_finite n then num_to_str n else ''null'')"
| "json_text (Str s) = Some (json_string s)"
| "json_text (Arr xs) = Some (''['' @ js_join '',''
     (map (\<lambda>x. case json_text x of None \<Rightarrow> ''null'' | Some s \<Rightarrow> s) xs) @ '']'')"
| "json_text (Obj kvs) = Some ([CHR 0x7B] @ js_join '',''
     (List.map_filter (\<lambda>(k, t). map_option (\<lambda>s. json_string k @ '':'' @ s) t)
        (own_entries (map (\<lambda>(k, v). (k, json_text v)) kvs))) @ [CHR 0x7D])"

definition runtimeSignature :: "jsval \<Rightarrow> string option" where
  "runtimeSignature v = json_text (replaced [] v)"

section \<open>State\<close>

datatype settled = Fulfilled jsval | Rejected bool

record poll_state =
  rt_adminKey :: string
  rt_hidden :: bool
  rt_view :: string
  rt_nav :: request_nav
  rt_forceTimeseries :: bool
  rt_inFlight :: bool
  rt_wanted :: bool
  rt_wantedForce :: bool
  rt_generation :: nat
  rt_queued :: "bool list"
  rt_coreSig :: "string option"
  rt_viewSig :: "string option"
  rt_viewAt :: "string \<Rightarrow> rat"
  rt_ringAt :: rat
  rt_renders :: nat
  rt_version :: nat
  rt_lastModels :: jsval
  rt_capabilityFetches :: nat
  r_metrics :: jsval
  r_metricsFull :: jsval
  r_activity :: jsval
  r_health :: jsval
  r_status :: jsval
  r_timeseries :: jsval
  r_requests :: jsval

definition render :: "poll_state \<Rightarrow> poll_state" where
  "render s = s\<lparr>rt_renders := Suc (rt_renders s)\<rparr>"

definition or_keep :: "jsval \<Rightarrow> jsval \<Rightarrow> jsval" where
  "or_keep v old = (if v \<noteq> Undef then v else old)"

definition nonempty_sig :: "string option \<Rightarrow> bool" where
  "nonempty_sig sig \<longleftrightarrow> sig \<noteq> None \<and> sig \<noteq> Some []"

text \<open>\<open>applyRuntimeCore\<close>; a result is the object of the fulfilled requests.\<close>

definition applyRuntimeCore :: "jsval \<Rightarrow> poll_state \<Rightarrow> poll_state \<times> bool" where
  "applyRuntimeCore result s =
     (let sig = runtimeSignature (Obj [(''metrics'', get result ''metrics''),
            (''providerActivity'', get result ''providerActivity''), (''healthScores'', get result ''healthScores''),
            (''routerSnapshot'', get result ''routerSnapshot'')]);
          activity = jor (get result ''providerActivity'') (Obj []);
          snapshot = get result ''routerSnapshot''
      in if nonempty_sig sig \<and> sig = rt_coreSig s then (s, False)
         else (s\<lparr>rt_coreSig := sig,
                 r_metrics := or_keep (get result ''metrics'') (r_metrics s),
                 r_activity := (if get result ''providerActivity'' \<noteq> Undef
                                then jor (get activity ''providers'') activity else r_activity s),
                 r_health := or_keep (get result ''healthScores'') (r_health s),
                 r_status := (if truthy (get snapshot ''providers'')
                              then Obj (set_prop ''router'' snapshot (obj_fields (r_status s))) else r_status s),
                 rt_version := Suc (rt_version s)\<rparr>, True))"

definition applyRuntimeViewData :: "rat \<Rightarrow> jsval \<Rightarrow> string \<Rightarrow> poll_state \<Rightarrow> poll_state \<times> bool" where
  "applyRuntimeViewData now result view s =
     (let sig = runtimeSignature (Obj (spread [(''view'', Str view)] (obj_fields result)))
      in if nonempty_sig sig \<and> sig = rt_viewSig s then (s, False)
         else (s\<lparr>rt_viewSig := sig,
                 r_metricsFull := or_keep (get result ''metricsFull'') (r_metricsFull s),
                 rt_ringAt := (if get result ''metricsFull'' \<noteq> Undef then now else rt_ringAt s),
                 r_timeseries := or_keep (get result ''timeseries'') (r_timeseries s),
                 r_requests := or_keep (get result ''requests'') (r_requests s),
                 rt_viewAt := (if view \<noteq> [] \<and> obj_fields result \<noteq> [] then (rt_viewAt s)(view := now) else rt_viewAt s),
                 rt_version := Suc (rt_version s)\<rparr>, True))"

section \<open>One poll\<close>

definition RUNTIME_VIEW_REFRESH_MS :: rat where "RUNTIME_VIEW_REFRESH_MS = 15000"

record runtime_flight =
  fl_generation :: nat
  fl_view :: string
  fl_page :: jsval
  fl_entries :: "string list"

text \<open>\<open>Math.max(0, Number(state.requestsPage) || 0)\<close>.\<close>

definition shown_page :: "poll_state \<Rightarrow> jsnum" where
  "shown_page s = num_max (Fin 0) (num_or_d (requestsPage (rt_nav s)) 0)"

definition view_entries :: "bool \<Rightarrow> rat \<Rightarrow> string \<Rightarrow> poll_state \<Rightarrow> string list" where
  "view_entries forceViewData now view s =
     (let due = (forceViewData \<or> RUNTIME_VIEW_REFRESH_MS \<le> now - rt_viewAt s view) in
      if view = ''overview'' then
        (if due \<or> rt_forceTimeseries s then [''timeseries''] else [])
        @ (if forceViewData \<or> \<not> truthy (r_metricsFull s) \<or> 30000 \<le> now - rt_ringAt s then [''metricsFull''] else [])
      else if view = ''requests'' then
        (if due \<or> forceRequestsFetch (rt_nav s) then [''requests''] else [])
      else [])"

definition startRuntimeRefresh :: "bool \<Rightarrow> rat \<Rightarrow> poll_state \<Rightarrow> poll_state \<times> runtime_flight option" where
  "startRuntimeRefresh forceViewData now s =
     (if rt_adminKey s = [] \<or> rt_hidden s then (s, None)
      else if rt_inFlight s then
        (s\<lparr>rt_wanted := True, rt_wantedForce := (rt_wantedForce s \<or> forceViewData)\<rparr>, None)
      else (let view = (if rt_view s \<noteq> [] then rt_view s else ''overview'');
                entries = view_entries forceViewData now view s
            in (s\<lparr>rt_inFlight := True, rt_generation := Suc (rt_generation s),
                  rt_forceTimeseries := (if ''timeseries'' \<in> set entries then False else rt_forceTimeseries s),
                  rt_nav := (if ''requests'' \<in> set entries
                             then (rt_nav s)\<lparr>forceRequestsFetch := False\<rparr> else rt_nav s)\<rparr>,
                Some \<lparr>fl_generation = Suc (rt_generation s), fl_view = view,
                      fl_page = (if view = ''requests'' then Num (shown_page s) else Null),
                      fl_entries = entries\<rparr>)))"

text \<open>The \<open>finally\<close> block: release the guard and queue the trailing poll, if one is wanted.\<close>

definition release_runtime :: "runtime_flight \<Rightarrow> poll_state \<Rightarrow> poll_state" where
  "release_runtime f s =
     (let s1 = (if fl_generation f = rt_generation s then s\<lparr>rt_inFlight := False\<rparr> else s)
      in if rt_wanted s1 \<and> \<not> rt_inFlight s1
         then s1\<lparr>rt_wanted := False, rt_wantedForce := False, rt_queued := rt_queued s1 @ [rt_wantedForce s1]\<rparr>
         else s1)"

definition still_current :: "runtime_flight \<Rightarrow> poll_state \<Rightarrow> bool" where
  "still_current f s \<longleftrightarrow> fl_generation f = rt_generation s \<and> fl_view f = rt_view s"

definition to_result :: "string list \<Rightarrow> (string \<Rightarrow> settled) \<Rightarrow> jsval" where
  "to_result entries settled_of =
     Obj (List.map_filter (\<lambda>k. case settled_of k of Fulfilled v \<Rightarrow> Some (k, v) | Rejected _ \<Rightarrow> None) entries)"

definition core_entries :: "string list" where
  "core_entries = [''metrics'', ''providerActivity'', ''healthScores'', ''routerSnapshot'']"

text \<open>The core replies: \<open>Some changed\<close> when the poll goes on to its view part.\<close>

definition coreArrived :: "runtime_flight \<Rightarrow> (string \<Rightarrow> settled) \<Rightarrow> poll_state \<Rightarrow> poll_state \<times> bool option" where
  "coreArrived f core s =
     (if \<not> still_current f s then (release_runtime f s, None)
      else (let result = to_result core_entries core;
                (s1, changed) = applyRuntimeCore result s;
                version = get (get result ''metrics'') ''models_version'';
                s2 = (if version \<noteq> Undef \<and> version \<noteq> rt_lastModels s1
                      then s1\<lparr>rt_lastModels := version,
                              rt_capabilityFetches := (if rt_lastModels s1 \<noteq> Null then Suc (rt_capabilityFetches s1)
                                                       else rt_capabilityFetches s1)\<rparr>
                      else s1);
                s3 = (if changed \<and> fl_entries f = [] then render s2 else s2)
            in (s3, Some changed)))"

definition want_forced :: "poll_state \<Rightarrow> poll_state" where
  "want_forced s = s\<lparr>rt_wanted := True, rt_wantedForce := True\<rparr>"

text \<open>\<open>_requestPageNavigation?.to === requestedRequestPage\<close>.\<close>

definition navigation_pending :: "runtime_flight \<Rightarrow> poll_state \<Rightarrow> bool" where
  "navigation_pending f s \<longleftrightarrow> fl_view f = ''requests''
     \<and> (case navigation (rt_nav s) of None \<Rightarrow> False | Some (a, b) \<Rightarrow> strict_eq (Num b) (fl_page f))"

definition request_matches :: "runtime_flight \<Rightarrow> jsval \<Rightarrow> poll_state \<Rightarrow> bool" where
  "request_matches f payload s \<longleftrightarrow>
     fl_view f \<noteq> ''requests''
     \<or> (strict_eq (Num (to_num (requestsPage (rt_nav s)))) (fl_page f)
        \<and> (if navigation_pending f s
           then requestNavigationPayloadMatchesPage payload (fl_page f) (jnum REQUEST_PAGE_SIZE)
           else requestPayloadMatchesPage payload (fl_page f) (jnum REQUEST_PAGE_SIZE)))"

definition roll_back :: "poll_state \<Rightarrow> poll_state" where
  "roll_back s =
     (case navigation (rt_nav s) of None \<Rightarrow> s
      | Some (from_page, to_page) \<Rightarrow>
          render (s\<lparr>rt_nav := (rt_nav s)\<lparr>requestsPage := Num from_page, navigation := None\<rparr>\<rparr>))"

definition settle_navigation :: "runtime_flight \<Rightarrow> jsval \<Rightarrow> settled option \<Rightarrow> bool \<Rightarrow> poll_state \<Rightarrow> poll_state" where
  "settle_navigation f payload reply matches s =
     (if requestNavigationPayloadMatchesPage payload (fl_page f) (jnum REQUEST_PAGE_SIZE) \<and> matches
      then s\<lparr>rt_nav := (rt_nav s)\<lparr>navigation := None\<rparr>\<rparr>
      else (case reply of
          Some (Rejected False) \<Rightarrow> roll_back s
        | _ \<Rightarrow> want_forced s))"

definition apply_view :: "runtime_flight \<Rightarrow> bool \<Rightarrow> rat \<Rightarrow> jsval \<Rightarrow> poll_state \<Rightarrow> poll_state \<times> bool" where
  "apply_view f matches now result s =
     (let s1 = (if matches then s else want_forced s) in
      if matches \<and> obj_fields result \<noteq> [] then applyRuntimeViewData now result (fl_view f) s1 else (s1, False))"

definition viewArrived :: "runtime_flight \<Rightarrow> bool \<Rightarrow> rat \<Rightarrow> (string \<Rightarrow> settled) \<Rightarrow> poll_state \<Rightarrow> poll_state" where
  "viewArrived f coreChanged now view s =
     (if \<not> still_current f s then release_runtime f s
      else (let result = to_result (fl_entries f) view;
                payload = (if fl_view f = ''requests'' then get result ''requests'' else Undef);
                pending = navigation_pending f s;
                reply = (if ''requests'' \<in> set (fl_entries f) then Some (view ''requests'') else None);
                matches = request_matches f payload s;
                (s2, viewChanged) = apply_view f matches now result s;
                s3 = (if pending then settle_navigation f payload reply matches s2 else s2);
                s4 = (if viewChanged \<or> (coreChanged \<and> fl_entries f \<noteq> [] \<and> matches) then render s3 else s3)
            in release_runtime f s4))"

section \<open>The re-entrancy guard of \<open>refreshAll\<close>\<close>

record all_guard =
  ag_inFlight :: bool
  ag_wanted :: bool
  ag_args :: "refresh_args option"

text \<open>\<open>True\<close> when the call goes on to fetch; the arguments have no domains.\<close>

definition enterRefreshAll :: "refresh_args \<Rightarrow> all_guard \<Rightarrow> all_guard \<times> bool" where
  "enterRefreshAll args g =
     (if ag_inFlight g
      then (g\<lparr>ag_wanted := True, ag_args := Some (mergeRefreshArgs (ag_args g) args)\<rparr>, False)
      else (g\<lparr>ag_inFlight := True\<rparr>, True))"

definition leaveRefreshAll :: "all_guard \<Rightarrow> all_guard \<times> refresh_args option" where
  "leaveRefreshAll g =
     (if ag_wanted g
      then (g\<lparr>ag_inFlight := False, ag_wanted := False, ag_args := None\<rparr>,
            Some (case ag_args g of Some a \<Rightarrow> a
              | None \<Rightarrow> \<lparr>ra_quiet = False, ra_preserve = False, ra_static = False, ra_domains = []\<rparr>))
      else (g\<lparr>ag_inFlight := False\<rparr>, None))"

section \<open>Capability follow-up\<close>

definition capability_statuses :: "jsval \<Rightarrow> jsval list" where
  "capability_statuses status =
     map (\<lambda>e. get (snd e) ''status'')
       (filter (\<lambda>e. is_object (snd e)) (js_entries (jor (get (get status ''models'') ''providers'') (Obj []))))"

definition hasPendingModelCapabilities :: "jsval \<Rightarrow> bool" where
  "hasPendingModelCapabilities status \<longleftrightarrow>
     (\<exists>v \<in> set (capability_statuses status). v \<in> {Str ''pending'', Str ''error'', Str ''stale''})"

definition capabilityFollowUpDelayMs :: "jsval \<Rightarrow> nat" where
  "capabilityFollowUpDelayMs status =
     (let ss = capability_statuses status in
      if Str ''pending'' \<in> set ss then 3000
      else if Str ''stale'' \<in> set ss then 8000
      else if Str ''error'' \<in> set ss then 30000 else 0)"

text \<open>The timer after \<open>_maybeScheduleCapabilityFollowUp\<close>: the delay it was armed with, or none.\<close>

definition maybeScheduleCapabilityFollowUp :: "jsval \<Rightarrow> bool \<Rightarrow> nat option \<Rightarrow> nat option" where
  "maybeScheduleCapabilityFollowUp status hidden timer =
     (let delay = capabilityFollowUpDelayMs status in
      if delay = 0 \<or> hidden then None
      else if timer \<noteq> None then timer else Some delay)"

end
