(* ===== verification/UrlParams.thy ===== *)
theory UrlParams
  imports ApiClient
begin

text \<open>
  \<open>URLSearchParams\<close> as the console uses it: an ordered list of names and values, \<open>set\<close>, and \<open>toString\<close> in the
  form encoding. The specification side is a server's reading of a query.
\<close>

section \<open>Parameters and their text\<close>

type_synonym url_params = "(string \<times> string) list"

text \<open>\<open>params.set(name, value)\<close>: the first entry of the name gets the value, its other entries go.\<close>

definition params_set :: "string \<Rightarrow> string \<Rightarrow> url_params \<Rightarrow> url_params" where
  "params_set k v ps =
     (let first = takeWhile (\<lambda>p. fst p \<noteq> k) ps; rest = dropWhile (\<lambda>p. fst p \<noteq> k) ps
      in first @ (k, v) # filter (\<lambda>p. fst p \<noteq> k) rest)"

definition form_plain :: "char \<Rightarrow> bool" where
  "form_plain c \<longleftrightarrow> (let n = code_unit c in
     (65 \<le> n \<and> n \<le> 90) \<or> (97 \<le> n \<and> n \<le> 122) \<or> (48 \<le> n \<and> n \<le> 57) \<or> n \<in> {42, 45, 46, 95})"

definition form_char :: "char \<Rightarrow> string" where
  "form_char c =
     (let n = code_unit c in
      if form_plain c then [c]
      else if n = 32 then ''+''
      else if n < 128 then percent_byte n
      else percent_byte (192 + n div 64) @ percent_byte (128 + n mod 64))"

definition form_encode :: "string \<Rightarrow> string" where
  "form_encode s = concat (map form_char s)"

definition params_text :: "url_params \<Rightarrow> string" where
  "params_text ps = js_join ''&'' (map (\<lambda>(k, v). form_encode k @ ''='' @ form_encode v) ps)"

section \<open>A server reads back what was set\<close>

definition form_decode :: "string \<Rightarrow> string" where
  "form_decode s = utf8_decode (percent_decode (map (\<lambda>c. if c = CHR ''+'' then CHR '' '' else c) s))"

definition parse_pair :: "string \<Rightarrow> string \<times> string" where
  "parse_pair s =
     (form_decode (takeWhile (\<lambda>c. c \<noteq> CHR ''='') s), form_decode (drop 1 (dropWhile (\<lambda>c. c \<noteq> CHR ''='') s)))"

definition parse_query :: "string \<Rightarrow> url_params" where
  "parse_query s = map parse_pair (filter (\<lambda>p. p \<noteq> []) (js_split (\<lambda>c. c = CHR ''&'') s))"

lemma form_plain_chars: "form_plain c \<Longrightarrow> c \<notin> {CHR ''%'', CHR ''+'', CHR ''&'', CHR ''=''}"
  by (auto simp: form_plain_def Let_def)

lemma percent_byte_no_mark:
  assumes "0 \<le> n" and "n < 256"
  shows "set (percent_byte n) \<inter> {CHR ''+'', CHR ''&'', CHR ''=''} = {}"
  using percent_byte_chars [OF assms] plain_no_separator by (fastforce simp: query_separators_def)

lemma char_parts:
  "0 \<le> code_unit c div 64" "code_unit c div 64 < 64" "0 \<le> code_unit c mod 64" "code_unit c mod 64 < 64"
  using code_unit_range [of c] by (simp_all add: div_less_iff_less_mult)

lemma form_char_no_separator: "set (form_char c) \<inter> {CHR ''&'', CHR ''=''} = {}"
  using percent_byte_no_mark [of "code_unit c"] percent_byte_no_mark [of "192 + code_unit c div 64"]
    percent_byte_no_mark [of "128 + code_unit c mod 64"] form_plain_chars [of c] char_parts [of c] code_unit_range [of c]
  by (auto simp: form_char_def Let_def split: if_splits)

lemma form_encode_no_separator: "set (form_encode s) \<inter> {CHR ''&'', CHR ''=''} = {}"
  using form_char_no_separator by (fastforce simp: form_encode_def)

lemma map_id_outside: "x \<notin> set s \<Longrightarrow> map (\<lambda>c. if c = x then y else c) s = s"
  by (induction s) auto

lemma code_unit_space: "code_unit c = 32 \<Longrightarrow> c = CHR '' ''"
  using of_char_eq_iff [of c "CHR '' ''", where ?'a = int] by simp

lemma form_char_decode:
  "percent_decode (map (\<lambda>c. if c = CHR ''+'' then CHR '' '' else c) (form_char c) @ s) = char_bytes c @ percent_decode s"
proof -
  have b: "map (\<lambda>c. if c = CHR ''+'' then CHR '' '' else c) (percent_byte n) = percent_byte n" if "0 \<le> n" "n < 256" for n
    using percent_byte_no_mark [OF that] by (intro map_id_outside) auto
  consider "form_plain c" | "\<not> form_plain c" "code_unit c = 32" | "\<not> form_plain c" "code_unit c \<noteq> 32" "code_unit c < 128"
    | "\<not> form_plain c" "128 \<le> code_unit c" by linarith
  then show ?thesis
  proof cases
    case 1
    then have "c \<noteq> CHR ''+''" "c \<noteq> CHR ''%''" "code_unit c < 128" by (auto simp: form_plain_def Let_def)
    with 1 show ?thesis by (simp add: form_char_def char_bytes_def percent_decode_plain Let_def)
  next
    case 2
    then show ?thesis by (simp add: form_char_def char_bytes_def percent_decode_plain Let_def)
  next
    case 3
    then show ?thesis using code_unit_range [of c]
      by (simp add: form_char_def char_bytes_def percent_decode_byte b Let_def)
  next
    case 4
    then show ?thesis using char_parts [of c]
      by (simp add: form_char_def char_bytes_def percent_decode_byte b Let_def)
  qed
qed

lemma form_decode_encode: "form_decode (form_encode s) = s"
  by (induction s) (simp_all add: form_decode_def form_encode_def form_char_decode utf8_bytes)

lemma parse_pair_text: "parse_pair (form_encode k @ ''='' @ form_encode v) = (k, v)"
proof -
  have "\<forall>c \<in> set (form_encode k). c \<noteq> CHR ''=''" using form_encode_no_separator [of k] by auto
  then show ?thesis
    by (simp add: parse_pair_def takeWhile_append2 dropWhile_append2 form_decode_encode)
qed

lemma split_join_plain:
  assumes "\<And>x. x \<in> set xs \<Longrightarrow> CHR ''&'' \<notin> set x" and "xs \<noteq> []"
  shows "js_split (\<lambda>c. c = CHR ''&'') (js_join ''&'' xs) = xs"
  using assms
proof (induction xs)
  case (Cons x xs)
  have plain: "js_split (\<lambda>c. c = CHR ''&'') s = [s]" if "CHR ''&'' \<notin> set s" for s
    using that by (induction s) auto
  have cut: "js_split (\<lambda>c. c = CHR ''&'') (s @ CHR ''&'' # r) = s # js_split (\<lambda>c. c = CHR ''&'') r"
    if "CHR ''&'' \<notin> set s" for s r
    using that by (induction s) auto
  show ?case using Cons by (cases xs) (auto simp: plain cut)
qed simp

lemma parse_params_text: "parse_query (params_text ps) = ps"
proof (cases "ps = []")
  case False
  define ts where "ts = map (\<lambda>(k, v). form_encode k @ ''='' @ form_encode v) ps"
  have "CHR ''&'' \<notin> set x" if "x \<in> set ts" for x
    using that form_encode_no_separator by (fastforce simp: ts_def)
  then have "js_split (\<lambda>c. c = CHR ''&'') (js_join ''&'' ts) = ts"
    using False by (intro split_join_plain) (simp_all add: ts_def)
  moreover have "filter (\<lambda>p. p \<noteq> []) ts = ts" by (auto simp: ts_def filter_id_conv)
  moreover have "map parse_pair ts = ps" unfolding ts_def map_map
    by (rule map_idI) (auto simp: parse_pair_text [simplified])
  ultimately show ?thesis unfolding parse_query_def params_text_def ts_def [symmetric] by simp
qed (simp add: parse_query_def params_text_def)

lemma map_of_params_set: "map_of (params_set k v ps) = (map_of ps)(k \<mapsto> v)"
proof -
  have "map_of (takeWhile (\<lambda>p. fst p \<noteq> k) ps @ (k, v) # filter (\<lambda>p. fst p \<noteq> k) (dropWhile (\<lambda>p. fst p \<noteq> k) ps)) x
      = ((map_of ps)(k \<mapsto> v)) x" for x
  proof (induction ps)
    case (Cons p ps)
    have "map_of (filter (\<lambda>p. fst p \<noteq> k) ps) x = map_of ps x" if "x \<noteq> k"
      using that by (induction ps) auto
    with Cons show ?case by auto
  qed simp
  then show ?thesis by (auto simp: params_set_def Let_def)
qed

text \<open>
  What is set is what the server reads: for any names and values (spaces, separators, percent signs,
  accented letters), the query text of the parameters is parsed back to exactly these parameters, in their
  order; setting a name changes the value the server reads for it, and for no other name.
\<close>

lemma params_round_trip:
  "parse_query (params_text ps) = ps \<and> map_of (parse_query (params_text (params_set k v ps))) = (map_of ps)(k \<mapsto> v)"
  by (simp add: parse_params_text map_of_params_set)

end
