(* ===== verification/UsageStatistics.thy ===== *)
theory UsageStatistics
  imports UrlParams Format
begin

text \<open>
  Usage statistics and model usage of \<open>app.js\<close>: what the controls ask the server for, and how replies that
  may come in any order reach the page. \<open>loadUsageStatistics\<close> is cut at its \<open>await\<close>, \<open>loadModelUsage\<close> at its
  two; a flight is what the suspended call remembers. The page is taken to have all its elements.
\<close>

section \<open>The dates of a custom range\<close>

text \<open>
  \<open>new Date(y, m, d, ...)\<close>: days of the proleptic Gregorian calendar, with a month outside the year carried
  over and the years 0 to 99 read as 1900 to 1999. \<open>tz\<close> is the offset of the browser's time zone, in
  milliseconds, at a local time.
\<close>

definition day_from_year :: "int \<Rightarrow> int" where
  "day_from_year y = 365 * (y - 1970) + (y - 1969) div 4 - (y - 1901) div 100 + (y - 1601) div 400"

definition leap_year :: "int \<Rightarrow> bool" where
  "leap_year y \<longleftrightarrow> y mod 4 = 0 \<and> (y mod 100 \<noteq> 0 \<or> y mod 400 = 0)"

definition month_start :: "bool \<Rightarrow> nat \<Rightarrow> int" where
  "month_start leap m =
     [0, 31, 59, 90, 120, 151, 181, 212, 243, 273, 304, 334] ! m + (if leap \<and> 2 \<le> m then 1 else 0)"

definition make_day :: "int \<Rightarrow> int \<Rightarrow> int \<Rightarrow> int" where
  "make_day year month day =
     (let y = year + month div 12
      in day_from_year y + month_start (leap_year y) (nat (month mod 12)) + day - 1)"

definition date_parts_of :: "string \<Rightarrow> (int \<times> int \<times> int) option" where
  "date_parts_of s =
     (if length s = 10 \<and> s ! 4 = CHR ''-'' \<and> s ! 7 = CHR ''-''
         \<and> list_all is_digit (take 4 s @ take 2 (drop 5 s) @ drop 8 s)
      then Some (digits_val 10 (take 4 s), digits_val 10 (take 2 (drop 5 s)), digits_val 10 (drop 8 s)) else None)"

definition usageStatisticsCustomTimestamp :: "(int \<Rightarrow> int) \<Rightarrow> string \<Rightarrow> bool \<Rightarrow> int" where
  "usageStatisticsCustomTimestamp tz value endOfDay =
     (case date_parts_of value of None \<Rightarrow> 0
      | Some (y, m, d) \<Rightarrow>
          (let year = (if y \<le> 99 then 1900 + y else y);
               local = make_day year (m - 1) d * 86400000 + (if endOfDay then 86399999 else 0)
           in (local - tz local) div 1000))"

section \<open>State\<close>

record stats_ui =
  us_configTab :: string
  us_view :: string
  us_range :: string
  us_customStart :: string
  us_customEnd :: string
  us_customOpen :: bool
  us_filters :: "(string \<times> string) list"
  us_metric :: string
  us_breakdown :: string
  us_sort :: string
  us_page :: jsnum
  us_seq :: nat
  us_loading :: bool
  us_busy :: "string \<Rightarrow> bool"
  us_refreshing :: bool
  us_notice :: string
  us_data :: jsval
  us_dimensions :: jsval
  us_requestedMetric :: string
  us_responseMetric :: string
  mu_range :: string
  mu_provider :: string
  mu_format :: string
  mu_customStart :: string
  mu_customEnd :: string
  mu_customOpen :: bool
  mu_query :: string
  mu_sort :: string
  mu_page :: jsnum
  mu_loading :: bool
  mu_busy :: bool
  mu_data :: jsval
  mu_error :: string

definition or_default :: "string \<Rightarrow> string \<Rightarrow> string" where
  "or_default s d = (if s = [] then d else s)"

definition USAGE_STATISTICS_BREAKDOWN_PAGE_SIZE :: rat where "USAGE_STATISTICS_BREAKDOWN_PAGE_SIZE = 6"

definition MODEL_USAGE_PAGE_SIZE :: rat where "MODEL_USAGE_PAGE_SIZE = 10"

section \<open>Requests\<close>

definition custom_params :: "(int \<Rightarrow> int) \<Rightarrow> string \<Rightarrow> string \<Rightarrow> string \<Rightarrow> url_params \<Rightarrow> url_params" where
  "custom_params tz rng a b ps =
     (let s = usageStatisticsCustomTimestamp tz a False; e = usageStatisticsCustomTimestamp tz b True
      in if rng = ''custom'' \<and> s \<noteq> 0 \<and> e \<noteq> 0 \<and> s < e
         then params_set ''end'' (num_to_str (Fin (of_int e))) (params_set ''start'' (num_to_str (Fin (of_int s))) ps)
         else ps)"

definition usageStatisticsParams :: "(int \<Rightarrow> int) \<Rightarrow> stats_ui \<Rightarrow> url_params" where
  "usageStatisticsParams tz s =
     custom_params tz (us_range s) (us_customStart s) (us_customEnd s)
       (fold (\<lambda>(k, v) ps. if v \<noteq> [] then params_set k v ps else ps) (own_entries (us_filters s))
          [(''range'', or_default (us_range s) ''all'')])"

definition modelUsageParams :: "(int \<Rightarrow> int) \<Rightarrow> stats_ui \<Rightarrow> url_params" where
  "modelUsageParams tz s =
     (let p0 = [(''range'', or_default (mu_range s) ''7d'')];
          p1 = (if mu_provider s \<noteq> [] then params_set ''provider'' (mu_provider s) p0 else p0);
          p2 = (if mu_format s \<noteq> [] then params_set ''client_format'' (mu_format s) p1 else p1)
      in custom_params tz (mu_range s) (mu_customStart s) (mu_customEnd s) p2)"

text \<open>\<open>String(Math.max(0, Number(page || 0)) * size)\<close>.\<close>

definition page_offset :: "jsnum \<Rightarrow> rat \<Rightarrow> string" where
  "page_offset p k = num_to_str (num_mul (num_max (Fin 0) (num_or_zero (Num p))) (Fin k))"

definition part_request :: "url_params \<Rightarrow> string \<Rightarrow> stats_ui \<Rightarrow> string \<Rightarrow> (string \<times> string) list" where
  "part_request base metric s part =
     (if part = ''summary'' then [(part, ''/-/admin/usage-statistics/summary?'' @ params_text base)]
      else if part = ''timeseries'' then
        [(part, ''/-/admin/usage-statistics/timeseries?''
            @ params_text (params_set ''resolution'' ''auto'' (params_set ''metric'' metric base)))]
      else if part = ''breakdown'' then
        [(part, ''/-/admin/usage-statistics/breakdown?''
            @ params_text (params_set ''offset'' (page_offset (us_page s) USAGE_STATISTICS_BREAKDOWN_PAGE_SIZE)
                (params_set ''limit'' (num_to_str (Fin USAGE_STATISTICS_BREAKDOWN_PAGE_SIZE))
                  (params_set ''order'' ''desc'' (params_set ''sort'' (or_default (us_sort s) ''tokens'')
                    (params_set ''group_by'' (or_default (us_breakdown s) ''model'') base))))))]
      else [])"

section \<open>Loading the usage statistics\<close>

record usage_flight =
  uf_seq :: nat
  uf_requested :: "string list"
  uf_requests :: "(string \<times> string) list"

definition setUsageStatisticsBusy :: "string list \<Rightarrow> bool \<Rightarrow> stats_ui \<Rightarrow> stats_ui" where
  "setUsageStatisticsBusy parts busy s =
     s\<lparr>us_busy := (\<lambda>p. if p \<in> set parts \<and> p \<in> {''summary'', ''timeseries'', ''breakdown''} then busy else us_busy s p),
       us_refreshing := busy\<rparr>"

definition all_parts :: "string list" where
  "all_parts = [''summary'', ''timeseries'', ''breakdown'']"

text \<open>\<open>None\<close> when the call returns without a request.\<close>

definition startUsageStatistics ::
    "(int \<Rightarrow> int) \<Rightarrow> bool \<Rightarrow> string list \<Rightarrow> bool \<Rightarrow> stats_ui \<Rightarrow> stats_ui \<times> usage_flight option" where
  "startUsageStatistics tz force parts includeDimensions s =
     (let requested = first_by (\<lambda>p. p) [] parts;
          hasData = truthy (us_data s) \<and> is_object (us_data s);
          metric = or_default (us_metric s) ''tokens'';
          requests = concat (map (part_request (usageStatisticsParams tz s) metric s) requested)
            @ (if includeDimensions \<or> \<not> truthy (us_dimensions s)
               then [(''dimensions'', ''/-/admin/usage-statistics/dimensions'')] else [])
      in if us_configTab s \<noteq> ''models'' \<or> us_view s \<noteq> ''usage'' then (s, None)
         else if us_loading s \<and> \<not> force then (s, None)
         else if \<not> force \<and> hasData \<and> list_all (\<lambda>p. truthy (get (us_data s) p)) requested then (s, None)
         else (setUsageStatisticsBusy requested True
                 (s\<lparr>us_seq := Suc (us_seq s), us_requestedMetric := metric, us_loading := True, us_notice := []\<rparr>),
               Some \<lparr>uf_seq = Suc (us_seq s), uf_requested = requested, uf_requests = requests\<rparr>))"

text \<open>One settled request: the state, the parts so far, the failures so far.\<close>

fun settle_part :: "string \<times> (string + jsval) \<Rightarrow> stats_ui \<times> (string \<times> jsval) list \<times> string list
    \<Rightarrow> stats_ui \<times> (string \<times> jsval) list \<times> string list" where
  "settle_part (key, Inr v) (s, current, failures) =
     (if key = ''dimensions'' then (s\<lparr>us_dimensions := v\<rparr>, current, failures)
      else (if key = ''timeseries'' then s\<lparr>us_responseMetric := to_str (jor (get v ''metric'') (Str []))\<rparr> else s,
            set_prop key v current, failures))"
| "settle_part (key, Inl err) (s, current, failures) = (s, current, failures @ [or_default err ''Error''])"

text \<open>\<open>results\<close> are the settled requests in order. A superseded call changes nothing.\<close>

definition finishUsageStatistics :: "usage_flight \<Rightarrow> (string + jsval) list \<Rightarrow> stats_ui \<Rightarrow> stats_ui" where
  "finishUsageStatistics f results s =
     (if uf_seq f \<noteq> us_seq s then s
      else (let (s1, current, failures) =
                  fold settle_part (zip (map fst (uf_requests f)) results) (s, obj_fields (us_data s), [])
            in setUsageStatisticsBusy (uf_requested f) False
                 (s1\<lparr>us_data := Obj current, us_loading := False,
                     us_notice := (if failures \<noteq> [] then js_join ('' '' @ [CHR 0xB7] @ '' '') failures else us_notice s1)\<rparr>)))"

section \<open>Loading the model usage\<close>

text \<open>The call is suspended in \<open>ensureUsageStatisticsDimensions\<close>, then in its own request.\<close>

definition startModelUsage :: "bool \<Rightarrow> stats_ui \<Rightarrow> stats_ui \<times> bool" where
  "startModelUsage force s =
     (if us_configTab s \<noteq> ''models'' \<or> mu_loading s then (s, False)
      else if truthy (mu_data s) \<and> \<not> force then (s\<lparr>mu_error := []\<rparr>, False)
      else (s\<lparr>mu_loading := True, mu_busy := True, us_refreshing := True\<rparr>, True))"

definition ensureUsageStatisticsDimensions :: "string + jsval \<Rightarrow> stats_ui \<Rightarrow> stats_ui" where
  "ensureUsageStatisticsDimensions reply s =
     (if truthy (us_dimensions s) then s
      else (case reply of Inr v \<Rightarrow> s\<lparr>us_dimensions := v\<rparr> | Inl _ \<Rightarrow> s))"

text \<open>The URL is built after the dimensions have arrived, from the state at that moment.\<close>

definition modelUsageUrl :: "(int \<Rightarrow> int) \<Rightarrow> stats_ui \<Rightarrow> string" where
  "modelUsageUrl tz s =
     ''/-/admin/models/usage?'' @ params_text
       (params_set ''offset'' (page_offset (mu_page s) MODEL_USAGE_PAGE_SIZE)
         (params_set ''limit'' (num_to_str (Fin MODEL_USAGE_PAGE_SIZE))
           (params_set ''order'' ''desc'' (params_set ''sort'' (or_default (mu_sort s) ''calls'')
             (params_set ''query'' (mu_query s) (modelUsageParams tz s))))))"

definition finishModelUsage :: "string + jsval \<Rightarrow> stats_ui \<Rightarrow> stats_ui" where
  "finishModelUsage reply s =
     (case reply of Inr v \<Rightarrow> s\<lparr>mu_data := v, mu_error := []\<rparr> | Inl err \<Rightarrow> s\<lparr>mu_error := err\<rparr>)
       \<lparr>mu_loading := False, mu_busy := False, us_refreshing := False\<rparr>"

section \<open>The controls\<close>

datatype stats_event =
    PickTab string | PickView string
  | PickRange string | PickMetric string | PickBreakdown string | PickFilter string string | PickPage jsval
  | ApplyCustom string string | DismissCustom | RefreshClick
  | PickModelRange string | PickModelFilter string string | ApplyModelQuery string string
  | PickModelPage jsval | ApplyModelCustom string string | DismissModelCustom

datatype stats_load = NoLoad | UsageLoad usage_flight | ModelLoad

definition load_usage :: "stats_ui \<times> usage_flight option \<Rightarrow> stats_ui \<times> stats_load" where
  "load_usage r = (fst r, case snd r of None \<Rightarrow> NoLoad | Some f \<Rightarrow> UsageLoad f)"

definition load_model :: "stats_ui \<times> bool \<Rightarrow> stats_ui \<times> stats_load" where
  "load_model r = (fst r, if snd r then ModelLoad else NoLoad)"

definition load_view :: "(int \<Rightarrow> int) \<Rightarrow> stats_ui \<Rightarrow> stats_ui \<times> stats_load" where
  "load_view tz s =
     (if us_view s = ''models'' then load_model (startModelUsage False s)
      else load_usage (startUsageStatistics tz False all_parts False s))"

definition forced :: "(int \<Rightarrow> int) \<Rightarrow> stats_ui \<Rightarrow> stats_ui \<times> stats_load" where
  "forced tz s = load_usage (startUsageStatistics tz True all_parts False s)"

definition forced_model :: "stats_ui \<Rightarrow> stats_ui \<times> stats_load" where
  "forced_model s = load_model (startModelUsage True s)"

text \<open>\<open>Math.max(0, Number(button.dataset.page || 0))\<close>.\<close>

definition clicked_page :: "jsval \<Rightarrow> jsnum" where
  "clicked_page v = num_max (Fin 0) (num_or_zero v)"

definition valid_range :: "(int \<Rightarrow> int) \<Rightarrow> string \<Rightarrow> string \<Rightarrow> bool" where
  "valid_range tz a b =
     (let s = usageStatisticsCustomTimestamp tz a False; e = usageStatisticsCustomTimestamp tz b True
      in s \<noteq> 0 \<and> e \<noteq> 0 \<and> s < e)"

definition switchStatisticsView :: "(int \<Rightarrow> int) \<Rightarrow> string \<Rightarrow> stats_ui \<Rightarrow> stats_ui \<times> stats_load" where
  "switchStatisticsView tz v s =
     (if v \<notin> {''usage'', ''models''} then (s, NoLoad)
      else (let s1 = s\<lparr>us_view := v\<rparr> in if us_configTab s1 \<noteq> ''models'' then (s1, NoLoad) else load_view tz s1))"

definition CONFIG_TAB_PANELS :: "(string \<times> string list) list" where
  "CONFIG_TAB_PANELS =
     [(''models'', [''models'']), (''routing'', [''routes'', ''map'']), (''providers'', [''providers'']),
      (''runtime_ops'', [''runtime'', ''proxy'', ''health'']), (''advanced'', [''advanced''])]"

definition CONFIG_TAB_ALIASES :: "(string \<times> string) list" where
  "CONFIG_TAB_ALIASES = [(''routes'', ''routing''), (''map'', ''routing''), (''proxy'', ''runtime_ops''), (''health'', ''runtime_ops'')]"

definition switchConfigTab :: "(int \<Rightarrow> int) \<Rightarrow> string \<Rightarrow> stats_ui \<Rightarrow> stats_ui \<times> stats_load" where
  "switchConfigTab tz tabName s =
     (let normalized = pick CONFIG_TAB_ALIASES tabName tabName in
      if map_of CONFIG_TAB_PANELS normalized = None then (s, NoLoad)
      else (let s1 = s\<lparr>us_configTab := normalized\<rparr>
            in if normalized = ''models'' then load_view tz s1 else (s1, NoLoad)))"

fun statsControl :: "(int \<Rightarrow> int) \<Rightarrow> stats_event \<Rightarrow> stats_ui \<Rightarrow> stats_ui \<times> stats_load" where
  "statsControl tz (PickTab tab) s = switchConfigTab tz tab s"
| "statsControl tz (PickView v) s = switchStatisticsView tz v s"
| "statsControl tz (PickRange r) s =
     (let s1 = s\<lparr>us_range := or_default r ''all'', us_page := Fin 0\<rparr>
      in if us_range s1 = ''custom'' then (s1\<lparr>us_customOpen := \<not> us_customOpen s1\<rparr>, NoLoad)
         else forced tz (s1\<lparr>us_customOpen := False\<rparr>))"
| "statsControl tz (PickMetric m) s =
     forced tz (s\<lparr>us_metric := or_default m ''tokens'', us_sort := or_default m ''tokens'', us_page := Fin 0\<rparr>)"
| "statsControl tz (PickBreakdown b) s = forced tz (s\<lparr>us_breakdown := or_default b ''model'', us_page := Fin 0\<rparr>)"
| "statsControl tz (PickFilter k v) s =
     (if k = [] then (s, NoLoad) else forced tz (s\<lparr>us_filters := set_prop k v (us_filters s), us_page := Fin 0\<rparr>))"
| "statsControl tz (PickPage v) s =
     load_usage (startUsageStatistics tz True [''breakdown''] False (s\<lparr>us_page := clicked_page v\<rparr>))"
| "statsControl tz (ApplyCustom a b) s =
     (if \<not> valid_range tz a b then (s, NoLoad)
      else forced tz (s\<lparr>us_customStart := a, us_customEnd := b, us_page := Fin 0, us_customOpen := False\<rparr>))"
| "statsControl tz DismissCustom s = (s\<lparr>us_customOpen := False\<rparr>, NoLoad)"
| "statsControl tz RefreshClick s =
     (if us_view s = ''models'' then forced_model s
      else load_usage (startUsageStatistics tz True all_parts True s))"
| "statsControl tz (PickModelRange r) s =
     (let s1 = s\<lparr>mu_range := or_default r ''7d'', mu_page := Fin 0\<rparr>
      in if mu_range s1 = ''custom'' then (s1\<lparr>mu_customOpen := \<not> mu_customOpen s1\<rparr>, NoLoad)
         else forced_model (s1\<lparr>mu_customOpen := False\<rparr>))"
| "statsControl tz (PickModelFilter k v) s =
     (if k = [] then (s, NoLoad)
      else (let s1 = (if k = ''provider'' then s\<lparr>mu_provider := v\<rparr>
                      else if k = ''client_format'' then s\<lparr>mu_format := v\<rparr> else s)
            in forced_model (s1\<lparr>mu_page := Fin 0\<rparr>)))"
| "statsControl tz (ApplyModelQuery q srt) s =
     forced_model (s\<lparr>mu_query := q, mu_sort := or_default srt ''calls'', mu_page := Fin 0\<rparr>)"
| "statsControl tz (PickModelPage v) s = forced_model (s\<lparr>mu_page := clicked_page v\<rparr>)"
| "statsControl tz (ApplyModelCustom a b) s =
     (if \<not> valid_range tz a b then (s, NoLoad)
      else forced_model (s\<lparr>mu_customStart := a, mu_customEnd := b, mu_page := Fin 0, mu_customOpen := False\<rparr>))"
| "statsControl tz DismissModelCustom s = (s\<lparr>mu_customOpen := False\<rparr>, NoLoad)"

text \<open>The clear button, when the server has answered: the data is dropped and loaded afresh.\<close>

definition clearUsageStatistics :: "(int \<Rightarrow> int) \<Rightarrow> string + jsval \<Rightarrow> stats_ui \<Rightarrow> stats_ui \<times> stats_load" where
  "clearUsageStatistics tz reply s =
     (case reply of Inl _ \<Rightarrow> (s, NoLoad)
      | Inr _ \<Rightarrow> load_usage (startUsageStatistics tz True all_parts True
                    (s\<lparr>us_data := Null, us_dimensions := Null, us_page := Fin 0\<rparr>)))"

end
