(* ===== verification/TextTone.thy ===== *)
theory TextTone
  imports Format
begin

text \<open>
  The tone of a text (\<open>keywordRules\<close>, \<open>toneForText\<close>), keyword highlighting, chips, badges and the
  status badge of a request. A highlighted text is HTML: its markup comes from the highlighter
  alone, and its text content is the value it was given.
\<close>

section \<open>Tones\<close>

definition keywordRules :: "(string \<times> string list) list" where
  "keywordRules = [
     (''danger'', [''key_invalid'', ''invalid'', ''unauthorized'', ''forbidden'', ''401'', ''403'', ''auth'']),
     (''warn'', [''quota_or_balance'', ''rate_limited'', ''rate limit'', ''retry_after'', ''quota'',
        ''balance'', ''429'', ''402'', ''cooldown'']),
     (''danger'', [''server_error'', ''failed'', ''failure'', ''error'', ''timeout'', ''502'', ''503'',
        ''504'', ''500'']),
     (''info'', [''network_error'', ''network'', ''connect'', ''connection'', ''transport'']),
     (''compat'', [''provider_compat'', ''tool_choice'', ''unsupported'', ''compat'',
        ''empty_visible_output'', ''reasoning'', ''thinking'', ''length'']),
     (''success'', [''success'', ''available'', ''enabled'', ''ok'', ''200'']),
     (''neutral'', [''chat_completions'', ''responses'', ''anthropic_messages'', ''google_generate'',
        ''client_error'', ''400'', ''404'', ''422''])]"

text \<open>\<open>keywordRegex\<close>: every word, longer ones first; the first alternative that matches wins.\<close>

definition keyword_words :: "string list" where
  "keyword_words = js_sort (\<lambda>a b. length b \<le> length a) (concat (map snd keywordRules))"

text \<open>\<open>/^2\\d\\d$/\<close> and its two siblings.\<close>

definition three_digits :: "char \<Rightarrow> string \<Rightarrow> bool" where
  "three_digits c s \<longleftrightarrow> length s = 3 \<and> hd s = c \<and> (\<forall>d \<in> set (tl s). is_digit d)"

definition toneForText :: "jsval \<Rightarrow> string" where
  "toneForText v =
     (let s = js_lower (str_or_empty v) in
      if s = [] \<or> s = ''-'' then ''muted''
      else (case find (\<lambda>(tone, words). \<exists>w \<in> set words. js_includes w s) keywordRules of
          Some (tone, words) \<Rightarrow> tone
        | None \<Rightarrow>
            if three_digits (CHR ''2'') s then ''success''
            else if three_digits (CHR ''4'') s then (if s = ''429'' then ''warn'' else ''danger'')
            else if three_digits (CHR ''5'') s then ''danger''
            else ''neutral''))"

section \<open>Keyword highlighting\<close>

definition keyword_at :: "string \<Rightarrow> string option" where
  "keyword_at s = find (\<lambda>w. starts_with w (js_lower s)) keyword_words"

definition keyword_span :: "string \<Rightarrow> string" where
  "keyword_span word = (''<span class=\"keyword '' @ (toneForText (Str word)) @ ''\">'' @ esc word @ ''</span>'')"

text \<open>
  The loop over \<open>text.matchAll(keywordRegex)\<close>: \<open>pending\<close> is \<open>text.slice(last, i)\<close> for the position
  \<open>i\<close> of the rest \<open>s\<close>.
\<close>

function highlight_from :: "string \<Rightarrow> string \<Rightarrow> string" where
  "highlight_from pending s =
     (case s of [] \<Rightarrow> esc pending
      | c # cs \<Rightarrow>
         (case keyword_at s of
            Some w \<Rightarrow> esc pending @ keyword_span (take (length w) s)
                      @ highlight_from [] (drop (length w - 1) cs)
          | None \<Rightarrow> highlight_from (pending @ [c]) cs))"
  by pat_completeness auto
termination
  by (relation "measure (\<lambda>(pending, s). length s)") auto

declare highlight_from.simps [simp del]

definition highlightKeywords :: "jsval \<Rightarrow> string" where
  "highlightKeywords v = highlight_from [] (to_str (jcoalesce v (Str [])))"

definition messageMarkup :: "jsval \<Rightarrow> string" where
  "messageMarkup v =
     (''<span class=\"message-text '' @ toneForText v @ ''\">'' @
        (highlightKeywords (jor v (Str ''-''))) @ ''</span>'')"

section \<open>Chips and badges\<close>

text \<open>\<open>chip(label, tone)\<close>; an absent tone is the empty string.\<close>

definition chip :: "jsval \<Rightarrow> string \<Rightarrow> string" where
  "chip label tone =
     (''<span class=\"message-chip '' @ (if tone \<noteq> [] then tone else toneForText label) @
        ''\">'' @ (escapeHtml (jor label (Str ''-''))) @ ''</span>'')"

definition chip_items :: "jsval \<Rightarrow> jsval list" where
  "chip_items items =
     (case items of
        Arr xs \<Rightarrow> filter truthy xs
      | _ \<Rightarrow> map Str (filter (\<lambda>s. s \<noteq> []) (map js_trim (js_split (\<lambda>c. c = CHR '','') (str_or_empty items)))))"

definition chipList :: "jsval \<Rightarrow> string \<Rightarrow> string" where
  "chipList items fallback =
     (let arr = chip_items items in
      if arr = [] then esc fallback
      else (''<span class=\"chip-list\">'' @ (concat (map (\<lambda>x. chip x []) arr)) @ ''</span>''))"

definition badge :: "jsval \<Rightarrow> string \<Rightarrow> string" where
  "badge label tone =
     (''<span class=\"badge'' @ (if tone \<noteq> [] then ('' '' @ tone) else []) @ ''\">'' @
        escapeHtml label @ ''</span>'')"

definition priorityBadgeTone :: "jsval \<Rightarrow> string" where
  "priorityBadgeTone priority =
     (let p = num_or (to_num priority) (Fin 0) in
      if num_lt p (Fin 5) then ''prio-0''
      else if num_lt p (Fin 10) then ''prio-1''
      else if num_lt p (Fin 15) then ''prio-2''
      else ''prio-3'')"

definition statusBadge :: "jsval \<Rightarrow> jsval \<Rightarrow> string" where
  "statusBadge status statusCode =
     (let code = num_or_zero statusCode in
      if status = Str ''success'' \<or> (num_lt (Fin 0) code \<and> num_lt code (Fin 400))
      then badge (Str ''success'') ''ok''
      else if code = Fin 429 then badge (Str ''rate limited'') ''warn''
      else if num_le (Fin 500) code then badge (Str ''server error'') ''bad''
      else badge (Str ''failed'') ''bad'')"

section \<open>What an HTML reader sees\<close>

text \<open>The text between the tags; the renderers here write no \<open>>\<close> inside an attribute value.\<close>

fun strip_tags :: "bool \<Rightarrow> string \<Rightarrow> string" where
  "strip_tags inside [] = []"
| "strip_tags True (c # s) = strip_tags (c \<noteq> CHR ''>'') s"
| "strip_tags False (c # s) =
     (if c = CHR ''<'' then strip_tags True s else c # strip_tags False s)"

definition text_content :: "string \<Rightarrow> string" where
  "text_content html = unescape (strip_tags False html)"

lemma strip_tags_plain:
  "CHR ''<'' \<notin> set s \<Longrightarrow> strip_tags False (s @ u) = s @ strip_tags False u"
  by (induction s) auto

lemma strip_tags_inside: "CHR ''>'' \<notin> set s \<Longrightarrow> strip_tags True (s @ u) = strip_tags True u"
  by (induction s) auto

lemma set_escape_text: "CHR ''<'' \<notin> set (escape_text s)" "CHR ''>'' \<notin> set (escape_text s)"
  using markup_escape_text [of s] by (auto simp: markup_def filter_empty_conv is_markup_def)

lemma strip_tags_esc: "strip_tags False (escape_text s @ u) = escape_text s @ strip_tags False u"
  by (rule strip_tags_plain) (rule set_escape_text)

lemma esc_Str: "esc s = escape_text s"
  by (simp add: escapeHtml_def jcoalesce_def)

text \<open>A tone is one of eight class names, whatever the text.\<close>

definition tone_names :: "string list" where
  "tone_names = [''muted'', ''danger'', ''warn'', ''info'', ''compat'', ''success'', ''neutral'']"

lemma keywordRules_tones: "\<forall>r \<in> set keywordRules. fst r \<in> set tone_names"
  by (simp add: keywordRules_def tone_names_def)

lemma toneForText_names: "toneForText v \<in> set tone_names"
proof -
  let ?s = "js_lower (str_or_empty v)"
  show ?thesis
  proof (cases "find (\<lambda>(tone, words). \<exists>w \<in> set words. js_includes w ?s) keywordRules")
    case None
    then show ?thesis by (simp add: toneForText_def Let_def tone_names_def)
  next
    case (Some r)
    then have "fst r \<in> set tone_names"
      using keywordRules_tones find_Some_in [OF Some] by blast
    with Some show ?thesis
      by (cases r) (auto simp: toneForText_def Let_def tone_names_def)
  qed
qed

lemma tone_names_plain: "s \<in> set tone_names \<Longrightarrow> markup s = []"
  by (auto simp: tone_names_def markup_Cons is_markup_def)

lemma markup_tone [simp]: "markup (toneForText v) = []"
  by (rule tone_names_plain) (rule toneForText_names)

lemma tone_no_bracket: "CHR ''>'' \<notin> set (toneForText v)"
  using markup_tone [of v] by (auto simp: markup_def filter_empty_conv is_markup_def)

lemma strip_keyword_span: "strip_tags False (keyword_span w @ u) = escape_text w @ strip_tags False u"
  using tone_no_bracket [of "Str w"]
  by (simp add: keyword_span_def esc_Str strip_tags_inside strip_tags_esc)

lemma strip_highlight:
  "strip_tags False (highlight_from p s) = escape_text (p @ s)"
proof (induction p s rule: highlight_from.induct)
  case (1 p s)
  show ?case
  proof (cases s)
    case Nil
    then show ?thesis
      using strip_tags_esc [of p "[]"] by (simp add: highlight_from.simps [of p "[]"] esc_Str)
  next
    case (Cons c cs)
    show ?thesis
    proof (cases "keyword_at s")
      case None
      with Cons 1 show ?thesis by (simp add: highlight_from.simps [of p "c # cs"])
    next
      case (Some w)
      then have "w \<in> set keyword_words" by (auto simp: keyword_at_def dest: find_Some_in)
      moreover have "\<forall>w \<in> set keyword_words. w \<noteq> []"
        by (simp add: keyword_words_def keywordRules_def)
      ultimately have ne: "w \<noteq> []" by blast
      then have cut: "take (length w) s @ drop (length w - 1) cs = s"
        using Cons by (cases w) auto
      have "strip_tags False (highlight_from p s)
          = escape_text p @ escape_text (take (length w) s) @ escape_text (drop (length w - 1) cs)"
        using Cons Some 1(2) [OF Cons Some]
        by (simp add: highlight_from.simps [of p "c # cs"] esc_Str strip_tags_esc strip_keyword_span)
      then show ?thesis using cut by (metis escape_text_append)
    qed
  qed
qed

text \<open>
  Highlighting never changes a message: whatever the value (markup of its own included), the text
  a browser shows for \<open>highlightKeywords(value)\<close> is exactly the value's text.
\<close>

lemma highlight_keeps_text:
  "text_content (highlightKeywords v) = to_str (jcoalesce v (Str []))"
  by (simp add: text_content_def highlightKeywords_def strip_highlight unescape_def
      unescape_fuel_escape)

lemma markup_keyword_span: "markup (keyword_span w) = ''<\"\"><>''"
  by (simp add: keyword_span_def markup_Cons is_markup_def)

text \<open>Markup made of whole \<open>span\<close> elements only.\<close>

inductive spans :: "string \<Rightarrow> bool" where
  spans_Nil: "spans []"
| spans_Cons: "spans s \<Longrightarrow> spans (''<\"\"><>'' @ s)"

lemma spans_highlight: "spans (markup (highlight_from p s))"
proof (induction p s rule: highlight_from.induct)
  case (1 p s)
  then show ?case
    by (subst highlight_from.simps)
       (auto simp: markup_keyword_span intro: spans_Nil spans_Cons [simplified] split: list.splits option.splits)
qed

end
