(* ===== verification/RequestRows.thy ===== *)
theory RequestRows
  imports TextTone BrandIcons Pagination
begin

text \<open>
  The request log of \<open>app.js\<close>: labels of formats, efforts and route outcomes, the badge of a
  converted request, the vitals strip above the table, one row of the table, the two pagers and
  the page clamp of \<open>renderRequestsTable\<close>. The translation function and the platform's date
  formatting are arguments.
\<close>

section \<open>Labels\<close>

definition shortFormatLabel :: "jsval \<Rightarrow> string" where
  "shortFormatLabel fmt =
     (if fmt = Str ''chat_completions'' then ''Chat''
      else if fmt = Str ''responses'' then ''Responses''
      else if fmt = Str ''anthropic_messages'' then ''Anthropic''
      else if fmt = Str ''google_generate'' then ''Gemini''
      else str_or_empty fmt)"

definition formatLabel :: "jsval \<Rightarrow> string" where
  "formatLabel fmt =
     (if fmt = Str ''chat_completions'' then ''OpenAI Chat Completions''
      else if fmt = Str ''responses'' then ''OpenAI Responses''
      else if fmt = Str ''anthropic_messages'' then ''Anthropic Messages''
      else if fmt = Str ''google_generate'' then ''Google Gemini (generateContent)''
      else str_or_empty fmt)"

definition defaultFormatPath :: "jsval \<Rightarrow> string" where
  "defaultFormatPath fmt =
     (if fmt = Str ''responses'' then ''/v1/responses''
      else if fmt = Str ''anthropic_messages'' then ''/v1/messages''
      else if fmt = Str ''google_generate'' then ''/v1beta/models/{model}:generateContent''
      else ''/v1/chat/completions'')"

definition formatChip :: "jsval \<Rightarrow> string" where
  "formatChip fmt = (''<span class=\"format-chip tone-'' @ (esc (toneForText fmt)) @ ''\" title=\"'' @
     (esc (formatLabel fmt)) @ ''\">'' @ (esc (shortFormatLabel fmt)) @ ''</span>'')"

text \<open>\<open>routeOutcomeLabel\<close> returns the outcome itself when it knows no label: any value.\<close>

definition routeOutcomeLabel :: "translator \<Rightarrow> jsval \<Rightarrow> jsval" where
  "routeOutcomeLabel tr outcome =
     (if outcome = Str ''direct_success'' then Str (tr ''req.route_direct'' [])
      else if outcome = Str ''recovered'' then Str (tr ''req.route_recovered'' [])
      else if outcome = Str ''failed'' then Str (tr ''req.route_failed_status'' [])
      else if outcome = Str ''no_attempts'' then Str (tr ''req.route_no_attempts'' [])
      else jor outcome (Str (tr ''req.route_unknown'' [])))"

definition routeOutcomeTone :: "jsval \<Rightarrow> string" where
  "routeOutcomeTone outcome =
     (if outcome = Str ''direct_success'' then ''ok''
      else if outcome = Str ''recovered'' then ''warn''
      else if outcome = Str ''failed'' then ''bad''
      else if outcome = Str ''no_attempts'' then ''route-info''
      else ''neutral'')"

definition routeOutcomeIcon :: "jsval \<Rightarrow> string" where
  "routeOutcomeIcon outcome =
     (if outcome = Str ''direct_success'' then ''check''
      else if outcome = Str ''recovered'' then ''rotate''
      else if outcome = Str ''failed'' then ''alert''
      else if outcome = Str ''no_attempts'' then ''info''
      else ''dot'')"

definition compactRoutingSummary :: "translator \<Rightarrow> jsval \<Rightarrow> string" where
  "compactRoutingSummary tr summary =
     (if \<not> is_object summary then badge (Str ''unknown'') ''neutral''
      else (let outcome = jor (get summary ''outcome'') (Str ''unknown'')
            in badge (routeOutcomeLabel tr outcome) (routeOutcomeTone outcome)))"

definition is_integer :: "jsnum \<Rightarrow> bool" where
  "is_integer n \<longleftrightarrow> (case n of Fin q \<Rightarrow> of_int \<lfloor>q\<rfloor> = q | _ \<Rightarrow> False)"

definition requestKeyNumber :: "translator \<Rightarrow> jsval \<Rightarrow> string" where
  "requestKeyNumber tr v =
     (if v = Null \<or> v = Undef \<or> v = Str [] then []
      else (let index = to_num v in
        if \<not> is_integer index \<or> num_lt index (Fin 0) then []
        else tr ''req.key_number'' [(''index'', Str (fmtInt (Num (num_add index (Fin 1)))))]))"

section \<open>Reasoning effort\<close>

definition REASONING_EFFORT_BUDGET_STEPS :: "(rat \<times> string) list" where
  "REASONING_EFFORT_BUDGET_STEPS =
     [(1024, ''minimal''), (2048, ''low''), (4096, ''medium''), (8192, ''high''), (16384, ''xhigh'')]"

text \<open>\<open>raw.match(/^budget:(\\d+)$/)\<close>: the digits, when the whole text has that form.\<close>

definition budget_digits :: "string \<Rightarrow> string option" where
  "budget_digits raw =
     (let d = drop 7 raw in
      if starts_with ''budget:'' raw \<and> d \<noteq> [] \<and> (\<forall>c \<in> set d. is_digit c) then Some d else None)"

definition budget_label :: "jsnum \<Rightarrow> string" where
  "budget_label budget =
     (case find (\<lambda>(limit, label). num_le budget (Fin limit)) REASONING_EFFORT_BUDGET_STEPS of
        Some (limit, label) \<Rightarrow> label | None \<Rightarrow> ''xhigh'')"

definition effort_raw :: "jsval \<Rightarrow> string" where
  "effort_raw v = js_lower (trimmed v)"

definition reasoningEffortLabel :: "jsval \<Rightarrow> string" where
  "reasoningEffortLabel v =
     (let raw = effort_raw v in
      if raw = [] \<or> raw = ''on'' \<or> raw = ''default'' then ''default''
      else (case budget_digits raw of Some d \<Rightarrow> budget_label (str_to_num d) | None \<Rightarrow> raw))"

definition reasoningEffortTone :: "jsval \<Rightarrow> string" where
  "reasoningEffortTone v =
     (let label = reasoningEffortLabel v in
      if label \<in> set [''off'', ''minimal'', ''low'', ''medium'', ''high''] then label
      else if label \<in> set [''xhigh'', ''max'', ''extra_high''] then ''xhigh''
      else ''default'')"

definition reasoningEffortTip :: "translator \<Rightarrow> jsval \<Rightarrow> string" where
  "reasoningEffortTip tr v =
     (let raw = effort_raw v; label = reasoningEffortLabel (Str raw); base = tr ''req.meta_effort'' []
      in if raw \<noteq> [] \<and> raw \<noteq> label then base @ '': '' @ raw else base)"

section \<open>What a request is\<close>

definition request_ok :: "jsval \<Rightarrow> bool" where
  "request_ok r \<longleftrightarrow> (let code = num_or_zero (get r ''status_code'') in
     get r ''status'' = Str ''success'' \<or> (num_lt (Fin 0) code \<and> num_lt code (Fin 400)))"

definition route_outcome :: "jsval \<Rightarrow> jsval" where
  "route_outcome r = get (get r ''routing_summary'') ''outcome''"

definition requestTone :: "jsval \<Rightarrow> string" where
  "requestTone r =
     (let code = num_or_zero (get r ''status_code'') in
      if request_ok r
      then (if route_outcome r = Str ''recovered'' then ''warning'' else ''success'')
      else if code = Fin 429 \<or> code = Fin 402 then ''warning''
      else ''danger'')"

definition primaryProvider :: "jsval \<Rightarrow> jsval" where
  "primaryProvider r =
     (let p = get (get r ''routing_summary'') ''final_provider'' in
      if truthy p then p
      else (case filter truthy (arr_or_empty (get r ''providers'')) of
              [] \<Rightarrow> Str ''-'' | q # _ \<Rightarrow> q))"

definition requestFormatBadge :: "jsval \<Rightarrow> string" where
  "requestFormatBadge r =
     (let client = trimmed (jor (get r ''client_format'') (get r ''endpoint''));
          upstream = trimmed (get (get r ''routing_summary'') ''final_upstream_format'');
          converted = (client \<noteq> [] \<and> upstream \<noteq> [] \<and> client \<noteq> upstream);
          display = (if converted then upstream else client);
          label = shortFormatLabel (Str display);
          tip = (if converted then ((formatLabel (Str client)) @ '' '' @ [CHR 0xE2, CHR 0x86, CHR 0x92] @ '' '' @
             (formatLabel (Str upstream)))
                 else formatLabel (Str client));
          tone = (if display = ''chat_completions'' then ''chat''
                  else if display = ''responses'' then ''responses''
                  else if display = ''anthropic_messages'' then ''messages''
                  else if display = ''google_generate'' then ''google'' else ''neutral'')
      in (''<span class=\"request-meta-chip request-format-chip format-'' @ esc tone @
         (if converted then '' is-converted'' else []) @ ''\" data-tip=\"'' @ esc tip @
         ''\" aria-label=\"'' @ esc tip @ ''\">'' @
         (if converted then iconSvg ''arrow-right-left'' else []) @ esc label @ ''</span>''))"

section \<open>The vitals strip\<close>

definition requestVital :: "jsval \<Rightarrow> jsnum \<Rightarrow> jsnum \<Rightarrow> string \<Rightarrow> string" where
  "requestVital label value all tone =
     (let pct = (if num_truthy all
        then num_max (Fin 0) (num_min (Fin 100) (num_mul (num_div (num_or_zero (Num value)) all) (Fin 100)))
        else Fin 0)
      in (nl 6 @ ''<span class=\"request-vital request-vital-'' @ esc tone @
         ''\" style=\"--vital:'' @ (svgNum (Num pct)) @ ''%\">'' @ nl 8 @
         (iconSvg (if tone = ''success'' then ''check'' else if tone = ''danger'' then ''alert'' else ''rotate'')) @
         nl 8 @ ''<strong>'' @ (esc (fmtInt (Num value))) @ ''</strong>'' @ nl 8 @ ''<small>'' @
         escapeHtml label @ ''</small>'' @ nl 6 @ ''</span>'' @ nl 4))"

text \<open>The counts the strip shows.\<close>

definition vital_success :: "jsval \<Rightarrow> bool" where
  "vital_success r \<longleftrightarrow> get r ''status'' = Str ''success''
     \<or> num_lt (num_or_zero (get r ''status_code'')) (Fin 400)"

definition num_of_nat :: "nat \<Rightarrow> jsnum" where
  "num_of_nat n = Fin (of_nat n)"

definition num_sum :: "jsnum list \<Rightarrow> jsnum" where
  "num_sum xs = foldl num_add (Fin 0) xs"

record vitals =
  rv_success :: nat
  rv_failed :: nat
  rv_recovered :: nat
  rv_first_byte :: "jsnum option"
  rv_tokens :: jsnum

definition request_vitals :: "jsval list \<Rightarrow> vitals" where
  "request_vitals rows =
     (let success = length (filter vital_success rows);
          samples = filter (\<lambda>n. num_lt (Fin 0) n) (map firstByteMsFromRequest rows)
      in \<lparr>rv_success = success, rv_failed = length rows - success,
          rv_recovered = length (filter (\<lambda>r. route_outcome r = Str ''recovered'') rows),
          rv_first_byte = (if samples = [] then None
            else Some (num_round (num_div (num_sum samples) (num_of_nat (length samples))))),
          rv_tokens = num_sum (map (\<lambda>r. total_tokens (usageFrom r)) rows)\<rparr>)"

definition requestPageVisuals :: "translator \<Rightarrow> jsval \<Rightarrow> string" where
  "requestPageVisuals tr items =
     (let rows = arr_or_empty items; v = request_vitals rows; n = num_of_nat (length rows)
      in (nl 6 @
         (requestVital (Str (tr ''req.success_metric'' [])) (num_of_nat (rv_success v)) n ''success'') @
         nl 6 @
         (requestVital (Str (tr ''req.recovered_metric'' [])) (num_of_nat (rv_recovered v)) n ''warning'') @
         nl 6 @
         (requestVital (Str (tr ''req.failed_metric'' [])) (num_of_nat (rv_failed v)) n ''danger'') @
         nl 6 @ ''<span class=\"request-vital request-vital-info\">'' @ iconSvg ''clock'' @
         ''<strong>'' @
         (case rv_first_byte v of None \<Rightarrow> ''-'' | Some ms \<Rightarrow> esc (fmtMs (Num ms))) @
         ''</strong><small>'' @ (esc (tr ''req.first_event_metric'' [])) @ ''</small></span>'' @
         nl 6 @ ''<span class=\"request-vital request-vital-compat\">'' @ iconSvg ''activity'' @
         ''<strong>'' @ (esc (fmtTokenCount (Num (rv_tokens v)))) @ ''</strong><small>'' @
         (esc (tr ''req.tokens_metric'' [])) @ ''</small></span>'' @ nl 4))"

section \<open>A row of the table\<close>

text \<open>\<open>fmtRequestDateParts\<close>; the platform formats the instant given in milliseconds.\<close>

record date_parts =
  dp_date :: string
  dp_time :: string
  dp_iso :: string

definition fmtRequestDateParts :: "(jsnum \<Rightarrow> date_parts) \<Rightarrow> jsval \<Rightarrow> date_parts" where
  "fmtRequestDateParts dates ts =
     (let n = num_or_zero ts in
      if \<not> num_truthy n then \<lparr>dp_date = ''-'', dp_time = ''-'', dp_iso = []\<rparr>
      else dates (num_mul n (Fin 1000)))"

definition middot :: string where
  "middot = ('' '' @ [CHR 0xB7] @ '' '')"

definition token_tip :: "translator \<Rightarrow> usage \<Rightarrow> jsval \<Rightarrow> string" where
  "token_tip tr u effort =
     js_join middot [
       tr ''tokens.uncached'' [] @ '': '' @ fmtInt (Num (uncached_input_tokens u)),
       tr ''tokens.cached'' [] @ '': '' @ fmtInt (Num (cached_input_tokens u)),
       tr ''tokens.cache_write'' [] @ '': '' @ fmtInt (Num (cache_write_tokens u)),
       tr ''tokens.output'' [] @ '': '' @ fmtInt (Num (output_tokens u)),
       tr ''tokens.reasoning'' [] @ '': '' @ fmtInt (Num (reasoning_tokens u)),
       tr ''req.meta_effort'' [] @ '': '' @ reasoningEffortLabel effort]"

definition failed_attempts :: "jsval \<Rightarrow> nat" where
  "failed_attempts r =
     length (filter (\<lambda>a. get a ''outcome'' \<noteq> Str ''success'') (arr_or_empty (get r ''attempts'')))"

definition recovery_text :: "translator \<Rightarrow> jsval \<Rightarrow> jsval" where
  "recovery_text tr r =
     (if 0 < failed_attempts r \<and> num_lt (num_or_zero (get r ''status_code'')) (Fin 400)
      then Str (tr ''req.recovered_count'' [(''count'', Str (fmtInt (Num (num_of_nat (failed_attempts r)))))])
      else routeOutcomeLabel tr (jor (route_outcome r) (Str ''unknown'')))"

text \<open>\<open>{ ...r, cost_usd: usage.cost_usd }\<close>.\<close>

definition with_cost :: "jsval \<Rightarrow> usage \<Rightarrow> jsval" where
  "with_cost r u = Obj (set_prop ''cost_usd'' (Num (cost_usd u)) (obj_fields r))"

definition requestSummaryRow :: "translator \<Rightarrow> (jsnum \<Rightarrow> date_parts) \<Rightarrow> jsval \<Rightarrow> string" where
  "requestSummaryRow tr dates r =
     (let u = usageFrom r;
          provider = primaryProvider r;
          route = jor (route_outcome r) (Str ''unknown'');
          code = num_or_zero (get r ''status_code'');
          firstByte = firstByteMsFromRequest r;
          requestId = str_or_empty (get r ''request_id'');
          source = to_str (jor (get r ''client_ip'') (Str ''-''));
          sourceTip = (if truthy (get r ''client_ip_source'')
                       then source @ middot @ to_str (get r ''client_ip_source'') else source);
          time = fmtRequestDateParts dates (get r ''finished_at'');
          tokenTip = token_tip tr u (get r ''reasoning_effort'');
          firstEventTone = (if num_le (Fin 30000) firstByte then ''is-danger''
                            else if num_le (Fin 15000) firstByte then ''is-warning'' else []);
          durationTone = (if num_le (Fin 60000) (num_or_zero (get r ''duration_ms'')) then ''is-warning'' else []);
          model = jor (get r ''model'') (Str ''-'');
          effort = get r ''reasoning_effort''
      in (nl 6 @ ''<tr class=\"request-data-row tone-'' @ (esc (requestTone r)) @
         ''\" data-request-row=\"'' @ esc requestId @ ''\">'' @ nl 8 @
         ''<td class=\"request-cell-request\">'' @ nl 10 @
         ''<span class=\"request-model-mark\" data-tip=\"'' @ escapeHtml model @
         ''\" aria-hidden=\"true\">'' @
         (modelBrandIconMarkup (get r ''model'') (iconSvg ''boxes'')) @ ''</span>'' @ nl 10 @
         ''<span class=\"request-identity\">'' @ nl 12 @ ''<strong class=\"mono\" data-tip=\"'' @
         escapeHtml model @ ''\">'' @ escapeHtml model @ ''</strong>'' @ nl 12 @ ''<small>'' @
         nl 14 @ ''<time datetime=\"'' @ (esc (dp_iso time)) @ ''\">'' @ (esc (dp_date time)) @
         '' '' @ (esc (dp_time time)) @ ''</time>'' @ nl 14 @ requestFormatBadge r @ nl 14 @
         (if truthy (get r ''stream'') then (''<span class=\"request-meta-chip request-stream-chip\" data-tip=\"'' @
           (esc (tr ''req.streaming'' [])) @ ''\">'' @ iconSvg ''activity'' @
           (esc (tr ''req.streaming'' [])) @ ''</span>'') else []) @ nl 14 @
         ''<span class=\"request-meta-chip request-reasoning-chip effort-'' @
         (esc (reasoningEffortTone effort)) @ ''\" data-tip=\"'' @
         (esc (reasoningEffortTip tr effort)) @ ''\">'' @ iconSvg ''bolt'' @
         (esc (reasoningEffortLabel effort)) @ ''</span>'' @ nl 12 @ ''</small>'' @ nl 10 @
         ''</span>'' @ nl 8 @ ''</td>'' @ nl 8 @
         ''<td class=\"request-cell-client-ip\"><span class=\"request-client-ip mono\"'' @
         '' data-tip=\"'' @ esc sourceTip @ ''\">'' @ esc source @ ''</span></td>'' @ nl 8 @
         ''<td class=\"request-cell-result\"><span>'' @
         (statusBadge (get r ''status'') (get r ''status_code'')) @
         ''</span><small class=\"mono\">'' @
         (if num_truthy code then num_to_str code else ''-'') @ ''</small></td>'' @ nl 8 @
         ''<td class=\"request-cell-provider\">'' @ nl 10 @
         ''<span class=\"request-provider-chip\" data-tip=\"'' @ escapeHtml provider @ ''\">'' @
         (providerBrandIconMarkup provider (iconSvg ''server'')) @ ''<strong>'' @
         escapeHtml provider @ ''</strong></span>'' @ nl 8 @ ''</td>'' @ nl 8 @
         ''<td class=\"request-cell-route\">'' @ nl 10 @
         ''<span class=\"request-route-chip tone-'' @ (esc (routeOutcomeTone route)) @ ''\">'' @
         (iconSvg (routeOutcomeIcon route)) @ (escapeHtml (recovery_text tr r)) @ ''</span>'' @
         nl 8 @ ''</td>'' @ nl 8 @ ''<td class=\"request-cell-usage\" data-tip=\"'' @
         esc tokenTip @ ''\">'' @ nl 10 @ ''<span class=\"request-token-block mono\"><strong>'' @
         (esc (fmtTokenCount (Num (total_tokens u)))) @ ''</strong><small>'' @
         (esc (fmtTokenCount (Num (input_tokens u)))) @ '' / '' @
         (esc (fmtTokenCount (Num (output_tokens u)))) @ ''</small></span>'' @ nl 8 @ ''</td>'' @
         nl 8 @ ''<td class=\"request-cell-cost\">'' @ nl 10 @
         ''<span class=\"request-cost-chip\">'' @ (renderCost tr (with_cost r u) True) @
         ''</span>'' @ nl 8 @ ''</td>'' @ nl 8 @
         ''<td class=\"request-cell-performance mono\"><span'' @
         '' class=\"request-latency-chip\"><strong class=\"'' @ firstEventTone @ ''\">'' @
         (if num_truthy firstByte then esc (fmtCompactMs (Num firstByte)) else ''-'') @
         ''</strong><i aria-hidden=\"true\">/</i><small class=\"'' @ durationTone @ ''\">'' @
         (esc (fmtCompactMs (get r ''duration_ms''))) @ ''</small></span></td>'' @ nl 8 @
         ''<td class=\"request-row-open\"><button class=\"icon-action'' @
         '' request-row-open-button\" type=\"button\" data-request-open=\"'' @ esc requestId @
         ''\" aria-label=\"'' @ (esc (tr ''req.open_request'' [(''id'', Str requestId)])) @
         ''\">'' @ (iconSvg ''chevron-right'') @ ''</button></td>'' @ nl 6 @ ''</tr>'' @ nl 4))"

section \<open>Pagers\<close>

definition requestPagination ::
  "translator \<Rightarrow> jsnum \<Rightarrow> bool \<Rightarrow> jsnum \<Rightarrow> jsnum \<Rightarrow> jsnum \<Rightarrow> nat \<Rightarrow> string" where
  "requestPagination tr statePage navigationBusy all currentPage totalPages visibleCount =
     (let start = (if num_truthy all then num_add (num_mul statePage (Fin REQUEST_PAGE_SIZE)) (Fin 1) else Fin 0);
          stop = (if num_truthy all
                  then num_min all (num_sub (num_add start (num_of_nat visibleCount)) (Fin 1)) else Fin 0)
      in (nl 6 @ ''<div class=\"request-page-summary\">'' @ nl 8 @ ''<span>'' @
         (esc (tr ''req.range_of'' [(''start'', Str (fmtInt (Num start))), (''end'', Str (fmtInt (Num stop))), (''total'', Str (fmtInt (Num all)))])) @
         ''</span>'' @ nl 6 @ ''</div>'' @ nl 6 @
         ''<div class=\"request-pagination\" aria-label=\"'' @
         (esc (tr ''req.request_pages'' [])) @ ''\" '' @
         (if navigationBusy then (''aria-busy=\"true\"'') else []) @ ''>'' @ nl 8 @
         ''<button class=\"button secondary icon-action\" type=\"button\"'' @
         '' data-request-page=\"prev\" data-tip=\"'' @ (esc (tr ''req.previous_page'' [])) @
         ''\" aria-label=\"'' @ (esc (tr ''req.previous_page'' [])) @ ''\" '' @
         (if navigationBusy \<or> num_le currentPage (Fin 1) then ''disabled'' else []) @ ''>'' @
         (iconSvg ''arrow-left'') @ ''</button>'' @ nl 8 @
         ''<span class=\"request-page-indicator\">'' @
         (esc (tr ''req.page_of'' [(''page'', Str (fmtInt (Num currentPage))), (''total'', Str (fmtInt (Num totalPages)))])) @
         ''</span>'' @ nl 8 @ ''<button class=\"button secondary icon-action\" type=\"button\"'' @
         '' data-request-page=\"next\" data-tip=\"'' @ (esc (tr ''req.next_page'' [])) @
         ''\" aria-label=\"'' @ (esc (tr ''req.next_page'' [])) @ ''\" '' @
         (if navigationBusy \<or> num_le totalPages currentPage then ''disabled'' else []) @
         ''>'' @ (iconSvg ''arrow-right'') @ ''</button>'' @ nl 6 @ ''</div>'' @ nl 4))"

abbreviation int_val :: "int \<Rightarrow> jsval" where
  "int_val i \<equiv> jnum (of_int i)"

definition panelPagination :: "translator \<Rightarrow> string \<Rightarrow> 'a page_view \<Rightarrow> int \<Rightarrow> string \<Rightarrow> string" where
  "panelPagination tr pageKey page pageSize noun =
     (if pv_total page \<le> pageSize then [] else
      (let rangeText = tr ''pagination.range'' [(''a'', Str (fmtInt (int_val (pv_start page)))),
             (''b'', Str (fmtInt (int_val (pv_end page)))),
             (''total'', Str (fmtInt (int_val (pv_total page)))),
             (''noun'', Str (tr (''pagination.noun_'' @ (if noun = [] then ''items'' else noun)) []))]
       in (nl 6 @ ''<div class=\"panel-pagination\" data-pagination-for=\"'' @ esc pageKey @
          ''\">'' @ nl 8 @ ''<span>'' @ esc rangeText @ ''</span>'' @ nl 8 @
          ''<div class=\"panel-pagination-actions\">'' @ nl 10 @
          ''<button class=\"button secondary icon-action\" type=\"button\"'' @
          '' data-list-page-key=\"'' @ esc pageKey @ ''\" data-list-page=\"prev\" title=\"'' @
          (esc (tr ''pagination.prev'' [])) @ ''\" aria-label=\"'' @
          (esc (tr ''pagination.prev'' [])) @ ''\" '' @
          (if pv_currentPage page \<le> 1 then ''disabled'' else []) @ ''>'' @
          (iconSvg ''arrow-left'') @ ''</button>'' @ nl 10 @
          ''<span class=\"request-page-indicator\">'' @ (fmtInt (int_val (pv_currentPage page))) @
          '' / '' @ (fmtInt (int_val (pv_totalPages page))) @ ''</span>'' @ nl 10 @
          ''<button class=\"button secondary icon-action\" type=\"button\"'' @
          '' data-list-page-key=\"'' @ esc pageKey @ ''\" data-list-page=\"next\" title=\"'' @
          (esc (tr ''pagination.next'' [])) @ ''\" aria-label=\"'' @
          (esc (tr ''pagination.next'' [])) @ ''\" '' @
          (if pv_totalPages page \<le> pv_currentPage page then ''disabled'' else []) @ ''>'' @
          (iconSvg ''arrow-right'') @ ''</button>'' @ nl 10 @
          (if pageKey = ''providersPage'' then (nl 10 @ ''<button class=\"button secondary icon-action\" type=\"button\"'' @
            '' data-providers-clear-filters=\"1\"'' @ nl 12 @ ''title=\"'' @
            (esc (tr ''prov.pagination_clear'' [])) @ ''\"'' @ nl 12 @ ''aria-label=\"'' @
            (esc (tr ''prov.pagination_clear'' [])) @ ''\">'' @ (iconSvg ''rotate-reset'') @
            ''</button>'') else []) @ nl 8 @ ''</div>'' @ nl 6 @ ''</div>'' @ nl 4)))"

end
