(* ===== verification/TrafficChart.thy ===== *)
theory TrafficChart
  imports RequestRows ProviderSort "HOL-Library.While_Combinator"
begin

text \<open>
  The data of the traffic chart of \<open>app.js\<close>: buckets from the server's time series or from the recent requests,
  the binary search that gives the tokens of a request to the nearest bucket, totals, the eight display buckets
  of a week, smoothed SVG paths, and the ranking of models.
\<close>

section \<open>Buckets\<close>

text \<open>\<open>Number(x || 0)\<close> of a number.\<close>

definition nz :: "jsnum \<Rightarrow> jsnum" where
  "nz n = (if num_truthy n then n else Fin 0)"

record chart_bucket =
  cb_ts :: jsnum
  cb_start :: jsnum
  cb_end :: jsnum
  cb_requests :: jsnum
  cb_success :: jsnum
  cb_failed :: jsnum
  cb_input :: jsnum
  cb_output :: jsnum
  cb_tokens :: jsnum
  cb_cost :: jsnum
  cb_latency :: jsnum
  cb_display :: bool

definition series_bucket :: "jsnum \<Rightarrow> jsval \<Rightarrow> chart_bucket" where
  "series_bucket bucketS b =
     (let s = num_or_zero (get b ''start'');
          e = to_num (jor (get b ''end'') (Num (if num_truthy s then num_add s bucketS else Fin 0)));
          u = usageFrom (jor (get b ''usage'') (Obj []));
          ok = num_or_zero (get b ''success''); bad = num_or_zero (get b ''failed'')
      in \<lparr>cb_ts = num_add s (num_div (num_max (Fin 0) (num_sub e s)) (Fin 2)), cb_start = s, cb_end = e,
          cb_requests = to_num (jor (get b ''requests'') (jor (Num (num_add ok bad)) (jnum 0))),
          cb_success = ok, cb_failed = bad, cb_input = input_tokens u, cb_output = output_tokens u,
          cb_tokens = total_tokens u, cb_cost = cost_usd u,
          cb_latency = num_or_zero (get b ''first_byte_ms_avg''), cb_display = False\<rparr>)"

definition bucket_signal :: "chart_bucket \<Rightarrow> bool" where
  "bucket_signal b \<longleftrightarrow> num_truthy (cb_requests b) \<or> num_truthy (cb_success b) \<or> num_truthy (cb_failed b)
     \<or> num_truthy (cb_input b) \<or> num_truthy (cb_output b) \<or> num_truthy (cb_tokens b)"

definition request_bucket :: "jsval \<Rightarrow> chart_bucket" where
  "request_bucket r =
     (let ts = num_or_zero (get r ''finished_at''); u = usageFrom r; code = num_or_zero (get r ''status_code'');
          failed = \<not> (get r ''status'' = Str ''success'' \<or> num_lt (Fin 0) code \<and> num_lt code (Fin 400))
      in \<lparr>cb_ts = ts, cb_start = ts, cb_end = ts, cb_requests = Fin 1,
          cb_success = (if failed then Fin 0 else Fin 1), cb_failed = (if failed then Fin 1 else Fin 0),
          cb_input = input_tokens u, cb_output = output_tokens u, cb_tokens = total_tokens u, cb_cost = cost_usd u,
          cb_latency = num_or_zero (get r ''first_byte_ms''), cb_display = False\<rparr>)"

definition finished_at :: "jsval \<Rightarrow> jsnum" where
  "finished_at r = num_or_zero (get r ''finished_at'')"

text \<open>\<open>a - b <= 0\<close> of the comparator; a comparison with NaN counts as equal.\<close>

definition sorted_recent :: "jsval list \<Rightarrow> jsval list" where
  "sorted_recent recent =
     js_sort (\<lambda>a b. \<not> num_lt (Fin 0) (num_sub (finished_at a) (finished_at b)))
       (filter (\<lambda>r. num_lt (Fin 0) (finished_at r)) recent)"

definition last_n :: "nat \<Rightarrow> 'a list \<Rightarrow> 'a list" where
  "last_n n xs = drop (length xs - n) xs"

record time_range =
  tr_label :: string
  tr_bucket_s :: jsnum
  tr_buckets :: jsnum

definition timeRanges :: "(string \<times> time_range) list" where
  "timeRanges =
     [(''30m'', \<lparr>tr_label = ''ov.last_30m'', tr_bucket_s = Fin 60, tr_buckets = Fin 30\<rparr>),
      (''2h'', \<lparr>tr_label = ''ov.last_2h'', tr_bucket_s = Fin 120, tr_buckets = Fin 60\<rparr>),
      (''24h'', \<lparr>tr_label = ''ov.last_24h'', tr_bucket_s = Fin 900, tr_buckets = Fin 96\<rparr>),
      (''7d'', \<lparr>tr_label = ''ov.last_7d'', tr_bucket_s = Fin 3600, tr_buckets = Fin 168\<rparr>)]"

definition currentTimeRange :: "string \<Rightarrow> time_range" where
  "currentTimeRange r =
     (case map_of timeRanges r of Some x \<Rightarrow> x | None \<Rightarrow> \<lparr>tr_label = ''ov.last_30m'', tr_bucket_s = Fin 60, tr_buckets = Fin 30\<rparr>)"

definition timeseriesPath :: "string \<Rightarrow> string" where
  "timeseriesPath r =
     (''/-/admin/metrics/timeseries?bucket_s='' @
        (num_to_str (tr_bucket_s (currentTimeRange r))) @ ''&buckets='' @
        (num_to_str (tr_buckets (currentTimeRange r))))"

text \<open>\<open>now\<close> is \<open>Date.now() / 1000\<close>. The requests inside the window stand in for an empty series.\<close>

definition window_requests :: "jsnum \<Rightarrow> time_range \<Rightarrow> chart_bucket list \<Rightarrow> jsval list \<Rightarrow> jsval list" where
  "window_requests now tr buckets recent =
     (let first = (case buckets of b # _ \<Rightarrow> if num_truthy (cb_start b) then cb_start b
                       else num_sub now (num_mul (tr_bucket_s tr) (tr_buckets tr))
                   | [] \<Rightarrow> num_sub now (num_mul (tr_bucket_s tr) (tr_buckets tr)));
          final = (if buckets \<noteq> [] \<and> num_truthy (cb_end (last buckets)) then cb_end (last buckets) else now)
      in filter (\<lambda>r. num_le first (finished_at r) \<and> num_le (finished_at r) final) recent)"

definition chart_source :: "jsnum \<Rightarrow> string \<Rightarrow> jsval \<Rightarrow> jsval list \<Rightarrow> chart_bucket list \<times> bool" where
  "chart_source now rng series recent =
     (let bucketS = to_num (jor (get series ''bucket_s'') (jnum 60));
          buckets = map (series_bucket bucketS) (arr_or_empty (get series ''buckets''));
          inWindow = window_requests now (currentTimeRange rng) buckets (sorted_recent recent)
      in if \<not> list_ex bucket_signal buckets \<and> inWindow \<noteq> []
         then (map request_bucket (last_n 72 inWindow), True) else (buckets, False))"

section \<open>The nearest bucket\<close>

text \<open>The loop of the search, on its two variables; it is shown to end below.\<close>

definition search_step :: "jsnum list \<Rightarrow> jsnum \<Rightarrow> nat \<times> nat \<Rightarrow> nat \<times> nat" where
  "search_step tms ts = (\<lambda>(low, high).
     (let middle = (low + high) div 2 in if num_lt (tms ! middle) ts then (middle + 1, high) else (low, middle)))"

definition search_loop :: "jsnum list \<Rightarrow> jsnum \<Rightarrow> nat \<times> nat \<Rightarrow> (nat \<times> nat) option" where
  "search_loop tms ts st = while_option (\<lambda>(low, high). low < high) (search_step tms ts) st"

text \<open>The index of the bucket, for a list that is not empty.\<close>

definition nearest_index :: "jsnum list \<Rightarrow> jsnum \<Rightarrow> nat option" where
  "nearest_index tms ts =
     (case search_loop tms ts (0, length tms) of None \<Rightarrow> None
      | Some (low, _) \<Rightarrow> Some
          (if low = 0 then 0
           else if length tms \<le> low then length tms - 1
           else if num_le (num_sub ts (tms ! (low - 1))) (num_sub (tms ! low) ts) then low - 1 else low))"

definition add_tokens :: "usage \<Rightarrow> chart_bucket \<Rightarrow> chart_bucket" where
  "add_tokens u b =
     b\<lparr>cb_input := num_add (cb_input b) (input_tokens u), cb_output := num_add (cb_output b) (output_tokens u),
       cb_tokens := num_add (cb_tokens b) (total_tokens u), cb_cost := num_add (cb_cost b) (cost_usd u)\<rparr>"

definition give_tokens :: "jsnum list \<Rightarrow> jsval \<Rightarrow> chart_bucket list \<Rightarrow> chart_bucket list" where
  "give_tokens tms r buckets =
     (let ts = finished_at r; u = usageFrom r in
      if \<not> num_truthy ts \<or> \<not> num_truthy (total_tokens u) then buckets
      else (case nearest_index tms ts of
          Some i \<Rightarrow> buckets[i := add_tokens u (buckets ! i)] | None \<Rightarrow> buckets))"

definition first_ts :: "chart_bucket list \<Rightarrow> jsnum" where
  "first_ts buckets = (case buckets of [] \<Rightarrow> Fin 0
     | b # _ \<Rightarrow> nz (if num_truthy (cb_start b) then cb_start b else cb_ts b))"

definition last_ts :: "chart_bucket list \<Rightarrow> jsnum" where
  "last_ts buckets = (if buckets = [] then first_ts buckets
     else (let b = last buckets in
       if num_truthy (cb_end b) then cb_end b else if num_truthy (cb_ts b) then cb_ts b else first_ts buckets))"

definition with_recent_tokens :: "jsval list \<Rightarrow> chart_bucket list \<Rightarrow> chart_bucket list" where
  "with_recent_tokens recentSorted buckets =
     (if buckets \<noteq> [] \<and> \<not> list_ex (\<lambda>b. num_lt (Fin 0) (nz (cb_tokens b))) buckets
      then fold (give_tokens (map (\<lambda>b. nz (cb_ts b)) buckets))
             (filter (\<lambda>r. num_le (first_ts buckets) (finished_at r) \<and> num_le (finished_at r) (last_ts buckets)) recentSorted)
             buckets
      else buckets)"

section \<open>Totals\<close>

record chart_totals =
  ct_requests :: jsnum
  ct_success :: jsnum
  ct_failed :: jsnum
  ct_input :: jsnum
  ct_output :: jsnum
  ct_tokens :: jsnum
  ct_cost :: jsnum

definition sum_of :: "('a \<Rightarrow> jsnum) \<Rightarrow> 'a list \<Rightarrow> jsnum" where
  "sum_of f xs = num_sum (map (\<lambda>x. nz (f x)) xs)"

definition chart_totals_of :: "chart_bucket list \<Rightarrow> chart_totals" where
  "chart_totals_of bs =
     (let i = sum_of cb_input bs; ou = sum_of cb_output bs in
      \<lparr>ct_requests = sum_of cb_requests bs, ct_success = sum_of cb_success bs, ct_failed = sum_of cb_failed bs,
       ct_input = i, ct_output = ou, ct_tokens = num_max (sum_of cb_tokens bs) (num_add i ou), ct_cost = sum_of cb_cost bs\<rparr>)"

definition success_rate :: "chart_totals \<Rightarrow> jsnum" where
  "success_rate tot =
     (if num_truthy (ct_requests tot) then num_min (Fin 1) (num_div (ct_success tot) (ct_requests tot)) else Fin 1)"

text \<open>The mean latency weighted by requests.\<close>

definition avg_latency :: "chart_bucket list \<Rightarrow> jsnum" where
  "avg_latency bs =
     (let samples = filter (\<lambda>b. num_lt (Fin 0) (nz (cb_requests b)) \<and> num_lt (Fin 0) (nz (cb_latency b))) bs;
          n = sum_of cb_requests samples
      in if num_truthy n then num_div (num_sum (map (\<lambda>b. num_mul (nz (cb_latency b)) (nz (cb_requests b))) samples)) n else Fin 0)"

section \<open>The eight display buckets of a week\<close>

text \<open>\<open>Math.round(a / b)\<close> of indices.\<close>

definition round_div :: "nat \<Rightarrow> nat \<Rightarrow> nat" where
  "round_div a b = (2 * a + b) div (2 * b)"

definition display_group :: "nat \<Rightarrow> nat \<Rightarrow> nat" where
  "display_group n i = round_div (i * 7) (max 1 (n - 1))"

definition weighted_latency :: "chart_bucket list \<Rightarrow> jsnum" where
  "weighted_latency grp =
     (let samples = filter (\<lambda>b. num_lt (Fin 0) (nz (cb_requests b)) \<and> num_lt (Fin 0) (nz (cb_latency b))) grp;
          n = num_sum (map (\<lambda>b. nz (cb_requests b)) samples);
          tot = num_sum (map (\<lambda>b. num_mul (nz (cb_latency b)) (nz (cb_requests b))) samples)
      in if num_truthy n then num_div tot n else Fin 0)"

definition display_bucket :: "chart_bucket list \<Rightarrow> nat \<Rightarrow> chart_bucket" where
  "display_bucket source g =
     (let grp = map snd (filter (\<lambda>(i, b). display_group (length source) i = g) (enumerate 0 source));
          rep = source ! round_div (g * (length source - 1)) 7;
          either = (\<lambda>a b. nz (if num_truthy a then a else b))
      in \<lparr>cb_ts = either (cb_ts rep) (cb_start rep), cb_start = either (cb_start rep) (cb_ts rep),
          cb_end = either (cb_end rep) (cb_ts rep), cb_requests = sum_of cb_requests grp,
          cb_success = sum_of cb_success grp, cb_failed = sum_of cb_failed grp, cb_input = sum_of cb_input grp,
          cb_output = sum_of cb_output grp, cb_tokens = sum_of cb_tokens grp, cb_cost = sum_of cb_cost grp,
          cb_latency = weighted_latency grp, cb_display = True\<rparr>)"

definition trafficDisplayBuckets :: "string \<Rightarrow> chart_bucket list \<Rightarrow> chart_bucket list" where
  "trafficDisplayBuckets rng source =
     (if rng \<noteq> ''7d'' \<or> length source \<le> 8 then source else map (display_bucket source) [0..<8])"

section \<open>Smoothed paths\<close>

type_synonym chart_point = "jsnum \<times> jsnum"

definition svg :: "jsnum \<Rightarrow> string" where
  "svg n = svgNum (Num n)"

definition path_start :: "chart_point \<Rightarrow> string" where
  "path_start p = (''M '' @ (svg (fst p)) @ '' '' @ (svg (snd p)))"

definition curve_to :: "jsnum \<Rightarrow> jsnum \<Rightarrow> jsnum \<Rightarrow> chart_point \<Rightarrow> chart_point \<Rightarrow> chart_point \<Rightarrow> chart_point \<Rightarrow> string" where
  "curve_to minY maxY f p0 p1 p2 p3 =
     (let clampY = (\<lambda>v. num_max minY (num_min maxY (nz v)));
          cp1x = num_add (fst p1) (num_mul (num_sub (fst p2) (fst p0)) f);
          cp1y = clampY (num_add (snd p1) (num_mul (num_sub (snd p2) (snd p0)) f));
          cp2x = num_sub (fst p2) (num_mul (num_sub (fst p3) (fst p1)) f);
          cp2y = clampY (num_sub (snd p2) (num_mul (num_sub (snd p3) (snd p1)) f))
      in ('' C '' @ svg cp1x @ '' '' @ svg cp1y @ '', '' @ svg cp2x @ '' '' @ svg cp2y @ '', '' @
         (svg (fst p2)) @ '' '' @ (svg (snd p2))))"

fun smooth_curves :: "jsnum \<Rightarrow> jsnum \<Rightarrow> jsnum \<Rightarrow> chart_point \<Rightarrow> chart_point list \<Rightarrow> string" where
  "smooth_curves minY maxY f p0 (p1 # p2 # rest) =
     curve_to minY maxY f p0 p1 p2 (case rest of p3 # _ \<Rightarrow> p3 | [] \<Rightarrow> p2) @ smooth_curves minY maxY f p1 (p2 # rest)"
| "smooth_curves minY maxY f p0 _ = []"

definition smoothSvgPath :: "chart_point list \<Rightarrow> jsnum \<Rightarrow> jsnum \<Rightarrow> jsnum \<Rightarrow> string" where
  "smoothSvgPath points minY maxY curveFactor =
     (case points of [] \<Rightarrow> []
      | p # _ \<Rightarrow> path_start p @ smooth_curves minY maxY curveFactor p points)"

section \<open>Model ranking\<close>

record model_rank =
  mr_label :: string
  mr_calls :: jsnum
  mr_usage :: usage
  mr_rank :: nat
  mr_hint :: string

definition USAGE_MODEL_LIMIT :: nat where "USAGE_MODEL_LIMIT = 5"

text \<open>\<open>(b.calls - a.calls) || (b.tokens - a.tokens) || localeCompare\<close>, as \<open>a\<close> before or equal to \<open>b\<close>.\<close>

definition rank_le :: "(string \<Rightarrow> string \<Rightarrow> int) \<Rightarrow> model_rank \<Rightarrow> model_rank \<Rightarrow> bool" where
  "rank_le locale a b =
     (let dc = num_sub (mr_calls b) (mr_calls a); dt = num_sub (total_tokens (mr_usage b)) (total_tokens (mr_usage a))
      in if num_truthy dc then \<not> num_lt (Fin 0) dc
         else if num_truthy dt then \<not> num_lt (Fin 0) dt else locale (mr_label a) (mr_label b) \<le> 0)"

definition usage_val :: "usage \<Rightarrow> jsval" where
  "usage_val u =
     Obj [(''input_tokens'', Num (input_tokens u)), (''uncached_input_tokens'', Num (uncached_input_tokens u)),
          (''cached_input_tokens'', Num (cached_input_tokens u)), (''cache_write_tokens'', Num (cache_write_tokens u)),
          (''output_tokens'', Num (output_tokens u)), (''reasoning_tokens'', Num (reasoning_tokens u)),
          (''total_tokens'', Num (total_tokens u)), (''cost_usd'', Num (cost_usd u))]"

definition modelRankRows :: "(string \<Rightarrow> string \<Rightarrow> int) \<Rightarrow> (string \<times> jsnum \<times> usage) list \<Rightarrow> model_rank list" where
  "modelRankRows locale totals =
     (let rows = map (\<lambda>(l, c, u). \<lparr>mr_label = (if l = [] then ''-'' else l), mr_calls = nz c, mr_usage = usageFrom (usage_val u), mr_rank = 0, mr_hint = []\<rparr>)
            (own_entries totals);
          kept = filter (\<lambda>r. num_lt (Fin 0) (mr_calls r) \<or> num_lt (Fin 0) (total_tokens (mr_usage r))) rows
      in map (\<lambda>(i, r). r\<lparr>mr_rank := i + 1, mr_hint := ((fmtInt (Num (mr_calls r))) @ '' calls'')\<rparr>)
           (enumerate 0 (take USAGE_MODEL_LIMIT (js_sort (rank_le locale) kept))))"

definition totals_at :: "string \<Rightarrow> (string \<times> jsnum \<times> usage) list \<Rightarrow> jsnum \<times> usage" where
  "totals_at l totals = (case map_of totals l of Some cu \<Rightarrow> cu | None \<Rightarrow> (Fin 0, emptyUsageTotal))"

definition count_model :: "string \<times> jsval \<Rightarrow> (string \<times> jsnum \<times> usage) list \<Rightarrow> (string \<times> jsnum \<times> usage) list" where
  "count_model = (\<lambda>(l, c) totals. (let (n, u) = totals_at l totals in set_prop l (num_add n (num_or_zero c), u) totals))"

definition use_model :: "string \<times> jsval \<Rightarrow> (string \<times> jsnum \<times> usage) list \<Rightarrow> (string \<times> jsnum \<times> usage) list" where
  "use_model = (\<lambda>(l, v) totals. (let (n, u) = totals_at l totals in set_prop l (n, addUsage u (jor v (Obj []))) totals))"

definition model_totals :: "jsval list \<Rightarrow> (string \<times> jsnum \<times> usage) list" where
  "model_totals buckets =
     fold (\<lambda>b totals. fold use_model (js_entries (jor (get b ''by_model_usage'') (Obj [])))
             (fold count_model (js_entries (jor (get b ''by_model'') (Obj []))) totals)) buckets []"

definition modelRankRowsFromCounters :: "(string \<Rightarrow> string \<Rightarrow> int) \<Rightarrow> jsval \<Rightarrow> model_rank list" where
  "modelRankRowsFromCounters locale counters =
     (let counts = jor (get counters ''by_model'') (Obj []); use = jor (get counters ''by_model_usage'') (Obj []);
          names = first_by (\<lambda>n. n) [] (map fst (js_entries counts) @ map fst (js_entries use))
      in modelRankRows locale (map (\<lambda>n. (n, num_or_zero (get counts n),
           if truthy (get use n) then usageFrom (get use n) else emptyUsageTotal)) names))"

definition toneForLatency :: "jsnum \<Rightarrow> string" where
  "toneForLatency v =
     (let ms = nz v in if num_le (Fin 6000) ms then ''danger'' else if num_le (Fin 2500) ms then ''warning''
      else if num_le (Fin 800) ms then ''info'' else ''success'')"

end
