(* ===== verification/TrafficView.thy ===== *)
theory TrafficView
  imports TrafficChart
begin

text \<open>
  The traffic chart and the overview cards of \<open>app.js\<close> as markup. \<open>tr\<close> is the translator, \<open>dates\<close> the platform's
  date formatter, \<open>short\<close> its short form (day and month when the flag is set, else hours and minutes), and
  \<open>mode\<close> the chart mode of the state.
\<close>

section \<open>Frame and scales\<close>

record chart_frame =
  fr_width :: jsnum
  fr_height :: jsnum
  fr_top :: jsnum
  fr_right :: jsnum
  fr_bottom :: jsnum
  fr_left :: jsnum

definition traffic_frame :: chart_frame where
  "traffic_frame = \<lparr>fr_width = Fin 1120, fr_height = Fin 360, fr_top = Fin 24, fr_right = Fin 96, fr_bottom = Fin 32, fr_left = Fin 72\<rparr>"

definition plotW :: "chart_frame \<Rightarrow> jsnum" where
  "plotW fr = num_sub (num_sub (fr_width fr) (fr_left fr)) (fr_right fr)"

definition plotH :: "chart_frame \<Rightarrow> jsnum" where
  "plotH fr = num_sub (num_sub (fr_height fr) (fr_top fr)) (fr_bottom fr)"

definition baseline :: "chart_frame \<Rightarrow> jsnum" where
  "baseline fr = num_sub (fr_height fr) (fr_bottom fr)"

definition spread_x :: "chart_frame \<Rightarrow> nat \<Rightarrow> nat \<Rightarrow> jsnum" where
  "spread_x fr index cnt =
     num_add (fr_left fr)
       (if 1 < cnt then num_mul (num_div (num_of_nat index) (num_of_nat (cnt - 1))) (plotW fr)
        else num_div (plotW fr) (Fin 2))"

definition xFor :: "chart_frame \<Rightarrow> jsnum \<Rightarrow> jsnum \<Rightarrow> nat \<Rightarrow> nat \<Rightarrow> chart_bucket \<Rightarrow> jsnum" where
  "xFor fr firstTs lastTs cnt index b =
     (let ts = nz (cb_ts b) in
      if cb_display b then spread_x fr index cnt
      else if num_lt firstTs lastTs \<and> num_truthy ts
      then num_add (fr_left fr) (num_mul (num_div (num_sub ts firstTs) (num_sub lastTs firstTs)) (plotW fr))
      else spread_x fr index cnt)"

definition enrich :: "chart_frame \<Rightarrow> jsnum \<Rightarrow> jsnum \<Rightarrow> chart_bucket list \<Rightarrow> (chart_bucket \<times> jsnum) list" where
  "enrich fr firstTs lastTs bs =
     map (\<lambda>(i, b). (b, xFor fr firstTs lastTs (length bs) i b)) (enumerate 0 bs)"

text \<open>\<open>niceChartMax\<close> on any number; \<open>y\<close> of a value on a scale whose divisor is at least \<open>least\<close>.\<close>

definition nice_max :: "jsnum \<Rightarrow> jsnum" where
  "nice_max n = (case n of Fin q \<Rightarrow> Fin (niceChartMax q) | PInf \<Rightarrow> PInf | _ \<Rightarrow> Fin (niceChartMax 1))"

definition y_on :: "chart_frame \<Rightarrow> jsnum \<Rightarrow> jsnum \<Rightarrow> jsnum \<Rightarrow> jsnum" where
  "y_on fr least hi v = num_sub (baseline fr) (num_mul (num_div (nz v) (num_max least hi)) (plotH fr))"

definition safeMax :: "jsnum list \<Rightarrow> jsnum \<Rightarrow> jsnum" where
  "safeMax values fallback = foldl num_max fallback (map nz values)"

record chart_dot =
  cd_x :: jsnum
  cd_y :: jsnum
  cd_value :: jsnum
  cd_when :: jsnum

definition dots_of :: "(chart_bucket \<Rightarrow> jsnum) \<Rightarrow> (jsnum \<Rightarrow> jsnum) \<Rightarrow> (chart_bucket \<times> jsnum) list \<Rightarrow> chart_dot list" where
  "dots_of value y enriched =
     map (\<lambda>(b, x). \<lparr>cd_x = x, cd_y = y (value b), cd_value = value b,
                    cd_when = (if num_truthy (cb_start b) then cb_start b else cb_ts b)\<rparr>) enriched"

definition dots_path :: "chart_frame \<Rightarrow> chart_dot list \<Rightarrow> string" where
  "dots_path fr ds = smoothSvgPath (map (\<lambda>d. (cd_x d, cd_y d)) ds) (fr_top fr) (baseline fr) (Fin (1 / 10))"

definition area_path :: "chart_frame \<Rightarrow> string \<Rightarrow> chart_dot list \<Rightarrow> string" where
  "area_path fr path ds =
     (if path \<noteq> [] \<and> 1 < length ds
      then (path @ '' L '' @ (svg (cd_x (last ds))) @ '' '' @ (svg (baseline fr)) @ '' L '' @
         (svg (cd_x (hd ds))) @ '' '' @ (svg (baseline fr)) @ '' Z'') else [])"

definition path_if :: "string \<Rightarrow> string \<Rightarrow> string" where
  "path_if cls d = (if d \<noteq> [] then (''<path class=\"'' @ cls @ ''\" d=\"'' @ d @ ''\"></path>'') else [])"

definition positive_dots :: "chart_dot list \<Rightarrow> chart_dot list" where
  "positive_dots ds = filter (\<lambda>d. num_lt (Fin 0) (nz (cd_value d))) ds"

definition num_txt :: "jsnum \<Rightarrow> string" where
  "num_txt n = num_to_str n"

definition grid_labels :: "chart_frame \<Rightarrow> (jsnum \<Rightarrow> jsnum) \<Rightarrow> (jsval \<Rightarrow> string) \<Rightarrow> jsnum list \<Rightarrow> string" where
  "grid_labels fr y fmt labels =
     concat (map (\<lambda>l. (nl 8 @ ''<line class=\"axis traffic-grid-line\" x1=\"'' @ (num_txt (fr_left fr)) @
        ''\" y1=\"'' @ (num_txt (y l)) @ ''\" x2=\"'' @
        (num_txt (num_sub (fr_width fr) (fr_right fr))) @ ''\" y2=\"'' @ (num_txt (y l)) @
        ''\"></line>'' @ nl 8 @ ''<text class=\"traffic-axis-label\" x=\"'' @
        (num_txt (num_sub (fr_left fr) (Fin 14))) @ ''\" y=\"'' @
        (num_txt (num_add (y l) (Fin 4))) @ ''\" text-anchor=\"end\">'' @ (esc (fmt (Num l))) @
        ''</text>'' @ nl 6)) labels)"

definition right_labels :: "chart_frame \<Rightarrow> (jsnum \<Rightarrow> jsnum) \<Rightarrow> (jsval \<Rightarrow> string) \<Rightarrow> jsnum list \<Rightarrow> string" where
  "right_labels fr y fmt labels =
     concat (map (\<lambda>l. (nl 8 @ ''<text class=\"traffic-axis-label traffic-axis-label-info\" x=\"'' @
        (num_txt (num_add (num_sub (fr_width fr) (fr_right fr)) (Fin 14))) @ ''\" y=\"'' @
        (num_txt (num_add (y l) (Fin 4))) @ ''\">'' @ (esc (fmt (Num l))) @ ''</text>'' @ nl 6)) labels)"

definition plain_dot :: "string \<Rightarrow> chart_dot \<Rightarrow> string" where
  "plain_dot cls d = (''<circle class=\"traffic-trend-dot '' @ cls @ ''\" cx=\"'' @ (svg (cd_x d)) @ ''\" cy=\"'' @
     (svg (cd_y d)) @ ''\" r=\"3\"></circle>'')"

definition titled_dot :: "string \<Rightarrow> string \<Rightarrow> string \<Rightarrow> chart_dot \<Rightarrow> string" where
  "titled_dot cls r title d =
     (nl 12 @ ''<circle class=\"traffic-trend-dot '' @ cls @ ''\" cx=\"'' @ (svg (cd_x d)) @
        ''\" cy=\"'' @ (svg (cd_y d)) @ ''\" r=\"'' @ r @ ''\">'' @ nl 14 @ ''<title>'' @
        esc title @ ''</title>'' @ nl 12 @ ''</circle>'' @ nl 10)"

section \<open>Requests mode\<close>

definition ok_count :: "chart_bucket \<Rightarrow> jsnum" where
  "ok_count b = num_max (Fin 0) (num_sub (nz (cb_requests b)) (nz (cb_failed b)))"

definition bad_count :: "chart_bucket \<Rightarrow> jsnum" where
  "bad_count b = num_min (nz (cb_requests b)) (nz (cb_failed b))"

definition seen_latency :: "chart_bucket \<Rightarrow> jsnum" where
  "seen_latency b = (if num_lt (Fin 0) (nz (cb_requests b)) then num_max (Fin 0) (nz (cb_latency b)) else Fin 0)"

definition requestTrends :: "chart_frame \<Rightarrow> chart_dot list \<Rightarrow> chart_dot list \<Rightarrow> string" where
  "requestTrends fr successPoints failurePoints =
     (let successPath = dots_path fr successPoints; failurePath = dots_path fr failurePoints;
          hasFailures = list_ex (\<lambda>d. num_lt (Fin 0) (cd_value d)) failurePoints;
          drawn = (\<lambda>cls ds. concat (map (plain_dot cls) (filter (\<lambda>d. num_lt (Fin 0) (cd_value d)) ds)))
      in (nl 8 @ (path_if ''traffic-success-area'' (area_path fr successPath successPoints)) @
         nl 8 @ (path_if ''traffic-success-line'' successPath) @ nl 8 @
         (if hasFailures then path_if ''traffic-failure-line'' failurePath else []) @ nl 8 @
         (if length successPoints \<le> 64 then drawn ''traffic-success-dot'' successPoints else []) @
         nl 8 @
         (if hasFailures \<and> length failurePoints \<le> 64 then drawn ''traffic-failure-dot'' failurePoints else []) @
         nl 6))"

definition latencyDots :: "(jsnum \<Rightarrow> string) \<Rightarrow> chart_dot list \<Rightarrow> string" where
  "latencyDots dates ds =
     (if length ds \<le> 64
      then concat (map (\<lambda>d. titled_dot ''traffic-latency-dot'' ''3'' ((fmtDate dates (Num (cd_when d))) @ '' Avg Latency: '' @ (fmtMs (Num (cd_value d)))) d)
             (filter (\<lambda>d. num_lt (Fin 0) (cd_value d)) ds))
      else [])"

definition requests_chart :: "translator \<Rightarrow> (jsnum \<Rightarrow> string) \<Rightarrow> chart_frame \<Rightarrow> (chart_bucket \<times> jsnum) list \<Rightarrow> string \<times> (string \<times> string) list" where
  "requests_chart tr dates fr enriched =
     (let bs = map fst enriched;
          requestMax = nice_max (num_max (Fin 4) (num_mul (safeMax (map cb_requests bs) (Fin 1)) (Fin (115 / 100))));
          latencyMax = Fin (chartScaleMax (Arr (map (\<lambda>b. Num (cb_latency b)) bs)) 1000 True (115 / 100));
          yBar = y_on fr (Fin 1) requestMax; yLatency = y_on fr (Fin 1) latencyMax;
          successPoints = dots_of ok_count yBar enriched; failurePoints = dots_of bad_count yBar enriched;
          latencyPoints = dots_of seen_latency yLatency enriched; latencyPath = dots_path fr latencyPoints
      in ((nl 8 @
         (grid_labels fr yBar fmtInt (map (\<lambda>i. num_div (num_mul requestMax (num_of_nat i)) (Fin 5)) [0..<6])) @
         nl 8 @ (right_labels fr yLatency fmtMs [Fin 0, num_div latencyMax (Fin 2), latencyMax]) @
         nl 8 @ (path_if ''traffic-latency-region'' (area_path fr latencyPath latencyPoints)) @
         nl 8 @ requestTrends fr successPoints failurePoints @ nl 8 @
         (path_if ''traffic-latency-line'' latencyPath) @ nl 8 @ latencyDots dates latencyPoints @
         nl 6),
          [(''traffic-success-legend'', tr ''traffic.success_requests'' [])]
          @ (if list_ex (\<lambda>d. num_lt (Fin 0) (cd_value d)) failurePoints
             then [(''traffic-failure-legend'', tr ''traffic.failures'' [])] else [])
          @ [(''traffic-latency-legend'', tr ''traffic.avg_latency'' [])]))"

section \<open>Tokens mode\<close>

definition tokens_chart :: "translator \<Rightarrow> (jsnum \<Rightarrow> string) \<Rightarrow> chart_frame \<Rightarrow> (chart_bucket \<times> jsnum) list \<Rightarrow> string \<times> (string \<times> string) list" where
  "tokens_chart tr dates fr enriched =
     (let bs = map fst enriched;
          tokenMax = Fin (chartScaleMax (Arr (concat (map (\<lambda>b. [Num (cb_tokens b), Num (cb_input b), Num (cb_output b)]) bs))) 1000 True (115 / 100));
          costMax = Fin (chartScaleMax (Arr (map (\<lambda>b. Num (cb_cost b)) bs)) (1 / 100) False (115 / 100));
          yToken = y_on fr (Fin 1) tokenMax; yCost = y_on fr (Fin (1 / 1000000)) costMax;
          totalPoints = dots_of cb_tokens yToken enriched; totalPath = dots_path fr totalPoints;
          inputPath = dots_path fr (dots_of cb_input yToken enriched);
          outputPath = dots_path fr (dots_of cb_output yToken enriched);
          costPoints = dots_of cb_cost yCost enriched; costPath = dots_path fr costPoints;
          totalDots = (if length totalPoints \<le> 64
             then concat (map (\<lambda>d. titled_dot ''traffic-total-dot'' ''3.6'' ((fmtDate dates (Num (cd_when d))) @ '' Total Tokens: '' @
                (fmtTokenCount (Num (cd_value d)))) d) (positive_dots totalPoints))
             else []);
          costDots = (if length costPoints \<le> 64 \<and> costPath \<noteq> []
             then concat (map (\<lambda>d. titled_dot ''traffic-cost-dot'' ''3.2'' ((fmtDate dates (Num (cd_when d))) @ '' Est. Cost: '' @ (fmtCost (Num (cd_value d)))) d) (positive_dots costPoints))
             else [])
      in ((nl 8 @
         (grid_labels fr yToken fmtTokenCount (map (\<lambda>i. num_div (num_mul tokenMax (num_of_nat i)) (Fin 4)) [0..<5])) @
         nl 8 @ (right_labels fr yCost fmtCost [Fin 0, num_div costMax (Fin 2), costMax]) @ nl 8 @
         (path_if ''traffic-cost-region'' (area_path fr costPath costPoints)) @ nl 8 @
         (path_if ''traffic-token-area'' (area_path fr totalPath totalPoints)) @ nl 8 @
         (path_if ''traffic-total-line'' totalPath) @ nl 8 @
         (path_if ''traffic-input-line'' inputPath) @ nl 8 @
         (path_if ''traffic-output-line'' outputPath) @ nl 8 @
         (path_if ''traffic-cost-line'' costPath) @ nl 8 @ totalDots @ nl 8 @ costDots @ nl 8 @
         ''<text class=\"traffic-axis-title\" x=\"'' @ (num_txt (fr_left fr)) @ ''\" y=\"'' @
         (num_txt (num_sub (fr_top fr) (Fin 8))) @ ''\">tokens</text>'' @ nl 8 @
         ''<text class=\"traffic-axis-title traffic-axis-label-info\" x=\"'' @
         (num_txt (num_sub (fr_width fr) (fr_right fr))) @ ''\" y=\"'' @
         (num_txt (num_sub (fr_top fr) (Fin 8))) @ ''\" text-anchor=\"end\">cost</text>'' @ nl 6),
          [(''traffic-total-dot'', tr ''traffic.total_tokens'' []), (''traffic-input-dot'', tr ''traffic.input'' []),
           (''traffic-output-dot'', tr ''traffic.output'' []), (''traffic-cost-legend'', tr ''traffic.estimated_cost'' [])]))"

section \<open>Inspection targets and ticks\<close>

definition inspectable :: "bool \<Rightarrow> chart_bucket \<Rightarrow> bool" where
  "inspectable requestMode b =
     (let pos = (\<lambda>n. num_lt (Fin 0) (nz n)) in
      if requestMode then pos (cb_requests b) \<or> pos (cb_latency b)
      else pos (cb_tokens b) \<or> pos (cb_input b) \<or> pos (cb_output b) \<or> pos (cb_cost b))"

definition inspection_target :: "(jsnum \<Rightarrow> string) \<Rightarrow> bool \<Rightarrow> chart_frame \<Rightarrow> jsnum \<Rightarrow> chart_bucket \<Rightarrow> jsnum \<Rightarrow> string" where
  "inspection_target dates requestMode fr width b x =
     (let time = fmtDate dates (Num (if num_truthy (cb_start b) then cb_start b else cb_ts b));
          requestLabel = (time @ '', '' @ (fmtInt (Num (cb_requests b))) @ '' requests, '' @
             (fmtInt (Num (cb_success b))) @ '' successful, '' @ (fmtInt (Num (cb_failed b))) @
             '' failed, '' @ (fmtMs (Num (cb_latency b))) @ '' average latency'');
          tokenLabel = (time @ '', '' @ (fmtInt (Num (cb_tokens b))) @ '' total tokens, '' @
             (fmtInt (Num (cb_input b))) @ '' input, '' @ (fmtInt (Num (cb_output b))) @
             '' output, '' @ (fmtCost (Num (cb_cost b))) @ '' estimated cost'')
      in (nl 8 @ ''<rect class=\"traffic-inspection-target\"'' @ nl 10 @ ''x=\"'' @
         (svg (num_sub x (num_div width (Fin 2)))) @ ''\" y=\"'' @ (svg (fr_top fr)) @ ''\"'' @
         nl 10 @ ''width=\"'' @ svg width @ ''\" height=\"'' @ (svg (plotH fr)) @ ''\"'' @ nl 10 @
         ''fill=\"transparent\" tabindex=\"0\" role=\"button\"'' @ nl 10 @ ''aria-label=\"'' @
         (esc (if requestMode then requestLabel else tokenLabel)) @ ''\"'' @ nl 10 @
         ''data-traffic-bucket'' @ nl 10 @ ''data-traffic-bucket-x=\"'' @
         (svg (num_mul (num_div x (fr_width fr)) (Fin 100))) @ ''\"'' @ nl 10 @
         ''data-traffic-bucket-svg-x=\"'' @ svg x @ ''\"'' @ nl 10 @
         ''data-traffic-bucket-time=\"'' @ esc time @ ''\"'' @ nl 10 @
         ''data-traffic-bucket-requests=\"'' @ (esc (fmtInt (Num (cb_requests b)))) @ ''\"'' @
         nl 10 @ ''data-traffic-bucket-success=\"'' @ (esc (fmtInt (Num (cb_success b)))) @
         ''\"'' @ nl 10 @ ''data-traffic-bucket-failed=\"'' @ (esc (fmtInt (Num (cb_failed b)))) @
         ''\"'' @ nl 10 @ ''data-traffic-bucket-latency=\"'' @
         (esc (if num_truthy (cb_latency b) then fmtMs (Num (cb_latency b)) else ''-'')) @
         ''\"'' @ nl 10 @ ''data-traffic-bucket-tokens=\"'' @ (esc (fmtInt (Num (cb_tokens b)))) @
         ''\"'' @ nl 10 @ ''data-traffic-bucket-input=\"'' @ (esc (fmtInt (Num (cb_input b)))) @
         ''\"'' @ nl 10 @ ''data-traffic-bucket-output=\"'' @ (esc (fmtInt (Num (cb_output b)))) @
         ''\"'' @ nl 10 @ ''data-traffic-bucket-cost=\"'' @ (esc (fmtCost (Num (cb_cost b)))) @
         ''\"></rect>'' @ nl 6))"

definition inspectionTargets :: "(jsnum \<Rightarrow> string) \<Rightarrow> bool \<Rightarrow> chart_frame \<Rightarrow> (chart_bucket \<times> jsnum) list \<Rightarrow> string" where
  "inspectionTargets dates requestMode fr enriched =
     (let slot = (if enriched \<noteq> [] then num_div (plotW fr) (num_of_nat (length enriched)) else plotW fr)
      in concat (map (\<lambda>(b, x). inspection_target dates requestMode fr (num_max (Fin 3) slot) b x)
           (filter (\<lambda>(b, x). inspectable requestMode b) enriched)))"

definition desired_ticks :: "string \<Rightarrow> nat" where
  "desired_ticks rng = (case map_of [(''30m'', 7), (''2h'', 5), (''24h'', 7), (''7d'', 8)] rng of Some n \<Rightarrow> n | None \<Rightarrow> 8)"

definition xTicks :: "string \<Rightarrow> 'a list \<Rightarrow> 'a list" where
  "xTicks rng xs =
     (let tickCount = min (desired_ticks rng) (length xs) in
      if 1 < tickCount then map (\<lambda>i. xs ! round_div (i * (length xs - 1)) (tickCount - 1)) [0..<tickCount] else xs)"

definition shortDate :: "(bool \<Rightarrow> jsnum \<Rightarrow> string) \<Rightarrow> string \<Rightarrow> jsnum \<Rightarrow> string" where
  "shortDate short rng ts =
     (let n = nz ts in if \<not> num_truthy n then ''-'' else short (rng = ''7d'') (num_mul n (Fin 1000)))"

definition xTicksHtml :: "(bool \<Rightarrow> jsnum \<Rightarrow> string) \<Rightarrow> string \<Rightarrow> chart_frame \<Rightarrow> (chart_bucket \<times> jsnum) list \<Rightarrow> string" where
  "xTicksHtml short rng fr enriched =
     concat (map (\<lambda>(b, x). (nl 6 @ ''<text class=\"traffic-axis-label\" x=\"'' @ svg x @ ''\" y=\"'' @
        (num_txt (num_sub (fr_height fr) (Fin 18))) @ ''\" text-anchor=\"middle\">'' @
        (esc (shortDate short rng (if num_truthy (cb_start b) then cb_start b else cb_ts b))) @
        ''</text>'' @ nl 4)) (xTicks rng enriched))"

section \<open>The chart\<close>

record chart_summary =
  cs_requests :: jsnum
  cs_success :: jsnum
  cs_failed :: jsnum
  cs_rate :: jsnum
  cs_latency :: jsnum
  cs_input :: jsnum
  cs_output :: jsnum
  cs_tokens :: jsnum
  cs_cost :: jsnum

definition workspaceMetrics :: "translator \<Rightarrow> bool \<Rightarrow> chart_summary \<Rightarrow> (string \<times> string \<times> string \<times> string \<times> string) list" where
  "workspaceMetrics tr requestMode s =
     (if requestMode then
        [(tr ''traffic.requests'' [], fmtInt (Num (cs_requests s)), tr ''traffic.total'' [], ''activity'', ''tone-info''),
         (tr ''traffic.success'' [], fmtInt (Num (cs_success s)), fmtPct (Num (cs_rate s)), ''check'', ''tone-success''),
         (tr ''traffic.failed'' [], fmtInt (Num (cs_failed s)), fmtPct (Num (num_sub (Fin 1) (nz (cs_rate s)))), ''alert'', ''tone-danger''),
         (tr ''traffic.avg_latency'' [], fmtMs (Num (cs_latency s)), tr ''traffic.first_byte'' [], ''clock'', ''tone-warning'')]
      else
        [(tr ''traffic.total_tokens'' [], fmtTokenCount (Num (cs_tokens s)), fmtInt (Num (cs_tokens s)), ''bolt'', ''tone-compat''),
         (tr ''traffic.input'' [], fmtTokenCount (Num (cs_input s)), tr ''traffic.tokens'' [], ''arrow-down'', ''tone-info''),
         (tr ''traffic.output'' [], fmtTokenCount (Num (cs_output s)), tr ''traffic.tokens'' [], ''arrow-up'', ''tone-compat''),
         (tr ''traffic.estimated_cost'' [], fmtCost (Num (cs_cost s)), tr ''traffic.window'' [], ''dollar'', ''tone-success'')])"

definition workspace_metric :: "string \<times> string \<times> string \<times> string \<times> string \<Rightarrow> string" where
  "workspace_metric = (\<lambda>(label, value, hint, icon, tone). (nl 14 @ ''<div class=\"traffic-workspace-metric '' @ tone @ ''\">'' @ nl 16 @
     ''<span class=\"traffic-workspace-metric-icon\">'' @ iconSvg icon @ ''</span>'' @ nl 16 @
     ''<span class=\"traffic-workspace-metric-copy\">'' @ nl 18 @
     ''<span class=\"traffic-workspace-metric-label\">'' @ esc label @ ''</span>'' @ nl 18 @
     ''<span class=\"traffic-workspace-metric-value\"><strong>'' @ esc value @
     ''</strong><small>'' @ esc hint @ ''</small></span>'' @ nl 16 @ ''</span>'' @ nl 14 @
     ''</div>'' @ nl 12))"

definition mode_button :: "translator \<Rightarrow> string \<Rightarrow> string \<Rightarrow> string" where
  "mode_button tr mode m =
     (''<button type=\"button\" class=\"button pill-toggle '' @
        (if mode = m then ''is-active'' else []) @ ''\" data-traffic-mode=\"'' @ m @
        ''\" aria-pressed=\"'' @ (if mode = m then ''true'' else ''false'') @ ''\">'' @
        (esc (tr (''traffic.'' @ m) [])) @ ''</button>'')"

definition chart_header :: "translator \<Rightarrow> string \<Rightarrow> string \<Rightarrow> string \<Rightarrow> chart_summary \<Rightarrow> (string \<times> string) list \<Rightarrow> string" where
  "chart_header tr mode title subtitle s legendItems =
     (nl 8 @ ''<div class=\"traffic-workspace-header\">'' @ nl 10 @
        ''<div class=\"traffic-workspace-title\">'' @ nl 12 @ ''<strong>'' @ esc title @
        ''</strong>'' @ nl 12 @ ''<div class=\"traffic-workspace-subtitle-row\">'' @ nl 14 @
        ''<small>'' @ esc subtitle @ ''</small>'' @ nl 14 @
        ''<div class=\"traffic-mode-selectors\" role=\"group\" aria-label=\"'' @
        (esc (tr ''traffic.mode'' [])) @ ''\">'' @ nl 16 @ mode_button tr mode ''requests'' @
        nl 16 @ mode_button tr mode ''tokens'' @ nl 14 @ ''</div>'' @ nl 12 @ ''</div>'' @ nl 10 @
        ''</div>'' @ nl 10 @ ''<div class=\"traffic-workspace-metrics\">'' @ nl 12 @
        (concat (map workspace_metric (workspaceMetrics tr (mode = ''requests'') s))) @ nl 10 @
        ''</div>'' @ nl 10 @ ''<div class=\"traffic-workspace-actions\">'' @ nl 12 @
        ''<div class=\"traffic-trend-legend\">'' @
        (concat (map (\<lambda>(dotClass, label). (nl 6 @ ''<span class=\"traffic-trend-legend-item '' @ dotClass @ ''\">'' @ nl 8 @
          ''<i></i>'' @ esc label @ nl 6 @ ''</span>'' @ nl 4)) legendItems)) @
        ''</div>'' @ nl 10 @ ''</div>'' @ nl 8 @ ''</div>'')"

definition gradient :: "string \<Rightarrow> string \<Rightarrow> string \<Rightarrow> string \<Rightarrow> string \<Rightarrow> string" where
  "gradient gid color middle high mid =
     (nl 12 @ ''<linearGradient id=\"'' @ gid @ ''\" x1=\"0\" x2=\"0\" y1=\"0\" y2=\"1\">'' @
        nl 14 @ ''<stop offset=\"0%\" stop-color=\"'' @ color @ ''\" stop-opacity=\"'' @ high @
        ''\"></stop>'' @ nl 14 @ ''<stop offset=\"'' @ middle @ ''%\" stop-color=\"'' @ color @
        ''\" stop-opacity=\"'' @ mid @ ''\"></stop>'' @ nl 14 @
        ''<stop offset=\"100%\" stop-color=\"'' @ color @ ''\" stop-opacity=\"0\"></stop>'' @
        nl 12 @ ''</linearGradient>'')"

definition chart_svg :: "translator \<Rightarrow> chart_frame \<Rightarrow> string \<Rightarrow> string \<Rightarrow> string \<Rightarrow> string" where
  "chart_svg tr fr content ticks targets =
     (nl 8 @ ''<svg viewBox=\"0 0 '' @ (num_txt (fr_width fr)) @ '' '' @
        (num_txt (fr_height fr)) @
        ''\" preserveAspectRatio=\"none\" role=\"group\" aria-label=\"'' @
        (esc (tr ''traffic.chart_aria'' [])) @ ''\">'' @ nl 10 @ ''<defs>'' @
        (gradient ''trafficTokenArea'' ''#7b55d6'' ''55'' ''0.16'' ''0.055'') @
        (gradient ''trafficLatencyArea'' ''#f59e0b'' ''58'' ''0.10'' ''0.03'') @
        (gradient ''trafficCostArea'' ''#e49a24'' ''58'' ''0.09'' ''0.025'') @
        (gradient ''trafficRequestArea'' ''#10b981'' ''55'' ''0.12'' ''0.04'') @ nl 10 @
        ''</defs>'' @ nl 10 @ ''<g aria-hidden=\"true\">'' @ nl 12 @
        ''<rect class=\"traffic-plot-bg\" x=\"'' @ (num_txt (fr_left fr)) @ ''\" y=\"'' @
        (num_txt (fr_top fr)) @ ''\" width=\"'' @ (num_txt (plotW fr)) @ ''\" height=\"'' @
        (num_txt (plotH fr)) @ ''\" rx=\"0\"></rect>'' @ nl 12 @
        ''<line class=\"axis traffic-y-axis\" x1=\"'' @ (num_txt (fr_left fr)) @ ''\" y1=\"'' @
        (num_txt (fr_top fr)) @ ''\" x2=\"'' @ (num_txt (fr_left fr)) @ ''\" y2=\"'' @
        (num_txt (baseline fr)) @ ''\"></line>'' @ nl 12 @ content @ nl 12 @
        ''<line class=\"traffic-inspection-guide\" data-traffic-guide x1=\"0\" y1=\"'' @
        (num_txt (fr_top fr)) @ ''\" x2=\"0\" y2=\"'' @ (num_txt (baseline fr)) @ ''\"></line>'' @
        nl 12 @ ''<line class=\"axis traffic-baseline\" x1=\"'' @ (num_txt (fr_left fr)) @
        ''\" y1=\"'' @ (num_txt (baseline fr)) @ ''\" x2=\"'' @
        (num_txt (num_sub (fr_width fr) (fr_right fr))) @ ''\" y2=\"'' @ (num_txt (baseline fr)) @
        ''\"></line>'' @ nl 12 @ ticks @ nl 10 @ ''</g>'' @ nl 10 @ targets @ nl 8 @ ''</svg>'')"

definition renderTrafficComboChart :: "translator \<Rightarrow> (jsnum \<Rightarrow> string) \<Rightarrow> (bool \<Rightarrow> jsnum \<Rightarrow> string) \<Rightarrow> string \<Rightarrow> string
    \<Rightarrow> chart_frame \<Rightarrow> chart_bucket list \<Rightarrow> jsnum \<Rightarrow> jsnum \<Rightarrow> string \<Rightarrow> string \<Rightarrow> chart_summary \<Rightarrow> string" where
  "renderTrafficComboChart tr dates short rng mode fr source firstTs lastTs windowLabel sourceLabel s =
     (let requestMode = (mode = ''requests'');
          enriched = enrich fr firstTs (if num_truthy lastTs then lastTs else firstTs) (trafficDisplayBuckets rng source);
          (content, legendItems) = (if requestMode then requests_chart tr dates fr enriched else tokens_chart tr dates fr enriched);
          title = tr (if requestMode then ''traffic.request_volume'' else ''traffic.token_usage'') []
      in (nl 6 @ ''<div class=\"traffic-chart-shell\" data-traffic-current-mode=\"'' @ esc mode @
         ''\">'' @
         (chart_header tr mode title ((windowLabel @ '' / '' @ sourceLabel)) s legendItems) @
         nl 8 @ ''<div class=\"traffic-chart-header\">'' @ nl 10 @
         ''<span class=\"traffic-chart-unit\">'' @
         (esc (tr (if requestMode then ''traffic.requests_per_minute'' else ''traffic.tokens_per_minute'') [])) @
         ''</span>'' @ nl 8 @ ''</div>'' @
         (chart_svg tr fr content (xTicksHtml short rng fr enriched) (inspectionTargets dates requestMode fr enriched)) @
         nl 8 @ ''<div class=\"traffic-inspection-tooltip\" data-traffic-tooltip'' @
         '' aria-live=\"polite\" hidden>'' @ nl 10 @
         ''<strong data-traffic-tooltip-time>-</strong>'' @ nl 10 @
         (concat (replicate 4 (''<div data-traffic-tooltip-row><span></span><strong></strong></div>''))) @
         nl 8 @ ''</div>'' @ nl 6 @ ''</div>'' @ nl 4))"

end
