(* ===== verification/UsageView.thy ===== *)
theory UsageView
  imports UsageStatistics TrafficView
begin

text \<open>
  The panels of the usage statistics and of the model usage (\<open>app.js\<close>) as markup. A panel is \<open>None\<close> when the
  function leaves it as it is. \<open>tr\<close> is the translator, \<open>dates\<close> the platform's date formatter, \<open>day\<close> its short
  date, \<open>axis\<close> the date of a chart axis (hourly or daily), \<open>parts\<close> the date parts of a request row.
\<close>

section \<open>Summary\<close>

definition usageStatisticsMetaPayload :: "jsval \<Rightarrow> jsval" where
  "usageStatisticsMetaPayload data =
     jor (jor (jor (get data ''summary'') (get data ''timeseries'')) (get data ''breakdown'')) (Obj [])"

definition range_spans :: "(string \<times> rat) list" where
  "range_spans = [(''24h'', 86400), (''7d'', 604800), (''30d'', 2592000), (''90d'', 7776000), (''1y'', 31536000)]"

definition usageStatisticsDataFromStart :: "jsval \<Rightarrow> jsnum" where
  "usageStatisticsDataFromStart payload =
     (let rng = jor (get payload ''range'') (Obj []); name = str_or_empty (get rng ''name'');
          s = num_or_zero (get rng ''start''); e = num_or_zero (get rng ''end'')
      in if \<not> num_truthy s then Fin 0
         else if name = ''all'' then s
         else (case map_of range_spans name of
             Some w \<Rightarrow> if num_truthy e \<and> num_lt (num_sub e (Fin w)) s then s else Fin 0
           | None \<Rightarrow> Fin 0))"

definition usageStatisticsShortDate :: "(jsnum \<Rightarrow> string) \<Rightarrow> jsnum \<Rightarrow> string" where
  "usageStatisticsShortDate day ts = (let n = nz ts in if \<not> num_truthy n then ''-'' else day (num_mul n (Fin 1000)))"

definition renderUsageStatisticsMeta :: "translator \<Rightarrow> (jsnum \<Rightarrow> string) \<Rightarrow> jsval \<Rightarrow> string" where
  "renderUsageStatisticsMeta tr dates data =
     (let payload = usageStatisticsMetaPayload data;
          startedAt = num_or_zero (get payload ''statistics_started_at'');
          dataFrom = usageStatisticsDataFromStart payload;
          since = (if num_truthy startedAt then startedAt else dataFrom);
          timezone = jor (jor (get payload ''reporting_timezone'') (get (get payload ''range'') ''timezone'')) (Str []);
          complete = \<not> truthy (get payload ''partial'');
          tip = js_join ('' '' @ [CHR 0xB7] @ '' '') (filter (\<lambda>s. s \<noteq> [])
            [if num_truthy since then tr ''usage_stats.since'' [(''date'', Str (fmtDate dates (Num since)))] else tr ''usage_stats.awaiting_data'' [],
             to_str timezone])
      in (nl 6 @ ''<span class=\"usage-statistics-completeness '' @
         (if complete then ''is-complete'' else ''is-partial'') @ ''\" data-tip=\"'' @ esc tip @
         ''\"><i aria-hidden=\"true\"></i>'' @
         (esc (tr (if complete then ''usage_stats.synced'' else ''usage_stats.partial'') [])) @
         ''</span>'' @ nl 4))"

record cost_badge =
  ub_tone :: string
  ub_icon :: string
  ub_label :: string

definition usageStatisticsCostStatus :: "translator \<Rightarrow> jsval \<Rightarrow> cost_badge" where
  "usageStatisticsCostStatus tr summary =
     (let statuses = jor (get (get summary ''cost'') ''statuses'') (Obj []);
          n = (\<lambda>k. num_or_zero (get statuses k)); cnt = (\<lambda>k. [(''count'', Str (fmtInt (Num (n k))))])
      in if num_truthy (n ''pending'')
         then \<lparr>ub_tone = ''warning'', ub_icon = ''clock'', ub_label = tr ''usage_stats.cost_pending'' (cnt ''pending'')\<rparr>
         else if num_truthy (n ''unpriced'')
         then \<lparr>ub_tone = ''danger'', ub_icon = ''alert'', ub_label = tr ''usage_stats.cost_unpriced'' (cnt ''unpriced'')\<rparr>
         else if num_truthy (n ''estimated'')
         then \<lparr>ub_tone = ''info'', ub_icon = ''info'', ub_label = tr ''usage_stats.cost_estimated'' (cnt ''estimated'')\<rparr>
         else \<lparr>ub_tone = ''success'', ub_icon = ''check'', ub_label = tr ''usage_stats.cost_priced'' []\<rparr>)"

definition usageMiniCard :: "string \<Rightarrow> string \<Rightarrow> string \<Rightarrow> string \<Rightarrow> string" where
  "usageMiniCard icon label tone txt =
     (nl 6 @ ''<article class=\"usage-mini-card tone-'' @ esc tone @ ''\">'' @ nl 8 @
        ''<span class=\"usage-mini-icon\">'' @ iconSvg icon @ ''</span>'' @ nl 8 @
        ''<span class=\"usage-mini-copy\"><small>'' @ esc label @ ''</small><strong>'' @ esc txt @
        ''</strong></span>'' @ nl 6 @ ''</article>'' @ nl 4)"

definition tokenShare :: "jsnum \<Rightarrow> jsnum \<Rightarrow> string" where
  "tokenShare n v = svg (num_mul (num_div (num_max (Fin 0) (nz v)) n) (Fin 100)) @ ''%''"

definition tokens_card :: "translator \<Rightarrow> usage \<Rightarrow> string" where
  "tokens_card tr u =
     (let n = num_max (Fin 1) (nz (total_tokens u)); known = num_lt (Fin 0) (nz (total_tokens u));
          tok = (\<lambda>x. fmtTokenCount (Num x)); pct = (\<lambda>x. [(''pct'', Str (fmtPct (Num (num_div x n))))])
      in (''<article class=\"usage-hero-card tone-tokens\">'' @ nl 10 @
         ''<div class=\"usage-hero-head\"><span class=\"usage-hero-label\">'' @
         iconSvg ''layers'' @ (esc (tr ''usage_stats.hero_tokens'' [])) @
         ''</span><span class=\"usage-hero-exact mono\">'' @
         (esc (if known then ((fmtInt (Num (total_tokens u))) @ '' Tokens'') else ([CHR 0xE2, CHR 0x80, CHR 0x94]))) @
         ''</span></div>'' @ nl 10 @ ''<div class=\"usage-hero-value\"><strong>'' @
         (esc (if known then tok (total_tokens u) else ([CHR 0xE2, CHR 0x80, CHR 0x94]))) @
         ''</strong><span class=\"usage-hero-tag\">'' @ iconSvg ''activity'' @
         (esc (tr ''usage_stats.upstream_consumption'' [])) @ ''</span></div>'' @ nl 10 @
         ''<div class=\"usage-hero-bar\" role=\"img\" aria-label=\"'' @
         (esc ((tr ''tokens.uncached'' []) @ '' '' @ (tok (uncached_input_tokens u)) @ '' '' @
           [CHR 0xB7] @ '' '' @ (tr ''tokens.cached'' []) @ '' '' @
           (tok (cached_input_tokens u)) @ '' '' @ [CHR 0xB7] @ '' '' @
           (tr ''tokens.output'' []) @ '' '' @ (tok (output_tokens u)))) @
         ''\"><i class=\"seg-input\" style=\"width:'' @ (tokenShare n (uncached_input_tokens u)) @
         ''\"></i><i class=\"seg-cache\" style=\"width:'' @
         (tokenShare n (cached_input_tokens u)) @
         ''\"></i><i class=\"seg-write\" style=\"width:'' @
         (tokenShare n (cache_write_tokens u)) @
         ''\"></i><i class=\"seg-output\" style=\"width:'' @ (tokenShare n (output_tokens u)) @
         ''\"></i></div>'' @ nl 10 @ ''<div class=\"usage-hero-foot mono\"><span>'' @
         (esc (tr ''usage_stats.input_share'' (pct (uncached_input_tokens u)))) @
         ''</span><span class=\"tone-success-text\">'' @
         (esc (tr ''usage_stats.cache_share'' (pct (cached_input_tokens u)))) @
         ''</span><span>'' @ (esc (tr ''usage_stats.output_share'' (pct (output_tokens u)))) @
         ''</span></div>'' @ nl 8 @ ''</article>''))"

definition summary_rate :: "jsval \<Rightarrow> jsnum" where
  "summary_rate summary = num_max (Fin 0) (num_min (Fin 1) (num_or_zero (get summary ''success_rate'')))"

definition requests_card :: "translator \<Rightarrow> jsval \<Rightarrow> string" where
  "requests_card tr summary =
     (let n = (\<lambda>k. fmtInt (Num (num_or_zero (get summary k)))); rate = summary_rate summary
      in (''<article class=\"usage-hero-card tone-requests\">'' @ nl 10 @
         ''<div class=\"usage-hero-head\"><span class=\"usage-hero-label\">'' @
         (iconSvg ''arrow-right-left'') @ (esc (tr ''usage_stats.hero_requests'' [])) @
         ''</span><span class=\"usage-hero-rate\">'' @ (esc (fmtPct (Num rate))) @
         ''</span></div>'' @ nl 10 @ ''<div class=\"usage-hero-value\"><strong>'' @
         (esc (n ''requests'')) @ ''</strong><span class=\"usage-hero-sub\">'' @
         (esc (tr ''usage_stats.requests_count_value'' [(''count'', Str (n ''success''))])) @
         ''</span></div>'' @ nl 10 @
         ''<div class=\"usage-hero-bar\" role=\"img\" aria-label=\"'' @
         (esc ((tr ''usage_stats.success'' []) @ '' '' @ n ''success'' @ '' '' @ [CHR 0xB7] @ '' '' @
           (tr ''usage_stats.failed_requests'' []) @ '' '' @ n ''failed'')) @
         ''\"><i class=\"seg-success\" style=\"width:'' @ (svg (num_mul rate (Fin 100))) @
         ''%\"></i><i class=\"seg-failed\" style=\"width:'' @
         (svg (num_max (Fin 0) (num_sub (Fin 100) (num_mul rate (Fin 100))))) @
         ''%\"></i></div>'' @ nl 10 @
         ''<div class=\"usage-hero-foot mono\"><span class=\"tone-success-text\">'' @
         (esc (tr ''usage_stats.hero_success_count'' [(''n'', Str (n ''success''))])) @
         ''</span><span class=\"tone-warning-text\">'' @
         (esc (tr ''usage_stats.hero_failed_count'' [(''n'', Str (n ''failed''))])) @
         ''</span></div>'' @ nl 8 @ ''</article>''))"

definition cost_share :: "jsval \<Rightarrow> string \<Rightarrow> jsnum" where
  "cost_share cost k =
     (let known = num_or_zero (get cost ''known_usd'')
      in if num_lt (Fin 0) known then num_mul (num_div (num_or_zero (get cost k)) known) (Fin 100) else Fin 0)"

definition avg_per_million :: "jsval \<Rightarrow> usage \<Rightarrow> jsnum" where
  "avg_per_million cost u =
     (if num_lt (Fin 0) (nz (total_tokens u))
      then num_div (num_round (num_mul (num_mul (num_div (num_or_zero (get cost ''known_usd'')) (total_tokens u)) (Fin 1000000)) (Fin 100))) (Fin 100)
      else Fin 0)"

definition cost_card :: "translator \<Rightarrow> jsval \<Rightarrow> usage \<Rightarrow> string" where
  "cost_card tr summary u =
     (let cost = jor (get summary ''cost'') (Obj []); statuses = jor (get cost ''statuses'') (Obj []);
          st = usageStatisticsCostStatus tr summary; usd = (\<lambda>k. Num (num_or_zero (get cost k)));
          cnt = (\<lambda>k. Str (fmtInt (Num (num_or_zero (get statuses k)))))
      in (''<article class=\"usage-hero-card tone-cost\">'' @ nl 10 @
         ''<div class=\"usage-hero-head\"><span class=\"usage-hero-label\">'' @
         iconSvg ''dollar'' @ (esc (tr ''usage_stats.hero_cost'' [])) @
         ''</span><span class=\"usage-hero-cost-status tone-'' @ (esc (ub_tone st)) @ ''\">'' @
         (iconSvg (ub_icon st)) @ (esc (ub_label st)) @ ''</span></div>'' @ nl 10 @
         ''<div class=\"usage-hero-value\"><strong>'' @ (esc (fmtCost3 (usd ''known_usd''))) @
         ''</strong><span class=\"usage-hero-sub mono\">USD</span></div>'' @ nl 10 @
         ''<div class=\"usage-hero-bar\" role=\"img\" aria-label=\"'' @
         (esc ((tr ''cost.priced'' []) @ '' '' @ (fmtCost (usd ''priced_usd'')) @ '' '' @ [CHR 0xB7] @
           '' '' @ (tr ''cost.estimated'' []) @ '' '' @ (fmtCost (usd ''estimated_usd'')))) @
         ''\"><i class=\"seg-priced\" style=\"width:'' @ (svg (cost_share cost ''priced_usd'')) @
         ''%\"></i><i class=\"seg-estimated\" style=\"width:'' @
         (svg (cost_share cost ''estimated_usd'')) @ ''%\"></i></div>'' @ nl 10 @
         ''<div class=\"usage-hero-foot mono\"><span>'' @
         (esc (tr ''usage_stats.cost_counts'' [(''priced'', cnt ''priced''), (''estimated'', cnt ''estimated'')])) @
         ''</span><span>'' @
         (esc (tr ''usage_stats.avg_per_1m'' [(''cost'', Str (fmtCost (Num (avg_per_million cost u))))])) @
         ''</span></div>'' @ nl 8 @ ''</article>''))"

definition mini_cards :: "translator \<Rightarrow> jsval \<Rightarrow> usage \<Rightarrow> string" where
  "mini_cards tr summary u =
     (let tok = (\<lambda>icon key tone v. usageMiniCard icon (tr key []) tone (fmtTokenCount (Num v)))
      in (''<div class=\"usage-mini-grid\">'' @ nl 8 @
         (tok ''arrow-down'' ''tokens.uncached'' ''info'' (uncached_input_tokens u)) @ nl 8 @
         (tok ''layers'' ''tokens.cached'' ''cache'' (cached_input_tokens u)) @ nl 8 @
         (tok ''boxes'' ''tokens.cache_write'' ''warning'' (cache_write_tokens u)) @ nl 8 @
         (tok ''arrow-up'' ''tokens.output'' ''compat'' (output_tokens u)) @ nl 8 @
         (tok ''brain'' ''tokens.reasoning'' ''reasoning'' (reasoning_tokens u)) @ nl 8 @
         (usageMiniCard ''zap'' (tr ''model_usage.cache_rate'' []) ''success'' (fmtPct (jor (get summary ''cache_rate'') (jnum 0)))) @
         nl 6 @ ''</div>''))"

definition empty_panel :: "translator \<Rightarrow> string \<Rightarrow> bool \<Rightarrow> string option" where
  "empty_panel tr key loading = (if loading then None else Some (''<div class=\"empty pad\">'' @ (esc (tr key [])) @ ''</div>''))"

definition renderUsageStatisticsSummary :: "translator \<Rightarrow> stats_ui \<Rightarrow> string option" where
  "renderUsageStatisticsSummary tr s =
     (let payload = get (us_data s) ''summary'' in
      if \<not> truthy payload then empty_panel tr ''usage_stats.empty'' (us_loading s)
      else (let summary = jor (get payload ''summary'') (Obj []); u = usageFrom (jor (get summary ''usage'') (Obj []))
        in Some (nl 6 @ ''<div class=\"usage-hero-grid\">'' @ nl 8 @ tokens_card tr u @ nl 8 @
           requests_card tr summary @ nl 8 @ cost_card tr summary u @ nl 6 @ ''</div>'' @ nl 6 @
           mini_cards tr summary u @ nl 4)))"

section \<open>Series\<close>

definition usageStatisticsRangeLabel :: "translator \<Rightarrow> string \<Rightarrow> string" where
  "usageStatisticsRangeLabel tr rng =
     pick [(''today'', tr ''usage_stats.today'' []), (''24h'', ''24h''), (''7d'', ''7d''), (''30d'', ''30d''), (''90d'', ''90d''),
           (''1y'', tr ''usage_stats.one_year'' []), (''all'', tr ''req.all'' []), (''custom'', tr ''usage_stats.custom'' [])]
       rng (or_default rng ''-'')"

record series_def =
  sd_key :: string
  sd_label :: string
  sd_color :: string
  sd_value :: "jsval \<Rightarrow> jsnum"

definition inner :: "string \<Rightarrow> string \<Rightarrow> jsval \<Rightarrow> jsnum" where
  "inner a b point = num_or_zero (get (get point a) b)"

definition a_series :: "translator \<Rightarrow> string \<Rightarrow> string \<Rightarrow> string \<Rightarrow> (jsval \<Rightarrow> jsnum) \<Rightarrow> series_def" where
  "a_series tr key label color value = \<lparr>sd_key = key, sd_label = tr label [], sd_color = color, sd_value = value\<rparr>"

definition usageStatisticsMetricSeries :: "translator \<Rightarrow> string \<Rightarrow> series_def list" where
  "usageStatisticsMetricSeries tr metric =
     (if metric = ''cost'' then
        [a_series tr ''priced'' ''cost.priced'' ''#12a36b'' (inner ''cost'' ''priced_usd''),
         a_series tr ''estimated'' ''cost.estimated'' ''#e89420'' (inner ''cost'' ''estimated_usd''),
         a_series tr ''legacy'' ''cost.legacy'' ''#718096'' (inner ''cost'' ''legacy_usd'')]
      else if metric = ''requests'' then
        [a_series tr ''success'' ''usage_stats.success'' ''#12a36b'' (\<lambda>p. num_or_zero (get p ''success'')),
         a_series tr ''failed'' ''usage_stats.failed_requests'' ''#e34b59'' (\<lambda>p. num_or_zero (get p ''failed'')),
         a_series tr ''recovered'' ''usage_stats.recovered'' ''#e89420'' (\<lambda>p. num_or_zero (get p ''recovered''))]
      else if metric = ''latency'' then
        [a_series tr ''first'' ''usage_stats.first_event'' ''#2f7df4'' (inner ''latency'' ''avg_first_event_ms''),
         a_series tr ''duration'' ''usage_stats.total_duration'' ''#8157d9'' (inner ''latency'' ''avg_duration_ms'')]
      else
        [a_series tr ''uncached'' ''tokens.uncached'' ''#2f7df4'' (inner ''usage'' ''uncached_input_tokens''),
         a_series tr ''cached'' ''tokens.cached'' ''#12a36b'' (inner ''usage'' ''cached_input_tokens''),
         a_series tr ''write'' ''tokens.cache_write'' ''#e89420'' (inner ''usage'' ''cache_write_tokens''),
         a_series tr ''output'' ''tokens.output'' ''#8157d9'' (inner ''usage'' ''output_tokens'')])"

definition formatUsageStatisticsMetric :: "string \<Rightarrow> jsnum \<Rightarrow> string" where
  "formatUsageStatisticsMetric metric v =
     (if metric = ''cost'' then fmtCost (Num v) else if metric = ''latency'' then fmtCompactMs (Num v)
      else if metric = ''tokens'' then fmtTokenCount (Num v) else fmtInt (Num v))"

text \<open>A date outside the platform's range is shown as a dash (\<open>8.64e15\<close> milliseconds from the epoch).\<close>

definition usageStatisticsAxisDate :: "(bool \<Rightarrow> jsnum \<Rightarrow> string) \<Rightarrow> jsval \<Rightarrow> jsval \<Rightarrow> string" where
  "usageStatisticsAxisDate axis timestamp resolution =
     (let ms = num_mul (num_or_zero timestamp) (Fin 1000)
      in if is_finite ms \<and> num_le (num_abs ms) (Fin 8640000000000000) then axis (resolution = Str ''hour'') ms else ''-'')"

text \<open>The series that have a positive value, with their values.\<close>

definition drawn_series :: "translator \<Rightarrow> string \<Rightarrow> jsval list \<Rightarrow> (series_def \<times> jsnum list) list" where
  "drawn_series tr metric points =
     filter (\<lambda>(d, vs). list_ex (\<lambda>v. num_lt (Fin 0) v) vs)
       (map (\<lambda>d. (d, map (\<lambda>p. num_max (Fin 0) (sd_value d p)) points)) (usageStatisticsMetricSeries tr metric))"

definition usage_frame :: "jsnum \<Rightarrow> chart_frame" where
  "usage_frame clientWidth =
     \<lparr>fr_width = num_max (Fin 640) (num_min (Fin 2600) (num_round (if num_truthy clientWidth then clientWidth else Fin 1000))),
      fr_height = Fin 232, fr_top = Fin 24, fr_right = Fin 24, fr_bottom = Fin 42, fr_left = Fin 62\<rparr>"

definition yFor :: "chart_frame \<Rightarrow> jsnum \<Rightarrow> jsnum \<Rightarrow> jsnum" where
  "yFor fr maxValue v =
     num_sub (num_add (fr_top fr) (plotH fr)) (num_mul (num_div (num_max (Fin 0) v) maxValue) (plotH fr))"

definition series_points :: "chart_frame \<Rightarrow> jsnum \<Rightarrow> jsnum list \<Rightarrow> chart_point list" where
  "series_points fr maxValue vs = map (\<lambda>(i, v). (spread_x fr i (length vs), yFor fr maxValue v)) (enumerate 0 vs)"

definition series_area :: "chart_frame \<Rightarrow> string \<Rightarrow> chart_point list \<Rightarrow> string" where
  "series_area fr path pts =
     (let bottom = svg (num_add (fr_top fr) (plotH fr))
      in if path \<noteq> [] then (path @ '' L '' @ (svg (fst (last pts))) @ '' '' @ bottom @ '' L '' @
         (svg (fst (hd pts))) @ '' '' @ bottom @ '' Z'') else [])"

definition series_markup :: "chart_frame \<Rightarrow> jsnum \<Rightarrow> (series_def \<times> jsnum list) list \<Rightarrow> string \<times> string \<times> string" where
  "series_markup fr maxValue series =
     (let geo = map (\<lambda>(i, d, vs). (let pts = series_points fr maxValue vs in
            (d, vs, pts, smoothSvgPath pts (fr_top fr) (num_add (fr_top fr) (plotH fr)) (Fin (1 / 6)), (''usage-statistics-fill-'' @ (num_to_str (num_of_nat i))))))
            (enumerate 0 series);
          gradients = concat (map (\<lambda>(d, vs, pts, path, gid). (''<linearGradient id=\"'' @ gid @
             ''\" x1=\"0\" y1=\"0\" x2=\"0\" y2=\"1\"><stop offset=\"0\" stop-color=\"'' @
             sd_color d @ ''\" stop-opacity=\".22\"></stop><stop offset=\"1\" stop-color=\"'' @
             sd_color d @ ''\" stop-opacity=\"0\"></stop></linearGradient>'')) geo);
          areas = concat (map (\<lambda>(d, vs, pts, path, gid). (let a = series_area fr path pts in
            if a \<noteq> [] then (''<path class=\"usage-statistics-area\" d=\"'' @ a @ ''\" fill=\"url(#'' @ gid @
               '')\"></path>'') else [])) geo);
          dots = (\<lambda>d vs pts. if length vs \<le> 48 then concat (map (\<lambda>(v, x, y). if num_lt (Fin 0) v
            then (''<circle class=\"usage-statistics-dot\" cx=\"'' @ svg x @ ''\" cy=\"'' @ svg y @
               ''\" r=\"2.8\" style=\"--series-color:'' @ sd_color d @ ''\"></circle>'') else []) (zip vs pts)) else []);
          lines = concat (map (\<lambda>(d, vs, pts, path, gid). (''<path class=\"usage-statistics-line\" d=\"'' @ path @
             ''\" style=\"--series-color:'' @ sd_color d @ ''\"></path>'' @ dots d vs pts)) geo)
      in (gradients, areas, lines))"

definition usage_grid :: "chart_frame \<Rightarrow> string \<Rightarrow> jsnum \<Rightarrow> string" where
  "usage_grid fr metric maxValue =
     concat (map (\<lambda>r. (let y = num_sub (num_add (fr_top fr) (plotH fr)) (num_mul (Fin r) (plotH fr))
       in (''<line x1=\"'' @ (num_txt (fr_left fr)) @ ''\" y1=\"'' @ svg y @ ''\" x2=\"'' @
          (num_txt (num_sub (fr_width fr) (fr_right fr))) @ ''\" y2=\"'' @ svg y @
          ''\"></line><text x=\"'' @ (num_txt (num_sub (fr_left fr) (Fin 12))) @ ''\" y=\"'' @
          (svg (num_add y (Fin 3))) @ ''\" text-anchor=\"end\">'' @
          (esc (formatUsageStatisticsMetric metric (num_mul maxValue (Fin r)))) @ ''</text>'')))
       [0, 1 / 4, 1 / 2, 3 / 4, 1])"

definition label_indexes :: "nat \<Rightarrow> nat list" where
  "label_indexes n =
     filter (\<lambda>i. i < n) (first_by (\<lambda>i. i) [] (0 # map (\<lambda>k. round_div ((k + 1) * (n - 1)) 6) [0..<5] @ [n - 1]))"

definition usage_x_labels :: "(bool \<Rightarrow> jsnum \<Rightarrow> string) \<Rightarrow> chart_frame \<Rightarrow> jsval \<Rightarrow> jsval list \<Rightarrow> string" where
  "usage_x_labels axis fr resolution points =
     concat (map (\<lambda>i. (''<text x=\"'' @ (svg (spread_x fr i (length points))) @ ''\" y=\"'' @
        (num_txt (num_sub (fr_height fr) (Fin 15))) @ ''\" text-anchor=\"middle\">'' @
        (esc (usageStatisticsAxisDate axis (get (points ! i) ''start'') resolution)) @ ''</text>''))
       (label_indexes (length points)))"

definition usage_inspection :: "(jsnum \<Rightarrow> string) \<Rightarrow> chart_frame \<Rightarrow> string \<Rightarrow> jsval list \<Rightarrow> (series_def \<times> jsnum list) list \<Rightarrow> string" where
  "usage_inspection dates fr metric points series =
     (let slot = num_max (Fin 3) (num_div (plotW fr) (num_max (Fin 1) (num_of_nat (length points))))
      in concat (map (\<lambda>(i, p).
           (let details = js_join ('' '' @ [CHR 0xB7] @ '' '') (map (\<lambda>(d, vs). (sd_label d @ '': '' @ (formatUsageStatisticsMetric metric (vs ! i)))) series);
                label = ((fmtDate dates (get p ''start'')) @ '' '' @ [CHR 0xB7] @ '' '' @ details)
            in (''<rect class=\"usage-statistics-inspection\" x=\"'' @
               (svg (num_sub (spread_x fr i (length points)) (num_div slot (Fin 2)))) @
               ''\" y=\"'' @ (num_txt (fr_top fr)) @ ''\" width=\"'' @ svg slot @
               ''\" height=\"'' @ (num_txt (plotH fr)) @
               ''\" tabindex=\"0\" role=\"img\" aria-label=\"'' @ esc label @ ''\" data-tip=\"'' @
               esc label @ ''\"></rect>''))) (enumerate 0 points)))"

definition no_series :: "translator \<Rightarrow> string" where
  "no_series tr = (''<div class=\"usage-statistics-empty-state\">'' @ iconSvg ''activity'' @
     ''<span><strong>'' @ (esc (tr ''usage_stats.no_series_title'' [])) @ ''</strong><small>'' @
     (esc (tr ''usage_stats.no_series_hint'' [])) @ ''</small></span></div>'')"

definition chart_subtitle :: "translator \<Rightarrow> (jsnum \<Rightarrow> string) \<Rightarrow> stats_ui \<Rightarrow> jsval \<Rightarrow> nat \<Rightarrow> string" where
  "chart_subtitle tr day s payload n =
     (let dataFrom = usageStatisticsDataFromStart payload;
          rng = to_str (jor (get (get payload ''range'') ''name'') (Str (us_range s)))
      in tr ''usage_stats.chart_context''
           [(''range'', Str (usageStatisticsRangeLabel tr rng
               @ (if num_truthy dataFrom then ('' '' @ [CHR 0xB7] @ '' '' @
                  (tr ''usage_stats.data_from'' [(''date'', Str (usageStatisticsShortDate day dataFrom))])) else []))),
            (''resolution'', Str (tr (if get payload ''resolution'' = Str ''hour'' then ''usage_stats.hourly'' else ''usage_stats.daily'') [])),
            (''count'', Str (fmtInt (Num (num_of_nat n))))])"

definition usage_chart_svg :: "translator \<Rightarrow> (jsnum \<Rightarrow> string) \<Rightarrow> (bool \<Rightarrow> jsnum \<Rightarrow> string) \<Rightarrow> chart_frame \<Rightarrow> string \<Rightarrow> jsval
    \<Rightarrow> jsval list \<Rightarrow> (series_def \<times> jsnum list) list \<Rightarrow> string" where
  "usage_chart_svg tr dates axis fr metric resolution points series =
     (let maxValue = nice_max (foldl num_max (Fin 1) (concat (map snd series)));
          (gradients, areas, lines) = series_markup fr maxValue series
      in (nl 10 @ ''<div class=\"usage-statistics-legend\">'' @
         (concat (map (\<lambda>(d, vs). (''<span><i style=\"--series-color:'' @ sd_color d @ ''\"></i>'' @ (esc (sd_label d)) @
           ''</span>'')) series)) @ ''</div>'' @ nl 10 @
         ''<div class=\"usage-statistics-chart-canvas\">'' @ nl 12 @ ''<svg viewBox=\"0 0 '' @
         (num_txt (fr_width fr)) @ '' '' @ (num_txt (fr_height fr)) @
         ''\" role=\"img\" aria-label=\"'' @
         (esc (tr ''usage_stats.chart_aria'' [(''metric'', Str metric)])) @ ''\">'' @ nl 14 @
         ''<defs>'' @ gradients @ ''</defs>'' @ nl 14 @ ''<g class=\"usage-statistics-grid\">'' @
         usage_grid fr metric maxValue @ ''</g>'' @ nl 14 @
         ''<g class=\"usage-statistics-x-axis\">'' @ usage_x_labels axis fr resolution points @
         ''</g>'' @ nl 14 @ ''<g>'' @ areas @ ''</g>'' @ nl 14 @ ''<g>'' @ lines @ ''</g>'' @
         nl 14 @ ''<g>'' @ usage_inspection dates fr metric points series @ ''</g>'' @ nl 12 @
         ''</svg>'' @ nl 10 @ ''</div>'' @ nl 8))"

definition renderUsageStatisticsChart :: "translator \<Rightarrow> (jsnum \<Rightarrow> string) \<Rightarrow> (bool \<Rightarrow> jsnum \<Rightarrow> string) \<Rightarrow> jsnum \<Rightarrow> stats_ui \<Rightarrow> string option" where
  "renderUsageStatisticsChart tr dates axis clientWidth s =
     (let payload = get (us_data s) ''timeseries'' in
      if \<not> truthy payload then empty_panel tr ''usage_stats.empty_series'' (us_loading s)
      else (let points = arr_or_empty (get payload ''points'');
                metric = to_str (jor (jor (get payload ''metric'') (Str (us_metric s))) (Str ''tokens''));
                series = drawn_series tr metric points
        in if points = [] \<or> series = [] then Some (no_series tr)
           else Some (usage_chart_svg tr dates axis (usage_frame clientWidth) metric (get payload ''resolution'') points series)))"

end
