(* ===== verification/ModelUsageView.thy ===== *)
theory ModelUsageView
  imports UsageView Playground
begin

text \<open>
  The breakdown of the usage statistics, the conversion diagnostics, the model usage table and the drawer of one
  model (\<open>app.js\<close>) as markup. Filling the selects is modelled as the options they get; the signature that the
  code keeps only saves writing the same options again.
\<close>

section \<open>Breakdown\<close>

definition usageStatisticsBreakdownMetric :: "string \<Rightarrow> jsval \<Rightarrow> jsnum" where
  "usageStatisticsBreakdownMetric sortKey item =
     (if sortKey = ''cost'' then inner ''cost'' ''known_usd'' item
      else if sortKey = ''requests'' then num_or_zero (get item ''requests'')
      else if sortKey = ''latency'' then inner ''latency'' ''avg_duration_ms'' item
      else inner ''usage'' ''total_tokens'' item)"

definition usageStatisticsBreakdownMetricText :: "string \<Rightarrow> jsval \<Rightarrow> string" where
  "usageStatisticsBreakdownMetricText sortKey item =
     formatUsageStatisticsMetric sortKey (usageStatisticsBreakdownMetric sortKey item)"

definition page_count :: "jsval \<Rightarrow> rat \<Rightarrow> jsnum" where
  "page_count payload k =
     (let n = num_max (Fin 0) (num_or_zero (get payload ''total''));
          limit = num_max (Fin 1) (to_num (jor (get payload ''limit'') (jnum k)))
      in num_max (Fin 1) (num_ceil (num_div n limit)))"

definition page_shown :: "jsnum \<Rightarrow> jsnum \<Rightarrow> jsnum" where
  "page_shown pages p = num_min pages (num_max (Fin 1) (num_add (nz p) (Fin 1)))"

definition page_button :: "string \<Rightarrow> string \<Rightarrow> jsnum \<Rightarrow> string \<Rightarrow> bool \<Rightarrow> string \<Rightarrow> string" where
  "page_button cls attr target label off icon =
     (''<button class=\"'' @ cls @ ''\" type=\"button\" '' @ attr @ ''=\"'' @ num_txt target @
        ''\" aria-label=\"'' @ esc label @ ''\" '' @ (if off then ''disabled'' else []) @ ''>'' @
        iconSvg icon @ ''</button>'')"

definition usageStatisticsBreakdownPagination :: "translator \<Rightarrow> stats_ui \<Rightarrow> jsval \<Rightarrow> string" where
  "usageStatisticsBreakdownPagination tr s payload =
     (let pages = page_count payload USAGE_STATISTICS_BREAKDOWN_PAGE_SIZE; p = page_shown pages (us_page s);
          attr = ''data-usage-statistics-breakdown-page''
      in if num_le pages (Fin 1) then []
         else (''<div class=\"usage-statistics-breakdown-pagination\"><span>'' @
            (esc (tr ''usage_stats.page_of'' [(''page'', Str (fmtInt (Num p))), (''total'', Str (fmtInt (Num pages)))])) @
            ''</span><span>'' @
            (page_button ''icon-button'' attr (num_sub p (Fin 2)) (tr ''req.previous_page'' []) (num_le p (Fin 1)) ''chevron-left'') @
            (page_button ''icon-button'' attr p (tr ''req.next_page'' []) (num_le pages p) ''chevron-right'') @
            ''</span></div>''))"

definition pad2 :: "string \<Rightarrow> string" where
  "pad2 s = replicate (2 - length s) (CHR ''0'') @ s"

definition breakdown_row :: "translator \<Rightarrow> string \<Rightarrow> string \<Rightarrow> jsval \<Rightarrow> jsnum \<Rightarrow> nat \<Rightarrow> jsval \<Rightarrow> string" where
  "breakdown_row tr grp sortKey payload maxValue index item =
     (let dimension = jor (get item ''dimension'') (Str ''-'');
          metricValue = usageStatisticsBreakdownMetric sortKey item;
          brand = (if grp = ''provider'' then providerBrandIconMarkup dimension (iconSvg ''server'')
                   else modelBrandIconMarkup dimension (iconSvg ''boxes''));
          rank = num_to_str (num_add (num_add (num_or_zero (get payload ''offset'')) (num_of_nat index)) (Fin 1))
      in (''<article class=\"usage-statistics-breakdown-row\">'' @ nl 12 @
         ''<span class=\"usage-statistics-rank mono\">'' @ (esc (pad2 rank)) @ ''</span>'' @
         nl 12 @ ''<span class=\"usage-statistics-breakdown-identity\">'' @ brand @
         ''<span><strong data-tip=\"'' @ escapeHtml dimension @ ''\">'' @ escapeHtml dimension @
         ''</strong><small>'' @
         (esc (tr (if grp = ''provider'' then ''usage_stats.upstream_provider'' else ''usage_stats.client_model'') [])) @
         ''</small></span></span>'' @ nl 12 @
         ''<span class=\"usage-statistics-breakdown-bar\"><i style=\"--breakdown-share:'' @
         (svg (num_mul (num_div metricValue maxValue) (Fin 100))) @ ''%\"></i></span>'' @ nl 12 @
         ''<span class=\"usage-statistics-breakdown-result\"><strong>'' @
         (esc (usageStatisticsBreakdownMetricText sortKey item)) @ ''</strong><small>'' @
         (esc (tr ''usage_stats.requests_and_success'' [(''requests'', Str (fmtInt (jor (get item ''requests'') (jnum 0)))), (''rate'', Str (fmtPct (jor (get item ''success_rate'') (jnum 0))))])) @
         ''</small></span>'' @ nl 12 @
         ''<span class=\"usage-statistics-breakdown-cost\"><strong>'' @
         (esc (fmtCost3 (jor (get (get item ''cost'') ''known_usd'') (jnum 0)))) @
         ''</strong><small>'' @ (esc (tr ''usage_stats.cost_short'' [])) @ ''</small></span>'' @
         nl 10 @ ''</article>''))"

definition renderUsageStatisticsBreakdown :: "translator \<Rightarrow> stats_ui \<Rightarrow> string option" where
  "renderUsageStatisticsBreakdown tr s =
     (let payload = get (us_data s) ''breakdown''; items = arr_or_empty (get payload ''items'');
          sortKey = or_default (us_sort s) ''tokens'';
          grp = to_str (jor (jor (get payload ''group_by'') (Str (us_breakdown s))) (Str ''model''));
          maxValue = foldl num_max (Fin 1) (map (usageStatisticsBreakdownMetric sortKey) items)
      in if \<not> truthy payload then empty_panel tr ''usage_stats.empty_breakdown'' (us_loading s)
         else if items = [] then Some (''<div class=\"usage-statistics-empty-state\">'' @
            (iconSvg (if grp = ''provider'' then ''server'' else ''boxes'')) @
            ''<span><strong>'' @ (esc (tr ''usage_stats.no_breakdown_title'' [])) @
            ''</strong><small>'' @ (esc (tr ''usage_stats.no_breakdown_hint'' [])) @
            ''</small></span></div>'')
         else Some (nl 6 @ ''<div class=\"usage-statistics-breakdown-list\">'' @ nl 8 @
            (concat (map (\<lambda>(i, item). breakdown_row tr grp sortKey payload maxValue i item) (enumerate 0 items))) @
            nl 6 @ ''</div>'' @ nl 6 @ usageStatisticsBreakdownPagination tr s payload @ nl 4))"

text \<open>The notice under the panels, when the data is partial and no other notice is shown.\<close>

definition usage_backfill_notice :: "translator \<Rightarrow> stats_ui \<Rightarrow> string option" where
  "usage_backfill_notice tr s =
     (let payload = usageStatisticsMetaPayload (us_data s) in
      if truthy (get payload ''partial'') \<and> js_trim (us_notice s) = [] then
        Some (''<span class=\"usage-statistics-partial\">'' @ iconSvg ''info'' @ ''<span><strong>'' @
           (esc (tr ''usage_stats.backfill_title'' [])) @ ''</strong><small>'' @
           (esc (tr ''usage_stats.backfill_hint'' [(''count'', Str (fmtInt (Num (num_or_zero (get (get payload ''backfill'') ''remaining'')))))])) @
           ''</small></span></span>'')
      else None)"

definition dimension_options :: "string \<Rightarrow> jsval list \<Rightarrow> string" where
  "dimension_options allLabel values =
     (''<option value=\"\">'' @ esc allLabel @ ''</option>'' @
        (concat (map (\<lambda>v. (''<option value=\"'' @ escapeHtml v @ ''\">'' @ escapeHtml v @ ''</option>'')) values)))"

text \<open>Each select with its options and the value it shows.\<close>

definition populateUsageStatisticsDimensions :: "translator \<Rightarrow> stats_ui \<Rightarrow> (string \<times> string \<times> string) list" where
  "populateUsageStatisticsDimensions tr s =
     (let filter_of = (\<lambda>k. case map_of (us_filters s) k of Some v \<Rightarrow> v | None \<Rightarrow> []);
          options = (\<lambda>listKey label. dimension_options (tr label []) (arr_or_empty (get (us_dimensions s) listKey)))
      in [(''usageStatisticsModel'', options ''models'' ''usage_stats.all_models'', filter_of ''model''),
          (''usageStatisticsProvider'', options ''providers'' ''usage_stats.all_providers'', filter_of ''provider''),
          (''usageStatisticsFormat'', options ''client_formats'' ''usage_stats.all_formats'', filter_of ''client_format''),
          (''modelUsageProvider'', options ''providers'' ''usage_stats.all_providers'', mu_provider s),
          (''modelUsageFormat'', options ''client_formats'' ''usage_stats.all_formats'', mu_format s)])"

section \<open>Conversion diagnostics\<close>

definition fmtFileSize :: "jsval \<Rightarrow> string" where
  "fmtFileSize v =
     (let bytes = num_max (Fin 0) (num_or_zero v) in
      if num_lt bytes (Fin 1024) then fmtInt (Num bytes) @ '' B''
      else if num_lt bytes (Fin 1048576) then toFixed (if num_le (Fin 10240) bytes then 0 else 1) (num_div bytes (Fin 1024)) @ '' KB''
      else toFixed (if num_le (Fin 10485760) bytes then 0 else 1) (num_div bytes (Fin 1048576)) @ '' MB'')"

definition diagnostics_empty :: "string \<Rightarrow> string \<Rightarrow> string" where
  "diagnostics_empty icon txt = (''<span class=\"conversion-diagnostics-empty\">'' @ iconSvg icon @ ''<span>'' @ esc txt @
     ''</span></span>'')"

definition renderConversionDiagnostics :: "translator \<Rightarrow> jsval \<Rightarrow> string" where
  "renderConversionDiagnostics tr data =
     (let records = num_max (Fin 0) (num_or_zero (get data ''records'')); n = (\<lambda>k. fmtInt (jor (get data k) (jnum 0))) in
      if \<not> truthy data then diagnostics_empty ''rotate'' (tr ''model_usage.loading'' [])
      else if \<not> truthy (get data ''enabled'') then diagnostics_empty ''alert'' (tr ''cfg.diagnostics_disabled'' [])
      else if num_truthy records then (nl 6 @ ''<span><small>'' @ (esc (tr ''cfg.diagnostics_records'' [])) @
         ''</small><strong>'' @ (fmtInt (Num records)) @ ''</strong></span>'' @ nl 6 @
         ''<span><small>'' @ (esc (tr ''cfg.diagnostics_files'' [])) @ ''</small><strong>'' @
         n ''files'' @ ''</strong></span>'' @ nl 6 @ ''<span><small>'' @
         (esc (tr ''cfg.diagnostics_size'' [])) @ ''</small><strong>'' @
         (esc (fmtFileSize (jor (get data ''bytes'') (jnum 0)))) @ ''</strong></span>'' @ nl 6 @
         ''<span class=\"'' @
         (if num_truthy (num_or_zero (get data ''dropped'')) then ''tone-warning'' else []) @
         ''\"><small>'' @ (esc (tr ''cfg.diagnostics_dropped'' [])) @ ''</small><strong>'' @
         n ''dropped'' @ ''</strong></span>'' @ nl 4)
      else diagnostics_empty ''check'' (tr ''cfg.diagnostics_empty'' []))"

definition diagnostic_row :: "(jsnum \<Rightarrow> string) \<Rightarrow> jsval \<Rightarrow> string" where
  "diagnostic_row stamp item =
     (let error = jor (get item ''error'') (Obj []); ts = num_or_zero (get item ''timestamp'');
          time = (if num_truthy ts then stamp (num_mul (to_num (get item ''timestamp'')) (Fin 1000)) else ''-'');
          fmts = js_join ('' '' @ [CHR 0xE2, CHR 0x86, CHR 0x92] @ '' '') (map to_str (filter truthy [get item ''source_format'', get item ''target_format'']));
          message = to_str (jor (jor (get error ''message'') (get error ''code'')) (Str ''-''));
          model = to_str (jor (jor (get item ''provider_model'') (if truthy (get item ''context'') then get (get item ''context'') ''model'' else Undef)) (Str []));
          code = str_or_empty (get error ''code'');
          tip = esc (take 300 (js_trim (code @ '' '' @ message)))
      in (nl 8 @ ''<div class=\"conversion-diag-record\" data-tip=\"'' @ tip @
         ''\" tabindex=\"0\">'' @ nl 10 @ ''<span class=\"conversion-diag-time mono\">'' @
         esc time @ ''</span>'' @ nl 10 @
         (badge (Str (to_str (jor (get item ''stage'') (Str ''-'')))) (if get item ''stage'' = Str ''request'' then ''warn'' else ''info'')) @
         nl 10 @ ''<span class=\"conversion-diag-formats mono\">'' @
         (esc (or_default fmts ''-'')) @ ''</span>'' @ nl 10 @
         ''<span class=\"conversion-diag-provider\">'' @
         (esc (to_str (jor (get item ''provider'') (Str ''-'')))) @ ''</span>'' @ nl 10 @
         ''<span class=\"conversion-diag-model mono\">'' @ (esc (or_default model ''-'')) @
         ''</span>'' @ nl 10 @ ''<span class=\"conversion-diag-message\">'' @
         (esc (take 120 message)) @ ''</span>'' @ nl 8 @ ''</div>'' @ nl 6))"

definition renderConversionDiagRecords :: "translator \<Rightarrow> (jsnum \<Rightarrow> string) \<Rightarrow> jsval \<Rightarrow> string" where
  "renderConversionDiagRecords tr stamp data =
     (let items = arr_or_empty (get data ''items'') in
      if items = [] then []
      else (''<div class=\"conversion-diag-records-head\">'' @
         (esc (tr ''cfg.diagnostics_recent'' [])) @ ''</div>'' @
         (concat (map (diagnostic_row stamp) (take 20 items)))))"

section \<open>The model usage table\<close>

definition token_segments :: "translator \<Rightarrow> usage \<Rightarrow> (string \<times> jsnum \<times> string) list" where
  "token_segments tr u =
     [(''uncached'', uncached_input_tokens u, tr ''tokens.uncached'' []), (''cached'', cached_input_tokens u, tr ''tokens.cached'' []),
      (''write'', cache_write_tokens u, tr ''tokens.cache_write'' []), (''output'', output_tokens u, tr ''tokens.output'' [])]"

definition segments_text :: "(string \<times> jsnum \<times> string) list \<Rightarrow> string" where
  "segments_text parts = js_join '', '' (map (\<lambda>(tone, v, name). (name @ '' '' @ (fmtInt (Num v)))) parts)"

definition tokenCompositionBar :: "translator \<Rightarrow> jsval \<Rightarrow> jsval \<Rightarrow> string" where
  "tokenCompositionBar tr usageValue label =
     (let u = usageFrom usageValue; n = num_max (Fin 1) (total_tokens u); parts = token_segments tr u; aria = segments_text parts
      in (''<div class=\"model-token-composition\" data-tip=\"'' @ esc aria @
         ''\"><div class=\"token-composition-bar\" role=\"img\" aria-label=\"'' @
         (esc (to_str label @ '' '' @ aria)) @ ''\">'' @
         (concat (map (\<lambda>(tone, v, name). (''<i class=\"token-segment token-'' @ tone @
           ''\" aria-hidden=\"true\" style=\"--token-share:'' @
           (svg (num_mul (num_div v n) (Fin 100))) @ ''%\"></i>'')) parts)) @
         ''</div><small>'' @
         (esc (tr ''model_usage.token_in_out'' [(''input'', Str (fmtTokenCount (Num (input_tokens u)))), (''output'', Str (fmtTokenCount (Num (output_tokens u))))])) @
         ''</small></div>''))"

definition modelUsagePagination :: "translator \<Rightarrow> stats_ui \<Rightarrow> jsval \<Rightarrow> string" where
  "modelUsagePagination tr s payload =
     (let n = num_max (Fin 0) (num_or_zero (get payload ''total''));
          pages = page_count payload MODEL_USAGE_PAGE_SIZE; p = page_shown pages (mu_page s);
          first = (if num_truthy n then num_add (num_or_zero (get payload ''offset'')) (Fin 1) else Fin 0);
          final = (if num_truthy n then num_min n (num_sub (num_add first (num_of_nat (length (arr_or_empty (get payload ''items''))))) (Fin 1)) else Fin 0);
          v = (\<lambda>x. Str (fmtInt (Num x))); cls = ''icon-button model-usage-page-button''
      in (nl 6 @ ''<div class=\"model-usage-pagination\" aria-label=\"'' @
         (esc (tr ''model_usage.pages'' [])) @ ''\">'' @ nl 8 @
         ''<span class=\"model-usage-page-copy\"><strong>'' @
         (esc (tr ''model_usage.range_of'' [(''start'', v first), (''end'', v final), (''total'', v n)])) @
         ''</strong><small>'' @ (esc (tr ''model_usage.aggregation_hint'' [])) @
         ''</small></span>'' @ nl 8 @ ''<span class=\"model-usage-page-actions\">'' @ nl 10 @
         (page_button cls ''data-model-usage-page'' (num_sub p (Fin 2)) (tr ''req.previous_page'' []) (num_le p (Fin 1)) ''chevron-left'') @
         nl 10 @ ''<strong>'' @
         (esc (tr ''req.page_of'' [(''page'', v p), (''total'', v pages)])) @ ''</strong>'' @
         nl 10 @
         (page_button cls ''data-model-usage-page'' p (tr ''req.next_page'' []) (num_le pages p) ''chevron-right'') @
         nl 8 @ ''</span>'' @ nl 6 @ ''</div>'' @ nl 4))"

definition overview_card :: "string \<Rightarrow> string \<Rightarrow> string \<Rightarrow> string \<Rightarrow> string \<Rightarrow> string \<Rightarrow> string" where
  "overview_card tone title icon value unit note =
     (''<article class=\"model-overview-card tone-'' @ tone @ ''\">'' @ nl 8 @
        ''<div class=\"model-overview-head\"><span>'' @ esc title @ ''</span>'' @ iconSvg icon @
        ''</div>'' @ nl 8 @ ''<div class=\"model-overview-value\"><strong>'' @ esc value @
        ''</strong><span>'' @ unit @ ''</span></div>'' @ nl 8 @
        ''<div class=\"model-overview-note\">'' @ esc note @ ''</div>'' @ nl 6 @ ''</article>'')"

definition model_usage_summary :: "translator \<Rightarrow> stats_ui \<Rightarrow> jsval \<Rightarrow> string" where
  "model_usage_summary tr s payload =
     (let summary = jor (get payload ''summary'') (Obj []); rangeLabel = usageStatisticsRangeLabel tr (mu_range s)
      in (nl 6 @
         (overview_card ''info'' (tr ''model_usage.fleet_assets'' []) ''boxes'' (fmtInt (Num (num_or_zero (get payload ''total'')))) (esc (tr ''model_usage.fleet_assets_note'' [])) (tr ''model_usage.fleet_assets_hint'' [])) @
         nl 6 @
         (overview_card ''success'' (tr ''model_usage.fleet_calls'' []) ''zap'' (fmtInt (jor (get summary ''calls'') (jnum 0))) (esc (tr ''model_usage.fleet_calls_unit'' [])) (tr ''model_usage.fleet_calls_note'' [(''range'', Str rangeLabel)])) @
         nl 6 @
         (overview_card ''compat'' (tr ''model_usage.fleet_tokens'' []) ''layers'' (fmtTokenCount (jor (get summary ''total_tokens'') (jnum 0))) ''Tokens'' (tr ''model_usage.fleet_tokens_note'' [(''cost'', Str (fmtCost3 (jor (get summary ''cost_usd'') (jnum 0))))])) @
         nl 6 @
         (overview_card ''cache'' (tr ''model_usage.fleet_cache'' []) ''gauge'' (fmtPct (jor (get summary ''cache_rate'') (jnum 0))) (esc (tr ''model_usage.cache_rate'' [])) (tr ''model_usage.fleet_cache_note'' [])) @
         nl 4))"

definition dominantCostStatus :: "jsval \<Rightarrow> string" where
  "dominantCostStatus statuses =
     (case find (\<lambda>k. num_lt (Fin 0) (num_or_zero (get statuses k))) [''pending'', ''unpriced'', ''estimated'', ''priced'', ''legacy''] of
        Some k \<Rightarrow> k | None \<Rightarrow> ''legacy'')"

definition cost_value :: "jsval \<Rightarrow> jsval" where
  "cost_value item = Obj [(''cost_usd'', get item ''cost_usd''), (''cost_status'', Str (dominantCostStatus (get item ''cost_statuses'')))]"

definition rate_tone :: "jsnum \<Rightarrow> string" where
  "rate_tone r = (if num_le (Fin (98 / 100)) r then ''success'' else if num_le (Fin (8 / 10)) r then ''warning'' else ''danger'')"

definition support_tags :: "jsval \<Rightarrow> string" where
  "support_tags item =
     (let support = filter (\<lambda>e. truthy (get e ''enabled'')) (arr_or_empty (get item ''current_support''));
          shown = map (\<lambda>e. get e ''provider'') (take 2 support); more = length support - length shown
      in (''<div class=\"model-support-tags\">'' @
         (concat (map (\<lambda>p. (''<span>'' @ iconSvg ''server'' @ escapeHtml p @ ''</span>'')) shown)) @
         (if more \<noteq> 0 then (''<span class=\"is-more\">+'' @ (fmtInt (Num (num_of_nat more))) @ ''</span>'') else []) @
         (if shown = [] \<and> more = 0 then (''<span class=\"is-empty\">'' @ [CHR 0xE2, CHR 0x80, CHR 0x94] @ ''</span>'') else []) @
         ''</div>''))"

definition model_usage_row :: "translator \<Rightarrow> (jsnum \<Rightarrow> date_parts) \<Rightarrow> jsval \<Rightarrow> string" where
  "model_usage_row tr dateParts item =
     (let name = jor (get item ''client_model'') (Str ''-''); plain = jor (get item ''client_model'') (Str []);
          successRate = num_or_zero (get item ''success_rate''); successTone = rate_tone successRate;
          cacheRate = num_or_zero (get item ''cache_rate''); cacheTone = (if num_lt (Fin 0) cacheRate then ''compat'' else ''neutral'');
          recent = fmtRequestDateParts dateParts (get item ''last_used'')
      in (''<tr data-model-usage-row=\"'' @ escapeHtml plain @ ''\">'' @ nl 12 @
         ''<td class=\"mono model-usage-model\" data-tip=\"'' @ escapeHtml name @
         ''\"><span class=\"model-usage-identity\">'' @
         (modelBrandIconMarkup (get item ''client_model'') (iconSvg ''boxes'')) @ ''<strong>'' @
         escapeHtml name @ ''</strong></span></td>'' @ nl 12 @
         ''<td class=\"model-usage-calls\" data-label=\"'' @
         (esc (tr ''model_usage.col_calls'' [])) @ ''\"><strong class=\"model-call-count\">'' @
         (esc (fmtInt (jor (get item ''calls'') (jnum 0)))) @ ''</strong></td>'' @ nl 12 @
         ''<td class=\"model-usage-success\" data-label=\"'' @
         (esc (tr ''model_usage.col_success'' [])) @
         ''\"><small class=\"model-rate-badge tone-'' @ successTone @ ''\">'' @
         (iconSvg (if successTone = ''success'' then ''check'' else if successTone = ''warning'' then ''clock'' else ''alert'')) @
         (esc (fmtPct (Num successRate))) @ ''</small></td>'' @ nl 12 @
         ''<td class=\"model-usage-tokens\">'' @
         (tokenCompositionBar tr (get item ''usage'') (if get item ''client_model'' = Undef then Str [] else get item ''client_model'')) @
         ''</td>'' @ nl 12 @
         ''<td class=\"model-usage-cache\"><span class=\"model-cache-badge tone-'' @ cacheTone @
         ''\">'' @ iconSvg ''layers'' @ (esc (fmtPct (Num cacheRate))) @ ''</span></td>'' @
         nl 12 @ ''<td class=\"model-usage-cost\">'' @ (renderCost tr (cost_value item) True) @
         ''</td>'' @ nl 12 @ ''<td class=\"model-usage-support\">'' @ support_tags item @
         ''</td>'' @ nl 12 @
         ''<td class=\"model-usage-recent\"><time class=\"model-last-used\" datetime=\"'' @
         (esc (dp_iso recent)) @ ''\"><strong>'' @ (esc (dp_date recent)) @ ''</strong><small>'' @
         (esc (dp_time recent)) @ ''</small></time></td>'' @ nl 12 @
         ''<td class=\"model-usage-open\"><button class=\"icon-action'' @
         '' model-usage-open-button\" type=\"button\" data-model-usage-open=\"'' @
         escapeHtml plain @ ''\" aria-label=\"'' @
         (esc (tr ''model_usage.open_model'' [(''model'', name)])) @ ''\">'' @
         (iconSvg ''chevron-right'') @ ''</button></td>'' @ nl 10 @ ''</tr>''))"

definition model_usage_table :: "translator \<Rightarrow> (jsnum \<Rightarrow> date_parts) \<Rightarrow> jsval \<Rightarrow> string" where
  "model_usage_table tr dateParts payload =
     (let items = arr_or_empty (get payload ''items'');
          col = (\<lambda>k. (''<th scope=\"col\">'' @ (esc (tr (''model_usage.col_'' @ k) [])) @ ''</th>''))
      in if items = [] then (''<div class=\"empty pad\">'' @ (esc (tr ''model_usage.empty'' [])) @ ''</div>'')
         else (nl 6 @ ''<div class=\"model-usage-table-scroll\">'' @ nl 6 @
            ''<table class=\"model-usage-table\">'' @ nl 8 @ ''<caption class=\"sr-only\">'' @
            (esc (tr ''model_usage.table_label'' [])) @ ''</caption>'' @ nl 8 @ ''<thead><tr>'' @
            (concat (map col [''model'', ''calls'', ''success'', ''tokens'', ''cache'', ''cost'', ''support'', ''recent''])) @
            ''<th scope=\"col\"><span class=\"sr-only\">'' @ (esc (tr ''req.open'' [])) @
            ''</span></th></tr></thead>'' @ nl 8 @ ''<tbody>'' @
            (concat (map (model_usage_row tr dateParts) items)) @ ''</tbody>'' @ nl 6 @
            ''</table>'' @ nl 6 @ ''</div>'' @ nl 4))"

end
