(* ===== verification/TraceView.thy ===== *)
theory TraceView
  imports RequestRows RoutingTrace
begin

text \<open>
  The routing path of a request as \<open>app.js\<close> renders it: the grouped steps with their label, status,
  evidence and notes, and the collapsed list of raw diagnostic events. An event is an untyped value
  from the server; reading a property of \<open>null\<close> or \<open>undefined\<close> raises a TypeError, which the model
  returns as \<open>None\<close>.
\<close>

definition trace_tone :: "tone \<Rightarrow> string" where
  "trace_tone x = (case x of Neutral \<Rightarrow> ''neutral'' | Ok \<Rightarrow> ''ok'' | Warn \<Rightarrow> ''warn'' | Bad \<Rightarrow> ''bad'')"

text \<open>\<open>xs.join(sep)\<close> on values.\<close>

definition join_vals :: "string \<Rightarrow> jsval list \<Rightarrow> string" where
  "join_vals sep xs = js_join sep (map (\<lambda>x. if nullish x then [] else to_str x) xs)"

section \<open>Collapsing repeated diagnostics\<close>

definition collapse_key :: "jsval \<Rightarrow> string" where
  "collapse_key e = join_vals ''|''
     [get e ''stage'', get e ''code'', get e ''provider'', jor (get e ''key_id'') (get e ''key_masked''),
      get e ''provider_model'', get e ''upstream_format'', get e ''reason'', get e ''target_format'']"

definition repeat_count :: "jsval \<Rightarrow> jsnum" where
  "repeat_count e = to_num (jor (get e ''_repeatCount'') (jnum 1))"

definition collapse_event :: "jsval list \<Rightarrow> jsval \<Rightarrow> jsval list" where
  "collapse_event out event =
     (let key = collapse_key event in
      if out \<noteq> [] \<and> get (last out) ''_collapseKey'' = Str key
      then butlast out @ [obj_set ''_repeatCount'' (Num (num_add (repeat_count (last out)) (Fin 1))) (last out)]
      else out @ [Obj (set_prop ''_repeatCount'' (jnum 1) (set_prop ''_collapseKey'' (Str key) (obj_fields event)))])"

definition collapseRoutingDiagnostics :: "jsval list \<Rightarrow> jsval list option" where
  "collapseRoutingDiagnostics trace =
     (if \<exists>e \<in> set trace. nullish e then None else Some (foldl collapse_event [] trace))"

section \<open>Labels of a step\<close>

definition code_label_keys :: "(string \<times> string) list" where
  "code_label_keys = [
     (''provider_cooldown'', ''req.route_code_provider_cooldown''),
     (''key_cooldown'', ''req.route_code_key_cooldown''),
     (''key_disabled'', ''req.route_code_key_disabled''),
     (''model_unsupported_by_key'', ''req.route_code_model_unsupported''),
     (''compatibility_circuit'', ''req.route_code_compatibility''),
     (''duplicate_candidate'', ''req.route_code_duplicate'')]"

definition routingTraceCodeLabel :: "translator \<Rightarrow> jsval \<Rightarrow> string" where
  "routingTraceCodeLabel tr code =
     (case map_of code_label_keys (str_or_empty code) of
        Some key \<Rightarrow> tr key []
      | None \<Rightarrow> to_str (jor code (Str ''unknown'')))"

definition routingTraceStepLabel :: "translator \<Rightarrow> trace_step \<Rightarrow> jsval" where
  "routingTraceStepLabel tr step =
     (if g_kind step = FormatEvaluation then Str (tr ''req.route_format_evaluation'' [])
      else if g_kind step = CandidateFilter then Str (tr ''req.route_candidate_filter'' [])
      else if g_code step = Str ''selected'' then Str (tr ''req.route_selected'' [])
      else if g_code step = Str ''attempt_succeeded'' \<or> g_code step = Str ''attempt_failed''
      then Str (tr ''req.route_upstream_result'' [])
      else if g_code step = Str ''no_candidate'' then Str (tr ''req.route_no_candidate'' [])
      else if truthy (g_stage step) \<and> g_stage step \<noteq> Str ''routing'' then g_stage step
      else Str (tr ''req.route_event'' []))"

text \<open>The context of a trace: the formats of the client and of the final upstream call.\<close>

definition step_summary :: "jsval \<Rightarrow> trace_step \<Rightarrow> format_summary" where
  "step_summary context step =
     summarizeFormatTraceStep (g_events step) (get context ''clientFormat'') (get context ''finalFormat'')"

abbreviation count_val :: "nat \<Rightarrow> jsval" where
  "count_val n \<equiv> jnum (of_nat n)"

definition routingTraceStepStatus :: "translator \<Rightarrow> jsval \<Rightarrow> trace_step \<Rightarrow> string" where
  "routingTraceStepStatus tr context step =
     (if g_kind step = FormatEvaluation then
        (let summary = step_summary context step in
         case fs_mode summary of
           Converted \<Rightarrow> tr ''req.route_proxy_conversion'' []
         | Blocked \<Rightarrow> tr ''req.route_format_excluded''
             [(''count'', Str (fmtInt (count_val (length (fs_blocked summary)))))]
         | Native \<Rightarrow> tr ''req.route_no_conversion'' []
         | Unrestricted \<Rightarrow> tr ''req.route_no_special_limits'' [])
      else if g_kind step = CandidateFilter then
        tr ''req.route_candidates_skipped'' [(''count'', Str (fmtInt (count_val (eventCount step))))]
      else if g_code step = Str ''selected'' then tr ''req.route_selected_status'' []
      else if g_code step = Str ''attempt_succeeded'' then tr ''req.route_success'' []
      else if g_code step = Str ''attempt_failed'' then tr ''req.route_failed_status'' []
      else if g_code step = Str ''no_candidate'' then tr ''req.route_unavailable'' []
      else routingTraceCodeLabel tr (g_code step))"

definition routingTraceStepIcon :: "trace_step \<Rightarrow> string" where
  "routingTraceStepIcon step =
     (if g_kind step = FormatEvaluation then ''layers''
      else if g_kind step = CandidateFilter then ''filter''
      else if g_code step = Str ''selected'' then ''radar''
      else if g_code step = Str ''attempt_succeeded'' then ''check''
      else if g_code step = Str ''attempt_failed'' \<or> g_code step = Str ''no_candidate'' then ''alert''
      else ''dot'')"

definition format_names :: "(string \<times> string) list" where
  "format_names = [(''anthropic_messages'', ''Anthropic Messages''),
     (''chat_completions'', ''Chat Completions''), (''responses'', ''Responses''),
     (''google_generate'', ''Gemini generateContent'')]"

definition routingFormatDisplayName :: "jsval \<Rightarrow> string" where
  "routingFormatDisplayName fmt =
     (case map_of format_names (str_or_empty fmt) of
        Some name \<Rightarrow> name | None \<Rightarrow> to_str (jor fmt (Str ''-'')))"

definition event_reason :: "jsval \<Rightarrow> jsval" where
  "event_reason event = jor (get event ''reason'') (get event ''error_type'')"

definition routingTraceStepSummary :: "translator \<Rightarrow> jsval \<Rightarrow> trace_step \<Rightarrow> jsval" where
  "routingTraceStepSummary tr context step =
     (let event = g_event step; dash = Str ''-'' in
      if g_kind step = FormatEvaluation then
        (let summary = step_summary context step in
         if fs_mode summary = Converted
         then Str (tr ''req.route_summary_converted''
           [(''source'', Str (routingFormatDisplayName (Str (fs_sourceFormat summary)))),
            (''target'', Str (routingFormatDisplayName (Str (fs_targetFormat summary))))])
         else Str (tr ''req.route_summary_native''
           [(''format'', Str (routingFormatDisplayName (Str (fs_sourceFormat summary))))]))
      else if g_kind step = CandidateFilter then
        Str (tr ''req.route_summary_filtered'' [(''count'', Str (fmtInt (count_val (eventCount step))))])
      else if g_code step = Str ''selected'' then
        (let key = requestKeyNumber tr (get event ''key_index'')
         in Str (tr ''req.route_summary_selected''
           [(''provider'', jor (get event ''provider'') dash),
            (''key'', Str (if key = [] then tr ''req.key_unknown'' [] else key)),
            (''model'', jor (get event ''provider_model'') dash)]))
      else if g_code step = Str ''attempt_succeeded'' then
        Str (tr ''req.route_summary_succeeded'' [(''provider'', jor (get event ''provider'') dash)])
      else if g_code step = Str ''attempt_failed'' then
        Str (tr ''req.route_summary_failed'' [(''provider'', jor (get event ''provider'') dash),
           (''reason'', jor (event_reason event) dash)])
      else if g_code step = Str ''no_candidate'' then Str (tr ''req.route_summary_no_candidate'' [])
      else routingTraceStepLabel tr step)"

section \<open>Rendering a step\<close>

definition renderRoutingFormatPath :: "string \<Rightarrow> string \<Rightarrow> string" where
  "renderRoutingFormatPath source target =
     (let formats = filter (\<lambda>s. s \<noteq> []) [source, target] in
      if formats = [] then esc ''-''
      else if length formats = 1 \<or> source = target then chipList (Arr [Str (hd formats)]) ''-''
      else (''<span class=\"routing-format-path\">'' @ (chip (Str source) []) @
         (iconSvg ''arrow-right'') @ (chip (Str target) []) @ ''</span>''))"

fun index_of :: "jsval \<Rightarrow> jsval list \<Rightarrow> nat option" where
  "index_of x [] = None"
| "index_of x (y # ys) = (if strict_eq x y then Some 0 else map_option Suc (index_of x ys))"

text \<open>\<open>identity.splice(providerIndex >= 0 ? providerIndex + 1 : 0, 0, keyNumber)\<close>.\<close>

definition step_identity :: "translator \<Rightarrow> jsval \<Rightarrow> jsval list" where
  "step_identity tr event =
     (let identity = routingTraceIdentity event; key = requestKeyNumber tr (get event ''key_index'') in
      if key = [] then identity
      else (let pos = (case index_of (get event ''provider'') identity of Some i \<Rightarrow> Suc i | None \<Rightarrow> 0)
            in take pos identity @ Str key # drop pos identity))"

definition or_dash :: "string \<Rightarrow> string" where
  "or_dash s = (if s = [] then ''-'' else s)"

definition format_notes :: "translator \<Rightarrow> format_summary \<Rightarrow> string list" where
  "format_notes tr summary =
     map (\<lambda>(field, target, action). tr ''req.route_parameter_mapped''
            [(''source'', jor field (Str ''-'')), (''target'', jor target (Str ''-''))])
       (fs_transformations summary)
     @ (if fs_droppedHints summary = [] then []
        else [tr ''req.route_hints_omitted''
          [(''fields'', Str (or_dash (join_vals '', '' (filter truthy (map fst (fs_droppedHints summary))))))]])
     @ map (\<lambda>(fmt, fields). tr ''req.route_blocked_format''
            [(''format'', fmt), (''fields'', Str (or_dash (js_join '', '' fields)))])
       (fs_blocked summary)"

definition step_notes :: "translator \<Rightarrow> jsval \<Rightarrow> trace_step \<Rightarrow> string list" where
  "step_notes tr context step =
     (if g_kind step = FormatEvaluation then format_notes tr (step_summary context step)
      else if g_kind step = CandidateFilter then
        (if codes step = [] then [] else [js_join middot (map (routingTraceCodeLabel tr) (codes step))])
      else if g_code step = Str ''attempt_failed'' \<and> truthy (event_reason (g_event step)) then
        [tr ''req.route_failure_reason'' [(''reason'', event_reason (g_event step))]]
      else [])"

definition step_evidence :: "translator \<Rightarrow> jsval \<Rightarrow> trace_step \<Rightarrow> string" where
  "step_evidence tr context step =
     (if g_kind step = FormatEvaluation then
        (let summary = step_summary context step
         in renderRoutingFormatPath (fs_sourceFormat summary)
              (if fs_mode summary = Converted then fs_targetFormat summary else []))
      else if g_kind step = CandidateFilter then
        (if providers step \<noteq> [] then chipList (Arr (providers step)) ''-'' else esc ''-'')
      else (let identity = step_identity tr (g_event step)
            in if identity \<noteq> [] then chipList (Arr identity) ''-'' else esc ''-''))"

definition renderRoutingTraceStep :: "translator \<Rightarrow> jsval \<Rightarrow> nat \<Rightarrow> trace_step \<Rightarrow> string" where
  "renderRoutingTraceStep tr context index step =
     (let notes = step_notes tr context step in
     (nl 6 @ ''<li class=\"routing-path-step tone-'' @
        (esc (trace_tone (routingTraceTone (Some step)))) @ ''\">'' @ nl 8 @
        ''<span class=\"routing-path-marker\" aria-hidden=\"true\">'' @
        (iconSvg (routingTraceStepIcon step)) @ ''</span>'' @ nl 8 @
        ''<div class=\"routing-path-step-body\">'' @ nl 10 @
        ''<div class=\"routing-path-step-head\">'' @ nl 12 @
        ''<strong><span class=\"routing-path-step-index\">'' @ (fmtInt (count_val (index + 1))) @
        ''</span>'' @ (escapeHtml (routingTraceStepLabel tr step)) @ ''</strong>'' @ nl 12 @
        ''<span class=\"routing-path-status\">'' @
        (esc (routingTraceStepStatus tr context step)) @ ''</span>'' @ nl 10 @ ''</div>'' @
        nl 10 @ ''<p class=\"routing-path-summary\">'' @
        (escapeHtml (routingTraceStepSummary tr context step)) @ ''</p>'' @ nl 10 @
        ''<details class=\"routing-path-technical\">'' @ nl 12 @ ''<summary>'' @
        (esc (tr ''req.route_technical_evidence'' [])) @ ''</summary>'' @ nl 12 @
        ''<div class=\"routing-path-evidence\">'' @ step_evidence tr context step @ ''</div>'' @
        nl 10 @ ''</details>'' @ nl 10 @
        (if notes \<noteq> [] then (''<p>'' @ (messageMarkup (Str (js_join middot notes))) @ ''</p>'') else []) @
        nl 8 @ ''</div>'' @ nl 6 @ ''</li>'' @ nl 4))"

section \<open>Diagnostic events\<close>

definition positive :: "jsval \<Rightarrow> bool" where
  "positive v \<longleftrightarrow> num_lt (Fin 0) (num_or_zero v)"

definition routingDiagnosticDetails :: "translator \<Rightarrow> jsval \<Rightarrow> string list" where
  "routingDiagnosticDetails tr e =
     (let action = get e ''state_action'' in
      (if truthy (get e ''field'') then [tr ''req.route_field'' [] @ '': '' @ to_str (get e ''field'')] else [])
      @ (if truthy (get e ''fidelity'')
         then [tr ''req.route_fidelity'' [] @ '': '' @ to_str (get e ''fidelity'')] else [])
      @ (if truthy (get e ''compatibility_profile'')
         then [tr ''req.route_profile'' [] @ '': '' @ to_str (get e ''compatibility_profile'')] else [])
      @ (if positive (get e ''cooldown_remaining_s'')
         then [tr ''req.route_recovery'' [] @ '': '' @ fmtInt (get e ''cooldown_remaining_s'') @ ''s''] else [])
      @ (if is_object action \<and> truthy (get action ''action'')
         then [tr ''req.route_action'' [] @ '': '' @ to_str (get action ''action'')
               @ (if truthy (get action ''scope'') then '' ('' @ to_str (get action ''scope'') @ '')'' else [])
               @ (if positive (get action ''cooldown_s'')
                  then '' '' @ fmtInt (get action ''cooldown_s'') @ ''s'' else [])]
         else []))"

definition code_in :: "string list \<Rightarrow> jsval \<Rightarrow> bool" where
  "code_in cs e \<longleftrightarrow> (case get e ''code'' of Str c \<Rightarrow> c \<in> set cs | _ \<Rightarrow> False)"

definition stage_is :: "string \<Rightarrow> jsval \<Rightarrow> bool" where
  "stage_is s e \<longleftrightarrow> get e ''stage'' = Str s"

definition routingDiagnosticStageLabel :: "translator \<Rightarrow> jsval \<Rightarrow> string" where
  "routingDiagnosticStageLabel tr e =
     (if stage_is ''format_compatibility'' e then tr ''req.diag_stage_format'' []
      else if stage_is ''upstream_result'' e then tr ''req.diag_stage_upstream'' []
      else if code_in [''selected'', ''no_candidate''] e then tr ''req.diag_stage_routing'' []
      else if stage_is ''routing'' e then tr ''req.diag_stage_candidate'' []
      else to_str (jor (get e ''stage'') (Str (tr ''req.diag_stage_routing'' []))))"

definition status_keys :: "(string \<times> string) list" where
  "status_keys = [
     (''format_eligible'', ''req.diag_status_allowed''),
     (''format_blocked_by_parameter'', ''req.diag_status_blocked''),
     (''format_parameter_mapped'', ''req.diag_status_mapped''),
     (''format_hint_dropped'', ''req.diag_status_omitted''),
     (''selected'', ''req.diag_status_selected''),
     (''attempt_succeeded'', ''req.route_success''),
     (''attempt_failed'', ''req.route_failed_status''),
     (''no_candidate'', ''req.route_unavailable''),
     (''provider_cooldown'', ''req.diag_status_skipped''),
     (''key_cooldown'', ''req.diag_status_skipped''),
     (''key_disabled'', ''req.diag_status_skipped''),
     (''model_unsupported_by_key'', ''req.diag_status_skipped''),
     (''compatibility_circuit'', ''req.diag_status_skipped''),
     (''duplicate_candidate'', ''req.diag_status_skipped'')]"

definition routingDiagnosticStatus :: "translator \<Rightarrow> jsval \<Rightarrow> string" where
  "routingDiagnosticStatus tr e =
     (case map_of status_keys (str_or_empty (get e ''code'')) of
        Some key \<Rightarrow> tr key [] | None \<Rightarrow> tr ''req.diag_status_observed'' [])"

definition routingDiagnosticHeadline :: "translator \<Rightarrow> jsval \<Rightarrow> string" where
  "routingDiagnosticHeadline tr e =
     (let fmt = Str (routingFormatDisplayName (jor (get e ''target_format'') (get e ''upstream_format'')));
          provider = Str (to_str (jor (get e ''provider'') (Str ''-'')));
          field = jor (get e ''field'') (Str ''-'');
          target = jor (get e ''target'') (Str ''-'')
      in if has_code ''format_eligible'' e then tr ''req.diag_format_eligible'' [(''format'', fmt)]
         else if has_code ''format_blocked_by_parameter'' e
         then tr ''req.diag_format_blocked'' [(''format'', fmt), (''field'', field)]
         else if has_code ''format_parameter_mapped'' e
         then tr ''req.diag_parameter_mapped'' [(''field'', field), (''target'', target)]
         else if has_code ''format_hint_dropped'' e
         then tr ''req.diag_hint_omitted'' [(''field'', field), (''format'', fmt)]
         else if has_code ''selected'' e then tr ''req.diag_provider_selected'' [(''provider'', provider)]
         else if has_code ''attempt_succeeded'' e then tr ''req.diag_upstream_success'' [(''provider'', provider)]
         else if has_code ''attempt_failed'' e then tr ''req.diag_upstream_failed'' [(''provider'', provider)]
         else if has_code ''no_candidate'' e then tr ''req.diag_no_candidate'' []
         else if stage_is ''routing'' e then tr ''req.diag_candidate_skipped'' [(''provider'', provider)]
         else routingTraceCodeLabel tr (get e ''code''))"

definition fidelity_keys :: "(string \<times> string) list" where
  "fidelity_keys = [(''lossless'', ''req.diag_fidelity_lossless''), (''mapped'', ''req.diag_fidelity_mapped''),
     (''safe_drop'', ''req.diag_fidelity_safe_drop''), (''blocked'', ''req.diag_fidelity_blocked'')]"

definition routingDiagnosticDescription :: "translator \<Rightarrow> jsval \<Rightarrow> string" where
  "routingDiagnosticDescription tr e =
     (case map_of fidelity_keys (str_or_empty (get e ''fidelity'')) of
        Some key \<Rightarrow> tr key []
      | None \<Rightarrow>
          if has_code ''attempt_succeeded'' e then tr ''req.diag_upstream_success_desc'' []
          else if has_code ''attempt_failed'' e \<and> truthy (event_reason e)
          then tr ''req.route_failure_reason'' [(''reason'', event_reason e)]
          else if stage_is ''routing'' e \<and> \<not> code_in [''selected'', ''no_candidate''] e
          then routingTraceCodeLabel tr (get e ''code'')
          else [])"

definition routingDiagnosticIcon :: "jsval \<Rightarrow> string" where
  "routingDiagnosticIcon e =
     (if has_code ''attempt_succeeded'' e then ''check''
      else if code_in [''attempt_failed'', ''no_candidate'', ''format_blocked_by_parameter''] e then ''alert''
      else if has_code ''selected'' e then ''radar''
      else if stage_is ''format_compatibility'' e then ''layers''
      else if stage_is ''routing'' e then ''filter''
      else ''dot'')"

definition renderRoutingDiagnosticEvent :: "translator \<Rightarrow> nat \<Rightarrow> jsval \<Rightarrow> string" where
  "renderRoutingDiagnosticEvent tr index e =
     (let identity = routingTraceIdentity e; details = routingDiagnosticDetails tr e;
          description = routingDiagnosticDescription tr e
      in (nl 6 @ ''<li class=\"routing-diagnostic-event tone-'' @
         (esc (trace_tone (code_tone (get e ''code'')))) @ ''\">'' @ nl 8 @
         ''<span class=\"routing-diagnostic-marker\" aria-hidden=\"true\">'' @
         (iconSvg (routingDiagnosticIcon e)) @ ''</span>'' @ nl 8 @
         ''<div class=\"routing-diagnostic-content\">'' @ nl 10 @
         ''<div class=\"routing-diagnostic-head\">'' @ nl 12 @ ''<div><strong>'' @
         (esc (routingDiagnosticHeadline tr e)) @ ''</strong><small>'' @
         (esc (fmtInt (count_val (index + 1)) @ middot @ routingDiagnosticStageLabel tr e)) @
         ''</small></div>'' @ nl 12 @ ''<span class=\"routing-diagnostic-status\">'' @
         (esc (routingDiagnosticStatus tr e)) @
         (if num_lt (Fin 1) (repeat_count e) then ('' '' @ [CHR 0xD7] @ (fmtInt (get e ''_repeatCount''))) else []) @
         ''</span>'' @ nl 10 @ ''</div>'' @ nl 10 @
         (if identity \<noteq> [] \<and> \<not> stage_is ''format_compatibility'' e then (''<div class=\"routing-diagnostic-identity\">'' @ (chipList (Arr identity) ''-'') @
           ''</div>'') else []) @ nl 10 @
         (if description \<noteq> [] then (''<p>'' @ (messageMarkup (Str description)) @ ''</p>'') else []) @
         nl 10 @ (if truthy (get e ''owner'') then (''<p class=\"routing-diagnostic-owner\">'' @
           (esc (tr ''req.diag_owner_value'' [(''owner'', get e ''owner'')])) @ ''</p>'') else []) @
         nl 10 @
         (if details \<noteq> [] \<and> \<not> truthy (get e ''fidelity'') then (''<p class=\"routing-diagnostic-meta\">'' @
           (messageMarkup (Str (js_join middot details))) @ ''</p>'') else []) @ nl 10 @
         ''<small class=\"routing-diagnostic-internal\"><span>'' @
         (esc (tr ''req.diag_internal_id'' [])) @ ''</span><code>'' @
         (escapeHtml (jor (get e ''stage'') (Str ''routing''))) @ ''</code><i>/</i><code>'' @
         (escapeHtml (jor (get e ''code'') (Str ''unknown''))) @ ''</code></small>'' @ nl 8 @
         ''</div>'' @ nl 6 @ ''</li>'' @ nl 4))"

section \<open>The whole trace and the summaries\<close>

definition render_indexed :: "(nat \<Rightarrow> 'a \<Rightarrow> string) \<Rightarrow> 'a list \<Rightarrow> string" where
  "render_indexed f xs = concat (map (\<lambda>(i, x). f i x) (enumerate 0 xs))"

definition renderRoutingTrace :: "translator \<Rightarrow> jsval \<Rightarrow> jsval \<Rightarrow> string option" where
  "renderRoutingTrace tr rawTrace context =
     (let trace = arr_or_empty rawTrace; steps = groupRoutingTrace (Arr trace) in
      if trace = [] then Some []
      else (case collapseRoutingDiagnostics trace of None \<Rightarrow> None
        | Some diagnostics \<Rightarrow> Some (nl 6 @
           ''<section class=\"routing-path-shell\" aria-labelledby=\"routing-path-title\">'' @
           nl 8 @ ''<header class=\"routing-path-header\">'' @ nl 10 @ ''<div>'' @ nl 12 @
           ''<h3 id=\"routing-path-title\">'' @ iconSvg ''radar'' @ ''<span>'' @
           (esc (tr ''req.route_path'' [])) @ ''</span></h3>'' @ nl 12 @ ''<p>'' @
           (esc (tr ''req.route_path_desc'' [])) @ ''</p>'' @ nl 10 @ ''</div>'' @ nl 10 @
           ''<span class=\"routing-path-count\">'' @
           (esc (tr ''req.route_steps_events'' [(''steps'', Str (fmtInt (count_val (length steps)))), (''events'', Str (fmtInt (count_val (length trace))))])) @
           ''</span>'' @ nl 8 @ ''</header>'' @ nl 8 @
           ''<ol class=\"routing-path\" aria-label=\"'' @ (esc (tr ''req.route_path'' [])) @
           ''\">'' @ nl 10 @ (render_indexed (renderRoutingTraceStep tr context) steps) @ nl 8 @
           ''</ol>'' @ nl 8 @ ''<details class=\"routing-diagnostics\">'' @ nl 10 @
           ''<summary>'' @ nl 12 @ ''<span class=\"routing-diagnostics-title\">'' @
           iconSvg ''info'' @ ''<span><strong>'' @ (esc (tr ''req.route_diagnostics'' [])) @
           ''</strong><small>'' @ (esc (tr ''req.route_diagnostics_desc'' [])) @
           ''</small></span></span>'' @ nl 12 @ ''<span class=\"routing-diagnostics-count\">'' @
           (esc (tr ''req.route_event_count'' [(''count'', Str (fmtInt (count_val (length trace))))])) @
           ''</span>'' @ nl 10 @ ''</summary>'' @ nl 10 @
           ''<ol class=\"routing-diagnostic-list\">'' @ nl 12 @
           (render_indexed (renderRoutingDiagnosticEvent tr) diagnostics) @ nl 10 @ ''</ol>'' @
           nl 8 @ ''</details>'' @ nl 6 @ ''</section>'' @ nl 4)))"

definition routingSummaryInline :: "translator \<Rightarrow> jsval \<Rightarrow> string" where
  "routingSummaryInline tr summary =
     (if \<not> is_object summary then messageMarkup (Str ''-'')
      else (let outcome = jor (get summary ''outcome'') (Str ''unknown'') in
     (nl 6 @ ''<div class=\"route-inline tone-'' @ (esc (toneForText outcome)) @ ''\">'' @
        nl 8 @ (badge (routeOutcomeLabel tr outcome) (routeOutcomeTone outcome)) @ nl 8 @
        ''<span>'' @ (messageMarkup (jor (get summary ''headline'') (Str ''-''))) @ ''</span>'' @
        nl 6 @ ''</div>'' @ nl 4)))"

definition renderRoutingSummary :: "translator \<Rightarrow> jsval \<Rightarrow> string" where
  "renderRoutingSummary tr summary =
     (if \<not> is_object summary \<or> \<not> truthy (get summary ''headline'') then []
      else (nl 6 @ ''<section class=\"routing-summary-card tone-'' @
         (esc (routeOutcomeTone (get summary ''outcome''))) @ ''\">'' @ nl 8 @
         ''<div class=\"routing-summary-head\">'' @ nl 10 @ ''<div>'' @ nl 12 @ ''<h3>'' @
         (esc (tr ''req.routing_summary'' [])) @ ''</h3>'' @ nl 12 @ ''<p>'' @
         (messageMarkup (get summary ''headline'')) @ ''</p>'' @ nl 10 @ ''</div>'' @ nl 10 @
         (badge (routeOutcomeLabel tr (get summary ''outcome'')) (routeOutcomeTone (get summary ''outcome''))) @
         nl 8 @ ''</div>'' @ nl 8 @ ''<div class=\"routing-summary-grid\">'' @ nl 10 @
         ''<span>'' @ (esc (tr ''req.summary_attempts'' [])) @ ''</span><strong>'' @
         (fmtInt (get summary ''attempts'')) @ ''</strong>'' @ nl 10 @ ''<span>'' @
         (esc (tr ''req.summary_failed'' [])) @ ''</span><strong>'' @
         (fmtInt (get summary ''failed_attempts'')) @ ''</strong>'' @ nl 10 @ ''<span>'' @
         (esc (tr ''req.summary_final_provider'' [])) @ ''</span><strong>'' @
         (escapeHtml (jor (get summary ''final_provider'') (Str ''-''))) @ ''</strong>'' @ nl 10 @
         ''<span>'' @ (esc (tr ''req.summary_final_format'' [])) @ ''</span><strong>'' @
         (chipList (Arr [jor (get summary ''final_upstream_format'') (Str ''-'')]) ''-'') @
         ''</strong>'' @ nl 8 @ ''</div>'' @ nl 8 @ ''<div class=\"routing-next-action\">'' @
         nl 10 @ ''<span>'' @ (esc (tr ''req.summary_next_action'' [])) @ ''</span>'' @ nl 10 @
         ''<strong>'' @ (messageMarkup (jor (get summary ''next_action'') (Str ''-''))) @
         ''</strong>'' @ nl 8 @ ''</div>'' @ nl 6 @ ''</section>'' @ nl 4))"

definition renderAttemptExplanation :: "jsval \<Rightarrow> string" where
  "renderAttemptExplanation explanation =
     (if \<not> is_object explanation then []
      else (nl 6 @ ''<div class=\"attempt-explain\">'' @ nl 8 @
         ''<div><span>Selected</span><strong>'' @
         (messageMarkup (jor (get explanation ''selected'') (Str ''-''))) @ ''</strong></div>'' @
         nl 8 @ ''<div><span>Result</span><strong>'' @
         (messageMarkup (jor (get explanation ''result'') (Str ''-''))) @ ''</strong></div>'' @
         nl 8 @ ''<div><span>Next</span><strong>'' @
         (messageMarkup (jor (get explanation ''next_step'') (Str ''-''))) @ ''</strong></div>'' @
         nl 6 @ ''</div>'' @ nl 4))"

end
