(* ===== verification/ProviderState.thy ===== *)
theory ProviderState
  imports KeyModels ProviderModelFacts ProviderSort TraceView
begin

text \<open>
  The provider page of \<open>app.js\<close> before rendering: key statistics, the runtime state of a provider,
  the views that are filtered and sorted, the capability items with their memo table, the
  enable/disable drafts of models, and the route strings \<open>name:weight:priority\<close>.

  \<open>console\<close> holds the parts of the page state these functions read: the server's status and
  configuration, the aggregated activity, the filters and the drafts. \<open>localeCompare\<close> is the
  parameter \<open>lc\<close> (\<open>lc a b\<close> for a non-positive result).
\<close>

type_synonym draft = "(string \<times> bool) list"

record console =
  c_status :: jsval
  c_config :: jsval
  c_activity :: jsval
  c_health :: jsval
  c_filters :: jsval
  c_modelFilters :: jsval
  c_drafts :: "(string \<times> draft) list"

section \<open>Keys\<close>

record key_stats =
  ks_total :: nat
  ks_usable :: nat
  ks_runtimeEnabled :: nat
  ks_cooldown :: nat
  ks_fails :: jsnum

definition key_usable :: "jsval \<Rightarrow> bool" where
  "key_usable key \<longleftrightarrow> truthy (get key ''available'') \<and> truthy (get key ''runtime_enabled'')"

definition key_cooling :: "jsval \<Rightarrow> bool" where
  "key_cooling key \<longleftrightarrow>
     num_lt (Fin 0) (first_num (get key ''cooldown_remaining_s'') (get key ''disabled_remaining_s''))"

definition providerKeyStats :: "jsval \<Rightarrow> jsval \<Rightarrow> key_stats" where
  "providerKeyStats runtimeKeys configKeys =
     (let ks = mergedProviderKeys runtimeKeys configKeys in
      \<lparr>ks_total = length ks,
       ks_usable = length (filter key_usable ks),
       ks_runtimeEnabled = length (filter (\<lambda>k. truthy (get k ''runtime_enabled'')) ks),
       ks_cooldown = length (filter key_cooling ks),
       ks_fails = foldl (\<lambda>s k. num_add s (num_or_zero (get k ''fails''))) (Fin 0) ks\<rparr>)"

section \<open>The state of a provider\<close>

record runtime_state =
  rs_id :: string
  rs_label :: string
  rs_tone :: string
  rs_badge :: string

definition not_false :: "jsval \<Rightarrow> bool" where
  "not_false v \<longleftrightarrow> v \<noteq> Bool False"

definition provider_enabled :: "jsval \<Rightarrow> jsval \<Rightarrow> bool" where
  "provider_enabled p config \<longleftrightarrow> not_false (get p ''enabled'') \<and> not_false (get p ''config_enabled'')
     \<and> not_false (get p ''runtime_enabled'') \<and> not_false (get config ''enabled'')"

definition runtime_state_of :: "string \<Rightarrow> string \<Rightarrow> string \<Rightarrow> string \<Rightarrow> runtime_state" where
  "runtime_state_of i l tn b = \<lparr>rs_id = i, rs_label = l, rs_tone = tn, rs_badge = b\<rparr>"

definition providerRuntimeState :: "jsval \<Rightarrow> key_stats option \<Rightarrow> jsval \<Rightarrow> runtime_state" where
  "providerRuntimeState p keyStats config =
     (let stats = (case keyStats of Some s \<Rightarrow> s
                   | None \<Rightarrow> providerKeyStats (Arr (arr_or_empty (get p ''keys''))) (Arr []))
      in if \<not> provider_enabled p config
         then runtime_state_of ''disabled'' ''disabled'' ''is-disabled'' ''disabled''
         else if num_lt (Fin 0) (num_or_zero (get p ''cooldown_remaining_s''))
         then runtime_state_of ''cooldown'' ''cooldown'' ''is-cooldown'' ''warn''
         else if 0 < ks_total stats \<and> ks_usable stats = 0 then
           (if 0 < ks_cooldown stats
            then runtime_state_of ''cooldown'' ''key cooldown'' ''is-cooldown'' ''warn''
            else runtime_state_of ''unavailable'' ''no usable key'' ''is-unavailable'' ''bad'')
         else if truthy (get p ''has_hard_failure'')
         then runtime_state_of ''degraded'' ''degraded'' ''is-degraded'' ''warn''
         else if num_lt (Fin 0) (num_or_zero (get p ''compatibility_circuit_count''))
         then runtime_state_of ''degraded'' ''compatibility degraded'' ''is-degraded'' ''warn''
         else if truthy (get p ''available'') then
           (if 0 < ks_total stats \<and> ks_usable stats < ks_total stats
            then runtime_state_of ''degraded'' ''degraded'' ''is-degraded'' ''warn''
            else runtime_state_of ''normal'' ''normal'' ''is-available'' ''ok'')
         else runtime_state_of ''unavailable'' ''unavailable'' ''is-unavailable'' ''bad'')"

section \<open>Views\<close>

definition obj_or_empty :: "jsval \<Rightarrow> jsval" where
  "obj_or_empty v = jor v (Obj [])"

definition enabledFormats :: "jsval \<Rightarrow> string list" where
  "enabledFormats fmts =
     map fst (filter (\<lambda>e. truthy (snd e) \<and> truthy (get (snd e) ''enabled'')) (js_entries (obj_or_empty fmts)))"

definition string_le :: "string \<Rightarrow> string \<Rightarrow> bool" where
  "string_le a b \<longleftrightarrow> code_unit_compare a b \<le> 0"

definition providerNames :: "jsval \<Rightarrow> jsval \<Rightarrow> string list" where
  "providerNames runtimeProviders configProviders =
     js_sort string_le
       (filter (\<lambda>name. \<not> truthy (get (get configProviders name) ''pending_delete''))
         (first_by (\<lambda>s. s) []
           (map fst (js_entries (obj_or_empty runtimeProviders))
            @ map fst (js_entries (obj_or_empty configProviders)))))"

definition runtime_of :: "console \<Rightarrow> string \<Rightarrow> jsval" where
  "runtime_of c name = obj_or_empty (get (get (get (c_status c) ''router'') ''providers'') name)"

definition config_of :: "console \<Rightarrow> string \<Rightarrow> jsval" where
  "config_of c name = obj_or_empty (get (get (c_config c) ''providers'') name)"

definition capability_of :: "console \<Rightarrow> string \<Rightarrow> jsval" where
  "capability_of c name = obj_or_empty (get (get (get (c_status c) ''models'') ''providers'') name)"

definition emptyActivity :: jsval where
  "emptyActivity = Obj [(''events'', Arr []), (''total'', jnum 0), (''ok'', jnum 0), (''warn'', jnum 0),
     (''bad'', jnum 0), (''successRate'', Null), (''latestLatency'', jnum 0), (''avgLatency'', jnum 0),
     (''lastError'', Null)]"

definition providerActivity :: "console \<Rightarrow> string \<Rightarrow> jsval" where
  "providerActivity c name = jor (get (c_activity c) name) emptyActivity"

record light_view =
  lv_name :: string
  lv_runtime :: jsval
  lv_config :: jsval
  lv_priority :: jsnum
  lv_capability :: jsval
  lv_formats :: jsval
  lv_keyStats :: key_stats
  lv_formatNames :: "string list"
  lv_activity :: jsval
  lv_runtimeState :: runtime_state
  lv_modelCount :: nat

definition provider_priority :: "jsval \<Rightarrow> jsval \<Rightarrow> jsnum" where
  "provider_priority runtime config =
     to_num (jcoalesce (get runtime ''priority'') (jcoalesce (get config ''priority'') (jnum 0)))"

text \<open>\<open>Array.isArray(config.keys) ? config.keys : null\<close>.\<close>

definition config_keys :: "jsval \<Rightarrow> jsval" where
  "config_keys config = (if is_array (get config ''keys'') then get config ''keys'' else Null)"

definition view_key_stats :: "jsval \<Rightarrow> jsval \<Rightarrow> key_stats" where
  "view_key_stats runtime config =
     providerKeyStats (Arr (arr_or_empty (get runtime ''keys''))) (config_keys config)"

definition providerLightView :: "console \<Rightarrow> string \<Rightarrow> light_view" where
  "providerLightView c name =
     (let runtime = runtime_of c name; config = config_of c name; capability = capability_of c name;
          fmts = jor (get config ''formats'') (obj_or_empty (get runtime ''formats''));
          keyStats = view_key_stats runtime config;
          n = length (arr_or_empty (get capability ''models''))
      in \<lparr>lv_name = name, lv_runtime = runtime, lv_config = config,
          lv_priority = provider_priority runtime config, lv_capability = capability,
          lv_formats = fmts, lv_keyStats = keyStats, lv_formatNames = enabledFormats fmts,
          lv_activity = providerActivity c name,
          lv_runtimeState = providerRuntimeState runtime (Some keyStats) config,
          lv_modelCount = (if n \<noteq> 0 then n
             else length (js_entries (obj_or_empty (get capability ''canonical_map''))))\<rparr>)"

section \<open>Filters\<close>

text \<open>The toolbar filters before the search box, shared by both versions of the filter.\<close>

definition toolbar_match :: "jsval \<Rightarrow> light_view \<Rightarrow> bool" where
  "toolbar_match filters view \<longleftrightarrow>
     (let usable = ks_usable (lv_keyStats view); all_keys = ks_total (lv_keyStats view);
          keys = get filters ''keys''
      in (truthy (get filters ''format'') \<longrightarrow> get filters ''format'' \<in> Str ` set (lv_formatNames view))
       \<and> (truthy (get filters ''status'') \<longrightarrow> get filters ''status'' = Str (rs_id (lv_runtimeState view)))
       \<and> (keys = Str ''usable'' \<longrightarrow> 0 < usable)
       \<and> (keys = Str ''partial'' \<longrightarrow> 0 < usable \<and> usable < all_keys)
       \<and> (keys = Str ''none'' \<longrightarrow> usable = 0)
       \<and> (keys = Str ''cooldown'' \<longrightarrow> 0 < ks_cooldown (lv_keyStats view)))"

definition search_text :: "jsval \<Rightarrow> string" where
  "search_text filters = js_lower (trimmed (get filters ''search''))"

definition providerMatchesFiltersLight :: "jsval \<Rightarrow> light_view \<Rightarrow> bool" where
  "providerMatchesFiltersLight filters view =
     (if \<not> toolbar_match filters view then False
      else if search_text filters = [] then True
      else js_includes (search_text filters)
        (js_lower (join_vals '' '' [Str (lv_name view), get (lv_config view) ''base_url'',
            Str (rs_label (lv_runtimeState view)), Str (js_join '' '' (lv_formatNames view)),
            get (get (lv_activity view) ''lastError'') ''reason''])))"

definition providerMatchesFilters :: "jsval \<Rightarrow> light_view \<Rightarrow> jsval list \<Rightarrow> bool" where
  "providerMatchesFilters filters view modelItems =
     (if \<not> toolbar_match filters view then False
      else if search_text filters = [] then True
      else js_includes (search_text filters)
        (js_lower (join_vals '' '' [Str (lv_name view), get (lv_config view) ''base_url'',
            Str (rs_label (lv_runtimeState view)), Str (js_join '' '' (lv_formatNames view)),
            Str (js_join '' '' (map (\<lambda>i. to_str (get i ''label'') @ '' '' @ to_str (get i ''raw'')) modelItems))])))"

section \<open>Capability items\<close>

type_synonym items_acc = "jsval list \<times> string list"

text \<open>The local \<open>push\<close> of \<open>modelCapabilityItems\<close>: items so far and the keys already seen.\<close>

definition push_capability :: "jsval \<Rightarrow> jsval \<Rightarrow> items_acc \<Rightarrow> items_acc" where
  "push_capability label raw acc =
     (let safeLabel = js_trim (to_str (jor (jor label raw) (Str []))); safeRaw = trimmed raw;
          kl = js_lower safeLabel; kr = js_lower safeRaw
      in if safeLabel = [] then acc
         else if kl \<in> set (snd acc) \<or> kr \<in> set (snd acc) then acc
         else (fst acc @ [Obj [(''label'', Str safeLabel), (''raw'', Str safeRaw),
                 (''title'', Str (if safeRaw \<noteq> [] \<and> safeRaw \<noteq> safeLabel
                                  then safeLabel @ '' maps to '' @ safeRaw else safeLabel))]],
               filter (\<lambda>k. k \<noteq> []) [kr, kl] @ snd acc))"

definition modelCapabilityItems :: "(string \<Rightarrow> string \<Rightarrow> bool) \<Rightarrow> jsval \<Rightarrow> jsval \<Rightarrow> jsval list" where
  "modelCapabilityItems lc models canonicalMap =
     (let acc1 = foldl (\<lambda>acc e. push_capability (Str (fst e)) (snd e) acc) ([], [])
            (js_sort (\<lambda>a b. lc (fst a) (fst b)) (js_entries (obj_or_empty canonicalMap)));
          acc2 = foldl (\<lambda>acc m. push_capability m m acc) acc1
            (js_sort (\<lambda>a b. lc (to_str a) (to_str b)) (arr_or_empty models))
      in fst acc2)"

text \<open>
  The memo table: it is emptied whenever the data version changes or it holds 512 entries, and is
  keyed by the provider name.
\<close>

record memo =
  memo_version :: string
  memo_items :: "(string \<times> jsval list) list"

definition memo_empty :: memo where
  "memo_empty = \<lparr>memo_version = [], memo_items = []\<rparr>"

definition memo_at :: "string \<Rightarrow> memo \<Rightarrow> memo" where
  "memo_at version m =
     (if version \<noteq> memo_version m then \<lparr>memo_version = version, memo_items = []\<rparr> else m)"

definition modelCapabilityItemsMemo ::
  "(string \<Rightarrow> string \<Rightarrow> bool) \<Rightarrow> string \<Rightarrow> string \<Rightarrow> jsval \<Rightarrow> jsval \<Rightarrow> memo \<Rightarrow> jsval list \<times> memo" where
  "modelCapabilityItemsMemo lc version name models canonicalMap m =
     (let m1 = memo_at version m in
      case map_of (memo_items m1) name of
        Some items \<Rightarrow> (items, m1)
      | None \<Rightarrow>
          (let items = modelCapabilityItems lc models canonicalMap;
               kept = (if 512 \<le> length (memo_items m1) then [] else memo_items m1)
           in (items, m1\<lparr>memo_items := set_prop name items kept\<rparr>)))"

section \<open>Routes\<close>

record route_item =
  ri_name :: jsval
  ri_weight :: jsval
  ri_priority :: jsval

fun nth_or_undef :: "nat \<Rightarrow> string list \<Rightarrow> jsval" where
  "nth_or_undef n [] = Undef"
| "nth_or_undef 0 (x # xs) = Str x"
| "nth_or_undef (Suc n) (x # xs) = nth_or_undef n xs"

definition route_string_item :: "string \<Rightarrow> route_item" where
  "route_string_item s =
     (let parts = map js_trim (js_split (\<lambda>c. c = CHR '':'') s);
          p2 = nth_or_undef 2 parts;
          priority = (if p2 = Undef \<or> p2 = Str [] then Null
                      else Num (str_to_num (js_join '':'' (drop 2 parts))))
      in \<lparr>ri_name = jor (nth_or_undef 0 parts) (Str []),
          ri_weight = Num (to_num (jor (nth_or_undef 1 parts) (jnum 1))),
          ri_priority = (case priority of Num (Fin q) \<Rightarrow> jnum q | _ \<Rightarrow> Null)\<rparr>)"

definition route_entry :: "jsval \<Rightarrow> route_item option" where
  "route_entry item =
     (case item of
        Str s \<Rightarrow> Some (route_string_item s)
      | _ \<Rightarrow> if is_object item
            then Some \<lparr>ri_name = jor (get item ''name'') (Str []),
                       ri_weight = jor (get item ''weight'') (jnum 1),
                       ri_priority = jcoalesce (get item ''priority'') Null\<rparr>
            else None)"

definition routeProviderItems :: "jsval \<Rightarrow> route_item list" where
  "routeProviderItems provs =
     filter (\<lambda>i. truthy (ri_name i)) (List.map_filter route_entry (arr_or_empty provs))"

definition parseRouteProvidersInput :: "jsval \<Rightarrow> route_item list" where
  "parseRouteProvidersInput v =
     routeProviderItems (Arr (map Str (filter (\<lambda>s. s \<noteq> [])
       (map js_trim (js_split (\<lambda>c. c = CHR '','') (str_or_empty v))))))"

definition route_item_text :: "route_item \<Rightarrow> string" where
  "route_item_text i =
     to_str (ri_name i) @ '':'' @ to_str (jor (ri_weight i) (jnum 1))
     @ (if \<not> nullish (ri_priority i) then '':'' @ to_str (ri_priority i) else [])"

definition routeProvidersText :: "jsval \<Rightarrow> string" where
  "routeProvidersText provs = js_join '', '' (map route_item_text (routeProviderItems provs))"

definition providerRouteModels :: "(string \<Rightarrow> string \<Rightarrow> bool) \<Rightarrow> console \<Rightarrow> string \<Rightarrow> string list" where
  "providerRouteModels lc c name =
     js_sort lc (map fst (filter
       (\<lambda>e. \<exists>item \<in> set (routeProviderItems (get (snd e) ''providers'')). ri_name item = Str name)
       (js_entries (obj_or_empty (get (get (c_config c) ''models'') ''routes'')))))"

section \<open>Enable and disable drafts\<close>

text \<open>\<open>provider_model_disabled[provider]\<close>, an object or nothing.\<close>

definition providerModelDisabledMap :: "jsval \<Rightarrow> string \<Rightarrow> jsval" where
  "providerModelDisabledMap config provider =
     (let d = obj_or_empty (get (get (get config ''models'') ''provider_model_disabled'') provider)
      in if is_object d then d else Obj [])"

definition savedProviderModelDisabled :: "jsval \<Rightarrow> string \<Rightarrow> string \<Rightarrow> bool" where
  "savedProviderModelDisabled config provider model =
     (let d = providerModelDisabledMap config provider in
      truthy (get d model) \<or> truthy (get d (js_lower model)))"

definition providerModelDraft :: "(string \<times> draft) list \<Rightarrow> string \<Rightarrow> draft" where
  "providerModelDraft drafts provider =
     (case map_of drafts provider of Some d \<Rightarrow> d | None \<Rightarrow> [])"

definition isProviderModelDisabled :: "jsval \<Rightarrow> (string \<times> draft) list \<Rightarrow> string \<Rightarrow> string \<Rightarrow> bool" where
  "isProviderModelDisabled config drafts provider model =
     (case map_of (providerModelDraft drafts provider) model of
        Some b \<Rightarrow> b | None \<Rightarrow> savedProviderModelDisabled config provider model)"

definition draft_write :: "jsval \<Rightarrow> string \<Rightarrow> string \<Rightarrow> bool \<Rightarrow> draft \<Rightarrow> draft" where
  "draft_write config provider model disabled d =
     (if disabled = savedProviderModelDisabled config provider model
      then del_prop model d else set_prop model disabled d)"

definition store_draft :: "string \<Rightarrow> draft \<Rightarrow> (string \<times> draft) list \<Rightarrow> (string \<times> draft) list" where
  "store_draft provider d drafts = (if d \<noteq> [] then set_prop provider d drafts else del_prop provider drafts)"

definition setProviderModelDisabledDraft ::
  "jsval \<Rightarrow> string \<Rightarrow> string \<Rightarrow> bool \<Rightarrow> (string \<times> draft) list \<Rightarrow> (string \<times> draft) list" where
  "setProviderModelDisabledDraft config provider model disabled drafts =
     (if provider = [] \<or> model = [] then drafts
      else store_draft provider
             (draft_write config provider model disabled (providerModelDraft drafts provider)) drafts)"

definition setProviderModelsDisabledDraft ::
  "jsval \<Rightarrow> string \<Rightarrow> (string \<times> bool) list \<Rightarrow> (string \<times> draft) list \<Rightarrow> (string \<times> draft) list" where
  "setProviderModelsDisabledDraft config provider modelStates drafts =
     (if provider = [] then drafts
      else store_draft provider
        (foldl (\<lambda>d (model, disabled). if model = [] then d else draft_write config provider model disabled d)
           (providerModelDraft drafts provider) (own_entries modelStates)) drafts)"

definition providerModelDraftCount :: "(string \<times> draft) list \<Rightarrow> string \<Rightarrow> nat" where
  "providerModelDraftCount drafts provider = length (providerModelDraft drafts provider)"

definition filteredProviderModelItems :: "jsval \<Rightarrow> jsval list \<Rightarrow> jsval list" where
  "filteredProviderModelItems filters items =
     (let search = search_text filters; status = str_or_empty (get filters ''status'') in
      filter (\<lambda>item.
        if status = ''enabled'' \<and> truthy (get item ''disabled'') then False
        else if status = ''disabled'' \<and> \<not> truthy (get item ''disabled'') then False
        else if search = [] then True
        else js_includes search (js_lower
          (join_vals '' '' [get item ''label'', get item ''raw'', get item ''title'']))) items)"

end
