(* ===== verification/Pricing.thy ===== *)
theory Pricing
  imports RuntimeRefresh ModelUsageView ProviderState
begin

text \<open>
  Model prices (\<open>app.js\<close>): the names whose prices the console asks for, the batched request and its reply, the
  lookup of a label and its tooltip, and the price catalogue of the settings with the operator's overrides.

  \<open>le\<close> is \<open>localeCompare\<close> as an order. A value the code calls \<open>forEach\<close> on is an array, or absent: any other
  value is the thrown error \<open>None\<close>.
\<close>

section \<open>The names to ask for\<close>

text \<open>\<open>(v || []).forEach\<close>.\<close>

definition each_of :: "jsval \<Rightarrow> jsval list option" where
  "each_of v = (if truthy v then (case v of Arr xs \<Rightarrow> Some xs | _ \<Rightarrow> None) else Some [])"

definition truthy_names :: "jsval list \<Rightarrow> string list" where
  "truthy_names vs = map to_str (filter truthy vs)"

definition map_names :: "jsval \<Rightarrow> string list" where
  "map_names m = concat (map (\<lambda>(k, v). truthy_names [Str k, v]) (js_entries (jor m (Obj []))))"

definition capability_names :: "jsval \<Rightarrow> string list option" where
  "capability_names caps =
     map_option concat (those (map (\<lambda>(p, entry).
         if truthy entry \<and> is_object entry
         then map_option (\<lambda>ms. truthy_names ms @ map_names (get entry ''canonical_map'')) (each_of (get entry ''models''))
         else Some []) (js_entries caps)))"

text \<open>A \<open>Set\<close> keeps first occurrences; \<open>Array.prototype.sort\<close> without comparator orders by code units.\<close>

definition collectModelNames :: "jsval \<Rightarrow> jsval \<Rightarrow> string list option" where
  "collectModelNames status config =
     (case (capability_names (jor (get (get status ''models'') ''providers'') (Obj [])), each_of (get (get status ''models'') ''union_model_ids'')) of
        (Some caps, Some unionIds) \<Rightarrow>
          (let maps = concat (map (\<lambda>(p, m). if truthy m \<and> is_object m then map_names m else [])
                 (js_entries (jor (get (get config ''models'') ''provider_model_map'') (Obj []))));
               routes = get (get config ''models'') ''routes'';
               routeNames = (if truthy routes then filter (\<lambda>k. k \<noteq> []) (map fst (js_entries routes)) else [])
           in Some (js_sort string_le (filter (\<lambda>n. n \<noteq> [])
                 (first_by (\<lambda>n. n) [] (caps @ maps @ routeNames @ truthy_names unionIds)))))
      | _ \<Rightarrow> None)"

section \<open>Lookup\<close>

text \<open>\<open>s.split(/[\/\s]+/)\<close>: a run of separators is one cut.\<close>

definition is_path_sep :: "char \<Rightarrow> bool" where
  "is_path_sep c \<longleftrightarrow> c = CHR ''/'' \<or> is_js_space c"

definition split_runs :: "(char \<Rightarrow> bool) \<Rightarrow> string \<Rightarrow> string list" where
  "split_runs p s =
     (case js_split p s of [] \<Rightarrow> [] | [x] \<Rightarrow> [x] | x # ys \<Rightarrow> x # filter (\<lambda>w. w \<noteq> []) (butlast ys) @ [last ys])"

definition normal_label :: "string \<Rightarrow> string" where
  "normal_label s =
     filter (\<lambda>c. let n = code_unit c in (97 \<le> n \<and> n \<le> 122) \<or> (48 \<le> n \<and> n \<le> 57) \<or> n = 45)
       (map (\<lambda>c. if c = CHR ''.'' \<or> is_path_sep c then CHR ''-'' else c) (js_lower s))"

definition price_keys :: "string \<Rightarrow> string list" where
  "price_keys name =
     (let parts = split_runs is_path_sep name in
      [name, js_lower name] @ (if 1 < length parts then [last parts, js_lower (last parts)] else []) @ [normal_label name])"

definition available :: "jsval \<Rightarrow> bool" where
  "available entry \<longleftrightarrow> truthy entry \<and> truthy (get entry ''available'')"

definition lookupPricing :: "jsval \<Rightarrow> jsval \<Rightarrow> jsval" where
  "lookupPricing pricing modelName =
     (if \<not> truthy modelName then Null
      else (case find (\<lambda>k. available (get (jor pricing (Obj [])) k)) (price_keys (to_str modelName)) of
          Some k \<Rightarrow> get (jor pricing (Obj [])) k
        | None \<Rightarrow> Null))"

definition given :: "jsval \<Rightarrow> bool" where
  "given v \<longleftrightarrow> \<not> nullish v \<and> v \<noteq> Str []"

definition price_line :: "translator \<Rightarrow> string \<Rightarrow> jsval \<Rightarrow> string" where
  "price_line tr key v = ((tr key []) @ '' '' @ fmtCost v @ ''/M'')"

definition price_lines :: "translator \<Rightarrow> jsval \<Rightarrow> string list" where
  "price_lines tr entry =
     (let input = get entry ''input''; output = get entry ''output'';
          cacheRead = jcoalesce (get entry ''cache_read_per_million'') (get entry ''cache_hit'');
          cacheWrite = get entry ''cache_write_per_million''; blended = get entry ''blended_per_million''
      in [price_line tr ''pricing.input'' input, price_line tr ''pricing.output'' output]
         @ (if given cacheRead then [price_line tr ''pricing.cache_read'' cacheRead] else [])
         @ (if given cacheWrite then [price_line tr ''pricing.cache_write'' cacheWrite]
            else if truthy (get entry ''cache_write_estimated'') \<and> given input
            then [price_line tr ''pricing.cache_write_estimated'' input] else [])
         @ (if \<not> nullish blended then [price_line tr ''pricing.blended'' blended] else []))"

definition modelPriceTooltip :: "translator \<Rightarrow> jsval \<Rightarrow> jsval \<Rightarrow> string" where
  "modelPriceTooltip tr pricing modelName =
     (let entry = lookupPricing pricing modelName in
      if \<not> truthy entry then []
      else (''<span class=\"model-price-tip\" data-tip=\"'' @
         (esc (js_join ('' '' @ [CHR 0xB7] @ '' '') (price_lines tr entry))) @
         ''\" tabindex=\"0\" aria-label=\"'' @
         (esc (tr ''misc.pricing_for'' [(''model'', modelName)])) @ ''\">'' @ iconSvg ''info'' @
         ''</span>''))"

section \<open>Fetching the prices\<close>

definition MODEL_PRICING_BATCH_SIZE :: nat where "MODEL_PRICING_BATCH_SIZE = 80"
definition MODEL_PRICING_REFRESH_MS :: rat where "MODEL_PRICING_REFRESH_MS = 30000"

record price_item =
  pi_name :: string
  pi_input :: jsval
  pi_output :: jsval
  pi_cache :: jsval
  pi_manual :: bool

record pricing_ui =
  px_pricing :: jsval
  px_sequence :: nat
  px_lastKey :: string
  px_lastAt :: rat
  px_fetching :: bool
  px_catalog :: "price_item list option"
  px_loading :: bool
  px_loadInFlight :: bool
  px_query :: string
  px_page :: jsnum

text \<open>The slices of the batch loop.\<close>

function batches :: "nat \<Rightarrow> 'a list \<Rightarrow> 'a list list" where
  "batches n xs = (if xs = [] \<or> n = 0 then [] else take n xs # batches n (drop n xs))"
  by pat_completeness auto
termination
  by (relation "measure (\<lambda>(n, xs). length xs)") auto

declare batches.simps [simp del]

definition pricing_url :: "string list \<Rightarrow> string" where
  "pricing_url batch = (''/-/admin/model-pricing?models='' @ (encodeURIComponent (js_join ('','') batch)))"

definition startModelPricing :: "string list \<Rightarrow> pricing_ui \<Rightarrow> pricing_ui \<times> nat \<times> string list" where
  "startModelPricing names s =
     (let n = Suc (px_sequence s)
      in (s\<lparr>px_sequence := n\<rparr>, n, map pricing_url (batches MODEL_PRICING_BATCH_SIZE names)))"

text \<open>The replies to all batches (\<open>Inl\<close> when one of them failed); the flag says whether the page is rendered again.\<close>

definition merged_pricing :: "jsval list \<Rightarrow> (string \<times> jsval) list" where
  "merged_pricing responses =
     foldl (\<lambda>acc r. spread acc (own_entries (obj_fields (jor (get r ''pricing'') (Obj []))))) [] responses"

definition finishModelPricing :: "nat \<Rightarrow> jsval list \<Rightarrow> pricing_ui \<Rightarrow> pricing_ui \<times> bool" where
  "finishModelPricing n responses s =
     (if n \<noteq> px_sequence s then (s, False)
      else (let merged = Obj (merged_pricing responses)
            in (s\<lparr>px_pricing := merged\<rparr>,
                runtimeSignature merged \<noteq> runtimeSignature (jor (px_pricing s) (Obj [])))))"

text \<open>The pricing step of \<open>refreshAll\<close>, and what the promise does at its end.\<close>

definition startPricingStep :: "rat \<Rightarrow> string list option \<Rightarrow> pricing_ui \<Rightarrow> pricing_ui \<times> (nat \<times> string list) option" where
  "startPricingStep now names s =
     (case names of
        None \<Rightarrow> (s\<lparr>px_pricing := jor (px_pricing s) (Obj []), px_lastAt := 0\<rparr>, None)
      | Some ns \<Rightarrow>
          (let key = js_join ('','') ns; expired = (MODEL_PRICING_REFRESH_MS \<le> now - px_lastAt s) in
           if ns \<noteq> [] \<and> (key \<noteq> px_lastKey s \<or> expired) \<and> \<not> px_fetching s
           then (let (s1, n, urls) = startModelPricing ns (s\<lparr>px_lastKey := key, px_lastAt := now, px_fetching := True\<rparr>)
                 in (s1, Some (n, urls)))
           else if ns = [] then (s\<lparr>px_pricing := Obj [], px_lastAt := 0\<rparr>, None)
           else (s, None)))"

definition finishPricingStep :: "nat \<Rightarrow> string + jsval list \<Rightarrow> pricing_ui \<Rightarrow> pricing_ui \<times> bool" where
  "finishPricingStep n outcome s =
     (case outcome of
        Inl err \<Rightarrow> (s\<lparr>px_lastAt := 0, px_fetching := False\<rparr>, False)
      | Inr responses \<Rightarrow>
          (let (s1, changed) = finishModelPricing n responses s in (s1\<lparr>px_fetching := False\<rparr>, changed)))"

section \<open>The catalogue of the settings\<close>

definition SETTINGS_PRICING_PAGE_SIZE :: rat where "SETTINGS_PRICING_PAGE_SIZE = 10"

text \<open>\<open>True\<close> when the call goes on to fetch.\<close>

definition startPricingCatalog :: "pricing_ui \<Rightarrow> pricing_ui \<times> bool" where
  "startPricingCatalog s =
     (if px_loadInFlight s then (s, False)
      else if px_catalog s \<noteq> None then (s, False)
      else (s\<lparr>px_loadInFlight := True, px_loading := True\<rparr>, True))"

definition catalog_of :: "(string \<Rightarrow> string \<Rightarrow> bool) \<Rightarrow> jsval \<Rightarrow> price_item list" where
  "catalog_of le reply =
     js_sort (\<lambda>a b. le (pi_name a) (pi_name b))
       (map (\<lambda>(name, v). \<lparr>pi_name = name, pi_input = get v ''input'', pi_output = get v ''output'',
                pi_cache = jcoalesce (get v ''cache_hit'') (get v ''cache_read_per_million''), pi_manual = False\<rparr>)
          (filter (\<lambda>(name, v). available v) (js_entries (jor (get (jor reply (Obj [])) ''pricing'') (Obj [])))))"

definition finishPricingCatalog :: "(string \<Rightarrow> string \<Rightarrow> bool) \<Rightarrow> string + jsval \<Rightarrow> pricing_ui \<Rightarrow> pricing_ui" where
  "finishPricingCatalog le outcome s =
     (let s1 = (case outcome of Inl err \<Rightarrow> s | Inr reply \<Rightarrow> s\<lparr>px_catalog := Some (catalog_of le reply)\<rparr>)
      in s1\<lparr>px_loading := False, px_loadInFlight := False\<rparr>)"

definition settingsPricingOverrides :: "jsval \<Rightarrow> jsval" where
  "settingsPricingOverrides config =
     jor (get (jor (get (jor config (Obj [])) ''models'') (Obj [])) ''pricing_overrides'') (Obj [])"

definition settingsPriceText :: "jsval \<Rightarrow> string" where
  "settingsPriceText v =
     (let n = to_num v in if \<not> is_finite n then ([CHR 0xE2, CHR 0x80, CHR 0x94]) else num_to_str (str_to_num (toFixed 4 n)))"

definition manual_items :: "jsval \<Rightarrow> price_item list \<Rightarrow> price_item list" where
  "manual_items overrides catalog =
     (let names = map (\<lambda>i. js_lower (pi_name i)) catalog in
      map (\<lambda>(m, v). \<lparr>pi_name = m, pi_input = Null, pi_output = Null, pi_cache = Null, pi_manual = True\<rparr>)
        (filter (\<lambda>(m, v). truthy v \<and> is_object v \<and> js_lower m \<notin> set names) (js_entries overrides)))"

definition overrideFor :: "jsval \<Rightarrow> string \<Rightarrow> jsval" where
  "overrideFor overrides name =
     (case find (\<lambda>e. js_lower (fst e) = js_lower name) (js_entries overrides) of
        Some e \<Rightarrow> jor (snd e) Null
      | None \<Rightarrow> Null)"

definition price_input :: "string \<Rightarrow> string \<Rightarrow> jsval \<Rightarrow> string" where
  "price_input name field v =
     (''<td class=\"num\"><input class=\"settings-price-input mono\" type=\"number\"'' @
        '' step=\"any\" min=\"0\" value=\"'' @ (to_str (jcoalesce v (Str []))) @
        ''\" data-override-model=\"'' @ esc name @ ''\" data-override-field=\"'' @ field @
        ''\" aria-label=\"'' @ esc name @ '' override '' @ field @ ''\" placeholder=\"'' @
        [CHR 0xE2, CHR 0x80, CHR 0x94] @ ''\" /></td>'')"

definition price_row :: "translator \<Rightarrow> jsval \<Rightarrow> price_item \<Rightarrow> string" where
  "price_row tr overrides item =
     (let name = pi_name item; ov = jor (overrideFor overrides name) (Obj []); hasOverride = truthy (overrideFor overrides name)
      in (nl 12 @ ''<tr class=\"'' @
         (if hasOverride then ''settings-pricing-overridden'' else []) @ ''\">'' @ nl 14 @
         ''<td class=\"mono\"><span class=\"settings-model-identity\">'' @
         (modelBrandIconMarkup (Str name) (iconSvg ''boxes'')) @ ''<strong>'' @ esc name @
         ''</strong>'' @
         (if hasOverride then badge (Str (tr ''settings.pricing.override_badge'' [])) ''info'' else []) @
         (if pi_manual item then badge (Str (tr ''settings.pricing.manual_only'' [])) ''warn'' else []) @
         ''</span></td>'' @ nl 14 @ ''<td class=\"num mono\">'' @
         (esc (settingsPriceText (pi_input item))) @ ''</td>'' @ nl 14 @
         ''<td class=\"num mono\">'' @ (esc (settingsPriceText (pi_output item))) @ ''</td>'' @
         nl 14 @ ''<td class=\"num mono\">'' @ (esc (settingsPriceText (pi_cache item))) @
         ''</td>'' @ nl 14 @ (price_input name ''input'' (get ov ''input'')) @ nl 14 @
         (price_input name ''output'' (get ov ''output'')) @ nl 14 @
         ''<td class=\"cell-actions\">'' @ nl 16 @
         ''<button class=\"button secondary compact-action\" type=\"button\"'' @
         '' data-override-save=\"'' @ esc name @ ''\">'' @
         (esc (tr ''settings.pricing.save'' [])) @ ''</button>'' @ nl 16 @
         (if hasOverride then (''<button class=\"button danger compact-action\" type=\"button\"'' @
           '' data-override-clear=\"'' @ esc name @ ''\">'' @
           (esc (tr ''settings.pricing.clear'' [])) @ ''</button>'') else []) @ nl 14 @
         ''</td>'' @ nl 12 @ ''</tr>''))"

definition pricing_pager :: "translator \<Rightarrow> jsnum \<Rightarrow> jsnum \<Rightarrow> string" where
  "pricing_pager tr p pages =
     (if num_le pages (Fin 1) then []
      else (nl 6 @ ''<div class=\"request-pagination\" aria-label=\"'' @
         (esc (tr ''req.request_pages'' [])) @ ''\">'' @ nl 8 @
         ''<button class=\"button secondary icon-action\" type=\"button\"'' @
         '' data-settings-pricing-page=\"'' @ (num_txt (num_sub p (Fin 2))) @ ''\" data-tip=\"'' @
         (esc (tr ''req.previous_page'' [])) @ ''\" aria-label=\"'' @
         (esc (tr ''req.previous_page'' [])) @ ''\" '' @
         (if num_le p (Fin 1) then ''disabled'' else []) @ ''>'' @ (iconSvg ''arrow-left'') @
         ''</button>'' @ nl 8 @ ''<span class=\"request-page-indicator\">'' @
         (esc (tr ''usage_stats.page_of'' [(''page'', Str (fmtInt (Num p))), (''total'', Str (fmtInt (Num pages)))])) @
         ''</span>'' @ nl 8 @ ''<button class=\"button secondary icon-action\" type=\"button\"'' @
         '' data-settings-pricing-page=\"'' @ num_txt p @ ''\" data-tip=\"'' @
         (esc (tr ''req.next_page'' [])) @ ''\" aria-label=\"'' @
         (esc (tr ''req.next_page'' [])) @ ''\" '' @
         (if num_le pages p then ''disabled'' else []) @ ''>'' @ (iconSvg ''arrow-right'') @
         ''</button>'' @ nl 6 @ ''</div>''))"

definition slice_of :: "jsnum \<Rightarrow> jsnum \<Rightarrow> 'a list \<Rightarrow> 'a list" where
  "slice_of a n xs =
     (case (a, n) of (Fin p, Fin k) \<Rightarrow> take (nat \<lfloor>k\<rfloor>) (drop (nat \<lfloor>p\<rfloor>) xs) | _ \<Rightarrow> [])"

text \<open>The catalogue and its pager as markup, and the page number written back.\<close>

definition renderSettingsPricingCatalog :: "translator \<Rightarrow> jsval \<Rightarrow> pricing_ui \<Rightarrow> pricing_ui \<times> string \<times> string" where
  "renderSettingsPricingCatalog tr config s =
     (case (px_loading s, px_catalog s) of
        (False, Some items) \<Rightarrow>
          (let overrides = settingsPricingOverrides config; catalog = items @ manual_items overrides items;
               q = px_query s
           in if catalog = []
              then (s, (nl 8 @ ''<div class=\"usage-statistics-empty-state\">'' @ nl 10 @
                 iconSvg ''dollar'' @ nl 10 @ ''<span><strong>'' @
                 (esc (tr ''settings.pricing.catalog_empty'' [])) @ ''</strong></span>'' @ nl 8 @
                 ''</div>''), [])
              else (let shown = (if q \<noteq> [] then filter (\<lambda>i. js_includes q (js_lower (pi_name i))) catalog else catalog);
                        pages = num_max (Fin 1) (num_ceil (num_div (num_of_nat (length shown)) (Fin SETTINGS_PRICING_PAGE_SIZE)));
                        p = page_shown pages (px_page s);
                        rows = slice_of (num_mul (num_sub p (Fin 1)) (Fin SETTINGS_PRICING_PAGE_SIZE)) (Fin SETTINGS_PRICING_PAGE_SIZE) shown
                    in (s\<lparr>px_page := num_sub p (Fin 1)\<rparr>, (nl 6 @ ''<table class=\"data-table settings-pricing-table\">'' @ nl 8 @
                       ''<thead><tr>'' @ nl 10 @ ''<th>'' @
                       (esc (tr ''settings.pricing.col_model'' [])) @ ''</th>'' @ nl 10 @
                       ''<th class=\"num\">'' @ (esc (tr ''settings.pricing.col_input'' [])) @
                       ''</th>'' @ nl 10 @ ''<th class=\"num\">'' @
                       (esc (tr ''settings.pricing.col_output'' [])) @ ''</th>'' @ nl 10 @
                       ''<th class=\"num\">'' @
                       (esc (tr ''settings.pricing.col_cache_read'' [])) @ ''</th>'' @ nl 10 @
                       ''<th class=\"num\">'' @
                       (esc (tr ''settings.pricing.col_override_in'' [])) @ ''</th>'' @ nl 10 @
                       ''<th class=\"num\">'' @
                       (esc (tr ''settings.pricing.col_override_out'' [])) @ ''</th>'' @ nl 10 @
                       ''<th></th>'' @ nl 8 @ ''</tr></thead>'' @ nl 8 @ ''<tbody>'' @ nl 10 @
                       (concat (map (price_row tr overrides) rows)) @ nl 8 @ ''</tbody>'' @ nl 6 @
                       ''</table>''), pricing_pager tr p pages)))
      | _ \<Rightarrow> (s, (''<div class=\"empty pad\">'' @ (esc (tr ''model_usage.loading'' [])) @ ''</div>''), []))"

section \<open>Overrides\<close>

text \<open>The inputs of a row as field and text; \<open>None\<close> when no rate was given.\<close>

definition override_field :: "string \<times> string \<Rightarrow> (string \<times> jsval) list \<Rightarrow> (string \<times> jsval) list" where
  "override_field = (\<lambda>(field, raw) patch.
     (let r = js_trim raw; v = str_to_num r in
      if r = [] then patch
      else if \<not> is_finite v \<or> num_lt v (Fin 0) then patch
      else set_prop field (Num v) patch))"

definition accepted_rate :: "string \<times> string \<Rightarrow> bool" where
  "accepted_rate = (\<lambda>(field, raw). let r = js_trim raw; v = str_to_num r in r \<noteq> [] \<and> is_finite v \<and> \<not> num_lt v (Fin 0))"

definition overridePatch :: "string \<Rightarrow> (string \<times> string) list \<Rightarrow> jsval option" where
  "overridePatch model inputs =
     (if list_ex accepted_rate inputs
      then Some (Obj (foldl (\<lambda>patch i. override_field i patch) [(''model'', Str model)] inputs)) else None)"

definition static_refresh_args :: refresh_args where
  "static_refresh_args = \<lparr>ra_quiet = True, ra_preserve = True, ra_static = True, ra_domains = []\<rparr>"

text \<open>After the reply to a saved or cleared override; the flag is the state of the button.\<close>

definition finishPricingOverride :: "string \<Rightarrow> string + jsval \<Rightarrow> refresh_state \<Rightarrow> refresh_state" where
  "finishPricingOverride notice outcome s =
     (case outcome of
        Inl err \<Rightarrow> log_event (Notice err ''bad'') s
      | Inr result \<Rightarrow>
          scheduleBackgroundRefresh static_refresh_args
            (log_event (Notice notice ''ok'') (fst (applyMutationResult result True False False s))))"

text \<open>\<open>fetchSettingsPricingModel\<close>: the name the reply resolves to, its notice, and the search it leaves behind.\<close>

definition fetched_name :: "string \<Rightarrow> jsval \<Rightarrow> string" where
  "fetched_name model response =
     to_str (jor (jor (get response ''model'') (get (get response ''summary'') ''name'')) (Str model))"

definition fetched_pricing :: "jsval \<Rightarrow> jsval" where
  "fetched_pricing response =
     jor (jor (get (get response ''summary'') ''pricing'') (get response ''pricing'')) (Obj [])"

definition fetched_notice :: "translator \<Rightarrow> string \<Rightarrow> jsval \<Rightarrow> ui_event" where
  "fetched_notice tr model response =
     (let p = fetched_pricing response; name = fetched_name model response in
      if \<not> nullish (get p ''input'') \<or> \<not> nullish (get p ''output'')
      then Notice (tr ''settings.pricing.fetched'' [(''model'', Str name), (''input'', Str (settingsPriceText (get p ''input''))),
                (''output'', Str (settingsPriceText (get p ''output'')))]) ''ok''
      else Notice (tr ''settings.pricing.fetched_no_price'' [(''model'', Str name)]) ''bad'')"

definition finishPricingModel :: "string \<Rightarrow> jsval \<Rightarrow> pricing_ui \<Rightarrow> pricing_ui \<times> bool" where
  "finishPricingModel model response s =
     startPricingCatalog (s\<lparr>px_catalog := None, px_page := Fin 0, px_query := js_lower (fetched_name model response)\<rparr>)"

end
