(* ===== verification/RefreshAll.thy ===== *)
theory RefreshAll
  imports Pricing
begin

text \<open>
  \<open>refreshAll\<close> (\<open>app.js\<close>): what it fetches, how the replies change the data of the page, the models version that asks for
  the capabilities again, the price step, and its end: rendered, failed or logged out. The function has an
  \<open>await\<close> for all its requests and a second one for the capabilities, so it is cut into \<open>startRefreshAll\<close>,
  \<open>dataArrived\<close> and \<open>finishRefreshAll\<close>; its guard is the one of \<open>RuntimeRefresh\<close>. Also the smaller refreshes of
  capabilities and of the provider view.
\<close>

section \<open>State\<close>

record all_state =
  al_page :: refresh_state
  al_guard :: all_guard
  al_queued :: "refresh_args option"
  al_pricing :: pricing_ui
  al_forceTimeseries :: bool
  al_forceRequests :: bool
  al_ringAt :: rat
  al_connected :: "bool option"
  al_login :: "string option"
  al_followUp :: "nat option"
  a_metrics :: jsval
  a_metricsFull :: jsval
  a_activity :: jsval
  a_health :: jsval
  a_timeseries :: jsval
  a_requests :: jsval

definition on_page :: "(refresh_state \<Rightarrow> refresh_state) \<Rightarrow> all_state \<Rightarrow> all_state" where
  "on_page f s = s\<lparr>al_page := f (al_page s)\<rparr>"

record all_flight =
  fa_args :: refresh_args
  fa_domains :: "string list"

section \<open>The requests\<close>

definition all_static_domains :: "string list" where
  "all_static_domains = [''status'', ''models'', ''routing'', ''config'', ''overlay'', ''audit'', ''conversionDiagnostics'', ''conversionDiagRecords'']"

definition all_domains :: "refresh_args \<Rightarrow> all_state \<Rightarrow> string list" where
  "all_domains args s =
     (let view = (if rf_view (al_page s) \<noteq> [] then rf_view (al_page s) else ''overview'');
          loud = \<not> ra_quiet args
      in [''metrics'', ''providerActivity'', ''healthScores'']
         @ (if ra_static args \<or> loud \<or> \<not> truthy (d_status (al_page s)) \<or> \<not> truthy (d_config (al_page s))
            then all_static_domains else [])
         @ (if loud \<or> \<not> truthy (a_metricsFull s) \<or> al_forceRequests s then [''metricsFull''] else [])
         @ (if loud \<or> view = ''overview'' \<or> al_forceTimeseries s then [''timeseries''] else [])
         @ (if loud \<or> view = ''requests'' \<or> al_forceRequests s then [''requests''] else []))"

text \<open>\<open>stopTimer\<close> and the screens are those of \<open>Shell\<close>; here the login is the message it shows.\<close>

definition startRefreshAll :: "refresh_args \<Rightarrow> all_state \<Rightarrow> all_state \<times> all_flight option" where
  "startRefreshAll args s =
     (if rf_adminKey (al_page s) = []
      then (s\<lparr>al_connected := Some False,
              al_login := Some (if ra_quiet args then [] else ''Admin key is required to load console data.'')\<rparr>, None)
      else (let (g, go) = enterRefreshAll args (al_guard s) in
        if \<not> go then (s\<lparr>al_guard := g\<rparr>, None)
        else (let ds = all_domains args s;
                  s1 = s\<lparr>al_guard := g, al_connected := None, al_forceTimeseries := False, al_forceRequests := False\<rparr>;
                  s2 = (if ''config'' \<in> set ds \<and> \<not> truthy (d_config (al_page s1))
                        then on_page (\<lambda>p. p\<lparr>rf_staticState := ''loading''\<rparr>) s1 else s1)
              in (s2, Some \<lparr>fa_args = args, fa_domains = ds\<rparr>))))"

section \<open>The replies\<close>

text \<open>All requests succeeded: the reply of each domain, undefined for the others.\<close>

definition all_result :: "all_flight \<Rightarrow> (string \<Rightarrow> jsval) \<Rightarrow> string \<Rightarrow> jsval" where
  "all_result f replies d = (if d \<in> set (fa_domains f) then replies d else Undef)"

definition apply_activity :: "jsval \<Rightarrow> jsval" where
  "apply_activity v = (let pa = jor v (Obj []) in jor (get pa ''providers'') pa)"

definition apply_page :: "(string \<Rightarrow> jsval) \<Rightarrow> refresh_state \<Rightarrow> refresh_state" where
  "apply_page r p =
     (let p1 = put (r ''status'') applyStatusPayload p;
          p2 = put (r ''models'') (\<lambda>v p. fst (acceptModelCapabilities v p)) p1;
          p3 = put (r ''routing'') (\<lambda>v p. p\<lparr>d_routing := v\<rparr>) p2;
          p4 = put (r ''config'') acceptConfirmedConfig p3;
          p5 = put (r ''overlay'') (\<lambda>v p. p\<lparr>d_overlay := v\<rparr>) p4;
          p6 = put (r ''audit'') (\<lambda>v p. p\<lparr>d_audit := v\<rparr>) p5;
          p7 = put (r ''conversionDiagnostics'') (\<lambda>v p. p\<lparr>d_diagnostics := v\<rparr>) p6
      in put (r ''conversionDiagRecords'') (\<lambda>v p. p\<lparr>d_diagRecords := v\<rparr>) p7)"

definition apply_data :: "rat \<Rightarrow> (string \<Rightarrow> jsval) \<Rightarrow> all_state \<Rightarrow> all_state" where
  "apply_data now r s =
     s\<lparr>a_metrics := or_keep (r ''metrics'') (a_metrics s),
       a_metricsFull := or_keep (r ''metricsFull'') (a_metricsFull s),
       al_ringAt := (if r ''metricsFull'' \<noteq> Undef then now else al_ringAt s),
       a_activity := (if r ''providerActivity'' \<noteq> Undef then apply_activity (r ''providerActivity'') else a_activity s),
       a_health := or_keep (r ''healthScores'') (a_health s),
       a_timeseries := or_keep (r ''timeseries'') (a_timeseries s),
       a_requests := or_keep (r ''requests'') (a_requests s),
       al_page := apply_page r (al_page s)\<rparr>"

definition version_of :: "(string \<Rightarrow> jsval) \<Rightarrow> jsval" where
  "version_of r = jcoalesce (get (r ''metrics'') ''models_version'') (get (r ''status'') ''models_version'')"

text \<open>Applying the replies; \<open>True\<close> when the capabilities are fetched before the rest goes on.\<close>

definition dataArrived :: "rat \<Rightarrow> all_flight \<Rightarrow> (string \<Rightarrow> jsval) \<Rightarrow> all_state \<Rightarrow> all_state \<times> bool" where
  "dataArrived now f replies s =
     (let r = all_result f replies; s1 = apply_data now r s; v = version_of r; last = rf_lastModels (al_page s1)
      in if v \<noteq> Undef \<and> v \<noteq> last
         then (on_page (\<lambda>p. p\<lparr>rf_lastModels := v\<rparr>) s1, last \<noteq> Null \<and> \<not> truthy (r ''models''))
         else (s1, False))"

text \<open>The capabilities, if they were asked for: a failure is ignored.\<close>

definition capabilitiesArrived :: "(string + jsval) option \<Rightarrow> refresh_state \<Rightarrow> refresh_state" where
  "capabilitiesArrived reply p =
     (case reply of
        Some (Inr caps) \<Rightarrow>
          (let (p1, changed) = acceptModelCapabilities caps p
           in if changed then p1\<lparr>d_version := Suc (d_version p1)\<rparr> else p1)
      | _ \<Rightarrow> p)"

section \<open>The end\<close>

text \<open>The \<open>finally\<close> block; the arguments of a trailing run are handed to a microtask.\<close>

definition release_all :: "all_state \<Rightarrow> all_state" where
  "release_all s =
     (let (g, args) = leaveRefreshAll (al_guard s)
      in s\<lparr>al_guard := g, al_queued := (case args of None \<Rightarrow> al_queued s | Some a \<Rightarrow> Some a)\<rparr>)"

definition finishRefreshAll :: "rat \<Rightarrow> all_flight \<Rightarrow> (string + jsval) option \<Rightarrow> all_state \<Rightarrow> all_state \<times> (nat \<times> string list) option" where
  "finishRefreshAll now f caps s =
     (let s1 = on_page (\<lambda>p. let q = capabilitiesArrived caps p in q\<lparr>d_version := Suc (d_version q)\<rparr>) s;
          (px, fetch) = startPricingStep now (collectModelNames (d_status (al_page s1)) (d_config (al_page s1))) (al_pricing s1);
          s2 = on_page (log_event RenderAll) (s1\<lparr>al_pricing := px\<rparr>);
          s3 = (if ra_preserve (fa_args f) then s2 else on_page (log_event (Notice [] [])) s2);
          s4 = s3\<lparr>al_connected := Some True,
                  al_followUp := maybeScheduleCapabilityFollowUp (d_status (al_page s3)) (rf_hidden (al_page s3)) (al_followUp s3)\<rparr>
      in (release_all s4, fetch))"

text \<open>\<open>clearStoredAdminKey\<close> on the state, with the \<open>state.adminKey = ""\<close> that its caller writes next to it.\<close>

definition forgetAdminKey :: "refresh_state \<Rightarrow> refresh_state" where
  "forgetAdminKey p =
     p\<lparr>rf_store := store_clear (rf_store p), d_config := Null, rf_staticState := ''idle'', rf_adminKey := []\<rparr>"

text \<open>A request failed: the message of the error decides between a notice and the login.\<close>

definition failRefreshAll :: "(string \<Rightarrow> string) \<Rightarrow> string \<Rightarrow> string \<Rightarrow> all_state \<Rightarrow> all_state" where
  "failRefreshAll failed invalid message s =
     (let s1 = (if \<not> truthy (d_config (al_page s)) then on_page (\<lambda>p. p\<lparr>rf_staticState := ''error''\<rparr>) s else s);
          s2 = s1\<lparr>al_connected := Some False\<rparr>;
          s3 = (if isAuthError message then (on_page forgetAdminKey s2)\<lparr>al_login := Some invalid\<rparr>
                else on_page (log_event (Notice (failed message) [])) s2)
      in release_all s3)"

section \<open>Smaller refreshes\<close>

text \<open>\<open>refreshCapabilitiesOnly\<close>: the guard, and the reply.\<close>

definition mayRefreshCapabilities :: "refresh_state \<Rightarrow> bool" where
  "mayRefreshCapabilities p \<longleftrightarrow> rf_adminKey p \<noteq> [] \<and> \<not> rf_hidden p"

definition finishCapabilities :: "string + jsval \<Rightarrow> all_state \<Rightarrow> all_state" where
  "finishCapabilities reply s =
     (let s1 = (case reply of
            Inl err \<Rightarrow> s
          | Inr caps \<Rightarrow>
              (let (p, changed) = acceptModelCapabilities caps (al_page s)
               in s\<lparr>al_page := (if changed \<and> rf_view p = ''providers'' then log_event RenderDrawer (force [''modelCaps''] p) else p)\<rparr>))
      in s1\<lparr>al_followUp := maybeScheduleCapabilityFollowUp (d_status (al_page s1)) (rf_hidden (al_page s1)) (al_followUp s1)\<rparr>)"

definition finishProviderConfigView :: "(string \<Rightarrow> string) \<Rightarrow> bool \<Rightarrow> string + (jsval \<times> jsval) \<Rightarrow> all_state \<Rightarrow> all_state \<times> bool" where
  "finishProviderConfigView failed preserveNotice replies s =
     (case replies of
        Inl err \<Rightarrow> (on_page (log_event (Notice (failed err) ''bad'')) (s\<lparr>al_connected := Some False\<rparr>), False)
      | Inr (status, config) \<Rightarrow>
          (let p1 = acceptConfirmedConfig config (applyStatusPayload status (al_page s));
               p2 = force [''config'', ''providers'', ''modelCaps''] (p1\<lparr>d_version := Suc (d_version p1)\<rparr>);
               p3 = log_event RenderDrawer (log_event RenderAll p2);
               p4 = (if preserveNotice then p3 else log_event (Notice [] []) p3)
           in (s\<lparr>al_page := p4, al_connected := Some True\<rparr>, True)))"

section \<open>The request list\<close>

text \<open>\<open>requestsPath\<close> over the values of the filter fields, in their order.\<close>

definition requestsPath :: "jsval \<Rightarrow> (string \<times> jsval) list \<Rightarrow> string" where
  "requestsPath shown filters =
     (let base = params_set ''offset'' (num_to_str (num_mul (num_max (Fin 0) (to_num shown)) (Fin REQUEST_PAGE_SIZE)))
                   (params_set ''limit'' (num_to_str (Fin REQUEST_PAGE_SIZE)) []);
          ps = foldl (\<lambda>ps (k, v). if trimmed v \<noteq> [] then params_set k (trimmed v) ps else ps) base filters
      in ''/-/admin/requests?'' @ params_text ps)"

definition activeRequestFilters :: "(string \<times> jsval) list \<Rightarrow> (string \<times> string) list" where
  "activeRequestFilters filters =
     foldl (\<lambda>out (k, v). if trimmed v \<noteq> [] then set_prop k (trimmed v) out else out) [] filters"

end
