(* ===== verification/PricingFacts.thy ===== *)
theory PricingFacts
  imports Pricing
begin

text \<open>
  Facts about the prices: which names are asked for and how often, that a failed request is repeated and loses
  nothing, what a lookup returns, and what the catalogue shows for a model that only has an override.
\<close>

section \<open>Names\<close>

interpretation code_unit_strings: comparator "\<lambda>_. True" string_le
  using collation_code_units by unfold_locales (auto simp: string_le_def collation_def)

lemma collectModelNames_cases:
  assumes "collectModelNames status config = Some names"
  obtains caps rest where
    "capability_names (jor (get (get status ''models'') ''providers'') (Obj [])) = Some caps"
    "names = js_sort string_le (filter (\<lambda>n. n \<noteq> []) (first_by (\<lambda>n. n) [] (caps @ rest)))"
  using assms by (auto simp: collectModelNames_def Let_def split: option.splits)

lemma names_sorted: "collectModelNames status config = Some names \<Longrightarrow> sorted_wrt string_le names"
  by (elim collectModelNames_cases) (simp add: code_unit_strings.sorted_js_sort)

lemma names_distinct: "collectModelNames status config = Some names \<Longrightarrow> distinct names"
proof (elim collectModelNames_cases)
  fix caps rest
  assume n: "names = js_sort string_le (filter (\<lambda>n. n \<noteq> []) (first_by (\<lambda>n. n) [] (caps @ rest)))"
  have "distinct (first_by (\<lambda>n. n) [] (caps @ rest))"
    using first_by_distinct [of "\<lambda>n. n" "[]" "caps @ rest"] by simp
  then have "distinct (filter (\<lambda>n. n \<noteq> []) (first_by (\<lambda>n. n) [] (caps @ rest)))" by simp
  then show ?thesis unfolding n by (metis mset_eq_imp_distinct_iff mset_js_sort)
qed

lemma those_Some: "those xs = Some ys \<Longrightarrow> xs = map Some ys"
  by (induction xs arbitrary: ys) (auto split: option.splits)

lemma capability_label_asked:
  assumes "collectModelNames status config = Some names"
    and p: "(p, entry) \<in> set (js_entries (jor (get (get status ''models'') ''providers'') (Obj [])))"
    and m: "truthy entry" "is_object entry" "get entry ''models'' = Arr ms" "m \<in> set ms" "truthy m" "to_str m \<noteq> []"
  shows "to_str m \<in> set names"
  using assms(1)
proof (elim collectModelNames_cases)
  fix caps rest
  assume c: "capability_names (jor (get (get status ''models'') ''providers'') (Obj [])) = Some caps"
    and n: "names = js_sort string_le (filter (\<lambda>n. n \<noteq> []) (first_by (\<lambda>n. n) [] (caps @ rest)))"
  obtain yss where yss: "map (\<lambda>(p, entry). if truthy entry \<and> is_object entry
      then map_option (\<lambda>ms. truthy_names ms @ map_names (get entry ''canonical_map'')) (each_of (get entry ''models''))
      else Some []) (js_entries (jor (get (get status ''models'') ''providers'') (Obj []))) = map Some yss" "caps = concat yss"
    using c those_Some unfolding capability_names_def by blast
  have "Some (truthy_names ms @ map_names (get entry ''canonical_map'')) \<in> set (map Some yss)"
    unfolding yss(1) [symmetric] using p m by (force simp: each_of_def)
  then have "truthy_names ms @ map_names (get entry ''canonical_map'') \<in> set yss" by auto
  from UN_upper [OF this, of set] have "set (truthy_names ms) \<subseteq> set caps" by (simp add: yss(2))
  moreover have "to_str m \<in> set (truthy_names ms)" using m by (simp add: truthy_names_def)
  ultimately have "to_str m \<in> set caps" by blast
  then show ?thesis using m(6) unfolding n by (simp add: set_first_by_id)
qed

section \<open>Requests\<close>

lemma concat_batches: "0 < n \<Longrightarrow> concat (batches n xs) = xs"
  by (induction n xs rule: batches.induct) (subst batches.simps, simp)

lemma batch_size: "b \<in> set (batches n xs) \<Longrightarrow> b \<noteq> [] \<and> length b \<le> n"
proof (induction n xs rule: batches.induct)
  case (1 n xs)
  then show ?case by (subst (asm) batches.simps) (auto split: if_splits)
qed

text \<open>
  Every name on the page has its price asked for, once: the requests of a price refresh are batches of one
  to eighty names; put together they are the collected names in code unit order, each exactly once, and
  every model a provider offers is among them.
\<close>

lemma every_name_asked_once:
  assumes names: "collectModelNames status config = Some names"
    and started: "startModelPricing names s = (s', n, urls)"
  shows "\<exists>bs. urls = map pricing_url bs \<and> concat bs = names \<and> (\<forall>b \<in> set bs. 1 \<le> length b \<and> length b \<le> 80)
    \<and> distinct names \<and> sorted_wrt string_le names
    \<and> (\<forall>(p, entry) \<in> set (js_entries (jor (get (get status ''models'') ''providers'') (Obj []))).
        \<forall>m \<in> set (arr_or_empty (get entry ''models'')). truthy m \<and> to_str m \<noteq> [] \<longrightarrow> to_str m \<in> set names)"
proof (intro exI [of _ "batches MODEL_PRICING_BATCH_SIZE names"] conjI)
  show "urls = map pricing_url (batches MODEL_PRICING_BATCH_SIZE names)"
    using started by (auto simp: startModelPricing_def Let_def)
  show "concat (batches MODEL_PRICING_BATCH_SIZE names) = names"
    by (rule concat_batches) (simp add: MODEL_PRICING_BATCH_SIZE_def)
  show "\<forall>b \<in> set (batches MODEL_PRICING_BATCH_SIZE names). 1 \<le> length b \<and> length b \<le> 80"
    using batch_size [of _ MODEL_PRICING_BATCH_SIZE names] by (force simp: MODEL_PRICING_BATCH_SIZE_def Suc_le_eq)
  show "distinct names" by (rule names_distinct [OF names])
  show "sorted_wrt string_le names" by (rule names_sorted [OF names])
  have "to_str m \<in> set names"
    if p: "(p, entry) \<in> set (js_entries (jor (get (get status ''models'') ''providers'') (Obj [])))"
      and m: "m \<in> set (arr_or_empty (get entry ''models''))" "truthy m" "to_str m \<noteq> []" for p entry m
  proof -
    obtain ms where ms: "get entry ''models'' = Arr ms" "m \<in> set ms"
      using m(1) by (cases "get entry ''models''") auto
    then have "truthy entry" "is_object entry" by (cases entry; simp split: if_splits)+
    from capability_label_asked [OF names p this ms m(2,3)] show ?thesis .
  qed
  then show "\<forall>(p, entry) \<in> set (js_entries (jor (get (get status ''models'') ''providers'') (Obj []))).
      \<forall>m \<in> set (arr_or_empty (get entry ''models'')). truthy m \<and> to_str m \<noteq> [] \<longrightarrow> to_str m \<in> set names"
    by blast
qed

definition priced_status :: jsval where
  "priced_status = Obj [(''models'', Obj [(''providers'', Obj [(''openai'', Obj [(''models'', Arr [Str ''gpt-5'', Str ''gpt-4o'']),
     (''canonical_map'', Obj [(''fast'', Str ''gpt-4o'')])])]), (''union_model_ids'', Arr [Str ''openai/gpt-5''])])]"

definition priced_ui :: pricing_ui where
  "priced_ui = \<lparr>px_pricing = Null, px_sequence = 0, px_lastKey = [], px_lastAt = 0, px_fetching = False,
     px_catalog = None, px_loading = False, px_loadInFlight = False, px_query = [], px_page = Fin 0\<rparr>"

text \<open>A failed request keeps the prices the page has, and the next refresh asks again.\<close>

lemma failed_pricing_is_retried:
  assumes "names \<noteq> []" "MODEL_PRICING_REFRESH_MS \<le> now"
  shows "let s1 = fst (finishPricingStep n (Inl err) s) in
    px_pricing s1 = px_pricing s \<and> snd (startPricingStep now (Some names) s1) \<noteq> None"
  using assms by (simp add: finishPricingStep_def startPricingStep_def startModelPricing_def Let_def)

text \<open>While a request runs no other is started.\<close>

lemma pricing_single_flight: "px_fetching s \<Longrightarrow> snd (startPricingStep now names s) = None"
  by (auto simp: startPricingStep_def Let_def split: option.splits)

lemma merged_pricing_last_wins:
  "get r ''pricing'' = Obj kvs \<Longrightarrow> lookup k (own_entries kvs) \<noteq> Undef \<Longrightarrow> distinct (map fst (own_entries kvs))
    \<Longrightarrow> lookup k (merged_pricing (rs @ [r])) = lookup k (own_entries kvs)"
proof -
  assume r: "get r ''pricing'' = Obj kvs" and d: "distinct (map fst (own_entries kvs))" and k: "lookup k (own_entries kvs) \<noteq> Undef"
  define acc where "acc = merged_pricing rs"
  have "map_of (rev (own_entries kvs)) = map_of (own_entries kvs)"
    using d by (simp add: map_of_inject_set distinct_map)
  moreover have "merged_pricing (rs @ [r]) = spread acc (own_entries kvs)"
    by (simp add: merged_pricing_def acc_def r jor_def obj_fields_def)
  ultimately show ?thesis using k by (simp add: lookup_map_of map_of_spread map_add_def split: option.splits)
qed

section \<open>Lookup and catalogue\<close>

lemma lookup_is_available: "lookupPricing pricing name = Null \<or> available (lookupPricing pricing name)"
  by (auto simp: lookupPricing_def dest: find_Some_in split: option.splits)

lemma lookup_own_label:
  "truthy (Str name) \<Longrightarrow> available (get (jor pricing (Obj [])) name) \<Longrightarrow> lookupPricing pricing (Str name) = get (jor pricing (Obj [])) name"
  by (simp add: lookupPricing_def price_keys_def Let_def)

text \<open>The last part of a path is found under its own name when the path itself has no price.\<close>

lemma lookup_vendor_prefix:
  "lookupPricing (Obj [(''Qwen3-32B'', Obj [(''available'', Bool True)])]) (Str ''Pro/Qwen/Qwen3-32B'') = Obj [(''available'', Bool True)]"
  by code_simp

text \<open>
  A model that only has an override has no catalogue price, and its row shows \<open>0\<close> for it: \<open>Number(null)\<close> is
  zero, so the dash the function keeps for a missing price is only written for \<open>undefined\<close>.
\<close>

lemma manual_only_shows_zero:
  assumes "item \<in> set (manual_items overrides catalog)"
  shows "settingsPriceText (pi_input item) = ''0''" "settingsPriceText (pi_output item) = ''0''"
proof -
  have "pi_input item = Null" "pi_output item = Null"
    using assms by (auto simp: manual_items_def Let_def)
  moreover have "settingsPriceText Null = ''0''" by code_simp
  ultimately show "settingsPriceText (pi_input item) = ''0''" "settingsPriceText (pi_output item) = ''0''" by simp_all
qed

lemma override_keeps_model: "overridePatch model inputs = Some patch \<Longrightarrow> \<forall>i \<in> set inputs. fst i \<noteq> ''model'' \<Longrightarrow> get patch ''model'' = Str model"
proof -
  have "lookup ''model'' (foldl (\<lambda>p i. override_field i p) acc inputs) = lookup ''model'' acc"
    if "\<forall>i \<in> set inputs. fst i \<noteq> ''model''" for acc
    using that by (induction inputs arbitrary: acc) (auto simp: override_field_def Let_def split: prod.splits)
  then show "overridePatch model inputs = Some patch \<Longrightarrow> \<forall>i \<in> set inputs. fst i \<noteq> ''model'' \<Longrightarrow> get patch ''model'' = Str model"
    by (auto simp: overridePatch_def split: if_splits)
qed

end
