(* ===== verification/ConfigRefreshFacts.thy ===== *)
theory ConfigRefreshFacts
  imports ConfigRefresh
begin

text \<open>
  What the refresh machinery promises: coalescing never drops a requested domain, a request made
  during a refresh is remembered until a full one starts, a refresh never overwrites what the user is
  editing or saving, and a configuration action always settles.
\<close>

section \<open>Coalescing\<close>

text \<open>A request wants a domain; a request without domains wants all of them.\<close>

definition wants_domain :: "refresh_args \<Rightarrow> string \<Rightarrow> bool" where
  "wants_domain a d \<longleftrightarrow> ra_static a \<and> (ra_domains a = [] \<or> d \<in> set (ra_domains a))"

definition task_wants :: "bg_task \<Rightarrow> string \<Rightarrow> bool" where
  "task_wants task d \<longleftrightarrow> (case task of StaticTask _ ds \<Rightarrow> wants ds d | RuntimeTask \<Rightarrow> False)"

lemma merge_wants:
  "wants_domain a d \<or> (\<exists>q. p = Some q \<and> wants_domain q d) \<Longrightarrow> wants_domain (mergeRefreshArgs p a) d"
  by (cases p) (auto simp: mergeRefreshArgs_def wants_domain_def Let_def set_first_by_id)

lemma schedule_all:
  "rf_bgArgs s = Some q \<Longrightarrow> wants_domain q d \<or> (\<exists>a \<in> set as. wants_domain a d) \<Longrightarrow>
   \<exists>r. rf_bgArgs (fold scheduleBackgroundRefresh as s) = Some r \<and> wants_domain r d"
proof (induction as arbitrary: s q)
  case (Cons a as)
  have "rf_bgArgs (scheduleBackgroundRefresh a s) = Some (mergeRefreshArgs (Some q) a)"
    using Cons.prems(1) by (simp add: scheduleBackgroundRefresh_def)
  moreover have "wants_domain (mergeRefreshArgs (Some q) a) d \<or> (\<exists>b \<in> set as. wants_domain b d)"
    using merge_wants [of a d "Some q"] Cons.prems(2) by auto
  ultimately show ?case using Cons.IH by fastforce
qed simp

lemma schedule_timer: "as \<noteq> [] \<Longrightarrow> rf_bgTimer (fold scheduleBackgroundRefresh as s)"
  by (induction as rule: rev_induct) (auto simp: scheduleBackgroundRefresh_def)

text \<open>
  Coalescing background refreshes never loses a domain: when several requests arrive before the
  timer fires, the one refresh it starts fetches every domain any of them asked for, and a request for
  all domains wins over narrower ones.
\<close>

lemma coalesced_refresh_covers:
  assumes "a \<in> set requests" and "wants_domain a d"
  shows "\<exists>task. snd (fireBackgroundRefresh (fold scheduleBackgroundRefresh requests s)) = Some task
    \<and> task_wants task d"
proof -
  obtain b bs where rs: "requests = b # bs" using assms(1) by (cases requests) auto
  have "\<exists>r. rf_bgArgs (fold scheduleBackgroundRefresh bs (scheduleBackgroundRefresh b s)) = Some r \<and> wants_domain r d"
    using assms rs merge_wants [of b d "rf_bgArgs s"]
    by (intro schedule_all [where q = "mergeRefreshArgs (rf_bgArgs s) b"])
       (auto simp: scheduleBackgroundRefresh_def)
  moreover have "rf_bgTimer (fold scheduleBackgroundRefresh requests s)"
    by (rule schedule_timer) (simp add: rs)
  ultimately show ?thesis
    by (auto simp: fireBackgroundRefresh_def rs task_wants_def wants_domain_def wants_def)
qed

definition sample_state :: refresh_state where
  "sample_state = \<lparr>rf_adminKey = ''key'', rf_hidden = False, rf_view = ''overview'', rf_drawer = [],
     rf_active = None, rf_dirty = \<lparr>ds_dirty = {}, ds_coord = coord_init\<rparr>, rf_store = store_new (Obj []),
     rf_staticState = ''ready'', rf_force = {}, rf_busy = {}, rf_nextBusy = 0, rf_log = [], rf_bgArgs = None,
     rf_bgTimer = False, rf_inFlight = False, rf_wanted = False, rf_queued = False, d_config = Obj [],
     d_status = Null, d_routing = Null, d_overlay = Null, d_audit = Null, d_diagnostics = Null,
     d_diagRecords = Null, d_version = 0, d_modelsVersion = 0, rf_lastModels = Null\<rparr>"

definition sample_args :: "string list \<Rightarrow> refresh_args" where
  "sample_args ds = \<lparr>ra_quiet = True, ra_preserve = True, ra_static = True, ra_domains = ds\<rparr>"

section \<open>Single flight\<close>

text \<open>
  The static refresh as a machine: its state, the refreshes whose replies are awaited, and a ghost that is set
  when a request is refused because one is running, and cleared when a refresh of every domain starts. A
  trailing run that finds the page hidden or logged out does nothing, so what was owed is dropped; the
  ghost is cleared then too, and \<open>sm_dropped\<close> remembers that it happened.
\<close>

record static_machine =
  sm_state :: refresh_state
  sm_flights :: "static_flight list"
  sm_owed :: bool
  sm_dropped :: bool

definition awake :: "refresh_state \<Rightarrow> bool" where
  "awake s \<longleftrightarrow> rf_adminKey s \<noteq> [] \<and> \<not> rf_hidden s"

text \<open>Other code may change anything but the guard's own flags; it hides and shows the page, logs in and out.\<close>

definition same_guard :: "refresh_state \<Rightarrow> refresh_state \<Rightarrow> bool" where
  "same_guard s s' \<longleftrightarrow> rf_inFlight s' = rf_inFlight s \<and> rf_wanted s' = rf_wanted s \<and> rf_queued s' = rf_queued s"

definition sent :: "refresh_state \<times> static_flight option \<Rightarrow> static_machine \<Rightarrow> static_machine" where
  "sent r m = m\<lparr>sm_state := fst r, sm_flights := sm_flights m @ (case snd r of None \<Rightarrow> [] | Some f \<Rightarrow> [f])\<rparr>"

definition owes :: "string list option \<Rightarrow> static_machine \<Rightarrow> bool" where
  "owes ds m \<longleftrightarrow> (if \<not> awake (sm_state m) then sm_owed m
     else if rf_inFlight (sm_state m) then True else if ds = None then False else sm_owed m)"

inductive sm_step :: "static_machine \<Rightarrow> static_machine \<Rightarrow> bool" where
  sm_request: "sm_step m ((sent (startStaticRefresh ds (sm_state m)) m)\<lparr>sm_owed := owes ds m\<rparr>)"
| sm_finish: "f \<in> set (sm_flights m) \<Longrightarrow>
     sm_step m (m\<lparr>sm_state := finishStaticRefresh f replies preserve (sm_state m), sm_flights := remove1 f (sm_flights m)\<rparr>)"
| sm_trailing: "rf_queued (sm_state m) \<Longrightarrow>
     sm_step m ((sent (runQueuedRefresh (sm_state m)) m)
       \<lparr>sm_owed := (if awake (sm_state m) then owes None m else False),
        sm_dropped := (sm_dropped m \<or> \<not> awake (sm_state m))\<rparr>)"
| sm_other: "same_guard (sm_state m) s \<Longrightarrow> sm_step m (m\<lparr>sm_state := s\<rparr>)"

inductive sm_reachable :: "static_machine \<Rightarrow> bool" where
  sm_init: "\<not> rf_inFlight s \<Longrightarrow> \<not> rf_wanted s \<Longrightarrow> \<not> rf_queued s \<Longrightarrow>
     sm_reachable \<lparr>sm_state = s, sm_flights = [], sm_owed = False, sm_dropped = False\<rparr>"
| sm_next: "sm_reachable m \<Longrightarrow> sm_step m m' \<Longrightarrow> sm_reachable m'"

definition sm_inv :: "static_machine \<Rightarrow> bool" where
  "sm_inv m \<longleftrightarrow> length (sm_flights m) = (if rf_inFlight (sm_state m) then 1 else 0)
     \<and> (rf_wanted (sm_state m) \<longrightarrow> rf_inFlight (sm_state m))
     \<and> (sm_owed m \<longrightarrow> rf_wanted (sm_state m) \<or> rf_queued (sm_state m))"

lemma full_selection:
  "filter (\<lambda>d. wants None d \<and> \<not> (b \<and> d \<in> STATIC_CONFIG_DOMAINS)) static_domains \<noteq> []"
  by (simp add: wants_def static_domains_def STATIC_CONFIG_DOMAINS_def)

lemma start_cases:
  assumes "awake s" and "startStaticRefresh ds s = (s', f)"
  shows "(rf_inFlight s \<and> s' = s\<lparr>rf_wanted := True\<rparr> \<and> f = None)
    \<or> (\<not> rf_inFlight s \<and> f \<noteq> None \<and> rf_inFlight s' \<and> rf_wanted s' = rf_wanted s \<and> rf_queued s' = rf_queued s \<and> awake s')
    \<or> (\<not> rf_inFlight s \<and> ds \<noteq> None \<and> f = None \<and> \<not> rf_inFlight s' \<and> \<not> rf_wanted s'
        \<and> rf_queued s' = (rf_queued s \<or> rf_wanted s) \<and> awake s')"
proof (cases "rf_inFlight s")
  case True
  with assms show ?thesis by (auto simp: startStaticRefresh_def awake_def)
next
  case False
  show ?thesis
  proof (cases "f")
    case None
    with assms False full_selection show ?thesis
      by (cases ds) (auto simp: startStaticRefresh_def awake_def Let_def release_static_def split: if_splits)
  next
    case (Some g)
    with assms False show ?thesis
      by (auto simp: startStaticRefresh_def awake_def Let_def split: if_splits)
  qed
qed

text \<open>Applying a reply touches neither the guard nor the session.\<close>

definition session_of ::
  "refresh_state \<Rightarrow> bool \<times> bool \<times> bool \<times> string \<times> bool \<times> elem option \<times> dirty_state" where
  "session_of s = (rf_inFlight s, rf_wanted s, rf_queued s, rf_adminKey s, rf_hidden s, rf_active s, rf_dirty s)"

lemma session_status [simp]: "session_of (applyStatusPayload v s) = session_of s"
  by (simp add: session_of_def applyStatusPayload_def Let_def)

lemma session_caps [simp]: "session_of (fst (acceptModelCapabilities v s)) = session_of s"
  by (simp add: session_of_def acceptModelCapabilities_def)

lemma session_config [simp]: "session_of (acceptConfirmedConfig v s) = session_of s"
  by (simp add: session_of_def acceptConfirmedConfig_def Let_def)

lemma session_force [simp]: "session_of (force flags s) = session_of s"
  by (simp add: session_of_def force_def)

lemma session_log [simp]: "session_of (log_event e s) = session_of s"
  by (simp add: session_of_def log_event_def)

lemma session_fields [simp]:
  "session_of (s\<lparr>d_routing := v\<rparr>) = session_of s" "session_of (s\<lparr>d_overlay := v\<rparr>) = session_of s"
  "session_of (s\<lparr>d_audit := v\<rparr>) = session_of s" "session_of (s\<lparr>d_diagnostics := v\<rparr>) = session_of s"
  "session_of (s\<lparr>d_diagRecords := v\<rparr>) = session_of s" "session_of (s\<lparr>d_version := n\<rparr>) = session_of s"
  "session_of (s\<lparr>rf_staticState := x\<rparr>) = session_of s"
  by (simp_all add: session_of_def)

lemma session_put: "(\<And>s. session_of (f v s) = session_of s) \<Longrightarrow> session_of (put v f s) = session_of s"
  by (simp add: put_def)

lemma apply_static_session: "session_of (apply_static f r allow s) = session_of s"
  by (simp add: apply_static_def Let_def session_put if_distrib [of session_of])

definition released :: "refresh_state \<Rightarrow> refresh_state \<Rightarrow> bool" where
  "released s s' \<longleftrightarrow> \<not> rf_inFlight s' \<and> \<not> rf_wanted s' \<and> rf_queued s' = (rf_queued s \<or> rf_wanted s)
     \<and> rf_adminKey s' = rf_adminKey s \<and> rf_hidden s' = rf_hidden s"

lemma finish_released: "released s (finishStaticRefresh f replies preserve s)"
proof -
  have "session_of s2 = session_of s \<Longrightarrow> released s (release_static s2)" for s2
    by (simp add: released_def release_static_def session_of_def)
  then show ?thesis
    by (simp add: finishStaticRefresh_def Let_def apply_static_session)
qed

lemma asleep_start: "\<not> awake s \<Longrightarrow> startStaticRefresh ds s = (s, None)"
  by (auto simp: startStaticRefresh_def awake_def)

lemma sm_step_inv: "sm_step m m' \<Longrightarrow> sm_inv m \<Longrightarrow> sm_inv m'"
proof (induction rule: sm_step.induct)
  case (sm_request m ds)
  show ?case
  proof (cases "awake (sm_state m)")
    case True
    from start_cases [OF True, of ds "fst (startStaticRefresh ds (sm_state m))" "snd (startStaticRefresh ds (sm_state m))"]
    show ?thesis using sm_request True by (auto simp: sm_inv_def sent_def owes_def)
  next
    case False
    then show ?thesis using sm_request by (simp add: sm_inv_def sent_def owes_def asleep_start)
  qed
next
  case (sm_finish f m replies preserve)
  from finish_released [of "sm_state m" f replies preserve] sm_finish
  show ?case by (auto simp: sm_inv_def released_def length_remove1 split: if_splits)
next
  case (sm_trailing m)
  let ?s = "(sm_state m)\<lparr>rf_queued := False\<rparr>"
  have run: "runQueuedRefresh (sm_state m) = startStaticRefresh None ?s"
    using sm_trailing.hyps by (simp add: runQueuedRefresh_def)
  have aw: "awake ?s = awake (sm_state m)" by (simp add: awake_def)
  show ?case
  proof (cases "awake (sm_state m)")
    case True
    from start_cases [of ?s None "fst (startStaticRefresh None ?s)" "snd (startStaticRefresh None ?s)"]
    show ?thesis using sm_trailing.prems True by (auto simp: sm_inv_def sent_def owes_def run aw)
  next
    case False
    then show ?thesis using sm_trailing.prems by (simp add: sm_inv_def sent_def run aw asleep_start)
  qed
next
  case (sm_other m s)
  then show ?case by (auto simp: sm_inv_def same_guard_def)
qed

lemma sm_reachable_inv: "sm_reachable m \<Longrightarrow> sm_inv m"
  by (induction rule: sm_reachable.induct) (simp add: sm_inv_def, rule sm_step_inv)

lemma queued_asleep: "rf_queued s \<Longrightarrow> \<not> awake s \<Longrightarrow> runQueuedRefresh s = (s\<lparr>rf_queued := False\<rparr>, None)"
  by (simp add: runQueuedRefresh_def asleep_start awake_def)

lemma queued_awake:
  assumes "rf_queued s" and "awake s" and "\<not> rf_inFlight s"
  shows "\<exists>f. snd (runQueuedRefresh s) = Some f
    \<and> (\<forall>d \<in> set static_domains. d \<in> set (sf_selected f) \<or> (protected_now s \<and> d \<in> STATIC_CONFIG_DOMAINS))"
proof -
  have "protected_now (s\<lparr>rf_queued := False, rf_inFlight := b, rf_staticState := t\<rparr>) = protected_now s" for b t
    by (simp add: protected_now_def)
  then show ?thesis
    using assms full_selection [of "protected_now s"]
    by (auto simp: runQueuedRefresh_def startStaticRefresh_def awake_def wants_def Let_def)
qed

text \<open>
  C7. The static refresh is single-flight and forgets a request only when the page is hidden. Along any
  interleaving of requests, replies, trailing runs and other changes (among them hiding the page and logging
  out), at most one refresh is running, exactly while the guard is set. As long as a request that was refused
  because of it has not been followed by a refresh of every domain, one is owed: noted as wanted or queued. The
  queued run, when the page is visible, the operator logged in and none is running, asks for every domain (of
  those of the configuration only while nothing is being edited); when the page is hidden or the operator logged
  out it asks for nothing and what was owed is dropped.
\<close>

theorem static_refresh_owed:
  assumes "sm_reachable m"
  shows "length (sm_flights m) \<le> 1 \<and> (rf_inFlight (sm_state m) \<longleftrightarrow> sm_flights m \<noteq> [])
    \<and> (sm_owed m \<longrightarrow> rf_wanted (sm_state m) \<or> rf_queued (sm_state m))
    \<and> (rf_queued (sm_state m) \<longrightarrow>
        (if \<not> awake (sm_state m) then runQueuedRefresh (sm_state m) = ((sm_state m)\<lparr>rf_queued := False\<rparr>, None)
         else if rf_inFlight (sm_state m) then rf_wanted (fst (runQueuedRefresh (sm_state m))) \<and> snd (runQueuedRefresh (sm_state m)) = None
         else \<exists>f. snd (runQueuedRefresh (sm_state m)) = Some f
           \<and> (\<forall>d \<in> set static_domains. d \<in> set (sf_selected f) \<or> (protected_now (sm_state m) \<and> d \<in> STATIC_CONFIG_DOMAINS))))"
proof -
  have inv: "sm_inv m" by (rule sm_reachable_inv [OF assms])
  have busy: "rf_wanted (fst (runQueuedRefresh s)) \<and> snd (runQueuedRefresh s) = None"
    if "rf_queued s" "awake s" "rf_inFlight s" for s
    using that by (simp add: runQueuedRefresh_def startStaticRefresh_def awake_def)
  show ?thesis
    using inv queued_asleep [of "sm_state m"] queued_awake [of "sm_state m"] busy [of "sm_state m"]
    by (auto simp: sm_inv_def split: if_splits)
qed

theorem static_refresh_owed_witness:
  "\<exists>m :: static_machine. sm_reachable m \<and> sm_owed m \<and> length (sm_flights m) = 1
     \<and> (rf_wanted (sm_state m) \<or> rf_queued (sm_state m))"
proof -
  define m0 where "m0 = \<lparr>sm_state = sample_state, sm_flights = [], sm_owed = False, sm_dropped = False\<rparr>"
  define m1 where "m1 = (sent (startStaticRefresh None (sm_state m0)) m0)\<lparr>sm_owed := owes None m0\<rparr>"
  define m2 where "m2 = (sent (startStaticRefresh (Some [''audit'']) (sm_state m1)) m1)\<lparr>sm_owed := owes (Some [''audit'']) m1\<rparr>"
  have aw: "awake sample_state" by (simp add: awake_def sample_state_def)
  have i1: "rf_inFlight (sm_state m1)" "awake (sm_state m1)"
    using start_cases [OF aw, of None "fst (startStaticRefresh None sample_state)" "snd (startStaticRefresh None sample_state)"]
    by (auto simp: m1_def m0_def sent_def sample_state_def)
  have "sm_reachable m0" unfolding m0_def by (rule sm_init) (simp_all add: sample_state_def)
  then have "sm_reachable m1" unfolding m1_def by (rule sm_next) (rule sm_request)
  then have m: "sm_reachable m2" unfolding m2_def by (rule sm_next) (rule sm_request)
  have owed: "sm_owed m2" "rf_inFlight (sm_state m2)"
    using i1 start_cases [OF i1(2), of "Some [''audit'']" "fst (startStaticRefresh (Some [''audit'']) (sm_state m1))"
        "snd (startStaticRefresh (Some [''audit'']) (sm_state m1))"]
    by (auto simp: m2_def owes_def sent_def)
  have "length (sm_flights m2) \<le> 1" "sm_flights m2 \<noteq> []" "rf_wanted (sm_state m2) \<or> rf_queued (sm_state m2)"
    using static_refresh_owed [OF m] owed by blast+
  then show ?thesis using m owed by (cases "sm_flights m2") auto
qed

section \<open>A refresh never overwrites unsaved work\<close>

text \<open>What a configuration refresh would replace.\<close>

definition config_data :: "refresh_state \<Rightarrow> jsval \<times> jsval \<times> jsval \<times> opt_store" where
  "config_data s = (d_config s, d_routing s, d_overlay s, rf_store s)"

lemma config_status [simp]: "config_data (applyStatusPayload v s) = config_data s"
  by (simp add: config_data_def applyStatusPayload_def Let_def)

lemma config_caps [simp]: "config_data (fst (acceptModelCapabilities v s)) = config_data s"
  by (simp add: config_data_def acceptModelCapabilities_def)

lemma config_log [simp]: "config_data (log_event e s) = config_data s"
  by (simp add: config_data_def log_event_def)

lemma config_fields [simp]:
  "config_data (s\<lparr>d_audit := v\<rparr>) = config_data s" "config_data (s\<lparr>d_diagnostics := v\<rparr>) = config_data s"
  "config_data (s\<lparr>d_diagRecords := v\<rparr>) = config_data s" "config_data (s\<lparr>d_version := n\<rparr>) = config_data s"
  "config_data (s\<lparr>rf_staticState := x\<rparr>) = config_data s"
  by (simp_all add: config_data_def)

lemma config_put: "(\<And>s. config_data (f v s) = config_data s) \<Longrightarrow> config_data (put v f s) = config_data s"
  by (simp add: put_def)

lemma config_release [simp]: "config_data (release_static s) = config_data s"
  by (simp add: config_data_def release_static_def)

lemma deferred_keeps_config:
  assumes "shouldDefer (Some (sf_snapshot f)) (protected_now s) (coord_of s)"
  shows "config_data (finishStaticRefresh f replies preserve s) = config_data s"
  using assms
  by (simp add: finishStaticRefresh_def Let_def apply_static_def config_put if_distrib [of config_data])

text \<open>
  C1. Automatic refreshes never overwrite what the operator is typing: if a field of a tracked form was
  edited at any time before the replies arrive (and its container not cleaned since), the refresh
  leaves the configuration, the routing data, the overlay and the optimistic store as they are,
  whatever the server answered.
\<close>

theorem edit_survives_refresh:
  assumes "rf_dirty s = markContainerDirty (Some e) ds" and "is_form_tag (js_lower (e_tag e))"
    and "e_type e \<notin> {''search'', ''button'', ''submit''}" and "\<not> e_safe e"
    and "sel \<in> set trackedFormSelectors" and "sel \<in> e_within e"
  shows "config_data (finishStaticRefresh f replies preserve s) = config_data s"
proof (rule deferred_keeps_config)
  have "protected_now s"
    unfolding protected_now_def assms(1) by (rule edit_protects [OF assms(2-6)])
  then show "shouldDefer (Some (sf_snapshot f)) (protected_now s) (coord_of s)"
    by (simp add: shouldDefer_def)
qed

definition sample_input :: elem where
  "sample_input = \<lparr>e_tag = ''INPUT'', e_type = ''text'', e_safe = False, e_editable = False,
     e_within = {''#configProviders''}\<rparr>"

theorem edit_survives_refresh_witness:
  "let s = sample_state\<lparr>rf_dirty := markContainerDirty (Some sample_input) (rf_dirty sample_state)\<rparr>;
       f = \<lparr>sf_snapshot = snapshot coord_init, sf_selected = [''config''], sf_includesConfig = True\<rparr>
   in config_data (finishStaticRefresh f (\<lambda>d. Some (Obj [(''revision'', jnum 9)])) True s) = config_data s"
  unfolding Let_def
proof (rule edit_survives_refresh [where sel = "''#configProviders''" and e = sample_input])
  show "is_form_tag (js_lower (e_tag sample_input))" by code_simp
qed (simp_all add: sample_input_def trackedFormSelectors_def)

text \<open>While a configuration action is open, refreshes do not even ask for the configuration.\<close>

lemma open_action_protects:
  "coord_inv (coord_of s) \<Longrightarrow> scopes (coord_of s) \<noteq> {} \<Longrightarrow> protected_now s"
  using coord_depth_pos [of "coord_of s"] by (simp add: protected_now_def hasProtectedConfigInteraction_def)

section \<open>Configuration actions settle\<close>

lemma store_confirm_shows: "store_confirm i c st = (st', Some effective) \<Longrightarrow> effective = store_config st'"
  by (auto simp: store_confirm_def Let_def split: option.splits if_splits)

lemma store_confirm_removes:
  "store_confirm i c st = (st', r) \<Longrightarrow> i \<notin> mut_id ` set (pending st')"
  by (auto simp: store_confirm_def acceptConfirmed_def Let_def find_None_iff split: option.splits if_splits)

text \<open>What the end of an action can no longer change.\<close>

definition settled_view :: "refresh_state \<Rightarrow> opt_store \<times> jsval \<times> dirty_state \<times> nat set" where
  "settled_view s = (rf_store s, d_config s, rf_dirty s, rf_busy s)"

lemma settled_view_status [simp]: "settled_view (applyStatusPayload v s) = settled_view s"
  by (simp add: settled_view_def applyStatusPayload_def Let_def)

lemma settled_view_caps [simp]: "settled_view (fst (acceptModelCapabilities v s)) = settled_view s"
  by (simp add: settled_view_def acceptModelCapabilities_def)

lemma settled_view_misc [simp]:
  "settled_view (log_event e s) = settled_view s" "settled_view (force flags s) = settled_view s"
  "settled_view (scheduleBackgroundRefresh a s) = settled_view s"
  "settled_view (s\<lparr>d_routing := v\<rparr>) = settled_view s" "settled_view (s\<lparr>d_status := v\<rparr>) = settled_view s"
  "settled_view (s\<lparr>d_version := n\<rparr>) = settled_view s"
  by (simp_all add: settled_view_def log_event_def force_def scheduleBackgroundRefresh_def)

lemma settled_view_merge: "\<not> present r ''config'' \<or> skip \<Longrightarrow> settled_view (fst (merge_reply r skip s)) = settled_view s"
  by (auto simp: merge_reply_def Let_def split_beta if_distrib [of settled_view] if_distrib [of fst])

lemma settled_view_result:
  "\<not> present r ''config'' \<or> skip \<Longrightarrow> settled_view (fst (applyMutationResult r render drawer skip s)) = settled_view s"
  using settled_view_merge [of r skip s]
  by (simp add: applyMutationResult_def Let_def split_beta if_distrib [of settled_view] if_distrib [of fst])

lemma settled_view_success: "settled_view (action_succeeded result drawer s) = settled_view s"
  by (simp add: action_succeeded_def settled_view_result)

lemma settled_view_finish:
  "settled_view (finish_action h s) =
     (rf_store s, d_config s, (rf_dirty s)\<lparr>ds_coord := finishMutation (ah_scope h) (coord_of s)\<rparr>, rf_busy s - {ah_busy h})"
  by (simp add: settled_view_def finish_action_def finish_scope_def set_coord_def Let_def)

lemma finish_scope_gone: "h \<notin> scopes (finishMutation h c)"
  by (simp add: finishMutation_def markInteraction_def)

lemma settled_eqD:
  assumes "settled_view s' = (st, c, ds\<lparr>ds_coord := finishMutation (ah_scope h) co\<rparr>, b - {ah_busy h})"
  shows "rf_store s' = st" "d_config s' = c" "ah_scope h \<notin> scopes (coord_of s')" "ah_busy h \<notin> rf_busy s'"
  using assms finish_scope_gone [of "ah_scope h" co] by (auto simp: settled_view_def)

lemma reject_view:
  "rf_store (rejectOptimisticConfigMutation i drawer s) = store_reject i (rf_store s)"
  "d_config (rejectOptimisticConfigMutation i drawer s) = jor (store_config (store_reject i (rf_store s))) (Obj [])"
  by (simp_all add: rejectOptimisticConfigMutation_def publishEffectiveConfig_def force_def log_event_def Let_def)

text \<open>The three ways an action ends; each closes the scope and the busy controls with \<open>finish_action\<close>.\<close>

definition edit_gone :: "action_handle \<Rightarrow> refresh_state \<Rightarrow> bool" where
  "edit_gone h s \<longleftrightarrow> ah_mutation h \<notin> mut_id ` set (pending (rf_store s))"

lemma reject_edit_gone:
  "settled_view s1 = settled_view (rejectOptimisticConfigMutation (ah_mutation h) drawer s) \<Longrightarrow> edit_gone h s1"
  by (auto simp: edit_gone_def settled_view_def reject_view store_reject_def)

lemma failed_end:
  "\<exists>s1. fst (finishOptimisticConfigAction h (Inl err) drawer hasOnError s) = finish_action h s1 \<and> edit_gone h s1
     \<and> d_config s1 = jor (store_config (store_reject (ah_mutation h) (rf_store s))) (Obj [])"
  by (intro exI [of _ "log_event (if hasOnError then Callback ''onError'' else Notice err ''bad'')
        (rejectOptimisticConfigMutation (ah_mutation h) drawer s)"])
     (auto simp: finishOptimisticConfigAction_def log_event_def reject_view settled_view_def
        intro!: reject_edit_gone [where drawer = drawer and s = s])

lemma replied_end:
  assumes "\<not> present result ''config''"
  shows "\<exists>s1. fst (finishOptimisticConfigAction h (Inr result) drawer hasOnError s) = finish_action h s1 \<and> edit_gone h s1"
  by (intro exI [of _ "action_succeeded result drawer (rejectOptimisticConfigMutation (ah_mutation h) drawer s)"])
     (use assms in \<open>auto simp: finishOptimisticConfigAction_def settled_view_success
        intro!: reject_edit_gone [where drawer = drawer and s = s]\<close>)

lemma confirmed_end:
  assumes "present result ''config''"
  shows "\<exists>s1. fst (finishOptimisticConfigAction h (Inr result) drawer hasOnError s) = finish_action h s1 \<and> edit_gone h s1"
proof -
  obtain st r where c: "store_confirm (ah_mutation h) (get result ''config'') (rf_store s) = (st, r)" by fastforce
  have nu: "get result ''config'' \<noteq> Undef" using assms by (simp add: present_def)
  define s1 where "s1 = (case r of None \<Rightarrow> s\<lparr>rf_store := st\<rparr>
      | Some e \<Rightarrow> action_succeeded result drawer (s\<lparr>rf_store := st, d_config := e\<rparr>))"
  have "fst (finishOptimisticConfigAction h (Inr result) drawer hasOnError s) = finish_action h s1"
    by (cases r) (simp_all add: s1_def finishOptimisticConfigAction_def assms
        confirmOptimisticConfigMutation_def nu c)
  moreover have "rf_store s1 = st"
    using settled_view_success [of result drawer "s\<lparr>rf_store := st, d_config := the r\<rparr>"]
    by (cases r) (simp_all add: s1_def settled_view_def)
  ultimately show ?thesis using store_confirm_removes [OF c] by (auto simp: edit_gone_def)
qed

text \<open>
  C3. A configuration action always settles: whether the server confirms, answers without a
  configuration, refers to a forgotten edit, or the call throws, afterwards the edit is no longer
  pending, its mutation scope is closed, its controls are no longer busy, and on an error the page
  shows the configuration without the edit.
\<close>

theorem config_action_settles:
  "let s' = fst (finishOptimisticConfigAction h outcome drawer hasOnError s) in
     ah_mutation h \<notin> mut_id ` set (pending (rf_store s'))
     \<and> ah_scope h \<notin> scopes (coord_of s') \<and> ah_busy h \<notin> rf_busy s'
     \<and> (isl outcome \<longrightarrow> d_config s' = jor (store_config (store_reject (ah_mutation h) (rf_store s))) (Obj []))"
proof -
  obtain s1 where s1: "fst (finishOptimisticConfigAction h outcome drawer hasOnError s) = finish_action h s1"
      "edit_gone h s1" "isl outcome \<longrightarrow> d_config s1 = jor (store_config (store_reject (ah_mutation h) (rf_store s))) (Obj [])"
    using failed_end [of h _ drawer hasOnError s] replied_end [of _ h drawer hasOnError s]
      confirmed_end [of _ h drawer hasOnError s]
    by (cases outcome) (simp_all, blast+)
  then show ?thesis
    using settled_eqD [OF settled_view_finish, of h s1] by (simp add: edit_gone_def Let_def)
qed

theorem config_action_settles_witness:
  "d_config (fst (finishOptimisticConfigAction \<lparr>ah_scope = 0, ah_mutation = 1, ah_busy = 0\<rparr> (Inl ''HTTP 500'')
      True False sample_state)) = Obj []"
  using config_action_settles [of "\<lparr>ah_scope = 0, ah_mutation = 1, ah_busy = 0\<rparr>" "Inl ''HTTP 500''" True False sample_state]
  by (simp add: Let_def sample_state_def store_reject_def store_new_def store_config_def apply_all_def
      cloneConfig_def jor_def)

section \<open>Between a click and its end\<close>

lemma finish_scope_view:
  "scopes (finishMutation h c) = scopes c - {h}"
  "mutationDepth (finishMutation h c) = (if h \<in> scopes c then max 0 (mutationDepth c - 1) else mutationDepth c)"
  by (simp_all add: finishMutation_def markInteraction_def)

lemma reject_log_coord:
  "coord_of (log_event e (rejectOptimisticConfigMutation i drawer s)) = coord_of s"
  "rf_busy (log_event e (rejectOptimisticConfigMutation i drawer s)) = rf_busy s"
  "rf_store (log_event e (rejectOptimisticConfigMutation i drawer s)) = store_reject i (rf_store s)"
  "d_config (log_event e (rejectOptimisticConfigMutation i drawer s)) = jor (store_config (store_reject i (rf_store s))) (Obj [])"
  by (simp_all add: rejectOptimisticConfigMutation_def publishEffectiveConfig_def force_def log_event_def Let_def)

end
