(* ===== verification/RuntimeRefreshFacts.thy ===== *)
theory RuntimeRefreshFacts
  imports RuntimeRefresh ConfigRefreshFacts
begin

text \<open>
  What the runtime poll promises: a poll that differs only in clocks and countdowns changes nothing,
  the rows shown belong to the page shown, and a page change ends in new rows, in the old page, or
  in another attempt.
\<close>

section \<open>Unchanged polls\<close>

text \<open>
  Two values under a property \<open>k\<close> that the console renders alike: they differ only in ignored fields,
  in countdowns of the same five-second bucket, or in such fields further down.
\<close>

inductive renders_alike :: "string \<Rightarrow> jsval \<Rightarrow> jsval \<Rightarrow> bool" where
  alike_refl: "renders_alike k v v"
| alike_ignored: "k \<in> IGNORED_FIELDS \<Longrightarrow> renders_alike k v w"
| alike_bucket: "k \<in> BUCKETED_FIELDS \<Longrightarrow> is_finite (to_num v) \<Longrightarrow> is_finite (to_num w) \<Longrightarrow>
     bucket v = bucket w \<Longrightarrow> renders_alike k v w"
| alike_array: "k \<notin> BUCKETED_FIELDS \<Longrightarrow> list_all2 (renders_alike []) xs ys \<Longrightarrow>
     renders_alike k (Arr xs) (Arr ys)"
| alike_object: "k \<notin> BUCKETED_FIELDS \<Longrightarrow>
     list_all2 (\<lambda>a b. fst a = fst b \<and> renders_alike (fst a) (snd a) (snd b)) kvs lvs \<Longrightarrow>
     renders_alike k (Obj kvs) (Obj lvs)"

lemma bucket_special: "k \<in> BUCKETED_FIELDS \<Longrightarrow> k \<notin> IGNORED_FIELDS"
  by (auto simp: BUCKETED_FIELDS_def IGNORED_FIELDS_def)

lemma alike_replaced: "renders_alike k v w \<Longrightarrow> replaced k v = replaced k w"
proof (induction rule: renders_alike.induct)
  case (alike_array k xs ys)
  have "map (replaced []) xs = map (replaced []) ys"
    using alike_array.IH by (induction rule: list_all2_induct) auto
  with alike_array.hyps show ?case by auto
next
  case (alike_object k kvs lvs)
  have "map (\<lambda>(k, x). (k, replaced k x)) kvs = map (\<lambda>(k, x). (k, replaced k x)) lvs"
    using alike_object.IH by (induction rule: list_all2_induct) (auto simp del: replaced.simps)
  with alike_object.hyps show ?case by auto
qed (auto simp: bucket_special)

lemma json_text_Obj_nonempty: "nonempty_sig (runtimeSignature (Obj kvs))"
  by (simp add: nonempty_sig_def runtimeSignature_def IGNORED_FIELDS_def BUCKETED_FIELDS_def)

text \<open>
  C11. An unchanged poll is a no-op: when the next core payload differs from the one just applied only in
  clocks, durations and countdowns within their bucket, it is not applied and the page is not told to
  re-render; no field of the state changes.
\<close>

theorem unchanged_poll_is_noop:
  assumes "\<forall>k \<in> set core_entries. renders_alike k (get r k) (get r' k)"
  shows "applyRuntimeCore r' (fst (applyRuntimeCore r s)) = (fst (applyRuntimeCore r s), False)"
proof -
  define sig where "sig r = runtimeSignature (Obj [(''metrics'', get r ''metrics''),
      (''providerActivity'', get r ''providerActivity''), (''healthScores'', get r ''healthScores''),
      (''routerSnapshot'', get r ''routerSnapshot'')])" for r
  have a: "renders_alike ''metrics'' (get r ''metrics'') (get r' ''metrics'')"
    "renders_alike ''providerActivity'' (get r ''providerActivity'') (get r' ''providerActivity'')"
    "renders_alike ''healthScores'' (get r ''healthScores'') (get r' ''healthScores'')"
    "renders_alike ''routerSnapshot'' (get r ''routerSnapshot'') (get r' ''routerSnapshot'')"
    using assms by (simp_all add: core_entries_def)
  have "sig r' = sig r"
    unfolding sig_def runtimeSignature_def
    by (rule arg_cong [of _ _ json_text], rule sym, rule alike_replaced, rule alike_object)
       (simp_all add: a BUCKETED_FIELDS_def)
  moreover have "rt_coreSig (fst (applyRuntimeCore r s)) = sig r"
    by (simp add: applyRuntimeCore_def sig_def [symmetric] Let_def)
  moreover have "nonempty_sig (sig r')" by (simp add: sig_def json_text_Obj_nonempty)
  moreover have "nonempty_sig (sig r') \<Longrightarrow> sig r' = rt_coreSig s' \<Longrightarrow> applyRuntimeCore r' s' = (s', False)" for s'
    by (simp add: applyRuntimeCore_def sig_def [symmetric] Let_def)
  ultimately show ?thesis by metis
qed

definition sample_runtime :: poll_state where
  "sample_runtime = \<lparr>rt_adminKey = ''key'', rt_hidden = False, rt_view = ''requests'',
     rt_nav = \<lparr>requestsPage = jnum 1, navigation = Some (Fin 0, Fin 1), forceRequestsFetch = False\<rparr>,
     rt_forceTimeseries = False, rt_inFlight = True, rt_wanted = False, rt_wantedForce = False, rt_generation = 1,
     rt_queued = [], rt_coreSig = None, rt_viewSig = None, rt_viewAt = (\<lambda>_. 0), rt_ringAt = 0, rt_renders = 0,
     rt_version = 0, rt_lastModels = Null, rt_capabilityFetches = 0, r_metrics = Null, r_metricsFull = Null,
     r_activity = Null, r_health = Null, r_status = Null, r_timeseries = Null, r_requests = Null\<rparr>"

theorem unchanged_poll_is_noop_witness:
  "snd (applyRuntimeCore (Obj [(''metrics'', Obj [(''uptime_s'', jnum 15), (''total'', jnum 3)])])
     (fst (applyRuntimeCore (Obj [(''metrics'', Obj [(''uptime_s'', jnum 10), (''total'', jnum 3)])]) sample_runtime))) = False"
proof -
  have "renders_alike ''metrics'' (Obj [(''uptime_s'', jnum 10), (''total'', jnum 3)])
      (Obj [(''uptime_s'', jnum 15), (''total'', jnum 3)])"
    by (rule alike_object) (auto simp: BUCKETED_FIELDS_def IGNORED_FIELDS_def
        intro: alike_refl alike_ignored)
  then show ?thesis
    using unchanged_poll_is_noop [of "Obj [(''metrics'', Obj [(''uptime_s'', jnum 10), (''total'', jnum 3)])]"
        "Obj [(''metrics'', Obj [(''uptime_s'', jnum 15), (''total'', jnum 3)])]" sample_runtime]
    by (simp add: core_entries_def alike_refl)
qed

section \<open>Page navigation\<close>

lemma applyView_nav:
  "rt_nav (fst (applyRuntimeViewData now r v s)) = rt_nav s"
  "rt_wanted (fst (applyRuntimeViewData now r v s)) = rt_wanted s"
  by (simp_all add: applyRuntimeViewData_def Let_def)

lemma release_fields:
  "rt_nav (release_runtime f s) = rt_nav s" "r_requests (release_runtime f s) = r_requests s"
  by (simp_all add: release_runtime_def Let_def)

lemma render_fields:
  "rt_nav (render s) = rt_nav s" "r_requests (render s) = r_requests s"
  "rt_wanted (render s) = rt_wanted s" "rt_generation (render s) = rt_generation s"
  "rt_wantedForce (render s) = rt_wantedForce s" "rt_queued (render s) = rt_queued s"
  by (simp_all add: render_def)

lemma want_fields:
  "rt_nav (want_forced s) = rt_nav s" "r_requests (want_forced s) = r_requests s"
  "rt_generation (want_forced s) = rt_generation s" "rt_queued (want_forced s) = rt_queued s"
  "rt_wanted (want_forced s)" "rt_wantedForce (want_forced s)"
  by (simp_all add: want_forced_def)

lemma release_queues:
  assumes "fl_generation f = rt_generation s" and "rt_wanted s"
  shows "rt_queued (release_runtime f s) = rt_queued s @ [rt_wantedForce s]"
  using assms by (simp add: release_runtime_def Let_def)

lemma result_request:
  "get (to_result entries settled_of) ''requests''
     = (if ''requests'' \<in> set entries then (case settled_of ''requests'' of Fulfilled v \<Rightarrow> v | Rejected _ \<Rightarrow> Undef)
        else Undef)"
proof -
  have "lookup ''requests'' (List.map_filter (\<lambda>k. case settled_of k of Fulfilled v \<Rightarrow> Some (k, v) | Rejected _ \<Rightarrow> None) entries)
     = (if ''requests'' \<in> set entries then (case settled_of ''requests'' of Fulfilled v \<Rightarrow> v | Rejected _ \<Rightarrow> Undef) else Undef)"
    by (induction entries) (auto simp: List.map_filter_simps split: settled.splits)
  then show ?thesis by (simp add: to_result_def)
qed

lemma settle_requests: "r_requests (settle_navigation f p reply m s) = r_requests s"
  by (simp add: settle_navigation_def roll_back_def want_fields render_fields
      split: option.split settled.split bool.split)

lemma render_choice: "(if c then render s else s) = s \<or> (if c then render s else s) = render s"
  by simp

text \<open>The view part in one line: apply the payload, settle the navigation, perhaps render, release the guard.\<close>

lemma viewArrived_shape:
  fixes f cc now view s
  defines "p \<equiv> (if fl_view f = ''requests'' then get (to_result (fl_entries f) view) ''requests'' else Undef)"
    and "reply \<equiv> (if ''requests'' \<in> set (fl_entries f) then Some (view ''requests'') else None)"
  defines "s2 \<equiv> fst (apply_view f (request_matches f p s) now (to_result (fl_entries f) view) s)"
  defines "s3 \<equiv> (if navigation_pending f s then settle_navigation f p reply (request_matches f p s) s2 else s2)"
  assumes "still_current f s"
  shows "\<exists>s4. viewArrived f cc now view s = release_runtime f s4 \<and> (s4 = s3 \<or> s4 = render s3)"
  unfolding viewArrived_def Let_def split_beta p_def [symmetric] reply_def [symmetric] s2_def [symmetric]
    s3_def [symmetric]
  by (simp only: assms(5) simp_thms if_False) (rule exI, rule conjI, rule refl, rule render_choice)

lemma apply_view_requests:
  "r_requests (fst (apply_view f m now result s)) = r_requests s
   \<or> (m \<and> r_requests (fst (apply_view f m now result s)) = get result ''requests'')"
  by (simp add: apply_view_def applyRuntimeViewData_def or_keep_def want_fields Let_def)

lemma apply_view_nav:
  "rt_nav (fst (apply_view f m now result s)) = rt_nav s"
  "rt_generation (fst (apply_view f m now result s)) = rt_generation s"
  by (simp_all add: apply_view_def applyRuntimeViewData_def want_fields Let_def)

lemma apply_view_mismatch: "fst (apply_view f False now result s) = want_forced s"
  by (simp add: apply_view_def)

text \<open>The rows after the view replies: the fulfilled payload when it matches the page, else the old ones.\<close>

lemma view_requests:
  fixes f cc now view s
  defines "p \<equiv> (if fl_view f = ''requests'' then get (to_result (fl_entries f) view) ''requests'' else Undef)"
  assumes "r_requests (viewArrived f cc now view s) \<noteq> r_requests s"
  shows "r_requests (viewArrived f cc now view s) = get (to_result (fl_entries f) view) ''requests''
    \<and> request_matches f p s"
proof (cases "still_current f s")
  case True
  from viewArrived_shape [OF this, of cc now view] obtain s4 where
    "viewArrived f cc now view s = release_runtime f s4"
    "r_requests s4 = r_requests (fst (apply_view f (request_matches f p s) now (to_result (fl_entries f) view) s))"
    by (auto simp: p_def settle_requests render_fields)
  then show ?thesis
    using assms(2) apply_view_requests [of f "request_matches f p s" now "to_result (fl_entries f) view" s]
    by (auto simp: release_fields)
qed (use assms(2) in \<open>simp add: viewArrived_def release_fields\<close>)

text \<open>The poll of the request view replaces the rows only by rows of the page that is selected when they arrive.\<close>

lemma poll_rows_match:
  assumes "fl_view f = ''requests''" and "r_requests (viewArrived f cc now view s) \<noteq> r_requests s"
  shows "strict_eq (Num (to_num (requestsPage (rt_nav s)))) (fl_page f)
    \<and> requestPayloadMatchesPage (r_requests (viewArrived f cc now view s)) (fl_page f) (jnum REQUEST_PAGE_SIZE)"
proof -
  let ?p = "get (to_result (fl_entries f) view) ''requests''"
  from view_requests [OF assms(2)] assms(1)
  have "r_requests (viewArrived f cc now view s) = ?p" "request_matches f ?p s" by simp_all
  then show ?thesis
    using assms(1) by (auto simp: request_matches_def requestNavigationPayloadMatchesPage_def split: if_splits)
qed

definition sample_flight :: runtime_flight where
  "sample_flight = \<lparr>fl_generation = 1, fl_view = ''requests'', fl_page = jnum 1, fl_entries = [''requests'']\<rparr>"

text \<open>The three outcomes of a page change, for the state \<open>s2\<close> in which the payload has been applied.\<close>

lemma settle_arrived:
  "requestNavigationPayloadMatchesPage p (fl_page f) (jnum REQUEST_PAGE_SIZE) \<Longrightarrow>
   rt_nav (settle_navigation f p reply True s2) = (rt_nav s2)\<lparr>navigation := None\<rparr>"
  by (simp add: settle_navigation_def)

lemma settle_failed:
  "navigation (rt_nav s2) = Some (a, b) \<Longrightarrow>
   rt_nav (settle_navigation f p (Some (Rejected False)) False s2) = (rt_nav s2)\<lparr>requestsPage := Num a, navigation := None\<rparr>"
  by (simp add: settle_navigation_def roll_back_def render_fields)

lemma settle_open:
  "reply \<noteq> Some (Rejected False) \<Longrightarrow> settle_navigation f p reply False s2 = want_forced s2"
  by (auto simp: settle_navigation_def split: option.split settled.split bool.split)

lemma release_wanted:
  assumes "fl_generation f = rt_generation s"
  shows "rt_queued (release_runtime f (want_forced s)) = rt_queued s @ [True]"
    "rt_queued (release_runtime f (render (want_forced s))) = rt_queued s @ [True]"
  using assms by (simp_all only: release_queues want_fields render_fields)

text \<open>The payload matches exactly when the request was sent and answered with the page's rows.\<close>

lemma payload_matches_iff:
  "requestNavigationPayloadMatchesPage (get (to_result (fl_entries f) view) ''requests'') pg sz \<longleftrightarrow>
   ''requests'' \<in> set (fl_entries f) \<and>
      (\<exists>v. view ''requests'' = Fulfilled v \<and> requestNavigationPayloadMatchesPage v pg sz)"
  by (auto simp: result_request requestNavigationPayloadMatchesPage_def split: settled.splits)

text \<open>With a page change pending, the view part is the navigation's outcome, perhaps rendered, then released.\<close>

lemma pending_view:
  fixes f cc now view s
  defines "p \<equiv> get (to_result (fl_entries f) view) ''requests''"
    and "reply \<equiv> (if ''requests'' \<in> set (fl_entries f) then Some (view ''requests'') else None)"
  defines "ok \<equiv> requestNavigationPayloadMatchesPage p (fl_page f) (jnum REQUEST_PAGE_SIZE)"
  assumes "still_current f s" and "fl_view f = ''requests''" and "navigation_pending f s"
    and "strict_eq (Num (to_num (requestsPage (rt_nav s)))) (fl_page f)"
  obtains s2 s4 where "viewArrived f cc now view s = release_runtime f s4"
    "s4 = settle_navigation f p reply ok s2 \<or> s4 = render (settle_navigation f p reply ok s2)"
    "rt_nav s2 = rt_nav s" "\<not> ok \<Longrightarrow> s2 = want_forced s"
proof -
  have m: "request_matches f p s = ok"
    using assms(4-7) by (simp add: request_matches_def ok_def)
  have "\<not> ok \<Longrightarrow> fst (apply_view f ok now (to_result (fl_entries f) view) s) = want_forced s"
    by (simp add: apply_view_mismatch)
  moreover have "\<exists>s4. viewArrived f cc now view s = release_runtime f s4 \<and>
      (s4 = settle_navigation f p reply ok (fst (apply_view f ok now (to_result (fl_entries f) view) s))
       \<or> s4 = render (settle_navigation f p reply ok (fst (apply_view f ok now (to_result (fl_entries f) view) s))))"
    using viewArrived_shape [OF assms(4), of cc now view] assms(5,6) m
    by (simp only: p_def [symmetric] simp_thms if_True reply_def [symmetric])
  ultimately show ?thesis using that apply_view_nav(1) by blast
qed

text \<open>
  C8. A page change is never left half done. When the replies to the poll that fetches the selected page
  arrive (same view, same page), either the page's rows arrived and the navigation is over; or the
  request failed for good and the table is back on the page it came from; or the answer is
  inconclusive (aborted, not sent, or for another page) and the selected page stays with another,
  forced poll queued.
\<close>

theorem navigation_settles:
  assumes "still_current f s" and "fl_view f = ''requests''" and "navigation (rt_nav s) = Some (a, b)"
    and "strict_eq (Num b) (fl_page f)" and "strict_eq (Num (to_num (requestsPage (rt_nav s)))) (fl_page f)"
  shows "let s' = viewArrived f cc now view s; reply = view ''requests'';
             sent = (''requests'' \<in> set (fl_entries f)) in
     (if sent \<and> (\<exists>v. reply = Fulfilled v \<and> requestNavigationPayloadMatchesPage v (fl_page f) (jnum REQUEST_PAGE_SIZE))
      then navigation (rt_nav s') = None \<and> requestsPage (rt_nav s') = requestsPage (rt_nav s)
      else if sent \<and> reply = Rejected False
      then navigation (rt_nav s') = None \<and> requestsPage (rt_nav s') = Num a
      else rt_nav s' = rt_nav s \<and> rt_queued s' \<noteq> [] \<and> last (rt_queued s'))"
proof -
  define p where "p = get (to_result (fl_entries f) view) ''requests''"
  define reply where "reply = (if ''requests'' \<in> set (fl_entries f) then Some (view ''requests'') else None)"
  define ok where "ok = requestNavigationPayloadMatchesPage p (fl_page f) (jnum REQUEST_PAGE_SIZE)"
  note okv = payload_matches_iff [of f view "fl_page f" "jnum REQUEST_PAGE_SIZE", folded p_def, folded ok_def]
  have "navigation_pending f s" using assms by (simp add: navigation_pending_def)
  then obtain s2 s4 where out: "viewArrived f cc now view s = release_runtime f s4"
      "s4 = settle_navigation f p reply ok s2 \<or> s4 = render (settle_navigation f p reply ok s2)"
      "rt_nav s2 = rt_nav s" "\<not> ok \<Longrightarrow> s2 = want_forced s"
    using pending_view [OF assms(1,2) _ assms(5), of cc now view] unfolding p_def reply_def ok_def by blast
  have nav: "rt_nav (viewArrived f cc now view s) = rt_nav (settle_navigation f p reply ok s2)"
    using out(1,2) by (auto simp: release_fields render_fields)
  have gen: "fl_generation f = rt_generation s" using assms(1) by (simp add: still_current_def)
  consider (arrived) ok | (failed) "\<not> ok" "reply = Some (Rejected False)"
    | (unsettled) "\<not> ok" "reply \<noteq> Some (Rejected False)" by blast
  then show ?thesis
  proof cases
    case arrived
    with okv nav settle_arrived [of p f reply s2] out(3) show ?thesis by (auto simp: ok_def Let_def)
  next
    case failed
    with okv nav settle_failed [of s2 a b f p] out(3) assms(3) show ?thesis
      by (auto simp: reply_def Let_def split: if_splits)
  next
    case unsettled
    with out(4) have s: "settle_navigation f p reply ok s2 = want_forced (want_forced s)"
      by (simp add: settle_open)
    with out(1,2) gen release_wanted [of f "want_forced s"]
    have "rt_queued (viewArrived f cc now view s) = rt_queued s @ [True]" by (auto simp: want_fields)
    moreover have "\<not> (''requests'' \<in> set (fl_entries f) \<and> view ''requests'' = Rejected False)"
      using unsettled by (auto simp: reply_def)
    ultimately show ?thesis using unsettled okv nav s by (auto simp: Let_def want_fields)
  qed
qed

theorem navigation_settles_witness:
  "requestsPage (rt_nav (viewArrived sample_flight False 0 (\<lambda>_. Rejected False) sample_runtime)) = jnum 0"
proof -
  have "strict_eq (Num (Fin 1)) (fl_page sample_flight)" by (simp add: sample_flight_def)
  then show ?thesis
    using navigation_settles [of sample_flight sample_runtime "Fin 0" "Fin 1" False 0 "\<lambda>_. Rejected False"]
    by (simp add: sample_flight_def sample_runtime_def still_current_def Let_def)
qed

section \<open>Smaller guarantees\<close>

text \<open>The two readings of the capability snapshot agree on whether a follow-up is due.\<close>

lemma follow_up_iff_pending: "capabilityFollowUpDelayMs status \<noteq> 0 \<longleftrightarrow> hasPendingModelCapabilities status"
  by (auto simp: capabilityFollowUpDelayMs_def hasPendingModelCapabilities_def Let_def)

text \<open>A call absorbed by \<open>refreshAll\<close> is repeated once the running one ends.\<close>

lemma absorbed_refresh_repeats:
  assumes "ag_inFlight g"
  shows "snd (leaveRefreshAll (fst (enterRefreshAll a g))) = Some (mergeRefreshArgs (ag_args g) a)
    \<and> \<not> ag_inFlight (fst (leaveRefreshAll (fst (enterRefreshAll a g))))"
  using assms by (simp add: enterRefreshAll_def leaveRefreshAll_def)

end
