(* ===== verification/RefreshAllFacts.thy ===== *)
theory RefreshAllFacts
  imports RefreshAll PricingFacts ConfigRefreshFacts RuntimeRefreshFacts
begin

text \<open>
  Facts about the refresh of everything: the types of the data the views read, whatever the server answers; that
  a failed refresh changes no data; that every run ends with its guard released and the absorbed calls queued.
\<close>

section \<open>Types of the page data\<close>

text \<open>The views read properties of these values without a check: null (checked as such) or an object.\<close>

definition null_or_object :: "jsval \<Rightarrow> bool" where
  "null_or_object v \<longleftrightarrow> v = Null \<or> is_object v"

definition edit_typed :: "(jsval \<Rightarrow> jsval) \<Rightarrow> bool" where
  "edit_typed f \<longleftrightarrow> (\<forall>v. is_object v \<longrightarrow> is_object (f v))"

definition store_typed :: "opt_store \<Rightarrow> bool" where
  "store_typed st \<longleftrightarrow> (\<forall>m \<in> set (pending st) \<union> set (settled st). edit_typed (mut_apply m))"

definition page_typed :: "refresh_state \<Rightarrow> bool" where
  "page_typed p \<longleftrightarrow> store_typed (rf_store p) \<and> null_or_object (d_config p) \<and> null_or_object (d_status p)
     \<and> (rf_staticState p = ''ready'' \<longrightarrow> is_object (d_config p))"

definition data_typed :: "all_state \<Rightarrow> bool" where
  "data_typed s \<longleftrightarrow> page_typed (al_page s) \<and> (a_activity s = Null \<or> truthy (a_activity s))
     \<and> null_or_object (px_pricing (al_pricing s))"

named_theorems typed \<open>operations keep the types\<close>

lemma is_object_jor [simp]: "is_object v \<Longrightarrow> jor v w = v"
  by (cases v) (simp_all add: jor_def)

lemma is_object_clone [simp]: "is_object (cloneConfig v)"
  by (simp add: cloneConfig_def)

lemma apply_all_object: "\<forall>m \<in> set ms. edit_typed (mut_apply m) \<Longrightarrow> is_object v \<Longrightarrow> is_object (apply_all ms v)"
  unfolding apply_all_def by (induction ms arbitrary: v) (auto simp: edit_typed_def)

lemma store_config_object: "store_typed st \<Longrightarrow> is_object (store_config st)"
  unfolding store_config_def store_typed_def by (intro apply_all_object) auto

lemma store_typed_accept: "store_typed st \<Longrightarrow> store_typed (acceptConfirmed c st)"
  by (auto simp: acceptConfirmed_def store_typed_def Let_def)

lemma store_typed_reject: "store_typed st \<Longrightarrow> store_typed (store_reject i st)"
  by (auto simp: store_reject_def store_typed_def)

lemma store_typed_clear: "store_typed (store_clear st)"
  by (simp add: store_clear_def store_typed_def)

lemma store_typed_begin:
  "store_typed st \<Longrightarrow> edit_typed f \<Longrightarrow> store_begin key f st = (st', m) \<Longrightarrow> store_typed st'"
  by (auto simp: store_begin_def store_typed_def Let_def split: if_splits)

lemma store_typed_confirm:
  assumes "store_typed st" "store_confirm i c st = (st', r)"
  shows "store_typed st' \<and> (\<forall>e. r = Some e \<longrightarrow> is_object e)"
proof -
  have "store_typed st'"
  proof (cases "find (\<lambda>m. mut_id m = i) (pending st)")
    case None
    with assms show ?thesis by (simp add: store_confirm_def)
  next
    case (Some m)
    then have "edit_typed (mut_apply m)" using assms(1) find_Some_in [OF Some] by (simp add: store_typed_def)
    with Some assms show ?thesis by (auto simp: store_confirm_def store_typed_def Let_def split: if_splits)
  qed
  moreover have "r = Some e \<Longrightarrow> e = store_config st'" for e
    using assms(2) by (auto simp: store_confirm_def Let_def split: option.splits if_splits)
  ultimately show ?thesis using store_config_object by blast
qed

lemma page_typed_cong:
  "rf_store q = rf_store p \<Longrightarrow> d_config q = d_config p \<Longrightarrow> d_status q = d_status p \<Longrightarrow> rf_staticState q = rf_staticState p
    \<Longrightarrow> page_typed q = page_typed p"
  by (simp add: page_typed_def)

lemma page_typed_log [typed]: "page_typed p \<Longrightarrow> page_typed (log_event e p)"
  by (simp add: page_typed_def log_event_def)

lemma page_typed_force [typed]: "page_typed p \<Longrightarrow> page_typed (force fs p)"
  by (simp add: page_typed_def force_def)

lemma page_typed_accept [typed]: "page_typed p \<Longrightarrow> page_typed (acceptConfirmedConfig c p)"
  by (simp add: page_typed_def acceptConfirmedConfig_def Let_def null_or_object_def store_typed_accept store_config_object)

lemma page_typed_status [typed]: "page_typed p \<Longrightarrow> page_typed (applyStatusPayload v p)"
  by (auto simp: page_typed_def applyStatusPayload_def null_or_object_def obj_set_def Let_def split: jsval.splits)

lemma page_typed_caps [typed]: "page_typed p \<Longrightarrow> page_typed (fst (acceptModelCapabilities v p))"
  by (auto simp: page_typed_def acceptModelCapabilities_def null_or_object_def with_prop_def)

lemma page_typed_publish [typed]: "page_typed p \<Longrightarrow> is_object c \<Longrightarrow> page_typed (publishEffectiveConfig c drawer p)"
  by (auto simp: page_typed_def publishEffectiveConfig_def log_event_def force_def null_or_object_def Let_def)

lemma page_typed_store [typed]: "page_typed p \<Longrightarrow> store_typed st \<Longrightarrow> page_typed (p\<lparr>rf_store := st\<rparr>)"
  by (simp add: page_typed_def)

lemma page_typed_router [typed]: "page_typed p \<Longrightarrow> page_typed (p\<lparr>d_status := with_prop k v (d_status p)\<rparr>)"
  by (simp add: page_typed_def with_prop_def null_or_object_def)

lemma page_typed_routed [typed]: "page_typed p \<Longrightarrow> page_typed (p\<lparr>d_routing := x, d_status := with_prop k v (d_status p)\<rparr>)"
  by (simp add: page_typed_def with_prop_def null_or_object_def)

lemma page_typed_put [typed]: "page_typed p \<Longrightarrow> (\<And>v q. page_typed q \<Longrightarrow> page_typed (f v q)) \<Longrightarrow> page_typed (put v f p)"
  by (simp add: put_def)

lemma page_typed_other [typed]:
  assumes "page_typed p"
  shows "page_typed (p\<lparr>d_routing := x\<rparr>)" "page_typed (p\<lparr>d_overlay := x\<rparr>)" "page_typed (p\<lparr>d_audit := x\<rparr>)"
    "page_typed (p\<lparr>d_diagnostics := x\<rparr>)" "page_typed (p\<lparr>d_diagRecords := x\<rparr>)" "page_typed (p\<lparr>d_version := n\<rparr>)"
    "page_typed (p\<lparr>rf_lastModels := x\<rparr>)" "page_typed (p\<lparr>rf_bgArgs := a, rf_bgTimer := b\<rparr>)"
    "page_typed (p\<lparr>rf_busy := bs\<rparr>)" "page_typed (p\<lparr>rf_busy := bs, rf_nextBusy := n\<rparr>)" "page_typed (set_coord c p)"
    "page_typed (p\<lparr>rf_inFlight := b, rf_wanted := b', rf_queued := b''\<rparr>)"
  using assms by (simp_all add: page_typed_def set_coord_def)

section \<open>Each operation\<close>

lemma apply_page_typed: "page_typed p \<Longrightarrow> page_typed (apply_page r p)"
  unfolding apply_page_def Let_def by (intro typed) assumption

lemma apply_static_typed: "page_typed p \<Longrightarrow> page_typed (apply_static f r allow p)"
proof -
  assume p: "page_typed p"
  have err: "page_typed q \<Longrightarrow> page_typed (q\<lparr>rf_staticState := ''error''\<rparr>)" for q
    by (simp add: page_typed_def)
  show ?thesis
    unfolding apply_static_def Let_def using p by (auto intro!: typed err)
qed

lemma merge_reply_typed: "page_typed p \<Longrightarrow> page_typed (fst (merge_reply r skip p))"
  unfolding merge_reply_def Let_def case_prod_beta' fst_conv
  by (auto intro!: typed)

lemma mutation_result_typed: "page_typed p \<Longrightarrow> page_typed (fst (applyMutationResult r rnd drawer skip p))"
  using merge_reply_typed [of p r skip]
  by (auto simp: applyMutationResult_def Let_def split: prod.splits intro!: typed)

lemma reject_typed: "page_typed p \<Longrightarrow> page_typed (rejectOptimisticConfigMutation i drawer p)"
proof -
  assume p: "page_typed p"
  then have "store_typed (store_reject i (rf_store p))" by (simp add: page_typed_def store_typed_reject)
  with p show ?thesis
    unfolding rejectOptimisticConfigMutation_def Let_def by (intro typed store_config_object)
qed

lemma begin_typed:
  assumes p: "page_typed p" and f: "edit_typed f"
  shows "page_typed (fst (beginOptimisticConfigMutation key f drawer p))"
proof -
  obtain st m where b: "store_begin key f (rf_store p) = (st, m)" by force
  have st: "store_typed st" using store_typed_begin [OF _ f b] p by (simp add: page_typed_def)
  show ?thesis
    unfolding beginOptimisticConfigMutation_def b
    using p st store_config_object [OF st] by (cases m) (auto intro!: typed)
qed

lemma confirm_typed: "page_typed p \<Longrightarrow> page_typed (fst (confirmOptimisticConfigMutation i c rnd drawer p))"
proof -
  assume p: "page_typed p"
  obtain st r where b: "store_confirm i c (rf_store p) = (st, r)" by force
  have st: "store_typed st \<and> (\<forall>e. r = Some e \<longrightarrow> is_object e)"
    using store_typed_confirm [OF _ b] p by (simp add: page_typed_def)
  have "is_object e \<Longrightarrow> page_typed (p\<lparr>rf_store := st, d_config := e\<rparr>)" for e
    using p st by (simp add: page_typed_def null_or_object_def)
  with p st show ?thesis
    unfolding confirmOptimisticConfigMutation_def b by (cases r) (auto intro!: typed)
qed

lemma start_action_typed:
  assumes "page_typed p" "edit_typed f"
  shows "page_typed (fst (startOptimisticConfigAction key f drawer p))"
proof -
  obtain c scope where c: "beginMutation (coord_of p) = (c, scope)" by force
  obtain p1 m where m: "beginOptimisticConfigMutation key f drawer (set_coord c p) = (p1, m)" by force
  have "page_typed (set_coord c p)" using assms(1) by (intro typed)
  from begin_typed [OF this assms(2), of key drawer] have "page_typed p1" by (simp add: m)
  then show ?thesis
    unfolding startOptimisticConfigAction_def c by (cases m) (auto simp: m begin_busy_def finish_scope_def Let_def intro!: typed)
qed

lemma finish_action_typed: "page_typed p \<Longrightarrow> page_typed (finish_action h p)"
  unfolding finish_action_def finish_scope_def Let_def by (intro typed)

lemma action_succeeded_typed: "page_typed p \<Longrightarrow> page_typed (action_succeeded r drawer p)"
  unfolding action_succeeded_def scheduleBackgroundRefresh_def by (intro typed mutation_result_typed)

lemma finish_optimistic_typed: "page_typed p \<Longrightarrow> page_typed (fst (finishOptimisticConfigAction h out drawer onErr p))"
  using confirm_typed [of p "ah_mutation h" _ False drawer]
  by (auto simp: finishOptimisticConfigAction_def Let_def split: sum.splits prod.splits
      intro!: finish_action_typed action_succeeded_typed reject_typed typed) (metis fst_conv)+

lemma start_static_typed: "page_typed p \<Longrightarrow> page_typed (fst (startStaticRefresh domains p))"
  by (auto simp: startStaticRefresh_def release_static_def page_typed_def Let_def)

lemma finish_static_typed: "page_typed p \<Longrightarrow> page_typed (finishStaticRefresh f replies preserve p)"
  unfolding finishStaticRefresh_def release_static_def Let_def by (auto intro!: typed apply_static_typed)

lemma caps_arrived_typed: "page_typed p \<Longrightarrow> page_typed (capabilitiesArrived reply p)"
  using page_typed_caps [of p]
  by (auto simp: capabilitiesArrived_def split: option.splits sum.splits prod.splits intro!: typed) (metis fst_conv)+

lemma start_all_typed: "data_typed s \<Longrightarrow> data_typed (fst (startRefreshAll args s))"
  by (auto simp: startRefreshAll_def data_typed_def page_typed_def on_page_def Let_def split: prod.splits if_splits)

lemma activity_truthy: "truthy (apply_activity v)"
  by (simp add: apply_activity_def Let_def jor_def)

lemma data_arrived_typed: "data_typed s \<Longrightarrow> data_typed (fst (dataArrived now f replies s))"
  unfolding dataArrived_def apply_data_def Let_def
  by (auto simp: data_typed_def on_page_def activity_truthy intro!: apply_page_typed typed)

lemma pricing_step_typed:
  "null_or_object (px_pricing x) \<Longrightarrow> null_or_object (px_pricing (fst (startPricingStep now names x)))"
  by (auto simp: startPricingStep_def startModelPricing_def null_or_object_def jor_def Let_def split: option.splits)

lemma pricing_finish_typed:
  "null_or_object (px_pricing x) \<Longrightarrow> null_or_object (px_pricing (fst (finishPricingStep n out x)))"
  by (auto simp: finishPricingStep_def finishModelPricing_def null_or_object_def Let_def split: sum.splits prod.splits if_splits)

lemma release_all_data [simp]:
  "al_page (release_all s) = al_page s" "a_activity (release_all s) = a_activity s" "al_pricing (release_all s) = al_pricing s"
  by (auto simp: release_all_def split: prod.splits option.splits)

lemma finish_all_typed: "data_typed s \<Longrightarrow> data_typed (fst (finishRefreshAll now f caps s))"
proof -
  assume s: "data_typed s"
  define c where "c = capabilitiesArrived caps (al_page s)"
  obtain px fetch where px: "startPricingStep now (collectModelNames (d_status c) (d_config c)) (al_pricing s) = (px, fetch)" by force
  have "page_typed c" unfolding c_def using s by (intro caps_arrived_typed) (simp add: data_typed_def)
  moreover have "null_or_object (px_pricing px)"
    using pricing_step_typed [of "al_pricing s" now "collectModelNames (d_status c) (d_config c)"] s by (simp add: px data_typed_def)
  ultimately show ?thesis
    using s by (auto simp: finishRefreshAll_def on_page_def c_def [symmetric] px data_typed_def Let_def intro!: typed)
qed

lemma fail_all_typed: "data_typed s \<Longrightarrow> data_typed (failRefreshAll failed invalid message s)"
  by (auto simp: failRefreshAll_def on_page_def data_typed_def forgetAdminKey_def page_typed_def null_or_object_def
      store_typed_clear log_event_def Let_def)

lemma finish_caps_typed: "data_typed s \<Longrightarrow> data_typed (finishCapabilities reply s)"
  using page_typed_caps [of "al_page s"]
  by (auto simp: finishCapabilities_def data_typed_def Let_def split: sum.splits prod.splits intro!: typed) (metis fst_conv)+

lemma finish_view_typed: "data_typed s \<Longrightarrow> data_typed (fst (finishProviderConfigView failed preserve replies s))"
  by (auto simp: finishProviderConfigView_def on_page_def data_typed_def Let_def split: sum.splits prod.splits intro!: typed)

section \<open>Every interleaving\<close>

text \<open>What may happen to the data: refreshes of every kind, the actions of the operator, the replies to them.\<close>

inductive data_step :: "all_state \<Rightarrow> all_state \<Rightarrow> bool" where
  start_all: "data_step s (fst (startRefreshAll args s))"
| arrive_all: "data_step s (fst (dataArrived now f replies s))"
| finish_all: "data_step s (fst (finishRefreshAll now f caps s))"
| fail_all: "data_step s (failRefreshAll failed invalid message s)"
| capabilities: "data_step s (finishCapabilities reply s)"
| provider_view: "data_step s (fst (finishProviderConfigView failed preserve both s))"
| prices: "data_step s (s\<lparr>al_pricing := fst (finishPricingStep n out (al_pricing s))\<rparr>)"
| start_static: "data_step s (on_page (\<lambda>p. fst (startStaticRefresh domains p)) s)"
| finish_static: "data_step s (on_page (finishStaticRefresh sf settled_of preserve) s)"
| start_action: "edit_typed edit \<Longrightarrow> data_step s (on_page (\<lambda>p. fst (startOptimisticConfigAction key edit drawer p)) s)"
| finish_action: "data_step s (on_page (\<lambda>p. fst (finishOptimisticConfigAction h out drawer onErr p)) s)"
| mutation_result: "data_step s (on_page (\<lambda>p. fst (applyMutationResult result rnd drawer skipConfig p)) s)"

lemma on_page_typed: "data_typed s \<Longrightarrow> (\<And>p. page_typed p \<Longrightarrow> page_typed (f p)) \<Longrightarrow> data_typed (on_page f s)"
  by (simp add: on_page_def data_typed_def)

lemma data_step_typed: "data_step s s' \<Longrightarrow> data_typed s \<Longrightarrow> data_typed s'"
proof (induction rule: data_step.induct)
  case (prices s n out)
  then show ?case using pricing_finish_typed [of "al_pricing s" n out] by (simp add: data_typed_def)
qed (auto intro: start_all_typed data_arrived_typed finish_all_typed fail_all_typed finish_caps_typed finish_view_typed
    on_page_typed start_static_typed finish_static_typed start_action_typed finish_optimistic_typed mutation_result_typed)

text \<open>
  C10. The data the views read keeps its types, whatever the server answers: along any interleaving of full
  and static refreshes, optimistic edits (each turning an object into an object), their replies, capability
  and price replies, failures and logouts, with replies of any shape, the configuration and the status are
  null or an object, a page that says its configuration is ready has one, the provider activity is null or
  can be read, and so are the prices.
\<close>

theorem page_data_keeps_types:
  assumes "data_step\<^sup>*\<^sup>* s s'" and "data_typed s"
  shows "null_or_object (d_config (al_page s')) \<and> null_or_object (d_status (al_page s'))
    \<and> (rf_staticState (al_page s') = ''ready'' \<longrightarrow> is_object (d_config (al_page s')))
    \<and> (a_activity s' = Null \<or> truthy (a_activity s')) \<and> null_or_object (px_pricing (al_pricing s'))"
proof -
  have "data_typed s'" using assms by (induction rule: rtranclp_induct) (auto intro: data_step_typed)
  then show ?thesis by (simp add: data_typed_def page_typed_def)
qed

definition all_sample :: all_state where
  "all_sample = \<lparr>al_page = sample_state\<lparr>d_config := Null, d_status := Null, rf_staticState := ''idle''\<rparr>,
     al_guard = \<lparr>ag_inFlight = False, ag_wanted = False, ag_args = None\<rparr>, al_queued = None, al_pricing = priced_ui,
     al_forceTimeseries = False, al_forceRequests = False, al_ringAt = 0, al_connected = None, al_login = None, al_followUp = None,
     a_metrics = Null, a_metricsFull = Null, a_activity = Null, a_health = Null, a_timeseries = Null, a_requests = Null\<rparr>"

definition loud_args :: refresh_args where
  "loud_args = \<lparr>ra_quiet = False, ra_preserve = False, ra_static = False, ra_domains = []\<rparr>"

text \<open>A server that answers nonsense: the number 7 for everything.\<close>

definition odd_reply :: all_state where
  "odd_reply = fst (dataArrived 0 \<lparr>fa_args = loud_args, fa_domains = all_domains loud_args all_sample\<rparr> (\<lambda>d. jnum 7)
     (fst (startRefreshAll loud_args all_sample)))"

theorem page_data_keeps_types_witness:
  "is_object (d_config (al_page odd_reply)) \<and> a_metrics odd_reply = jnum 7"
proof -
  have "data_step\<^sup>*\<^sup>* all_sample (fst (startRefreshAll loud_args all_sample))"
    by (rule r_into_rtranclp) (rule data_step.start_all)
  also have "data_step\<^sup>*\<^sup>* (fst (startRefreshAll loud_args all_sample)) odd_reply"
    unfolding odd_reply_def by (rule r_into_rtranclp) (rule data_step.arrive_all)
  finally have "data_step\<^sup>*\<^sup>* all_sample odd_reply" .
  moreover have "data_typed all_sample"
    by (simp add: data_typed_def all_sample_def page_typed_def sample_state_def store_typed_def store_new_def null_or_object_def priced_ui_def)
  moreover have "rf_staticState (al_page odd_reply) = ''ready'' \<and> a_metrics odd_reply = jnum 7" by code_simp
  ultimately show ?thesis using page_data_keeps_types by blast
qed

section \<open>Failures, guard, requests\<close>

text \<open>A failed refresh changes no data; only an error of authorisation forgets the key and the configuration.\<close>

lemma failed_refresh_keeps_data:
  "let s1 = failRefreshAll failed invalid message s in
    a_metrics s1 = a_metrics s \<and> a_metricsFull s1 = a_metricsFull s \<and> a_activity s1 = a_activity s \<and> a_health s1 = a_health s
    \<and> a_timeseries s1 = a_timeseries s \<and> a_requests s1 = a_requests s \<and> d_status (al_page s1) = d_status (al_page s)
    \<and> d_routing (al_page s1) = d_routing (al_page s)
    \<and> (if isAuthError message then rf_adminKey (al_page s1) = [] \<and> d_config (al_page s1) = Null \<and> al_login s1 = Some invalid
       else rf_adminKey (al_page s1) = rf_adminKey (al_page s) \<and> d_config (al_page s1) = d_config (al_page s))"
  by (auto simp: failRefreshAll_def on_page_def forgetAdminKey_def log_event_def release_all_def Let_def split: prod.splits option.splits)

text \<open>Every run ends with the guard free, and with the calls it absorbed queued as one.\<close>

lemma leave_queues:
  "ag_inFlight (al_guard (release_all s)) = False \<and> ag_wanted (al_guard (release_all s)) = False
    \<and> (ag_wanted (al_guard s) \<longrightarrow> al_queued (release_all s) \<noteq> None)"
  by (auto simp: release_all_def leaveRefreshAll_def split: prod.splits)

lemma absorbed_call_is_remembered:
  "rf_adminKey (al_page s) \<noteq> [] \<Longrightarrow> ag_inFlight (al_guard s) \<Longrightarrow>
    let (s1, f) = startRefreshAll args s in f = None \<and> ag_wanted (al_guard s1)
      \<and> ag_args (al_guard s1) = Some (mergeRefreshArgs (ag_args (al_guard s)) args)"
  by (simp add: startRefreshAll_def enterRefreshAll_def)

text \<open>A manual refresh asks for everything.\<close>

lemma loud_refresh_asks_everything:
  "\<not> ra_quiet args \<Longrightarrow> set (all_domains args s)
    = {''metrics'', ''providerActivity'', ''healthScores'', ''metricsFull'', ''timeseries'', ''requests''} \<union> set all_static_domains"
  by (auto simp: all_domains_def Let_def)

lemma requestsPath_page:
  "requestsPath (jnum (of_nat n)) [] = ''/-/admin/requests?limit=10&offset='' @ form_encode (nat_to_str (int (10 * n)))"
proof -
  have "num_to_str (Fin (of_nat n * 10)) = nat_to_str (int (10 * n))"
  proof -
    have e: "(of_nat n * 10 :: rat) = of_int (int (10 * n))" by simp
    show ?thesis unfolding e by (simp only: num_to_str.simps Let_def) (simp del: of_int_mult)
  qed
  moreover have "num_to_str (Fin 10) = ''10''" by code_simp
  moreover have "form_encode ''limit'' = ''limit''" "form_encode ''offset'' = ''offset''" "form_encode ''10'' = ''10''" by code_simp+
  ultimately show ?thesis
    by (simp add: requestsPath_def params_set_def params_text_def REQUEST_PAGE_SIZE_def Let_def)
qed

section \<open>Whose rows are shown\<close>

text \<open>
  C9. The two readers of the request list. The poll of the request view replaces the rows only when the page
  selected is still the one it was sent for and the offset of the reply (when it names one) is that of this page,
  so a late reply of the poll for another page is never shown. The refresh of everything has no such check: whatever
  rows its reply holds become the rows of the page, whichever page was selected meanwhile.
\<close>

theorem only_poll_checks_page:
  assumes "fl_view f = ''requests''" and "''requests'' \<in> set (fa_domains g)" and "replies ''requests'' \<noteq> Undef"
  shows "(r_requests (viewArrived f cc now view s) \<noteq> r_requests s \<longrightarrow>
           strict_eq (Num (to_num (requestsPage (rt_nav s)))) (fl_page f)
           \<and> r_requests (viewArrived f cc now view s) = get (to_result (fl_entries f) view) ''requests''
           \<and> requestPayloadMatchesPage (r_requests (viewArrived f cc now view s)) (fl_page f) (jnum REQUEST_PAGE_SIZE))
    \<and> a_requests (fst (dataArrived now g replies a)) = replies ''requests''"
proof -
  have "a_requests (fst (dataArrived now g replies a)) = replies ''requests''"
    using assms(2,3)
    by (simp add: dataArrived_def apply_data_def all_result_def or_keep_def on_page_def Let_def)
  then show ?thesis using poll_rows_match [OF assms(1)] view_requests by blast
qed

theorem only_poll_checks_page_witness:
  "let late = Obj [(''offset'', jnum 30), (''items'', Arr [])]; g = \<lparr>fa_args = loud_args, fa_domains = [''requests'']\<rparr> in
   r_requests (viewArrived sample_flight False 0 (\<lambda>_. Fulfilled late) sample_runtime) = r_requests sample_runtime
   \<and> a_requests (fst (dataArrived 0 g (\<lambda>_. late) all_sample)) = late"
proof -
  define late where "late = Obj [(''offset'', jnum 30), (''items'', Arr [])]"
  have "\<not> requestPayloadMatchesPage late (fl_page sample_flight) (jnum REQUEST_PAGE_SIZE)" unfolding late_def by code_simp
  moreover have "fl_view sample_flight = ''requests''" "late \<noteq> Undef" by (simp_all add: sample_flight_def late_def)
  ultimately show ?thesis
    using only_poll_checks_page [of sample_flight "\<lparr>fa_args = loud_args, fa_domains = [''requests'']\<rparr>" "\<lambda>_. late"
        False 0 "\<lambda>_. Fulfilled late" sample_runtime all_sample]
    by (auto simp: Let_def result_request sample_flight_def simp flip: late_def)
qed

end
