(* ===== verification/ProviderStateFacts.thy ===== *)
theory ProviderStateFacts
  imports ProviderState JsNumText
begin

text \<open>
  What the provider page's state functions promise: key counts are ordered, a provider is shown as
  normal exactly when nothing is wrong with it, drafts hold exactly the switches that differ from
  the saved configuration, the memo table is transparent, and route strings survive editing.
\<close>

section \<open>Runtime state\<close>

lemma usable_le: "ks_usable (providerKeyStats r c) \<le> ks_runtimeEnabled (providerKeyStats r c)"
proof -
  have "length (filter key_usable ks) \<le> length (filter (\<lambda>k. truthy (get k ''runtime_enabled'')) ks)" for ks
    by (induction ks) (auto simp: key_usable_def)
  then show ?thesis by (simp add: providerKeyStats_def Let_def)
qed

lemma enabled_le: "ks_runtimeEnabled (providerKeyStats r c) \<le> ks_total (providerKeyStats r c)"
  by (simp add: providerKeyStats_def Let_def)

text \<open>A provider that is on and has nothing against it.\<close>

definition healthy :: "jsval \<Rightarrow> key_stats \<Rightarrow> jsval \<Rightarrow> bool" where
  "healthy p stats config \<longleftrightarrow> provider_enabled p config \<and> truthy (get p ''available'')
     \<and> ks_total stats \<le> ks_usable stats
     \<and> \<not> num_lt (Fin 0) (num_or_zero (get p ''cooldown_remaining_s''))
     \<and> \<not> truthy (get p ''has_hard_failure'')
     \<and> \<not> num_lt (Fin 0) (num_or_zero (get p ''compatibility_circuit_count''))"

text \<open>
  A provider card says \<open>normal\<close> (green) exactly when the provider is enabled and available, all
  of its keys are usable, and there is no cooldown, hard failure or open compatibility circuit.
\<close>

lemma normal_iff_healthy:
  "rs_id (providerRuntimeState p (Some stats) config) = ''normal'' \<longleftrightarrow> healthy p stats config"
  by (auto simp: providerRuntimeState_def healthy_def runtime_state_of_def Let_def)

text \<open>The badge is \<open>ok\<close> for normal providers and no others.\<close>

lemma badge_ok_iff_normal:
  "rs_badge (providerRuntimeState p stats config) = ''ok''
     \<longleftrightarrow> rs_id (providerRuntimeState p stats config) = ''normal''"
  by (auto simp: providerRuntimeState_def runtime_state_of_def Let_def split: option.splits)

section \<open>Drafts\<close>

lemma map_of_del_prop [simp]: "map_of (del_prop k d) = (map_of d)(k := None)"
  by (induction d) (auto simp: fun_eq_iff)

lemma del_prop_filter: "del_prop k d = filter (\<lambda>e. fst e \<noteq> k) d"
  by (induction d) auto

lemma distinct_del_prop: "distinct (map fst d) \<Longrightarrow> distinct (map fst (del_prop k d))"
  by (simp add: del_prop_filter distinct_map_filter)

lemma draft_store [simp]:
  "providerModelDraft (store_draft p d drafts) q = (if q = p then d else providerModelDraft drafts q)"
  by (auto simp: store_draft_def providerModelDraft_def)

lemma map_of_draft_write:
  "map_of (draft_write config p m b d) =
     (map_of d)(m := if b = savedProviderModelDisabled config p m then None else Some b)"
  by (simp add: draft_write_def)

text \<open>
  Flipping a model's switch takes effect for that model of that provider and for no other, while
  the saved configuration stays as it is.
\<close>

lemma draft_takes_effect:
  assumes "provider \<noteq> []" and "model \<noteq> []"
  shows "isProviderModelDisabled config (setProviderModelDisabledDraft config provider model b drafts) q m
     = (if q = provider \<and> m = model then b else isProviderModelDisabled config drafts q m)"
  using assms
  by (auto simp: setProviderModelDisabledDraft_def isProviderModelDisabled_def map_of_draft_write
      split: option.split)

text \<open>A draft holds each model once, and only with a value that differs from the saved one.\<close>

definition draft_minimal :: "jsval \<Rightarrow> string \<Rightarrow> draft \<Rightarrow> bool" where
  "draft_minimal config p d \<longleftrightarrow> distinct (map fst d)
     \<and> (\<forall>m b. map_of d m = Some b \<longrightarrow> b \<noteq> savedProviderModelDisabled config p m)"

lemma minimal_write: "draft_minimal config p d \<Longrightarrow> draft_minimal config p (draft_write config p m b d)"
  unfolding draft_minimal_def map_of_draft_write
  by (auto simp: draft_write_def distinct_set_prop distinct_del_prop split: if_splits)

lemma minimal_writes:
  "draft_minimal config p d \<Longrightarrow>
   draft_minimal config p
     (foldl (\<lambda>d (m, b). if m = [] then d else draft_write config p m b d) d ms)"
  by (induction ms arbitrary: d) (auto simp: minimal_write)

text \<open>What the operator does on the models tab: one switch, or a bulk action on one provider.\<close>

datatype draft_op = Flip string string bool | Bulk string "(string \<times> bool) list"

fun draft_step :: "jsval \<Rightarrow> (string \<times> draft) list \<Rightarrow> draft_op \<Rightarrow> (string \<times> draft) list" where
  "draft_step config drafts (Flip p m b) = setProviderModelDisabledDraft config p m b drafts"
| "draft_step config drafts (Bulk p ms) = setProviderModelsDisabledDraft config p ms drafts"

definition drafts_after :: "jsval \<Rightarrow> draft_op list \<Rightarrow> (string \<times> draft) list" where
  "drafts_after config ops = foldl (draft_step config) [] ops"

lemma minimal_step:
  "\<forall>p. draft_minimal config p (providerModelDraft drafts p) \<Longrightarrow>
   draft_minimal config p (providerModelDraft (draft_step config drafts op) p)"
  by (cases op)
     (auto simp: setProviderModelDisabledDraft_def setProviderModelsDisabledDraft_def
       minimal_write minimal_writes)

lemma minimal_after: "draft_minimal config p (providerModelDraft (drafts_after config ops) p)"
proof -
  have "\<forall>p. draft_minimal config p (providerModelDraft drafts p) \<Longrightarrow>
    draft_minimal config p (providerModelDraft (foldl (draft_step config) drafts ops) p)" for drafts
    by (induction ops arbitrary: drafts p) (auto simp: minimal_step)
  moreover have "draft_minimal config p (providerModelDraft [] p)" for p
    by (simp add: draft_minimal_def providerModelDraft_def)
  ultimately show ?thesis by (auto simp: drafts_after_def)
qed

lemma minimal_count:
  assumes "draft_minimal config p d"
  shows "length d = card {m. (case map_of d m of Some b \<Rightarrow> b | None \<Rightarrow> savedProviderModelDisabled config p m)
      \<noteq> savedProviderModelDisabled config p m}"
proof -
  have "{m. (case map_of d m of Some b \<Rightarrow> b | None \<Rightarrow> savedProviderModelDisabled config p m)
      \<noteq> savedProviderModelDisabled config p m} = fst ` set d"
    using assms by (auto simp: draft_minimal_def dom_map_of_conv_image_fst [symmetric]
        split: option.splits)
  moreover have "card (fst ` set d) = length d"
    using assms distinct_card [of "map fst d"] by (simp add: draft_minimal_def)
  ultimately show ?thesis by simp
qed

text \<open>
  The "N unsaved" count of the models tab is right after any sequence of single and bulk
  switches: it is the number of models whose switch differs from the saved configuration. Switching a
  model off and on again leaves nothing to save.
\<close>

lemma draft_count_is_difference:
  "providerModelDraftCount (drafts_after config ops) provider =
     card {m. isProviderModelDisabled config (drafts_after config ops) provider m
        \<noteq> savedProviderModelDisabled config provider m}"
  unfolding providerModelDraftCount_def isProviderModelDisabled_def
  by (rule minimal_count) (rule minimal_after)

text \<open>A bulk action is the sequence of its single switches.\<close>

lemma bulk_fold:
  "p \<noteq> [] \<Longrightarrow>
   providerModelDraft (foldl (\<lambda>ds (m, b). setProviderModelDisabledDraft config p m b ds) drafts ms) q
   = (if q = p
      then foldl (\<lambda>d (m, b). if m = [] then d else draft_write config p m b d) (providerModelDraft drafts p) ms
      else providerModelDraft drafts q)"
  by (induction ms arbitrary: drafts) (auto simp: setProviderModelDisabledDraft_def split_beta)

text \<open>
  The bulk enable/disable handler agrees with the switches: its drafts are those of flipping the
  models one by one, in the order of the object's keys.
\<close>

lemma bulk_is_single_flips:
  "providerModelDraft (setProviderModelsDisabledDraft config provider modelStates drafts) q
   = providerModelDraft
       (foldl (\<lambda>ds (m, b). setProviderModelDisabledDraft config provider m b ds) drafts (own_entries modelStates)) q"
proof (cases "provider = []")
  case True
  have "foldl (\<lambda>ds (m, b). setProviderModelDisabledDraft config [] m b ds) drafts ms = drafts" for ms
    by (induction ms) (auto simp: setProviderModelDisabledDraft_def)
  with True show ?thesis by (simp add: setProviderModelsDisabledDraft_def)
next
  case False
  then show ?thesis by (simp add: bulk_fold) (simp add: setProviderModelsDisabledDraft_def)
qed

section \<open>The memo table\<close>

text \<open>
  The inputs a provider has at a data version: every snapshot that changes them also changes the
  version (\<open>state.data.version\<close>, \<open>state.data.modelsVersion\<close>).
\<close>

definition memo_ok :: "(string \<Rightarrow> string \<Rightarrow> bool) \<Rightarrow> (string \<Rightarrow> string \<Rightarrow> jsval \<times> jsval) \<Rightarrow> memo \<Rightarrow> bool" where
  "memo_ok lc inputs m \<longleftrightarrow>
     (\<forall>name items. map_of (memo_items m) name = Some items \<longrightarrow>
        items = case_prod (modelCapabilityItems lc) (inputs (memo_version m) name))
     \<and> length (memo_items m) \<le> 512"

lemma length_set_prop: "length (set_prop k v kvs) \<le> Suc (length kvs)"
  by (induction kvs) auto

lemma memo_step:
  fixes version name :: string
  assumes "memo_ok lc inputs m"
  defines "r \<equiv> case_prod (modelCapabilityItemsMemo lc version name) (inputs version name) m"
  shows "fst r = case_prod (modelCapabilityItems lc) (inputs version name)" and "memo_ok lc inputs (snd r)"
proof -
  have m1: "memo_ok lc inputs (memo_at version m)" "memo_version (memo_at version m) = version"
    using assms(1) by (auto simp: memo_ok_def memo_at_def)
  obtain ms cm where io: "inputs version name = (ms, cm)" by fastforce
  have "items = case_prod (modelCapabilityItems lc) (inputs version name)"
    if "map_of (memo_items (memo_at version m)) name = Some items" for items
    using m1 that unfolding memo_ok_def by metis
  then show "fst r = case_prod (modelCapabilityItems lc) (inputs version name)"
    using io by (simp add: r_def modelCapabilityItemsMemo_def Let_def split: option.split)
  have len: "length (set_prop name v (if 512 \<le> length kvs then [] else kvs)) \<le> 512" for v :: "jsval list" and kvs
    using length_set_prop [of name v kvs] by auto
  show "memo_ok lc inputs (snd r)"
  proof (cases "map_of (memo_items (memo_at version m)) name")
    case None
    then show ?thesis
      using m1 io len by (auto simp: r_def modelCapabilityItemsMemo_def Let_def memo_ok_def)
  next
    case (Some items)
    then show ?thesis using m1 io by (simp add: r_def modelCapabilityItemsMemo_def Let_def)
  qed
qed

fun memo_run ::
  "(string \<Rightarrow> string \<Rightarrow> bool) \<Rightarrow> (string \<Rightarrow> string \<Rightarrow> jsval \<times> jsval) \<Rightarrow> (string \<times> string) list \<Rightarrow> memo \<Rightarrow> jsval list list \<times> memo" where
  "memo_run lc inputs [] m = ([], m)"
| "memo_run lc inputs ((version, name) # qs) m =
     (let (items, m1) = modelCapabilityItemsMemo lc version name (fst (inputs version name)) (snd (inputs version name)) m;
          (rest, m2) = memo_run lc inputs qs m1
      in (items # rest, m2))"

lemma memo_run_ok:
  "memo_ok lc inputs m \<Longrightarrow>
   fst (memo_run lc inputs qs m) = map (\<lambda>(v, n). case_prod (modelCapabilityItems lc) (inputs v n)) qs
   \<and> length (memo_items (snd (memo_run lc inputs qs m))) \<le> 512"
proof (induction qs arbitrary: m)
  case (Cons q qs)
  obtain v n where q: "q = (v, n)" by fastforce
  have "fst (modelCapabilityItemsMemo lc v n (fst (inputs v n)) (snd (inputs v n)) m)
      = case_prod (modelCapabilityItems lc) (inputs v n)"
    and "memo_ok lc inputs (snd (modelCapabilityItemsMemo lc v n (fst (inputs v n)) (snd (inputs v n)) m))"
    using memo_step [OF Cons.prems, of v n] by (simp_all add: split_beta)
  with Cons.IH show ?case by (auto simp: q split_beta Let_def)
qed (simp add: memo_ok_def)

text \<open>
  The memo table is transparent: along any sequence of lookups, across any changes of the data
  version and any number of providers, every answer is what \<open>modelCapabilityItems\<close> computes on the
  data of that version, and the table never holds more than 512 entries.
\<close>

lemma memo_is_transparent:
  "fst (memo_run lc inputs queries memo_empty)
     = map (\<lambda>(v, n). case_prod (modelCapabilityItems lc) (inputs v n)) queries
   \<and> length (memo_items (snd (memo_run lc inputs queries memo_empty))) \<le> 512"
  by (rule memo_run_ok) (simp add: memo_ok_def memo_empty_def)

section \<open>Route strings\<close>

text \<open>
  What the settings form can express: a trimmed name without the two separators, a non-zero integer
  weight, and an integer priority or none.
\<close>

definition plain_route :: "route_item \<Rightarrow> bool" where
  "plain_route i \<longleftrightarrow>
     (\<exists>n w. ri_name i = Str n \<and> n \<noteq> [] \<and> js_trim n = n \<and> CHR '','' \<notin> set n \<and> CHR '':'' \<notin> set n
        \<and> ri_weight i = jnum (of_int w) \<and> w \<noteq> 0)
     \<and> (ri_priority i = Null \<or> (\<exists>k. ri_priority i = jnum (of_int k)))"

abbreviation int_text :: "int \<Rightarrow> string" where
  "int_text w \<equiv> num_to_str (Fin (of_int w))"

lemma route_text_cases:
  assumes "plain_route i"
  obtains n w where "i = \<lparr>ri_name = Str n, ri_weight = jnum (of_int w), ri_priority = Null\<rparr>"
      "n \<noteq> []" "js_trim n = n" "CHR '','' \<notin> set n" "CHR '':'' \<notin> set n" "w \<noteq> 0"
      "route_item_text i = n @ CHR '':'' # int_text w"
    | n w k where "i = \<lparr>ri_name = Str n, ri_weight = jnum (of_int w), ri_priority = jnum (of_int k)\<rparr>"
      "n \<noteq> []" "js_trim n = n" "CHR '','' \<notin> set n" "CHR '':'' \<notin> set n" "w \<noteq> 0"
      "route_item_text i = n @ CHR '':'' # int_text w @ CHR '':'' # int_text k"
  using assms by (cases i) (auto simp: plain_route_def route_item_text_def jor_def simp del: num_to_str.simps)

lemma comma_colon_digit: "\<not> is_digit (CHR '','')" "\<not> is_digit (CHR '':'')"
  by (simp_all add: is_digit_def)

lemma int_text_no_sep: "CHR '','' \<notin> set (int_text w)" "CHR '':'' \<notin> set (int_text w)"
  by (rule num_to_str_int_no; simp add: comma_colon_digit)+

lemma int_text_last: "\<not> is_js_space (last (r @ int_text w))"
  using num_to_str_int_nonempty [of w] num_to_str_int_no_space [of "last (int_text w)" w]
  by (simp del: num_to_str.simps)

lemma route_text_clean:
  assumes "plain_route i"
  shows "CHR '','' \<notin> set (route_item_text i)" and "js_trim (route_item_text i) = route_item_text i"
    and "route_item_text i \<noteq> []"
proof -
  have "CHR '','' \<notin> set (route_item_text i) \<and> \<not> is_js_space (hd (route_item_text i))
      \<and> \<not> is_js_space (last (route_item_text i)) \<and> route_item_text i \<noteq> []"
    using assms
  proof (cases rule: route_text_cases)
    case (1 n w)
    with int_text_last [of "n @ '':''" w] int_text_no_sep [of w] trimmed_hd [of n] show ?thesis
      by (simp del: num_to_str.simps)
  next
    case (2 n w k)
    with int_text_last [of "n @ '':'' @ int_text w @ '':''" k] int_text_no_sep [of w]
      int_text_no_sep [of k] trimmed_hd [of n] show ?thesis
      by (simp del: num_to_str.simps)
  qed
  then show "CHR '','' \<notin> set (route_item_text i)" "js_trim (route_item_text i) = route_item_text i"
    "route_item_text i \<noteq> []"
    using js_trim_ends [of "route_item_text i"] by auto
qed

lemma colon_split: "CHR '':'' \<notin> set s \<Longrightarrow>
   js_split (\<lambda>c. c = CHR '':'') (s @ CHR '':'' # r) = s # js_split (\<lambda>c. c = CHR '':'') r"
  by (rule js_split_at) auto

lemma colon_split_last: "CHR '':'' \<notin> set s \<Longrightarrow> js_split (\<lambda>c. c = CHR '':'') s = [s]"
  by (rule js_split_plain) auto

lemma route_string_text: "plain_route i \<Longrightarrow> route_string_item (route_item_text i) = i"
proof (erule route_text_cases)
  fix n w
  assume i: "i = \<lparr>ri_name = Str n, ri_weight = jnum (of_int w), ri_priority = Null\<rparr>"
    and n: "n \<noteq> []" "js_trim n = n" "CHR '':'' \<notin> set n"
    and body: "route_item_text i = n @ CHR '':'' # int_text w"
  have "map js_trim (js_split (\<lambda>c. c = CHR '':'') (route_item_text i)) = [n, int_text w]"
    by (simp only: body colon_split [OF n(3)] colon_split [OF int_text_no_sep(2)]
        colon_split_last [OF int_text_no_sep(2)] list.map num_to_str_int_trim n(2))
  then show ?thesis
    using n num_to_str_int_nonempty [of w] str_to_num_int [of w]
    by (simp add: route_string_item_def i jor_def numeral_2_eq_2 del: num_to_str.simps)
next
  fix n w k
  assume i: "i = \<lparr>ri_name = Str n, ri_weight = jnum (of_int w), ri_priority = jnum (of_int k)\<rparr>"
    and n: "n \<noteq> []" "js_trim n = n" "CHR '':'' \<notin> set n"
    and body: "route_item_text i = n @ CHR '':'' # int_text w @ CHR '':'' # int_text k"
  have "map js_trim (js_split (\<lambda>c. c = CHR '':'') (route_item_text i)) = [n, int_text w, int_text k]"
    by (simp only: body colon_split [OF n(3)] colon_split [OF int_text_no_sep(2)]
        colon_split_last [OF int_text_no_sep(2)] list.map num_to_str_int_trim n(2))
  then show ?thesis
    using n num_to_str_int_nonempty [of w] num_to_str_int_nonempty [of k] str_to_num_int [of w] str_to_num_int [of k]
    by (simp add: route_string_item_def i jor_def numeral_2_eq_2 del: num_to_str.simps)
qed

text \<open>Trimming the pieces of a comma list gives the texts back.\<close>

lemma comma_pieces:
  assumes "\<forall>s \<in> set xs. CHR '','' \<notin> set s \<and> js_trim s = s \<and> s \<noteq> []"
  shows "filter (\<lambda>s. s \<noteq> []) (map js_trim (js_split (\<lambda>c. c = CHR '','') (js_join '', '' xs))) = xs"
proof (cases xs)
  case (Cons y ys)
  have "map js_trim (map ((#) (CHR '' '')) ys) = ys"
    using assms Cons by (auto simp: js_trim_space_Cons intro!: map_idI)
  moreover have "js_split (\<lambda>c. c = CHR '','') (js_join '', '' xs) = y # map ((#) (CHR '' '')) ys"
    unfolding Cons by (rule js_split_join_comma) (use assms Cons in auto)
  ultimately have "map js_trim (js_split (\<lambda>c. c = CHR '','') (js_join '', '' xs)) = xs"
    using assms Cons by simp
  then show ?thesis using assms by (simp add: filter_id_conv)
qed simp

lemma route_items_of_texts:
  "\<forall>i \<in> set rs. plain_route i \<Longrightarrow> routeProviderItems (Arr (map (Str \<circ> route_item_text) rs)) = rs"
proof (induction rs)
  case (Cons i js)
  then have "route_string_item (route_item_text i) = i" "truthy (ri_name i)"
    using route_string_text by (auto simp: plain_route_def)
  with Cons show ?case
    by (simp add: routeProviderItems_def route_entry_def List.map_filter_simps)
qed (simp add: routeProviderItems_def List.map_filter_simps)

text \<open>
  Opening a route's provider list in the editor and saving it unchanged keeps it: the text the
  form shows parses back to the same providers, weights and priorities, for every list of trimmed
  names without separators, non-zero integer weights and integer (or absent) priorities.
\<close>

lemma route_text_round_trip:
  assumes "\<forall>i \<in> set (routeProviderItems provs). plain_route i"
  shows "parseRouteProvidersInput (Str (routeProvidersText provs)) = routeProviderItems provs"
proof -
  let ?rs = "routeProviderItems provs"
  have "filter (\<lambda>s. s \<noteq> []) (map js_trim (js_split (\<lambda>c. c = CHR '','') (js_join '', '' (map route_item_text ?rs))))
      = map route_item_text ?rs"
    by (rule comma_pieces) (use assms route_text_clean in auto)
  then show ?thesis
    using route_items_of_texts [OF assms]
    by (simp add: parseRouteProvidersInput_def routeProvidersText_def)
qed

text \<open>
  Zero is the exception: the printer's \<open>item.weight || 1\<close> turns a stored weight of zero into one.
\<close>

lemma route_text_zero_weight:
  "routeProvidersText (Arr [Str ''acme:0'']) = ''acme:1''
   \<and> map ri_weight (routeProviderItems (Arr [Str ''acme:0''])) = [jnum 0]"
  by code_simp

end
