(* ===== verification/ClientKeys.thy ===== *)
theory ClientKeys
  imports RefreshAll ProviderStateFacts
begin

text \<open>
  The client keys of the settings (\<open>app.js\<close>): loading the list with its staleness budget and single flight, the
  table, the drawer that creates or edits a key, and what its form sends. \<open>now\<close> is \<open>Date.now()\<close>.
\<close>

section \<open>Loading\<close>

definition CLIENT_KEYS_REFRESH_MS :: rat where "CLIENT_KEYS_REFRESH_MS = 5000"

record key_form =
  kf_name :: string
  kf_quota :: string
  kf_rpm :: string
  kf_models :: string
  kf_expires :: string

record keys_ui =
  ck_keys :: jsval
  ck_available :: "bool option"
  ck_inFlight :: bool
  ck_loadedAt :: rat
  ck_open :: bool
  ck_mode :: string
  ck_editId :: string
  ck_editRecord :: jsval
  ck_created :: "string option"
  ck_submitting :: bool
  ck_dirty :: bool

text \<open>\<open>True\<close> when the call sends a request.\<close>

definition startClientKeys :: "rat \<Rightarrow> keys_ui \<Rightarrow> keys_ui \<times> bool" where
  "startClientKeys now s =
     (if ck_inFlight s then (s, False)
      else if ck_available s = Some True \<and> now - ck_loadedAt s < CLIENT_KEYS_REFRESH_MS then (s, False)
      else (s\<lparr>ck_inFlight := True\<rparr>, True))"

definition finishClientKeys :: "rat \<Rightarrow> string + jsval \<Rightarrow> keys_ui \<Rightarrow> keys_ui" where
  "finishClientKeys now outcome s =
     (case outcome of
        Inl err \<Rightarrow> s\<lparr>ck_keys := Arr [], ck_available := Some False, ck_inFlight := False\<rparr>
      | Inr data \<Rightarrow> s\<lparr>ck_keys := Arr (arr_or_empty (get data ''keys'')), ck_available := Some True,
                     ck_loadedAt := now, ck_inFlight := False\<rparr>)"

definition refreshClientKeys :: "rat \<Rightarrow> keys_ui \<Rightarrow> keys_ui \<times> bool" where
  "refreshClientKeys now s = startClientKeys now (s\<lparr>ck_keys := Null, ck_available := None\<rparr>)"

text \<open>\<open>ensureClientKeysFresh\<close> once the load that was running, if any, has ended.\<close>

definition ensureClientKeysFresh :: "rat \<Rightarrow> keys_ui \<Rightarrow> keys_ui \<times> bool" where
  "ensureClientKeysFresh now s = startClientKeys now (s\<lparr>ck_loadedAt := 0\<rparr>)"

section \<open>The table\<close>

definition key_name :: "jsval \<Rightarrow> string" where
  "key_name entry =
     to_str (jor (jor (get entry ''name'') (get entry ''label'')) (Str ((''#'' @ (to_str (jcoalesce (get entry ''id'') (Str (''-''))))))))"

definition quota_percent :: "jsnum \<Rightarrow> jsnum \<Rightarrow> jsnum" where
  "quota_percent consumed quota = num_mul (num_div consumed quota) (Fin 100)"

definition quota_text :: "jsnum \<Rightarrow> jsnum \<Rightarrow> string" where
  "quota_text consumed quota =
     (if num_lt (Fin 0) quota
      then ((fmtTokenCount (Num consumed)) @ '' / '' @ (fmtTokenCount (Num quota)) @ '' ('' @
         (num_to_str (num_min (Fin 100) (num_round (quota_percent consumed quota)))) @ ''%)'')
      else ((fmtTokenCount (Num consumed)) @ '' / '' @ [CHR 0xE2, CHR 0x88, CHR 0x9E]))"

text \<open>\<open>s.split(" (")[0]\<close> and \<open>s.match(/\((\d+%)\)$/)?.[1] || ""\<close>.\<close>

fun before_paren :: "string \<Rightarrow> string" where
  "before_paren [] = []"
| "before_paren (c # s) = (if starts_with '' ('' (c # s) then [] else c # before_paren s)"

definition paren_percent :: "string \<Rightarrow> string" where
  "paren_percent s =
     (let r = rev s; d = takeWhile is_digit (drop 2 r); q = dropWhile is_digit (drop 2 r)
      in if starts_with '')%'' r \<and> d \<noteq> [] \<and> q \<noteq> [] \<and> hd q = CHR ''('' then rev d @ ''%'' else [])"

definition all_models :: "jsval \<Rightarrow> bool" where
  "all_models entry \<longleftrightarrow> get entry ''models'' = Str ''*'' \<or> \<not> truthy (get entry ''models'')"

definition models_list :: "jsval \<Rightarrow> string" where
  "models_list v = (case v of Arr xs \<Rightarrow> js_join ('', '') (map (\<lambda>x. if nullish x then [] else to_str x) xs) | _ \<Rightarrow> to_str v)"

definition key_status :: "translator \<Rightarrow> jsval \<Rightarrow> string" where
  "key_status tr entry =
     (if get entry ''enabled'' = Bool False then (''<span class=\"badge\">'' @ (esc (tr ''settings.keys.status_disabled'' [])) @ ''</span>'')
      else if truthy (get entry ''expired'') then (''<span class=\"badge\">'' @ (esc (tr ''settings.keys.status_expired'' [])) @ ''</span>'')
      else (''<span class=\"badge ok\">'' @ (esc (tr ''settings.keys.status_active'' [])) @
         ''</span>''))"

definition key_action :: "translator \<Rightarrow> string \<Rightarrow> string \<Rightarrow> jsval \<Rightarrow> string \<Rightarrow> string \<Rightarrow> string" where
  "key_action tr cls attr entry label icon =
     (''<button class=\"button secondary icon-action'' @ cls @ ''\" type=\"button\" '' @ attr @
        ''=\"'' @ (esc (to_str (jcoalesce (get entry ''id'') (Str [])))) @ ''\" title=\"'' @
        (esc (tr label [])) @ ''\" aria-label=\"'' @ (esc (tr label [])) @ ''\">'' @
        iconSvg icon @ ''</button>'')"

definition settingsKeyRow :: "translator \<Rightarrow> jsval \<Rightarrow> string" where
  "settingsKeyRow tr key =
     (let entry = jor key (Obj []); quota = num_or_zero (get entry ''quota_tokens''); consumed = num_or_zero (get entry ''consumed_tokens'');
          limited = num_lt (Fin 0) quota; txt = quota_text consumed quota;
          pct = (if limited then num_min (Fin 100) (quota_percent consumed quota) else Fin 0);
          tone = (if limited \<and> num_le (Fin 100) pct then ''is-bad'' else if limited \<and> num_le (Fin 80) pct then ''is-warn'' else []);
          models = (if all_models entry then tr ''settings.keys.f_models_all'' [] else models_list (get entry ''models''));
          hasFullKey = truthy (get entry ''full_key'');
          copyAttrs = (if hasFullKey then (''data-copy-key=\"'' @ (escapeHtml (get entry ''full_key'')) @ ''\"'') else (''data-copy-masked-key=\"1\"''));
          copyTip = tr (if hasFullKey then ''settings.keys.copy'' else ''settings.keys.copy_masked_tip'') []
      in (nl 6 @ ''<tr>'' @ nl 8 @ ''<td>'' @ nl 10 @
         ''<span class=\"settings-model-identity\"><span class=\"settings-key-glyph\">'' @
         (iconSvg ''key-round'') @ ''</span><strong>'' @ (esc (key_name entry)) @
         ''</strong></span>'' @ nl 10 @ ''<div class=\"settings-key-meta mono\">'' @
         (esc (to_str (jcoalesce (get entry ''requests_total'') (jnum 0)))) @ '' req '' @
         [CHR 0xB7] @ '' '' @ (esc (fmtCost (jor (get entry ''cost_usd'') (jnum 0)))) @
         ''</div>'' @ nl 8 @ ''</td>'' @ nl 8 @ ''<td>'' @ nl 10 @
         ''<span class=\"key-snippet-box mono\">'' @
         (escapeHtml (jor (get entry ''masked'') (Str (''-'')))) @ nl 12 @
         ''<button class=\"key-snippet-btn\" type=\"button\" '' @ copyAttrs @ '' title=\"'' @
         esc copyTip @ ''\" aria-label=\"'' @ esc copyTip @ ''\">'' @ iconSvg ''copy'' @
         ''</button>'' @ nl 10 @ ''</span>'' @ nl 8 @ ''</td>'' @ nl 8 @
         ''<td style=\"min-width: 170px;\">'' @ nl 10 @
         ''<div style=\"display:flex; justify-content:space-between; font-size:11.5px;'' @
         '' font-family:var(--mono);\">'' @ nl 12 @ ''<strong>'' @ (esc (before_paren txt)) @
         ''</strong>'' @
         (if limited then (''<span style=\"color:var(--muted);\">('' @ (esc (paren_percent txt)) @ '')</span>'') else []) @
         nl 10 @ ''</div>'' @ nl 10 @ ''<div class=\"settings-quota-track\">'' @ nl 12 @
         ''<div class=\"settings-quota-fill '' @ tone @ ''\" style=\"width:'' @
         (num_to_str (if limited then pct else Fin 0)) @ ''%;\"></div>'' @ nl 10 @ ''</div>'' @
         nl 8 @ ''</td>'' @ nl 8 @ ''<td>'' @ esc models @ ''</td>'' @ nl 8 @
         ''<td class=\"mono\">'' @
         (if truthy (get entry ''rpm'') then ((esc (to_str (get entry ''rpm''))) @ '' RPM'') else ([CHR 0xE2, CHR 0x80, CHR 0x94])) @
         ''</td>'' @ nl 8 @ ''<td>'' @ key_status tr entry @ ''</td>'' @ nl 8 @
         ''<td class=\"cell-actions\">'' @ nl 10 @
         (key_action tr [] ''data-edit-key-id'' entry ''settings.keys.edit'' ''pencil'') @ nl 10 @
         (key_action tr [] ''data-reset-key-id'' entry ''settings.keys.reset_usage'' ''rotate'') @
         nl 10 @
         (key_action tr '' settings-danger-btn'' ''data-delete-key-id'' entry ''settings.keys.delete'' ''trash'') @
         nl 8 @ ''</td>'' @ nl 6 @ ''</tr>''))"

definition keys_empty :: "translator \<Rightarrow> string \<Rightarrow> string \<Rightarrow> string \<Rightarrow> string" where
  "keys_empty tr icon title hint = (nl 8 @ ''<div class=\"usage-statistics-empty-state\">'' @ nl 10 @ iconSvg icon @ nl 10 @
     ''<span>'' @ nl 12 @ ''<strong>'' @ (esc (tr title [])) @ ''</strong>'' @ nl 12 @
     ''<small>'' @ (esc (tr hint [])) @ ''</small>'' @ nl 10 @ ''</span>'' @ nl 8 @ ''</div>'')"

definition keys_header :: "translator \<Rightarrow> string \<Rightarrow> string" where
  "keys_header tr key = (''<th>'' @ (esc (tr key [])) @ ''</th>'')"

definition renderSettingsKeys :: "translator \<Rightarrow> keys_ui \<Rightarrow> string" where
  "renderSettingsKeys tr s =
     (case ck_available s of
        None \<Rightarrow> (''<div class=\"empty pad\">'' @ (esc (tr ''model_usage.loading'' [])) @ ''</div>'')
      | Some False \<Rightarrow> keys_empty tr ''key-round'' ''settings.keys.pending_title'' ''settings.keys.pending_hint''
      | Some True \<Rightarrow>
          (let keys = arr_or_empty (ck_keys s) in
           if keys = [] then keys_empty tr ''key'' ''settings.keys.empty_title'' ''settings.keys.empty_hint''
           else (nl 6 @ ''<table class=\"data-table settings-keys-table\">'' @ nl 8 @
              ''<thead><tr>'' @ nl 10 @ keys_header tr ''settings.keys.col_name'' @ nl 10 @
              keys_header tr ''settings.keys.col_key'' @ nl 10 @
              keys_header tr ''settings.keys.col_quota'' @ nl 10 @
              keys_header tr ''settings.keys.col_models'' @ nl 10 @
              keys_header tr ''settings.keys.col_rpm'' @ nl 10 @
              keys_header tr ''settings.keys.col_status'' @ nl 10 @ ''<th></th>'' @ nl 8 @
              ''</tr></thead>'' @ nl 8 @ ''<tbody>'' @ (concat (map (settingsKeyRow tr) keys)) @
              ''</tbody>'' @ nl 6 @ ''</table>'')))"

section \<open>The drawer\<close>

definition openKeyDrawer :: "string \<Rightarrow> jsval \<Rightarrow> keys_ui \<Rightarrow> keys_ui" where
  "openKeyDrawer mode entry s =
     (let edit = (mode = ''edit'') in
      s\<lparr>ck_mode := (if edit then ''edit'' else ''new''),
        ck_editId := (if edit then to_str (jcoalesce (get entry ''id'') (Str [])) else []),
        ck_editRecord := (if edit then entry else Null), ck_created := None, ck_dirty := False, ck_open := True\<rparr>)"

text \<open>A click on the edit button of a row, which holds the id the row was drawn with.\<close>

definition editKeyClick :: "string \<Rightarrow> keys_ui \<Rightarrow> keys_ui" where
  "editKeyClick key s =
     openKeyDrawer ''edit''
       (case find (\<lambda>item. to_str (get item ''id'') = key) (arr_or_empty (ck_keys s)) of None \<Rightarrow> Null | Some r \<Rightarrow> r) s"

definition closeKeyDrawer :: "keys_ui \<Rightarrow> keys_ui" where
  "closeKeyDrawer s =
     s\<lparr>ck_open := False, ck_mode := [], ck_editId := [], ck_editRecord := Null, ck_created := None, ck_dirty := False\<rparr>"

text \<open>The days a key with a live expiry has left, at least one; zero when it never expires.\<close>

definition expires_days :: "rat \<Rightarrow> string \<Rightarrow> jsval \<Rightarrow> jsnum" where
  "expires_days now mode entry =
     (if mode = ''edit'' \<and> num_lt (Fin 0) (num_or_zero (get entry ''expires_at''))
      then num_max (Fin 1) (num_ceil (num_div (num_sub (num_mul (to_num (get entry ''expires_at'')) (Fin 1000)) (Fin now)) (Fin 86400000)))
      else Fin 0)"

text \<open>The values the fields of the form get.\<close>

definition key_form_values :: "rat \<Rightarrow> string \<Rightarrow> jsval \<Rightarrow> key_form" where
  "key_form_values now mode editRecord =
     (let editing = jor editRecord (Obj []) in
      \<lparr>kf_name = to_str (jor (get editing ''name'') (Str [])),
       kf_quota = (if truthy (get editing ''quota_tokens'') then to_str (get editing ''quota_tokens'') else []),
       kf_rpm = to_str (jcoalesce (get editing ''rpm'') (jnum 60)),
       kf_models = (if all_models editing then [] else models_list (get editing ''models'')),
       kf_expires = (if num_truthy (expires_days now mode editing) then ''keep'' else ''never'')\<rparr>)"

definition created_panel :: "translator \<Rightarrow> string \<Rightarrow> string" where
  "created_panel tr full_key = (nl 8 @ ''<div class=\"settings-key-created\">'' @ nl 10 @
     ''<div class=\"settings-key-created-head\">'' @ nl 12 @
     ''<span class=\"settings-key-created-glyph\">'' @ (iconSvg ''check-circle'') @ ''</span>'' @
     nl 12 @ ''<div>'' @ nl 14 @ ''<strong>'' @ (esc (tr ''settings.keys.created_title'' [])) @
     ''</strong>'' @ nl 14 @ ''<p class=\"settings-ops-desc\">'' @
     (esc (tr ''settings.keys.created_hint'' [])) @ ''</p>'' @ nl 12 @ ''</div>'' @ nl 10 @
     ''</div>'' @ nl 10 @ ''<div class=\"settings-created-key-box\">'' @ nl 12 @
     ''<span class=\"mono\">'' @ esc full_key @ ''</span>'' @ nl 12 @
     ''<button class=\"button secondary icon-action\" type=\"button\"'' @
     '' data-copy-created-key=\"'' @ esc full_key @ ''\" title=\"'' @
     (esc (tr ''settings.keys.copy'' [])) @ ''\" aria-label=\"'' @
     (esc (tr ''settings.keys.copy'' [])) @ ''\">'' @ iconSvg ''copy'' @ ''</button>'' @ nl 10 @
     ''</div>'' @ nl 10 @ ''<p class=\"settings-ops-note\">'' @
     (esc (tr ''settings.keys.created_once_note'' [])) @ ''</p>'' @ nl 10 @
     ''<div class=\"drawer-actions\">'' @ nl 12 @
     ''<button class=\"button secondary\" type=\"button\"'' @
     '' data-key-drawer-create-another>'' @ (esc (tr ''settings.keys.created_close_note'' [])) @
     ''</button>'' @ nl 12 @
     ''<button class=\"button primary\" type=\"button\" data-key-drawer-done>'' @
     (esc (tr ''confirm.close'' [])) @ ''</button>'' @ nl 10 @ ''</div>'' @ nl 8 @ ''</div>'')"

definition key_form_markup :: "translator \<Rightarrow> rat \<Rightarrow> string \<Rightarrow> jsval \<Rightarrow> string" where
  "key_form_markup tr now mode editRecord =
     (let f = key_form_values now mode editRecord; days = expires_days now mode (jor editRecord (Obj []));
          keep = (if num_truthy days then (''<option value=\"keep\" selected>'' @
             (esc (tr ''settings.keys.f_expires_keep'' [(''days'', Num days)])) @ ''</option>'') else [])
      in (nl 6 @ ''<form id=\"settingsKeyForm\" class=\"settings-key-form\">'' @ nl 8 @
         ''<label class=\"field\">'' @ nl 10 @ ''<span>'' @
         (esc (tr ''settings.keys.f_name'' [])) @ ''</span>'' @ nl 10 @
         ''<input class=\"control\" name=\"name\" type=\"text\" required value=\"'' @
         (esc (kf_name f)) @ ''\" placeholder=\"'' @ (esc (tr ''settings.keys.f_name_ph'' [])) @
         ''\" />'' @ nl 8 @ ''</label>'' @ nl 8 @ ''<label class=\"field\">'' @ nl 10 @
         ''<span>'' @ (esc (tr ''settings.keys.f_quota'' [])) @ ''</span>'' @ nl 10 @
         ''<input class=\"control mono\" name=\"quota\" type=\"text\" value=\"'' @
         (esc (kf_quota f)) @ ''\" placeholder=\"100M / 1.5B / 500000\" />'' @ nl 10 @
         ''<small>'' @ (esc (tr ''settings.keys.f_quota_hint'' [])) @ ''</small>'' @ nl 8 @
         ''</label>'' @ nl 8 @ ''<label class=\"field\">'' @ nl 10 @ ''<span>'' @
         (esc (tr ''settings.keys.f_rpm'' [])) @ ''</span>'' @ nl 10 @
         ''<input class=\"control mono\" name=\"rpm\" type=\"number\" min=\"0\" value=\"'' @
         (esc (kf_rpm f)) @ ''\" />'' @ nl 8 @ ''</label>'' @ nl 8 @ ''<label class=\"field\">'' @
         nl 10 @ ''<span>'' @ (esc (tr ''settings.keys.f_models'' [])) @ ''</span>'' @ nl 10 @
         ''<input class=\"control mono\" name=\"models\" type=\"text\" value=\"'' @
         (esc (kf_models f)) @ ''\" placeholder=\"'' @
         (esc (tr ''settings.keys.f_models_ph'' [])) @ ''\" />'' @ nl 10 @ ''<small>'' @
         (esc (tr ''settings.keys.f_models_hint'' [])) @ ''</small>'' @ nl 8 @ ''</label>'' @
         nl 8 @ ''<label class=\"field\">'' @ nl 10 @ ''<span>'' @
         (esc (tr ''settings.keys.f_expires'' [])) @ ''</span>'' @ nl 10 @
         ''<select class=\"control\" name=\"expires\">'' @ nl 12 @ keep @ nl 12 @
         ''<option value=\"never\" '' @ (if keep \<noteq> [] then [] else ''selected'') @ ''>'' @
         (esc (tr ''settings.keys.f_expires_never'' [])) @ ''</option>'' @ nl 12 @
         ''<option value=\"30d\">'' @ (esc (tr ''settings.keys.f_expires_30d'' [])) @
         ''</option>'' @ nl 12 @ ''<option value=\"90d\">'' @
         (esc (tr ''settings.keys.f_expires_90d'' [])) @ ''</option>'' @ nl 10 @ ''</select>'' @
         nl 8 @ ''</label>'' @ nl 8 @ ''<div class=\"drawer-actions\">'' @ nl 10 @
         ''<button class=\"button secondary\" type=\"button\" data-key-drawer-cancel>'' @
         (esc (tr ''settings.keys.cancel'' [])) @ ''</button>'' @ nl 10 @
         ''<button class=\"button primary\" type=\"submit\">'' @
         (esc (tr (if mode = ''edit'' then ''settings.ops.save'' else ''settings.keys.submit'') [])) @
         ''</button>'' @ nl 8 @ ''</div>'' @ nl 6 @ ''</form>''))"

text \<open>What the drawer body becomes; \<open>None\<close> leaves it as it is (closed, or the operator is typing).\<close>

definition renderKeyDrawer :: "translator \<Rightarrow> rat \<Rightarrow> bool \<Rightarrow> bool \<Rightarrow> keys_ui \<Rightarrow> string option" where
  "renderKeyDrawer tr now always preserve s =
     (if \<not> ck_open s then None
      else (case ck_created s of
          Some k \<Rightarrow> Some (created_panel tr k)
        | None \<Rightarrow> if \<not> always \<and> preserve then None
            else Some (key_form_markup tr now (ck_mode s) (ck_editRecord s))))"

section \<open>Submitting\<close>

definition key_payload :: "key_form \<Rightarrow> jsval" where
  "key_payload f =
     (let modelsRaw = js_trim (kf_models f); choice = (if kf_expires f \<noteq> [] then kf_expires f else ''never'') in
      Obj ([(''name'', Str (js_trim (kf_name f))), (''quota'', Str (js_trim (kf_quota f))),
            (''rpm'', Num (if kf_rpm f \<noteq> [] then str_to_num (kf_rpm f) else Fin 0)),
            (''models'', Str (if modelsRaw \<noteq> [] then modelsRaw else ''*''))]
           @ (if choice = ''keep'' then [] else [(''expires'', Str choice)])))"

text \<open>The request a submit sends: method, path and body; \<open>None\<close> for a second submit or an empty name.\<close>

definition startKeySubmit :: "key_form \<Rightarrow> keys_ui \<Rightarrow> keys_ui \<times> (string \<times> string \<times> jsval) option" where
  "startKeySubmit f s =
     (if ck_submitting s \<or> js_trim (kf_name f) = [] then (s, None)
      else (s\<lparr>ck_submitting := True\<rparr>,
            Some (if ck_mode s = ''edit'' \<and> ck_editId s \<noteq> []
                  then (''PATCH'', ''/-/admin/client-keys/'' @ encodeURIComponent (ck_editId s), key_payload f)
                  else (''POST'', ''/-/admin/client-keys'', key_payload f))))"

definition finishKeySubmit :: "rat \<Rightarrow> string \<Rightarrow> string + jsval \<Rightarrow> keys_ui \<Rightarrow> keys_ui" where
  "finishKeySubmit now meth outcome s =
     (let s1 = (case outcome of
            Inl err \<Rightarrow> s
          | Inr data \<Rightarrow>
              (if meth = ''PATCH'' then fst (refreshClientKeys now (closeKeyDrawer s))
               else fst (refreshClientKeys now
                 (s\<lparr>ck_created := Some (str_or_empty (get data ''full_key'')), ck_dirty := False\<rparr>))))
      in s1\<lparr>ck_submitting := False\<rparr>)"

section \<open>Correctness\<close>

text \<open>
  The key form keeps a record that is not touched, and which list the page accepts when the keys are asked
  for twice.
\<close>

section \<open>The form\<close>



lemma models_text:
  assumes "\<forall>m \<in> set ms. js_trim m = m \<and> m \<noteq> []"
  shows "models_list (Arr (map Str ms)) = js_join '', '' ms"
  by (simp add: models_list_def comp_def)










section \<open>The list\<close>

text \<open>
  Asked for again while it is being loaded, as after deleting a key or resetting its usage, the list is not
  requested again, and the running reply, which may be older than the change, counts as fresh.
\<close>

lemma reload_in_flight_keeps_older_reply:
  assumes "ck_inFlight s"
  shows "refreshClientKeys now s = (s\<lparr>ck_keys := Null, ck_available := None\<rparr>, False)"
    and "now' < then_at + CLIENT_KEYS_REFRESH_MS
         \<Longrightarrow> startClientKeys now' (finishClientKeys then_at (Inr old) (fst (refreshClientKeys now s)))
             = (finishClientKeys then_at (Inr old) (fst (refreshClientKeys now s)), False)"
  using assms by (auto simp: refreshClientKeys_def startClientKeys_def finishClientKeys_def)

text \<open>A reload that is really sent leaves the list unavailable until its own reply, and that reply is the list.\<close>

lemma reload_takes_own_reply:
  assumes "\<not> ck_inFlight s"
  shows "snd (refreshClientKeys now s)" and "ck_available (fst (refreshClientKeys now s)) = None"
    and "ck_keys (finishClientKeys then_at (Inr data) (fst (refreshClientKeys now s))) = Arr (arr_or_empty (get data ''keys''))"
    and "\<not> ck_inFlight (finishClientKeys then_at r (fst (refreshClientKeys now s)))"
  using assms by (auto simp: refreshClientKeys_def startClientKeys_def finishClientKeys_def split: sum.splits)

text \<open>A submit that is running swallows the next one, and its end, good or bad, allows the next.\<close>

lemma submit_once:
  "snd (startKeySubmit f s) = Some r \<Longrightarrow> snd (startKeySubmit f' (fst (startKeySubmit f s))) = None"
  "\<not> ck_submitting (finishKeySubmit now meth outcome s)"
  by (auto simp: startKeySubmit_def finishKeySubmit_def Let_def split: if_splits)

text \<open>A created key is shown, whatever was typed, until the drawer is closed or another is created.\<close>

lemma created_key_shown:
  assumes "ck_open s"
  shows "renderKeyDrawer tr now False True (finishKeySubmit now ''POST'' (Inr data) s)
         = Some (created_panel tr (str_or_empty (get data ''full_key'')))"
  using assms by (simp add: renderKeyDrawer_def finishKeySubmit_def refreshClientKeys_def startClientKeys_def)

text \<open>
  While the list is being loaded again the rows stay on the page but the list is gone: a click on edit opens an
  empty form in edit mode without an id, and submitting it creates a new key.
\<close>

lemma edit_while_reloading_creates:
  assumes "\<not> ck_submitting s" and "js_trim (kf_name f) \<noteq> []"
  shows "ck_mode (editKeyClick key (fst (refreshClientKeys now s))) = ''edit''"
    and "snd (startKeySubmit f (editKeyClick key (fst (refreshClientKeys now s))))
         = Some (''POST'', ''/-/admin/client-keys'', key_payload f)"
  using assms
  by (auto simp: editKeyClick_def openKeyDrawer_def startKeySubmit_def refreshClientKeys_def startClientKeys_def jcoalesce_def)

text \<open>With the list on the page an edit is sent to the key that was clicked.\<close>

lemma edit_goes_to_clicked_key:
  assumes "\<not> ck_submitting s" and "js_trim (kf_name f) \<noteq> []" and "key \<noteq> []"
    and "r \<in> set (arr_or_empty (ck_keys s))" and "to_str (get r ''id'') = key" and "\<forall>x \<in> set (arr_or_empty (ck_keys s)). \<not> nullish (get x ''id'')"
  shows "\<exists>p. snd (startKeySubmit f (editKeyClick key s)) = Some (''PATCH'', ''/-/admin/client-keys/'' @ encodeURIComponent key, p)"
proof -
  obtain x where x: "find (\<lambda>item. to_str (get item ''id'') = key) (arr_or_empty (ck_keys s)) = Some x"
    using assms(4,5) by (cases "find (\<lambda>item. to_str (get item ''id'') = key) (arr_or_empty (ck_keys s))") (auto simp: find_None_iff)
  then have "x \<in> set (arr_or_empty (ck_keys s))" "to_str (get x ''id'') = key" using find_Some_in [OF x] by auto
  then show ?thesis
    using x assms by (auto simp: editKeyClick_def openKeyDrawer_def startKeySubmit_def jcoalesce_def)
qed

end
