(* ===== verification/ConfigForms.thy ===== *)
theory ConfigForms
  imports ConfigRefresh ProviderState KeyModels ProviderModels Playground
begin

text \<open>
  The configuration forms of \<open>app.js\<close>: what a form looks like to the code, saving one (\<open>runConfigMutation\<close>,
  \<open>runFormatMutation\<close>, cut at their \<open>await\<close>), and for every form the request it sends and the edit it makes to
  the configuration shown until the reply.
\<close>

section \<open>Forms\<close>

record form_control =
  fc_name :: string
  fc_type :: string
  fc_value :: string
  fc_checked :: bool

record form_snapshot =
  fs_values :: "form_control list"
  fs_active :: string

text \<open>\<open>active\<close> is the name of the focused control when it lies in the form.\<close>

definition captureFormState :: "string option \<Rightarrow> form_control list \<Rightarrow> form_snapshot" where
  "captureFormState active controls =
     \<lparr>fs_values = filter (\<lambda>c. fc_name c \<noteq> []) controls, fs_active = (case active of None \<Rightarrow> [] | Some n \<Rightarrow> n)\<rparr>"

text \<open>The first control of that name gets the saved state.\<close>

fun restore_control :: "form_control \<Rightarrow> form_control list \<Rightarrow> form_control list" where
  "restore_control saved [] = []"
| "restore_control saved (c # cs) =
     (if fc_name c = fc_name saved
      then (if fc_type saved \<in> {''checkbox'', ''radio''} then c\<lparr>fc_checked := fc_checked saved\<rparr>
            else c\<lparr>fc_value := fc_value saved\<rparr>) # cs
      else c # restore_control saved cs)"

definition restoreFormState :: "form_control list \<Rightarrow> form_snapshot \<Rightarrow> form_control list" where
  "restoreFormState controls snap = fold restore_control (fs_values snap) controls"

section \<open>Saving a form\<close>

record optimistic_edit =
  oe_key :: jsval
  oe_apply :: "jsval \<Rightarrow> jsval"
  oe_drawer :: bool

record form_handle =
  fh_scope :: nat
  fh_mutation :: "nat option"
  fh_busy :: nat
  fh_drawer :: bool
  fh_snapshot :: form_snapshot

definition startConfigMutation ::
  "string option \<Rightarrow> form_control list \<Rightarrow> optimistic_edit option \<Rightarrow> refresh_state \<Rightarrow> refresh_state \<times> form_handle option" where
  "startConfigMutation active form optimistic s =
     (let (c, scope) = beginMutation (coord_of s);
          s0 = set_coord c s;
          (s1, m) = (case optimistic of None \<Rightarrow> (s0, None)
                     | Some e \<Rightarrow> beginOptimisticConfigMutation (oe_key e) (oe_apply e) (oe_drawer e) s0)
      in if optimistic \<noteq> None \<and> m = None then (finish_scope scope s1, None)
         else (let (s2, b) = begin_busy s1
               in (log_event (Notice ''notice.saving'' ''info'') s2,
                   Some \<lparr>fh_scope = scope, fh_mutation = m, fh_busy = b,
                         fh_drawer = (case optimistic of None \<Rightarrow> True | Some e \<Rightarrow> oe_drawer e),
                         fh_snapshot = captureFormState active form\<rparr>)))"

definition finish_form :: "form_handle \<Rightarrow> refresh_state \<Rightarrow> refresh_state" where
  "finish_form h s = (let s1 = finish_scope (fh_scope h) s in s1\<lparr>rf_busy := rf_busy s1 - {fh_busy h}\<rparr>)"

text \<open>The reply settles the optimistic edit; \<open>False\<close> when the edit is no longer there.\<close>

definition settle_edit :: "nat option \<Rightarrow> bool \<Rightarrow> jsval \<Rightarrow> refresh_state \<Rightarrow> refresh_state \<times> bool" where
  "settle_edit m drawer result s =
     (case m of None \<Rightarrow> (s, True)
      | Some i \<Rightarrow>
          (if present result ''config'' then confirmOptimisticConfigMutation i (get result ''config'') False True s
           else (rejectOptimisticConfigMutation i drawer s, True)))"

definition full_refresh_args :: refresh_args where
  "full_refresh_args = \<lparr>ra_quiet = True, ra_preserve = True, ra_static = True, ra_domains = []\<rparr>"

definition clear_dirty :: "refresh_state \<Rightarrow> refresh_state" where
  "clear_dirty s = s\<lparr>rf_dirty := clearAllDirty (rf_dirty s)\<rparr>"

definition form_saved :: "bool \<Rightarrow> jsval \<Rightarrow> refresh_state \<Rightarrow> refresh_state" where
  "form_saved optimistic result s =
     (let (s1, applied) = applyMutationResult result True False (optimistic \<and> present result ''config'') (clear_dirty s);
          s2 = (if applied then s1 else log_event RenderAll (force [''config'', ''modelRoutes''] s1));
          s3 = log_event (Notice ''notice.saved'' ''ok'') (s2\<lparr>rf_active := None\<rparr>)
      in scheduleBackgroundRefresh full_refresh_args s3)"

text \<open>What the form holds afterwards is the second component; \<open>controls\<close> is the form found then.\<close>

definition finishConfigMutation ::
  "form_handle \<Rightarrow> string + jsval \<Rightarrow> form_control list \<Rightarrow> refresh_state \<Rightarrow> refresh_state \<times> form_control list \<times> bool" where
  "finishConfigMutation h outcome controls s =
     (case outcome of
        Inl err \<Rightarrow>
          (let s1 = (case fh_mutation h of None \<Rightarrow> s | Some i \<Rightarrow> rejectOptimisticConfigMutation i (fh_drawer h) s)
           in (finish_form h (log_event (Notice err ''bad'') s1),
               (if fh_mutation h = None then controls else restoreFormState controls (fh_snapshot h)), False))
      | Inr result \<Rightarrow>
          (let (s1, ok) = settle_edit (fh_mutation h) (fh_drawer h) result s
           in if \<not> ok then (finish_form h s1, controls, False)
              else (finish_form h (form_saved (fh_mutation h \<noteq> None) result s1), controls, True)))"

section \<open>Saving a format\<close>

text \<open>A format card begins no mutation scope. The handle is the mutation, if any, and the busy controls.\<close>

definition startFormatMutation ::
  "optimistic_edit option \<Rightarrow> refresh_state \<Rightarrow> refresh_state \<times> (nat option \<times> nat) option" where
  "startFormatMutation optimistic s =
     (let (s1, m) = (case optimistic of None \<Rightarrow> (s, None)
                     | Some e \<Rightarrow> beginOptimisticConfigMutation (oe_key e) (oe_apply e) True s)
      in if optimistic \<noteq> None \<and> m = None then (s1, None)
         else (let (s2, b) = begin_busy s1 in (log_event (Notice ''notice.saving'' ''info'') s2, Some (m, b))))"

definition format_saved :: "bool \<Rightarrow> jsval \<Rightarrow> refresh_state \<Rightarrow> refresh_state" where
  "format_saved optimistic result s =
     (let (s1, applied) = applyMutationResult result True True (optimistic \<and> present result ''config'') (clear_dirty s);
          s2 = (if applied then s1
                else log_event RenderDrawer (log_event RenderAll
                  (force [''config'', ''providers'', ''modelCaps''] (s1\<lparr>d_version := Suc (d_version s1)\<rparr>))))
      in scheduleBackgroundRefresh full_refresh_args (log_event (Notice ''notice.saved'' ''ok'') s2))"

definition finishFormatMutation ::
  "nat option \<times> nat \<Rightarrow> string + jsval \<Rightarrow> refresh_state \<Rightarrow> refresh_state \<times> bool" where
  "finishFormatMutation h outcome s =
     (let free = (\<lambda>s. s\<lparr>rf_busy := rf_busy s - {snd h}\<rparr>) in
      case outcome of
        Inl err \<Rightarrow>
          (let s1 = (case fst h of None \<Rightarrow> s | Some i \<Rightarrow> rejectOptimisticConfigMutation i True s)
           in (free (log_event (Notice err ''bad'') s1), False))
      | Inr result \<Rightarrow>
          (let (s1, ok) = settle_edit (fst h) True result s
           in if \<not> ok then (free s1, False) else (free (format_saved (fst h \<noteq> None) result s1), True)))"

section \<open>Edits of the configuration\<close>

text \<open>\<open>config.a?.b\<close> changed in place when it is there, and made first when the code writes \<open>||= {}\<close>.\<close>

definition upd_prop :: "string \<Rightarrow> (jsval \<Rightarrow> jsval) \<Rightarrow> jsval \<Rightarrow> jsval" where
  "upd_prop k f v = (if truthy (get v k) then obj_set k (f (get v k)) v else v)"

definition make_prop :: "string \<Rightarrow> (jsval \<Rightarrow> jsval) \<Rightarrow> jsval \<Rightarrow> jsval" where
  "make_prop k f v = obj_set k (f (jor (get v k) (Obj []))) v"

definition assign :: "(string \<times> jsval) list \<Rightarrow> jsval \<Rightarrow> jsval" where
  "assign payload v = fold (\<lambda>(k, x). obj_set k x) payload v"

definition upd_provider :: "string \<Rightarrow> (jsval \<Rightarrow> jsval) \<Rightarrow> jsval \<Rightarrow> jsval" where
  "upd_provider provider f = upd_prop ''providers'' (upd_prop provider f)"

definition obj_del :: "string \<Rightarrow> jsval \<Rightarrow> jsval" where
  "obj_del k v = (case v of Obj kvs \<Rightarrow> Obj (del_prop k kvs) | _ \<Rightarrow> v)"

section \<open>The forms\<close>

text \<open>Global proxy, of the settings and of the configuration page.\<close>

definition proxy_edit :: "string \<Rightarrow> optimistic_edit" where
  "proxy_edit value =
     \<lparr>oe_key = Str ''global-proxy'', oe_apply = obj_set ''proxy'' (Str (js_trim value)), oe_drawer = False\<rparr>"

definition number_field :: "string \<Rightarrow> jsval" where
  "number_field value = Num (if value \<noteq> [] then str_to_num value else Fin 0)"

definition routing_payload :: "(string \<Rightarrow> string) \<Rightarrow> (string \<times> jsval) list" where
  "routing_payload field =
     map (\<lambda>k. (k, number_field (field k)))
       [''max_attempts'', ''connect_timeout_s'', ''read_timeout_s'', ''first_token_timeout_s'', ''agent_first_event_timeout_s'']"

definition routing_edit :: "(string \<times> jsval) list \<Rightarrow> optimistic_edit" where
  "routing_edit payload =
     \<lparr>oe_key = Str ''routing'', oe_apply = make_prop ''routing'' (assign payload), oe_drawer = False\<rparr>"

datatype key_answer = KeyMissing | KeyMismatch | KeyConfirm string

definition adminKeySubmit :: "string \<Rightarrow> string \<Rightarrow> key_answer" where
  "adminKeySubmit key confirm =
     (let new = js_trim key in
      if new = [] then KeyMissing else if new \<noteq> js_trim confirm then KeyMismatch else KeyConfirm new)"

text \<open>The key is rotated when the server has accepted it, before the rest of the save runs.\<close>

definition finishAdminKeyChange ::
  "string \<Rightarrow> form_handle \<Rightarrow> string + jsval \<Rightarrow> form_control list \<Rightarrow> refresh_state
     \<Rightarrow> refresh_state \<times> form_control list \<times> bool" where
  "finishAdminKeyChange new h outcome controls s =
     (case outcome of
        Inl err \<Rightarrow> finishConfigMutation h outcome controls s
      | Inr result \<Rightarrow> finishConfigMutation h outcome (map (\<lambda>c. c\<lparr>fc_value := []\<rparr>) controls) (s\<lparr>rf_adminKey := new\<rparr>))"

text \<open>The form of a provider; the fields it may lack are options.\<close>

record provider_form =
  pv_base_url :: string
  pv_site_url :: string
  pv_proxy :: string
  pv_user_agent :: string
  pv_priority :: string
  pv_enabled :: bool
  pv_skip_idle :: "bool option"
  pv_skip_patrol :: "bool option"
  pv_headers :: "string option"

definition provider_payload :: "provider_form \<Rightarrow> (string \<times> jsval) list" where
  "provider_payload f =
     [(''base_url'', Str (js_trim (pv_base_url f))), (''site_url'', Str (js_trim (pv_site_url f))),
      (''proxy'', Str (js_trim (pv_proxy f))), (''user_agent'', Str (js_trim (pv_user_agent f))),
      (''priority'', number_field (pv_priority f)), (''enabled'', Bool (pv_enabled f))]
     @ (case pv_skip_idle f of None \<Rightarrow> [] | Some b \<Rightarrow> [(''skip_idle_probe'', Bool b)])
     @ (case pv_skip_patrol f of None \<Rightarrow> [] | Some b \<Rightarrow> [(''skip_patrol_probe'', Bool b)])
     @ (case pv_headers f of None \<Rightarrow> []
        | Some s \<Rightarrow> [(''forward_client_headers'',
            Arr (map Str (filter (\<lambda>x. x \<noteq> []) (map js_trim (js_split (\<lambda>c. c = CHR '','') (js_trim s))))))])"

definition provider_edit :: "string \<Rightarrow> (string \<times> jsval) list \<Rightarrow> optimistic_edit" where
  "provider_edit provider payload =
     \<lparr>oe_key = Str (''provider:'' @ provider), oe_apply = upd_provider provider (assign payload), oe_drawer = True\<rparr>"

text \<open>One switch of a provider, and the probe switches, are one field.\<close>

definition flag_edit :: "string \<Rightarrow> string \<Rightarrow> bool \<Rightarrow> optimistic_edit" where
  "flag_edit provider field value = provider_edit provider [(field, Bool value)]"

definition static_models_edit :: "string \<Rightarrow> string list \<Rightarrow> optimistic_edit" where
  "static_models_edit provider models = provider_edit provider [(''static_models'', Arr (map Str models))]"

definition key_add_payload :: "string \<Rightarrow> string \<Rightarrow> (string \<times> jsval) list" where
  "key_add_payload key proxy =
     (''key'', Str (js_trim key)) # (if js_trim proxy \<noteq> [] then [(''proxy'', Str (js_trim proxy))] else [])"

definition key_add_edit :: "string \<Rightarrow> (string \<times> jsval) list \<Rightarrow> optimistic_edit" where
  "key_add_edit provider payload =
     \<lparr>oe_key = Str (''provider-key-list:'' @ provider), oe_apply = (\<lambda>c. appendPendingKey c provider (Obj payload)), oe_drawer = True\<rparr>"

text \<open>The first key whose index, its position when it has none, is the one of the row.\<close>

fun upd_key :: "string \<Rightarrow> nat \<Rightarrow> (jsval \<Rightarrow> jsval) \<Rightarrow> jsval list \<Rightarrow> jsval list" where
  "upd_key idx i f [] = []"
| "upd_key idx i f (k # ks) =
     (if to_str (jcoalesce (get k ''index'') (jnum (of_nat i))) = idx then f k # ks else k # upd_key idx (Suc i) f ks)"

definition set_key :: "string \<Rightarrow> (string \<times> string) list option \<Rightarrow> jsval \<Rightarrow> jsval" where
  "set_key proxy models key =
     (if is_object key then
        (let k = obj_set ''proxy'' (Str proxy) key
         in case models of None \<Rightarrow> obj_del ''models'' k
            | Some ms \<Rightarrow> obj_set ''models'' (Obj (map (\<lambda>(a, b). (a, Str b)) ms)) k)
      else key)"

definition key_row_edit :: "string \<Rightarrow> string \<Rightarrow> string \<Rightarrow> (string \<times> string) list option \<Rightarrow> optimistic_edit" where
  "key_row_edit provider idx proxy models =
     \<lparr>oe_key = Str (''key:'' @ provider @ '':'' @ idx),
      oe_apply = upd_provider provider (\<lambda>p. case get p ''keys'' of
          Arr ks \<Rightarrow> obj_set ''keys'' (Arr (upd_key idx 0 (set_key (js_trim proxy) models) ks)) p | _ \<Rightarrow> p),
      oe_drawer = True\<rparr>"

text \<open>Formats of a provider.\<close>

definition defaultFormatPath :: "string \<Rightarrow> string" where
  "defaultFormatPath fmt =
     (if fmt = ''responses'' then ''/v1/responses''
      else if fmt = ''anthropic_messages'' then ''/v1/messages''
      else if fmt = ''google_generate'' then ''/v1beta/models/{model}:generateContent''
      else ''/v1/chat/completions'')"

definition format_edit :: "string \<Rightarrow> string \<Rightarrow> string \<Rightarrow> jsval \<Rightarrow> optimistic_edit" where
  "format_edit provider fmt field value =
     \<lparr>oe_key = Str (''provider-format:'' @ provider @ '':'' @ fmt),
      oe_apply = upd_provider provider (upd_prop ''formats'' (upd_prop fmt (obj_set field value))), oe_drawer = True\<rparr>"

datatype path_answer = PathEmpty | PathSame | PathSave string

definition formatPathSubmit :: "string \<Rightarrow> string \<Rightarrow> path_answer" where
  "formatPathSubmit current value =
     (let p = js_trim value; normalized = (if starts_with ''/'' p then p else CHR ''/'' # p) in
      if p = [] then PathEmpty else if normalized = current then PathSame else PathSave normalized)"

text \<open>Groups of variants: the edit of a save, a write after the other, and of a deletion.\<close>

definition variant_vals :: "variant list \<Rightarrow> jsval" where
  "variant_vals vs = Arr (map (\<lambda>v. Obj [(''model'', Str (v_model v)), (''priority'', jnum (v_priority v))]) vs)"

definition write_group :: "group_write \<Rightarrow> jsval \<Rightarrow> jsval" where
  "write_group w groups =
     (if w_variants w \<noteq> [] then obj_set (w_model w) (variant_vals (w_variants w)) groups else obj_del (w_model w) groups)"

definition variants_edit :: "string \<Rightarrow> group_plan \<Rightarrow> optimistic_edit" where
  "variants_edit provider plan =
     \<lparr>oe_key = Str (''model-variants:'' @ provider @ '':'' @ gp_id plan),
      oe_apply = make_prop ''models'' (make_prop ''provider_model_variants'' (\<lambda>pv.
         (let groups = fold write_group (gp_writes plan) (jor (get pv provider) (Obj []))
          in if obj_fields groups = [] then obj_del provider pv else obj_set provider groups pv))),
      oe_drawer = True\<rparr>"

definition delete_alias :: "string \<Rightarrow> string \<Rightarrow> jsval \<Rightarrow> jsval" where
  "delete_alias provider canonical pv =
     (if truthy (get pv provider)
      then (let groups = obj_del canonical (get pv provider)
            in if obj_fields groups = [] then obj_del provider pv else obj_set provider groups pv)
      else pv)"

definition alias_delete_edit :: "string \<Rightarrow> string \<Rightarrow> optimistic_edit" where
  "alias_delete_edit provider canonical =
     \<lparr>oe_key = Str (''model-variants:'' @ provider @ '':'' @ canonical),
      oe_apply = upd_prop ''models'' (upd_prop ''provider_model_variants'' (delete_alias provider canonical)),
      oe_drawer = True\<rparr>"

text \<open>A new provider, from the modal and from the page.\<close>

record add_form =
  af_name :: string
  af_base_url :: string
  af_key :: string
  af_key_proxy :: string
  af_site_url :: string
  af_proxy :: string
  af_priority :: string
  af_format :: string

definition format_entry :: "string \<Rightarrow> string \<Rightarrow> string \<times> jsval" where
  "format_entry chosen fmt = (fmt, Obj [(''enabled'', Bool (chosen = fmt)), (''path'', Str (defaultFormatPath fmt))])"

definition add_provider_payload :: "add_form \<Rightarrow> (string \<times> jsval) list" where
  "add_provider_payload f =
     (let fmt = (if af_format f \<noteq> [] then af_format f else ''chat_completions''); key = js_trim (af_key f);
          keyProxy = js_trim (af_key_proxy f); site = js_trim (af_site_url f); proxy = js_trim (af_proxy f);
          priority = (if af_priority f \<noteq> [] then str_to_num (af_priority f) else Fin 0)
      in [(''name'', Str (js_trim (af_name f))), (''base_url'', Str (js_trim (af_base_url f))),
          (''keys'', Arr [if keyProxy \<noteq> [] then Obj [(''key'', Str key), (''proxy'', Str keyProxy)] else Str key])]
         @ (if site \<noteq> [] then [(''site_url'', Str site)] else [])
         @ (if \<not> num_eq priority (Fin 0) then [(''priority'', Num priority)] else [])
         @ (if proxy \<noteq> [] then [(''proxy'', Str proxy)] else [])
         @ (if fmt \<noteq> ''auto''
            then [(''formats'', Obj (map (format_entry fmt) [''chat_completions'', ''responses'', ''anthropic_messages'', ''google_generate'']))]
            else []))"

definition add_provider_edit :: "(string \<times> jsval) list \<Rightarrow> optimistic_edit" where
  "add_provider_edit payload =
     \<lparr>oe_key = Str (''provider:'' @ to_str (lookup ''name'' payload)),
      oe_apply = (\<lambda>c. appendPendingProvider c (Obj payload)), oe_drawer = False\<rparr>"

text \<open>A model route.\<close>

record route_form =
  rt_model :: string
  rt_providers :: string
  rt_select :: string
  rt_format :: string
  rt_effort :: string

definition route_payload :: "route_form \<Rightarrow> (string \<times> jsval) list" where
  "route_payload f =
     [(''model'', Str (js_trim (rt_model f))), (''providers'', Str (js_trim (rt_providers f))),
      (''provider_select'', Str (js_trim (if rt_select f \<noteq> [] then rt_select f else ''priority_failover''))),
      (''format_preference'', Str (js_trim (rt_format f))), (''reasoning_effort'', Str (js_trim (rt_effort f)))]"

definition route_item_val :: "route_item \<Rightarrow> jsval" where
  "route_item_val i = Obj [(''name'', ri_name i), (''weight'', ri_weight i), (''priority'', ri_priority i)]"

definition route_entry_val :: "route_form \<Rightarrow> jsval" where
  "route_entry_val f =
     (let p = route_payload f in
      Obj ([(''providers'', Arr (map route_item_val (parseRouteProvidersInput (lookup ''providers'' p)))),
            (''provider_select'', lookup ''provider_select'' p)]
           @ (if js_trim (rt_format f) \<noteq> [] then [(''format_preference'', lookup ''format_preference'' p)] else [])
           @ (if js_trim (rt_effort f) \<noteq> [] then [(''reasoning_effort'', lookup ''reasoning_effort'' p)] else [])))"

definition route_edit :: "route_form \<Rightarrow> optimistic_edit" where
  "route_edit f =
     \<lparr>oe_key = Str (''model-route:'' @ js_trim (rt_model f)),
      oe_apply = make_prop ''models'' (make_prop ''routes'' (obj_set (js_trim (rt_model f)) (route_entry_val f))),
      oe_drawer = False\<rparr>"

end
