(* ===== verification/ConfigFormsFacts.thy ===== *)
theory ConfigFormsFacts
  imports ConfigForms ConfigRefreshFacts
begin

text \<open>
  What saving a form promises: a failed save gives back the configuration and what was typed; the edit shown
  meanwhile changes its own record only; a successful save, though, also lifts the protection of other forms.
\<close>

section \<open>What was typed\<close>

definition is_checked_type :: "string \<Rightarrow> bool" where
  "is_checked_type ty \<longleftrightarrow> ty \<in> {''checkbox'', ''radio''}"

text \<open>
  The form found on the page at the end need not be the one that was sent. A control of it is written when it is
  the first of its name and that name was captured; it gets the state of the last control captured under the name.
\<close>

definition shows_value :: "form_control \<Rightarrow> form_control \<Rightarrow> bool" where
  "shows_value c d \<longleftrightarrow> (if is_checked_type (fc_type c) then fc_checked d = fc_checked c else fc_value d = fc_value c)"

definition first_named :: "form_control list \<Rightarrow> nat \<Rightarrow> bool" where
  "first_named cs j \<longleftrightarrow> fc_name (cs ! j) \<notin> set (map fc_name (take j cs))"

definition sent_under :: "string \<Rightarrow> form_control list \<Rightarrow> form_control list" where
  "sent_under n form = filter (\<lambda>c. fc_name c = n \<and> n \<noteq> []) form"

definition form_restored :: "form_control list \<Rightarrow> form_control list \<Rightarrow> form_control list \<Rightarrow> bool" where
  "form_restored form found result \<longleftrightarrow> length result = length found
     \<and> (\<forall>j < length found. let c = found ! j; d = result ! j; sent = sent_under (fc_name c) form in
          if first_named found j \<and> sent \<noteq> [] then fc_name d = fc_name c \<and> fc_type d = fc_type c \<and> shows_value (last sent) d
          else d = c)"

definition written :: "form_control \<Rightarrow> form_control \<Rightarrow> form_control" where
  "written saved c = (if fc_type saved \<in> {''checkbox'', ''radio''} then c\<lparr>fc_checked := fc_checked saved\<rparr>
     else c\<lparr>fc_value := fc_value saved\<rparr>)"

lemma written_simps [simp]: "fc_name (written saved c) = fc_name c" "fc_type (written saved c) = fc_type c"
  "shows_value saved (written saved c)"
  by (simp_all add: written_def shows_value_def is_checked_type_def)

lemma restore_control_names [simp]: "map fc_name (restore_control saved cs) = map fc_name cs"
  by (induction cs) auto

lemma restore_control_length [simp]: "length (restore_control saved cs) = length cs"
  by (induction cs) auto

lemma restore_control_nth:
  "j < length cs \<Longrightarrow> restore_control saved cs ! j =
     (if fc_name (cs ! j) = fc_name saved \<and> first_named cs j then written saved (cs ! j) else cs ! j)"
proof (induction cs arbitrary: j)
  case (Cons c cs)
  then show ?case by (cases j) (auto simp: first_named_def written_def)
qed simp

lemma first_named_cong: "map fc_name cs = map fc_name cs' \<Longrightarrow> j < length cs \<Longrightarrow> first_named cs j = first_named cs' j"
  by (metis first_named_def length_map nth_map take_map)

lemma restore_all:
  assumes "j < length found"
  shows "map fc_name (fold restore_control saved found) = map fc_name found
    \<and> fold restore_control saved found ! j =
       (if first_named found j then fold written (filter (\<lambda>c. fc_name c = fc_name (found ! j)) saved) (found ! j) else found ! j)"
proof (induction saved rule: rev_induct)
  case (snoc x saved)
  let ?r = "fold restore_control saved found"
  have names: "map fc_name ?r = map fc_name found" using snoc by simp
  then have len: "length ?r = length found" by (rule map_eq_imp_length_eq)
  then have "fc_name (?r ! j) = fc_name (found ! j)" using names assms by (metis nth_map)
  moreover have "first_named ?r j = first_named found j" using first_named_cong [OF names] assms len by simp
  ultimately show ?case using snoc names assms len by (auto simp: restore_control_nth)
qed simp

lemma fold_written: "xs \<noteq> [] \<Longrightarrow> shows_value (last xs) (fold written xs c)
    \<and> fc_name (fold written xs c) = fc_name c \<and> fc_type (fold written xs c) = fc_type c"
proof (induction xs rule: rev_induct)
  case (snoc x xs)
  then show ?case by (cases "xs = []") auto
qed simp

lemma restored_form: "form_restored form found (restoreFormState found (captureFormState active form))"
proof -
  have sent: "filter (\<lambda>c. fc_name c \<noteq> [] \<and> fc_name c = n) form = sent_under n form" for n
    by (auto simp: sent_under_def intro!: filter_cong)
  have len: "length (fold restore_control saved found) = length found" for saved
    by (induction saved arbitrary: found) simp_all
  show ?thesis
    using restore_all [of _ found "filter (\<lambda>c. fc_name c \<noteq> []) form"] fold_written
    by (simp add: form_restored_def restoreFormState_def captureFormState_def sent len Let_def)
qed

section \<open>What was shown\<close>

lemma finish_form_view:
  "settled_view (finish_form h s) =
     (rf_store s, d_config s, (rf_dirty s)\<lparr>ds_coord := finishMutation (fh_scope h) (coord_of s)\<rparr>, rf_busy s - {fh_busy h})"
  by (simp add: settled_view_def finish_form_def finish_scope_def set_coord_def Let_def)

lemma start_form_Some:
  assumes "startConfigMutation active form (Some e) s = (s1, Some h)"
  obtains m where "snd (store_begin (oe_key e) (oe_apply e) (rf_store s)) = Some m" "fh_mutation h = Some (mut_id m)"
    "rf_store s1 = fst (store_begin (oe_key e) (oe_apply e) (rf_store s))" "fh_snapshot h = captureFormState active form"
  using assms that
  by (auto simp: startConfigMutation_def beginOptimisticConfigMutation_def set_coord_def begin_busy_def
      publishEffectiveConfig_def force_def log_event_def beginMutation_def Let_def
      split: prod.splits option.splits if_splits)

lemma start_form_None: "startConfigMutation active form None s = (s1, Some h) \<Longrightarrow> fh_mutation h = None"
  by (auto simp: startConfigMutation_def Let_def split: prod.splits)

text \<open>
  C4. A failed save of a form. Between the submit and the error anything may happen to the rest of the state, and
  to the store of the configuration any number of polls, other edits, confirmations and rejections (logging out,
  polls without a revision and a second end of the same edit excepted). A form that shows its edit at once
  (every form but that of the admin key) then loses nothing: the store and the configuration shown are what they
  would be had the form never been submitted, and in the form found on the page the first control of every name that was sent
  holds what was sent, whatever the page or the operator put there meanwhile, and the other controls are
  as they were found. A form without such an edit leaves store, configuration and controls as they are.
  Either way the mutation scope and the busy controls of this save are released, and no others.
\<close>

theorem failed_form_save_restores:
  assumes "store_inv (rf_store s)" and "startConfigMutation active form optimistic s = (s1, Some h)"
    and "rf_store s' = fold store_step es (rf_store s1)"
    and "\<forall>i \<in> set_option (fh_mutation h). \<forall>e \<in> set es. meanwhile i e"
  shows "let (s2, result, ok) = finishConfigMutation h (Inl err) found s' in
    \<not> ok
    \<and> (case optimistic of
         None \<Rightarrow> rf_store s2 = rf_store s' \<and> d_config s2 = d_config s' \<and> result = found
       | Some e \<Rightarrow> (let unsent = without_edit (str_or_empty (oe_key e)) es (rf_store s) in
           rf_store s2 = unsent \<and> d_config s2 = jor (store_config unsent) (Obj []) \<and> form_restored form found result))
    \<and> scopes (coord_of s2) = scopes (coord_of s') - {fh_scope h} \<and> rf_busy s2 = rf_busy s' - {fh_busy h}"
proof (cases optimistic)
  case None
  then have "fh_mutation h = None" using start_form_None assms(2) by blast
  then show ?thesis
    using finish_form_view [of h "log_event (Notice err ''bad'') s'"]
    by (simp add: None finishConfigMutation_def settled_view_def finish_scope_view log_event_def)
next
  case (Some e)
  obtain m where m: "snd (store_begin (oe_key e) (oe_apply e) (rf_store s)) = Some m" "fh_mutation h = Some (mut_id m)"
    "rf_store s1 = fst (store_begin (oe_key e) (oe_apply e) (rf_store s))" "fh_snapshot h = captureFormState active form"
    using start_form_Some assms(2) unfolding Some by blast
  have "store_reject (mut_id m) (rf_store s') = without_edit (str_or_empty (oe_key e)) es (rf_store s)"
    using reject_leaves_no_trace [OF assms(1) m(1)] assms(3,4) store_begin_key [OF m(1)] by (simp add: m)
  then show ?thesis
    using finish_form_view [of h "log_event (Notice err ''bad'') (rejectOptimisticConfigMutation (mut_id m) (fh_drawer h) s')"]
    by (simp add: Some finishConfigMutation_def m settled_view_def reject_log_coord finish_scope_view restored_form Let_def)
qed

definition sample_control :: "string \<Rightarrow> string \<Rightarrow> bool \<Rightarrow> form_control" where
  "sample_control name value on = \<lparr>fc_name = name, fc_type = (if value = [] then ''checkbox'' else ''text''), fc_value = value, fc_checked = on\<rparr>"

theorem failed_form_save_restores_witness:
  "let form = [sample_control ''proxy'' ''http://a'' False, sample_control ''enabled'' [] True];
       s1 = fst (startConfigMutation None form (Some (proxy_edit ''http://a'')) sample_state);
       s' = s1\<lparr>rf_store := fold store_step [Accept (Obj [(''revision'', jnum 9)])] (rf_store s1)\<rparr>;
       (s2, result, ok) = finishConfigMutation
         \<lparr>fh_scope = 0, fh_mutation = Some 1, fh_busy = 0, fh_drawer = False, fh_snapshot = captureFormState None form\<rparr>
         (Inl ''HTTP 500'') [sample_control ''enabled'' [] False, sample_control ''proxy'' ''htt'' False] s'
   in d_config s2 = Obj [(''revision'', jnum 9)]
      \<and> form_restored form [sample_control ''enabled'' [] False, sample_control ''proxy'' ''htt'' False] result"
proof -
  define form where "form = [sample_control ''proxy'' ''http://a'' False, sample_control ''enabled'' [] True]"
  define found where "found = [sample_control ''enabled'' [] False, sample_control ''proxy'' ''htt'' False]"
  define s1 where "s1 = fst (startConfigMutation None form (Some (proxy_edit ''http://a'')) sample_state)"
  define s' where "s' = s1\<lparr>rf_store := fold store_step [Accept (Obj [(''revision'', jnum 9)])] (rf_store s1)\<rparr>"
  define h where "h = \<lparr>fh_scope = 0, fh_mutation = Some 1, fh_busy = 0, fh_drawer = False, fh_snapshot = captureFormState None form\<rparr>"
  have inv: "store_inv (rf_store sample_state)" by (simp add: sample_state_def store_new_inv)
  have start: "startConfigMutation None form (Some (proxy_edit ''http://a'')) sample_state = (s1, Some h)"
    by (simp add: s1_def h_def startConfigMutation_def beginOptimisticConfigMutation_def set_coord_def begin_busy_def proxy_edit_def
        publishEffectiveConfig_def force_def log_event_def beginMutation_def Let_def sample_state_def store_begin_def
        store_new_def coord_init_def markInteraction_def)
  have run: "rf_store s' = fold store_step [Accept (Obj [(''revision'', jnum 9)])] (rf_store s1)" by (simp add: s'_def)
  have "\<forall>i \<in> set_option (fh_mutation h). \<forall>e \<in> set [Accept (Obj [(''revision'', jnum 9)])]. meanwhile i e"
    by (simp add: configMarker_def h_def)
  from failed_form_save_restores [OF inv start run this, of "''HTTP 500''" found]
  have "let (s2, result, ok) = finishConfigMutation h (Inl ''HTTP 500'') found s' in
      d_config s2 = jor (store_config (without_edit (str_or_empty (oe_key (proxy_edit ''http://a'')))
         [Accept (Obj [(''revision'', jnum 9)])] (rf_store sample_state))) (Obj [])
      \<and> form_restored form found result"
    by (simp add: split_beta Let_def)
  moreover have "jor (store_config (without_edit (str_or_empty (oe_key (proxy_edit ''http://a'')))
         [Accept (Obj [(''revision'', jnum 9)])] (rf_store sample_state))) (Obj []) = Obj [(''revision'', jnum 9)]"
    by code_simp
  ultimately show ?thesis
    unfolding Let_def form_def [symmetric] found_def [symmetric] s1_def [symmetric] h_def [symmetric] s'_def [symmetric]
    by (simp only: split_beta)
qed

section \<open>What a saved form costs the others\<close>

lemma dirty_merge: "rf_dirty (fst (merge_reply r skip s)) = rf_dirty s" "rf_active (fst (merge_reply r skip s)) = rf_active s"
  by (simp_all add: merge_reply_def acceptConfirmedConfig_def applyStatusPayload_def acceptModelCapabilities_def Let_def split_beta)

lemma dirty_result:
  "rf_dirty (fst (applyMutationResult r render drawer skip s)) = rf_dirty s"
  using dirty_merge [of r skip s]
  by (simp add: applyMutationResult_def force_def log_event_def Let_def split_beta)

lemma form_saved_dirty:
  "rf_dirty (form_saved m result s) = clearAllDirty (rf_dirty s)" "rf_active (form_saved m result s) = None"
  by (simp_all add: form_saved_def scheduleBackgroundRefresh_def log_event_def force_def clear_dirty_def Let_def split_beta dirty_result)

lemma settle_edit_dirty: "rf_dirty (fst (settle_edit m drawer result s)) = rf_dirty s"
  by (auto simp: settle_edit_def confirmOptimisticConfigMutation_def rejectOptimisticConfigMutation_def publishEffectiveConfig_def
      force_def log_event_def Let_def split: option.splits prod.splits)

lemma saved_form_clean:
  assumes "snd (snd (finishConfigMutation h (Inr result) controls s))"
  shows "ds_dirty (rf_dirty (fst (finishConfigMutation h (Inr result) controls s))) = {}"
    and "rf_active (fst (finishConfigMutation h (Inr result) controls s)) = None"
  using assms form_saved_dirty
  by (auto simp: finishConfigMutation_def finish_form_def finish_scope_def set_coord_def clearAllDirty_def mark_def Let_def split_beta
      split: if_splits)

text \<open>
  C5. A successful save lifts the protection of every form, not only of the one that was saved: an edit made in
  another tracked form while the save was running was protected until the reply, and afterwards no container
  is dirty and nothing has the focus, so, unless another save is open, the refresh that the save has just
  scheduled may replace the configuration and redraw that form from it.
\<close>

theorem saved_form_unprotects_others:
  assumes "rf_dirty s = markContainerDirty (Some e) ds" and "is_form_tag (js_lower (e_tag e))"
    and "e_type e \<notin> {''search'', ''button'', ''submit''}" and "\<not> e_safe e"
    and "sel \<in> set trackedFormSelectors" and "sel \<in> e_within e"
    and "snd (snd (finishConfigMutation h (Inr result) controls s))"
  shows "protected_now s
    \<and> (let s2 = fst (finishConfigMutation h (Inr result) controls s) in
        \<not> shouldPreserveContainer (rf_active s2) sel (rf_dirty s2) \<and> rf_bgTimer s2
        \<and> (mutationDepth (coord_of s2) = 0 \<longrightarrow> \<not> protected_now s2))"
proof -
  have "protected_now s"
    unfolding protected_now_def assms(1) by (rule edit_protects [OF assms(2-6)])
  moreover have "rf_bgTimer (fst (finishConfigMutation h (Inr result) controls s))"
    using assms(7)
    by (auto simp: finishConfigMutation_def finish_form_def finish_scope_def set_coord_def form_saved_def scheduleBackgroundRefresh_def
        Let_def split_beta split: if_splits)
  ultimately show ?thesis
    using saved_form_clean [OF assms(7)]
    by (simp add: Let_def shouldPreserveContainer_def isContainerDirty_def interactiveElementHasFocus_def protected_now_def
        hasProtectedConfigInteraction_def)
qed

theorem saved_form_unprotects_others_witness:
  "let s = sample_state\<lparr>rf_dirty := markContainerDirty (Some sample_input) (rf_dirty sample_state)\<rparr>;
       h = \<lparr>fh_scope = 0, fh_mutation = None, fh_busy = 0, fh_drawer = True, fh_snapshot = captureFormState None []\<rparr>;
       s2 = fst (finishConfigMutation h (Inr (Obj [])) [] s)
   in protected_now s \<and> \<not> protected_now s2"
proof -
  define s where "s = sample_state\<lparr>rf_dirty := markContainerDirty (Some sample_input) (rf_dirty sample_state)\<rparr>"
  define h where "h = \<lparr>fh_scope = 0, fh_mutation = None, fh_busy = 0, fh_drawer = True, fh_snapshot = captureFormState None []\<rparr>"
  have ok: "snd (snd (finishConfigMutation h (Inr (Obj [])) [] s))"
    by (simp add: finishConfigMutation_def settle_edit_def h_def)
  have tag: "is_form_tag (js_lower (e_tag sample_input))" by code_simp
  have "protected_now s \<and> (let s2 = fst (finishConfigMutation h (Inr (Obj [])) [] s) in
        \<not> shouldPreserveContainer (rf_active s2) ''#configProviders'' (rf_dirty s2) \<and> rf_bgTimer s2
        \<and> (mutationDepth (coord_of s2) = 0 \<longrightarrow> \<not> protected_now s2))"
    by (rule saved_form_unprotects_others [where ds = "rf_dirty sample_state" and e = sample_input])
       (simp_all add: ok tag, simp_all add: s_def sample_input_def trackedFormSelectors_def)
  moreover have "mutationDepth (coord_of (fst (finishConfigMutation h (Inr (Obj [])) [] s))) = 0"
    using form_saved_dirty [of False "Obj []" s] tag
    by (simp add: finishConfigMutation_def settle_edit_def h_def finish_form_def finish_scope_def set_coord_def clearAllDirty_def
        mark_def s_def sample_state_def sample_input_def markContainerDirty_def flag_first_def trackedFormSelectors_def
        coord_init_def markInteraction_def finishMutation_def Let_def)
  ultimately show ?thesis by (simp add: s_def [symmetric] h_def [symmetric] Let_def)
qed

section \<open>What an edit touches\<close>

lemma get_obj_set: "get (obj_set k x v) q = (case v of Obj _ \<Rightarrow> if q = k then x else get v q | _ \<Rightarrow> get v q)"
  by (cases v) (auto simp: obj_set_def)

lemma get_assign_other: "q \<notin> fst ` set payload \<Longrightarrow> get (assign payload v) q = get v q"
  unfolding assign_def
  by (induction payload arbitrary: v) (auto simp: get_obj_set split: jsval.splits)

lemma assign_Obj: "\<exists>kvs'. assign payload (Obj kvs) = Obj kvs'"
  unfolding assign_def by (induction payload arbitrary: kvs) (auto simp: obj_set_def)

lemma get_assign: "distinct (map fst payload) \<Longrightarrow> (k, x) \<in> set payload \<Longrightarrow> get (assign payload (Obj kvs)) k = x"
proof (induction payload arbitrary: kvs)
  case (Cons kv payload)
  have step: "assign (kv # payload) (Obj kvs) = assign payload (Obj (set_prop (fst kv) (snd kv) kvs))"
    by (simp add: assign_def obj_set_def split_beta)
  show ?case
  proof (cases "(k, x) \<in> set payload")
    case True
    then show ?thesis using Cons by (simp add: step)
  next
    case False
    then have kv: "kv = (k, x)" using Cons.prems(2) by simp
    then have new: "k \<notin> fst ` set payload" using Cons.prems(1) by simp
    show ?thesis unfolding step get_assign_other [OF new] by (simp add: kv)
  qed
qed simp

lemma get_upd_prop: "get (upd_prop k f v) q = (if q = k \<and> truthy (get v k) \<and> (\<exists>kvs. v = Obj kvs) then f (get v k) else get v q)"
  by (cases v) (auto simp: upd_prop_def get_obj_set)

text \<open>
  C6. The edit a provider form shows until its reply is exact: every field of the request reads back from the
  provider, every other field of it is as it was, and so are every other provider and every other part of the
  configuration. A provider that is not configured changes nothing.
\<close>

theorem provider_edit_exact:
  assumes "distinct (map fst payload)"
  shows "(\<forall>k x kvs. get (get c ''providers'') provider = Obj kvs \<longrightarrow> (k, x) \<in> set payload \<longrightarrow>
           get (get (get (oe_apply (provider_edit provider payload) c) ''providers'') provider) k = x)
    \<and> (\<forall>k. k \<notin> fst ` set payload \<longrightarrow>
         get (get (get (oe_apply (provider_edit provider payload) c) ''providers'') provider) k
         = get (get (get c ''providers'') provider) k)
    \<and> (\<forall>q. q \<noteq> provider \<longrightarrow> get (get (oe_apply (provider_edit provider payload) c) ''providers'') q = get (get c ''providers'') q)
    \<and> (\<forall>q. q \<noteq> ''providers'' \<longrightarrow> get (oe_apply (provider_edit provider payload) c) q = get c q)
    \<and> (\<not> truthy (get (get c ''providers'') provider) \<longrightarrow> oe_apply (provider_edit provider payload) c = c)"
proof -
  have obj: "\<exists>kvs. v = Obj kvs" if "get v q = Obj l" for v q l
    using that by (cases v) (auto split: if_splits)
  have "truthy (lookup k kvs) \<Longrightarrow> set_prop k (lookup k kvs) kvs = kvs" for k kvs by (induction kvs) auto
  then have same: "v = obj_set k (get v k) v" if "truthy (get v k)" "\<exists>kvs. v = Obj kvs" for v k
    using that by (auto simp: obj_set_def)
  have none: "upd_prop ''providers'' (upd_prop provider f) c = c" if "\<not> truthy (get (get c ''providers'') provider)" for f
    using that same [of c "''providers''"] by (cases c) (auto simp: upd_prop_def obj_set_def)
  show ?thesis
    unfolding provider_edit_def upd_provider_def
  proof (simp only: optimistic_edit.simps, intro conjI allI impI, goal_cases)
    case (1 k x kvs)
    then have "\<exists>l. get c ''providers'' = Obj l" "\<exists>l. c = Obj l" using obj by blast+
    then show ?case using 1 get_assign [OF assms(1) 1(2)] by (auto simp: get_upd_prop)
  next
    case (2 k)
    then show ?case by (simp add: get_upd_prop get_assign_other)
  next
    case (3 q)
    then show ?case by (simp add: get_upd_prop)
  next
    case (4 q)
    then show ?case by (simp add: get_upd_prop)
  next
    case 5
    then show ?case by (rule none)
  qed
qed

theorem provider_edit_exact_witness:
  "get (get (get (oe_apply (provider_edit ''a'' [(''priority'', jnum 3)])
     (Obj [(''providers'', Obj [(''a'', Obj [(''priority'', jnum 1)]), (''b'', Obj [])])])) ''providers'') ''a'') ''priority'' = jnum 3"
proof -
  have "distinct (map fst [(''priority'', jnum 3)])" by simp
  then show ?thesis
    using provider_edit_exact [of "[(''priority'', jnum 3)]" "Obj [(''providers'', Obj [(''a'', Obj [(''priority'', jnum 1)]), (''b'', Obj [])])]" "''a''"]
    by simp
qed

text \<open>What the forms send has each field once, so the property applies to them.\<close>

lemma provider_payload_distinct: "distinct (map fst (provider_payload f))"
  by (auto simp: provider_payload_def split: option.splits)

section \<open>The admin key\<close>

text \<open>The page uses the new key as soon as the server has it, and keeps the old one when it refuses.\<close>

lemma key_merge: "rf_adminKey (fst (merge_reply r skip s)) = rf_adminKey s"
  by (simp add: merge_reply_def acceptConfirmedConfig_def applyStatusPayload_def acceptModelCapabilities_def Let_def split_beta)

lemma key_form_saved: "rf_adminKey (form_saved m result s) = rf_adminKey s"
  by (simp add: form_saved_def scheduleBackgroundRefresh_def log_event_def force_def clear_dirty_def applyMutationResult_def
      key_merge Let_def split_beta)

lemma admin_key_follows_server:
  assumes "fh_mutation h = None"
  shows "rf_adminKey (fst (finishAdminKeyChange new h (Inr result) controls s)) = new"
    and "rf_adminKey (fst (finishAdminKeyChange new h (Inl err) controls s)) = rf_adminKey s"
  using assms
  by (simp_all add: finishAdminKeyChange_def finishConfigMutation_def settle_edit_def finish_form_def finish_scope_def set_coord_def
      key_form_saved log_event_def Let_def)

lemma admin_key_submit:
  "adminKeySubmit key confirm = KeyConfirm new \<longleftrightarrow> new = js_trim key \<and> new \<noteq> [] \<and> js_trim confirm = new"
  by (auto simp: adminKeySubmit_def Let_def)

text \<open>A path that is sent starts with a slash and differs from the one shown.\<close>

lemma format_path_sent: "formatPathSubmit current value = PathSave p \<Longrightarrow> starts_with ''/'' p \<and> p \<noteq> current"
  by (auto simp: formatPathSubmit_def Let_def split: if_splits)

end
