(* ===== verification/SettingsOps.thy ===== *)
theory SettingsOps
  imports ConfigForms Html I18n Format JsNumText ConfigRefreshFacts
begin

text \<open>
  The operation cards of the settings and the health monitor of the configuration page (\<open>app.js\<close>):
  the cards as markup, the health monitor form with what it loads and sends, and the texts of its runtime panel.
\<close>

section \<open>Cards\<close>

definition settingsProxyToString :: "jsval \<Rightarrow> jsval" where
  "settingsProxyToString proxy =
     (if \<not> truthy proxy then Str []
      else case proxy of Str s \<Rightarrow> proxy | _ \<Rightarrow> jor (jor (get proxy ''http'') (get proxy ''https'')) (Str []))"

definition settingsOpsCardShell :: "translator \<Rightarrow> string \<Rightarrow> string \<Rightarrow> string \<Rightarrow> string \<Rightarrow> string \<Rightarrow> string" where
  "settingsOpsCardShell tr titleKey icon descKey body modifier = (nl 6 @ ''<section class=\"panel settings-ops-card settings-ops-card--'' @ modifier @
     ''\">'' @ nl 8 @ ''<div class=\"panel-head\">'' @ nl 10 @ ''<div>'' @ nl 12 @ ''<h3>'' @
     iconSvg icon @ ''<span>'' @ (esc (tr titleKey [])) @ ''</span></h3>'' @ nl 12 @ ''<p>'' @
     (esc (tr descKey [])) @ ''</p>'' @ nl 10 @ ''</div>'' @ nl 8 @ ''</div>'' @ nl 8 @
     ''<div class=\"settings-ops-body\">'' @ body @ ''</div>'' @ nl 6 @ ''</section>'')"

definition settingsOpsProxyCard :: "translator \<Rightarrow> jsval \<Rightarrow> string" where
  "settingsOpsProxyCard tr proxy = settingsOpsCardShell tr ''settings.ops.proxy_title'' ''radar'' ''settings.ops.proxy_desc'' ((nl 6 @ ''<form id=\"settingsOpsProxyForm\" class=\"settings-ops-form\">'' @ nl 8 @
     ''<label class=\"field\">'' @ nl 10 @ ''<span>'' @
     (esc (tr ''settings.ops.proxy_field'' [])) @ ''</span>'' @ nl 10 @
     ''<input class=\"control mono\" name=\"proxy\" type=\"text\" value=\"'' @
     (escapeHtml (settingsProxyToString proxy)) @
     ''\" placeholder=\"http://127.0.0.1:10808\" />'' @ nl 10 @ ''<small>'' @
     (esc (tr ''settings.ops.proxy_hint'' [])) @ ''</small>'' @ nl 8 @ ''</label>'' @ nl 8 @
     ''<div class=\"settings-ops-form-actions\">'' @ nl 10 @
     ''<button class=\"button primary\" type=\"submit\">'' @ (esc (tr ''settings.ops.save'' [])) @
     ''</button>'' @ nl 8 @ ''</div>'' @ nl 6 @ ''</form>'')) ''proxy''"

definition ops_number_field :: "translator \<Rightarrow> string \<Rightarrow> string \<Rightarrow> jsval \<Rightarrow> string" where
  "ops_number_field tr name labelKey value = (nl 6 @ ''<label class=\"field\">'' @ nl 8 @ ''<span>'' @ (esc (tr labelKey [])) @
     ''</span>'' @ nl 8 @ ''<input class=\"control mono\" name=\"'' @ name @
     ''\" type=\"number\" min=\"0\" step=\"1\" value=\"'' @
     (esc (to_str (jcoalesce value (jnum 0)))) @ ''\" />'' @ nl 6 @ ''</label>'')"

definition settingsOpsRuntimeCard :: "translator \<Rightarrow> jsval \<Rightarrow> jsval \<Rightarrow> string" where
  "settingsOpsRuntimeCard tr routing0 server =
     (let routing = jor routing0 (Obj []) in
      settingsOpsCardShell tr ''settings.ops.runtime_title'' ''zap'' ''settings.ops.runtime_desc'' ((nl 6 @ ''<div class=\"settings-kv-list\">'' @ nl 8 @
         ''<div class=\"settings-kv\"><span>'' @ (esc (tr ''settings.ops.max_workers'' [])) @
         ''</span><strong class=\"mono\">'' @
         (esc (to_str (jcoalesce (get (jor server (Obj [])) ''max_workers'') (Str ([CHR 0xE2, CHR 0x80, CHR 0x94]))))) @
         ''</strong></div>'' @ nl 8 @ ''<div class=\"settings-kv\"><span>'' @
         (esc (tr ''settings.ops.stream_mode'' [])) @ ''</span><strong class=\"mono\">'' @
         (esc (to_str (jor (get routing ''native_stream_mode'') (Str ([CHR 0xE2, CHR 0x80, CHR 0x94]))))) @
         ''</strong></div>'' @ nl 6 @ ''</div>'' @ nl 6 @
         ''<form id=\"settingsOpsRuntimeForm\" class=\"settings-ops-form\">'' @ nl 8 @
         ''<div class=\"settings-ops-field-grid\">'' @ nl 10 @
         (ops_number_field tr ''max_attempts'' ''settings.ops.max_attempts'' (get routing ''max_attempts'')) @
         nl 10 @
         (ops_number_field tr ''connect_timeout_s'' ''settings.ops.connect_timeout'' (get routing ''connect_timeout_s'')) @
         nl 10 @
         (ops_number_field tr ''read_timeout_s'' ''settings.ops.read_timeout'' (get routing ''read_timeout_s'')) @
         nl 10 @
         (ops_number_field tr ''first_token_timeout_s'' ''settings.ops.first_token_timeout'' (get routing ''first_token_timeout_s'')) @
         nl 10 @
         (ops_number_field tr ''agent_first_event_timeout_s'' ''settings.ops.agent_timeout'' (get routing ''agent_first_event_timeout_s'')) @
         nl 8 @ ''</div>'' @ nl 8 @ ''<div class=\"settings-ops-form-actions\">'' @ nl 10 @
         ''<button class=\"button primary\" type=\"submit\">'' @
         (esc (tr ''settings.ops.save'' [])) @ ''</button>'' @ nl 8 @ ''</div>'' @ nl 6 @
         ''</form>'')) ''runtime'')"

text \<open>\<open>dateText\<close> is \<open>new Date(ms).toLocaleString()\<close>.\<close>

definition settingsOpsOverlayCard :: "translator \<Rightarrow> (jsnum \<Rightarrow> string) \<Rightarrow> jsval \<Rightarrow> string" where
  "settingsOpsOverlayCard tr dateText config =
     (let revision = to_num (jcoalesce (get config ''revision'') (jnum 0));
          epoch = num_or_zero (get config ''revision_epoch_ms'');
          epochText = (if num_truthy epoch then dateText epoch else ([CHR 0xE2, CHR 0x80, CHR 0x94]))
      in settingsOpsCardShell tr ''settings.ops.overlay_title'' ''layers'' ''settings.ops.overlay_desc'' ((nl 6 @ ''<div class=\"settings-kv-list\">'' @ nl 8 @
         ''<div class=\"settings-kv\"><span>'' @ (esc (tr ''settings.ops.overlay_revision'' [])) @
         ''</span><strong class=\"mono\">#'' @ (fmtInt (Num revision)) @ '' '' @ [CHR 0xB7] @
         '' '' @ esc epochText @ ''</strong></div>'' @ nl 8 @
         ''<div class=\"settings-kv\"><span>'' @ (esc (tr ''settings.ops.overlay_state'' [])) @
         ''</span><strong>'' @
         (if truthy (get config ''has_overlay'') then esc (tr ''settings.ops.overlay_active'' []) else esc (tr ''settings.ops.overlay_empty'' [])) @
         ''</strong></div>'' @ nl 6 @ ''</div>'' @ nl 6 @
         ''<div class=\"settings-ops-actions\">'' @ nl 8 @
         ''<button class=\"button secondary\" type=\"button\" data-settings-export>'' @
         (esc (tr ''settings.ops.export'' [])) @ ''</button>'' @ nl 8 @
         ''<button class=\"button secondary settings-danger-btn\" type=\"button\"'' @
         '' data-settings-reset>'' @ (esc (tr ''settings.ops.reset'' [])) @ ''</button>'' @ nl 6 @
         ''</div>'')) ''overlay'')"

definition joined_list :: "jsval \<Rightarrow> string" where
  "joined_list v = (case v of Arr xs \<Rightarrow> js_join '', '' (map (\<lambda>x. if nullish x then [] else to_str x) xs) | _ \<Rightarrow> [])"

definition security_row :: "translator \<Rightarrow> string \<Rightarrow> string \<Rightarrow> string" where
  "security_row tr key value =
     (''<div class=\"settings-kv\"><span>'' @ (esc (tr key [])) @
        ''</span><strong class=\"mono\">'' @
        (esc (if value \<noteq> [] then value else tr ''settings.ops.not_set'' [])) @
        ''</strong></div>'')"

definition settingsOpsSecurityCard :: "translator \<Rightarrow> jsval \<Rightarrow> string" where
  "settingsOpsSecurityCard tr server0 =
     (let server = jor server0 (Obj []) in
      settingsOpsCardShell tr ''settings.ops.security_title'' ''shield'' ''settings.ops.security_desc'' ((nl 6 @ ''<div class=\"settings-kv-list\">'' @ nl 8 @
         ''<div class=\"settings-kv\"><span>'' @
         (esc (tr ''settings.ops.security_admin_key'' [])) @ ''</span><strong class=\"mono\">'' @
         (escapeHtml (jor (get server ''admin_key'') (Str ([CHR 0xE2, CHR 0x80, CHR 0x94])))) @
         ''</strong></div>'' @ nl 8 @
         (security_row tr ''settings.ops.security_trusted'' (joined_list (get server ''trusted_proxy_cidrs''))) @
         nl 8 @
         (security_row tr ''settings.ops.security_headers'' (joined_list (get server ''trusted_proxy_headers''))) @
         nl 8 @ ''<div class=\"settings-kv\"><span>'' @
         (esc (tr ''settings.ops.security_query_key'' [])) @ ''</span><strong>'' @
         (if truthy (get server ''allow_query_admin_key'') then ''On'' else ''Off'') @
         ''</strong></div>'' @ nl 6 @ ''</div>'' @ nl 6 @
         ''<form id=\"settingsOpsAdminKeyForm\" class=\"settings-ops-form\">'' @ nl 8 @
         ''<label class=\"field\">'' @ nl 10 @ ''<span>'' @
         (esc (tr ''settings.ops.security_new_key'' [])) @ ''</span>'' @ nl 10 @
         ''<input class=\"control mono\" name=\"admin_key\" type=\"password\"'' @
         '' autocomplete=\"new-password\" placeholder=\"'' @ [CHR 0xE2, CHR 0x80, CHR 0xA2] @
         [CHR 0xE2, CHR 0x80, CHR 0xA2] @ [CHR 0xE2, CHR 0x80, CHR 0xA2] @
         [CHR 0xE2, CHR 0x80, CHR 0xA2] @ [CHR 0xE2, CHR 0x80, CHR 0xA2] @
         [CHR 0xE2, CHR 0x80, CHR 0xA2] @ [CHR 0xE2, CHR 0x80, CHR 0xA2] @
         [CHR 0xE2, CHR 0x80, CHR 0xA2] @ ''\" />'' @ nl 8 @ ''</label>'' @ nl 8 @
         ''<label class=\"field\">'' @ nl 10 @ ''<span>'' @
         (esc (tr ''settings.ops.security_confirm_key'' [])) @ ''</span>'' @ nl 10 @
         ''<input class=\"control mono\" name=\"admin_key_confirm\" type=\"password\"'' @
         '' autocomplete=\"new-password\" placeholder=\"'' @ [CHR 0xE2, CHR 0x80, CHR 0xA2] @
         [CHR 0xE2, CHR 0x80, CHR 0xA2] @ [CHR 0xE2, CHR 0x80, CHR 0xA2] @
         [CHR 0xE2, CHR 0x80, CHR 0xA2] @ [CHR 0xE2, CHR 0x80, CHR 0xA2] @
         [CHR 0xE2, CHR 0x80, CHR 0xA2] @ [CHR 0xE2, CHR 0x80, CHR 0xA2] @
         [CHR 0xE2, CHR 0x80, CHR 0xA2] @ ''\" />'' @ nl 10 @ ''<small>'' @
         (esc (tr ''settings.ops.security_new_key_hint'' [])) @ ''</small>'' @ nl 8 @
         ''</label>'' @ nl 8 @ ''<div class=\"settings-ops-form-actions\">'' @ nl 10 @
         ''<button class=\"button primary\" type=\"submit\">'' @
         (esc (tr ''settings.ops.security_change'' [])) @ ''</button>'' @ nl 8 @ ''</div>'' @
         nl 6 @ ''</form>'' @ nl 6 @ ''<p class=\"settings-ops-note\">'' @
         (esc (tr ''settings.ops.security_admin_key_hint'' [])) @ ''</p>'')) ''security'')"

text \<open>\<open>None\<close> when the operator is working in the grid.\<close>

definition renderSettingsOps :: "translator \<Rightarrow> (jsnum \<Rightarrow> string) \<Rightarrow> refresh_state \<Rightarrow> string option" where
  "renderSettingsOps tr dateText s =
     (if shouldPreserveContainer (rf_active s) ''#settingsOpsGrid'' (rf_dirty s) then None
      else (let config = jor (d_config s) (Obj []) in Some ((nl 6 @ (settingsOpsProxyCard tr (get config ''proxy'')) @ nl 6 @
         (settingsOpsRuntimeCard tr (get config ''routing'') (get config ''server'')) @ nl 6 @
         settingsOpsOverlayCard tr dateText config @ nl 6 @
         (settingsOpsSecurityCard tr (get config ''server'')) @ nl 4))))"

section \<open>Resetting the overlay\<close>

text \<open>The rest of \<open>resetSettingsOverlay\<close> once the operator has confirmed and the server has answered.\<close>

definition finishOverlayReset :: "string + jsval \<Rightarrow> refresh_state \<Rightarrow> refresh_state" where
  "finishOverlayReset outcome s =
     (case outcome of
        Inl err \<Rightarrow> log_event (Notice err ''bad'') s
      | Inr result \<Rightarrow>
          scheduleBackgroundRefresh full_refresh_args
            (log_event RenderAll (log_event (Notice ''settings.ops.reset_done'' ''ok'')
               (fst (applyMutationResult result True False False s)))))"

section \<open>Health monitor: the form\<close>

definition hm_idle_fields :: "(string \<times> rat) list" where
  "hm_idle_fields =
     [(''idle_check_interval_recent_s'', 30), (''idle_check_interval_medium_s'', 60), (''idle_check_interval_long_s'', 300),
      (''idle_check_interval_deep_min_s'', 10800), (''idle_check_interval_deep_max_s'', 21600)]"

definition hm_patrol_fields :: "(string \<times> rat) list" where
  "hm_patrol_fields =
     [(''patrol_interval_min_s'', 21600), (''patrol_interval_max_s'', 43200), (''patrol_delay_s'', 3),
      (''patrol_delay_jitter_s'', 2), (''patrol_first_byte_timeout_s'', 15)]"

text \<open>What the inputs hold; a number field is read by its name.\<close>

record hm_form =
  hm_idle :: bool
  hm_patrol :: bool
  hm_value :: "string \<Rightarrow> string"

text \<open>Assigned to a number input, a number shows as its text.\<close>

definition hm_shown :: "jsval \<Rightarrow> (string \<times> rat) list \<Rightarrow> string \<Rightarrow> string" where
  "hm_shown hm fds k =
     (case map_of fds k of None \<Rightarrow> [] | Some d \<Rightarrow> to_str (jcoalesce (get hm k) (jnum d)))"

definition loadHealthMonitorForm :: "jsval \<Rightarrow> hm_form" where
  "loadHealthMonitorForm config =
     (let hm = jor (get (jor config (Obj [])) ''health_monitor'') (Obj []) in
      \<lparr>hm_idle = (get hm ''idle_check_enabled'' \<noteq> Bool False), hm_patrol = (get hm ''patrol_check_enabled'' \<noteq> Bool False),
       hm_value = hm_shown hm (hm_idle_fields @ hm_patrol_fields)\<rparr>)"

definition hm_number :: "hm_form \<Rightarrow> string \<times> rat \<Rightarrow> string \<times> jsval" where
  "hm_number f kd = (fst kd, Num (num_or (parseInt10 (hm_value f (fst kd))) (Fin (snd kd))))"

definition collectHealthMonitorPatch :: "hm_form \<Rightarrow> (string \<times> jsval) list" where
  "collectHealthMonitorPatch f =
     (''idle_check_enabled'', Bool (hm_idle f)) # map (hm_number f) hm_idle_fields
     @ (''patrol_check_enabled'', Bool (hm_patrol f)) # map (hm_number f) hm_patrol_fields"

definition health_monitor_edit :: "(string \<times> jsval) list \<Rightarrow> optimistic_edit" where
  "health_monitor_edit patch =
     \<lparr>oe_key = Str ''health-monitor'', oe_apply = make_prop ''health_monitor'' (assign patch), oe_drawer = False\<rparr>"

text \<open>Every render of the page loads the form again once there is a configuration.\<close>

definition hmAfterRender :: "jsval \<Rightarrow> hm_form \<Rightarrow> hm_form" where
  "hmAfterRender config f = (if truthy config then loadHealthMonitorForm config else f)"

section \<open>Health monitor: runtime\<close>

text \<open>\<open>s % n\<close> for positive numbers.\<close>

definition hm_rem :: "jsnum \<Rightarrow> jsnum \<Rightarrow> jsnum" where
  "hm_rem s n = num_sub s (num_mul n (num_floor (num_div s n)))"

definition hm_duration :: "jsval \<Rightarrow> string" where
  "hm_duration v =
     (let s = to_num v; h = num_floor (num_div s (Fin 3600)); m = num_floor (num_div (hm_rem s (Fin 3600)) (Fin 60)) in
      if \<not> truthy v \<or> num_le s (Fin 0) then ([CHR 0xE2, CHR 0x80, CHR 0x94])
      else if num_lt s (Fin 60) then num_to_str (num_round s) @ ''s''
      else if num_lt s (Fin 3600) then num_to_str (num_floor (num_div s (Fin 60))) @ ''m '' @ num_to_str (num_round (hm_rem s (Fin 60))) @ ''s''
      else num_to_str h @ ''h '' @ (if num_lt (Fin 0) m then num_to_str m @ ''m'' else []))"

definition hm_ago :: "jsval \<Rightarrow> string" where
  "hm_ago v =
     (let s = to_num v in
      if \<not> truthy v \<or> num_le s (Fin 0) then ''never''
      else if num_lt s (Fin 60) then num_to_str (num_round s) @ ''s ago''
      else if num_lt s (Fin 3600) then num_to_str (num_floor (num_div s (Fin 60))) @ ''m ago''
      else num_to_str (num_floor (num_div s (Fin 3600))) @ ''h ago'')"

record idle_panel =
  ip_status :: string
  ip_class :: string
  ip_next :: string
  ip_tier :: string

text \<open>\<open>None\<close> leaves the panel as it is.\<close>

definition idlePanel :: "bool \<Rightarrow> jsval \<Rightarrow> idle_panel option" where
  "idlePanel enabled metrics =
     (let idle = get metrics ''idle_state'' in
      if \<not> truthy idle then None
      else Some \<lparr>ip_status = (if enabled then to_str (jor (get idle ''tier'') (Str ''active'')) else ''disabled''),
                 ip_class = ''hm-runtime-status '' @ (if enabled then ''ok'' else ''off''),
                 ip_next = (if num_lt (Fin 0) (to_num (get idle ''next_probe_in_s'')) then hm_duration (get idle ''next_probe_in_s'') else ([CHR 0xE2, CHR 0x80, CHR 0x94])),
                 ip_tier = to_str (jor (get idle ''tier'') (Str ([CHR 0xE2, CHR 0x80, CHR 0x94])))\<rparr>)"

text \<open>Status text and class of the patrol.\<close>

definition patrol_status :: "translator \<Rightarrow> jsval \<Rightarrow> string \<times> string" where
  "patrol_status tr p =
     (let r = get p ''last_result'' in
      if truthy (get p ''running'') then (''running...'', ''hm-runtime-status running'')
      else if \<not> truthy (get p ''enabled'') then (''disabled'', ''hm-runtime-status off'')
      else if r = Str ''ok'' then (''healthy'', ''hm-runtime-status ok'')
      else if r = Str ''partial'' then (''partial'', ''hm-runtime-status warn'')
      else if r = Str ''failed'' then (''failed'', ''hm-runtime-status bad'')
      else if r = Str ''postponed'' then (tr ''cfg.hm_status_postponed'' [], ''hm-runtime-status warn'')
      else if r = Str ''interrupted'' then (tr ''cfg.hm_status_interrupted'' [], ''hm-runtime-status warn'')
      else (''idle'', ''hm-runtime-status''))"

definition patrol_last :: "jsval \<Rightarrow> string" where
  "patrol_last p =
     (if num_lt (Fin 0) (to_num (get p ''last_run_at''))
      then hm_ago (get p ''last_run_ago_s'')
           @ (if num_lt (Fin 0) (to_num (get p ''last_run_duration_s'')) then '' ('' @ hm_duration (get p ''last_run_duration_s'') @ '')'' else [])
      else ''never'')"

definition patrol_cursor :: "jsval \<Rightarrow> string" where
  "patrol_cursor p =
     (let c = get p ''cursor'' in
      if truthy c \<and> truthy (get c ''provider'') then to_str (get c ''provider'') @ ''#'' @ to_str (get c ''key_index'') else [])"

definition patrol_result :: "translator \<Rightarrow> jsval \<Rightarrow> string" where
  "patrol_result tr p =
     (let cursor = patrol_cursor p; resume = tr ''cfg.hm_resume_from'' [(''target'', Str cursor)]; summary = get p ''last_summary'' in
      if truthy summary then (if cursor \<noteq> [] then to_str summary @ ('' '' @ [CHR 0xB7] @ '' '') @ resume else to_str summary)
      else if get p ''last_result'' = Str ''skipped'' then ''skipped''
      else if cursor \<noteq> [] then resume else ([CHR 0xE2, CHR 0x80, CHR 0x94]))"

definition patrol_next :: "jsval \<Rightarrow> string" where
  "patrol_next p =
     (if truthy (get p ''running'') then ''in progress''
      else if \<not> truthy (get p ''enabled'') then ([CHR 0xE2, CHR 0x80, CHR 0x94])
      else if num_lt (Fin 0) (to_num (get p ''next_run_in_s'')) then hm_duration (get p ''next_run_in_s'') else ([CHR 0xE2, CHR 0x80, CHR 0x94]))"

record patrol_panel =
  pp_status :: "string \<times> string"
  pp_last :: string
  pp_result :: string
  pp_next :: string
  pp_runDisabled :: bool
  pp_runText :: string

definition patrolPanel :: "translator \<Rightarrow> jsval \<Rightarrow> patrol_panel option" where
  "patrolPanel tr metrics =
     (let p = get metrics ''patrol_state'' in
      if \<not> truthy p then None
      else Some \<lparr>pp_status = patrol_status tr p, pp_last = patrol_last p, pp_result = patrol_result tr p, pp_next = patrol_next p,
                 pp_runDisabled = (truthy (get p ''running'') \<or> \<not> truthy (get p ''enabled'')),
                 pp_runText = (if truthy (get p ''running'') then tr ''cfg.running'' [] else tr ''cfg.run_now'' [])\<rparr>)"

definition updateHealthMonitorRuntime :: "translator \<Rightarrow> bool \<Rightarrow> jsval \<Rightarrow> idle_panel option \<times> patrol_panel option" where
  "updateHealthMonitorRuntime tr idleChecked metrics0 =
     (let metrics = jor metrics0 (Obj []) in (idlePanel idleChecked metrics, patrolPanel tr metrics))"

section \<open>Correctness\<close>

text \<open>What the health monitor form keeps of the configuration it shows, and the reset of the overlay.\<close>

section \<open>Reading back printed integers\<close>

lemma parseInt10_digits:
  assumes "digit_string d"
  shows "parseInt10 d = Fin (of_int (digits_val 10 d))" and "parseInt10 (CHR ''-'' # d) = num_neg (Fin (of_int (digits_val 10 d)))"
proof -
  have keep: "takeWhile is_digit d = d" "d \<noteq> []" using assms by (auto simp: digit_string_def)
  have dash: "\<not> is_js_space (CHR ''-'')" by (simp add: is_js_space_def)
  have space: "dropWhile is_js_space d = d"
    using assms digit_not_space [of "hd d"] by (cases d) (auto simp: digit_string_def)
  have "\<not> starts_with ''-'' d" "\<not> starts_with ''+'' d"
    using assms by (cases d; auto simp: digit_string_def is_digit_def)+
  then show "parseInt10 d = Fin (of_int (digits_val 10 d))"
    by (simp add: parseInt10_def cut_sign_def space keep)
  show "parseInt10 (CHR ''-'' # d) = num_neg (Fin (of_int (digits_val 10 d)))"
    by (simp add: parseInt10_def cut_sign_def dash keep)
qed

lemma parseInt10_int: "parseInt10 (num_to_str (Fin (of_int n))) = Fin (of_int n)"
  using parseInt10_digits [OF nat_to_str_digits [of "\<bar>n\<bar>"]]
  by (cases "n < 0") (simp_all only: num_to_str_int, simp_all add: digits_val_nat_to_str)

section \<open>The health monitor form\<close>

definition hm_fields :: "(string \<times> rat) list" where
  "hm_fields = hm_idle_fields @ hm_patrol_fields"

lemma hm_fields_distinct: "distinct (map fst hm_fields)"
  by (simp add: hm_fields_def hm_idle_fields_def hm_patrol_fields_def)

lemma hm_fields_no_flag: "map_of hm_fields ''idle_check_enabled'' = None" "map_of hm_fields ''patrol_check_enabled'' = None"
  by (simp_all add: hm_fields_def hm_idle_fields_def hm_patrol_fields_def)

lemma map_of_hm_number:
  "map_of (map (hm_number f) fs) k =
     (case map_of fs k of None \<Rightarrow> None | Some d \<Rightarrow> Some (Num (num_or (parseInt10 (hm_value f k)) (Fin d))))"
  by (induction fs) (auto simp: hm_number_def)

lemma patch_field:
  assumes "map_of hm_fields k = Some d"
  shows "map_of (collectHealthMonitorPatch f) k = Some (Num (num_or (parseInt10 (hm_value f k)) (Fin d)))"
proof -
  have "k \<noteq> ''idle_check_enabled''" "k \<noteq> ''patrol_check_enabled''" using assms hm_fields_no_flag by auto
  then show ?thesis
    using assms by (auto simp: collectHealthMonitorPatch_def map_add_def map_of_hm_number hm_fields_def split: option.splits)
qed

text \<open>
  The health monitor form cannot keep a zero: loading the configuration into the form and saving it as it is
  sends every integer setting unchanged, except that a setting of 0, such as no jitter between two probes, which the
  inputs allow, is sent as the default of its field.
\<close>

lemma health_monitor_zero_replaced:
  assumes "map_of hm_fields k = Some d" and "get config ''health_monitor'' = Obj hm" and "get (Obj hm) k = Num (Fin (of_int n))"
  shows "map_of (collectHealthMonitorPatch (loadHealthMonitorForm config)) k
         = Some (Num (Fin (if n = 0 then d else of_int n)))"
proof -
  have ob: "truthy config" using assms(2) by (cases config) (auto split: if_splits)
  have "hm_value (loadHealthMonitorForm config) k = num_to_str (Fin (of_int n))"
    using assms(1,3)
    by (simp add: loadHealthMonitorForm_def jor_def ob assms(2) hm_shown_def hm_fields_def jcoalesce_def Let_def
        del: num_to_str.simps get.simps)
  then show ?thesis
    by (simp add: patch_field [OF assms(1)] parseInt10_int num_or_def del: num_to_str.simps)
qed

text \<open>
  The form is loaded again by every render of the page, without asking whether the operator is editing it: what
  was typed in it is gone after the next poll that changes anything.
\<close>

lemma render_discards_typed_settings:
  "truthy config \<Longrightarrow> hmAfterRender config (f\<lparr>hm_value := typed\<rparr>) = loadHealthMonitorForm config"
  by (simp add: hmAfterRender_def)

section \<open>Texts\<close>

text \<open>A proxy configured per scheme is shown, and saved, as the one for http.\<close>

lemma scheme_proxy_collapses:
  assumes "get proxy ''http'' = Str a" and "a \<noteq> []" and "proxy = Obj kvs"
  shows "settingsProxyToString proxy = Str a"
  using assms by (simp add: settingsProxyToString_def jor_def)

lemma reset_failure_keeps_config: "config_data (finishOverlayReset (Inl err) s) = config_data s"
  by (simp add: finishOverlayReset_def log_event_def config_data_def)

end
