(* ===== verification/UsageFacts.thy ===== *)
theory UsageFacts
  imports UsageStatistics JsNumText
begin

text \<open>
  Facts about \<open>UsageStatistics\<close>: replies in any order, what a superseded load leaves behind, the model usage
  filter that is lost while a table loads, and the calendar of the custom range.
\<close>

section \<open>Loads and replies in any order\<close>

text \<open>What the loads depend on: the sequence number and the loading flag.\<close>

definition load_state :: "stats_ui \<Rightarrow> nat \<times> bool" where
  "load_state s = (us_seq s, us_loading s)"

definition load_ok :: "stats_ui \<Rightarrow> stats_ui \<times> stats_load \<Rightarrow> bool" where
  "load_ok s r \<longleftrightarrow> (case snd r of
      UsageLoad f \<Rightarrow> uf_seq f = Suc (us_seq s) \<and> load_state (fst r) = (Suc (us_seq s), True)
    | _ \<Rightarrow> load_state (fst r) = load_state s)"

lemma load_ok_start:
  "load_state s1 = load_state s \<Longrightarrow> load_ok s (load_usage (startUsageStatistics tz fc parts dims s1))"
  by (auto simp: load_ok_def load_usage_def startUsageStatistics_def setUsageStatisticsBusy_def load_state_def Let_def)

lemma load_ok_model: "load_state s1 = load_state s \<Longrightarrow> load_ok s (load_model (startModelUsage fc s1))"
  by (auto simp: load_ok_def load_model_def startModelUsage_def load_state_def)

lemma load_ok_none: "load_state s1 = load_state s \<Longrightarrow> load_ok s (s1, NoLoad)"
  by (simp add: load_ok_def)

lemmas load_ok_intros = load_ok_start load_ok_model load_ok_none

lemma load_ok_view: "load_state s1 = load_state s \<Longrightarrow> load_ok s (load_view tz s1)"
  by (simp add: load_view_def load_ok_intros)

lemma load_ok_control: "load_ok s (statsControl tz e s)"
  by (cases e)
    (auto simp: switchStatisticsView_def switchConfigTab_def forced_def forced_model_def load_state_def Let_def
      intro!: load_ok_intros load_ok_view)

lemma load_ok_clear: "load_ok s (clearUsageStatistics tz reply s)"
  by (auto simp: clearUsageStatistics_def load_state_def intro!: load_ok_intros split: sum.split)

lemma settle_fold_state:
  "load_state (fst (fold settle_part zs acc)) = load_state (fst acc)"
proof (induction zs arbitrary: acc)
  case (Cons z zs)
  obtain s c fs where "acc = (s, c, fs)" by (cases acc)
  then have "load_state (fst (settle_part z acc)) = load_state (fst acc)"
    by (cases z; cases "snd z") (auto simp: load_state_def)
  then show ?case using Cons by simp
qed simp

lemma finish_state:
  "load_state (finishUsageStatistics f rs s) = (us_seq s, us_loading s \<and> uf_seq f \<noteq> us_seq s)"
  using settle_fold_state [of "zip (map fst (uf_requests f)) rs" "(s, obj_fields (us_data s), [])"]
  by (auto simp: finishUsageStatistics_def setUsageStatisticsBusy_def load_state_def Let_def split: prod.split)

lemma finish_seq: "us_seq (finishUsageStatistics f rs s) = us_seq s"
  using finish_state [of f rs s] by (simp add: load_state_def)

lemma finish_loading: "us_loading (finishUsageStatistics f rs s) = (us_loading s \<and> uf_seq f \<noteq> us_seq s)"
  using finish_state [of f rs s] by (simp add: load_state_def)

lemma finish_superseded: "uf_seq f \<noteq> us_seq s \<Longrightarrow> finishUsageStatistics f rs s = s"
  by (simp add: finishUsageStatistics_def)

subsection \<open>The page and its open requests\<close>

record stats_world =
  sw_ui :: stats_ui
  sw_flights :: "usage_flight set"

fun load_flights :: "stats_load \<Rightarrow> usage_flight set" where
  "load_flights (UsageLoad f) = {f}"
| "load_flights _ = {}"

inductive stats_step :: "(int \<Rightarrow> int) \<Rightarrow> stats_world \<Rightarrow> stats_world \<Rightarrow> bool" for tz where
  click: "statsControl tz e (sw_ui w) = (s, l) \<Longrightarrow>
     stats_step tz w (w\<lparr>sw_ui := s, sw_flights := load_flights l \<union> sw_flights w\<rparr>)"
| cleared: "clearUsageStatistics tz reply (sw_ui w) = (s, l) \<Longrightarrow>
     stats_step tz w (w\<lparr>sw_ui := s, sw_flights := load_flights l \<union> sw_flights w\<rparr>)"
| settled: "f \<in> sw_flights w \<Longrightarrow>
     stats_step tz w (w\<lparr>sw_ui := finishUsageStatistics f rs (sw_ui w), sw_flights := sw_flights w - {f}\<rparr>)"
| dimensions: "stats_step tz w (w\<lparr>sw_ui := ensureUsageStatisticsDimensions reply (sw_ui w)\<rparr>)"
| model_settled: "stats_step tz w (w\<lparr>sw_ui := finishModelUsage reply (sw_ui w)\<rparr>)"

inductive stats_reachable :: "(int \<Rightarrow> int) \<Rightarrow> stats_world \<Rightarrow> bool" for tz where
  start: "us_seq s = 0 \<Longrightarrow> \<not> us_loading s \<Longrightarrow> stats_reachable tz \<lparr>sw_ui = s, sw_flights = {}\<rparr>"
| step: "stats_reachable tz w \<Longrightarrow> stats_step tz w w' \<Longrightarrow> stats_reachable tz w'"

definition flights_ok :: "nat \<Rightarrow> bool \<Rightarrow> usage_flight set \<Rightarrow> bool" where
  "flights_ok n loading fs \<longleftrightarrow>
     inj_on uf_seq fs \<and> (\<forall>f \<in> fs. uf_seq f \<le> n) \<and> (loading \<longleftrightarrow> (\<exists>f \<in> fs. uf_seq f = n))"

definition stats_inv :: "stats_world \<Rightarrow> bool" where
  "stats_inv w \<longleftrightarrow> flights_ok (us_seq (sw_ui w)) (us_loading (sw_ui w)) (sw_flights w)"

lemma flights_ok_new:
  assumes "flights_ok n b fs" and "uf_seq f = Suc n"
  shows "flights_ok (Suc n) True (insert f fs)"
  using assms by (fastforce simp: flights_ok_def inj_on_def)

lemma flights_ok_remove:
  assumes "flights_ok n b fs" and "f \<in> fs"
  shows "flights_ok n (b \<and> uf_seq f \<noteq> n) (fs - {f})"
  using assms unfolding flights_ok_def inj_on_def by (metis Diff_iff singleton_iff)

lemma load_ok_inv:
  assumes "load_ok s (s', l)" and "flights_ok (us_seq s) (us_loading s) fs"
  shows "flights_ok (us_seq s') (us_loading s') (load_flights l \<union> fs)"
  using assms by (cases l) (auto simp: load_ok_def load_state_def intro: flights_ok_new)

lemma stats_step_inv: "stats_step tz w w' \<Longrightarrow> stats_inv w \<Longrightarrow> stats_inv w'"
proof (induction rule: stats_step.induct)
  case (click e w s l)
  then show ?case using load_ok_control [of "sw_ui w" tz e] by (simp add: stats_inv_def load_ok_inv)
next
  case (cleared reply w s l)
  then show ?case using load_ok_clear [of "sw_ui w" tz reply] by (simp add: stats_inv_def load_ok_inv)
next
  case (settled f w rs)
  then show ?case by (simp add: stats_inv_def finish_seq finish_loading flights_ok_remove)
next
  case (dimensions w reply)
  then show ?case by (simp add: stats_inv_def ensureUsageStatisticsDimensions_def split: sum.split)
next
  case (model_settled w reply)
  then show ?case by (simp add: stats_inv_def finishModelUsage_def split: sum.split)
qed

lemma stats_reachable_inv: "stats_reachable tz w \<Longrightarrow> stats_inv w"
  by (induction rule: stats_reachable.induct) (auto simp: stats_inv_def flights_ok_def dest: stats_step_inv [unfolded stats_inv_def flights_ok_def])

definition settle_all :: "(usage_flight \<Rightarrow> (string + jsval) list) \<Rightarrow> usage_flight list \<Rightarrow> stats_ui \<Rightarrow> stats_ui" where
  "settle_all rs fs s = fold (\<lambda>f. finishUsageStatistics f (rs f)) fs s"

lemma settle_all_superseded:
  "\<forall>f \<in> set fs. uf_seq f \<noteq> us_seq s \<Longrightarrow> settle_all rs fs s = s"
  unfolding settle_all_def by (induction fs) (simp_all add: finish_superseded)

lemma settle_all_latest:
  assumes "distinct fs" and "inj_on uf_seq (set fs)" and "f \<in> set fs" and "uf_seq f = us_seq s"
  shows "settle_all rs fs s = finishUsageStatistics f (rs f) s"
proof -
  obtain a b where ab: "fs = a @ f # b" using assms(3) by (auto simp: in_set_conv_decomp)
  then have "uf_seq g \<noteq> us_seq s" if "g \<in> set a \<union> set b" for g
    using assms that by (auto simp: inj_on_def)
  then have "settle_all rs a s = s"
    "settle_all rs b (finishUsageStatistics f (rs f) s) = finishUsageStatistics f (rs f) s"
    by (auto intro!: settle_all_superseded simp: finish_seq)
  then show ?thesis by (simp add: ab settle_all_def)
qed

text \<open>
  C22. The order of replies does not matter: whatever clicks, clearings and replies led to the page, when all its
  open requests are answered, in any order and each with any results, the page is what answering the latest
  load alone makes of it; all older replies are dropped, and nothing is loading any more.
\<close>

theorem usage_replies_in_any_order:
  assumes "stats_reachable tz w" and "distinct fs" and "set fs = sw_flights w"
  shows "settle_all rs fs (sw_ui w) =
      (case find (\<lambda>f. uf_seq f = us_seq (sw_ui w)) fs of
         Some f \<Rightarrow> finishUsageStatistics f (rs f) (sw_ui w) | None \<Rightarrow> sw_ui w)
    \<and> \<not> us_loading (settle_all rs fs (sw_ui w))"
proof -
  have inv: "flights_ok (us_seq (sw_ui w)) (us_loading (sw_ui w)) (set fs)"
    using stats_reachable_inv [OF assms(1)] assms(3) by (simp add: stats_inv_def)
  show ?thesis
  proof (cases "find (\<lambda>f. uf_seq f = us_seq (sw_ui w)) fs")
    case None
    then have "\<forall>f \<in> set fs. uf_seq f \<noteq> us_seq (sw_ui w)" by (simp add: find_None_iff)
    then show ?thesis using None inv by (simp add: settle_all_superseded flights_ok_def)
  next
    case (Some f)
    then have "f \<in> set fs" "uf_seq f = us_seq (sw_ui w)" by (auto simp: find_Some_iff)
    then show ?thesis using Some inv settle_all_latest [OF assms(2), of f "sw_ui w" rs]
      by (simp add: flights_ok_def finish_loading)
  qed
qed

definition sample_stats :: stats_ui where
  "sample_stats = \<lparr>us_configTab = ''models'', us_view = ''usage'', us_range = ''7d'', us_customStart = [], us_customEnd = [],
     us_customOpen = False, us_filters = [(''model'', []), (''provider'', ''openai'')], us_metric = ''tokens'',
     us_breakdown = ''model'', us_sort = ''tokens'', us_page = Fin 0, us_seq = 0, us_loading = False, us_busy = (\<lambda>_. False),
     us_refreshing = False, us_notice = [], us_data = Null, us_dimensions = Obj [], us_requestedMetric = [],
     us_responseMetric = [], mu_range = ''7d'', mu_provider = [], mu_format = [], mu_customStart = [], mu_customEnd = [],
     mu_customOpen = False, mu_query = [], mu_sort = ''calls'', mu_page = Fin 0, mu_loading = False, mu_busy = False,
     mu_data = Null, mu_error = []\<rparr>"

definition click_all :: "stats_event list \<Rightarrow> stats_ui \<times> usage_flight list" where
  "click_all es =
     fold (\<lambda>e (s, fs). case statsControl (\<lambda>_. 0) e s of
         (s', l) \<Rightarrow> (s', (case l of UsageLoad f \<Rightarrow> f # fs | _ \<Rightarrow> fs))) es (sample_stats, [])"

lemma click_all_reachable:
  "stats_reachable (\<lambda>_. 0) \<lparr>sw_ui = fst (click_all es), sw_flights = set (snd (click_all es))\<rparr>"
proof (induction es rule: rev_induct)
  case Nil
  show ?case by (simp add: click_all_def sample_stats_def stats_reachable.start)
next
  case (snoc e es)
  obtain s fs where sf: "click_all es = (s, fs)" by (cases "click_all es")
  obtain s' l where sl: "statsControl (\<lambda>_. 0) e s = (s', l)" by (cases "statsControl (\<lambda>_. 0) e s")
  have "click_all (es @ [e]) = (s', (case l of UsageLoad f \<Rightarrow> f # fs | _ \<Rightarrow> fs))"
    using sf sl by (simp add: click_all_def)
  moreover have "stats_step (\<lambda>_. 0) \<lparr>sw_ui = s, sw_flights = set fs\<rparr>
      \<lparr>sw_ui = s', sw_flights = load_flights l \<union> set fs\<rparr>"
    using stats_step.click [of "\<lambda>_. 0" e "\<lparr>sw_ui = s, sw_flights = set fs\<rparr>"] sl by simp
  ultimately show ?case using snoc sf by (cases l) (auto intro: stats_reachable.step)
qed

theorem usage_replies_in_any_order_witness:
  "(case click_all [PickRange ''30d'', PickPage (jnum 1)] of (s, fs) \<Rightarrow>
      map uf_seq fs = [2, 1] \<and> us_loading s \<and> \<not> us_loading (settle_all (\<lambda>_. [Inl ''HTTP 500'']) fs s))"
proof -
  define r where "r = click_all [PickRange ''30d'', PickPage (jnum 1)]"
  have seqs: "map uf_seq (snd r) = [2, 1]" and "us_loading (fst r)" unfolding r_def by code_simp+
  have "distinct (map uf_seq (snd r))" unfolding seqs by simp
  then have "distinct (snd r)" by (simp only: distinct_map)
  from usage_replies_in_any_order [OF click_all_reachable [of "[PickRange ''30d'', PickPage (jnum 1)]", folded r_def], of "snd r" "\<lambda>_. [Inl ''HTTP 500'']"]
  have "\<not> us_loading (settle_all (\<lambda>_. [Inl ''HTTP 500'']) (snd r) (fst r))"
    using \<open>distinct (snd r)\<close> unfolding stats_world.simps by blast
  with seqs \<open>us_loading (fst r)\<close> show ?thesis unfolding r_def [symmetric] by (simp add: case_prod_beta)
qed

section \<open>What a superseded load leaves behind\<close>

lemma settle_fold_keeps:
  assumes "k \<notin> set (map fst zs)"
  shows "lookup k (fst (snd (fold settle_part zs acc))) = lookup k (fst (snd acc))
    \<and> us_busy (fst (fold settle_part zs acc)) = us_busy (fst acc)"
  using assms
proof (induction zs arbitrary: acc)
  case (Cons z zs)
  have set_other: "lookup k (set_prop k' v xs) = lookup k xs" if "k \<noteq> k'" for k' v xs
    using that by (induction k' v xs rule: set_prop.induct) auto
  obtain s c fs where "acc = (s, c, fs)" by (cases acc)
  then have "lookup k (fst (snd (settle_part z acc))) = lookup k (fst (snd acc))
      \<and> us_busy (fst (settle_part z acc)) = us_busy (fst acc)"
    using Cons.prems by (cases z; cases "snd z") (auto simp: set_other)
  then show ?case using Cons by simp
qed simp

lemma finish_keeps:
  assumes "k \<notin> set (map fst (uf_requests f))" and "k \<notin> set (uf_requested f)"
  shows "lookup k (obj_fields (us_data (finishUsageStatistics f rs s))) = lookup k (obj_fields (us_data s))"
    and "us_busy (finishUsageStatistics f rs s) k = us_busy s k"
proof -
  have "set (map fst (zip (map fst (uf_requests f)) rs)) \<subseteq> set (map fst (uf_requests f))"
    by (auto dest: set_zip_leftD)
  then have "k \<notin> set (map fst (zip (map fst (uf_requests f)) rs))" using assms(1) by blast
  from settle_fold_keeps [OF this, of "(s, obj_fields (us_data s), [])"] assms(2)
  show "lookup k (obj_fields (us_data (finishUsageStatistics f rs s))) = lookup k (obj_fields (us_data s))"
    "us_busy (finishUsageStatistics f rs s) k = us_busy s k"
    by (auto simp: finishUsageStatistics_def setUsageStatisticsBusy_def obj_fields_def Let_def split: prod.split)
qed

definition on_usage_page :: "stats_ui \<Rightarrow> bool" where
  "on_usage_page s \<longleftrightarrow> us_configTab s = ''models'' \<and> us_view s = ''usage''"

lemma forced_start:
  assumes "on_usage_page s"
  obtains s1 f where "startUsageStatistics tz True parts dims s = (s1, Some f)" "on_usage_page s1"
    "uf_seq f = Suc (us_seq s)" "us_seq s1 = Suc (us_seq s)" "us_data s1 = us_data s"
    "uf_requested f = first_by (\<lambda>p. p) [] parts"
    "\<And>p. us_busy s1 p = (us_busy s p \<or> p \<in> set parts \<and> p \<in> set all_parts)"
    "set (map fst (uf_requests f)) \<subseteq> insert ''dimensions'' (set parts)"
proof -
  let ?r = "startUsageStatistics tz True parts dims s"
  have m: "set (map fst (part_request base m s p)) \<subseteq> {p}" for base m p by (auto simp: part_request_def)
  have "set (map fst (concat (map (part_request base m s) xs))) \<subseteq> set xs" for base m xs
    using m by (fastforce simp: image_UN)
  note sub = this [of _ _ "first_by (\<lambda>p. p) [] parts", simplified set_first_by_id]
  show ?thesis
  proof (rule that)
    show "?r = (fst ?r, Some (the (snd ?r)))" using assms by (simp add: startUsageStatistics_def on_usage_page_def Let_def)
    show "set (map fst (uf_requests (the (snd ?r)))) \<subseteq> insert ''dimensions'' (set parts)"
      using assms sub [of "usageStatisticsParams tz s" "or_default (us_metric s) ''tokens''"]
      by (auto simp: startUsageStatistics_def on_usage_page_def Let_def)
  qed (use assms in \<open>auto simp: startUsageStatistics_def on_usage_page_def setUsageStatisticsBusy_def all_parts_def
        set_first_by_id Let_def\<close>)
qed

text \<open>
  Turning a page of the breakdown while the statistics load loses the rest of the page: the click supersedes
  the load of all parts, so whatever both answer, in either order, the summary keeps the value it had before
  (none, on the first load), its panel is left marked busy, and nothing is loading that would still fill it.
\<close>

lemma superseded_parts_stay_busy:
  assumes "on_usage_page s"
  shows "case forced tz s of (s1, l1) \<Rightarrow> case statsControl tz (PickPage v) s1 of (s2, l2) \<Rightarrow>
    \<exists>f1 f2. l1 = UsageLoad f1 \<and> l2 = UsageLoad f2 \<and>
      (\<forall>s3 \<in> {finishUsageStatistics f2 r2 (finishUsageStatistics f1 r1 s2),
              finishUsageStatistics f1 r1 (finishUsageStatistics f2 r2 s2)}.
         \<not> us_loading s3 \<and> us_busy s3 ''summary''
         \<and> lookup ''summary'' (obj_fields (us_data s3)) = lookup ''summary'' (obj_fields (us_data s)))"
proof -
  obtain s1 f1 where f1: "startUsageStatistics tz True all_parts False s = (s1, Some f1)" "on_usage_page s1"
    "us_seq s1 = Suc (us_seq s)" "uf_seq f1 = Suc (us_seq s)" "us_data s1 = us_data s" "us_busy s1 ''summary''"
    using forced_start [OF assms, of tz all_parts False] by (metis all_parts_def list.set_intros(1))
  define s1' where "s1' = s1\<lparr>us_page := clicked_page v\<rparr>"
  have s1': "on_usage_page s1'" "us_seq s1' = us_seq s1" "us_data s1' = us_data s1" "us_busy s1' = us_busy s1"
    using f1(2) by (simp_all add: s1'_def on_usage_page_def)
  obtain s2 f2 where f2: "startUsageStatistics tz True [''breakdown''] False s1' = (s2, Some f2)"
    "uf_seq f2 = Suc (us_seq s1)" "us_seq s2 = Suc (us_seq s1)" "us_data s2 = us_data s1" "us_busy s2 ''summary''"
    "uf_requested f2 = [''breakdown'']" "set (map fst (uf_requests f2)) \<subseteq> {''dimensions'', ''breakdown''}"
    by (rule forced_start [OF s1'(1), of tz "[''breakdown'']" False]) (use s1' f1(6) in \<open>simp add: all_parts_def\<close>)
  have "\<forall>s3 \<in> {finishUsageStatistics f2 r2 (finishUsageStatistics f1 r1 s2),
              finishUsageStatistics f1 r1 (finishUsageStatistics f2 r2 s2)}. s3 = finishUsageStatistics f2 r2 s2"
    using f1 f2 by (simp add: finish_superseded finish_seq)
  moreover have "\<not> us_loading (finishUsageStatistics f2 r2 s2)" using f2 by (simp add: finish_loading)
  moreover have "us_busy (finishUsageStatistics f2 r2 s2) ''summary''
      \<and> lookup ''summary'' (obj_fields (us_data (finishUsageStatistics f2 r2 s2))) = lookup ''summary'' (obj_fields (us_data s))"
    using f2 f1(5) finish_keeps [of "''summary''" f2 r2 s2] by auto
  ultimately show ?thesis
    using f1(1) f2(1) by (simp add: forced_def load_usage_def s1'_def [symmetric])
qed

section \<open>A filter chosen while the model table loads\<close>

lemma map_of_custom_params:
  "k \<notin> {''start'', ''end''} \<Longrightarrow> map_of (custom_params tz rng a b ps) k = map_of ps k"
  by (simp add: custom_params_def map_of_params_set Let_def)

lemma model_usage_url_provider:
  "map_of (parse_query (drop 22 (modelUsageUrl tz s))) ''provider'' = (if mu_provider s = [] then None else Some (mu_provider s))"
  by (simp add: modelUsageUrl_def parse_params_text map_of_params_set modelUsageParams_def map_of_custom_params Let_def
      del: num_to_str.simps)

text \<open>
  A provider filter chosen while the model table loads is lost: the forced load it asks for returns at once,
  and when the running request is answered, the table holds the answer to a request for the old filter, while
  the page shows the new one and nothing is loading.
\<close>

lemma model_usage_filter_lost:
  assumes "mu_loading s" and "p \<noteq> mu_provider s"
  shows "case statsControl tz (PickModelFilter ''provider'' p) s of (s1, l) \<Rightarrow>
    l = NoLoad \<and> (let s2 = finishModelUsage (Inr v) s1 in
      mu_data s2 = v \<and> mu_provider s2 = p \<and> \<not> mu_loading s2 \<and> modelUsageUrl tz s2 \<noteq> modelUsageUrl tz s)"
proof -
  define s1 where "s1 = s\<lparr>mu_provider := p, mu_page := Fin 0\<rparr>"
  have c: "statsControl tz (PickModelFilter ''provider'' p) s = (s1, NoLoad)"
    using assms by (simp add: s1_def forced_model_def load_model_def startModelUsage_def Let_def)
  have "mu_provider (finishModelUsage (Inr v) s1) = p" by (simp add: finishModelUsage_def s1_def)
  then have "modelUsageUrl tz (finishModelUsage (Inr v) s1) \<noteq> modelUsageUrl tz s"
    using model_usage_url_provider [of tz "finishModelUsage (Inr v) s1"] model_usage_url_provider [of tz s] assms(2)
    by (metis option.distinct(1) option.inject)
  moreover have "mu_data (finishModelUsage (Inr v) s1) = v" "\<not> mu_loading (finishModelUsage (Inr v) s1)"
    by (simp_all add: finishModelUsage_def)
  ultimately show ?thesis unfolding c Let_def prod.case using \<open>mu_provider (finishModelUsage (Inr v) s1) = p\<close> by blast
qed

section \<open>The custom range\<close>

definition month_length :: "bool \<Rightarrow> nat \<Rightarrow> int" where
  "month_length leap m = [31, if leap then 29 else 28, 31, 30, 31, 30, 31, 31, 30, 31, 30, 31] ! m"

text \<open>A day of the calendar.\<close>

definition real_day :: "int \<times> int \<times> int \<Rightarrow> bool" where
  "real_day = (\<lambda>(y, m, d). 100 \<le> y \<and> 1 \<le> m \<and> m \<le> 12 \<and> 1 \<le> d \<and> d \<le> month_length (leap_year y) (nat (m - 1)))"

definition day_le :: "int \<times> int \<times> int \<Rightarrow> int \<times> int \<times> int \<Rightarrow> bool" where
  "day_le = (\<lambda>(y, m, d) (y', m', d'). y < y' \<or> y = y' \<and> (m < m' \<or> m = m' \<and> d \<le> d'))"

lemma int_div_next:
  fixes x n :: int
  assumes "0 < n"
  shows "(x + 1) div n = x div n + (if (x + 1) mod n = 0 then 1 else 0)"
proof -
  define q r where "q = (x + 1) div n" and "r = (x + 1) mod n"
  have x: "x + 1 = n * q + r" "0 \<le> r" "r < n" using assms by (simp_all add: q_def r_def)
  have "x div n = (if r = 0 then q - 1 else q)"
  proof (cases "r = 0")
    case True
    then have "x = n * (q - 1) + (n - 1)" using x by (simp add: algebra_simps)
    then show ?thesis using True assms by (simp add: int_div_pos_eq)
  next
    case False
    then have "x = n * q + (r - 1)" "0 \<le> r - 1" "r - 1 < n" using x by simp_all
    then have "x div n = q" by (rule int_div_pos_eq)
    then show ?thesis using False by simp
  qed
  then show ?thesis unfolding q_def [symmetric] r_def [symmetric] by simp
qed

lemma day_from_year_next: "day_from_year (y + 1) = day_from_year y + (if leap_year y then 366 else 365)"
proof -
  have s: "y - 1969 + 1 = y + - 492 * 4" "y - 1901 + 1 = y + - 19 * 100" "y - 1601 + 1 = y + - 4 * 400"
    "y - 1968 = y + - 492 * 4" "y - 1900 = y + - 19 * 100" "y - 1600 = y + - 4 * 400" by simp_all
  have pos: "(0 :: int) < 4" "(0 :: int) < 100" "(0 :: int) < 400" by simp_all
  have a: "(y - 1968) div 4 = (y - 1969) div 4 + (if y mod 4 = 0 then 1 else 0)"
    using int_div_next [OF pos(1), of "y - 1969"] unfolding s mod_mult_self1 .
  have b: "(y - 1900) div 100 = (y - 1901) div 100 + (if y mod 100 = 0 then 1 else 0)"
    using int_div_next [OF pos(2), of "y - 1901"] unfolding s mod_mult_self1 .
  have c: "(y - 1600) div 400 = (y - 1601) div 400 + (if y mod 400 = 0 then 1 else 0)"
    using int_div_next [OF pos(3), of "y - 1601"] unfolding s mod_mult_self1 .
  have "(4 :: int) dvd 100" "(100 :: int) dvd 400" by simp_all
  then have d: "100 dvd y \<Longrightarrow> 4 dvd y" "400 dvd y \<Longrightarrow> 100 dvd y" by (blast intro: dvd_trans)+
  have e: "y + 1 - 1970 = y - 1969" "y + 1 - 1969 = y - 1968" "y + 1 - 1901 = y - 1900" "y + 1 - 1601 = y - 1600"
    by simp_all
  show ?thesis unfolding day_from_year_def leap_year_def e a b c mod_eq_0_iff_dvd using d by (simp split: if_split)
qed

lemma day_from_year_later:
  assumes "y < y'"
  shows "day_from_year y + (if leap_year y then 366 else 365) \<le> day_from_year y'"
proof -
  have "day_from_year (y + 1) \<le> day_from_year (y + 1 + int n)" for n
  proof (induction n)
    case (Suc n)
    have "day_from_year (y + 1 + int (Suc n)) = day_from_year ((y + 1 + int n) + 1)" by (simp add: algebra_simps)
    with Suc show ?case by (simp only: day_from_year_next) (simp split: if_splits)
  qed simp
  from this [of "nat (y' - y - 1)"] assms show ?thesis by (simp add: day_from_year_next)
qed

lemma nat_month_cases: "m < 12 \<Longrightarrow> m \<in> {0, 1, 2, 3, 4, 5, 6, 7, 8, 9, 10, 11 :: nat}"
  by (auto simp: less_Suc_eq numeral_eq_Suc)

lemma month_start_later:
  assumes "m < 12" and "m' < 12" and "m < m'"
  shows "month_start leap m + month_length leap m \<le> month_start leap m'"
proof -
  have next_month: "month_start leap m + month_length leap m \<le> month_start leap (Suc m)" if "Suc m < 12" for m
    using nat_month_cases [OF that] by (auto simp: month_start_def month_length_def nth_Cons')
  have mono: "month_start leap (Suc m) \<le> month_start leap (Suc m + n)" if "Suc m + n < 12" for n
    using that
  proof (induction n)
    case (Suc n)
    have "0 \<le> month_length leap (Suc m + n)" using nat_month_cases [of "Suc m + n"] Suc.prems
      by (auto simp: month_length_def nth_Cons')
    with Suc next_month [of "Suc m + n"] show ?case by simp
  qed simp
  have "Suc m < 12" using assms by simp
  from next_month [OF this] mono [of "m' - Suc m"] assms show ?thesis by simp
qed

lemma month_end: "m < 12 \<Longrightarrow> month_start leap m + month_length leap m \<le> (if leap then 366 else 365)"
  using nat_month_cases [of m] by (auto simp: month_start_def month_length_def nth_Cons')

lemma make_day_real:
  assumes "1 \<le> m" and "m \<le> 12"
  shows "make_day y (m - 1) d = day_from_year y + month_start (leap_year y) (nat (m - 1)) + d - 1"
  using assms by (simp add: make_day_def Let_def)

text \<open>Days count up with the calendar.\<close>

lemma make_day_strict:
  assumes a: "real_day (y, m, d)" and b: "real_day (y', m', d')" and "day_le (y, m, d) (y', m', d')" "(y, m, d) \<noteq> (y', m', d')"
  shows "make_day y (m - 1) d < make_day y' (m' - 1) d'"
proof -
  have ma: "nat (m - 1) < 12" and mb: "nat (m' - 1) < 12" using a b by (auto simp: real_day_def)
  have len: "d \<le> month_length (leap_year y) (nat (m - 1))" "1 \<le> d'" using a b by (auto simp: real_day_def)
  have s0: "0 \<le> month_start (leap_year y') (nat (m' - 1))"
    using nat_month_cases [OF mb] by (auto simp: month_start_def nth_Cons')
  have eqs: "make_day y (m - 1) d = day_from_year y + month_start (leap_year y) (nat (m - 1)) + d - 1"
    "make_day y' (m' - 1) d' = day_from_year y' + month_start (leap_year y') (nat (m' - 1)) + d' - 1"
    using a b by (auto simp: real_day_def make_day_real)
  consider "y < y'" | "y = y'" "m < m'" | "y = y'" "m = m'" "d < d'"
    using assms(3,4) by (auto simp: day_le_def)
  then show ?thesis
  proof cases
    case 1
    from day_from_year_later [OF this] month_end [OF ma, of "leap_year y"] len s0 show ?thesis
      unfolding eqs by (simp split: if_splits)
  next
    case 2
    then have "nat (m - 1) < nat (m' - 1)" using a by (auto simp: real_day_def)
    from month_start_later [OF ma mb this, of "leap_year y"] 2 len show ?thesis unfolding eqs by simp
  next
    case 3
    then show ?thesis unfolding eqs by simp
  qed
qed

text \<open>
  The form accepts a custom range exactly when its dates are in order: in a time zone of constant offset, for
  two days of the calendar, the first second of the first day lies before the last second of the second day
  if and only if the first day is not after the second, and a range of one day spans its 86400 seconds.
\<close>

lemma custom_range_in_order:
  assumes "date_parts_of a = Some da" and "date_parts_of b = Some db" and "real_day da" and "real_day db"
    and "\<And>x. tz x = 1000 * k"
  shows "(usageStatisticsCustomTimestamp tz a False < usageStatisticsCustomTimestamp tz b True \<longleftrightarrow> day_le da db)
    \<and> usageStatisticsCustomTimestamp tz a True - usageStatisticsCustomTimestamp tz a False = 86399"
proof -
  obtain y m d y' m' d' where d: "da = (y, m, d)" "db = (y', m', d')" by (cases da, cases db) auto
  define x where "x = make_day y (m - 1) d"
  define x' where "x' = make_day y' (m' - 1) d'"
  have year: "\<not> y \<le> 99" "\<not> y' \<le> 99" using assms(3,4) d by (auto simp: real_day_def)
  have eqs: "usageStatisticsCustomTimestamp tz a False = x * 86400 - k"
    "usageStatisticsCustomTimestamp tz a True = x * 86400 + 86399 - k"
    "usageStatisticsCustomTimestamp tz b True = x' * 86400 + 86399 - k"
    using assms(1,2,5) d year by (simp_all add: usageStatisticsCustomTimestamp_def x_def x'_def Let_def)
  have "day_le da db \<longleftrightarrow> x \<le> x'"
  proof (cases "da = db")
    case False
    have "day_le da db \<or> day_le db da" "day_le da db \<Longrightarrow> \<not> day_le db da" using False d by (auto simp: day_le_def)
    moreover have "day_le da db \<Longrightarrow> x < x'" "day_le db da \<Longrightarrow> x' < x"
      using make_day_strict assms(3,4) False d by (auto simp: x_def x'_def)
    ultimately show ?thesis by (meson less_imp_le not_le)
  qed (use d in \<open>simp add: x_def x'_def day_le_def\<close>)
  then show ?thesis unfolding eqs by linarith
qed

end
