(* ===== verification/TrafficFacts.thy ===== *)
theory TrafficFacts
  imports TrafficChart
begin

text \<open>
  Facts about \<open>TrafficChart\<close>: the binary search ends and finds a nearest bucket, and merging a week into eight
  display buckets keeps every total.
\<close>

section \<open>The nearest bucket\<close>

definition search_ok :: "jsnum list \<Rightarrow> nat \<times> nat \<Rightarrow> bool" where
  "search_ok tms = (\<lambda>(low, high). low \<le> high \<and> high \<le> length tms)"

lemma search_step_shrinks:
  assumes "search_ok tms st" and "fst st < snd st"
  shows "search_ok tms (search_step tms ts st)
    \<and> snd (search_step tms ts st) - fst (search_step tms ts st) < snd st - fst st"
proof -
  obtain low high where st: "st = (low, high)" by (cases st)
  have "low \<le> (low + high) div 2" "(low + high) div 2 < high" using assms by (auto simp: st)
  then show ?thesis using assms by (auto simp: st search_ok_def search_step_def Let_def)
qed

lemma search_ends: "\<exists>low. search_loop tms ts (0, length tms) = Some (low, low) \<and> low \<le> length tms"
proof -
  have "\<exists>st. search_loop tms ts (0, length tms) = Some st" unfolding search_loop_def
  proof (rule measure_while_option_Some [where P = "search_ok tms" and f = "\<lambda>st. snd st - fst st"])
    show "search_ok tms (0, length tms)" by (simp add: search_ok_def)
  qed (use search_step_shrinks in \<open>auto simp: case_prod_beta\<close>)
  then obtain st where st: "while_option (\<lambda>(low, high). low < high) (search_step tms ts) (0, length tms) = Some st"
    by (auto simp: search_loop_def)
  have "search_ok tms st"
  proof (rule while_option_rule [OF _ st])
    show "search_ok tms (0, length tms)" by (simp add: search_ok_def)
  qed (use search_step_shrinks in \<open>auto simp: case_prod_beta\<close>)
  moreover have "\<not> fst st < snd st" using while_option_stop [OF st] by (simp add: case_prod_beta)
  ultimately have "st = (fst st, fst st)" "fst st \<le> length tms" by (auto simp: search_ok_def prod_eq_iff)
  then show ?thesis using st unfolding search_loop_def by metis
qed

text \<open>
  C23. The search of the nearest bucket always ends: for any list of times (sorted or not, with NaN or
  infinities) and any timestamp, the loop stops with both bounds at the same position of the list or its end.
\<close>

theorem nearest_search_ends:
  "\<exists>low. search_loop tms ts (0, length tms) = Some (low, low) \<and> low \<le> length tms"
  by (rule search_ends)

definition lower_than :: "rat list \<Rightarrow> rat \<Rightarrow> nat \<times> nat \<Rightarrow> bool" where
  "lower_than qs q = (\<lambda>(low, high). low \<le> high \<and> high \<le> length qs \<and> (\<forall>k < low. qs ! k < q)
     \<and> (\<forall>k < length qs. high \<le> k \<longrightarrow> q \<le> qs ! k))"

lemma search_step_lower:
  assumes "sorted qs" and "lower_than qs q st" and "fst st < snd st"
  shows "lower_than qs q (search_step (map Fin qs) (Fin q) st)"
proof -
  obtain low high where st: "st = (low, high)" by (cases st)
  define m where "m = (low + high) div 2"
  have m: "low \<le> m" "m < high" using assms(3) by (auto simp: st m_def)
  have b: "m < length qs" using m assms(2) by (auto simp: st lower_than_def)
  show ?thesis
  proof (cases "qs ! m < q")
    case True
    have "qs ! k < q" if "k < m + 1" for k
      using sorted_nth_mono [OF assms(1), of k m] that b True by auto
    then show ?thesis using True m b assms(2) by (auto simp: st lower_than_def search_step_def m_def [symmetric])
  next
    case False
    have "q \<le> qs ! k" if "m \<le> k" "k < length qs" for k
      using sorted_nth_mono [OF assms(1), of m k] that False by auto
    then show ?thesis using False m b assms(2) by (auto simp: st lower_than_def search_step_def m_def [symmetric])
  qed
qed

lemma search_finds:
  assumes "sorted qs"
  shows "\<exists>low. search_loop (map Fin qs) (Fin q) (0, length qs) = Some (low, low) \<and> low \<le> length qs
    \<and> (\<forall>k < low. qs ! k < q) \<and> (\<forall>k < length qs. low \<le> k \<longrightarrow> q \<le> qs ! k)"
proof -
  obtain low where low: "search_loop (map Fin qs) (Fin q) (0, length qs) = Some (low, low)" "low \<le> length qs"
    using search_ends [of "map Fin qs" "Fin q"] by auto
  have "lower_than qs q (low, low)"
  proof (rule while_option_rule [OF _ low(1) [unfolded search_loop_def]])
    show "lower_than qs q (0, length qs)" by (simp add: lower_than_def)
  qed (use search_step_lower [OF assms] in \<open>auto simp: case_prod_beta\<close>)
  then show ?thesis using low by (auto simp: lower_than_def)
qed

text \<open>
  Tokens go to the nearest bucket: among buckets in time order, the bucket that the binary search picks for a
  request is at least as close to its end time as every other bucket.
\<close>

lemma nearest_is_nearest:
  assumes "sorted qs" and "qs \<noteq> []"
  shows "\<exists>i < length qs. nearest_index (map Fin qs) (Fin q) = Some i \<and> (\<forall>j < length qs. \<bar>q - qs ! i\<bar> \<le> \<bar>q - qs ! j\<bar>)"
proof -
  obtain low where low: "search_loop (map Fin qs) (Fin q) (0, length qs) = Some (low, low)" "low \<le> length qs"
    and less: "\<forall>k < low. qs ! k < q" and more: "\<forall>k < length qs. low \<le> k \<longrightarrow> q \<le> qs ! k"
    using search_finds [OF assms(1), of q] by blast
  have below: "qs ! k < q" if "k < low" for k using less that by blast
  have above: "q \<le> qs ! k" if "low \<le> k" "k < length qs" for k using more that by blast
  have mono: "qs ! i \<le> qs ! j" if "i \<le> j" "j < length qs" for i j using sorted_nth_mono [OF assms(1)] that by blast
  have n: "0 < length qs" using assms(2) by simp
  have idx: "nearest_index (map Fin qs) (Fin q) = Some
      (if low = 0 then 0 else if length qs \<le> low then length qs - 1
       else if q - qs ! (low - 1) \<le> qs ! low - q then low - 1 else low)"
    using low n by (auto simp: nearest_index_def num_sub_def num_le_def num_eq_def)
  consider "low = 0" | "0 < low" "length qs \<le> low" | "0 < low" "low < length qs" by linarith
  then show ?thesis
  proof cases
    case 1
    have "\<bar>q - qs ! 0\<bar> \<le> \<bar>q - qs ! j\<bar>" if "j < length qs" for j
      using above [of 0] mono [of 0 j] above [of j] that 1 n by auto
    then show ?thesis using 1 idx n by auto
  next
    case 2
    have "\<bar>q - qs ! (length qs - 1)\<bar> \<le> \<bar>q - qs ! j\<bar>" if "j < length qs" for j
      using below [of j] below [of "length qs - 1"] mono [of j "length qs - 1"] that 2 n low(2) by auto
    then show ?thesis using 2 idx n by auto
  next
    case 3
    define i where "i = (if q - qs ! (low - 1) \<le> qs ! low - q then low - 1 else low)"
    have "\<bar>q - qs ! i\<bar> \<le> \<bar>q - qs ! j\<bar>" if "j < length qs" for j
    proof (cases "j < low")
      case True
      then have "j \<le> low - 1" "low - 1 < length qs" "low - 1 < low" using 3 by auto
      then have "qs ! j \<le> qs ! (low - 1)" "qs ! j < q" "qs ! (low - 1) < q" "q \<le> qs ! low"
        using mono below above 3 True by auto
      then show ?thesis by (auto simp: i_def)
    next
      case False
      then show ?thesis using above [of j] below [of "low - 1"] above [of low] mono [of low j] 3 that
        by (auto simp: i_def)
    qed
    then show ?thesis using 3 idx by (auto simp: i_def)
  qed
qed

section \<open>Display buckets\<close>

lemma num_add_assoc: "num_add (num_add a b) c = num_add a (num_add b c)"
  by (cases a; cases b; cases c) simp_all

lemma num_add_commute: "num_add a b = num_add b a"
  by (cases a; cases b) simp_all

lemma num_add_left_commute: "num_add a (num_add b c) = num_add b (num_add a c)"
  by (metis num_add_assoc num_add_commute)

lemma num_add_zero: "num_add (Fin 0) n = n" "num_add n (Fin 0) = n"
  by (cases n; simp)+

lemma num_sum_Nil: "num_sum [] = Fin 0"
  by (simp add: num_sum_def)

lemma foldl_num_add: "foldl num_add a xs = num_add a (foldl num_add (Fin 0) xs)"
proof (induction xs arbitrary: a)
  case (Cons x xs)
  show ?case using Cons.IH [of "num_add a x"] Cons.IH [of x] by (simp add: num_add_assoc num_add_zero)
qed (simp add: num_add_zero)

lemma num_sum_Cons: "num_sum (x # xs) = num_add x (num_sum xs)"
  using foldl_num_add [of x xs] by (simp add: num_sum_def num_add_zero)

lemma num_sum_append: "num_sum (xs @ ys) = num_add (num_sum xs) (num_sum ys)"
  by (induction xs) (simp_all add: num_sum_Nil num_sum_Cons num_add_zero num_add_assoc)

lemma num_sum_split: "num_sum (map f xs) = num_add (num_sum (map f (filter P xs))) (num_sum (map f (filter (\<lambda>x. \<not> P x) xs)))"
  by (induction xs) (simp_all add: num_sum_Nil num_sum_Cons num_add_zero num_add_assoc num_add_left_commute)

text \<open>Summing group by group is summing all.\<close>

lemma num_sum_groups:
  "\<forall>x \<in> set xs. key x < k \<Longrightarrow>
   num_sum (map (\<lambda>g. num_sum (map f (filter (\<lambda>x. key x = g) xs))) [0..<k]) = num_sum (map f xs)"
proof (induction k arbitrary: xs)
  case 0
  then show ?case by (cases xs) (auto simp: num_sum_Nil)
next
  case (Suc k)
  define ys where "ys = filter (\<lambda>x. key x \<noteq> k) xs"
  have "\<forall>x \<in> set ys. key x < k" using Suc.prems by (auto simp: ys_def less_Suc_eq)
  note IH = Suc.IH [OF this]
  have "filter (\<lambda>x. key x = g) ys = filter (\<lambda>x. key x = g) xs" if "g < k" for g
    unfolding ys_def filter_filter by (rule filter_cong) (use that in auto)
  then have "num_sum (map (\<lambda>g. num_sum (map f (filter (\<lambda>x. key x = g) xs))) [0..<k])
      = num_sum (map (\<lambda>g. num_sum (map f (filter (\<lambda>x. key x = g) ys))) [0..<k])"
    by (intro arg_cong [of _ _ num_sum] map_cong) auto
  with IH have "num_sum (map (\<lambda>g. num_sum (map f (filter (\<lambda>x. key x = g) xs))) [0..<Suc k])
      = num_add (num_sum (map f ys)) (num_sum (map f (filter (\<lambda>x. key x = k) xs)))"
    by (simp add: num_sum_append num_sum_Cons num_sum_Nil num_add_zero)
  also have "\<dots> = num_sum (map f xs)"
    using num_sum_split [of f xs "\<lambda>x. key x = k"] by (simp add: ys_def num_add_commute)
  finally show ?case .
qed

lemma display_group_range:
  assumes "i < n"
  shows "display_group n i < 8"
proof -
  have "2 * (i * 7) + max 1 (n - 1) < 8 * (2 * max 1 (n - 1))" using assms by (cases "n \<le> 1") auto
  then show ?thesis unfolding display_group_def round_div_def by (simp add: div_less_iff_less_mult)
qed

lemma display_sum:
  "num_sum (map (\<lambda>g. sum_of f (map snd (filter (\<lambda>(i, b). display_group (length bs) i = g) (enumerate 0 bs)))) [0..<8])
     = sum_of f bs"
proof -
  have "\<forall>x \<in> set (enumerate 0 bs). display_group (length bs) (fst x) < 8"
    by (auto simp: in_set_enumerate_eq intro: display_group_range)
  from num_sum_groups [OF this, of "\<lambda>x. nz (f (snd x))"]
  have "num_sum (map (\<lambda>g. num_sum (map (\<lambda>x. nz (f (snd x))) (filter (\<lambda>x. display_group (length bs) (fst x) = g) (enumerate 0 bs)))) [0..<8])
      = num_sum (map (\<lambda>b. nz (f b)) (map snd (enumerate 0 bs)))" unfolding map_map comp_def .
  then show ?thesis by (simp only: sum_of_def map_snd_enumerate map_map comp_def case_prod_beta')
qed

text \<open>The figures a bucket adds up.\<close>

definition figures :: "(chart_bucket \<Rightarrow> jsnum) list" where
  "figures = [cb_requests, cb_success, cb_failed, cb_input, cb_output, cb_tokens, cb_cost]"

text \<open>
  Merging a week into eight display buckets keeps every total: requests, successes, failures, input, output
  and total tokens and cost summed over the merged buckets are the sums over the server's buckets; none is
  dropped or counted twice.
\<close>

lemma week_totals_kept:
  assumes "f \<in> set figures" and "8 < length bs"
  shows "length (trafficDisplayBuckets ''7d'' bs) = 8
    \<and> num_sum (map f (trafficDisplayBuckets ''7d'' bs)) = sum_of f bs"
proof -
  have "f (display_bucket bs g) = sum_of f (map snd (filter (\<lambda>(i, b). display_group (length bs) i = g) (enumerate 0 bs)))" for g
    using assms(1) by (auto simp: figures_def display_bucket_def Let_def)
  then have "num_sum (map f (map (display_bucket bs) [0..<8])) = sum_of f bs"
    using display_sum [of f bs] by (simp only: map_map comp_def)
  then show ?thesis using assms(2) by (simp add: trafficDisplayBuckets_def)
qed

definition sample_bucket :: "rat \<Rightarrow> chart_bucket" where
  "sample_bucket q = \<lparr>cb_ts = Fin q, cb_start = Fin q, cb_end = Fin q, cb_requests = Fin q, cb_success = Fin q, cb_failed = Fin 0,
     cb_input = Fin 1, cb_output = Fin 2, cb_tokens = Fin 3, cb_cost = Fin 0, cb_latency = Fin 5, cb_display = False\<rparr>"

end
