(* ===== verification/UsageDrawer.thy ===== *)
theory UsageDrawer
  imports ModelUsageView
begin

text \<open>
  The composition of token usage and the drawer of one model (\<open>app.js\<close>) as markup: where its calls went, which
  providers support it now, and in which order they are tried.
\<close>

section \<open>Token composition\<close>

definition rate_text :: "nat \<Rightarrow> jsnum \<Rightarrow> string" where
  "rate_text d n = num_to_str (parseFloat (toFixed d n))"

text \<open>\<open>Number(value) || 0\<close>.\<close>

definition fmtPriceRate :: "jsval \<Rightarrow> string" where
  "fmtPriceRate v =
     (let n = nz (to_num v) in
      if num_le n (Fin 0) then ''$0''
      else ''$'' @ (if num_le (Fin 100) n then num_to_str (num_round n)
                    else if num_le (Fin 10) n then rate_text 1 n
                    else if num_le (Fin 1) n then rate_text 2 n else rate_text 4 n))"

definition renderTokenLegendCacheRate :: "translator \<Rightarrow> usage \<Rightarrow> string" where
  "renderTokenLegendCacheRate tr u =
     (let n = nz (input_tokens u); pct = num_mul (num_div (num_max (Fin 0) (nz (cached_input_tokens u))) n) (Fin 100);
          rate = (if num_le (Fin 10) pct then num_to_str (num_round pct) else rate_text 1 pct) @ ''%''
      in if num_le n (Fin 0) then []
         else (nl 6 @ ''<span data-tip=\"'' @ (esc (tr ''tokens.cache_rate_tip'' [])) @
            ''\" tabindex=\"0\">'' @ nl 8 @
            ''<i class=\"token-dot token-cached\" aria-hidden=\"true\"></i><small>'' @
            (esc (tr ''tokens.cache_rate'' [])) @ ''</small><strong>'' @ esc rate @
            ''</strong>'' @ nl 6 @ ''</span>'' @ nl 4))"

definition renderTokenLegendPrices :: "translator \<Rightarrow> jsval \<Rightarrow> string" where
  "renderTokenLegendPrices tr v =
     (let pricing = get v ''pricing_snapshot'';
          part = (\<lambda>key field. ((tr key []) @ '' '' @ (fmtPriceRate (get pricing field))));
          title = tr ''tokens.pricing_title'' [(''source'', jor (get pricing ''source'') (Str ''-''))]
            @ (if num_lt (Fin 0) (to_num (get pricing ''cache_read_per_million''))
               then ('' '' @ [CHR 0xB7] @ '' '' @
                  part ''tokens.price_cache'' ''cache_read_per_million'' @ ''/M'') else [])
      in if \<not> is_object pricing then []
         else (nl 6 @ ''<span class=\"token-legend-prices\" data-tip=\"'' @ esc title @
            ''\" tabindex=\"0\">'' @ nl 8 @
            (concat (map (\<lambda>p. (''<b>'' @ esc p @ ''</b>'')) [part ''tokens.price_in'' ''input_per_million'', part ''tokens.price_cache_write'' ''cache_write_per_million'', part ''tokens.price_out'' ''output_per_million''])) @
            nl 8 @ ''<small>'' @ (esc (tr ''tokens.pricing_unit'' [])) @ ''</small>'' @ nl 6 @
            ''</span>'' @ nl 4))"

definition with_cost_usd :: "jsnum \<Rightarrow> jsval \<Rightarrow> jsval" where
  "with_cost_usd c v = Obj (set_prop ''cost_usd'' (Num c) (obj_fields v))"

definition composition_segment :: "jsnum \<Rightarrow> string \<times> jsnum \<times> string \<Rightarrow> string" where
  "composition_segment n = (\<lambda>(tone, cnt, label).
     (''<i class=\"token-segment token-'' @ tone @
        ''\" aria-hidden=\"true\" style=\"--token-share:'' @
        (svg (num_mul (num_div cnt n) (Fin 100))) @ ''%\" data-tip=\"'' @
        (esc (label @ '': '' @ (fmtInt (Num cnt)))) @ ''\"></i>''))"

definition composition_legend :: "string \<times> jsnum \<times> string \<Rightarrow> string" where
  "composition_legend = (\<lambda>(tone, cnt, label).
     (''<span><i class=\"token-dot token-'' @ tone @ ''\" aria-hidden=\"true\"></i><small>'' @
        esc label @ ''</small><strong>'' @ (esc (fmtTokenCount (Num cnt))) @ ''</strong></span>''))"

definition renderUsageComposition :: "translator \<Rightarrow> jsval \<Rightarrow> string" where
  "renderUsageComposition tr v =
     (let u = usageFrom v; n = num_max (Fin 1) (total_tokens u); segments = token_segments tr u in
      if num_le (total_tokens u) (Fin 0) \<and> num_le (nz (cost_usd u)) (Fin 0) then (nl 8 @ ''<section class=\"usage-composition is-empty\" aria-label=\"'' @
         (esc (tr ''tokens.composition'' [])) @ ''\">'' @ nl 10 @
         ''<div class=\"usage-composition-head\"><h3>'' @ (esc (tr ''tokens.composition'' [])) @
         ''</h3><strong>0</strong>'' @ (renderCost tr (with_cost_usd (Fin 0) v) False) @
         ''</div>'' @ nl 10 @ ''<div class=\"usage-empty-state\">'' @ iconSvg ''activity'' @
         ''<span><strong>'' @ (esc (tr ''req.no_usage'' [])) @ ''</strong><small>'' @
         (esc (tr ''req.no_usage_desc'' [])) @ ''</small></span></div>'' @ nl 8 @ ''</section>'' @
         nl 6)
      else (nl 6 @ ''<section class=\"usage-composition\" aria-label=\"'' @
         (esc (tr ''tokens.composition'' [])) @ ''\">'' @ nl 8 @
         ''<div class=\"usage-composition-head\"><h3>'' @ (esc (tr ''tokens.composition'' [])) @
         ''</h3><strong>'' @ (esc (fmtTokenCount (Num (total_tokens u)))) @ ''</strong>'' @
         (renderCost tr (with_cost_usd (cost_usd u) v) False) @ ''</div>'' @ nl 8 @
         ''<div class=\"token-composition-bar\" role=\"img\" aria-label=\"'' @
         (esc (segments_text segments)) @ ''\">'' @ nl 10 @
         (concat (map (composition_segment n) segments)) @ nl 8 @ ''</div>'' @ nl 8 @
         ''<div class=\"token-composition-legend\">'' @ nl 10 @
         (concat (map composition_legend segments)) @ nl 10 @ renderTokenLegendCacheRate tr u @
         nl 10 @
         (if num_truthy (reasoning_tokens u) then (''<span data-tip=\"'' @ (esc (tr ''tokens.reasoning_subset'' [])) @
           ''\" tabindex=\"0\"><i class=\"token-dot token-reasoning\"'' @
           '' aria-hidden=\"true\"></i><small>'' @ (esc (tr ''tokens.reasoning'' [])) @
           ''</small><strong>'' @ (esc (fmtTokenCount (Num (reasoning_tokens u)))) @
           ''</strong></span>'') else []) @ nl 10 @ renderTokenLegendPrices tr v @ nl 8 @
         ''</div>'' @ nl 6 @ ''</section>'' @ nl 4))"

section \<open>Support of a model\<close>

definition modelSupportReasonLabel :: "translator \<Rightarrow> jsval \<Rightarrow> jsval \<Rightarrow> string" where
  "modelSupportReasonLabel tr item code =
     (if code = Str ''provider_cooldown''
      then tr ''model_usage.reason_provider_cooldown'' [(''seconds'', Str (fmtInt (jor (get item ''cooldown_remaining_s'') (jnum 0))))]
      else tr (''model_usage.reason_'' @ to_str code) [])"

definition modelSupportPriorityBadge :: "translator \<Rightarrow> jsval \<Rightarrow> string" where
  "modelSupportPriorityBadge tr item =
     (let known = is_finite (to_num (get item ''effective_priority''));
          sourceTag = (if get item ''priority_source'' = Str ''model_route'' then tr ''model_usage.priority_route'' []
                       else if get item ''priority_source'' = Str ''runtime_override'' then tr ''model_usage.priority_override'' [] else []);
          tags = filter (\<lambda>s. s \<noteq> []) [sourceTag, if truthy (get item ''auto_adjusted'') then tr ''model_usage.priority_auto'' [] else []]
      in if \<not> known \<and> tags = [] then []
         else (''<span class=\"support-priority mono\" data-tip=\"'' @
            (esc (tr ''model_usage.priority_tip'' [])) @ ''\">'' @
            (if known then (''P'' @ (esc (fmtInt (get item ''effective_priority'')))) else ''P?'') @
            (concat (map (\<lambda>tag. (''<em>'' @ esc tag @ ''</em>'')) tags)) @ ''</span>''))"

definition keys_label :: "translator \<Rightarrow> jsval \<Rightarrow> jsval \<Rightarrow> string \<Rightarrow> string" where
  "keys_label tr a b key = ((fmtInt (jor a (jnum 0))) @ ''/'' @ (fmtInt (jor b (jnum 0))) @ '' '' @ (tr key []))"

definition renderModelRoutingStep :: "translator \<Rightarrow> jsval \<Rightarrow> string" where
  "renderModelRoutingStep tr step =
     (let keysLabel = (if get step ''key_count'' \<noteq> Undef
            then keys_label tr (get step ''available_key_count'') (get step ''key_count'') ''model_usage.keys_available'' else [])
      in (''<div class=\"support-row is-available\"><span class=\"support-rank\">#'' @
         (esc (fmtInt (jor (get step ''rank'') (jnum 0)))) @ ''</span><strong>'' @
         (escapeHtml (jor (get step ''provider'') (Str ''-''))) @ ''</strong>'' @
         modelSupportPriorityBadge tr step @ ''<span class=\"mono\">'' @
         (escapeHtml (jor (get step ''provider_model'') (Str ''-''))) @ ''</span><span>'' @
         (esc (shortFormatLabel (jor (get step ''upstream_format'') (Str ''-'')))) @ ''</span>'' @
         (if keysLabel \<noteq> [] then (''<small>'' @ esc keysLabel @ ''</small>'') else []) @
         ''</div>''))"

definition support_available :: "jsval \<Rightarrow> bool" where
  "support_available item =
     (if get item ''available'' \<noteq> Undef then truthy (get item ''available'') else truthy (get item ''enabled''))"

definition renderModelSupportRow :: "translator \<Rightarrow> bool \<Rightarrow> jsval \<Rightarrow> string" where
  "renderModelSupportRow tr excluded item =
     (let isAvailable = support_available item;
          keysLabel = (if get item ''available'' \<noteq> Undef
            then keys_label tr (get item ''available_key_count'') (get item ''key_count'') ''model_usage.keys_available''
            else keys_label tr (get (get item ''key_coverage'') ''eligible'') (get (get item ''key_coverage'') ''total'') ''model_usage.keys'');
          listed = js_join ('' '' @ [CHR 0xB7] @ '' '') (map (modelSupportReasonLabel tr item) (arr_or_empty (get item ''unavailable_reasons'')));
          reasons = (if listed \<noteq> [] then listed else if excluded \<and> isAvailable then tr ''model_usage.reason_not_selected'' [] else []);
          rowClass = (if excluded then ''is-excluded'' else if isAvailable then ''is-available'' else ''is-unavailable'');
          fmts = js_join ('' '' @ [CHR 0xB7] @ '' '') (map (\<lambda>f. esc (shortFormatLabel f)) (arr_or_empty (get item ''formats'')))
      in (''<div class=\"support-row '' @ rowClass @ ''\"><span class=\"support-rank\">'' @
         (if excluded then ([CHR 0xE2, CHR 0x80, CHR 0x94]) else if isAvailable then ([CHR 0xE2, CHR 0x80, CHR 0xA2]) else iconSvg ''alert'') @
         ''</span><strong>'' @ (escapeHtml (jor (get item ''provider'') (Str ''-''))) @
         ''</strong>'' @ modelSupportPriorityBadge tr item @ ''<span class=\"mono\">'' @
         (escapeHtml (jor (get item ''provider_model'') (Str ''-''))) @ ''</span><span>'' @
         (or_default fmts ''-'') @ ''</span><small>'' @ esc keysLabel @ ''</small>'' @
         (if reasons \<noteq> [] then (''<span class=\"support-reason\">'' @ esc reasons @ ''</span>'') else []) @
         ''</div>''))"

section \<open>The drawer\<close>

definition summary_stat :: "string \<Rightarrow> string \<Rightarrow> string \<Rightarrow> string \<Rightarrow> string" where
  "summary_stat tone icon label value =
     (''<span class=\"model-summary-stat tone-'' @ tone @ ''\"><i>'' @ iconSvg icon @
        ''</i><span><small>'' @ esc label @ ''</small><strong>'' @ esc value @
        ''</strong></span></span>'')"

definition call_series :: "translator \<Rightarrow> (jsnum \<Rightarrow> string) \<Rightarrow> jsval list \<Rightarrow> string" where
  "call_series tr dates series =
     (let maxCalls = foldl num_max (Fin 1) (map (\<lambda>i. num_or_zero (get i ''calls'')) series);
          calls = (\<lambda>i. ((fmtInt (get i ''calls'')) @ '' '' @ (tr ''model_usage.calls'' [])));
          summary = js_join '', '' (map (\<lambda>i. ((fmtDate dates (get i ''start'')) @ '': '' @ calls i)) series);
          bars = concat (map (\<lambda>i. (''<span aria-hidden=\"true\" style=\"--series-height:'' @
             (svg (num_max (Fin 6) (num_mul (num_div (num_or_zero (get i ''calls'')) maxCalls) (Fin 100)))) @
             ''%\" data-tip=\"'' @
             (esc ((fmtDate dates (get i ''start'')) @ '' '' @ [CHR 0xB7] @ '' '' @ calls i)) @
             ''\"></span>'')) series)
      in (''<section class=\"model-usage-series\"><h3>'' @ (esc (tr ''model_usage.timeline'' [])) @
         ''</h3><div role=\"img\" aria-label=\"'' @
         (esc (tr ''model_usage.timeline_label'' [(''summary'', Str (or_default summary (tr ''model_usage.empty'' [])))])) @
         ''\">'' @
         (if bars \<noteq> [] then bars else (''<span class=\"empty\">'' @ (esc (tr ''model_usage.empty'' [])) @ ''</span>'')) @
         ''</div></section>''))"

definition provider_usage_row :: "jsval \<Rightarrow> string" where
  "provider_usage_row item =
     (let n = (\<lambda>k. jor (get item k) (jnum 0))
      in (''<tr><td><span class=\"model-provider-identity\"><strong>'' @ iconSvg ''server'' @
         (escapeHtml (jor (get item ''provider'') (Str ''-''))) @
         ''</strong><small class=\"mono\">'' @
         (escapeHtml (jor (get item ''provider_model'') (Str ''-''))) @
         ''</small></span></td><td><span class=\"model-format-badge\">'' @
         (esc (shortFormatLabel (jor (get item ''upstream_format'') (Str ''-'')))) @
         ''</span></td><td><span class=\"model-attempt-badge\">'' @ iconSvg ''check'' @
         (esc ((fmtInt (n ''success'')) @ ''/'' @ (fmtInt (n ''attempts'')))) @
         ''</span></td><td><span class=\"model-provider-usage\"><strong>'' @
         (esc (fmtTokenCount (n ''total_tokens''))) @ ''</strong><small>'' @
         (esc (fmtCost (n ''cost_usd''))) @
         ''</small></span></td><td><span class=\"model-latency-badge mono\">'' @
         iconSvg ''clock'' @
         (esc (fmtCompactMs (jor (get item ''avg_first_event_ms'') (n ''avg_duration_ms'')))) @
         ''</span></td></tr>''))"

definition provider_breakdown :: "translator \<Rightarrow> jsval list \<Rightarrow> string" where
  "provider_breakdown tr rows =
     (''<section class=\"model-provider-breakdown\"><h3 class=\"drawer-section-title'' @
        '' model-drawer-section-head\"><span>'' @
        (esc (tr ''model_usage.provider_breakdown'' [])) @ ''</span><strong>'' @
        (esc (fmtInt (Num (num_of_nat (length rows))))) @ ''</strong></h3>'' @ nl 10 @
        ''<div class=\"attempt-table-scroll\"><table'' @
        '' class=\"model-provider-usage-table\"><thead><tr><th scope=\"col\">'' @
        (esc (tr ''req.provider'' [])) @ '' / '' @ (esc (tr ''req.attempt_model'' [])) @
        ''</th><th scope=\"col\">'' @ (esc (tr ''req.attempt_format'' [])) @
        ''</th><th scope=\"col\">'' @ (esc (tr ''model_usage.calls'' [])) @
        ''</th><th scope=\"col\">'' @ (esc (tr ''req.col_tokens'' [])) @ '' / '' @
        (esc (tr ''req.col_cost'' [])) @ ''</th><th scope=\"col\">'' @
        (esc (tr ''req.col_latency'' [])) @ ''</th></tr></thead><tbody>'' @
        (concat (map provider_usage_row rows)) @ ''</tbody></table></div>'' @ nl 8 @ ''</section>'')"

definition excluded_support :: "jsval list \<Rightarrow> jsval list \<Rightarrow> jsval list" where
  "excluded_support path support =
     filter (\<lambda>item. get item ''provider'' \<notin> set (map (\<lambda>step. get step ''provider'') path)) support"

definition support_section :: "translator \<Rightarrow> jsval \<Rightarrow> string" where
  "support_section tr detail =
     (let support = arr_or_empty (get detail ''current_support''); path = arr_or_empty (get detail ''routing_path'');
          excluded = excluded_support path support; n = (\<lambda>k. fmtInt (Num (num_of_nat k)));
          sel = get (jor (get detail ''routing_overview'') (Obj [])) ''provider_select'';
          rotation = (if sel \<in> {Str ''round_robin'', Str ''weighted_rr'', Str ''random''} then to_str sel else []);
          count_text = (if path \<noteq> [] then (if excluded \<noteq> [] then ((n (length path)) @ ''/'' @ (n (length path + length excluded))) else n (length path))
                   else ((n (length (filter support_available support))) @ ''/'' @
                      (n (length support))));
          rows = (if path \<noteq> [] then concat (map (renderModelRoutingStep tr) path) @ concat (map (renderModelSupportRow tr True) excluded)
                  else concat (map (renderModelSupportRow tr False) support))
      in (''<section class=\"model-current-support\"><h3 class=\"drawer-section-title'' @
         '' model-drawer-section-head\"><span>'' @
         (esc (tr (if path \<noteq> [] then ''model_usage.routing_path'' else ''model_usage.current_support'') [])) @
         ''</span><strong>'' @ esc count_text @ ''</strong></h3>'' @
         (if rotation \<noteq> [] then (''<p class=\"support-mode-note\">'' @
           (esc (tr ''model_usage.rotation_note'' [(''mode'', Str rotation)])) @ ''</p>'') else []) @
         (if rows \<noteq> [] then rows else (''<div class=\"empty\">'' @ (esc (tr ''model_usage.no_support'' [])) @ ''</div>'')) @
         ''</section>''))"

definition renderUsageModelDrawer :: "translator \<Rightarrow> (jsnum \<Rightarrow> string) \<Rightarrow> jsval \<Rightarrow> string" where
  "renderUsageModelDrawer tr dates detail =
     (let summary = jor (get detail ''summary'') (Obj []); n = (\<lambda>k. jor (get summary k) (jnum 0))
      in (nl 6 @ ''<div class=\"model-usage-drawer\">'' @ nl 8 @
         ''<div class=\"model-usage-summary drawer-summary\">'' @ nl 10 @
         (summary_stat ''info'' ''activity'' (tr ''model_usage.calls'' []) (fmtInt (n ''calls''))) @
         nl 10 @
         (summary_stat ''success'' ''check'' (tr ''model_usage.success_rate'' []) (fmtPct (n ''success_rate''))) @
         nl 10 @
         (summary_stat ''compat'' ''boxes'' (tr ''model_usage.total_tokens'' []) (fmtTokenCount (jor (get (get summary ''usage'') ''total_tokens'') (jnum 0)))) @
         nl 10 @
         (summary_stat ''warning'' ''dollar'' (tr ''model_usage.cost'' []) (fmtCost (n ''cost_usd''))) @
         nl 8 @ ''</div>'' @ nl 8 @
         (renderUsageComposition tr (Obj ((''usage'', get summary ''usage'') # obj_fields (cost_value summary)))) @
         nl 8 @ (call_series tr dates (arr_or_empty (get detail ''timeseries''))) @ nl 8 @
         (provider_breakdown tr (arr_or_empty (get detail ''providers''))) @ nl 8 @
         support_section tr detail @ nl 6 @ ''</div>'' @ nl 4))"

text \<open>Every provider of the support list is shown once: on the path, or among the excluded ones.\<close>

lemma support_split:
  "mset (filter (\<lambda>i. get i ''provider'' \<in> set (map (\<lambda>step. get step ''provider'') path)) support)
     + mset (excluded_support path support) = mset support"
  by (simp add: excluded_support_def multiset_partition)

end
