(* ===== verification/ProviderCatalog.thy ===== *)
theory ProviderCatalog
  imports ProviderState ConfigForms I18n Format
begin

text \<open>
  The model catalogue of a provider (\<open>app.js\<close>): the full view of a provider, its model items with the hints
  about replaced names, the rows the drawer shows, what a click on a row or on the bulk buttons does, and the
  edits that save switches, mappings and declarations. \<open>lc\<close> is \<open>localeCompare\<close>.
\<close>

section \<open>Model items\<close>

definition label_key :: "jsval \<Rightarrow> string" where
  "label_key item = ckey (str_or_empty (get item ''label''))"

definition provider_map_of :: "console \<Rightarrow> string \<Rightarrow> jsval" where
  "provider_map_of c name = obj_or_empty (get (get (get (c_config c) ''models'') ''provider_model_map'') name)"

definition claimed_raws :: "jsval \<Rightarrow> string list" where
  "claimed_raws configuredMap =
     map (\<lambda>e. js_lower (js_trim (to_str (snd e)))) (filter (\<lambda>e. trimmed (snd e) \<noteq> []) (js_entries configuredMap))"

text \<open>Discovered names whose upstream model a manual alias has taken over and that have no row of their own.\<close>

definition replaced_names :: "jsval list \<Rightarrow> jsval \<Rightarrow> string list \<Rightarrow> string list" where
  "replaced_names base configuredMap visibleLabels =
     map (\<lambda>item. trimmed (get item ''label''))
       (filter (\<lambda>item.
          let raw = ckey (to_str (jor (jor (get item ''raw'') (get item ''label'')) (Str []))) in
          raw \<noteq> [] \<and> raw \<in> set (claimed_raws configuredMap) \<and> label_key item \<notin> set visibleLabels) base)"

text \<open>A route of the provider that no item names becomes an item, or a hint when it names a replaced one.\<close>

definition add_route_model ::
  "string list \<Rightarrow> string \<Rightarrow> jsval list \<times> string list \<times> string list \<Rightarrow> jsval list \<times> string list \<times> string list" where
  "add_route_model replaced model acc =
     (let (items, visible, legacy) = acc; normalized = ckey model in
      if normalized = [] \<or> normalized \<in> set visible then acc
      else if js_trim model \<in> set replaced then (items, visible, legacy @ [js_trim model])
      else (items @ [Obj [(''label'', Str model), (''raw'', Str []), (''title'', Str model), (''manual'', Bool False)]],
            normalized # visible, legacy))"

definition decorate_item :: "console \<Rightarrow> string \<Rightarrow> string list \<Rightarrow> jsval \<Rightarrow> jsval" where
  "decorate_item c name staticModels item =
     (let source = providerModelSourceId item in
      Obj (spread (obj_fields item)
        [(''sourceModel'', Str source),
         (''disabled'', Bool (isProviderModelDisabled (c_config c) (c_drafts c) name source)),
         (''pending'', Bool (has_own source (providerModelDraft (c_drafts c) name))),
         (''static'', Bool (js_lower source \<in> set staticModels))]))"

text \<open>The items and the \<open>legacyRouteRefs\<close> attached to them. The memo in front of the items changes nothing.\<close>

definition providerModelItems ::
  "(string \<Rightarrow> string \<Rightarrow> bool) \<Rightarrow> console \<Rightarrow> string \<Rightarrow> jsval \<Rightarrow> jsval list \<times> string list" where
  "providerModelItems lc c name capability =
     (let base = modelCapabilityItems lc (Arr (arr_or_empty (get capability ''models'')))
                   (obj_or_empty (get capability ''canonical_map''));
          configuredMap = provider_map_of c name;
          items0 = mergeProviderModelCatalogItems lc (Arr base) configuredMap;
          visible = map label_key items0;
          replaced = replaced_names base configuredMap visible;
          (items, _, legacy) = fold (add_route_model replaced) (providerRouteModels lc c name) (items0, visible, []);
          staticModels = map js_lower (normalizeStaticModelIds (obj_or_empty (get (config_of c name) ''static_models'')))
      in (map (decorate_item c name staticModels) items, legacy))"

section \<open>The full view\<close>

record provider_view =
  vw_light :: light_view
  vw_keys :: "jsval list"
  vw_configKeys :: "jsval list"
  vw_modelItems :: "jsval list"
  vw_legacyRouteRefs :: "string list"
  vw_routeModels :: "string list"
  vw_circuits :: "jsval list"

abbreviation vw_name :: "provider_view \<Rightarrow> string" where
  "vw_name v \<equiv> lv_name (vw_light v)"

text \<open>It has the fields of the light view, with the same values, and these.\<close>

definition providerViewModel :: "(string \<Rightarrow> string \<Rightarrow> bool) \<Rightarrow> console \<Rightarrow> string \<Rightarrow> provider_view" where
  "providerViewModel lc c name =
     (let light = providerLightView c name; (items, legacy) = providerModelItems lc c name (lv_capability light) in
      \<lparr>vw_light = light,
       vw_keys = mergedProviderKeys (Arr (arr_or_empty (get (lv_runtime light) ''keys''))) (config_keys (lv_config light)),
       vw_configKeys = arr_or_empty (config_keys (lv_config light)),
       vw_modelItems = items, vw_legacyRouteRefs = legacy, vw_routeModels = providerRouteModels lc c name,
       vw_circuits = filter (\<lambda>e. get e ''provider'' = Str name)
         (arr_or_empty (get (get (get (c_status c) ''router'') ''compatibility_circuits'') ''entries''))\<rparr>)"

section \<open>Catalogue rows\<close>

definition warning_code :: "catalog_warning \<Rightarrow> string" where
  "warning_code w =
     (case w of VariantShadowsManualMap _ \<Rightarrow> ''variant_shadows_manual_map''
      | VariantShadowsDiscovered _ \<Rightarrow> ''variant_shadows_discovered''
      | SameNameStatic \<Rightarrow> ''same_name_static'' | SharedUpstream _ _ \<Rightarrow> ''shared_upstream''
      | CaseOnlyDuplicate _ \<Rightarrow> ''case_only_duplicate'' | StaleUpstreamDisabled _ _ _ \<Rightarrow> ''stale_upstream_disabled''
      | EmptyVariantGroup \<Rightarrow> ''empty_variant_group'')"

text \<open>The \<open>detail\<close> of a warning, and the warning as the rows carry it.\<close>

definition warning_detail :: "catalog_warning \<Rightarrow> jsval" where
  "warning_detail w =
     Obj (case w of VariantShadowsManualMap r \<Rightarrow> [(''rename'', Str r)]
          | VariantShadowsDiscovered r \<Rightarrow> [(''raw'', Str r)]
          | SharedUpstream m by \<Rightarrow> [(''model'', Str m), (''by'', Arr (map Str by))]
          | CaseOnlyDuplicate ids \<Rightarrow> [(''ids'', Arr (map Str ids))]
          | StaleUpstreamDisabled d n ms \<Rightarrow>
              [(''disabled'', jnum (of_nat d)), (''total'', jnum (of_nat n)), (''models'', Arr (map Str ms))]
          | _ \<Rightarrow> [])"

definition warning_val :: "catalog_warning \<Rightarrow> jsval" where
  "warning_val w = Obj [(''code'', Str (warning_code w)), (''detail'', warning_detail w)]"

definition joined_names :: "jsval \<Rightarrow> jsval" where
  "joined_names v = Str (js_join '', '' (map to_str (arr_or_empty v)))"

definition providerCatalogWarningLabel :: "translator \<Rightarrow> jsval \<Rightarrow> string" where
  "providerCatalogWarningLabel tr warning =
     (let detail = jor (get warning ''detail'') (Obj []); text = (\<lambda>k. jor (get detail k) (Str []));
          count = (\<lambda>k. Str (fmtInt (jcoalesce (get detail k) (jnum 0)))) in
      tr (''prov.models.warn_'' @ to_str (get warning ''code''))
        [(''model'', text ''model''), (''by'', joined_names (get detail ''by'')), (''ids'', joined_names (get detail ''ids'')),
         (''rename'', text ''rename''), (''raw'', text ''raw''), (''disabled'', count ''disabled''), (''total'', count ''total'')])"

definition row_source_model :: "catalog_row \<Rightarrow> string" where
  "row_source_model row = (if r_variant row then r_id row else if r_raw row \<noteq> [] then r_raw row else r_id row)"

definition row_title :: "translator \<Rightarrow> catalog_row \<Rightarrow> string" where
  "row_title tr row =
     js_join [CHR 0x0A] (filter (\<lambda>s. s \<noteq> [])
       ((if r_variant row then variantChainLabel (Str (r_id row)) (variant_vals (r_variants row))
         else to_str (jor (get (jor (r_item row) (Obj [])) ''title'') (Str (r_id row))))
        # map (\<lambda>g. tr ''prov.models.referenced_by'' [(''model'', Str g)]) (r_refs row)
        @ map (\<lambda>w. providerCatalogWarningLabel tr (warning_val w)) (r_warnings row)))"

definition providerCatalogRowItem :: "translator \<Rightarrow> console \<Rightarrow> string \<Rightarrow> catalog_row \<Rightarrow> jsval" where
  "providerCatalogRowItem tr c name row =
     (let source = row_source_model row in
      Obj [(''label'', Str (r_id row)), (''raw'', Str (r_raw row)), (''title'', Str (row_title tr row)),
           (''sourceModel'', Str source),
           (''disabled'', Bool (isProviderModelDisabled (c_config c) (c_drafts c) name source)),
           (''pending'', Bool (has_own source (providerModelDraft (c_drafts c) name))),
           (''static'', Bool (r_static row \<and> \<not> r_variant row)),
           (''manual'', Bool (truthy (get (jor (r_item row) (Obj [])) ''manual''))),
           (''manualOnly'', Bool False), (''variant'', Bool (r_variant row)),
           (''variantCount'', jnum (of_nat (length (r_variants row)))),
           (''variantWarnings'', jnum (of_nat (length (r_warnings row)))),
           (''mainSource'', Str (r_mainSource row)), (''sources'', Arr (map Str (r_sources row))),
           (''variants'', variant_vals (r_variants row)),
           (''warnings'', Arr (map warning_val (r_warnings row))),
           (''refs'', Arr (map Str (r_refs row)))])"

definition catalog_plan :: "console \<Rightarrow> provider_view \<Rightarrow> catalog_row list" where
  "catalog_plan c view =
     planCatalogEntries (Arr (vw_modelItems view))
       (Arr (map Str (normalizeStaticModelIds (get (lv_config (vw_light view)) ''static_models''))))
       (Some (normalizeVariantGroups
          (obj_or_empty (get (get (get (c_config c) ''models'') ''provider_model_variants'') (vw_name view)))))
       (map (\<lambda>e. Str (fst e)) (js_entries (providerModelDisabledMap (c_config c) (vw_name view))))"

text \<open>A row that the filters removed from the items stays only when configuration makes it and it passes them itself.\<close>

definition catalog_keeps :: "console \<Rightarrow> string list \<Rightarrow> catalog_row \<times> jsval \<Rightarrow> bool" where
  "catalog_keeps c visibleKeys ri \<longleftrightarrow>
     r_key (fst ri) \<in> set visibleKeys
     \<or> ((r_variant (fst ri) \<or> r_static (fst ri)) \<and> filteredProviderModelItems (c_modelFilters c) [snd ri] \<noteq> [])"

definition providerDrawerCatalogItems ::
  "translator \<Rightarrow> console \<Rightarrow> provider_view \<Rightarrow> jsval list \<Rightarrow> jsval list" where
  "providerDrawerCatalogItems tr c view visibleItems =
     (let visibleKeys = map (\<lambda>i. ckey (to_str (jor (jor (get i ''label'') (get i ''sourceModel'')) (Str [])))) visibleItems
      in map snd (filter (catalog_keeps c visibleKeys)
           (map (\<lambda>row. (row, providerCatalogRowItem tr c (vw_name view) row)) (catalog_plan c view))))"

text \<open>The rows of the drawer: those of the catalogue with the filters of the toolbar.\<close>

definition drawer_rows :: "translator \<Rightarrow> (string \<Rightarrow> string \<Rightarrow> bool) \<Rightarrow> console \<Rightarrow> string \<Rightarrow> jsval list" where
  "drawer_rows tr lc c provider =
     (let view = providerViewModel lc c provider
      in providerDrawerCatalogItems tr c view (filteredProviderModelItems (c_modelFilters c) (vw_modelItems view)))"

definition providerCatalogEditKind :: "jsval \<Rightarrow> string" where
  "providerCatalogEditKind item =
     (if \<not> truthy item then ''discovered''
      else if truthy (get item ''variant'') then ''variant''
      else if truthy (get item ''mainSource'') then to_str (get item ''mainSource'')
      else if truthy (get item ''static'') then ''static''
      else if truthy (get item ''manual'') then ''renamed'' else ''discovered'')"

definition providerCatalogEntry ::
  "translator \<Rightarrow> (string \<Rightarrow> string \<Rightarrow> bool) \<Rightarrow> console \<Rightarrow> string \<Rightarrow> string \<Rightarrow> jsval option" where
  "providerCatalogEntry tr lc c provider wanted =
     (if wanted = [] then None else find (\<lambda>e. label_key e = ckey wanted) (drawer_rows tr lc c provider))"

datatype model_editor = VariantEditor jsval | StaticEditor jsval | MappingEditor string string bool "jsval option"

text \<open>The editor the pencil of a row opens.\<close>

definition editClick ::
  "translator \<Rightarrow> (string \<Rightarrow> string \<Rightarrow> bool) \<Rightarrow> console \<Rightarrow> string \<Rightarrow> string \<Rightarrow> string \<Rightarrow> bool \<Rightarrow> model_editor" where
  "editClick tr lc c provider oldModel rawModel isManual =
     (let item = providerCatalogEntry tr lc c provider oldModel;
          kind = (case item of Some i \<Rightarrow> providerCatalogEditKind i | None \<Rightarrow> if isManual then ''renamed'' else ''discovered'')
      in case item of
           Some i \<Rightarrow> if kind = ''variant'' then VariantEditor i
                     else if kind = ''static'' then StaticEditor i else MappingEditor oldModel rawModel isManual item
         | None \<Rightarrow> MappingEditor oldModel rawModel isManual None)"

definition taken_entry :: "string \<Rightarrow> string \<Rightarrow> string \<Rightarrow> jsval list" where
  "taken_entry exclude source value =
     (let i = js_trim value in
      if i \<noteq> [] \<and> js_lower i \<noteq> exclude then [Obj [(''id'', Str i), (''source'', Str source)]] else [])"

definition providerCatalogTakenIds ::
  "(string \<Rightarrow> string \<Rightarrow> bool) \<Rightarrow> console \<Rightarrow> string \<Rightarrow> string \<Rightarrow> jsval list" where
  "providerCatalogTakenIds lc c provider excludeModel =
     (let ex = ckey excludeModel; models = get (c_config c) ''models'' in
      concat (map (\<lambda>e. taken_entry ex ''variant'' (fst e)) (js_entries (obj_or_empty (get (get models ''provider_model_variants'') provider))))
      @ concat (map (\<lambda>e. taken_entry ex ''renamed'' (fst e)) (js_entries (obj_or_empty (get (get models ''provider_model_map'') provider))))
      @ concat (map (taken_entry ex ''static'') (normalizeStaticModelIds (get (config_of c provider) ''static_models'')))
      @ concat (map (taken_entry ex ''route'') (providerRouteModels lc c provider))
      @ concat (map (\<lambda>entry. if truthy (get entry ''manual'') then [] else taken_entry ex ''discovered'' (str_or_empty (get entry ''label'')))
          (fst (providerModelItems lc c provider (capability_of c provider)))))"

definition providerCatalogVariantAria :: "translator \<Rightarrow> jsval \<Rightarrow> string" where
  "providerCatalogVariantAria tr item =
     (if \<not> truthy (get item ''variant'') then []
      else '', '' @ tr ''prov.models.variant_aria''
        [(''count'', Str (fmtInt (get item ''variantCount''))), (''warnings'', Str (fmtInt (get item ''variantWarnings'')))])"

section \<open>Switches\<close>

text \<open>The states the bulk button stages: one per shown row, keyed by the model its switch writes.\<close>

definition bulk_states :: "bool \<Rightarrow> jsval list \<Rightarrow> (string \<times> bool) list" where
  "bulk_states nextState items =
     fold (\<lambda>item acc. if truthy (get item ''sourceModel'') then set_prop (to_str (get item ''sourceModel'')) nextState acc else acc) items []"

definition bulkClick ::
  "translator \<Rightarrow> (string \<Rightarrow> string \<Rightarrow> bool) \<Rightarrow> string \<Rightarrow> bool \<Rightarrow> console \<Rightarrow> console" where
  "bulkClick tr lc provider disable c =
     (let models = bulk_states disable (drawer_rows tr lc c provider) in
      if models = [] then c
      else c\<lparr>c_drafts := setProviderModelsDisabledDraft (c_config c) provider models (c_drafts c)\<rparr>)"

definition toggleClick :: "string \<Rightarrow> string \<Rightarrow> bool \<Rightarrow> console \<Rightarrow> console" where
  "toggleClick provider model disable c =
     c\<lparr>c_drafts := setProviderModelDisabledDraft (c_config c) provider model disable (c_drafts c)\<rparr>"

definition resetClick :: "string \<Rightarrow> console \<Rightarrow> console" where
  "resetClick provider c = c\<lparr>c_drafts := del_prop provider (c_drafts c)\<rparr>"

definition write_disabled :: "string \<times> bool \<Rightarrow> jsval \<Rightarrow> jsval" where
  "write_disabled mb d = (if snd mb then obj_set (fst mb) (Bool True) d else obj_del (fst mb) d)"

definition model_disabled_edit :: "string \<Rightarrow> draft \<Rightarrow> optimistic_edit" where
  "model_disabled_edit provider models =
     \<lparr>oe_key = Str (''provider-model-disabled:'' @ provider),
      oe_apply = make_prop ''models'' (make_prop ''provider_model_disabled'' (make_prop provider
        (fold write_disabled (own_entries models)))), oe_drawer = True\<rparr>"

text \<open>\<open>None\<close> when there is nothing to apply; the drafts are dropped when the server has accepted them.\<close>

definition applyClick :: "string \<Rightarrow> console \<Rightarrow> optimistic_edit option" where
  "applyClick provider c =
     (let d = providerModelDraft (c_drafts c) provider in
      if provider = [] \<or> d = [] then None else Some (model_disabled_edit provider d))"

definition appliedDrafts :: "string \<Rightarrow> console \<Rightarrow> console" where
  "appliedDrafts provider c = c\<lparr>c_drafts := del_prop provider (c_drafts c)\<rparr>"

section \<open>Mappings and declarations\<close>

definition write_mapping :: "string \<Rightarrow> string \<Rightarrow> string \<Rightarrow> jsval \<Rightarrow> jsval" where
  "write_mapping oldModel rawModel nextModel m =
     (let m1 = (if oldModel \<noteq> [] \<and> oldModel \<noteq> nextModel then obj_del oldModel m else m)
      in if nextModel \<noteq> [] then obj_set nextModel (Str rawModel) m1 else m1)"

definition mapping_edit :: "string \<Rightarrow> string \<Rightarrow> string \<Rightarrow> string \<Rightarrow> optimistic_edit option" where
  "mapping_edit provider oldModel rawModel nextModel =
     (if provider = [] \<or> rawModel = [] then None
      else Some \<lparr>oe_key = Str (''provider-model-map:'' @ provider @ '':'' @ (if oldModel \<noteq> [] then oldModel else rawModel)),
                 oe_apply = make_prop ''models'' (make_prop ''provider_model_map'' (make_prop provider (write_mapping oldModel rawModel nextModel))),
                 oe_drawer = True\<rparr>)"

definition static_list_edit :: "string \<Rightarrow> string list \<Rightarrow> optimistic_edit option" where
  "static_list_edit provider models =
     (if provider = [] then None
      else Some \<lparr>oe_key = Str (''provider-static-models:'' @ provider),
                 oe_apply = upd_provider provider (obj_set ''static_models'' (Arr (map Str models))), oe_drawer = True\<rparr>)"

definition variant_group_edit :: "string \<Rightarrow> group_plan \<Rightarrow> optimistic_edit option" where
  "variant_group_edit provider plan =
     (if provider = [] \<or> gp_writes plan = [] then None else Some (variants_edit provider plan))"

text \<open>Single flight of the model refresh button: the providers being refreshed.\<close>

definition startModelRefresh :: "string \<Rightarrow> string set \<Rightarrow> string set \<times> bool" where
  "startModelRefresh provider running =
     (if provider = [] \<or> provider \<in> running then (running, False) else (insert provider running, True))"

definition finishModelRefresh :: "string \<Rightarrow> string set \<Rightarrow> string set" where
  "finishModelRefresh provider running = running - {provider}"

section \<open>Which keys carry a model\<close>

record key_owner =
  ko_index :: jsnum
  ko_id :: string
  ko_masked :: string
  ko_status :: string

definition masked_entries :: "console \<Rightarrow> string \<Rightarrow> jsval list" where
  "masked_entries c provider =
     arr_or_empty (get (get (get (get (c_status c) ''router'') ''providers'') provider) ''keys'')
     @ arr_or_empty (get (get (get (c_config c) ''providers'') provider) ''keys'')"

definition modelMapKeyOwnerMaskedLookup :: "console \<Rightarrow> string \<Rightarrow> (string \<times> string) list" where
  "modelMapKeyOwnerMaskedLookup c provider =
     fold (\<lambda>entry acc. let i = trimmed (get entry ''key_id''); masked = trimmed (get entry ''masked'') in
        if i \<noteq> [] \<and> masked \<noteq> [] \<and> map_of acc i = None then set_prop i masked acc else acc)
       (masked_entries c provider) []"

definition owns_model :: "string \<Rightarrow> string \<Rightarrow> jsval \<Rightarrow> bool" where
  "owns_model raw canonical entry \<longleftrightarrow>
     (let models = map trimmed (arr_or_empty (get entry ''models''));
          cmap = (if is_object (get entry ''canonical_map'') then js_entries (get entry ''canonical_map'') else [])
      in (raw \<noteq> [] \<and> (raw \<in> set models \<or> (\<exists>e \<in> set cmap. trimmed (snd e) = raw)))
         \<or> (canonical \<noteq> [] \<and> (\<exists>e \<in> set cmap. js_trim (fst e) = canonical)))"

definition modelMapKeyOwners :: "console \<Rightarrow> string \<Rightarrow> string \<Rightarrow> string \<Rightarrow> key_owner list \<times> nat" where
  "modelMapKeyOwners c provider rawModel canonicalModel =
     (let ks = arr_or_empty (get (capability_of c provider) ''keys''); masked = modelMapKeyOwnerMaskedLookup c provider;
          raw = js_trim rawModel; canonical = js_trim canonicalModel;
          owners = map (\<lambda>entry. let keyId = str_or_empty (get entry ''key_id'') in
              \<lparr>ko_index = num_or_zero (get entry ''key_index''), ko_id = keyId,
               ko_masked = (case map_of masked keyId of None \<Rightarrow> [] | Some m \<Rightarrow> m), ko_status = str_or_empty (get entry ''status'')\<rparr>)
            (filter (\<lambda>e. is_object e \<and> owns_model raw canonical e) ks)
      in (js_sort (\<lambda>a b. \<not> num_lt (Fin 0) (num_sub (ko_index a) (ko_index b))) owners, length ks))"

definition providerVariantChoiceModels :: "(string \<Rightarrow> string \<Rightarrow> bool) \<Rightarrow> console \<Rightarrow> string \<Rightarrow> string list" where
  "providerVariantChoiceModels lc c provider =
     (let capability = capability_of c provider in
      first_by (\<lambda>s. s) [] (filter (\<lambda>s. s \<noteq> [])
        (map (\<lambda>e. js_trim (to_str (jor (jor (get e ''raw'') (get e ''label'')) (Str []))))
          (modelCapabilityItems lc (Arr (arr_or_empty (get capability ''models'')))
             (obj_or_empty (get capability ''canonical_map''))))))"

end
