(* ===== verification/ProviderCatalogFacts.thy ===== *)
theory ProviderCatalogFacts
  imports ProviderCatalog ProviderStateFacts
begin

text \<open>What a click in the catalogue hits: the row that was clicked, and with the bulk buttons the rows of the filter.\<close>

section \<open>The pencil\<close>

lemma find_unique:
  assumes "x \<in> set xs" and "P x" and "\<And>y. y \<in> set xs \<Longrightarrow> P y \<Longrightarrow> y = x"
  shows "find P xs = Some x"
proof (cases "find P xs")
  case None
  then show ?thesis using assms(1,2) by (auto simp: find_None_iff)
next
  case (Some y)
  then show ?thesis using find_Some_in [OF Some] assms(3) by simp
qed

lemma row_item_label: "get (providerCatalogRowItem tr c name row) ''label'' = Str (r_id row)"
  by (simp add: providerCatalogRowItem_def Let_def)

lemma row_item_key: "label_key (providerCatalogRowItem tr c name row) = ckey (r_id row)"
  by (simp add: label_key_def row_item_label)

lemma drawer_rows_of_plan:
  "set (providerDrawerCatalogItems tr c view visible) \<subseteq> providerCatalogRowItem tr c (vw_name view) ` set (catalog_plan c view)"
  by (auto simp: providerDrawerCatalogItems_def Let_def)

lemma row_item_unique:
  assumes "a \<in> set (providerDrawerCatalogItems tr c view visible)" and "b \<in> set (providerDrawerCatalogItems tr c view visible)"
    and "label_key a = label_key b"
  shows "a = b"
proof -
  obtain ra rb where r: "ra \<in> set (catalog_plan c view)" "a = providerCatalogRowItem tr c (vw_name view) ra"
      "rb \<in> set (catalog_plan c view)" "b = providerCatalogRowItem tr c (vw_name view) rb"
    using subsetD [OF drawer_rows_of_plan assms(1)] subsetD [OF drawer_rows_of_plan assms(2)] by blast
  then have "r_key ra = r_key rb"
    using assms(3) planCatalog_row_id unfolding catalog_plan_def by (metis row_item_key)
  moreover have "distinct (map r_key (catalog_plan c view))"
    unfolding catalog_plan_def by (rule planCatalog_distinct)
  ultimately have "ra = rb" using r by (auto simp: distinct_map inj_on_def)
  then show ?thesis using r by simp
qed

text \<open>
  The pencil never opens an editor for another id than the one of its row: for every row the drawer shows,
  whatever the search and status filters, looking the row's label up again finds that very row.
\<close>

lemma pencil_finds_its_row:
  assumes "item \<in> set (drawer_rows tr lc c provider)"
  shows "providerCatalogEntry tr lc c provider (to_str (get item ''label'')) = Some item"
proof -
  obtain row where "row \<in> set (catalog_plan c (providerViewModel lc c provider))"
      "item = providerCatalogRowItem tr c (vw_name (providerViewModel lc c provider)) row"
    using subsetD [OF drawer_rows_of_plan assms [unfolded drawer_rows_def Let_def]] by blast
  then have label: "get item ''label'' = Str (r_id row)" "r_id row \<noteq> []"
    using planCatalog_row_id unfolding catalog_plan_def by (auto simp: row_item_label)
  have "find (\<lambda>e. label_key e = ckey (r_id row)) (drawer_rows tr lc c provider) = Some item"
    using assms row_item_unique
    by (intro find_unique) (auto simp: label_key_def label drawer_rows_def Let_def)
  with label show ?thesis by (simp add: providerCatalogEntry_def)
qed

definition sample_console :: console where
  "sample_console = \<lparr>c_status = Obj [(''models'', Obj [(''providers'', Obj [(''p'', Obj [(''models'', Arr [Str ''glm'', Str ''qwen''])])])])],
     c_config = Obj [], c_activity = Obj [], c_health = Obj [], c_filters = Obj [],
     c_modelFilters = Obj [(''search'', Str ''q'')], c_drafts = []\<rparr>"

section \<open>The bulk buttons\<close>

text \<open>A switch of a row writes its source model.\<close>

definition switch_models :: "jsval list \<Rightarrow> string set" where
  "switch_models items = {to_str (get i ''sourceModel'') | i. i \<in> set items \<and> truthy (get i ''sourceModel'')}"

definition all_states :: "bool \<Rightarrow> (string \<times> bool) list \<Rightarrow> bool" where
  "all_states b kvs \<longleftrightarrow> snd ` set kvs \<subseteq> {b}"

lemma set_set_prop: "set (set_prop k b kvs) \<subseteq> insert (k, b) (set kvs)"
  by (induction kvs) (auto split: if_splits)

lemma all_states_set_prop: "all_states b kvs \<Longrightarrow> all_states b (set_prop k b kvs)"
  unfolding all_states_def using subset_trans [OF image_mono [OF set_set_prop [of k b kvs], of snd], of "{b}"] by simp

definition bulk_state :: "bool \<Rightarrow> jsval \<Rightarrow> (string \<times> bool) list \<Rightarrow> (string \<times> bool) list" where
  "bulk_state b item acc = (if truthy (get item ''sourceModel'') then set_prop (to_str (get item ''sourceModel'')) b acc else acc)"

lemma bulk_state_keys:
  "fst ` set (bulk_state b i acc) = fst ` set acc \<union> switch_models [i]"
  "all_states b acc \<Longrightarrow> all_states b (bulk_state b i acc)"
  by (auto simp: bulk_state_def switch_models_def keys_set_prop all_states_set_prop)

lemma switch_models_Cons: "switch_models (i # items) = switch_models [i] \<union> switch_models items"
  by (auto simp: switch_models_def)

lemma bulk_fold_keys: "fst ` set (fold (bulk_state b) items acc) = fst ` set acc \<union> switch_models items"
proof (induction items arbitrary: acc)
  case Nil
  then show ?case by (simp add: switch_models_def)
next
  case (Cons i items)
  then show ?case by (simp add: bulk_state_keys switch_models_Cons [of i items] Un_assoc)
qed

lemma bulk_fold_states: "all_states b acc \<Longrightarrow> all_states b (fold (bulk_state b) items acc)"
  by (induction items arbitrary: acc) (simp_all add: bulk_state_keys)

lemma bulk_states_keys:
  "fst ` set (bulk_states b items) = switch_models items" "all_states b (bulk_states b items)"
  using bulk_fold_keys [of b items "[]"] bulk_fold_states [of b "[]" items]
  by (simp_all add: bulk_states_def bulk_state_def [abs_def] all_states_def)

lemma set_own_entries: "set (own_entries kvs) = set kvs"
  by (auto simp: own_entries_def)

lemma map_of_writes_same:
  "all_states b ms \<Longrightarrow>
   map_of (foldl (\<lambda>d (m, b). if m = [] then d else draft_write config p m b d) d ms) m
   = (if m \<noteq> [] \<and> m \<in> fst ` set ms then (if b = savedProviderModelDisabled config p m then None else Some b) else map_of d m)"
  unfolding all_states_def by (induction ms arbitrary: d) (auto simp: map_of_draft_write split_beta)

text \<open>
  The bulk buttons stage exactly the rows of the current filters: after "disable shown" (or "enable shown") a
  model of the provider is off (or on) if it is the model of one of the filtered rows, and every other switch of this
  and of every other provider is where it was.
\<close>

lemma bulk_stages_filtered_rows:
  assumes "provider \<noteq> []"
  shows "isProviderModelDisabled (c_config c) (c_drafts (bulkClick tr lc provider b c)) q m
     = (if q = provider \<and> m \<noteq> [] \<and> m \<in> switch_models (drawer_rows tr lc c provider) then b
        else isProviderModelDisabled (c_config c) (c_drafts c) q m)"
proof -
  define ms where "ms = bulk_states b (drawer_rows tr lc c provider)"
  have keys: "fst ` set (own_entries ms) = switch_models (drawer_rows tr lc c provider)"
      "all_states b (own_entries ms)"
    using bulk_states_keys [of b "drawer_rows tr lc c provider"] by (simp_all add: ms_def set_own_entries all_states_def)
  show ?thesis
  proof (cases "ms = []")
    case True
    then have "switch_models (drawer_rows tr lc c provider) = {}" using keys(1) by (simp add: own_entries_def)
    then show ?thesis using True by (simp add: bulkClick_def ms_def Let_def)
  next
    case False
    then have "c_drafts (bulkClick tr lc provider b c) = setProviderModelsDisabledDraft (c_config c) provider ms (c_drafts c)"
      by (simp add: bulkClick_def ms_def Let_def)
    then show ?thesis
      using assms map_of_writes_same [OF keys(2), of "c_config c" provider "providerModelDraft (c_drafts c) provider" m]
      by (simp add: isProviderModelDisabled_def setProviderModelsDisabledDraft_def keys(1))
  qed
qed

section \<open>Saving\<close>

text \<open>
  Saved switches are read in two spellings, but written in one: switching a model on whose saved entry is in lower
  case removes nothing, and the page shows it off again while the request runs.
\<close>

lemma mixed_case_enable_not_shown:
  "savedProviderModelDisabled
     (oe_apply (model_disabled_edit ''p'' [(''GPT'', False)])
        (Obj [(''models'', Obj [(''provider_model_disabled'', Obj [(''p'', Obj [(''gpt'', Bool True)])])])])) ''p'' ''GPT''"
  by code_simp

text \<open>A refresh of a provider's models starts only when none is running for it.\<close>

lemma model_refresh_single_flight:
  "snd (startModelRefresh p running) \<Longrightarrow> \<not> snd (startModelRefresh p (fst (startModelRefresh p running)))"
  "p \<noteq> [] \<Longrightarrow> snd (startModelRefresh p (finishModelRefresh p running))"
  by (auto simp: startModelRefresh_def finishModelRefresh_def split: if_splits)

end
