(* ===== verification/ModelEditors.thy ===== *)
theory ModelEditors
  imports ProviderCatalog BrandIcons
begin

text \<open>
  The editors the pencil of a catalogue row opens (\<open>app.js\<close>): a variant group, a static declaration, or a
  mapping of a client name to an upstream model with its probe. Each is a record of what the dialog holds; what the
  operator does and what the server answers are functions on it. The probe and the saves are cut at their awaits.
\<close>

section \<open>Shared markup\<close>

definition modelMapKeyOwnersHtml :: "translator \<Rightarrow> key_owner list \<Rightarrow> string" where
  "modelMapKeyOwnersHtml tr owners =
     (if owners = [] then (''<div class=\"model-map-key-owners is-empty\" data-model-map-key-owners'' @
        '' role=\"group\" aria-label=\"'' @ (esc (tr ''modal.key_owner_title'' [])) @ ''\">'' @
        nl 8 @ ''<span>'' @ (esc (tr ''modal.key_owner_none'' [])) @ ''</span>'' @ nl 6 @
        ''</div>'')
      else (''<div class=\"model-map-key-owners\" data-model-map-key-owners role=\"group\"'' @
         '' aria-label=\"'' @ (esc (tr ''modal.key_owner_title'' [])) @ ''\">'' @ nl 6 @
         (concat (map (\<lambda>owner. let label = (if ko_masked owner \<noteq> [] then ko_masked owner else ko_id owner) in (nl 8 @
           ''<button type=\"button\" class=\"model-map-key-chip\" data-model-map-key-chip=\"'' @
           (escapeHtml (Num (ko_index owner))) @ ''\"'' @ nl 10 @ ''aria-pressed=\"false\"'' @
           nl 10 @ ''title=\"'' @
           (esc (((tr ''modal.key_owner_title'' []) @ '' '' @ [CHR 0xB7] @ '' '' @ label @ '' '' @
             [CHR 0xB7] @ '' '' @ ko_status owner))) @ ''\">'' @ nl 10 @
           ''<span class=\"mono\">#'' @ (escapeHtml (Num (ko_index owner))) @ ''</span>'' @
           nl 10 @ ''<small>'' @ esc label @ ''</small>'' @ nl 8 @ ''</button>'' @ nl 6)) owners)) @
         nl 4 @ ''</div>''))"

definition providerModelMemberRowHtml :: "translator \<Rightarrow> jsval \<Rightarrow> string" where
  "providerModelMemberRowHtml tr member =
     (let model = trimmed (get member ''model'');
          n = to_num (get member ''priority''); priority = (if num_truthy n then n else Fin 0) in (nl 6 @ ''<div class=\"model-map-member-row\" data-model-map-member-row>'' @ nl 8 @
             ''<input class=\"control mono model-map-member-model\" name=\"member_model\"'' @
             '' list=\"model-map-member-choices\"'' @ nl 10 @ ''value=\"'' @ esc model @
             ''\" placeholder=\"'' @ (esc (tr ''prov.models.raw_variants'' [])) @ ''\"'' @ nl 10 @
             ''aria-label=\"'' @ (esc (tr ''prov.models.variant_member_model'' [])) @
             ''\" autocomplete=\"off\" spellcheck=\"false\" />'' @ nl 8 @
             ''<input class=\"control model-map-member-priority\" name=\"member_priority\"'' @
             '' type=\"number\" min=\"-1000\" max=\"1000\" step=\"1\"'' @ nl 10 @ ''value=\"'' @
             (escapeHtml (Num priority)) @ ''\" aria-label=\"'' @
             (esc (tr ''prov.models.variant_member_priority'' [])) @ ''\" />'' @ nl 8 @
             ''<button class=\"button small secondary icon-action\" type=\"button\"'' @
             '' data-model-map-member-remove'' @ nl 10 @ ''title=\"'' @
             (esc (tr ''prov.models.remove_variant_member_for'' [(''model'', Str (if model \<noteq> [] then model else ''-''))])) @
             ''\"'' @ nl 10 @ ''aria-label=\"'' @
             (esc (tr ''prov.models.remove_variant_member'' [])) @ ''\">'' @ iconSvg ''trash'' @
             ''</button>'' @ nl 6 @ ''</div>'' @ nl 4))"

definition providerModelKindTone :: "string \<Rightarrow> string" where
  "providerModelKindTone kind =
     (if kind = ''variant'' then ''variant'' else if kind = ''static'' then ''static''
      else if kind = ''renamed'' then ''route-info'' else ''ok'')"

text \<open>\<open>item\<close> is \<open>Undef\<close> when the editor has no row.\<close>

definition providerModelKindStrip :: "translator \<Rightarrow> string \<Rightarrow> jsval \<Rightarrow> bool \<Rightarrow> string" where
  "providerModelKindStrip tr kind item secondary =
     (let others = filter (\<lambda>s. s \<noteq> Str kind) (arr_or_empty (get item ''sources''));
          warnings = map (providerCatalogWarningLabel tr) (arr_or_empty (get item ''warnings'')) in (nl 6 @ ''<div class=\"model-map-kind-strip'' @
             (if secondary then ('' is-secondary'') else []) @ ''\" data-model-map-kind=\"'' @
             esc kind @ ''\">'' @ nl 8 @ ''<div class=\"model-map-kind-head\">'' @ nl 10 @
             ''<span class=\"model-map-kind-label\">'' @
             (esc (tr ''prov.models.current_kind'' [])) @ ''</span>'' @ nl 10 @
             (badge (Str (tr (''prov.models.kind_'' @ kind) [])) (providerModelKindTone kind)) @
             nl 10 @ (concat (map (\<lambda>s. (''<span class=\"model-map-kind-also\">'' @
               (esc (tr ''prov.models.kind_also'' [(''kind'', Str (tr (''prov.models.kind_'' @ to_str s) []))])) @
               ''</span>'')) others)) @ nl 8 @ ''</div>'' @ nl 8 @
             ''<small class=\"model-map-kind-hint\">'' @
             (esc (tr (''prov.models.kind_hint_'' @ kind) [])) @ ''</small>'' @ nl 8 @
             (if warnings \<noteq> [] then (''<ul class=\"model-map-kind-warnings\">'' @
               (concat (map (\<lambda>line. (''<li>'' @ esc line @ ''</li>'')) warnings)) @
               ''</ul>'') else []) @ nl 6 @ ''</div>'' @ nl 4))"

definition action_attrs :: "string \<Rightarrow> string" where
  "action_attrs label = (''title=\"'' @ esc label @ ''\" aria-label=\"'' @ esc label @ ''\"'')"

definition cancel_button :: "translator \<Rightarrow> string" where
  "cancel_button tr = (''<button class=\"model-map-action secondary\" type=\"button\"'' @
     '' data-model-map-cancel '' @ (action_attrs (tr ''form.cancel'' [])) @ ''>'' @
     iconSvg ''x'' @ ''</button>'')"

definition save_button :: "string \<Rightarrow> string" where
  "save_button label = (''<button class=\"model-map-action primary\" type=\"submit\" '' @ action_attrs label @
     ''>'' @ iconSvg ''save'' @ ''</button>'')"

section \<open>Variant groups\<close>

definition variantModalBody :: "translator \<Rightarrow> string list \<Rightarrow> jsval \<Rightarrow> string" where
  "variantModalBody tr choices item =
     (let members = arr_or_empty (get item ''variants'') in (nl 8 @ ''<form class=\"model-map-form model-map-variant-group\"'' @
        '' data-provider-model-map-form>'' @ nl 10 @
        providerModelKindStrip tr ''variant'' item False @ nl 10 @
        ''<label class=\"model-map-field\">'' @ nl 12 @ ''<span>'' @
        (esc (tr ''prov.models.client_model'' [])) @ ''</span>'' @ nl 12 @
        ''<input name=\"model\" value=\"'' @ (escapeHtml (get item ''label'')) @
        ''\" autocomplete=\"off\" spellcheck=\"false\" />'' @ nl 10 @ ''</label>'' @ nl 10 @
        ''<fieldset class=\"model-map-members\">'' @ nl 12 @ ''<legend>'' @
        (esc (tr ''prov.models.variant_members'' [(''count'', Str (fmtInt (jnum (of_nat (length members)))))])) @
        ''</legend>'' @ nl 12 @ ''<datalist id=\"model-map-member-choices\">'' @ nl 14 @
        (concat (map (\<lambda>choice. (''<option value=\"'' @ esc choice @ ''\"></option>'')) choices)) @
        nl 12 @ ''</datalist>'' @ nl 12 @
        ''<div class=\"model-map-member-list\" data-model-map-member-list>'' @ nl 14 @
        (concat (map (providerModelMemberRowHtml tr) members)) @ nl 12 @ ''</div>'' @ nl 12 @
        ''<button class=\"button small secondary\" type=\"button\"'' @
        '' data-model-map-member-add>'' @ iconSvg ''plus'' @
        (esc (tr ''prov.models.add_variant_member'' [])) @ ''</button>'' @ nl 12 @
        ''<small class=\"muted\">'' @ (esc (tr ''prov.models.variant_members_help'' [])) @
        ''</small>'' @ nl 10 @ ''</fieldset>'' @ nl 10 @ ''<div class=\"model-map-actions\">'' @
        nl 12 @ cancel_button tr @ nl 12 @ (save_button (tr ''prov.models.save_alias'' [])) @
        nl 10 @ ''</div>'' @ nl 8 @ ''</form>'' @ nl 6))"

record member_row =
  mr_model :: string
  mr_priority :: string

record variant_editor =
  ve_provider :: string
  ve_label :: string
  ve_name :: string
  ve_rows :: "member_row list"
  ve_inFlight :: bool
  ve_open :: bool

text \<open>The values the inputs of the rows start with are those their markup names.\<close>

definition member_row_of :: "jsval \<Rightarrow> member_row" where
  "member_row_of member =
     \<lparr>mr_model = trimmed (get member ''model''),
      mr_priority = (let n = to_num (get member ''priority'') in num_to_str (if num_truthy n then n else Fin 0))\<rparr>"

definition openProviderVariantGroupModal :: "string \<Rightarrow> jsval \<Rightarrow> variant_editor option" where
  "openProviderVariantGroupModal provider item =
     (if provider = [] \<or> \<not> truthy item then None
      else Some \<lparr>ve_provider = provider, ve_label = to_str (get item ''label''), ve_name = to_str (get item ''label''),
                 ve_rows = map member_row_of (arr_or_empty (get item ''variants'')), ve_inFlight = False, ve_open = True\<rparr>)"

definition addMember :: "variant_editor \<Rightarrow> variant_editor" where
  "addMember e = e\<lparr>ve_rows := ve_rows e @ [\<lparr>mr_model = [], mr_priority = ''0''\<rparr>]\<rparr>"

definition removeMember :: "nat \<Rightarrow> variant_editor \<Rightarrow> variant_editor" where
  "removeMember i e = e\<lparr>ve_rows := take i (ve_rows e) @ drop (Suc i) (ve_rows e)\<rparr>"

definition collectMembers :: "variant_editor \<Rightarrow> jsval" where
  "collectMembers e =
     Arr (map (\<lambda>r. Obj [(''model'', Str (js_trim (mr_model r))), (''priority'', Num (num_or_zero (Str (mr_priority r))))])
       (filter (\<lambda>r. js_trim (mr_model r) \<noteq> []) (ve_rows e)))"

definition variant_plan :: "(string \<Rightarrow> string \<Rightarrow> bool) \<Rightarrow> console \<Rightarrow> variant_editor \<Rightarrow> group_plan" where
  "variant_plan lc c e =
     planVariantGroupSave (Str (ve_label e)) (Str (js_trim (ve_name e))) (collectMembers e)
       (providerCatalogTakenIds lc c (ve_provider e) (ve_label e))"

text \<open>A submit is ignored, asks before it overwrites a name, or saves; the answer of the dialog leads to \<open>saveVariant\<close>.\<close>

datatype variant_submit = VIgnored | VAsk clash group_plan | VSave group_plan

definition submitVariant :: "(string \<Rightarrow> string \<Rightarrow> bool) \<Rightarrow> console \<Rightarrow> variant_editor \<Rightarrow> variant_submit" where
  "submitVariant lc c e =
     (if ve_inFlight e then VIgnored
      else let plan = variant_plan lc c e in
        if gp_writes plan = [] then VIgnored
        else case gp_clash plan of Some clash \<Rightarrow> VAsk clash plan | None \<Rightarrow> VSave plan)"

definition clash_message :: "translator \<Rightarrow> clash \<Rightarrow> string" where
  "clash_message tr clash =
     (if clash_source clash = ''variant'' then tr ''modal.rename_clash_variant'' [(''id'', Str (clash_id clash))]
      else tr ''modal.rename_clash_other''
        [(''id'', Str (clash_id clash)),
         (''kind'', Str (tr (''prov.models.kind_'' @ (if clash_source clash \<noteq> [] then clash_source clash else ''discovered'')) []))])"

definition saveVariant :: "group_plan \<Rightarrow> variant_editor \<Rightarrow> variant_editor \<times> optimistic_edit option" where
  "saveVariant plan e = (e\<lparr>ve_inFlight := True\<rparr>, variant_group_edit (ve_provider e) plan)"

definition finishVariant :: "bool \<Rightarrow> variant_editor \<Rightarrow> variant_editor" where
  "finishVariant saved e = e\<lparr>ve_inFlight := False, ve_open := ve_open e \<and> \<not> saved\<rparr>"

section \<open>Static declarations\<close>

definition staticModalBody :: "translator \<Rightarrow> string list \<Rightarrow> jsval \<Rightarrow> string" where
  "staticModalBody tr existing item =
     (let removal = tr ''prov.models.remove_model'' [(''model'', get item ''label'')] in (nl 8 @ ''<form class=\"model-map-form\" data-provider-model-map-form>'' @ nl 10 @
        providerModelKindStrip tr ''static'' item False @ nl 10 @
        ''<label class=\"model-map-field\">'' @ nl 12 @ ''<span>'' @
        (esc (tr ''prov.models.client_model'' [])) @ ''</span>'' @ nl 12 @
        ''<input name=\"model\" value=\"'' @ (escapeHtml (get item ''label'')) @
        ''\" autocomplete=\"off\" spellcheck=\"false\" />'' @ nl 10 @ ''</label>'' @ nl 10 @
        ''<div class=\"model-map-raw-line\">'' @ nl 12 @ ''<span>'' @
        (esc (tr ''prov.models.static_list'' [])) @ ''</span>'' @ nl 12 @ ''<code>'' @
        (esc (js_join '', '' existing)) @ ''</code>'' @ nl 10 @ ''</div>'' @ nl 10 @
        ''<div class=\"model-map-clash-warning\" data-model-map-clash hidden></div>'' @ nl 10 @
        ''<div class=\"model-map-actions\">'' @ nl 12 @ cancel_button tr @ nl 12 @
        ''<button class=\"model-map-action danger\" type=\"button\" data-model-map-remove '' @
        action_attrs removal @ ''>'' @ iconSvg ''trash'' @ ''</button>'' @ nl 12 @
        (save_button (tr ''prov.models.save_alias'' [])) @ nl 10 @ ''</div>'' @ nl 8 @
        ''</form>'' @ nl 6))"

text \<open>\<open>existing\<close> is read when the editor opens.\<close>

record static_editor =
  se_provider :: string
  se_label :: string
  se_existing :: "string list"
  se_name :: string
  se_inFlight :: bool
  se_open :: bool
  se_clash :: "string option"

definition openProviderStaticModelModal :: "console \<Rightarrow> string \<Rightarrow> jsval \<Rightarrow> static_editor option" where
  "openProviderStaticModelModal c provider item =
     (if provider = [] \<or> \<not> truthy item then None
      else Some \<lparr>se_provider = provider, se_label = to_str (get item ''label''),
                 se_existing = normalizeStaticModelIds (get (config_of c provider) ''static_models''),
                 se_name = to_str (get item ''label''), se_inFlight = False, se_open = True, se_clash = None\<rparr>)"

definition static_write :: "string list \<Rightarrow> static_editor \<Rightarrow> static_editor \<times> optimistic_edit option" where
  "static_write models e =
     (if se_inFlight e then (e, None)
      else (e\<lparr>se_inFlight := True\<rparr>, static_list_edit (se_provider e) models))"

definition removeStatic :: "static_editor \<Rightarrow> static_editor \<times> optimistic_edit option" where
  "removeStatic e =
     static_write (sp_models (planStaticModelSave (Arr (map Str (se_existing e))) (Str (se_label e)) Undef True)) e"

definition submitStatic :: "static_editor \<Rightarrow> static_editor \<times> optimistic_edit option" where
  "submitStatic e =
     (if se_inFlight e then (e, None)
      else
      let plan = planStaticModelSave (Arr (map Str (se_existing e))) (Str (se_label e)) (Str (js_trim (se_name e))) False in
      case sp_clash plan of
        Some clash \<Rightarrow> (e\<lparr>se_clash := Some (clash_id clash)\<rparr>, None)
      | None \<Rightarrow> if \<not> sp_renamed plan then (e\<lparr>se_open := False\<rparr>, None) else static_write (sp_models plan) e)"

definition finishStatic :: "bool \<Rightarrow> static_editor \<Rightarrow> static_editor" where
  "finishStatic saved e = e\<lparr>se_inFlight := False, se_open := se_open e \<and> \<not> saved\<rparr>"

section \<open>Mappings\<close>

definition mappingModalBody :: "translator \<Rightarrow> string \<Rightarrow> string \<Rightarrow> bool \<Rightarrow> string \<Rightarrow> jsval \<Rightarrow> key_owner list \<Rightarrow> string" where
  "mappingModalBody tr oldModel rawModel isManual kind item owners = (nl 8 @ ''<form class=\"model-map-form\" data-provider-model-map-form>'' @ nl 10 @
     ''<div class=\"model-map-raw-hero\">'' @ nl 12 @
     ''<span class=\"model-map-raw-hero-icon\">'' @
     (modelBrandIconMarkup (Str rawModel) (iconSvg ''boxes'')) @ ''</span>'' @ nl 12 @
     ''<div class=\"model-map-raw-hero-text\">'' @ nl 14 @
     ''<span class=\"model-map-raw-hero-label\">'' @
     (esc (tr ''prov.models.upstream_model'' [])) @ ''</span>'' @ nl 14 @
     ''<strong class=\"mono\">'' @ esc rawModel @ ''</strong>'' @ nl 14 @ ''<small>'' @
     (esc (tr ''prov.models.raw_hero_hint'' [])) @ ''</small>'' @ nl 12 @ ''</div>'' @ nl 10 @
     ''</div>'' @ nl 10 @ ''<label class=\"model-map-field\">'' @ nl 12 @ ''<span>'' @
     (esc (tr ''prov.models.client_model'' [])) @ ''</span>'' @ nl 12 @
     ''<input name=\"model\" value=\"'' @ esc oldModel @
     ''\" autocomplete=\"off\" spellcheck=\"false\" />'' @ nl 10 @ ''</label>'' @ nl 10 @
     (if isManual then (''<p class=\"model-map-hint\">'' @ (esc (tr ''prov.models.empty_name_restores'' [])) @
       ''</p>'') else []) @ nl 10 @
     ''<div class=\"model-map-test-panel\" data-model-map-test-panel>'' @ nl 12 @
     ''<div class=\"model-map-test-head\">'' @ nl 14 @ ''<span class=\"model-map-test-title\">'' @
     (esc (tr ''modal.mapping_test'' [])) @ ''</span>'' @ nl 14 @
     ''<button class=\"model-map-action secondary model-map-test-button\"'' @
     '' type=\"button\" data-model-map-test '' @
     (action_attrs (tr ''modal.mapping_test_action'' [])) @ ''>'' @ iconSvg ''activity'' @
     ''<span>'' @ (esc (tr ''modal.mapping_test_action'' [])) @ ''</span></button>'' @ nl 12 @
     ''</div>'' @ nl 12 @ modelMapKeyOwnersHtml tr owners @ nl 12 @
     ''<div class=\"model-map-test-result\" data-model-map-test-result'' @
     '' aria-live=\"polite\" hidden></div>'' @ nl 10 @ ''</div>'' @ nl 10 @
     ''<div class=\"model-map-clash-warning\" data-model-map-clash hidden></div>'' @ nl 10 @
     ''<div class=\"model-map-actions\">'' @ nl 12 @ providerModelKindStrip tr kind item True @
     nl 12 @ ''<div class=\"model-map-actions-buttons\">'' @ nl 14 @ cancel_button tr @ nl 14 @
     (if isManual then (''<button class=\"model-map-action danger\" type=\"button\" data-model-map-reset '' @
       (action_attrs (tr ''prov.models.reset_mapping'' [])) @ ''>'' @ iconSvg ''trash'' @
       ''</button>'') else []) @ nl 14 @ (save_button (tr ''prov.models.save_mapping'' [])) @
     nl 12 @ ''</div>'' @ nl 10 @ ''</div>'' @ nl 8 @ ''</form>'' @ nl 6)"

text \<open>What the warning in the form says: the upstream model edited, the name and its owner, or the group that owns it.\<close>

datatype mapping_warning = MappingClash string string string | VariantOwner string string

definition warning_markup :: "translator \<Rightarrow> mapping_warning \<Rightarrow> string" where
  "warning_markup tr w =
     (case w of
        VariantOwner name owner \<Rightarrow> (iconSvg ''alert'' @ ''<div><strong>'' @
           (esc (tr ''modal.mapping_variant_owner_title'' [])) @ ''</strong><small>'' @
           (esc (tr ''modal.mapping_variant_owner_msg'' [(''name'', Str name), (''owner'', Str owner)])) @
           ''</small></div>'')
      | MappingClash editing name owner \<Rightarrow> (iconSvg ''alert'' @ ''<div><strong>'' @ (esc (tr ''modal.mapping_clash_title'' [])) @
         ''</strong><small>'' @
         (esc (tr ''modal.mapping_clash_msg'' [(''editingRaw'', Str editing), (''name'', Str name), (''ownerRaw'', Str owner)])) @
         ''</small></div>''))"

datatype probe_box = Running | ProbeOk string | ProbeBad string

record mapping_editor =
  me_provider :: string
  me_old :: string
  me_raw :: string
  me_manual :: bool
  me_owners :: "key_owner list"
  me_text :: string
  me_acknowledged :: bool
  me_inFlight :: bool
  me_open :: bool
  me_warning :: "mapping_warning option"
  me_danger :: bool
  me_selected :: "jsnum option"
  me_testing :: bool
  me_outcomes :: "(string \<times> bool \<times> string) list"
  me_box :: "probe_box option"

text \<open>The chips are found by their data attribute, the text of the key index.\<close>

definition chip_attr :: "jsnum \<Rightarrow> string" where
  "chip_attr i = num_to_str i"

definition openProviderModelMappingModal ::
  "console \<Rightarrow> string \<Rightarrow> string \<Rightarrow> string \<Rightarrow> bool \<Rightarrow> mapping_editor option" where
  "openProviderModelMappingModal c provider oldModel rawModel isManual =
     (if provider = [] \<or> oldModel = [] \<or> rawModel = [] then None
      else let owners = fst (modelMapKeyOwners c provider rawModel oldModel) in
        Some \<lparr>me_provider = provider, me_old = oldModel, me_raw = rawModel, me_manual = isManual, me_owners = owners,
              me_text = oldModel, me_acknowledged = False, me_inFlight = False, me_open = True, me_warning = None,
              me_danger = False, me_selected = (case owners of [] \<Rightarrow> None | o1 # _ \<Rightarrow> Some (ko_index o1)),
              me_testing = False, me_outcomes = [], me_box = None\<rparr>)"

definition findClash :: "(string \<Rightarrow> string \<Rightarrow> bool) \<Rightarrow> console \<Rightarrow> mapping_editor \<Rightarrow> string \<Rightarrow> jsval option" where
  "findClash lc c e target =
     (if target = [] then None
      else find (\<lambda>item. label_key item = ckey target
                 \<and> trimmed (get item ''raw'') \<noteq> js_trim (me_raw e) \<and> label_key item \<noteq> ckey (me_old e))
             (fst (providerModelItems lc c (me_provider e) (capability_of c (me_provider e)))))"

definition variantGroupOwner :: "console \<Rightarrow> mapping_editor \<Rightarrow> string \<Rightarrow> string" where
  "variantGroupOwner c e target =
     (let groups = obj_or_empty (get (get (get (c_config c) ''models'') ''provider_model_variants'') (me_provider e)) in
      case find (\<lambda>kv. ckey (fst kv) = ckey target \<and> ckey target \<noteq> ckey (me_old e)) (js_entries groups) of
        Some kv \<Rightarrow> fst kv | None \<Rightarrow> [])"

definition typeName :: "string \<Rightarrow> mapping_editor \<Rightarrow> mapping_editor" where
  "typeName s e = e\<lparr>me_text := s, me_acknowledged := False, me_warning := None, me_danger := False\<rparr>"

definition mapping_old_id :: "mapping_editor \<Rightarrow> string" where
  "mapping_old_id e = providerModelMappingOldId (Obj [(''label'', Str (me_old e)), (''manual'', Bool (me_manual e))])"

datatype mapping_submit = MIgnored | MRequired | MClosed | MWarned | MSend optimistic_edit

definition submitMapping ::
  "(string \<Rightarrow> string \<Rightarrow> bool) \<Rightarrow> console \<Rightarrow> mapping_editor \<Rightarrow> mapping_editor \<times> mapping_submit" where
  "submitMapping lc c e =
     (let nextModel = js_trim (me_text e); clash = findClash lc c e nextModel; owner = variantGroupOwner c e nextModel in
      if me_inFlight e then (e, MIgnored)
      else if nextModel = [] \<and> \<not> me_manual e then (e, MRequired)
      else if nextModel = me_old e then (e\<lparr>me_open := False\<rparr>, MClosed)
      else if (clash \<noteq> None \<or> owner \<noteq> []) \<and> \<not> me_acknowledged e then
        (e\<lparr>me_acknowledged := True, me_danger := True,
           me_warning := Some (case clash of
               None \<Rightarrow> VariantOwner nextModel owner
             | Some item \<Rightarrow> MappingClash (me_raw e) nextModel (to_str (jor (get item ''raw'') (Str (me_raw e)))))\<rparr>, MWarned)
      else case mapping_edit (me_provider e) (mapping_old_id e) (me_raw e) nextModel of
             None \<Rightarrow> (e, MIgnored)
           | Some edit \<Rightarrow> (e\<lparr>me_inFlight := True\<rparr>, MSend edit))"

definition finishMapping :: "bool \<Rightarrow> mapping_editor \<Rightarrow> mapping_editor" where
  "finishMapping saved e = e\<lparr>me_inFlight := False, me_open := me_open e \<and> \<not> saved\<rparr>"

definition resetMapping :: "mapping_editor \<Rightarrow> optimistic_edit option" where
  "resetMapping e = mapping_edit (me_provider e) (mapping_old_id e) (me_raw e) []"

section \<open>The probe\<close>

definition selectKey :: "jsnum \<Rightarrow> mapping_editor \<Rightarrow> mapping_editor" where
  "selectKey i e = e\<lparr>me_selected := Some i\<rparr>"

definition outcome_text :: "jsval \<Rightarrow> string" where
  "outcome_text outcome =
     (if truthy (get outcome ''ok'') then fmtInt (jor (get outcome ''latency_ms'') (jnum 0)) @ ''ms''
      else if truthy (get outcome ''http_status'') then ''HTTP '' @ to_str (get outcome ''http_status'')
      else to_str (jor (get outcome ''error_type'') (Str ''fail'')))"

definition markKeyOutcome :: "jsnum option \<Rightarrow> jsval \<Rightarrow> mapping_editor \<Rightarrow> mapping_editor" where
  "markKeyOutcome keyIndex outcome e =
     (case keyIndex of
        None \<Rightarrow> e
      | Some i \<Rightarrow> if chip_attr i \<in> (\<lambda>o1. chip_attr (ko_index o1)) ` set (me_owners e)
                  then e\<lparr>me_outcomes := set_prop (chip_attr i) (truthy (get outcome ''ok''), outcome_text outcome) (me_outcomes e)\<rparr>
                  else e)"

record probe_handle =
  ph_payload :: "(string \<times> jsval) list"
  ph_suffix :: string

definition via_key :: "translator \<Rightarrow> jsnum option \<Rightarrow> string" where
  "via_key tr selected =
     (case selected of None \<Rightarrow> [] | Some i \<Rightarrow> ('' '' @ (esc (tr ''modal.test_via_key'' [(''index'', Num i)]))))"

definition startProbe :: "translator \<Rightarrow> mapping_editor \<Rightarrow> mapping_editor \<times> probe_handle option" where
  "startProbe tr e =
     (if me_testing e then (e, None)
      else (e\<lparr>me_testing := True, me_box := Some Running\<rparr>,
            Some \<lparr>ph_payload = [(''provider'', Str (me_provider e)), (''model'', Str (me_raw e))]
                      @ (case me_selected e of None \<Rightarrow> [] | Some i \<Rightarrow> [(''key_index'', Num i)]),
                  ph_suffix = via_key tr (me_selected e)\<rparr>))"

definition probe_error_text :: "jsval \<Rightarrow> string" where
  "probe_error_text result =
     js_join [CHR 0x20, CHR 0xB7, CHR 0x20] (filter (\<lambda>s. s \<noteq> [])
       [to_str (jor (get result ''error_type'') (Str [])),
        if truthy (get result ''http_status'') then ''HTTP '' @ to_str (get result ''http_status'') else [],
        to_str (jor (get result ''error'') (Str []))])"

text \<open>\<open>errorMessage(err)\<close>, called with one argument.\<close>

definition thrown_text :: "jsval \<Rightarrow> string" where
  "thrown_text err = (let m = get (get err ''error'') ''message'' in if truthy m then to_str m else ''HTTP undefined'')"

text \<open>\<open>Inl err\<close> when the request throws.\<close>

definition finishProbe :: "translator \<Rightarrow> probe_handle \<Rightarrow> jsval + jsval \<Rightarrow> mapping_editor \<Rightarrow> mapping_editor" where
  "finishProbe tr h reply e0 =
     (let e = e0\<lparr>me_testing := False\<rparr> in
      case reply of
        Inr resp \<Rightarrow>
          (let result = jor (get resp ''result'') (Obj []); e1 = markKeyOutcome (me_selected e) result e in
           e1\<lparr>me_box := Some (if truthy (get result ''ok'')
             then ProbeOk (esc (tr ''modal.mapping_test_ok'' [(''ms'', Str (fmtInt (jor (get result ''latency_ms'') (jnum 0))))]) @ ph_suffix h)
             else ProbeBad (esc (tr ''modal.mapping_test_failed''
                    [(''error'', Str (if probe_error_text result \<noteq> [] then probe_error_text result else ''unknown''))]) @ ph_suffix h))\<rparr>)
      | Inl err \<Rightarrow>
          (markKeyOutcome (me_selected e) (Obj [(''ok'', Bool False), (''error_type'', Str ''request_error'')]) e)
            \<lparr>me_box := Some (ProbeBad (esc (tr ''modal.mapping_test_failed'' [(''error'', Str (thrown_text err))])))\<rparr>)"

definition probe_box_markup :: "translator \<Rightarrow> probe_box \<Rightarrow> string" where
  "probe_box_markup tr box =
     (case box of
        Running \<Rightarrow> (refreshSpinner @ ''<span>'' @ (esc (tr ''modal.mapping_test_running'' [])) @ ''</span>'')
      | ProbeOk text \<Rightarrow> (iconSvg ''check'' @ ''<span>'' @ text @ ''</span>'')
      | ProbeBad text \<Rightarrow> (iconSvg ''alert'' @ ''<span>'' @ text @ ''</span>''))"

definition chip_outcome_markup :: "bool \<times> string \<Rightarrow> string" where
  "chip_outcome_markup o1 = (''<small class=\"model-map-key-chip-result '' @ (if fst o1 then ''is-ok'' else ''is-bad'') @
     ''\">'' @ (esc (snd o1)) @ ''</small>'')"

end
