(* ===== verification/ModelEditorsFacts.thy ===== *)
theory ModelEditorsFacts
  imports ModelEditors ProviderCatalogFacts ConfigFormsFacts
begin

text \<open>
  What the editors promise: the two-stage guard of the mapping editor as a step relation with its invariant, what a
  save of the other two editors writes, and where the outcome of a probe ends.
\<close>

section \<open>The two-stage guard\<close>

text \<open>Everything that may happen to an open mapping editor; the configuration may be another one at every submit.\<close>

inductive mapping_step :: "translator \<Rightarrow> (string \<Rightarrow> string \<Rightarrow> bool) \<Rightarrow> mapping_editor \<Rightarrow> mapping_editor \<Rightarrow> bool"
  for tr lc where
  type_name: "mapping_step tr lc e (typeName s e)"
| submit: "mapping_step tr lc e (fst (submitMapping lc c e))"
| reply: "mapping_step tr lc e (finishMapping saved e)"
| select_key: "mapping_step tr lc e (selectKey i e)"
| probe: "mapping_step tr lc e (fst (startProbe tr e))"
| probed: "mapping_step tr lc e (finishProbe tr h r e)"

inductive mapping_reachable :: "translator \<Rightarrow> (string \<Rightarrow> string \<Rightarrow> bool) \<Rightarrow> mapping_editor \<Rightarrow> bool" for tr lc where
  opened: "openProviderModelMappingModal c p oldModel rawModel isManual = Some e \<Longrightarrow> mapping_reachable tr lc e"
| step: "mapping_reachable tr lc e \<Longrightarrow> mapping_step tr lc e e' \<Longrightarrow> mapping_reachable tr lc e'"

definition warned_name :: "mapping_warning \<Rightarrow> string" where
  "warned_name w = (case w of MappingClash _ name _ \<Rightarrow> name | VariantOwner name _ \<Rightarrow> name)"

definition guard_ok :: "mapping_editor \<Rightarrow> bool" where
  "guard_ok e \<longleftrightarrow> (me_acknowledged e \<longrightarrow>
     me_danger e \<and> map_option warned_name (me_warning e) = Some (js_trim (me_text e)))"

lemma guard_ok_cong:
  "me_acknowledged e' = me_acknowledged e \<Longrightarrow> me_danger e' = me_danger e \<Longrightarrow> me_warning e' = me_warning e
   \<Longrightarrow> me_text e' = me_text e \<Longrightarrow> guard_ok e' = guard_ok e"
  by (simp add: guard_ok_def)

lemma guard_probe: "guard_ok (fst (startProbe tr e)) = guard_ok e" "guard_ok (finishProbe tr h r e) = guard_ok e"
  by (rule guard_ok_cong;
      simp add: startProbe_def finishProbe_def markKeyOutcome_def Let_def split: option.splits sum.splits)+

lemma guard_submit: "guard_ok e \<Longrightarrow> guard_ok (fst (submitMapping lc c e))"
  by (auto simp: submitMapping_def Let_def guard_ok_def warned_name_def split: option.splits)

lemma guard_step: "mapping_step tr lc e e' \<Longrightarrow> guard_ok e \<Longrightarrow> guard_ok e'"
  by (induction rule: mapping_step.induct)
     (simp_all add: guard_probe guard_submit, simp_all add: guard_ok_def typeName_def finishMapping_def selectKey_def)

lemma guard_reachable: "mapping_reachable tr lc e \<Longrightarrow> guard_ok e"
  by (induction rule: mapping_reachable.induct)
     (auto simp: openProviderModelMappingModal_def Let_def guard_ok_def split: if_splits dest: guard_step)

lemma sent_was_acknowledged:
  assumes "submitMapping lc c e = (e', MSend edit)"
    and "findClash lc c e (js_trim (me_text e)) \<noteq> None \<or> variantGroupOwner c e (js_trim (me_text e)) \<noteq> []"
  shows "me_acknowledged e \<and> me_warning e' = me_warning e \<and> me_danger e' = me_danger e"
  using assms by (auto simp: submitMapping_def Let_def split: if_splits option.splits)

text \<open>
  C25. A mapping is never moved onto a name that belongs to someone else without a warning: whatever the operator
  typed, clicked and probed before, and however often the configuration was refreshed under the editor, a submit that
  sends a rename onto the name of another item or of a variant group finds the warning on screen, with that very
  name in it, and the button in its "rename anyway" state.
\<close>

theorem mapping_rename_was_warned:
  assumes "mapping_reachable tr lc e" and "submitMapping lc c e = (e', MSend edit)"
    and "findClash lc c e (js_trim (me_text e)) \<noteq> None \<or> variantGroupOwner c e (js_trim (me_text e)) \<noteq> []"
  shows "me_danger e' \<and> (\<exists>w. me_warning e' = Some w \<and> warned_name w = js_trim (me_text e))"
  using guard_reachable [OF assms(1)] sent_was_acknowledged [OF assms(2,3)]
  by (auto simp: guard_ok_def)

text \<open>The sample provider has the models \<open>glm\<close> and \<open>qwen\<close>; the second is given the name of the first.\<close>

definition opened_editor :: mapping_editor where
  "opened_editor = the (openProviderModelMappingModal sample_console ''p'' ''qwen'' ''qwen'' False)"

definition warned_editor :: mapping_editor where
  "warned_editor = fst (submitMapping string_le sample_console (typeName '' GLM '' opened_editor))"

lemma warned_reachable: "mapping_reachable tr string_le warned_editor"
proof -
  have "openProviderModelMappingModal sample_console ''p'' ''qwen'' ''qwen'' False = Some opened_editor"
    unfolding opened_editor_def by (simp add: openProviderModelMappingModal_def Let_def)
  then have "mapping_reachable tr string_le opened_editor" by (rule mapping_reachable.opened)
  then show ?thesis
    unfolding warned_editor_def by (meson mapping_reachable.step mapping_step.type_name mapping_step.submit)
qed

theorem mapping_rename_was_warned_witness:
  "\<exists>w. me_warning (fst (submitMapping string_le sample_console warned_editor)) = Some w \<and> warned_name w = ''GLM''"
proof -
  have "case snd (submitMapping string_le sample_console warned_editor) of MSend _ \<Rightarrow> True | _ \<Rightarrow> False" by code_simp
  then obtain edit where "submitMapping string_le sample_console warned_editor
      = (fst (submitMapping string_le sample_console warned_editor), MSend edit)"
    by (metis (no_types, lifting) mapping_submit.exhaust mapping_submit.simps(21-25) prod.collapse)
  moreover have "findClash string_le sample_console warned_editor (js_trim (me_text warned_editor)) \<noteq> None"
    "js_trim (me_text warned_editor) = ''GLM''"
    by (code_simp, code_simp)
  ultimately show ?thesis
    using mapping_rename_was_warned [OF warned_reachable, of sample_console] by metis
qed

text \<open>
  The item that owns the name may have no upstream model (a static declaration, or a name only a route has): then
  the warning names the model being edited as the owner.
\<close>

lemma ownerless_clash_names_itself:
  "me_warning (fst (submitMapping string_le
      (sample_console\<lparr>c_config := Obj [(''models'', Obj [(''routes'', Obj [(''big'', Obj [(''providers'', Arr [Str ''p''])])])])]\<rparr>)
      (typeName ''big'' opened_editor))) = Some (MappingClash ''qwen'' ''big'' ''qwen'')"
  by code_simp

text \<open>A name with no owner is sent at the first click, and a mapped model that is emptied is restored.\<close>

lemma free_name_sent_at_once:
  assumes "\<not> me_inFlight e" and "js_trim (me_text e) \<notin> {[], me_old e}" and "me_provider e \<noteq> []" and "me_raw e \<noteq> []"
    and "findClash lc c e (js_trim (me_text e)) = None" and "variantGroupOwner c e (js_trim (me_text e)) = []"
  shows "\<exists>edit. submitMapping lc c e = (e\<lparr>me_inFlight := True\<rparr>, MSend edit)"
  using assms by (auto simp: submitMapping_def mapping_edit_def Let_def)

section \<open>The probe\<close>

definition chips :: "mapping_editor \<Rightarrow> string set" where
  "chips e = (\<lambda>owner. chip_attr (ko_index owner)) ` set (me_owners e)"

lemma outcomes_mark:
  "chip_attr i \<in> chips e \<Longrightarrow> me_outcomes (markKeyOutcome (Some i) r e)
     = set_prop (chip_attr i) (truthy (get r ''ok''), outcome_text r) (me_outcomes e)"
  by (simp add: markKeyOutcome_def chips_def)

lemma outcomes_finish:
  "me_outcomes (finishProbe tr h (Inr resp) e) = me_outcomes (markKeyOutcome (me_selected e) (jor (get resp ''result'') (Obj [])) e)"
  by (simp add: finishProbe_def markKeyOutcome_def Let_def split: option.splits)

text \<open>
  The outcome of a probe is written on the chip that is selected when the answer arrives, not on the one that was
  tested: when the operator selects another key while the test of a key runs, the other key shows the result and the
  tested one shows what it showed before.
\<close>

lemma probe_marks_selected_key:
  assumes "me_selected e = Some i" and "startProbe tr e = (e1, Some h)"
    and "chip_attr j \<in> chips e" and "chip_attr j \<noteq> chip_attr i"
  shows "(''key_index'', Num i) \<in> set (ph_payload h) \<and>
    (let result = jor (get resp ''result'') (Obj []); e2 = finishProbe tr h (Inr resp) (selectKey j e1) in
       map_of (me_outcomes e2) (chip_attr j) = Some (truthy (get result ''ok''), outcome_text result)
     \<and> map_of (me_outcomes e2) (chip_attr i) = map_of (me_outcomes e) (chip_attr i))"
proof -
  have h: "e1 = e\<lparr>me_testing := True, me_box := Some Running\<rparr>" "(''key_index'', Num i) \<in> set (ph_payload h)"
    using assms(1,2) by (auto simp: startProbe_def split: if_splits)
  then have "chip_attr j \<in> chips (selectKey j e1)" "me_selected (selectKey j e1) = Some j"
      "me_outcomes (selectKey j e1) = me_outcomes e"
    using assms(3) by (simp_all add: chips_def selectKey_def)
  then show ?thesis
    using assms(4) h(2) by (simp add: outcomes_finish outcomes_mark map_of_set_prop Let_def)
qed

definition two_keys :: mapping_editor where
  "two_keys = opened_editor\<lparr>me_selected := Some (Fin 0),
     me_owners := [\<lparr>ko_index = Fin 0, ko_id = ''a'', ko_masked = [], ko_status = ''ok''\<rparr>,
                   \<lparr>ko_index = Fin 1, ko_id = ''b'', ko_masked = [], ko_status = ''ok''\<rparr>]\<rparr>"

text \<open>Whatever the request throws, unless the error carries a nested one, the operator reads the same text.\<close>

lemma thrown_text_lost: "thrown_text (Obj [(''message'', Str m)]) = ''HTTP undefined''"
  by (simp add: thrown_text_def)

section \<open>Static declarations\<close>

lemma static_plan_models:
  "set (sp_models (planStaticModelSave existing model nextModel rm))
   \<subseteq> insert (trimmed nextModel) (set (normalizeStaticModelIds existing))"
proof (cases "find_index (\<lambda>entry. js_lower entry = vkey model) (normalizeStaticModelIds existing)")
  case None
  then show ?thesis by (auto simp: planStaticModelSave_def Let_def)
next
  case (Some i)
  define ms where "ms = normalizeStaticModelIds existing"
  have i: "i < length ms" using find_index_Some [OF Some] by (simp add: ms_def)
  have "set (take i ms @ drop (Suc i) ms) \<subseteq> set ms" by (auto dest: in_set_takeD in_set_dropD)
  moreover have "set (ms[i := x]) \<subseteq> insert x (set ms)" for x by (rule set_update_subset_insert)
  moreover have "set (ms[i := ms ! i]) \<subseteq> set ms" by simp
  ultimately show ?thesis using Some by (auto simp: planStaticModelSave_def Let_def ms_def [symmetric])
qed

lemma static_submit_models:
  assumes "openProviderStaticModelModal c0 p item = Some e" and "submitStatic (e\<lparr>se_name := name\<rparr>) = (e', Some edit)"
  obtains models where "edit = the (static_list_edit p models)" "p \<noteq> []"
    "set models \<subseteq> insert (js_trim name) (set (normalizeStaticModelIds (get (config_of c0 p) ''static_models'')))"
proof -
  define ex where "ex = normalizeStaticModelIds (get (config_of c0 p) ''static_models'')"
  have e: "se_existing e = ex" "se_provider e = p" "p \<noteq> []"
    using assms(1) by (auto simp: openProviderStaticModelModal_def ex_def split: if_splits)
  define plan where "plan = planStaticModelSave (Arr (map Str ex)) (Str (se_label e)) (Str (js_trim name)) False"
  have "normalizeStaticModelIds (Arr (map Str ex)) = ex"
    unfolding ex_def using static_models_normal_form by blast
  moreover have "set (sp_models plan) \<subseteq> insert (trimmed (Str (js_trim name))) (set (normalizeStaticModelIds (Arr (map Str ex))))"
    unfolding plan_def by (rule static_plan_models)
  moreover have "trimmed (Str (js_trim name)) = js_trim name" by (simp add: trimmed_def)
  ultimately have "set (sp_models plan) \<subseteq> insert (js_trim name) (set ex)" by simp
  moreover have "Some edit = static_list_edit p (sp_models plan)"
    using assms(2) e by (auto simp: submitStatic_def static_write_def plan_def [symmetric] Let_def split: if_splits option.splits)
  ultimately show thesis using that e(3) unfolding ex_def by (metis option.sel)
qed

text \<open>
  The static declaration editor saves the list it was opened with: whatever was declared for the provider in the
  meantime (a refresh under the open editor, another operator), after the save the list has no id beyond those
  known when the editor opened and the name typed.
\<close>

lemma static_save_drops_newer:
  assumes "openProviderStaticModelModal c0 p item = Some e" and "submitStatic (e\<lparr>se_name := name\<rparr>) = (e', Some edit)"
    and "get (get config ''providers'') p = Obj kvs"
  shows "\<exists>models. get (get (get (oe_apply edit config) ''providers'') p) ''static_models'' = Arr (map Str models)
     \<and> set models \<subseteq> insert (js_trim name) (set (normalizeStaticModelIds (get (config_of c0 p) ''static_models'')))"
proof -
  obtain models where m: "edit = the (static_list_edit p models)" "p \<noteq> []"
    "set models \<subseteq> insert (js_trim name) (set (normalizeStaticModelIds (get (config_of c0 p) ''static_models'')))"
    using static_submit_models [OF assms(1,2)] by blast
  have "\<exists>l. get config ''providers'' = Obj l" "\<exists>l. config = Obj l"
    using assms(3) by (cases "get config ''providers''"; cases config; auto split: if_splits)+
  then have "get (get (get (oe_apply edit config) ''providers'') p) ''static_models'' = Arr (map Str models)"
    using m(1,2) assms(3) by (auto simp: static_list_edit_def upd_provider_def get_upd_prop obj_set_def)
  with m(3) show ?thesis by blast
qed

definition declared :: "string list \<Rightarrow> jsval" where
  "declared ids = Obj [(''providers'', Obj [(''p'', Obj [(''static_models'', Arr (map Str ids))])])]"

definition static_opened :: static_editor where
  "static_opened = the (openProviderStaticModelModal (sample_console\<lparr>c_config := declared [''a'']\<rparr>) ''p'' (Obj [(''label'', Str ''a'')]))"

end
