(* ===== verification/ProviderModelsView.thy ===== *)
theory ProviderModelsView
  imports ProviderCatalog RequestRows KeyModels ApiClient
begin

text \<open>
  The keys tab and the models tab of the provider drawer (\<open>app.js\<close>) as markup. \<open>opened\<close> holds the disclosures the
  operator has open, \<open>mode\<close> the chosen presentation, \<open>dates\<close> is the platform's date formatter.
\<close>

section \<open>Keys\<close>

definition providerOverviewMetric :: "string \<Rightarrow> string \<Rightarrow> string \<Rightarrow> string \<Rightarrow> string \<Rightarrow> string" where
  "providerOverviewMetric icon label value hint tone =
     (let valueCls = (if tone = ''ok'' then ''is-ok'' else if tone = ''warn'' then ''is-warn'' else if tone = ''bad'' then ''is-bad'' else []) in (nl 6 @ ''<article class=\"provider-overview-kpi tone-'' @ esc tone @
        ''\" role=\"listitem\">'' @ nl 8 @ ''<span class=\"provider-overview-kpi-icon\">'' @
        iconSvg icon @ ''</span>'' @ nl 8 @ ''<div>'' @ nl 10 @ ''<small>'' @ esc label @
        ''</small>'' @ nl 10 @ ''<strong'' @
        (if valueCls \<noteq> [] then ('' class=\"'' @ valueCls @ ''\"'') else []) @ ''>'' @
        esc value @ ''</strong>'' @ nl 10 @ ''<span>'' @ esc hint @ ''</span>'' @ nl 8 @
        ''</div>'' @ nl 6 @ ''</article>'' @ nl 4))"

definition count_of :: "nat \<Rightarrow> string" where
  "count_of n = fmtInt (jnum (of_nat n))"

definition truthy_gt0 :: "jsval \<Rightarrow> bool" where
  "truthy_gt0 v \<longleftrightarrow> num_lt (Fin 0) (to_num v)"

text \<open>The summary of the overrides of a key.\<close>

definition key_override_text :: "translator \<Rightarrow> string \<Rightarrow> string \<Rightarrow> string" where
  "key_override_text tr proxy models =
     (if proxy \<noteq> [] \<or> models \<noteq> []
      then js_join ('' '' @ [CHR 0xB7] @ '' '') (filter (\<lambda>s. s \<noteq> []) [if proxy \<noteq> [] then proxy else tr ''prov.key_inherit_proxy'' [], models])
      else tr ''prov.key_overrides_none'' [])"

definition keyCard :: "translator \<Rightarrow> string set \<Rightarrow> string \<Rightarrow> jsval \<Rightarrow> nat \<Rightarrow> string" where
  "keyCard tr opened provider key totalKeys =
     (let available = (truthy (get key ''available'') \<and> truthy (get key ''runtime_enabled''));
          on = truthy (get key ''runtime_enabled'');
          tone = (if available then ''ok'' else if on then ''warn'' else ''bad'');
          index = to_str (get key ''index'');
          keyId = ''key-'' @ provider @ ''-'' @ index;
          proxy = proxyText (get key ''proxy''); models = keyModelsText (get key ''models'');
          path = (''/providers/'' @ encodeURIComponent provider @ ''/keys/'' @ encodeURIComponent index);
          flip = tr (if on then ''prov.disable_key'' else ''prov.enable_key'') [] in (nl 6 @ ''<article class=\"provider-key-card\" data-key=\"'' @ esc keyId @
             ''\" data-key-total=\"'' @ (esc (nat_to_str (int totalKeys))) @
             ''\" role=\"listitem\">'' @ nl 8 @ ''<div class=\"key-card-head\">'' @ nl 10 @
             ''<span class=\"provider-overview-state-dot '' @ esc tone @
             ''\" aria-hidden=\"true\"></span>'' @ nl 10 @
             ''<span class=\"key-card-name mono\" title=\"'' @
             (escapeHtml (jor (get key ''key_id'') (Str []))) @ ''\">'' @
             (escapeHtml (jor (jor (get key ''masked'') (get key ''key_id'')) (Str ''-''))) @
             ''</span>'' @ nl 10 @ ''<span class=\"key-card-index mono\">#'' @
             (escapeHtml (get key ''index'')) @ ''</span>'' @ nl 10 @
             (badge (Str (if available then tr ''prov.key_available'' [] else if on then tr ''prov.key_cooldown_label'' [] else tr ''prov.key_disabled_label'' [])) tone) @
             nl 10 @ ''<div class=\"key-card-ops\">'' @ nl 12 @
             ''<button class=\"button secondary icon-action key-op-btn\" type=\"button\"'' @
             '' data-action-path=\"'' @ path @ ''/'' @ (if on then ''disable'' else ''enable'') @
             ''\" title=\"'' @ esc flip @ ''\" aria-label=\"'' @ esc flip @ ''\">'' @
             (iconSvg (if on then ''power-off'' else ''power'')) @ ''</button>'' @ nl 12 @
             ''<button class=\"button secondary icon-action key-op-btn\" type=\"button\"'' @
             '' data-action-path=\"'' @ path @ ''/state/clear\" title=\"'' @
             (esc (tr ''prov.key_clear_state'' [])) @ ''\" aria-label=\"'' @
             (esc (tr ''prov.key_clear_state'' [])) @ ''\">'' @ iconSvg ''rotate'' @
             ''</button>'' @ nl 12 @ ''<button'' @ nl 14 @
             ''class=\"button danger icon-action key-op-btn\"'' @ nl 14 @ ''type=\"button\"'' @
             nl 14 @ ''data-key-delete-provider=\"'' @ esc provider @ ''\"'' @ nl 14 @
             ''data-key-delete-index=\"'' @ (escapeHtml (get key ''index'')) @ ''\"'' @ nl 14 @
             ''data-key-delete-total=\"'' @ (esc (nat_to_str (int totalKeys))) @ ''\"'' @ nl 14 @
             ''data-key-delete-label=\"'' @
             (escapeHtml (jor (jor (get key ''masked'') (get key ''key_id'')) (Str ((''key '' @ index))))) @
             ''\"'' @ nl 14 @ ''title=\"'' @ (esc (tr ''prov.key_delete'' [])) @ ''\"'' @ nl 14 @
             ''aria-label=\"'' @ (esc (tr ''prov.key_delete'' [])) @ ''\"'' @ nl 12 @ ''>'' @
             iconSvg ''trash'' @ ''</button>'' @ nl 10 @ ''</div>'' @ nl 8 @ ''</div>'' @ nl 8 @
             ''<div class=\"key-card-stats mono\">'' @ nl 10 @ ''<span class=\"'' @
             (if truthy_gt0 (get key ''fails'') then ''is-warn'' else []) @ ''\">'' @
             (esc (tr ''prov.key_stat_fails'' [])) @ '' <strong>'' @
             (fmtInt (get key ''fails'')) @ ''</strong></span>'' @ nl 10 @ ''<span class=\"'' @
             (if truthy_gt0 (get key ''cooldown_remaining_s'') then ''is-warn'' else []) @
             ''\">'' @ (esc (tr ''prov.key_stat_cooldown'' [])) @ '' <strong>'' @
             (fmtInt (get key ''cooldown_remaining_s'')) @ ''s</strong></span>'' @ nl 10 @
             ''<span>'' @ (esc (tr ''prov.key_stat_disabled'' [])) @ '' <strong>'' @
             (fmtInt (get key ''disabled_remaining_s'')) @ ''s</strong></span>'' @ nl 8 @
             ''</div>'' @ nl 8 @ ''<details class=\"key-card-details\"'' @
             (if keyId \<in> opened then ('' '' @ ''open'') else []) @ '' data-key-details=\"'' @
             esc keyId @ ''\">'' @ nl 10 @ ''<summary>'' @ nl 12 @ iconSvg ''pencil'' @ nl 12 @
             ''<span>'' @ (esc (tr ''prov.key_overrides'' [])) @ ''</span>'' @ nl 12 @
             ''<span class=\"key-card-overrides-cur\">'' @
             (esc (key_override_text tr proxy models)) @ ''</span>'' @ nl 12 @
             ''<span class=\"key-card-chev\">'' @ (iconSvg ''chevron-right'') @ ''</span>'' @
             nl 10 @ ''</summary>'' @ nl 10 @ ''<form class=\"key-proxy-row\" data-provider=\"'' @
             esc provider @ ''\" data-key-index=\"'' @ (escapeHtml (get key ''index'')) @
             ''\">'' @ nl 12 @ ''<label class=\"field key-proxy-field\">'' @ nl 14 @ ''<span>'' @
             (esc (tr ''form.proxy'' [])) @ ''</span>'' @ nl 14 @
             (proxyControlInput tr ''proxy'' (Str proxy) (tr ''prov.inherit'' []) []) @ nl 12 @
             ''</label>'' @ nl 12 @ ''<label class=\"field key-proxy-field\">'' @ nl 14 @
             ''<span>'' @ (esc (tr ''prov.models_override'' [])) @ ''</span>'' @ nl 14 @
             ''<input class=\"control\" name=\"models\" value=\"'' @ esc models @
             ''\" placeholder=\"'' @ (esc (tr ''prov.models_ph'' [])) @ ''\" />'' @ nl 12 @
             ''</label>'' @ nl 12 @
             ''<button class=\"button secondary compact-action\" type=\"submit\">'' @
             (esc (tr ''form.save'' [])) @ ''</button>'' @ nl 10 @ ''</form>'' @ nl 8 @
             ''</details>'' @ nl 6 @ ''</article>'' @ nl 4))"

definition part_tone :: "nat \<Rightarrow> nat \<Rightarrow> string" where
  "part_tone n totalKeys = (if n = 0 then ''bad'' else if n < totalKeys then ''warn'' else ''ok'')"

definition providerDrawerKeys :: "translator \<Rightarrow> string set \<Rightarrow> provider_view \<Rightarrow> string" where
  "providerDrawerKeys tr opened view =
     (let stats = lv_keyStats (vw_light view); fails = ks_fails stats; totalKeys = ks_total stats;
          on = ks_runtimeEnabled stats; cooling = ks_cooldown stats;
          hint = (\<lambda>b y n. tr (if b then y else n) []) in (nl 6 @ ''<section class=\"provider-drawer-section provider-keys-workspace\">'' @
             nl 8 @ ''<div class=\"provider-overview-kpis\" role=\"list\">'' @ nl 10 @
             (providerOverviewMetric ''key'' (tr ''prov.keys_usable'' []) (((count_of (ks_usable stats)) @ ''/'' @ count_of totalKeys)) (tr ''prov.keys_usable_hint'' []) (part_tone (ks_usable stats) totalKeys)) @
             nl 10 @
             (providerOverviewMetric ''power'' (tr ''prov.keys_runtime'' []) (count_of on) (if on < totalKeys then tr ''prov.keys_runtime_partial'' [(''count'', Str (count_of (totalKeys - on)))] else tr ''prov.keys_runtime_hint'' []) (part_tone on totalKeys)) @
             nl 10 @
             (providerOverviewMetric ''clock'' (tr ''prov.keys_cooldown'' []) (count_of cooling) (hint (0 < cooling) ''prov.overview_cooldown_note'' ''prov.keys_cooldown_none'') (if 0 < cooling then ''warn'' else ''neutral'')) @
             nl 10 @
             (providerOverviewMetric ''alert'' (tr ''prov.keys_fails'' []) (fmtInt (Num fails)) (hint (num_lt (Fin 0) fails) ''prov.keys_fails_hint'' ''prov.keys_fails_none'') (if num_lt (Fin 2) fails then ''bad'' else if num_lt (Fin 0) fails then ''warn'' else ''neutral'')) @
             nl 8 @ ''</div>'' @ nl 8 @
             ''<div class=\"provider-key-list drawer-key-list\" id=\"'' @
             (esc ((''key-list-'' @ vw_name view))) @ ''\" role=\"list\">'' @ nl 10 @
             (if vw_keys view \<noteq> [] then concat (map (\<lambda>key. keyCard tr opened (vw_name view) key totalKeys) (vw_keys view)) else (''<div class=\"empty pad-slim\">'' @ (esc (tr ''prov.no_keys_configured'' [])) @
               ''</div>'')) @ nl 8 @ ''</div>'' @ nl 8 @
             ''<form class=\"config-key-form provider-key-add-form\" data-provider=\"'' @
             (esc (vw_name view)) @ ''\">'' @ nl 10 @ ''<div class=\"provider-key-add-title\">'' @
             iconSvg ''plus'' @ ''<span>'' @ (esc (tr ''prov.add_key'' [])) @ ''</span></div>'' @
             nl 10 @ ''<div class=\"provider-key-add-row\">'' @ nl 12 @
             ''<label class=\"field\"><span>'' @ (esc (tr ''prov.api_key'' [])) @
             ''</span><input class=\"control\" name=\"key\" type=\"password\"'' @
             '' autocomplete=\"off\" spellcheck=\"false\" placeholder=\"'' @
             (esc (tr ''prov.api_key_ph'' [])) @ ''\" required /></label>'' @ nl 12 @
             ''<label class=\"field\"><span>'' @ (esc (tr ''form.proxy'' [])) @ ''</span>'' @
             (proxyControlInput tr ''proxy'' (Str []) ''http://host:port / socks5://host:port'' []) @
             ''</label>'' @ nl 12 @ ''<button class=\"button primary\" type=\"submit\">'' @
             (esc (tr ''prov.add_key'' [])) @ ''</button>'' @ nl 10 @ ''</div>'' @ nl 8 @
             ''</form>'' @ nl 6 @ ''</section>'' @ nl 4))"

section \<open>Models\<close>

definition status_keys :: "string list" where
  "status_keys = [''pending'', ''ok'', ''stale'', ''error'', ''not_fetched'']"

definition providerModelStatusLabel :: "translator \<Rightarrow> jsval \<Rightarrow> string" where
  "providerModelStatusLabel tr status =
     (let s = js_lower (str_or_empty status) in tr (''prov.models.'' @ (if s \<in> set status_keys then s else ''unknown'')) [])"

definition view_option :: "string \<Rightarrow> string \<Rightarrow> string \<Rightarrow> string \<Rightarrow> string \<Rightarrow> string" where
  "view_option provider mode i icon label = (nl 10 @ ''<button class=\"provider-model-view-btn '' @
     (if mode = i then ''is-active'' else []) @ ''\" type=\"button\"'' @ nl 12 @
     ''data-provider-model-view=\"'' @ i @ ''\"'' @ nl 12 @
     ''data-provider-model-view-provider=\"'' @ esc provider @ ''\"'' @ nl 12 @
     ''aria-pressed=\"'' @ (if mode = i then ''true'' else ''false'') @ ''\"'' @ nl 12 @
     ''title=\"'' @ esc label @ ''\"'' @ nl 12 @ ''aria-label=\"'' @ esc label @ ''\">'' @
     iconSvg icon @ ''</button>'' @ nl 8)"

definition providerModelViewToggle :: "translator \<Rightarrow> string \<Rightarrow> string \<Rightarrow> string" where
  "providerModelViewToggle tr provider mode = (nl 6 @ ''<div class=\"provider-model-view-toggle\" role=\"group\" aria-label=\"'' @
     (esc (tr ''prov.models.view_toggle_label'' [])) @ ''\">'' @ nl 8 @
     (view_option provider mode ''grid'' ''grid'' (tr ''prov.models.view_grid'' [])) @
     (view_option provider mode ''list'' ''list'' (tr ''prov.models.view_list'' [])) @ nl 6 @
     ''</div>'' @ nl 4)"

text \<open>The chosen mode afterwards, with whether the drawer is drawn again.\<close>

definition setProviderModelViewMode :: "string \<Rightarrow> string \<Rightarrow> string \<times> bool" where
  "setProviderModelViewMode mode current =
     (if mode \<noteq> ''grid'' \<and> mode \<noteq> ''list'' \<or> current = mode then (current, False) else (mode, True))"

definition flag_class :: "jsval \<Rightarrow> string \<Rightarrow> string \<Rightarrow> string" where
  "flag_class item k cls = (if truthy (get item k) then cls else [])"

definition stage_label :: "translator \<Rightarrow> jsval \<Rightarrow> string" where
  "stage_label tr item = (if truthy (get item ''disabled'') then tr ''prov.models.stage_enable'' [] else tr ''prov.models.stage_disable'' [])"

definition stage_aria :: "translator \<Rightarrow> jsval \<Rightarrow> string" where
  "stage_aria tr item = (stage_label tr item @ '' '' @ (to_str (get item ''label'')) @
     providerCatalogVariantAria tr item)"

definition variant_short :: "translator \<Rightarrow> jsval \<Rightarrow> string" where
  "variant_short tr item = tr ''prov.models.variant_count_short'' [(''count'', Str (fmtInt (get item ''variantCount'')))]"

definition row_sub_parts :: "translator \<Rightarrow> jsval \<Rightarrow> string list" where
  "row_sub_parts tr item =
     (if truthy (get item ''variant'')
      then [tr ''prov.models.variant_group_summary'' [(''count'', Str (fmtInt (get item ''variantCount'')))]]
      else (if truthy (get item ''raw'') \<and> get item ''raw'' \<noteq> get item ''label'' then [to_str (get item ''raw'')] else [])
         @ (if truthy (get item ''manual'') then [tr ''prov.models.manual_map'' []] else []))
     @ (if truthy (get item ''static'') then [tr ''prov.models.static'' []] else [])"

definition row_badge :: "translator \<Rightarrow> jsval \<Rightarrow> string" where
  "row_badge tr item =
     (let off = truthy (get item ''disabled''); st = truthy (get item ''static'') in
      if truthy (get item ''pending'') then badge (Str (tr ''prov.models.pending_short'' [])) ''warn''
      else if truthy (get item ''variant'') then badge (Str (variant_short tr item)) ''variant''
      else badge (Str (if off then tr ''prov.models.disabled'' [] else if st then tr ''prov.models.static'' [] else tr ''prov.models.enabled'' []))
             (if off then ''off'' else if st then ''static'' else ''ok''))"

definition providerModelRow :: "translator \<Rightarrow> string \<Rightarrow> jsval \<Rightarrow> string" where
  "providerModelRow tr provider item =
     (let sub = row_sub_parts tr item; off = truthy (get item ''disabled'');
          edit = tr ''prov.models.edit_mapping_for'' [(''model'', get item ''label'')] in (nl 6 @ ''<article class=\"provider-model-row '' @
             (flag_class item ''disabled'' ''is-off'') @ '' '' @
             (flag_class item ''pending'' ''is-pending'') @ '' '' @
             (flag_class item ''static'' ''is-static'') @ '' '' @
             (flag_class item ''variant'' ''is-variant'') @ ''\" role=\"listitem\">'' @ nl 8 @
             ''<span class=\"provider-overview-state-dot '' @
             (if truthy (get item ''variant'') then ''variant'' else if truthy (get item ''static'') then ''static'' else if off then ''off'' else ''ok'') @
             ''\" aria-hidden=\"true\"></span>'' @ nl 8 @
             ''<div class=\"provider-model-row-main\">'' @ nl 10 @ ''<b class=\"mono\">'' @
             (escapeHtml (get item ''label'')) @ ''</b>'' @ nl 10 @
             (if sub \<noteq> [] then (''<small>'' @ (esc (js_join ('' '' @ [CHR 0xB7] @ '' '') sub)) @ ''</small>'') else []) @
             nl 8 @ ''</div>'' @ nl 8 @ row_badge tr item @ nl 8 @
             ''<div class=\"provider-model-row-ops\">'' @ nl 10 @
             ''<button class=\"button secondary icon-action model-row-op\" type=\"button\"'' @
             nl 12 @ ''data-provider-model-map-edit-provider=\"'' @ esc provider @ ''\"'' @
             nl 12 @ ''data-provider-model-map-edit-model=\"'' @
             (escapeHtml (get item ''label'')) @ ''\"'' @ nl 12 @
             ''data-provider-model-map-edit-raw=\"'' @
             (escapeHtml (jor (get item ''raw'') (get item ''label''))) @ ''\"'' @ nl 12 @
             ''data-provider-model-map-edit-manual=\"'' @
             (if truthy (get item ''manual'') then ''1'' else ''0'') @ ''\"'' @ nl 12 @
             ''title=\"'' @ esc edit @ ''\"'' @ nl 12 @ ''aria-label=\"'' @ esc edit @ ''\">'' @
             iconSvg ''pencil'' @ ''</button>'' @ nl 10 @ ''<button class=\"button '' @
             (if off then ''secondary'' else ''danger'') @
             '' icon-action model-row-op\" type=\"button\"'' @ nl 12 @
             ''data-provider-model-disable-provider=\"'' @ esc provider @ ''\"'' @ nl 12 @
             ''data-provider-model-disable-model=\"'' @ (escapeHtml (get item ''sourceModel'')) @
             ''\"'' @ nl 12 @ ''data-provider-model-disable-next=\"'' @
             (if off then ''false'' else ''true'') @ ''\"'' @ nl 12 @ ''title=\"'' @
             (esc ((stage_label tr item @ '' '' @
               (to_str (jor (get item ''title'') (get item ''label'')))))) @ ''\"'' @
             nl 12 @ ''aria-label=\"'' @ (esc (stage_aria tr item)) @ ''\">'' @
             (iconSvg (if off then ''power'' else ''eye-off'')) @ ''</button>'' @ nl 8 @
             ''</div>'' @ nl 6 @ ''</article>'' @ nl 4))"

definition model_chip :: "translator \<Rightarrow> string \<Rightarrow> jsval \<Rightarrow> string" where
  "model_chip tr provider item = (nl 14 @ ''<span class=\"model-map-chip provider-model-chip '' @
     (flag_class item ''disabled'' ''is-disabled'') @ '' '' @
     (flag_class item ''pending'' ''is-pending'') @ '' '' @
     (flag_class item ''manual'' ''is-manual-map'') @ '' '' @
     (flag_class item ''static'' ''is-static'') @ '' '' @
     (flag_class item ''variant'' ''is-variant'') @ ''\" role=\"listitem\">'' @ nl 16 @
     ''<button class=\"model-chip-toggle\" type=\"button\"'' @ nl 18 @
     ''data-provider-model-disable-provider=\"'' @ esc provider @ ''\"'' @ nl 18 @
     ''data-provider-model-disable-model=\"'' @ (escapeHtml (get item ''sourceModel'')) @ ''\"'' @
     nl 18 @ ''data-provider-model-disable-next=\"'' @
     (if truthy (get item ''disabled'') then ''false'' else ''true'') @ ''\"'' @ nl 18 @
     ''title=\"'' @ (esc ((stage_label tr item @ '' '' @ (to_str (get item ''title''))))) @
     ''\"'' @ nl 18 @ ''aria-label=\"'' @ (esc (stage_aria tr item)) @ ''\">'' @ nl 18 @ ''<b>'' @
     (escapeHtml (get item ''label'')) @ ''</b>'' @ nl 18 @
     (if \<not> truthy (get item ''variant'') \<and> truthy (get item ''raw'') \<and> get item ''raw'' \<noteq> get item ''label'' then (''<small>'' @ (escapeHtml (get item ''raw'')) @ ''</small>'') else []) @
     nl 16 @ ''</button>'' @ nl 16 @
     (if truthy (get item ''pending'') then (''<span class=\"model-chip-pending-flag\">'' @
       (esc (tr ''prov.models.pending_short'' [])) @ ''</span>'') else []) @ nl 16 @
     ''<button class=\"model-map-edit-button\" type=\"button\"'' @ nl 18 @
     ''data-provider-model-map-edit-provider=\"'' @ esc provider @ ''\"'' @ nl 18 @
     ''data-provider-model-map-edit-model=\"'' @ (escapeHtml (get item ''label'')) @ ''\"'' @
     nl 18 @ ''data-provider-model-map-edit-raw=\"'' @
     (escapeHtml (jor (get item ''raw'') (get item ''label''))) @ ''\"'' @ nl 18 @
     ''data-provider-model-map-edit-manual=\"'' @
     (if truthy (get item ''manual'') then ''1'' else ''0'') @ ''\"'' @ nl 18 @ ''title=\"'' @
     (esc (tr ''prov.models.edit_mapping'' [])) @ ''\"'' @ nl 18 @ ''aria-label=\"'' @
     (esc (tr ''prov.models.edit_mapping_for'' [(''model'', get item ''label'')])) @ ''\">'' @
     iconSvg ''pencil'' @ ''</button>'' @ nl 16 @
     (if truthy (get item ''variant'') then (''<span class=\"model-chip-variant-badge\">'' @ (esc (variant_short tr item)) @ ''</span>'') else if truthy (get item ''static'') then (''<span class=\"model-chip-static-badge\">'' @ (esc (tr ''prov.models.static_short'' [])) @
       ''</span>'') else []) @ nl 14 @ ''</span>'' @ nl 12)"

definition more_text :: "translator \<Rightarrow> nat \<Rightarrow> string" where
  "more_text tr n = tr ''prov.models.more'' [(''count'', Str (count_of n))]"

definition PROVIDER_MODEL_LIST_LIMIT :: nat where
  "PROVIDER_MODEL_LIST_LIMIT = 200"

text \<open>What the list and the grid draw of the rows, and what they say about the rest.\<close>

definition list_limit :: "bool \<Rightarrow> jsval list \<Rightarrow> nat" where
  "list_limit large allItems = (if large then PROVIDER_MODEL_LIST_LIMIT else length allItems)"

definition model_list :: "translator \<Rightarrow> string \<Rightarrow> bool \<Rightarrow> jsval list \<Rightarrow> string" where
  "model_list tr provider large allItems =
     (let shown = take (list_limit large allItems) allItems in (nl 10 @ ''<div class=\"provider-model-rows\" role=\"list\">'' @ nl 12 @
        (if shown \<noteq> [] then concat (map (providerModelRow tr provider) shown)
              @ (if length shown < length allItems then (''<div class=\"muted provider-model-overflow-note\" role=\"listitem\">'' @
          (esc (more_text tr (length allItems - length shown))) @ ''</div>'') else [])
              else (''<div class=\"empty pad-slim\" role=\"listitem\">'' @
          (esc (tr ''prov.models.no_match'' [])) @ ''</div>'')) @ nl 10 @ ''</div>'' @
        nl 10))"

definition model_grid :: "translator \<Rightarrow> string \<Rightarrow> bool \<Rightarrow> jsval list \<Rightarrow> string" where
  "model_grid tr provider large allItems = (nl 10 @ ''<div class=\"model-chip-list provider-drawer-models\" role=\"list\" '' @
     (if large then (''aria-label=\"'' @
       (esc (tr ''prov.models.visible_count'' [(''count'', Str (count_of (length allItems)))])) @
       ''\"'') else []) @ ''>'' @ nl 12 @
     (if allItems \<noteq> [] then concat (map (model_chip tr provider) (take 100 allItems))
              @ (if 100 < length allItems then (''<span class=\"muted provider-model-overflow-note\" role=\"listitem\">'' @
       (esc (more_text tr (length allItems - 100))) @ ''</span>'') else [])
              else (''<div class=\"empty pad-slim\" role=\"listitem\">'' @
       (esc (tr ''prov.models.no_match'' [])) @ ''</div>'')) @ nl 10 @ ''</div>'' @ nl 10)"

definition effective_mode :: "string \<Rightarrow> bool \<Rightarrow> string" where
  "effective_mode chosen large =
     (if chosen = ''grid'' \<or> chosen = ''list'' then chosen else if large then ''grid'' else ''list'')"

text \<open>The names the notice about replaced routes gives, and the aliases that replaced them.\<close>

definition legacy_aliases :: "jsval \<Rightarrow> string list \<Rightarrow> string list" where
  "legacy_aliases configuredMap refs =
     map fst (filter (\<lambda>e. js_lower (to_str (snd e)) \<in> js_lower ` set refs) (js_entries configuredMap))"

definition legacy_notice :: "translator \<Rightarrow> jsval \<Rightarrow> string list \<Rightarrow> string" where
  "legacy_notice tr configuredMap refs =
     (if refs = [] then [] else (nl 10 @ ''<div class=\"provider-model-legacy-notice\">'' @ nl 12 @ iconSvg ''alert'' @
        nl 12 @ ''<span>'' @
        (esc (tr ''prov.models.legacy_route_notice'' [(''names'', Str (js_join '', '' refs)), (''alias'', Str (js_join '', '' (legacy_aliases configuredMap refs)))])) @
        ''</span>'' @ nl 10 @ ''</div>''))"

definition draft_bar :: "translator \<Rightarrow> string \<Rightarrow> nat \<Rightarrow> string" where
  "draft_bar tr provider n =
     (if n = 0 then []
      else let apply_text = tr ''prov.models.apply'' [(''count'', Str (count_of n))]; reset = tr ''prov.models.reset'' [] in (nl 12 @ ''<div class=\"provider-model-draft-bar\" role=\"status\">'' @ nl 14 @
         ''<div><strong>'' @
         (esc (if n = 1 then tr ''prov.models.staged_one'' [] else tr ''prov.models.staged_many'' [(''count'', Str (count_of n))])) @
         ''</strong><small>'' @ (esc (tr ''prov.models.draft_apply_hint'' [])) @
         ''</small></div>'' @ nl 14 @ ''<div class=\"provider-model-draft-actions\">'' @ nl 16 @
         ''<button class=\"button secondary icon-action\" type=\"button\"'' @ nl 18 @
         ''data-provider-model-reset=\"'' @ esc provider @ ''\"'' @ nl 18 @ ''title=\"'' @
         esc reset @ ''\"'' @ nl 18 @ ''aria-label=\"'' @ esc reset @ ''\">'' @
         (iconSvg ''rotate-ccw'') @ ''</button>'' @ nl 16 @
         ''<button class=\"button icon-action\" type=\"button\"'' @ nl 18 @
         ''data-provider-model-apply=\"'' @ esc provider @ ''\"'' @ nl 18 @ ''title=\"'' @
         esc apply_text @ ''\"'' @ nl 18 @ ''aria-label=\"'' @ esc apply_text @ ''\">'' @
         iconSvg ''check'' @ ''</button>'' @ nl 14 @ ''</div>'' @ nl 12 @ ''</div>'' @ nl 10))"

definition bulk_button :: "string \<Rightarrow> string \<Rightarrow> string \<Rightarrow> string \<Rightarrow> bool \<Rightarrow> string" where
  "bulk_button provider action label icon filled = (''<button class=\"button small secondary icon-action'' @
     '' provider-model-toolbar-action\" type=\"button\"'' @ nl 14 @
     ''data-provider-model-bulk=\"'' @ esc provider @ ''\"'' @ nl 14 @
     ''data-provider-model-bulk-action=\"'' @ action @ ''\"'' @ nl 14 @ ''title=\"'' @ esc label @
     ''\"'' @ nl 14 @ ''aria-label=\"'' @ esc label @ ''\"'' @ nl 14 @
     (if filled then [] else ''disabled'') @ ''>'' @ iconSvg icon @ ''</button>'')"

definition status_option :: "jsval \<Rightarrow> string \<Rightarrow> string \<Rightarrow> string" where
  "status_option filters status label =
     (''<option value=\"'' @ status @ ''\" '' @
        (if (if status = [] then \<not> truthy (get filters ''status'') else get filters ''status'' = Str status) then ''selected'' else []) @
        ''>'' @ esc label @ ''</option>'')"

definition model_toolbar :: "translator \<Rightarrow> string \<Rightarrow> jsval \<Rightarrow> bool \<Rightarrow> string" where
  "model_toolbar tr provider filters filled = (nl 10 @ ''<div class=\"provider-model-toolbar\">'' @ nl 12 @
     ''<input class=\"control provider-model-search\" type=\"search\"'' @ nl 14 @
     ''data-refresh-safe-control'' @ nl 14 @ ''data-provider-model-search=\"'' @ esc provider @
     ''\"'' @ nl 14 @ ''placeholder=\"'' @ (esc (tr ''prov.models.search'' [])) @ ''\"'' @ nl 14 @
     ''aria-label=\"'' @ (esc (tr ''prov.models.search'' [])) @ ''\"'' @ nl 14 @ ''value=\"'' @
     (escapeHtml (jor (get filters ''search'') (Str []))) @ ''\" />'' @ nl 12 @
     ''<select class=\"control provider-model-status-filter\"'' @
     '' data-refresh-safe-control data-provider-model-status-filter=\"'' @ esc provider @
     ''\" aria-label=\"'' @ (esc (tr ''prov.models.filter_status'' [])) @ ''\">'' @ nl 14 @
     (status_option filters [] (tr ''prov.models.all'' [])) @ nl 14 @
     (status_option filters ''enabled'' (tr ''prov.models.enabled'' [])) @ nl 14 @
     (status_option filters ''disabled'' (tr ''prov.models.disabled'' [])) @ nl 12 @
     ''</select>'' @ nl 12 @
     (bulk_button provider ''disable'' (tr ''prov.models.disable_shown'' []) ''eye-off'' filled) @
     nl 12 @
     (bulk_button provider ''enable'' (tr ''prov.models.enable_shown'' []) ''eye'' filled) @
     nl 10 @ ''</div>'')"

definition model_kpis :: "translator \<Rightarrow> (jsnum \<Rightarrow> string) \<Rightarrow> jsval \<Rightarrow> nat \<Rightarrow> nat \<Rightarrow> nat \<Rightarrow> string" where
  "model_kpis tr dates capability itemCount off drafts =
     (let status = get capability ''status'';
          statusTone = (if status = Str ''ok'' then ''ok'' else if status = Str ''error'' then ''bad''
            else if status = Str ''pending'' \<or> status = Str ''stale'' then ''warn'' else ''neutral'') in (''<div class=\"provider-overview-kpis\" role=\"list\">'' @ nl 10 @
               (providerOverviewMetric ''radar'' (tr ''prov.models.discovery'' []) (providerModelStatusLabel tr status) (if truthy (get capability ''fetched_at'') then fmtDate dates (get capability ''fetched_at'') else tr ''prov.models.no_snapshot'' []) statusTone) @
               nl 10 @
               (providerOverviewMetric ''boxes'' (tr ''prov.models.kpi_usable'' []) (count_of (itemCount - off)) (if 0 < off then tr ''prov.models.disabled_count'' [(''count'', Str (count_of off))] else tr ''prov.models.kpi_all_routable'' []) (if itemCount - off = 0 then ''bad'' else if 0 < off then ''warn'' else ''ok'')) @
               nl 10 @
               (providerOverviewMetric ''eye-off'' (tr ''prov.models.disabled'' []) (count_of off) (tr (if 0 < off then ''prov.models.kpi_disabled_hint'' else ''prov.models.kpi_disabled_none'') []) (if 0 < off then ''warn'' else ''neutral'')) @
               nl 10 @
               (providerOverviewMetric ''alert'' (tr ''prov.models.kpi_staged'' []) (count_of drafts) (tr (if 0 < drafts then ''prov.models.kpi_staged_pending'' else ''prov.models.kpi_staged_none'') []) (if 0 < drafts then ''warn'' else ''neutral'')) @
               nl 8 @ ''</div>''))"

section \<open>Aliases and static declarations\<close>

definition disc_open :: "string set \<Rightarrow> string \<Rightarrow> string" where
  "disc_open opened i = (if i \<in> opened then ('' '' @ ''open'') else [])"

definition disclosure_summary :: "string \<Rightarrow> string \<Rightarrow> string \<Rightarrow> string \<Rightarrow> string" where
  "disclosure_summary icon title desc meta = (''<summary>'' @ nl 12 @ ''<span class=\"provider-model-disclosure-icon\">'' @ iconSvg icon @
     ''</span>'' @ nl 12 @ ''<span class=\"provider-model-disclosure-head\"><strong>'' @
     esc title @ ''</strong><small>'' @ esc desc @ ''</small></span>'' @ nl 12 @
     ''<span class=\"provider-model-disclosure-meta\">'' @ esc meta @ ''</span>'' @ nl 12 @
     ''<span class=\"provider-model-disclosure-chev\">'' @ (iconSvg ''chevron-right'') @
     ''</span>'' @ nl 10 @ ''</summary>'')"

definition variants_text :: "variant list \<Rightarrow> string" where
  "variants_text vs = js_join '', '' (map (\<lambda>v. v_model v @ '':'' @ num_to_str (Fin (v_priority v))) vs)"

definition alias_card :: "translator \<Rightarrow> string \<Rightarrow> string \<times> jsval \<Rightarrow> string" where
  "alias_card tr provider entry =
     (let canonical = fst entry; variants = normalizeVariantEntries (snd entry) in (nl 16 @ ''<article class=\"provider-route-card provider-model-alias-card\">'' @ nl 18 @
        ''<div>'' @ nl 20 @ ''<strong class=\"mono\">'' @ esc canonical @ ''</strong>'' @ nl 20 @
        ''<small title=\"'' @ (esc (variants_text variants)) @ ''\">'' @
        (esc (variants_text variants)) @ ''</small>'' @ nl 18 @ ''</div>'' @ nl 18 @
        (badge (Str (tr ''prov.models.variants'' [(''count'', Str (count_of (length variants)))])) ''route-info'') @
        nl 18 @ ''<button class=\"button small secondary icon-action\" type=\"button\"'' @ nl 20 @
        ''data-provider-variant-edit=\"'' @ esc canonical @ ''\"'' @ nl 20 @
        ''data-provider-variant-provider=\"'' @ esc provider @ ''\"'' @ nl 20 @ ''title=\"'' @
        (esc (tr ''prov.models.edit_alias'' [])) @ ''\"'' @ nl 20 @ ''aria-label=\"'' @
        (esc (tr ''prov.models.edit_alias_for'' [(''model'', Str canonical)])) @ ''\">'' @
        iconSvg ''pencil'' @ ''</button>'' @ nl 18 @
        ''<button class=\"button small danger icon-action\" type=\"button\"'' @ nl 20 @
        ''data-provider-variant-delete=\"'' @ esc canonical @ ''\"'' @ nl 20 @
        ''data-provider-variant-provider=\"'' @ esc provider @ ''\"'' @ nl 20 @ ''title=\"'' @
        (esc (tr ''prov.models.delete_alias'' [])) @ ''\"'' @ nl 20 @ ''aria-label=\"'' @
        (esc (tr ''prov.models.delete_alias_for'' [(''model'', Str canonical)])) @ ''\">'' @
        iconSvg ''trash'' @ ''</button>'' @ nl 16 @ ''</article>'' @ nl 14))"

text \<open>The models an alias may have, each upstream model once, with the label of its first item.\<close>

definition variant_choices :: "(string \<Rightarrow> string \<Rightarrow> bool) \<Rightarrow> jsval \<Rightarrow> (string \<times> string) list" where
  "variant_choices lc capability =
     first_by snd [] (filter (\<lambda>c. snd c \<noteq> [])
       (map (\<lambda>item. let raw = js_trim (to_str (jor (jor (get item ''raw'') (get item ''label'')) (Str []))) in
          (to_str (jor (get item ''label'') (Str raw)), raw))
        (modelCapabilityItems lc (Arr (arr_or_empty (get capability ''models''))) (obj_or_empty (get capability ''canonical_map'')))))"

definition choice_option :: "translator \<Rightarrow> string \<times> string \<Rightarrow> string" where
  "choice_option tr c =
     (let label = fst c; raw = snd c in (nl 22 @ ''<div class=\"provider-variant-option\" data-provider-variant-option'' @
        '' data-search-text=\"'' @ (esc (js_lower ((label @ '' '' @ raw)))) @ ''\">'' @ nl 24 @
        ''<label>'' @ nl 26 @ ''<input type=\"checkbox\" data-provider-variant-model value=\"'' @
        esc raw @ ''\" />'' @ nl 26 @ ''<span><b>'' @ esc label @ ''</b>'' @
        (if raw \<noteq> label then (''<small>'' @ esc raw @ ''</small>'') else []) @
        ''</span>'' @ nl 24 @ ''</label>'' @ nl 24 @
        ''<input class=\"control provider-variant-priority\" type=\"number\"'' @
        '' min=\"-1000\" max=\"1000\" value=\"0\"'' @ nl 26 @
        ''data-provider-variant-priority disabled'' @ nl 26 @ ''aria-label=\"'' @
        (esc (tr ''prov.models.priority_for'' [(''model'', Str raw)])) @ ''\" />'' @ nl 22 @
        ''</div>'' @ nl 20))"

definition alias_disclosure ::
  "translator \<Rightarrow> string set \<Rightarrow> string \<Rightarrow> (string \<times> jsval) list \<Rightarrow> (string \<times> string) list \<Rightarrow> string" where
  "alias_disclosure tr opened provider groups choices = (''<details class=\"provider-model-disclosure provider-model-aliases\"'' @
     '' data-models-disclosure=\"aliases\"'' @ disc_open opened ''aliases'' @ ''>'' @ nl 10 @
     (disclosure_summary ''layers'' (tr ''prov.models.canonical_aliases'' []) (tr ''prov.models.canonical_aliases_desc'' []) (tr ''prov.models.configured'' [(''count'', Str (count_of (length groups)))])) @
     nl 10 @ ''<div class=\"provider-model-disclosure-body\">'' @ nl 12 @
     ''<div class=\"provider-route-list\">'' @ nl 14 @
     (if groups \<noteq> [] then concat (map (alias_card tr provider) groups) else (''<div class=\"empty pad-slim\">'' @ (esc (tr ''prov.models.no_aliases'' [])) @ ''</div>'')) @
     nl 12 @ ''</div>'' @ nl 12 @ ''<details class=\"provider-model-inline-editor\"'' @
     '' data-models-disclosure=\"alias-editor\"'' @ (disc_open opened ''alias-editor'') @ ''>'' @
     nl 14 @ ''<summary>'' @ iconSvg ''plus'' @ ''<span>'' @
     (esc (tr ''prov.models.add_alias'' [])) @ ''</span></summary>'' @ nl 14 @
     ''<form class=\"provider-variant-form\" data-provider=\"'' @ esc provider @ ''\">'' @ nl 16 @
     ''<div class=\"form-row\">'' @ nl 18 @ ''<label>'' @
     (esc (tr ''prov.models.canonical_model'' [])) @ ''</label>'' @ nl 18 @
     ''<input class=\"control\" name=\"canonical_model\" placeholder=\"grok-4.3\"'' @
     '' required />'' @ nl 16 @ ''</div>'' @ nl 16 @
     ''<div class=\"provider-variant-picker-shell\">'' @ nl 18 @
     ''<div class=\"provider-variant-picker-head\">'' @ nl 20 @ ''<label>'' @
     (esc (tr ''prov.models.choose_variants'' [])) @ ''</label>'' @ nl 20 @
     ''<input class=\"control\" type=\"search\" data-refresh-safe-control'' @
     '' data-provider-variant-search'' @ nl 22 @ ''placeholder=\"'' @
     (esc (tr ''prov.models.search_variants'' [])) @ ''\"'' @ nl 22 @ ''aria-label=\"'' @
     (esc (tr ''prov.models.search_variants'' [])) @ ''\" />'' @ nl 18 @ ''</div>'' @ nl 18 @
     ''<div class=\"provider-variant-picker\" role=\"group\" aria-label=\"'' @
     (esc (tr ''prov.models.choose_variants'' [])) @ ''\">'' @ nl 20 @
     (if choices \<noteq> [] then concat (map (choice_option tr) choices) else (''<div class=\"empty pad-slim\">'' @ (esc (tr ''prov.models.no_discovered_variants'' [])) @
       ''</div>'')) @ nl 18 @ ''</div>'' @ nl 16 @ ''</div>'' @ nl 16 @
     ''<details class=\"provider-variant-custom-input\">'' @ nl 18 @ ''<summary>'' @
     (esc (tr ''prov.models.custom_variants'' [])) @ ''</summary>'' @ nl 18 @
     ''<div class=\"form-row\">'' @ nl 20 @ ''<label>'' @
     (esc (tr ''prov.models.raw_variants'' [])) @ ''</label>'' @ nl 20 @
     ''<input class=\"control\" name=\"variants\" placeholder=\"custom-model:50\" />'' @ nl 20 @
     ''<small class=\"muted\">'' @ (esc (tr ''prov.models.raw_variants_help'' [])) @
     ''</small>'' @ nl 18 @ ''</div>'' @ nl 16 @ ''</details>'' @ nl 16 @
     ''<div class=\"form-actions\">'' @ nl 18 @
     ''<button class=\"button small secondary\" type=\"reset\">'' @ (esc (tr ''form.reset'' [])) @
     ''</button>'' @ nl 18 @ ''<button class=\"button small\" type=\"submit\">'' @
     (esc (tr ''prov.models.save_alias'' [])) @ ''</button>'' @ nl 16 @ ''</div>'' @ nl 14 @
     ''</form>'' @ nl 12 @ ''</details>'' @ nl 10 @ ''</div>'' @ nl 8 @ ''</details>'')"

definition static_chip :: "translator \<Rightarrow> string \<Rightarrow> string \<Rightarrow> string" where
  "static_chip tr provider model =
     (let removal = tr ''prov.models.remove_model'' [(''model'', Str model)] in (nl 20 @ ''<span class=\"model-map-chip static-model-chip\">'' @ nl 22 @ ''<b>'' @
        esc model @ ''</b><small>'' @ (esc (tr ''prov.models.static'' [])) @ ''</small>'' @
        nl 22 @ ''<button class=\"static-model-delete\" type=\"button\"'' @ nl 24 @ ''title=\"'' @
        esc removal @ ''\"'' @ nl 24 @ ''aria-label=\"'' @ esc removal @ ''\"'' @ nl 24 @
        ''data-delete-static-provider=\"'' @ esc provider @ ''\"'' @ nl 24 @
        ''data-delete-static-model=\"'' @ esc model @ ''\">'' @ iconSvg ''x'' @ ''</button>'' @
        nl 20 @ ''</span>'' @ nl 18))"

definition static_disclosure :: "translator \<Rightarrow> string set \<Rightarrow> string \<Rightarrow> string list \<Rightarrow> string" where
  "static_disclosure tr opened provider models = (''<details class=\"provider-model-disclosure provider-model-static-fallback\"'' @
     '' data-models-disclosure=\"fallback\"'' @ disc_open opened ''fallback'' @ ''>'' @ nl 10 @
     (disclosure_summary ''shield'' (tr ''prov.models.advanced_fallback'' []) (tr ''prov.models.advanced_fallback_desc'' []) (tr ''prov.models.static_count'' [(''count'', Str (count_of (length models)))])) @
     nl 10 @ ''<div class=\"provider-model-disclosure-body\">'' @ nl 12 @
     ''<form class=\"config-static-models-form\" data-provider=\"'' @ esc provider @ ''\">'' @
     nl 14 @
     (if models \<noteq> [] then (nl 16 @ ''<div class=\"model-chip-list static-model-chip-list\">'' @ nl 18 @
       (concat (map (static_chip tr provider) (take 100 models))
                    @ (if 100 < length models then (''<span class=\"muted provider-model-overflow-note\">'' @
         (esc (more_text tr (length models - 100))) @ ''</span>'') else [])) @ nl 16 @
       ''</div>'' @ nl 14) else (''<div class=\"empty pad-slim\">'' @ (esc (tr ''prov.models.no_static'' [])) @ ''</div>'')) @
     nl 14 @ ''<div class=\"form-row\">'' @ nl 16 @ ''<label for=\"static-models-'' @
     esc provider @ ''\">'' @ (esc (tr ''prov.models.add_model_ids'' [])) @ ''</label>'' @ nl 16 @
     ''<input id=\"static-models-'' @ esc provider @ ''\" name=\"static_models\" type=\"text\"'' @
     nl 18 @ ''placeholder=\"'' @ (esc (tr ''prov.models.add_model_ids_ph'' [])) @ ''\"'' @
     nl 18 @ ''value=\"\"'' @ nl 18 @ ''style=\"font-family:monospace;width:100%\">'' @ nl 16 @
     ''<small class=\"muted\">'' @ (esc (tr ''prov.models.add_model_ids_help'' [])) @
     ''</small>'' @ nl 14 @ ''</div>'' @ nl 14 @ ''<div class=\"form-actions\">'' @ nl 16 @
     ''<button class=\"button small\" type=\"submit\">'' @
     (esc (tr ''prov.models.add_models'' [])) @ ''</button>'' @ nl 16 @
     (if models \<noteq> [] then (''<button class=\"button small secondary\" type=\"button\"'' @
       '' data-clear-static-models=\"'' @ esc provider @ ''\">'' @
       (esc (tr ''prov.models.clear'' [])) @ ''</button>'') else []) @ nl 14 @ ''</div>'' @
     nl 12 @ ''</form>'' @ nl 10 @ ''</div>'' @ nl 8 @ ''</details>'')"

definition model_catalog ::
  "translator \<Rightarrow> console \<Rightarrow> string \<Rightarrow> provider_view \<Rightarrow> bool \<Rightarrow> jsval list \<Rightarrow> string" where
  "model_catalog tr c chosen view large allItems =
     (let name = vw_name view; mode = effective_mode chosen large; refresh = tr ''prov.models.refresh'' [] in (''<section class=\"provider-model-catalog '' @
        (if large then ''is-large-catalog'' else []) @
        ''\" aria-labelledby=\"provider-model-catalog-title\">'' @ nl 10 @
        ''<div class=\"provider-model-catalog-head\">'' @ nl 12 @
        ''<h3 id=\"provider-model-catalog-title\">'' @ iconSvg ''boxes'' @ '' '' @
        (esc (tr ''prov.models.catalog'' [])) @ ''</h3>'' @ nl 12 @
        ''<span class=\"provider-model-section-count\">'' @
        (esc (tr ''prov.models.shown'' [(''count'', Str (count_of (length allItems)))])) @
        ''</span>'' @ nl 12 @ ''<div class=\"provider-model-catalog-head-actions\">'' @ nl 14 @
        providerModelViewToggle tr name mode @ nl 14 @
        ''<button class=\"button secondary icon-action provider-model-refresh-action\"'' @
        '' type=\"button\"'' @ nl 16 @ ''data-provider-models-refresh=\"'' @ esc name @ ''\"'' @
        nl 16 @ ''title=\"'' @ esc refresh @ ''\"'' @ nl 16 @ ''aria-label=\"'' @ esc refresh @
        ''\">'' @ iconSvg ''rotate'' @ ''</button>'' @ nl 12 @ ''</div>'' @ nl 10 @ ''</div>'' @
        (model_toolbar tr name (c_modelFilters c) (allItems \<noteq> [])) @ nl 10 @
        (legacy_notice tr (provider_map_of c name) (vw_legacyRouteRefs view)) @ nl 10 @
        (draft_bar tr name (providerModelDraftCount (c_drafts c) name)) @ nl 10 @
        (if mode = ''list'' then model_list tr name large allItems else model_grid tr name large allItems) @
        nl 8 @ ''</section>''))"

definition providerDrawerModels ::
  "translator \<Rightarrow> (string \<Rightarrow> string \<Rightarrow> bool) \<Rightarrow> (jsnum \<Rightarrow> string) \<Rightarrow> console \<Rightarrow> string \<Rightarrow> string set \<Rightarrow> provider_view \<Rightarrow> string" where
  "providerDrawerModels tr lc dates c chosen opened view =
     (let capability = lv_capability (vw_light view); name = vw_name view;
          groups = js_entries (obj_or_empty (get (get (get (c_config c) ''models'') ''provider_model_variants'') name));
          modelItems = vw_modelItems view;
          staticModels = normalizeStaticModelIds (get (lv_config (vw_light view)) ''static_models'');
          visibleItems = filteredProviderModelItems (c_modelFilters c) modelItems;
          allItems = providerDrawerCatalogItems tr c view visibleItems;
          large = (24 < length visibleItems);
          off = length (filter (\<lambda>i. truthy (get i ''disabled'')) modelItems) in (nl 6 @ ''<section class=\"provider-drawer-section provider-models-workspace\">'' @
             nl 8 @
             (model_kpis tr dates capability (length modelItems) off (providerModelDraftCount (c_drafts c) name)) @
             nl 8 @
             (if get capability ''status'' = Str ''pending'' then (''<div class=\"model-capability-refreshing\">'' @ refreshSpinner @ '' '' @
               (esc (tr ''prov.models.discovering'' [])) @ ''</div>'') else []) @
             nl 8 @
             (if truthy (get capability ''error'') then (''<div class=\"model-capability-error\">'' @
               (messageMarkup (get capability ''error'')) @ ''</div>'') else []) @
             nl 8 @ model_catalog tr c chosen view large allItems @ nl 0 @ nl 8 @
             (alias_disclosure tr opened name groups (variant_choices lc capability)) @ nl 0 @
             nl 8 @ static_disclosure tr opened name staticModels @ nl 6 @ ''</section>'' @ nl 4))"

section \<open>Format routes and badges\<close>

text \<open>\<open>sort()\<close> without a comparator orders the pairs by their text.\<close>

definition pair_text :: "string \<times> jsval \<Rightarrow> string" where
  "pair_text e = to_str (Arr [Str (fst e), snd e])"

definition sorted_entries :: "jsval \<Rightarrow> (string \<times> jsval) list" where
  "sorted_entries fmts = js_sort (\<lambda>a b. string_le (pair_text a) (pair_text b)) (js_entries fmts)"

definition format_route :: "string \<Rightarrow> bool \<Rightarrow> string \<times> jsval \<Rightarrow> string" where
  "format_route provider poolRow entry =
     (let name = fst entry; cfg = snd entry; on = truthy (get cfg ''enabled''); interactive = (provider \<noteq> []);
          label = (if formatLabel (Str name) \<noteq> [] then formatLabel (Str name) else name);
          verb = (if on then ''Disable'' else ''Enable'');
          dataAttrs = (if interactive then (''data-format-provider=\"'' @ esc provider @ ''\" data-format=\"'' @ esc name @
             ''\" data-format-enabled=\"'' @ (if on then ''1'' else ''0'') @
             ''\" data-format-path=\"'' @ (escapeHtml (jor (get cfg ''path'') (Str []))) @ ''\"'') else []);
          icon = (if poolRow then (''<span class=\"format-route-icon\" aria-hidden=\"true\">'' @ iconSvg ''filter'' @
             ''</span>'') else []);
          toggle = (if interactive then (nl 10 @ ''<button class=\"format-route-switch '' @ (if on then ''is-on'' else []) @
             ''\" type=\"button\"'' @ nl 12 @ ''data-format-toggle'' @ nl 12 @
             ''role=\"switch\"'' @ nl 12 @ ''aria-checked=\"'' @
             (if on then ''true'' else ''false'') @ ''\"'' @ nl 12 @ ''title=\"'' @
             (esc ((verb @ '' '' @ label))) @ ''\"'' @ nl 12 @ ''aria-label=\"'' @
             (esc ((verb @ '' '' @ label @ '' for '' @ provider))) @ ''\">'' @ nl 12 @
             ''<span></span>'' @ nl 10 @ ''</button>'' @ nl 8) else []);
          edit = (if interactive then (nl 10 @ ''<button class=\"format-route-edit\" type=\"button\"'' @ nl 12 @
             ''data-format-path-edit'' @ nl 12 @ ''title=\"Edit path\"'' @ nl 12 @
             ''aria-label=\"'' @ (esc ((''Edit '' @ label @ '' path for '' @ provider))) @
             ''\">'' @ iconSvg ''pencil'' @ ''</button>'' @ nl 8) else []) in (nl 8 @ ''<span class=\"format-route '' @
                (if on then ''enabled'' else ''disabled'') @ '' '' @
                (if interactive then ''is-interactive'' else []) @ ''\" '' @ dataAttrs @ ''>'' @
                nl 10 @ icon @ nl 10 @ ''<span class=\"format-route-main\">'' @ nl 12 @ ''<b>'' @
                esc label @ ''</b>'' @ nl 12 @ ''<small>'' @
                (escapeHtml (jor (get cfg ''path'') (Str ''-''))) @ ''</small>'' @ nl 10 @
                ''</span>'' @ nl 10 @ ''<span class=\"format-route-actions\">'' @ nl 12 @ toggle @
                nl 12 @ edit @ nl 10 @ ''</span>'' @ nl 8 @ ''</span>'' @ nl 6))"

definition formatRouteItems :: "jsval \<Rightarrow> string \<Rightarrow> bool \<Rightarrow> string" where
  "formatRouteItems fmts provider poolRow =
     (let rows = sorted_entries (obj_or_empty fmts) in
      if rows = [] then (''<span class=\"empty\">No format routes</span>'')
      else concat (map (format_route provider poolRow) rows))"

definition stateBadges :: "jsval \<Rightarrow> string" where
  "stateBadges p =
     (let b = (\<lambda>k on off tone. badge (Str (if truthy (get p k) then on else off)) (if truthy (get p k) then ''ok'' else tone)) in
      js_join '' '' [b ''config_enabled'' ''config on'' ''config off'' ''bad'', b ''runtime_enabled'' ''runtime on'' ''runtime off'' ''bad'',
        b ''available'' ''available'' ''unavailable'' ''warn''])"

end
