(* ===== verification/ProviderCards.thy ===== *)
theory ProviderCards
  imports ProviderModelsView BrandIcons ProviderSort
begin

text \<open>
  The providers view (\<open>app.js\<close>): health pills, probe summaries, the strip of recent calls, the cards and the table
  rows as markup, and what the view draws. \<open>dates\<close> formats a date, \<open>clock\<close> gives the month, day, hour and minute of
  a time, \<open>url\<close> is the platform's URL parser (protocol, address, host; \<open>None\<close> when it throws).
\<close>

type_synonym url_parser = "string \<Rightarrow> (string \<times> string \<times> string) option"

section \<open>Health\<close>

text \<open>A label, or the fallback when the dictionary has no entry (\<open>t\<close> then gives the key back).\<close>

definition label_or :: "translator \<Rightarrow> string \<Rightarrow> string \<Rightarrow> string" where
  "label_or tr key fallback = (if tr key [] = key then fallback else tr key [])"

definition health_rounded :: "jsnum \<Rightarrow> jsnum" where
  "health_rounded score = num_max (Fin 0) (num_min (Fin 100) (num_round score))"

definition score_tone :: "jsnum \<Rightarrow> string" where
  "score_tone rounded = (if num_le (Fin 75) rounded then ''ok'' else if num_le (Fin 50) rounded then ''warn'' else ''bad'')"

definition providerHealthPill :: "translator \<Rightarrow> console \<Rightarrow> light_view \<Rightarrow> string" where
  "providerHealthPill tr c view =
     (let rs = lv_runtimeState view; entry = get (get (c_health c) ''providers'') (lv_name view);
          score = (if truthy entry then to_num (get entry ''score'') else NaN);
          rounded = health_rounded score;
          gradeLabel = label_or tr (''health.grade.'' @ js_lower (str_or_empty (get entry ''grade''))) [] in
      if rs_id rs = ''disabled'' then (''<span class=\"provider-health-pill tone-disabled\">'' @
         (esc (tr ''prov.disabled'' [])) @ ''</span>'')
      else if is_finite score then
        (''<span class=\"provider-health-pill tone-'' @ score_tone rounded @ ''\" title=\"'' @
           (esc (tr ''prov.health_score_title'' [(''score'', Str (fmtInt (Num rounded)))])) @
           ''\">'' @ (if gradeLabel \<noteq> [] then esc gradeLabel @ '' '' else []) @ ''<b>'' @
           (fmtInt (Num rounded)) @ ''</b></span>'')
      else (''<span class=\"provider-health-pill tone-'' @
         (if rs_badge rs \<in> {''ok'', ''warn'', ''bad''} then rs_badge rs else ''muted'') @
         ''\">'' @ (esc (label_or tr (''prov.'' @ rs_id rs) (rs_label rs))) @ ''</span>''))"

definition key_tone :: "key_stats \<Rightarrow> string" where
  "key_tone s = (if ks_total s = 0 then ''mute'' else if ks_usable s = 0 then ''bad'' else if ks_usable s < ks_total s then ''warn'' else ''ok'')"

definition success_text :: "jsval \<Rightarrow> string" where
  "success_text rate = (if rate = Null then ([CHR 0xE2, CHR 0x80, CHR 0x94]) else fmtPct rate)"

definition success_tone :: "string \<Rightarrow> jsval \<Rightarrow> string" where
  "success_tone none rate =
     (if rate = Null then none else if num_le (Fin (9 / 10)) (to_num rate) then ''ok''
      else if num_le (Fin (1 / 2)) (to_num rate) then ''warn'' else ''bad'')"

definition latency_tone :: "string \<Rightarrow> jsval \<Rightarrow> string" where
  "latency_tone none latency =
     (if \<not> truthy latency then none else if num_le (to_num latency) (Fin 1200) then ''ok''
      else if num_le (to_num latency) (Fin 8000) then ''warn'' else ''bad'')"

definition latency_text :: "jsval \<Rightarrow> string" where
  "latency_text latency = (if truthy latency then fmtCompactMs latency else ([CHR 0xE2, CHR 0x80, CHR 0x94]))"

section \<open>Recent calls\<close>

record spark_stats =
  sk_calls :: nat
  sk_avg :: jsval
  sk_failed :: nat
  sk_latencies :: "jsnum list"
  sk_events :: "jsval list"

definition event_latency :: "jsval \<Rightarrow> jsnum" where
  "event_latency event = num_max (Fin 0) (num_or (to_num (get event ''latencyMs'')) (Fin 0))"

definition event_failed :: "jsval \<Rightarrow> bool" where
  "event_failed event \<longleftrightarrow> get event ''ok'' = Bool False \<or> get event ''status'' = Str ''failed''"

definition PROVIDER_SPARK_SLOTS :: nat where
  "PROVIDER_SPARK_SLOTS = 14"

definition providerSparklineStats :: "jsval \<Rightarrow> nat \<Rightarrow> spark_stats" where
  "providerSparklineStats activity window =
     (let recent = recentProviderActivityEvents (get activity ''events'');
          events = drop (length recent - window) recent; latencies = map event_latency events
      in \<lparr>sk_calls = length events,
          sk_avg = (if latencies = [] then Null
            else Num (num_round (num_div (foldl num_add (Fin 0) latencies) (Fin (of_nat (length latencies)))))),
          sk_failed = length (filter event_failed events), sk_latencies = latencies, sk_events = events\<rparr>)"

definition max_latency :: "jsval list \<Rightarrow> jsnum" where
  "max_latency events = foldl num_max (Fin 1) (map event_latency events)"

definition bar_height :: "jsnum \<Rightarrow> jsval \<Rightarrow> jsnum" where
  "bar_height maxLatency event =
     (if event_failed event then Fin 100
      else num_round (num_add (Fin 30) (num_mul (Fin 70) (num_min (Fin 1) (num_div (event_latency event) maxLatency)))))"

definition spark_bar :: "jsval \<Rightarrow> jsnum \<Rightarrow> jsval \<Rightarrow> string" where
  "spark_bar avg maxLatency event =
     (let latency = event_latency event; bad = event_failed event; warn = (\<not> bad \<and> num_lt (Fin 5000) latency);
          label = (if bad then ''failed'' else if warn then ''slow'' else ''ok'') @ '' / '' @ fmtCompactMs (jor (Num latency) avg)
      in (''<i class=\"'' @ (if bad then ''is-bad'' else if warn then ''is-warn'' else ''is-ok'') @
         ''\" style=\"height:'' @ (num_to_str (bar_height maxLatency event)) @ ''%\" title=\"'' @
         esc label @ ''\"></i>''))"

definition providerSparkline :: "jsval \<Rightarrow> string \<Rightarrow> string" where
  "providerSparkline activity name =
     (let stats = providerSparklineStats activity PROVIDER_SPARK_SLOTS; events = sk_events stats; n = length events in
      if events = [] then []
      else (''<div class=\"provider-kpi-bars\" title=\"'' @
         (esc ((name @ '': '' @ (nat_to_str (int n)) @ '' recent calls / avg '' @
           (fmtCompactMs (sk_avg stats)) @ '' / '' @ (nat_to_str (int (sk_failed stats))) @
           '' failed''))) @ ''\" aria-hidden=\"true\">'' @
         (concat (map (spark_bar (sk_avg stats) (max_latency events)) events)) @
         (concat (replicate (PROVIDER_SPARK_SLOTS - n) ((''<i class=\"is-empty\" style=\"height:28%\"></i>'')))) @
         ''</div>''))"

section \<open>Probes\<close>

definition probeTone :: "jsval \<Rightarrow> string" where
  "probeTone probe =
     (let outcome = str_or_empty (get probe ''outcome'') in
      if outcome = ''success'' then ''ok'' else if str_or_empty (get probe ''action'') = ''observed_only'' then ''warn''
      else if outcome = ''failed'' then ''bad'' else ''neutral'')"

definition PROBE_REASON_KEYS :: "(string \<times> string) list" where
  "PROBE_REASON_KEYS =
     [(''skip_patrol_probe'', ''prov.probe_reason.skip_patrol_probe''), (''skip_idle_probe'', ''prov.probe_reason.skip_patrol_probe''),
      (''provider disabled'', ''prov.probe_reason.provider_disabled''), (''no keys configured'', ''prov.probe_reason.no_keys''),
      (''no available key'', ''prov.probe_reason.no_available_key''),
      (''keys cooling down or disabled'', ''prov.probe_reason.keys_cooling''),
      (''no probe model'', ''prov.probe_reason.no_probe_model''),
      (''no probe model (fetch failed or empty)'', ''prov.probe_reason.no_probe_model_fetch''),
      (''request conversion failed'', ''prov.probe_reason.conversion_failed''),
      (''no supported format'', ''prov.probe_reason.no_format''), (''recent real success'', ''prov.probe_reason.recent_success''),
      (''probe coordinator busy'', ''prov.probe_reason.coordinator_busy''),
      (''fallback probe model rejected'', ''prov.probe_reason.fallback_rejected''),
      (''patrol model rejected'', ''prov.probe_reason.patrol_rejected''),
      (''idle stream opened but no data event'', ''prov.probe_reason.no_data''),
      (''patrol stream opened but no data event'', ''prov.probe_reason.no_data'')]"

definition probeReasonText :: "translator \<Rightarrow> jsval \<Rightarrow> string" where
  "probeReasonText tr probe =
     (let reason = str_or_empty (get probe ''reason'') in case map_of PROBE_REASON_KEYS reason of Some key \<Rightarrow> tr key [] | None \<Rightarrow> reason)"

definition probe_actions :: "string list" where
  "probe_actions = [''none'', ''observed_only'', ''reported_failure'', ''reported_success'']"

definition probeActionText :: "translator \<Rightarrow> jsval \<Rightarrow> string" where
  "probeActionText tr action =
     (let a = str_or_empty action in if a \<in> set probe_actions then tr (''prov.probe_action.'' @ a) [] else a)"

definition idle_tiers :: "(string \<times> string) list" where
  "idle_tiers = [(''cold_start'', ''neutral''), (''recent'', ''ok''), (''medium'', ''ok''), (''long'', ''warn''), (''deep'', ''soft'')]"

text \<open>Text, title and tone.\<close>

definition idleTierLabel :: "translator \<Rightarrow> jsval \<Rightarrow> (string \<times> string \<times> string) option" where
  "idleTierLabel tr tier =
     map_option (\<lambda>tone. (tr (''prov.tier.'' @ to_str tier) [], tr (''prov.tier.'' @ to_str tier @ ''_title'') [], tone))
       (map_of idle_tiers (to_str tier))"

definition fmtNextProbe :: "jsval \<Rightarrow> string" where
  "fmtNextProbe s =
     (let n = to_num s in
      if \<not> truthy s \<or> num_le n (Fin 0) then [] else if num_lt n (Fin 60) then to_str s @ ''s''
      else if num_lt n (Fin 3600) then num_to_str (num_round (num_div n (Fin 60))) @ ''m''
      else toFixed 1 (num_div n (Fin 3600)) @ ''h'')"

definition renderIdleStateBar :: "translator \<Rightarrow> jsval \<Rightarrow> string" where
  "renderIdleStateBar tr idle =
     (case idleTierLabel tr (get idle ''tier'') of
        None \<Rightarrow> []
      | Some (text, title, tone) \<Rightarrow> if \<not> truthy idle then [] else (nl 6 @ ''<div class=\"idle-state-bar\" title=\"'' @ esc title @ ''\">'' @ nl 8 @
         iconSvg ''radar'' @ nl 8 @ ''<span class=\"idle-state-tier tone-'' @ esc tone @ ''\">'' @
         esc text @ ''</span>'' @ nl 8 @ ''<span class=\"idle-state-sep\">'' @ [CHR 0xB7] @
         ''</span>'' @ nl 8 @ ''<span class=\"idle-state-cadence\">'' @
         (esc (tr ''prov.idle_cadence'' [(''time'', Str (fmtNextProbe (get idle ''next_probe_in_s'')))])) @
         ''</span>'' @ nl 8 @ ''<span class=\"idle-state-sep\">'' @ [CHR 0xB7] @ ''</span>'' @
         nl 8 @ ''<span class=\"idle-state-idle\">'' @
         (esc (if num_le (Fin 0) (to_num (get idle ''idle_seconds'')) then tr ''prov.idle_idle'' [(''time'', Str (fmtNextProbe (get idle ''idle_seconds'')))] else tr ''prov.idle_no_requests'' [])) @
         ''</span>'' @ nl 6 @ ''</div>'' @ nl 4))"

definition pad_two :: "int \<Rightarrow> string" where
  "pad_two n = (let s = nat_to_str n in replicate (2 - length s) (CHR ''0'') @ s)"

definition fmtProbeTime :: "(jsnum \<Rightarrow> int \<times> int \<times> int \<times> int) \<Rightarrow> jsval \<Rightarrow> string" where
  "fmtProbeTime clock ts =
     (let n = num_or_zero ts in
      if \<not> num_truthy n then []
      else case clock (num_mul n (Fin 1000)) of
        (month, day, hour, minute) \<Rightarrow> (pad_two month @ ''/'' @ pad_two day @ '' '' @ pad_two hour @ '':'' @ pad_two minute))"

text \<open>The probe of the card: the newer one of the two checkers, with its tier and its count.\<close>

definition shown_probe :: "jsval \<Rightarrow> (jsval \<times> string \<times> jsval) option" where
  "shown_probe activity =
     (let patrol = get activity ''lastProbePatrol''; readiness = get activity ''lastProbeReadiness''; legacy = get activity ''lastProbe'' in
      if truthy patrol \<and> (\<not> truthy readiness \<or> num_lt (num_or_zero (get readiness ''ts'')) (num_or_zero (get patrol ''ts'')))
      then Some (patrol, ''patrol'', get activity ''probeCount24hPatrol'')
      else if truthy readiness then Some (readiness, ''readiness'', get activity ''probeCount24hReadiness'')
      else if truthy legacy
      then Some (legacy, (if str_or_empty (get legacy ''idle_tier'') = ''patrol'' then ''patrol'' else ''readiness''), get activity ''probeCount24h'')
      else None)"

definition probe_details :: "translator \<Rightarrow> jsval \<Rightarrow> jsval \<Rightarrow> string list" where
  "probe_details tr probe count24h =
     (let tone = probeTone probe; bad = (tone = ''bad''); http = get probe ''http_status''; latency = get probe ''latency_ms'' in
      (if truthy http \<and> bad then [fmtInt http] else [])
      @ (if bad \<and> (get probe ''action'' = Str ''cooldown'' \<or> get probe ''action'' = Str ''reported_failure'' \<or> get probe ''error_type'' = Str ''cooldown'')
         then [tr ''prov.in_cooldown'' []] else [])
      @ (if \<not> nullish latency \<and> \<not> bad then [fmtCompactMs latency] else if truthy http \<and> \<not> bad then [''HTTP '' @ fmtInt http] else [])
      @ (if num_lt (Fin 0) (to_num count24h) then [tr ''prov.probe_count_short'' [(''count'', Str (fmtInt count24h))]] else []))"

definition probeChipHtml :: "translator \<Rightarrow> jsval \<Rightarrow> string \<Rightarrow> jsval \<Rightarrow> string" where
  "probeChipHtml tr probe tier count24h =
     (let isPatrol = (tier = ''patrol''); tone = probeTone probe;
          baseLabel = (if tone = ''ok'' then tr ''prov.probe_ok'' [] else if tone = ''bad'' then tr ''prov.probe_failed'' [] else tr ''prov.probe_observed'' []);
          label = (if isPatrol then tr ''prov.probe_patrol_prefix'' [] else tr ''prov.probe_readiness_prefix'' []) @ baseLabel;
          detail = js_join ('' '' @ [CHR 0xB7] @ '' '') (probe_details tr probe count24h);
          chipTitle = js_join ('' '' @ [CHR 0xB7] @ '' '') (filter (\<lambda>s. s \<noteq> []) [probeReasonText tr probe, probeActionText tr (get probe ''action'')]);
          dotTone = (if tone = ''ok'' then [] else if tone = ''bad'' then ''bad'' else ''warn'');
          tierTitle = (if isPatrol then tr ''prov.tier_patrol_title'' [] else tr ''prov.tier_readiness_title'' []) in (nl 6 @ ''<div class=\"provider-probe-summary tone-'' @ esc tone @
             (if isPatrol then ('' patrol-probe'') else ('' readiness-probe'')) @
             ''\" title=\"'' @ esc tierTitle @
             (if chipTitle \<noteq> [] then ('' '' @ [CHR 0xE2, CHR 0x80, CHR 0x94] @ '' '') @ esc chipTitle else []) @
             ''\">'' @ nl 8 @ ''<span class=\"dot2 '' @ esc dotTone @ ''\"></span>'' @ nl 8 @
             ''<span>'' @ esc label @ ''</span>'' @ nl 8 @
             (if detail \<noteq> [] then (''<span class=\"provider-kpi-sep\">'' @ [CHR 0xB7] @ ''</span><small>'' @
               esc detail @ ''</small>'') else []) @ nl 6 @ ''</div>'' @ nl 4))"

definition providerProbeSummary :: "translator \<Rightarrow> jsval \<Rightarrow> bool \<Rightarrow> string" where
  "providerProbeSummary tr activity isDisabled =
     (if isDisabled then (''<div class=\"provider-probe-summary empty\"><span class=\"dot2'' @
        '' mute\"></span><span>'' @ (esc (tr ''prov.probe_paused'' [])) @ ''</span></div>'')
      else case shown_probe activity of
        None \<Rightarrow> (''<div class=\"provider-probe-summary empty\" title=\"'' @
           (esc (tr ''prov.probe_none_title'' [])) @
           ''\"><span class=\"dot2 mute\"></span><span>'' @ (esc (tr ''prov.probe_none'' [])) @
           '' '' @ [CHR 0xB7] @ '' '' @ (esc (tr ''prov.probe_waiting'' [])) @ ''</span></div>'')
      | Some (probe, tier, count24h) \<Rightarrow> (''<div class=\"provider-probe-summary-group\">'' @ probeChipHtml tr probe tier count24h @
         ''</div>''))"

definition probe_meta :: "translator \<Rightarrow> jsval \<Rightarrow> string" where
  "probe_meta tr probe =
     js_join ('' '' @ [CHR 0xB7] @ '' '') (filter (\<lambda>s. s \<noteq> [])
       [to_str (jor (get probe ''format'') (Str [])),
        if truthy (get probe ''model_source'') then ''source:'' @ to_str (get probe ''model_source'') else [],
        if num_le (Fin 0) (to_num (get probe ''key_index'')) then ''key '' @ to_str (get probe ''key_index'') else [],
        (case idleTierLabel tr (get probe ''idle_tier'') of Some (text, _) \<Rightarrow> ''tier:'' @ text | None \<Rightarrow> []),
        if truthy (get probe ''next_probe_in_s'') then ''next:'' @ fmtNextProbe (get probe ''next_probe_in_s'') else []])"

definition probe_timing :: "jsval \<Rightarrow> string" where
  "probe_timing probe =
     (if \<not> nullish (get probe ''latency_ms'') then fmtMs (get probe ''latency_ms'')
      else if truthy (get probe ''http_status'') then ''HTTP '' @ fmtInt (get probe ''http_status'') else ([CHR 0xE2, CHR 0x80, CHR 0x94]))"

definition probe_badges ::
  "translator \<Rightarrow> (jsnum \<Rightarrow> string) \<Rightarrow> (jsnum \<Rightarrow> int \<times> int \<times> int \<times> int) \<Rightarrow> jsval \<Rightarrow> string \<times> string \<times> string" where
  "probe_badges tr dates clock probe =
     (let isPatrol = (str_or_empty (get probe ''idle_tier'') = ''patrol'');
          next_in = fmtNextProbe (get probe ''next_probe_in_s''); timeStr = fmtProbeTime clock (get probe ''ts'') in
      ((''<span class=\"probe-tier-badge'' @
         (if isPatrol then ('' patrol-badge'') else ('' tone-neutral'')) @ ''\" title=\"'' @
         (esc (tr (if isPatrol then ''prov.tier_patrol_title'' else ''prov.tier_readiness_title'') [])) @
         ''\">'' @
         (esc (tr (if isPatrol then ''prov.probe_type_patrol'' else ''prov.probe_type_readiness'') [])) @
         ''</span>''),
       if truthy (get probe ''next_probe_in_s'') then (''<span class=\"probe-next-badge\" title=\"Next probe in ~'' @ next_in @ ''\">'' @
          [CHR 0xE2, CHR 0x86, CHR 0x92] @ '' '' @ esc next_in @ ''</span>'') else [],
       if timeStr \<noteq> [] then (''<span class=\"probe-time-badge\" title=\"'' @
          (esc (fmtDate dates (get probe ''ts''))) @ ''\">'' @ esc timeStr @ ''</span>'') else []))"

definition providerProbeRow ::
  "translator \<Rightarrow> (jsnum \<Rightarrow> string) \<Rightarrow> (jsnum \<Rightarrow> int \<times> int \<times> int \<times> int) \<Rightarrow> jsval \<Rightarrow> string" where
  "providerProbeRow tr dates clock probe =
     (let tone = probeTone probe;
          reasonRaw = to_str (jor (jor (jor (get probe ''reason'') (get probe ''error_type'')) (get probe ''outcome'')) (Str ''probe''));
          reason = (if probeReasonText tr probe \<noteq> [] then probeReasonText tr probe else reasonRaw);
          actionRaw = to_str (jor (get probe ''action'') (Str ''none''));
          model = jor (get probe ''model'') (Str ([CHR 0xE2, CHR 0x80, CHR 0x94])); meta = probe_meta tr probe;
          (tierBadge, nextBadge, timeBadge) = probe_badges tr dates clock probe in (nl 6 @ ''<div class=\"provider-probe-row tone-'' @ esc tone @ ''\">'' @ nl 8 @
             ''<span class=\"provider-status-dot '' @
             (if tone \<in> {''bad'', ''warn'', ''ok''} then tone else []) @ ''\"></span>'' @
             nl 8 @ ''<strong title=\"'' @ esc reasonRaw @ ''\">'' @ esc reason @ ''</strong>'' @
             nl 8 @ ''<span title=\"'' @ escapeHtml model @ ''\">'' @ escapeHtml model @
             ''</span>'' @ nl 8 @ ''<small title=\"'' @ esc meta @ ''\">'' @
             (esc (if meta \<noteq> [] then meta else ([CHR 0xE2, CHR 0x80, CHR 0x94]))) @
             ''</small>'' @ nl 8 @ ''<em title=\"'' @ esc actionRaw @ ''\">'' @
             (esc (probeActionText tr (Str actionRaw))) @ ''</em>'' @ nl 8 @ ''<b>'' @
             (esc (probe_timing probe)) @ ''</b>'' @ nl 8 @ tierBadge @ nl 8 @ nextBadge @ nl 8 @
             timeBadge @ nl 6 @ ''</div>'' @ nl 4))"

section \<open>Cards and rows\<close>

definition format_chips :: "translator \<Rightarrow> string \<Rightarrow> string list \<Rightarrow> string" where
  "format_chips tr cls names =
     (if names \<noteq> [] then concat (map (\<lambda>f. formatChip (Str f)) names) else (''<span class=\"'' @ cls @ ''\">'' @ (esc (tr ''prov.no_formats'' [])) @ ''</span>''))"

definition pending_models :: "light_view \<Rightarrow> bool" where
  "pending_models view \<longleftrightarrow> get (lv_capability view) ''status'' = Str ''pending''"

definition activity_block :: "translator \<Rightarrow> jsval \<Rightarrow> string \<Rightarrow> bool \<Rightarrow> string" where
  "activity_block tr activity name isDisabled =
     (let stripStats = providerSparklineStats activity PROVIDER_SPARK_SLOTS in
      if sk_calls (providerSparklineStats activity PROVIDER_CALL_BAR_SLOTS) \<noteq> 0 then (''<div class=\"provider-kpi-activity\">'' @ nl 14 @ providerSparkline activity name @
         nl 14 @ ''<div class=\"provider-kpi-activity-cap\"><span>'' @
         (esc (tr ''prov.col_calls'' [])) @ ''</span><b>'' @
         (esc (tr ''prov.activity_summary'' [(''avg'', Str (fmtCompactMs (sk_avg stripStats))), (''failed'', Str (count_of (sk_failed stripStats)))])) @
         ''</b></div>'' @ nl 12 @ ''</div>'')
      else (''<div class=\"provider-kpi-empty\">'' @
         (esc (if isDisabled then tr ''prov.empty_disabled'' [] else tr ''prov.empty_idle'' [])) @
         ''</div>''))"

definition providerRuntimeCard :: "translator \<Rightarrow> console \<Rightarrow> provider_view \<Rightarrow> string" where
  "providerRuntimeCard tr c view =
     (let v = vw_light view; name = lv_name v; keys = lv_keyStats v; activity = lv_activity v; rs = lv_runtimeState v;
          latency = get activity ''latestLatency''; rate = get activity ''successRate''; isDisabled = (rs_id rs = ''disabled'');
          modelText = (if pending_models v then ([CHR 0xE2, CHR 0x80, CHR 0xA6]) else count_of (length (vw_modelItems view)));
          prio = num_to_str (lv_priority v); path = ''/providers/'' @ encodeURIComponent name in (nl 6 @ ''<article class=\"provider-kpi-card '' @ rs_tone rs @
             (if isDisabled then ('' is-disabled'') else []) @ ''\" data-provider-card=\"'' @
             esc name @ ''\" data-provider-open=\"'' @ esc name @
             ''\" tabindex=\"0\" role=\"button\" aria-label=\"'' @
             (esc (tr ''prov.open_details'' [(''name'', Str name)])) @ ''\">'' @ nl 8 @
             ''<div class=\"provider-kpi-head\">'' @ nl 10 @
             (providerBrandIconMarkup (Str name) (iconSvg ''server'')) @ nl 10 @
             ''<strong class=\"provider-kpi-name\" title=\"'' @ esc name @ ''\">'' @ esc name @
             ''</strong>'' @ nl 10 @ providerHealthPill tr c v @ nl 8 @ ''</div>'' @ nl 8 @
             ''<div class=\"provider-kpi-meta\">'' @ nl 10 @
             (format_chips tr ''provider-kpi-muted'' (lv_formatNames v)) @ nl 10 @
             ''<span class=\"provider-kpi-sep\">'' @ [CHR 0xB7] @ ''</span>'' @ nl 10 @
             ''<span title=\"Priority '' @ prio @ ''\">P'' @ prio @ ''</span>'' @ nl 10 @
             ''<span class=\"provider-kpi-sep\">'' @ [CHR 0xB7] @ ''</span>'' @ nl 10 @
             ''<span>'' @ (esc (tr ''prov.meta_models'' [(''count'', Str modelText)])) @
             ''</span>'' @ nl 10 @ ''<span class=\"provider-kpi-sep\">'' @ [CHR 0xB7] @
             ''</span>'' @ nl 10 @ ''<span class=\"provider-kpi-key-stat '' @ key_tone keys @
             ''\" title=\"'' @ (esc (tr ''prov.keys'' [])) @ ''\">'' @
             (esc (tr ''prov.meta_keys'' [(''usable'', Str (count_of (ks_usable keys))), (''total'', Str (count_of (ks_total keys)))])) @
             ''</span>'' @ nl 8 @ ''</div>'' @ nl 8 @ ''<div class=\"provider-kpi-stats\">'' @
             nl 10 @ ''<div class=\"provider-kpi-cell\"><b class=\"'' @
             success_tone ''mute'' rate @ ''\">'' @ (esc (success_text rate)) @ ''</b><small>'' @
             (esc (tr ''prov.col_success'' [])) @ ''</small></div>'' @ nl 10 @
             ''<div class=\"provider-kpi-cell\"><b class=\"'' @ latency_tone ''mute'' latency @
             ''\">'' @ (esc (latency_text latency)) @ ''</b><small>'' @
             (esc (tr ''prov.stat_first_byte'' [])) @ ''</small></div>'' @ nl 10 @
             ''<div class=\"provider-kpi-cell\"><b>'' @
             (esc (count_of (sk_calls (providerSparklineStats activity PROVIDER_CALL_BAR_SLOTS)))) @
             ''</b><small>'' @ (esc (tr ''prov.col_calls'' [])) @ ''</small></div>'' @ nl 8 @
             ''</div>'' @ nl 8 @ activity_block tr activity name isDisabled @ nl 8 @
             providerProbeSummary tr activity isDisabled @ nl 8 @
             ''<div class=\"provider-kpi-foot\">'' @ nl 10 @
             ''<div class=\"provider-kpi-ops\">'' @ nl 12 @ ''<button class=\"provider-kpi-op'' @
             (if isDisabled then [] else ('' danger'')) @
             ''\" type=\"button\" data-action-path=\"'' @ path @ ''/'' @
             (if isDisabled then ''enable'' else ''disable'') @ ''\">'' @
             (esc (tr (if isDisabled then ''prov.enable'' else ''prov.disable'') [])) @
             ''</button>'' @ nl 12 @
             ''<button class=\"provider-kpi-op\" type=\"button\" data-action-path=\"'' @ path @
             ''/cooldown/clear\" data-tip=\"'' @ (esc (tr ''prov.restore_routing_tip'' [])) @
             ''\">'' @ (esc (tr ''prov.restore_routing'' [])) @ ''</button>'' @ nl 10 @
             ''</div>'' @ nl 10 @ ''<span class=\"provider-kpi-detail\" aria-hidden=\"true\">'' @
             (esc (tr ''prov.details_short'' [])) @ '' '' @ [CHR 0xE2, CHR 0x86, CHR 0x92] @
             ''</span>'' @ nl 8 @ ''</div>'' @ nl 6 @ ''</article>'' @ nl 4))"

definition priority_class :: "jsnum \<Rightarrow> string" where
  "priority_class p = (if num_le (Fin 10) p then ''hi'' else if num_le (Fin 5) p then ''mid'' else ''lo'')"

definition providerRuntimeRow :: "translator \<Rightarrow> console \<Rightarrow> provider_view \<Rightarrow> string" where
  "providerRuntimeRow tr c view =
     (let v = vw_light view; name = lv_name v; keys = lv_keyStats v; activity = lv_activity v; rs = lv_runtimeState v;
          latency = get activity ''latestLatency''; rate = get activity ''successRate'';
          stats = providerSparklineStats activity PROVIDER_CALL_BAR_SLOTS;
          modelCount = (if pending_models v then ''...'' else count_of (length (vw_modelItems view)));
          summary = tr ''prov.calls_summary'' [(''calls'', Str (count_of (sk_calls stats))), (''avg'', Str (fmtCompactMs (sk_avg stats)))];
          callsText = (if sk_calls stats \<noteq> 0 then esc summary else (''<span class=\"provider-list-muted\">'' @ [CHR 0xE2, CHR 0x80, CHR 0x94] @
             ''</span>''));
          callsTitle = (if sk_calls stats \<noteq> 0 then summary else tr ''prov.no_recent_calls'' []);
          prio = num_to_str (lv_priority v); path = ''/providers/'' @ encodeURIComponent name;
          running = not_false (get (lv_runtime v) ''runtime_enabled'') in (nl 6 @ ''<tr class=\"provider-list-row '' @ rs_tone rs @
             ''\" data-provider-row=\"'' @ esc name @ ''\" tabindex=\"0\" aria-label=\"'' @
             (esc (tr ''prov.open_details'' [(''name'', Str name)])) @ ''\">'' @ nl 8 @
             ''<td class=\"provider-list-name\">'' @ nl 10 @
             (providerBrandIconMarkup (Str name) (iconSvg ''server'')) @ nl 10 @
             ''<div class=\"provider-list-name-text\">'' @ nl 12 @ ''<strong title=\"'' @
             esc name @ ''\">'' @ esc name @ ''</strong>'' @ nl 12 @ ''<small>'' @
             (format_chips tr ''provider-list-muted'' (lv_formatNames v)) @
             ''<span class=\"priority-chip prio-'' @ (priority_class (lv_priority v)) @
             ''\" title=\"Priority '' @ prio @ ''\">P'' @ prio @ ''</span></small>'' @ nl 10 @
             ''</div>'' @ nl 8 @ ''</td>'' @ nl 8 @ ''<td>'' @ providerHealthPill tr c v @
             ''</td>'' @ nl 8 @ ''<td class=\"provider-list-num '' @ key_tone keys @ ''\">'' @
             (count_of (ks_usable keys)) @ ''/'' @ (count_of (ks_total keys)) @ ''</td>'' @ nl 8 @
             ''<td class=\"provider-list-num\">'' @ esc modelCount @ ''</td>'' @ nl 8 @
             ''<td class=\"provider-list-num '' @ success_tone ''mute'' rate @ ''\">'' @
             (esc (success_text rate)) @ ''</td>'' @ nl 8 @ ''<td class=\"provider-list-num '' @
             latency_tone ''mute'' latency @ ''\">'' @ (esc (latency_text latency)) @ ''</td>'' @
             nl 8 @ ''<td class=\"provider-list-num provider-list-calls\" title=\"'' @
             esc callsTitle @ ''\">'' @ callsText @ ''</td>'' @ nl 8 @
             ''<td class=\"provider-list-actions\">'' @ nl 10 @
             ''<button class=\"provider-row-link\" type=\"button\" data-provider-open=\"'' @
             esc name @ ''\" title=\"'' @ (esc (tr ''prov.row_details'' [])) @
             ''\" aria-label=\"'' @ (esc (tr ''prov.open_details'' [(''name'', Str name)])) @
             ''\">'' @ (esc (tr ''prov.details_short'' [])) @ ''</button>'' @ nl 10 @
             ''<button class=\"provider-row-link\" type=\"button\" data-action-path=\"'' @ path @
             ''/cooldown/clear\" data-tip=\"'' @ (esc (tr ''prov.restore_routing_tip'' [])) @
             ''\">'' @ (esc (tr ''prov.restore_routing'' [])) @ ''</button>'' @ nl 10 @
             ''<button class=\"provider-row-link'' @ (if running then ('' is-danger'') else []) @
             ''\" type=\"button\" data-action-path=\"'' @ path @ ''/'' @
             (if running then ''disable'' else ''enable'') @ ''\">'' @
             (esc (tr (if running then ''prov.disable'' else ''prov.enable'') [])) @
             ''</button>'' @ nl 8 @ ''</td>'' @ nl 6 @ ''</tr>'' @ nl 4))"

definition providerRuntimeTable :: "translator \<Rightarrow> console \<Rightarrow> provider_view list \<Rightarrow> string" where
  "providerRuntimeTable tr c views = (nl 6 @ ''<div class=\"provider-table-scroll\">'' @ nl 8 @
     ''<table class=\"provider-list-table\">'' @ nl 10 @ ''<thead>'' @ nl 12 @ ''<tr>'' @ nl 14 @
     ''<th scope=\"col\">'' @ (esc (tr ''prov.col_provider'' [])) @ ''</th>'' @ nl 14 @
     ''<th scope=\"col\">'' @ (esc (tr ''prov.status'' [])) @ ''</th>'' @ nl 14 @
     ''<th scope=\"col\">'' @ (esc (tr ''prov.keys'' [])) @ ''</th>'' @ nl 14 @
     ''<th scope=\"col\">'' @ (esc (tr ''prov.col_models'' [])) @ ''</th>'' @ nl 14 @
     ''<th scope=\"col\">'' @ (esc (tr ''prov.col_success'' [])) @ ''</th>'' @ nl 14 @
     ''<th scope=\"col\">'' @ (esc (tr ''prov.col_ttfb'' [])) @ ''</th>'' @ nl 14 @
     ''<th scope=\"col\">'' @ (esc (tr ''prov.col_calls'' [])) @ ''</th>'' @ nl 14 @
     ''<th scope=\"col\"><span class=\"sr-only\">'' @ (esc (tr ''prov.col_actions'' [])) @
     ''</span></th>'' @ nl 12 @ ''</tr>'' @ nl 10 @ ''</thead>'' @ nl 10 @ ''<tbody>'' @ nl 12 @
     (concat (map (providerRuntimeRow tr c) views)) @ nl 10 @ ''</tbody>'' @ nl 8 @ ''</table>'' @
     nl 6 @ ''</div>'' @ nl 4)"

section \<open>The view\<close>

definition providerSiteUrl :: "url_parser \<Rightarrow> jsval \<Rightarrow> string" where
  "providerSiteUrl url value =
     (let raw = trimmed value in
      if raw = [] then []
      else case url raw of
        None \<Rightarrow> []
      | Some (protocol, href, _) \<Rightarrow> if protocol \<in> {''http:'', ''https:''} then href else [])"

definition providerServerIconMarkup :: "translator \<Rightarrow> url_parser \<Rightarrow> jsval \<Rightarrow> string \<Rightarrow> string" where
  "providerServerIconMarkup tr url config name =
     (let siteUrl = providerSiteUrl url (get config ''site_url''); label = tr ''prov.open_site'' [(''name'', Str name)] in
      if siteUrl = [] then (''<span class=\"provider-server-icon\" aria-hidden=\"true\">'' @ iconSvg ''server'' @
         ''</span>'')
      else (''<a class=\"provider-server-icon\" href=\"'' @ esc siteUrl @
         ''\" target=\"_blank\" rel=\"noopener noreferrer\" title=\"'' @ esc label @
         ''\" aria-label=\"'' @ esc label @ ''\">'' @ iconSvg ''server'' @ ''</a>''))"

text \<open>\<open>None\<close> when the toolbar is hidden.\<close>

definition providerCompatibilityToolbar :: "translator \<Rightarrow> console \<Rightarrow> string option" where
  "providerCompatibilityToolbar tr c =
     (let circuits = obj_or_empty (get (get (c_status c) ''router'') ''compatibility_circuits'');
          active = num_max (Fin 0) (num_or_zero (get circuits ''active''));
          time = fmtNextProbe (Num (num_or_zero (get circuits ''nearest_recovery_s''))) in
      if \<not> num_truthy active then None else Some ((nl 6 @ ''<span class=\"provider-compatibility-icon\">'' @ iconSvg ''alert'' @
         ''</span>'' @ nl 6 @ ''<span class=\"provider-compatibility-copy\">'' @ nl 8 @
         ''<strong>'' @
         (esc (tr ''prov.compatibility_active'' [(''count'', Str (fmtInt (Num active)))])) @
         ''</strong>'' @ nl 8 @ ''<small>'' @
         (esc (tr ''prov.compatibility_recovery'' [(''time'', Str (if time \<noteq> [] then time else ''0s''))])) @
         ''</small>'' @ nl 6 @ ''</span>'' @ nl 6 @
         ''<button class=\"button provider-compatibility-clear\" type=\"button\"'' @
         '' data-clear-compatibility=\"all\">'' @ iconSvg ''rotate'' @ ''<span>'' @
         (esc (tr ''prov.compatibility_clear_all'' [])) @ ''</span></button>'' @ nl 4)))"

text \<open>What the comparator reads of a view.\<close>

definition view_val :: "light_view \<Rightarrow> jsval" where
  "view_val v = Obj [(''name'', Str (lv_name v)), (''priority'', Num (lv_priority v)),
     (''keyStats'', Obj [(''usable'', jnum (of_nat (ks_usable (lv_keyStats v))))]),
     (''runtimeState'', Obj [(''id'', Str (rs_id (lv_runtimeState v)))])]"

definition all_names :: "console \<Rightarrow> string list" where
  "all_names c = providerNames (get (get (c_status c) ''router'') ''providers'') (get (c_config c) ''providers'')"

text \<open>The providers of the table in order, before they are cut into pages; \<open>cmp\<close> is \<open>localeCompare\<close>.\<close>

definition listed_providers :: "(string \<Rightarrow> string \<Rightarrow> int) \<Rightarrow> console \<Rightarrow> light_view list" where
  "listed_providers cmp c =
     js_sort (\<lambda>a b. view_le cmp (view_val a) (view_val b))
       (filter (providerMatchesFiltersLight (c_filters c)) (map (providerLightView c) (all_names c)))"

text \<open>The markup of the table and the page it leaves in the state.\<close>

definition renderProvidersTable ::
  "translator \<Rightarrow> (string \<Rightarrow> string \<Rightarrow> int) \<Rightarrow> console \<Rightarrow> string \<Rightarrow> int \<Rightarrow> string \<times> int" where
  "renderProvidersTable tr cmp c mode statePage =
     (let filtered = listed_providers cmp c; lc = (\<lambda>a b. cmp a b \<le> 0) in
      if all_names c = [] then ((''<div class=\"empty pad\">No providers configured</div>''), statePage)
      else if filtered = [] then ((''<div class=\"empty pad\">No providers match the current filters</div>''), statePage)
      else let (page, stored) = paginate filtered statePage 8;
               cards = map (\<lambda>v. providerViewModel lc c (lv_name v)) (pv_items page);
               listMarkup = (if mode = ''table'' then providerRuntimeTable tr c cards
                 else (''<div class=\"provider-card-grid\">'' @
                    (concat (map (providerRuntimeCard tr c) cards)) @ ''</div>'')) in
        ((nl 6 @ panelPagination tr ''providersPage'' page 8 ''providers'' @ nl 6 @ listMarkup @
           nl 4), stored))"

text \<open>The view mode, the page, and whether the table is drawn again.\<close>

definition setProvidersViewMode :: "string \<Rightarrow> string \<Rightarrow> int \<Rightarrow> string \<times> int \<times> bool" where
  "setProvidersViewMode mode current page =
     (if mode \<noteq> ''cards'' \<and> mode \<noteq> ''table'' \<or> current = mode then (current, page, False) else (mode, 0, True))"

text \<open>The filters after a change of a control, with the page.\<close>

definition syncProviderFiltersFromControls :: "string \<Rightarrow> string \<Rightarrow> string \<Rightarrow> string \<Rightarrow> console \<Rightarrow> console \<times> int" where
  "syncProviderFiltersFromControls search fmt status ks c =
     (c\<lparr>c_filters := Obj [(''search'', Str search), (''format'', Str fmt), (''status'', Str status), (''keys'', Str ks)]\<rparr>, 0)"

definition clearProviderFilters :: "console \<Rightarrow> console \<times> int" where
  "clearProviderFilters c = syncProviderFiltersFromControls [] [] [] [] c"

end
