(* ===== verification/ProviderDrawer.thy ===== *)
theory ProviderDrawer
  imports ProviderCards RuntimeRefresh
begin

text \<open>
  The provider drawer (\<open>app.js\<close>): its overview, routing and configuration tabs as markup, when it is drawn again,
  what opening and closing it resets, the lazy load of the activity events cut at its await, the default pool switch
  and the deletion of a key.
\<close>

section \<open>Overview\<close>

definition overview_states :: "string list" where
  "overview_states = [''normal'', ''degraded'', ''cooldown'', ''unavailable'', ''disabled'']"

definition providerOverviewStateLabel :: "translator \<Rightarrow> string \<Rightarrow> string" where
  "providerOverviewStateLabel tr i = tr (''prov.overview_state_'' @ (if i \<in> set overview_states then i else ''unavailable'')) []"

definition activity_status :: "translator \<Rightarrow> jsval \<Rightarrow> string" where
  "activity_status tr event =
     (let raw = to_str (jor (jor (get event ''reason'') (get event ''status'')) (Str ''-'')) in
      if js_lower raw = ''success'' then tr ''req.success'' []
      else if js_lower raw \<in> {''failed'', ''failure'', ''error''} then tr ''req.failed'' [] else raw)"

definition providerActivityRow :: "translator \<Rightarrow> (jsnum \<Rightarrow> string) \<Rightarrow> jsval \<Rightarrow> string" where
  "providerActivityRow tr dates event = (nl 6 @ ''<button class=\"provider-activity-row '' @ (escapeHtml (get event ''tone'')) @
     ''\" type=\"button\" '' @
     (if truthy (get event ''requestId'') then (''data-request-id=\"'' @ (escapeHtml (get event ''requestId'')) @ ''\"'') else []) @
     ''>'' @ nl 8 @ ''<span class=\"provider-status-dot '' @ (escapeHtml (get event ''tone'')) @
     ''\"></span>'' @ nl 8 @ ''<strong>'' @ (escapeHtml (jor (get event ''model'') (Str ''-''))) @
     ''</strong>'' @ nl 8 @ ''<small>'' @ (esc (fmtDate dates (get event ''ts''))) @
     ''</small>'' @ nl 8 @ ''<span class=\"provider-activity-status\">'' @
     (messageMarkup (Str (activity_status tr event))) @ ''</span>'' @ nl 8 @ ''<em>'' @
     (if truthy (get event ''latencyMs'') then esc (fmtMs (get event ''latencyMs'')) else ''-'') @
     ''</em>'' @ nl 6 @ ''</button>'' @ nl 4)"

definition recent_events :: "jsval \<Rightarrow> jsval list" where
  "recent_events activity = (let events = arr_or_empty (get activity ''events'') in rev (drop (length events - 10) events))"

definition recent_probes :: "jsval \<Rightarrow> jsval list" where
  "recent_probes activity = take 10 (arr_or_empty (get activity ''probeEvents''))"

definition failed_probe :: "jsval \<Rightarrow> bool" where
  "failed_probe activity \<longleftrightarrow> (\<exists>p \<in> set (recent_probes activity). probeTone p = ''bad'')"

text \<open>The pane the operator chose, or the probes while one failed or the provider cools down.\<close>

definition activity_tab :: "string \<Rightarrow> bool \<Rightarrow> string \<Rightarrow> string" where
  "activity_tab chosen hasFailed stateId =
     (if chosen \<noteq> [] then chosen else if hasFailed \<or> stateId = ''cooldown'' then ''probes'' else ''calls'')"

definition route_eligible :: "string \<Rightarrow> bool" where
  "route_eligible i \<longleftrightarrow> i \<in> {''normal'', ''degraded''}"

definition config_on :: "light_view \<Rightarrow> bool" where
  "config_on v \<longleftrightarrow> not_false (get (lv_config v) ''enabled'') \<and> not_false (get (lv_runtime v) ''config_enabled'')"

definition runtime_on :: "light_view \<Rightarrow> bool" where
  "runtime_on v \<longleftrightarrow> not_false (get (lv_runtime v) ''runtime_enabled'')"

definition readiness_summary :: "translator \<Rightarrow> light_view \<Rightarrow> string" where
  "readiness_summary tr v =
     (let i = rs_id (lv_runtimeState v); rest = num_or_zero (get (lv_runtime v) ''cooldown_remaining_s'');
          part = (\<lambda>b y n. Str (tr (if b then y else n) [])) in
      if i = ''normal'' then tr ''prov.overview_summary_ready'' []
      else if num_lt (Fin 0) rest then
        ((tr ''prov.overview_cooldown_remaining'' [(''time'', Str (fmtNextProbe (Num rest)))]) @
           '' '' @ [CHR 0xB7] @ '' '' @ (tr ''prov.overview_cooldown_note'' []))
      else tr ''prov.overview_summary_parts''
        [(''config'', part (config_on v) ''prov.overview_enabled'' ''prov.overview_disabled''),
         (''runtime'', part (runtime_on v) ''prov.overview_enabled'' ''prov.overview_disabled''),
         (''routing'', part (route_eligible i) ''prov.overview_available'' ''prov.overview_unavailable'')])"

definition dot_tone :: "string \<Rightarrow> string" where
  "dot_tone i = (if i = ''normal'' then ''ok'' else if i = ''disabled'' then ''mute'' else if i = ''unavailable'' then ''bad'' else ''warn'')"

definition key_hint :: "translator \<Rightarrow> key_stats \<Rightarrow> string" where
  "key_hint tr s =
     (if 0 < ks_cooldown s then tr ''prov.overview_keys_cooldown'' [(''count'', Str (count_of (ks_cooldown s)))]
      else if ks_usable s = ks_total s then tr ''prov.overview_keys_all_usable'' []
      else tr ''prov.overview_usable_keys'' [(''usable'', Str (count_of (ks_usable s))), (''total'', Str (count_of (ks_total s)))])"

definition readiness_section :: "translator \<Rightarrow> light_view \<Rightarrow> string" where
  "readiness_section tr v =
     (let rs = lv_runtimeState v; name = lv_name v; path = ''/providers/'' @ encodeURIComponent name; on = runtime_on v;
          endpoint = trimmed (get (lv_config v) ''base_url'');
          shown = (if endpoint \<noteq> [] then endpoint else tr ''prov.overview_endpoint_missing'' []) in (''<section class=\"provider-overview-readiness '' @ rs_tone rs @
             ''\" aria-label=\"'' @ (esc (tr ''prov.overview_readiness'' [])) @ ''\">'' @ nl 10 @
             ''<div class=\"provider-overview-readiness-line1\">'' @ nl 12 @
             ''<span class=\"provider-overview-state-dot '' @ (esc (dot_tone (rs_id rs))) @
             ''\" aria-hidden=\"true\"></span>'' @ nl 12 @ ''<h3>'' @
             (esc (providerOverviewStateLabel tr (rs_id rs))) @ ''</h3>'' @ nl 12 @
             ''<p class=\"provider-overview-readiness-sum\">'' @ (esc (readiness_summary tr v)) @
             ''</p>'' @ nl 12 @ ''<div class=\"provider-overview-readiness-side\">'' @ nl 14 @
             ''<button class=\"provider-overview-priority\" type=\"button\"'' @
             '' data-provider-drawer-tab=\"routing\" title=\"'' @
             (esc (tr ''prov.overview_priority_tip'' [])) @ ''\">'' @
             (esc (tr ''prov.overview_priority'' [(''priority'', Str (fmtInt (Num (lv_priority v))))])) @
             ''</button>'' @ nl 14 @ ''<span class=\"provider-overview-readiness-ops\">'' @
             nl 16 @ ''<button class=\"provider-row-link\" type=\"button\" data-action-path=\"'' @
             path @ ''/cooldown/clear\" data-tip=\"'' @
             (esc (tr ''prov.restore_routing_tip'' [])) @ ''\">'' @
             (esc (tr ''prov.restore_routing'' [])) @ ''</button>'' @ nl 16 @
             ''<button class=\"provider-row-link'' @ (if on then ('' is-danger'') else []) @
             ''\" type=\"button\" data-action-path=\"'' @ path @ ''/'' @
             (if on then ''disable'' else ''enable'') @ ''\">'' @
             (esc (tr (if on then ''prov.disable'' else ''prov.enable'') [])) @ ''</button>'' @
             nl 14 @ ''</span>'' @ nl 12 @ ''</div>'' @ nl 10 @ ''</div>'' @ nl 10 @
             ''<div class=\"provider-overview-endpoint\">'' @ nl 12 @ ''<span>'' @
             iconSvg ''server'' @ '' '' @ (esc (tr ''prov.overview_endpoint'' [])) @ ''</span>'' @
             nl 12 @ ''<span class=\"provider-overview-endpoint-value\">'' @ nl 14 @
             ''<code translate=\"no\" title=\"'' @ esc shown @ ''\">'' @ esc shown @ ''</code>'' @
             nl 14 @
             (if endpoint \<noteq> [] then (''<button class=\"provider-overview-copy\" type=\"button\"'' @
               '' data-provider-copy-endpoint=\"'' @ esc endpoint @ ''\">'' @ iconSvg ''copy'' @
               ''<span>'' @ (esc (tr ''prov.overview_copy'' [])) @ ''</span></button>'') else []) @
             nl 12 @ ''</span>'' @ nl 10 @ ''</div>'' @ nl 8 @ ''</section>''))"

text \<open>\<open>[..].join(":")\<close>: missing parts are empty.\<close>

definition joined_fields :: "jsval \<Rightarrow> string list \<Rightarrow> string" where
  "joined_fields entry ks = js_join '':'' (map (\<lambda>k. if nullish (get entry k) then [] else to_str (get entry k)) ks)"

definition circuit_card :: "translator \<Rightarrow> jsval \<Rightarrow> string" where
  "circuit_card tr entry =
     (let parts = filter (\<lambda>s. s \<noteq> [])
        [if truthy (get entry ''key_id'') then ''key '' @ to_str (get entry ''key_id'') else [],
         if truthy (get entry ''upstream_format'') then to_str (get entry ''upstream_format'') else [],
         if truthy (get entry ''compatibility_profile'') then to_str (get entry ''compatibility_profile'') else []];
          time = fmtNextProbe (Num (num_or_zero (get entry ''cooldown_remaining_s''))) in (nl 16 @ ''<article class=\"provider-route-card provider-compatibility-circuit\"'' @
             '' data-compatibility-circuit=\"'' @
             (esc (joined_fields entry [''provider'', ''key_id'', ''canonical_model'', ''upstream_format'', ''compatibility_profile''])) @
             ''\">'' @ nl 18 @ ''<div>'' @ nl 20 @ ''<strong class=\"mono\" translate=\"no\">'' @
             (escapeHtml (jor (get entry ''canonical_model'') (Str ''-''))) @ '' '' @
             [CHR 0xE2, CHR 0x86, CHR 0x92] @ '' '' @
             (escapeHtml (jor (get entry ''provider_model'') (Str ''-''))) @ ''</strong>'' @
             nl 20 @ ''<small translate=\"no\">'' @
             (esc (js_join ('' '' @ [CHR 0xB7] @ '' '') parts)) @ ''</small>'' @ nl 18 @
             ''</div>'' @ nl 18 @ ''<span class=\"provider-overview-exception-state\">'' @ nl 20 @
             ''<strong>'' @
             (esc (tr ''prov.overview_failures'' [(''count'', Str (fmtInt (get entry ''fails'')))])) @
             ''</strong>'' @ nl 20 @ ''<small>'' @
             (esc (tr ''prov.overview_cooldown_remaining'' [(''time'', Str (if time \<noteq> [] then time else ''0s''))])) @
             ''</small>'' @ nl 18 @ ''</span>'' @ nl 16 @ ''</article>'' @ nl 14))"

definition circuits_section :: "translator \<Rightarrow> string \<Rightarrow> jsval list \<Rightarrow> string" where
  "circuits_section tr name circuits =
     (if circuits = [] then [] else (nl 10 @ ''<section class=\"provider-overview-section provider-overview-attention\">'' @
        nl 12 @ ''<div class=\"provider-overview-section-head\">'' @ nl 14 @
        ''<span class=\"provider-overview-section-icon\">'' @ iconSvg ''alert'' @ ''</span>'' @
        nl 14 @ ''<div><h3>'' @ (esc (tr ''prov.overview_routing_exceptions'' [])) @
        ''</h3><p>'' @ (esc (tr ''prov.overview_routing_exceptions_tip'' [])) @ ''</p></div>'' @
        nl 14 @ ''<span class=\"section-count-badge\">'' @ (count_of (length circuits)) @
        ''</span>'' @ nl 14 @
        ''<button class=\"button provider-compatibility-clear\" type=\"button\"'' @
        '' data-clear-compatibility=\"'' @ esc name @ ''\">'' @ iconSvg ''rotate'' @ ''<span>'' @
        (esc (tr ''prov.overview_clear_exceptions'' [])) @ ''</span></button>'' @ nl 12 @
        ''</div>'' @ nl 12 @ ''<div class=\"provider-route-list\">'' @ nl 14 @
        (concat (map (circuit_card tr) circuits)) @ nl 12 @ ''</div>'' @ nl 10 @ ''</section>'' @
        nl 8))"

definition activity_button :: "string \<Rightarrow> string \<Rightarrow> string \<Rightarrow> string \<Rightarrow> string \<Rightarrow> string" where
  "activity_button tab pane cls label amount =
     (''<button class=\"provider-activity-tab'' @
        (if tab = pane then ('' is-active'') else []) @ cls @
        ''\" type=\"button\" role=\"tab\" aria-selected=\"'' @
        (if tab = pane then ''true'' else ''false'') @ ''\" data-provider-activity-tab=\"'' @
        pane @ ''\">'' @ esc label @ '' '' @ amount @ ''</button>'')"

definition activity_section ::
  "translator \<Rightarrow> (jsnum \<Rightarrow> string) \<Rightarrow> (jsnum \<Rightarrow> int \<times> int \<times> int \<times> int) \<Rightarrow> jsval \<Rightarrow> string \<Rightarrow> light_view \<Rightarrow> string" where
  "activity_section tr dates clock idle chosen v =
     (let activity = lv_activity v; name = lv_name v; tab = activity_tab chosen (failed_probe activity) (rs_id (lv_runtimeState v));
          probes = arr_or_empty (get activity ''probeEvents'') in (''<section class=\"provider-overview-section provider-overview-activity-card\">'' @
             nl 10 @ ''<div class=\"provider-overview-activity-head\">'' @ nl 12 @
             ''<div class=\"provider-overview-activity-title\">'' @ nl 14 @ ''<h3>'' @
             (esc (tr ''prov.overview_activity_title'' [])) @ ''</h3>'' @ nl 14 @ ''<p>'' @
             (esc (tr ''prov.overview_activity_tip'' [])) @ ''</p>'' @ nl 12 @ ''</div>'' @
             nl 12 @ ''<div class=\"provider-activity-tabs\" role=\"tablist\" aria-label=\"'' @
             (esc (tr ''prov.overview_activity_title'' [])) @ ''\">'' @ nl 14 @
             (activity_button tab ''calls'' [] (tr ''prov.overview_tab_calls'' []) ((''<b>'' @ (fmtInt (get activity ''total'')) @ ''</b>''))) @
             nl 14 @
             (activity_button tab ''probes'' (if failed_probe activity then ('' is-alert'') else []) (tr ''prov.overview_tab_probes'' []) ((''<b data-provider-probe-count>'' @ (count_of (length probes)) @ ''</b>''))) @
             nl 12 @ ''</div>'' @ nl 10 @ ''</div>'' @ nl 10 @
             ''<div class=\"provider-overview-activity-pane\"'' @
             '' data-provider-activity-pane=\"calls\" '' @
             (if tab = ''calls'' then [] else ''hidden'') @ ''>'' @ nl 12 @
             ''<div class=\"provider-overview-callstrip\">'' @ providerSparkline activity name @
             ''</div>'' @ nl 12 @
             ''<div class=\"provider-activity-list\" data-provider-activity-list=\"'' @ esc name @
             ''\">'' @ nl 14 @
             (if recent_events activity \<noteq> [] then concat (map (providerActivityRow tr dates) (recent_events activity)) else (''<div class=\"empty pad-slim\">'' @
               (esc (tr ''prov.overview_activity_loading'' [])) @ ''</div>'')) @
             nl 12 @ ''</div>'' @ nl 12 @ ''<div class=\"provider-overview-viewall\">'' @ nl 14 @
             ''<button class=\"provider-row-link\" type=\"button\"'' @
             '' data-goto-provider-requests=\"'' @ esc name @ ''\">'' @
             (esc (tr ''prov.overview_view_all'' [])) @ ''</button>'' @ nl 12 @ ''</div>'' @
             nl 10 @ ''</div>'' @ nl 10 @ ''<div class=\"provider-overview-activity-pane\"'' @
             '' data-provider-activity-pane=\"probes\" '' @
             (if tab = ''probes'' then [] else ''hidden'') @ ''>'' @ nl 12 @
             renderIdleStateBar tr idle @ nl 12 @ ''<div class=\"provider-probe-legend\">'' @
             (esc (tr ''prov.probe_legend'' [])) @ ''</div>'' @ nl 12 @
             ''<div class=\"provider-probe-list\" data-provider-probe-list=\"'' @ esc name @
             ''\">'' @ nl 14 @
             (if recent_probes activity \<noteq> [] then concat (map (providerProbeRow tr dates clock) (recent_probes activity)) else (''<div class=\"empty pad-slim\">'' @ (esc (tr ''prov.overview_probe_empty'' [])) @
               ''</div>'')) @ nl 12 @ ''</div>'' @ nl 10 @ ''</div>'' @ nl 8 @
             ''</section>''))"

definition providerDrawerOverview ::
  "translator \<Rightarrow> (jsnum \<Rightarrow> string) \<Rightarrow> (jsnum \<Rightarrow> int \<times> int \<times> int \<times> int) \<Rightarrow> jsval \<Rightarrow> string \<Rightarrow> provider_view \<Rightarrow> string" where
  "providerDrawerOverview tr dates clock idle chosen view =
     (let v = vw_light view; keys = lv_keyStats v; activity = lv_activity v; rate = get activity ''successRate'';
          avg = get activity ''avgLatency'' in (nl 6 @ ''<section class=\"provider-drawer-section provider-overview-workspace\">'' @
             nl 8 @ readiness_section tr v @ nl 0 @ nl 8 @
             (circuits_section tr (lv_name v) (vw_circuits view)) @ nl 0 @ nl 8 @
             ''<div class=\"provider-overview-kpis\" role=\"list\" aria-label=\"'' @
             (esc (tr ''prov.overview_readiness'' [])) @ ''\">'' @ nl 10 @
             (providerOverviewMetric ''key'' (tr ''prov.overview_key_coverage'' []) (((count_of (ks_usable keys)) @ ''/'' @ (count_of (ks_total keys)))) (key_hint tr keys) (part_tone (ks_usable keys) (ks_total keys))) @
             nl 10 @
             (providerOverviewMetric ''boxes'' (tr ''prov.overview_models'' []) (count_of (length (vw_modelItems view))) (tr ''prov.overview_models_available'' []) ''neutral'') @
             nl 10 @
             (providerOverviewMetric ''activity'' (tr ''prov.overview_recent_success'' []) (success_text rate) (tr ''prov.overview_recent_requests'' [(''count'', Str (fmtInt (get activity ''total'')))]) (success_tone ''neutral'' rate)) @
             nl 10 @
             (providerOverviewMetric ''clock'' (tr ''prov.overview_avg_first_byte'' []) (if truthy avg then fmtMs avg else ([CHR 0xE2, CHR 0x80, CHR 0x94])) (tr ''prov.overview_successful_calls'' []) (latency_tone ''neutral'' (Num (num_or_zero avg)))) @
             nl 8 @ ''</div>'' @ nl 0 @ nl 8 @ activity_section tr dates clock idle chosen v @
             nl 6 @ ''</section>'' @ nl 4))"

section \<open>Routing\<close>

definition select_modes :: "(string \<times> string) list" where
  "select_modes = [(''priority_failover'', ''policy.mode_priority''), (''round_robin'', ''policy.mode_round_robin''),
     (''weighted_rr'', ''policy.mode_weighted''), (''random'', ''policy.mode_random''), (''auto'', ''policy.mode_auto'')]"

definition providerRoutingSelectLabel :: "translator \<Rightarrow> jsval \<Rightarrow> string" where
  "providerRoutingSelectLabel tr mode =
     (case map_of select_modes (to_str mode) of Some key \<Rightarrow> tr key [] | None \<Rightarrow> to_str (jor mode (Str ''-'')))"

record routing_row =
  rr_model :: string
  rr_select :: jsval
  rr_providers :: "route_item list"

definition providerRoutingRows :: "(string \<Rightarrow> string \<Rightarrow> bool) \<Rightarrow> console \<Rightarrow> string \<Rightarrow> routing_row list" where
  "providerRoutingRows lc c name =
     js_sort (\<lambda>a b. lc (rr_model a) (rr_model b))
       (filter (\<lambda>row. \<exists>i \<in> set (rr_providers row). ri_name i = Str name)
         (map (\<lambda>e. \<lparr>rr_model = fst e, rr_select = jor (get (snd e) ''provider_select'') (Str []),
                     rr_providers = routeProviderItems (get (snd e) ''providers'')\<rparr>)
           (js_entries (obj_or_empty (get (get (c_config c) ''models'') ''routes'')))))"

definition has_override :: "route_item \<Rightarrow> bool" where
  "has_override i \<longleftrightarrow> \<not> nullish (ri_priority i)"

definition effective_priority :: "console \<Rightarrow> route_item \<Rightarrow> jsnum" where
  "effective_priority c i =
     (if has_override i then to_num (ri_priority i)
      else to_num (jcoalesce (get (get (get (c_config c) ''providers'') (to_str (ri_name i))) ''priority'') (jnum 0)))"

text \<open>The providers of a route in the order of their effective priority, highest first.\<close>

definition ranked_providers :: "console \<Rightarrow> route_item list \<Rightarrow> route_item list" where
  "ranked_providers c items =
     js_sort (\<lambda>a b. \<not> num_lt (Fin 0) (num_sub (effective_priority c b) (effective_priority c a))) items"

definition route_rank :: "translator \<Rightarrow> string \<Rightarrow> nat \<times> route_item \<Rightarrow> string" where
  "route_rank tr name entry =
     (let item = snd entry in (nl 8 @ ''<div class=\"provider-route-rank '' @
        (if ri_name item = Str name then ''is-me'' else []) @ ''\">'' @ nl 10 @
        ''<span class=\"provider-route-rank-num\" aria-hidden=\"true\">'' @
        (count_of (Suc (fst entry))) @ ''</span>'' @ nl 10 @
        ''<span class=\"provider-route-rank-name mono\">'' @ (escapeHtml (ri_name item)) @
        ''</span>'' @ nl 10 @
        (if \<not> has_override item then (''<span class=\"provider-route-rank-inh\">'' @
          (esc (tr ''prov.routing.inherits_global'' [])) @ ''</span>'') else []) @ nl 10 @
        ''<span class=\"provider-route-rank-pv\">W'' @ (fmtInt (jor (ri_weight item) (jnum 1))) @
        '' '' @ [CHR 0xB7] @ '' <b>'' @
        (if has_override item then (''P'' @ (fmtInt (ri_priority item))) else esc (tr ''prov.routing.prio_inherit'' [])) @
        ''</b></span>'' @ nl 8 @ ''</div>'' @ nl 6))"

definition providerRouteChainRows :: "translator \<Rightarrow> console \<Rightarrow> string \<Rightarrow> routing_row \<Rightarrow> string" where
  "providerRouteChainRows tr c name row = concat (map (route_rank tr name) (enumerate 0 (ranked_providers c (rr_providers row))))"

definition default_pool :: "jsval \<Rightarrow> jsval list" where
  "default_pool config = arr_or_empty (get (get config ''routing'') ''default_provider_pool'')"

definition routing_kpis :: "translator \<Rightarrow> light_view \<Rightarrow> bool \<Rightarrow> bool \<Rightarrow> nat \<Rightarrow> jsval \<Rightarrow> string" where
  "routing_kpis tr v override inPool routeCount mode = (''<div class=\"provider-overview-kpis\" role=\"list\" aria-label=\"'' @
     (esc (tr ''prov.tab_routing'' [])) @ ''\">'' @ nl 8 @
     (providerOverviewMetric ''arrow-up'' (tr ''prov.routing.kpi_priority'' []) (fmtInt (Num (lv_priority v))) (tr (if override then ''prov.routing.kpi_priority_override'' else ''prov.routing.kpi_priority_cfg'') []) (if override then ''warn'' else ''neutral'')) @
     nl 8 @
     (providerOverviewMetric ''layers'' (tr ''prov.routing.kpi_pool'' []) (tr (if inPool then ''prov.routing.kpi_pool_in'' else ''prov.routing.kpi_pool_out'') []) (tr ''prov.routing.kpi_pool_hint'' []) (if inPool then ''ok'' else ''warn'')) @
     nl 8 @
     (providerOverviewMetric ''git-branch'' (tr ''prov.routing.kpi_routes'' []) (count_of routeCount) (tr (if routeCount \<noteq> 0 then ''prov.routing.kpi_routes_hint'' else ''prov.routing.kpi_routes_none'') []) (if routeCount \<noteq> 0 then ''ok'' else ''neutral'')) @
     nl 8 @
     (providerOverviewMetric ''arrow-right-left'' (tr ''prov.routing.kpi_select'' []) (providerRoutingSelectLabel tr mode) (to_str (jor mode (Str ''-''))) ''neutral'') @
     nl 6 @ ''</div>'')"

definition priority_card :: "translator \<Rightarrow> light_view \<Rightarrow> bool \<Rightarrow> string" where
  "priority_card tr v override =
     (let prio = Num (lv_priority v); apply_text = tr ''prov.routing.priority_apply'' [(''priority'', Str (fmtInt prio))]; name = lv_name v in (''<section class=\"provider-routing-card\">'' @ nl 8 @
        ''<div class=\"provider-routing-priority\">'' @ nl 10 @
        ''<span class=\"provider-routing-icon\">'' @ iconSvg ''zap'' @ ''</span>'' @ nl 10 @
        ''<div class=\"provider-routing-priority-text\">'' @ nl 12 @ ''<strong>'' @
        (esc (tr ''prov.routing.priority_title'' [])) @ '' '' @
        (if override then (''<span class=\"badge warn\">'' @
          (esc (tr ''prov.routing.priority_badge_override'' [])) @ ''</span>'') else (''<span class=\"badge neutral\">'' @
          (esc (tr ''prov.routing.priority_badge_config'' [])) @ ''</span>'')) @
        ''</strong>'' @ nl 12 @ ''<small>'' @ (esc (tr ''prov.routing.priority_hint'' [])) @
        ''</small>'' @ nl 10 @ ''</div>'' @ nl 10 @
        ''<input class=\"control provider-routing-priority-input\" type=\"number\"'' @
        '' min=\"-1000\" max=\"1000\" step=\"1\" value=\"'' @ escapeHtml prio @ ''\"'' @ nl 12 @
        ''data-hot-priority=\"'' @ esc name @ ''\"'' @ nl 12 @ ''aria-label=\"'' @
        (esc (tr ''prov.routing.priority_title'' [])) @ ''\" />'' @ nl 10 @
        ''<button class=\"button icon-action provider-routing-priority-apply\"'' @
        '' type=\"button\"'' @ nl 12 @ ''data-hot-priority-apply=\"'' @ esc name @ ''\"'' @
        nl 12 @ ''title=\"'' @ esc apply_text @ ''\"'' @ nl 12 @ ''aria-label=\"'' @
        esc apply_text @ ''\">'' @ iconSvg ''check'' @ ''</button>'' @ nl 8 @ ''</div>'' @ nl 6 @
        ''</section>''))"

definition pool_card :: "translator \<Rightarrow> string \<Rightarrow> bool \<Rightarrow> string" where
  "pool_card tr name inPool = (''<section class=\"provider-routing-card '' @ (if inPool then ''is-in-pool'' else []) @
     ''\">'' @ nl 8 @ ''<div class=\"provider-routing-pool\">'' @ nl 10 @
     ''<span class=\"provider-routing-icon\">'' @ iconSvg ''layers'' @ ''</span>'' @ nl 10 @
     ''<div class=\"provider-routing-priority-text\">'' @ nl 12 @ ''<strong>'' @
     (esc (tr ''prov.routing.pool_title'' [])) @ '' '' @
     (if inPool then (''<span class=\"badge ok\">'' @ (esc (tr ''prov.routing.pool_badge_in'' [])) @ ''</span>'') else (''<span class=\"badge warn\">'' @ (esc (tr ''prov.routing.pool_badge_out'' [])) @
       ''</span>'')) @ ''</strong>'' @ nl 12 @ ''<small>'' @
     (esc (tr ''prov.routing.pool_hint'' [])) @ ''</small>'' @ nl 10 @ ''</div>'' @ nl 10 @
     ''<label class=\"format-route-switch provider-routing-pool-switch '' @
     (if inPool then ''is-on'' else []) @ ''\"'' @ nl 12 @ ''data-provider-pool-toggle=\"'' @
     esc name @ ''\"'' @ nl 12 @ ''role=\"switch\"'' @ nl 12 @ ''aria-checked=\"'' @
     (if inPool then ''true'' else ''false'') @ ''\"'' @ nl 12 @ ''tabindex=\"0\"'' @ nl 12 @
     ''title=\"'' @ (esc (tr ''prov.routing.pool_title'' [])) @ ''\"'' @ nl 12 @
     ''aria-label=\"'' @ (esc (tr ''prov.routing.pool_title'' [])) @ ''\">'' @ nl 12 @
     ''<span></span>'' @ nl 10 @ ''</label>'' @ nl 8 @ ''</div>'' @ nl 6 @ ''</section>'')"

definition route_chain :: "translator \<Rightarrow> console \<Rightarrow> string \<Rightarrow> jsval \<Rightarrow> routing_row \<Rightarrow> string" where
  "route_chain tr c name mode row = (nl 14 @ ''<article class=\"provider-route-chain\" role=\"listitem\">'' @ nl 16 @
     ''<div class=\"provider-route-chain-head\">'' @ nl 18 @ ''<b class=\"mono\">'' @
     (esc (rr_model row)) @ ''</b>'' @ nl 18 @ (badge (jor (rr_select row) mode) ''info'') @
     nl 16 @ ''</div>'' @ nl 16 @ ''<div class=\"provider-route-chain-ranks\">'' @
     providerRouteChainRows tr c name row @ ''</div>'' @ nl 14 @ ''</article>'' @ nl 12)"

definition routes_card :: "translator \<Rightarrow> console \<Rightarrow> string \<Rightarrow> jsval \<Rightarrow> routing_row list \<Rightarrow> string" where
  "routes_card tr c name mode rows = (''<section class=\"provider-routing-card\">'' @ nl 8 @
     ''<div class=\"provider-routing-head\">'' @ nl 10 @ ''<h3>'' @ (iconSvg ''git-branch'') @
     ''<span>'' @ (esc (tr ''prov.routing.routes_title'' [])) @ ''</span></h3>'' @ nl 10 @
     ''<span class=\"provider-routing-count\">'' @ (count_of (length rows)) @ ''</span>'' @
     nl 10 @ ''<span class=\"provider-routing-head-meta\">'' @
     (esc (tr ''prov.routing.routes_ranked'' [])) @ ''</span>'' @ nl 8 @ ''</div>'' @ nl 8 @
     (if rows \<noteq> [] then (nl 10 @ ''<div class=\"provider-routing-routes\" role=\"list\">'' @ nl 12 @
       (concat (map (route_chain tr c name mode) (take 50 rows))) @ nl 10 @ ''</div>'' @ nl 10 @
       (if 50 < length rows then (''<div class=\"provider-routing-more muted\">'' @
         (esc (tr ''prov.routing.routes_more'' [(''count'', jnum (of_nat (length rows - 50)))])) @
         ''</div>'') else []) @ nl 8) else (''<div class=\"provider-routing-empty\">'' @ (esc (tr ''prov.routing.routes_empty'' [])) @
       ''</div>'')) @ nl 6 @ ''</section>'')"

definition providerFormatConfiguration :: "translator \<Rightarrow> string \<Rightarrow> jsval \<Rightarrow> string" where
  "providerFormatConfiguration tr name fmts = (nl 6 @ ''<section class=\"provider-tab-section provider-formats-group\">'' @ nl 8 @
     ''<div class=\"provider-tab-section-head\">'' @ nl 10 @ ''<div><strong>'' @
     (esc (tr ''prov.format_routes'' [])) @ ''</strong><small>'' @
     (esc (tr ''prov.format_routes_tip'' [])) @ ''</small></div>'' @ nl 8 @ ''</div>'' @ nl 8 @
     ''<div class=\"format-route-list provider-format-edit-list\">'' @ nl 10 @
     formatRouteItems fmts name True @ nl 8 @ ''</div>'' @ nl 6 @ ''</section>'' @ nl 4)"

definition providerDrawerRouting :: "translator \<Rightarrow> (string \<Rightarrow> string \<Rightarrow> bool) \<Rightarrow> console \<Rightarrow> bool \<Rightarrow> provider_view \<Rightarrow> string" where
  "providerDrawerRouting tr lc c ctxOpen view =
     (let v = vw_light view; name = lv_name v; routing = obj_or_empty (get (c_config c) ''routing'');
          rows = providerRoutingRows lc c name; mode = jor (get routing ''provider_select'') (Str ''priority_failover'');
          inPool = (Str name \<in> set (default_pool (c_config c)));
          override = truthy (get (lv_runtime v) ''priority_override_active'') in (nl 6 @ ''<section class=\"provider-drawer-section provider-routing-workspace\">'' @
             nl 6 @ (routing_kpis tr v override inPool (length rows) mode) @ nl 6 @
             priority_card tr v override @ nl 6 @ pool_card tr name inPool @ nl 6 @
             routes_card tr c name mode rows @ nl 6 @
             ''<details class=\"provider-routing-card provider-routing-context\"'' @
             '' data-routing-context-disclosure=\"global\"'' @
             (if ctxOpen then ('' '' @ ''open'') else []) @ ''>'' @ nl 8 @ ''<summary>'' @ nl 10 @
             iconSvg ''filter'' @ nl 10 @ ''<span>'' @ (esc (tr ''prov.routing.ctx_title'' [])) @
             ''</span>'' @ nl 10 @ ''<span class=\"provider-routing-chev\">'' @
             (iconSvg ''chevron-right'') @ ''</span>'' @ nl 8 @ ''</summary>'' @ nl 8 @
             ''<div class=\"provider-routing-context-grid\">'' @ nl 10 @ ''<div><span>'' @
             (esc (tr ''prov.routing.kpi_select'' [])) @ ''</span><b class=\"mono\">'' @
             (esc (to_str (jor mode (Str ''-'')))) @ ''</b></div>'' @ nl 10 @ ''<div><span>'' @
             (esc (tr ''prov.routing.ctx_attempts'' [])) @ ''</span><b class=\"mono\">'' @
             (esc (fmtInt (get routing ''max_attempts''))) @ ''</b></div>'' @ nl 10 @
             ''<div><span>'' @ (esc (tr ''prov.routing.ctx_format_pref'' [])) @
             ''</span><b class=\"mono\">'' @
             (esc (to_str (jor (get routing ''format_preference'') (Str ''-'')))) @
             ''</b></div>'' @ nl 10 @ ''<div><span>'' @
             (esc (tr ''prov.routing.ctx_semantic'' [])) @ ''</span><b class=\"mono\">'' @
             (esc (to_str (jor (get routing ''semantic_conversion'') (Str ''-'')))) @
             ''</b></div>'' @ nl 8 @ ''</div>'' @ nl 6 @ ''</details>'' @ nl 6 @
             (providerFormatConfiguration tr name (lv_formats v)) @ nl 6 @ ''</section>'' @ nl 4))"

section \<open>Configuration\<close>

definition providerConfigSwitchRow :: "translator \<Rightarrow> string \<Rightarrow> string \<Rightarrow> string \<Rightarrow> string" where
  "providerConfigSwitchRow tr titleKey tipKey control = (nl 6 @ ''<div class=\"provider-config-row\">'' @ nl 8 @
     ''<div class=\"provider-config-row-text\">'' @ nl 10 @ ''<strong>'' @
     (esc (tr titleKey [])) @ ''</strong>'' @ nl 10 @ ''<small>'' @ (esc (tr tipKey [])) @
     ''</small>'' @ nl 8 @ ''</div>'' @ nl 8 @ ''<span class=\"provider-config-row-ctl\">'' @
     control @ ''</span>'' @ nl 6 @ ''</div>'' @ nl 4)"

definition providerFlagSwitch :: "translator \<Rightarrow> string \<Rightarrow> string \<Rightarrow> string \<Rightarrow> bool \<Rightarrow> string" where
  "providerFlagSwitch tr name flag labelKey checked = (nl 6 @ ''<span class=\"provider-setting-switch provider-config-switch\">'' @ nl 8 @
     ''<input type=\"checkbox\" name=\"'' @ esc flag @ ''\" data-provider-flag=\"'' @ esc name @
     ''\" data-flag-field=\"'' @ esc flag @ ''\" '' @ (if checked then ''checked'' else []) @
     '' aria-label=\"'' @ (esc (tr labelKey [])) @ ''\" />'' @ nl 8 @ ''<i></i>'' @ nl 6 @
     ''</span>'' @ nl 4)"

definition config_host :: "url_parser \<Rightarrow> jsval \<Rightarrow> string" where
  "config_host url base =
     (if \<not> truthy base then []
      else case url (to_str base) of Some (_, _, host) \<Rightarrow> host | None \<Rightarrow> to_str base)"

definition config_kpis :: "translator \<Rightarrow> url_parser \<Rightarrow> jsval \<Rightarrow> (string \<times> jsval) list \<Rightarrow> bool \<Rightarrow> bool \<Rightarrow> string" where
  "config_kpis tr url provider formatRows skipIdle skipPatrol =
     (let host = config_host url (get provider ''base_url''); none = tr ''prov.config.kpi_host_none'' [];
          on = length (filter (\<lambda>e. truthy (get (snd e) ''enabled'')) formatRows); all_off = (skipIdle \<and> skipPatrol) in (''<div class=\"provider-overview-kpis\" role=\"list\">'' @ nl 10 @
             (providerOverviewMetric ''server'' (tr ''prov.config.kpi_host'' []) (if host \<noteq> [] then host else none) (to_str (jor (get provider ''base_url'') (Str none))) (if host \<noteq> [] then ''neutral'' else ''warn'')) @
             nl 10 @
             (providerOverviewMetric ''arrow-up'' (tr ''form.priority'' []) ((''P'' @ (fmtInt (jcoalesce (get provider ''priority'') (jnum 0))))) (tr ''prov.config.kpi_priority_hint'' []) ''neutral'') @
             nl 10 @
             (providerOverviewMetric ''layers'' (tr ''prov.config.kpi_formats'' []) ((count_of on @ '' / '' @ (count_of (length formatRows)))) (tr ''prov.config.kpi_formats_hint'' []) (if on \<noteq> 0 then ''ok'' else ''warn'')) @
             nl 10 @
             (providerOverviewMetric ''radar'' (tr ''prov.config.kpi_probes'' []) (tr (if all_off then ''prov.config.kpi_probes_skip'' else ''prov.config.kpi_probes_on'') []) (tr (if skipIdle \<or> skipPatrol then ''prov.config.kpi_probes_part_hint'' else ''prov.config.kpi_probes_on_hint'') []) (if all_off then ''warn'' else ''ok'')) @
             nl 8 @ ''</div>''))"

text \<open>A text field of the connection card.\<close>

definition config_field :: "translator \<Rightarrow> string \<Rightarrow> string \<Rightarrow> string \<Rightarrow> string \<Rightarrow> string \<Rightarrow> string" where
  "config_field tr i name labelKey control tipKey = (''<div class=\"provider-config-field\">'' @ nl 16 @ ''<label for=\"provider-'' @ i @ ''-'' @
     esc name @ ''\">'' @ (esc (tr labelKey [])) @ ''</label>'' @ nl 16 @ control @ nl 16 @
     ''<small>'' @ (esc (tr tipKey [])) @ ''</small>'' @ nl 14 @ ''</div>'')"

definition or_blank :: "jsval \<Rightarrow> string" where
  "or_blank v = escapeHtml (jor v (Str []))"

definition config_fields :: "translator \<Rightarrow> string \<Rightarrow> jsval \<Rightarrow> string" where
  "config_fields tr name provider = (''<div class=\"provider-config-fields\">'' @ nl 14 @
     (config_field tr ''base-url'' name ''form.base_url'' ((''<input id=\"provider-base-url-'' @ esc name @
       ''\" class=\"control mono\" name=\"base_url\" type=\"url\" autocomplete=\"off\"'' @
       '' spellcheck=\"false\" value=\"'' @ (or_blank (get provider ''base_url'')) @
       ''\" placeholder=\"https://api.example.com\" required />'')) ''form.base_url_tip'') @
     nl 14 @
     (config_field tr ''site-url'' name ''form.site_url'' ((''<input id=\"provider-site-url-'' @ esc name @
       ''\" class=\"control mono\" name=\"site_url\" type=\"url\" autocomplete=\"off\"'' @
       '' spellcheck=\"false\" value=\"'' @ (or_blank (get provider ''site_url'')) @
       ''\" placeholder=\"https://provider.example.com\" />'')) ''form.site_url_tip'') @
     nl 14 @ (config_field tr ''proxy'' name ''form.proxy'' ((''<div>'' @
       (proxyControlInput tr ''proxy'' (jor (get provider ''proxy'') (Str [])) ''direct / http://host:port / socks5://host:port'' ((''id=\"provider-proxy-'' @ esc name @ ''\" autocomplete=\"off\" spellcheck=\"false\"''))) @
       ''</div>'')) ''form.proxy_tip'') @ nl 14 @
     (config_field tr ''user-agent'' name ''form.user_agent'' ((''<input id=\"provider-user-agent-'' @ esc name @
       ''\" class=\"control mono\" name=\"user_agent\" autocomplete=\"off\"'' @
       '' spellcheck=\"false\" value=\"'' @ (or_blank (get provider ''user_agent'')) @
       ''\" placeholder=\"'' @ (esc (tr ''prov.inherit_proxy_default'' [])) @ ''\" />'')) ''form.ua_tip'') @
     nl 12 @ ''</div>'')"

definition config_card :: "translator \<Rightarrow> string \<Rightarrow> string \<Rightarrow> string \<Rightarrow> string \<Rightarrow> string \<Rightarrow> string" where
  "config_card tr icon titleKey tone meta body = (''<section class=\"provider-routing-card provider-config-card\">'' @ nl 12 @
     ''<div class=\"provider-routing-head\">'' @ nl 14 @ ''<h3>'' @ iconSvg icon @ ''<span>'' @
     (esc (tr titleKey [])) @ ''</span></h3>'' @ nl 14 @
     ''<span class=\"provider-routing-head-meta\"><span class=\"badge '' @ tone @ ''\">'' @
     esc meta @ ''</span></span>'' @ nl 12 @ ''</div>'' @ nl 12 @ body @ nl 10 @ ''</section>'')"

definition config_rows :: "string list \<Rightarrow> string" where
  "config_rows rows = (''<div class=\"provider-config-rows\">'' @ nl 14 @ (js_join (nl 14) rows) @ nl 12 @ ''</div>'')"

definition plain_switch :: "translator \<Rightarrow> string \<Rightarrow> string \<Rightarrow> bool \<Rightarrow> string \<Rightarrow> string" where
  "plain_switch tr flag attrs checked labelKey =
     (''<span class=\"provider-setting-switch provider-config-switch\"><input'' @
        '' type=\"checkbox\" name=\"'' @ flag @ ''\" '' @ attrs @ '' '' @
        (if checked then ''checked'' else []) @ '' aria-label=\"'' @ (esc (tr labelKey [])) @
        ''\" /><i></i></span>'')"

definition priority_row :: "translator \<Rightarrow> jsval \<Rightarrow> string" where
  "priority_row tr provider = providerConfigSwitchRow tr ''form.priority'' ''prov.config.kpi_priority_hint''
     ((''<input class=\"control mono provider-config-priority-input\" name=\"priority\"'' @
        '' type=\"number\" inputmode=\"numeric\" min=\"-1000\" max=\"1000\" step=\"1\"'' @
        '' value=\"'' @ (escapeHtml (jcoalesce (get provider ''priority'') (jnum 0))) @
        ''\" aria-label=\"'' @ (esc (tr ''form.priority'' [])) @
        ''\" /><span class=\"badge neutral\">'' @ (esc (tr ''prov.config.saved_badge'' [])) @
        ''</span>''))"

definition headers_row :: "translator \<Rightarrow> jsval \<Rightarrow> string" where
  "headers_row tr provider = (''<div class=\"provider-config-row\">'' @ nl 16 @
     ''<div class=\"provider-config-row-text\">'' @ nl 18 @ ''<strong>'' @
     (esc (tr ''prov.config.forward_headers'' [])) @ ''</strong>'' @ nl 18 @ ''<small>'' @
     (esc (tr ''prov.config.forward_headers_tip'' [])) @ ''</small>'' @ nl 16 @ ''</div>'' @
     nl 16 @ ''<span class=\"provider-config-row-ctl\"><input class=\"control mono'' @
     '' provider-config-headers-input\" name=\"forward_client_headers\" type=\"text\"'' @
     '' autocomplete=\"off\" spellcheck=\"false\" value=\"'' @
     (escapeHtml (joined_names (get provider ''forward_client_headers''))) @
     ''\" placeholder=\"X-Trace-Id, X-Request-Id\" aria-label=\"'' @
     (esc (tr ''prov.config.forward_headers'' [])) @ ''\" /></span>'' @ nl 14 @ ''</div>'')"

definition flag_row :: "translator \<Rightarrow> string \<Rightarrow> jsval \<Rightarrow> string \<Rightarrow> string \<Rightarrow> string" where
  "flag_row tr name provider flag key =
     providerConfigSwitchRow tr key (key @ ''_tip'') (providerFlagSwitch tr name flag key (truthy (get provider flag)))"

text \<open>\<open>live\<close> is the configuration of the provider in the state.\<close>

definition providerConfigInspector :: "translator \<Rightarrow> url_parser \<Rightarrow> jsval \<Rightarrow> string \<Rightarrow> jsval \<Rightarrow> string" where
  "providerConfigInspector tr url live name provider =
     (let formatRows = js_entries (jor (get live ''formats'') (obj_or_empty (get provider ''formats'')));
          skipIdle = truthy (get provider ''skip_idle_probe''); skipPatrol = truthy (get provider ''skip_patrol_probe'');
          on = not_false (get provider ''enabled''); all_off = (skipIdle \<and> skipPatrol);
          four = tr ''prov.config.items'' [(''count'', jnum 4)] in (nl 6 @
             ''<form class=\"config-provider-form provider-config-inspector\" data-provider=\"'' @
             esc name @ ''\">'' @ nl 8 @
             config_kpis tr url provider formatRows skipIdle skipPatrol @ nl 8 @
             ''<div class=\"provider-inspector-content\">'' @ nl 10 @
             (config_card tr ''server'' ''prov.config_connection'' ''neutral'' four (config_fields tr name provider)) @
             nl 10 @
             (config_card tr ''zap'' ''prov.config_runtime'' (if on then ''ok'' else ''warn'') (tr (if on then ''prov.config.enabled_badge'' else ''prov.config.disabled_badge'') [])
              (config_rows [priority_row tr provider,
                providerConfigSwitchRow tr ''prov.provider_enabled'' ''prov.provider_enabled_tip''
                  (plain_switch tr ''enabled'' ((''data-provider-flag=\"'' @ esc name @ ''\" data-flag-field=\"enabled\"'')) on ''prov.provider_enabled'')])) @
             nl 10 @
             (config_card tr ''radar'' ''prov.health_probes'' (if all_off then ''warn'' else ''ok'') (tr (if all_off then ''prov.config.probes_badge_off'' else ''prov.config.probes_badge_on'') [])
              (config_rows [providerConfigSwitchRow tr ''prov.skip_idle_probes'' ''prov.skip_idle_probes_tip''
                  (plain_switch tr ''skip_idle_probe'' ((''data-skip-idle-toggle=\"'' @ esc name @ ''\"'')) skipIdle ''prov.skip_idle_probes''),
                providerConfigSwitchRow tr ''prov.skip_patrol_probes'' ''prov.skip_patrol_probes_tip''
                  (plain_switch tr ''skip_patrol_probe'' ((''data-skip-patrol-toggle=\"'' @ esc name @ ''\"'')) skipPatrol ''prov.skip_patrol_probes'')])) @
             nl 10 @ (config_card tr ''brain'' ''prov.config.behavior_title'' ''neutral'' four
              (config_rows [flag_row tr name provider ''force_reasoning_content'' ''prov.config.force_reasoning'',
                flag_row tr name provider ''force_anthropic_thinking'' ''prov.config.force_thinking'',
                flag_row tr name provider ''assume_supports_unknown_models'' ''prov.config.assume_unknown'',
                headers_row tr provider])) @ nl 8 @ ''</div>'' @ nl 8 @
             ''<div class=\"provider-inspector-actions\">'' @ nl 10 @
             ''<span class=\"provider-inspector-status\"><b>'' @
             (esc (tr ''prov.config.savebar_hint_on'' [])) @ ''</b> '' @ [CHR 0xB7] @ '' '' @
             (esc (tr ''prov.config.savebar_hint_text'' [])) @ ''</span>'' @ nl 10 @ ''<div>'' @
             nl 12 @ ''<button class=\"button secondary\" type=\"reset\">'' @
             (esc (tr ''form.reset'' [])) @ ''</button>'' @ nl 12 @
             ''<button class=\"button primary\" type=\"submit\">'' @
             (esc (tr ''form.save_configuration'' [])) @ ''</button>'' @ nl 10 @ ''</div>'' @
             nl 8 @ ''</div>'' @ nl 6 @ ''</form>'' @ nl 4))"

definition providerDrawerConfig :: "translator \<Rightarrow> url_parser \<Rightarrow> console \<Rightarrow> provider_view \<Rightarrow> string" where
  "providerDrawerConfig tr url c view =
     (let name = vw_name view; removal = tr ''prov.delete_provider'' [] in (nl 6 @ ''<section class=\"provider-drawer-section provider-config-inspector-shell\">'' @
        nl 8 @
        (providerConfigInspector tr url (config_of c name) name (lv_config (vw_light view))) @
        nl 8 @ ''<div class=\"provider-danger-zone\">'' @ nl 10 @ ''<div>'' @ nl 12 @
        ''<strong>'' @ esc removal @ ''</strong>'' @ nl 12 @ ''<p>'' @
        (esc (tr ''prov.delete_provider_tip'' [])) @ ''</p>'' @ nl 10 @ ''</div>'' @ nl 10 @
        ''<button class=\"button danger icon-action\" type=\"button\"'' @
        '' data-provider-delete=\"'' @ esc name @ ''\" title=\"'' @ esc removal @
        ''\" aria-label=\"'' @ esc removal @ ''\">'' @ iconSvg ''trash'' @ ''</button>'' @ nl 8 @
        ''</div>'' @ nl 6 @ ''</section>'' @ nl 4))"

section \<open>The drawer\<close>

record drawer =
  du_name :: string
  du_open :: bool
  du_tab :: string
  du_activityTab :: string
  du_keysOpen :: "string set"
  du_modelsOpen :: "string set"
  du_routingOpen :: bool
  du_modelMode :: string
  du_signature :: string
  du_body :: string

text \<open>What the platform and the rest of the state contribute.\<close>

record drawer_env =
  de_tr :: translator
  de_lang :: string
  de_lc :: "string \<Rightarrow> string \<Rightarrow> bool"
  de_dates :: "jsnum \<Rightarrow> string"
  de_clock :: "jsnum \<Rightarrow> int \<times> int \<times> int \<times> int"
  de_url :: url_parser
  de_idle :: jsval

definition drawer_tabs :: "string list" where
  "drawer_tabs = [''overview'', ''keys'', ''models'', ''routing'', ''config'']"

definition tab_icons :: "(string \<times> string) list" where
  "tab_icons = [(''overview'', ''activity''), (''keys'', ''key''), (''models'', ''boxes''), (''routing'', ''radar''), (''config'', ''settings'')]"

text \<open>Upper case within Latin-1; sharp s and y with diaeresis have none there.\<close>

definition char_upper :: "char \<Rightarrow> char" where
  "char_upper ch = (let n = code_unit ch in
     if (97 \<le> n \<and> n \<le> 122) \<or> (224 \<le> n \<and> n \<le> 254 \<and> n \<noteq> 247) then char_of (n - 32) else ch)"

definition capitalize :: "string \<Rightarrow> string" where
  "capitalize s = (case s of [] \<Rightarrow> [] | ch # cs \<Rightarrow> char_upper ch # cs)"

text \<open>Label and icon.\<close>

definition providerDrawerTabMeta :: "translator \<Rightarrow> string \<Rightarrow> string \<times> string" where
  "providerDrawerTabMeta tr tab =
     (case map_of tab_icons tab of Some icon \<Rightarrow> (tr (''prov.tab_'' @ tab) [], icon) | None \<Rightarrow> (capitalize tab, ''dot''))"

definition drawer_tab :: "translator \<Rightarrow> string \<Rightarrow> string \<Rightarrow> string" where
  "drawer_tab tr current tab =
     (let (label, icon) = providerDrawerTabMeta tr tab; active = (current = tab) in (nl 10 @ ''<button class=\"provider-drawer-tab '' @
        (if active then ''is-active'' else []) @
        ''\" type=\"button\" role=\"tab\" aria-selected=\"'' @
        (if active then ''true'' else ''false'') @ ''\" title=\"'' @ esc label @
        ''\" aria-label=\"'' @ esc label @ ''\" data-provider-drawer-tab=\"'' @ esc tab @
        ''\">'' @ nl 12 @ ''<span class=\"provider-drawer-tab-icon\">'' @ iconSvg icon @
        ''</span>'' @ nl 12 @ ''<span class=\"provider-drawer-tab-label\">'' @ esc label @
        ''</span>'' @ nl 10 @ ''</button>'' @ nl 8))"

definition providerDrawerPanel :: "drawer_env \<Rightarrow> console \<Rightarrow> drawer \<Rightarrow> provider_view \<Rightarrow> string" where
  "providerDrawerPanel e c d view =
     (if du_tab d = ''keys'' then providerDrawerKeys (de_tr e) (du_keysOpen d) view
      else if du_tab d = ''models'' then providerDrawerModels (de_tr e) (de_lc e) (de_dates e) c (du_modelMode d) (du_modelsOpen d) view
      else if du_tab d = ''routing'' then providerDrawerRouting (de_tr e) (de_lc e) c (du_routingOpen d) view
      else if du_tab d = ''config'' then providerDrawerConfig (de_tr e) (de_url e) c view
      else providerDrawerOverview (de_tr e) (de_dates e) (de_clock e) (de_idle e) (du_activityTab d) view)"

definition drawer_markup :: "drawer_env \<Rightarrow> console \<Rightarrow> drawer \<Rightarrow> string" where
  "drawer_markup e c d = (nl 6 @ ''<div class=\"provider-drawer-tabs\" role=\"tablist\" aria-label=\"'' @
     (esc (de_tr e ''prov.drawer_sections'' [])) @ ''\">'' @ nl 8 @
     (concat (map (drawer_tab (de_tr e) (du_tab d)) drawer_tabs)) @ nl 6 @ ''</div>'' @ nl 6 @
     (providerDrawerPanel e c d (providerViewModel (de_lc e) c (du_name d))) @ nl 4)"

definition providerDrawerRenderSignature :: "string \<Rightarrow> console \<Rightarrow> drawer \<Rightarrow> string" where
  "providerDrawerRenderSignature lang c d =
     (let name = du_name d; router = get (c_status c) ''router'' in
      case json_text (Arr [Str name, Str (du_tab d), Str lang,
        jcoalesce (get (get (c_config c) ''providers'') name) Null,
        jcoalesce (get (get router ''providers'') name) Null,
        jcoalesce (get (get (get (c_status c) ''models'') ''providers'') name) Null,
        jcoalesce (get router ''compatibility_circuits'') Null,
        jcoalesce (get (c_activity c) name) Null]) of Some s \<Rightarrow> s | None \<Rightarrow> [])"

definition valid_tab :: "string \<Rightarrow> string" where
  "valid_tab tab = (if tab \<in> set drawer_tabs then tab else ''overview'')"

text \<open>\<open>now\<close> forces the drawing; \<open>preserved\<close>: the operator works in the drawer; \<open>hovered\<close>: the pointer rests on it.\<close>

definition renderProviderDrawer :: "drawer_env \<Rightarrow> console \<Rightarrow> bool \<Rightarrow> bool \<Rightarrow> bool \<Rightarrow> drawer \<Rightarrow> drawer" where
  "renderProviderDrawer e c now preserved hovered d =
     (let sig = providerDrawerRenderSignature (de_lang e) c d; d1 = d\<lparr>du_tab := valid_tab (du_tab d), du_signature := sig\<rparr> in
      if du_name d = [] \<or> \<not> du_open d then d
      else if \<not> now \<and> preserved then d
      else if \<not> now \<and> sig = du_signature d then d
      else if \<not> now \<and> hovered then d\<lparr>du_signature := []\<rparr>
      else d1\<lparr>du_body := drawer_markup e c d1\<rparr>)"

text \<open>A click on a tab only records it; the frame that follows draws the latest.\<close>

definition tabClick :: "string \<Rightarrow> drawer \<Rightarrow> drawer" where
  "tabClick tab d = d\<lparr>du_tab := (if tab \<noteq> [] then tab else ''overview'')\<rparr>"

definition tabFrame :: "drawer_env \<Rightarrow> console \<Rightarrow> drawer \<Rightarrow> drawer" where
  "tabFrame e c d =
     (let d1 = d\<lparr>du_tab := valid_tab (du_tab d)\<rparr> in
      if du_name d = [] \<or> \<not> du_open d then d
      else d1\<lparr>du_body := drawer_markup e c d1, du_signature := providerDrawerRenderSignature (de_lang e) c d1\<rparr>)"

section \<open>Activity events\<close>

record events_state =
  es_name :: string
  es_loading :: bool
  es_loaded :: bool

definition resetProviderActivityEventsCache :: "string \<Rightarrow> events_state \<Rightarrow> events_state" where
  "resetProviderActivityEventsCache name es =
     (if es_name es \<noteq> name then es\<lparr>es_name := name, es_loaded := False\<rparr> else es)"

definition has_events :: "jsval \<Rightarrow> string \<Rightarrow> bool" where
  "has_events activity name \<longleftrightarrow> is_array (get (get activity name) ''events'')"

text \<open>The state afterwards and the provider whose events are asked for.\<close>

definition startActivityEvents :: "jsval \<Rightarrow> string \<Rightarrow> events_state \<Rightarrow> events_state \<times> string option" where
  "startActivityEvents activity name es =
     (if name = [] \<or> es_loading es then (es, None)
      else if es_name es = name \<and> es_loaded es \<and> has_events activity name then (es, None)
      else (\<lparr>es_name = name, es_loading = True, es_loaded = (es_loaded es \<and> es_name es \<noteq> name)\<rparr>, Some name))"

text \<open>
  The reply for \<open>name\<close>: the events are merged into what the page holds of the provider; \<open>shown\<close> tells whether the
  drawer still shows its overview, whose lists are then replaced.
\<close>

definition finishActivityEvents :: "string \<Rightarrow> string + jsval \<Rightarrow> jsval \<times> events_state \<Rightarrow> jsval \<times> events_state" where
  "finishActivityEvents name reply s =
     (let (activity, es) = s; free = (\<lambda>x. x\<lparr>es_loading := False\<rparr>) in
      case reply of
        Inl err \<Rightarrow> (activity, free es)
      | Inr resp \<Rightarrow>
          (let fresh = jor (get resp ''activity'') Null; aggregate = obj_or_empty (get activity name) in
           if \<not> truthy fresh then (activity, free (es\<lparr>es_loaded := True\<rparr>))
           else if nullish activity then (activity, free es)
           else (obj_set name (Obj (spread (obj_fields aggregate) (obj_fields fresh))) activity, free (es\<lparr>es_loaded := True\<rparr>))))"

definition events_patched :: "string \<Rightarrow> drawer \<Rightarrow> bool" where
  "events_patched name d \<longleftrightarrow> du_name d = name \<and> du_tab d = ''overview''"

text \<open>The lists a reply puts in the drawer, the count of the probes tab, its alert, and the pane it switches to.\<close>

definition event_lists ::
  "drawer_env \<Rightarrow> jsval \<Rightarrow> string \<Rightarrow> string \<times> string \<times> string \<times> bool \<times> string option" where
  "event_lists e resp chosen =
     (let activity = jor (get resp ''activity'') Null; recent = recent_events activity; probes = recent_probes activity in
      (if recent \<noteq> [] then concat (map (providerActivityRow (de_tr e) (de_dates e)) recent)
         else (''<div class=\"empty pad-slim\">'' @
            (esc (de_tr e ''prov.overview_activity_empty'' [])) @ ''</div>''),
       if probes \<noteq> [] then concat (map (providerProbeRow (de_tr e) (de_dates e) (de_clock e)) probes)
         else (''<div class=\"empty pad-slim\">'' @
            (esc (de_tr e ''prov.overview_probe_empty'' [])) @ ''</div>''),
       count_of (length (arr_or_empty (get activity ''probeEvents''))), failed_probe activity,
       if failed_probe activity \<and> chosen = [] then Some ''probes'' else None))"

section \<open>Opening and closing\<close>

definition openProviderDrawer ::
  "drawer_env \<Rightarrow> console \<Rightarrow> string \<Rightarrow> string \<Rightarrow> drawer \<times> events_state \<Rightarrow> drawer \<times> events_state" where
  "openProviderDrawer e c name tab s =
     (let (d, es) = s; d1 = d\<lparr>du_name := name, du_tab := (if tab \<noteq> [] then tab else du_tab d), du_activityTab := [],
            du_keysOpen := {}, du_modelsOpen := {}, du_routingOpen := False, du_open := True\<rparr> in
      if name = [] then s
      else (renderProviderDrawer e c True False False d1, resetProviderActivityEventsCache name es))"

definition closeProviderDrawer :: "drawer \<times> events_state \<Rightarrow> drawer \<times> events_state" where
  "closeProviderDrawer s =
     ((fst s)\<lparr>du_open := False, du_name := [], du_signature := []\<rparr>, resetProviderActivityEventsCache [] (snd s))"

text \<open>The \<open>toggle\<close> event of a disclosure.\<close>

definition disclosureToggled :: "string \<Rightarrow> bool \<Rightarrow> string set \<Rightarrow> string set" where
  "disclosureToggled i isOpen opened = (if i = [] then opened else if isOpen then insert i opened else opened - {i})"

section \<open>Default pool and keys\<close>

definition next_pool :: "string \<Rightarrow> jsval list \<Rightarrow> jsval list" where
  "next_pool provider pool =
     (if Str provider \<in> set pool then filter (\<lambda>x. x \<noteq> Str provider) pool else pool @ [Str provider])"

definition poolToggle :: "string \<Rightarrow> jsval \<Rightarrow> optimistic_edit option" where
  "poolToggle provider config =
     (if provider = [] then None
      else let nextPool = next_pool provider (default_pool config) in
        Some \<lparr>oe_key = Str ''routing'', oe_apply = make_prop ''routing'' (obj_set ''default_provider_pool'' (Arr nextPool)),
              oe_drawer = True\<rparr>)"

definition key_delete_message :: "translator \<Rightarrow> string \<Rightarrow> string \<Rightarrow> jsval \<Rightarrow> string" where
  "key_delete_message tr provider label total_attr =
     tr ''confirm.delete_key.msg'' [(''label'', Str label), (''provider'', Str provider)]
     @ (if num_le (num_or_zero total_attr) (Fin 1) then tr ''confirm.delete_key.last'' [] else [])"

text \<open>The key with that index, or at that position when it has none, is marked; a key that is a string cannot be.\<close>

definition is_key_at :: "string \<Rightarrow> nat \<times> jsval \<Rightarrow> bool" where
  "is_key_at keyIndex e \<longleftrightarrow> to_str (jcoalesce (get (snd e) ''index'') (jnum (of_nat (fst e)))) = keyIndex"

definition mark_deleted :: "string \<Rightarrow> jsval list \<Rightarrow> jsval list" where
  "mark_deleted keyIndex ks =
     (case find (is_key_at keyIndex) (enumerate 0 ks) of
        None \<Rightarrow> ks
      | Some (i, key) \<Rightarrow> if is_object key then ks[i := obj_set ''pending_delete'' (Bool True) key] else ks)"

definition key_delete_edit :: "string \<Rightarrow> string \<Rightarrow> optimistic_edit option" where
  "key_delete_edit provider keyIndex =
     (if provider = [] \<or> keyIndex = [] then None
      else Some \<lparr>oe_key = Str (''provider-key-list:'' @ provider),
        oe_apply = upd_provider provider (\<lambda>p. if is_array (get p ''keys'')
           then obj_set ''keys'' (Arr (mark_deleted keyIndex (arr_or_empty (get p ''keys'')))) p else p),
        oe_drawer = True\<rparr>)"

end
