(* ===== verification/ProviderDrawerFacts.thy ===== *)
theory ProviderDrawerFacts
  imports ProviderDrawer ProviderCatalogFacts
begin

text \<open>
  When the provider drawer is drawn again and when it is not, what an activity reply does to the cache of another
  provider, and the facts about the strip of calls, the probes, the pool and the ranks.
\<close>

section \<open>The render signature\<close>

lemma signature_outside_providers:
  assumes "get (c_config c') ''providers'' = get (c_config c) ''providers''"
    and "c_status c' = c_status c" and "c_activity c' = c_activity c"
  shows "providerDrawerRenderSignature lang c' d = providerDrawerRenderSignature lang c d"
  using assms by (simp add: providerDrawerRenderSignature_def)

text \<open>
  C26. The open drawer goes stale: the signature that spares a redraw has neither the model configuration (mappings,
  switches, variant groups, routes) nor the routing configuration nor the idle state, although the tabs show
  them. Whatever a refresh brings there, a render that is not forced leaves the drawer as it was drawn.
\<close>

theorem drawer_misses_model_config:
  assumes "du_signature d = providerDrawerRenderSignature (de_lang e) c d"
    and "get config ''providers'' = get (c_config c) ''providers''"
  shows "du_body (renderProviderDrawer (e\<lparr>de_idle := idle\<rparr>) (c\<lparr>c_config := config\<rparr>) False preserved hovered d) = du_body d"
  using assms signature_outside_providers [of "c\<lparr>c_config := config\<rparr>" c "de_lang e" d]
  by (simp add: renderProviderDrawer_def Let_def)

definition sample_env :: drawer_env where
  "sample_env = \<lparr>de_tr = (\<lambda>k ps. k), de_lang = ''en'', de_lc = string_le, de_dates = (\<lambda>n. []), de_clock = (\<lambda>n. (1, 1, 0, 0)),
     de_url = (\<lambda>s. None), de_idle = Undef\<rparr>"

definition routing_drawer :: drawer where
  "routing_drawer = renderProviderDrawer sample_env sample_console True False False
     \<lparr>du_name = ''p'', du_open = True, du_tab = ''routing'', du_activityTab = [], du_keysOpen = {}, du_modelsOpen = {},
      du_routingOpen = False, du_modelMode = [], du_signature = [], du_body = []\<rparr>"

text \<open>A provider that joins the default pool: the tab would show it, the drawer does not.\<close>

definition pool_config :: jsval where
  "pool_config = Obj [(''routing'', Obj [(''default_provider_pool'', Arr [Str ''p''])])]"

theorem drawer_misses_model_config_witness:
  "du_body (renderProviderDrawer sample_env (sample_console\<lparr>c_config := pool_config\<rparr>) False False False routing_drawer)
     = du_body routing_drawer
   \<and> (Str ''p'' \<in> set (default_pool pool_config)) \<noteq> (Str ''p'' \<in> set (default_pool (c_config sample_console)))"
proof -
  have "du_signature routing_drawer = providerDrawerRenderSignature (de_lang sample_env) sample_console routing_drawer"
    by (simp add: routing_drawer_def renderProviderDrawer_def providerDrawerRenderSignature_def valid_tab_def drawer_tabs_def Let_def)
  moreover have "get pool_config ''providers'' = get (c_config sample_console) ''providers''"
    by (simp add: pool_config_def sample_console_def)
  moreover have "Str ''p'' \<in> set (default_pool pool_config)" "Str ''p'' \<notin> set (default_pool (c_config sample_console))"
    by (simp_all add: default_pool_def pool_config_def sample_console_def)
  ultimately show ?thesis
    using drawer_misses_model_config [of routing_drawer sample_env sample_console pool_config "de_idle sample_env" False False]
    by simp
qed

text \<open>Opening, a forced render and the frame after a tab click always draw what the state says.\<close>

lemma forced_render_is_current:
  assumes "du_open d" "du_name d \<noteq> []"
  shows "du_body (renderProviderDrawer e c True preserved hovered d) = drawer_markup e c (renderProviderDrawer e c True preserved hovered d)"
proof -
  have panel: "providerDrawerPanel e c (d\<lparr>du_body := b\<rparr>) v = providerDrawerPanel e c d v" for d b v
    by (simp add: providerDrawerPanel_def)
  have "drawer_markup e c (d\<lparr>du_body := b\<rparr>) = drawer_markup e c d" for d b
    by (simp add: drawer_markup_def panel)
  then show ?thesis using assms by (simp add: renderProviderDrawer_def Let_def)
qed

text \<open>A drawer that is not drawn because the pointer rests on it is drawn at the next occasion.\<close>

lemma signature_nonempty: "providerDrawerRenderSignature lang c d \<noteq> []"
  by (simp add: providerDrawerRenderSignature_def Let_def)

lemma hovered_drawer_is_owed:
  assumes "du_open d" "du_name d \<noteq> []" "renderProviderDrawer e c False False True d \<noteq> d"
  shows "du_body (renderProviderDrawer e c' False False False (renderProviderDrawer e c False False True d))
    = drawer_markup e c' (d\<lparr>du_tab := valid_tab (du_tab d), du_signature := providerDrawerRenderSignature (de_lang e) c' d\<rparr>)"
proof -
  have "renderProviderDrawer e c False False True d = d\<lparr>du_signature := []\<rparr>"
    using assms by (auto simp: renderProviderDrawer_def Let_def split: if_splits)
  then show ?thesis
    using assms signature_nonempty [of "de_lang e" c' d]
    by (simp add: renderProviderDrawer_def providerDrawerRenderSignature_def Let_def)
qed

section \<open>Activity events\<close>

text \<open>One load at a time, for all providers together.\<close>

lemma events_single_flight:
  "snd (startActivityEvents activity name es) = Some n \<Longrightarrow>
   snd (startActivityEvents activity' other (fst (startActivityEvents activity name es))) = None"
  by (auto simp: startActivityEvents_def split: if_splits)

text \<open>
  The load of one provider is running when the drawer opens another: the events of the second are not asked for, and
  the reply of the first marks them as loaded.
\<close>

lemma reply_marks_other_provider:
  assumes "snd (startActivityEvents activity a es) = Some a" and "b \<noteq> a" "b \<noteq> []" and "resp = Obj [(''activity'', Obj kvs)]"
    and "\<not> nullish activity"
  defines "es1 \<equiv> resetProviderActivityEventsCache b (fst (startActivityEvents activity a es))"
  shows "snd (startActivityEvents activity b es1) = None"
    and "snd (finishActivityEvents a (Inr resp) (activity, es1)) = \<lparr>es_name = b, es_loading = False, es_loaded = True\<rparr>"
proof -
  have "es1 = \<lparr>es_name = b, es_loading = True, es_loaded = False\<rparr>"
    using assms(1,2) by (auto simp: es1_def startActivityEvents_def resetProviderActivityEventsCache_def split: if_splits)
  then show "snd (startActivityEvents activity b es1) = None"
    and "snd (finishActivityEvents a (Inr resp) (activity, es1)) = \<lparr>es_name = b, es_loading = False, es_loaded = True\<rparr>"
    using assms(3-5) by (simp_all add: startActivityEvents_def finishActivityEvents_def jor_def)
qed

text \<open>A load that ended releases the guard, whatever the server said.\<close>

lemma events_released: "\<not> es_loading (snd (finishActivityEvents name reply s))"
  by (auto simp: finishActivityEvents_def Let_def split: prod.splits sum.splits)

section \<open>The strip of calls\<close>

lemma max_latency_ge: "\<exists>m. max_latency events = Fin m \<and> 1 \<le> m" if "\<forall>e \<in> set events. \<exists>q. event_latency e = Fin q"
proof -
  have "\<exists>m. foldl num_max (Fin a) (map event_latency events) = Fin m \<and> a \<le> m" for a
    using that
  proof (induction events arbitrary: a)
    case (Cons e events)
    then obtain q where "event_latency e = Fin q" by auto
    then show ?case using Cons.IH [of "max a q"] Cons.prems by (fastforce simp: num_max_Fin)
  qed simp
  then show ?thesis by (simp add: max_latency_def)
qed

text \<open>The bars of the strip stay between 30 and 100 percent, failed calls at full height.\<close>

lemma bar_height_bounds:
  assumes "\<forall>e \<in> set events. \<exists>q. event_latency e = Fin q" and "event \<in> set events"
  shows "\<exists>h. bar_height (max_latency events) event = Fin h \<and> 30 \<le> h \<and> h \<le> 100"
proof -
  obtain q where q: "event_latency event = Fin q" using assms by blast
  then have "0 \<le> q" by (auto simp: event_latency_def num_max_def split: if_splits)
  obtain m where m: "max_latency events = Fin m" "1 \<le> m" using max_latency_ge [OF assms(1)] by blast
  have "num_min (Fin 1) (Fin (q / m)) = Fin (min 1 (q / m))" by (auto simp: num_min_def min_def)
  moreover have "0 \<le> min 1 (q / m)" "min 1 (q / m) \<le> 1" using \<open>0 \<le> q\<close> m(2) by auto
  ultimately have "\<exists>r. num_add (Fin 30) (num_mul (Fin 70) (num_min (Fin 1) (num_div (event_latency event) (max_latency events)))) = Fin r
      \<and> 30 \<le> r \<and> r \<le> 100"
    using m(2) by (cases "m = 0") (simp_all add: q m)
  then obtain r where r: "num_add (Fin 30) (num_mul (Fin 70) (num_min (Fin 1) (num_div (event_latency event) (max_latency events)))) = Fin r"
      "30 \<le> r" "r \<le> 100" by blast
  have "30 \<le> \<lfloor>r + 1 / 2\<rfloor>" "\<lfloor>r + 1 / 2\<rfloor> \<le> 100" using r(2,3) by linarith+
  then have "(30 :: rat) \<le> of_int \<lfloor>r + 1 / 2\<rfloor>" "(of_int \<lfloor>r + 1 / 2\<rfloor> :: rat) \<le> 100" by linarith+
  then show ?thesis by (simp add: bar_height_def r(1))
qed

section \<open>Pool, ranks, keys\<close>

text \<open>The switch joins or leaves the pool and touches nobody else; pressing it twice restores the members.\<close>

lemma pool_toggle_members:
  "set (next_pool p pool) = (if Str p \<in> set pool then set pool - {Str p} else insert (Str p) (set pool))"
  by (auto simp: next_pool_def)

lemma pool_toggle_twice: "set (next_pool p (next_pool p pool)) = set pool"
  by (auto simp: pool_toggle_members)

lemma pool_toggle_distinct: "distinct pool \<Longrightarrow> distinct (next_pool p pool)"
  by (auto simp: next_pool_def)

lemma ranked_providers_perm: "mset (ranked_providers c items) = mset items"
  by (simp add: ranked_providers_def)

text \<open>Deleting a key marks one key and keeps the list as long as it was.\<close>

lemma mark_deleted_one:
  "length (mark_deleted i ks) = length ks"
  "mark_deleted i ks = ks \<or> (\<exists>n < length ks. mark_deleted i ks = ks[n := obj_set ''pending_delete'' (Bool True) (ks ! n)])"
proof -
  have found: "n < length ks \<and> k = ks ! n" if "find (is_key_at i) (enumerate 0 ks) = Some (n, k)" for n k
    using find_Some_in [OF that] by (auto simp: in_set_enumerate_eq)
  show "length (mark_deleted i ks) = length ks"
    by (auto simp: mark_deleted_def split: option.splits)
  show "mark_deleted i ks = ks \<or> (\<exists>n < length ks. mark_deleted i ks = ks[n := obj_set ''pending_delete'' (Bool True) (ks ! n)])"
    using found by (fastforce simp: mark_deleted_def split: option.splits)
qed

end
