(* ===== verification/PolicyView.thy ===== *)
theory PolicyView
  imports SettingsOps ConfigFormsFacts JsNumText
begin

text \<open>
  The policy page of \<open>app.js\<close>: the rule table, the routing and retry forms and the cards of the failure policies
  as markup, what their forms send, and the edit each makes to the configuration shown until the reply.
\<close>

section \<open>The decision of a rule\<close>

record policy_decision =
  pd_error_type :: jsval
  pd_retryable :: bool
  pd_reason :: jsval
  pd_stop :: bool
  pd_scope :: jsval
  pd_cooldown :: jsnum
  pd_disables :: bool

text \<open>A rule holds its decision in a record of its own or is one; what the record lacks the rule gives.\<close>

definition decision_of :: "jsval \<Rightarrow> jsval" where
  "decision_of rule =
     (case get rule ''decision'' of Obj kvs \<Rightarrow> Obj kvs | Arr xs \<Rightarrow> Arr xs | _ \<Rightarrow> jor rule (Obj []))"

definition policyDecision :: "jsval \<Rightarrow> policy_decision" where
  "policyDecision rule =
     (let d = decision_of rule in
      \<lparr>pd_error_type = jor (get d ''error_type'') (jor (get rule ''error_type'') (Str [])),
       pd_retryable = truthy (jcoalesce (get d ''retryable'') (get rule ''retryable'')),
       pd_reason = jor (get d ''reason'') (jor (get rule ''reason'') (Str [])),
       pd_stop = truthy (jcoalesce (get d ''stop_attempts'') (get rule ''stop_attempts'')),
       pd_scope = jor (get d ''cooldown_scope'') (jor (get rule ''cooldown_scope'') (Str ''none'')),
       pd_cooldown = to_num (jcoalesce (get d ''cooldown_s'') (jcoalesce (get rule ''cooldown_s'') (jnum 0))),
       pd_disables = truthy (jcoalesce (get d ''disables_key'') (get rule ''disables_key''))\<rparr>)"

definition decision_pieces :: "jsval \<Rightarrow> string list" where
  "decision_pieces rule =
     (let d = policyDecision rule in
      [if pd_retryable d then ''retry'' else ''no retry'']
      @ (if get rule ''retry_next_attempt'' \<noteq> Undef
         then [if truthy (get rule ''retry_next_attempt'') then ''switch attempt'' else ''no switch''] else [])
      @ (if pd_stop d then [''stop''] else [])
      @ (if truthy (pd_scope d) then [''cooldown '' @ to_str (pd_scope d)] else [])
      @ (if pd_disables d then [''disable key''] else []))"

definition decisionText :: "jsval \<Rightarrow> jsval" where
  "decisionText rule =
     jor (Str (js_join '', '' (decision_pieces rule))) (jor (get rule ''decision'') (Str ''-''))"

section \<open>The rule table\<close>

text \<open>\<open>n >= k && n % k === 0\<close>.\<close>

fun whole_units :: "rat \<Rightarrow> jsnum \<Rightarrow> bool" where
  "whole_units k (Fin q) \<longleftrightarrow> k \<le> q \<and> of_int \<lfloor>q / k\<rfloor> = q / k"
| "whole_units k n \<longleftrightarrow> False"

definition pmShortDuration :: "jsval \<Rightarrow> string" where
  "pmShortDuration v =
     (let n = num_or (to_num v) (Fin 0) in
      if whole_units 3600 n then num_to_str (num_div n (Fin 3600)) @ ''h''
      else if whole_units 60 n then num_to_str (num_div n (Fin 60)) @ ''m''
      else num_to_str n @ ''s'')"

definition pmStateCell :: "string \<Rightarrow> string \<Rightarrow> string \<Rightarrow> string" where
  "pmStateCell tone icon tip = (''<td class=\"pm-state '' @ tone @ ''\" title=\"'' @ esc tip @ ''\">'' @
     (if icon \<noteq> [] then iconSvg icon else (''<span class=\"pm-dash\">'' @ [CHR 0xE2, CHR 0x80, CHR 0x94] @ ''</span>'')) @
     ''</td>'')"

text \<open>The error type and the reason, once when they are the same.\<close>

definition rule_codes :: "policy_decision \<Rightarrow> jsval list" where
  "rule_codes d =
     (if truthy (pd_error_type d) then [pd_error_type d] else [])
     @ (if truthy (pd_reason d) \<and> \<not> strict_eq (pd_error_type d) (pd_reason d) then [pd_reason d] else [])"

definition rule_tip :: "jsval \<Rightarrow> string" where
  "rule_tip rule =
     js_join [CHR 0x0A]
       (filter (\<lambda>s. s \<noteq> []) [to_str (jor (get rule ''notes'') (Str [])), js_join ('' '' @ [CHR 0xB7] @ '' '') (map to_str (rule_codes (policyDecision rule)))])"

definition cooldown_cell :: "policy_decision \<Rightarrow> string" where
  "cooldown_cell d =
     (if strict_eq (pd_scope d) (Str ''none'') then pmStateCell ''idle'' [] ''no cooldown''
      else (''<td class=\"pm-state cool\" title=\"cooldown '' @ (escapeHtml (pd_scope d)) @ '' '' @
         [CHR 0xB7] @ '' '' @ (fmtInt (Num (pd_cooldown d))) @ ''s\">'' @ iconSvg ''clock'' @
         ''<span>'' @ (pmShortDuration (Num (pd_cooldown d))) @ ''</span></td>''))"

definition renderPolicyRule :: "jsval \<Rightarrow> nat \<Rightarrow> string" where
  "renderPolicyRule rule i =
     (let d = policyDecision rule in (nl 6 @ ''<tr>'' @ nl 8 @ ''<td class=\"pm-idx\">'' @
        (pad_zeros 2 (nat_to_str (int i + 1))) @ ''</td>'' @ nl 8 @
        ''<td class=\"pm-trigger\" title=\"'' @ (esc (rule_tip rule)) @ ''\">'' @
        (escapeHtml (jor (get rule ''match'') (jor (get rule ''name'') (Str ''-'')))) @
        ''</td>'' @ nl 8 @
        (if pd_retryable d then pmStateCell ''pass'' ''check'' ''retry'' else pmStateCell ''deny'' ''x'' ''no retry'') @
        nl 8 @
        (if truthy (get rule ''retry_next_attempt'') then pmStateCell ''pass'' ''check'' ''switch attempt'' else pmStateCell ''deny'' ''x'' ''no switch'') @
        nl 8 @
        (if pd_stop d then pmStateCell ''deny'' ''power-off'' ''stop attempts'' else pmStateCell ''idle'' [] ''continue'') @
        nl 8 @ cooldown_cell d @ nl 8 @
        (if pd_disables d then pmStateCell ''deny'' ''key'' ''disable key'' else pmStateCell ''idle'' [] ''keep key'') @
        nl 6 @ ''</tr>'' @ nl 4))"

text \<open>\<open>policy\<close> is the one of the routing state, or the one of the status.\<close>

definition shown_policy :: "jsval \<Rightarrow> jsval \<Rightarrow> jsval" where
  "shown_policy routing status = jor (get routing ''policy'') (jor (get status ''policy'') (Obj []))"

definition rule_table :: "translator \<Rightarrow> jsval \<Rightarrow> string" where
  "rule_table tr policy =
     (let rows = arr_or_empty (get policy ''rule_table''); statuses = get policy ''retryable_status'' in
      if rows = [] then (''<div class=\"empty pad\">No rule table</div>'') else (nl 6 @ ''<div class=\"policy-facts\">'' @ nl 8 @
         ''<span class=\"policy-fact\" title=\"'' @ (esc (tr ''policy.max_attempts_tip'' [])) @
         ''\">'' @ iconSvg ''rotate'' @ (tr ''policy.max_attempts'' []) @ ''<b>'' @
         (fmtInt (get policy ''max_attempts'')) @ ''</b></span>'' @ nl 8 @
         ''<span class=\"policy-fact\" title=\"connect / read\">'' @ iconSvg ''clock'' @
         (tr ''policy.timeouts'' []) @ ''<b>'' @ (fmtInt (get policy ''connect_timeout_s'')) @
         ''s '' @ [CHR 0xB7] @ '' '' @ (fmtInt (get policy ''read_timeout_s'')) @
         ''s</b></span>'' @ nl 8 @ ''<span class=\"policy-fact\" title=\"'' @
         (esc (tr ''policy.retryable_tip'' [])) @ ''\">'' @ iconSvg ''shield'' @
         (tr ''policy.retryable_statuses'' []) @ ''<b>'' @
         (if arr_or_empty statuses \<noteq> [] then joined_list statuses else ''-'') @
         ''</b></span>'' @ nl 6 @ ''</div>'' @ nl 6 @ ''<div class=\"policy-matrix-wrap\">'' @
         nl 8 @ ''<table class=\"policy-matrix\">'' @ nl 10 @ ''<thead>'' @ nl 12 @ ''<tr>'' @
         nl 14 @ ''<th class=\"pm-idx\">#</th>'' @ nl 14 @ ''<th class=\"pm-trigger\">'' @
         (tr ''policy.col_trigger'' []) @ ''</th>'' @ nl 14 @ ''<th class=\"pm-col\">'' @
         iconSvg ''rotate'' @ ''<span>'' @ (tr ''policy.col_retry'' []) @ ''</span></th>'' @
         nl 14 @ ''<th class=\"pm-col\">'' @ (iconSvg ''arrow-right'') @ ''<span>'' @
         (tr ''policy.col_switch'' []) @ ''</span></th>'' @ nl 14 @ ''<th class=\"pm-col\">'' @
         (iconSvg ''power-off'') @ ''<span>'' @ (tr ''policy.col_stop'' []) @ ''</span></th>'' @
         nl 14 @ ''<th class=\"pm-col\">'' @ iconSvg ''clock'' @ ''<span>'' @
         (tr ''policy.col_cooldown'' []) @ ''</span></th>'' @ nl 14 @ ''<th class=\"pm-col\">'' @
         iconSvg ''key'' @ ''<span>'' @ (tr ''policy.col_key'' []) @ ''</span></th>'' @ nl 12 @
         ''</tr>'' @ nl 10 @ ''</thead>'' @ nl 10 @ ''<tbody>'' @ nl 12 @
         (concat (map (\<lambda>(r, i). renderPolicyRule r i) (zip rows [0..<length rows]))) @
         nl 10 @ ''</tbody>'' @ nl 8 @ ''</table>'' @ nl 6 @ ''</div>'' @ nl 4))"

section \<open>The failure policies\<close>

definition failurePolicyDescription :: "string \<Rightarrow> string" where
  "failurePolicyDescription text =
     (if js_includes ''key_invalid'' text then (''Auth/key failures mark that key unhealthy; rotation may continue with another'' @
        '' key.'')
      else if js_includes ''rate'' text then (''Rate limits cool the key briefly; Retry-After can extend this when upstream'' @
         '' provides it.'')
      else if js_includes ''network'' text then (''Network and timeout failures cool the current key by default; provider cooldown'' @
         '' is optional.'')
      else if js_includes ''server'' text then (''Provider-side failures are retryable before the client response starts.'')
      else if js_includes ''empty_visible'' text then (''Empty converted output is retried without cooling the upstream key.'')
      else if js_includes ''compat'' text then (''Compatibility failures are retried when another format/provider may satisfy the'' @
         '' request.'')
      else (''Default failure handling for this error type.''))"

definition scope_choices :: "string list" where
  "scope_choices = [''none'', ''key'', ''provider'', ''key_provider'']"

definition scope_tone :: "jsval \<Rightarrow> string" where
  "scope_tone scope =
     (if strict_eq scope (Str ''none'') then ''off'' else if strict_eq scope (Str ''key'') then ''warn''
      else if strict_eq scope (Str ''provider'') then ''warn'' else ''bad'')"

definition scope_option :: "jsval \<Rightarrow> string \<Rightarrow> string" where
  "scope_option scope item = (''<option value=\"'' @ item @ ''\" '' @
     (if strict_eq scope (Str item) then ''selected'' else []) @ ''>'' @ item @ ''</option>'')"

definition policy_scope :: "jsval \<Rightarrow> jsval" where
  "policy_scope cfg = jor (get cfg ''cooldown_scope'') (Str ''none'')"

definition help_tip :: "string \<Rightarrow> string" where
  "help_tip tip = (''<span class=\"help-tip\" data-tip=\"'' @ esc tip @ ''\">?</span>'')"

definition failurePolicyCard :: "translator \<Rightarrow> string \<Rightarrow> jsval \<Rightarrow> string" where
  "failurePolicyCard tr errorType cfg =
     (let scope = policy_scope cfg in (nl 6 @ ''<form class=\"failure-policy-card failure-policy-form collapsible-card\"'' @
        '' data-error-type=\"'' @ esc errorType @ ''\">'' @ nl 8 @
        ''<div class=\"failure-policy-head collapsible-card-header\">'' @ nl 10 @
        ''<span class=\"status-dot '' @ scope_tone scope @ ''\"></span>'' @ nl 10 @ ''<h3>'' @
        esc errorType @ ''</h3>'' @ nl 10 @
        ''<select class=\"control compact-control\" name=\"cooldown_scope\" aria-label=\"'' @
        esc errorType @ '' cooldown scope\">'' @ nl 12 @
        (concat (map (scope_option scope) scope_choices)) @ nl 10 @ ''</select>'' @ nl 10 @
        ''<svg class=\"chevron\" viewBox=\"0 0 24 24\" width=\"16\" height=\"16\"'' @
        '' fill=\"none\" stroke=\"currentColor\" stroke-width=\"2\"><path d=\"M9'' @
        '' 18l6-6-6-6\"></path></svg>'' @ nl 8 @ ''</div>'' @ nl 8 @
        ''<div class=\"collapsible-card-body\">'' @ nl 10 @
        ''<div class=\"failure-policy-edit-grid\">'' @ nl 12 @ ''<label class=\"field\">'' @
        nl 14 @ ''<span class=\"label-with-tip\">'' @ (tr ''policy.key_cooldown'' []) @
        (help_tip (tr ''policy.key_cooldown_tip'' [])) @ ''</span>'' @ nl 14 @
        ''<input class=\"control\" name=\"cooldown_s\" type=\"number\" min=\"0\"'' @
        '' max=\"86400\" value=\"'' @ (escapeHtml (jcoalesce (get cfg ''cooldown_s'') (jnum 0))) @
        ''\" required />'' @ nl 12 @ ''</label>'' @ nl 12 @ ''<label class=\"field\">'' @ nl 14 @
        ''<span class=\"label-with-tip\">'' @ (tr ''policy.provider_cooldown'' []) @
        (help_tip (tr ''policy.provider_cooldown_tip'' [])) @ ''</span>'' @ nl 14 @
        ''<input class=\"control\" name=\"provider_cooldown_s\" type=\"number\" min=\"0\"'' @
        '' max=\"300\" value=\"'' @
        (escapeHtml (jcoalesce (get cfg ''provider_cooldown_s'') (jnum 0))) @ ''\" required />'' @
        nl 12 @ ''</label>'' @ nl 12 @ ''<label class=\"check-field failure-disable-check\">'' @
        nl 14 @
        ''<span class=\"toggle-switch\"><input type=\"checkbox\" name=\"disables_key\" '' @
        (if truthy (get cfg ''disables_key'') then ''checked'' else []) @
        '' /><span class=\"slider\"></span></span>'' @ nl 14 @
        ''<span class=\"label-with-tip\">'' @ (tr ''policy.disable_key'' []) @
        (help_tip (failurePolicyDescription errorType)) @ ''</span>'' @ nl 12 @ ''</label>'' @
        nl 12 @ ''<button class=\"button secondary\" type=\"submit\">'' @
        (tr ''policy.save_policy'' []) @ ''</button>'' @ nl 10 @ ''</div>'' @ nl 8 @ ''</div>'' @
        nl 6 @ ''</form>'' @ nl 4))"

text \<open>\<open>Object.entries(policies).sort()\<close> compares the entries as the texts \<open>key,value\<close>.\<close>

fun str_le :: "string \<Rightarrow> string \<Rightarrow> bool" where
  "str_le [] u \<longleftrightarrow> True"
| "str_le (c # s) [] \<longleftrightarrow> False"
| "str_le (c # s) (d # u) \<longleftrightarrow> (if code_unit c = code_unit d then str_le s u else code_unit c < code_unit d)"

definition entry_text :: "string \<times> jsval \<Rightarrow> string" where
  "entry_text e = fst e @ '','' @ (if nullish (snd e) then [] else to_str (snd e))"

definition policy_rows :: "jsval \<Rightarrow> jsval \<Rightarrow> (string \<times> jsval) list" where
  "policy_rows config policy =
     js_sort (\<lambda>a b. str_le (entry_text a) (entry_text b))
       (js_entries (jor (get (get config ''retry'') ''failure_policies'') (jor (get policy ''failure_policies'') (Obj []))))"

definition failure_policies :: "translator \<Rightarrow> jsval \<Rightarrow> jsval \<Rightarrow> string" where
  "failure_policies tr config policy =
     (let rows = policy_rows config policy in
      if rows = [] then (''<div class=\"empty pad\">No failure policies</div>'') else (nl 6 @ ''<div class=\"failure-policy-list\">'' @ nl 8 @
         (concat (map (\<lambda>(errorType, cfg). failurePolicyCard tr errorType (jor cfg (Obj []))) rows)) @
         nl 6 @ ''</div>'' @ nl 4))"

text \<open>A panel holding the focus is drawn again only by force; drawing it clears the force.\<close>

definition draw_panel :: "bool \<Rightarrow> bool \<Rightarrow> string \<Rightarrow> string \<times> bool \<Rightarrow> string \<times> bool" where
  "draw_panel there focused html panel =
     (if \<not> there then panel else if \<not> snd panel \<and> focused then panel else (html, False))"

definition renderFailurePolicies ::
  "translator \<Rightarrow> bool \<Rightarrow> bool \<Rightarrow> jsval \<Rightarrow> jsval \<Rightarrow> string \<times> bool \<Rightarrow> string \<times> bool" where
  "renderFailurePolicies tr there focused config policy =
     draw_panel there focused (failure_policies tr config policy)"

text \<open>The card folds: what the storage says at first, and a click on the head outside its controls.\<close>

definition fold_key :: "string \<Rightarrow> string" where
  "fold_key errorType = ''proxyConsoleFold_failure_'' @ errorType"

definition card_open :: "(string \<Rightarrow> string option) \<Rightarrow> string \<Rightarrow> bool" where
  "card_open storage errorType \<longleftrightarrow> storage (fold_key errorType) = Some ''1''"

definition card_click ::
  "bool \<Rightarrow> string \<Rightarrow> bool \<times> (string \<Rightarrow> string option) \<Rightarrow> bool \<times> (string \<Rightarrow> string option)" where
  "card_click on_control errorType s =
     (if on_control then s
      else (\<not> fst s, (snd s)(fold_key errorType := Some (if \<not> fst s then ''1'' else ''0''))))"

section \<open>The routing and retry forms\<close>

text \<open>The value a number field shows: the configuration's, the policy's, or a default.\<close>

definition number_value :: "jsval \<Rightarrow> jsval \<Rightarrow> string \<Rightarrow> rat \<Rightarrow> jsval" where
  "number_value routing policy k fallback = jcoalesce (get routing k) (jcoalesce (get policy k) (jnum fallback))"

definition cooldownField :: "string \<Rightarrow> string \<Rightarrow> string \<Rightarrow> jsval \<Rightarrow> string" where
  "cooldownField name label tip value = (nl 6 @ ''<label class=\"field\">'' @ nl 8 @ ''<span class=\"label-with-tip\">'' @ esc label @
     ''<span class=\"help-tip\" data-tip=\"'' @ esc tip @ ''\">?</span></span>'' @ nl 8 @
     ''<input class=\"control\" name=\"'' @ esc name @
     ''\" type=\"number\" min=\"0\" max=\"86400\" value=\"'' @ escapeHtml value @
     ''\" required />'' @ nl 6 @ ''</label>'' @ nl 4)"

record route_mode =
  rm_value :: string
  rm_icon :: string
  rm_label :: string
  rm_tip :: string

definition route_modes :: "translator \<Rightarrow> route_mode list" where
  "route_modes tr =
     [\<lparr>rm_value = ''priority_failover'', rm_icon = ''bolt'', rm_label = tr ''policy.mode_priority'' [], rm_tip = tr ''policy.mode_priority_tip'' []\<rparr>,
      \<lparr>rm_value = ''auto'', rm_icon = ''settings'', rm_label = tr ''policy.mode_auto'' [], rm_tip = tr ''policy.mode_auto_tip'' []\<rparr>,
      \<lparr>rm_value = ''round_robin'', rm_icon = ''rotate'', rm_label = tr ''policy.mode_round_robin'' [], rm_tip = tr ''policy.mode_round_robin_tip'' []\<rparr>,
      \<lparr>rm_value = ''weighted_rr'', rm_icon = ''layers'', rm_label = tr ''policy.mode_weighted'' [], rm_tip = tr ''policy.mode_weighted_tip'' []\<rparr>,
      \<lparr>rm_value = ''random'', rm_icon = ''dot'', rm_label = tr ''policy.mode_random'' [], rm_tip = tr ''policy.mode_random_tip'' []\<rparr>]"

definition route_mode_button :: "string \<Rightarrow> route_mode \<Rightarrow> string" where
  "route_mode_button current m = (''<button type=\"button\" data-route-mode=\"'' @ (esc (rm_value m)) @ ''\" class=\"'' @
     (if current = rm_value m then ''is-active'' else []) @ ''\" title=\"'' @ (esc (rm_tip m)) @
     ''\">'' @ (iconSvg (rm_icon m)) @ ''<span>'' @ (esc (rm_label m)) @ ''</span></button>'')"

text \<open>A click on a mode writes the hidden field and marks that button only.\<close>

definition route_mode_click :: "string option \<Rightarrow> string \<times> string option \<Rightarrow> string \<times> string option" where
  "route_mode_click btn s = (case btn of None \<Rightarrow> s | Some mode \<Rightarrow> (mode, Some mode))"

text \<open>What the fields of the two forms show.\<close>

definition pool_text :: "jsval \<Rightarrow> string" where
  "pool_text routing = joined_list (get routing ''default_provider_pool'')"

definition routing_field :: "jsval \<Rightarrow> jsval \<Rightarrow> string \<Rightarrow> string" where
  "routing_field routing policy k =
     (if k = ''default_provider_pool'' then pool_text routing
      else if k = ''provider_select'' then to_str (jor (get routing k) (Str ''priority_failover''))
      else if k = ''format_preference'' then to_str (jor (get routing k) (Str ''priority_first''))
      else if k = ''semantic_conversion'' then to_str (jor (get routing k) (Str ''safe''))
      else if k = ''anthropic_default_max_tokens'' then to_str (jcoalesce (get routing k) (jnum 4096))
      else to_str (number_value routing policy k
        (if k = ''max_attempts'' then 6 else if k = ''connect_timeout_s'' then 15
         else if k = ''read_timeout_s'' then 120 else 30)))"

definition status_text :: "jsval \<Rightarrow> jsval \<Rightarrow> string \<Rightarrow> string" where
  "status_text retry policy k = joinList (jor (get retry k) (jor (get policy k) (Arr [])))"

definition ladder_text :: "jsval \<Rightarrow> string" where
  "ladder_text retry =
     joinNumberList (case get retry ''key_failure_ladder_s'' of Arr xs \<Rightarrow> Arr xs | _ \<Rightarrow> Arr [jnum 10, jnum 60, jnum 3600])"

definition retry_cooldown :: "jsval \<Rightarrow> jsval \<Rightarrow> string \<Rightarrow> rat \<Rightarrow> jsval" where
  "retry_cooldown retry policy k fallback =
     jcoalesce (get (jor (get retry ''cooldown_s'') (jor (get policy ''cooldown_s'') (Obj []))) k) (jnum fallback)"

definition tipped :: "translator \<Rightarrow> string \<Rightarrow> string \<Rightarrow> string" where
  "tipped tr label tip = (''<span class=\"label-with-tip\">'' @ (tr label []) @
     ''<span class=\"help-tip\" data-tip=\"'' @ (esc (tr tip [])) @ ''\">?</span></span>'')"

definition choice_option :: "string \<Rightarrow> string \<Rightarrow> string \<Rightarrow> string" where
  "choice_option current value label = (''<option value=\"'' @ value @ ''\" '' @ (if current = value then ''selected'' else []) @
     ''>'' @ esc label @ ''</option>'')"

definition routing_form_html :: "translator \<Rightarrow> jsval \<Rightarrow> jsval \<Rightarrow> string" where
  "routing_form_html tr routing policy =
     (let field = routing_field routing policy; current = field ''provider_select'' in (''<form id=\"routingControlForm\" class=\"policy-control-card\">'' @ nl 10 @
        ''<div class=\"policy-control-card-head\">'' @ nl 12 @ ''<h3>'' @
        (iconSvg ''git-branch'') @ ''<span>'' @ (tr ''policy.routing_controls'' []) @
        ''</span>'' @ (help_tip (tr ''policy.routing_tip2'' [])) @ ''</h3>'' @ nl 10 @
        ''</div>'' @ nl 10 @ ''<label class=\"field\">'' @ nl 12 @
        tipped tr ''policy.provider_pool'' ''policy.provider_pool_tip'' @ nl 12 @
        ''<textarea class=\"control\" name=\"default_provider_pool\" rows=\"2\"'' @
        '' placeholder=\"opencode, deepseek, rawchat\" required>'' @ (esc (pool_text routing)) @
        ''</textarea>'' @ nl 10 @ ''</label>'' @ nl 10 @
        ''<div class=\"form-pair-grid routing-mode-grid\">'' @ nl 12 @
        ''<div class=\"field selection-mode-field\">'' @ nl 14 @
        tipped tr ''policy.selection_mode'' ''policy.selection_tip'' @ nl 14 @
        ''<input type=\"hidden\" name=\"provider_select\" value=\"'' @ esc current @ ''\" />'' @
        nl 14 @ ''<div class=\"icon-btn-group\" id=\"routeModeGroup\">'' @ nl 16 @
        (concat (map (route_mode_button current) (route_modes tr))) @ nl 14 @ ''</div>'' @ nl 12 @
        ''</div>'' @ nl 12 @ ''<label class=\"field\">'' @ nl 14 @
        tipped tr ''policy.max_attempts'' ''policy.max_attempts_tip'' @ nl 14 @
        ''<input class=\"control\" name=\"max_attempts\" type=\"number\" min=\"1\"'' @
        '' max=\"50\" value=\"'' @ (esc (field ''max_attempts'')) @ ''\" required />'' @ nl 12 @
        ''</label>'' @ nl 10 @ ''</div>'' @ nl 10 @
        ''<div class=\"form-pair-grid routing-format-grid\">'' @ nl 12 @
        ''<label class=\"field\">'' @ nl 14 @
        tipped tr ''policy.format_preference'' ''policy.format_preference_tip'' @ nl 14 @
        ''<select class=\"control\" name=\"format_preference\">'' @ nl 16 @
        (choice_option (field ''format_preference'') ''priority_first'' (tr ''policy.format_priority'' [])) @
        nl 16 @
        (choice_option (field ''format_preference'') ''native_first'' (tr ''policy.format_native'' [])) @
        nl 14 @ ''</select>'' @ nl 12 @ ''</label>'' @ nl 12 @ ''<label class=\"field\">'' @
        nl 14 @ tipped tr ''policy.semantic_conversion'' ''policy.semantic_conversion_tip'' @
        nl 14 @ ''<select class=\"control\" name=\"semantic_conversion\">'' @ nl 16 @
        (choice_option (field ''semantic_conversion'') ''safe'' (tr ''policy.semantic_safe'' [])) @
        nl 16 @
        (choice_option (field ''semantic_conversion'') ''strict'' (tr ''policy.semantic_strict'' [])) @
        nl 14 @ ''</select>'' @ nl 12 @ ''</label>'' @ nl 12 @ ''<label class=\"field\">'' @
        nl 14 @
        tipped tr ''policy.anthropic_default_tokens'' ''policy.anthropic_default_tokens_tip'' @
        nl 14 @
        ''<input class=\"control\" name=\"anthropic_default_max_tokens\" type=\"number\"'' @
        '' min=\"1\" max=\"1000000\" value=\"'' @ (esc (field ''anthropic_default_max_tokens'')) @
        ''\" required />'' @ nl 12 @ ''</label>'' @ nl 10 @ ''</div>'' @ nl 10 @
        ''<div class=\"policy-routing-footer\">'' @ nl 12 @
        ''<details class=\"policy-advanced\">'' @ nl 14 @ ''<summary>'' @
        (tr ''policy.timeouts'' []) @ ''</summary>'' @ nl 14 @
        ''<div class=\"form-pair-grid\" style=\"margin-top:10px\">'' @ nl 16 @
        ''<label class=\"field\">'' @ nl 18 @
        tipped tr ''policy.connect'' ''policy.connect_tip'' @ nl 18 @
        ''<input class=\"control\" name=\"connect_timeout_s\" type=\"number\" min=\"1\"'' @
        '' max=\"3600\" value=\"'' @ (esc (field ''connect_timeout_s'')) @ ''\" required />'' @
        nl 16 @ ''</label>'' @ nl 16 @ ''<label class=\"field\">'' @ nl 18 @
        tipped tr ''policy.read'' ''policy.read_tip'' @ nl 18 @
        ''<input class=\"control\" name=\"read_timeout_s\" type=\"number\" min=\"1\"'' @
        '' max=\"3600\" value=\"'' @ (esc (field ''read_timeout_s'')) @ ''\" required />'' @
        nl 16 @ ''</label>'' @ nl 16 @ ''<label class=\"field\">'' @ nl 18 @
        tipped tr ''policy.first_token'' ''policy.first_token_tip'' @ nl 18 @
        ''<input class=\"control\" name=\"first_token_timeout_s\" type=\"number\"'' @
        '' min=\"0\" max=\"600\" value=\"'' @ (esc (field ''first_token_timeout_s'')) @
        ''\" required />'' @ nl 16 @ ''</label>'' @ nl 14 @ ''</div>'' @ nl 12 @ ''</details>'' @
        nl 12 @ ''<button class=\"button secondary\" type=\"submit\">'' @
        (tr ''policy.save_routing'' []) @ ''</button>'' @ nl 10 @ ''</div>'' @ nl 8 @ ''</form>''))"

definition cooldown_kinds :: "(string \<times> rat) list" where
  "cooldown_kinds = [(''rate_limit'', 30), (''server_error'', 10), (''network_error'', 10), (''key_invalid'', 3600), (''quota_or_balance'', 3600)]"

definition cooldown_fields :: "translator \<Rightarrow> jsval \<Rightarrow> jsval \<Rightarrow> string list" where
  "cooldown_fields tr retry policy =
     map (\<lambda>(k, fallback). cooldownField k (tr (''policy.cooldown_'' @ k) []) (tr (''policy.cooldown_'' @ k @ ''_tip'') []) (retry_cooldown retry policy k fallback))
       cooldown_kinds"

definition retry_form_html :: "translator \<Rightarrow> jsval \<Rightarrow> jsval \<Rightarrow> string" where
  "retry_form_html tr retry policy = (''<form id=\"retryControlForm\" class=\"policy-control-card\">'' @ nl 10 @
     ''<div class=\"policy-control-card-head\">'' @ nl 12 @ ''<h3>'' @ iconSvg ''rotate'' @
     ''<span>'' @ (tr ''policy.retry_controls'' []) @ ''</span>'' @
     (help_tip (tr ''policy.retry_tip'' [])) @ ''</h3>'' @ nl 10 @ ''</div>'' @ nl 10 @
     ''<label class=\"field\">'' @ nl 12 @
     tipped tr ''policy.retryable_statuses'' ''policy.retryable_tip'' @ nl 12 @
     ''<input class=\"control\" name=\"retryable_status\" value=\"'' @
     (esc (status_text retry policy ''retryable_status'')) @
     ''\" placeholder=\"408, 429, 500, 502, 503, 504\" required />'' @ nl 10 @ ''</label>'' @
     nl 10 @ ''<label class=\"field\">'' @ nl 12 @
     tipped tr ''policy.fatal_key_statuses'' ''policy.fatal_tip'' @ nl 12 @
     ''<input class=\"control\" name=\"key_fatal_status\" value=\"'' @
     (esc (status_text retry policy ''key_fatal_status'')) @
     ''\" placeholder=\"401, 403\" required />'' @ nl 10 @ ''</label>'' @ nl 10 @
     ''<details class=\"policy-advanced\">'' @ nl 12 @ ''<summary>'' @
     (tr ''policy.advanced_cooldown'' []) @ ''</summary>'' @ nl 12 @
     ''<label class=\"check-field\" style=\"margin-top:10px\">'' @ nl 14 @
     ''<span class=\"toggle-switch\"><input type=\"checkbox\"'' @
     '' name=\"respect_retry_after\" '' @
     (if truthy (jcoalesce (get retry ''respect_retry_after'') (get policy ''respect_retry_after'')) then ''checked'' else []) @
     '' /><span class=\"slider\"></span></span>'' @ nl 14 @
     tipped tr ''policy.respect_retry_after'' ''policy.respect_tip'' @ nl 12 @ ''</label>'' @
     nl 12 @ ''<div class=\"form-pair-grid\" style=\"margin-top:8px\">'' @ nl 14 @
     ''<label class=\"field\">'' @ nl 16 @
     tipped tr ''policy.same_key_retries'' ''policy.same_key_tip'' @ nl 16 @
     ''<input class=\"control\" name=\"same_key_retries\" type=\"number\" min=\"0\"'' @
     '' max=\"3\" value=\"'' @
     (escapeHtml (jcoalesce (get retry ''same_key_retries'') (jnum 1))) @ ''\" required />'' @
     nl 14 @ ''</label>'' @ nl 14 @ ''<label class=\"field\">'' @ nl 16 @
     tipped tr ''policy.failure_ladder'' ''policy.ladder_tip'' @ nl 16 @
     ''<input class=\"control\" name=\"key_failure_ladder_s\" value=\"'' @
     (esc (ladder_text retry)) @ ''\" placeholder=\"10, 60, 3600\" required />'' @ nl 14 @
     ''</label>'' @ nl 14 @ (js_join (nl 14) (cooldown_fields tr retry policy)) @ nl 12 @
     ''</div>'' @ nl 10 @ ''</details>'' @ nl 10 @
     ''<button class=\"button secondary\" type=\"submit\">'' @ (tr ''policy.save_retry'' []) @
     ''</button>'' @ nl 8 @ ''</form>'')"

definition policy_controls :: "translator \<Rightarrow> jsval \<Rightarrow> jsval \<Rightarrow> string" where
  "policy_controls tr config policy = (nl 6 @ ''<div class=\"policy-control-grid\">'' @ nl 8 @
     (routing_form_html tr (get config ''routing'') policy) @ nl 0 @ nl 8 @
     (retry_form_html tr (get config ''retry'') policy) @ nl 6 @ ''</div>'' @ nl 4)"

definition renderPolicyControls ::
  "translator \<Rightarrow> bool \<Rightarrow> bool \<Rightarrow> jsval \<Rightarrow> jsval \<Rightarrow> string \<times> bool \<Rightarrow> string \<times> bool" where
  "renderPolicyControls tr there focused config policy = draw_panel there focused (policy_controls tr config policy)"

section \<open>The page\<close>

record policy_page =
  pp_controls :: "string \<times> bool"
  pp_rules :: string
  pp_failures :: "string \<times> bool"

text \<open>\<open>focus\<close> tells whether the focused element lies in the controls and in the failure policies.\<close>

definition renderPolicy :: "translator \<Rightarrow> bool \<times> bool \<Rightarrow> jsval \<Rightarrow> jsval \<Rightarrow> jsval \<Rightarrow> policy_page \<Rightarrow> policy_page" where
  "renderPolicy tr focus routing status config page =
     (let policy = shown_policy routing status in
      \<lparr>pp_controls = renderPolicyControls tr True (fst focus) config policy (pp_controls page),
       pp_rules = rule_table tr policy,
       pp_failures = renderFailurePolicies tr True (snd focus) config policy (pp_failures page)\<rparr>)"

section \<open>What the forms send and show\<close>

text \<open>A text field of the form is \<open>String(value || fallback).trim()\<close>.\<close>

definition text_or :: "string \<Rightarrow> string \<Rightarrow> string" where
  "text_or fallback value = js_trim (if value \<noteq> [] then value else fallback)"

definition policy_routing_payload :: "(string \<Rightarrow> string) \<Rightarrow> (string \<times> jsval) list" where
  "policy_routing_payload field =
     [(''default_provider_pool'', Str (text_or [] (field ''default_provider_pool''))),
      (''provider_select'', Str (text_or [] (field ''provider_select''))),
      (''format_preference'', Str (text_or ''priority_first'' (field ''format_preference''))),
      (''semantic_conversion'', Str (text_or ''safe'' (field ''semantic_conversion'')))]
     @ map (\<lambda>k. (k, number_field (field k)))
         [''anthropic_default_max_tokens'', ''max_attempts'', ''connect_timeout_s'', ''read_timeout_s'', ''first_token_timeout_s'']"

definition pool_list :: "string \<Rightarrow> string list" where
  "pool_list value = filter (\<lambda>s. s \<noteq> []) (map js_trim (js_split (\<lambda>c. c = CHR '','') value))"

text \<open>Until the reply the pool is the list the text stands for.\<close>

definition policy_routing_edit :: "(string \<times> jsval) list \<Rightarrow> optimistic_edit" where
  "policy_routing_edit payload =
     \<lparr>oe_key = Str ''routing'',
      oe_apply = make_prop ''routing''
        (assign (payload @ [(''default_provider_pool'', Arr (map Str (pool_list (str_or_empty (lookup ''default_provider_pool'' payload)))))])),
      oe_drawer = False\<rparr>"

definition retry_payload :: "(string \<Rightarrow> string) \<Rightarrow> bool \<Rightarrow> (string \<times> jsval) list" where
  "retry_payload field respect =
     [(''retryable_status'', Str (text_or [] (field ''retryable_status''))),
      (''key_fatal_status'', Str (text_or [] (field ''key_fatal_status''))),
      (''respect_retry_after'', Bool respect),
      (''same_key_retries'', number_field (field ''same_key_retries'')),
      (''key_failure_ladder_s'', Arr (map Num (parseNumberList (Str (field ''key_failure_ladder_s''))))),
      (''cooldown_s'', Obj (map (\<lambda>k. (k, number_field (field k))) (map fst cooldown_kinds)))]"

definition retry_edit :: "(string \<times> jsval) list \<Rightarrow> optimistic_edit" where
  "retry_edit payload =
     \<lparr>oe_key = Str ''retry'', oe_apply = make_prop ''retry'' (assign payload), oe_drawer = False\<rparr>"

record failure_form =
  ff_type :: string
  ff_scope :: string
  ff_cooldown :: string
  ff_provider_cooldown :: string
  ff_disables :: bool

definition failure_fields :: "failure_form \<Rightarrow> (string \<times> jsval) list" where
  "failure_fields f =
     [(''cooldown_scope'', Str (if ff_scope f \<noteq> [] then ff_scope f else ''none'')),
      (''cooldown_s'', number_field (ff_cooldown f)),
      (''provider_cooldown_s'', number_field (ff_provider_cooldown f)),
      (''disables_key'', Bool (ff_disables f))]"

definition failure_payload :: "failure_form \<Rightarrow> (string \<times> jsval) list" where
  "failure_payload f = (''error_type'', Str (ff_type f)) # failure_fields f"

text \<open>The policy of that error type is replaced.\<close>

definition failure_edit :: "failure_form \<Rightarrow> optimistic_edit" where
  "failure_edit f =
     \<lparr>oe_key = Str (''failure-policy:'' @ ff_type f),
      oe_apply = make_prop ''retry'' (make_prop ''failure_policies'' (obj_set (ff_type f) (Obj (failure_fields f)))),
      oe_drawer = False\<rparr>"

text \<open>\<open>runPolicyMutation\<close> is \<open>runConfigMutation\<close>.\<close>

definition startPolicyMutation ::
  "string option \<Rightarrow> form_control list \<Rightarrow> optimistic_edit option \<Rightarrow> refresh_state \<Rightarrow> refresh_state \<times> form_handle option" where
  "startPolicyMutation = startConfigMutation"

section \<open>Correctness\<close>

text \<open>
  What the policy page shows between the submit of a form and its reply: the pool field holds what was typed, the two
  status fields of the retry form do not, and saving one failure policy keeps the other cards only when the
  configuration, not the status, gave them. A duration in the rule table loses nothing.
\<close>

section \<open>The edit seen through the page\<close>

lemma get_make_prop: "get (make_prop k f (Obj kvs)) q = (if q = k then f (jor (lookup k kvs) (Obj [])) else lookup q kvs)"
  by (simp add: make_prop_def get_obj_set)

definition object_or_absent :: "jsval \<Rightarrow> bool" where
  "object_or_absent v \<longleftrightarrow> (case v of Obj kvs \<Rightarrow> distinct (map fst kvs) | Undef \<Rightarrow> True | _ \<Rightarrow> False)"

lemma made_object:
  assumes "object_or_absent v"
  obtains kvs where "jor v (Obj []) = Obj kvs" "distinct (map fst kvs)" "\<And>q. get v q = lookup q kvs" "v = Undef \<Longrightarrow> kvs = []"
    "v \<noteq> Undef \<Longrightarrow> v = Obj kvs"
  using assms by (cases v) (auto simp: object_or_absent_def jor_def)

lemma joined_texts: "joined_list (Arr (map Str ss)) = js_join '', '' ss"
  by (simp add: joined_list_def comp_def)

text \<open>
  The status fields of the retry form lose what was saved: once the form is submitted, the page shows the pool of
  the routing form as the list that was typed, but a status field that was filled in as a lone dash, because the edit
  of the retry form stores the text where the field expects a list.
\<close>

lemma retry_save_hides_statuses:
  assumes "config = Obj ckvs" and "object_or_absent (get config ''routing'')" and "object_or_absent (get config ''retry'')"
    and "k \<in> {''retryable_status'', ''key_fatal_status''}" and "text_or [] (field k) \<noteq> []"
  shows "status_text (get (oe_apply (retry_edit (retry_payload field on)) config) ''retry'') policy k = ''-''
    \<and> pool_text (get (oe_apply (policy_routing_edit (policy_routing_payload field)) config) ''routing'')
      = js_join '', '' (pool_list (text_or [] (field ''default_provider_pool'')))"
proof (rule conjI)
  obtain r where r: "jor (get config ''retry'') (Obj []) = Obj r" using made_object [OF assms(3)] by metis
  have "get (get (oe_apply (retry_edit (retry_payload field on)) config) ''retry'') k = Str (text_or [] (field k))"
    using assms(1,4) r get_assign [of "retry_payload field on" k "Str (text_or [] (field k))" r]
    by (auto simp: retry_edit_def get_make_prop retry_payload_def)
  then show "status_text (get (oe_apply (retry_edit (retry_payload field on)) config) ''retry'') policy k = ''-''"
    using assms(5) by (simp add: status_text_def jor_def joinList_def)
next
  obtain r where r: "jor (get config ''routing'') (Obj []) = Obj r" using made_object [OF assms(2)] by metis
  define p where "p = policy_routing_payload field"
  have look: "lookup ''default_provider_pool'' p = Str (text_or [] (field ''default_provider_pool''))"
    by (simp add: p_def policy_routing_payload_def)
  obtain r2 where r2: "assign p (Obj r) = Obj r2" using assign_Obj by blast
  have "get (get (oe_apply (policy_routing_edit p) config) ''routing'') ''default_provider_pool''
      = Arr (map Str (pool_list (text_or [] (field ''default_provider_pool''))))"
    using assms(1) r r2
    by (simp add: policy_routing_edit_def get_make_prop look str_or_empty_def jor_def)
      (simp add: assign_def get_obj_set jor_def)
  then show "pool_text (get (oe_apply (policy_routing_edit (policy_routing_payload field)) config) ''routing'')
      = js_join '', '' (pool_list (text_or [] (field ''default_provider_pool'')))"
    by (simp add: pool_text_def p_def joined_texts pool_list_def)
qed

definition typed_retry :: "string \<Rightarrow> string" where
  "typed_retry k =
     (if k = ''retryable_status'' then ''429, 500'' else if k = ''default_provider_pool'' then '' deepseek,,rawchat '' else ''0'')"

section \<open>The cards\<close>

lemma map_of_same_entries:
  "distinct (map fst xs) \<Longrightarrow> mset ys = mset xs \<Longrightarrow> map_of ys = map_of xs"
  by (metis map_of_inject_set mset_eq_imp_distinct_iff mset_eq_setD mset_map)

lemma own_entries_mset [simp]: "mset (own_entries kvs) = mset kvs"
  by (simp add: own_entries_def)

lemma map_of_policy_rows:
  assumes "jor (get (get config ''retry'') ''failure_policies'') (jor (get policy ''failure_policies'') (Obj [])) = Obj kvs"
    and "distinct (map fst kvs)"
  shows "map_of (policy_rows config policy) = map_of kvs"
  using assms by (intro map_of_same_entries) (simp_all add: policy_rows_def js_entries_def)

text \<open>
  Saving one failure policy keeps the cards it did not touch only when the configuration gave them: until the
  reply the page has the card of that error type with the fields of the form and, of the others, exactly those of the
  configuration; the cards that came from the status are gone.
\<close>

lemma failure_save_keeps_configured:
  assumes "config = Obj ckvs" and "object_or_absent (get config ''retry'')"
    and "object_or_absent (get (get config ''retry'') ''failure_policies'')"
  shows "map_of (policy_rows (oe_apply (failure_edit f) config) policy)
    = (if get (get config ''retry'') ''failure_policies'' = Undef then Map.empty
       else map_of (policy_rows config policy)) (ff_type f \<mapsto> Obj (failure_fields f))"
proof -
  obtain r where r: "jor (get config ''retry'') (Obj []) = Obj r" "\<And>q. get (get config ''retry'') q = lookup q r"
    using made_object [OF assms(2)] by metis
  obtain fp where fp: "jor (lookup ''failure_policies'' r) (Obj []) = Obj fp" "distinct (map fst fp)"
    "lookup ''failure_policies'' r = Undef \<Longrightarrow> fp = []" "lookup ''failure_policies'' r \<noteq> Undef \<Longrightarrow> lookup ''failure_policies'' r = Obj fp"
    using made_object [OF assms(3)] unfolding r(2) by blast
  have "get (get (oe_apply (failure_edit f) config) ''retry'') ''failure_policies''
      = Obj (set_prop (ff_type f) (Obj (failure_fields f)) fp)"
    using assms(1) r(1) fp(1) by (simp add: failure_edit_def get_make_prop obj_set_def)
  then have new: "map_of (policy_rows (oe_apply (failure_edit f) config) policy)
      = (map_of fp)(ff_type f \<mapsto> Obj (failure_fields f))"
    using fp(2) map_of_policy_rows [of "oe_apply (failure_edit f) config" policy
        "set_prop (ff_type f) (Obj (failure_fields f)) fp"]
    by (simp add: jor_def distinct_set_prop)
  show ?thesis
  proof (cases "lookup ''failure_policies'' r = Undef")
    case True
    then show ?thesis using new fp(3) r(2) by simp
  next
    case False
    then have "map_of (policy_rows config policy) = map_of fp"
      using fp(2,4) r(2) by (intro map_of_policy_rows) (simp_all add: jor_def)
    then show ?thesis using new False r(2) by simp
  qed
qed

definition rate_form :: failure_form where
  "rate_form = \<lparr>ff_type = ''rate_limit'', ff_scope = ''key'', ff_cooldown = ''30'', ff_provider_cooldown = [], ff_disables = False\<rparr>"

section \<open>Durations\<close>

definition unit_seconds :: "char \<Rightarrow> int" where
  "unit_seconds c = (if c = CHR ''h'' then 3600 else if c = CHR ''m'' then 60 else 1)"

text \<open>The text of a whole number of seconds is a number of its unit, the largest that divides it.\<close>

lemma whole_units_div:
  assumes "0 < d" and "whole_units (of_int d) (Fin (of_int n))"
  shows "n div d * d = n" and "num_div (Fin (of_int n)) (Fin (of_int d)) = Fin (of_int (n div d))"
proof -
  have q: "of_int (n div d) = (of_int n / of_int d :: rat)"
    using assms(2) by (simp add: floor_divide_of_int_eq)
  then have "of_int (n div d * d) = (of_int n :: rat)" using assms(1) by simp
  then show "n div d * d = n" by (simp only: of_int_eq_iff)
  show "num_div (Fin (of_int n)) (Fin (of_int d)) = Fin (of_int (n div d))"
    using q assms(1) by simp
qed

lemma short_duration_exact:
  assumes "0 \<le> n"
  shows "\<exists>k u. pmShortDuration (jnum (of_int n)) = nat_to_str k @ [u] \<and> k * unit_seconds u = n"
proof -
  have num: "num_or (to_num (jnum (of_int n))) (Fin 0) = Fin (of_int n)"
    by (simp add: num_or_def num_truthy_def)
  have digits: "num_to_str (Fin (of_int m)) = nat_to_str m" if "0 \<le> m" for m
    using that num_to_str_int [of m] by simp
  consider (h) "whole_units 3600 (Fin (of_int n))"
    | (m) "\<not> whole_units 3600 (Fin (of_int n))" "whole_units 60 (Fin (of_int n))"
    | (s) "\<not> whole_units 3600 (Fin (of_int n))" "\<not> whole_units 60 (Fin (of_int n))" by blast
  then show ?thesis
  proof cases
    case h
    then have "pmShortDuration (jnum (of_int n)) = nat_to_str (n div 3600) @ ''h''"
      using num whole_units_div(2) [of 3600 n] digits [of "n div 3600"] assms
      by (simp add: pmShortDuration_def del: num_div.simps num_to_str.simps whole_units.simps)
    then show ?thesis using whole_units_div(1) [of 3600 n] h by (force simp: unit_seconds_def)
  next
    case m
    then have "pmShortDuration (jnum (of_int n)) = nat_to_str (n div 60) @ ''m''"
      using num whole_units_div(2) [of 60 n] digits [of "n div 60"] assms
      by (simp add: pmShortDuration_def del: num_div.simps num_to_str.simps whole_units.simps)
    then show ?thesis using whole_units_div(1) [of 60 n] m by (force simp: unit_seconds_def)
  next
    case s
    then have "pmShortDuration (jnum (of_int n)) = nat_to_str n @ ''s''"
      using num digits [OF assms] by (simp add: pmShortDuration_def del: num_div.simps num_to_str.simps whole_units.simps)
    then show ?thesis by (force simp: unit_seconds_def)
  qed
qed

end
