(* ===== verification/RequestDetail.thy ===== *)
theory RequestDetail
  imports UsageDrawer TraceView JsonParse
begin

text \<open>
  The request drawer of \<open>app.js\<close> as markup: the result band, the panel that locates the failure, the attempts
  and the metadata, and the text of an upstream error taken out of the JSON it is wrapped in.
\<close>

section \<open>The result band\<close>

record result_stat =
  st_kind :: string
  st_icon :: string
  st_label :: string
  st_value :: jsval
  st_markup :: string
  st_mono :: bool
  st_jump :: string
  st_tip :: string

definition plain_stat :: "string \<Rightarrow> string \<Rightarrow> string \<Rightarrow> jsval \<Rightarrow> result_stat" where
  "plain_stat kind icon label v =
     \<lparr>st_kind = kind, st_icon = icon, st_label = label, st_value = v, st_markup = [], st_mono = False, st_jump = [], st_tip = []\<rparr>"

text \<open>\<open>jump.replace("-", "_")\<close>: the first dash.\<close>

definition underscored :: "string \<Rightarrow> string" where
  "underscored s =
     takeWhile (\<lambda>c. c \<noteq> CHR ''-'') s
     @ (case dropWhile (\<lambda>c. c \<noteq> CHR ''-'') s of [] \<Rightarrow> [] | c # r \<Rightarrow> CHR ''_'' # r)"

definition requestResultStat :: "translator \<Rightarrow> result_stat \<Rightarrow> string" where
  "requestResultStat tr r =
     (let v = to_str (jor (st_value r) (Str ''-''));
          body = (if st_markup r \<noteq> [] then st_markup r else (''<strong class=\"'' @ (if st_mono r then ''mono'' else []) @ ''\">'' @ esc v @
             ''</strong>''));
          baseClass = (''request-result-stat request-result-stat--'' @ st_kind r);
          titleAttr = (if st_tip r \<noteq> [] then ('' title=\"'' @ (esc (st_tip r)) @ ''\"'') else []);
          action = tr (''req.jump_'' @ underscored (st_jump r)) [];
          title = js_join ('' '' @ [CHR 0xB7] @ '' '') (filter (\<lambda>s. s \<noteq> []) [st_tip r, action])
      in if st_jump r = [] then (''<div class=\"'' @ baseClass @ ''\"'' @ titleAttr @ ''>'' @ (iconSvg (st_icon r)) @
         ''<span><small>'' @ (esc (st_label r)) @ ''</small>'' @ body @ ''</span></div>'')
         else (''<button class=\"'' @ baseClass @
            '' is-jumpable\" type=\"button\" data-request-stat-jump=\"'' @ (esc (st_jump r)) @
            ''\" title=\"'' @ esc title @ ''\" aria-label=\"'' @
            (esc (st_label r @ '': '' @ v @ '' '' @ [CHR 0xE2, CHR 0x80, CHR 0x94] @ '' '' @ action)) @
            ''\">'' @ (iconSvg (st_icon r)) @ ''<span><small>'' @ (esc (st_label r)) @
            ''<i class=\"request-result-jump-glyph\" aria-hidden=\"true\">'' @
            (iconSvg ''arrow-up-right'') @ ''</i></small>'' @ body @ ''</span></button>''))"

text \<open>\<open>replace(/;\s+/g, ". ")\<close>.\<close>

function semi_to_point :: "string \<Rightarrow> string" where
  "semi_to_point s =
     (case s of [] \<Rightarrow> []
      | c # r \<Rightarrow>
          if c = CHR '';'' \<and> r \<noteq> [] \<and> is_js_space (hd r) then ''. '' @ semi_to_point (dropWhile is_js_space r)
          else c # semi_to_point r)"
  by pat_completeness auto
termination
  by (relation "measure length") (auto simp: length_dropWhile_le le_imp_less_Suc)

declare semi_to_point.simps [simp del]

definition requestResultHeadlineMarkup :: "jsval \<Rightarrow> string" where
  "requestResultHeadlineMarkup v = messageMarkup (Str (semi_to_point (to_str (jor v (Str ''-'')))))"

definition client_key_title :: "jsval \<Rightarrow> string" where
  "client_key_title detail =
     js_join ('' '' @ [CHR 0xB7] @ '' '') (filter (\<lambda>s. s \<noteq> []) [trimmed (get detail ''client_key_name''), trimmed (get detail ''client_key_masked'')])"

text \<open>The cell of the client key is missing when the request has none.\<close>

definition result_stats :: "translator \<Rightarrow> jsval \<Rightarrow> result_stat option list" where
  "result_stats tr detail =
     (let u = usageFrom detail; firstEvent = firstByteMsFromRequest detail; keyTitle = client_key_title detail;
          first = (if num_truthy firstEvent then fmtCompactMs (Num firstEvent) else ''-'') in
      [Some ((plain_stat ''model'' ''boxes'' (tr ''req.col_model'' []) (get detail ''model''))\<lparr>st_mono := True, st_jump := ''model''\<rparr>),
       Some ((plain_stat ''provider'' ''server'' (tr ''req.summary_final_provider'' []) (get (get detail ''routing_summary'') ''final_provider''))\<lparr>st_jump := ''provider''\<rparr>),
       (if keyTitle \<noteq> []
         then Some ((plain_stat ''client-key'' ''key-round'' (tr ''req.meta_client_key'' []) (Str keyTitle))
                 \<lparr>st_jump := (if truthy (get detail ''client_key_id'') then ''client-key'' else []), st_tip := keyTitle\<rparr>) else None),
       Some ((plain_stat ''latency'' ''clock'' (tr ''req.col_latency'' []) (Str (first @ '' / '' @ (fmtCompactMs (get detail ''duration_ms'')))))\<lparr>st_mono := True\<rparr>),
       Some ((plain_stat ''cost'' ''dollar'' (tr ''req.col_cost'' []) (Str []))\<lparr>st_markup := renderCost tr (with_cost_usd (cost_usd u) detail) True\<rparr>)])"

section \<open>Where it failed\<close>

definition requestIssueFact :: "string \<Rightarrow> string \<Rightarrow> jsval \<Rightarrow> bool \<Rightarrow> string" where
  "requestIssueFact icon label v fixedWidth =
     (let s = jor v (Str ''-'') in (''<div class=\"request-issue-fact\">'' @ iconSvg icon @ ''<span><small>'' @ esc label @
        ''</small><strong class=\"'' @ (if fixedWidth then ''mono'' else []) @ ''\" title=\"'' @
        escapeHtml s @ ''\">'' @ escapeHtml s @ ''</strong></span></div>''))"

definition owner_keys :: "(string \<times> string) list" where
  "owner_keys = [(''upstream'', ''req.owner_upstream''), (''proxy_routing'', ''req.owner_proxy_routing''),
     (''proxy_session'', ''req.owner_proxy_session''), (''client'', ''req.owner_client'')]"

definition requestFailureOwnerLabel :: "translator \<Rightarrow> jsval \<Rightarrow> string" where
  "requestFailureOwnerLabel tr owner =
     (case map_of owner_keys (js_lower (str_or_empty owner)) of
        Some k \<Rightarrow> tr k [] | None \<Rightarrow> to_str (jor owner (Str ''-'')))"

text \<open>From the first opening brace to the last closing one.\<close>

definition brace_slice :: "string \<Rightarrow> string option" where
  "brace_slice s =
     (case index_of_char (CHR ''{'') s of None \<Rightarrow> None
      | Some i \<Rightarrow> (case index_of_char (CHR ''}'') (rev s) of None \<Rightarrow> None
          | Some j \<Rightarrow> let last = length s - 1 - j in if i < last then Some (drop i (take (Suc last) s)) else None))"

definition error_payload :: "string \<Rightarrow> jsval" where
  "error_payload s =
     (case json_parse s of Some v \<Rightarrow> v
      | None \<Rightarrow> (case brace_slice s of None \<Rightarrow> Null
          | Some slice \<Rightarrow> (case json_parse slice of Some v \<Rightarrow> v | None \<Rightarrow> Null)))"

definition payload_message :: "jsval \<Rightarrow> jsval" where
  "payload_message payload =
     jor (get (get payload ''error'') ''message'')
       (jor (get payload ''message'') (case get payload ''error'' of Str s \<Rightarrow> Str s | _ \<Rightarrow> Str []))"

definition requestErrorEvidenceSummary :: "jsval \<Rightarrow> string" where
  "requestErrorEvidenceSummary v =
     (let s = trimmed v in if s = [] then ''-'' else to_str (jor (payload_message (error_payload s)) (Str s)))"

definition state_action_parts :: "jsval \<Rightarrow> string list" where
  "state_action_parts action =
     map to_str (filter truthy [get action ''action'', get action ''scope''])
     @ (if num_lt (Fin 0) (num_or_zero (get action ''cooldown_s'')) then [fmtInt (get action ''cooldown_s'') @ ''s''] else [])
     @ (if num_lt (Fin 0) (num_or_zero (get action ''provider_cooldown_s''))
        then [(''provider '' @ (fmtInt (get action ''provider_cooldown_s'')) @ ''s'')] else [])"

definition requestStateActionText :: "jsval \<Rightarrow> string" where
  "requestStateActionText action = (if \<not> is_object action then [] else js_join ('' '' @ [CHR 0xB7] @ '' '') (state_action_parts action))"

text \<open>The attempt and the event the panel explains: the last failed attempt, the last terminal event.\<close>

definition failed_attempts :: "jsval list \<Rightarrow> jsval list" where
  "failed_attempts attempts = filter (\<lambda>a. get a ''outcome'' \<noteq> Str ''success'') attempts"

definition last_failed :: "jsval list \<Rightarrow> jsval" where
  "last_failed attempts = (let fs = failed_attempts attempts in if fs = [] then Obj [] else jor (last fs) (Obj []))"

definition terminal_event :: "jsval \<Rightarrow> jsval" where
  "terminal_event detail =
     (case find (\<lambda>e. str_or_empty (get e ''code'') \<in> {''attempt_failed'', ''no_candidate''}) (rev (arr_or_empty (get detail ''routing_trace''))) of
        Some e \<Rightarrow> e | None \<Rightarrow> Obj [])"

record issue =
  is_recovered :: bool
  is_noAttempts :: bool
  is_owner :: jsval
  is_provider :: jsval
  is_stage :: jsval
  is_errorType :: jsval
  is_reason :: jsval
  is_http :: jsval
  is_evidence :: string
  is_action :: string

definition request_issue :: "jsval \<Rightarrow> jsval list \<Rightarrow> jsval \<Rightarrow> issue" where
  "request_issue detail attempts summary =
     (let outcome = to_str (jor (get summary ''outcome'') (Str ''unknown'')); failed = last_failed attempts; ev = terminal_event detail;
          recovered = (outcome = ''recovered''); none = (outcome = ''no_attempts'');
          reason = jor (get failed ''reason'') (jor (get ev ''reason'') (jor (get detail ''error'') (Str []))) in
      \<lparr>is_recovered = recovered, is_noAttempts = none,
       is_owner = jor (get summary ''owner'') (jor (get failed ''failure_owner'') (jor (get ev ''owner'') (Str (if none then ''proxy_routing'' else [])))),
       is_provider = jor (get failed ''provider'') (jor (get ev ''provider'') (Str [])),
       is_stage = jor (get failed ''diagnostic_stage'') (jor (get ev ''stage'') (Str (if none then ''routing'' else []))),
       is_errorType = jor (get failed ''error_type'') (jor (get ev ''error_type'') (jor (if none then get ev ''code'' else Str []) (Str []))),
       is_reason = reason,
       is_http = jor (get failed ''http_status'') (jor (if recovered then Str [] else get detail ''status_code'') (Str [])),
       is_evidence = requestErrorEvidenceSummary (jor (get failed ''upstream_error_summary'') (jor (get detail ''error'')
         (jor (get summary ''headline'') (jor reason (Str ''-''))))),
       is_action = requestStateActionText (get failed ''state_action'')\<rparr>)"

definition issue_facts :: "translator \<Rightarrow> issue \<Rightarrow> string" where
  "issue_facts tr i =
     (if truthy (is_owner i) then requestIssueFact ''shield'' (tr ''req.failure_owner'' []) (Str (requestFailureOwnerLabel tr (is_owner i))) False else [])
     @ (if truthy (is_provider i) then requestIssueFact ''server'' (tr (if is_recovered i then ''req.failed_provider'' else ''req.provider'') []) (is_provider i) False else [])
     @ (if truthy (is_stage i) then requestIssueFact ''layers'' (tr ''req.failure_stage'' []) (is_stage i) True else [])
     @ (if truthy (is_errorType i) \<or> truthy (is_reason i) then requestIssueFact ''alert'' (tr ''req.failure_type'' []) (jor (is_errorType i) (is_reason i)) True else [])
     @ (if truthy (is_http i) then requestIssueFact ''info'' (tr ''req.failure_http'' []) (Str (to_str (is_http i))) True else [])
     @ (if is_action i \<noteq> [] then requestIssueFact ''activity'' (tr ''req.failure_state_action'' []) (Str (is_action i)) True else [])"

text \<open>A request that went straight through has no panel.\<close>

definition no_issue :: "jsval \<Rightarrow> jsval \<Rightarrow> bool" where
  "no_issue detail summary \<longleftrightarrow>
     (let outcome = to_str (jor (get summary ''outcome'') (Str ''unknown'')) in
      outcome = ''direct_success'' \<or> outcome = ''unknown'' \<and> requestTone detail = ''success'')"

definition renderRequestIssuePanel :: "translator \<Rightarrow> jsval \<Rightarrow> jsval list \<Rightarrow> jsval \<Rightarrow> string" where
  "renderRequestIssuePanel tr detail attempts summary =
     (let i = request_issue detail attempts summary; facts = issue_facts tr i;
          tone = (if is_recovered i then ''warn'' else ''bad'');
          title = tr (if is_recovered i then ''req.recovery_title'' else if is_noAttempts i then ''req.no_attempts_title'' else ''req.failure_title'') [];
          label = tr (if is_recovered i then ''req.recovery_locator'' else ''req.failure_locator'') []
      in if no_issue detail summary then [] else (nl 6 @ ''<section class=\"request-issue-panel tone-'' @ esc tone @ ''\" aria-label=\"'' @
         esc label @ ''\">'' @ nl 8 @ ''<header class=\"request-issue-head\">'' @ nl 10 @
         ''<span class=\"request-issue-marker\">'' @
         (iconSvg (if is_recovered i then ''rotate'' else ''alert'')) @ ''</span>'' @ nl 10 @
         ''<div><small>'' @ esc label @ ''</small><h3>'' @ esc title @ ''</h3></div>'' @ nl 8 @
         ''</header>'' @ nl 8 @
         (if facts \<noteq> [] then (''<div class=\"request-issue-facts\">'' @ facts @ ''</div>'') else []) @
         nl 8 @ ''<div class=\"request-issue-evidence\"><span>'' @
         (esc (tr ''req.failure_evidence'' [])) @ ''</span><strong>'' @
         (messageMarkup (Str (is_evidence i))) @ ''</strong></div>'' @ nl 8 @
         ''<div class=\"request-issue-action\">'' @ (iconSvg ''arrow-right'') @
         ''<span><small>'' @ (esc (tr ''req.summary_next_action'' [])) @ ''</small><strong>'' @
         (messageMarkup (jor (get summary ''next_action'') (Str ''-''))) @
         ''</strong></span></div>'' @ nl 6 @ ''</section>'' @ nl 4))"

section \<open>Attempts\<close>

definition attempt_ok :: "jsval \<Rightarrow> bool" where
  "attempt_ok a \<longleftrightarrow> get a ''outcome'' = Str ''success''"

definition timing :: "translator \<Rightarrow> string \<Rightarrow> jsval \<Rightarrow> string" where
  "timing tr label ms = (''<span>'' @ (esc (tr label [])) @ '' <strong>'' @
     (if truthy ms then esc (fmtCompactMs ms) else ''-'') @ ''</strong></span>'')"

definition attempt_row :: "translator \<Rightarrow> jsval \<Rightarrow> string" where
  "attempt_row tr a =
     (let u = usageFrom a; ok = attempt_ok a;
          outcome = (if ok then Str (tr ''req.success'' [])
            else jor (get a ''reason'') (jor (get a ''error_type'') (Str (tr ''req.failed'' []))));
          key = jor (get a ''key_masked'') (jor (get a ''key_id'') (Str ''-''));
          keyNumber = requestKeyNumber tr (get a ''key_index'');
          keyDisplay = js_join ('' '' @ [CHR 0xB7] @ '' '') (filter (\<lambda>s. s \<noteq> []) [keyNumber, to_str key]);
          model = jor (get a ''provider_model'') (Str ''-'') in (''<tr class=\"tone-'' @ (if ok then ''success'' else ''danger'') @ ''\">'' @ nl 14 @
             ''<td><span class=\"attempt-result-cluster\"><strong class=\"mono\">#'' @
             (escapeHtml (jor (get a ''attempt_no'') (Str ''-''))) @
             ''</strong><span data-tip=\"'' @
             (escapeHtml (jor (get a ''upstream_error_summary'') outcome)) @ ''\">'' @
             (badge outcome (if ok then ''ok'' else ''bad'')) @ ''</span></span></td>'' @ nl 14 @
             ''<td><span class=\"attempt-provider-cluster\"><strong>'' @ iconSvg ''server'' @
             (escapeHtml (jor (get a ''provider'') (Str ''-''))) @
             ''</strong><small class=\"attempt-key-meta\" data-tip=\"'' @ esc keyDisplay @
             ''\">'' @
             (if keyNumber \<noteq> [] then (''<b>'' @ esc keyNumber @ ''</b>'') else []) @
             ''<span class=\"mono\">'' @ escapeHtml key @ ''</span></small></span></td>'' @
             nl 14 @
             ''<td><span class=\"attempt-model-cluster\"><strong class=\"mono\" data-tip=\"'' @
             escapeHtml model @ ''\">'' @ escapeHtml model @ ''</strong><small>'' @
             (esc (shortFormatLabel (jor (get a ''upstream_format'') (Str ''-'')))) @
             ''</small></span></td>'' @ nl 14 @
             ''<td><span class=\"attempt-timing-cluster mono\">'' @
             (timing tr ''req.attempt_headers'' (get a ''upstream_headers_ms'')) @
             (timing tr ''req.attempt_first_event'' (get a ''first_event_ms'')) @
             (timing tr ''req.attempt_total'' (get a ''duration_ms'')) @ ''</span></td>'' @
             nl 14 @
             ''<td><span class=\"attempt-usage-cluster\"><strong class=\"mono\" data-tip=\"'' @
             (esc (fmtInt (Num (total_tokens u)))) @ ''\">'' @
             (esc (fmtTokenCount (Num (total_tokens u)))) @ ''</strong>'' @
             (renderCost tr (with_cost_usd (cost_usd u) a) True) @ ''</span></td>'' @ nl 12 @
             ''</tr>''))"

definition renderAttemptsTable :: "translator \<Rightarrow> jsval list \<Rightarrow> string" where
  "renderAttemptsTable tr attempts =
     (if attempts = [] then (''<div class=\"request-attempts-empty\">'' @ iconSvg ''info'' @ ''<span><strong>'' @
        (esc (tr ''req.no_attempts'' [])) @ ''</strong><small>'' @
        (esc (tr ''req.no_attempts_desc'' [])) @ ''</small></span></div>'')
      else (nl 6 @ ''<div class=\"attempt-table-scroll\">'' @ nl 8 @
         ''<table class=\"attempt-data-table\">'' @ nl 10 @ ''<caption class=\"sr-only\">'' @
         (esc (tr ''req.attempts'' [])) @ ''</caption>'' @ nl 10 @ ''<thead><tr>'' @ nl 12 @
         ''<th scope=\"col\"># / '' @ (esc (tr ''req.attempt_result'' [])) @
         ''</th><th scope=\"col\">'' @ (esc (tr ''req.attempt_provider_key'' [])) @
         ''</th><th scope=\"col\">'' @ (esc (tr ''req.attempt_model'' [])) @ '' / '' @
         (esc (tr ''req.attempt_format'' [])) @ ''</th><th scope=\"col\">'' @
         (esc (tr ''req.col_latency'' [])) @ ''</th><th scope=\"col\">'' @
         (esc (tr ''req.col_tokens'' [])) @ '' / '' @ (esc (tr ''req.col_cost'' [])) @ ''</th>'' @
         nl 10 @ ''</tr></thead>'' @ nl 10 @ ''<tbody>'' @
         (concat (map (attempt_row tr) attempts)) @ ''</tbody>'' @ nl 8 @ ''</table>'' @ nl 6 @
         ''</div>'' @ nl 4))"

text \<open>The last change of the reasoning effort that any attempt reports.\<close>

definition adaptations :: "jsval \<Rightarrow> jsval list" where
  "adaptations detail = concat (map (\<lambda>a. arr_or_empty (get a ''parameter_adaptations'')) (arr_or_empty (get detail ''attempts'')))"

definition note_adaptation :: "string \<times> string \<Rightarrow> jsval \<Rightarrow> string \<times> string" where
  "note_adaptation acc item =
     (if get item ''field'' = Str ''reasoning_effort'' \<and> truthy (get item ''to'')
      then (to_str (get item ''to''), str_or_empty (get item ''from'')) else acc)"

definition reasoningEffortText :: "jsval \<Rightarrow> string" where
  "reasoningEffortText detail =
     (let client = str_or_empty (get detail ''reasoning_effort'');
          (overrideTo, overrideFrom) = foldl note_adaptation ([], []) (adaptations detail);
          from = (if overrideFrom \<noteq> [] then overrideFrom else client) in
      if overrideTo \<noteq> []
      then (if from \<noteq> [] then ((reasoningEffortLabel (Str from)) @ '' '' @ [CHR 0xE2, CHR 0x86, CHR 0x92] @ '' '' @
         (reasoningEffortLabel (Str overrideTo)))
            else reasoningEffortLabel (Str overrideTo))
      else reasoningEffortLabel (Str client))"

definition metadata_rows :: "translator \<Rightarrow> (jsnum \<Rightarrow> string) \<Rightarrow> jsval \<Rightarrow> (string \<times> jsval) list" where
  "metadata_rows tr dates detail =
     (let field = (\<lambda>k. jor (get detail k) (Str ''-'')) in
      [(tr ''req.meta_ip'' [], field ''client_ip''),
       (tr ''req.meta_ip_source'' [], field ''client_ip_source''),
       (''User-Agent'', field ''user_agent''),
       (''Path'', field ''path''),
       (tr ''req.meta_size'' [], Str (if truthy (get detail ''request_bytes'') then ((fmtInt (get detail ''request_bytes'')) @ '' B'') else ''-'')),
       (tr ''req.meta_profile'' [], jor (get detail ''request_profile'') (Str ''plain'')),
       (tr ''req.meta_effort'' [], Str (reasoningEffortText detail)),
       (tr ''req.meta_started'' [], Str (fmtDate dates (get detail ''started_at''))),
       (tr ''req.meta_finished'' [], Str (fmtDate dates (get detail ''finished_at'')))])"

definition metadata_item :: "string \<times> jsval \<Rightarrow> string" where
  "metadata_item = (\<lambda>(label, v). (''<dt>'' @ esc label @ ''</dt><dd class=\"mono\" title=\"'' @ escapeHtml v @ ''\">'' @
     escapeHtml v @ ''</dd>''))"

definition renderRequestMetadata :: "translator \<Rightarrow> (jsnum \<Rightarrow> string) \<Rightarrow> jsval \<Rightarrow> string" where
  "renderRequestMetadata tr dates detail = (''<details class=\"request-metadata\"><summary>'' @ iconSvg ''info'' @ ''<span>'' @
     (esc (tr ''req.metadata'' [])) @ ''</span></summary><dl>'' @
     (concat (map metadata_item (metadata_rows tr dates detail))) @ ''</dl></details>'')"

section \<open>One attempt in full\<close>

definition diagnostic_row :: "string \<Rightarrow> jsval \<Rightarrow> string" where
  "diagnostic_row label v = (if truthy v then (''<span>'' @ label @ ''</span><span>'' @ messageMarkup v @ ''</span>'') else [])"

definition renderAttemptDiagnostics :: "jsval \<Rightarrow> string" where
  "renderAttemptDiagnostics a =
     diagnostic_row ''Failure owner'' (get a ''failure_owner'')
     @ (if is_object (get a ''state_action'')
        then diagnostic_row ''State action''
          (jor (Str (js_join ('' '' @ [CHR 0xB7] @ '' '') (state_action_parts (get a ''state_action'')))) (Str ''observed'')) else [])
     @ diagnostic_row ''Stage'' (get a ''diagnostic_stage'')
     @ diagnostic_row ''Upstream Error'' (get a ''upstream_error_summary'')
     @ diagnostic_row ''Upstream Type'' (get a ''upstream_error_type'')
     @ diagnostic_row ''Upstream Code'' (get a ''upstream_error_code'')
     @ diagnostic_row ''Upstream Param'' (get a ''upstream_error_param'')"

definition renderAttempt :: "jsval \<Rightarrow> string" where
  "renderAttempt a =
     (let u = usageFrom a; index = to_str (jcoalesce (get a ''key_index'') (Str ''-''));
          keyLabel = (if truthy (get a ''key_masked'') then (''key '' @ index @ '' / '' @ (to_str (get a ''key_masked''))) else (''key '' @ index));
          explanation = jor (get a ''routing_explanation'') (Obj []);
          tone = jor (get explanation ''tone'') (Str (toneForText (jor (get a ''reason'') (jor (get a ''error_type'') (jor (get a ''outcome'') (Str [])))))) in (nl 6 @ ''<article class=\"attempt tone-'' @ escapeHtml tone @ ''\">'' @ nl 8 @
             ''<div class=\"attempt-head\">'' @ nl 10 @ ''<strong class=\"mono\">#'' @
             (escapeHtml (jor (get a ''attempt_no'') (Str ''-''))) @ '' '' @
             (chipList (Arr [jor (get a ''provider'') (Str ''-'')]) ''-'') @ ''</strong>'' @
             nl 10 @
             (badge (jor (get a ''outcome'') (Str ''unknown'')) (if attempt_ok a then ''ok'' else ''bad'')) @
             nl 8 @ ''</div>'' @ nl 8 @ renderAttemptExplanation explanation @ nl 8 @
             ''<div class=\"kv-grid\">'' @ nl 10 @ ''<span>Key</span><span>'' @ esc keyLabel @
             ''</span>'' @ nl 10 @ ''<span>Key ID</span><span>'' @
             (escapeHtml (jor (get a ''key_masked'') (jor (get a ''key_id'') (Str ''-'')))) @
             ''</span>'' @ nl 10 @ ''<span>Upstream Model ID</span><span class=\"mono\">'' @
             (escapeHtml (jor (get a ''provider_model'') (Str ''-''))) @ ''</span>'' @ nl 10 @
             ''<span>Upstream Format</span><span>'' @
             (chipList (Arr [jor (get a ''upstream_format'') (Str ''-'')]) ''-'') @ ''</span>'' @
             nl 10 @ ''<span>Duration</span><span>'' @
             (if truthy (get a ''duration_ms'') then esc (fmtMs (get a ''duration_ms'')) else esc ''-'') @
             ''</span>'' @ nl 10 @ ''<span>HTTP Status</span><span>'' @
             (if truthy (get a ''http_status'') then statusBadge (Str []) (get a ''http_status'') else esc ''-'') @
             ''</span>'' @ nl 10 @ ''<span>Tokens</span><span class=\"mono\" title=\"'' @
             (esc (fmtInt (Num (total_tokens u)))) @ '' tokens\">'' @
             (esc (fmtTokenCount (Num (total_tokens u)))) @ ''</span>'' @ nl 10 @
             ''<span>Cost</span><span class=\"mono\">'' @ (esc (fmtCost (Num (cost_usd u)))) @
             ''</span>'' @ nl 10 @ ''<span>Error Type</span><span>'' @
             (messageMarkup (jor (get a ''error_type'') (Str ''-''))) @ ''</span>'' @ nl 10 @
             ''<span>Reason</span><span>'' @
             (messageMarkup (jor (get a ''reason'') (Str ''-''))) @ ''</span>'' @ nl 10 @
             renderAttemptDiagnostics a @ nl 8 @ ''</div>'' @ nl 6 @ ''</article>'' @ nl 4))"

section \<open>The drawer\<close>

definition result_band :: "translator \<Rightarrow> jsval \<Rightarrow> string" where
  "result_band tr detail =
     (let summary = get detail ''routing_summary''; outcome = jor (get summary ''outcome'') (Str ''unknown''); tone = routeOutcomeTone outcome in (''<section class=\"request-result-band tone-'' @ (esc (requestTone detail)) @
        '' outcome-'' @ esc tone @
        (if client_key_title detail \<noteq> [] then ('' has-client-key'') else []) @ ''\">'' @
        nl 8 @ ''<div class=\"request-result-status\">'' @ nl 10 @
        (statusBadge (jor (get detail ''status'') (get detail ''state'')) (jor (get detail ''status_code'') (Str []))) @
        nl 10 @ ''<span class=\"request-detail-route-chip tone-'' @ esc tone @ ''\">'' @
        (iconSvg (routeOutcomeIcon outcome)) @ (escapeHtml (routeOutcomeLabel tr outcome)) @
        ''</span>'' @ nl 8 @ ''</div>'' @ nl 8 @ ''<div class=\"request-result-stats\">'' @
        nl 10 @
        (js_join (nl 10) (map (\<lambda>r. case r of None \<Rightarrow> [] | Some st \<Rightarrow> requestResultStat tr st) (result_stats tr detail))) @
        nl 8 @ ''</div>'' @ nl 8 @ ''<p class=\"request-result-message tone-'' @ esc tone @
        ''\">'' @ (iconSvg (routeOutcomeIcon outcome)) @ ''<span>'' @
        (requestResultHeadlineMarkup (jor (get summary ''headline'') (jor (get detail ''error'') (Str ''-'')))) @
        ''</span></p>'' @ nl 6 @ ''</section>''))"

definition drawer_subtitle :: "jsval \<Rightarrow> string" where
  "drawer_subtitle detail = ((to_str (jor (get detail ''request_id'') (Str ''-''))) @ '' / '' @
     (to_str (jor (get detail ''state'') (Str ''unknown''))))"

text \<open>\<open>None\<close> when the routing trace cannot be drawn (an entry without a value to read).\<close>

definition renderDrawer :: "translator \<Rightarrow> (jsnum \<Rightarrow> string) \<Rightarrow> jsval \<Rightarrow> string option" where
  "renderDrawer tr dates detail =
     (let attempts = arr_or_empty (get detail ''attempts''); summary = jor (get detail ''routing_summary'') (Obj []) in
      if nullish detail then None
      else map_option (\<lambda>trace. (nl 6 @ result_band tr detail @ nl 6 @
         renderRequestIssuePanel tr detail attempts summary @ nl 6 @ trace @ nl 6 @
         renderUsageComposition tr detail @ nl 6 @
         ''<section class=\"request-attempts-section\">'' @ nl 8 @
         ''<h3 class=\"drawer-section-title request-attempts-title\"><span>'' @
         (esc (tr ''req.attempts'' [])) @ ''</span><strong>'' @
         (esc (fmtInt (jnum (of_nat (length attempts))))) @ ''</strong></h3>'' @ nl 8 @
         renderAttemptsTable tr attempts @ nl 6 @ ''</section>'' @ nl 6 @
         renderRequestMetadata tr dates detail @ nl 4))
        (renderRoutingTrace tr (get detail ''routing_trace'')
          (Obj [(''clientFormat'', jor (get detail ''client_format'') (Str [])),
                (''finalFormat'', jor (get summary ''final_upstream_format'') (Str []))])))"

end
