(* ===== verification/DrawerNav.thy ===== *)
theory DrawerNav
  imports RequestDetail
begin

text \<open>
  The drawers of \<open>app.js\<close> and the ways between them: opening the detail of a request, cut at its await, where the
  close button leads, the jumps from the result band to a model, a provider or a client key, the button back to the
  request, and what Escape and a press outside close. What the other drawers hold is the matter of their theories;
  the calls that leave a drawer are in a log.
\<close>

section \<open>State\<close>

datatype return_target = ReturnProvider string string | ReturnModel string string

datatype detail_body = BodyEmpty | BodyLoading | BodyFailed string | BodyShown jsval

datatype nav_event =
  SetView string
| ConfigTab string
| StatisticsView string
| SettingsTab string
| LoadModelUsage string
| LoadModelSummary string
| KeyEdit jsval
| NavNotice string

text \<open>\<open>nv_back d\<close> is the \<open>data-return-request\<close> attribute of the drawer \<open>d\<close>, empty when it has none.\<close>

record nav =
  nv_detail :: bool
  nv_subtitle :: string
  nv_body :: detail_body
  nv_current :: "jsval option"
  nv_return :: "return_target option"
  nv_provider :: bool
  nv_providerName :: string
  nv_providerTab :: string
  nv_model :: bool
  nv_modelTitle :: string
  nv_modelMode :: string
  nv_key :: bool
  nv_back :: "string \<Rightarrow> string"
  nv_log :: "nav_event list"

definition nav_init :: nav where
  "nav_init = \<lparr>nv_detail = False, nv_subtitle = [], nv_body = BodyEmpty, nv_current = None, nv_return = None,
     nv_provider = False, nv_providerName = [], nv_providerTab = ''overview'', nv_model = False, nv_modelTitle = [],
     nv_modelMode = ''summary'', nv_key = False, nv_back = (\<lambda>_. []), nv_log = []\<rparr>"

definition log_nav :: "nav_event \<Rightarrow> nav \<Rightarrow> nav" where
  "log_nav e n = n\<lparr>nv_log := nv_log n @ [e]\<rparr>"

section \<open>The way back to the request\<close>

definition markDrawerReturn :: "string \<Rightarrow> string \<Rightarrow> nav \<Rightarrow> nav" where
  "markDrawerReturn d requestId n = (if requestId = [] then n else n\<lparr>nv_back := (nv_back n)(d := requestId)\<rparr>)"

definition clearDrawerReturn :: "string \<Rightarrow> nav \<Rightarrow> nav" where
  "clearDrawerReturn d n = n\<lparr>nv_back := (nv_back n)(d := [])\<rparr>"

text \<open>The button of a drawer is shown when the drawer has a request to go back to; then it has these attributes.\<close>

definition return_button :: "translator \<Rightarrow> string \<Rightarrow> nav \<Rightarrow> (string \<times> string) option" where
  "return_button tr d n =
     (let requestId = nv_back n d; label = tr ''req.back_to_request'' [] in
      if requestId = [] then None else Some (label, label @ '': '' @ requestId))"

section \<open>Opening and closing\<close>

text \<open>\<open>closeDrawer(false)\<close>.\<close>

definition closeDetail :: "nav \<Rightarrow> nav" where
  "closeDetail n = n\<lparr>nv_detail := False, nv_current := None, nv_return := None\<rparr>"

definition closeProvider :: "nav \<Rightarrow> nav" where
  "closeProvider n = clearDrawerReturn ''providerDrawer'' (n\<lparr>nv_provider := False, nv_providerName := []\<rparr>)"

definition closeModel :: "nav \<Rightarrow> nav" where
  "closeModel n = clearDrawerReturn ''modelDrawer'' (n\<lparr>nv_model := False, nv_modelMode := ''summary''\<rparr>)"

definition closeKey :: "nav \<Rightarrow> nav" where
  "closeKey n = clearDrawerReturn ''keyDrawer'' (n\<lparr>nv_key := False\<rparr>)"

definition openProvider :: "string \<Rightarrow> string \<Rightarrow> nav \<Rightarrow> nav" where
  "openProvider name tab n =
     (let n1 = closeModel (closeDetail n) in
      if name = [] then n
      else n1\<lparr>nv_providerName := name, nv_providerTab := (if tab \<noteq> [] then tab else nv_providerTab n1), nv_provider := True\<rparr>)"

definition openModelSummary :: "string \<Rightarrow> nav \<Rightarrow> nav" where
  "openModelSummary name n =
     log_nav (LoadModelSummary name)
       ((closeProvider (closeDetail n))\<lparr>nv_modelMode := ''summary'', nv_modelTitle := name, nv_model := True\<rparr>)"

definition openModelUsage :: "string \<Rightarrow> nav \<Rightarrow> nav" where
  "openModelUsage name n =
     (if name = [] then n
      else log_nav (LoadModelUsage name)
        ((closeProvider (closeDetail n))\<lparr>nv_modelMode := ''usage'', nv_modelTitle := name, nv_model := True\<rparr>))"

definition openKey :: "jsval \<Rightarrow> nav \<Rightarrow> nav" where
  "openKey entry n = log_nav (KeyEdit entry) (n\<lparr>nv_key := True\<rparr>)"

text \<open>\<open>closeDrawer(true)\<close>, the close button: back to the drawer the detail was opened from.\<close>

definition closeDrawer :: "nav \<Rightarrow> nav" where
  "closeDrawer n =
     (let n1 = closeDetail n in
      case nv_return n of
        None \<Rightarrow> n1
      | Some (ReturnProvider name tab) \<Rightarrow>
          if name \<noteq> [] then openProvider name (if tab \<noteq> [] then tab else ''overview'') n1 else n1
      | Some (ReturnModel name mode) \<Rightarrow>
          if name = [] then n1 else if mode = ''usage'' then openModelUsage name n1 else openModelSummary name n1)"

section \<open>The detail of a request\<close>

definition return_point :: "nav \<Rightarrow> return_target option" where
  "return_point n =
     (if nv_provider n \<and> nv_providerName n \<noteq> []
      then Some (ReturnProvider (nv_providerName n) (if nv_providerTab n \<noteq> [] then nv_providerTab n else ''overview''))
      else if nv_model n \<and> nv_modelTitle n \<noteq> []
      then Some (ReturnModel (nv_modelTitle n) (if nv_modelMode n \<noteq> [] then nv_modelMode n else ''summary'')) else None)"

text \<open>Up to the request of the detail.\<close>

definition openRequestDetail :: "string \<Rightarrow> nav \<Rightarrow> nav" where
  "openRequestDetail requestId n =
     (if requestId = [] then n
      else (closeModel (closeProvider n))
        \<lparr>nv_return := return_point n, nv_detail := True, nv_subtitle := requestId, nv_body := BodyLoading\<rparr>)"

text \<open>The reply. It does not know which request the drawer is open for.\<close>

definition finishRequestDetail ::
  "translator \<Rightarrow> (jsnum \<Rightarrow> string) \<Rightarrow> string \<Rightarrow> string + jsval \<Rightarrow> nav \<Rightarrow> nav" where
  "finishRequestDetail tr dates thrown outcome n =
     (case outcome of
        Inl err \<Rightarrow> n\<lparr>nv_current := None, nv_body := BodyFailed err\<rparr>
      | Inr detail \<Rightarrow>
          (let n1 = (if nullish detail then n else n\<lparr>nv_subtitle := drawer_subtitle detail\<rparr>) in
           case renderDrawer tr dates detail of
             None \<Rightarrow> n1\<lparr>nv_current := None, nv_body := BodyFailed thrown\<rparr>
           | Some html \<Rightarrow>
               n1\<lparr>nv_current := (if is_object detail \<or> is_array detail then Some detail else None), nv_body := BodyShown detail\<rparr>))"

definition current_id :: "nav \<Rightarrow> string" where
  "current_id n = (case nv_current n of None \<Rightarrow> [] | Some detail \<Rightarrow> str_or_empty (get detail ''request_id''))"

section \<open>Jumps\<close>

definition jumpToRequestModel :: "jsval \<Rightarrow> nav \<Rightarrow> nav" where
  "jumpToRequestModel model n =
     (let name = trimmed model in
      if name = [] then n
      else openModelUsage name (markDrawerReturn ''modelDrawer'' (current_id n)
        (log_nav (StatisticsView ''models'') (log_nav (ConfigTab ''models'') (log_nav (SetView ''config'') (closeDetail n))))))"

definition jumpToRequestProvider :: "jsval \<Rightarrow> nav \<Rightarrow> nav" where
  "jumpToRequestProvider provider n =
     (let name = trimmed provider in
      if name = [] then n
      else markDrawerReturn ''providerDrawer'' (current_id n) (openProvider name [] (log_nav (SetView ''providers'') n)))"

text \<open>Up to the keys; the handle is the key, its label and the request.\<close>

definition startKeyJump :: "jsval \<Rightarrow> jsval \<Rightarrow> nav \<Rightarrow> nav \<times> (string \<times> jsval \<times> string) option" where
  "startKeyJump keyId keyLabel n =
     (let i = trimmed keyId in
      if i = [] then (n, None)
      else (log_nav (SettingsTab ''keys'') (log_nav (SetView ''settings'') (closeDetail n)), Some (i, keyLabel, current_id n)))"

definition finishKeyJump :: "translator \<Rightarrow> jsval list \<Rightarrow> string \<times> jsval \<times> string \<Rightarrow> nav \<Rightarrow> nav" where
  "finishKeyJump tr keys h n =
     (let (i, keyLabel, requestId) = h in
      case find (\<lambda>item. to_str (jcoalesce (get item ''id'') (Str [])) = i) keys of
        None \<Rightarrow> log_nav (NavNotice (tr ''req.jump_client_key_missing'' [(''name'', jor keyLabel (Str i))])) n
      | Some entry \<Rightarrow> openKey entry (markDrawerReturn ''keyDrawer'' requestId n))"

definition handleRequestStatJump :: "string \<Rightarrow> nav \<Rightarrow> nav \<times> (string \<times> jsval \<times> string) option" where
  "handleRequestStatJump kind n =
     (case nv_current n of None \<Rightarrow> (n, None)
      | Some detail \<Rightarrow>
          if kind = ''model'' then (jumpToRequestModel (get detail ''model'') n, None)
          else if kind = ''provider'' then (jumpToRequestProvider (get (get detail ''routing_summary'') ''final_provider'') n, None)
          else if kind = ''client-key'' then startKeyJump (get detail ''client_key_id'') (get detail ''client_key_name'') n
          else (n, None))"

definition returnToRequest :: "string \<Rightarrow> nav \<Rightarrow> nav" where
  "returnToRequest d n =
     (let requestId = nv_back n d;
          closed = (if d = ''providerDrawer'' then closeProvider n else if d = ''modelDrawer'' then closeModel n
                    else if d = ''keyDrawer'' then closeKey n else n)
      in if requestId = [] then n else openRequestDetail requestId (log_nav (SetView ''requests'') closed))"

section \<open>Escape and a press outside\<close>

definition escapePressed :: "nav \<Rightarrow> nav" where
  "escapePressed n = closeModel (closeProvider (closeDetail n))"

definition pressedOutside :: "nav \<Rightarrow> nav" where
  "pressedOutside n =
     (let n1 = (if nv_provider n then closeProvider n else n);
          n2 = (if nv_detail n1 then closeDetail n1 else n1);
          n3 = (if nv_model n2 then closeModel n2 else n2)
      in if nv_key n3 then closeKey n3 else n3)"

section \<open>The drawers in use\<close>

inductive nav_step :: "translator \<Rightarrow> (jsnum \<Rightarrow> string) \<Rightarrow> nav \<Rightarrow> nav \<Rightarrow> bool" for tr dates where
  open_detail: "nav_step tr dates n (openRequestDetail i n)"
| reply: "nav_step tr dates n (finishRequestDetail tr dates thrown outcome n)"
| close_detail: "nav_step tr dates n (closeDrawer n)"
| jump: "nav_step tr dates n (fst (handleRequestStatJump kind n))"
| key_reply: "nav_step tr dates n (finishKeyJump tr keys h n)"
| way_back: "nav_step tr dates n (returnToRequest d n)"
| open_provider: "nav_step tr dates n (openProvider name tab n)"
| close_provider: "nav_step tr dates n (closeProvider n)"
| open_summary: "nav_step tr dates n (openModelSummary name n)"
| open_usage: "nav_step tr dates n (openModelUsage name n)"
| close_model: "nav_step tr dates n (closeModel n)"
| open_key: "nav_step tr dates n (openKey entry n)"
| close_key: "nav_step tr dates n (closeKey n)"
| escape: "nav_step tr dates n (escapePressed n)"
| outside: "nav_step tr dates n (pressedOutside n)"

section \<open>Correctness\<close>

text \<open>
  The drawers exclude each other and only an open drawer offers the way back to a request; closing the detail of a
  request leads back to the drawer it was opened from; but a late reply replaces the detail that was asked for last,
  and the way back of one visit is still offered on the next when no close lies between them.
\<close>

section \<open>Which drawers are open\<close>

definition drawer_open :: "string \<Rightarrow> nav \<Rightarrow> bool" where
  "drawer_open d n \<longleftrightarrow>
     (d = ''providerDrawer'' \<and> nv_provider n) \<or> (d = ''modelDrawer'' \<and> nv_model n) \<or> (d = ''keyDrawer'' \<and> nv_key n)"

definition nav_ok :: "nav \<Rightarrow> bool" where
  "nav_ok n \<longleftrightarrow> \<not> (nv_detail n \<and> nv_provider n) \<and> \<not> (nv_detail n \<and> nv_model n) \<and> \<not> (nv_provider n \<and> nv_model n)
     \<and> (\<forall>d. nv_back n d \<noteq> [] \<longrightarrow> drawer_open d n)"

named_theorems nav_defs
lemmas nav_moves [nav_defs] = log_nav_def markDrawerReturn_def clearDrawerReturn_def closeDetail_def closeProvider_def closeModel_def
  closeKey_def openProvider_def openModelSummary_def openModelUsage_def openKey_def

lemma nav_ok_init: "nav_ok nav_init"
  by (simp add: nav_ok_def nav_init_def)

lemma nav_ok_closes: "nav_ok n \<Longrightarrow> nav_ok (closeDetail n)" "nav_ok n \<Longrightarrow> nav_ok (closeProvider n)"
  "nav_ok n \<Longrightarrow> nav_ok (closeModel n)" "nav_ok n \<Longrightarrow> nav_ok (closeKey n)" "nav_ok n \<Longrightarrow> nav_ok (log_nav e n)"
  by (auto simp: nav_ok_def nav_defs drawer_open_def)

lemma nav_ok_opens: "nav_ok n \<Longrightarrow> nav_ok (openProvider name tab n)" "nav_ok n \<Longrightarrow> nav_ok (openModelSummary name n)"
  "nav_ok n \<Longrightarrow> nav_ok (openModelUsage name n)" "nav_ok n \<Longrightarrow> nav_ok (openKey entry n)" "nav_ok n \<Longrightarrow> nav_ok (openRequestDetail i n)"
  by (auto simp: nav_ok_def nav_defs openRequestDetail_def drawer_open_def Let_def)

lemma nav_ok_reply: "nav_ok n \<Longrightarrow> nav_ok (finishRequestDetail tr dates thrown outcome n)"
  by (auto simp: finishRequestDetail_def nav_ok_def drawer_open_def Let_def split: sum.splits option.splits)

lemma nav_ok_jumps: "nav_ok n \<Longrightarrow> nav_ok (jumpToRequestModel model n)" "nav_ok n \<Longrightarrow> nav_ok (jumpToRequestProvider provider n)"
  "nav_ok n \<Longrightarrow> nav_ok (fst (startKeyJump i lbl n))" "nav_ok n \<Longrightarrow> nav_ok (finishKeyJump tr keys h n)"
  by (auto simp: jumpToRequestModel_def jumpToRequestProvider_def startKeyJump_def finishKeyJump_def nav_ok_def nav_defs
      drawer_open_def Let_def split: option.splits prod.splits)

lemma nav_ok_rest: "nav_ok n \<Longrightarrow> nav_ok (closeDrawer n)" "nav_ok n \<Longrightarrow> nav_ok (fst (handleRequestStatJump kind n))"
  "nav_ok n \<Longrightarrow> nav_ok (returnToRequest d n)" "nav_ok n \<Longrightarrow> nav_ok (escapePressed n)" "nav_ok n \<Longrightarrow> nav_ok (pressedOutside n)"
  by (auto simp: closeDrawer_def handleRequestStatJump_def returnToRequest_def escapePressed_def pressedOutside_def
      nav_ok_closes nav_ok_opens nav_ok_jumps Let_def split: option.splits return_target.splits)

text \<open>
  C27. However the operator moves between them, at most one of the request, provider and model drawers is open, and a
  drawer that offers the way back to a request is open.
\<close>

theorem drawers_exclude:
  assumes "(nav_step tr dates)\<^sup>*\<^sup>* nav_init n"
  shows "\<not> (nv_detail n \<and> nv_provider n) \<and> \<not> (nv_detail n \<and> nv_model n) \<and> \<not> (nv_provider n \<and> nv_model n)
    \<and> (return_button tr d n \<noteq> None \<longrightarrow> drawer_open d n)"
proof -
  have "nav_ok n" using assms
  proof (induction rule: rtranclp_induct)
    case base
    show ?case by (rule nav_ok_init)
  next
    case (step m n)
    from step.hyps(2) step.IH show ?case
      by cases (simp_all add: nav_ok_closes nav_ok_opens nav_ok_reply nav_ok_jumps nav_ok_rest)
  qed
  then show ?thesis by (auto simp: nav_ok_def return_button_def Let_def split: if_splits)
qed


definition no_words :: translator where
  "no_words k params = k"

definition no_dates :: "jsnum \<Rightarrow> string" where
  "no_dates n = []"

theorem drawers_exclude_witness:
  "return_button no_words ''modelDrawer''
     (openRequestDetail ''r1'' (jumpToRequestModel (Str ''glm'') (nav_init\<lparr>nv_detail := True\<rparr>))) = None
   \<and> \<not> nv_model (openRequestDetail ''r1'' (openProvider ''deepseek'' [] nav_init))"
proof -
  have "(nav_step no_words no_dates)\<^sup>*\<^sup>* nav_init (openRequestDetail ''r1'' (openProvider ''deepseek'' [] nav_init))"
    using nav_step.open_provider [of no_words no_dates nav_init "''deepseek''" "[]"]
      nav_step.open_detail [of no_words no_dates "openProvider ''deepseek'' [] nav_init" "''r1''"]
    by (meson converse_rtranclp_into_rtranclp r_into_rtranclp)
  from drawers_exclude [OF this, of "''modelDrawer''"] show ?thesis
    by (simp add: openRequestDetail_def closeModel_def clearDrawerReturn_def return_button_def)
qed

section \<open>Where closing leads\<close>

lemma reply_keeps_return [simp]:
  "nv_return (finishRequestDetail tr dates thrown outcome n) = nv_return n"
  "nv_providerTab (finishRequestDetail tr dates thrown outcome n) = nv_providerTab n"
  by (auto simp: finishRequestDetail_def Let_def split: sum.splits option.splits)

text \<open>
  C28. Closing the detail of a request with its button leads back: whatever the reply was, the provider drawer is open
  again for the provider and the tab it was left with, or the model drawer for the model and in the mode it was left
  in, and no other of the three is open.
\<close>

theorem detail_close_returns:
  assumes "nav_ok n" and "i \<noteq> []"
    and "nv_provider n \<and> nv_providerName n \<noteq> [] \<and> nv_providerTab n \<noteq> []
       \<or> nv_model n \<and> nv_modelTitle n \<noteq> [] \<and> nv_modelMode n \<in> {''usage'', ''summary''}"
  shows "let n' = closeDrawer (finishRequestDetail tr dates thrown outcome (openRequestDetail i n)) in
    nv_provider n' = nv_provider n \<and> nv_model n' = nv_model n \<and> \<not> nv_detail n'
    \<and> (nv_provider n \<longrightarrow> nv_providerName n' = nv_providerName n \<and> nv_providerTab n' = nv_providerTab n)
    \<and> (nv_model n \<longrightarrow> nv_modelTitle n' = nv_modelTitle n \<and> nv_modelMode n' = nv_modelMode n)"
proof -
  define m where "m = finishRequestDetail tr dates thrown outcome (openRequestDetail i n)"
  have m: "nv_return m = return_point n" "nv_providerTab m = nv_providerTab n" "nv_provider m = False" "nv_model m = False"
    using assms(2) by (auto simp: m_def openRequestDetail_def closeModel_def closeProvider_def clearDrawerReturn_def
        finishRequestDetail_def Let_def split: sum.splits option.splits)
  show ?thesis
    unfolding m_def [symmetric] using assms(1,3) m
    by (auto simp: closeDrawer_def return_point_def nav_ok_def nav_defs Let_def)
qed

theorem detail_close_returns_witness:
  "let n' = closeDrawer (finishRequestDetail no_words no_dates [] (Inl ''HTTP 500'')
      (openRequestDetail ''r1'' (openProvider ''deepseek'' ''models'' nav_init))) in
   nv_provider n' \<and> nv_providerName n' = ''deepseek'' \<and> nv_providerTab n' = ''models''"
proof -
  have "nav_ok (openProvider ''deepseek'' ''models'' nav_init)" by (rule nav_ok_opens [OF nav_ok_init])
  moreover have "nv_provider (openProvider ''deepseek'' ''models'' nav_init)"
    "nv_providerName (openProvider ''deepseek'' ''models'' nav_init) = ''deepseek''"
    "nv_providerTab (openProvider ''deepseek'' ''models'' nav_init) = ''models''"
    by (simp_all add: openProvider_def)
  ultimately show ?thesis
    using detail_close_returns [of "openProvider ''deepseek'' ''models'' nav_init" "''r1''" no_words no_dates "[]" "Inl ''HTTP 500''"]
    by (simp add: Let_def)
qed

section \<open>Late replies\<close>

text \<open>
  A late reply replaces what was asked for: when the detail of one request is opened while another is loading and
  the first reply comes last, the drawer shows the first request, and its provider jump goes to the provider of the
  first and offers the way back to the first.
\<close>

lemma late_detail_replaces:
  assumes "renderDrawer tr dates da \<noteq> None" and "is_object da"
    and "b \<noteq> []" and "trimmed (get (get da ''routing_summary'') ''final_provider'') \<noteq> []"
    and "str_or_empty (get da ''request_id'') \<noteq> []"
  shows "let n = finishRequestDetail tr dates thrown (Inr da) (finishRequestDetail tr dates thrown rb
              (openRequestDetail b (openRequestDetail a n0)));
           p = fst (handleRequestStatJump ''provider'' n) in
    nv_detail n \<and> nv_body n = BodyShown da \<and> nv_subtitle n = drawer_subtitle da
    \<and> nv_providerName p = trimmed (get (get da ''routing_summary'') ''final_provider'')
    \<and> nv_back p ''providerDrawer'' = str_or_empty (get da ''request_id'')"
proof -
  define m where "m = finishRequestDetail tr dates thrown rb (openRequestDetail b (openRequestDetail a n0))"
  have "nv_detail m" using assms(3)
    by (auto simp: m_def finishRequestDetail_def openRequestDetail_def Let_def split: sum.splits option.splits)
  moreover obtain html where "renderDrawer tr dates da = Some html" using assms(1) by blast
  moreover have "\<not> nullish da" using assms(2) by (cases da) auto
  ultimately show ?thesis
    unfolding m_def [symmetric] using assms(2,4,5)
    by (simp add: finishRequestDetail_def handleRequestStatJump_def jumpToRequestProvider_def current_id_def markDrawerReturn_def
        openProvider_def closeModel_def closeDetail_def clearDrawerReturn_def log_nav_def Let_def)
qed

definition slow_detail :: jsval where
  "slow_detail = Obj [(''request_id'', Str ''r1''), (''routing_summary'', Obj [(''final_provider'', Str ''deepseek'')])]"

section \<open>The way back outlives its visit\<close>

text \<open>
  A provider opened from a drawer that is still open (with the keyboard, no press closes it first) is offered the
  way back of the visit before.
\<close>

lemma way_back_survives_visit:
  "q \<noteq> [] \<Longrightarrow> nv_providerName (openProvider q tab n) = q
     \<and> nv_back (openProvider q tab n) ''providerDrawer'' = nv_back n ''providerDrawer''"
  by (simp add: nav_defs Let_def)

text \<open>With the mouse it is not: the press outside closes the drawer before the click opens the other.\<close>

lemma press_closes_all: "\<not> drawer_open d (pressedOutside n)"
  by (simp add: pressedOutside_def drawer_open_def Let_def closeDetail_def closeProvider_def closeModel_def closeKey_def clearDrawerReturn_def)

lemma press_forgets_way_back:
  assumes "nav_ok n"
  shows "nv_back (openProvider q tab (pressedOutside n)) d = []"
proof -
  have "nv_back (pressedOutside n) d = []"
    using nav_ok_rest(5) [OF assms] press_closes_all [of _ n] by (auto simp: nav_ok_def)
  then show ?thesis by (simp add: openProvider_def closeModel_def closeDetail_def clearDrawerReturn_def Let_def)
qed

end
