(* ===== verification/Overview.thy ===== *)
theory Overview
  imports TrafficView ProviderModelsView OperationGuard
begin

text \<open>
  The overview page of \<open>app.js\<close> as markup: the metrics, the four cards with the value and hint each shows, the
  model usage panel, provider health, the onboarding banner, health scores and the recent failures, and the
  proxy test button, cut at its await. \<open>series\<close> is the time series of the state, \<open>locale\<close> is \<open>localeCompare\<close>.
\<close>

section \<open>Metrics\<close>

record overview_totals =
  ot_traffic :: traffic
  ot_usage :: usage
  ot_success :: jsnum
  ot_failed :: jsnum
  ot_rate :: jsnum

text \<open>\<open>displaySuccess\<close>, \<open>displayFailed\<close> and \<open>successRate\<close>.\<close>

definition overview_totals_of :: "jsval \<Rightarrow> jsval \<Rightarrow> overview_totals" where
  "overview_totals_of series counters =
     (let tr = currentTrafficTotal series counters; some_requests = num_lt (Fin 0) (tr_requests tr);
          ok = (if some_requests then num_min (tr_success tr) (tr_requests tr) else tr_success tr) in
      \<lparr>ot_traffic = tr, ot_usage = currentUsageTotal series counters, ot_success = ok,
       ot_failed = (if some_requests then num_max (Fin 0) (num_sub (tr_requests tr) ok) else tr_failed tr),
       ot_rate = (if some_requests then num_min (Fin 1) (num_div (tr_success tr) (tr_requests tr)) else Fin 1)\<rparr>)"

definition failure_rate :: "traffic \<Rightarrow> jsnum" where
  "failure_rate tr = (if num_lt (Fin 0) (tr_attempts tr) then num_div (tr_failedAttempts tr) (tr_attempts tr) else Fin 0)"

definition provider_up :: "jsval \<Rightarrow> bool" where
  "provider_up p \<longleftrightarrow> truthy (get p ''available'') \<and> truthy (get p ''enabled'')"

definition provider_vals :: "jsval \<Rightarrow> jsval list" where
  "provider_vals status = map snd (js_entries (jor (get (get status ''router'') ''providers'') (Obj [])))"

text \<open>The texts and titles \<open>renderMetrics\<close> writes, by the id of the element.\<close>

definition renderMetrics :: "string \<Rightarrow> jsval \<Rightarrow> jsval \<Rightarrow> jsval \<Rightarrow> (string \<times> string) list" where
  "renderMetrics range0 series counters status =
     (let o' = overview_totals_of series counters; tr = ot_traffic o'; u = ot_usage o'; ps = provider_vals status;
          up = length (filter provider_up ps) in
      [(''metricRequests'', fmtInt (Num (tr_requests tr))),
       (''metricRequestsSub'', (range0 @ '' window / '' @ (fmtInt (get counters ''requests_in_flight'')) @ '' live'')),
       (''metricSuccessRate'', fmtPct (Num (ot_rate o'))),
       (''metricSuccessSub'', ((fmtInt (Num (ot_success o'))) @ '' success in '' @ range0)),
       (''metricAttemptFailureRate'', fmtPct (Num (failure_rate tr))),
       (''metricAttemptSub'', ((fmtInt (Num (tr_failedAttempts tr))) @ ''/'' @ (fmtInt (Num (tr_attempts tr))) @
          '' failed attempts'')),
       (''metricProviders'', ((num_to_str (num_of_nat up)) @ ''/'' @ (num_to_str (num_of_nat (length ps))))),
       (''metricProvidersSub'', ''available''),
       (''metricTokens'', fmtTokenCount (Num (total_tokens u))),
       (''metricTokens.title'', ((fmtInt (Num (total_tokens u))) @ '' tokens'')),
       (''metricTokensSub'', ((fmtTokenCount (Num (input_tokens u))) @ '' input / '' @
          (fmtTokenCount (Num (output_tokens u))) @ '' output'')),
       (''metricTokensSub.title'', ((fmtInt (Num (input_tokens u))) @ '' input / '' @ (fmtInt (Num (output_tokens u))) @
          '' output'')),
       (''metricCost'', fmtCost (Num (cost_usd u))),
       (''metricCostSub'', if num_lt (Fin 0) (cost_usd u) then ''estimated from configured pricing'' else ''pricing not configured'')])"

definition setMetricProgress :: "jsnum \<Rightarrow> string" where
  "setMetricProgress v = num_to_str (num_max (Fin 0) (num_min (Fin 100) (num_mul (nz v) (Fin 100)))) @ ''%''"

definition metric_progress :: "jsval \<Rightarrow> jsval \<Rightarrow> jsval \<Rightarrow> (string \<times> string) list" where
  "metric_progress series counters status =
     (let o' = overview_totals_of series counters; tr = ot_traffic o'; u = ot_usage o'; ps = provider_vals status;
          up = length (filter provider_up ps) in
      [(''metricRequests'', setMetricProgress (if num_lt (Fin 0) (tr_requests tr) then Fin 1 else Fin 0)),
       (''metricSuccessRate'', setMetricProgress (ot_rate o')),
       (''metricAttemptFailureRate'', setMetricProgress (failure_rate tr)),
       (''metricProviders'', setMetricProgress (if ps \<noteq> [] then num_div (num_of_nat up) (num_of_nat (length ps)) else Fin 0)),
       (''metricTokens'', setMetricProgress (if num_lt (Fin 0) (total_tokens u)
          then num_max (Fin (8 / 100)) (num_div (output_tokens u) (total_tokens u)) else Fin 0)),
       (''metricCost'', setMetricProgress (if num_lt (Fin 0) (cost_usd u) then Fin 1 else Fin 0))])"

text \<open>The label of the range and which of its buttons is pressed.\<close>

definition renderTimeRangeControl :: "translator \<Rightarrow> string \<Rightarrow> string list \<Rightarrow> string \<times> bool list" where
  "renderTimeRangeControl tr range0 buttons = (tr (tr_label (currentTimeRange range0)) [], map (\<lambda>b. b = range0) buttons)"

section \<open>Cards\<close>

definition no_line_end :: "string \<Rightarrow> bool" where
  "no_line_end s \<longleftrightarrow> (\<forall>c \<in> set s. c \<noteq> CHR 0x0A \<and> c \<noteq> CHR 0x0D)"

text \<open>\<open>/^(.*?)(%)$/\<close>, \<open>/^(.*?)(ms|s)$/i\<close> and \<open>/^(.*?)([kmbt])$/i\<close>: the number and its unit.\<close>

definition unit_length :: "string \<Rightarrow> string \<Rightarrow> nat" where
  "unit_length kind s =
     (let r = rev (js_lower s) in
      if s = [] then 0
      else if kind = ''percent'' then (if hd r = CHR ''%'' then 1 else 0)
      else if kind = ''latency'' then (if starts_with ''sm'' r then 2 else if hd r = CHR ''s'' then 1 else 0)
      else if kind = ''token'' then (if hd r \<in> set ''kmbt'' then 1 else 0) else 0)"

definition value_unit :: "string \<Rightarrow> string \<Rightarrow> (string \<times> string) option" where
  "value_unit kind s =
     (let n = unit_length kind s; k = length s - n in
      if n = 0 \<or> \<not> no_line_end (take k s) then None else Some (take k s, drop k s))"

text \<open>The text before the first separator and the text after it.\<close>

fun cut_first :: "string \<Rightarrow> string \<Rightarrow> string \<times> string option" where
  "cut_first sep [] = ([], None)"
| "cut_first sep (c # s) =
     (if starts_with sep (c # s) then ([], Some (drop (length sep) (c # s)))
      else (let (a, b) = cut_first sep s in (c # a, b)))"

definition overviewMetricValue :: "string \<Rightarrow> string \<Rightarrow> string" where
  "overviewMetricValue s kind =
     (if kind = ''ratio'' \<and> js_includes ''/'' s
      then (let (a, b) = cut_first ''/'' s; rest = (case b of None \<Rightarrow> [] | Some r \<Rightarrow> r) in (''<span class=\"metric-val-main\">'' @ (esc (js_trim a)) @
         ''</span><span class=\"metric-val-secondary\">/ '' @ (esc (js_trim rest)) @ ''</span>''))
      else (case value_unit kind s of
          None \<Rightarrow> (''<span class=\"metric-val-main\">'' @ esc s @ ''</span>'')
        | Some (a, b) \<Rightarrow> (''<span class=\"metric-val-main\">'' @ esc a @
           ''</span><span class=\"metric-val-unit\">'' @ esc b @ ''</span>'')))"

definition metricDot :: "string \<Rightarrow> string" where
  "metricDot tone = (''<span class=\"metric-dot '' @
     (if tone \<in> {''compat'', ''danger'', ''warning'', ''success''} then tone else ''info'') @
     ''\"></span>'')"

text \<open>\<open>/^(\S+)\s+(.*)$/\<close>.\<close>

definition first_word :: "string \<Rightarrow> (string \<times> string) option" where
  "first_word s =
     (let a = takeWhile (\<lambda>c. \<not> is_js_space c) s; r = drop (length a) s; b = dropWhile is_js_space r in
      if a = [] \<or> r = [] \<or> \<not> no_line_end b then None else Some (a, b))"

definition overviewMetricHint :: "string \<Rightarrow> string \<Rightarrow> string" where
  "overviewMetricHint s kind =
     (if kind = ''success''
      then (let (a, b) = cut_first ('' / '') s; failure = (case b of None \<Rightarrow> [] | Some r \<Rightarrow> r) in (''<span class=\"metric-sub-positive\">'' @ esc a @ ''</span>'' @
         (if failure \<noteq> [] then (''<span class=\"metric-sub-divider\">/</span><span>'' @ esc failure @ ''</span>'') else [])))
      else if kind = ''token'' then (metricDot ''success'' @ ''<span>'' @ esc s @ ''</span>'')
      else (case (if kind = ''key'' then first_word s else None) of
          Some (a, b) \<Rightarrow> (''<span class=\"metric-sub-positive\">'' @ esc a @ ''</span><span>'' @ esc b @
             ''</span>'')
        | None \<Rightarrow> (''<span>'' @ esc s @ ''</span>'')))"

record metric_card =
  mc_label :: string
  mc_value :: string
  mc_hint :: string
  mc_tone :: string
  mc_icon :: string
  mc_valueTitle :: string
  mc_hintTitle :: string
  mc_valueKind :: string
  mc_hintKind :: string

definition title_attr :: "string \<Rightarrow> string" where
  "title_attr s = (if s \<noteq> [] then ('' title=\"'' @ esc s @ ''\"'') else [])"

definition overviewMetricCard :: "metric_card \<Rightarrow> string" where
  "overviewMetricCard c =
     (let tone = (if mc_tone c \<in> {''compat'', ''success'', ''warning'', ''danger'', ''info''} then mc_tone c else ''info'') in (nl 6 @ ''<article class=\"visual-card accent-'' @ esc tone @ ''\">'' @ nl 8 @
        ''<div class=\"metric-header\">'' @ nl 10 @ ''<span class=\"metric-label\">'' @
        (esc (mc_label c)) @ ''</span>'' @ nl 10 @ ''<span class=\"metric-icon tone-'' @
        esc tone @ ''\">'' @
        (iconSvg (if mc_icon c \<noteq> [] then mc_icon c else ''activity'')) @ ''</span>'' @
        nl 8 @ ''</div>'' @ nl 8 @ ''<strong class=\"metric-val metric-val-'' @
        (esc (mc_valueKind c)) @ ''\"'' @ (title_attr (mc_valueTitle c)) @ ''>'' @
        (overviewMetricValue (mc_value c) (mc_valueKind c)) @ ''</strong>'' @ nl 8 @
        ''<small class=\"metric-sub metric-sub-'' @ (esc (mc_hintKind c)) @ ''\"'' @
        (title_attr (mc_hintTitle c)) @ ''>'' @ (overviewMetricHint (mc_hint c) (mc_hintKind c)) @
        ''</small>'' @ nl 6 @ ''</article>'' @ nl 4))"

text \<open>The first-byte samples: the last sixty of the recent requests that have one.\<close>

definition latency_samples :: "jsval list \<Rightarrow> jsnum list" where
  "latency_samples recent = last_n 60 (filter (\<lambda>v. num_lt (Fin 0) v) (map firstByteMsFromRequest recent))"

record latency_stats =
  ls_latest :: jsnum
  ls_avg :: jsnum
  ls_max :: jsnum

definition latency_stats_of :: "jsnum list \<Rightarrow> latency_stats option" where
  "latency_stats_of samples =
     (if samples = [] then None
      else Some \<lparr>ls_latest = last samples, ls_avg = num_round (num_div (foldl num_add (Fin 0) samples) (num_of_nat (length samples))),
                 ls_max = foldl num_max NInf samples\<rparr>)"

definition health_tone :: "jsnum \<Rightarrow> jsnum \<Rightarrow> string" where
  "health_tone providerPct keyPct =
     (if num_le (Fin (9 / 10)) providerPct \<and> num_le (Fin (9 / 10)) keyPct then ''ok''
      else if num_le (Fin (1 / 2)) providerPct \<and> num_le (Fin (1 / 2)) keyPct then ''warn''
      else if num_lt (Fin 0) providerPct \<and> num_lt (Fin 0) keyPct then ''soft'' else ''bad'')"

definition share_of :: "nat \<Rightarrow> nat \<Rightarrow> jsnum" where
  "share_of k n = (if n \<noteq> 0 then num_div (num_of_nat k) (num_of_nat n) else Fin 0)"

definition rate_tone :: "jsnum \<Rightarrow> string" where
  "rate_tone r =
     (if num_le (Fin (98 / 100)) r then ''success'' else if num_le (Fin (95 / 100)) r then ''info''
      else if num_le (Fin (85 / 100)) r then ''warning'' else ''danger'')"

definition latency_card :: "translator \<Rightarrow> jsval list \<Rightarrow> metric_card" where
  "latency_card tr recent =
     (let st = latency_stats_of (latency_samples recent) in
      \<lparr>mc_label = tr ''kpi.first_byte'' [], mc_value = (case st of None \<Rightarrow> ''-'' | Some x \<Rightarrow> fmtMs (Num (ls_latest x))),
       mc_hint = (case st of None \<Rightarrow> tr ''kpi.no_samples'' [] | Some x \<Rightarrow> (''avg '' @ (fmtMs (Num (ls_avg x))) @ '' / max '' @ (fmtMs (Num (ls_max x))))),
       mc_tone = toneForLatency (case st of None \<Rightarrow> Fin 0 | Some x \<Rightarrow> if num_truthy (ls_avg x) then ls_avg x else ls_latest x),
       mc_icon = ''zap'', mc_valueTitle = [], mc_hintTitle = [], mc_valueKind = ''latency'', mc_hintKind = ''plain''\<rparr>)"

definition token_card :: "translator \<Rightarrow> usage \<Rightarrow> metric_card" where
  "token_card tr u =
     \<lparr>mc_label = tr ''traffic.total_tokens'' [], mc_value = fmtTokenCount (Num (total_tokens u)),
      mc_hint = ((fmtTokenCount (Num (input_tokens u))) @ '' '' @ (tr ''traffic.input'' []) @ '' '' @
         [CHR 0xB7] @ '' '' @ (fmtTokenCount (Num (output_tokens u))) @ '' '' @
         (tr ''traffic.output'' [])),
      mc_tone = ''compat'', mc_icon = ''layers'', mc_valueTitle = ((fmtInt (Num (total_tokens u))) @ '' '' @ (tr ''traffic.tokens'' [])),
      mc_hintTitle = ((fmtInt (Num (input_tokens u))) @ '' '' @ (tr ''traffic.input'' []) @ '' '' @
         [CHR 0xB7] @ '' '' @ (fmtInt (Num (output_tokens u))) @ '' '' @ (tr ''traffic.output'' [])),
      mc_valueKind = ''token'', mc_hintKind = ''token''\<rparr>"

definition success_card :: "translator \<Rightarrow> overview_totals \<Rightarrow> metric_card" where
  "success_card tr o' =
     \<lparr>mc_label = tr ''kpi.success_rate'' [], mc_value = fmtPct (Num (ot_rate o')),
      mc_hint = ((fmtInt (Num (ot_success o'))) @ '' '' @ (tr ''metric.success'' []) @ '' / '' @
         (fmtInt (Num (ot_failed o'))) @ '' '' @ (tr ''traffic.failed'' [])),
      mc_tone = rate_tone (ot_rate o'), mc_icon = ''check-circle'', mc_valueTitle = [], mc_hintTitle = [],
      mc_valueKind = ''percent'', mc_hintKind = ''success''\<rparr>"

definition key_card :: "translator \<Rightarrow> jsval list \<Rightarrow> metric_card" where
  "key_card tr ps =
     (let keys = concat (map (\<lambda>p. arr_or_empty (get p ''keys'')) ps); usable = length (filter key_usable keys);
          up = length (filter provider_up ps); tone = health_tone (share_of up (length ps)) (share_of usable (length keys)) in
      \<lparr>mc_label = tr ''kpi.active_keys'' [], mc_value = (count_of usable @ ''/'' @ (count_of (length keys))),
       mc_hint = (count_of up @ ''/'' @ (count_of (length ps)) @ '' '' @ (tr ''metric.providers'' [])),
       mc_tone = (if tone = ''bad'' then ''danger'' else if tone = ''soft'' then ''warning'' else if tone = ''warn'' then ''info'' else ''success''),
       mc_icon = ''key-round'', mc_valueTitle = [], mc_hintTitle = [], mc_valueKind = ''ratio'', mc_hintKind = ''key''\<rparr>)"

definition renderOverviewVisuals :: "translator \<Rightarrow> jsval \<Rightarrow> jsval \<Rightarrow> jsval \<Rightarrow> jsval list \<Rightarrow> string" where
  "renderOverviewVisuals tr series counters status recent =
     (let o' = overview_totals_of series counters in (nl 6 @ (overviewMetricCard (token_card tr (ot_usage o'))) @ nl 6 @
        (overviewMetricCard (success_card tr o')) @ nl 6 @
        (overviewMetricCard (latency_card tr recent)) @ nl 6 @
        (overviewMetricCard (key_card tr (provider_vals status))) @ nl 4))"

section \<open>Model usage\<close>

definition miniMetric :: "string \<Rightarrow> string \<Rightarrow> string \<Rightarrow> string" where
  "miniMetric label value hint = (nl 6 @ ''<div class=\"mini-metric\">'' @ nl 8 @ ''<span>'' @ esc label @ ''</span>'' @ nl 8 @
     ''<strong>'' @ esc value @ ''</strong>'' @ nl 8 @ ''<small>'' @ esc hint @ ''</small>'' @
     nl 6 @ ''</div>'' @ nl 4)"

definition usage_row :: "jsnum \<Rightarrow> model_rank \<Rightarrow> string" where
  "usage_row most r =
     (let pct = num_max (Fin 3) (num_mul (num_div (nz (mr_calls r)) most) (Fin 100)); u = mr_usage r in (nl 12 @ ''<div class=\"usage-row usage-model-row\">'' @ nl 14 @
        ''<span class=\"usage-rank usage-rank-tile\">#'' @ (count_of (mr_rank r)) @ ''</span>'' @
        nl 14 @ ''<div class=\"usage-row-head\">'' @ nl 16 @ ''<strong class=\"mono\" title=\"'' @
        (esc (mr_label r)) @ ''\">'' @ nl 18 @ ''<span class=\"usage-model-name\">'' @
        (esc (mr_label r)) @ ''</span>'' @ nl 16 @ ''</strong>'' @ nl 16 @
        ''<span class=\"usage-call-count\">'' @ (esc (mr_hint r)) @ ''</span>'' @ nl 14 @
        ''</div>'' @ nl 14 @ ''<div class=\"usage-track usage-track-calls\" title=\"'' @
        (esc (fmtInt (Num (mr_calls r)))) @ '' calls\">'' @ nl 16 @
        ''<span class=\"usage-fill calls\" style=\"width:'' @ num_to_str pct @ ''%\"></span>'' @
        nl 14 @ ''</div>'' @ nl 14 @ ''<div class=\"usage-row-foot usage-model-foot\">'' @ nl 16 @
        ''<span title=\"'' @ (esc (fmtCost (Num (cost_usd u)))) @ '' total cost\">'' @
        iconSvg ''activity'' @ '' <strong>'' @ (fmtCost (Num (cost_usd u))) @
        ''</strong></span>'' @ nl 16 @ ''<span title=\"'' @
        (esc (fmtInt (Num (input_tokens u)))) @ '' input tokens\">'' @ (iconSvg ''arrow-left'') @
        '' '' @ (fmtTokenCount (Num (input_tokens u))) @ ''</span>'' @ nl 16 @
        ''<span title=\"'' @ (esc (fmtInt (Num (output_tokens u)))) @ '' output tokens\">'' @
        (iconSvg ''arrow-right'') @ '' '' @ (fmtTokenCount (Num (output_tokens u))) @
        ''</span>'' @ nl 14 @ ''</div>'' @ nl 12 @ ''</div>'' @ nl 10))"

definition usageRows :: "model_rank list \<Rightarrow> string \<Rightarrow> string" where
  "usageRows rows emptyText =
     (let most = foldl num_max (Fin 1) (map (\<lambda>r. nz (mr_calls r)) rows) in
      if rows = [] then (''<div class=\"empty pad-slim\">'' @ esc emptyText @ ''</div>'') else (nl 6 @ ''<div class=\"usage-bars\">'' @ nl 8 @ (concat (map (usage_row most) rows)) @
         nl 6 @ ''</div>'' @ nl 4))"

definition window_usage :: "jsval \<Rightarrow> jsval \<Rightarrow> usage" where
  "window_usage series counters = resolveUsageTotal (timeseriesUsageTotal series) counters"

definition usage_model_rows :: "(string \<Rightarrow> string \<Rightarrow> int) \<Rightarrow> jsval \<Rightarrow> jsval \<Rightarrow> model_rank list" where
  "usage_model_rows locale series counters =
     (let totals = model_totals (arr_or_empty (get series ''buckets''));
          seen = (\<exists>e \<in> set totals. num_lt (Fin 0) (nz (fst (snd e))) \<or> num_lt (Fin 0) (total_tokens (usageFrom (usage_val (snd (snd e))))))
      in if seen then modelRankRows locale totals else modelRankRowsFromCounters locale counters)"

text \<open>The header text and the panel.\<close>

definition renderUsageChart ::
  "translator \<Rightarrow> (string \<Rightarrow> string \<Rightarrow> int) \<Rightarrow> string \<Rightarrow> jsval \<Rightarrow> jsval \<Rightarrow> string \<times> string" where
  "renderUsageChart tr locale range0 series counters =
     (let u = window_usage series counters; rows = usage_model_rows locale series counters in
      (if num_truthy (total_tokens u)
         then ((tr (tr_label (currentTimeRange range0)) []) @ '' / '' @
            (fmtTokenCount (Num (total_tokens u))) @ '' tokens / '' @ (fmtCost (Num (cost_usd u))))
         else ''no token samples'',
       if \<not> num_truthy (total_tokens u) \<and> rows = [] then (''<div class=\"empty pad\">No model usage recorded yet</div>'')
       else (nl 6 @ ''<div class=\"usage-summary\">'' @ nl 8 @
          (miniMetric ''Input'' (fmtTokenCount (Num (input_tokens u))) ''tokens'') @ nl 8 @
          (miniMetric ''Output'' (fmtTokenCount (Num (output_tokens u))) ''tokens'') @ nl 8 @
          (miniMetric ''Total'' (fmtTokenCount (Num (total_tokens u))) ''tokens'') @ nl 8 @
          (miniMetric ''Cost'' (fmtCost (Num (cost_usd u))) ''estimated'') @ nl 6 @ ''</div>'' @
          nl 6 @ ''<div class=\"usage-columns usage-model-only\">'' @ nl 8 @ ''<section>'' @
          nl 10 @ ''<div class=\"usage-section-title\">'' @ nl 12 @ ''<h3>'' @ iconSvg ''boxes'' @
          '' Top '' @ count_of USAGE_MODEL_LIMIT @ '' models</h3>'' @ nl 12 @ ''<span>'' @
          (fmtTokenCount (Num (total_tokens u))) @ '' tokens</span>'' @ nl 10 @ ''</div>'' @
          nl 10 @ usageRows rows ''No model calls'' @ nl 8 @ ''</section>'' @ nl 6 @ ''</div>'' @
          nl 4)))"

section \<open>Provider health\<close>

definition providerOverviewPriority :: "light_view \<Rightarrow> nat" where
  "providerOverviewPriority v =
     (let i = rs_id (lv_runtimeState v) in
      if i = ''unavailable'' then 0 else if i = ''cooldown'' then 1 else if i = ''degraded'' then 2 else if i = ''disabled'' then 3
      else if truthy (get (lv_activity v) ''lastError'') then 4 else if 0 < ks_cooldown (lv_keyStats v) then 5 else 10)"

definition OVERVIEW_PROVIDER_LIMIT :: nat where "OVERVIEW_PROVIDER_LIMIT = 5"

definition overview_le :: "(string \<Rightarrow> string \<Rightarrow> int) \<Rightarrow> light_view \<Rightarrow> light_view \<Rightarrow> bool" where
  "overview_le locale a b \<longleftrightarrow>
     providerOverviewPriority a < providerOverviewPriority b
     \<or> providerOverviewPriority a = providerOverviewPriority b \<and> locale (lv_name a) (lv_name b) \<le> 0"

definition overview_views :: "(string \<Rightarrow> string \<Rightarrow> int) \<Rightarrow> console \<Rightarrow> light_view list" where
  "overview_views locale c =
     js_sort (overview_le locale)
       (map (providerLightView c) (providerNames (get (get (c_status c) ''router'') ''providers'') (get (c_config c) ''providers'')))"

definition overview_issue :: "light_view \<Rightarrow> jsval" where
  "overview_issue v =
     jor (get (get (lv_activity v) ''lastError'') ''reason'')
       (Str (if ks_cooldown (lv_keyStats v) \<noteq> 0 then ((count_of (ks_cooldown (lv_keyStats v))) @ '' key cooldown'') else []))"

definition overview_row :: "light_view \<Rightarrow> string" where
  "overview_row v =
     (let rs = lv_runtimeState v; k = lv_keyStats v in (nl 12 @ ''<button class=\"overview-provider-row tone-'' @ (esc (rs_badge rs)) @
        ''\" type=\"button\" data-view-target=\"providers\" title=\"Open providers\">'' @ nl 14 @
        ''<span class=\"provider-status-dot '' @ (esc (rs_badge rs)) @ ''\"></span>'' @ nl 14 @
        ''<span class=\"overview-provider-main\">'' @ nl 16 @ ''<strong class=\"mono\">'' @
        (esc (lv_name v)) @ ''</strong>'' @ nl 16 @ ''<small>'' @
        (if truthy (overview_issue v) then highlightKeywords (overview_issue v) else esc (rs_label rs)) @
        ''</small>'' @ nl 14 @ ''</span>'' @ nl 14 @ ''<span class=\"overview-provider-kpi\">'' @
        nl 16 @ ''<strong>'' @
        (esc ((count_of (ks_usable k)) @ ''/'' @ (count_of (ks_total k)))) @ ''</strong>'' @
        nl 16 @ ''<small>keys</small>'' @ nl 14 @ ''</span>'' @ nl 12 @ ''</button>'' @ nl 10))"

definition jump_button :: "string \<Rightarrow> string \<Rightarrow> string" where
  "jump_button view label = (''<button class=\"overview-jump-button\" type=\"button\" data-view-target=\"'' @ view @
     ''\" title=\"'' @ label @ ''\" aria-label=\"'' @ label @ ''\">'' @
     (iconSvg ''arrow-right'') @ ''</button>'')"

definition renderProviderHealth :: "(string \<Rightarrow> string \<Rightarrow> int) \<Rightarrow> console \<Rightarrow> string" where
  "renderProviderHealth locale c =
     (let views = overview_views locale c; visible = take OVERVIEW_PROVIDER_LIMIT views in
      if views = [] then ''No providers'' else (nl 6 @ ''<div class=\"overview-summary-meta\">'' @ nl 8 @ ''<span>'' @
         iconSvg ''server'' @ '' '' @ (count_of (length visible)) @ '' priority / '' @
         (count_of (length views)) @ '' total</span>'' @ nl 8 @
         (if length visible < length views then jump_button ''providers'' ''Open Providers'' else []) @
         nl 6 @ ''</div>'' @ nl 6 @ ''<div class=\"overview-provider-list\">'' @ nl 8 @
         (concat (map overview_row visible)) @ nl 6 @ ''</div>'' @ nl 4))"

section \<open>Onboarding\<close>

definition has_keyed_provider :: "jsval \<Rightarrow> bool" where
  "has_keyed_provider ps \<longleftrightarrow>
     (\<exists>e \<in> set (js_entries ps). arr_or_empty (get (snd e) ''keys'') \<noteq> [])"

definition preset_chips :: "jsval list \<Rightarrow> string" where
  "preset_chips presets =
     (if presets = [] then [] else (''<div class=\"onboarding-presets\">'' @ nl 10 @
        ''<span class=\"onboarding-presets-label\">Detected env vars (zero-config):</span>'' @
        nl 10 @
        (concat (map (\<lambda>p. (''<span class=\"onboarding-preset-chip\" title=\"'' @ (escapeHtml (get p ''env_var'')) @
          ''\">'' @ (escapeHtml (get p ''name'')) @ ''</span>'')) (take 6 presets))) @
        nl 8 @ ''</div>''))"

text \<open>\<open>None\<close> when the banner is hidden.\<close>

definition renderOnboardingBanner :: "bool \<Rightarrow> jsval \<Rightarrow> jsval \<Rightarrow> string option" where
  "renderOnboardingBanner ready status config =
     (let zero = truthy (get status ''zero_config'') in
      if \<not> ready \<or> \<not> zero \<and> has_keyed_provider (jor (get config ''providers'') (Obj [])) then None
      else Some (nl 6 @ ''<div class=\"onboarding-banner\">'' @ nl 8 @
         ''<div class=\"onboarding-banner-icon\">'' @ iconSvg ''settings'' @ ''</div>'' @ nl 8 @
         ''<div class=\"onboarding-banner-content\">'' @ nl 10 @ ''<h3>'' @
         (if zero then (''Zero-config mode active'') else (''Welcome! Get started in seconds'')) @
         ''</h3>'' @ nl 10 @ ''<p>'' @
         (if zero then (''Providers were auto-detected from environment variables. Create a config.json'' @
           '' for full control, or add more providers below.'') else (''No providers are configured yet. Set environment variables like OPENAI_API_KEY'' @
           '' for zero-config, or manually add a provider.'')) @ ''</p>'' @ nl 10 @
         (preset_chips (arr_or_empty (get status ''provider_presets''))) @ nl 10 @
         ''<div class=\"onboarding-banner-actions\">'' @ nl 12 @
         ''<button class=\"button primary\" type=\"button\" id=\"onboardingAddProvider\"'' @
         '' data-goto-modal=\"addProvider\">Add Provider</button>'' @ nl 12 @
         ''<button class=\"button secondary\" type=\"button\"'' @
         '' data-view-target=\"config\">View Config</button>'' @ nl 10 @ ''</div>'' @ nl 8 @
         ''</div>'' @ nl 6 @ ''</div>'' @ nl 4))"

section \<open>Health scores\<close>

definition score_of :: "jsval \<Rightarrow> jsnum" where
  "score_of p = num_or_zero (get p ''score'')"

text \<open>Ascending; a difference that is not a number counts as equal.\<close>

definition health_rows :: "jsval \<Rightarrow> (string \<times> jsval) list" where
  "health_rows ps =
     js_sort (\<lambda>a b. \<not> num_lt (Fin 0) (num_sub (score_of (snd a)) (score_of (snd b)))) (js_entries ps)"

definition overall_grade :: "jsnum \<Rightarrow> string" where
  "overall_grade n =
     (if num_le (Fin 90) n then ''excellent'' else if num_le (Fin 75) n then ''good'' else if num_le (Fin 50) n then ''fair''
      else if num_le (Fin 25) n then ''poor'' else ''critical'')"

definition overall_tone :: "jsnum \<Rightarrow> string" where
  "overall_tone n = (if num_le (Fin 75) n then ''success'' else if num_le (Fin 50) n then ''warning'' else ''danger'')"

definition row_tone :: "jsnum \<Rightarrow> string" where
  "row_tone n =
     (if num_le (Fin 75) n then ''ok'' else if num_le (Fin 50) n then ''warn'' else if num_le (Fin 25) n then ''soft'' else ''bad'')"

definition health_row :: "translator \<Rightarrow> string \<times> jsval \<Rightarrow> string" where
  "health_row tr e =
     (let p = snd e; n = to_num (get p ''score''); tone = row_tone n; grade = js_lower (to_str (jor (get p ''grade'') (Str ''unknown''))) in (nl 12 @ ''<div class=\"health-provider-row tone-'' @ esc tone @
        ''\" data-provider-card=\"'' @ (esc (fst e)) @ ''\">'' @ nl 14 @
        ''<span class=\"health-provider-name mono\">'' @ (esc (fst e)) @ ''</span>'' @ nl 14 @
        ''<div class=\"health-provider-bar\">'' @ nl 16 @
        ''<div class=\"health-provider-bar-fill tone-'' @ esc tone @ ''\" style=\"width:'' @
        (num_to_str (num_max (Fin 2) (num_min (Fin 100) n))) @ ''%\"></div>'' @ nl 14 @
        ''</div>'' @ nl 14 @ ''<span class=\"health-provider-grade grade-'' @ esc grade @
        ''\">'' @ (esc (tr (''health.grade.'' @ grade) [])) @ '' <strong>'' @
        (fmtInt (get p ''score'')) @ ''</strong></span>'' @ nl 12 @ ''</div>'' @ nl 10))"

record health_panel =
  hp_subtitle :: string
  hp_summary :: string
  hp_body :: string

definition hidden_rows :: "'a list \<Rightarrow> nat" where
  "hidden_rows rows = length rows - length (take 9 rows)"

definition renderHealthOverview :: "translator \<Rightarrow> jsval \<Rightarrow> health_panel" where
  "renderHealthOverview tr hs =
     (let overall = num_or_zero (get hs ''overall''); rows = health_rows (get hs ''providers''); grade = overall_grade overall in
      if \<not> truthy hs \<or> \<not> truthy (get hs ''providers'')
      then \<lparr>hp_subtitle = tr ''health.loading'' [], hp_summary = [],
            hp_body = (''<div class=\"health-overview-loading\">'' @ iconSvg ''rotate'' @ ''<span>'' @
               (esc (tr ''health.loading'' [])) @ ''</span></div>'')\<rparr>
      else if rows = []
      then \<lparr>hp_subtitle = tr ''health.no_data'' [], hp_summary = [],
            hp_body = (''<div class=\"health-overview-empty\">'' @ (esc (tr ''health.no_data'' [])) @
               ''</div>'')\<rparr>
      else \<lparr>hp_subtitle = tr ''health.providers_count'' [(''count'', Str (count_of (length rows)))],
            hp_summary = (nl 6 @ ''<span class=\"health-overview-score tone-'' @
               (esc (overall_tone overall)) @ ''\">'' @ nl 8 @
               ''<span class=\"health-score-ring '' @ esc grade @ ''\">'' @ nl 10 @ ''<strong>'' @
               (fmtInt (Num overall)) @ ''</strong>'' @ nl 10 @ ''<small>/ 100</small>'' @ nl 8 @
               ''</span>'' @ nl 8 @ ''<span class=\"health-score-label\">'' @
               (esc (tr (''health.grade.'' @ grade) [])) @ ''</span>'' @ nl 6 @ ''</span>'' @ nl 4),
            hp_body = (nl 6 @ ''<div class=\"health-overview-list\">'' @ nl 8 @
               (concat (map (health_row tr) (take 9 rows))) @ nl 8 @
               (if hidden_rows rows \<noteq> 0 then (''<button class=\"health-overview-more\" type=\"button\"'' @
                 '' data-view-target=\"providers\">'' @
                 (esc (tr ''health.more_providers'' [(''count'', Str (count_of (hidden_rows rows)))])) @
                 ''</button>'') else []) @ nl 6 @ ''</div>'' @ nl 4)\<rparr>)"

section \<open>Recent failures\<close>

definition OVERVIEW_FAILURE_LIMIT :: nat where "OVERVIEW_FAILURE_LIMIT = 5"

definition attempt_failed :: "jsval \<Rightarrow> bool" where
  "attempt_failed a \<longleftrightarrow> get a ''outcome'' \<noteq> Str ''success''"

definition is_failure :: "jsval \<Rightarrow> bool" where
  "is_failure r \<longleftrightarrow>
     num_le (Fin 400) (num_or_zero (get r ''status_code'')) \<or> (\<exists>a \<in> set (arr_or_empty (get r ''attempts'')). attempt_failed a)"

definition finally_ok :: "jsval \<Rightarrow> bool" where
  "finally_ok r \<longleftrightarrow>
     get r ''status'' = Str ''success'' \<or> get r ''status'' = Str ''recovered''
     \<or> num_lt (Fin 0) (num_or_zero (get r ''status_code'')) \<and> num_lt (num_or_zero (get r ''status_code'')) (Fin 400)"

definition failure_reason :: "jsval \<Rightarrow> jsval" where
  "failure_reason r =
     (let a = (case find attempt_failed (arr_or_empty (get r ''attempts'')) of None \<Rightarrow> Obj [] | Some a \<Rightarrow> jor a (Obj [])) in
      jor (get a ''reason'') (jor (get a ''error_type'') (jor (get r ''error'') (Str ''-''))))"

definition failure_row :: "(jsnum \<Rightarrow> string) \<Rightarrow> jsval \<Rightarrow> string" where
  "failure_row dates r =
     (let reason = failure_reason r; ok = finally_ok r; firstByte = firstByteMsFromRequest r;
          latency = (if num_truthy firstByte then fmtMs (Num firstByte) else ''-'') in (nl 12 @ ''<button class=\"recent-failure-row tone-'' @
             (if ok then ''warning'' else ''danger'') @
             ''\" type=\"button\" data-request-id=\"'' @
             (escapeHtml (jor (get r ''request_id'') (Str []))) @ ''\">'' @ nl 14 @
             ''<span class=\"recent-failure-icon\">'' @
             (iconSvg (if ok then ''undo'' else ''alert'')) @ ''</span>'' @ nl 14 @
             ''<span class=\"recent-failure-main\">'' @ nl 16 @ ''<strong class=\"mono\">'' @
             (escapeHtml (jor (get r ''model'') (Str ''-''))) @ ''</strong>'' @ nl 16 @
             ''<small>'' @ iconSvg ''clock'' @ '' '' @
             (esc (fmtDate dates (get r ''finished_at''))) @ ''</small>'' @ nl 14 @ ''</span>'' @
             nl 14 @ ''<span class=\"recent-failure-metrics\">'' @ nl 16 @
             ''<span class=\"recent-failure-status\">'' @
             (statusBadge (get r ''status'') (get r ''status_code'')) @ ''</span>'' @ nl 16 @
             ''<span class=\"recent-failure-latency\">'' @ iconSvg ''bolt'' @ '' '' @
             esc latency @ ''</span>'' @ nl 14 @ ''</span>'' @ nl 14 @
             ''<span class=\"recent-failure-reason '' @ (esc (toneForText reason)) @
             ''\" title=\"'' @ escapeHtml reason @ ''\">'' @ highlightKeywords reason @
             ''</span>'' @ nl 12 @ ''</button>'' @ nl 10))"

definition shown_failures :: "jsval list \<Rightarrow> jsval list" where
  "shown_failures recent = take OVERVIEW_FAILURE_LIMIT (filter is_failure recent)"

definition renderRecentFailures :: "(jsnum \<Rightarrow> string) \<Rightarrow> jsval list \<Rightarrow> string" where
  "renderRecentFailures dates recent =
     (let rows = shown_failures recent in
      if rows = [] then (''<div class=\"empty pad\">No recent failures</div>'') else (nl 6 @ ''<div class=\"overview-summary-meta recent-failure-summary\">'' @ nl 8 @
         ''<span>'' @ iconSvg ''alert'' @ '' latest '' @ (count_of (length rows)) @ '' / '' @
         (count_of (length (filter is_failure recent))) @ ''</span>'' @ nl 8 @
         jump_button ''requests'' ''Open Requests'' @ nl 6 @ ''</div>'' @ nl 6 @
         ''<div class=\"recent-failure-list\">'' @ nl 8 @
         (concat (map (failure_row dates) rows)) @ nl 6 @ ''</div>'' @ nl 4))"

section \<open>The proxy test\<close>

record proxy_button =
  pb_ok :: bool
  pb_bad :: bool
  pb_testing :: bool
  pb_disabled :: bool
  pb_icon :: string

type_synonym proxy_notice = "string \<times> (string \<times> jsval) list"

text \<open>The third component is the handle of a running test.\<close>

definition startProxyTest ::
  "bool \<Rightarrow> string \<Rightarrow> action_registry \<Rightarrow> proxy_button
     \<Rightarrow> action_registry \<times> proxy_button \<times> begin_result option \<times> proxy_notice list" where
  "startProxyTest ready value r b =
     (let proxy = js_trim value in
      if \<not> ready then (r, b, None, [(''notice.config_loading'', [])])
      else if proxy = [] then (r, b\<lparr>pb_ok := False, pb_bad := False, pb_testing := False\<rparr>, None, [(''notice.proxy_empty'', [])])
      else (case reg_begin (Str (''proxy-test:'' @ proxy)) r of
          (r', Refused) \<Rightarrow> (r', b, None, [(''notice.action_already_running'', [])])
        | (r', h) \<Rightarrow> (r', b\<lparr>pb_disabled := True, pb_ok := False, pb_bad := False, pb_testing := True, pb_icon := ''rotate''\<rparr>, Some h, [])))"

definition failed_detail :: "jsval \<Rightarrow> jsval" where
  "failed_detail outcome =
     jor (get outcome ''error'') (Str ((''HTTP '') @ to_str (jor (get outcome ''status'') (Str ''-''))))"

definition finishProxyTest ::
  "begin_result \<Rightarrow> string + jsval \<Rightarrow> action_registry \<Rightarrow> proxy_button \<Rightarrow> action_registry \<times> proxy_button \<times> proxy_notice" where
  "finishProxyTest h reply r b =
     (let settled = (\<lambda>b. b\<lparr>pb_testing := False, pb_disabled := False\<rparr>); r' = run_finisher h r in
      case reply of
        Inl err \<Rightarrow> (r', settled (b\<lparr>pb_bad := True, pb_icon := ''alert''\<rparr>), (''notice.proxy_failed'', [(''detail'', Str err)]))
      | Inr resp \<Rightarrow>
          (let outcome = jor (get resp ''result'') (Obj []); ok = truthy (get outcome ''ok'') in
           (r', settled (b\<lparr>pb_ok := ok, pb_bad := \<not> ok, pb_icon := (if ok then ''check'' else ''alert'')\<rparr>),
            if ok then (''notice.proxy_connected'', [(''latency'', Str (fmtCompactMs (jor (get outcome ''elapsed_ms'') (jnum 0))))])
            else (''notice.proxy_failed'', [(''detail'', failed_detail outcome)]))))"

text \<open>A test button drawn before the configuration is there waits for it.\<close>

definition bindProxyTestButton :: "bool \<Rightarrow> proxy_button \<Rightarrow> proxy_button \<times> bool" where
  "bindProxyTestButton ready b =
     (b\<lparr>pb_icon := (if pb_icon b = [] then ''activity'' else pb_icon b), pb_disabled := \<not> ready\<rparr>, \<not> ready)"

end
