(* ===== verification/OverviewFacts.thy ===== *)
theory OverviewFacts
  imports Overview MarkdownFacts
begin

text \<open>
  What the overview page shows: the counts of the success card add up, the providers that need attention come
  first, a tested proxy always frees its button; but the first-byte card reads the recent requests, which come newest
  first, from the wrong end.
\<close>

section \<open>First byte\<close>

definition newest_first :: "jsval list \<Rightarrow> bool" where
  "newest_first rs \<longleftrightarrow> sorted_wrt (\<lambda>a b. num_lt (finished_at b) (finished_at a)) rs"

definition has_sample :: "jsval \<Rightarrow> bool" where
  "has_sample r \<longleftrightarrow> num_lt (Fin 0) (firstByteMsFromRequest r)"

lemma num_lt_asym: "num_lt a b \<Longrightarrow> \<not> num_lt b a"
  by (cases a; cases b) auto

lemma latency_samples_eq: "latency_samples rs = last_n 60 (map firstByteMsFromRequest (filter has_sample rs))"
  by (simp add: latency_samples_def filter_map comp_def has_sample_def [abs_def])

lemma last_of_sorted: "sorted_wrt P xs \<Longrightarrow> r \<in> set xs \<Longrightarrow> r = last xs \<or> P r (last xs)"
  by (induction xs) auto

text \<open>
  The first-byte card of the overview shows the oldest request as the latest one: given the recent requests newest
  first, as the server lists them, the value is the first-byte time of a request that no other request with a
  first byte is older than, and of the samples only the oldest sixty are averaged.
\<close>

lemma first_byte_card_shows_oldest:
  assumes "newest_first recent" and "latency_stats_of (latency_samples recent) = Some st"
  shows "mc_value (latency_card tr recent) = fmtMs (Num (ls_latest st))
    \<and> (\<exists>q \<in> set recent. has_sample q \<and> ls_latest st = firstByteMsFromRequest q
        \<and> (\<forall>r \<in> set recent. has_sample r \<longrightarrow> \<not> num_lt (finished_at r) (finished_at q)))
    \<and> latency_samples recent = map firstByteMsFromRequest (last_n 60 (filter has_sample recent))"
proof -
  define rs where "rs = filter has_sample recent"
  have samples: "latency_samples recent = map firstByteMsFromRequest (last_n 60 rs)"
    by (simp add: latency_samples_eq rs_def last_n_def drop_map)
  have ne: "last_n 60 rs \<noteq> []" and latest: "ls_latest st = last (map firstByteMsFromRequest (last_n 60 rs))"
    using assms(2) by (auto simp: latency_stats_of_def samples split: if_splits)
  then have last_rs: "last (last_n 60 rs) = last rs" "rs \<noteq> []" by (auto simp: last_n_def last_drop)
  have srt: "sorted_wrt (\<lambda>a b. num_lt (finished_at b) (finished_at a)) rs"
    using assms(1) by (simp add: newest_first_def rs_def sorted_wrt_filter)
  have "\<not> num_lt (finished_at r) (finished_at (last rs))" if "r \<in> set rs" for r
    using last_of_sorted [OF srt that] num_lt_asym by (cases "finished_at r") (auto simp: num_lt_asym)
  moreover have "last rs \<in> set recent \<and> has_sample (last rs)"
    using last_rs(2) last_in_set [of rs] by (simp add: rs_def)
  ultimately have "\<exists>q \<in> set recent. has_sample q \<and> ls_latest st = firstByteMsFromRequest q
      \<and> (\<forall>r \<in> set recent. has_sample r \<longrightarrow> \<not> num_lt (finished_at r) (finished_at q))"
    using latest ne last_rs(1) by (intro bexI [of _ "last rs"]) (simp_all add: rs_def last_map)
  then show ?thesis using assms(2) samples by (simp add: latency_card_def rs_def)
qed

definition sample_request :: "rat \<Rightarrow> rat \<Rightarrow> jsval" where
  "sample_request finished ms = Obj [(''finished_at'', jnum finished), (''first_byte_ms'', jnum ms)]"

section \<open>Counts\<close>

text \<open>Once there are requests, the two counts of the card are those of a partition and the rate is one.\<close>

lemma success_card_adds_up:
  assumes "tr_requests (currentTrafficTotal series counters) = Fin q" and "0 < q"
    and "tr_success (currentTrafficTotal series counters) = Fin s" and "0 \<le> s"
  shows "num_add (ot_success (overview_totals_of series counters)) (ot_failed (overview_totals_of series counters)) = Fin q
    \<and> (\<exists>x. ot_rate (overview_totals_of series counters) = Fin x \<and> 0 \<le> x \<and> x \<le> 1)"
proof -
  have "ot_rate (overview_totals_of series counters) = Fin (min 1 (s / q))"
    using assms(1-3) by (simp add: overview_totals_of_def Let_def num_min_def min_def)
  moreover have "0 \<le> min 1 (s / q)" "min 1 (s / q) \<le> 1" using assms(2,4) by simp_all
  moreover have "num_add (ot_success (overview_totals_of series counters)) (ot_failed (overview_totals_of series counters)) = Fin q"
    using assms by (simp add: overview_totals_of_def Let_def num_min_def num_max_def num_sub_def)
  ultimately show ?thesis by blast
qed

section \<open>Attention first\<close>

lemma sorted_key_insert:
  fixes f :: "'a \<Rightarrow> nat"
  assumes "\<And>x y. le x y \<Longrightarrow> f x \<le> f y" and "\<And>x y. \<not> le x y \<Longrightarrow> f y \<le> f x"
  shows "sorted (map f ys) \<Longrightarrow> sorted (map f (insert_by le x ys))"
proof (induction ys)
  case (Cons y ys)
  have "set (insert_by le x ys) = insert x (set ys)" by (induction ys) auto
  then show ?case using Cons assms(1) [of x y] assms(2) [of x y] by (auto intro: order_trans)
qed simp

lemma sorted_key_js_sort:
  fixes f :: "'a \<Rightarrow> nat"
  assumes "\<And>x y. le x y \<Longrightarrow> f x \<le> f y" and "\<And>x y. \<not> le x y \<Longrightarrow> f y \<le> f x"
  shows "sorted (map f (js_sort le xs))"
  by (induction xs) (simp_all add: sorted_key_insert [where le = le and f = f] assms)

lemma overview_views_sorted: "sorted (map providerOverviewPriority (overview_views locale c))"
  unfolding overview_views_def by (rule sorted_key_js_sort) (auto simp: overview_le_def)

text \<open>
  The health panel of the overview never hides a provider that needs attention behind one that needs less:
  every provider is in the list once, and a provider in the visible five has at most the priority number of one
  that is left out, whatever the collation of the names.
\<close>

lemma attention_first:
  assumes "v \<in> set (take OVERVIEW_PROVIDER_LIMIT (overview_views locale c))"
    and "w \<in> set (drop OVERVIEW_PROVIDER_LIMIT (overview_views locale c))"
  shows "providerOverviewPriority v \<le> providerOverviewPriority w
    \<and> mset (map lv_name (overview_views locale c))
      = mset (providerNames (get (get (c_status c) ''router'') ''providers'') (get (c_config c) ''providers''))"
proof -
  define xs where "xs = overview_views locale c"
  have "sorted (map providerOverviewPriority (take 5 xs) @ map providerOverviewPriority (drop 5 xs))"
    using overview_views_sorted [of "locale" c] by (simp add: xs_def flip: map_append)
  then have "providerOverviewPriority v \<le> providerOverviewPriority w"
    using assms by (auto simp: sorted_append OVERVIEW_PROVIDER_LIMIT_def xs_def)
  moreover have "mset (map lv_name xs)
      = mset (providerNames (get (get (c_status c) ''router'') ''providers'') (get (c_config c) ''providers''))"
    by (simp add: xs_def overview_views_def providerLightView_def Let_def image_mset.compositionality comp_def)
  ultimately show ?thesis by (simp add: xs_def)
qed

definition six_providers :: console where
  "six_providers = \<lparr>c_status = Undef,
     c_config = Obj [(''providers'', Obj (map (\<lambda>k. (k, Obj [])) [''a'', ''b'', ''c'', ''d'', ''e'', ''f'']))],
     c_activity = Obj [], c_health = Null, c_filters = Obj [], c_modelFilters = Obj [], c_drafts = []\<rparr>"

section \<open>The proxy test\<close>

text \<open>A test that ran leaves its button usable, marked one way, and its key free.\<close>

lemma proxy_test_settles:
  assumes "finishProxyTest h reply r b = (r', b', nt)"
  shows "\<not> pb_testing b' \<and> \<not> pb_disabled b' \<and> r' = run_finisher h r \<and> (pb_bad b' \<longleftrightarrow> fst nt = ''notice.proxy_failed'')"
  using assms by (auto simp: finishProxyTest_def Let_def split: sum.splits if_splits)

text \<open>The page, drawn again while a test runs, enables its button.\<close>

lemma redraw_enables_running_test:
  "startProxyTest True v r b = (r', b', Some h, []) \<Longrightarrow>
   pb_disabled b' \<and> \<not> pb_disabled (fst (bindProxyTestButton True b')) \<and> pb_testing (fst (bindProxyTestButton True b'))"
  by (auto simp: startProxyTest_def bindProxyTestButton_def Let_def split: if_splits prod.splits begin_result.splits)

section \<open>Values and units\<close>

lemma cut_first_append: "cut_first sep s = (a, b) \<Longrightarrow> s = a @ (case b of None \<Rightarrow> [] | Some r \<Rightarrow> sep @ r)"
proof (induction s arbitrary: a b)
  case (Cons c s)
  show ?case
  proof (cases "starts_with sep (c # s)")
    case True
    then have "c # s = sep @ drop (length sep) (c # s)" by (simp add: starts_with_iff) (metis append_eq_conv_conj)
    then show ?thesis using True Cons.prems by auto
  next
    case False
    then show ?thesis using Cons by (auto split: prod.splits)
  qed
qed simp

lemma value_unit_append: "value_unit kind s = Some (a, b) \<Longrightarrow> a @ b = s"
  by (auto simp: value_unit_def Let_def split: if_splits)

end
