(* ===== verification/ConfigPage.thy ===== *)
theory ConfigPage
  imports Overview RuntimeRefresh Pricing ConfigRefreshFacts
begin

text \<open>
  The configuration page of \<open>app.js\<close>: its panels as markup, the guards that keep a panel the operator works in,
  the record of what was last drawn, the pagers of the panels and the model capabilities of the providers page. An
  object of the state carries the identity that \<open>!==\<close> compares; the page holds every element that
  \<open>index.html\<close> has. \<open>lc\<close> is \<open>localeCompare\<close>, \<open>dates\<close> the platform's formatter of times.
\<close>

section \<open>\<open>JSON.stringify(v, null, 2)\<close>\<close>

definition json_lines :: "nat \<Rightarrow> char \<Rightarrow> char \<Rightarrow> string list \<Rightarrow> string" where
  "json_lines d l r items =
     (if items = [] then [l, r]
      else [l] @ nl (d + 2) @ js_join ('','' @ nl (d + 2)) items @ nl d @ [r])"

fun json_pretty :: "nat \<Rightarrow> jsval \<Rightarrow> string option" where
  "json_pretty d (Arr xs) = Some (json_lines d (CHR ''['') (CHR '']'')
     (map (\<lambda>x. case json_pretty (d + 2) x of None \<Rightarrow> ''null'' | Some s \<Rightarrow> s) xs))"
| "json_pretty d (Obj kvs) = Some (json_lines d (CHR 0x7B) (CHR 0x7D)
     (List.map_filter (\<lambda>(k, t). map_option (\<lambda>s. json_string k @ '': '' @ s) t)
        (own_entries (map (\<lambda>(k, v). (k, json_pretty (d + 2) v)) kvs))))"
| "json_pretty d v = json_text v"

definition pretty :: "jsval \<Rightarrow> string" where
  "pretty v = (case json_pretty 0 v of None \<Rightarrow> [] | Some s \<Rightarrow> s)"

section \<open>Sizes of pages\<close>

definition CONFIG_PROVIDERS_PAGE_SIZE :: nat where "CONFIG_PROVIDERS_PAGE_SIZE = 8"
definition MODEL_ROUTES_PAGE_SIZE :: nat where "MODEL_ROUTES_PAGE_SIZE = 8"
definition MODEL_MAP_PAGE_SIZE :: nat where "MODEL_MAP_PAGE_SIZE = 6"
definition AUDIT_PAGE_SIZE :: nat where "AUDIT_PAGE_SIZE = 8"

section \<open>Panels as markup\<close>

definition shortFormatName :: "jsval \<Rightarrow> string" where
  "shortFormatName fmt =
     (if fmt = Str ''chat_completions'' then ''Chat'' else if fmt = Str ''responses'' then ''Resp''
      else if fmt = Str ''anthropic_messages'' then ''Anth'' else if fmt = Str ''google_generate'' then ''Gem''
      else str_or_empty fmt)"

definition sorted_names :: "jsval \<Rightarrow> string list" where
  "sorted_names v = js_sort string_le (map fst (js_entries (obj_or_empty v)))"

text \<open>The providers the summary counts.\<close>

definition kept_names :: "jsval \<Rightarrow> string list" where
  "kept_names provs = filter (\<lambda>name. \<not> truthy (get (get provs name) ''pending_delete'')) (sorted_names provs)"

definition enabled_count :: "jsval list \<Rightarrow> string \<Rightarrow> nat" where
  "enabled_count ps fmt =
     length (filter (\<lambda>(f, cfg). f = fmt \<and> truthy (get cfg ''enabled''))
       (concat (map (\<lambda>p. js_entries (obj_or_empty (get p ''formats''))) ps)))"

definition format_counts :: "jsval list \<Rightarrow> string" where
  "format_counts ps =
     js_join '' / '' (map (\<lambda>f. shortFormatName (Str f) @ '' '' @ num_to_str (num_of_nat (enabled_count ps f)))
       [''chat_completions'', ''responses'', ''anthropic_messages'', ''google_generate''])"

definition config_summary :: "translator \<Rightarrow> jsval \<Rightarrow> string" where
  "config_summary tr config =
     (let provs = obj_or_empty (get config ''providers''); names = kept_names provs; ps = map (get provs) names;
          keys = length (concat (map (\<lambda>p. arr_or_empty (get p ''keys'')) ps));
          on = length (filter (\<lambda>p. get p ''enabled'' \<noteq> Bool False) ps) in (nl 6 @ ''<div class=\"config-summary-grid config-status-grid\">'' @ nl 8 @
             (miniMetric (tr ''cfg.summary_providers'' []) (count_of on @ ''/'' @ (count_of (length names))) (tr ''cfg.summary_enabled'' [])) @
             nl 8 @
             (miniMetric (tr ''cfg.summary_keys'' []) (count_of keys) (tr ''cfg.summary_masked'' [])) @
             nl 8 @
             (miniMetric (tr ''cfg.summary_global_proxy'' []) (proxyLabel (get config ''proxy'') (tr ''cfg.summary_direct'' [])) (tr ''cfg.summary_fallback'' [])) @
             nl 8 @
             (miniMetric (tr ''cfg.summary_overlay'' []) (if truthy (get config ''has_overlay'') then tr ''cfg.summary_overlay_active'' [] else tr ''cfg.summary_overlay_none'' []) ''runtime_config'') @
             nl 8 @
             (miniMetric (tr ''cfg.summary_formats'' []) (format_counts ps) (tr ''cfg.summary_enabled_routes'' [])) @
             nl 6 @ ''</div>'' @ nl 6 @ ''<div class=\"config-path-row\">'' @ nl 8 @ ''<span>'' @
             (esc (tr ''cfg.summary_overlay_path'' [])) @ ''</span>'' @ nl 8 @
             ''<strong class=\"mono\">'' @
             (escapeHtml (jor (get config ''overlay_path'') (Str ''-''))) @ ''</strong>'' @ nl 6 @
             ''</div>'' @ nl 4))"

definition overlay_summary :: "jsval \<Rightarrow> jsval \<Rightarrow> jsval \<Rightarrow> string" where
  "overlay_summary config overlay previewStatus =
     (let on = truthy (jcoalesce (get overlay ''has_overlay'') (get config ''has_overlay''));
          sections = (if is_object (get overlay ''overlay'') then sorted_names (get overlay ''overlay'') else []) in (nl 6 @ ''<div class=\"config-summary-grid overlay-summary-grid\">'' @ nl 8 @
             (miniMetric ''Overlay'' (if on then ''active'' else ''none'') ''runtime_config'') @
             nl 8 @
             (miniMetric ''Sections'' (if sections \<noteq> [] then js_join '', '' sections else ''-'') ''overlay'') @
             nl 8 @
             (miniMetric ''Preview'' (to_str (jor previewStatus (Str ''-''))) ''last validation'') @
             nl 8 @
             (miniMetric ''Rollback'' (if on then ''available'' else ''not needed'') ''clear overlay'') @
             nl 6 @ ''</div>'' @ nl 6 @ ''<div class=\"config-path-row\">'' @ nl 8 @
             ''<span>Overlay path</span>'' @ nl 8 @ ''<strong class=\"mono\">'' @
             (escapeHtml (jor (get overlay ''overlay_path'') (jor (get config ''overlay_path'') (Str ''-'')))) @
             ''</strong>'' @ nl 6 @ ''</div>'' @ nl 4))"

definition providerConfigSummaryCard :: "translator \<Rightarrow> string \<Rightarrow> jsval \<Rightarrow> string" where
  "providerConfigSummaryCard tr name p =
     (let fmts = enabledFormats (obj_or_empty (get p ''formats'')); details = tr ''prov.open_details'' [(''name'', Str name)] in (nl 6 @ ''<article class=\"config-provider-tile\" data-view-target=\"providers\"'' @
        '' role=\"button\" tabindex=\"0\" aria-label=\"'' @ esc details @ ''\" title=\"'' @
        esc details @ ''\">'' @ nl 8 @ ''<div class=\"config-provider-tile-head\">'' @ nl 10 @
        (providerBrandIconMarkup (Str name) (iconSvg ''server'')) @ nl 10 @
        ''<div class=\"config-provider-tile-main\">'' @ nl 12 @ ''<b class=\"provider-name\">'' @
        esc name @ ''</b>'' @ nl 12 @ ''<small class=\"provider-meta\">'' @
        (escapeHtml (jor (get p ''base_url'') (Str ''-''))) @ ''</small>'' @ nl 10 @ ''</div>'' @
        nl 8 @ ''</div>'' @ nl 8 @ ''<div class=\"config-provider-tile-foot\">'' @ nl 10 @
        ''<span class=\"config-provider-tile-fmts\">'' @ nl 12 @
        (if fmts \<noteq> [] then concat (map (\<lambda>f. (''<span class=\"fmt-chip\">'' @ (esc (shortFormatName (Str f))) @ ''</span>'')) fmts) else (''<span class=\"muted\">'' @ (esc (tr ''prov.no_formats'' [])) @ ''</span>'')) @
        nl 10 @ ''</span>'' @ nl 10 @ ''<span class=\"config-provider-tile-badges\">'' @ nl 12 @
        (if get p ''enabled'' = Bool False then badge (Str (tr ''prov.config_off'' [])) ''neutral'' else []) @
        nl 12 @ (badge (Str (''P'' @ fmtInt (Num (num_or_zero (get p ''priority''))))) ''info'') @
        nl 10 @ ''</span>'' @ nl 8 @ ''</div>'' @ nl 6 @ ''</article>'' @ nl 4))"

text \<open>One provider of a route with its field for the priority; \<open>P\<close> is the priority of the provider itself.\<close>

definition route_priority_row :: "translator \<Rightarrow> string \<Rightarrow> jsval \<Rightarrow> route_item \<Rightarrow> string" where
  "route_priority_row tr model provs i =
     (let p0 = to_num (get (get provs (to_str (ri_name i))) ''priority''); global = Num (if is_finite p0 then p0 else Fin 0);
          own = \<not> nullish (ri_priority i) in (nl 16 @ ''<div class=\"model-route-provider-priority\">'' @ nl 18 @
             ''<span class=\"tag\">'' @ (escapeHtml (ri_name i)) @ '' '' @ [CHR 0xB7] @ '' W'' @
             (escapeHtml (ri_weight i)) @ ''</span>'' @ nl 18 @ ''<input'' @ nl 20 @
             ''class=\"control\"'' @ nl 20 @ ''type=\"number\"'' @ nl 20 @ ''min=\"-1000\"'' @
             nl 20 @ ''max=\"1000\"'' @ nl 20 @ ''value=\"'' @
             (if own then escapeHtml (ri_priority i) else []) @ ''\"'' @ nl 20 @
             ''placeholder=\"P'' @ escapeHtml global @ ''\"'' @ nl 20 @
             ''data-model-route-priority'' @ nl 20 @ ''aria-label=\"Model priority for '' @
             (escapeHtml (ri_name i)) @ '' on '' @ esc model @ ''\"'' @ nl 18 @ ''/>'' @ nl 18 @
             ''<button'' @ nl 20 @ ''class=\"button secondary compact-action\"'' @ nl 20 @
             ''type=\"button\"'' @ nl 20 @ ''data-model-route-priority-apply'' @ nl 20 @
             ''data-model=\"'' @ esc model @ ''\"'' @ nl 20 @ ''data-provider=\"'' @
             (escapeHtml (ri_name i)) @ ''\"'' @ nl 18 @ ''>'' @
             (esc (tr ''cfg.route_save_priority'' [])) @ ''</button>'' @ nl 18 @ ''<small>'' @
             (if own then esc (tr ''cfg.route_model_prio'' [(''n'', ri_priority i)]) else esc (tr ''cfg.route_inherits_prio'' [(''n'', global)])) @
             ''</small>'' @ nl 16 @ ''</div>'' @ nl 14))"

definition format_badge :: "translator \<Rightarrow> jsval \<Rightarrow> string" where
  "format_badge tr pref =
     (if truthy pref
      then badge (Str (if pref = Str ''native_first'' then tr ''policy.format_native'' [] else tr ''policy.format_priority'' [])) ''info''
      else badge (Str (tr ''cfg.format_inherit'' [])) ''neutral'')"

definition effort_badge :: "translator \<Rightarrow> jsval \<Rightarrow> string" where
  "effort_badge tr effort =
     (if truthy effort
      then badge (Str ((tr ''cfg.reasoning_effort'' []) @ '': '' @ to_str effort)) (if effort = Str ''off'' then ''warn'' else ''info'')
      else [])"

definition modelRouteCard :: "translator \<Rightarrow> string \<Rightarrow> jsval \<Rightarrow> jsval \<Rightarrow> string" where
  "modelRouteCard tr model route provs =
     (let items = routeProviderItems (get route ''providers''); select = jor (get route ''provider_select'') (Str ''priority_failover'');
          edit = esc (tr ''cfg.route_edit_route'' []); del = esc (tr ''cfg.route_delete_route'' []) in (nl 6 @ ''<article class=\"model-route-card\">'' @ nl 8 @
             ''<div class=\"model-route-main\">'' @ nl 10 @
             ''<div class=\"provider-name mono\">'' @ esc model @ ''</div>'' @ nl 10 @
             ''<div class=\"model-route-provider-list\">'' @ nl 12 @
             (if items \<noteq> [] then concat (map (route_priority_row tr model provs) items) else (''<span class=\"muted\">'' @ (esc (tr ''cfg.route_no_providers_row'' [])) @
               ''</span>'')) @ nl 10 @ ''</div>'' @ nl 8 @ ''</div>'' @ nl 8 @
             ''<div class=\"model-route-side\">'' @ nl 10 @
             (badge select (if select = Str ''random'' then ''warn'' else if select = Str ''weighted_rr'' then ''info'' else ''ok'')) @
             nl 10 @ (format_badge tr (get route ''format_preference'')) @ nl 10 @
             (effort_badge tr (get route ''reasoning_effort'')) @ nl 10 @
             ''<div class=\"actions tight\">'' @ nl 12 @
             ''<button class=\"button secondary compact-action icon-action\" type=\"button\"'' @
             '' data-model-route-edit=\"'' @ esc model @ ''\" title=\"'' @ edit @
             ''\" aria-label=\"'' @ edit @ ''\">'' @ iconSvg ''pencil'' @ ''</button>'' @ nl 12 @
             ''<button class=\"button danger compact-action icon-action\" type=\"button\"'' @
             '' data-model-route-delete=\"'' @ esc model @ ''\" title=\"'' @ del @
             ''\" aria-label=\"'' @ del @ ''\">'' @ iconSvg ''trash'' @ ''</button>'' @ nl 10 @
             ''</div>'' @ nl 8 @ ''</div>'' @ nl 6 @ ''</article>'' @ nl 4))"

definition by_name :: "(string \<Rightarrow> string \<Rightarrow> bool) \<Rightarrow> (string \<times> jsval) list \<Rightarrow> (string \<times> jsval) list" where
  "by_name lc = js_sort (\<lambda>a b. lc (fst a) (fst b))"

definition route_entries :: "(string \<Rightarrow> string \<Rightarrow> bool) \<Rightarrow> jsval \<Rightarrow> (string \<times> jsval) list" where
  "route_entries lc config =
     by_name lc (filter (\<lambda>e. is_object (snd e)) (js_entries (obj_or_empty (get (get config ''models'') ''routes''))))"

definition routeByModel :: "jsval \<Rightarrow> string \<Rightarrow> jsval" where
  "routeByModel config model =
     (let r = get (obj_or_empty (get (get config ''models'') ''routes'')) model in if is_object r then r else Null)"

definition route_hint :: "translator \<Rightarrow> jsval \<Rightarrow> string" where
  "route_hint tr config =
     (let names = sorted_names (get config ''providers'') in
      if names \<noteq> [] then (''<div class=\"model-route-hint\">'' @ (esc (tr ''cfg.route_available_providers'' [])) @
         '' '' @ (chipList (Arr (map Str names)) ''-'') @ ''</div>'')
      else (''<div class=\"model-route-hint muted\">'' @ (esc (tr ''cfg.route_no_providers'' [])) @
         ''</div>''))"

definition map_entries :: "(string \<Rightarrow> string \<Rightarrow> bool) \<Rightarrow> jsval \<Rightarrow> (string \<times> jsval) list" where
  "map_entries lc config =
     by_name lc (filter (\<lambda>e. is_object (snd e) \<and> js_entries (snd e) \<noteq> [])
       (js_entries (obj_or_empty (get (get config ''models'') ''provider_model_map''))))"

definition map_card :: "(string \<Rightarrow> string \<Rightarrow> bool) \<Rightarrow> translator \<Rightarrow> string \<times> jsval \<Rightarrow> string" where
  "map_card lc tr e =
     (let pairs = by_name lc (js_entries (snd e)) in (nl 8 @ ''<article class=\"provider-model-map-card\">'' @ nl 10 @
        ''<div class=\"provider-model-map-head\">'' @ nl 12 @ ''<span class=\"provider-name\">'' @
        (esc (fst e)) @ ''</span>'' @ nl 12 @
        (badge (Str (tr ''cfg.pmm_overrides'' [(''n'', Str (count_of (length pairs)))])) ''info'') @
        nl 10 @ ''</div>'' @ nl 10 @ ''<div class=\"provider-model-map-pairs\">'' @ nl 12 @
        (concat (map (\<lambda>(canonical, upstream). (nl 14 @ ''<div class=\"provider-model-map-pair\">'' @ nl 16 @
          ''<span class=\"mono\">'' @ esc canonical @ ''</span>'' @ nl 16 @
          ''<strong class=\"mono\">'' @ escapeHtml upstream @ ''</strong>'' @ nl 14 @ ''</div>'' @
          nl 12)) pairs)) @ nl 10 @ ''</div>'' @ nl 8 @ ''</article>'' @ nl 6))"

section \<open>The audit trail\<close>

definition AUDIT_ACTION_LABEL_KEYS :: "(string \<times> string) list" where
  "AUDIT_ACTION_LABEL_KEYS =
    [(''admin_key_updated'', ''cfg.audit_admin_key_updated''),
     (''client_key_deleted'', ''cfg.audit_client_key_deleted''),
     (''client_key_usage_reset'', ''cfg.audit_client_key_usage_reset''),
     (''config_overlay_clear_failed'', ''cfg.audit_config_overlay_clear_failed''),
     (''config_overlay_cleared'', ''cfg.audit_config_overlay_cleared''),
     (''config_overlay_compact_failed'', ''cfg.audit_config_overlay_compact_failed''),
     (''config_overlay_compacted'', ''cfg.audit_config_overlay_compacted''),
     (''config_overlay_validate_failed'', ''cfg.audit_config_overlay_validate_failed''),
     (''config_overlay_validated'', ''cfg.audit_config_overlay_validated''),
     (''config_reload_failed'', ''cfg.audit_config_reload_failed''),
     (''config_reloaded'', ''cfg.audit_config_reloaded''),
     (''failure_policy_updated'', ''cfg.audit_failure_policy_updated''),
     (''format_updated'', ''cfg.audit_format_updated''),
     (''global_proxy_updated'', ''cfg.audit_global_proxy_updated''),
     (''health_monitor_updated'', ''cfg.audit_health_monitor_updated''),
     (''key_add_failed'', ''cfg.audit_key_add_failed''),
     (''key_added'', ''cfg.audit_key_added''),
     (''key_deleted'', ''cfg.audit_key_deleted''),
     (''key_state_cleared'', ''cfg.audit_key_state_cleared''),
     (''key_updated'', ''cfg.audit_key_updated''),
     (''model_route_deleted'', ''cfg.audit_model_route_deleted''),
     (''model_route_updated'', ''cfg.audit_model_route_updated''),
     (''models_refreshed'', ''cfg.audit_models_refreshed''),
     (''patrol_triggered'', ''cfg.audit_patrol_triggered''),
     (''provider_added'', ''cfg.audit_provider_added''),
     (''provider_cooldown_cleared'', ''cfg.audit_provider_cooldown_cleared''),
     (''provider_delete_failed'', ''cfg.audit_provider_delete_failed''),
     (''provider_deleted'', ''cfg.audit_provider_deleted''),
     (''provider_disabled'', ''cfg.audit_provider_disabled''),
     (''provider_enabled'', ''cfg.audit_provider_enabled''),
     (''provider_models_disabled_updated'', ''cfg.audit_provider_models_disabled_updated''),
     (''provider_models_refreshed'', ''cfg.audit_provider_models_refreshed''),
     (''provider_priority_hot_updated'', ''cfg.audit_provider_priority_hot_updated''),
     (''provider_updated'', ''cfg.audit_provider_updated''),
     (''provider_weight_hot_updated'', ''cfg.audit_provider_weight_hot_updated''),
     (''retry_updated'', ''cfg.audit_retry_updated''),
     (''routing_updated'', ''cfg.audit_routing_updated''),
     (''admin_patch_error'', ''cfg.audit_admin_patch_error''),
     (''admin_patch_failed'', ''cfg.audit_admin_patch_failed''),
     (''client_key_created'', ''cfg.audit_client_key_created''),
     (''client_key_updated'', ''cfg.audit_client_key_updated''),
     (''compatibility_circuits_cleared'', ''cfg.audit_compatibility_circuits_cleared''),
     (''conversion_diagnostics_cleared'', ''cfg.audit_conversion_diagnostics_cleared''),
     (''key_delete_failed'', ''cfg.audit_key_delete_failed''),
     (''key_enabled'', ''cfg.audit_key_enabled''),
     (''key_probed'', ''cfg.audit_key_probed''),
     (''model_mapping_auto_inferred'', ''cfg.audit_model_mapping_auto_inferred''),
     (''model_mapping_inferred'', ''cfg.audit_model_mapping_inferred''),
     (''model_pricing_override_deleted'', ''cfg.audit_model_pricing_override_deleted''),
     (''model_pricing_override_updated'', ''cfg.audit_model_pricing_override_updated''),
     (''model_route_delete_failed'', ''cfg.audit_model_route_delete_failed''),
     (''model_tested'', ''cfg.audit_model_tested''),
     (''provider_add_failed'', ''cfg.audit_provider_add_failed''),
     (''provider_model_disabled_updated'', ''cfg.audit_provider_model_disabled_updated''),
     (''provider_model_mapping_updated'', ''cfg.audit_provider_model_mapping_updated''),
     (''provider_model_variants_updated'', ''cfg.audit_provider_model_variants_updated''),
     (''proxy_tested'', ''cfg.audit_proxy_tested''),
     (''request_history_clear_failed'', ''cfg.audit_request_history_clear_failed''),
     (''request_history_cleared'', ''cfg.audit_request_history_cleared''),
     (''request_matching_delete_failed'', ''cfg.audit_request_matching_delete_failed''),
     (''request_matching_records_deleted'', ''cfg.audit_request_matching_records_deleted''),
     (''request_records_delete_failed'', ''cfg.audit_request_records_delete_failed''),
     (''request_records_deleted'', ''cfg.audit_request_records_deleted''),
     (''usage_statistics_clear_failed'', ''cfg.audit_usage_statistics_clear_failed''),
     (''usage_statistics_cleared'', ''cfg.audit_usage_statistics_cleared'')]"

text \<open>An action of the table has its label before its name, any other only its name.\<close>

definition audit_title :: "translator \<Rightarrow> jsval \<Rightarrow> string" where
  "audit_title tr action =
     (case map_of AUDIT_ACTION_LABEL_KEYS (str_or_empty action) of
        Some key \<Rightarrow> ((esc (tr key [])) @ ''<span class=\"mono audit-action-raw\">'' @
           (escapeHtml (jor action (Str []))) @ ''</span>'')
      | None \<Rightarrow> (''<span class=\"mono\">'' @ (escapeHtml (jor action (Str ''unknown''))) @ ''</span>''))"

definition audit_detail :: "jsval \<Rightarrow> string" where
  "audit_detail v =
     (if v = Str [] \<or> \<not> truthy v then []
      else if (case v of Str s \<Rightarrow> True | _ \<Rightarrow> js_entries v \<noteq> []) then (case json_text v of Some s \<Rightarrow> s | None \<Rightarrow> [])
      else [])"

definition auditTrailItem :: "translator \<Rightarrow> (jsnum \<Rightarrow> string) \<Rightarrow> jsval \<Rightarrow> string" where
  "auditTrailItem tr dates item =
     (let failed = (to_str (jor (get item ''status'') (Str ''success'')) = ''failed''); tone = (if failed then ''bad'' else ''ok'');
          detail = audit_detail (get item ''detail'') in (nl 6 @ ''<article class=\"audit-item tone-'' @ esc tone @ ''\">'' @ nl 8 @
             ''<div class=\"audit-item-main\">'' @ nl 10 @ ''<div class=\"audit-item-title\">'' @
             nl 12 @ ''<span class=\"audit-action-name\">'' @
             (audit_title tr (get item ''action'')) @ ''</span>'' @ nl 12 @
             (badge (Str (tr (if failed then ''cfg.audit_status_failed'' else ''cfg.audit_status_success'') [])) tone) @
             nl 10 @ ''</div>'' @ nl 10 @ ''<div class=\"audit-item-meta\">'' @ nl 12 @
             ''<span>'' @ (esc (fmtDate dates (get item ''ts''))) @ ''</span>'' @ nl 12 @
             ''<span>'' @ (escapeHtml (jor (get item ''target'') (Str ''-''))) @ ''</span>'' @
             nl 12 @ ''<span>'' @ (escapeHtml (jor (get item ''source_ip'') (Str ''-''))) @
             ''</span>'' @ nl 10 @ ''</div>'' @ nl 10 @
             (if detail \<noteq> [] then (nl 12 @ ''<details class=\"audit-detail-details\">'' @ nl 14 @ ''<summary>'' @
               (esc (tr ''cfg.audit_detail'' [])) @ ''</summary>'' @ nl 14 @
               ''<pre class=\"audit-detail\">'' @ esc detail @ ''</pre>'' @ nl 12 @
               ''</details>'' @ nl 10) else []) @ nl 10 @
             (if truthy (get item ''error'') then (''<div class=\"audit-error\">'' @ (escapeHtml (get item ''error'')) @ ''</div>'') else []) @
             nl 8 @ ''</div>'' @ nl 6 @ ''</article>'' @ nl 4))"

section \<open>The page\<close>

text \<open>What was last drawn: identities, where \<open>None\<close> is one that no object of the state has.\<close>

record drawn =
  dn_config :: "nat option"
  dn_locale :: string
  dn_overlay :: "nat option"
  dn_usage :: "nat option"
  dn_models :: "nat option"
  dn_diagnostics :: "nat option"

text \<open>A panel: its class \<open>empty\<close> and its markup. \<open>cp_log\<close> are the renderers of other views that were called.\<close>

type_synonym panel = "bool \<times> string"

record config_page =
  cp_config :: "(nat \<times> jsval) option"
  cp_overlay :: "(nat \<times> jsval) option"
  cp_audit :: jsval
  cp_usage :: "nat option"
  cp_models :: "nat option"
  cp_diagnostics :: "nat option"
  cp_locale :: string
  cp_previewStatus :: jsval
  cp_previewPinned :: bool
  cp_pages :: "(string \<times> jsval) list"
  cp_forceConfig :: bool
  cp_forceRoutes :: bool
  cp_drawn :: drawn
  cp_snapshot :: string
  cp_summary :: string
  cp_proxy :: string
  cp_overlaySafety :: string
  cp_preview :: string
  cp_providersPanel :: panel
  cp_routesPanel :: panel
  cp_mapPanel :: panel
  cp_auditPanel :: panel
  cp_log :: "string list"

definition page_config :: "config_page \<Rightarrow> jsval" where
  "page_config s = (case cp_config s of None \<Rightarrow> Obj [] | Some (i, v) \<Rightarrow> v)"

definition page_overlay :: "config_page \<Rightarrow> jsval" where
  "page_overlay s = (case cp_overlay s of None \<Rightarrow> Obj [] | Some (i, v) \<Rightarrow> v)"

definition page_of :: "string \<Rightarrow> config_page \<Rightarrow> int" where
  "page_of key s = (case num_or_zero (lookup key (cp_pages s)) of Fin q \<Rightarrow> \<lfloor>q\<rfloor> | _ \<Rightarrow> 0)"

definition paged :: "string \<Rightarrow> nat \<Rightarrow> 'a list \<Rightarrow> config_page \<Rightarrow> 'a page_view \<times> config_page" where
  "paged key size0 items s =
     (let (view, current) = paginate items (page_of key s) size0
      in (view, s\<lparr>cp_pages := set_prop key (int_val current) (cp_pages s)\<rparr>))"

text \<open>\<open>active && (active.closest(sel) || isContainerDirty(sel))\<close>.\<close>

definition held :: "elem option \<Rightarrow> dirty_state \<Rightarrow> string \<Rightarrow> bool" where
  "held active ds sel \<longleftrightarrow> (case active of None \<Rightarrow> False | Some e \<Rightarrow> sel \<in> e_within e \<or> isContainerDirty sel ds)"

definition renderGlobalProxy :: "elem option \<Rightarrow> dirty_state \<Rightarrow> config_page \<Rightarrow> config_page" where
  "renderGlobalProxy active ds s =
     (if held active ds ''#globalProxyForm'' then s else s\<lparr>cp_proxy := proxyText (get (page_config s) ''proxy'')\<rparr>)"

definition providers_grid :: "translator \<Rightarrow> jsval \<Rightarrow> string page_view \<Rightarrow> string" where
  "providers_grid tr provs page = (nl 6 @
     (panelPagination tr ''configProvidersPage'' page (int CONFIG_PROVIDERS_PAGE_SIZE) ''providers'') @
     nl 6 @ ''<div class=\"config-provider-tile-grid\">'' @ nl 8 @
     (concat (map (\<lambda>name. providerConfigSummaryCard tr name (obj_or_empty (get provs name))) (pv_items page))) @
     nl 6 @ ''</div>'' @ nl 4)"

definition renderConfigProviders :: "translator \<Rightarrow> elem option \<Rightarrow> dirty_state \<Rightarrow> config_page \<Rightarrow> config_page" where
  "renderConfigProviders tr active ds s =
     (if \<not> cp_forceConfig s \<and> held active ds ''#configProviders'' then s
      else (let provs = obj_or_empty (get (page_config s) ''providers''); names = sorted_names provs in
        if names = [] then s\<lparr>cp_providersPanel := (True, ''No providers configured''), cp_forceConfig := False\<rparr>
        else (let (page, s1) = paged ''configProvidersPage'' CONFIG_PROVIDERS_PAGE_SIZE names s in
          s1\<lparr>cp_providersPanel := (False, providers_grid tr provs page), cp_forceConfig := False\<rparr>)))"

definition renderModelRoutes ::
  "(string \<Rightarrow> string \<Rightarrow> bool) \<Rightarrow> translator \<Rightarrow> elem option \<Rightarrow> dirty_state \<Rightarrow> config_page \<Rightarrow> config_page" where
  "renderModelRoutes lc tr active ds s =
     (if \<not> cp_forceRoutes s \<and> held active ds ''#modelRoutesPanel'' then s
      else (let config = page_config s; entries = route_entries lc config; hint = route_hint tr config in
        if entries = []
        then s\<lparr>cp_routesPanel := (True, (hint @ ''<div class=\"pad-slim\">'' @ (esc (tr ''cfg.no_routes'' [])) @ ''</div>'')), cp_forceRoutes := False\<rparr>
        else (let (page, s1) = paged ''modelRoutesPage'' MODEL_ROUTES_PAGE_SIZE entries s in
          s1\<lparr>cp_routesPanel := (False, (nl 6 @ hint @ nl 6 @
             (panelPagination tr ''modelRoutesPage'' page (int MODEL_ROUTES_PAGE_SIZE) ''routes'') @
             nl 6 @ ''<div class=\"model-route-page-list\">'' @ nl 8 @
             (concat (map (\<lambda>(model, route). modelRouteCard tr model route (obj_or_empty (get config ''providers''))) (pv_items page))) @
             nl 6 @ ''</div>'' @ nl 4)), cp_forceRoutes := False\<rparr>)))"

definition renderProviderModelMap :: "(string \<Rightarrow> string \<Rightarrow> bool) \<Rightarrow> translator \<Rightarrow> config_page \<Rightarrow> config_page" where
  "renderProviderModelMap lc tr s =
     (let entries = map_entries lc (page_config s) in
      if entries = [] then s\<lparr>cp_mapPanel := (True, (''<div class=\"pad-slim\">'' @ (esc (tr ''cfg.no_pmm'' [])) @ ''</div>''))\<rparr>
      else (let (page, s1) = paged ''providerModelMapPage'' MODEL_MAP_PAGE_SIZE entries s in
        s1\<lparr>cp_mapPanel := (False, (nl 6 @
           (panelPagination tr ''providerModelMapPage'' page (int MODEL_MAP_PAGE_SIZE) ''maps'') @
           nl 6 @ ''<div class=\"provider-model-map-page-list\">'' @ nl 8 @
           (concat (map (map_card lc tr) (pv_items page))) @ nl 6 @ ''</div>'' @ nl 4))\<rparr>))"

definition renderAuditTrail :: "translator \<Rightarrow> (jsnum \<Rightarrow> string) \<Rightarrow> config_page \<Rightarrow> config_page" where
  "renderAuditTrail tr dates s =
     (let items = arr_or_empty (get (cp_audit s) ''items'') in
      if items = [] then s\<lparr>cp_auditPanel := (True, ''No audit events recorded'')\<rparr>
      else (let (page, s1) = paged ''auditPage'' AUDIT_PAGE_SIZE items s in
        s1\<lparr>cp_auditPanel := (False, (nl 6 @ (panelPagination tr ''auditPage'' page (int AUDIT_PAGE_SIZE) ''events'') @
           nl 6 @ ''<div class=\"audit-page-list\">'' @ nl 8 @
           (concat (map (auditTrailItem tr dates) (pv_items page))) @ nl 6 @ ''</div>'' @ nl 4))\<rparr>))"

definition renderOverlaySafety :: "config_page \<Rightarrow> config_page" where
  "renderOverlaySafety s =
     (let ov = page_overlay s; s1 = s\<lparr>cp_overlaySafety := overlay_summary (page_config s) ov (cp_previewStatus s)\<rparr> in
      if cp_previewPinned s then s1 else s1\<lparr>cp_preview := pretty (obj_or_empty (get ov ''overlay''))\<rparr>)"

text \<open>\<open>renderConfig\<close>, the four parts in its order; each records what it drew.\<close>

definition config_changed :: "config_page \<Rightarrow> bool" where
  "config_changed s \<longleftrightarrow>
     cp_forceConfig s \<or> cp_config s = None \<or> dn_config (cp_drawn s) \<noteq> map_option fst (cp_config s)
     \<or> cp_locale s \<noteq> dn_locale (cp_drawn s)"

definition render_config_panels ::
  "(string \<Rightarrow> string \<Rightarrow> bool) \<Rightarrow> translator \<Rightarrow> (jsnum \<Rightarrow> string) \<Rightarrow> elem option \<Rightarrow> dirty_state \<Rightarrow> config_page \<Rightarrow> config_page" where
  "render_config_panels lc tr dates active ds s =
     (let s1 = s\<lparr>cp_snapshot := pretty (page_config s), cp_summary := config_summary tr (page_config s)\<rparr>;
          s2 = renderProviderModelMap lc tr (renderModelRoutes lc tr active ds (renderGlobalProxy active ds s1));
          s3 = renderAuditTrail tr dates (renderConfigProviders tr active ds s2)
      in s3\<lparr>cp_drawn := (cp_drawn s3)\<lparr>dn_config := map_option fst (cp_config s), dn_locale := cp_locale s\<rparr>,
            cp_forceConfig := False\<rparr>)"

definition render_overlay_part :: "bool \<Rightarrow> config_page \<Rightarrow> config_page" where
  "render_overlay_part changed s =
     (if changed \<or> map_option fst (cp_overlay s) \<noteq> dn_overlay (cp_drawn s)
      then (let s1 = renderOverlaySafety s in s1\<lparr>cp_drawn := (cp_drawn s1)\<lparr>dn_overlay := map_option fst (cp_overlay s)\<rparr>\<rparr>)
      else s)"

definition render_other_parts :: "bool \<Rightarrow> config_page \<Rightarrow> config_page" where
  "render_other_parts changed s =
     (let s1 = (if cp_usage s \<noteq> None \<and> (changed \<or> cp_usage s \<noteq> dn_usage (cp_drawn s))
                then s\<lparr>cp_log := cp_log s @ [''renderUsageStatistics''], cp_drawn := (cp_drawn s)\<lparr>dn_usage := cp_usage s\<rparr>\<rparr> else s);
          s2 = (if cp_models s1 \<noteq> None \<and> (changed \<or> cp_models s1 \<noteq> dn_models (cp_drawn s1))
                then s1\<lparr>cp_log := cp_log s1 @ [''renderModelUsage''], cp_drawn := (cp_drawn s1)\<lparr>dn_models := cp_models s1\<rparr>\<rparr> else s1)
      in if changed \<or> cp_diagnostics s2 \<noteq> dn_diagnostics (cp_drawn s2)
         then s2\<lparr>cp_log := cp_log s2 @ [''renderConversionDiagnostics''], cp_drawn := (cp_drawn s2)\<lparr>dn_diagnostics := cp_diagnostics s2\<rparr>\<rparr>
         else s2)"

definition renderConfig ::
  "(string \<Rightarrow> string \<Rightarrow> bool) \<Rightarrow> (string \<Rightarrow> translator) \<Rightarrow> (jsnum \<Rightarrow> string) \<Rightarrow> elem option \<Rightarrow> dirty_state
     \<Rightarrow> config_page \<Rightarrow> config_page" where
  "renderConfig lc trs dates active ds s =
     (let changed = config_changed s
      in render_other_parts changed (render_overlay_part changed
           (if changed then render_config_panels lc (trs (cp_locale s)) dates active ds s else s)))"

text \<open>A click on a pager draws its panel, whoever holds the focus; the pagers of other pages are logged.\<close>

definition bindPanelPagination ::
  "(string \<Rightarrow> string \<Rightarrow> bool) \<Rightarrow> (string \<Rightarrow> translator) \<Rightarrow> (jsnum \<Rightarrow> string) \<Rightarrow> elem option \<Rightarrow> dirty_state
     \<Rightarrow> string \<Rightarrow> direction \<Rightarrow> config_page \<Rightarrow> config_page" where
  "bindPanelPagination lc trs dates active ds key dir s =
     (let tr = trs (cp_locale s) in
      case changePanelPage (Some (cp_pages s)) key dir of
        (Some pages, True) \<Rightarrow>
          (let s1 = s\<lparr>cp_pages := pages\<rparr> in
           if key = ''providersPage'' then s1\<lparr>cp_log := cp_log s1 @ [''renderProvidersTable'']\<rparr>
           else if key = ''configProvidersPage'' then renderConfigProviders tr active ds (s1\<lparr>cp_forceConfig := True\<rparr>)
           else if key = ''modelRoutesPage'' then renderModelRoutes lc tr active ds (s1\<lparr>cp_forceRoutes := True\<rparr>)
           else if key = ''providerModelMapPage'' then renderProviderModelMap lc tr s1
           else if key = ''auditPage'' then renderAuditTrail tr dates s1
           else s1\<lparr>cp_log := cp_log s1 @ [''renderAll'']\<rparr>)
      | _ \<Rightarrow> s)"

section \<open>Model capabilities\<close>

record caps_page =
  mc_force :: bool
  mc_panel :: panel
  mc_memo :: memo

definition map_chip :: "translator \<Rightarrow> jsval \<Rightarrow> jsval \<Rightarrow> string" where
  "map_chip tr pricing item =
     (let label = get item ''label''; raw = get item ''raw'' in (nl 12 @ ''<span class=\"model-map-chip\" data-model-name=\"'' @ escapeHtml label @
        ''\" title=\"'' @ (escapeHtml (get item ''title'')) @ ''\">'' @ nl 14 @ ''<b>'' @
        escapeHtml label @ ''</b>'' @ nl 14 @
        (if truthy raw \<and> \<not> strict_eq raw label then (''<small>'' @ escapeHtml raw @ ''</small>'') else []) @
        nl 14 @ modelPriceTooltip tr pricing label @ nl 12 @ ''</span>'' @ nl 10))"

definition modelCapabilityCard ::
  "translator \<Rightarrow> (jsnum \<Rightarrow> string) \<Rightarrow> jsval \<Rightarrow> string \<Rightarrow> jsval \<Rightarrow> jsval \<Rightarrow> jsval list \<Rightarrow> string" where
  "modelCapabilityCard tr dates pricing name capability cfg items =
     (let status = jor (get capability ''status'') (Str ''not_fetched'');
          fmts = (if arr_or_empty (get capability ''formats'') \<noteq> [] then get capability ''formats''
                  else Arr (map Str (enabledFormats (obj_or_empty (get cfg ''formats''))))) in (nl 6 @ ''<article class=\"model-capability-card tone-'' @
                     toneForText status @ ''\">'' @ nl 8 @
                     ''<div class=\"provider-runtime-head\">'' @ nl 10 @
                     ''<div class=\"provider-title-block\">'' @ nl 12 @
                     ''<div class=\"provider-name\">'' @ esc name @ ''</div>'' @ nl 12 @
                     ''<div class=\"provider-meta\">'' @ chipList fmts ''no enabled formats'' @
                     ''</div>'' @ nl 10 @ ''</div>'' @ nl 10 @
                     (if status = Str ''pending'' then (''<span class=\"badge neutral provider-cap-refreshing-badge\">'' @
                       refreshSpinner @ '' refreshing</span>'') else badge status (if status = Str ''ok'' then ''ok'' else if status = Str ''error'' then ''bad'' else ''neutral'')) @
                     nl 8 @ ''</div>'' @ nl 8 @ ''<div class=\"provider-metrics\">'' @ nl 10 @
                     (miniMetric ''Models'' (count_of (length items)) ''available'') @ nl 10 @
                     (miniMetric ''Mapped'' (count_of (length (js_entries (obj_or_empty (get capability ''canonical_map''))))) ''canonical ids'') @
                     nl 10 @
                     (miniMetric ''Fetched'' (if truthy (get capability ''fetched_at'') then fmtDate dates (get capability ''fetched_at'') else ''-'') ''snapshot'') @
                     nl 10 @
                     (miniMetric ''Config'' (if get cfg ''enabled'' = Bool False then ''off'' else ''on'') ''provider'') @
                     nl 8 @ ''</div>'' @ nl 8 @
                     (if truthy (get capability ''error'') then (''<div class=\"model-capability-error\">'' @
                       (messageMarkup (get capability ''error'')) @ ''</div>'') else []) @
                     nl 8 @ ''<div class=\"model-chip-list\">'' @ nl 10 @
                     (if items \<noteq> [] then concat (map (map_chip tr pricing) (take 18 items)) else (''<span class=\"muted\">No discovered models</span>'')) @
                     nl 10 @
                     (if 18 < length items then (''<span class=\"tag\">+'' @ (count_of (length items - 18)) @
                       '' more</span>'') else []) @ nl 8 @ ''</div>'' @
                     nl 6 @ ''</article>'' @ nl 4))"

text \<open>The cards in order; each looks its items up in the memo table and may fill it.\<close>

fun capability_cards ::
  "(string \<Rightarrow> string \<Rightarrow> bool) \<Rightarrow> translator \<Rightarrow> (jsnum \<Rightarrow> string) \<Rightarrow> jsval \<Rightarrow> string \<Rightarrow> jsval \<Rightarrow> jsval \<Rightarrow> string list \<Rightarrow> memo
     \<Rightarrow> string \<times> memo" where
  "capability_cards lc tr dates pricing version provs cfgs [] m = ([], m)"
| "capability_cards lc tr dates pricing version provs cfgs (name # names) m =
     (let cap = obj_or_empty (get provs name);
          (items, m1) = modelCapabilityItemsMemo lc version name (Arr (arr_or_empty (get cap ''models'')))
            (obj_or_empty (get cap ''canonical_map'')) m;
          (html, m2) = capability_cards lc tr dates pricing version provs cfgs names m1
      in (modelCapabilityCard tr dates pricing name cap (obj_or_empty (get cfgs name)) items @ html, m2))"

definition renderModelCapabilities ::
  "(string \<Rightarrow> string \<Rightarrow> bool) \<Rightarrow> translator \<Rightarrow> (jsnum \<Rightarrow> string) \<Rightarrow> jsval \<Rightarrow> string \<Rightarrow> elem option \<Rightarrow> dirty_state \<Rightarrow> jsval \<Rightarrow> jsval
     \<Rightarrow> caps_page \<Rightarrow> caps_page" where
  "renderModelCapabilities lc tr dates pricing version active ds status config s =
     (if \<not> mc_force s \<and> shouldPreserveContainer active ''#modelCapabilities'' ds then s
      else (let snapshot = obj_or_empty (get status ''models''); provs = obj_or_empty (get snapshot ''providers'');
          cfgs = obj_or_empty (get config ''providers'');
          names = js_sort string_le (first_by (\<lambda>x. x) [] (map fst (js_entries cfgs) @ map fst (js_entries provs)));
          header = (nl 6 @ ''<div class=\"model-capability-summary\">'' @ nl 8 @
             (miniMetric ''Models source'' (to_str (jor (get snapshot ''models_source'') (Str ''-''))) ''config'') @
             nl 8 @
             (miniMetric ''Union models'' (count_of (length (arr_or_empty (get snapshot ''union_model_ids'')))) ''canonical ids'') @
             nl 8 @ (miniMetric ''Providers'' (count_of (length names)) ''configured'') @ nl 6 @
             ''</div>'' @ nl 4) in
        if names = []
        then s\<lparr>mc_force := False, mc_panel := (True, (header @ ''<div class=\"pad-slim\">No providers configured</div>''))\<rparr>
        else (let (cards, m) = capability_cards lc tr dates pricing version provs cfgs names (mc_memo s)
              in s\<lparr>mc_force := False, mc_panel := (False, (header @ cards)), mc_memo := m\<rparr>)))"

section \<open>Correctness\<close>

text \<open>
  What the configuration page keeps: a second drawing adds nothing, a panel passed over stays as it was once the
  configuration counts as drawn, the audit trail waits for a configuration, a pager shows the next page.
\<close>

section \<open>What the renderers leave alone\<close>

definition same_data :: "config_page \<Rightarrow> config_page \<Rightarrow> bool" where
  "same_data s s1 \<longleftrightarrow> cp_config s1 = cp_config s \<and> cp_overlay s1 = cp_overlay s \<and> cp_usage s1 = cp_usage s
     \<and> cp_models s1 = cp_models s \<and> cp_diagnostics s1 = cp_diagnostics s \<and> cp_locale s1 = cp_locale s
     \<and> cp_audit s1 = cp_audit s \<and> cp_drawn s1 = cp_drawn s"

lemma same_data_trans: "same_data a b \<Longrightarrow> same_data b c \<Longrightarrow> same_data a c"
  by (simp add: same_data_def)

lemma frame_global: "same_data s (renderGlobalProxy active ds s)"
  by (simp add: renderGlobalProxy_def same_data_def)

lemma frame_providers: "same_data s (renderConfigProviders tr active ds s)"
  by (simp add: renderConfigProviders_def same_data_def paged_def split_beta Let_def)

lemma frame_routes: "same_data s (renderModelRoutes lc tr active ds s)"
  by (simp add: renderModelRoutes_def same_data_def paged_def split_beta Let_def)

lemma frame_map: "same_data s (renderProviderModelMap lc tr s)"
  by (simp add: renderProviderModelMap_def same_data_def paged_def split_beta Let_def)

lemma frame_audit: "same_data s (renderAuditTrail tr dates s)"
  by (simp add: renderAuditTrail_def same_data_def paged_def split_beta Let_def)

text \<open>The panels together change the record of what was drawn, and nothing the server sent.\<close>

lemma same_data_panels:
  "same_data s (renderAuditTrail tr dates (renderConfigProviders tr active ds
     (renderProviderModelMap lc tr (renderModelRoutes lc tr active ds (renderGlobalProxy active ds s)))))"
  by (rule same_data_trans[OF _ frame_audit], rule same_data_trans[OF _ frame_providers],
      rule same_data_trans[OF _ frame_map], rule same_data_trans[OF _ frame_routes], rule frame_global)

lemma panels_same:
  "\<exists>b. same_data s b \<and> render_config_panels lc tr dates active ds s =
     b\<lparr>cp_drawn := (cp_drawn b)\<lparr>dn_config := map_option fst (cp_config s), dn_locale := cp_locale s\<rparr>, cp_forceConfig := False\<rparr>"
proof -
  let ?a = "s\<lparr>cp_snapshot := pretty (page_config s), cp_summary := config_summary tr (page_config s)\<rparr>"
  let ?b = "renderAuditTrail tr dates (renderConfigProviders tr active ds
     (renderProviderModelMap lc tr (renderModelRoutes lc tr active ds (renderGlobalProxy active ds ?a))))"
  have "same_data s ?a" by (simp add: same_data_def)
  then have "same_data s ?b" by (rule same_data_trans[OF _ same_data_panels])
  then show ?thesis by (intro exI[of _ ?b]) (simp only: render_config_panels_def Let_def simp_thms)
qed

lemma panels_fields:
  "cp_config (render_config_panels lc tr dates active ds s) = cp_config s"
  "cp_overlay (render_config_panels lc tr dates active ds s) = cp_overlay s"
  "cp_usage (render_config_panels lc tr dates active ds s) = cp_usage s"
  "cp_models (render_config_panels lc tr dates active ds s) = cp_models s"
  "cp_diagnostics (render_config_panels lc tr dates active ds s) = cp_diagnostics s"
  "cp_locale (render_config_panels lc tr dates active ds s) = cp_locale s"
  "cp_forceConfig (render_config_panels lc tr dates active ds s) = False"
  "dn_config (cp_drawn (render_config_panels lc tr dates active ds s)) = map_option fst (cp_config s)"
  "dn_locale (cp_drawn (render_config_panels lc tr dates active ds s)) = cp_locale s"
  using panels_same[of s lc tr dates active ds] by (auto simp: same_data_def)

section \<open>A page once drawn\<close>

text \<open>Nothing of the page is due: what was drawn is what the state holds.\<close>

definition up_to_date :: "config_page \<Rightarrow> bool" where
  "up_to_date s \<longleftrightarrow> \<not> config_changed s \<and> dn_overlay (cp_drawn s) = map_option fst (cp_overlay s)
     \<and> (cp_usage s = None \<or> dn_usage (cp_drawn s) = cp_usage s) \<and> (cp_models s = None \<or> dn_models (cp_drawn s) = cp_models s)
     \<and> dn_diagnostics (cp_drawn s) = cp_diagnostics s"

lemma other_parts_stay:
  "cp_usage s = None \<or> dn_usage (cp_drawn s) = cp_usage s \<Longrightarrow> cp_models s = None \<or> dn_models (cp_drawn s) = cp_models s \<Longrightarrow>
   dn_diagnostics (cp_drawn s) = cp_diagnostics s \<Longrightarrow> render_other_parts False s = s"
  unfolding render_other_parts_def by (elim disjE) simp_all

lemma up_to_date_stays: "up_to_date s \<Longrightarrow> renderConfig lc trs dates active ds s = s"
  by (simp add: up_to_date_def renderConfig_def render_overlay_part_def other_parts_stay)

lemma overlay_part_fields:
  "cp_config (render_overlay_part c s) = cp_config s" "cp_overlay (render_overlay_part c s) = cp_overlay s"
  "cp_usage (render_overlay_part c s) = cp_usage s" "cp_models (render_overlay_part c s) = cp_models s"
  "cp_diagnostics (render_overlay_part c s) = cp_diagnostics s" "cp_locale (render_overlay_part c s) = cp_locale s"
  "cp_forceConfig (render_overlay_part c s) = cp_forceConfig s" "cp_routesPanel (render_overlay_part c s) = cp_routesPanel s"
  "cp_auditPanel (render_overlay_part c s) = cp_auditPanel s"
  "dn_config (cp_drawn (render_overlay_part c s)) = dn_config (cp_drawn s)"
  "dn_locale (cp_drawn (render_overlay_part c s)) = dn_locale (cp_drawn s)"
  "dn_overlay (cp_drawn (render_overlay_part c s)) = map_option fst (cp_overlay s)"
  by (simp_all add: render_overlay_part_def renderOverlaySafety_def Let_def)

lemma other_parts_fields:
  "cp_config (render_other_parts c s) = cp_config s" "cp_overlay (render_other_parts c s) = cp_overlay s"
  "cp_usage (render_other_parts c s) = cp_usage s" "cp_models (render_other_parts c s) = cp_models s"
  "cp_diagnostics (render_other_parts c s) = cp_diagnostics s" "cp_locale (render_other_parts c s) = cp_locale s"
  "cp_forceConfig (render_other_parts c s) = cp_forceConfig s" "cp_routesPanel (render_other_parts c s) = cp_routesPanel s"
  "cp_auditPanel (render_other_parts c s) = cp_auditPanel s"
  "dn_config (cp_drawn (render_other_parts c s)) = dn_config (cp_drawn s)"
  "dn_locale (cp_drawn (render_other_parts c s)) = dn_locale (cp_drawn s)"
  "dn_overlay (cp_drawn (render_other_parts c s)) = dn_overlay (cp_drawn s)"
  "dn_diagnostics (cp_drawn (render_other_parts c s)) = cp_diagnostics s"
  by (simp_all add: render_other_parts_def Let_def)

lemma other_parts_drawn:
  "cp_usage s = Some u \<Longrightarrow> dn_usage (cp_drawn (render_other_parts c s)) = Some u"
  "cp_models s = Some u \<Longrightarrow> dn_models (cp_drawn (render_other_parts c s)) = Some u"
  by (auto simp: render_other_parts_def Let_def)

lemmas part_fields = panels_fields overlay_part_fields other_parts_fields other_parts_drawn

lemma renderConfig_fields:
  "cp_config (renderConfig lc trs dates active ds s) = cp_config s"
  "cp_locale (renderConfig lc trs dates active ds s) = cp_locale s"
  "cp_forceConfig (renderConfig lc trs dates active ds s) = False"
  "dn_locale (cp_drawn (renderConfig lc trs dates active ds s)) = cp_locale s"
  by (simp_all add: renderConfig_def Let_def part_fields config_changed_def)

lemma drawn_unchanged: "cp_config s \<noteq> None \<Longrightarrow> \<not> config_changed (renderConfig lc trs dates active ds s)"
  by (cases "config_changed s") (auto simp: renderConfig_def Let_def config_changed_def part_fields)

lemma drawn_up_to_date: "cp_config s \<noteq> None \<Longrightarrow> up_to_date (renderConfig lc trs dates active ds s)"
  unfolding up_to_date_def using drawn_unchanged[of s lc trs dates active ds]
  by (cases "cp_usage s"; cases "cp_models s") (simp_all add: renderConfig_def Let_def part_fields)

definition sample_config :: jsval where
  "sample_config = Obj [(''providers'', Obj [(''a'', Obj [(''pending_delete'', Bool True)]), (''b'', Obj [])]),
     (''models'', Obj [(''routes'', Obj [(''m'', Obj [(''providers'', Arr [Str ''b:2:5''])])])])]"

definition sample_page :: config_page where
  "sample_page = \<lparr>cp_config = Some (1, sample_config), cp_overlay = None, cp_audit = Obj [(''items'', Arr [Obj []])],
     cp_usage = None, cp_models = None, cp_diagnostics = None, cp_locale = ''en'', cp_previewStatus = Undef, cp_previewPinned = False,
     cp_pages = [], cp_forceConfig = True, cp_forceRoutes = False,
     cp_drawn = \<lparr>dn_config = None, dn_locale = [], dn_overlay = None, dn_usage = None, dn_models = None, dn_diagnostics = None\<rparr>,
     cp_snapshot = [], cp_summary = [], cp_proxy = [], cp_overlaySafety = [], cp_preview = [],
     cp_providersPanel = (True, []), cp_routesPanel = (True, ''old''), cp_mapPanel = (True, []), cp_auditPanel = (True, []), cp_log = []\<rparr>"

definition sample_edit :: dirty_state where
  "sample_edit = \<lparr>ds_dirty = {''#modelRoutesPanel''}, ds_coord = \<lparr>interactionVersion = 0, mutationDepth = 0, scopes = {}, nextScope = 0\<rparr>\<rparr>"

text \<open>
  Drawing the configuration page again changes nothing: whoever holds the focus and whatever is half edited at
  the second time, the page, the record of what was drawn and the calls of other renderers are those of the first.
\<close>

lemma config_drawn_once:
  assumes "cp_config s \<noteq> None"
  shows "renderConfig lc trs dates active' ds' (renderConfig lc trs dates active ds s) = renderConfig lc trs dates active ds s"
  using drawn_up_to_date[OF assms] by (rule up_to_date_stays)


section \<open>Panels left behind\<close>

text \<open>A panel of the page is drawn again only when the configuration changed.\<close>

lemma unchanged_panels:
  assumes "\<not> config_changed s"
  shows "cp_routesPanel (renderConfig lc trs dates active ds s) = cp_routesPanel s"
    "cp_auditPanel (renderConfig lc trs dates active ds s) = cp_auditPanel s"
  using assms by (simp_all add: renderConfig_def Let_def part_fields)

lemma held_routes_stay:
  assumes "\<not> cp_forceRoutes s" and "held active ds ''#modelRoutesPanel''"
  shows "cp_routesPanel (renderConfig lc trs dates active ds s) = cp_routesPanel s"
  using assms
  by (simp add: renderConfig_def Let_def part_fields render_config_panels_def renderGlobalProxy_def renderModelRoutes_def
      renderProviderModelMap_def renderConfigProviders_def renderAuditTrail_def paged_def split_beta)

text \<open>
  A change of language leaves a half-edited routes panel in the old one: the panel is passed over, the language counts
  as drawn, and the drawings after it pass the panel over, even once the edit is gone, until the configuration is drawn
  anew.
\<close>

lemma dirty_routes_keep_language:
  assumes "cp_config s \<noteq> None" and "\<not> cp_forceRoutes s" and "held active ds ''#modelRoutesPanel''"
  shows "let s1 = renderConfig lc trs dates active ds (s\<lparr>cp_locale := lang\<rparr>) in
     dn_locale (cp_drawn s1) = lang \<and> cp_routesPanel s1 = cp_routesPanel s
     \<and> cp_routesPanel (renderConfig lc trs dates active' ds' s1) = cp_routesPanel s"
proof -
  define s1 where "s1 = renderConfig lc trs dates active ds (s\<lparr>cp_locale := lang\<rparr>)"
  have "cp_routesPanel s1 = cp_routesPanel s"
    unfolding s1_def using assms by (subst held_routes_stay) simp_all
  moreover have "dn_locale (cp_drawn s1) = lang" by (simp add: s1_def renderConfig_fields)
  moreover have "\<not> config_changed s1" unfolding s1_def by (rule drawn_unchanged) (simp add: assms)
  ultimately show ?thesis by (simp add: unchanged_panels flip: s1_def)
qed

text \<open>A panel drawn before the audit trail leaves it, its events and its page alone.\<close>

definition audit_view :: "config_page \<Rightarrow> jsval \<times> panel \<times> jsval" where
  "audit_view s = (cp_audit s, cp_auditPanel s, lookup ''auditPage'' (cp_pages s))"

lemma audit_view_panels [simp]:
  "audit_view (renderGlobalProxy active ds s) = audit_view s" "audit_view (renderConfigProviders tr active ds s) = audit_view s"
  "audit_view (renderModelRoutes lc tr active ds s) = audit_view s" "audit_view (renderProviderModelMap lc tr s) = audit_view s"
  by (simp_all add: audit_view_def renderGlobalProxy_def renderConfigProviders_def renderModelRoutes_def
      renderProviderModelMap_def paged_def lookup_set_prop split_beta Let_def)

lemma audit_panel_view:
  "audit_view a = audit_view b \<Longrightarrow> cp_auditPanel (renderAuditTrail tr dates a) = cp_auditPanel (renderAuditTrail tr dates b)"
  by (simp add: audit_view_def renderAuditTrail_def paged_def page_of_def split_beta Let_def)

lemma panels_audit:
  "cp_auditPanel (render_config_panels lc tr dates active ds s) = cp_auditPanel (renderAuditTrail tr dates s)"
proof -
  let ?a = "s\<lparr>cp_snapshot := pretty (page_config s), cp_summary := config_summary tr (page_config s)\<rparr>"
  let ?b = "renderConfigProviders tr active ds (renderProviderModelMap lc tr (renderModelRoutes lc tr active ds (renderGlobalProxy active ds ?a)))"
  have "audit_view ?b = audit_view s"
    by (simp only: audit_view_panels) (simp add: audit_view_def)
  then have "cp_auditPanel (renderAuditTrail tr dates ?b) = cp_auditPanel (renderAuditTrail tr dates s)"
    by (rule audit_panel_view)
  then show ?thesis
    by (simp add: render_config_panels_def Let_def)
qed

lemma renderConfig_audit:
  "cp_auditPanel (renderConfig lc trs dates active ds s)
     = (if config_changed s then cp_auditPanel (renderAuditTrail (trs (cp_locale s)) dates s) else cp_auditPanel s)"
  by (simp add: renderConfig_def Let_def part_fields panels_audit)

text \<open>What a refresh does to the audit events, to the configuration and to the force flags.\<close>

lemma audit_put:
  "d_audit (put v (\<lambda>v s. s\<lparr>d_audit := v\<rparr>) s) = (if v = Undef then d_audit s else v)"
  "d_audit (put v (\<lambda>v s. s\<lparr>d_diagnostics := v\<rparr>) s) = d_audit s"
  "d_audit (put v (\<lambda>v s. s\<lparr>d_diagRecords := v\<rparr>) s) = d_audit s"
  by (simp_all add: put_def)

lemma audit_misc:
  "d_audit (force flags s) = d_audit s" "d_audit (log_event e s) = d_audit s" "d_audit (release_static s) = d_audit s"
  by (simp_all add: force_def log_event_def release_static_def)

lemma apply_static_audit:
  assumes "r ''audit'' \<noteq> Undef"
  shows "d_audit (apply_static f r allow s) = r ''audit''"
  using assms by (cases allow) (simp_all add: apply_static_def Let_def audit_put audit_misc)

lemma refresh_audit:
  assumes "''audit'' \<in> set (sf_selected f)" and "replies ''audit'' = Some audit" and "audit \<noteq> Undef"
  shows "d_audit (finishStaticRefresh f replies preserve r) = audit"
proof -
  have "static_result f replies ''audit'' = audit" using assms by (simp add: static_result_def)
  then show ?thesis
    using assms(3) by (simp add: finishStaticRefresh_def Let_def audit_misc apply_static_audit)
qed

lemma force_put: "(\<And>s. rf_force (h v s) = rf_force s) \<Longrightarrow> rf_force (put v h s) = rf_force s"
  by (simp add: put_def)

lemma force_misc:
  "rf_force (applyStatusPayload v s) = rf_force s" "rf_force (fst (acceptModelCapabilities v s)) = rf_force s"
  "rf_force (log_event e s) = rf_force s" "rf_force (release_static s) = rf_force s"
  by (simp_all add: applyStatusPayload_def acceptModelCapabilities_def log_event_def release_static_def Let_def)

lemma apply_static_force:
  "rf_force (apply_static f r False s) = rf_force s" "''config'' \<in> rf_force (apply_static f r True s)"
  by (simp_all add: apply_static_def Let_def force_put force_misc force_def config_flags_def)

lemma refresh_force:
  "shouldDefer (Some (sf_snapshot f)) (protected_now r) (coord_of r) \<Longrightarrow>
     rf_force (finishStaticRefresh f replies preserve r) = rf_force r"
  "\<not> shouldDefer (Some (sf_snapshot f)) (protected_now r) (coord_of r) \<Longrightarrow>
     ''config'' \<in> rf_force (finishStaticRefresh f replies preserve r)"
  by (simp_all add: finishStaticRefresh_def Let_def force_misc apply_static_force)

text \<open>
  C31. The audit trail waits for the configuration. A refresh stores the audit events it brings even when its
  configuration is put off because the operator is editing; but then it leaves the force flag as it was, and a
  drawing of the configuration page draws the events exactly when it draws the configuration: when the flag is set,
  the configuration is missing or another object than the one drawn last, or the language changed. Otherwise the
  panel keeps the old events. A refresh that is applied sets the flag, so that the next drawing shows them.
\<close>

theorem audit_waits_for_config:
  assumes "''audit'' \<in> set (sf_selected f)" and "replies ''audit'' = Some audit" and "audit \<noteq> Undef"
  shows "(let r' = finishStaticRefresh f replies preserve r in
       d_audit r' = audit
       \<and> (if shouldDefer (Some (sf_snapshot f)) (protected_now r) (coord_of r)
          then rf_force r' = rf_force r \<and> d_config r' = d_config r else ''config'' \<in> rf_force r'))
    \<and> cp_auditPanel (renderConfig lc trs dates active ds (s\<lparr>cp_audit := audit\<rparr>))
      = (if cp_forceConfig s \<or> cp_config s = None \<or> dn_config (cp_drawn s) \<noteq> map_option fst (cp_config s)
            \<or> cp_locale s \<noteq> dn_locale (cp_drawn s)
         then cp_auditPanel (renderAuditTrail (trs (cp_locale s)) dates (s\<lparr>cp_audit := audit\<rparr>)) else cp_auditPanel s)"
  using refresh_audit [where f = f and replies = replies and audit = audit, OF assms] refresh_force deferred_keeps_config
  by (auto simp: Let_def renderConfig_audit config_changed_def config_data_def)

theorem audit_waits_for_config_witness:
  "let f = \<lparr>sf_snapshot = snapshot coord_init, sf_selected = [''audit''], sf_includesConfig = False\<rparr>;
       audit = Obj [(''items'', Arr [])]; drawn = renderConfig string_le (\<lambda>l k a. k) (\<lambda>n. []) None sample_edit sample_page in
   d_audit (finishStaticRefresh f (\<lambda>d. Some audit) True sample_state) = audit
   \<and> cp_auditPanel (renderConfig string_le (\<lambda>l k a. k) (\<lambda>n. []) None sample_edit (drawn\<lparr>cp_audit := audit\<rparr>)) = cp_auditPanel drawn
   \<and> cp_auditPanel (renderConfig string_le (\<lambda>l k a. k) (\<lambda>n. []) None sample_edit (drawn\<lparr>cp_audit := audit, cp_forceConfig := True\<rparr>))
       = (True, ''No audit events recorded'')"
proof -
  define f where "f = \<lparr>sf_snapshot = snapshot coord_init, sf_selected = [''audit''], sf_includesConfig = False\<rparr>"
  define audit where "audit = Obj [(''items'', Arr [])]"
  define drawn where "drawn = renderConfig string_le (\<lambda>l k a. k) (\<lambda>n. []) None sample_edit sample_page"
  have "\<not> config_changed drawn" unfolding drawn_def by (rule drawn_unchanged) (simp add: sample_page_def)
  then have d: "\<not> (cp_forceConfig drawn \<or> cp_config drawn = None \<or> dn_config (cp_drawn drawn) \<noteq> map_option fst (cp_config drawn)
      \<or> cp_locale drawn \<noteq> dn_locale (cp_drawn drawn))"
    by (simp add: config_changed_def)
  have ok: "''audit'' \<in> set (sf_selected f)" "(\<lambda>d. Some audit) ''audit'' = Some audit" "audit \<noteq> Undef"
    by (simp_all add: f_def audit_def)
  note w = audit_waits_for_config [where replies = "\<lambda>d. Some audit", OF ok, of True sample_state string_le "\<lambda>l k a. k" "\<lambda>n. []" None sample_edit]
  have a: "cp_auditPanel (renderAuditTrail (\<lambda>k a. k) (\<lambda>n. []) (drawn\<lparr>cp_forceConfig := True, cp_audit := audit\<rparr>))
      = (True, ''No audit events recorded'')"
    by (simp add: renderAuditTrail_def audit_def)
  have o: "drawn\<lparr>cp_audit := audit, cp_forceConfig := True\<rparr> = drawn\<lparr>cp_forceConfig := True, cp_audit := audit\<rparr>" by simp
  show ?thesis
    unfolding Let_def f_def [symmetric] audit_def [symmetric] drawn_def [symmetric]
    using w [of drawn] w [of "drawn\<lparr>cp_forceConfig := True\<rparr>"] d a by (auto simp: Let_def o)
qed

text \<open>A pager of the panel, too, draws the list that arrived.\<close>

lemma audit_drawn_when_asked:
  "arr_or_empty (get audit ''items'') = [] \<Longrightarrow>
     cp_auditPanel (renderAuditTrail tr dates (s\<lparr>cp_audit := audit\<rparr>)) = (True, ''No audit events recorded'')"
  by (simp add: renderAuditTrail_def)

text \<open>
  The summary and the tiles disagree while a deletion is pending: the summary leaves the provider out, the tiles, the
  hint of the routes and the pager count it.
\<close>

lemma pending_provider_only_in_tiles:
  assumes "truthy (get (get provs name) ''pending_delete'')" and "name \<in> set (sorted_names provs)"
  shows "name \<notin> set (kept_names provs)" "length (kept_names provs) < length (sorted_names provs)"
proof -
  show "name \<notin> set (kept_names provs)" using assms by (simp add: kept_names_def)
  show "length (kept_names provs) < length (sorted_names provs)"
    unfolding kept_names_def using assms by (intro length_filter_less) auto
qed

section \<open>The pager\<close>

text \<open>A click on the next page draws that page, even into a panel that holds the focus.\<close>

lemma provider_pager_turns:
  fixes s :: config_page
  defines "provs \<equiv> obj_or_empty (get (page_config s) ''providers'')"
  assumes "lookup ''configProvidersPage'' (cp_pages s) = jnum (of_nat k)" and "has_own ''configProvidersPage'' (cp_pages s)"
    and "8 * (k + 1) < length (sorted_names provs)"
  shows "cp_providersPanel (bindPanelPagination lc trs dates active ds ''configProvidersPage'' Next s)
     = (False, providers_grid (trs (cp_locale s)) provs (fst (paginate (sorted_names provs) (int k + 1) 8)))"
proof -
  let ?s1 = "s\<lparr>cp_pages := set_prop ''configProvidersPage'' (jnum (of_nat k + 1)) (cp_pages s)\<rparr>"
  have click: "changePanelPage (Some (cp_pages s)) ''configProvidersPage'' Next =
      (Some (set_prop ''configProvidersPage'' (jnum (of_nat k + 1)) (cp_pages s)), True)"
    using assms by (cases k) (simp_all add: changePanelPage_def num_or_zero_def jor_def Let_def)
  have "page_of ''configProvidersPage'' ?s1 = int k + 1"
    using of_nat_0_le_iff[of k, where 'a = rat] by (simp add: page_of_def num_or_zero_def lookup_set_prop jor_def)
  moreover have "sorted_names provs \<noteq> []" using assms by auto
  moreover have "page_of key (?s1\<lparr>cp_forceConfig := True\<rparr>) = page_of key ?s1"
      "page_config (?s1\<lparr>cp_forceConfig := True\<rparr>) = page_config s" for key
    by (simp_all add: page_of_def page_config_def)
  ultimately show ?thesis
    by (simp add: bindPanelPagination_def click renderConfigProviders_def paged_def split_beta Let_def flip: provs_def)
      (simp add: CONFIG_PROVIDERS_PAGE_SIZE_def)
qed

end
