(* ===== verification/JsonRoundTrip.thy ===== *)
theory JsonRoundTrip
  imports RuntimeRefresh JsonParse JsNumText
begin

text \<open>
  \<open>JSON.parse(JSON.stringify(v))\<close> gives \<open>v\<close> back, for values of null, booleans, integers, strings of any characters,
  arrays and objects whose names are distinct and no array indices.
\<close>

section \<open>Strings\<close>

lemma hex_value_digit: "0 \<le> d \<Longrightarrow> d < 16 \<Longrightarrow> hex_value (hex_digit d) = Some d"
  by (auto simp: hex_digit_def hex_value_def digit_char_def Let_def code_unit_char_of)

lemma code_unit_byte: "0 \<le> code_unit c" "code_unit c < 256"
  by (simp_all add: of_char_def)

lemma char_of_code_unit: "char_of (code_unit c) = c"
  by (rule char_of_char)

lemma special_chars:
  "char_of (34 :: int) = CHR 0x22" "char_of (92 :: int) = CHR 0x5C"
  by code_simp+

lemma code_unit_eq: "code_unit c = n \<Longrightarrow> c = char_of n"
  by (metis char_of_char)

lemma escape_control:
  "0 \<le> n \<Longrightarrow> n < 32 \<Longrightarrow> escape_at (''u00'' @ [hex_digit (n div 16), hex_digit (n mod 16)] @ s) = Some ([char_of n], s)"
proof -
  assume n: "0 \<le> n" "n < 32"
  then have "0 \<le> n div 16" "n div 16 < 16" "0 \<le> n mod 16" "n mod 16 < 16" by simp_all
  note d = hex_value_digit[OF this(1,2)] hex_value_digit[OF this(3,4)]
  have "hex_value CHR ''0'' = Some 0" by code_simp
  then show ?thesis using n by (simp add: escape_at_def hex4_def d code_point_def)
qed

lemma string_rest_char:
  "string_rest (json_char c @ s) = map_option (\<lambda>(x, q). (c # x, q)) (string_rest s)"
proof -
  define n where "n = code_unit c"
  have c: "c = char_of n" by (simp add: n_def)
  have range: "0 \<le> n" "n < 256" by (simp_all add: n_def code_unit_byte)
  consider (escaped) e where "json_char c = [CHR 0x5C, e]" "escape_at (e # s) = Some ([c], s)"
    | (control) "n < 32" "json_char c = CHR 0x5C # ''u00'' @ [hex_digit (n div 16), hex_digit (n mod 16)]"
    | (raw) "json_char c = [c]" "c \<noteq> CHR 0x22" "c \<noteq> CHR 0x5C" "\<not> code_unit c < 32"
  proof -
    have "escape_at (CHR 0x22 # s) = Some ([char_of (34 :: int)], s)" "escape_at (CHR 0x5C # s) = Some ([char_of (92 :: int)], s)"
      "escape_at (CHR ''b'' # s) = Some ([char_of (8 :: int)], s)" "escape_at (CHR ''t'' # s) = Some ([char_of (9 :: int)], s)"
      "escape_at (CHR ''n'' # s) = Some ([char_of (10 :: int)], s)" "escape_at (CHR ''f'' # s) = Some ([char_of (12 :: int)], s)"
      "escape_at (CHR ''r'' # s) = Some ([char_of (13 :: int)], s)"
      by (simp_all add: escape_at_def json_escape_def Let_def special_chars)
    note escapes = this
    have jc: "json_char c = (if n = 34 then [CHR 0x5C, CHR 0x22] else if n = 92 then [CHR 0x5C, CHR 0x5C]
      else if n = 8 then [CHR 0x5C, CHR ''b''] else if n = 9 then [CHR 0x5C, CHR ''t''] else if n = 10 then [CHR 0x5C, CHR ''n'']
      else if n = 12 then [CHR 0x5C, CHR ''f''] else if n = 13 then [CHR 0x5C, CHR ''r'']
      else if n < 32 then CHR 0x5C # ''u00'' @ [hex_digit (n div 16), hex_digit (n mod 16)] else [c])"
      by (simp only: json_char_def Let_def n_def)
    consider "n = 34" | "n = 92" | "n = 8" | "n = 9" | "n = 10" | "n = 12" | "n = 13"
      | "n \<notin> {34, 92, 8, 9, 10, 12, 13}" by blast
    then show thesis
    proof cases
      case 8
      moreover have "c = CHR 0x22 \<Longrightarrow> n = 34" "c = CHR 0x5C \<Longrightarrow> n = 92" by (simp_all add: n_def)
      ultimately show thesis using that(2,3) jc by (cases "n < 32") (auto simp flip: n_def)
    qed (use escapes that(1) jc in \<open>simp_all add: c\<close>)
  qed
  then show ?thesis
  proof cases
    case control
    then show ?thesis
      using escape_control[OF range(1) control(1), of s] by (simp add: c)
  qed (auto split: option.splits)
qed

lemma string_rest_json: "string_rest (concat (map json_char s) @ CHR 0x22 # r) = Some (s, r)"
  by (induction s) (simp_all add: string_rest_char)

section \<open>Numbers\<close>

text \<open>What may follow a value inside a larger text, or its end.\<close>

definition value_end :: "string \<Rightarrow> bool" where
  "value_end r \<longleftrightarrow> r = [] \<or> hd r \<in> set [CHR '','', CHR '']'', CHR 0x7D]"

lemma value_end_not_digit: "value_end r \<Longrightarrow> r = [] \<or> \<not> is_digit (hd r) \<and> hd r \<noteq> CHR ''.'' \<and> hd r \<noteq> CHR ''e'' \<and> hd r \<noteq> CHR ''E''"
  by (auto simp: value_end_def is_digit_def)

lemma digits_prefix_append:
  "\<forall>c \<in> set ds. is_digit c \<Longrightarrow> r = [] \<or> \<not> is_digit (hd r) \<Longrightarrow> digits_prefix (ds @ r) = (ds, r)"
  by (cases r) (auto simp: digits_prefix_def)

lemma nat_to_str_no_zero: "0 < n \<Longrightarrow> hd (nat_to_str n) \<noteq> CHR ''0''"
proof (induction n rule: nat_to_str.induct)
  case (1 n)
  show ?case
  proof (cases "n < 10")
    case True
    have "code_unit (digit_char n) = 48 + n" using 1 True by (simp add: code_unit_digit_char)
    then show ?thesis using 1 True by (subst nat_to_str.simps) auto
  next
    case False
    then have "nat_to_str (n div 10) \<noteq> []" by (subst nat_to_str.simps) simp
    moreover have "hd (nat_to_str (n div 10)) \<noteq> CHR ''0''" using 1 False by simp
    ultimately show ?thesis using False by (subst nat_to_str.simps) simp
  qed
qed

lemma json_number_int:
  assumes "value_end r"
  shows "json_number (num_to_str (Fin (of_int i)) @ r) = Some (Fin (of_int i), r)"
proof -
  define ds where "ds = nat_to_str \<bar>i\<bar>"
  have digits: "\<forall>c \<in> set ds. is_digit c" "ds \<noteq> []"
    using nat_to_str_digits[of "\<bar>i\<bar>"] by (auto simp: ds_def digit_string_def list_all_iff)
  have zero: "hd ds = CHR ''0'' \<Longrightarrow> length ds = 1"
  proof -
    assume "hd ds = CHR ''0''"
    then have "\<bar>i\<bar> = 0" using nat_to_str_no_zero[of "\<bar>i\<bar>"] by (auto simp: ds_def)
    then show "length ds = 1" by (simp add: ds_def nat_to_str.simps)
  qed
  have printed: "num_to_str (Fin (of_int i)) = (if i < 0 then ''-'' else []) @ ds"
    unfolding num_to_str_int ds_def ..
  have r: "r = [] \<or> \<not> is_digit (hd r) \<and> hd r \<noteq> CHR ''.'' \<and> hd r \<noteq> CHR ''e'' \<and> hd r \<noteq> CHR ''E''"
    using assms by (rule value_end_not_digit)
  have split: "digits_prefix (ds @ r) = (ds, r)" using digits r by (auto intro: digits_prefix_append)
  have "is_digit (hd ds)" using digits by simp
  then have first: "hd ds \<noteq> CHR ''-''" by (auto simp: is_digit_def)
  have "str_to_num ((if i < 0 then ''-'' else []) @ ds) = Fin (of_int i)"
    using str_to_num_int[of i] unfolding printed .
  then show ?thesis
    using digits r split zero first
    unfolding printed by (cases ds; cases r) (auto simp: json_number_def Let_def)
qed

section \<open>Values\<close>

fun plain_value :: "jsval \<Rightarrow> bool" where
  "plain_value Undef = False"
| "plain_value (Num n) = (case n of Fin q \<Rightarrow> of_int \<lfloor>q\<rfloor> = q | _ \<Rightarrow> False)"
| "plain_value (Arr xs) = (\<forall>x \<in> set xs. plain_value x)"
| "plain_value (Obj kvs) = (distinct (map fst kvs) \<and> (\<forall>(k, v) \<in> set kvs. \<not> is_array_index k \<and> plain_value v))"
| "plain_value v = True"

definition printed :: "jsval \<Rightarrow> string" where
  "printed v = (case json_text v of Some s \<Rightarrow> s | None \<Rightarrow> [])"

lemma plain_printed: "plain_value v \<Longrightarrow> json_text v = Some (printed v)"
  by (cases v) (auto simp: printed_def)

lemma printed_Arr:
  assumes "\<forall>x \<in> set xs. plain_value x"
  shows "printed (Arr xs) = [CHR ''[''] @ js_join '','' (map printed xs) @ '']''"
proof -
  have "map (\<lambda>x. case json_text x of None \<Rightarrow> ''null'' | Some s \<Rightarrow> s) xs = map printed xs"
    using assms by (simp add: plain_printed)
  then show ?thesis by (simp only: printed_def[of "Arr xs"] json_text.simps option.case)
qed

lemma own_entries_plain: "\<forall>e \<in> set es. \<not> is_array_index (fst e) \<Longrightarrow> own_entries es = es"
  by (simp add: own_entries_def filter_False filter_True)

definition member_text :: "string \<times> jsval \<Rightarrow> string" where
  "member_text e = json_string (fst e) @ '':'' @ printed (snd e)"

lemma printed_Obj:
  "\<forall>(k, v) \<in> set kvs. \<not> is_array_index k \<and> plain_value v \<Longrightarrow>
     printed (Obj kvs) = [CHR 0x7B] @ js_join '','' (map member_text kvs) @ [CHR 0x7D]"
proof -
  assume *: "\<forall>(k, v) \<in> set kvs. \<not> is_array_index k \<and> plain_value v"
  have "own_entries (map (\<lambda>(k, v). (k, json_text v)) kvs) = map (\<lambda>(k, v). (k, json_text v)) kvs"
    by (rule own_entries_plain) (use * in auto)
  moreover have "List.map_filter (\<lambda>(k, t). map_option (\<lambda>s. json_string k @ '':'' @ s) t) (map (\<lambda>(k, v). (k, json_text v)) kvs)
      = map member_text kvs"
    using * by (induction kvs) (auto simp: member_text_def plain_printed List.map_filter_simps)
  ultimately show ?thesis by (simp add: printed_def)
qed

text \<open>A printed value starts with a character that is no space and closes nothing.\<close>

definition value_start :: "string \<Rightarrow> bool" where
  "value_start s \<longleftrightarrow> s \<noteq> [] \<and> \<not> is_json_space (hd s) \<and> hd s \<noteq> CHR '']'' \<and> hd s \<noteq> CHR 0x7D"

lemma digit_start: "is_digit c \<Longrightarrow> \<not> is_json_space c \<and> c \<noteq> CHR '']'' \<and> c \<noteq> CHR 0x7D \<and> c \<noteq> CHR ''['' \<and> c \<noteq> CHR 0x7B
     \<and> c \<noteq> CHR 0x22 \<and> c \<noteq> CHR ''n'' \<and> c \<noteq> CHR ''t'' \<and> c \<noteq> CHR ''f''"
  by (auto simp: is_digit_def is_json_space_def)

lemma int_hd:
  "num_to_str (Fin (of_int i)) \<noteq> [] \<and> (is_digit (hd (num_to_str (Fin (of_int i)))) \<or> hd (num_to_str (Fin (of_int i))) = CHR ''-'')"
proof -
  have "digit_string (nat_to_str \<bar>i\<bar>)" by (simp add: nat_to_str_digits)
  then show ?thesis unfolding num_to_str_int by (auto simp: digit_string_def)
qed

lemma plain_num: "plain_value (Num n) \<Longrightarrow> \<exists>i. n = Fin (of_int i)"
proof (cases n)
  case (Fin q)
  assume "plain_value (Num n)"
  then have "of_int \<lfloor>q\<rfloor> = q" using Fin by (simp del: of_int_floor_cancel)
  then have "n = Fin (of_int \<lfloor>q\<rfloor>)" using Fin by (simp del: of_int_floor_cancel)
  then show ?thesis ..
qed auto

lemma printed_num: "printed (Num (Fin q)) = num_to_str (Fin q)"
  by (simp only: printed_def json_text.simps is_finite.simps if_True option.case)

lemma value_start_printed: "plain_value v \<Longrightarrow> value_start (printed v)"
proof (cases v)
  case (Num n)
  assume "plain_value v"
  then obtain i where "n = Fin (of_int i)" using plain_num[of n] Num by auto
  then have "printed v = num_to_str (Fin (of_int i))" by (simp only: Num printed_num)
  then show ?thesis using int_hd[of i] digit_start[of "hd (printed v)"]
    by (auto simp: value_start_def is_json_space_def simp del: num_to_str.simps)
qed (auto simp: printed_def value_start_def is_json_space_def json_string_def)

lemma skip_value_start: "value_start s \<Longrightarrow> skip_space (s @ r) = s @ r"
  by (cases s) (simp_all add: value_start_def skip_space_def)

lemma value_start_hd: "value_start s \<Longrightarrow> \<not> starts_with '']'' (s @ r) \<and> \<not> starts_with [CHR 0x7D] (s @ r)"
  by (cases s) (auto simp: value_start_def)

lemma json_elems_printed:
  assumes "\<forall>x \<in> set xs. \<forall>q. value_end q \<longrightarrow> json_value (printed x @ q) = Some (x, q)" and "xs \<noteq> []"
  shows "json_elems (js_join '','' (map printed xs) @ CHR '']'' # r) = Some (xs, r)"
  using assms
proof (induction xs)
  case (Cons x xs)
  have comma: "skip_space (CHR '','' # s) = CHR '','' # s" "skip_space (CHR '']'' # s) = CHR '']'' # s" for s
    by (simp_all add: skip_space_def is_json_space_def)
  show ?case
  proof (cases xs)
    case Nil
    have "json_value (printed x @ CHR '']'' # r) = Some (x, CHR '']'' # r)" using Cons.prems(1) by (simp add: value_end_def)
    then show ?thesis using guard_never_rejects(1)[of "printed x @ CHR '']'' # r"] by (simp add: Nil json_elems.simps comma)
  next
    case (Cons y ys)
    let ?rest = "js_join '','' (map printed xs) @ CHR '']'' # r"
    have "json_value (printed x @ CHR '','' # ?rest) = Some (x, CHR '','' # ?rest)"
      using Cons.prems(1) by (simp add: value_end_def)
    moreover have "json_elems ?rest = Some (xs, r)" using Cons.IH Cons.prems Cons by simp
    ultimately show ?thesis using Cons guard_never_rejects(1)[of "printed x @ CHR '','' # ?rest"]
      by (simp add: json_elems.simps[of "printed x @ CHR '','' # _"] comma)
  qed
qed simp

lemma json_members_printed:
  assumes "\<forall>(k, v) \<in> set kvs. plain_value v \<and> (\<forall>q. value_end q \<longrightarrow> json_value (printed v @ q) = Some (v, q))" and "kvs \<noteq> []"
  shows "json_members (js_join '','' (map member_text kvs) @ CHR 0x7D # r) = Some (kvs, r)"
  using assms
proof (induction kvs)
  case (Cons e kvs)
  obtain k v where e: "e = (k, v)" by (cases e)
  have signs: "skip_space (CHR '','' # s) = CHR '','' # s" "skip_space (CHR 0x7D # s) = CHR 0x7D # s"
      "skip_space (CHR '':'' # s) = CHR '':'' # s" "skip_space (CHR 0x22 # s) = CHR 0x22 # s" for s
    by (simp_all add: skip_space_def is_json_space_def)
  have member: "json_members (member_text e @ q) =
      (case q of c # q1 \<Rightarrow> if c = CHR 0x7D then Some ([e], q1)
          else if c = CHR '','' then map_option (\<lambda>(es, q2). (e # es, q2)) (json_members q1) else None
        | [] \<Rightarrow> None)" if "value_end q" "skip_space q = q" for q
  proof -
    let ?s = "concat (map json_char k) @ CHR 0x22 # CHR '':'' # printed v @ q"
    have v: "json_value (printed v @ q) = Some (v, q)" using Cons.prems(1) that(1) by (simp add: e)
    have "shorter (CHR 0x22 # ?s) (Some (k, CHR '':'' # printed v @ q)) = Some (k, CHR '':'' # printed v @ q)"
      "shorter (CHR 0x22 # ?s) (Some (v, q)) = Some (v, q)"
      by (simp_all add: shorter_def)
    then show ?thesis
      by (subst json_members.simps) (simp add: e member_text_def json_string_def signs string_rest_json v that(2) split: list.split)
  qed
  show ?case
  proof (cases kvs)
    case Nil
    then show ?thesis using member[of "CHR 0x7D # r"] by (simp add: value_end_def signs)
  next
    case (Cons f fs)
    let ?rest = "js_join '','' (map member_text kvs) @ CHR 0x7D # r"
    have "json_members ?rest = Some (kvs, r)" using Cons.IH Cons.prems Cons by simp
    then show ?thesis using member[of "CHR '','' # ?rest"] Cons by (simp add: value_end_def signs)
  qed
qed simp

lemma json_value_printed: "plain_value v \<Longrightarrow> value_end r \<Longrightarrow> json_value (printed v @ r) = Some (v, r)"
proof (induction v arbitrary: r)
  case (Num n)
  then obtain i where n: "n = Fin (of_int i)" using plain_num by blast
  obtain c s where cs: "num_to_str (Fin (of_int i)) = c # s" and c: "is_digit c \<or> c = CHR ''-''"
    using int_hd[of i] by (cases "num_to_str (Fin (rat_of_int i))") auto
  have "skip_space (c # s @ r) = c # s @ r" using c digit_start[of c] by (auto simp: skip_space_def is_json_space_def)
  moreover have "json_number (c # s @ r) = Some (Fin (of_int i), r)" using json_number_int[OF Num.prems(2), of i] by (simp add: cs del: num_to_str.simps)
  moreover have "c \<noteq> CHR 0x22" "c \<noteq> CHR ''[''" "c \<noteq> CHR 0x7B" "c \<noteq> CHR ''n''" "c \<noteq> CHR ''t''" "c \<noteq> CHR ''f''"
    using c digit_start[of c] by auto
  moreover have "printed (Num n) @ r = c # s @ r" by (simp only: n printed_num cs append_Cons)
  ultimately show ?case by (simp only: n) (simp add: json_value.simps[of "c # s @ r"])
next
  case (Arr xs)
  show ?case
  proof (cases xs)
    case Nil
    then show ?thesis by (simp add: printed_def json_value.simps skip_space_def is_json_space_def)
  next
    case (Cons x ys)
    have "value_start (printed x)" using Arr.prems Cons by (simp add: value_start_printed)
    then have *: "\<not> starts_with '']'' (skip_space (js_join '','' (map printed xs) @ CHR '']'' # r))"
      using value_start_hd[of "printed x"] skip_value_start[of "printed x"] Cons by (cases ys) auto
    have "json_elems (js_join '','' (map printed xs) @ CHR '']'' # r) = Some (xs, r)"
      using Arr Cons by (intro json_elems_printed) auto
    then show ?thesis using Arr.prems * by (simp add: printed_Arr json_value.simps skip_space_def is_json_space_def)
  qed
next
  case (Obj kvs)
  show ?case
  proof (cases kvs)
    case Nil
    then show ?thesis by (simp add: printed_def json_value.simps skip_space_def is_json_space_def own_entries_def List.map_filter_simps)
  next
    case (Cons e es)
    then have *: "\<not> starts_with [CHR 0x7D] (skip_space (js_join '','' (map member_text kvs) @ CHR 0x7D # r))"
      by (cases es) (simp_all add: member_text_def json_string_def skip_space_def is_json_space_def)
    have "json_members (js_join '','' (map member_text kvs) @ CHR 0x7D # r) = Some (kvs, r)"
      using Obj Cons by (intro json_members_printed) fastforce+
    then show ?thesis using Obj.prems * by (simp add: printed_Obj json_value.simps skip_space_def is_json_space_def)
  qed
qed (auto simp: printed_def json_value.simps skip_space_def is_json_space_def json_string_def string_rest_json)

section \<open>There and back\<close>

lemma set_prop_new: "k \<notin> fst ` set kvs \<Longrightarrow> set_prop k v kvs = kvs @ [(k, v)]"
  by (induction kvs) auto

lemma foldl_set_prop:
  "distinct (map fst kvs) \<Longrightarrow> fst ` set acc \<inter> fst ` set kvs = {} \<Longrightarrow> foldl (\<lambda>acc (k, v). set_prop k v acc) acc kvs = acc @ kvs"
proof (induction kvs arbitrary: acc)
  case (Cons e kvs)
  obtain k v where e: "e = (k, v)" by (cases e)
  then have "set_prop k v acc = acc @ [(k, v)]" using Cons.prems by (intro set_prop_new) auto
  then show ?case using Cons e by (auto simp: image_iff)
qed simp

lemma dedupe_plain: "plain_value v \<Longrightarrow> dedupe v = v"
proof (induction v)
  case (Arr xs)
  then show ?case by (simp add: map_idI)
next
  case (Obj kvs)
  have "map (\<lambda>(k, v). (k, dedupe v)) kvs = kvs"
    using Obj by (intro map_idI) fastforce
  then show ?case using Obj.prems by (simp add: foldl_set_prop)
qed auto

lemma json_round_trip: "plain_value v \<Longrightarrow> json_parse (printed v) = Some v"
  using json_value_printed[of v "[]"] by (simp add: json_parse_def value_end_def skip_space_def dedupe_plain)

end
