(* ===== verification/AddProvider.thy ===== *)
theory AddProvider
  imports ConfigForms BrandIcons JsonParse RuntimeRefresh JsonRoundTrip
begin

text \<open>
  The dialogs of \<open>app.js\<close> and the one that adds a provider: the confirmation, whose promises are numbered in the
  order they are made; the form modal; the form with its presets; what is read out of pasted text, each regular
  expression as a matcher tried at every position; the fields it fills. Elements are numbers, \<open>None\<close> is nothing focused.
\<close>

section \<open>The confirmation dialog\<close>

record confirm_dialog =
  cf_open :: bool
  cf_title :: string
  cf_message :: string
  cf_accept :: string
  cf_resolve :: "nat option"
  cf_lastFocus :: "nat option"
  cf_focus :: "nat option"
  cf_next :: nat
  cf_answers :: "(nat \<times> bool) list"
  cf_notices :: "string list"

definition ACCEPT_BUTTON :: nat where "ACCEPT_BUTTON = 0"

definition or_text :: "string \<Rightarrow> string \<Rightarrow> string" where
  "or_text a b = (if a \<noteq> [] then a else b)"

definition answer :: "bool \<Rightarrow> confirm_dialog \<Rightarrow> confirm_dialog" where
  "answer b d = (case cf_resolve d of None \<Rightarrow> d | Some p \<Rightarrow> d\<lparr>cf_answers := cf_answers d @ [(p, b)], cf_resolve := None\<rparr>)"

text \<open>The promise returned is the number \<open>cf_next\<close>; a dialog that lacks an element answers at once.\<close>

definition openConfirmDialog ::
  "translator \<Rightarrow> bool \<Rightarrow> string \<Rightarrow> string \<Rightarrow> string \<Rightarrow> confirm_dialog \<Rightarrow> confirm_dialog" where
  "openConfirmDialog tr there title message acceptLabel d =
     (let p = cf_next d; d0 = d\<lparr>cf_next := p + 1\<rparr> in
      if \<not> there then d0\<lparr>cf_notices := cf_notices d @ [tr ''notice.confirm_unavailable'' []], cf_answers := cf_answers d @ [(p, False)]\<rparr>
      else (answer False d0)\<lparr>cf_lastFocus := cf_focus d, cf_title := or_text title (tr ''confirm.title_default'' []),
             cf_message := or_text message (tr ''confirm.message_default'' []), cf_accept := acceptLabel, cf_open := True,
             cf_focus := Some ACCEPT_BUTTON, cf_resolve := Some p\<rparr>)"

definition closeConfirmDialog :: "bool \<Rightarrow> confirm_dialog \<Rightarrow> confirm_dialog" where
  "closeConfirmDialog accepted d =
     (let d1 = answer accepted (d\<lparr>cf_open := False\<rparr>)
      in d1\<lparr>cf_focus := (if cf_lastFocus d1 \<noteq> None then cf_lastFocus d1 else cf_focus d1), cf_lastFocus := None\<rparr>)"

section \<open>The form modal\<close>

record form_modal =
  fm_open :: bool
  fm_title :: string
  fm_subtitle :: string
  fm_body :: string
  fm_classes :: "string set"
  fm_lastFocus :: "nat option"
  fm_focus :: "nat option"

text \<open>\<open>first\<close> is the first field or button of the new body, if it has one.\<close>

definition openFormModal :: "bool \<Rightarrow> string \<Rightarrow> string \<Rightarrow> string \<Rightarrow> nat option \<Rightarrow> form_modal \<Rightarrow> form_modal" where
  "openFormModal there title subtitle body first m =
     (if \<not> there then m
      else m\<lparr>fm_lastFocus := fm_focus m, fm_title := title, fm_subtitle := subtitle, fm_body := body, fm_open := True,
             fm_focus := (if first \<noteq> None then first else fm_focus m)\<rparr>)"

definition closeFormModal :: "form_modal \<Rightarrow> form_modal" where
  "closeFormModal m =
     m\<lparr>fm_open := False, fm_classes := fm_classes m - {''is-model-map-modal'', ''is-format-path-modal''},
       fm_focus := (if fm_lastFocus m \<noteq> None then fm_lastFocus m else fm_focus m), fm_lastFocus := None\<rparr>"

section \<open>Presets and the form\<close>

definition preset :: "string \<Rightarrow> string \<Rightarrow> string \<Rightarrow> string \<Rightarrow> string \<Rightarrow> rat \<Rightarrow> jsval" where
  "preset name base_url format label env_var priority =
     Obj [(''name'', Str name), (''base_url'', Str base_url), (''format'', Str format), (''label'', Str label),
       (''env_var'', Str env_var), (''priority'', jnum priority)]"

definition PROVIDER_PRESETS :: "jsval list" where
  "PROVIDER_PRESETS =
    [preset ''openai'' ''https://api.openai.com'' ''chat_completions'' ''OpenAI'' ''OPENAI_API_KEY'' 10,
     preset ''anthropic'' ''https://api.anthropic.com'' ''anthropic_messages'' ''Anthropic'' ''ANTHROPIC_API_KEY'' 10,
     preset ''google'' ''https://generativelanguage.googleapis.com'' ''google_generate'' ''Gemini (Google AI)'' ''GEMINI_API_KEY'' 8,
     preset ''deepseek'' ''https://api.deepseek.com'' ''chat_completions'' ''DeepSeek'' ''DEEPSEEK_API_KEY'' 8,
     preset ''groq'' ''https://api.groq.com/openai'' ''chat_completions'' ''Groq'' ''GROQ_API_KEY'' 7,
     preset ''openrouter'' ''https://openrouter.ai/api'' ''chat_completions'' ''OpenRouter'' ''OPENROUTER_API_KEY'' 6,
     preset ''xai'' ''https://api.x.ai'' ''chat_completions'' ''xAI'' ''XAI_API_KEY'' 7,
     preset ''mistral'' ''https://api.mistral.ai'' ''chat_completions'' ''Mistral'' ''MISTRAL_API_KEY'' 7,
     preset ''siliconflow'' ''https://api.siliconflow.cn'' ''chat_completions'' ''SiliconFlow'' ''SILICONFLOW_API_KEY'' 6,
     preset ''moonshot'' ''https://api.moonshot.cn'' ''chat_completions'' ''Moonshot'' ''MOONSHOT_API_KEY'' 6,
     preset ''together'' ''https://api.together.xyz'' ''chat_completions'' ''Together'' ''TOGETHER_AI_API_KEY'' 6]"

text \<open>The attribute of a chip is the printed preset between single quotes.\<close>

definition preset_attr :: "jsval \<Rightarrow> string" where
  "preset_attr p = (case json_text p of Some s \<Rightarrow> s | None \<Rightarrow> ''undefined'')"

definition preset_chip :: "jsval \<Rightarrow> string" where
  "preset_chip p = (''<button type=\"button\" class=\"provider-preset-chip\" data-preset='' @ [CHR 0x27] @
     preset_attr p @ [CHR 0x27] @ '' title=\"Fill from '' @ (escapeHtml (get p ''label'')) @
     '' preset\">'' @ (escapeHtml (get p ''label'')) @ ''</button>'')"

definition addProviderModalBody :: "translator \<Rightarrow> string" where
  "addProviderModalBody tr = (nl 6 @ ''<form id=\"addProviderModalForm\" class=\"provider-create-form\">'' @ nl 8 @
     ''<div class=\"provider-preset-section\">'' @ nl 10 @
     ''<span class=\"provider-preset-label\">Quick fill:</span>'' @ nl 10 @
     ''<div class=\"provider-preset-chips\">'' @ (concat (map preset_chip PROVIDER_PRESETS)) @
     ''</div>'' @ nl 10 @ ''<button type=\"button\" class=\"provider-preset-chip\"'' @
     '' id=\"addProviderPasteBtn\" title=\"Read clipboard and auto-fill URL & key\">'' @
     [CHR 0xF0, CHR 0x9F, CHR 0x93, CHR 0x8B] @ '' Paste & Auto-fill</button>'' @ nl 8 @
     ''</div>'' @ nl 8 @ ''<label class=\"field form-field-inline\">'' @ nl 10 @
     ''<span>Provider name</span>'' @ nl 10 @
     ''<input class=\"control\" name=\"name\" required placeholder=\"my-provider\"'' @
     '' autocomplete=\"off\" />'' @ nl 8 @ ''</label>'' @ nl 8 @
     ''<div class=\"form-row-2 provider-main-fields\">'' @ nl 10 @
     ''<label class=\"field form-field-inline\">'' @ nl 12 @ ''<span>Base URL</span>'' @ nl 12 @
     ''<input class=\"control\" name=\"base_url\" required'' @
     '' placeholder=\"https://api.example.com/v1\" autocomplete=\"off\" />'' @ nl 10 @
     ''</label>'' @ nl 10 @ ''<label class=\"field form-field-inline\">'' @ nl 12 @
     ''<span>API key</span>'' @ nl 12 @
     ''<input class=\"control\" name=\"key\" type=\"password\" required'' @
     '' placeholder=\"sk-...\" autocomplete=\"off\" />'' @ nl 10 @ ''</label>'' @ nl 8 @
     ''</div>'' @ nl 8 @ ''<label class=\"field form-field-inline\">'' @ nl 10 @ ''<span>'' @
     (esc (tr ''form.site_url'' [])) @ ''<span class=\"help-tip\" data-tip=\"'' @
     (esc (tr ''form.site_url_tip'' [])) @ ''\">?</span></span>'' @ nl 10 @
     ''<input class=\"control\" name=\"site_url\" type=\"url\"'' @
     '' placeholder=\"https://provider.example.com\" autocomplete=\"off\" />'' @ nl 8 @
     ''</label>'' @ nl 8 @ ''<div class=\"form-row-2\">'' @ nl 10 @
     ''<label class=\"field form-field-inline\">'' @ nl 12 @ ''<span>Upstream format</span>'' @
     nl 12 @ ''<select class=\"control\" name=\"format\">'' @ nl 14 @
     ''<option value=\"auto\">Auto detect</option>'' @ nl 14 @
     ''<option value=\"chat_completions\" selected>Chat Completions</option>'' @ nl 14 @
     ''<option value=\"responses\">Responses</option>'' @ nl 14 @
     ''<option value=\"anthropic_messages\">Anthropic Messages</option>'' @ nl 14 @
     ''<option value=\"google_generate\">Google Gemini (generateContent)</option>'' @ nl 12 @
     ''</select>'' @ nl 10 @ ''</label>'' @ nl 10 @
     ''<label class=\"field form-field-inline\">'' @ nl 12 @
     ''<span>Priority <small class=\"muted\">(auto: place first)</small></span>'' @ nl 12 @
     ''<input class=\"control\" name=\"priority\" type=\"number\" value=\"0\" />'' @ nl 10 @
     ''</label>'' @ nl 8 @ ''</div>'' @ nl 8 @ ''<details>'' @ nl 10 @
     ''<summary>Advanced options</summary>'' @ nl 10 @
     ''<div class=\"form-field-inline\" style=\"margin-top:10px;display:grid;gap:10px\"'' @
     ''>'' @ nl 12 @ ''<label class=\"field form-field-inline\">'' @ nl 14 @
     ''<span>Provider proxy <small class=\"muted\">(optional)</small></span>'' @ nl 14 @
     (proxyControlInput tr ''proxy'' (Str []) (''http://host:port '' @ [CHR 0xB7] @ '' socks5://host:port '' @ [CHR 0xB7] @ '' host:port'') (''autocomplete=\"off\"'')) @
     nl 12 @ ''</label>'' @ nl 12 @ ''<label class=\"field form-field-inline\">'' @ nl 14 @
     ''<span>Initial key proxy <small class=\"muted\">(optional)</small></span>'' @ nl 14 @
     (proxyControlInput tr ''key_proxy'' (Str []) (''http://host:port '' @ [CHR 0xB7] @ '' socks5://host:port '' @ [CHR 0xB7] @ '' host:port'') (''autocomplete=\"off\"'')) @
     nl 12 @ ''</label>'' @ nl 10 @ ''</div>'' @ nl 8 @ ''</details>'' @ nl 8 @
     ''<div class=\"form-actions\">'' @ nl 10 @
     ''<button class=\"button secondary\" type=\"button\"'' @
     '' id=\"addProviderModalCancel\">Cancel</button>'' @ nl 10 @
     ''<button class=\"button primary\" type=\"submit\">Add Provider</button>'' @ nl 8 @
     ''</div>'' @ nl 6 @ ''</form>'' @ nl 4)"

text \<open>The values of the fields when the form is drawn.\<close>

definition add_form_drawn :: add_form where
  "add_form_drawn = \<lparr>af_name = [], af_base_url = [], af_key = [], af_key_proxy = [], af_site_url = [], af_proxy = [],
     af_priority = ''0'', af_format = ''chat_completions''\<rparr>"

text \<open>A click on a chip; the paste button has the class of a chip and no attribute.\<close>

definition presetClick :: "string option \<Rightarrow> add_form \<Rightarrow> add_form" where
  "presetClick attr f =
     (case json_parse (case attr of None \<Rightarrow> [CHR 0x7B, CHR 0x7D] | Some s \<Rightarrow> or_text s [CHR 0x7B, CHR 0x7D]) of
        None \<Rightarrow> f
      | Some p \<Rightarrow>
          (let set1 = (\<lambda>k upd f. if truthy (get p k) then upd (\<lambda>_. to_str (get p k)) f else f);
               f1 = set1 ''format'' af_format_update (set1 ''base_url'' af_base_url_update (set1 ''name'' af_name_update f))
           in if \<not> nullish (get p ''priority'') then f1\<lparr>af_priority := to_str (get p ''priority'')\<rparr> else f1))"

section \<open>Reading pasted text\<close>

text \<open>The leftmost match of a pattern.\<close>

fun first_match :: "(string \<Rightarrow> string option) \<Rightarrow> string \<Rightarrow> string option" where
  "first_match m [] = m []"
| "first_match m (c # s) = (case m (c # s) of Some v \<Rightarrow> Some v | None \<Rightarrow> first_match m s)"

definition quote_char :: char where "quote_char = CHR 0x22"

abbreviation skip_js_space :: "string \<Rightarrow> string" where
  "skip_js_space \<equiv> dropWhile is_js_space"

text \<open>\<open>"([^"]+)"\<close> at the start: the text up to the next quote.\<close>

definition quoted_at :: "string \<Rightarrow> string option" where
  "quoted_at s =
     (if s = [] \<or> hd s \<noteq> quote_char then None
      else (let v = takeWhile (\<lambda>c. c \<noteq> quote_char) (tl s)
            in if v = [] \<or> length v = length (tl s) then None else Some v))"

text \<open>\<open>/"key"\s*:\s*"([^"]+)"/i\<close>; \<open>bracket\<close> allows \<open>\[?\s*\<close> before the value.\<close>

definition field_at :: "string \<Rightarrow> bool \<Rightarrow> string \<Rightarrow> string option" where
  "field_at key bracket s =
     (let n = length key + 2; r = skip_js_space (drop n s) in
      if js_lower (take n s) \<noteq> [quote_char] @ key @ [quote_char] \<or> r = [] \<or> hd r \<noteq> CHR '':'' then None
      else (let v = skip_js_space (tl r)
            in quoted_at (if bracket \<and> v \<noteq> [] \<and> hd v = CHR ''['' then skip_js_space (tl v) else v)))"

definition strip_slashes :: "string \<Rightarrow> string" where
  "strip_slashes s = rev (dropWhile (\<lambda>c. c = CHR ''/'') (rev s))"

definition found :: "string option \<Rightarrow> string" where
  "found m = (case m of Some v \<Rightarrow> v | None \<Rightarrow> [])"

text \<open>What is read; \<open>[]\<close> is \<open>null\<close> or the empty string, which every reader of the result takes alike.\<close>

record detected =
  det_url :: string
  det_key :: string
  det_name :: string

definition detect_fields :: "string \<Rightarrow> detected" where
  "detect_fields text =
     \<lparr>det_url = strip_slashes (found (first_match (field_at ''base_url'' False) text)),
      det_key = (let ks = found (first_match (field_at ''keys'' True) text)
                 in if ks \<noteq> [] then ks else found (first_match (field_at ''key'' False) text)),
      det_name = found (first_match (field_at ''name'' False) text)\<rparr>"

text \<open>\<open>/"\w+"\s*:/\<close> and \<open>replace(/,\s*([}\]])/g, "$1")\<close>.\<close>

definition member_at :: "string \<Rightarrow> string option" where
  "member_at s =
     (let w = takeWhile word_char (tl s); r = drop (length w) (tl s); q = skip_js_space (tl r) in
      if s \<noteq> [] \<and> hd s = quote_char \<and> w \<noteq> [] \<and> r \<noteq> [] \<and> hd r = quote_char \<and> q \<noteq> [] \<and> hd q = CHR '':'' then Some w else None)"

function drop_trailing_commas :: "string \<Rightarrow> string" where
  "drop_trailing_commas [] = []"
| "drop_trailing_commas (c # s) =
     (case skip_js_space s of
        d # r \<Rightarrow> if c = CHR '','' \<and> (d = CHR 0x7D \<or> d = CHR '']'') then d # drop_trailing_commas r else c # drop_trailing_commas s
      | [] \<Rightarrow> c # drop_trailing_commas s)"
  by pat_completeness auto
termination
proof (relation "measure length")
  fix c :: char and s r :: string and d :: char
  assume "skip_js_space s = d # r"
  then have "length (d # r) \<le> length s" by (metis length_dropWhile_le)
  then show "(r, c # s) \<in> measure length" by simp
qed auto

definition as_object :: "string \<Rightarrow> string" where
  "as_object text =
     (let s = js_trim text in
      if \<not> starts_with [CHR 0x7B] s \<and> first_match member_at s \<noteq> None then [CHR 0x7B] @ s @ [CHR 0x7D] else s)"

text \<open>The first key of a provider; on \<open>null\<close> the read throws, and the key found so far stays.\<close>

definition first_key :: "jsval \<Rightarrow> string \<Rightarrow> string" where
  "first_key k old =
     (case k of Null \<Rightarrow> old
      | Obj kvs \<Rightarrow> to_str (jor (get k ''key'') (Str []))
      | Arr xs \<Rightarrow> to_str (jor (get k ''key'') (Str []))
      | _ \<Rightarrow> to_str k)"

definition detect_provider :: "string \<times> jsval \<Rightarrow> detected \<Rightarrow> detected" where
  "detect_provider e r =
     (let cfg = snd e; url = get cfg ''base_url''; keys = arr_or_empty (get cfg ''keys'');
          r1 = (if truthy url then r\<lparr>det_url := strip_slashes (to_str url), det_name := or_text (det_name r) (fst e)\<rparr> else r)
      in if keys \<noteq> [] then r1\<lparr>det_key := first_key (hd keys) (det_key r1)\<rparr> else r1)"

definition detect_json :: "string \<Rightarrow> detected \<Rightarrow> detected" where
  "detect_json text r =
     (if det_url r \<noteq> [] \<or> det_key r \<noteq> [] then r
      else (case json_parse (drop_trailing_commas (as_object text)) of
          None \<Rightarrow> r
        | Some parsed \<Rightarrow>
            (case js_entries (get parsed ''providers'') of [] \<Rightarrow> r | e # es \<Rightarrow> detect_provider e r)))"

text \<open>\<open>/https?:\/\/[^\s"'<>},\])]+/i\<close>.\<close>

definition url_char :: "char \<Rightarrow> bool" where
  "url_char c \<longleftrightarrow> \<not> is_js_space c \<and> c \<notin> set [CHR 0x22, CHR 0x27, CHR ''<'', CHR ''>'', CHR 0x7D, CHR '','', CHR '']'', CHR '')'']"

definition url_at :: "string \<Rightarrow> string option" where
  "url_at s =
     (let n = (if starts_with ''https://'' (js_lower s) then 8 else if starts_with ''http://'' (js_lower s) then 7 else 0);
          v = takeWhile url_char (drop n s)
      in if n = 0 \<or> v = [] then None else Some (take n s @ v))"

definition KEY_PREFIXES :: "string list" where
  "KEY_PREFIXES = [''sk-'', ''key-'', ''pk-'', ''rqsty-'', ''rk-'', ''cos-'', ''tencent-'', ''AKID'']"

definition base64_char :: "char \<Rightarrow> bool" where
  "base64_char c \<longleftrightarrow> word_char c \<or> c \<in> set ''+/=-''"

text \<open>A quoted text with a known prefix, any long quoted word, a word with a known prefix.\<close>

definition prefixed_quote_at :: "string \<Rightarrow> string option" where
  "prefixed_quote_at s =
     (case quoted_at s of
        Some v \<Rightarrow> if \<exists>p \<in> set KEY_PREFIXES. starts_with (js_lower p) (js_lower v) \<and> length p + 16 \<le> length v then Some v else None
      | None \<Rightarrow> None)"

definition long_quote_at :: "string \<Rightarrow> string option" where
  "long_quote_at s =
     (case quoted_at s of Some v \<Rightarrow> if list_all base64_char v \<and> 32 \<le> length v then Some v else None | None \<Rightarrow> None)"

definition prefixed_word_at :: "string \<Rightarrow> string \<Rightarrow> string option" where
  "prefixed_word_at p s =
     (let v = takeWhile base64_char (drop (length p) s)
      in if starts_with p s \<and> 16 \<le> length v then Some (p @ v) else None)"

definition not_url :: "string \<Rightarrow> string option \<Rightarrow> string" where
  "not_url url m = (case m of Some v \<Rightarrow> if v \<noteq> url then v else [] | None \<Rightarrow> [])"

definition detect_plain_key :: "string \<Rightarrow> string \<Rightarrow> string" where
  "detect_plain_key url text =
     (let a = not_url url (first_match prefixed_quote_at text);
          b = or_text a (not_url url (first_match long_quote_at text))
      in or_text b (found (find (\<lambda>v. v \<noteq> [])
           (map (\<lambda>p. not_url url (first_match (prefixed_word_at p) text)) KEY_PREFIXES))))"

definition detectProviderFields :: "string \<Rightarrow> detected" where
  "detectProviderFields text =
     (if text = [] then \<lparr>det_url = [], det_key = [], det_name = []\<rparr>
      else (let r1 = detect_json text (detect_fields text);
                r2 = (if det_url r1 = [] then r1\<lparr>det_url := strip_slashes (found (first_match url_at text))\<rparr> else r1)
            in if det_key r2 = [] then r2\<lparr>det_key := detect_plain_key (det_url r2) text\<rparr> else r2))"

section \<open>Filling the form\<close>

text \<open>A field of one line drops the line ends of the value it is given.\<close>

definition one_line :: "string \<Rightarrow> string" where
  "one_line v = filter (\<lambda>c. c \<noteq> CHR 0x0A \<and> c \<noteq> CHR 0x0D) v"

definition fill :: "bool \<Rightarrow> string \<Rightarrow> string \<Rightarrow> string \<times> bool" where
  "fill overwrite v old = (if v \<noteq> [] \<and> (overwrite \<or> js_trim old = []) then (one_line v, True) else (old, False))"

definition autoFillFromText :: "string \<Rightarrow> bool \<Rightarrow> add_form \<Rightarrow> add_form \<times> bool" where
  "autoFillFromText text overwrite f =
     (if text = [] then (f, False)
      else (let d = detectProviderFields text; (u, a) = fill overwrite (det_url d) (af_base_url f);
                (k, b) = fill overwrite (det_key d) (af_key f); (n, c) = fill overwrite (det_name d) (af_name f)
            in (f\<lparr>af_base_url := u, af_key := k, af_name := n\<rparr>, a \<or> b \<or> c)))"

text \<open>A paste into the field \<open>target\<close> (\<open>[]\<close> outside the fields): the form, whether the browser's own insertion is prevented, the notices.\<close>

record paste_result =
  pr_form :: add_form
  pr_prevented :: bool
  pr_notices :: "string list"

definition pasteIntoForm :: "string \<Rightarrow> string \<Rightarrow> add_form \<Rightarrow> paste_result" where
  "pasteIntoForm text target f =
     (let d = detectProviderFields text; r0 = \<lparr>pr_form = f, pr_prevented = False, pr_notices = []\<rparr> in
      if text = [] \<or> (det_url d = [] \<and> det_key d = []) then r0
      else (let
          r1 = (if target = ''base_url'' \<and> det_key d \<noteq> [] \<and> js_trim (af_key f) = []
                then r0\<lparr>pr_form := f\<lparr>af_key := one_line (det_key d)\<rparr>, pr_notices := [''Auto-filled API key from pasted content'']\<rparr> else r0);
          r2 = (if target = ''key'' \<and> det_url d \<noteq> [] \<and> js_trim (af_base_url (pr_form r1)) = []
                then r1\<lparr>pr_form := (pr_form r1)\<lparr>af_base_url := one_line (det_url d)\<rparr>, pr_notices := pr_notices r1 @ [''Auto-filled Base URL from pasted content'']\<rparr> else r1)
        in if target \<in> {''name'', [], ''priority''}
           then r2\<lparr>pr_form := fst (autoFillFromText text False (pr_form r2)), pr_prevented := True,
                   pr_notices := pr_notices r2 @ [''Auto-filled from clipboard content'']\<rparr>
           else r2))"

text \<open>The paste button: what the clipboard holds, or nothing where reading it is refused.\<close>

definition pasteButton :: "string option \<Rightarrow> add_form \<Rightarrow> add_form \<times> string \<times> string" where
  "pasteButton clip f =
     (case clip of
        None \<Rightarrow> (f, ''Clipboard access denied. Try pasting into a field instead.'', [])
      | Some text \<Rightarrow>
          if text = [] then (f, ''Clipboard is empty'', [])
          else (let (f1, filled) = autoFillFromText text True f
                in (f1, if filled then ''Auto-filled from clipboard'' else ''No URL or API key found in clipboard'',
                    if filled then ''ok'' else [])))"

section \<open>Correctness\<close>

text \<open>
  What the dialogs promise: every confirmation is answered once, a preset fills what it says, a pasted
  configuration is read back, filling without overwriting keeps what was typed, and a paste that fills nothing.
\<close>

section \<open>Confirmations\<close>

inductive confirm_step :: "translator \<Rightarrow> confirm_dialog \<Rightarrow> confirm_dialog \<Rightarrow> bool" for tr where
  confirm_asked: "confirm_step tr d (openConfirmDialog tr there title message acceptLabel d)"
| confirm_closed: "confirm_step tr d (closeConfirmDialog accepted d)"
| focus_moved: "confirm_step tr d (d\<lparr>cf_focus := f\<rparr>)"

definition confirm_start :: confirm_dialog where
  "confirm_start = \<lparr>cf_open = False, cf_title = [], cf_message = [], cf_accept = [], cf_resolve = None, cf_lastFocus = None,
     cf_focus = None, cf_next = 0, cf_answers = [], cf_notices = []\<rparr>"

definition confirm_inv :: "confirm_dialog \<Rightarrow> bool" where
  "confirm_inv d \<longleftrightarrow> distinct (map fst (cf_answers d)) \<and> (cf_open d \<longleftrightarrow> cf_resolve d \<noteq> None)
     \<and> set_option (cf_resolve d) \<inter> fst ` set (cf_answers d) = {}
     \<and> set_option (cf_resolve d) \<union> fst ` set (cf_answers d) = {..<cf_next d}"

lemma confirm_step_inv: "confirm_step tr d d1 \<Longrightarrow> confirm_inv d \<Longrightarrow> confirm_inv d1"
proof (induction rule: confirm_step.induct)
  case (confirm_asked d there title message acceptLabel)
  then show ?case
    by (cases "cf_resolve d") (auto simp: confirm_inv_def openConfirmDialog_def answer_def Let_def)
next
  case (confirm_closed d accepted)
  then show ?case
    by (cases "cf_resolve d") (auto simp: confirm_inv_def closeConfirmDialog_def answer_def Let_def)
next
  case (focus_moved d f)
  then show ?case by (simp add: confirm_inv_def)
qed

text \<open>
  C30. Every confirmation is answered exactly once: however dialogs are opened, replaced, accepted and dismissed (also on a
  page where the dialog lacks an element, which answers at once), no promise is answered twice, every one but the one that
  the open dialog waits for has its answer, and the dialog is open just while one waits.
\<close>

theorem confirmations_answered_once:
  assumes "(confirm_step tr)\<^sup>*\<^sup>* confirm_start d" and "p < cf_next d"
  shows "distinct (map fst (cf_answers d)) \<and> (p \<in> fst ` set (cf_answers d) \<longleftrightarrow> cf_resolve d \<noteq> Some p)
     \<and> (cf_open d \<longleftrightarrow> cf_resolve d \<noteq> None)"
proof -
  have "confirm_inv d"
    using assms(1)
  proof (induction rule: rtranclp_induct)
    case base
    show ?case by (simp add: confirm_inv_def confirm_start_def)
  next
    case (step a b)
    then show ?case by (blast intro: confirm_step_inv)
  qed
  then have "distinct (map fst (cf_answers d))" "cf_open d \<longleftrightarrow> cf_resolve d \<noteq> None"
    and out: "set_option (cf_resolve d) \<inter> fst ` set (cf_answers d) = {}"
    and all: "set_option (cf_resolve d) \<union> fst ` set (cf_answers d) = {..<cf_next d}"
    unfolding confirm_inv_def by blast+
  moreover have "p \<in> set_option (cf_resolve d) \<union> fst ` set (cf_answers d)" using all assms(2) by simp
  moreover have "p \<in> set_option (cf_resolve d) \<longleftrightarrow> cf_resolve d = Some p" by auto
  ultimately show ?thesis using out by blast
qed

theorem confirmations_answered_once_witness:
  "let d = openConfirmDialog (\<lambda>k a. k) True ''a'' [] ''Delete'' (openConfirmDialog (\<lambda>k a. k) True ''b'' [] ''Delete'' confirm_start)
   in (0, False) \<in> set (cf_answers d) \<and> distinct (map fst (cf_answers d)) \<and> cf_resolve d = Some 1"
proof -
  define d where "d = openConfirmDialog (\<lambda>k a. k) True ''a'' [] ''Delete'' (openConfirmDialog (\<lambda>k a. k) True ''b'' [] ''Delete'' confirm_start)"
  have "(confirm_step (\<lambda>k a. k))\<^sup>*\<^sup>* confirm_start d"
    unfolding d_def by (blast intro: confirm_asked rtranclp.rtrancl_into_rtrancl rtranclp.rtrancl_refl)
  moreover have "cf_next d = 2" "cf_resolve d = Some 1" "(0, False) \<in> set (cf_answers d)"
    by (simp_all add: d_def openConfirmDialog_def answer_def confirm_start_def Let_def)
  ultimately show ?thesis
    using confirmations_answered_once[of "\<lambda>k a. k" d 0] by (simp flip: d_def)
qed

section \<open>Presets\<close>

lemma preset_of:
  assumes "p \<in> set PROVIDER_PRESETS"
  shows "\<exists>name url fmt label env q. p = preset name url fmt label env q \<and> name \<noteq> [] \<and> url \<noteq> [] \<and> fmt \<noteq> []"
  using assms by (simp add: PROVIDER_PRESETS_def, elim disjE) (simp_all, blast+)

lemma presets_plain: "p \<in> set PROVIDER_PRESETS \<Longrightarrow> plain_value p"
proof -
  have "list_all plain_value PROVIDER_PRESETS" by code_simp
  then show "p \<in> set PROVIDER_PRESETS \<Longrightarrow> plain_value p" by (simp add: list_all_iff)
qed

text \<open>A preset fills the name, the address, the format and the priority it was declared with, and nothing else.\<close>

lemma preset_fills:
  assumes "p \<in> set PROVIDER_PRESETS"
  shows "presetClick (Some (preset_attr p)) f =
     f\<lparr>af_name := to_str (get p ''name''), af_base_url := to_str (get p ''base_url''), af_format := to_str (get p ''format''),
       af_priority := to_str (get p ''priority'')\<rparr>"
proof -
  have "preset_attr p = printed p" by (simp add: preset_attr_def plain_printed[OF presets_plain[OF assms]])
  then have "json_parse (preset_attr p) = Some p" "preset_attr p \<noteq> []"
    using json_round_trip[OF presets_plain[OF assms]] value_start_printed[OF presets_plain[OF assms]]
    by (simp_all add: value_start_def)
  moreover obtain name url fmt label env q where "p = preset name url fmt label env q" "name \<noteq> []" "url \<noteq> []" "fmt \<noteq> []"
    using preset_of[OF assms] by blast
  ultimately show ?thesis by (simp add: presetClick_def or_text_def preset_def Let_def)
qed

lemma paste_chip_fills_nothing: "presetClick None f = f"
proof -
  have "json_parse [CHR 0x7B, CHR 0x7D] = Some (Obj [])" by code_simp
  then show ?thesis by (simp add: presetClick_def or_text_def)
qed

section \<open>Pasted text\<close>

lemma char_lower_quote: "char_lower c = quote_char \<longleftrightarrow> c = quote_char"
proof
  assume *: "char_lower c = quote_char"
  then have "code_unit (char_lower c) = 34" by (simp add: quote_char_def)
  then have "code_unit c = 34" using code_unit_byte[of c]
    by (auto simp: char_lower_def Let_def code_unit_char_of split: if_splits)
  then show "c = quote_char" using code_unit_eq[of c 34] by (simp add: quote_char_def special_chars)
qed (simp add: char_lower_def quote_char_def Let_def)

lemma field_at_other: "c \<noteq> quote_char \<Longrightarrow> field_at key b (c # s) = None"
  by (simp add: field_at_def js_lower_def char_lower_quote)

text \<open>The text before the first occurrence of a quoted field name, in any case of letters, holds no match for the field.\<close>

definition mentions :: "string \<Rightarrow> string \<Rightarrow> bool" where
  "mentions key s \<longleftrightarrow> js_includes ([quote_char] @ key @ [quote_char]) (js_lower s)"

lemma includes_iff_ex: "js_includes p s \<longleftrightarrow> (\<exists>a b. s = a @ p @ b)"
proof (induction s)
  case (Cons c s)
  have "(\<exists>a b. c # s = a @ p @ b) \<longleftrightarrow> starts_with p (c # s) \<or> (\<exists>a b. s = a @ p @ b)"
    by (auto simp: starts_with_iff Cons_eq_append_conv)
  then show ?case using Cons by simp
qed simp

lemma js_lower_append: "js_lower (a @ b) = js_lower a @ js_lower b"
  by (simp add: js_lower_def)

text \<open>A name that starts in the text before and ends in the field itself is not followed by a colon.\<close>

lemma field_not_before:
  assumes "\<not> mentions key p" and "p \<noteq> []" and "key \<noteq> []" and "quote_char \<notin> set key" and "hd key \<noteq> CHR '':''"
    and "\<not> is_js_space (hd key)" and "js_lower key = key"
  shows "field_at key b (p @ quote_char # key @ r) = None"
proof (rule ccontr)
  let ?n = "length key + 2" and ?s = "p @ quote_char # key @ r"
  assume "field_at key b ?s \<noteq> None"
  then have name: "js_lower (take ?n ?s) = [quote_char] @ key @ [quote_char]"
    and colon: "skip_js_space (drop ?n ?s) \<noteq> []" "hd (skip_js_space (drop ?n ?s)) = CHR '':''"
    by (auto simp: field_at_def Let_def split: if_splits)
  show False
  proof (cases "?n \<le> length p")
    case True
    then have "js_lower p = [] @ ([quote_char] @ key @ [quote_char]) @ js_lower (drop ?n p)"
      using name js_lower_append [of "take ?n p" "drop ?n p"] by simp
    then show False using assms(1) by (metis mentions_def includes_iff_ex)
  next
    case False
    then have k: "length p < ?n" by simp
    have lower: "js_lower (take ?n ?s) ! length p = quote_char"
      using k by (simp add: js_lower_def char_lower_quote nth_append)
    have "length p = Suc (length key)"
    proof (rule ccontr)
      assume "length p \<noteq> Suc (length key)"
      then obtain i where i: "length p = Suc i" "i < length key" using k assms(2) by (cases p) auto
      then have "js_lower (take ?n ?s) ! length p = key ! i" unfolding name by (simp add: nth_append)
      then show False using lower assms(4) i(2) by (metis nth_mem)
    qed
    then have "drop ?n ?s = key @ r" by simp
    then have "skip_js_space (drop ?n ?s) = key @ r" using assms(3,6) by (cases key) auto
    then show False using colon(2) assms(3,5) by (cases key) auto
  qed
qed

lemma mentions_suffix: "\<not> mentions key (c # p) \<Longrightarrow> \<not> mentions key p"
  by (simp add: mentions_def js_lower_def)

lemma first_field:
  assumes "\<not> mentions key p" and "key \<noteq> []" and "quote_char \<notin> set key" and "hd key \<noteq> CHR '':''"
    and "\<not> is_js_space (hd key)" and "js_lower key = key" and "field_at key b (quote_char # key @ r) = Some v"
  shows "first_match (field_at key b) (p @ quote_char # key @ r) = Some v"
  using assms(1)
proof (induction p)
  case Nil
  then show ?case using assms(7) by simp
next
  case (Cons c p)
  then show ?case
    using field_not_before [OF Cons.prems _ assms(2-6), of b r] mentions_suffix [OF Cons.prems] by simp
qed

lemma quoted_at_text: "\<forall>c \<in> set v. c \<noteq> quote_char \<Longrightarrow> v \<noteq> [] \<Longrightarrow> quoted_at (quote_char # v @ quote_char # r) = Some v"
  by (simp add: quoted_at_def Let_def)

text \<open>A field as it is written in a file: its quoted name, a colon, perhaps a bracket, and the quoted value.\<close>

definition all_space :: "string \<Rightarrow> bool" where
  "all_space w \<longleftrightarrow> list_all is_js_space w"

definition written_field :: "string \<Rightarrow> string \<Rightarrow> string \<Rightarrow> string" where
  "written_field key gap v = [quote_char] @ key @ [quote_char] @ gap @ [quote_char] @ v @ [quote_char]"

lemma skip_spaces: "all_space w \<Longrightarrow> skip_js_space (w @ s) = skip_js_space s"
  by (induction w) (auto simp: all_space_def)

lemma field_at_text:
  assumes "js_lower key = key" and "\<forall>c \<in> set v. c \<noteq> quote_char" and "v \<noteq> []" and "all_space w1" and "all_space w2" and "all_space w3"
  shows "field_at key b (written_field key (w1 @ '':'' @ w2) v @ r) = Some v"
    "field_at key True (written_field key (w1 @ '':'' @ w2 @ ''['' @ w3) v @ r) = Some v"
proof -
  have "char_lower quote_char = quote_char" by (simp add: char_lower_quote)
  moreover have "\<not> is_js_space quote_char" "\<not> is_js_space (CHR '':'')" "\<not> is_js_space (CHR ''['')" "quote_char \<noteq> CHR ''[''"
    by (simp_all add: quote_char_def is_js_space_def Let_def)
  ultimately show "field_at key b (written_field key (w1 @ '':'' @ w2) v @ r) = Some v"
    "field_at key True (written_field key (w1 @ '':'' @ w2 @ ''['' @ w3) v @ r) = Some v"
    using assms quoted_at_text[OF assms(2,3)]
    by (simp_all add: field_at_def js_lower_def written_field_def skip_spaces)
qed

text \<open>
  C29. The address and the first key of a provider are read out of a pasted configuration as they are written there, whatever
  stands before the address, between the two and behind the key, and however the two are spaced, when this is the
  first address and the first list of keys in the text: no quoted \<open>base_url\<close> stands before the address and no
  quoted \<open>keys\<close> before the list. (The address does not end with a slash; address and key hold no quote and are not empty.)
\<close>

theorem pasted_configuration_read:
  fixes before url gap key after w1 w2 u1 u2 u3 :: string
  defines "address \<equiv> written_field ''base_url'' (w1 @ '':'' @ w2) url"
    and "keys \<equiv> written_field ''keys'' (u1 @ '':'' @ u2 @ ''['' @ u3) key"
  assumes "\<not> mentions ''base_url'' before" and "\<not> mentions ''keys'' (before @ address @ gap)"
    and "list_all all_space [w1, w2, u1, u2, u3]"
    and "url \<noteq> []" and "last url \<noteq> CHR ''/''" and "quote_char \<notin> set url" and "key \<noteq> []" and "quote_char \<notin> set key"
  shows "det_url (detectProviderFields (before @ address @ gap @ keys @ after)) = url
     \<and> det_key (detectProviderFields (before @ address @ gap @ keys @ after)) = key"
proof -
  let ?t = "before @ address @ gap @ keys @ after"
  have low: "js_lower ''base_url'' = ''base_url''" "js_lower ''keys'' = ''keys''"
    by (simp_all add: char_lower_def js_lower_def Let_def)
  have plain: "quote_char \<notin> set ''base_url''" "quote_char \<notin> set ''keys''" "\<not> is_js_space (CHR ''b'')" "\<not> is_js_space (CHR ''k'')"
    by (simp_all add: quote_char_def is_js_space_def Let_def)
  have a: "field_at ''base_url'' False (address @ gap @ keys @ after) = Some url"
    unfolding address_def by (rule field_at_text) (use assms(5,6,8) low in auto)
  have k: "field_at ''keys'' True (keys @ after) = Some key"
    unfolding keys_def by (rule field_at_text) (use assms(5,9,10) low in auto)
  have "first_match (field_at ''base_url'' False) ?t = Some url"
    using first_field [OF assms(3) _ plain(1) _ _ low(1), of False] a plain
    by (simp add: address_def written_field_def)
  moreover have "first_match (field_at ''keys'' True) ?t = Some key"
    using first_field [OF assms(4) _ plain(2) _ _ low(2), of True] k plain
    by (simp add: keys_def written_field_def)
  moreover have "strip_slashes url = url"
    using assms(6,7) by (cases url rule: rev_cases) (simp_all add: strip_slashes_def)
  ultimately have "det_url (detect_fields ?t) = url" "det_key (detect_fields ?t) = key"
    using assms(9) by (simp_all add: detect_fields_def found_def Let_def)
  moreover have "?t \<noteq> []" by (simp add: address_def written_field_def)
  ultimately show ?thesis using assms(6,9) by (simp add: detectProviderFields_def detect_json_def Let_def)
qed

text \<open>A provider of the example configuration, with its name before the address and its formats before the keys.\<close>

definition example_before :: string where
  "example_before = [CHR 0x22] @ ''deepseek'' @ [CHR 0x22] @ '': {'' @ [CHR 0x0A] @ ''  ''"

definition example_gap :: string where
  "example_gap = '','' @ [CHR 0x0A, CHR 0x22] @ ''formats'' @ [CHR 0x22] @ '': { '' @ [CHR 0x22] @ ''responses'' @ [CHR 0x22] @ '': {} },'' @ [CHR 0x0A]"

theorem pasted_configuration_read_witness:
  "let d = detectProviderFields (example_before @ written_field ''base_url'' ([] @ '':'' @ '' '') ''https://api.deepseek.com'' @ example_gap
       @ written_field ''keys'' ([] @ '':'' @ '' '' @ ''['' @ [CHR 0x0A]) ''sk-your-key'' @ '']}'')
   in det_url d = ''https://api.deepseek.com'' \<and> det_key d = ''sk-your-key''"
proof -
  have "\<not> mentions ''base_url'' example_before"
    "\<not> mentions ''keys'' (example_before @ written_field ''base_url'' ([] @ '':'' @ '' '') ''https://api.deepseek.com'' @ example_gap)"
    "list_all all_space [[], '' '', [], '' '', [CHR 0x0A]]" "quote_char \<notin> set ''https://api.deepseek.com''" "quote_char \<notin> set ''sk-your-key''"
    by code_simp+
  then show ?thesis
    using pasted_configuration_read [of example_before "[]" "'' ''" "''https://api.deepseek.com''" example_gap "[]" "'' ''" "[CHR 0x0A]"
        "''sk-your-key''" "'']}''"] unfolding Let_def by simp
qed

text \<open>
  The list found need not be that of the provider whose address was found: keys written as objects are passed over, so
  of such a provider the address is taken, with the key of the next one.
\<close>

lemma key_of_another_provider:
  "let provider = (\<lambda>url keys. '': {'' @ written_field ''base_url'' '': '' url @ '', '' @ [CHR 0x22] @ ''keys'' @ [CHR 0x22] @ '': ['' @ keys @ '']}'');
       d = detectProviderFields (provider ''http://a'' (''{'' @ written_field ''key'' '': '' ''sk-a'' @ ''}'') @ provider ''http://b'' ([CHR 0x22] @ ''sk-b'' @ [CHR 0x22]))
   in det_url d = ''http://a'' \<and> det_key d = ''sk-b''"
  by code_simp

section \<open>Filling\<close>

text \<open>Without overwriting, a field that holds anything but spaces keeps it.\<close>

lemma fill_keeps:
  "js_trim (af_base_url f) \<noteq> [] \<Longrightarrow> af_base_url (fst (autoFillFromText text False f)) = af_base_url f"
  "js_trim (af_key f) \<noteq> [] \<Longrightarrow> af_key (fst (autoFillFromText text False f)) = af_key f"
  "js_trim (af_name f) \<noteq> [] \<Longrightarrow> af_name (fst (autoFillFromText text False f)) = af_name f"
  by (simp_all add: autoFillFromText_def fill_def split_beta Let_def)

text \<open>
  A paste into the name can be lost: when the address and the key are filled already and the text has no name
  to read, pasting an address into the name field changes no field, the browser's own insertion is prevented, and
  the notice says that the form was filled.
\<close>

lemma paste_into_name_lost:
  assumes "det_url (detectProviderFields pasted) \<noteq> []" and "det_name (detectProviderFields pasted) = []"
    and "js_trim (af_base_url f) \<noteq> []" and "js_trim (af_key f) \<noteq> []"
  shows "pasteIntoForm pasted ''name'' f =
     \<lparr>pr_form = f, pr_prevented = True, pr_notices = [''Auto-filled from clipboard content'']\<rparr>"
proof -
  have "pasted \<noteq> []" using assms(1) by (auto simp: detectProviderFields_def)
  then show ?thesis using assms by (simp add: pasteIntoForm_def autoFillFromText_def fill_def split_beta Let_def)
qed

definition typed_form :: add_form where
  "typed_form = add_form_drawn\<lparr>af_base_url := ''https://a.com'', af_key := ''sk-1''\<rparr>"

end
