(* ===== verification/ConsoleNav.thy ===== *)
theory ConsoleNav
  imports Shell UsageStatistics
begin

text \<open>
  Moving about in the console (\<open>app.js\<close>): the views and how a reload finds them again, the tabs of the configuration,
  the statistics and the settings, what a drawing of the page starts, the settings drawer of small screens, and how
  the program starts. \<open>cn_log\<close> lists the calls made and the key they were made with.
\<close>

section \<open>State\<close>

record console_nav =
  cn_view :: string
  cn_hash :: string
  cn_storage :: "(string \<times> string) list"
  cn_title :: string
  cn_subtitle :: string
  cn_navActive :: string
  cn_viewActive :: string
  cn_scrolls :: nat
  cn_aborts :: nat
  cn_forms :: dirty_state
  cn_configTab :: string
  cn_configPanels :: "string list"
  cn_statisticsView :: string
  cn_settingsTab :: string
  cn_restoredConfig :: bool
  cn_restoredSettings :: bool
  cn_adminKey :: string
  cn_drawerOpen :: bool
  cn_log :: "(string \<times> string) list"

text \<open>What the browser allows: writing to the storage, changing the address; \<open>hover\<close> is a pointer over an open drawer.\<close>

record browser =
  br_storage :: bool
  br_history :: bool
  br_hover :: bool
  br_mobile :: bool

definition call :: "string \<Rightarrow> console_nav \<Rightarrow> console_nav" where
  "call name s = s\<lparr>cn_log := cn_log s @ [(name, cn_adminKey s)]\<rparr>"

definition store :: "browser \<Rightarrow> string \<Rightarrow> string \<Rightarrow> console_nav \<Rightarrow> console_nav" where
  "store b key v s = (if br_storage b then s\<lparr>cn_storage := set_prop key v (cn_storage s)\<rparr> else s)"

definition stored :: "string \<Rightarrow> console_nav \<Rightarrow> string" where
  "stored key s = (case map_of (cn_storage s) key of Some v \<Rightarrow> v | None \<Rightarrow> [])"

definition first_text :: "string \<Rightarrow> string \<Rightarrow> string" where
  "first_text a b = (if a \<noteq> [] then a else b)"

section \<open>Tabs\<close>

text \<open>The tables of the tabs and what a change of tab loads are in \<open>UsageStatistics\<close>; here is what it shows and stores.\<close>

definition load_statistics :: "console_nav \<Rightarrow> console_nav" where
  "load_statistics s = call (if cn_statisticsView s = ''models'' then ''loadModelUsage'' else ''loadUsageStatistics'') s"

definition showConfigTab :: "browser \<Rightarrow> string \<Rightarrow> console_nav \<Rightarrow> console_nav" where
  "showConfigTab b tab s =
     (case map_of CONFIG_TAB_PANELS (pick CONFIG_TAB_ALIASES tab tab) of
        None \<Rightarrow> s
      | Some panels \<Rightarrow>
          (let s1 = s\<lparr>cn_configPanels := panels, cn_configTab := pick CONFIG_TAB_ALIASES tab tab\<rparr>;
               s2 = (if pick CONFIG_TAB_ALIASES tab tab = ''models'' then load_statistics s1 else s1)
           in store b ''proxyConsoleConfigTab'' (pick CONFIG_TAB_ALIASES tab tab) s2))"

text \<open>The tab is restored once, at the first drawing.\<close>

definition bindConfigTabs :: "browser \<Rightarrow> console_nav \<Rightarrow> console_nav" where
  "bindConfigTabs b s =
     (if cn_restoredConfig s then s
      else (let s1 = s\<lparr>cn_restoredConfig := True\<rparr>
            in showConfigTab b (first_text (stored ''proxyConsoleConfigTab'' s1) (first_text (cn_configTab s1) ''models'')) s1))"

definition showStatisticsView :: "browser \<Rightarrow> bool \<Rightarrow> string \<Rightarrow> console_nav \<Rightarrow> console_nav" where
  "showStatisticsView b persist name s =
     (if name \<notin> {''usage'', ''models''} then s
      else (let s1 = s\<lparr>cn_statisticsView := name\<rparr>;
                s2 = (if persist then store b ''proxyConsoleStatisticsView'' name s1 else s1)
            in if cn_configTab s2 \<noteq> ''models'' then s2 else load_statistics s2))"

definition SETTINGS_TABS :: "string list" where "SETTINGS_TABS = [''keys'', ''pricing'', ''ops'']"

definition loadSettingsTabData :: "string \<Rightarrow> console_nav \<Rightarrow> console_nav" where
  "loadSettingsTabData tab s =
     (if tab = ''keys'' then call ''loadClientKeys'' s else if tab = ''pricing'' then call ''loadSettingsPricingCatalog'' s else s)"

definition switchSettingsTab :: "browser \<Rightarrow> bool \<Rightarrow> string \<Rightarrow> console_nav \<Rightarrow> console_nav" where
  "switchSettingsTab b persist tab s =
     (if tab \<notin> set SETTINGS_TABS then s
      else (let s1 = s\<lparr>cn_settingsTab := tab\<rparr>
            in loadSettingsTabData tab (if persist then store b ''proxyConsoleSettingsTab'' tab s1 else s1)))"

text \<open>Restoring the tab loads its data, so it waits until there is a key.\<close>

definition bindSettingsTabs :: "browser \<Rightarrow> console_nav \<Rightarrow> console_nav" where
  "bindSettingsTabs b s =
     (if cn_restoredSettings s \<or> cn_adminKey s = [] then s
      else (let s1 = s\<lparr>cn_restoredSettings := True\<rparr>
            in switchSettingsTab b False (first_text (stored ''proxyConsoleSettingsTab'' s1) (first_text (cn_settingsTab s1) ''keys'')) s1))"

section \<open>Drawing the page\<close>

definition view_renderers :: "string \<Rightarrow> string list" where
  "view_renderers view =
     (if view = ''overview'' then [''renderOnboardingBanner'', ''renderMetrics'', ''renderOverviewVisuals'', ''renderTrafficChart'',
           ''renderUsageChart'', ''renderProviderHealth'', ''renderHealthOverview'', ''renderRecentFailures'']
      else if view = ''requests'' then [''renderRequestsTable'']
      else if view = ''providers'' then [''renderProvidersTable'', ''renderModelCapabilities'']
      else if view = ''policy'' then [''renderPolicy'']
      else if view = ''config'' then [''renderConfig'']
      else if view = ''playground'' then [''renderPlayground'']
      else if view = ''settings'' then [''renderSettings'']
      else [])"

definition draw_view :: "console_nav \<Rightarrow> console_nav" where
  "draw_view s =
     fold call ([''renderTimeRangeControl''] @ view_renderers (first_text (cn_view s) ''overview'') @ [''renderProviderDrawer'']) s"

definition renderAll :: "browser \<Rightarrow> bool \<Rightarrow> console_nav \<Rightarrow> console_nav" where
  "renderAll b force_it s =
     (if \<not> force_it \<and> br_hover b then s else bindSettingsTabs b (bindConfigTabs b (draw_view s)))"

section \<open>Views\<close>

definition VIEWS :: "string list" where
  "VIEWS = [''overview'', ''requests'', ''providers'', ''policy'', ''config'', ''playground'', ''settings'']"

definition view_title :: "translator \<Rightarrow> string \<Rightarrow> string" where
  "view_title tr v = tr (''view.'' @ v @ ''.title'') []"

definition view_subtitle :: "translator \<Rightarrow> string \<Rightarrow> string" where
  "view_subtitle tr v = tr (''view.'' @ v @ ''.subtitle'') []"

definition closeMobileSettings :: "console_nav \<Rightarrow> console_nav" where
  "closeMobileSettings s = s\<lparr>cn_drawerOpen := False\<rparr>"

definition openMobileSettings :: "browser \<Rightarrow> console_nav \<Rightarrow> console_nav" where
  "openMobileSettings b s = (if br_mobile b then s\<lparr>cn_drawerOpen := True\<rparr> else s)"

definition toggleMobileSettings :: "browser \<Rightarrow> console_nav \<Rightarrow> console_nav" where
  "toggleMobileSettings b s = (if cn_drawerOpen s then closeMobileSettings s else openMobileSettings b s)"

definition after_view :: "string \<Rightarrow> console_nav \<Rightarrow> console_nav" where
  "after_view v s =
     (if v \<in> {''overview'', ''requests'', ''providers''} then call ''refreshRuntimeData'' s
      else if v = ''playground'' then call ''pgLoadModels'' s else s)"

definition enter_view :: "translator \<Rightarrow> browser \<Rightarrow> string \<Rightarrow> console_nav \<Rightarrow> console_nav" where
  "enter_view tr b v s =
     (let changed = (v \<noteq> cn_view s);
          s1 = (if changed then s\<lparr>cn_forms := clearAllDirty (cn_forms s), cn_aborts := cn_aborts s + 1\<rparr> else s);
          s2 = store b ''proxyConsoleView'' v (s1\<lparr>cn_view := v\<rparr>);
          s3 = (if br_history b then s2\<lparr>cn_hash := v\<rparr> else s2)
      in s3\<lparr>cn_title := view_title tr v, cn_subtitle := view_subtitle tr v, cn_navActive := v, cn_viewActive := v,
            cn_scrolls := cn_scrolls s3 + (if changed then 1 else 0)\<rparr>)"

definition known_view :: "string \<Rightarrow> string" where
  "known_view v = (if v \<in> set VIEWS then v else ''overview'')"

definition setView :: "translator \<Rightarrow> browser \<Rightarrow> string \<Rightarrow> console_nav \<Rightarrow> console_nav" where
  "setView tr b view s =
     (let v = known_view view in closeMobileSettings (after_view v (renderAll b False (enter_view tr b v s))))"

definition loadSavedView :: "console_nav \<Rightarrow> string" where
  "loadSavedView s =
     (if cn_hash s \<in> set VIEWS then cn_hash s
      else (let saved = first_text (stored ''proxyConsoleView'' s) ''overview''
            in if saved \<in> set VIEWS then saved else ''overview''))"

text \<open>The address bar: a name of a view other than the one shown goes there.\<close>

definition hash_changed :: "translator \<Rightarrow> browser \<Rightarrow> string \<Rightarrow> console_nav \<Rightarrow> console_nav" where
  "hash_changed tr b h s =
     (let s1 = s\<lparr>cn_hash := h\<rparr> in if h \<in> set VIEWS \<and> h \<noteq> cn_view s1 then setView tr b h s1 else s1)"

definition loadTimeRange :: "console_nav \<Rightarrow> string" where
  "loadTimeRange s =
     (let saved = first_text (stored ''proxyConsoleTimeRange'' s) ''30m''
      in if saved \<in> {''30m'', ''2h'', ''24h'', ''7d''} then saved else ''30m'')"

section \<open>The start of the program\<close>

text \<open>
  \<open>query\<close> is the parameter \<open>admin_key\<close> of the address. Without a key the login is shown; otherwise the key is
  checked (\<open>openConsoleWithKey\<close>), and \<open>console_opened\<close> is what follows when the server accepts it.
\<close>

definition loadAdminKey :: "string \<Rightarrow> console_nav \<Rightarrow> console_nav" where
  "loadAdminKey query s = s\<lparr>cn_adminKey := js_trim (first_text query (stored ''proxyConsoleAdminKey'' s))\<rparr>"

definition init :: "translator \<Rightarrow> browser \<Rightarrow> string \<Rightarrow> console_nav \<Rightarrow> console_nav" where
  "init tr b query s =
     (let s1 = loadAdminKey query s; s2 = setView tr b (loadSavedView s1) s1
      in if cn_adminKey s2 = [] then call ''showLogin'' (call ''renderTimeRangeControl'' s2) else call ''openConsoleWithKey'' s2)"

definition console_opened :: "translator \<Rightarrow> browser \<Rightarrow> string \<Rightarrow> console_nav \<Rightarrow> console_nav" where
  "console_opened tr b key s =
     (let s1 = s\<lparr>cn_adminKey := key\<rparr>
      in call ''refreshAll'' (renderAll b False (setView tr b (loadSavedView s1) s1)))"

section \<open>Correctness\<close>

text \<open>
  What moving about keeps: a reload finds the view and the tab that were left, every panel of the configuration
  belongs to one tab, and what is loaded before there is a key.
\<close>

section \<open>What a drawing leaves alone\<close>

lemma fold_call: "fold call names s = s\<lparr>cn_log := cn_log s @ map (\<lambda>n. (n, cn_adminKey s)) names\<rparr>"
  by (induction names arbitrary: s) (simp_all add: call_def)

lemma stored_store: "stored k (store b key v s) = (if br_storage b \<and> k = key then v else stored k s)"
  by (simp add: stored_def store_def map_of_set_prop)

definition same_place :: "console_nav \<Rightarrow> console_nav \<Rightarrow> bool" where
  "same_place s s1 \<longleftrightarrow> cn_view s1 = cn_view s \<and> cn_hash s1 = cn_hash s \<and> cn_adminKey s1 = cn_adminKey s
     \<and> stored ''proxyConsoleView'' s1 = stored ''proxyConsoleView'' s"

lemma place_simps [simp]:
  "same_place s s"
  "same_place s (call n s1) = same_place s s1"
  "same_place s (s1\<lparr>cn_log := l\<rparr>) = same_place s s1"
  "same_place s (s1\<lparr>cn_configPanels := ps\<rparr>) = same_place s s1"
  "same_place s (s1\<lparr>cn_configTab := tab\<rparr>) = same_place s s1"
  "same_place s (s1\<lparr>cn_settingsTab := tab\<rparr>) = same_place s s1"
  "same_place s (s1\<lparr>cn_restoredConfig := r\<rparr>) = same_place s s1"
  "same_place s (s1\<lparr>cn_restoredSettings := r\<rparr>) = same_place s s1"
  "same_place s (s1\<lparr>cn_drawerOpen := r\<rparr>) = same_place s s1"
  "k \<noteq> ''proxyConsoleView'' \<Longrightarrow> same_place s (store b k v s1) = same_place s s1"
  by (auto simp: same_place_def call_def stored_def store_def map_of_set_prop)

lemma place_config: "same_place s (bindConfigTabs b s)"
  by (simp add: bindConfigTabs_def showConfigTab_def load_statistics_def Let_def split: option.split)

lemma place_settings: "same_place s (bindSettingsTabs b s)"
  by (simp add: bindSettingsTabs_def switchSettingsTab_def loadSettingsTabData_def Let_def)

lemma same_place_trans: "same_place a b \<Longrightarrow> same_place b c \<Longrightarrow> same_place a c"
  by (simp add: same_place_def)

lemma place_renderAll: "same_place s (renderAll b f s)"
proof -
  have "same_place s (draw_view s)" by (simp only: draw_view_def fold_call place_simps)
  then have "same_place s (bindSettingsTabs b (bindConfigTabs b (draw_view s)))"
    by (rule same_place_trans[OF same_place_trans[OF _ place_config] place_settings])
  then show ?thesis by (simp add: renderAll_def)
qed

section \<open>Reload\<close>

lemma enter_view_fields:
  "cn_view (enter_view tr b v s) = v" "cn_hash (enter_view tr b v s) = (if br_history b then v else cn_hash s)"
  "stored ''proxyConsoleView'' (enter_view tr b v s) = (if br_storage b then v else stored ''proxyConsoleView'' s)"
  "cn_adminKey (enter_view tr b v s) = cn_adminKey s"
  "k \<noteq> ''proxyConsoleView'' \<Longrightarrow> stored k (enter_view tr b v s) = stored k s" "cn_configTab (enter_view tr b v s) = cn_configTab s"
  "cn_statisticsView (enter_view tr b v s) = cn_statisticsView s"
  by (simp_all add: enter_view_def Let_def store_def stored_def map_of_set_prop)

lemma place_after: "same_place s (after_view v s1) = same_place s s1"
  by (simp add: after_view_def)

lemma known_view_in: "known_view v \<in> set VIEWS" "known_view v \<noteq> []"
  by (auto simp: known_view_def VIEWS_def)

lemma setView_place: "same_place (enter_view tr b (known_view v) s) (setView tr b v s)"
  using place_renderAll[of "enter_view tr b (known_view v) s" b False]
  by (simp add: setView_def closeMobileSettings_def place_after Let_def)

lemmas setView_fields = setView_place[unfolded same_place_def enter_view_fields]

text \<open>
  A reload shows the view that was left, when the address could be changed, or when the view could be stored and
  the address names none.
\<close>

lemma reload_keeps_view:
  assumes "br_history b \<or> (br_storage b \<and> cn_hash s \<notin> set VIEWS)"
  shows "loadSavedView (setView tr b v s) = cn_view (setView tr b v s)"
  using assms setView_fields[of tr b v s] by (auto simp: loadSavedView_def first_text_def known_view_in)

text \<open>Where the address cannot be changed, the name it holds wins over the view that was stored.\<close>

lemma address_wins:
  "\<not> br_history b \<Longrightarrow> cn_hash s \<in> set VIEWS \<Longrightarrow> loadSavedView (setView tr b v s) = cn_hash s"
  using setView_fields[of tr b v s] by (simp add: loadSavedView_def)

section \<open>Tabs\<close>

text \<open>Every panel of the configuration belongs to one tab, and the old names lead to tabs.\<close>

lemma config_panels_once:
  "distinct (concat (map snd CONFIG_TAB_PANELS))" "list_all (\<lambda>(k, v). map_of CONFIG_TAB_PANELS v \<noteq> None) CONFIG_TAB_ALIASES"
  by code_simp+

lemma tab_is_panel: "map_of CONFIG_TAB_PANELS tab \<noteq> None \<Longrightarrow> pick CONFIG_TAB_ALIASES tab tab = tab"
  by (auto simp: CONFIG_TAB_PANELS_def CONFIG_TAB_ALIASES_def pick_def split: if_splits)

text \<open>A tab that was opened is the one a later visit opens.\<close>

lemma reload_keeps_config_tab:
  assumes "map_of CONFIG_TAB_PANELS (pick CONFIG_TAB_ALIASES tab tab) \<noteq> None" and "br_storage b"
    and "cn_storage fresh = cn_storage (showConfigTab b tab s)" and "\<not> cn_restoredConfig fresh"
  shows "cn_configTab (bindConfigTabs b fresh) = cn_configTab (showConfigTab b tab s)
     \<and> cn_configPanels (bindConfigTabs b fresh) = cn_configPanels (showConfigTab b tab s)"
proof -
  let ?tab = "pick CONFIG_TAB_ALIASES tab tab"
  obtain panels where p: "map_of CONFIG_TAB_PANELS ?tab = Some panels" using assms(1) by auto
  then have tab: "pick CONFIG_TAB_ALIASES ?tab ?tab = ?tab" "?tab \<noteq> []"
    using tab_is_panel[of ?tab] by (auto simp: CONFIG_TAB_PANELS_def split: if_splits)
  have "cn_configTab (showConfigTab b tab s) = ?tab" "cn_configPanels (showConfigTab b tab s) = panels"
    "map_of (cn_storage (showConfigTab b tab s)) ''proxyConsoleConfigTab'' = Some ?tab"
    using assms(2) by (simp_all add: showConfigTab_def p store_def load_statistics_def call_def map_of_set_prop Let_def)
  then show ?thesis
    using assms tab p by (simp add: bindConfigTabs_def stored_def first_text_def showConfigTab_def store_def load_statistics_def call_def Let_def)
qed

section \<open>Loading before there is a key\<close>

definition statistics_loads :: "console_nav \<Rightarrow> (string \<times> string) list" where
  "statistics_loads s = filter (\<lambda>c. fst c \<in> {''loadUsageStatistics'', ''loadModelUsage''}) (cn_log s)"

lemma statistics_loads_simps [simp]:
  "statistics_loads (call n s) = statistics_loads s
     @ (if n \<in> {''loadUsageStatistics'', ''loadModelUsage''} then [(n, cn_adminKey s)] else [])"
  "statistics_loads (store b k v s) = statistics_loads s"
  "statistics_loads (s\<lparr>cn_configPanels := ps\<rparr>) = statistics_loads s"
  "statistics_loads (s\<lparr>cn_configTab := tab\<rparr>) = statistics_loads s"
  "statistics_loads (s\<lparr>cn_settingsTab := tab\<rparr>) = statistics_loads s"
  "statistics_loads (s\<lparr>cn_restoredConfig := r\<rparr>) = statistics_loads s"
  "statistics_loads (s\<lparr>cn_restoredSettings := r\<rparr>) = statistics_loads s"
  "statistics_loads (s\<lparr>cn_drawerOpen := r\<rparr>) = statistics_loads s"
  "statistics_loads (s\<lparr>cn_adminKey := k2\<rparr>) = statistics_loads s"
  "statistics_loads (enter_view tr b v s) = statistics_loads s"
  by (simp_all add: statistics_loads_def call_def store_def enter_view_def Let_def)

definition tab_restored :: "console_nav \<Rightarrow> bool" where "tab_restored s \<longleftrightarrow> cn_restoredConfig s"

lemma restored_simps [simp]:
  "tab_restored (call n s) = tab_restored s" "tab_restored (store b k v s) = tab_restored s"
  "tab_restored (s\<lparr>cn_settingsTab := tab\<rparr>) = tab_restored s" "tab_restored (s\<lparr>cn_restoredSettings := r\<rparr>) = tab_restored s"
  "tab_restored (s\<lparr>cn_drawerOpen := r\<rparr>) = tab_restored s" "tab_restored (s\<lparr>cn_adminKey := k2\<rparr>) = tab_restored s"
  "tab_restored (enter_view tr b v s) = tab_restored s"
  by (simp_all add: tab_restored_def call_def store_def enter_view_def Let_def)

lemma loads_settings [simp]:
  "statistics_loads (bindSettingsTabs b s) = statistics_loads s" "tab_restored (bindSettingsTabs b s) = tab_restored s"
  by (simp_all add: bindSettingsTabs_def switchSettingsTab_def loadSettingsTabData_def Let_def)

lemma renderers_load_nothing: "n \<in> set (view_renderers v) \<Longrightarrow> n \<noteq> ''loadUsageStatistics'' \<and> n \<noteq> ''loadModelUsage''"
  by (auto simp: view_renderers_def split: if_splits)

lemma loads_draw [simp]:
  "statistics_loads (draw_view s) = statistics_loads s" "tab_restored (draw_view s) = tab_restored s" "cn_adminKey (draw_view s) = cn_adminKey s"
  "stored k (draw_view s) = stored k s" "cn_configTab (draw_view s) = cn_configTab s" "cn_statisticsView (draw_view s) = cn_statisticsView s"
  unfolding draw_view_def fold_call
  by (auto simp: statistics_loads_def tab_restored_def stored_def filter_empty_conv dest: renderers_load_nothing)

lemma loads_after [simp]: "statistics_loads (after_view v s) = statistics_loads s" "tab_restored (after_view v s) = tab_restored s"
  by (simp_all add: after_view_def)

text \<open>Once the tab is restored no drawing and no change of view loads statistics.\<close>

lemma restored_render: "tab_restored s \<Longrightarrow> statistics_loads (renderAll b f s) = statistics_loads s \<and> tab_restored (renderAll b f s)"
  by (simp add: renderAll_def bindConfigTabs_def flip: tab_restored_def)

lemma restored_view: "tab_restored s \<Longrightarrow> statistics_loads (setView tr b v s) = statistics_loads s \<and> tab_restored (setView tr b v s)"
  using restored_render[of "enter_view tr b (known_view v) s" b False]
  by (simp add: setView_def closeMobileSettings_def Let_def)

lemma first_render:
  assumes "\<not> tab_restored s" and "\<not> br_hover b" and "stored ''proxyConsoleConfigTab'' s \<in> {[], ''models''}" and "cn_configTab s = ''models''"
    and "cn_statisticsView s = ''usage''"
  shows "statistics_loads (renderAll b f s) = statistics_loads s @ [(''loadUsageStatistics'', cn_adminKey s)] \<and> tab_restored (renderAll b f s)"
proof -
  have tab: "first_text (stored ''proxyConsoleConfigTab'' s) (first_text ''models'' ''models'') = ''models''"
    using assms(3) by (auto simp: first_text_def)
  have "pick CONFIG_TAB_ALIASES ''models'' ''models'' = ''models''" "map_of CONFIG_TAB_PANELS ''models'' = Some [''models'']"
    by code_simp+
  note this [simp]
  let ?a = "draw_view s"
  have "stored k (?a\<lparr>cn_restoredConfig := True\<rparr>) = stored k s" for k
    using loads_draw(4)[of k s] by (simp add: stored_def)
  then have "bindConfigTabs b ?a = showConfigTab b ''models'' (?a\<lparr>cn_restoredConfig := True\<rparr>)"
    using assms tab by (simp add: bindConfigTabs_def Let_def flip: tab_restored_def)
  moreover have "tab_restored (showConfigTab b ''models'' (?a\<lparr>cn_restoredConfig := True\<rparr>))"
    by (simp add: showConfigTab_def Let_def load_statistics_def) (simp add: tab_restored_def)
  moreover have "statistics_loads (showConfigTab b ''models'' (?a\<lparr>cn_restoredConfig := True\<rparr>))
      = statistics_loads s @ [(''loadUsageStatistics'', cn_adminKey s)]"
    using assms(5) by (simp add: showConfigTab_def Let_def load_statistics_def)
  ultimately show ?thesis using assms(2) by (simp add: renderAll_def)
qed

text \<open>
  The statistics are loaded before there is a key, and then not again: on a visit without a stored key the start
  of the program restores the tab of the configuration page while the login is shown, so its load is sent with no
  key; opening the console after the login loads nothing, and neither does any view the operator goes to.
\<close>

lemma statistics_loaded_before_login:
  assumes "stored ''proxyConsoleAdminKey'' s = []" and "statistics_loads s = []" and "\<not> cn_restoredConfig s" and "\<not> br_hover b"
    and "stored ''proxyConsoleConfigTab'' s \<in> {[], ''models''}" and "cn_configTab s = ''models''" and "cn_statisticsView s = ''usage''"
  shows "let s1 = init tr b [] s; s2 = console_opened tr b1 key s1 in
     cn_adminKey s1 = [] \<and> statistics_loads s2 = [(''loadUsageStatistics'', [])]
     \<and> statistics_loads (setView tr b2 view s2) = [(''loadUsageStatistics'', [])]"
proof -
  define s0 where "s0 = loadAdminKey [] s"
  define s1 where "s1 = init tr b [] s"
  have s0: "cn_adminKey s0 = []" "statistics_loads s0 = []"
    using assms(1,2) by (simp_all add: s0_def loadAdminKey_def first_text_def js_trim_def)
  let ?e = "enter_view tr b (known_view (loadSavedView s0)) s0"
  have e: "\<not> tab_restored ?e" "stored ''proxyConsoleConfigTab'' ?e \<in> {[], ''models''}" "cn_configTab ?e = ''models''" "cn_statisticsView ?e = ''usage''"
    "cn_adminKey ?e = []" "statistics_loads ?e = []"
    using assms s0 by (simp_all add: enter_view_fields) (simp_all add: tab_restored_def s0_def loadAdminKey_def stored_def)
  have "statistics_loads (setView tr b (loadSavedView s0) s0) = [(''loadUsageStatistics'', [])] \<and> tab_restored (setView tr b (loadSavedView s0) s0)"
    using first_render[OF e(1) assms(4) e(2-4), of False] e(5,6) by (simp add: setView_def closeMobileSettings_def Let_def)
  moreover have "cn_adminKey (setView tr b (loadSavedView s0) s0) = []" using setView_fields[of tr b _ s0] s0 by simp
  ultimately have s1: "statistics_loads s1 = [(''loadUsageStatistics'', [])]" "tab_restored s1" "cn_adminKey s1 = []"
    by (simp_all add: s1_def init_def Let_def flip: s0_def) (simp_all add: call_def)
  have "statistics_loads (console_opened tr b1 key s1) = [(''loadUsageStatistics'', [])] \<and> tab_restored (console_opened tr b1 key s1)"
    using s1 restored_view restored_render by (simp add: console_opened_def Let_def)
  then show ?thesis using s1 restored_view by (simp flip: s1_def)
qed

definition first_visit :: console_nav where
  "first_visit = \<lparr>cn_view = ''overview'', cn_hash = [], cn_storage = [], cn_title = [], cn_subtitle = [], cn_navActive = [],
     cn_viewActive = [], cn_scrolls = 0, cn_aborts = 0,
     cn_forms = \<lparr>ds_dirty = {}, ds_coord = \<lparr>interactionVersion = 0, mutationDepth = 0, scopes = {}, nextScope = 0\<rparr>\<rparr>,
     cn_configTab = ''models'', cn_configPanels = [''models''], cn_statisticsView = ''usage'', cn_settingsTab = ''keys'',
     cn_restoredConfig = False, cn_restoredSettings = False, cn_adminKey = [], cn_drawerOpen = False, cn_log = []\<rparr>"

definition any_browser :: browser where
  "any_browser = \<lparr>br_storage = True, br_history = True, br_hover = False, br_mobile = False\<rparr>"

end
