(* ===== verification/ConsoleActions.thy ===== *)
theory ConsoleActions
  imports ConfigPage RefreshAll
begin

text \<open>
  Actions of \<open>app.js\<close> on what the server keeps: the filters of the request list and the deletion of requests, cut at
  its two awaits (the question and the request), and the actions on the runtime overlay.
\<close>

section \<open>The request list\<close>

text \<open>\<open>rq_inputs\<close> are the fields as they are typed, by the name of the filter; \<open>rq_requests\<close> is the page that was loaded.\<close>

record request_ui =
  rq_inputs :: "(string \<times> string) list"
  rq_status :: string
  rq_page :: nat
  rq_selected :: "string list"
  rq_allMatching :: bool
  rq_force :: bool
  rq_requests :: jsval
  rq_version :: nat
  rq_disabled :: bool
  rq_notices :: "string list"
  rq_calls :: "string list"

definition FILTER_FIELDS :: "string list" where
  "FILTER_FIELDS = [''model'', ''provider'', ''status'', ''error_type'', ''failure_reason'', ''http_status'', ''client_ip'', ''stream'',
     ''client_format'', ''upstream_format'', ''cost_status'']"

definition typed :: "request_ui \<Rightarrow> string \<Rightarrow> string" where
  "typed s k = (if k = ''status'' then rq_status s else case map_of (rq_inputs s) k of Some v \<Rightarrow> v | None \<Rightarrow> [])"

definition currentRequestFilters :: "request_ui \<Rightarrow> (string \<times> jsval) list" where
  "currentRequestFilters s = map (\<lambda>k. (k, Str (typed s k))) FILTER_FIELDS"

definition active_filters :: "request_ui \<Rightarrow> (string \<times> string) list" where
  "active_filters s = activeRequestFilters (currentRequestFilters s)"

definition log_request :: "string \<Rightarrow> request_ui \<Rightarrow> request_ui" where
  "log_request c s = s\<lparr>rq_calls := rq_calls s @ [c]\<rparr>"

text \<open>Enter in a field and the button that applies: the first page, no selection, the list loaded anew.\<close>

definition first_page :: "request_ui \<Rightarrow> request_ui" where
  "first_page s = s\<lparr>rq_page := 0, rq_selected := [], rq_allMatching := False\<rparr>"

definition applyFilters :: "request_ui \<Rightarrow> request_ui" where
  "applyFilters s = log_request ''refreshRuntimeData'' ((first_page s)\<lparr>rq_force := True\<rparr>)"

definition statusClick :: "string \<Rightarrow> request_ui \<Rightarrow> request_ui" where
  "statusClick status s = (if rq_status s = status then s else applyFilters (s\<lparr>rq_status := status\<rparr>))"

definition clearFilters :: "request_ui \<Rightarrow> request_ui" where
  "clearFilters s = applyFilters (s\<lparr>rq_inputs := map (\<lambda>(k, v). (k, [])) (rq_inputs s), rq_status := []\<rparr>)"

text \<open>The link of a provider to its requests.\<close>

definition gotoProviderRequests :: "string \<Rightarrow> request_ui \<Rightarrow> request_ui" where
  "gotoProviderRequests name s =
     log_request ''refreshRuntimeData'' (log_request ''setView''
       ((first_page (s\<lparr>rq_inputs := set_prop ''provider'' name (rq_inputs s)\<rparr>))\<lparr>rq_force := True\<rparr>))"

section \<open>Deleting requests\<close>

datatype delete_mode = DeleteSelected | DeleteMatching | DeleteAll

definition delete_mode_of :: "request_ui \<Rightarrow> delete_mode" where
  "delete_mode_of s =
     (if rq_allMatching s then (if active_filters s \<noteq> [] then DeleteMatching else DeleteAll)
      else if rq_selected s \<noteq> [] then DeleteSelected
      else if active_filters s \<noteq> [] then DeleteMatching else DeleteAll)"

definition plural_of :: "jsnum \<Rightarrow> string" where
  "plural_of n = (if num_eq n (Fin 1) then [] else ''s'')"

text \<open>The title and the text of the question.\<close>

definition delete_question :: "translator \<Rightarrow> request_ui \<Rightarrow> string \<times> string" where
  "delete_question tr s =
     (let m = delete_mode_of s; ids = rq_selected s; listed = get (rq_requests s) ''total'';
          plural = plural_of (if m = DeleteSelected then num_of_nat (length ids) else num_or_zero listed)
      in (case m of
            DeleteSelected \<Rightarrow> (tr ''confirm.delete_selected.title'' [],
              tr ''confirm.delete_selected.msg'' [(''count'', Str (count_of (length ids))), (''plural'', Str plural)])
          | DeleteMatching \<Rightarrow> (tr ''confirm.delete_matching.title'' [],
              tr ''confirm.delete_matching.msg'' [(''count'', Str (fmtInt (jor listed (jnum 0)))), (''plural'', Str plural)])
          | DeleteAll \<Rightarrow> (tr ''confirm.clear_history.title'' [], tr ''confirm.clear_history.msg'' [])))"

record deletion =
  de_mode :: delete_mode
  de_ids :: "string list"
  de_filters :: "(string \<times> string) list"

text \<open>The click takes what is to be deleted and asks; a yes sends it and disables the button.\<close>

definition askDelete :: "request_ui \<Rightarrow> deletion" where
  "askDelete s = \<lparr>de_mode = delete_mode_of s, de_ids = rq_selected s, de_filters = active_filters s\<rparr>"

definition delete_call :: "deletion \<Rightarrow> string \<times> (string \<times> jsval) list" where
  "delete_call d =
     (case de_mode d of
        DeleteSelected \<Rightarrow> (''/-/admin/requests/delete'',
          [(''confirm'', Str ''delete_request_records''), (''request_ids'', Arr (map Str (de_ids d)))])
      | DeleteMatching \<Rightarrow> (''/-/admin/requests/delete-matching'',
          [(''confirm'', Str ''delete_matching_request_records''), (''filters'', Obj (map (\<lambda>(k, v). (k, Str v)) (de_filters d)))])
      | DeleteAll \<Rightarrow> (''/-/admin/requests/clear'',
          [(''confirm'', Str ''clear_request_history''), (''include_diagnostics'', Bool True)]))"

definition startDelete :: "bool \<Rightarrow> deletion \<Rightarrow> request_ui \<Rightarrow> request_ui \<times> (string \<times> (string \<times> jsval) list) option" where
  "startDelete accepted d s = (if \<not> accepted then (s, None) else (s\<lparr>rq_disabled := True\<rparr>, Some (delete_call d)))"

definition deleted_count :: "jsval \<Rightarrow> jsval" where
  "deleted_count result =
     jor (get (get result ''history'') ''requests_deleted'') (jor (get (get result ''memory'') ''recent_requests_deleted'') (jnum 0))"

definition request_row_id :: "jsval \<Rightarrow> jsval" where
  "request_row_id item = jor (get item ''request_id'') (get item ''id'')"

definition without_rows :: "string list \<Rightarrow> jsval \<Rightarrow> jsval" where
  "without_rows ids payload =
     obj_set ''total'' (Num (num_max (Fin 0) (num_sub (num_or_zero (get payload ''total'')) (num_of_nat (card (set ids))))))
       (obj_set ''items'' (Arr (filter (\<lambda>i. request_row_id i \<notin> Str ` set ids) (arr_or_empty (get payload ''items'')))) payload)"

text \<open>The reply: what was selected, the first page, the notice, the rows taken out or loaded anew; then the button is free again.\<close>

definition finishDelete :: "translator \<Rightarrow> deletion \<Rightarrow> string + jsval \<Rightarrow> request_ui \<Rightarrow> request_ui" where
  "finishDelete tr d reply s =
     (case reply of
        Inl err \<Rightarrow> s\<lparr>rq_notices := rq_notices s @ [tr ''notice.delete_requests_failed'' [(''error'', Str err)]], rq_disabled := False\<rparr>
      | Inr result \<Rightarrow>
          (let s1 = (if de_mode d = DeleteSelected then s\<lparr>rq_selected := filter (\<lambda>i. i \<notin> set (de_ids d)) (rq_selected s)\<rparr>
                     else s\<lparr>rq_allMatching := False, rq_selected := []\<rparr>);
               n = deleted_count result; plural = (if strict_eq n (jnum 1) then [] else ''s'');
               s2 = s1\<lparr>rq_page := 0, rq_notices := rq_notices s1 @
                 [if de_mode d = DeleteAll then tr ''notice.request_history_cleared'' [(''count'', Str (fmtInt n))]
                  else tr ''notice.requests_deleted'' [(''count'', Str (fmtInt n)), (''plural'', Str plural)]]\<rparr>;
               s3 = (if de_mode d = DeleteSelected \<and> is_array (get (rq_requests s2) ''items'')
                     then s2\<lparr>rq_requests := without_rows (de_ids d) (rq_requests s2), rq_version := rq_version s2 + 1\<rparr>
                     else s2\<lparr>rq_force := True\<rparr>)
           in (log_request ''scheduleBackgroundRefresh'' (log_request ''renderAll'' s3))\<lparr>rq_disabled := False\<rparr>))"

section \<open>The runtime overlay\<close>

text \<open>\<open>i\<close> is the identity of the object the reply is; a failure leaves a notice, shown by the caller.\<close>

definition exportOverlay :: "string + (nat \<times> jsval) \<Rightarrow> config_page \<Rightarrow> config_page" where
  "exportOverlay reply s =
     (case reply of Inl err \<Rightarrow> s
      | Inr (i, ov) \<Rightarrow>
          renderOverlaySafety (s\<lparr>cp_overlay := Some (i, ov), cp_previewPinned := True,
            cp_previewStatus := Str (if truthy (get ov ''has_overlay'') then ''exported'' else ''empty''),
            cp_preview := pretty (obj_or_empty (get ov ''overlay''))\<rparr>))"

definition validateOverlay :: "string + jsval \<Rightarrow> config_page \<Rightarrow> config_page" where
  "validateOverlay reply s =
     (case reply of
        Inl err \<Rightarrow> renderOverlaySafety (s\<lparr>cp_previewStatus := Str ''failed''\<rparr>)
      | Inr result \<Rightarrow>
          renderOverlaySafety (s\<lparr>cp_previewPinned := True,
            cp_previewStatus := Str (if truthy (get (get result ''preview'') ''valid'') then ''valid'' else ''invalid''),
            cp_preview := pretty (obj_or_empty (get result ''preview''))\<rparr>))"

text \<open>The part of \<open>clearOverlayButton\<close> before the reply is applied to the configuration.\<close>

definition clearOverlay :: "string + jsval \<Rightarrow> config_page \<Rightarrow> config_page" where
  "clearOverlay reply s =
     (case reply of Inl err \<Rightarrow> s
      | Inr result \<Rightarrow>
          s\<lparr>cp_previewPinned := True, cp_previewStatus := Str ''cleared'',
            cp_preview := pretty (Obj [(''action'', get result ''action''), (''backup_path'', jor (get result ''backup_path'') (Str [])),
              (''config'', obj_or_empty (get result ''config''))])\<rparr>)"

section \<open>Correctness\<close>

text \<open>What the question before a deletion says and what the deletion reaches; the overlay preview that stays.\<close>

section \<open>Deletions\<close>

lemma question_of_matching:
  assumes "delete_mode_of s = DeleteMatching" and "delete_mode_of u = DeleteMatching" and "rq_requests u = rq_requests s"
  shows "delete_question tr u = delete_question tr s"
  using assms by (simp add: delete_question_def Let_def)

lemma matching_when_typed:
  "rq_selected s = [] \<Longrightarrow> active_filters s \<noteq> [] \<Longrightarrow> delete_mode_of s = DeleteMatching"
  by (simp add: delete_mode_of_def)

text \<open>
  The question before a deletion counts something else than the deletion reaches: the number of requests it asks
  about is that of the list that was loaded, and it stays the same whatever is typed into the filters without being
  applied, but the request that a yes sends carries the filters as they are typed.
\<close>

lemma delete_question_counts_loaded_list:
  fixes s :: request_ui and inputs :: "(string \<times> string) list"
  defines "u \<equiv> s\<lparr>rq_inputs := inputs\<rparr>"
  assumes "rq_selected s = []" and "active_filters s \<noteq> []" and "active_filters u \<noteq> []"
  shows "delete_question tr u = delete_question tr s
     \<and> snd (startDelete True (askDelete u) now) = Some (''/-/admin/requests/delete-matching'',
         [(''confirm'', Str ''delete_matching_request_records''), (''filters'', Obj (map (\<lambda>(k, v). (k, Str v)) (active_filters u)))])"
proof -
  have modes: "delete_mode_of s = DeleteMatching" "delete_mode_of u = DeleteMatching"
    using assms by (simp_all add: matching_when_typed)
  then have "delete_question tr u = delete_question tr s" by (rule question_of_matching) (simp add: u_def)
  then show ?thesis using modes(2) by (simp add: startDelete_def askDelete_def delete_call_def)
qed

definition sample_requests :: request_ui where
  "sample_requests = \<lparr>rq_inputs = [(''model'', ''gpt'')], rq_status = [], rq_page = 0, rq_selected = [], rq_allMatching = False,
     rq_force = False, rq_requests = Obj [(''total'', jnum 3)], rq_version = 0, rq_disabled = False, rq_notices = [], rq_calls = []\<rparr>"

text \<open>Everything is deleted only when no filter holds anything and nothing is selected.\<close>

lemma all_only_without_filters:
  "delete_mode_of s = DeleteAll \<Longrightarrow> active_filters s = [] \<and> (rq_allMatching s \<or> rq_selected s = [])"
  by (auto simp: delete_mode_of_def split: if_splits)

text \<open>A no sends nothing, and a deletion leaves the button as it was before, whatever the reply.\<close>

lemma refused_deletes_nothing: "startDelete False d s = (s, None)"
  by (simp add: startDelete_def)

lemma deletion_settles: "\<not> rq_disabled (finishDelete tr d reply s)"
  by (cases reply) (simp_all add: finishDelete_def log_request_def Let_def)

lemma failed_deletion_keeps:
  "rq_requests (finishDelete tr d (Inl err) s) = rq_requests s \<and> rq_selected (finishDelete tr d (Inl err) s) = rq_selected s
   \<and> rq_page (finishDelete tr d (Inl err) s) = rq_page s"
  by (simp add: finishDelete_def)

text \<open>The rows of deleted requests are gone at once, the others stay in their order.\<close>

lemma deleted_rows_gone:
  "get (without_rows ids (Obj kvs)) ''items'' = Arr (filter (\<lambda>i. request_row_id i \<notin> Str ` set ids) (arr_or_empty (get (Obj kvs) ''items'')))"
  by (simp add: without_rows_def obj_set_def lookup_set_prop)

section \<open>The overlay preview\<close>

lemma preview_frame:
  "cp_previewPinned (renderGlobalProxy active ds s) = cp_previewPinned s" "cp_preview (renderGlobalProxy active ds s) = cp_preview s"
  "cp_previewPinned (renderModelRoutes lc tr active ds s) = cp_previewPinned s" "cp_preview (renderModelRoutes lc tr active ds s) = cp_preview s"
  "cp_previewPinned (renderProviderModelMap lc tr s) = cp_previewPinned s" "cp_preview (renderProviderModelMap lc tr s) = cp_preview s"
  "cp_previewPinned (renderConfigProviders tr active ds s) = cp_previewPinned s" "cp_preview (renderConfigProviders tr active ds s) = cp_preview s"
  "cp_previewPinned (renderAuditTrail tr dates s) = cp_previewPinned s" "cp_preview (renderAuditTrail tr dates s) = cp_preview s"
  by (simp_all add: renderGlobalProxy_def renderModelRoutes_def renderProviderModelMap_def renderConfigProviders_def renderAuditTrail_def
      paged_def split_beta Let_def)

lemma preview_panels:
  "cp_previewPinned (render_config_panels lc tr dates active ds s) = cp_previewPinned s"
  "cp_preview (render_config_panels lc tr dates active ds s) = cp_preview s"
  by (simp_all add: render_config_panels_def preview_frame Let_def)

text \<open>
  A preview that was exported, validated or cleared stays: nothing lets go of it, so no overlay that arrives later
  is shown in its place.
\<close>

lemma pinned_preview_stays:
  "cp_previewPinned s \<Longrightarrow> cp_preview (renderConfig lc trs dates active ds s) = cp_preview s \<and> cp_previewPinned (renderConfig lc trs dates active ds s)"
  by (simp add: renderConfig_def render_overlay_part_def render_other_parts_def renderOverlaySafety_def preview_panels Let_def)

lemma export_pins: "cp_previewPinned (exportOverlay (Inr (i, ov)) s) \<and> cp_preview (exportOverlay (Inr (i, ov)) s) = pretty (obj_or_empty (get ov ''overlay''))"
  by (simp add: exportOverlay_def renderOverlaySafety_def Let_def)

end
