(* ===== verification/Tooltip.thy ===== *)
theory Tooltip
  imports JsFacts
begin

text \<open>
  The tooltip of the console (\<open>installTooltip\<close> in \<open>app.js\<close>): one popover element, shown for the
  nearest ancestor of the pointer or of the focus that carries a tooltip, hidden by a timer, and
  reconciled with the page one animation frame after every re-render through \<open>updateDOM\<close>; writes to the
  document that do not go through it are an event of their own.

  The page is a record: the chain of ancestors of every element (itself first), whether it is in the
  document, its attributes and its box, what lies under a point, which element has the focus, and
  the size the popover would have with a text. The browser computes these; the handlers of the code
  read them and write attributes. An event is one constructor per listener, and \<open>tip_step\<close> is the
  listener. A length of the layout is a rational number of pixels.
\<close>

section \<open>The page\<close>

type_synonym node = nat

record box =
  box_left :: rat
  box_top :: rat
  box_bottom :: rat
  box_width :: rat

record dom_page =
  ancestors :: "node \<Rightarrow> node list"
  isConnected :: "node \<Rightarrow> bool"
  attr_of :: "node \<Rightarrow> string \<Rightarrow> string option"
  rect_of :: "node \<Rightarrow> box"
  elementFromPoint :: "rat \<times> rat \<Rightarrow> node option"
  activeElement :: "node option"
  tip_rect :: "string \<Rightarrow> rat \<times> rat"
  tip_offset :: "string \<Rightarrow> rat \<times> rat"
  innerWidth :: rat
  innerHeight :: rat

definition setAttribute :: "node \<Rightarrow> string \<Rightarrow> string \<Rightarrow> dom_page \<Rightarrow> dom_page" where
  "setAttribute n k v p = p\<lparr>attr_of := (attr_of p)(n := (attr_of p n)(k \<mapsto> v))\<rparr>"

definition removeAttribute :: "node \<Rightarrow> string \<Rightarrow> dom_page \<Rightarrow> dom_page" where
  "removeAttribute n k p = p\<lparr>attr_of := (attr_of p)(n := (attr_of p n)(k := None))\<rparr>"

text \<open>\<open>getAttribute(k) || ""\<close>.\<close>

definition attr_text :: "dom_page \<Rightarrow> node \<Rightarrow> string \<Rightarrow> string" where
  "attr_text p n k = (case attr_of p n k of Some v \<Rightarrow> v | None \<Rightarrow> [])"

text \<open>\<open>node.closest("[data-tip], [title], [data-original-title]")\<close>.\<close>

definition has_tip_attr :: "dom_page \<Rightarrow> node \<Rightarrow> bool" where
  "has_tip_attr p n \<longleftrightarrow> attr_of p n ''data-tip'' \<noteq> None \<or> attr_of p n ''title'' \<noteq> None
     \<or> attr_of p n ''data-original-title'' \<noteq> None"

definition closest_tip :: "dom_page \<Rightarrow> node \<Rightarrow> node option" where
  "closest_tip p n = find (has_tip_attr p) (ancestors p n)"

definition contains_node :: "dom_page \<Rightarrow> node \<Rightarrow> node \<Rightarrow> bool" where
  "contains_node p c n \<longleftrightarrow> c \<in> set (ancestors p n)"

section \<open>The popover\<close>

record tip =
  tip_page :: dom_page
  tip_target :: "node option"
  tip_text :: string
  tip_visible :: bool
  tip_aria_hidden :: bool
  tip_below :: bool
  tip_left :: int
  tip_top :: int
  tip_timer :: bool
  tip_pointer :: "(rat \<times> rat) option"
  tip_raf :: bool

definition tip_id :: string where
  "tip_id = ''lpGlobalTooltip''"

text \<open>The popover as \<open>installTooltip\<close> creates it.\<close>

definition installTooltip :: "dom_page \<Rightarrow> tip" where
  "installTooltip p = \<lparr>tip_page = p, tip_target = None, tip_text = [], tip_visible = False,
     tip_aria_hidden = True, tip_below = False, tip_left = 0, tip_top = 0, tip_timer = False,
     tip_pointer = None, tip_raf = False\<rparr>"

text \<open>\<open>new Set(s.split(/\\s+/).filter(Boolean))\<close>: the ids in order of their first occurrence.\<close>

definition attr_ids :: "string \<Rightarrow> string list" where
  "attr_ids s = rev (remdups (rev (filter (\<lambda>w. w \<noteq> []) (js_split is_js_space s))))"

definition described_ids :: "dom_page \<Rightarrow> node \<Rightarrow> string list" where
  "described_ids p n = attr_ids (attr_text p n ''aria-describedby'')"

definition setDescribedBy :: "node option \<Rightarrow> bool \<Rightarrow> dom_page \<Rightarrow> dom_page" where
  "setDescribedBy target enabled p =
     (case target of
        None \<Rightarrow> p
      | Some n \<Rightarrow>
          (let ids = described_ids p n;
               ids' = (if enabled then (if tip_id \<in> set ids then ids else ids @ [tip_id])
                       else filter (\<lambda>w. w \<noteq> tip_id) ids)
           in if ids' \<noteq> [] then setAttribute n ''aria-describedby'' (js_join '' '' ids') p
              else removeAttribute n ''aria-describedby'' p))"

definition setCurrentTarget :: "node option \<Rightarrow> tip \<Rightarrow> tip" where
  "setCurrentTarget target s =
     (if tip_target s = target then s
      else s\<lparr>tip_page := setDescribedBy target True (setDescribedBy (tip_target s) False (tip_page s)),
             tip_target := target\<rparr>)"

definition suppressNative :: "node \<Rightarrow> dom_page \<Rightarrow> dom_page" where
  "suppressNative n p =
     (if attr_of p n ''data-tip-title-suppressed'' = Some ''1'' then p
      else let title = attr_text p n ''title'';
               p' = (if title \<noteq> []
                     then removeAttribute n ''title'' (setAttribute n ''data-original-title'' title p) else p)
           in setAttribute n ''data-tip-title-suppressed'' ''1'' p')"

definition hideNow :: "tip \<Rightarrow> tip" where
  "hideNow s = setCurrentTarget None (s\<lparr>tip_timer := False, tip_visible := False, tip_aria_hidden := True\<rparr>)"

definition hide_later :: "tip \<Rightarrow> tip" where
  "hide_later s = s\<lparr>tip_timer := True\<rparr>"

text \<open>The callback of the timer of \<open>hide\<close>.\<close>

definition hide_fires :: "tip \<Rightarrow> tip" where
  "hide_fires s = setCurrentTarget None (s\<lparr>tip_timer := False, tip_visible := False, tip_aria_hidden := True\<rparr>)"

definition js_round :: "rat \<Rightarrow> int" where
  "js_round q = \<lfloor>q + 1 / 2\<rfloor>"

definition or_size :: "rat \<Rightarrow> rat \<Rightarrow> rat" where
  "or_size a b = (if a \<noteq> 0 then a else b)"

definition tip_size :: "dom_page \<Rightarrow> string \<Rightarrow> rat \<times> rat" where
  "tip_size p x = (or_size (fst (tip_rect p x)) (fst (tip_offset p x)),
                   or_size (snd (tip_rect p x)) (snd (tip_offset p x)))"

definition tip_margin :: rat where
  "tip_margin = 10"

text \<open>The placement: above and centred, below when there is no room, clamped to the window.\<close>

definition place_below :: "dom_page \<Rightarrow> box \<Rightarrow> rat \<Rightarrow> bool" where
  "place_below p r h \<longleftrightarrow> box_top r - h - tip_margin < tip_margin"

definition place_top :: "dom_page \<Rightarrow> box \<Rightarrow> rat \<Rightarrow> rat" where
  "place_top p r h =
     max tip_margin
       (min (if place_below p r h then box_bottom r + tip_margin else box_top r - h - tip_margin)
            (innerHeight p - h - tip_margin))"

definition place_left :: "dom_page \<Rightarrow> box \<Rightarrow> rat \<Rightarrow> rat" where
  "place_left p r w =
     max tip_margin (min (box_left r + box_width r / 2 - w / 2) (innerWidth p - w - tip_margin))"

definition positionTip :: "node \<Rightarrow> tip \<Rightarrow> tip" where
  "positionTip n s =
     (let p = tip_page s in
      if \<not> isConnected p n then hideNow s
      else let r = rect_of p n; (w, h) = tip_size p (tip_text s)
           in s\<lparr>tip_left := js_round (place_left p r w), tip_top := js_round (place_top p r h),
                tip_below := place_below p r h\<rparr>)"

text \<open>The trimmed text of an element: its \<open>data-tip\<close>, else the title it had.\<close>

definition tip_label :: "dom_page \<Rightarrow> node \<Rightarrow> string" where
  "tip_label p n = js_trim (if attr_text p n ''data-tip'' \<noteq> [] then attr_text p n ''data-tip''
                            else attr_text p n ''data-original-title'')"

definition show_tip :: "node \<Rightarrow> tip \<Rightarrow> tip" where
  "show_tip n s0 =
     (let s = s0\<lparr>tip_page := suppressNative n (tip_page s0)\<rparr>; trimmed = tip_label (tip_page s) n
      in if trimmed = [] then hideNow s
         else (positionTip n
                ((setCurrentTarget (Some n) (s\<lparr>tip_timer := False\<rparr>))
                   \<lparr>tip_text := trimmed, tip_aria_hidden := False\<rparr>))\<lparr>tip_visible := True\<rparr>)"

section \<open>The listeners\<close>

text \<open>The target of an event is \<open>None\<close> when it is no element (the document itself). A page carried by an
  event is the page as the browser has changed it.\<close>

definition targetFromEvent :: "dom_page \<Rightarrow> node option \<Rightarrow> node option" where
  "targetFromEvent p t = Option.bind t (closest_tip p)"

definition targetAtPointer :: "tip \<Rightarrow> node option" where
  "targetAtPointer s =
     (let p = tip_page s in
      case Option.bind (tip_pointer s) (elementFromPoint p) of
        Some n \<Rightarrow> closest_tip p n
      | None \<Rightarrow> Option.bind (activeElement p) (closest_tip p))"

definition reconcile :: "tip \<Rightarrow> tip" where
  "reconcile s0 =
     (let s = s0\<lparr>tip_raf := False\<rparr>; p = tip_page s in
      case targetAtPointer s of
        Some n \<Rightarrow>
          (if (case tip_target s of None \<Rightarrow> True | Some c \<Rightarrow> \<not> isConnected p c \<or> n \<noteq> c) \<or> \<not> tip_visible s
           then show_tip n s else positionTip n s)
      | None \<Rightarrow>
          (case tip_target s of
             Some c \<Rightarrow> if \<not> isConnected p c \<or> tip_pointer s = None then hideNow s else s
           | None \<Rightarrow> s))"

definition scheduleTooltipReconcile :: "tip \<Rightarrow> tip" where
  "scheduleTooltipReconcile s = s\<lparr>tip_raf := True\<rparr>"

datatype tip_event =
    Pointermove rat rat
  | Mouseover "node option" rat rat
  | Mouseout "node option"
  | Mouseleave
  | Blur
  | Scroll dom_page
  | Resize dom_page
  | Relayout dom_page
  | Focusin "node option"
  | Focusout "node option"
  | Hide_timer
  | Animation_frame
  | Rerender dom_page
  | Direct_write dom_page

definition on_mouseout :: "node option \<Rightarrow> tip \<Rightarrow> tip" where
  "on_mouseout related s =
     (case (tip_target s, related) of
        (Some c, Some n) \<Rightarrow> if contains_node (tip_page s) c n \<or> n = c then s else hide_later s
      | _ \<Rightarrow> hide_later s)"

fun tip_step :: "tip_event \<Rightarrow> tip \<Rightarrow> tip" where
  "tip_step (Pointermove x y) s = s\<lparr>tip_pointer := Some (x, y)\<rparr>"
| "tip_step (Mouseover n x y) s0 =
     (let s = s0\<lparr>tip_pointer := Some (x, y)\<rparr> in
      case targetFromEvent (tip_page s) n of
        Some m \<Rightarrow> show_tip m s
      | None \<Rightarrow> if tip_target s \<noteq> None then hide_later s else s)"
| "tip_step (Mouseout related) s = on_mouseout related s"
| "tip_step Mouseleave s = hideNow (s\<lparr>tip_pointer := None\<rparr>)"
| "tip_step Blur s = hideNow s"
| "tip_step (Scroll p) s = scheduleTooltipReconcile (s\<lparr>tip_page := p\<rparr>)"
| "tip_step (Resize p) s = scheduleTooltipReconcile (s\<lparr>tip_page := p\<rparr>)"
| "tip_step (Relayout p) s = s\<lparr>tip_page := p\<rparr>"
| "tip_step (Focusin n) s =
     (case targetFromEvent (tip_page s) n of Some m \<Rightarrow> show_tip m s | None \<Rightarrow> s)"
| "tip_step (Focusout n) s =
     (case targetFromEvent (tip_page s) n of Some m \<Rightarrow> hide_later s | None \<Rightarrow> s)"
| "tip_step Hide_timer s = (if tip_timer s then hide_fires s else s)"
| "tip_step Animation_frame s = (if tip_raf s then reconcile s else s)"
| "tip_step (Rerender p) s = scheduleTooltipReconcile (s\<lparr>tip_page := p\<rparr>)"
| "tip_step (Direct_write p) s = s\<lparr>tip_page := p\<rparr>"

text \<open>
  What the browser guarantees: an ancestor of an element of the document is in it, and only elements
  of the document lie under the pointer, have the focus or receive an event. Scrolling, resizing and
  other changes of the layout or of the focus keep the elements and their attributes. A re-render
  (\<open>updateDOM\<close>) or a direct write (\<open>innerHTML\<close>, \<open>remove()\<close>, \<open>setAttribute\<close>; no reconciliation) brings
  markup that never names the popover: an element that refers to it afterwards did so before.
\<close>

definition page_ok :: "dom_page \<Rightarrow> bool" where
  "page_ok p \<longleftrightarrow> (\<forall>n. isConnected p n \<longrightarrow> (\<forall>m \<in> set (ancestors p n). isConnected p m))
     \<and> (\<forall>q n. elementFromPoint p q = Some n \<longrightarrow> isConnected p n)
     \<and> (\<forall>n. activeElement p = Some n \<longrightarrow> isConnected p n)"

definition describes :: "dom_page \<Rightarrow> node \<Rightarrow> bool" where
  "describes p n \<longleftrightarrow> tip_id \<in> set (described_ids p n)"

definition same_elements :: "dom_page \<Rightarrow> dom_page \<Rightarrow> bool" where
  "same_elements p q \<longleftrightarrow> attr_of q = attr_of p \<and> isConnected q = isConnected p"

fun event_ok :: "tip_event \<Rightarrow> tip \<Rightarrow> bool" where
  "event_ok (Mouseover (Some n) x y) s = isConnected (tip_page s) n"
| "event_ok (Focusin (Some n)) s = isConnected (tip_page s) n"
| "event_ok (Scroll p) s = (page_ok p \<and> same_elements (tip_page s) p)"
| "event_ok (Resize p) s = (page_ok p \<and> same_elements (tip_page s) p)"
| "event_ok (Relayout p) s = (page_ok p \<and> same_elements (tip_page s) p)"
| "event_ok (Rerender p) s = (page_ok p \<and> (\<forall>n. describes p n \<longrightarrow> describes (tip_page s) n))"
| "event_ok (Direct_write p) s = (page_ok p \<and> (\<forall>n. describes p n \<longrightarrow> describes (tip_page s) n))"
| "event_ok _ s = True"

text \<open>
  A run carries one bit of history: a direct write has taken an anchor out of the document, and the tooltip has not
  been reconciled since.
\<close>

fun anchor_cut :: "tip_event \<Rightarrow> tip \<Rightarrow> bool \<Rightarrow> bool" where
  "anchor_cut (Direct_write p) s lost =
     (lost \<or> (case tip_target s of None \<Rightarrow> False | Some c \<Rightarrow> isConnected (tip_page s) c \<and> \<not> isConnected p c))"
| "anchor_cut Animation_frame s lost = (lost \<and> \<not> tip_raf s)"
| "anchor_cut _ s lost = lost"

inductive tip_run :: "dom_page \<Rightarrow> tip \<Rightarrow> bool \<Rightarrow> bool" for p where
  start: "page_ok p \<Longrightarrow> (\<forall>n. \<not> describes p n) \<Longrightarrow> tip_run p (installTooltip p) False"
| act: "tip_run p s lost \<Longrightarrow> event_ok e s \<Longrightarrow> tip_run p (tip_step e s) (anchor_cut e s lost)"

section \<open>Writing markup\<close>

text \<open>
  \<open>updateDOM(target, html)\<close>: nothing for a missing target or for the markup it was given last; otherwise the
  markup replaces the content (plainly when it is blank, through \<open>morphdom\<close> when not) and the tooltip is
  reconciled. \<open>morphdom\<close> is a library, hence a parameter: the content it makes of the old content and the
  new markup.
\<close>

record dom_content =
  shown :: "node \<Rightarrow> string"
  renderedHtmlByTarget :: "node \<Rightarrow> string option"
  reconciles :: nat

definition write_markup :: "node \<Rightarrow> string \<Rightarrow> string \<Rightarrow> dom_content \<Rightarrow> dom_content" where
  "write_markup n content nextHtml d = d\<lparr>shown := (shown d)(n := content),
     renderedHtmlByTarget := (renderedHtmlByTarget d)(n \<mapsto> nextHtml), reconciles := reconciles d + 1\<rparr>"

definition updateDOM :: "(string \<Rightarrow> string \<Rightarrow> string) \<Rightarrow> node option \<Rightarrow> jsval \<Rightarrow> dom_content \<Rightarrow> dom_content" where
  "updateDOM morph target htmlString d =
     (case target of
        None \<Rightarrow> d
      | Some n \<Rightarrow>
          (let nextHtml = to_str (jcoalesce htmlString (Str [])) in
           if renderedHtmlByTarget d n = Some nextHtml then d
           else if js_trim (shown d n) = [] then write_markup n nextHtml nextHtml d
           else write_markup n (morph (shown d n) nextHtml) nextHtml d))"

section \<open>Correctness\<close>

text \<open>
  Correctness of the tooltip: the id lists of \<open>aria-describedby\<close> survive being written and read back, every
  listener keeps the invariant that ties the popover to its anchor, the placement stays inside the window and
  off the anchor, and a markup write shows what it was given while nothing else writes the element.
\<close>

section \<open>Described elements\<close>

lemma split_pieces_plain: "w \<in> set (js_split f s) \<Longrightarrow> \<forall>c \<in> set w. \<not> f c"
  by (induction s arbitrary: w) (auto split: if_splits list.splits, blast+)

definition words_ok :: "string list \<Rightarrow> bool" where
  "words_ok ws \<longleftrightarrow> (\<forall>w \<in> set ws. w \<noteq> [] \<and> (\<forall>c \<in> set w. \<not> is_js_space c))"

lemma attr_ids_set: "set (attr_ids s) = set (js_split is_js_space s) - {[]}"
  by (auto simp: attr_ids_def)

lemma attr_ids_words: "words_ok (attr_ids s)"
  by (auto simp: words_ok_def attr_ids_set dest: split_pieces_plain)

lemma split_join_words: "words_ok ws \<Longrightarrow> ws \<noteq> [] \<Longrightarrow> js_split is_js_space (js_join '' '' ws) = ws"
proof (induction ws rule: induct_list012)
  case (3 x y zs)
  then show ?case
    by (simp add: words_ok_def js_split_at space_is_space)
qed (simp_all add: words_ok_def js_split_plain)

lemma join_ids: "words_ok ws \<Longrightarrow> set (attr_ids (js_join '' '' ws)) = set ws"
  by (cases "ws = []") (auto simp: attr_ids_set split_join_words words_ok_def)

lemma attr_of_set [simp]: "attr_of (setAttribute n k v p) = (attr_of p)(n := (attr_of p n)(k \<mapsto> v))"
  by (simp add: setAttribute_def)

lemma attr_of_remove [simp]: "attr_of (removeAttribute n k p) = (attr_of p)(n := (attr_of p n)(k := None))"
  by (simp add: removeAttribute_def)

lemma tip_id_word: "words_ok [tip_id]"
  by (simp add: words_ok_def tip_id_def is_js_space_def)

lemma describes_set:
  "describes (setDescribedBy target enabled p) n \<longleftrightarrow> (if target = Some n then enabled else describes p n)"
proof (cases "target = Some n")
  case False
  then show ?thesis
    by (auto simp: describes_def setDescribedBy_def described_ids_def attr_text_def Let_def split: option.splits)
next
  case True
  define ids where "ids = described_ids p n"
  define ids' where "ids' = (if enabled then (if tip_id \<in> set ids then ids else ids @ [tip_id])
                       else filter (\<lambda>w. w \<noteq> tip_id) ids)"
  have ok: "words_ok ids'"
    using attr_ids_words [of "attr_text p n ''aria-describedby''"] tip_id_word
    by (auto simp: ids'_def ids_def described_ids_def words_ok_def)
  have "described_ids (setDescribedBy target enabled p) n = attr_ids (js_join '' '' ids')"
    using True by (auto simp: setDescribedBy_def ids'_def ids_def described_ids_def attr_text_def Let_def)
  moreover have "tip_id \<in> set ids' \<longleftrightarrow> enabled"
    by (simp add: ids'_def)
  ultimately show ?thesis
    using True by (simp add: describes_def join_ids [OF ok])
qed

lemma describes_attr: "attr_of p n ''aria-describedby'' = attr_of q n ''aria-describedby'' \<Longrightarrow> describes p n = describes q n"
  by (simp add: describes_def described_ids_def attr_text_def)

lemma suppressNative_describes [simp]: "describes (suppressNative m p) n = describes p n"
  by (rule describes_attr) (simp add: suppressNative_def Let_def)

text \<open>Attribute writes leave the shape of the page alone.\<close>

definition same_shape :: "dom_page \<Rightarrow> dom_page \<Rightarrow> bool" where
  "same_shape p q \<longleftrightarrow> ancestors q = ancestors p \<and> isConnected q = isConnected p
     \<and> elementFromPoint q = elementFromPoint p \<and> activeElement q = activeElement p"

lemma same_shape_set [simp]: "same_shape p (setAttribute n k v p)" "same_shape p (removeAttribute n k p)"
  "same_shape p p"
  by (simp_all add: same_shape_def setAttribute_def removeAttribute_def)

lemma same_shape_trans: "same_shape p q \<Longrightarrow> same_shape q r \<Longrightarrow> same_shape p r"
  by (simp add: same_shape_def)

lemma same_shape_described [simp]: "same_shape p (setDescribedBy target b p)"
  by (simp add: setDescribedBy_def Let_def split: option.split)

lemma same_shape_suppress [simp]: "same_shape p (suppressNative n p)"
  by (simp add: suppressNative_def Let_def same_shape_def setAttribute_def removeAttribute_def)

lemma same_shape_current [simp]: "same_shape (tip_page s) (tip_page (setCurrentTarget x s))"
  by (simp add: setCurrentTarget_def) (blast intro: same_shape_trans same_shape_described)

lemma page_ok_shape: "same_shape p q \<Longrightarrow> page_ok q = page_ok p"
  by (simp add: same_shape_def page_ok_def)

lemma connected_shape: "same_shape p q \<Longrightarrow> isConnected q = isConnected p"
  by (simp add: same_shape_def)

lemma closest_connected: "page_ok p \<Longrightarrow> isConnected p n \<Longrightarrow> closest_tip p n = Some m \<Longrightarrow> isConnected p m"
  by (auto simp: page_ok_def closest_tip_def find_Some_iff)

section \<open>The invariant\<close>

definition tip_inv :: "bool \<Rightarrow> tip \<Rightarrow> bool" where
  "tip_inv g s \<longleftrightarrow> page_ok (tip_page s) \<and> (tip_visible s \<longleftrightarrow> tip_target s \<noteq> None)
     \<and> (tip_aria_hidden s \<longleftrightarrow> \<not> tip_visible s)
     \<and> (\<forall>n. describes (tip_page s) n \<longrightarrow> tip_target s = Some n)
     \<and> (tip_visible s \<longrightarrow> js_trim (tip_text s) = tip_text s \<and> tip_text s \<noteq> [])
     \<and> (\<forall>c. tip_target s = Some c \<longrightarrow> isConnected (tip_page s) c \<or> tip_raf s \<or> g)"

lemma setCurrentTarget_fields [simp]:
  "tip_target (setCurrentTarget x s) = x" "tip_visible (setCurrentTarget x s) = tip_visible s"
  "tip_aria_hidden (setCurrentTarget x s) = tip_aria_hidden s" "tip_text (setCurrentTarget x s) = tip_text s"
  "tip_timer (setCurrentTarget x s) = tip_timer s" "tip_raf (setCurrentTarget x s) = tip_raf s"
  "tip_pointer (setCurrentTarget x s) = tip_pointer s"
  by (simp_all add: setCurrentTarget_def)

lemma setCurrentTarget_describes:
  "(\<forall>n. describes (tip_page s) n \<longrightarrow> tip_target s = Some n) \<Longrightarrow>
   describes (tip_page (setCurrentTarget x s)) n \<Longrightarrow> x = Some n"
  by (auto simp: setCurrentTarget_def describes_set split: if_splits)

lemma hideNow_inv:
  assumes "page_ok (tip_page s)" and "\<forall>n. describes (tip_page s) n \<longrightarrow> tip_target s = Some n"
  shows "tip_inv g (hideNow s)"
  using assms setCurrentTarget_describes [of "s\<lparr>tip_timer := False, tip_visible := False, tip_aria_hidden := True\<rparr>" None]
    page_ok_shape [OF same_shape_current [of "s\<lparr>tip_timer := False, tip_visible := False, tip_aria_hidden := True\<rparr>" None]]
  by (auto simp: tip_inv_def hideNow_def)

lemma positionTip_connected:
  "isConnected (tip_page s) n \<Longrightarrow> \<exists>l t b. positionTip n s = s\<lparr>tip_left := l, tip_top := t, tip_below := b\<rparr>"
  by (auto simp: positionTip_def Let_def split: prod.split)

lemma positionTip_inv: "tip_inv g s \<Longrightarrow> isConnected (tip_page s) n \<Longrightarrow> tip_inv g (positionTip n s)"
  using positionTip_connected [of s n] by (auto simp: tip_inv_def)

lemma show_tip_inv:
  assumes "page_ok (tip_page s)" and "\<forall>n. describes (tip_page s) n \<longrightarrow> tip_target s = Some n"
    and "isConnected (tip_page s) n"
  shows "tip_inv g (show_tip n s)"
proof -
  define s1 where "s1 = s\<lparr>tip_page := suppressNative n (tip_page s)\<rparr>"
  have s1: "page_ok (tip_page s1)" "\<forall>m. describes (tip_page s1) m \<longrightarrow> tip_target s1 = Some m"
    "isConnected (tip_page s1) n"
    using assms page_ok_shape [OF same_shape_suppress] connected_shape [OF same_shape_suppress, of n]
    by (auto simp: s1_def)
  define tx where "tx = tip_label (tip_page s1) n"
  show ?thesis
  proof (cases "tx = []")
    case True
    then have "show_tip n s = hideNow s1"
      by (simp add: show_tip_def s1_def tx_def Let_def)
    then show ?thesis
      using hideNow_inv [OF s1(1,2)] by simp
  next
    case False
    define s2 where "s2 = (setCurrentTarget (Some n) (s1\<lparr>tip_timer := False\<rparr>))\<lparr>tip_text := tx, tip_aria_hidden := False\<rparr>"
    have eq: "show_tip n s = (positionTip n s2)\<lparr>tip_visible := True\<rparr>"
      using False by (simp add: show_tip_def s1_def tx_def s2_def Let_def)
    have sh: "same_shape (tip_page s1) (tip_page s2)"
      using same_shape_current [of "s1\<lparr>tip_timer := False\<rparr>" "Some n"] by (simp add: s2_def)
    have c: "isConnected (tip_page s2) n"
      using connected_shape [OF sh] s1(3) by simp
    obtain l t b where p: "positionTip n s2 = s2\<lparr>tip_left := l, tip_top := t, tip_below := b\<rparr>"
      using positionTip_connected [OF c] by blast
    have "describes (tip_page s2) m \<Longrightarrow> m = n" for m
      using setCurrentTarget_describes [of "s1\<lparr>tip_timer := False\<rparr>" "Some n" m] s1(2) by (simp add: s2_def)
    then show ?thesis
      using c p page_ok_shape [OF sh] s1(1) False by (auto simp: eq tip_inv_def s2_def tx_def tip_label_def)
  qed
qed

lemma tip_inv_parts:
  assumes "tip_inv g s"
  shows "page_ok (tip_page s)" "\<forall>n. describes (tip_page s) n \<longrightarrow> tip_target s = Some n"
  using assms by (simp_all add: tip_inv_def)

lemma hide_fires_hideNow: "hide_fires s = hideNow s"
  by (simp add: hide_fires_def hideNow_def)

lemma inv_hide_later: "tip_inv g s \<Longrightarrow> tip_inv g (hide_later s)"
  by (simp add: tip_inv_def hide_later_def)

lemma inv_pointer: "tip_inv g s \<Longrightarrow> tip_inv g (s\<lparr>tip_pointer := q\<rparr>)"
  by (simp add: tip_inv_def)

lemma inv_page:
  assumes "tip_inv g s" and "page_ok p" and "\<forall>n. describes p n \<longrightarrow> describes (tip_page s) n"
  shows "tip_inv g (scheduleTooltipReconcile (s\<lparr>tip_page := p\<rparr>))"
  using assms by (auto simp: tip_inv_def scheduleTooltipReconcile_def)

lemma inv_relayout:
  assumes "tip_inv g s" and "page_ok p" and "same_elements (tip_page s) p"
  shows "tip_inv g (s\<lparr>tip_page := p\<rparr>)" "\<forall>n. describes p n \<longrightarrow> describes (tip_page s) n"
  using assms describes_attr [of p _ "tip_page s"] by (auto simp: tip_inv_def same_elements_def)

lemma target_event_connected:
  assumes "page_ok p" and "targetFromEvent p t = Some m" and "\<forall>n. t = Some n \<longrightarrow> isConnected p n"
  shows "isConnected p m"
proof -
  obtain n where "t = Some n" "closest_tip p n = Some m"
    using assms(2) by (cases t) (simp_all add: targetFromEvent_def)
  then show ?thesis
    using closest_connected [OF assms(1)] assms(3) by blast
qed

lemma pointer_connected:
  assumes "page_ok (tip_page s)" and "targetAtPointer s = Some m"
  shows "isConnected (tip_page s) m"
proof -
  have "\<exists>n. isConnected (tip_page s) n \<and> closest_tip (tip_page s) n = Some m"
    using assms by (auto simp: targetAtPointer_def Let_def page_ok_def bind_eq_Some_conv split: option.splits) blast+
  then show ?thesis
    using closest_connected [OF assms(1)] by blast
qed

lemma reconcile_inv:
  assumes inv: "tip_inv g s" shows "tip_inv False (reconcile s)"
proof -
  define r where "r = s\<lparr>tip_raf := False\<rparr>"
  have r: "page_ok (tip_page r)" "\<forall>n. describes (tip_page r) n \<longrightarrow> tip_target r = Some n"
    using tip_inv_parts [OF inv] by (simp_all add: r_def)
  show ?thesis
  proof (cases "targetAtPointer r")
    case (Some n)
    have c: "isConnected (tip_page r) n"
      using pointer_connected [OF r(1) Some] .
    show ?thesis
    proof (cases "(case tip_target r of None \<Rightarrow> True | Some c \<Rightarrow> \<not> isConnected (tip_page r) c \<or> n \<noteq> c) \<or> \<not> tip_visible r")
      case True
      then have "reconcile s = show_tip n r"
        unfolding reconcile_def Let_def r_def [symmetric] using Some by simp
      then show ?thesis
        using show_tip_inv [OF r c] by simp
    next
      case False
      then have "reconcile s = positionTip n r" and "tip_inv False r"
        using Some inv by (auto simp: reconcile_def r_def Let_def tip_inv_def split: option.splits)
      then show ?thesis
        using positionTip_inv c by simp
    qed
  next
    case None
    then have "reconcile s = (if (\<exists>c. tip_target r = Some c \<and> (\<not> isConnected (tip_page r) c \<or> tip_pointer r = None))
      then hideNow r else r)"
      by (simp add: reconcile_def r_def Let_def split: option.split)
    then show ?thesis
      using hideNow_inv [OF r] inv by (auto simp: r_def tip_inv_def split: if_splits)
  qed
qed

lemma tip_step_inv:
  assumes inv: "tip_inv g s" and ok: "event_ok e s"
  shows "tip_inv (anchor_cut e s g) (tip_step e s)"
proof (cases e)
  case (Mouseover n x y)
  define r where "r = s\<lparr>tip_pointer := Some (x, y)\<rparr>"
  have r: "tip_inv g r" using inv by (simp add: r_def inv_pointer)
  show ?thesis
  proof (cases "targetFromEvent (tip_page r) n")
    case None
    then have "tip_step e s = (if tip_target s \<noteq> None then hide_later r else r)"
      by (simp add: Mouseover r_def)
    then show ?thesis using r inv_hide_later by (simp add: Mouseover)
  next
    case (Some m)
    have "isConnected (tip_page r) m"
      by (rule target_event_connected [OF tip_inv_parts(1) [OF r] Some]) (use ok Mouseover r_def in auto)
    then show ?thesis
      using show_tip_inv [OF tip_inv_parts [OF r], of m] Some by (simp add: Mouseover r_def)
  qed
next
  case (Focusin n)
  have "isConnected (tip_page s) m" if "targetFromEvent (tip_page s) n = Some m" for m
    by (rule target_event_connected [OF tip_inv_parts(1) [OF inv] that]) (use ok Focusin in auto)
  then show ?thesis
    using inv show_tip_inv [OF tip_inv_parts [OF inv]] Focusin by (auto split: option.split)
next
  case Mouseleave
  then show ?thesis
    using hideNow_inv [OF tip_inv_parts [OF inv_pointer [OF inv, of None]]] by simp
next
  case (Scroll p)
  then show ?thesis using inv_page [OF inv _ inv_relayout(2) [OF inv]] ok by simp
next
  case (Resize p)
  then show ?thesis using inv_page [OF inv _ inv_relayout(2) [OF inv]] ok by simp
next
  case (Relayout p)
  then show ?thesis using inv_relayout [OF inv] ok by simp
next
  case (Rerender p)
  then show ?thesis using inv_page [OF inv] ok by simp
next
  case (Direct_write p)
  then show ?thesis using inv ok by (auto simp: tip_inv_def)
next
  case Animation_frame
  then show ?thesis using inv reconcile_inv [OF inv] by (cases g) auto
qed (use inv hideNow_inv [OF tip_inv_parts [OF inv]] inv_pointer [OF inv] inv_hide_later [OF inv] in
      \<open>auto simp: hide_fires_hideNow on_mouseout_def split: option.split\<close>)

lemma tip_run_inv: "tip_run p s lost \<Longrightarrow> tip_inv lost s"
proof (induction rule: tip_run.induct)
  case start
  then show ?case by (simp add: tip_inv_def installTooltip_def)
qed (rule tip_step_inv)

section \<open>Anchored and gone\<close>

lemma raf_fields [simp]: "tip_raf (hideNow s) = tip_raf s" "tip_raf (positionTip n s) = tip_raf s"
  "tip_raf (show_tip n s) = tip_raf s"
  by (simp_all add: hideNow_def positionTip_def show_tip_def Let_def split: prod.split)

lemma reconcile_raf: "\<not> tip_raf (reconcile s)"
  by (simp add: reconcile_def Let_def split: option.split)

text \<open>
  C34. The tooltip follows its anchor. Whatever the pointer, the focus, the timer, the layout, the re-renders and the
  direct writes to the document do and in whatever order: the popover is shown exactly while it has an anchor,
  assistive technology is told the same, its text is never blank, and no element other than the anchor refers to it.
  Every re-render leaves a reconciliation pending, and a pending one hides the popover or moves it to an element of
  the page. So an anchor that has left the page has a reconciliation pending, unless a direct write took it away and
  nothing has been reconciled since.
\<close>

theorem tooltip_follows_anchor:
  assumes "tip_run p s lost"
  shows "(tip_visible s \<longleftrightarrow> tip_target s \<noteq> None) \<and> (tip_aria_hidden s \<longleftrightarrow> \<not> tip_visible s)
    \<and> (tip_visible s \<longrightarrow> js_trim (tip_text s) \<noteq> [])
    \<and> (\<forall>n. describes (tip_page s) n \<longrightarrow> tip_target s = Some n)
    \<and> (\<forall>q. tip_raf (tip_step (Rerender q) s))
    \<and> (tip_raf s \<longrightarrow> (let r = tip_step Animation_frame s in
         \<not> tip_raf r \<and> (\<forall>d. tip_target r = Some d \<longrightarrow> isConnected (tip_page r) d)))
    \<and> (\<forall>c. tip_target s = Some c \<and> \<not> isConnected (tip_page s) c \<longrightarrow> tip_raf s \<or> lost)"
proof -
  have inv: "tip_inv lost s" by (rule tip_run_inv [OF assms])
  have "tip_inv False (reconcile s)" by (rule reconcile_inv [OF inv])
  then have "tip_target (reconcile s) = Some d \<Longrightarrow> isConnected (tip_page (reconcile s)) d" for d
    using reconcile_raf [of s] by (auto simp: tip_inv_def)
  then show ?thesis
    using inv reconcile_raf [of s] by (auto simp: tip_inv_def Let_def scheduleTooltipReconcile_def)
qed

definition sample_tip_page :: dom_page where
  "sample_tip_page = \<lparr>ancestors = (\<lambda>n. if n = 2 then [2, 1] else [n]), isConnected = (\<lambda>n. n \<in> {1, 2}),
     attr_of = (\<lambda>n k. if n = 1 \<and> k = ''title'' then Some '' Keys '' else None),
     rect_of = (\<lambda>n. \<lparr>box_left = 100, box_top = 100, box_bottom = 120, box_width = 40\<rparr>),
     elementFromPoint = (\<lambda>q. Some 2), activeElement = None,
     tip_rect = (\<lambda>x. (60, 24)), tip_offset = (\<lambda>x. (0, 0)), innerWidth = 800, innerHeight = 600\<rparr>"

definition emptied_page :: dom_page where
  "emptied_page = sample_tip_page\<lparr>isConnected := (\<lambda>n. n = 9), elementFromPoint := (\<lambda>q. None)\<rparr>"

lemma hovered_run:
  "tip_run sample_tip_page (tip_step (Mouseover (Some 2) 110 110) (installTooltip sample_tip_page)) False"
proof -
  have 0: "tip_run sample_tip_page (installTooltip sample_tip_page) False"
    by (rule tip_run.start) (simp_all add: page_ok_def sample_tip_page_def describes_def described_ids_def attr_text_def
        attr_ids_def tip_id_def)
  show ?thesis
    using tip_run.act [OF 0, of "Mouseover (Some 2) 110 110"] by (simp add: sample_tip_page_def installTooltip_def)
qed

lemma hovered_tip:
  "let s = tip_step (Mouseover (Some 2) 110 110) (installTooltip sample_tip_page) in
   tip_visible s \<and> tip_target s = Some 1 \<and> tip_text s = ''Keys'' \<and> \<not> tip_raf s \<and> \<not> tip_timer s"
  by code_simp

lemma emptied_ok: "page_ok emptied_page \<and> \<not> describes emptied_page n"
  by (simp add: page_ok_def emptied_page_def sample_tip_page_def describes_def described_ids_def attr_text_def
      attr_ids_def tip_id_def)

theorem tooltip_follows_anchor_witness:
  "let s = tip_step (Mouseover (Some 2) 110 110) (installTooltip sample_tip_page); r = tip_step (Rerender emptied_page) s in
   tip_visible s \<and> tip_target s = Some 1 \<and> tip_text s = ''Keys'' \<and> (tip_visible r \<longleftrightarrow> tip_target r \<noteq> None)
   \<and> tip_target (tip_step Animation_frame r) = None"
proof -
  let ?s = "tip_step (Mouseover (Some 2) 110 110) (installTooltip sample_tip_page)"
  have 2: "tip_run sample_tip_page (tip_step (Rerender emptied_page) ?s) False"
    using tip_run.act [OF hovered_run, of "Rerender emptied_page"] emptied_ok by simp
  have "tip_target (tip_step Animation_frame (tip_step (Rerender emptied_page) ?s)) = None"
    by code_simp
  then show ?thesis
    using hovered_tip tooltip_follows_anchor [OF 2] by (simp add: Let_def)
qed

text \<open>
  The case left open happens: a direct write that takes the anchor away (the probe list of the provider drawer, a
  member row of the model form) leaves the popover on the page, with nothing pending that would hide it.
\<close>

lemma direct_write_orphans_tip:
  "\<exists>s. tip_run sample_tip_page s True \<and> tip_visible s \<and> tip_target s = Some 1 \<and> \<not> isConnected (tip_page s) 1
     \<and> \<not> tip_raf s \<and> \<not> tip_timer s"
proof -
  let ?s = "tip_step (Mouseover (Some 2) 110 110) (installTooltip sample_tip_page)"
  have c: "anchor_cut (Direct_write emptied_page) ?s False" by code_simp
  have "tip_run sample_tip_page (tip_step (Direct_write emptied_page) ?s) True"
    using tip_run.act [OF hovered_run, of "Direct_write emptied_page"] emptied_ok c by simp
  moreover have "\<not> isConnected emptied_page 1" by (simp add: emptied_page_def)
  ultimately show ?thesis
    using hovered_tip by (intro exI [of _ "tip_step (Direct_write emptied_page) ?s"]) (simp add: Let_def)
qed

section \<open>Placement\<close>

lemma js_round_bounds: "of_int a \<le> q \<Longrightarrow> a \<le> js_round q" "of_int (js_round q) \<le> q + 1 / 2"
  by (simp_all add: js_round_def le_floor_iff)

text \<open>
  The tooltip is placed where it can be read. It is never placed left of or above the margin of 10 pixels; when
  the window has room for it, it also ends before the right and the bottom margin (up to the half pixel of the
  rounding); and a tooltip placed above its anchor ends at least 10 pixels (up to that half pixel) above it.
\<close>

lemma tooltip_inside_window:
  assumes "isConnected (tip_page s) n" and "tip_size (tip_page s) (tip_text s) = (w, h)"
  shows "let r = positionTip n s; p = tip_page s in
    10 \<le> tip_left r \<and> 10 \<le> tip_top r
    \<and> (w + 20 \<le> innerWidth p \<longrightarrow> of_int (tip_left r) + w \<le> innerWidth p - 10 + 1 / 2)
    \<and> (h + 20 \<le> innerHeight p \<longrightarrow> of_int (tip_top r) + h \<le> innerHeight p - 10 + 1 / 2)
    \<and> (\<not> tip_below r \<longrightarrow> of_int (tip_top r) + h + 10 \<le> box_top (rect_of p n) + 1 / 2)"
proof -
  let ?p = "tip_page s"
  have l: "10 \<le> place_left ?p (rect_of ?p n) w" "10 \<le> place_top ?p (rect_of ?p n) h"
    by (simp_all add: place_left_def place_top_def tip_margin_def)
  have r: "w + 20 \<le> innerWidth ?p \<Longrightarrow> place_left ?p (rect_of ?p n) w + w \<le> innerWidth ?p - 10"
    "h + 20 \<le> innerHeight ?p \<Longrightarrow> place_top ?p (rect_of ?p n) h + h \<le> innerHeight ?p - 10"
    by (auto simp: place_left_def place_top_def tip_margin_def max_def min_def)
  have a: "\<not> place_below ?p (rect_of ?p n) h \<Longrightarrow> place_top ?p (rect_of ?p n) h + h + 10 \<le> box_top (rect_of ?p n)"
    by (auto simp: place_below_def place_top_def tip_margin_def max_def min_def)
  have pos: "positionTip n s = s\<lparr>tip_left := js_round (place_left ?p (rect_of ?p n) w),
      tip_top := js_round (place_top ?p (rect_of ?p n) h), tip_below := place_below ?p (rect_of ?p n) h\<rparr>"
    using assms by (simp add: positionTip_def Let_def)
  have "10 \<le> js_round (place_left ?p (rect_of ?p n) w)" "10 \<le> js_round (place_top ?p (rect_of ?p n) h)"
    using l by (auto intro: js_round_bounds(1))
  then show ?thesis
    using js_round_bounds(2) [of "place_left ?p (rect_of ?p n) w"] js_round_bounds(2) [of "place_top ?p (rect_of ?p n) h"]
      r a by (auto simp: pos Let_def)
qed

section \<open>Re-renders under the pointer\<close>

text \<open>A shown tooltip replaces the native one: the title moves to the attribute the tooltip reads.\<close>

lemma suppressNative_title:
  assumes "attr_of p n ''data-tip-title-suppressed'' \<noteq> Some ''1''" and "attr_text p n ''title'' \<noteq> []"
  shows "attr_of (suppressNative n p) n ''title'' = None"
    "attr_of (suppressNative n p) n ''data-original-title'' = attr_of p n ''title''"
  using assms by (auto simp: suppressNative_def Let_def attr_text_def split: option.splits)

text \<open>
  A re-render that keeps the anchor under the pointer gives it back the title of the new markup; the
  reconciliation only moves the popover, so the old text stays and the native tooltip comes back.
\<close>

lemma rerender_keeps_old_tip:
  assumes run: "tip_run p s lost" and "tip_target s = Some n" and "isConnected q n"
    and "targetAtPointer (s\<lparr>tip_page := q\<rparr>) = Some n"
  shows "let r = tip_step Animation_frame (tip_step (Rerender q) s) in
    tip_text r = tip_text s \<and> tip_visible r \<and> attr_of (tip_page r) n = attr_of q n"
proof -
  have v: "tip_visible s"
    using tip_run_inv [OF run] assms(2) by (simp add: tip_inv_def)
  define u where "u = s\<lparr>tip_page := q, tip_raf := False\<rparr>"
  have "targetAtPointer u = Some n"
    using assms(4) by (simp add: u_def targetAtPointer_def)
  then have "tip_step Animation_frame (tip_step (Rerender q) s) = positionTip n u"
    using assms(2,3) v by (simp add: scheduleTooltipReconcile_def reconcile_def Let_def u_def)
  moreover obtain l t b where "positionTip n u = u\<lparr>tip_left := l, tip_top := t, tip_below := b\<rparr>"
    using positionTip_connected [of u n] assms(3) by (auto simp: u_def)
  ultimately show ?thesis
    using v by (simp add: u_def)
qed

section \<open>Writing markup\<close>

text \<open>The cache is sound while it holds, for every element it names, the markup the element shows.\<close>

definition cache_sound :: "dom_content \<Rightarrow> bool" where
  "cache_sound d \<longleftrightarrow> (\<forall>n h. renderedHtmlByTarget d n = Some h \<longrightarrow> shown d n = h)"

lemma updateDOM_shows:
  assumes "\<And>old new. morph old new = new" and "cache_sound d"
  shows "shown (updateDOM morph (Some n) html d) n = to_str (jcoalesce html (Str []))"
    "cache_sound (updateDOM morph target html d)"
  using assms by (auto simp: updateDOM_def write_markup_def cache_sound_def Let_def split: option.split)

text \<open>Content written past it (by a surrounding element, say) is then kept by a repeated write.\<close>

lemma repeated_markup_skipped:
  assumes "shown d2 n = other" and "renderedHtmlByTarget d2 = renderedHtmlByTarget (updateDOM morph (Some n) html d)"
  shows "shown (updateDOM morph (Some n) html d2) n = other"
  using assms by (auto simp: updateDOM_def write_markup_def Let_def split: if_splits)

end
