(* ===== verification/ModelSummary.thy ===== *)
theory ModelSummary
  imports UsageDrawer ApiClient
begin

text \<open>
  The benchmark summary of one model (\<open>openModelDrawer\<close> of \<open>app.js\<close>): what the drawer shows while it waits, for a
  summary, for an error with its suggestion, and for a failed request. The drawer is shared with the usage of a model;
  the function is cut at its await; the drawers it closes first are the matter of \<open>DrawerNav\<close>. A value read from the reply may have any type, and what throws is \<open>None\<close>.
\<close>

section \<open>Parts of the summary\<close>

text \<open>\<open>fmtRank\<close>.\<close>

definition fmtRank :: "jsval \<Rightarrow> string" where
  "fmtRank item =
     (if truthy item \<and> truthy (get item ''rank'')
      then (''#'' @ (to_str (get item ''rank'')) @ '' of '' @ (to_str (get item ''total''))) else ''-'')"

text \<open>\<open>v !== null ? `${v.toFixed(2)}s` : "-"\<close>: only a number has the method.\<close>

fun aa_seconds :: "jsval \<Rightarrow> string option" where
  "aa_seconds Null = Some ''-''"
| "aa_seconds (Num n) = Some (toFixed 2 n @ ''s'')"
| "aa_seconds _ = None"

definition aa_params :: "jsval \<Rightarrow> string" where
  "aa_params v = (if v = Null then ''-'' else to_str v @ ''B'')"

definition summary_url :: "jsval \<Rightarrow> string" where
  "summary_url result =
     (let u = get result ''source_url'' in
      if truthy u then to_str u
      else ''https://artificialanalysis.ai/models/'' @ encodeURIComponent (to_str (get result ''model'')))"

definition is_approximate :: "jsval \<Rightarrow> bool" where
  "is_approximate result \<longleftrightarrow> truthy (get result ''match'') \<and> truthy (get (get result ''match'') ''approximate'')"

section \<open>Markup\<close>

definition summary_loading :: string where
  "summary_loading = (nl 6 @ ''<div class=\"loading-state pad\" style=\"display: flex; flex-direction: column;'' @
     '' align-items: center; justify-content: center; padding: 40px 0;\">'' @ nl 8 @
     ''<div class=\"auth-progress\" style=\"width: 40px; height: 40px; border: 3px'' @
     '' solid var(--accent-soft, #eff6ff); border-top-color: var(--accent-strong,'' @
     '' #3b82f6); border-radius: 50%; animation: spin 1s linear infinite;\"></div>'' @ nl 8 @
     ''<div style=\"margin-top: 16px; color: var(--muted); font-size: 13px;'' @
     '' font-weight: 500;\">Retrieving details from Artificial Analysis...</div>'' @ nl 6 @
     ''</div>'' @ nl 4)"

text \<open>The suggestion is an object with a slug and a name, or a plain string.\<close>

definition suggestion_slug :: "jsval \<Rightarrow> jsval" where
  "suggestion_slug sug = (if is_object sug then jor (get sug ''slug'') (Str []) else jor sug (Str []))"

definition suggestion_label :: "jsval \<Rightarrow> jsval" where
  "suggestion_label sug = (if is_object sug then jor (get sug ''name'') (suggestion_slug sug) else suggestion_slug sug)"

text \<open>The click attribute of its button.\<close>

definition suggestion_click :: "jsval \<Rightarrow> string" where
  "suggestion_click slug = (''window.LP_openModelDrawer('' @ [CHR 0x27] @ escapeHtml slug @ [CHR 0x27] @ '')'')"

definition summary_not_found :: "jsval \<Rightarrow> string" where
  "summary_not_found result =
     (let sug = get result ''suggestion''; slug = suggestion_slug sug in
      (nl 10 @ ''<div style=\"padding: 24px; text-align: center;\">'' @ nl 12 @
         ''<div style=\"font-size: 32px; margin-bottom: 12px;\">'' @
         [CHR 0xF0, CHR 0x9F, CHR 0x94, CHR 0x8D] @ ''</div>'' @ nl 12 @
         ''<strong style=\"display: block; font-size: 15px; color: var(--text);'' @
         '' margin-bottom: 8px;\">Model Not Found</strong>'' @ nl 12 @
         ''<p style=\"color: var(--muted); font-size: 13px; margin-bottom: 16px;\">'' @
         (escapeHtml (get result ''error'')) @ ''</p>'' @ nl 12 @
         (if truthy slug then (nl 14 @ ''<div style=\"border-top: 1px solid var(--line-soft); padding-top: 16px;'' @
           '' margin-top: 16px;\">'' @ nl 16 @
           ''<span style=\"font-size: 12px; color: var(--muted); display: block;'' @
           '' margin-bottom: 8px;\">Did you mean?</span>'' @ nl 16 @
           ''<button class=\"button secondary pill-toggle\" style=\"padding: 6px 12px;'' @
           '' font-size: 12px; font-weight: bold;\" onclick=\"'' @ suggestion_click slug @
           ''\">'' @ nl 18 @ (escapeHtml (suggestion_label sug)) @ nl 16 @ ''</button>'' @ nl 14 @
           ''</div>'' @ nl 12) else []) @ nl 10 @ ''</div>'' @ nl 8))"

text \<open>The page of a summary, given the three texts of its latencies.\<close>

definition summary_page :: "jsval \<Rightarrow> jsval \<Rightarrow> string \<Rightarrow> string \<Rightarrow> string \<Rightarrow> string" where
  "summary_page result summary ttft reasoning answer_s =
     (nl 10 @ ''<div class=\"model-summary-details\">'' @ nl 12 @
        ''<div style=\"display: grid); grid-template-columns: repeat(2, minmax(0, 1fr));'' @
        '' gap: 12px; margin-bottom: 24px;\">'' @ nl 14 @
        (if truthy (get summary ''intelligence'') then (nl 16 @
          ''<div class=\"mini-metric\" style=\"background: var(--surface-raised); border:'' @
          '' 1px solid var(--line-soft); border-radius: 8px; padding: 12px;\">'' @ nl 18 @
          ''<span class=\"metric-label\" style=\"display: block; font-size: 11px;'' @
          '' text-transform: uppercase; color: var(--muted); margin-bottom: 4px;\">Quality'' @
          '' (AA Index)</span>'' @ nl 18 @
          ''<strong style=\"font-size: 18px; font-weight: 800; font-family: var(--mono);'' @
          '' color: var(--text);\">'' @ (to_str (get (get summary ''intelligence'') ''score'')) @
          ''</strong>'' @ nl 18 @
          ''<small style=\"display: block; font-size: 10px; color: var(--muted);'' @
          '' margin-top: 2px;\">Rank '' @ (fmtRank (get summary ''intelligence'')) @
          ''</small>'' @ nl 16 @ ''</div>'' @ nl 14) else []) @ nl 14 @
        (if truthy (get summary ''speed'') then (nl 16 @
          ''<div class=\"mini-metric\" style=\"background: var(--surface-raised); border:'' @
          '' 1px solid var(--line-soft); border-radius: 8px; padding: 12px;\">'' @ nl 18 @
          ''<span class=\"metric-label\" style=\"display: block; font-size: 11px;'' @
          '' text-transform: uppercase; color: var(--muted); margin-bottom: 4px;\">Output'' @
          '' Speed</span>'' @ nl 18 @
          ''<strong style=\"font-size: 18px; font-weight: 800; font-family: var(--mono);'' @
          '' color: var(--text);\">'' @
          (to_str (get (get summary ''speed'') ''tokens_per_second'')) @
          '' <span style=\"font-size: 11px; font-weight: normal;\">t/s</span></strong>'' @ nl 18 @
          ''<small style=\"display: block; font-size: 10px; color: var(--muted);'' @
          '' margin-top: 2px;\">Rank '' @ (fmtRank (get summary ''speed'')) @ ''</small>'' @
          nl 16 @ ''</div>'' @ nl 14) else []) @ nl 14 @
        (if truthy (get summary ''price_blended'') then (nl 16 @
          ''<div class=\"mini-metric\" style=\"background: var(--surface-raised); border:'' @
          '' 1px solid var(--line-soft); border-radius: 8px; padding: 12px;\">'' @ nl 18 @
          ''<span class=\"metric-label\" style=\"display: block; font-size: 11px;'' @
          '' text-transform: uppercase; color: var(--muted); margin-bottom: 4px;\">Blended'' @
          '' Cost</span>'' @ nl 18 @
          ''<strong style=\"font-size: 18px; font-weight: 800; font-family: var(--mono);'' @
          '' color: var(--text);\">'' @
          (fmtPricing (get (get summary ''price_blended'') ''price_per_1m_tokens'')) @
          ''<span style=\"font-size: 11px; font-weight: normal;\">/1M</span></strong>'' @ nl 18 @
          ''<small style=\"display: block; font-size: 10px; color: var(--muted);'' @
          '' margin-top: 2px;\">Rank '' @ (fmtRank (get summary ''price_blended'')) @
          ''</small>'' @ nl 16 @ ''</div>'' @ nl 14) else []) @ nl 14 @
        (if truthy (get summary ''context_window'') then (nl 16 @
          ''<div class=\"mini-metric\" style=\"background: var(--surface-raised); border:'' @
          '' 1px solid var(--line-soft); border-radius: 8px; padding: 12px;\">'' @ nl 18 @
          ''<span class=\"metric-label\" style=\"display: block; font-size: 11px;'' @
          '' text-transform: uppercase; color: var(--muted); margin-bottom: 4px;\">Context'' @
          '' Window</span>'' @ nl 18 @
          ''<strong style=\"font-size: 18px; font-weight: 800; font-family: var(--mono);'' @
          '' color: var(--text);\">'' @
          (fmtTokenCount (get (get summary ''context_window'') ''tokens'')) @ ''</strong>'' @
          nl 18 @ ''<small style=\"display: block; font-size: 10px; color: var(--muted);'' @
          '' margin-top: 2px;\">Rank '' @ (fmtRank (get summary ''context_window'')) @
          ''</small>'' @ nl 16 @ ''</div>'' @ nl 14) else []) @ nl 12 @ ''</div>'' @
        nl 0 @ nl 12 @
        ''<h3 class=\"drawer-section-title\" style=\"font-size: 12px; font-weight: 800;'' @
        '' text-transform: uppercase; letter-spacing: 0.05em; color: var(--muted);'' @
        '' margin: 24px 0 8px; border-bottom: 1px solid var(--line-soft); padding-bottom:'' @
        '' 6px;\">Pricing per 1M Tokens</h3>'' @ nl 12 @
        ''<div class=\"kv-grid drawer-kv\" style=\"display: grid; grid-template-columns:'' @
        '' auto 1fr; gap: 8px 16px; font-size: 13px;\">'' @ nl 14 @
        (if truthy (get summary ''pricing'') then (nl 16 @
          ''<span style=\"color: var(--muted);\">Input Price</span><span class=\"mono\"'' @
          '' style=\"font-family: var(--mono); font-weight: 600; text-align: right;\">'' @
          (fmtPricing (get (get summary ''pricing'') ''input'')) @ ''</span>'' @ nl 16 @
          ''<span style=\"color: var(--muted);\">Output Price</span><span class=\"mono\"'' @
          '' style=\"font-family: var(--mono); font-weight: 600; text-align: right;\">'' @
          (fmtPricing (get (get summary ''pricing'') ''output'')) @ ''</span>'' @ nl 16 @
          ''<span style=\"color: var(--muted);\">Cache Read Price</span><span'' @
          '' class=\"mono\" style=\"font-family: var(--mono); font-weight: 600; text-align:'' @
          '' right;\">'' @ (fmtPricing (get (get summary ''pricing'') ''cache_hit'')) @
          ''</span>'' @ nl 14) else (''<span>Pricing data</span><span>Not available</span>'')) @
        nl 12 @ ''</div>'' @ nl 0 @ nl 12 @
        ''<h3 class=\"drawer-section-title\" style=\"font-size: 12px; font-weight: 800;'' @
        '' text-transform: uppercase; letter-spacing: 0.05em; color: var(--muted);'' @
        '' margin: 24px 0 8px; border-bottom: 1px solid var(--line-soft); padding-bottom:'' @
        '' 6px;\">Latency Performance</h3>'' @ nl 12 @
        ''<div class=\"kv-grid drawer-kv\" style=\"display: grid; grid-template-columns:'' @
        '' auto 1fr; gap: 8px 16px; font-size: 13px;\">'' @ nl 14 @
        (if truthy (get summary ''latency'') then (nl 16 @
          ''<span style=\"color: var(--muted);\">TTFT (Time To First Token)</span><span'' @
          '' class=\"mono\" style=\"font-family: var(--mono); font-weight: 600; text-align:'' @
          '' right;\">'' @ ttft @ ''</span>'' @ nl 16 @
          ''<span style=\"color: var(--muted);\">Reasoning Time</span><span class=\"mono\"'' @
          '' style=\"font-family: var(--mono); font-weight: 600; text-align: right;\">'' @
          reasoning @ ''</span>'' @ nl 16 @
          ''<span style=\"color: var(--muted);\">Answer Generation</span><span'' @
          '' class=\"mono\" style=\"font-family: var(--mono); font-weight: 600; text-align:'' @
          '' right;\">'' @ answer_s @ ''</span>'' @ nl 14) else (''<span>Latency data</span><span>Not available</span>'')) @
        nl 12 @ ''</div>'' @ nl 0 @ nl 12 @
        ''<h3 class=\"drawer-section-title\" style=\"font-size: 12px; font-weight: 800;'' @
        '' text-transform: uppercase; letter-spacing: 0.05em; color: var(--muted);'' @
        '' margin: 24px 0 8px; border-bottom: 1px solid var(--line-soft); padding-bottom:'' @
        '' 6px;\">Specifications & Openness</h3>'' @ nl 12 @
        ''<div class=\"kv-grid drawer-kv\" style=\"display: grid; grid-template-columns:'' @
        '' auto 1fr; gap: 8px 16px; font-size: 13px; margin-bottom: 24px;\">'' @ nl 14 @
        (if truthy (get summary ''model_size'') then (nl 16 @ ''<span style=\"color: var(--muted);\">Active Parameters</span><span'' @
          '' style=\"font-weight: 600; text-align: right;\">'' @
          (aa_params (get (get summary ''model_size'') ''active_params_b'')) @ ''</span>'' @
          nl 16 @ ''<span style=\"color: var(--muted);\">Total Parameters</span><span'' @
          '' style=\"font-weight: 600; text-align: right;\">'' @
          (aa_params (get (get summary ''model_size'') ''total_params_b'')) @ ''</span>'' @ nl 14) else []) @
        nl 14 @
        (if truthy (get summary ''openness'') then (nl 16 @ ''<span style=\"color: var(--muted);\">Openness Score</span><span'' @
          '' style=\"font-weight: 600; text-align: right;\"><strong>'' @
          (to_str (get (get summary ''openness'') ''score'')) @
          ''</strong>/10 <small class=\"muted\">('' @ (fmtRank (get summary ''openness'')) @
          '')</small></span>'' @ nl 14) else []) @ nl 12 @ ''</div>'' @ nl 0 @ nl 12 @
        ''<div style=\"margin-top: 32px; display: flex; justify-content: center;\">'' @ nl 14 @
        ''<a href=\"'' @ (esc (summary_url result)) @
        ''\" target=\"_blank\" rel=\"noopener noreferrer\" class=\"button primary\"'' @
        '' style=\"display: inline-flex; align-items: center; gap: 8px; text-decoration:'' @
        '' none; padding: 8px 16px; font-size: 13px; font-weight: bold;\">'' @ nl 16 @
        ''View on Artificial Analysis '' @ [CHR 0xE2, CHR 0x86, CHR 0x97] @ nl 14 @ ''</a>'' @
        nl 12 @ ''</div>'' @ nl 10 @ ''</div>'' @ nl 8)"

definition summary_body :: "jsval \<Rightarrow> string option" where
  "summary_body result =
     (let summary = jor (get result ''summary'') (Obj []); latency = get summary ''latency'' in
      if \<not> truthy latency then Some (summary_page result summary [] [] [])
      else (case (aa_seconds (get latency ''input_time_s''), aa_seconds (get latency ''reasoning_time_s''),
                  aa_seconds (get latency ''answer_time_s'')) of
              (Some a, Some b, Some c) \<Rightarrow> Some (summary_page result summary a b c)
            | _ \<Rightarrow> None))"

definition summary_failed :: "string \<Rightarrow> string" where
  "summary_failed message = (nl 8 @ ''<div class=\"notice danger pad\" style=\"margin: 15px);\">'' @ nl 10 @
     ''<strong>Fetch Failed</strong>'' @ nl 10 @ ''<p>'' @ esc message @ ''</p>'' @ nl 8 @
     ''</div>'' @ nl 6)"

section \<open>The drawer\<close>

record model_drawer =
  md_open :: bool
  md_mode :: string
  md_title :: string
  md_subtitle :: string
  md_hint :: string
  md_body :: string

definition drawer_title :: "string \<Rightarrow> string" where
  "drawer_title name = ((modelBrandIconMarkup (Str name) (iconSvg ''boxes'')) @ ''<span>'' @ esc name @ ''</span>'')"

text \<open>Up to the request; it is made for the path.\<close>

definition summary_path :: "string \<Rightarrow> string" where
  "summary_path name = ''/-/admin/model-summary/'' @ encodeURIComponent name"

definition openModelDrawer :: "string \<Rightarrow> model_drawer \<Rightarrow> model_drawer" where
  "openModelDrawer name d = d\<lparr>md_mode := ''summary'', md_title := drawer_title name,
     md_subtitle := ''Loading benchmark data...'', md_body := summary_loading, md_open := True\<rparr>"

text \<open>The rest: the reply to the request for \<open>name\<close>, or the message of its failure; \<open>thrown\<close> is the message of an exception.\<close>

definition show_summary :: "string \<Rightarrow> jsval \<Rightarrow> model_drawer \<Rightarrow> model_drawer" where
  "show_summary name result d =
     (let approx = is_approximate result
      in d\<lparr>md_subtitle := (if approx then ([CHR 0xE2, CHR 0x89, CHR 0x88] @ '' '') else []) @ to_str (get result ''model''),
           md_hint := (if approx
             then (''Approximate match for \"'' @ name @ ''\" ('' @
                (to_str (get (get result ''match'') ''kind'')) @ '')'') else md_hint d)\<rparr>)"

definition fail_summary :: "string \<Rightarrow> model_drawer \<Rightarrow> model_drawer" where
  "fail_summary message d = d\<lparr>md_body := summary_failed message, md_subtitle := ''Error''\<rparr>"

definition finishModelDrawer :: "string \<Rightarrow> string \<Rightarrow> string + jsval \<Rightarrow> model_drawer \<Rightarrow> model_drawer" where
  "finishModelDrawer thrown name outcome d =
     (case outcome of
        Inl message \<Rightarrow> fail_summary message d
      | Inr result \<Rightarrow>
          if nullish result then fail_summary thrown d
          else if truthy (get result ''error'') then d\<lparr>md_body := summary_not_found result, md_subtitle := ''Not Found''\<rparr>
          else (case summary_body result of
                  None \<Rightarrow> fail_summary thrown (show_summary name result d)
                | Some html \<Rightarrow> (show_summary name result d)\<lparr>md_body := html\<rparr>))"

text \<open>\<open>closeModelDrawer\<close> and, up to its request, \<open>openUsageModelDrawer\<close>, which share the drawer.\<close>

definition closeModelDrawer :: "model_drawer \<Rightarrow> model_drawer" where
  "closeModelDrawer d = d\<lparr>md_open := False, md_mode := ''summary''\<rparr>"

definition openUsageModelDrawer :: "translator \<Rightarrow> string \<Rightarrow> model_drawer \<Rightarrow> model_drawer" where
  "openUsageModelDrawer tr name d =
     (if name = [] then d
      else d\<lparr>md_mode := ''usage'', md_title := drawer_title name, md_subtitle := tr ''model_usage.drawer_subtitle'' [],
             md_body := (''<div class=\"empty pad\">'' @ (esc (tr ''model_usage.loading'' [])) @ ''</div>''), md_open := True\<rparr>)"

section \<open>Correctness\<close>

text \<open>
  Correctness of the summary drawer: the wait always ends, a reply is shown in the drawer whichever model it is open
  for, a latency that is no number turns a good reply into a failure, and what the browser reads out of the click
  attribute of a suggestion.
\<close>

section \<open>Reading an attribute\<close>

text \<open>Escaped text in front of other text is read back, and a text without an ampersand is read as it is.\<close>

lemma unescape_fuel_prefix:
  "length (escape_text s) + n \<le> m \<Longrightarrow>
   \<exists>k\<ge>n. unescape_fuel m (escape_text s @ u) = s @ unescape_fuel k u"
proof (induction s arbitrary: m)
  case (Cons c s)
  obtain d w where dw: "escape_char c = d # w"
    using escape_char_length [of c] by (cases "escape_char c") auto
  obtain m' where m: "m = Suc m'" "length (escape_text s) + n \<le> m'"
    using Cons.prems dw by (cases m) (auto simp: escape_text_Cons)
  have "unescape_fuel m (escape_text (c # s) @ u) = c # unescape_fuel m' (escape_text s @ u)"
  proof (cases "escape_char c = [c]")
    case True
    then show ?thesis by (simp add: escape_text_Cons m(1) read_entity_plain)
  next
    case False
    then have "read_entity (d # (w @ escape_text s @ u)) = Some (c, escape_text s @ u)"
      using read_entity_escape [of c "escape_text s @ u"] dw by (metis append_Cons)
    then show ?thesis by (simp add: escape_text_Cons m(1) dw)
  qed
  then show ?case
    using Cons.IH [OF m(2)] by simp
qed auto

lemma read_entity_no_amp: "c \<noteq> CHR ''&'' \<Longrightarrow> read_entity (c # s) = None"
  by (simp add: read_entity_def)

lemma unescape_fuel_plain:
  "CHR ''&'' \<notin> set p \<Longrightarrow> unescape_fuel (length p + n) (p @ u) = p @ unescape_fuel n u"
  by (induction p) (auto simp: read_entity_no_amp)

lemma unescape_fuel_Nil [simp]: "unescape_fuel n [] = []"
  by (cases n) auto

lemma unescape_fuel_plain_end: "CHR ''&'' \<notin> set p \<Longrightarrow> length p \<le> n \<Longrightarrow> unescape_fuel n p = p"
  using unescape_fuel_plain [of p "n - length p" "[]"] by simp

lemma unescape_between:
  assumes "CHR ''&'' \<notin> set a" and "CHR ''&'' \<notin> set b"
  shows "unescape (a @ escape_text s @ b) = a @ s @ b"
proof -
  obtain k where k: "length b \<le> k"
    "unescape_fuel (length (escape_text s) + length b) (escape_text s @ b) = s @ unescape_fuel k b"
    using unescape_fuel_prefix [of s "length b" "length (escape_text s) + length b" b] by auto
  have "unescape (a @ escape_text s @ b) = a @ unescape_fuel (length (escape_text s) + length b) (escape_text s @ b)"
    using unescape_fuel_plain [OF assms(1), of "length (escape_text s) + length b"] by (simp add: unescape_def)
  then show ?thesis
    using k unescape_fuel_plain_end [OF assms(2)] by simp
qed

section \<open>The click of a suggestion\<close>

text \<open>
  The script engine's view of a literal in single quotes, after its opening quote: the characters up to the closing
  one, escapes as they are written, and the text after it. A backslash keeps the next character (or line end) from
  closing it; a line end without one, and the end of the text, leave no literal.
\<close>

definition ends_line :: "char \<Rightarrow> bool" where
  "ends_line c \<longleftrightarrow> c = CHR 0x0A \<or> c = CHR 0x0D"

fun read_quoted :: "string \<Rightarrow> (string \<times> string) option" where
  "read_quoted [] = None"
| "read_quoted (c # s) =
     (if c = CHR 0x27 then Some ([], s)
      else if c = CHR 0x5C then
        (case s of
           [] \<Rightarrow> None
         | d # r \<Rightarrow>
             (case r of
                e # r' \<Rightarrow>
                  if d = CHR 0x0D \<and> e = CHR 0x0A then map_option (\<lambda>(w, rest). (c # d # e # w, rest)) (read_quoted r')
                  else map_option (\<lambda>(w, rest). (c # d # w, rest)) (read_quoted r)
              | [] \<Rightarrow> None))
      else if ends_line c then None
      else map_option (\<lambda>(w, rest). (c # w, rest)) (read_quoted s))"

lemma read_quoted_first:
  "CHR 0x5C \<notin> set s \<Longrightarrow> read_quoted (s @ CHR 0x27 # u)
     = (if list_ex ends_line (takeWhile (\<lambda>c. c \<noteq> CHR 0x27) s) then None
        else Some (takeWhile (\<lambda>c. c \<noteq> CHR 0x27) s, tl (dropWhile (\<lambda>c. c \<noteq> CHR 0x27) (s @ CHR 0x27 # u))))"
  by (induction s) auto

lemma escape_no_double_quote: "CHR 0x22 \<notin> set (escape_text s)"
  by (induction s) (auto simp: escape_text_Cons escape_char_def)

text \<open>
  C39. The click of a suggested model, for a slug without a backslash. The attribute is not ended by the slug, but what
  the browser compiles is the decoded attribute, where the slug stands verbatim between quotes. The string literal of
  the call is the slug up to its first quote, the whole slug when it has none; when a line ends in that part there
  is no literal, and the attribute is no program. What follows a first quote is program text after the literal: a slug
  can so add calls of its own, or (as a plain apostrophe does) leave a program that does not parse and never runs.
\<close>

theorem suggestion_click_runs_slug:
  assumes "CHR 0x5C \<notin> set slug"
  shows "CHR 0x22 \<notin> set (suggestion_click (Str slug))
    \<and> (\<exists>script. unescape (suggestion_click (Str slug)) = ''window.LP_openModelDrawer('' @ CHR 0x27 # script
        \<and> read_quoted script =
            (if list_ex ends_line (takeWhile (\<lambda>c. c \<noteq> CHR 0x27) slug) then None
             else Some (takeWhile (\<lambda>c. c \<noteq> CHR 0x27) slug,
                    if CHR 0x27 \<in> set slug then tl (dropWhile (\<lambda>c. c \<noteq> CHR 0x27) slug) @ CHR 0x27 # '')'' else '')'')))"
proof -
  have rest: "tl (dropWhile (\<lambda>c. c \<noteq> CHR 0x27) (slug @ CHR 0x27 # '')''))
      = (if CHR 0x27 \<in> set slug then tl (dropWhile (\<lambda>c. c \<noteq> CHR 0x27) slug) @ CHR 0x27 # '')'' else '')'')"
    by (induction slug) auto
  have "unescape (suggestion_click (Str slug)) = ''window.LP_openModelDrawer('' @ CHR 0x27 # slug @ CHR 0x27 # '')''"
    using unescape_between [of "''window.LP_openModelDrawer('' @ [CHR 0x27]" "CHR 0x27 # '')''" slug]
    by (simp add: suggestion_click_def escapeHtml_def jcoalesce_def)
  then show ?thesis
    using read_quoted_first [OF assms, of "'')''"] escape_no_double_quote rest
    by (auto simp: suggestion_click_def escapeHtml_def)
qed

theorem suggestion_click_runs_slug_witness:
  "let slug = ''a'' @ [CHR 0x27] @ '');evil()//'' in
   \<exists>script. unescape (suggestion_click (Str slug)) = ''window.LP_openModelDrawer('' @ CHR 0x27 # script
     \<and> read_quoted script = Some (''a'', '');evil()//'' @ [CHR 0x27] @ '')'')"
  using suggestion_click_runs_slug [of "''a'' @ [CHR 0x27] @ '');evil()//''"] by (simp add: Let_def ends_line_def)

section \<open>Replies\<close>

text \<open>What the drawer shows after a reply does not depend on what it was open for.\<close>

lemma summary_reply_ignores_drawer:
  "md_body (finishModelDrawer thrown name outcome d) = md_body (finishModelDrawer thrown name outcome d')"
  "md_subtitle (finishModelDrawer thrown name outcome d) = md_subtitle (finishModelDrawer thrown name outcome d')"
  "md_title (finishModelDrawer thrown name outcome d) = md_title d"
  "md_open (finishModelDrawer thrown name outcome d) = md_open d"
  by (simp_all add: finishModelDrawer_def fail_summary_def show_summary_def Let_def split: sum.split option.split)

text \<open>So a late summary is shown under the title of the model opened after it, whose usage it replaces.\<close>

lemma late_summary_under_other_title:
  assumes "other \<noteq> []"
  shows "let d = finishModelDrawer thrown name outcome (openUsageModelDrawer tr other d0) in
    md_title d = drawer_title other \<and> md_mode d = ''usage''
    \<and> md_body d = md_body (finishModelDrawer thrown name outcome (openModelDrawer name d1))"
  using assms summary_reply_ignores_drawer(1) [of thrown name outcome _ "openModelDrawer name d1"]
  by (auto simp: openUsageModelDrawer_def finishModelDrawer_def fail_summary_def show_summary_def Let_def
      split: sum.split option.split)

text \<open>A summary without a field of its latency is not shown: the reply counts as a failed request.\<close>

lemma missing_latency_fails:
  assumes "get result ''error'' = Undef" and "latency = get (jor (get result ''summary'') (Obj [])) ''latency''"
    and "is_object latency" and "get latency ''input_time_s'' = Undef"
  shows "md_body (finishModelDrawer thrown name (Inr result) d) = summary_failed thrown"
    "md_subtitle (finishModelDrawer thrown name (Inr result) d) = ''Error''"
proof -
  have "truthy latency" using assms(3) by (cases latency) auto
  then have "summary_body result = None"
    using assms by (simp add: summary_body_def Let_def)
  moreover have "\<not> nullish result"
    using assms by (cases result) (auto simp: jor_def)
  ultimately show "md_body (finishModelDrawer thrown name (Inr result) d) = summary_failed thrown"
    "md_subtitle (finishModelDrawer thrown name (Inr result) d) = ''Error''"
    using assms(1) by (simp_all add: finishModelDrawer_def fail_summary_def)
qed

text \<open>Every outcome ends the wait.\<close>

lemma summary_wait_ends: "md_body (finishModelDrawer thrown name outcome d) \<noteq> summary_loading"
proof -
  have "take 20 (summary_failed m) \<noteq> take 20 summary_loading"
    "take 20 (summary_not_found r) \<noteq> take 20 summary_loading"
    "take 20 (summary_page r s x y z) \<noteq> take 20 summary_loading" for m r s x y z
    by (simp_all add: summary_failed_def summary_not_found_def summary_page_def summary_loading_def nl_def Let_def)
  then have ne: "summary_failed m \<noteq> summary_loading" "summary_not_found r \<noteq> summary_loading"
    "summary_page r s x y z \<noteq> summary_loading" for m r s x y z
    by metis+
  have "summary_body result = Some html \<Longrightarrow> html \<noteq> summary_loading" for result html
    using ne(3) by (auto simp: summary_body_def Let_def split: if_splits option.splits)
  then show ?thesis
    using ne(1,2) by (auto simp: finishModelDrawer_def fail_summary_def split: sum.split option.split)
qed

end
