(* ===== verification/RequestsPage.thy ===== *)
theory RequestsPage
  imports RequestRows RefreshAll
begin

text \<open>
  The page of requests (\<open>renderRequestsTable\<close> of \<open>app.js\<close>) and the elements it keeps: the page the console is on,
  pulled back when the list has become shorter, the labels, the table, the buttons of the filter and of the deletion,
  and the listeners of the rows. The items of a page are objects. \<open>morph\<close> stands for the library that makes the rows
  of new markup out of the rows on the page.
\<close>

section \<open>The elements\<close>

text \<open>
  A row of the table with the number of listeners on it and on its button; \<open>ow_bound\<close> is the mark that its own
  listener is there.
\<close>

record open_row =
  ow_id :: string
  ow_bound :: bool
  ow_row_listeners :: nat
  ow_button_listeners :: nat

record requests_page =
  rp_data :: jsval
  rp_page :: jsnum
  rp_status :: string
  rp_filters :: "(string \<times> jsval) list"
  rp_navigating :: bool
  rp_label :: string
  rp_vitals :: string
  rp_pagination :: string
  rp_icon :: bool
  rp_table :: string
  rp_rows :: "open_row list"
  rp_chips :: "(string \<times> bool) list"
  rp_delete :: string
  rp_refreshes :: nat

type_synonym row_morph = "open_row list \<Rightarrow> string list \<Rightarrow> open_row list"

definition item_id :: "jsval \<Rightarrow> string" where
  "item_id r = to_str (jor (get r ''request_id'') (Str []))"

section \<open>Binding\<close>

definition bind_row :: "open_row \<Rightarrow> open_row" where
  "bind_row w = w\<lparr>ow_bound := True, ow_row_listeners := (if ow_bound w then ow_row_listeners w else ow_row_listeners w + 1),
     ow_button_listeners := ow_button_listeners w + 1\<rparr>"

definition bindRequestRowInteractions :: "open_row list \<Rightarrow> open_row list" where
  "bindRequestRowInteractions ws = map bind_row ws"

text \<open>The request details a click asks for: on the button of a row, and elsewhere on the row.\<close>

definition button_click :: "open_row \<Rightarrow> string list" where
  "button_click w = (if ow_id w = [] then [] else replicate (ow_button_listeners w) (ow_id w))"

definition row_click :: "open_row \<Rightarrow> string list" where
  "row_click w = (if ow_id w = [] then [] else replicate (ow_row_listeners w) (ow_id w))"

definition updateRequestSelectionUi :: "requests_page \<Rightarrow> requests_page" where
  "updateRequestSelectionUi s =
     s\<lparr>rp_delete := (if activeRequestFilters (rp_filters s) \<noteq> [] then ''Delete matching'' else ''Clear history'')\<rparr>"

definition syncRequestFilterUi :: "requests_page \<Rightarrow> requests_page" where
  "syncRequestFilterUi s = s\<lparr>rp_chips := map (\<lambda>(status, _). (status, status = rp_status s)) (rp_chips s)\<rparr>"

section \<open>Rendering\<close>

definition requests_total :: "requests_page \<Rightarrow> jsnum" where
  "requests_total s = num_or_zero (get (jor (rp_data s) (Obj [])) ''total'')"

definition requests_items :: "requests_page \<Rightarrow> jsval list" where
  "requests_items s = arr_or_empty (get (jor (rp_data s) (Obj [])) ''items'')"

definition requests_pages :: "requests_page \<Rightarrow> jsnum" where
  "requests_pages s = num_max (Fin 1) (num_ceil (num_div (requests_total s) (Fin REQUEST_PAGE_SIZE)))"

definition source_label :: "translator \<Rightarrow> requests_page \<Rightarrow> string" where
  "source_label tr s =
     (if get (jor (rp_data s) (Obj [])) ''source'' = Str ''sqlite'' then tr ''req.source_sqlite'' []
      else tr ''req.source_memory'' [])"

definition count_label :: "translator \<Rightarrow> requests_page \<Rightarrow> string" where
  "count_label tr s =
     (let n = requests_total s;
          first = (if num_truthy n then num_add (num_mul (rp_page s) (Fin REQUEST_PAGE_SIZE)) (Fin 1) else Fin 0);
          last_one = (if num_truthy n
             then num_min n (num_sub (num_add first (num_of_nat (length (requests_items s)))) (Fin 1)) else Fin 0)
      in if num_truthy n
         then tr ''req.matching_count'' [(''total'', Str (fmtInt (Num n))), (''source'', Str (source_label tr s)),
                (''start'', Str (fmtInt (Num first))), (''end'', Str (fmtInt (Num last_one)))]
         else tr ''req.no_matching_count'' [(''source'', Str (source_label tr s))])"

definition requests_empty :: "translator \<Rightarrow> string" where
  "requests_empty tr = (''<div class=\"empty pad\">'' @ (esc (tr ''req.no_matching'' [])) @ ''</div>'')"

definition requests_table :: "translator \<Rightarrow> (jsnum \<Rightarrow> date_parts) \<Rightarrow> jsval list \<Rightarrow> string" where
  "requests_table tr dates items =
     (let rows = concat (map (requestSummaryRow tr dates) items) in
      (nl 6 @ ''<div class=\"request-table-scroll\">'' @ nl 8 @
         ''<table class=\"request-data-table'' @
         (if of_nat (length items) = REQUEST_PAGE_SIZE then '' is-full-page'' else []) @ ''\">'' @
         nl 10 @ ''<caption class=\"sr-only\">'' @ (esc (tr ''req.table_label'' [])) @
         ''</caption>'' @ nl 10 @ ''<thead>'' @ nl 12 @ ''<tr>'' @ nl 14 @
         ''<th scope=\"col\">'' @ (esc (tr ''req.col_model_time'' [])) @ ''</th>'' @ nl 14 @
         ''<th scope=\"col\">'' @ (esc (tr ''req.meta_ip'' [])) @ ''</th>'' @ nl 14 @
         ''<th scope=\"col\">'' @ (esc (tr ''req.col_status'' [])) @ ''</th>'' @ nl 14 @
         ''<th scope=\"col\">'' @ (esc (tr ''req.provider'' [])) @ ''</th>'' @ nl 14 @
         ''<th scope=\"col\">'' @ (esc (tr ''req.col_route'' [])) @ ''</th>'' @ nl 14 @
         ''<th scope=\"col\" class=\"request-numeric-column\">'' @
         (esc (tr ''req.col_tokens_detail'' [])) @ ''</th>'' @ nl 14 @
         ''<th scope=\"col\" class=\"request-numeric-column\">'' @
         (esc (tr ''req.col_cost_estimate'' [])) @ ''</th>'' @ nl 14 @
         ''<th scope=\"col\" class=\"request-numeric-column\">'' @
         (esc (tr ''req.col_latency_ttft'' [])) @ ''</th>'' @ nl 14 @
         ''<th scope=\"col\" class=\"request-open-column\"><span class=\"sr-only\">'' @
         (esc (tr ''req.open'' [])) @ ''</span></th>'' @ nl 12 @ ''</tr>'' @ nl 10 @
         ''</thead>'' @ nl 10 @ ''<tbody>'' @ rows @ ''</tbody>'' @ nl 8 @ ''</table>'' @ nl 6 @
         ''</div>'' @ nl 4))"

text \<open>\<open>updateDOM\<close> of the table: the same markup again leaves the rows alone.\<close>

definition put_table :: "row_morph \<Rightarrow> string \<Rightarrow> string list \<Rightarrow> requests_page \<Rightarrow> requests_page" where
  "put_table morph html ids s =
     (if rp_table s = html then s else s\<lparr>rp_table := html, rp_rows := morph (rp_rows s) ids\<rparr>)"

definition renderRequestsTable ::
  "translator \<Rightarrow> (jsnum \<Rightarrow> date_parts) \<Rightarrow> row_morph \<Rightarrow> requests_page \<Rightarrow> requests_page" where
  "renderRequestsTable tr dates morph s =
     (let items = requests_items s; total = requests_total s; totalPages = requests_pages s in
      if num_lt (Fin 0) total \<and> num_le totalPages (rp_page s)
      then s\<lparr>rp_page := num_sub totalPages (Fin 1), rp_refreshes := rp_refreshes s + 1\<rparr>
      else
        (let s1 = syncRequestFilterUi s; currentPage = num_min (num_add (rp_page s) (Fin 1)) totalPages;
             s2 = s1\<lparr>rp_label := count_label tr s, rp_icon := True, rp_vitals := requestPageVisuals tr (Arr items),
                     rp_pagination := requestPagination tr (rp_page s) (rp_navigating s) total currentPage totalPages
                       (length items)\<rparr>
         in if items = [] then updateRequestSelectionUi (put_table morph (requests_empty tr) [] s2)
            else (let s3 = put_table morph (requests_table tr dates items) (map item_id items) s2
                  in updateRequestSelectionUi (s3\<lparr>rp_rows := bindRequestRowInteractions (rp_rows s3)\<rparr>))))"

section \<open>Correctness\<close>

text \<open>
  Correctness of the page of requests: the page shown exists, pulling it back settles in one step, and what repeated
  rendering of an unchanged list does to the listeners of its rows.
\<close>

section \<open>The page shown\<close>

text \<open>What rendering reads is not what it writes, the page apart.\<close>

lemma render_data [simp]: "rp_data (renderRequestsTable tr dates morph s) = rp_data s"
  by (simp add: renderRequestsTable_def updateRequestSelectionUi_def put_table_def syncRequestFilterUi_def Let_def)

lemma render_total [simp]:
  "requests_total (renderRequestsTable tr dates morph s) = requests_total s"
  "requests_items (renderRequestsTable tr dates morph s) = requests_items s"
  "requests_pages (renderRequestsTable tr dates morph s) = requests_pages s"
  by (simp_all add: requests_total_def requests_items_def requests_pages_def)

lemma render_page:
  "rp_page (renderRequestsTable tr dates morph s)
     = (if num_lt (Fin 0) (requests_total s) \<and> num_le (requests_pages s) (rp_page s)
        then num_sub (requests_pages s) (Fin 1) else rp_page s)"
  "rp_refreshes (renderRequestsTable tr dates morph s)
     = (if num_lt (Fin 0) (requests_total s) \<and> num_le (requests_pages s) (rp_page s)
        then rp_refreshes s + 1 else rp_refreshes s)"
  by (simp_all add: renderRequestsTable_def updateRequestSelectionUi_def put_table_def syncRequestFilterUi_def Let_def)

lemma pages_of_total:
  assumes "requests_total s = Fin (of_nat n)" and "0 < n"
  shows "requests_pages s = Fin (of_nat ((n + 9) div 10))"
proof -
  define c where "c = \<lceil>(of_nat n :: rat) / 10\<rceil>"
  have "(of_nat n :: rat) / 10 \<le> of_int c" "of_int c < (of_nat n :: rat) / 10 + 1"
    unfolding c_def by linarith+
  then have "(of_int (int n) :: rat) \<le> of_int (10 * c)" "(of_int (10 * c) :: rat) < of_int (int n + 10)"
    by simp_all
  then have "int n \<le> 10 * c" "10 * c < int n + 10"
    unfolding of_int_le_iff of_int_less_iff .
  then have c: "c = int ((n + 9) div 10)" "1 \<le> c"
    using assms(2) by linarith+
  have "num_div (requests_total s) (Fin REQUEST_PAGE_SIZE) = Fin (of_nat n / 10)"
    by (simp add: assms(1) REQUEST_PAGE_SIZE_def)
  then have "requests_pages s = num_max (Fin 1) (Fin (of_int c))"
    by (simp add: requests_pages_def c_def)
  also have "\<dots> = Fin (of_int c)"
    using c(2) by (simp add: num_max_def)
  finally show ?thesis
    unfolding c(1) of_int_of_nat_eq .
qed

text \<open>
  C35. The page of requests shown exists. When rows match, rendering leaves the console on a page that starts before
  the last row: the page it was on, and then nothing is fetched for it, or the last page, which is fetched once;
  rendering again asks for nothing more.
\<close>

theorem requests_page_in_range:
  assumes "requests_total s = Fin (of_nat n)" and "0 < n" and "rp_page s = Fin (of_nat k)"
  shows "let r = renderRequestsTable tr dates morph s; last_page = (n + 9) div 10 - 1 in
    rp_page r = Fin (of_nat (min k last_page)) \<and> 10 * min k last_page < n
    \<and> rp_refreshes r = rp_refreshes s + (if last_page < k then 1 else 0)
    \<and> rp_refreshes (renderRequestsTable tr dates morph r) = rp_refreshes r"
proof -
  let ?m = "(n + 9) div 10"
  have m: "1 \<le> ?m" "10 * (?m - 1) < n" using assms(2) by auto
  have p: "requests_pages s = Fin (of_nat ?m)" by (rule pages_of_total [OF assms(1,2)])
  have out: "num_lt (Fin 0) (requests_total s) \<and> num_le (requests_pages s) (rp_page s) \<longleftrightarrow> ?m - 1 < k"
    using m(1) assms by (auto simp: p num_le_def num_eq_def)
  have pulled: "num_sub (requests_pages s) (Fin 1) = Fin (of_nat (?m - 1))"
    using m(1) by (simp add: p num_sub_def of_nat_diff)
  have page: "rp_page (renderRequestsTable tr dates morph s) = Fin (of_nat (min k (?m - 1)))"
    unfolding render_page(1) out pulled using assms(3) by (auto simp: min_def)
  have small: "10 * min k (?m - 1) < n"
    using m(2) by (simp add: min_def)
  have stays: "\<not> (num_lt (Fin 0) (requests_total s) \<and> num_le (requests_pages s) (Fin (of_nat (min k (?m - 1)))))"
    using m(1) by (auto simp: p num_le_def num_eq_def)
  have once: "rp_refreshes (renderRequestsTable tr dates morph s) = rp_refreshes s + (if ?m - 1 < k then 1 else 0)"
    unfolding render_page(2) out by simp
  have settled: "rp_refreshes (renderRequestsTable tr dates morph (renderRequestsTable tr dates morph s))
      = rp_refreshes (renderRequestsTable tr dates morph s)"
    unfolding render_page(2) [of tr dates morph "renderRequestsTable tr dates morph s"] render_total page
    using stays by (simp only: if_False)
  show ?thesis
    unfolding Let_def using page small once settled by blast
qed

definition sample_requests_page :: requests_page where
  "sample_requests_page = \<lparr>rp_data = Obj [(''total'', jnum 12)], rp_page = Fin 4, rp_status = [], rp_filters = [],
     rp_navigating = False, rp_label = [], rp_vitals = [], rp_pagination = [], rp_icon = False, rp_table = [],
     rp_rows = [], rp_chips = [], rp_delete = [], rp_refreshes = 0\<rparr>"

theorem requests_page_in_range_witness:
  "let r = renderRequestsTable (\<lambda>k _. k) (\<lambda>_. \<lparr>dp_date = [], dp_time = [], dp_iso = []\<rparr>) (\<lambda>ws _. ws) sample_requests_page in
   rp_page r = Fin 1 \<and> rp_refreshes r = 1"
  using requests_page_in_range [where s = sample_requests_page and n = 12 and k = 4 and tr = "\<lambda>k _. k" and dates = "\<lambda>_. \<lparr>dp_date = [], dp_time = [], dp_iso = []\<rparr>" and morph = "\<lambda>ws _. ws"]
  by (simp add: sample_requests_page_def requests_total_def jor_def num_or_zero_def Let_def)

section \<open>Listeners\<close>

lemma render_unchanged:
  assumes "\<not> (num_lt (Fin 0) (requests_total s) \<and> num_le (requests_pages s) (rp_page s))"
    and "requests_items s \<noteq> []" and "rp_table s = requests_table tr dates (requests_items s)"
  shows "rp_rows (renderRequestsTable tr dates morph s) = map bind_row (rp_rows s)"
    "rp_table (renderRequestsTable tr dates morph s) = rp_table s"
    "rp_page (renderRequestsTable tr dates morph s) = rp_page s"
  using assms by (auto simp: renderRequestsTable_def updateRequestSelectionUi_def put_table_def syncRequestFilterUi_def
      bindRequestRowInteractions_def Let_def)

definition rows_after :: "nat \<Rightarrow> open_row \<Rightarrow> open_row" where
  "rows_after k w = w\<lparr>ow_button_listeners := ow_button_listeners w + k\<rparr>"

lemma bind_bound: "ow_bound w \<Longrightarrow> bind_row (rows_after k w) = rows_after (Suc k) w"
  by (simp add: bind_row_def rows_after_def)

lemma render_again:
  assumes "\<not> (num_lt (Fin 0) (requests_total s) \<and> num_le (requests_pages s) (rp_page s))"
    and "requests_items s \<noteq> []" and "rp_table s = requests_table tr dates (requests_items s)"
    and "\<forall>w \<in> set (rp_rows s). ow_bound w"
  shows "let r = (renderRequestsTable tr dates morph ^^ k) s in
    rp_rows r = map (rows_after k) (rp_rows s) \<and> rp_data r = rp_data s \<and> rp_page r = rp_page s \<and> rp_table r = rp_table s"
proof (induction k)
  case 0
  have "map (rows_after 0) ws = ws" for ws
    by (rule map_idI) (simp add: rows_after_def)
  then show ?case by simp
next
  case (Suc k)
  let ?r = "(renderRequestsTable tr dates morph ^^ k) s"
  have r: "rp_rows ?r = map (rows_after k) (rp_rows s)" "rp_data ?r = rp_data s" "rp_page ?r = rp_page s"
    "rp_table ?r = rp_table s"
    using Suc by (simp_all add: Let_def)
  then have "requests_total ?r = requests_total s" "requests_items ?r = requests_items s"
    "requests_pages ?r = requests_pages s"
    by (simp_all add: requests_total_def requests_items_def requests_pages_def)
  then have "rp_rows (renderRequestsTable tr dates morph ?r) = map bind_row (rp_rows ?r)"
    "rp_table (renderRequestsTable tr dates morph ?r) = rp_table ?r"
    "rp_page (renderRequestsTable tr dates morph ?r) = rp_page ?r"
    using render_unchanged [of ?r] assms(1-3) r by simp_all
  then show ?case
    using r assms(4) by (simp add: bind_bound Let_def)
qed

text \<open>
  C36. Rendering an unchanged list again and again. The rows stay, a press on a row asks for its detail as often as
  before; but every rendering adds a listener to the button that opens the row, and one press on that button asks for
  the detail once for each of them, unless the row has no id, when it asks for nothing.
\<close>

theorem repeated_render_piles_listeners:
  assumes "\<not> (num_lt (Fin 0) (requests_total s) \<and> num_le (requests_pages s) (rp_page s))"
    and "requests_items s \<noteq> []" and "rp_table s = requests_table tr dates (requests_items s)"
    and "\<forall>w \<in> set (rp_rows s). ow_bound w"
  shows "let r = (renderRequestsTable tr dates morph ^^ k) s in
    map row_click (rp_rows r) = map row_click (rp_rows s)
    \<and> map button_click (rp_rows r)
        = map (\<lambda>w. if ow_id w = [] then [] else replicate (ow_button_listeners w + k) (ow_id w)) (rp_rows s)"
  using render_again [OF assms, where morph = morph and k = k]
  by (simp add: Let_def row_click_def button_click_def rows_after_def)

definition one_request :: requests_page where
  "one_request = sample_requests_page\<lparr>rp_data := Obj [(''total'', jnum 1), (''items'', Arr [Obj [(''request_id'', Str ''r1'')]])],
     rp_page := Fin 0\<rparr>"

theorem repeated_render_piles_listeners_witness:
  "let dates = (\<lambda>_. \<lparr>dp_date = [], dp_time = [], dp_iso = []\<rparr>); morph = (\<lambda>_. map (\<lambda>i. \<lparr>ow_id = i, ow_bound = False, ow_row_listeners = 0,
         ow_button_listeners = 0\<rparr>));
       first = renderRequestsTable (\<lambda>k _. k) dates morph one_request
   in map button_click (rp_rows ((renderRequestsTable (\<lambda>k _. k) dates morph ^^ 2) first)) = [[''r1'', ''r1'', ''r1'']]"
proof -
  let ?tr = "\<lambda>(k :: string) (_ :: (string \<times> jsval) list). k"
  let ?dates = "\<lambda>_ :: jsnum. \<lparr>dp_date = [], dp_time = [], dp_iso = []\<rparr>"
  let ?morph = "\<lambda>(_ :: open_row list). map (\<lambda>i. \<lparr>ow_id = i, ow_bound = False, ow_row_listeners = 0, ow_button_listeners = 0\<rparr>)"
  let ?s = "renderRequestsTable ?tr ?dates ?morph one_request"
  have total: "requests_total one_request = Fin (of_nat 1)"
    by (simp add: one_request_def sample_requests_page_def requests_total_def jor_def num_or_zero_def)
  have items: "requests_items one_request = [Obj [(''request_id'', Str ''r1'')]]"
    by (simp add: one_request_def sample_requests_page_def requests_items_def jor_def)
  have page: "rp_page one_request = Fin 0" and table: "rp_table one_request = []" and rows: "rp_rows one_request = []"
    by (simp_all add: one_request_def sample_requests_page_def)
  have stay: "\<not> (num_lt (Fin 0) (requests_total one_request) \<and> num_le (requests_pages one_request) (rp_page one_request))"
    using pages_of_total [OF total] by (simp add: page num_le_def num_eq_def)
  have new: "requests_table ?tr ?dates (requests_items one_request) \<noteq> []"
    by (simp add: requests_table_def nl_def)
  have s: "rp_rows ?s = [\<lparr>ow_id = ''r1'', ow_bound = True, ow_row_listeners = 1, ow_button_listeners = 1\<rparr>]"
    "rp_table ?s = requests_table ?tr ?dates (requests_items one_request)" "rp_page ?s = rp_page one_request"
    using stay new table items
    by (auto simp: renderRequestsTable_def updateRequestSelectionUi_def put_table_def syncRequestFilterUi_def
        bindRequestRowInteractions_def bind_row_def item_id_def jor_def Let_def simp del: requests_table_def)
  show ?thesis
    using repeated_render_piles_listeners [where s = ?s and tr = ?tr and dates = ?dates and morph = ?morph and k = 2] stay s items
    by (simp add: Let_def numeral_2_eq_2)
qed

end
