(* ===== verification/AliasForm.thy ===== *)
theory AliasForm
  imports ConfigForms ApiClient JsNumText ProviderModelFacts
begin

text \<open>
  The form of a provider's model aliases (\<open>bindConfigProviderForms\<close> of \<open>app.js\<close>): the upstream models of an alias as
  check boxes with priorities, the ones the catalogue does not know as text, the search over the boxes, what editing
  an alias puts into the form, what its reset does, and what is read out of it and planned when it is submitted.
\<close>

section \<open>The text of unknown models: \<open>parseModelVariants\<close>\<close>

definition variant_separator :: "char \<Rightarrow> bool" where
  "variant_separator c \<longleftrightarrow> c = CHR 0x0A \<or> c = CHR '','' \<or> c = CHR '';''"

text \<open>\<open>/^(.*?):(-?\\d+)$/\<close>: a prefix without line breaks, its last colon, and a whole number.\<close>

definition signed_digits :: "string \<Rightarrow> bool" where
  "signed_digits s \<longleftrightarrow> (let d = (case s of c # r \<Rightarrow> if c = CHR ''-'' then r else s | [] \<Rightarrow> []) in d \<noteq> [] \<and> (\<forall>c \<in> set d. is_digit c))"

fun cut_priority :: "string \<Rightarrow> (string \<times> string) option" where
  "cut_priority [] = None"
| "cut_priority (c # s) =
     (if c = CHR '':'' \<and> signed_digits s then Some ([], s)
      else if c = CHR 0x0A \<or> c = CHR 0x0D then None
      else map_option (\<lambda>(p, n). (c # p, n)) (cut_priority s))"

definition parse_variant :: "string \<Rightarrow> variant" where
  "parse_variant item =
     (case cut_priority item of
        Some (p, n) \<Rightarrow> \<lparr>v_model = js_trim p, v_priority = finite_or_zero (str_to_num n)\<rparr>
      | None \<Rightarrow> \<lparr>v_model = item, v_priority = 0\<rparr>)"

definition parseModelVariants :: "string \<Rightarrow> variant list" where
  "parseModelVariants s =
     filter (\<lambda>v. v_model v \<noteq> [])
       (map parse_variant (filter (\<lambda>w. w \<noteq> []) (map js_trim (js_split variant_separator s))))"

section \<open>The form\<close>

text \<open>The value of a priority field is text; \<open>ao_search\<close> is the text the search looks into.\<close>

record alias_option =
  ao_model :: string
  ao_search :: string
  ao_checked :: bool
  ao_priority :: string
  ao_disabled :: bool
  ao_hidden :: bool

record alias_form =
  af_provider :: string
  af_canonical :: string
  af_variants :: string
  af_options :: "alias_option list"
  af_editing :: "string option"
  af_readOnly :: bool
  af_open :: bool

definition variant_text :: "variant \<Rightarrow> string" where
  "variant_text v = v_model v @ '':'' @ num_to_str (Fin (v_priority v))"

definition fill_option :: "variant list \<Rightarrow> alias_option \<Rightarrow> alias_option" where
  "fill_option configured ob =
     (case map_of (map (\<lambda>v. (v_model v, v_priority v)) (rev configured)) (ao_model ob) of
        Some q \<Rightarrow> ob\<lparr>ao_checked := True, ao_disabled := False, ao_priority := num_to_str (Fin q)\<rparr>
      | None \<Rightarrow> ob\<lparr>ao_checked := False, ao_disabled := True, ao_priority := ''0''\<rparr>)"

text \<open>The edit button of the alias \<open>canonical\<close>, whose entries in the configuration are \<open>entries\<close>.\<close>

definition editAlias :: "string \<Rightarrow> jsval \<Rightarrow> alias_form \<Rightarrow> alias_form" where
  "editAlias canonical entries f =
     (let configured = normalizeVariantEntries (jor entries (Arr []));
          known = map ao_model (af_options f)
      in if canonical = [] then f
         else f\<lparr>af_options := map (fill_option configured) (af_options f), af_canonical := canonical,
                af_variants := js_join '', '' (map variant_text (filter (\<lambda>v. v_model v \<notin> set known) configured)),
                af_editing := Some canonical, af_open := True\<rparr>)"

definition searchAlias :: "string \<Rightarrow> alias_form \<Rightarrow> alias_form" where
  "searchAlias typed_text f =
     (let query = js_lower (js_trim typed_text)
      in f\<lparr>af_options := map (\<lambda>ob. ob\<lparr>ao_hidden := (query \<noteq> [] \<and> \<not> js_includes query (ao_search ob))\<rparr>) (af_options f)\<rparr>)"

definition toggleOption :: "nat \<Rightarrow> bool \<Rightarrow> alias_form \<Rightarrow> alias_form" where
  "toggleOption i checked f =
     (if i < length (af_options f)
      then f\<lparr>af_options := (af_options f)[i := (af_options f ! i)\<lparr>ao_checked := checked, ao_disabled := \<not> checked\<rparr>]\<rparr>
      else f)"

text \<open>The browser's reset of the fields, then the handler: the boxes start unchecked with priority zero.\<close>

definition resetAlias :: "alias_form \<Rightarrow> alias_form" where
  "resetAlias f = f\<lparr>af_canonical := [], af_variants := [], af_readOnly := False, af_editing := None,
     af_options := map (\<lambda>ob. ob\<lparr>ao_checked := False, ao_priority := ''0'', ao_hidden := False, ao_disabled := True\<rparr>) (af_options f)\<rparr>"

section \<open>Submitting\<close>

text \<open>\<open>variantsByModel\<close>: the checked boxes, then the entries of the text whose model is not among them.\<close>

definition checked_entries :: "alias_form \<Rightarrow> (string \<times> rat) list" where
  "checked_entries f =
     foldl (\<lambda>m ob. if ao_checked ob \<and> js_trim (ao_model ob) \<noteq> []
               then set_prop (js_trim (ao_model ob))
                      (finite_or_zero (to_num (jor (Str (ao_priority ob)) (jnum 0)))) m
               else m) [] (af_options f)"

definition alias_entries :: "alias_form \<Rightarrow> (string \<times> rat) list" where
  "alias_entries f =
     foldl (\<lambda>m v. if has_own (v_model v) m then m else set_prop (v_model v) (v_priority v) m)
       (checked_entries f) (parseModelVariants (af_variants f))"

definition entry_vals :: "(string \<times> rat) list \<Rightarrow> jsval" where
  "entry_vals kvs = Arr (map (\<lambda>(m, q). Obj [(''model'', Str m), (''priority'', jnum q)]) kvs)"

text \<open>The plan of a submission, or nothing when a name is missing; \<open>taken\<close> are the ids the catalogue has for others.\<close>

definition alias_plan :: "jsval list \<Rightarrow> alias_form \<Rightarrow> group_plan option" where
  "alias_plan taken f =
     (let canonical = js_trim (af_canonical f);
          old_name = (case af_editing f of Some e \<Rightarrow> if e \<noteq> [] then e else canonical | None \<Rightarrow> canonical);
          plan = planVariantGroupSave (Str old_name) (Str canonical) (entry_vals (alias_entries f)) taken
      in if af_provider f = [] \<or> canonical = [] \<or> gp_writes plan = [] then None else Some plan)"

text \<open>The requests of a plan, in order, and the notice after the last.\<close>

definition alias_requests :: "string \<Rightarrow> group_plan \<Rightarrow> (string \<times> variant list) list" where
  "alias_requests provider plan =
     map (\<lambda>w. (''/-/admin/providers/'' @ encodeURIComponent provider @ ''/models/'' @ encodeURIComponent (w_model w)
               @ ''/variants'', w_variants w)) (gp_writes plan)"

definition alias_notice :: "translator \<Rightarrow> string \<Rightarrow> group_plan \<Rightarrow> string" where
  "alias_notice tr provider plan =
     (if gp_renamed plan
      then tr ''notice.model_alias_renamed'' [(''from'', Str (gp_id plan)), (''to'', Str (gp_nextId plan)), (''provider'', Str provider)]
      else tr ''notice.model_alias_saved'' [(''model'', Str (gp_nextId plan)), (''provider'', Str provider)])"

section \<open>Correctness\<close>

text \<open>
  Correctness of the alias form: a variant written as text is parsed back, the boxes and the text together carry the
  members of an alias, what editing loses, and what reset and search leave alone.
\<close>

section \<open>The text of a variant\<close>

lemma signed_digits_int: "signed_digits (num_to_str (Fin (of_int n)))"
proof -
  define w where "w = nat_to_str \<bar>n\<bar>"
  have d: "digit_string w" by (simp add: w_def nat_to_str_digits)
  then have "signed_digits w" "signed_digits (CHR ''-'' # w)"
    by (auto simp: signed_digits_def digit_string_def is_digit_def split: list.split)
  then show ?thesis
    unfolding num_to_str_int w_def [symmetric] by simp
qed

lemma signed_digits_chars: "signed_digits s \<Longrightarrow> c \<in> set s \<Longrightarrow> is_digit c \<or> c = CHR ''-''"
  by (auto simp: signed_digits_def split: list.splits if_splits)

lemma cut_priority_text:
  assumes "signed_digits n" and "CHR 0x0A \<notin> set m" and "CHR 0x0D \<notin> set m"
  shows "cut_priority (m @ CHR '':'' # n) = Some (m, n)"
  using assms(2,3)
proof (induction m)
  case (Cons c m)
  have "\<not> signed_digits (m @ CHR '':'' # n)"
    using signed_digits_chars [of "m @ CHR '':'' # n" "CHR '':''"] by (auto simp: is_digit_def)
  then show ?case
    using Cons by auto
qed (simp add: assms(1))

definition plain_variant :: "variant \<Rightarrow> bool" where
  "plain_variant v \<longleftrightarrow> v_model v \<noteq> [] \<and> js_trim (v_model v) = v_model v
     \<and> (\<forall>c \<in> set (v_model v). \<not> variant_separator c \<and> c \<noteq> CHR 0x0D) \<and> (\<exists>n. v_priority v = of_int n)"

lemma parse_variant_text: "plain_variant v \<Longrightarrow> parse_variant (variant_text v) = v"
proof -
  assume v: "plain_variant v"
  then obtain n where n: "v_priority v = of_int n" by (auto simp: plain_variant_def)
  have "cut_priority (v_model v @ CHR '':'' # num_to_str (Fin (of_int n))) = Some (v_model v, num_to_str (Fin (of_int n)))"
    by (rule cut_priority_text [OF signed_digits_int]) (use v in \<open>auto simp: plain_variant_def variant_separator_def\<close>)
  then show ?thesis
    using v by (simp add: parse_variant_def variant_text_def n str_to_num_int finite_or_zero_def plain_variant_def
        del: num_to_str.simps)
qed

lemma variant_text_trim: "plain_variant v \<Longrightarrow> js_trim (variant_text v) = variant_text v"
proof -
  assume v: "plain_variant v"
  then obtain n where n: "v_priority v = of_int n" by (auto simp: plain_variant_def)
  have "\<not> is_js_space (hd (v_model v))"
    using v trimmed_hd by (auto simp: plain_variant_def)
  moreover have "\<not> is_js_space (last (num_to_str (Fin (of_int n))))"
    using num_to_str_int_nonempty num_to_str_int_no_space last_in_set by blast
  ultimately show ?thesis
    using v num_to_str_int_nonempty [of n]
    by (intro js_trim_ends) (auto simp: variant_text_def n plain_variant_def simp del: num_to_str.simps)
qed

lemma variant_text_plain: "plain_variant v \<Longrightarrow> c \<in> set (variant_text v) \<Longrightarrow> \<not> variant_separator c"
proof -
  assume v: "plain_variant v" and c: "c \<in> set (variant_text v)"
  then obtain n where n: "v_priority v = of_int n" by (auto simp: plain_variant_def)
  have "c \<in> set (v_model v) \<or> c = CHR '':'' \<or> c \<in> set (num_to_str (Fin (of_int n)))"
    using c by (auto simp: variant_text_def n simp del: num_to_str.simps)
  moreover have "c = CHR '':'' \<or> is_digit c \<or> c = CHR ''-'' \<Longrightarrow> \<not> variant_separator c"
    by (auto simp: variant_separator_def is_digit_def)
  ultimately show ?thesis
    using v num_to_str_int_chars [of c n] unfolding plain_variant_def by blast
qed

lemma parse_variants_text:
  assumes "\<forall>v \<in> set vs. plain_variant v"
  shows "parseModelVariants (js_join '', '' (map variant_text vs)) = vs"
proof (cases vs)
  case Nil
  then show ?thesis by (simp add: parseModelVariants_def)
next
  case (Cons w ws)
  have plain: "\<forall>s \<in> set (map variant_text vs). \<forall>c \<in> set s. \<not> variant_separator c"
    using assms variant_text_plain by auto
  have "variant_separator (CHR '','')" "\<forall>c \<in> set '' ''. \<not> variant_separator c"
    by (simp_all add: variant_separator_def)
  then have "js_split variant_separator (js_join '', '' (map variant_text vs))
      = js_split variant_separator (variant_text w) @ map ((@) '' '') (map variant_text ws)"
    using js_split_join [of variant_separator "CHR '',''" "'' ''" "map variant_text ws" "variant_text w"] plain
    by (simp add: Cons)
  also have "js_split variant_separator (variant_text w) = [variant_text w]"
    by (rule js_split_plain) (use plain Cons in auto)
  finally have "map js_trim (js_split variant_separator (js_join '', '' (map variant_text vs))) = map variant_text vs"
    using assms by (simp add: Cons variant_text_trim js_trim_space_Cons)
  moreover have "variant_text v \<noteq> []" for v
    by (simp add: variant_text_def)
  moreover have "map (\<lambda>v. parse_variant (variant_text v)) vs = vs"
    by (rule map_idI) (use assms parse_variant_text in simp)
  ultimately show ?thesis
    using assms by (simp add: parseModelVariants_def plain_variant_def filter_id_conv o_def)
qed

section \<open>The boxes\<close>

lemma set_prop_fresh: "k \<notin> fst ` set kvs \<Longrightarrow> set_prop k v kvs = kvs @ [(k, v)]"
  by (induction kvs) auto

lemma foldl_fresh:
  assumes "distinct (map fst (kvs @ new))"
  shows "foldl (\<lambda>m v. if has_own (fst v) m then m else set_prop (fst v) (snd v) m) kvs new = kvs @ new"
  using assms
proof (induction new arbitrary: kvs)
  case (Cons x new)
  then have "\<not> has_own (fst x) kvs" "fst x \<notin> fst ` set kvs"
    by (auto simp: has_own_iff)
  then show ?case
    using Cons by (simp add: set_prop_fresh)
qed simp

text \<open>The models that have a box and are configured, in the order of the boxes.\<close>

definition boxed :: "variant list \<Rightarrow> alias_option list \<Rightarrow> (string \<times> rat) list" where
  "boxed vs obs = List.map_filter (\<lambda>ob. map_option (Pair (ao_model ob))
     (map_of (map (\<lambda>v. (v_model v, v_priority v)) vs) (ao_model ob))) obs"

lemma boxed_Cons:
  "boxed vs (ob # obs) = (case map_of (map (\<lambda>v. (v_model v, v_priority v)) vs) (ao_model ob) of
     Some q \<Rightarrow> (ao_model ob, q) # boxed vs obs | None \<Rightarrow> boxed vs obs)"
  by (simp add: boxed_def List.map_filter_simps split: option.split)

lemma boxed_keys: "fst ` set (boxed vs obs) \<subseteq> ao_model ` set obs"
  by (induction obs) (auto simp: boxed_Cons boxed_def List.map_filter_simps split: option.splits)

lemma map_of_variants_int:
  "\<forall>v \<in> set vs. plain_variant v \<Longrightarrow> map_of (map (\<lambda>v. (v_model v, v_priority v)) vs) m = Some q \<Longrightarrow> \<exists>n. q = of_int n"
  by (auto simp: plain_variant_def dest!: map_of_SomeD)

lemma priority_text: "finite_or_zero (to_num (jor (Str (num_to_str (Fin (of_int n)))) (jnum 0))) = of_int n"
  using num_to_str_int_nonempty [of n]
  by (simp add: jor_def finite_or_zero_def str_to_num_int del: num_to_str.simps)


definition boxes_ok :: "alias_option list \<Rightarrow> bool" where
  "boxes_ok obs \<longleftrightarrow> distinct (map ao_model obs) \<and> (\<forall>ob \<in> set obs. ao_model ob \<noteq> [] \<and> js_trim (ao_model ob) = ao_model ob)"

lemma map_of_rev_variants:
  "distinct (map v_model vs) \<Longrightarrow> map_of (map (\<lambda>v. (v_model v, v_priority v)) (rev vs)) = map_of (map (\<lambda>v. (v_model v, v_priority v)) vs)"
  by (subst map_of_inject_set) (simp_all add: o_def distinct_map rev_map [symmetric])

lemma checked_filled:
  assumes "boxes_ok obs" and "distinct (map v_model vs)" and "\<forall>v \<in> set vs. plain_variant v"
    and "distinct (map fst kvs)" and "fst ` set kvs \<inter> ao_model ` set obs = {}"
  shows "foldl (\<lambda>m ob. if ao_checked ob \<and> js_trim (ao_model ob) \<noteq> []
      then set_prop (js_trim (ao_model ob)) (finite_or_zero (to_num (jor (Str (ao_priority ob)) (jnum 0)))) m
      else m) kvs (map (fill_option vs) obs) = kvs @ boxed vs obs"
  using assms(1,4,5)
proof (induction obs arbitrary: kvs)
  case Nil
  then show ?case by (simp add: boxed_def List.map_filter_simps)
next
  case (Cons ob obs)
  have ok: "boxes_ok obs" "ao_model ob \<notin> ao_model ` set obs" "js_trim (ao_model ob) = ao_model ob" "ao_model ob \<noteq> []"
    using Cons.prems(1) by (auto simp: boxes_ok_def)
  show ?case
  proof (cases "map_of (map (\<lambda>v. (v_model v, v_priority v)) vs) (ao_model ob)")
    case None
    then have "\<not> ao_checked (fill_option vs ob)" "ao_model (fill_option vs ob) = ao_model ob"
      by (simp_all add: fill_option_def map_of_rev_variants [OF assms(2)])
    then show ?thesis
      using Cons.IH [OF ok(1) Cons.prems(2)] Cons.prems(3) None by (simp add: boxed_Cons)
  next
    case (Some q)
    obtain n where q: "q = of_int n" using map_of_variants_int [OF assms(3) Some] by blast
    have f: "fill_option vs ob = ob\<lparr>ao_checked := True, ao_disabled := False, ao_priority := num_to_str (Fin (of_int n))\<rparr>"
      using Some q by (simp add: fill_option_def map_of_rev_variants [OF assms(2)])
    have "ao_model ob \<notin> fst ` set kvs" using Cons.prems(3) by auto
    then have "set_prop (ao_model ob) q kvs = kvs @ [(ao_model ob, q)]" by (rule set_prop_fresh)
    moreover have "distinct (map fst (kvs @ [(ao_model ob, q)]))"
      "fst ` set (kvs @ [(ao_model ob, q)]) \<inter> ao_model ` set obs = {}"
      using Cons.prems(2,3) ok(2) by auto
    ultimately show ?thesis
      using Cons.IH [OF ok(1), of "kvs @ [(ao_model ob, q)]"] Some ok(3,4)
      by (simp add: f priority_text q boxed_Cons del: num_to_str.simps)
  qed
qed


lemma boxed_distinct: "distinct (map ao_model obs) \<Longrightarrow> distinct (map fst (boxed vs obs))"
proof (induction obs)
  case (Cons ob obs)
  then show ?case
    using boxed_keys [of vs obs] by (auto simp: boxed_Cons split: option.split)
qed (simp add: boxed_def List.map_filter_simps)

lemma mset_boxed:
  assumes "distinct (map ao_model obs)" and "distinct (map v_model vs)"
  shows "mset (boxed vs obs) = mset (map (\<lambda>v. (v_model v, v_priority v)) (filter (\<lambda>v. v_model v \<in> ao_model ` set obs) vs))"
proof (rule set_eq_iff_mset_eq_distinct [THEN iffD1])
  let ?p = "\<lambda>v. (v_model v, v_priority v)"
  show "distinct (boxed vs obs)"
    using boxed_distinct [OF assms(1)] distinct_map by blast
  show "distinct (map ?p (filter (\<lambda>v. v_model v \<in> ao_model ` set obs) vs))"
    using assms(2) by (auto simp: distinct_map inj_on_def)
  have fsts: "distinct (map fst (map ?p vs))" using assms(2) by (simp add: o_def)
  have "(m, q) \<in> set (boxed vs obs) \<longleftrightarrow> m \<in> ao_model ` set obs \<and> map_of (map ?p vs) m = Some q" for m q
    by (induction obs) (auto simp: boxed_Cons boxed_def List.map_filter_simps split: option.splits)
  then have "(m, q) \<in> set (boxed vs obs) \<longleftrightarrow> m \<in> ao_model ` set obs \<and> (m, q) \<in> set (map ?p vs)" for m q
    using map_of_eq_Some_iff [OF fsts] by simp
  moreover have "(m, q) \<in> set (map ?p (filter (\<lambda>v. v_model v \<in> ao_model ` set obs) vs))
      \<longleftrightarrow> m \<in> ao_model ` set obs \<and> (m, q) \<in> set (map ?p vs)" for m q
    by (auto simp: image_iff) metis
  ultimately show "set (boxed vs obs) = set (map ?p (filter (\<lambda>v. v_model v \<in> ao_model ` set obs) vs))"
    by (metis (no_types, lifting) subrelI subset_antisym)
qed

text \<open>
  C37. Editing an alias and submitting it unchanged keeps its members. When the entries in the configuration have whole
  priorities and ids without a separator, what the filled form yields is exactly the configured models with their
  priorities, whether a model has a check box or stands in the text.
\<close>

theorem alias_edit_keeps_members:
  assumes "boxes_ok (af_options f)" and "canonical \<noteq> []"
    and "\<forall>v \<in> set (normalizeVariantEntries (jor entries (Arr []))). plain_variant v"
  shows "mset (alias_entries (editAlias canonical entries f))
    = mset (map (\<lambda>v. (v_model v, v_priority v)) (normalizeVariantEntries (jor entries (Arr []))))"
proof -
  define vs where "vs = normalizeVariantEntries (jor entries (Arr []))"
  define obs where "obs = af_options f"
  define rest where "rest = filter (\<lambda>v. v_model v \<notin> ao_model ` set obs) vs"
  let ?p = "\<lambda>v. (v_model v, v_priority v)"
  have vs: "distinct (map v_model vs)" "\<forall>v \<in> set vs. plain_variant v"
    using assms(3) distinct_variant_models by (simp_all add: vs_def)
  have obs: "boxes_ok obs" using assms(1) by (simp add: obs_def)
  have c: "checked_entries (editAlias canonical entries f) = boxed vs obs"
    using checked_filled [OF obs vs, of "[]"] assms(2)
    by (simp add: checked_entries_def editAlias_def vs_def obs_def Let_def)
  have pv: "parseModelVariants (af_variants (editAlias canonical entries f)) = rest"
    using parse_variants_text [of rest] vs(2) assms(2)
    by (simp add: editAlias_def vs_def obs_def rest_def Let_def)
  have fd: "foldl (\<lambda>m v. if has_own (v_model v) m then m else set_prop (v_model v) (v_priority v) m) kvs rest
      = foldl (\<lambda>m v. if has_own (fst v) m then m else set_prop (fst v) (snd v) m) kvs (map ?p rest)" for kvs
    by (induction rest arbitrary: kvs) simp_all
  have dist: "distinct (map fst (boxed vs obs @ map ?p rest))"
  proof -
    have "distinct (map fst (boxed vs obs))"
      using obs boxed_distinct by (simp add: boxes_ok_def)
    moreover have "distinct (map v_model rest)"
      using vs(1) by (simp add: rest_def distinct_map_filter)
    moreover have "fst ` set (boxed vs obs) \<inter> v_model ` set rest = {}"
      using boxed_keys [of vs obs] by (auto simp: rest_def)
    ultimately show ?thesis by (simp add: o_def)
  qed
  have "alias_entries (editAlias canonical entries f) = boxed vs obs @ map ?p rest"
    unfolding alias_entries_def c pv fd by (rule foldl_fresh [OF dist])
  then have "mset (alias_entries (editAlias canonical entries f))
      = mset (map ?p (filter (\<lambda>v. v_model v \<in> ao_model ` set obs) vs)) + mset (map ?p rest)"
    using mset_boxed [of obs vs] vs(1) obs by (simp add: boxes_ok_def)
  also have "\<dots> = mset (map ?p vs)"
  proof -
    have "mset vs = mset (filter (\<lambda>v. v_model v \<in> ao_model ` set obs) vs) + mset rest"
      unfolding rest_def mset_filter by (rule multiset_partition)
    then show ?thesis by (simp only: mset_map image_mset_union)
  qed
  finally show ?thesis by (simp add: vs_def)
qed


definition alias_box :: "string \<Rightarrow> alias_option" where
  "alias_box m = \<lparr>ao_model = m, ao_search = m, ao_checked = False, ao_priority = ''0'', ao_disabled = True, ao_hidden = False\<rparr>"

definition sample_alias_form :: alias_form where
  "sample_alias_form = \<lparr>af_provider = ''p'', af_canonical = [], af_variants = [], af_options = [alias_box ''a'', alias_box ''b''],
     af_editing = None, af_readOnly = False, af_open = False\<rparr>"

definition sample_alias :: jsval where
  "sample_alias = Arr [Obj [(''model'', Str ''x''), (''priority'', jnum 0)], Obj [(''model'', Str ''a''), (''priority'', jnum 0)]]"

lemma sample_alias_variants:
  "normalizeVariantEntries (jor sample_alias (Arr [])) = [\<lparr>v_model = ''x'', v_priority = 0\<rparr>, \<lparr>v_model = ''a'', v_priority = 0\<rparr>]"
  by code_simp

theorem alias_edit_keeps_members_witness:
  "mset (alias_entries (editAlias ''m'' sample_alias sample_alias_form)) = mset [(''x'', 0), (''a'', 0)]"
proof -
  have "boxes_ok (af_options sample_alias_form)"
    by (simp add: boxes_ok_def sample_alias_form_def alias_box_def js_trim_no_space is_js_space_def)
  moreover have "\<exists>n. (0 :: rat) = of_int n" by (rule exI [of _ 0]) simp
  then have "\<forall>v \<in> set (normalizeVariantEntries (jor sample_alias (Arr []))). plain_variant v"
    unfolding sample_alias_variants
    by (simp add: plain_variant_def variant_separator_def js_trim_no_space is_js_space_def)
  ultimately show ?thesis
    using alias_edit_keeps_members [of sample_alias_form "''m''" sample_alias] by (simp add: sample_alias_variants)
qed

text \<open>
  The order among equal priorities is not kept: the models with a box come first, and the order of the plan is the order
  in which they are tried. A fraction in the text is no priority but part of the id.
\<close>

lemma alias_edit_reorders:
  "map_option (\<lambda>p. map v_model (gp_members p)) (alias_plan [] (editAlias ''m'' sample_alias sample_alias_form)) = Some [''a'', ''x'']"
  by code_simp

lemma fraction_joins_id: "parseModelVariants ''x:1.5'' = [\<lparr>v_model = ''x:1.5'', v_priority = 0\<rparr>]"
  by code_simp

text \<open>A reset form submits nothing, whatever was edited before.\<close>

lemma reset_submits_nothing: "alias_plan taken (resetAlias f) = None"
  by (simp add: alias_plan_def resetAlias_def Let_def)

text \<open>Searching hides boxes and changes nothing that is submitted.\<close>

lemma search_submits_same: "alias_entries (searchAlias q f) = alias_entries f"
  by (simp add: alias_entries_def checked_entries_def searchAlias_def Let_def foldl_map cong: if_cong)

end
