(* ===== verification/HotPriority.thy ===== *)
theory HotPriority
  imports ApiClient I18n JsFacts
begin

text \<open>
  Changing the priority of a provider while it runs (\<open>bindConfigProviderForms\<close> of \<open>app.js\<close>, the button
  \<open>data-hot-priority-apply\<close>), cut at its await, and what is shown of it afterwards. The handler keeps a reference to the
  runtime object it has written, while every status the console loads brings new objects: an object is named by the
  status it came with and its provider.
\<close>

section \<open>State\<close>

type_synonym runtime_objects = "string \<Rightarrow> (string \<times> jsval) list option"

record hot_state =
  hp_objects :: "nat \<Rightarrow> runtime_objects"
  hp_status :: nat
  hp_pending :: "string set"
  hp_inputs :: "string \<Rightarrow> string option"
  hp_notices :: "(string \<times> string) list"
  hp_requests :: "(string \<times> jsval) list"

definition hot_runtime :: "hot_state \<Rightarrow> string \<Rightarrow> (string \<times> jsval) list option" where
  "hot_runtime s provider = hp_objects s (hp_status s) provider"

definition write_runtime :: "nat \<Rightarrow> string \<Rightarrow> jsval \<Rightarrow> jsval \<Rightarrow> hot_state \<Rightarrow> hot_state" where
  "write_runtime g provider priority override s =
     (case hp_objects s g provider of
        None \<Rightarrow> s
      | Some ob \<Rightarrow> s\<lparr>hp_objects := (hp_objects s)(g := (hp_objects s g)
            (provider \<mapsto> set_prop ''priority_override_active'' override (set_prop ''priority'' priority ob)))\<rparr>)"

text \<open>A status that has arrived: new objects for all its providers.\<close>

definition load_status :: "runtime_objects \<Rightarrow> hot_state \<Rightarrow> hot_state" where
  "load_status objects s =
     s\<lparr>hp_status := hp_status s + 1, hp_objects := (hp_objects s)(hp_status s + 1 := objects)\<rparr>"

section \<open>The handler\<close>

record hot_update =
  hu_provider :: string
  hu_priority :: jsnum
  hu_object :: nat
  hu_previous :: "(jsval \<times> jsval) option"

definition hot_key :: "string \<Rightarrow> string" where
  "hot_key provider = ''provider-priority:'' @ provider"

definition hot_path :: "string \<Rightarrow> string" where
  "hot_path provider = ''/-/admin/providers/'' @ encodeURIComponent provider @ ''/priority''"

text \<open>Up to the request.\<close>

definition hotPriorityClick :: "string \<Rightarrow> hot_state \<Rightarrow> hot_state \<times> hot_update option" where
  "hotPriorityClick provider s =
     (case hp_inputs s provider of
        None \<Rightarrow> (s, None)
      | Some input \<Rightarrow>
          if provider = [] \<or> hot_key provider \<in> hp_pending s then (s, None)
          else
            (let priority = to_num (jor (Str input) (jnum 0));
                 previous = map_option (\<lambda>ob. (lookup ''priority'' ob, lookup ''priority_override_active'' ob)) (hot_runtime s provider);
                 s1 = write_runtime (hp_status s) provider (Num priority) (Bool True)
                        (s\<lparr>hp_pending := insert (hot_key provider) (hp_pending s)\<rparr>)
             in (s1\<lparr>hp_requests := hp_requests s1 @ [(hot_path provider, Obj [(''priority'', Num priority)])]\<rparr>,
                 Some \<lparr>hu_provider = provider, hu_priority = priority, hu_object = hp_status s, hu_previous = previous\<rparr>)))"

text \<open>
  The rest. A success brings the state the reply carries (\<open>applyMutationResult\<close>), here the objects of its status when it
  has one; a failure puts the old values into the object written before and the typed value back into the field.
\<close>

definition hotPriorityFinish ::
  "translator \<Rightarrow> hot_update \<Rightarrow> string + runtime_objects option \<Rightarrow> hot_state \<Rightarrow> hot_state" where
  "hotPriorityFinish tr h outcome s =
     (let provider = hu_provider h; release = (\<lambda>r. r\<lparr>hp_pending := hp_pending r - {hot_key provider}\<rparr>) in
      case outcome of
        Inr loaded \<Rightarrow>
          (let s1 = (case loaded of None \<Rightarrow> s | Some objects \<Rightarrow> load_status objects s)
           in release (s1\<lparr>hp_notices := hp_notices s1 @ [(tr ''notice.priority_hot_updated''
                [(''provider'', Str provider), (''priority'', Num (hu_priority h))], ''ok'')]\<rparr>))
      | Inl err \<Rightarrow>
          (let s1 = (case hu_previous h of None \<Rightarrow> s
                     | Some (p, ov) \<Rightarrow> write_runtime (hu_object h) provider p ov s)
           in release (s1\<lparr>hp_inputs := (case hp_inputs s1 provider of None \<Rightarrow> hp_inputs s1
                            | Some _ \<Rightarrow> (hp_inputs s1)(provider \<mapsto> num_to_str (hu_priority h))),
                          hp_notices := hp_notices s1 @ [(tr ''notice.priority_hot_failed'' [(''error'', Str err)], ''bad'')]\<rparr>)))"

section \<open>Correctness\<close>

text \<open>
  Correctness of the priority update: what is shown after a failure, with any number of statuses loaded meanwhile, the
  release of the provider, and that one update runs per provider at a time.
\<close>

lemma write_runtime_fields [simp]:
  "hp_status (write_runtime g p a b s) = hp_status s" "hp_pending (write_runtime g p a b s) = hp_pending s"
  "hp_inputs (write_runtime g p a b s) = hp_inputs s" "hp_notices (write_runtime g p a b s) = hp_notices s"
  by (simp_all add: write_runtime_def split: option.split)

lemma write_runtime_other:
  "g \<noteq> g' \<or> p \<noteq> p' \<Longrightarrow> hp_objects (write_runtime g p a b s) g' p' = hp_objects s g' p'"
  by (auto simp: write_runtime_def split: option.split)

lemma write_runtime_object:
  "hp_objects (write_runtime g p a b s) g p
     = map_option (\<lambda>ob. set_prop ''priority_override_active'' b (set_prop ''priority'' a ob)) (hp_objects s g p)"
  by (auto simp: write_runtime_def split: option.split)

text \<open>Statuses only add objects.\<close>

lemma load_status_old: "g \<le> hp_status s \<Longrightarrow> hp_objects (load_status objects s) g = hp_objects s g"
  by (simp add: load_status_def)

lemma loads_old:
  "g \<le> hp_status s \<Longrightarrow> hp_objects (fold load_status xs s) g = hp_objects s g \<and> hp_status s \<le> hp_status (fold load_status xs s)"
proof (induction xs arbitrary: s)
  case (Cons x xs)
  then have "g \<le> hp_status (load_status x s)" by (simp add: load_status_def)
  from Cons.IH [OF this] show ?case
    using load_status_old [OF Cons.prems, of x] by (auto simp: load_status_def)
qed simp

lemma loads_status: "hp_status (fold load_status xs s) = hp_status s + length xs"
  by (induction xs arbitrary: s) (auto simp: load_status_def)

lemma loads_shown: "xs \<noteq> [] \<Longrightarrow> hot_runtime (fold load_status xs s) = last xs"
proof (induction xs arbitrary: s rule: rev_induct)
  case (snoc x xs)
  show ?case by (rule ext) (simp add: hot_runtime_def load_status_def)
qed simp

lemma loads_fields [simp]:
  "hp_inputs (fold load_status xs s) = hp_inputs s" "hp_pending (fold load_status xs s) = hp_pending s"
  by (induction xs arbitrary: s) (simp_all add: load_status_def)

lemma click_Some:
  assumes "hotPriorityClick provider s = (s1, Some h)"
  shows "hu_provider h = provider" "hu_object h = hp_status s" "hp_status s1 = hp_status s"
    "hu_previous h = map_option (\<lambda>ob. (lookup ''priority'' ob, lookup ''priority_override_active'' ob)) (hot_runtime s provider)"
    "hot_runtime s1 provider = map_option (\<lambda>ob. set_prop ''priority_override_active'' (Bool True)
        (set_prop ''priority'' (Num (hu_priority h)) ob)) (hot_runtime s provider)"
    "q \<noteq> provider \<Longrightarrow> hot_runtime s1 q = hot_runtime s q"
    "hp_pending s1 = insert (hot_key provider) (hp_pending s)" "hot_key provider \<notin> hp_pending s"
  using assms
  by (auto simp: hotPriorityClick_def Let_def hot_runtime_def write_runtime_object write_runtime_other
      split: option.splits if_splits)

text \<open>
  C33. A failed change of the priority shows nothing of itself. However many statuses are loaded while the request runs,
  after its failure the provider shows what the last of them said, or what it showed before the click when there was
  none; the other providers are untouched and the provider can be changed again.
\<close>

theorem hot_priority_rolled_back:
  assumes "hotPriorityClick provider s = (s1, Some h)"
  shows "let r = hotPriorityFinish tr h (Inl err) (fold load_status loaded s1) in
    (if loaded \<noteq> [] then hot_runtime r = last loaded
     else (\<forall>q. q \<noteq> provider \<longrightarrow> hot_runtime r q = hot_runtime s q)
       \<and> (\<forall>k. map_option (lookup k) (hot_runtime r provider) = map_option (lookup k) (hot_runtime s provider)))
    \<and> hp_pending r = hp_pending s"
proof -
  note c = click_Some [OF assms]
  define u where "u = fold load_status loaded s1"
  define w where "w = (case hu_previous h of None \<Rightarrow> u | Some (p, ov) \<Rightarrow> write_runtime (hu_object h) provider p ov u)"
  have r: "hot_runtime (hotPriorityFinish tr h (Inl err) u) = hot_runtime w"
    "hp_pending (hotPriorityFinish tr h (Inl err) u) = hp_pending u - {hot_key provider}"
    by (rule ext) (auto simp: hotPriorityFinish_def Let_def w_def hot_runtime_def c(1) split: option.split)
  have pending: "hp_pending u - {hot_key provider} = hp_pending s"
    using c(7,8) by (simp add: u_def)
  have status: "hp_status w = hp_status s + length loaded"
    by (auto simp: w_def u_def loads_status c(3) split: option.split)
  show ?thesis
  proof (cases "loaded = []")
    case False
    then have "hp_objects w (hp_status w) q = hp_objects u (hp_status u) q" for q
      using status by (auto simp: w_def c(2) u_def loads_status c(3) write_runtime_other split: option.split)
    then have "hot_runtime w = hot_runtime u" by (auto simp: hot_runtime_def)
    also have "\<dots> = last loaded" unfolding u_def by (rule loads_shown [OF False])
    finally show ?thesis
      using False r pending by (simp add: Let_def u_def [symmetric])
  next
    case True
    then have u: "u = s1" by (simp add: u_def)
    have other: "hot_runtime w q = hot_runtime s q" if "q \<noteq> provider" for q
      using that c(6) [OF that] by (auto simp: w_def u hot_runtime_def write_runtime_other split: option.split)
    have same: "map_option (lookup k) (hot_runtime w provider) = map_option (lookup k) (hot_runtime s provider)" for k
    proof (cases "hot_runtime s provider")
      case None
      then show ?thesis using c(4,5) by (simp add: w_def u)
    next
      case (Some ob)
      then have "w = write_runtime (hp_status s) provider (lookup ''priority'' ob) (lookup ''priority_override_active'' ob) s1"
        using c(2,4) by (simp add: w_def u)
      then have "hot_runtime w provider = map_option (\<lambda>ob'. set_prop ''priority_override_active''
          (lookup ''priority_override_active'' ob) (set_prop ''priority'' (lookup ''priority'' ob) ob')) (hot_runtime s1 provider)"
        using write_runtime_object c(3) by (simp add: hot_runtime_def)
      then show ?thesis
        using c(5) Some by simp
    qed
    show ?thesis
      using True r pending other same by (simp add: Let_def u)
  qed
qed

text \<open>While an update runs, a second click for the provider does nothing.\<close>

lemma hot_priority_once:
  assumes "hotPriorityClick provider s = (s1, Some h)"
  shows "hotPriorityClick provider s1 = (s1, None)"
  using click_Some(7) [OF assms] by (simp add: hotPriorityClick_def split: option.split)

definition sample_hot :: hot_state where
  "sample_hot = \<lparr>hp_objects = (\<lambda>_ p. if p = ''a'' then Some [(''priority'', jnum 1)] else None), hp_status = 0, hp_pending = {},
     hp_inputs = (\<lambda>p. if p = ''a'' then Some ''5'' else None), hp_notices = [], hp_requests = []\<rparr>"

theorem hot_priority_rolled_back_witness:
  "\<exists>s1 h. hotPriorityClick ''a'' sample_hot = (s1, Some h) \<and> hu_priority h = Fin 5
    \<and> map_option (lookup ''priority'') (hot_runtime (hotPriorityFinish (\<lambda>k _. k) h (Inl ''no'') s1) ''a'') = Some (jnum 1)"
proof -
  obtain s1 h where c: "hotPriorityClick ''a'' sample_hot = (s1, Some h)" and p: "hu_priority h = Fin 5"
  proof
    show "hotPriorityClick ''a'' sample_hot = (fst (hotPriorityClick ''a'' sample_hot), Some (the (snd (hotPriorityClick ''a'' sample_hot))))"
      by (simp add: hotPriorityClick_def sample_hot_def Let_def)
    have "to_num (jor (Str ''5'') (jnum 0)) = Fin 5" by code_simp
    then show "hu_priority (the (snd (hotPriorityClick ''a'' sample_hot))) = Fin 5"
      by (simp add: hotPriorityClick_def sample_hot_def Let_def)
  qed
  have "hot_runtime sample_hot ''a'' = Some [(''priority'', jnum 1)]"
    by (simp add: hot_runtime_def sample_hot_def)
  moreover have "map_option (lookup ''priority'') (hot_runtime (hotPriorityFinish (\<lambda>k _. k) h (Inl ''no'') s1) ''a'')
      = map_option (lookup ''priority'') (hot_runtime sample_hot ''a'')"
    using hot_priority_rolled_back [OF c, of "\<lambda>k _. k" "''no''" "[]"] by (simp only: Let_def fold_simps id_apply if_False not_not HOL.simp_thms)
  ultimately have "map_option (lookup ''priority'') (hot_runtime (hotPriorityFinish (\<lambda>k _. k) h (Inl ''no'') s1) ''a'') = Some (jnum 1)"
    by simp
  then show ?thesis
    using c p by blast
qed

end
