(* ===== verification/RouteEditor.thy ===== *)
theory RouteEditor
  imports ConfigForms ConfigPage ProviderStateFacts
begin

text \<open>
  The clicks inside the list of model routes (the \<open>modelRoutes\<close> listener of \<open>app.js\<close>): the priority of one provider
  of a route, putting a route into the form, and deleting it. A click ends in nothing, a notice, or an optimistic
  action: the request it makes and the edit shown until the reply.
\<close>

datatype route_click = RouteNothing | RouteNotice string | RouteAction string jsval optimistic_edit

section \<open>The priority of a provider\<close>

text \<open>The field is blank to inherit, else a whole number between the bounds; \<open>Inl\<close> is the notice.\<close>

definition priority_input :: "string \<Rightarrow> string + jsnum option" where
  "priority_input raw =
     (let s = js_trim raw; n = str_to_num s in
      if s = [] then Inr None
      else if \<not> is_integer n \<or> num_lt n (Fin (- 1000)) \<or> num_lt (Fin 1000) n
      then Inl ''Model priority must be an integer from -1000 to 1000.''
      else Inr (Some n))"

definition route_provider_val :: "string \<Rightarrow> jsnum option \<Rightarrow> route_item \<Rightarrow> jsval" where
  "route_provider_val provider priority item =
     Obj ([(''name'', ri_name item), (''weight'', jor (ri_weight item) (jnum 1))]
          @ (if ri_name item = Str provider
             then (case priority of None \<Rightarrow> [] | Some n \<Rightarrow> [(''priority'', Num n)])
             else if nullish (ri_priority item) then [] else [(''priority'', ri_priority item)]))"

definition text_field :: "jsval \<Rightarrow> string \<Rightarrow> string" where
  "text_field route k = to_str (jor (get route k) (Str []))"

text \<open>The route as it is stored: the texts only when there are any.\<close>

definition priority_route :: "jsval list \<Rightarrow> jsval \<Rightarrow> jsval" where
  "priority_route provs route =
     Obj ([(''providers'', Arr provs), (''provider_select'', Str ''priority_failover'')]
          @ (if text_field route ''format_preference'' \<noteq> []
             then [(''format_preference'', Str (text_field route ''format_preference''))] else [])
          @ (if text_field route ''reasoning_effort'' \<noteq> []
             then [(''reasoning_effort'', Str (text_field route ''reasoning_effort''))] else []))"

definition set_route :: "string \<Rightarrow> jsval \<Rightarrow> optimistic_edit" where
  "set_route model entry =
     \<lparr>oe_key = Str (''model-route:'' @ model), oe_apply = make_prop ''models'' (make_prop ''routes'' (obj_set model entry)),
      oe_drawer = False\<rparr>"

definition routePriorityClick :: "jsval \<Rightarrow> string \<Rightarrow> string \<Rightarrow> string option \<Rightarrow> route_click" where
  "routePriorityClick config model provider input =
     (let route = routeByModel config model in
      case input of
        None \<Rightarrow> RouteNothing
      | Some raw \<Rightarrow>
          if route = Null \<or> provider = [] then RouteNothing
          else (case priority_input raw of
                  Inl notice \<Rightarrow> RouteNotice notice
                | Inr priority \<Rightarrow>
                    (let provs = map (route_provider_val provider priority) (routeProviderItems (get route ''providers''))
                     in RouteAction ''/-/admin/models/routes''
                          (Obj [(''model'', Str model), (''providers'', Arr provs), (''provider_select'', Str ''priority_failover''),
                                (''format_preference'', Str (text_field route ''format_preference'')),
                                (''reasoning_effort'', Str (text_field route ''reasoning_effort''))])
                          (set_route model (priority_route provs route)))))"

text \<open>The notice of a success.\<close>

definition priority_notice :: "string \<Rightarrow> string \<Rightarrow> jsnum option \<Rightarrow> string" where
  "priority_notice model provider priority =
     (case priority of
        None \<Rightarrow> provider @ '' now inherits its global priority for '' @ model @ ''.''
      | Some n \<Rightarrow> provider @ '' model priority for '' @ model @ '' updated to '' @ num_to_str n @ ''.'')"

section \<open>Editing and deleting\<close>

text \<open>The form after the edit button; the select fields have an option for every value a route has.\<close>

definition routeEditClick :: "jsval \<Rightarrow> string \<Rightarrow> route_form \<Rightarrow> route_form" where
  "routeEditClick config model f =
     (let route = routeByModel config model in
      if route = Null then f
      else f\<lparr>rt_model := model, rt_providers := routeProvidersText (get route ''providers''),
             rt_select := to_str (jor (get route ''provider_select'') (Str ''priority_failover'')),
             rt_format := text_field route ''format_preference'', rt_effort := text_field route ''reasoning_effort''\<rparr>)"

text \<open>After the confirmation.\<close>

definition routeDeleteClick :: "string \<Rightarrow> route_click" where
  "routeDeleteClick model =
     (if model = [] then RouteNothing
      else RouteAction ''/-/admin/models/routes/delete'' (Obj [(''model'', Str model)])
             \<lparr>oe_key = Str (''model-route:'' @ model), oe_apply = upd_prop ''models'' (upd_prop ''routes'' (obj_del model)),
              oe_drawer = False\<rparr>)"

section \<open>Correctness\<close>

text \<open>
  Correctness of the clicks on model routes: what a priority may be, that it changes one provider and, unasked, the
  selection mode of the route and the weights that are zero, that a route put into the form and saved is the same route, and that deleting removes it.
\<close>

section \<open>The bounds\<close>

lemma priority_input_valid:
  assumes "priority_input raw = Inr (Some n)"
  shows "\<exists>k :: int. n = Fin (of_int k) \<and> - 1000 \<le> k \<and> k \<le> 1000"
proof -
  have n: "is_integer n" "\<not> num_lt n (Fin (- 1000))" "\<not> num_lt (Fin 1000) n"
    using assms by (auto simp: priority_input_def Let_def split: if_splits)
  then obtain q where q: "n = Fin q" "of_int \<lfloor>q\<rfloor> = q"
    by (cases n) (auto simp: is_integer_def)
  have "- 1000 \<le> q" "q \<le> 1000"
    using n q by auto
  then have "- 1000 \<le> \<lfloor>q\<rfloor>" "\<lfloor>q\<rfloor> \<le> 1000"
    by (simp_all add: le_floor_iff floor_le_iff)
  then show ?thesis
    by (intro exI [of _ "\<lfloor>q\<rfloor>"] conjI) (simp_all only: q)
qed

lemma priority_input_int: "- 1000 \<le> k \<Longrightarrow> k \<le> 1000 \<Longrightarrow> priority_input (num_to_str (Fin (of_int k))) = Inr (Some (Fin (of_int k)))"
  using num_to_str_int_nonempty [of k]
  by (simp add: priority_input_def num_to_str_int_trim str_to_num_int is_integer_def Let_def del: num_to_str.simps)

section \<open>One provider\<close>

definition set_priority :: "string \<Rightarrow> jsnum option \<Rightarrow> route_item \<Rightarrow> route_item" where
  "set_priority provider priority i =
     (if ri_name i = Str provider then i\<lparr>ri_priority := (case priority of None \<Rightarrow> Null | Some n \<Rightarrow> Num n)\<rparr> else i)"

definition sent_weight :: "route_item \<Rightarrow> route_item" where
  "sent_weight i = (if truthy (ri_weight i) then i else i\<lparr>ri_weight := jnum 1\<rparr>)"

text \<open>What every entry of a parsed provider list has: a name, and a priority or null.\<close>

definition listed_item :: "route_item \<Rightarrow> bool" where
  "listed_item i \<longleftrightarrow> truthy (ri_name i) \<and> (nullish (ri_priority i) \<longrightarrow> ri_priority i = Null)"

lemma route_entry_priority: "route_entry v = Some i \<Longrightarrow> nullish (ri_priority i) \<Longrightarrow> ri_priority i = Null"
  by (auto simp: route_entry_def route_string_item_def Let_def jcoalesce_def split: jsval.splits jsnum.splits if_splits)

lemma map_filter_Some: "i \<in> set (List.map_filter f xs) \<Longrightarrow> \<exists>v. f v = Some i"
  by (auto simp: List.map_filter_def)

lemma items_listed: "i \<in> set (routeProviderItems v) \<Longrightarrow> listed_item i"
  using map_filter_Some [of i route_entry] route_entry_priority by (auto simp: routeProviderItems_def listed_item_def)

lemma route_provider_val_entry:
  assumes "listed_item i"
  shows "route_entry (route_provider_val provider priority i) = Some (set_priority provider priority (sent_weight i))"
  using assms
  by (cases i) (auto simp: route_entry_def route_provider_val_def listed_item_def set_priority_def sent_weight_def jor_def
      jcoalesce_def split: option.split)

lemma provider_vals_items:
  "\<forall>i \<in> set rs. listed_item i \<Longrightarrow>
   routeProviderItems (Arr (map (route_provider_val provider priority) rs))
     = map (\<lambda>i. set_priority provider priority (sent_weight i)) rs"
proof (induction rs)
  case (Cons i rs)
  then show ?case
    by (auto simp: routeProviderItems_def List.map_filter_simps route_provider_val_entry set_priority_def sent_weight_def
        listed_item_def)
qed (simp add: routeProviderItems_def List.map_filter_simps)

text \<open>
  C38. Saving the priority of one provider of a route. What is sent and what is shown until the reply are the same
  providers; only the priority of the named one changes, to a whole number within the bounds or to none, so that it
  inherits. Two things change unasked: a weight that is zero or no number is sent as one, of whatever provider, and the
  selection mode becomes priority with failover whatever it was.
\<close>

theorem route_priority_changes_one:
  assumes "routePriorityClick config model provider (Some raw) = RouteAction url payload edit"
  shows "\<exists>priority entry. priority_input raw = Inr priority
    \<and> (\<forall>n. priority = Some n \<longrightarrow> (\<exists>k :: int. n = Fin (of_int k) \<and> - 1000 \<le> k \<and> k \<le> 1000))
    \<and> edit = set_route model entry
    \<and> get entry ''providers'' = get payload ''providers''
    \<and> routeProviderItems (get payload ''providers'')
        = map (\<lambda>i. set_priority provider priority (sent_weight i))
            (routeProviderItems (get (routeByModel config model) ''providers''))
    \<and> get entry ''provider_select'' = Str ''priority_failover'' \<and> get payload ''provider_select'' = Str ''priority_failover''"
proof -
  obtain priority where p: "priority_input raw = Inr priority"
    using assms(1) by (auto simp: routePriorityClick_def Let_def split: sum.splits if_splits)
  define route where "route = routeByModel config model"
  define provs where "provs = map (route_provider_val provider priority) (routeProviderItems (get route ''providers''))"
  have "payload = Obj [(''model'', Str model), (''providers'', Arr provs), (''provider_select'', Str ''priority_failover''),
      (''format_preference'', Str (text_field route ''format_preference'')),
      (''reasoning_effort'', Str (text_field route ''reasoning_effort''))]"
    and "edit = set_route model (priority_route provs route)"
    using assms(1) p by (auto simp: routePriorityClick_def Let_def route_def provs_def split: if_splits)
  moreover have "routeProviderItems (Arr provs)
      = map (\<lambda>i. set_priority provider priority (sent_weight i)) (routeProviderItems (get route ''providers''))"
    unfolding provs_def by (rule provider_vals_items) (simp add: items_listed)
  ultimately show ?thesis
    using p priority_input_valid by (intro exI [of _ priority] exI [of _ "priority_route provs route"])
      (auto simp: priority_route_def route_def)
qed

definition weighted_config :: jsval where
  "weighted_config = Obj [(''models'', Obj [(''routes'', Obj [(''m'', Obj [(''providers'', Arr [Str ''a:0'', Str ''b:3'']),
     (''provider_select'', Str ''weighted_rr'')])])])]"

theorem route_priority_changes_one_witness:
  "\<exists>url payload edit. routePriorityClick weighted_config ''m'' ''b'' (Some ''7'') = RouteAction url payload edit
    \<and> get payload ''provider_select'' = Str ''priority_failover''
    \<and> map ri_priority (routeProviderItems (get payload ''providers'')) = [Null, jnum 7]
    \<and> map ri_weight (routeProviderItems (get payload ''providers'')) = [jnum 1, jnum 3]"
proof -
  have r: "routeByModel weighted_config ''m'' = Obj [(''providers'', Arr [Str ''a:0'', Str ''b:3'']), (''provider_select'', Str ''weighted_rr'')]"
    by code_simp
  have i: "routeProviderItems (Arr [Str ''a:0'', Str ''b:3''])
      = [\<lparr>ri_name = Str ''a'', ri_weight = jnum 0, ri_priority = Null\<rparr>, \<lparr>ri_name = Str ''b'', ri_weight = jnum 3, ri_priority = Null\<rparr>]"
    by code_simp
  have p: "priority_input ''7'' = Inr (Some (Fin 7))" by code_simp
  obtain url payload edit where c: "routePriorityClick weighted_config ''m'' ''b'' (Some ''7'') = RouteAction url payload edit"
    by (simp add: routePriorityClick_def r p Let_def)
  from route_priority_changes_one [OF c] c show ?thesis
    by (auto simp: p r i set_priority_def sent_weight_def)
qed

section \<open>The form\<close>

text \<open>A route put into the form and saved as it is keeps its providers and its mode.\<close>

lemma route_edit_unchanged:
  assumes "\<forall>i \<in> set (routeProviderItems (get (routeByModel config model) ''providers'')). plain_route i"
    and "routeByModel config model \<noteq> Null" and "get (routeByModel config model) ''provider_select'' = Str mode"
    and "js_trim mode = mode" and "mode \<noteq> []"
    and "js_trim (routeProvidersText (get (routeByModel config model) ''providers''))
      = routeProvidersText (get (routeByModel config model) ''providers'')"
  shows "get (route_entry_val (routeEditClick config model f)) ''provider_select'' = Str mode"
    "get (route_entry_val (routeEditClick config model f)) ''providers''
      = Arr (map route_item_val (routeProviderItems (get (routeByModel config model) ''providers'')))"
  using assms route_text_round_trip [OF assms(1)]
  by (simp_all add: route_entry_val_def routeEditClick_def route_payload_def jor_def Let_def)

text \<open>A deleted route is gone from what is shown at once.\<close>

lemma route_delete_gone:
  assumes "routeDeleteClick model = RouteAction url payload edit" and "get (get config ''models'') ''routes'' = Obj routes"
  shows "get (get (get (oe_apply edit config) ''models'') ''routes'') model = Undef"
proof -
  have "edit = \<lparr>oe_key = Str (''model-route:'' @ model), oe_apply = upd_prop ''models'' (upd_prop ''routes'' (obj_del model)),
      oe_drawer = False\<rparr>"
    using assms(1) by (auto simp: routeDeleteClick_def split: if_splits)
  then show ?thesis
    using assms(2) by (cases config; cases "get config ''models''") (auto simp: upd_prop_def obj_set_def obj_del_def)
qed

end
