(* ===== verification/ConsoleState.thy ===== *)
theory ConsoleState
  imports ConsoleNav TrafficChart Pagination
begin

text \<open>
  The state the console starts with (\<open>state.js\<close>), the titles of its views (\<open>constants.js\<close>) and the control that
  chooses what the traffic chart shows (\<open>traffic-mode.mjs\<close>, bound by \<open>renderTrafficChart\<close>); and that the choices the
  state starts with are among those the other theories know.
\<close>

section \<open>The initial state\<close>

text \<open>The state object as its own properties in order; a \<open>Set\<close> is the list of its members.\<close>

definition initial_state :: "(string \<times> jsval) list" where
  "initial_state = [
    (''adminKey'', Str []), (''staticDataState'', Str ''idle''), (''paused'', Bool False),
    (''refreshMs'', jnum 5000), (''timer'', Null), (''view'', Str ''overview''), (''timeRange'', Str ''30m''),
    (''requestsPage'', jnum 0), (''requestFilters'', Obj [(''status'', Str [])]), (''configTab'', Str ''models''),
    (''statisticsView'', Str ''usage''), (''usageStatisticsRange'', Str ''all''),
    (''usageStatisticsMetric'', Str ''tokens''), (''usageStatisticsBreakdown'', Str ''model''),
    (''usageStatisticsBreakdownSort'', Str ''tokens''), (''usageStatisticsBreakdownPage'', jnum 0),
    (''usageStatisticsCustomStart'', Str []), (''usageStatisticsCustomEnd'', Str []),
    (''usageStatisticsFilters'', Obj [(''model'', Str []), (''provider'', Str []), (''client_format'', Str [])]),
    (''usageStatisticsLoading'', Bool False), (''usageStatisticsLoadSeq'', jnum 0),
    (''modelUsageRange'', Str ''7d''), (''modelUsageProvider'', Str []), (''modelUsageFormat'', Str []),
    (''modelUsageCustomStart'', Str []), (''modelUsageCustomEnd'', Str []), (''modelUsageQuery'', Str []),
    (''modelUsageSort'', Str ''calls''), (''modelUsagePage'', jnum 0), (''modelUsageLoading'', Bool False),
    (''selectedRequestIds'', Arr []), (''allMatchingSelected'', Bool False),
    (''trafficChartMode'', Str ''requests''), (''settingsTab'', Str ''keys''), (''settingsKeyDrawerMode'', Str []),
    (''settingsKeyEditId'', Str []), (''settingsKeyEditRecord'', Null), (''settingsKeyCreated'', Null),
    (''settingsKeySubmitting'', Bool False), (''settingsPricingQuery'', Str []), (''settingsPricingPage'', jnum 0),
    (''settingsPricingLoading'', Bool False), (''clientKeysAvailable'', Null), (''providersPage'', jnum 0),
    (''providersViewMode'', Str ''cards''), (''configProvidersPage'', jnum 0), (''modelRoutesPage'', jnum 0),
    (''providerModelMapPage'', jnum 0), (''auditPage'', jnum 0), (''forceConfigRender'', Bool False),
    (''forceModelRoutesRender'', Bool False), (''forcePolicyRender'', Bool False),
    (''forceFailurePoliciesRender'', Bool False), (''forceProvidersRender'', Bool False),
    (''forceModelCapsRender'', Bool False), (''forceTimeseriesFetch'', Bool False),
    (''forceRequestsFetch'', Bool False), (''openProviderDetails'', Arr []), (''openProviderEditors'', Arr []),
    (''providerDrawerName'', Str []), (''providerDrawerTab'', Str ''overview''),
    (''providerOverviewActivityTab'', Str []), (''providerKeyOverridesOpen'', Arr []),
    (''detailDrawerReturn'', Null), (''drawerReturnRequest'', Null), (''modelDrawerMode'', Str ''summary''),
    (''providerFilters'', Obj [(''search'', Str []), (''format'', Str []), (''status'', Str []), (''keys'', Str [])]),
    (''providerModelFilters'', Obj [(''search'', Str []), (''status'', Str [])]),
    (''providerModelViewMode'', Str ''auto''), (''providerModelDrafts'', Obj []),
    (''providerModelsDisclosuresOpen'', Arr []), (''providerRoutingContextOpen'', Bool False),
    (''confirmResolve'', Null), (''confirmLastFocus'', Null),
    (''data'', Obj [(''metrics'', Null), (''metricsFull'', Null), (''status'', Null), (''routing'', Null), (''config'', Null),
      (''timeseries'', Null), (''requests'', Null), (''overlay'', Null), (''providerActivity'', Null),
      (''conversionDiagnostics'', Null), (''usageStatistics'', Null), (''usageStatisticsDimensions'', Null),
      (''modelUsage'', Null), (''modelUsageDetail'', Null), (''clientKeys'', Null), (''pricingCatalog'', Null),
      (''version'', jnum 0)])]"

definition start_value :: "string \<Rightarrow> jsval" where
  "start_value k = lookup k initial_state"

section \<open>Views\<close>

text \<open>\<open>views[view] || views.overview\<close>: the message keys of a view's title and subtitle.\<close>

definition view_meta :: "string \<Rightarrow> string \<times> string" where
  "view_meta view = (let v = (if view \<in> set VIEWS then view else ''overview'') in (''view.'' @ v @ ''.title'', ''view.'' @ v @ ''.subtitle''))"

section \<open>The traffic mode\<close>

text \<open>A button with its mode, the mark that it is bound, and the number of its listeners.\<close>

record traffic_button =
  mb_mode :: string
  mb_bound :: bool
  mb_listeners :: nat

definition bindTrafficModeControls :: "traffic_button list \<Rightarrow> traffic_button list" where
  "bindTrafficModeControls bs =
     map (\<lambda>b. if mb_bound b then b else b\<lparr>mb_bound := True, mb_listeners := mb_listeners b + 1\<rparr>) bs"

text \<open>One listener: the mode of the chart and how often the chart has been drawn.\<close>

definition mode_listener :: "string \<Rightarrow> string \<times> nat \<Rightarrow> string \<times> nat" where
  "mode_listener mode c = (if mode = [] \<or> fst c = mode then c else (mode, snd c + 1))"

definition mode_click :: "traffic_button \<Rightarrow> string \<times> nat \<Rightarrow> string \<times> nat" where
  "mode_click b c = (mode_listener (mb_mode b) ^^ mb_listeners b) c"

section \<open>Facts\<close>

text \<open>The pagers of the panels find their page in the initial state: a press on next moves it.\<close>

lemma panel_pages_present:
  assumes "key \<in> {''providersPage'', ''configProvidersPage'', ''modelRoutesPage'', ''providerModelMapPage'', ''auditPage''}"
  shows "snd (changePanelPage (Some initial_state) key Next) \<and> \<not> snd (changePanelPage (Some initial_state) key Prev)"
proof -
  have "snd (changePanelPage (Some initial_state) ''providersPage'' Next) \<and> \<not> snd (changePanelPage (Some initial_state) ''providersPage'' Prev)"
    "snd (changePanelPage (Some initial_state) ''configProvidersPage'' Next) \<and> \<not> snd (changePanelPage (Some initial_state) ''configProvidersPage'' Prev)"
    "snd (changePanelPage (Some initial_state) ''modelRoutesPage'' Next) \<and> \<not> snd (changePanelPage (Some initial_state) ''modelRoutesPage'' Prev)"
    "snd (changePanelPage (Some initial_state) ''providerModelMapPage'' Next) \<and> \<not> snd (changePanelPage (Some initial_state) ''providerModelMapPage'' Prev)"
    "snd (changePanelPage (Some initial_state) ''auditPage'' Next) \<and> \<not> snd (changePanelPage (Some initial_state) ''auditPage'' Prev)"
    by code_simp+
  with assms show ?thesis by auto
qed

text \<open>The first view, time range and traffic mode are ones the console has.\<close>

lemma initial_choices:
  "start_value ''view'' \<in> Str ` set VIEWS" "start_value ''timeRange'' \<in> Str ` fst ` set timeRanges"
  "start_value ''trafficChartMode'' \<in> {Str ''requests'', Str ''tokens''}"
  by code_simp+

text \<open>
  Bound buttons have one listener however often the chart is drawn, and a click draws the chart once when it changes
  the mode and never when it does not.
\<close>

lemma bound_once:
  assumes "mb_listeners b = (if mb_bound b then 1 else 0)"
  shows "(bindTrafficModeControls ^^ Suc k) [b] = [b\<lparr>mb_bound := True, mb_listeners := 1\<rparr>]"
proof (induction k)
  case 0
  then show ?case using assms by (cases "mb_bound b") (simp_all add: bindTrafficModeControls_def)
next
  case (Suc k)
  have "bindTrafficModeControls [b\<lparr>mb_bound := True, mb_listeners := 1\<rparr>] = [b\<lparr>mb_bound := True, mb_listeners := 1\<rparr>]"
    by (simp add: bindTrafficModeControls_def)
  then show ?case using Suc by simp
qed

lemma mode_click_once:
  assumes "mb_listeners b = 1" and "mb_mode b \<noteq> []"
  shows "mode_click b (mode, n) = (mb_mode b, if mode = mb_mode b then n else n + 1)"
  using assms by (simp add: mode_click_def mode_listener_def)

end
