(* ===== verification/DisplayFacts.thy ===== *)
theory DisplayFacts
  imports I18n TraceView JsNumText
begin

text \<open>
  What the display helpers keep of their input: message parameters, the numbers of a settings field,
  the repetitions folded into one diagnostic, and the counters above the request table.
\<close>

section \<open>Messages\<close>

lemma expand_plain: "CHR ''$'' \<notin> set r \<Longrightarrow> expand_replacement before found after r = r"
proof (induction r)
  case (Cons a r)
  then show ?case by (cases r) auto
qed simp

lemma starts_with_append: "starts_with p (p @ s)"
  by (induction p) auto

lemma replace_all_skip:
  assumes "b \<notin> set p"
  shows "replace_all before (b # q) r (p @ s) = p @ replace_all (before @ p) (b # q) r s"
  using assms
proof (induction p arbitrary: before)
  case (Cons c p)
  then have "replace_all before (b # q) r ((c # p) @ s) = c # replace_all (before @ [c]) (b # q) r (p @ s)"
    by (simp add: replace_all.simps [of before])
  with Cons show ?case by simp
qed simp

lemma replace_all_Nil: "replace_all before pat r [] = []"
  by (simp add: replace_all.simps)

lemma replace_all_plain: "b \<notin> set p \<Longrightarrow> replace_all before (b # q) r p = p"
  using replace_all_skip [of b p before q r "[]"] by (simp add: replace_all_Nil)

lemma replace_all_hit:
  "replace_all before (b # q) r ((b # q) @ s)
     = expand_replacement before (b # q) s r @ replace_all (before @ b # q) (b # q) r s"
  using starts_with_append [of "b # q" s] by (subst replace_all.simps) simp

lemma replace_all_join:
  assumes "CHR ''$'' \<notin> set r" and "\<forall>p \<in> set pieces. b \<notin> set p"
  shows "replace_all before (b # q) r (js_join (b # q) pieces) = js_join r pieces"
  using assms(2)
proof (induction pieces arbitrary: before)
  case (Cons x xs)
  show ?case
  proof (cases xs)
    case Nil
    with Cons.prems show ?thesis by (simp add: replace_all_plain)
  next
    case (Cons y zs)
    have "js_join (b # q) (x # xs) = x @ (b # q) @ js_join (b # q) xs" "b \<notin> set x"
      using Cons.prems Cons by simp_all
    then have "replace_all before (b # q) r (js_join (b # q) (x # xs))
        = x @ r @ replace_all ((before @ x) @ b # q) (b # q) r (js_join (b # q) xs)"
      by (simp only: replace_all_skip replace_all_hit expand_plain [OF assms(1)] not_False_eq_True)
    with Cons.IH Cons.prems Cons show ?thesis by simp
  qed
qed (simp add: replace_all_Nil)

lemma own_entries_single: "own_entries [kv] = [kv]"
  by (simp add: own_entries_def)

text \<open>
  A message shows its parameter exactly: when the value holds no dollar sign, translating a key
  whose text has the placeholder between the given pieces puts the value, unchanged, at every
  occurrence of the placeholder and leaves the rest of the text alone, whatever braces the value has
  of its own.
\<close>

lemma message_parameter_exact:
  assumes "map_of dict key = Some entry" and "map_of entry lang = Some msg" and "msg \<noteq> []"
    and "msg = js_join ([CHR 0x7B] @ k @ [CHR 0x7D]) pieces" and "\<forall>p \<in> set pieces. CHR 0x7B \<notin> set p"
    and "CHR ''$'' \<notin> set (to_str v)"
  shows "t dict lang key [(k, v)] = js_join (to_str v) pieces"
  using assms replace_all_join [OF assms(6) assms(5), of "[]" "k @ [CHR 0x7D]"]
  by (simp add: t_def interpolate_def own_entries_single)

definition sample_dict :: messages where
  "sample_dict = [(''notice.failed'', [(''en'', ''Refresh failed: '' @ [CHR 0x7B] @ ''error'' @ [CHR 0x7D] @ ''.'')])]"

text \<open>
  A dollar sign in a parameter is not shown as it is: the value is used as a replacement pattern, so
  an error text with two dollar signs loses one of them, and one with a dollar and an ampersand shows the
  placeholder itself.
\<close>

lemma dollar_in_parameter_is_lost:
  "t sample_dict ''en'' ''notice.failed'' [(''error'', Str ''cost $$5'')] = ''Refresh failed: cost $5.''
   \<and> t sample_dict ''en'' ''notice.failed'' [(''error'', Str ''A$&B'')]
       = ''Refresh failed: A'' @ [CHR 0x7B] @ ''error'' @ [CHR 0x7D] @ ''B.''"
  by code_simp

section \<open>Number lists\<close>

lemma split_numbers:
  fixes ns :: "int list"
  assumes "ns \<noteq> []"
  shows "map (\<lambda>item. str_to_num (js_trim item))
      (js_split (\<lambda>c. c = CHR '','') (js_join '', '' (map (\<lambda>n. num_to_str (Fin (of_int n))) ns)))
    = map (\<lambda>n. Fin (of_int n)) ns"
proof -
  obtain m ms where ns: "ns = m # ms" using assms by (cases ns) auto
  have comma: "CHR '','' \<notin> set (num_to_str (Fin (of_int n)))" for n
    by (rule num_to_str_int_no) (simp_all add: is_digit_def)
  have "js_split (\<lambda>c. c = CHR '','') (js_join '', '' (map (\<lambda>n. num_to_str (Fin (of_int n))) ns))
      = num_to_str (Fin (of_int m)) # map ((#) (CHR '' '')) (map (\<lambda>n. num_to_str (Fin (of_int n))) ms)"
    unfolding ns list.map by (rule js_split_join_comma) (use comma in \<open>auto simp del: num_to_str.simps\<close>)
  then show ?thesis
    by (simp add: ns str_to_num_int num_to_str_int_trim js_trim_space_Cons del: num_to_str.simps)
qed

text \<open>
  The failure ladder of the settings form survives being shown and saved, with one exception: a list
  of whole numbers printed into the field and parsed back is the same list, but the empty list comes
  back as a ladder with the single step zero.
\<close>

lemma number_list_round_trip:
  fixes ns :: "int list"
  shows "parseNumberList (Str (joinNumberList (Arr (map (\<lambda>n. Num (Fin (of_int n))) ns))))
    = (if ns = [] then [Fin 0] else map (\<lambda>n. Fin (of_int n)) ns)"
proof (cases "ns = []")
  case True
  have "parseNumberList (Str (joinNumberList (Arr []))) = [Fin 0]" by code_simp
  with True show ?thesis by simp
next
  case False
  have "map to_num (map (\<lambda>n. Num (Fin (of_int n))) ns) = map (\<lambda>n. Fin (of_int n)) ns" by simp
  then have "joinNumberList (Arr (map (\<lambda>n. Num (Fin (of_int n))) ns))
      = js_join '', '' (map (\<lambda>n. num_to_str (Fin (of_int n))) ns)"
    by (simp add: joinNumberList_def comp_def filter_id_conv del: num_to_str.simps)
  then show ?thesis
    using False split_numbers [OF False]
    by (simp add: parseNumberList_def filter_id_conv del: num_to_str.simps)
qed

section \<open>Collapsed diagnostics\<close>

text \<open>How often an entry of the collapsed list stands for, and the keys the list stands for.\<close>

definition stands_for :: "jsval \<Rightarrow> string \<Rightarrow> nat \<Rightarrow> bool" where
  "stands_for e k n \<longleftrightarrow> is_object e \<and> get e ''_collapseKey'' = Str k \<and> get e ''_repeatCount'' = jnum (of_nat n)
     \<and> 0 < n \<and> (\<exists>kvs. e = Obj kvs)"

lemma collapse_snoc:
  assumes "list_all2 (\<lambda>e (k, n). stands_for e k n) out gs"
  shows "\<exists>gs'. list_all2 (\<lambda>e (k, n). stands_for e k n) (collapse_event out event) gs'
    \<and> concat (map (\<lambda>(k, n). replicate n k) gs') = concat (map (\<lambda>(k, n). replicate n k) gs) @ [collapse_key event]
    \<and> map fst gs' = (if gs \<noteq> [] \<and> fst (last gs) = collapse_key event then map fst gs
                     else map fst gs @ [collapse_key event])"
proof (cases "out \<noteq> [] \<and> get (last out) ''_collapseKey'' = Str (collapse_key event)")
  case False
  have new: "stands_for (Obj (set_prop ''_repeatCount'' (jnum 1)
      (set_prop ''_collapseKey'' (Str (collapse_key event)) (obj_fields event)))) (collapse_key event) 1"
    by (simp add: stands_for_def)
  have "gs = [] \<or> fst (last gs) \<noteq> collapse_key event"
  proof (cases gs rule: rev_cases)
    case (snoc hs g)
    obtain k n where g: "g = (k, n)" by (cases g)
    from assms snoc g obtain out' e where "out = out' @ [e]" "stands_for e k n"
      by (auto simp: list_all2_append2 list_all2_Cons2)
    with False snoc g show ?thesis by (auto simp: stands_for_def)
  qed simp
  with False new assms show ?thesis
    by (intro exI [of _ "gs @ [(collapse_key event, 1)]"])
       (auto simp: collapse_event_def Let_def list_all2_appendI)
next
  case True
  then obtain out' e where out: "out = out' @ [e]" by (cases out rule: rev_cases) auto
  with assms obtain hs k n where gs: "gs = hs @ [(k, n)]" "list_all2 (\<lambda>e (k, n). stands_for e k n) out' hs"
      "stands_for e k n"
    by (auto simp: list_all2_append1 list_all2_Cons1)
  have k: "k = collapse_key event" using True out gs(3) by (simp add: stands_for_def)
  have "stands_for (obj_set ''_repeatCount'' (Num (num_add (repeat_count e) (Fin 1))) e) k (Suc n)"
    using gs(3) by (auto simp: stands_for_def obj_set_def repeat_count_def jor_def)
  with True out gs k show ?thesis
    by (intro exI [of _ "hs @ [(k, Suc n)]"])
       (auto simp: collapse_event_def Let_def replicate_append_same intro!: list_all2_appendI)
qed

lemma collapse_groups:
  "\<exists>gs. list_all2 (\<lambda>e (k, n). stands_for e k n) (foldl collapse_event [] trace) gs
    \<and> concat (map (\<lambda>(k, n). replicate n k) gs) = map collapse_key trace \<and> distinct_adj (map fst gs)"
proof (induction trace rule: rev_induct)
  case Nil
  show ?case by (intro exI [of _ "[]"]) simp
next
  case (snoc e trace)
  then obtain gs where gs: "list_all2 (\<lambda>e (k, n). stands_for e k n) (foldl collapse_event [] trace) gs"
      "concat (map (\<lambda>(k, n). replicate n k) gs) = map collapse_key trace" "distinct_adj (map fst gs)"
    by blast
  from collapse_snoc [OF gs(1), of e] obtain gs' where gs':
    "list_all2 (\<lambda>e (k, n). stands_for e k n) (foldl collapse_event [] (trace @ [e])) gs'"
    "concat (map (\<lambda>(k, n). replicate n k) gs') = map collapse_key (trace @ [e])"
    "map fst gs' = (if gs \<noteq> [] \<and> fst (last gs) = collapse_key e then map fst gs else map fst gs @ [collapse_key e])"
    using gs(2) by auto
  have "distinct_adj (map fst gs')"
    using gs(3) gs'(3) by (auto simp: distinct_adj_append_iff last_map)
  with gs' show ?case by blast
qed

text \<open>
  Collapsing repeated diagnostics loses no event: writing each entry of the collapsed list as often as
  its counter says gives the keys of the original events, in order; two neighbouring entries never
  have the same key, so nothing is left to collapse.
\<close>

lemma collapsed_diagnostics_expand:
  assumes "\<forall>e \<in> set trace. \<not> nullish e"
  shows "\<exists>out gs. collapseRoutingDiagnostics trace = Some out
    \<and> list_all2 (\<lambda>e (k, n). stands_for e k n) out gs
    \<and> concat (map (\<lambda>(k, n). replicate n k) gs) = map collapse_key trace \<and> distinct_adj (map fst gs)"
  using assms collapse_groups [of trace] by (auto simp: collapseRoutingDiagnostics_def)

section \<open>Counters above the request table\<close>

lemma vital_success_iff:
  "vital_success r \<longleftrightarrow> request_ok r
     \<or> get r ''status'' \<noteq> Str ''success'' \<and> num_le (num_or_zero (get r ''status_code'')) (Fin 0)"
  by (cases "num_or_zero (get r ''status_code'')")
     (auto simp: vital_success_def request_ok_def Let_def num_le_def num_eq_def)

lemma ok_disjoint:
  "request_ok r \<Longrightarrow> \<not> (get r ''status'' \<noteq> Str ''success'' \<and> num_le (num_or_zero (get r ''status_code'')) (Fin 0))"
  by (cases "num_or_zero (get r ''status_code'')")
     (auto simp: request_ok_def Let_def num_le_def num_eq_def)

lemma filter_disjoint_or:
  "(\<And>x. P x \<Longrightarrow> \<not> Q x) \<Longrightarrow> length (filter (\<lambda>x. P x \<or> Q x) xs) = length (filter P xs) + length (filter Q xs)"
  by (induction xs) auto

text \<open>
  The "success" and "failed" counters add up to the rows shown, and "success" counts the rows whose
  badge says success plus every failed row that has no positive status code (a request that died before
  an upstream answered): such a row is red in the table and counted as a success above it.
\<close>

lemma success_counter:
  "rv_success (request_vitals rows) = length (filter request_ok rows)
       + length (filter (\<lambda>r. get r ''status'' \<noteq> Str ''success'' \<and> num_le (num_or_zero (get r ''status_code'')) (Fin 0)) rows)
   \<and> rv_success (request_vitals rows) + rv_failed (request_vitals rows) = length rows
   \<and> rv_success (request_vitals [Obj [(''status'', Str ''failed'')]]) = 1
   \<and> requestTone (Obj [(''status'', Str ''failed'')]) = ''danger''"
proof -
  have "filter vital_success rows = filter (\<lambda>r. request_ok r
      \<or> get r ''status'' \<noteq> Str ''success'' \<and> num_le (num_or_zero (get r ''status_code'')) (Fin 0)) rows"
    by (rule filter_cong [OF refl vital_success_iff])
  then have "length (filter vital_success rows) = length (filter request_ok rows)
       + length (filter (\<lambda>r. get r ''status'' \<noteq> Str ''success'' \<and> num_le (num_or_zero (get r ''status_code'')) (Fin 0)) rows)"
    by (simp only: filter_disjoint_or [OF ok_disjoint])
  moreover have "rv_success (request_vitals [Obj [(''status'', Str ''failed'')]]) = 1"
      "requestTone (Obj [(''status'', Str ''failed'')]) = ''danger''"
    by code_simp+
  moreover have "rv_success (request_vitals rows) = length (filter vital_success rows)"
      "rv_success (request_vitals rows) + rv_failed (request_vitals rows) = length rows"
    by (simp_all add: request_vitals_def Let_def le_add_diff_inverse length_filter_le)
  ultimately show ?thesis by (simp only: simp_thms)
qed

end
