(* ===== verification/Spec2Isabelle.thy ===== *)
theory Spec2Isabelle
  imports OperationGuard OptimisticConfig Pagination KeyModels ProviderModelFacts ProviderSort RoutingTrace
    BrandIcons MutationUi ApiClient PlaygroundFacts MarkdownFacts RefreshAllFacts ClientKeys ConfigFormsFacts SettingsOps UsageFacts TrafficFacts UsageDrawer
    ProviderStateFacts ProviderCatalogFacts ModelEditorsFacts ProviderDrawerFacts
    PolicyView DrawerNav OverviewFacts ConfigPage AddProvider ConsoleNav ConsoleActions
    Tooltip ModelSummary RequestsPage AliasForm HotPriority RouteEditor ConsoleState DisplayFacts
    ConfigRefreshFacts RuntimeRefreshFacts
begin

text \<open>
  The admin console of the LiteLLM proxy (\<open>dashboard_src/src\<close>): a verification library of the program
  that runs in the operator's browser. The proxy itself (the Python modules) is the server it talks to;
  its answers are values of the model, never definitions.

  The program and its parts. \<open>app.js\<close> is one module with one state object. Its pure helpers live in
  small \<open>.mjs\<close> files that it imports, and those are modelled one theory each; of \<open>app.js\<close> the parts that
  decide something are modelled: escaping and formatting, the provider views and model switches, the
  request table and the routing trace, toasts and screens, and above all how data is refreshed while the
  operator edits it. Each definition has the name of the function it translates.

  Foundations.
  \<^item> \<open>JsPrelude\<close>: JavaScript values (\<open>jsval\<close>), numbers (\<open>jsnum\<close>: exact rationals, the infinities, NaN), the
    coercions, \<open>||\<close>, property reads, spread, \<open>split\<close>, \<open>join\<close>, \<open>trim\<close>, the stable sort. \<open>JsFacts\<close> and \<open>JsNumText\<close>:
    the facts about them, with the contract of the sort as a locale and the round trip of printed integers.
  \<^item> \<open>Contracts\<close>: the interfaces the components share, as locales: an exclusive guard (whoever holds a
    resource excludes others until it finishes) and a monotone acceptor (while the payloads fit, an invariant is kept and
    what is accepted never goes back).
    They are interpreted in \<open>OperationGuard\<close>, \<open>OptimisticConfig\<close> and \<open>ProviderSort\<close> on the code's definitions.

  Components, with the file they translate.
  \<^item> \<open>OperationGuard\<close> (\<open>operation-guard.mjs\<close>, \<open>runExclusiveUiAction\<close>): the registry of actions in flight and the
    coordinator that tells whether a refresh may replace the configuration.
  \<^item> \<open>OptimisticConfig\<close> (\<open>optimistic-config.mjs\<close>): confirmed configuration, pending edits, confirmation,
    rejection; replies of an older process or revision are ignored.
  \<^item> \<open>ConfigRefresh\<close>, \<open>ConfigRefreshFacts\<close> (\<open>app.js\<close>: \<open>runOptimisticConfigAction\<close>, \<open>applyMutationResult\<close>,
    \<open>mergeRefreshArgs\<close>, \<open>scheduleBackgroundRefresh\<close>, \<open>refreshStaticAdminData\<close>): a configuration action from click
    to reply, and the refresh of the static data. An asynchronous function is cut at its \<open>await\<close> into a start
    and a finish; anything may happen to the state between them. The step relation \<open>sm_step\<close> interleaves
    requests, the replies of any number of flights, trailing runs (on a hidden page too) and other code.
  \<^item> \<open>RuntimeRefresh\<close>, \<open>RuntimeRefreshFacts\<close> (\<open>app.js\<close>: \<open>runtimeSignature\<close>, \<open>refreshRuntimeData\<close>, \<open>refreshAll\<close>'s guard,
    the capability follow-up): the five-second poll, cut at its two awaits.
  \<^item> \<open>RefreshAll\<close>, \<open>RefreshAllFacts\<close> (\<open>app.js\<close>: \<open>refreshAll\<close>, \<open>refreshCapabilitiesOnly\<close>,
    \<open>refreshProviderConfigView\<close>): the refresh of everything, cut at its two awaits, with its failure path. Its step
    relation \<open>data_step\<close> joins the refreshes, the configuration actions and their replies.
    \<open>Pricing\<close>, \<open>PricingFacts\<close>: the model prices it fetches in batches, their lookup, the catalogue of the settings.
  \<^item> \<open>ConfigForms\<close>, \<open>ConfigFormsFacts\<close> (\<open>app.js\<close>: \<open>runConfigMutation\<close>, \<open>runFormatMutation\<close>, \<open>bindConfigProviderForms\<close>): saving a
    form, cut at its await, with what it captures and restores, and the request and optimistic edit of every form.
    \<open>SettingsOps\<close>: the operation cards, the health monitor form and its runtime panel.
    \<open>ClientKeys\<close>: the key list of the settings, its drawer and what a submit sends.
  \<^item> \<open>ApiClient\<close> (\<open>api.js\<close>): the admin requests and the conditional cache; \<open>api_step\<close> interleaves requests,
    replies and changes on the server. \<open>MutationUi\<close> (\<open>mutation-ui.mjs\<close>): the controls disabled while a mutation runs.
  \<^item> \<open>Playground\<close>, \<open>PlaygroundFacts\<close> (\<open>app.js\<close>, the functions \<open>pg*\<close>): requests in three formats, replies and streams,
    sending and stopping, the messages as markup. The messages are objects in a heap, because a running
    request writes to the one it was started with. A stream is a list of byte chunks, each with its time and the format the
    form has when it arrives; \<open>decode_bytes\<close> is the UTF-8 decoder of the browser with its state between chunks. \<open>JsonParse\<close> is \<open>JSON.parse\<close>. \<open>Markdown\<close>, \<open>MarkdownFacts\<close>: the
    renderer of the replies, its regular expressions as matchers, and what it lets through.
  \<^item> \<open>UrlParams\<close>, \<open>UsageStatistics\<close>, \<open>UsageFacts\<close> (\<open>app.js\<close>: \<open>loadUsageStatistics\<close>, \<open>loadModelUsage\<close>,
    \<open>bindUsageStatisticsControls\<close>): the statistics view, one load cut at its await, with its sequence number, its busy parts,
    its controls and the query it sends. \<open>UsageView\<close>, \<open>ModelUsageView\<close>, \<open>UsageDrawer\<close>: the panels, the model table
    and the model drawer as markup.
  \<^item> \<open>TrafficChart\<close>, \<open>TrafficFacts\<close>, \<open>TrafficView\<close> (\<open>app.js\<close>: \<open>renderTrafficChart\<close>, \<open>trafficDisplayBuckets\<close>,
    \<open>renderTrafficComboChart\<close>, \<open>renderUsageChart\<close>): the buckets of the overview chart, the search for the nearest one, the
    buckets drawn, and the chart as markup.
  \<^item> \<open>Shell\<close> (\<open>app.js\<close>): dirty forms, the toast stack as a step relation, the login flow.
  \<^item> \<open>Pagination\<close>, \<open>KeyModels\<close>, \<open>ProviderModels\<close>, \<open>ProviderModelFacts\<close>, \<open>ProviderSort\<close>, \<open>RoutingTrace\<close>
    (\<open>panel-pagination.mjs\<close>, \<open>request-pagination.mjs\<close>, \<open>key-models.mjs\<close>, \<open>provider-key-view.mjs\<close>,
    \<open>provider-model-config.mjs\<close>, \<open>provider-sort.mjs\<close>, \<open>model-capability-order.mjs\<close>, \<open>traffic-chart-scale.mjs\<close>,
    \<open>provider-activity-window.mjs\<close>, \<open>routing-trace-view.mjs\<close>): every pure function of these modules.
  \<^item> \<open>ProviderState\<close>, \<open>ProviderStateFacts\<close> (\<open>app.js\<close>): provider runtime state, filters, the memo of model items,
    route provider lists, the per-model switches with their drafts. \<open>ProviderCatalog\<close>, \<open>ProviderCatalogFacts\<close>: the model
    catalogue of a provider, what its rows and buttons do, and the edits that save switches, mappings and lists.
    \<open>ModelEditors\<close>, \<open>ModelEditorsFacts\<close>: the editors of variant groups, static declarations and mappings as state
    machines, the step relation \<open>mapping_step\<close> with its two-stage guard, and the probe.
  \<^item> \<open>ProviderModelsView\<close>, \<open>ProviderCards\<close>, \<open>ProviderDrawer\<close>, \<open>ProviderDrawerFacts\<close> (\<open>app.js\<close>: \<open>renderProvidersTable\<close>,
    \<open>renderProviderDrawer\<close>, \<open>loadProviderActivityEvents\<close>): the provider list and the five tabs of the drawer as markup,
    when the drawer is drawn again, and the lazy load of the activity events, cut at its await.
  \<^item> \<open>Overview\<close>, \<open>OverviewFacts\<close> (\<open>app.js\<close>: \<open>renderMetrics\<close>, \<open>renderOverviewVisuals\<close>, \<open>renderProviderHealth\<close>,
    \<open>renderHealthOverview\<close>, \<open>renderRecentFailures\<close>, \<open>handleProxyTestRequest\<close>): the overview page and the proxy test.
  \<^item> \<open>ConfigPage\<close> (\<open>app.js\<close>: \<open>renderConfig\<close>, \<open>modelRouteCard\<close>, \<open>auditTrailItem\<close>,
    \<open>bindPanelPagination\<close>, \<open>renderModelCapabilities\<close>): the configuration page, which panels a drawing passes over and
    what counts as drawn, the pagers, and the model capabilities.
  \<^item> \<open>AddProvider\<close> (\<open>app.js\<close>: \<open>openConfirmDialog\<close>, \<open>openFormModal\<close>,
    \<open>openAddProviderModal\<close>): the dialogs, the presets and form of a new provider, and what it reads out of pasted text.
    \<open>ConsoleNav\<close> (\<open>setView\<close>, \<open>renderAll\<close>, \<open>init\<close>): views, tabs and the start of the
    program. \<open>ConsoleActions\<close> (\<open>installEvents\<close>): the request filters, deletions, the overlay.
    \<open>JsonRoundTrip\<close>: a printed value is read back, for the values the page prints.
  \<^item> \<open>Tooltip\<close> (\<open>app.js\<close>: \<open>installTooltip\<close>, \<open>updateDOM\<close>): the tooltip as the step relation \<open>tip_run\<close> over
    a page the browser computes, which is re-rendered or written to directly, its placement, and the cache of written markup. \<open>ModelSummary\<close>
    (\<open>openModelDrawer\<close>): the benchmark summary of a model, cut at its await. \<open>RequestsPage\<close>
    (\<open>renderRequestsTable\<close>): the page of requests and the listeners of its rows.
  \<^item> \<open>AliasForm\<close>, \<open>HotPriority\<close> (\<open>app.js\<close>: \<open>bindConfigProviderForms\<close>): the alias
    form of a provider, and the change of its priority over the statuses loaded meanwhile. \<open>RouteEditor\<close>
    (\<open>installEvents\<close>): the clicks on model routes. \<open>ConsoleState\<close> (\<open>state.js\<close>, \<open>constants.js\<close>,
    \<open>traffic-mode.mjs\<close>): the state the console starts with and the traffic mode.
  \<^item> \<open>PolicyView\<close> (\<open>app.js\<close>: \<open>renderPolicy\<close>, \<open>bindPolicyControlForms\<close>): the policy page, its forms and
    what it shows until their reply. \<open>RequestDetail\<close>, \<open>DrawerNav\<close> (\<open>renderDrawer\<close>, \<open>openRequestDetail\<close>):
    the detail of a request as markup, and the drawers with the ways between them as the step relation \<open>nav_step\<close>.
  \<^item> \<open>Html\<close>, \<open>I18n\<close>, \<open>Format\<close>, \<open>TextTone\<close>, \<open>BrandIcons\<close>, \<open>RequestRows\<close>, \<open>TraceView\<close> (\<open>app.js\<close>, \<open>i18n.js\<close>,
    \<open>model-brand-icons.js\<close>): escaping, messages, numbers, highlighted text, brand icons, the request table and
    the routing trace as markup. \<open>DisplayFacts\<close> holds what they keep of their input.

  What the lemmas show. Guards: \<open>*_inv\<close> lemmas give one preservation lemma per operation, and the
  interpretations turn them into mutual exclusion and monotonicity. Refresh: \<open>session_*\<close>, \<open>config_*\<close> and
  \<open>settled_view_*\<close> rewrite a projection of the state through each operation, so a frame property is one
  \<open>simp\<close>. Text: \<open>markup_*\<close>, \<open>spans_*\<close>, \<open>replace_all_*\<close>, \<open>js_split_*\<close> carry the round trips. This theory joins
  an action's click to its rollback, over everything that may happen between.

  Bounds and fuel. Only the HTML reader of the specification side takes fuel, the length of its input,
  which is enough because each step consumes a character. \<open>JSON.parse\<close> recurses on the length of the rest,
  and each recursive call is guarded by that length; \<open>guard_never_rejects\<close> shows that the guard is always
  true. The trace lookup of the playground tries three times, as in the code. The search for the nearest bucket
  is a \<open>while_option\<close> loop; \<open>nearest_search_ends\<close> shows that it ends on every chart. Number printing recurses on \<open>n div 10\<close> with a
  measure; fractions are printed to a fixed number of digits. All other recursion is structural.

  Idealisations. Numbers are exact (no rounding of doubles, no signed zero), strings are Latin-1 code
  units (fixed text of the page outside Latin-1, a long dash or an arrow, is written as its UTF-8 bytes; how a decoded code point
  outside it is represented is an argument of the stream decoder), objects have no prototype chain, \<open>localeCompare\<close> and \<open>toLocaleString\<close> of dates are arguments, an
  element of the page is what the function reads of it. Callbacks, rendering and connection lights are
  events of a log or are left out where no state depends on them; the cache theorem takes entity tags to
  be strong (the server gives different answers different tags); the text of an error notice is
  represented by the error it quotes.

  Not modelled: the Python server, whose answers are arguments; \<open>morphdom\<close>, the layout of the page and the
  other services of the browser, which are arguments too; and of \<open>app.js\<close> the registration of listeners, focus,
  scrolling, class toggles, the pointer inspection of the charts and the download links, which are calls into the
  browser without a value a theorem could be about, and code that nothing calls (\<open>providerMiniChart\<close>,
  \<open>providerConfigCard\<close>, \<open>isUserReadingTooltip\<close>). The message dictionary of \<open>i18n.js\<close> is an argument of the translator.
  The built bundle repeats the sources; style sheets and build files carry no behaviour of the program.
\<close>

section \<open>From click to rollback\<close>

lemma start_action_Some:
  assumes "startOptimisticConfigAction key apply drawer s = (s1, Some h)"
  obtains m where "snd (store_begin key apply (rf_store s)) = Some m" "ah_mutation h = mut_id m"
    "rf_store s1 = fst (store_begin key apply (rf_store s))" "ah_scope h = nextScope (coord_of s)"
    "coord_of s1 = fst (beginMutation (coord_of s))" "ah_busy h = rf_nextBusy s"
    "rf_busy s1 = insert (rf_nextBusy s) (rf_busy s)"
  using assms that
  by (auto simp: startOptimisticConfigAction_def beginOptimisticConfigMutation_def set_coord_def begin_busy_def
      publishEffectiveConfig_def force_def log_event_def beginMutation_def Let_def
      split: prod.splits option.splits if_splits)

text \<open>
  C2. A failed configuration action leaves no trace. Between the click and the error anything may happen to the
  rest of the state, and to the store of the configuration any number of polls, other edits, confirmations and
  rejections (logging out, polls without a revision and a second end of the same edit excepted). If then the
  request throws, the store is what the same events would have made of it had the edit never been begun (one
  number of an edit is used up, and edits of the same resource were refused meanwhile), the page shows exactly
  its configuration, the scope of the action is closed and no other, and its busy controls are released and no others.
\<close>

theorem failed_action_restores:
  assumes "store_inv (rf_store s)" and "startOptimisticConfigAction key apply drawer s = (s1, Some h)"
    and "rf_store s' = fold store_step es (rf_store s1)" and "\<forall>e \<in> set es. meanwhile (ah_mutation h) e"
  shows "let (s2, ok) = finishOptimisticConfigAction h (Inl err) drawer hasOnError s';
             unedited = without_edit (str_or_empty key) es (rf_store s) in
    \<not> ok \<and> rf_store s2 = unedited \<and> d_config s2 = jor (store_config unedited) (Obj [])
    \<and> scopes (coord_of s2) = scopes (coord_of s') - {ah_scope h}
    \<and> mutationDepth (coord_of s2) = (if ah_scope h \<in> scopes (coord_of s') then max 0 (mutationDepth (coord_of s') - 1)
                                    else mutationDepth (coord_of s'))
    \<and> rf_busy s2 = rf_busy s' - {ah_busy h}"
proof -
  obtain m where m: "snd (store_begin key apply (rf_store s)) = Some m" "ah_mutation h = mut_id m"
    "rf_store s1 = fst (store_begin key apply (rf_store s))"
    using start_action_Some [OF assms(2)] by blast
  have "store_reject (ah_mutation h) (rf_store s') = without_edit (str_or_empty key) es (rf_store s)"
    using reject_leaves_no_trace [OF assms(1) m(1)] assms(3,4) store_begin_key [OF m(1)] by (simp add: m)
  then show ?thesis
    using settled_view_finish [of h "log_event (if hasOnError then Callback ''onError'' else Notice err ''bad'')
        (rejectOptimisticConfigMutation (ah_mutation h) drawer s')"]
    by (simp add: finishOptimisticConfigAction_def settled_view_def reject_log_coord finish_scope_view)
qed

definition polled :: jsval where
  "polled = Obj [(''revision'', jnum 9), (''proxy'', Str ''p'')]"

theorem failed_action_restores_witness:
  "let s1 = fst (startOptimisticConfigAction (Str ''routes'') (\<lambda>_. Obj [(''model_routes'', Obj [])]) True sample_state);
       s' = s1\<lparr>rf_store := fold store_step [Accept polled, Begin (Str ''a'') (obj_set ''x'' (Bool True)), Begin (Str ''routes'') id] (rf_store s1)\<rparr>
   in d_config (fst (finishOptimisticConfigAction \<lparr>ah_scope = 0, ah_mutation = 1, ah_busy = 0\<rparr> (Inl ''HTTP 500'') True False s'))
      = Obj [(''revision'', jnum 9), (''proxy'', Str ''p''), (''x'', Bool True)]"
proof -
  let ?es = "[Accept polled, Begin (Str ''a'') (obj_set ''x'' (Bool True)), Begin (Str ''routes'') id]"
  define s1 where "s1 = fst (startOptimisticConfigAction (Str ''routes'') (\<lambda>_. Obj [(''model_routes'', Obj [])]) True sample_state)"
  define s' where "s' = s1\<lparr>rf_store := fold store_step ?es (rf_store s1)\<rparr>"
  define h where "h = \<lparr>ah_scope = 0, ah_mutation = 1, ah_busy = 0\<rparr>"
  have inv: "store_inv (rf_store sample_state)" by (simp add: sample_state_def store_new_inv)
  have start: "startOptimisticConfigAction (Str ''routes'') (\<lambda>_. Obj [(''model_routes'', Obj [])]) True sample_state = (s1, Some h)"
    by (simp add: s1_def h_def startOptimisticConfigAction_def beginOptimisticConfigMutation_def set_coord_def begin_busy_def
        publishEffectiveConfig_def force_def log_event_def beginMutation_def Let_def sample_state_def store_begin_def
        store_new_def coord_init_def markInteraction_def)
  have run: "rf_store s' = fold store_step ?es (rf_store s1)" by (simp add: s'_def)
  have "\<forall>e \<in> set ?es. meanwhile (ah_mutation h) e" by (simp add: configMarker_def polled_def)
  from failed_action_restores [OF inv start run this, of "''HTTP 500''" False]
  have "d_config (fst (finishOptimisticConfigAction h (Inl ''HTTP 500'') True False s'))
      = jor (store_config (without_edit ''routes'' ?es (rf_store sample_state))) (Obj [])"
    by (simp add: split_beta Let_def)
  also have "\<dots> = Obj [(''revision'', jnum 9), (''proxy'', Str ''p''), (''x'', Bool True)]"
    by code_simp
  finally show ?thesis unfolding Let_def s'_def s1_def h_def .
qed

end
